(* ===== verification/Prelude.thy ===== *)
theory Prelude
  imports Main "HOL-Library.Sublist" "HOL-Library.List_Lexorder" "HOL-Library.Char_ord"
begin

text \<open>
  Shared vocabulary of the development: Python exceptions as values, the result type of code
  that may raise, and the loop combinators the component theories use.

  A Python function that may raise returns \<open>'a res\<close>: \<open>Inl\<close> carries the exception, \<open>Inr\<close> the
  returned value. Sequencing is written with the continuation of the rest of the function:
  \<open>require c e k\<close> is the source's \<open>require(c, e); k\<close>, \<open>bindE m f\<close> is
  \<open>x = m; f(x)\<close>. The collection \<open>res_simps\<close> turns "this code returned a value" into
  the conjunction of the conditions on the path to the return.
\<close>

named_theorems res_simps
named_theorems text_simps

subsection \<open>Exceptions and results\<close>

datatype exc =
    SystemExit string
  | KeyError string
  | IndexError
  | TypeError
  | AttributeError
  | ValueError string
  | FileNotFoundError string
  | JSONDecodeError string
  | RuntimeError string
  | UnicodeDecodeError
  | CalledProcessError string
  | BadFile string
  | OSError int
  | TimeoutExpired string string

type_synonym 'a res = "exc + 'a"

abbreviation raise :: "exc \<Rightarrow> 'a res" where
  "raise e \<equiv> Inl e"

abbreviation ret :: "'a \<Rightarrow> 'a res" where
  "ret x \<equiv> Inr x"

definition require :: "bool \<Rightarrow> exc \<Rightarrow> 'a res \<Rightarrow> 'a res" where
  "require c e k = (if c then k else Inl e)"

definition bindE :: "'a res \<Rightarrow> ('a \<Rightarrow> 'b res) \<Rightarrow> 'b res" where
  "bindE m f = (case m of Inl e \<Rightarrow> Inl e | Inr x \<Rightarrow> f x)"

text \<open>Sequencing of a check that returns nothing, before the rest.\<close>

definition thenE :: "unit res \<Rightarrow> 'a res \<Rightarrow> 'a res" where
  "thenE m k = bindE m (\<lambda>_. k)"

definition is_ok :: "'a res \<Rightarrow> bool" where
  "is_ok m = (case m of Inl _ \<Rightarrow> False | Inr _ \<Rightarrow> True)"

lemma require_Inr [res_simps]: "require c e k = Inr x \<longleftrightarrow> c \<and> k = Inr x"
  by (simp add: require_def)

lemma require_True [simp]: "require True e k = k"
  by (simp add: require_def)

lemma require_False [simp]: "require False e k = Inl e"
  by (simp add: require_def)

lemma bindE_Inr [res_simps]: "bindE m f = Inr y \<longleftrightarrow> (\<exists>x. m = Inr x \<and> f x = Inr y)"
  by (simp add: bindE_def split: sum.splits)

lemma bindE_simps [simp]:
  "bindE (Inl e) f = Inl e"
  "bindE (Inr x) f = f x"
  by (simp_all add: bindE_def)

lemma thenE_Inr [res_simps]: "thenE m k = Inr y \<longleftrightarrow> m = Inr () \<and> k = Inr y"
  by (auto simp: thenE_def res_simps)

lemma thenE_simps [simp]:
  "thenE (Inl e) k = Inl e"
  "thenE (Inr ()) k = k"
  by (simp_all add: thenE_def)

lemma is_ok_simps [simp]:
  "is_ok (Inl e) = False"
  "is_ok (Inr x) = True"
  by (simp_all add: is_ok_def)

lemma is_ok_iff: "is_ok m \<longleftrightarrow> (\<exists>x. m = Inr x)"
  by (cases m) simp_all

lemma is_ok_unit: "is_ok m \<longleftrightarrow> m = Inr ()" for m :: "unit res"
  by (cases m) simp_all

lemma is_ok_require [res_simps]: "is_ok (require c e k) \<longleftrightarrow> c \<and> is_ok k"
  by (simp add: require_def)

lemma is_ok_bindE [res_simps]: "is_ok (bindE m f) \<longleftrightarrow> (\<exists>x. m = Inr x \<and> is_ok (f x))"
  by (cases m) simp_all

lemma is_ok_thenE [res_simps]: "is_ok (thenE m k) \<longleftrightarrow> m = Inr () \<and> is_ok k"
  by (cases m) simp_all

lemma bindE_cong [fundef_cong]:
  "m = m' \<Longrightarrow> (\<And>x. m' = Inr x \<Longrightarrow> f x = f' x) \<Longrightarrow> bindE m f = bindE m' f'"
  by (cases m') simp_all

lemma thenE_cong [fundef_cong]:
  "m = m' \<Longrightarrow> (m' = Inr () \<Longrightarrow> k = k') \<Longrightarrow> thenE m k = thenE m' k'"
  by (cases m') simp_all

lemma require_cong [fundef_cong]:
  "c = c' \<Longrightarrow> e = e' \<Longrightarrow> (c' \<Longrightarrow> k = k') \<Longrightarrow> require c e k = require c' e' k'"
  by (simp add: require_def)

subsection \<open>Loops that may raise\<close>

text \<open>\<open>for x in xs: f(x)\<close>, stopping at the first exception.\<close>

primrec forE :: "('a \<Rightarrow> unit res) \<Rightarrow> 'a list \<Rightarrow> unit res" where
  "forE f [] = Inr ()"
| "forE f (x # xs) = thenE (f x) (forE f xs)"

text \<open>The same loop with accumulated state.\<close>

primrec foldE :: "('s \<Rightarrow> 'a \<Rightarrow> 's res) \<Rightarrow> 's \<Rightarrow> 'a list \<Rightarrow> 's res" where
  "foldE f s [] = Inr s"
| "foldE f s (x # xs) = bindE (f s x) (\<lambda>s'. foldE f s' xs)"

text \<open>A list comprehension whose element expression may raise.\<close>

primrec mapE :: "('a \<Rightarrow> 'b res) \<Rightarrow> 'a list \<Rightarrow> 'b list res" where
  "mapE f [] = Inr []"
| "mapE f (x # xs) = bindE (f x) (\<lambda>y. bindE (mapE f xs) (\<lambda>ys. Inr (y # ys)))"

text \<open>\<open>enumerate(xs)\<close>.\<close>

definition enum :: "'a list \<Rightarrow> (nat \<times> 'a) list" where
  "enum xs = zip [0..<length xs] xs"

lemma forE_Inr [res_simps]: "forE f xs = Inr () \<longleftrightarrow> (\<forall>x\<in>set xs. f x = Inr ())"
  by (induction xs) (auto simp: res_simps)

lemma is_ok_forE [res_simps]: "is_ok (forE f xs) \<longleftrightarrow> (\<forall>x\<in>set xs. f x = Inr ())"
  by (simp add: is_ok_unit res_simps)

lemma forE_Inl: "forE f xs = Inl e \<Longrightarrow> \<exists>x\<in>set xs. f x = Inl e"
proof (induction xs)
  case (Cons x xs)
  then show ?case by (cases "f x") auto
qed simp

lemma forE_append: "forE f (xs @ ys) = thenE (forE f xs) (forE f ys)"
  by (induction xs) (simp_all add: thenE_def bindE_def split: sum.split)

lemma forE_cong [fundef_cong]:
  "xs = ys \<Longrightarrow> (\<And>x. x \<in> set ys \<Longrightarrow> f x = g x) \<Longrightarrow> forE f xs = forE g ys"
  by (induction ys arbitrary: xs) auto

lemma foldE_append: "foldE f s (xs @ ys) = bindE (foldE f s xs) (\<lambda>s'. foldE f s' ys)"
  by (induction xs arbitrary: s) (simp_all add: bindE_def split: sum.split)

lemma foldE_member: "foldE f s xs = Inr t \<Longrightarrow> x \<in> set xs \<Longrightarrow> \<exists>a b. f a x = Inr b"
  by (induction xs arbitrary: s) (auto simp: bindE_Inr)

lemma foldE_invariant:
  assumes "foldE f s xs = Inr t" and "P s"
    and "\<And>s x s'. P s \<Longrightarrow> x \<in> set xs \<Longrightarrow> f s x = Inr s' \<Longrightarrow> P s'"
  shows "P t"
  using assms
proof (induction xs arbitrary: s)
  case Nil
  then show ?case by simp
next
  case (Cons x xs)
  from Cons.prems(1) obtain s' where s': "f s x = Inr s'" and rest: "foldE f s' xs = Inr t"
    by (auto simp: res_simps)
  have "P s'" by (rule Cons.prems(3) [OF Cons.prems(2) _ s']) simp
  with rest show ?case
    by (rule Cons.IH) (rule Cons.prems(3), simp_all)
qed

lemma mapE_Inr [res_simps]: "mapE f xs = Inr ys \<longleftrightarrow> list_all2 (\<lambda>x y. f x = Inr y) xs ys"
  by (induction xs arbitrary: ys) (auto simp: res_simps list_all2_Cons1)

lemma mapE_concat_Nil: "(\<exists>vs. mapE f xs = Inr vs \<and> concat vs = []) \<longleftrightarrow> (\<forall>x\<in>set xs. f x = Inr [])"
  by (induction xs) (auto simp: bindE_Inr)

lemma set_enum: "set (enum xs) = {(i, xs ! i) |i. i < length xs}"
  by (force simp: enum_def set_zip)

lemma snd_set_enum: "snd ` set (enum xs) = set xs"
proof -
  have "map snd (enum xs) = xs" by (simp add: enum_def)
  then show ?thesis by (metis set_map)
qed

lemma enum_ball: "(\<forall>p\<in>set (enum xs). P (snd p)) \<longleftrightarrow> (\<forall>x\<in>set xs. P x)"
  by (simp flip: snd_set_enum [of xs])

subsection \<open>Lists and maps\<close>

text \<open>Python's \<open>sorted\<close> of a collection of strings, with the order of code points.\<close>

definition py_sorted :: "'a::linorder list \<Rightarrow> 'a list" where
  "py_sorted xs = sort xs"

text \<open>Set difference, kept as a list in the left operand's order (used under \<open>sorted\<close>).\<close>

definition list_minus :: "'a list \<Rightarrow> 'a list \<Rightarrow> 'a list" where
  "list_minus xs ys = filter (\<lambda>x. x \<notin> set ys) (remdups xs)"

lemma list_minus_Nil_iff: "list_minus xs ys = [] \<longleftrightarrow> set xs \<subseteq> set ys"
  by (auto simp: list_minus_def filter_empty_conv)

lemma set_list_minus [simp]: "set (list_minus xs ys) = set xs - set ys"
  by (auto simp: list_minus_def)

lemma py_sorted_Nil_iff [simp]: "py_sorted xs = [] \<longleftrightarrow> xs = []"
  by (metis length_0_conv length_sort py_sorted_def)

lemma set_py_sorted [simp]: "set (py_sorted xs) = set xs"
  by (simp add: py_sorted_def)

lemma sorted_py_sorted [simp]: "sorted (py_sorted xs)"
  by (simp add: py_sorted_def)

end
