(* ===== verification/PyText.thy ===== *)
theory PyText
  imports Prelude
begin

text \<open>
  The Python string operations the tools use, on \<open>string\<close>. A \<open>char\<close> stands for a code point
  below 256; \<open>lower\<close>, \<open>isspace\<close>, \<open>isdigit\<close> and \<open>isalnum\<close> are Python's on that range.
\<close>

subsection \<open>Character classes\<close>

definition chr_lower :: "char \<Rightarrow> char" where
  "chr_lower c =
     (let n = of_char c :: nat
      in if (65 \<le> n \<and> n \<le> 90) \<or> (192 \<le> n \<and> n \<le> 222 \<and> n \<noteq> 215)
         then char_of (n + 32) else c)"

definition chr_is_space :: "char \<Rightarrow> bool" where
  "chr_is_space c =
     (let n = of_char c :: nat
      in (9 \<le> n \<and> n \<le> 13) \<or> (28 \<le> n \<and> n \<le> 32) \<or> n = 133 \<or> n = 160)"

definition chr_is_ascii_digit :: "char \<Rightarrow> bool" where
  "chr_is_ascii_digit c = (let n = of_char c :: nat in 48 \<le> n \<and> n \<le> 57)"

text \<open>\<open>str.isdigit\<close> also accepts the superscript digits.\<close>

definition chr_is_digit :: "char \<Rightarrow> bool" where
  "chr_is_digit c = (chr_is_ascii_digit c \<or> (of_char c :: nat) \<in> {178, 179, 185})"

definition chr_is_ascii_alpha :: "char \<Rightarrow> bool" where
  "chr_is_ascii_alpha c =
     (let n = of_char c :: nat in (65 \<le> n \<and> n \<le> 90) \<or> (97 \<le> n \<and> n \<le> 122))"

definition chr_is_alpha :: "char \<Rightarrow> bool" where
  "chr_is_alpha c =
     (let n = of_char c :: nat
      in chr_is_ascii_alpha c \<or> n \<in> {170, 181, 186} \<or>
         (192 \<le> n \<and> n \<noteq> 215 \<and> n \<noteq> 247))"

definition chr_is_alnum :: "char \<Rightarrow> bool" where
  "chr_is_alnum c =
     (chr_is_alpha c \<or> chr_is_digit c \<or> (of_char c :: nat) \<in> {188, 189, 190})"

text \<open>A word character of a regular expression (\<open>\w\<close>).\<close>

definition chr_is_word :: "char \<Rightarrow> bool" where
  "chr_is_word c = (chr_is_alnum c \<or> c = CHR ''_'')"

definition chr_is_newline :: "char \<Rightarrow> bool" where
  "chr_is_newline c =
     (let n = of_char c :: nat in n = 10 \<or> n = 11 \<or> n = 12 \<or> n = 13 \<or> n = 28 \<or> n = 29 \<or> n = 30 \<or> n = 133)"

abbreviation newline :: char where
  "newline \<equiv> CHR 0x0A"

subsection \<open>String methods\<close>

definition str_lower :: "string \<Rightarrow> string" where
  "str_lower s = map chr_lower s"

definition str_lstrip :: "string \<Rightarrow> string" where
  "str_lstrip s = dropWhile chr_is_space s"

definition str_strip :: "string \<Rightarrow> string" where
  "str_strip s = rev (dropWhile chr_is_space (rev (str_lstrip s)))"

definition str_strip_chars :: "char list \<Rightarrow> string \<Rightarrow> string" where
  "str_strip_chars cs s =
     rev (dropWhile (\<lambda>c. c \<in> set cs) (rev (dropWhile (\<lambda>c. c \<in> set cs) s)))"

text \<open>The receiver comes first, as in \<open>s.startswith(p)\<close>; \<open>contains s t\<close> is \<open>t in s\<close>.\<close>

definition starts_with :: "string \<Rightarrow> string \<Rightarrow> bool" where
  "starts_with s p = prefix p s"

definition ends_with :: "string \<Rightarrow> string \<Rightarrow> bool" where
  "ends_with s p = suffix p s"

definition contains :: "'a list \<Rightarrow> 'a list \<Rightarrow> bool" where
  "contains s t = sublist t s"

definition str_isdigit :: "string \<Rightarrow> bool" where
  "str_isdigit s = (s \<noteq> [] \<and> list_all chr_is_digit s)"

definition str_isalnum :: "string \<Rightarrow> bool" where
  "str_isalnum s = (s \<noteq> [] \<and> list_all chr_is_alnum s)"

text \<open>\<open>s.removesuffix(p)\<close>.\<close>

definition remove_suffix :: "string \<Rightarrow> string \<Rightarrow> string" where
  "remove_suffix s p = (if p \<noteq> [] \<and> suffix p s then take (length s - length p) s else s)"

text \<open>
  \<open>s.partition(sep)\<close>: the text before and after the first occurrence of \<open>sep\<close>, or \<open>None\<close>
  where there is none.
\<close>

fun str_partition :: "'a list \<Rightarrow> 'a list \<Rightarrow> ('a list \<times> 'a list) option" where
  "str_partition sep [] = (if sep = [] then Some ([], []) else None)"
| "str_partition sep (c # cs) =
     (if prefix sep (c # cs) then Some ([], drop (length sep) (c # cs))
      else map_option (\<lambda>(a, b). (c # a, b)) (str_partition sep cs))"

lemma str_partition_Some:
  "str_partition sep s = Some (a, b) \<Longrightarrow> s = a @ sep @ b"
  by (induction sep s arbitrary: a rule: str_partition.induct)
     (auto split: if_splits elim!: prefixE)

lemma str_partition_None_iff: "str_partition sep s = None \<longleftrightarrow> \<not> sublist sep s"
  by (induction sep s rule: str_partition.induct) (auto simp: sublist_Cons_right)

lemma str_partition_length:
  "str_partition sep s = Some (a, b) \<Longrightarrow> length s = length a + length sep + length b"
  by (drule str_partition_Some) simp

text \<open>\<open>s.split(sep)\<close> for a non-empty separator.\<close>

function str_split :: "'a list \<Rightarrow> 'a list \<Rightarrow> 'a list list" where
  "str_split sep s =
     (case str_partition sep s of
        None \<Rightarrow> [s]
      | Some (a, b) \<Rightarrow> if sep = [] then [s] else a # str_split sep b)"
  by pat_completeness auto
termination
  by (relation "measure (\<lambda>(sep, s). length s)") (auto dest!: str_partition_length)

declare str_split.simps [simp del]

lemma str_split_ne [simp]: "str_split sep s \<noteq> []"
  by (subst str_split.simps) (auto split: option.split)

text \<open>\<open>sep.join(parts)\<close>.\<close>

fun str_join :: "'a list \<Rightarrow> 'a list list \<Rightarrow> 'a list" where
  "str_join sep [] = []"
| "str_join sep [x] = x"
| "str_join sep (x # y # xs) = x @ sep @ str_join sep (y # xs)"

lemma str_join_Cons: "xs \<noteq> [] \<Longrightarrow> str_join sep (x # xs) = x @ sep @ str_join sep xs"
  by (cases xs) simp_all

lemma str_join_split: "str_join sep (str_split sep s) = s"
proof (induction sep s rule: str_split.induct)
  case (1 sep s)
  show ?case
  proof (cases "str_partition sep s")
    case None
    then show ?thesis by (subst str_split.simps) simp
  next
    case (Some p)
    obtain a b where p: "p = (a, b)" by (cases p)
    show ?thesis
    proof (cases "sep = []")
      case True
      with Some p show ?thesis by (subst str_split.simps) simp
    next
      case False
      with "1.IH" [OF Some p [symmetric]] have IH: "str_join sep (str_split sep b) = b" by simp
      from Some p False have "str_split sep s = a # str_split sep b"
        by (subst str_split.simps) simp
      with IH Some p show ?thesis
        by (auto simp: str_join_Cons dest: str_partition_Some)
    qed
  qed
qed

text \<open>\<open>s.replace(old, new)\<close> for a non-empty \<open>old\<close>.\<close>

definition str_replace :: "string \<Rightarrow> string \<Rightarrow> string \<Rightarrow> string" where
  "str_replace old new s = str_join new (str_split old s)"

text \<open>\<open>s.split()\<close>: the maximal runs of characters that are not white space.\<close>

function str_words :: "string \<Rightarrow> string list" where
  "str_words s =
     (case dropWhile chr_is_space s of
        [] \<Rightarrow> []
      | c # cs \<Rightarrow> takeWhile (\<lambda>x. \<not> chr_is_space x) (c # cs)
                  # str_words (dropWhile (\<lambda>x. \<not> chr_is_space x) cs))"
  by pat_completeness auto
termination
proof (relation "measure length")
  fix s :: string and c cs
  assume eq: "dropWhile chr_is_space s = c # cs"
  have "length (dropWhile (\<lambda>x. \<not> chr_is_space x) cs) \<le> length cs"
    by (rule length_dropWhile_le)
  moreover have "length (c # cs) \<le> length s"
    using length_dropWhile_le [of chr_is_space s] eq by simp
  ultimately show "(dropWhile (\<lambda>x. \<not> chr_is_space x) cs, s) \<in> measure length"
    by simp
qed simp

declare str_words.simps [simp del]

text \<open>
  \<open>s.splitlines()\<close>: a carriage return and a line feed together end one line, and a final line
  end does not start another line.
\<close>

lemma length_dropWhile_Cons_le: "dropWhile P s = c # cs \<Longrightarrow> length cs < length s"
  using length_dropWhile_le [of P s] by simp

function str_splitlines :: "string \<Rightarrow> string list" where
  "str_splitlines s =
     (if s = [] then []
      else let line = takeWhile (\<lambda>c. \<not> chr_is_newline c) s;
               rest = dropWhile (\<lambda>c. \<not> chr_is_newline c) s
           in line # (case rest of
                        [] \<Rightarrow> []
                      | c # cs \<Rightarrow>
                          (case cs of
                             d # ds \<Rightarrow> if c = CHR 0x0D \<and> d = CHR 0x0A then str_splitlines ds
                                        else str_splitlines cs
                           | [] \<Rightarrow> str_splitlines cs)))"
  by pat_completeness auto
termination
  by (relation "measure length")
     (auto dest!: length_dropWhile_Cons_le [OF sym])

declare str_splitlines.simps [simp del]

subsection \<open>Numbers as text\<close>

definition digit_char :: "nat \<Rightarrow> char" where
  "digit_char n = char_of (48 + n)"

fun nat_str :: "nat \<Rightarrow> string" where
  "nat_str n = (if n < 10 then [digit_char n] else nat_str (n div 10) @ [digit_char (n mod 10)])"

declare nat_str.simps [simp del]

definition int_str :: "int \<Rightarrow> string" where
  "int_str i = (if i < 0 then CHR ''-'' # nat_str (nat (- i)) else nat_str (nat i))"

text \<open>The format \<open>{n:02d}\<close> of a natural number.\<close>

definition nat_str2 :: "nat \<Rightarrow> string" where
  "nat_str2 n = (if n < 10 then CHR ''0'' # nat_str n else nat_str n)"

text \<open>\<open>int(s)\<close> on a string of ASCII digits.\<close>

definition digit_value :: "char \<Rightarrow> nat" where
  "digit_value c = of_char c - 48"

definition digits_nat :: "string \<Rightarrow> nat" where
  "digits_nat s = foldl (\<lambda>acc c. 10 * acc + digit_value c) 0 s"

lemma digits_nat_snoc: "digits_nat (s @ [c]) = 10 * digits_nat s + digit_value c"
  by (simp add: digits_nat_def)

lemma digit_value_char: "n < 10 \<Longrightarrow> digit_value (digit_char n) = n"
  by (simp add: digit_value_def digit_char_def)

text \<open>Printing a number and reading it back gives the number.\<close>

lemma digits_nat_nat_str: "digits_nat (nat_str n) = n"
proof (induction n rule: nat_str.induct)
  case (1 n)
  show ?case
  proof (cases "n < 10")
    case True
    then show ?thesis
      by (subst nat_str.simps) (simp add: digits_nat_def digit_value_char)
  next
    case False
    with "1.IH" have "digits_nat (nat_str (n div 10)) = n div 10" by simp
    with False show ?thesis
      by (subst nat_str.simps) (simp add: digits_nat_snoc digit_value_char)
  qed
qed

lemma nat_str_inject: "nat_str m = nat_str n \<longleftrightarrow> m = n"
  by (metis digits_nat_nat_str)

lemma nat_str_ne [simp]: "nat_str n \<noteq> []"
  by (subst nat_str.simps) simp

end
