(* ===== verification/PyJson.thy ===== *)
theory PyJson
  imports PyText "HOL-Library.AList" Complex_Main
begin

text \<open>
  The values \<open>json.loads\<close> returns, with Python's operations on them: truth, equality (which
  mixes booleans, integers and floats), membership (which raises on unhashable values),
  attribute access on a value that may not be a dict, \<open>str\<close> and \<open>repr\<close>. A dict is an
  association list in insertion order; \<open>wf_json\<close> says that no key occurs twice, which
  \<open>json.loads\<close> guarantees. A float carries its value and its \<open>repr\<close>.
\<close>

subsection \<open>Values\<close>

datatype pyfloat = PFin rat | PInf | PNegInf | PNan

datatype json =
    JNull
  | JBool bool
  | JInt int
  | JFloat pyfloat string
  | JStr string
  | JArr "json list"
  | JObj "(string \<times> json) list"

type_synonym dict = "(string \<times> json) list"

lemma json_size_obj [termination_simp]:
  "(k, v) \<in> set d \<Longrightarrow> size v < Suc (size_list (size_prod (\<lambda>_. 0) size) d)"
  by (induction d) auto

lemma json_size_obj_list [termination_simp]:
  "(k, v) \<in> set d \<Longrightarrow> size v < Suc (size_list (\<lambda>p. Suc (size (snd p))) d)"
  by (induction d) auto

lemma json_size_zip [termination_simp]:
  "(a, b) \<in> set (zip xs ys) \<Longrightarrow> size a < Suc (size_list size xs)" for a :: json
  by (rule le_imp_less_Suc, rule size_list_estimation', erule set_zip_leftD) simp

text \<open>Structural induction with the children of an object named.\<close>

lemma json_induct [case_names JNull JBool JInt JFloat JStr JArr JObj, induct type: json]:
  assumes "P JNull" and "\<And>b. P (JBool b)" and "\<And>i. P (JInt i)" and "\<And>f r. P (JFloat f r)"
    and "\<And>s. P (JStr s)"
    and "\<And>xs. (\<And>x. x \<in> set xs \<Longrightarrow> P x) \<Longrightarrow> P (JArr xs)"
    and "\<And>d. (\<And>k v. (k, v) \<in> set d \<Longrightarrow> P v) \<Longrightarrow> P (JObj d)"
  shows "P v"
proof (induction v rule: json.induct)
  case (JObj d)
  have "P v" if "(k, v) \<in> set d" for k v
    using JObj [OF that] by auto
  then show ?case by (rule assms(7))
qed (use assms in auto)

fun is_str :: "json \<Rightarrow> bool" where
  "is_str (JStr _) = True" | "is_str _ = False"

fun is_dict :: "json \<Rightarrow> bool" where
  "is_dict (JObj _) = True" | "is_dict _ = False"

fun is_list :: "json \<Rightarrow> bool" where
  "is_list (JArr _) = True" | "is_list _ = False"

fun is_bool :: "json \<Rightarrow> bool" where
  "is_bool (JBool _) = True" | "is_bool _ = False"

text \<open>\<open>isinstance(v, int)\<close>, which holds of a boolean too.\<close>

fun is_int :: "json \<Rightarrow> bool" where
  "is_int (JInt _) = True" | "is_int (JBool _) = True" | "is_int _ = False"

text \<open>\<open>v is True\<close>, \<open>v is False\<close>, \<open>v is None\<close>.\<close>

definition is_true :: "json \<Rightarrow> bool" where "is_true v = (v = JBool True)"
definition is_false :: "json \<Rightarrow> bool" where "is_false v = (v = JBool False)"
definition is_none :: "json \<Rightarrow> bool" where "is_none v = (v = JNull)"

lemma is_str_iff: "is_str v \<longleftrightarrow> (\<exists>s. v = JStr s)" by (cases v) auto
lemma is_dict_iff: "is_dict v \<longleftrightarrow> (\<exists>d. v = JObj d)" by (cases v) auto
lemma is_list_iff: "is_list v \<longleftrightarrow> (\<exists>xs. v = JArr xs)" by (cases v) auto
lemma is_bool_iff: "is_bool v \<longleftrightarrow> (\<exists>b. v = JBool b)" by (cases v) auto

text \<open>\<open>bool(v)\<close>.\<close>

fun truthy :: "json \<Rightarrow> bool" where
  "truthy JNull = False"
| "truthy (JBool b) = b"
| "truthy (JInt i) = (i \<noteq> 0)"
| "truthy (JFloat f _) = (f \<noteq> PFin 0)"
| "truthy (JStr s) = (s \<noteq> [])"
| "truthy (JArr xs) = (xs \<noteq> [])"
| "truthy (JObj d) = (d \<noteq> [])"

subsection \<open>Dicts\<close>

definition has_key :: "dict \<Rightarrow> string \<Rightarrow> bool" where
  "has_key d k = (k \<in> set (map fst d))"

text \<open>\<open>d.get(k)\<close>, \<open>d.get(k, dflt)\<close> and \<open>d[k]\<close>.\<close>

definition dict_get :: "dict \<Rightarrow> string \<Rightarrow> json" where
  "dict_get d k = (case map_of d k of None \<Rightarrow> JNull | Some v \<Rightarrow> v)"

definition dict_get_or :: "dict \<Rightarrow> string \<Rightarrow> json \<Rightarrow> json" where
  "dict_get_or d k dflt = (case map_of d k of None \<Rightarrow> dflt | Some v \<Rightarrow> v)"

definition dict_index :: "dict \<Rightarrow> string \<Rightarrow> json res" where
  "dict_index d k = (case map_of d k of None \<Rightarrow> Inl (KeyError k) | Some v \<Rightarrow> Inr v)"

text \<open>\<open>d[k] = v\<close>: in place where the key exists, at the end where it does not.\<close>

definition dict_set :: "dict \<Rightarrow> string \<Rightarrow> json \<Rightarrow> dict" where
  "dict_set d k v = AList.update k v d"

definition dict_keys :: "dict \<Rightarrow> string list" where
  "dict_keys d = map fst d"

text \<open>\<open>v.get(k)\<close> and \<open>v.get(k, dflt)\<close> on a value that may not be a dict.\<close>

fun attr_get :: "json \<Rightarrow> string \<Rightarrow> json res" where
  "attr_get (JObj d) k = Inr (dict_get d k)"
| "attr_get _ k = Inl AttributeError"

fun attr_get_or :: "json \<Rightarrow> string \<Rightarrow> json \<Rightarrow> json res" where
  "attr_get_or (JObj d) k dflt = Inr (dict_get_or d k dflt)"
| "attr_get_or _ k dflt = Inl AttributeError"

lemma has_key_iff: "has_key d k \<longleftrightarrow> (\<exists>v. map_of d k = Some v)"
  by (metis has_key_def map_of_eq_None_iff not_None_eq set_map)

lemma has_key_index: "has_key d k \<longleftrightarrow> dict_index d k = Inr (dict_get d k)"
  by (auto simp: has_key_iff dict_index_def dict_get_def split: option.splits)

lemma dict_index_Inr: "dict_index d k = Inr v \<longleftrightarrow> map_of d k = Some v"
  by (auto simp: dict_index_def split: option.splits)

lemma dict_get_or_absent: "\<not> has_key d k \<Longrightarrow> dict_get_or d k dflt = dflt"
  by (simp add: has_key_iff dict_get_or_def split: option.splits)

lemma dict_get_or_present: "has_key d k \<Longrightarrow> dict_get_or d k dflt = dict_get d k"
  by (auto simp: has_key_iff dict_get_or_def dict_get_def)

lemma map_of_dict_set: "map_of (dict_set d k v) = (map_of d)(k \<mapsto> v)"
  by (simp add: dict_set_def update_conv')

lemma dict_get_set [simp]:
  "dict_get (dict_set d k v) k' = (if k' = k then v else dict_get d k')"
  by (simp add: dict_get_def map_of_dict_set)

lemma distinct_dict_set:
  "distinct (map fst d) \<Longrightarrow> distinct (map fst (dict_set d k v))"
  by (simp add: dict_set_def distinct_update)

lemma attr_get_Inr [res_simps]: "attr_get v k = Inr x \<longleftrightarrow> (\<exists>d. v = JObj d \<and> x = dict_get d k)"
  by (cases v) auto

lemma attr_get_or_Inr [res_simps]:
  "attr_get_or v k dflt = Inr x \<longleftrightarrow> (\<exists>d. v = JObj d \<and> x = dict_get_or d k dflt)"
  by (cases v) auto

subsection \<open>Well-formed values\<close>

fun wf_json :: "json \<Rightarrow> bool" where
  "wf_json (JArr xs) = list_all wf_json xs"
| "wf_json (JObj d) = (distinct (map fst d) \<and> list_all (\<lambda>(k, v). wf_json v) d)"
| "wf_json _ = True"

lemma wf_json_obj_value: "wf_json (JObj d) \<Longrightarrow> (k, v) \<in> set d \<Longrightarrow> wf_json v"
  by (auto simp: list_all_iff)

lemma wf_json_obj_lookup: "wf_json (JObj d) \<Longrightarrow> map_of d k = Some v \<Longrightarrow> wf_json v"
  by (blast intro: wf_json_obj_value dest: map_of_SomeD)

subsection \<open>Equality and membership\<close>

text \<open>
  \<open>a == b\<close>. Booleans count as 0 and 1; a float equals an integer of the same value; a NaN
  equals nothing; dicts compare without regard to order.
\<close>

fun num_value :: "json \<Rightarrow> pyfloat option" where
  "num_value (JBool b) = Some (PFin (if b then 1 else 0))"
| "num_value (JInt i) = Some (PFin (of_int i))"
| "num_value (JFloat f _) = Some f"
| "num_value _ = None"

definition num_eq :: "json \<Rightarrow> json \<Rightarrow> bool" where
  "num_eq a b = (num_value a \<noteq> None \<and> num_value a \<noteq> Some PNan \<and> num_value a = num_value b)"

fun py_eq :: "json \<Rightarrow> json \<Rightarrow> bool" where
  "py_eq JNull JNull = True"
| "py_eq (JStr s) (JStr t) = (s = t)"
| "py_eq (JArr xs) (JArr ys) =
     (length xs = length ys \<and> list_all (\<lambda>(x, y). py_eq x y) (zip xs ys))"
| "py_eq (JObj xs) (JObj ys) =
     (length xs = length ys \<and>
      list_all (\<lambda>(k, v). case map_of ys k of None \<Rightarrow> False | Some w \<Rightarrow> py_eq v w) xs)"
| "py_eq a b = num_eq a b"

lemma py_eq_str [simp]: "py_eq v (JStr s) \<longleftrightarrow> v = JStr s"
  by (cases v) (auto simp: num_eq_def)

lemma py_eq_null [simp]: "py_eq v JNull \<longleftrightarrow> v = JNull"
  by (cases v) (auto simp: num_eq_def)

lemma py_eq_str_left [simp]: "py_eq (JStr s) v \<longleftrightarrow> v = JStr s"
  by (cases v) (auto simp: num_eq_def)

lemma py_eq_int:
  "py_eq v (JInt i) \<longleftrightarrow>
     v = JInt i \<or> (i = 0 \<and> v = JBool False) \<or> (i = 1 \<and> v = JBool True) \<or>
     (\<exists>r. v = JFloat (PFin (of_int i)) r)"
proof -
  have one: "(1 :: rat) = of_int i \<longleftrightarrow> i = 1" by (metis of_int_eq_1_iff)
  have zero: "(0 :: rat) = of_int i \<longleftrightarrow> i = 0" by (metis of_int_0_eq_iff)
  show ?thesis by (cases v) (auto simp: num_eq_def one zero)
qed

lemma py_eq_nil [simp]: "py_eq v (JArr []) \<longleftrightarrow> v = JArr []"
  by (cases v) (auto simp: num_eq_def)

lemma py_eq_strs: "py_eq v (JArr (map JStr ss)) \<longleftrightarrow> v = JArr (map JStr ss)"
proof (cases v)
  case (JArr xs)
  have "length xs = length ss \<and> list_all (\<lambda>(x, y). py_eq x y) (zip xs (map JStr ss))
        \<longleftrightarrow> xs = map JStr ss"
  proof (induction xs arbitrary: ss)
    case Nil
    then show ?case by auto
  next
    case (Cons x xs)
    then show ?case by (cases ss) auto
  qed
  with JArr show ?thesis by simp
qed (auto simp: num_eq_def)

text \<open>\<open>v in {s1, ...}\<close> and \<open>v in d\<close>: a list or a dict is unhashable.\<close>

fun in_strs :: "json \<Rightarrow> string list \<Rightarrow> bool res" where
  "in_strs (JStr s) ss = Inr (s \<in> set ss)"
| "in_strs (JArr _) ss = Inl TypeError"
| "in_strs (JObj _) ss = Inl TypeError"
| "in_strs _ ss = Inr False"

text \<open>\<open>v in [s1, ...]\<close>: membership in a list or tuple of strings compares, and never raises.\<close>

fun in_str_list :: "json \<Rightarrow> string list \<Rightarrow> bool" where
  "in_str_list (JStr s) ss = (s \<in> set ss)"
| "in_str_list _ ss = False"

text \<open>\<open>s in v\<close> for a string \<open>s\<close> and a list \<open>v\<close> of JSON values.\<close>

definition str_in_arr :: "string \<Rightarrow> json list \<Rightarrow> bool" where
  "str_in_arr s xs = (JStr s \<in> set xs)"

text \<open>\<open>s in v\<close> for a string \<open>s\<close> and any value \<open>v\<close>.\<close>

fun str_in :: "string \<Rightarrow> json \<Rightarrow> bool res" where
  "str_in s (JStr t) = Inr (contains t s)"
| "str_in s (JArr xs) = Inr (str_in_arr s xs)"
| "str_in s (JObj d) = Inr (has_key d s)"
| "str_in s _ = Inl TypeError"

lemma in_strs_Inr [res_simps]:
  "in_strs v ss = Inr b \<longleftrightarrow>
     (case v of JStr s \<Rightarrow> b = (s \<in> set ss) | JArr _ \<Rightarrow> False | JObj _ \<Rightarrow> False | _ \<Rightarrow> b = False)"
  by (cases v) auto

lemma in_strs_True: "in_strs v ss = Inr True \<longleftrightarrow> (\<exists>s. v = JStr s \<and> s \<in> set ss)"
  by (cases v) auto

lemma in_str_list_iff: "in_str_list v ss \<longleftrightarrow> (\<exists>s. v = JStr s \<and> s \<in> set ss)"
  by (cases v) auto

subsection \<open>Text of a value\<close>

definition hex_digit :: "nat \<Rightarrow> char" where
  "hex_digit n = (if n < 10 then char_of (48 + n) else char_of (87 + n))"

definition chr_is_printable :: "char \<Rightarrow> bool" where
  "chr_is_printable c =
     (let n = of_char c :: nat in (32 \<le> n \<and> n \<le> 126) \<or> (161 \<le> n \<and> n \<noteq> 173))"

definition repr_char :: "char \<Rightarrow> char \<Rightarrow> string" where
  "repr_char q c =
     (if c = CHR 0x5C then [CHR 0x5C, CHR 0x5C]
      else if c = q then [CHR 0x5C, q]
      else if c = CHR 0x0A then [CHR 0x5C, CHR ''n'']
      else if c = CHR 0x0D then [CHR 0x5C, CHR ''r'']
      else if c = CHR 0x09 then [CHR 0x5C, CHR ''t'']
      else if chr_is_printable c then [c]
      else let n = of_char c in [CHR 0x5C, CHR ''x'', hex_digit (n div 16), hex_digit (n mod 16)])"

abbreviation squote :: char where "squote \<equiv> CHR 0x27"
abbreviation dquote :: char where "dquote \<equiv> CHR 0x22"

definition str_repr :: "string \<Rightarrow> string" where
  "str_repr s =
     (let q = (if squote \<in> set s \<and> dquote \<notin> set s then dquote else squote)
      in q # concat (map (repr_char q) s) @ [q])"

fun json_repr :: "json \<Rightarrow> string" where
  "json_repr JNull = ''None''"
| "json_repr (JBool b) = (if b then ''True'' else ''False'')"
| "json_repr (JInt i) = int_str i"
| "json_repr (JFloat _ r) = r"
| "json_repr (JStr s) = str_repr s"
| "json_repr (JArr xs) = ''['' @ str_join '', '' (map json_repr xs) @ '']''"
| "json_repr (JObj d) =
     CHR 0x7B # str_join '', '' (map (\<lambda>(k, v). str_repr k @ '': '' @ json_repr v) d) @ [CHR 0x7D]"

text \<open>\<open>str(v)\<close>: the text itself for a string, the \<open>repr\<close> for every other value.\<close>

fun json_str :: "json \<Rightarrow> string" where
  "json_str (JStr s) = s"
| "json_str v = json_repr v"

text \<open>The text of a list of strings.\<close>

definition strs_repr :: "string list \<Rightarrow> string" where
  "strs_repr ss = ''['' @ str_join '', '' (map str_repr ss) @ '']''"

subsection \<open>Positions in a value\<close>

text \<open>A step from a value to one of its children: a key of a dict or an index of a list.\<close>

datatype pstep = Key string | Idx nat

fun child :: "json \<Rightarrow> pstep \<Rightarrow> json option" where
  "child (JObj d) (Key k) = map_of d k"
| "child (JArr xs) (Idx i) = (if i < length xs then Some (xs ! i) else None)"
| "child _ _ = None"

primrec value_at :: "json \<Rightarrow> pstep list \<Rightarrow> json option" where
  "value_at v [] = Some v"
| "value_at v (p # ps) = (case child v p of None \<Rightarrow> None | Some w \<Rightarrow> value_at w ps)"

text \<open>The key path of a position, written as the walkers of the tools write it.\<close>

definition path_key :: "string \<Rightarrow> string \<Rightarrow> string" where
  "path_key path k = path @ ''.'' @ k"

definition path_idx :: "string \<Rightarrow> nat \<Rightarrow> string" where
  "path_idx path i = path @ ''['' @ nat_str i @ '']''"

text \<open>The values below a value, itself included, as a relation without paths.\<close>

inductive sub_value :: "json \<Rightarrow> json \<Rightarrow> bool" where
  here: "sub_value v v"
| in_list: "x \<in> set xs \<Longrightarrow> sub_value w x \<Longrightarrow> sub_value w (JArr xs)"
| in_dict: "(k, x) \<in> set d \<Longrightarrow> sub_value w x \<Longrightarrow> sub_value w (JObj d)"

inductive_cases sub_value_listE: "sub_value w (JArr xs)"
inductive_cases sub_value_dictE: "sub_value w (JObj d)"

inductive_simps sub_value_simps [simp]:
  "sub_value w JNull" "sub_value w (JBool b)" "sub_value w (JInt i)" "sub_value w (JFloat f r)"
  "sub_value w (JStr s)"

lemma sub_value_list: "sub_value w (JArr xs) \<longleftrightarrow> w = JArr xs \<or> (\<exists>x\<in>set xs. sub_value w x)"
  by (auto elim: sub_value_listE intro: sub_value.intros)

lemma sub_value_dict: "sub_value w (JObj d) \<longleftrightarrow> w = JObj d \<or> (\<exists>k x. (k, x) \<in> set d \<and> sub_value w x)"
  by (auto elim: sub_value_dictE intro: sub_value.intros)

lemma sub_value_trans: "sub_value v w \<Longrightarrow> sub_value u v \<Longrightarrow> sub_value u w"
  by (induction v w rule: sub_value.induct) (auto intro: sub_value.intros)

lemma value_at_sub_value: "value_at v ps = Some w \<Longrightarrow> sub_value w v"
proof (induction ps arbitrary: v)
  case Nil
  then show ?case by (simp add: here)
next
  case (Cons p ps)
  then obtain u where u: "child v p = Some u" "value_at u ps = Some w"
    by (auto split: option.splits)
  from Cons.IH [OF u(2)] have "sub_value w u" .
  with u(1) show ?case
    by (cases "(v, p)" rule: child.cases)
       (auto split: if_splits dest: map_of_SomeD intro: in_list in_list [OF nth_mem] in_dict)
qed

text \<open>In a well-formed value every value below is at some position.\<close>

lemma sub_value_at: "sub_value w v \<Longrightarrow> wf_json v \<Longrightarrow> \<exists>ps. value_at v ps = Some w"
proof (induction w v rule: sub_value.induct)
  case (here v)
  have "value_at v [] = Some v" by simp
  then show ?case by blast
next
  case (in_list x xs w)
  then obtain ps where "value_at x ps = Some w" by (auto simp: list_all_iff)
  moreover from in_list(1) obtain i where "i < length xs" "xs ! i = x"
    by (auto simp: in_set_conv_nth)
  ultimately have "value_at (JArr xs) (Idx i # ps) = Some w" by simp
  then show ?case by blast
next
  case (in_dict k x d w)
  then obtain ps where "value_at x ps = Some w" by (auto simp: list_all_iff)
  moreover from in_dict have "map_of d k = Some x" by simp
  ultimately have "value_at (JObj d) (Key k # ps) = Some w" by simp
  then show ?case by blast
qed

lemma json_size_enum [termination_simp]:
  "(i, x) \<in> set (enum xs) \<Longrightarrow> size x < Suc (size_list size xs)" for x :: json
proof -
  assume "(i, x) \<in> set (enum xs)"
  then have "x \<in> set xs" by (auto simp: set_enum)
  then show ?thesis by (induction xs) auto
qed

subsection \<open>Iteration\<close>

text \<open>\<open>for x in v\<close>: the characters of a string and the keys of a dict count as elements.\<close>

fun py_iter :: "json \<Rightarrow> json list res" where
  "py_iter (JArr xs) = Inr xs"
| "py_iter (JStr s) = Inr (map (\<lambda>c. JStr [c]) s)"
| "py_iter (JObj d) = Inr (map JStr (map fst d))"
| "py_iter _ = Inl TypeError"

text \<open>All string values below a value, keys not included.\<close>

fun strings_in :: "json \<Rightarrow> string list" where
  "strings_in (JStr s) = [s]"
| "strings_in (JObj d) = concat (map (\<lambda>(k, v). strings_in v) d)"
| "strings_in (JArr xs) = concat (map strings_in xs)"
| "strings_in _ = []"

lemma strings_in_iff: "s \<in> set (strings_in v) \<longleftrightarrow> sub_value (JStr s) v"
proof (induction v rule: json_induct)
  case (JObj d)
  then show ?case by (force simp: sub_value_dict)
next
  case (JArr xs)
  then show ?case by (auto simp: sub_value_list)
qed auto

end
