(* ===== verification/PyEnv.thy ===== *)
theory PyEnv
  imports PyJson
begin

text \<open>
  What the scripts read from their surroundings: the text of files, the entries of directories
  and the JSON parser, as one record that the entry points take as an argument; and the lexical
  part of \<open>pathlib\<close>. A path is its string; joining puts a slash between the two parts.
\<close>

subsection \<open>Paths\<close>

definition path_root :: "string \<Rightarrow> string" where
  "path_root s =
     (if starts_with s ''//'' \<and> \<not> starts_with s ''///'' then ''//''
      else if starts_with s ''/'' then ''/'' else [])"

definition path_comps :: "string \<Rightarrow> string list" where
  "path_comps s = filter (\<lambda>x. x \<noteq> [] \<and> x \<noteq> ''.'') (str_split ''/'' s)"

definition path_parts :: "string \<Rightarrow> string list" where
  "path_parts s = (if path_root s = [] then [] else [path_root s]) @ path_comps s"

definition path_is_absolute :: "string \<Rightarrow> bool" where
  "path_is_absolute s = (path_root s \<noteq> [])"

text \<open>\<open>str(Path(s))\<close>.\<close>

definition path_str :: "string \<Rightarrow> string" where
  "path_str s =
     (if path_parts s = [] then ''.'' else path_root s @ str_join ''/'' (path_comps s))"

definition path_name :: "string \<Rightarrow> string" where
  "path_name s = (if path_comps s = [] then [] else last (path_comps s))"

text \<open>The name up to its last dot, and the rest, unless that dot begins or ends the name.\<close>

definition name_split :: "string \<Rightarrow> string \<times> string" where
  "name_split n =
     (let ext = rev (takeWhile (\<lambda>c. c \<noteq> CHR ''.'') (rev n));
          stem = take (length n - length ext - 1) n
      in if CHR ''.'' \<in> set n \<and> ext \<noteq> [] \<and> stem \<noteq> [] then (stem, CHR ''.'' # ext) else (n, []))"

definition path_stem :: "string \<Rightarrow> string" where
  "path_stem s = fst (name_split (path_name s))"

definition path_suffix :: "string \<Rightarrow> string" where
  "path_suffix s = snd (name_split (path_name s))"

definition path_join :: "string \<Rightarrow> string \<Rightarrow> string" where
  "path_join p q = p @ ''/'' @ q"

text \<open>\<open>path.parent\<close> of a path that has a name.\<close>

definition path_parent :: "string \<Rightarrow> string" where
  "path_parent s =
     (if butlast (path_comps s) = [] \<and> path_root s = [] then ''.''
      else path_root s @ str_join ''/'' (butlast (path_comps s)))"

subsection \<open>The environment\<close>

text \<open>
  \<open>file_text p\<close> is the decoded text of a readable file (\<open>None\<close>: no such file), \<open>json_loads t\<close> the
  value \<open>json.loads\<close> gives (\<open>None\<close>: \<open>JSONDecodeError\<close>), \<open>is_dir p\<close> whether \<open>p\<close> is a directory
  and \<open>dir_glob p q\<close> the paths \<open>Path(p).glob(q)\<close> yields.
\<close>

record env =
  file_text :: "string \<Rightarrow> string option"
  json_loads :: "string \<Rightarrow> json option"
  is_dir :: "string \<Rightarrow> bool"
  dir_glob :: "string \<Rightarrow> string \<Rightarrow> string list"

definition is_file :: "env \<Rightarrow> string \<Rightarrow> bool" where
  "is_file w p = (file_text w p \<noteq> None)"

text \<open>\<open>path.exists()\<close>.\<close>

definition path_exists :: "env \<Rightarrow> string \<Rightarrow> bool" where
  "path_exists w p = (is_file w p \<or> is_dir w p)"

text \<open>\<open>path.read_text(encoding="utf-8")\<close> and \<open>json.loads\<close> of it.\<close>

definition read_text :: "env \<Rightarrow> string \<Rightarrow> string res" where
  "read_text w p = (case file_text w p of None \<Rightarrow> Inl (FileNotFoundError p) | Some t \<Rightarrow> Inr t)"

definition loads :: "env \<Rightarrow> string \<Rightarrow> json res" where
  "loads w t = (case json_loads w t of None \<Rightarrow> Inl (JSONDecodeError t) | Some v \<Rightarrow> Inr v)"

definition read_json :: "env \<Rightarrow> string \<Rightarrow> json res" where
  "read_json w p = bindE (read_text w p) (loads w)"

lemma read_text_Inr [res_simps]: "read_text w p = Inr t \<longleftrightarrow> file_text w p = Some t"
  by (auto simp: read_text_def split: option.splits)

lemma loads_Inr [res_simps]: "loads w t = Inr v \<longleftrightarrow> json_loads w t = Some v"
  by (auto simp: loads_def split: option.splits)

lemma read_json_Inr [res_simps]:
  "read_json w p = Inr v \<longleftrightarrow> (\<exists>t. file_text w p = Some t \<and> json_loads w t = Some v)"
  by (simp add: read_json_def res_simps)

text \<open>The parsed document at a path, where there is one.\<close>

definition document :: "env \<Rightarrow> string \<Rightarrow> json option" where
  "document w p = (case file_text w p of None \<Rightarrow> None | Some t \<Rightarrow> json_loads w t)"

lemma read_json_document: "read_json w p = Inr v \<longleftrightarrow> document w p = Some v"
  by (auto simp: res_simps document_def split: option.splits)

text \<open>An environment that holds the given documents only, for concrete examples.\<close>

definition docs_env :: "(string \<times> json) list \<Rightarrow> env" where
  "docs_env ds =
     \<lparr>file_text = (\<lambda>p. if p \<in> set (map fst ds) then Some p else None),
      json_loads = map_of ds, is_dir = (\<lambda>_. False), dir_glob = (\<lambda>_ _. [])\<rparr>"

lemma document_docs_env [simp]: "document (docs_env ds) p = map_of ds p"
proof (cases "map_of ds p")
  case None
  then have "p \<notin> set (map fst ds)" by (simp add: map_of_eq_None_iff)
  with None show ?thesis by (simp add: document_def docs_env_def)
next
  case (Some v)
  then have "p \<in> set (map fst ds)" by (metis map_of_eq_None_iff option.simps(3) set_map)
  with Some show ?thesis by (simp add: document_def docs_env_def)
qed

end
