(* ===== verification/CiScope.thy ===== *)
theory CiScope
  imports PyEnv
begin

text \<open>
  \<open>tools/ci/classify_ci_scope.py\<close>: from the event and the pages of changed files that the GitHub
  API returned, decide whether the change needs the full verification graph.
\<close>

subsection \<open>Constants\<close>

definition SAFE_PREFIXES :: "string list" where
  "SAFE_PREFIXES = [''adr/'', ''docs/'', ''.github/ISSUE_TEMPLATE/'']"

definition SAFE_FILES :: "string list" where
  "SAFE_FILES =
     [''.github/CODEOWNERS'', ''.github/dependabot.yml'', ''.github/pull_request_template.md'',
      ''CHANGELOG.md'', ''CODE_OF_CONDUCT.md'', ''CONTRIBUTING.md'', ''GOVERNANCE.md'',
      ''LICENSE'', ''MIGRATION.md'', ''README.md'', ''SECURITY.md'', ''TRADEMARKS.md'']"

subsection \<open>Reading the changed files\<close>

text \<open>The body of the inner loop: one row of a page, with the names and the row count so far.\<close>

definition scan_row :: "string list \<times> nat \<Rightarrow> json \<Rightarrow> (string list \<times> nat) res" where
  "scan_row st item =
     (case (case item of JObj d \<Rightarrow> dict_get d ''filename'' | _ \<Rightarrow> JNull) of
        JStr filename \<Rightarrow>
          require (filename \<noteq> []) (ValueError ''CI_SCOPE_ERR_INVALID_FILENAME'')
          (bindE (attr_get item ''previous_filename'') (\<lambda>previous.
             case previous of
               JNull \<Rightarrow> Inr (fst st @ [filename], Suc (snd st))
             | JStr p \<Rightarrow>
                 require (p \<noteq> []) (ValueError ''CI_SCOPE_ERR_INVALID_PREVIOUS_FILENAME'')
                 (Inr (fst st @ [filename, p], Suc (snd st)))
             | _ \<Rightarrow> Inl (ValueError ''CI_SCOPE_ERR_INVALID_PREVIOUS_FILENAME'')))
      | _ \<Rightarrow> Inl (ValueError ''CI_SCOPE_ERR_INVALID_FILENAME''))"

definition scan_page :: "string list \<times> nat \<Rightarrow> json \<Rightarrow> (string list \<times> nat) res" where
  "scan_page st page =
     (case page of
        JArr items \<Rightarrow> foldE scan_row st items
      | _ \<Rightarrow> Inl (ValueError ''CI_SCOPE_ERR_INVALID_FILES_RESPONSE''))"

definition extract_filenames :: "json \<Rightarrow> int option \<Rightarrow> string list res" where
  "extract_filenames payload expected_count =
     (case payload of
        JArr pages \<Rightarrow>
          bindE (foldE scan_page ([], 0) pages) (\<lambda>st.
            require (snd st \<noteq> 0) (ValueError ''CI_SCOPE_ERR_NO_CHANGED_FILES'')
            (case expected_count of
               None \<Rightarrow> Inr (fst st)
             | Some n \<Rightarrow>
                 require (int (snd st) = n)
                   (ValueError (''CI_SCOPE_ERR_FILE_COUNT_MISMATCH: expected='' @ int_str n @
                                '' actual='' @ nat_str (snd st)))
                   (Inr (fst st))))
      | _ \<Rightarrow> Inl (ValueError ''CI_SCOPE_ERR_INVALID_FILES_RESPONSE''))"

definition requires_full_ci :: "string list \<Rightarrow> bool" where
  "requires_full_ci filenames =
     list_ex (\<lambda>f. f \<notin> set SAFE_FILES \<and> \<not> list_ex (starts_with f) SAFE_PREFIXES) filenames"

definition classify :: "string \<Rightarrow> json \<Rightarrow> int option \<Rightarrow> bool res" where
  "classify event_name files_payload expected_count =
     (if event_name \<noteq> ''pull_request'' then
        require (event_name \<in> {''push'', ''workflow_dispatch''})
          (ValueError (''CI_SCOPE_ERR_UNSUPPORTED_EVENT: '' @ event_name))
          (Inr True)
      else bindE (extract_filenames files_payload expected_count)
             (\<lambda>filenames. Inr (requires_full_ci filenames)))"

subsection \<open>Entry point\<close>

record scope_args =
  sc_event_name :: string
  sc_expected_count :: "int option"
  sc_files_json :: "string option"

text \<open>The line \<open>main\<close> appends to the output file.\<close>

definition scope_main :: "env \<Rightarrow> scope_args \<Rightarrow> string res" where
  "scope_main w args =
     bindE (case sc_files_json args of
              None \<Rightarrow> Inr JNull
            | Some p \<Rightarrow> if p = [] then Inr JNull else read_json w p) (\<lambda>files_payload.
     bindE (classify (sc_event_name args) files_payload (sc_expected_count args)) (\<lambda>full_required.
     Inr (''full_required='' @ (if full_required then ''true'' else ''false'') @ [newline])))"

subsection \<open>The rows of a payload\<close>

text \<open>
  The specification of a payload: a list of pages, each a list of rows, each row an object with a
  non-empty name and, where a file was renamed, the non-empty name it had before.
\<close>

definition row_names :: "json \<Rightarrow> string list" where
  "row_names item =
     (case item of
        JObj d \<Rightarrow>
          (case dict_get d ''filename'' of JStr f \<Rightarrow> [f] | _ \<Rightarrow> []) @
          (case dict_get d ''previous_filename'' of JStr f \<Rightarrow> [f] | _ \<Rightarrow> [])
      | _ \<Rightarrow> [])"

definition row_ok :: "json \<Rightarrow> bool" where
  "row_ok item \<longleftrightarrow>
     (\<exists>d f. item = JObj d \<and> dict_get d ''filename'' = JStr f \<and> f \<noteq> [] \<and>
        (dict_get d ''previous_filename'' = JNull \<or>
         (\<exists>p. dict_get d ''previous_filename'' = JStr p \<and> p \<noteq> [])))"

definition page_rows :: "json \<Rightarrow> json list" where
  "page_rows page = (case page of JArr items \<Rightarrow> items | _ \<Rightarrow> [])"

definition payload_rows :: "json \<Rightarrow> json list" where
  "payload_rows payload =
     (case payload of
        JArr pages \<Rightarrow> concat (map page_rows pages)
      | _ \<Rightarrow> [])"

definition payload_ok :: "json \<Rightarrow> bool" where
  "payload_ok payload \<longleftrightarrow>
     (\<exists>pages. payload = JArr pages \<and> (\<forall>page\<in>set pages. is_list page) \<and>
        payload_rows payload \<noteq> [] \<and> (\<forall>row\<in>set (payload_rows payload). row_ok row))"

lemma scan_row_Inr:
  "scan_row st item = Inr st' \<longleftrightarrow>
     row_ok item \<and> st' = (fst st @ row_names item, Suc (snd st))"
  by (cases item)
     (auto simp: scan_row_def row_ok_def row_names_def require_def split: json.splits)

lemma foldE_scan_row:
  "foldE scan_row st items = Inr st' \<longleftrightarrow>
     (\<forall>item\<in>set items. row_ok item) \<and>
     st' = (fst st @ concat (map row_names items), snd st + length items)"
  by (induction items arbitrary: st) (auto simp: res_simps scan_row_Inr)

lemma scan_page_Inr:
  "scan_page st page = Inr st' \<longleftrightarrow>
     is_list page \<and> (\<forall>row\<in>set (page_rows page). row_ok row) \<and>
     st' = (fst st @ concat (map row_names (page_rows page)), snd st + length (page_rows page))"
  by (cases page) (simp_all add: scan_page_def page_rows_def foldE_scan_row)

lemma payload_rows_Cons [simp]:
  "payload_rows (JArr (page # pages)) = page_rows page @ payload_rows (JArr pages)"
  "payload_rows (JArr []) = []"
  by (simp_all add: payload_rows_def)

lemma foldE_scan_page:
  "foldE scan_page st pages = Inr st' \<longleftrightarrow>
     (\<forall>page\<in>set pages. is_list page) \<and>
     (\<forall>row\<in>set (payload_rows (JArr pages)). row_ok row) \<and>
     st' = (fst st @ concat (map row_names (payload_rows (JArr pages))),
            snd st + length (payload_rows (JArr pages)))"
  by (induction pages arbitrary: st) (auto simp: res_simps scan_page_Inr)

lemma extract_filenames_Inr:
  "extract_filenames payload n = Inr fs \<longleftrightarrow>
     payload_ok payload \<and>
     (\<forall>k. n = Some k \<longrightarrow> k = int (length (payload_rows payload))) \<and>
     fs = concat (map row_names (payload_rows payload))"
proof (cases payload)
  case (JArr pages)
  then show ?thesis
    by (cases n)
       (auto simp: extract_filenames_def payload_ok_def res_simps foldE_scan_page)
qed (auto simp: extract_filenames_def payload_ok_def)

lemma requires_full_ci_iff:
  "requires_full_ci fs \<longleftrightarrow>
     (\<exists>f\<in>set fs. f \<notin> set SAFE_FILES \<and> (\<forall>p\<in>set SAFE_PREFIXES. \<not> prefix p f))"
  by (auto simp: requires_full_ci_def list_ex_iff starts_with_def)

lemma classify_pull_request:
  "classify ''pull_request'' payload n = Inr full \<longleftrightarrow>
     payload_ok payload \<and>
     (\<forall>k. n = Some k \<longrightarrow> k = int (length (payload_rows payload))) \<and>
     (full \<longleftrightarrow> (\<exists>row\<in>set (payload_rows payload). requires_full_ci (row_names row)))"
  by (auto simp: classify_def res_simps extract_filenames_Inr requires_full_ci_def list_ex_iff)

subsection \<open>Properties\<close>

text \<open>For a pull request the classifier answers exactly when the payload is a non-empty list of
pages of well-formed rows whose number is the expected one; the answer is "full" exactly when some
row names, as its present or its previous name, a file outside the safe files and directories.\<close>

theorem classify_pull_request_iff:
  "classify ''pull_request'' payload n = Inr full \<longleftrightarrow>
     payload_ok payload \<and>
     n \<in> {None, Some (int (length (payload_rows payload)))} \<and>
     full = (\<exists>row\<in>set (payload_rows payload). \<exists>f\<in>set (row_names row).
               f \<notin> set SAFE_FILES \<and> \<not> (\<exists>p\<in>set SAFE_PREFIXES. prefix p f))"
  by (cases n) (auto simp: classify_pull_request requires_full_ci_iff)

end
