(* ===== verification/CiGate.thy ===== *)
theory CiGate
  imports PyJson
begin

text \<open>
  \<open>tools/ci/evaluate_ci_gate.py\<close>: the final status of a CI run from the results of its jobs.
  A job that was skipped or never reported does not count as a success unless the event calls
  for it to be skipped.
\<close>

subsection \<open>Constants\<close>

definition BASE_JOBS :: "string list" where
  "BASE_JOBS = [''scope'', ''python-tooling'', ''capid-csprng-audit'', ''rust-core'', ''ts-c01'',
     ''ts-full'', ''wasm-smoke'']"

definition FULL_JOBS :: "string list" where
  "FULL_JOBS = [''sdk-platform'', ''evidence-bundle'']"

definition MAIN_JOBS :: "string list" where
  "MAIN_JOBS = [''fuzz-smoke'', ''verify-script-smoke'']"

definition APPROVAL_JOB :: string where
  "APPROVAL_JOB = ''full-ci-approval''"

definition ALLOWED_JOBS :: "string list" where
  "ALLOWED_JOBS = BASE_JOBS @ FULL_JOBS @ MAIN_JOBS @ [APPROVAL_JOB]"

definition KNOWN_RESULTS :: "string list" where
  "KNOWN_RESULTS = [''success'', ''failure'', ''cancelled'', ''skipped'']"

subsection \<open>Reading the arguments\<close>

definition ascii_upper :: "string \<Rightarrow> string" where
  "ascii_upper = map (\<lambda>c. let n = of_char c :: nat
                          in if 97 \<le> n \<and> n \<le> 122 then char_of (n - 32) else c)"

definition parse_bool :: "string \<Rightarrow> string \<Rightarrow> bool res" where
  "parse_bool value label =
     (let normalized = str_lower (str_strip value)
      in if normalized = ''true'' then Inr True
         else if normalized = ''false'' then Inr False
         else Inl (ValueError (''CI_GATE_ERR_INVALID_'' @ ascii_upper label @ '': '' @ str_repr value)))"

type_synonym job_map = "string \<rightharpoonup> string"

text \<open>One \<open>--job\<close> argument, \<open>name=result\<close>, added to the jobs read so far.\<close>

definition parse_job :: "job_map \<Rightarrow> string \<Rightarrow> job_map res" where
  "parse_job jobs value =
     (case str_partition ''='' value of
        None \<Rightarrow> Inl (ValueError (''CI_GATE_ERR_INVALID_JOB_RESULT: '' @ str_repr value))
      | Some (name, result) \<Rightarrow>
          require (name \<noteq> [] \<and> result \<in> set KNOWN_RESULTS)
            (ValueError (''CI_GATE_ERR_INVALID_JOB_RESULT: '' @ str_repr value))
          (require (name \<in> set ALLOWED_JOBS) (ValueError (''CI_GATE_ERR_UNKNOWN_JOB: '' @ name))
          (require (jobs name = None) (ValueError (''CI_GATE_ERR_DUPLICATE_JOB: '' @ name))
          (Inr (jobs(name \<mapsto> result))))))"

definition parse_jobs :: "string list \<Rightarrow> job_map res" where
  "parse_jobs values = foldE parse_job Map.empty values"

subsection \<open>The verdict\<close>

text \<open>The error a job contributes, if any.\<close>

definition require_result :: "job_map \<Rightarrow> string \<Rightarrow> string \<Rightarrow> string list" where
  "require_result jobs name expected =
     (let actual = (case jobs name of None \<Rightarrow> ''missing'' | Some r \<Rightarrow> r)
      in if actual \<noteq> expected
         then [''CI_GATE_ERR_JOB_RESULT: '' @ name @ '' expected='' @ expected @ '' actual='' @ actual]
         else [])"

definition require_results :: "job_map \<Rightarrow> string list \<Rightarrow> string \<Rightarrow> string list" where
  "require_results jobs names expected =
     concat (map (\<lambda>name. require_result jobs name expected) names)"

definition evaluate :: "string \<Rightarrow> bool \<Rightarrow> job_map \<Rightarrow> string list" where
  "evaluate event_name full_required jobs =
     require_results jobs BASE_JOBS ''success'' @
     (if event_name = ''pull_request'' then
        (if full_required then
           require_result jobs APPROVAL_JOB ''success'' @
           require_results jobs FULL_JOBS ''success''
         else
           require_result jobs APPROVAL_JOB ''skipped'' @
           require_results jobs FULL_JOBS ''skipped'') @
        require_results jobs MAIN_JOBS ''skipped''
      else
        (if event_name \<notin> {''push'', ''workflow_dispatch''}
         then [''CI_GATE_ERR_UNSUPPORTED_EVENT: '' @ event_name] else []) @
        (if \<not> full_required
         then [''CI_GATE_ERR_INVALID_FULL_SCOPE: main and manual runs must execute the full graph'']
         else []) @
        require_result jobs APPROVAL_JOB ''skipped'' @
        require_results jobs (FULL_JOBS @ MAIN_JOBS) ''success'')"

subsection \<open>Entry point\<close>

text \<open>The exit code of \<open>main\<close> and the lines it prints.\<close>

definition gate_main :: "string \<Rightarrow> string \<Rightarrow> string list \<Rightarrow> nat \<times> string list" where
  "gate_main event_name full_required job =
     (case bindE (parse_bool full_required ''full_required'')
             (\<lambda>full. bindE (parse_jobs job) (\<lambda>jobs. Inr (full, jobs))) of
        Inl (ValueError msg) \<Rightarrow> (2, [msg])
      | Inl e \<Rightarrow> (1, [])
      | Inr (full, jobs) \<Rightarrow>
          (let errors = evaluate event_name full jobs
           in if errors \<noteq> [] then (1, ''CI gate failed:'' # map (\<lambda>e. ''- '' @ e) errors)
              else (0, [''CI gate: OK''])))"

subsection \<open>Specification\<close>

text \<open>The result every job must have reported, as a table over the jobs the gate knows.\<close>

definition gate_table :: "string \<Rightarrow> bool \<Rightarrow> (string \<times> string) list" where
  "gate_table event full =
     (let pr = (event = ''pull_request'')
      in map (\<lambda>n. (n, ''success'')) BASE_JOBS @
         [(APPROVAL_JOB, if pr \<and> full then ''success'' else ''skipped'')] @
         map (\<lambda>n. (n, if pr \<and> \<not> full then ''skipped'' else ''success'')) FULL_JOBS @
         map (\<lambda>n. (n, if pr then ''skipped'' else ''success'')) MAIN_JOBS)"

definition gate_event_ok :: "string \<Rightarrow> bool \<Rightarrow> bool" where
  "gate_event_ok event full \<longleftrightarrow>
     event = ''pull_request'' \<or> (event \<in> {''push'', ''workflow_dispatch''} \<and> full)"

lemma require_result_Nil:
  assumes "expected \<noteq> ''missing''"
  shows "require_result jobs name expected = [] \<longleftrightarrow> jobs name = Some expected"
  using assms by (auto simp: require_result_def Let_def split: option.splits)

lemma require_results_Nil:
  assumes "expected \<noteq> ''missing''"
  shows "require_results jobs names expected = [] \<longleftrightarrow> (\<forall>n\<in>set names. jobs n = Some expected)"
  using require_result_Nil [OF assms] by (auto simp: require_results_def)

lemma evaluate_Nil:
  "evaluate event full jobs = [] \<longleftrightarrow>
     gate_event_ok event full \<and> (\<forall>(n, r)\<in>set (gate_table event full). jobs n = Some r)"
proof (cases "event = ''pull_request''")
  case True
  then show ?thesis
    by (cases full)
       (simp_all add: evaluate_def gate_event_ok_def gate_table_def Let_def ball_Un
          require_result_Nil require_results_Nil conj_ac)
next
  case False
  then show ?thesis
    by (simp add: evaluate_def gate_event_ok_def gate_table_def Let_def ball_Un
          require_result_Nil require_results_Nil conj_ac)
qed

lemma gate_table_keys: "set (map fst (gate_table event full)) = set ALLOWED_JOBS"
  by (auto simp: gate_table_def ALLOWED_JOBS_def Let_def)

subsection \<open>Job arguments\<close>

definition job_arg :: "string \<times> string \<Rightarrow> string" where
  "job_arg p = fst p @ ''='' @ snd p"

text \<open>What the arguments may be: known results of distinct allowed jobs.\<close>

definition job_args_ok :: "(string \<times> string) list \<Rightarrow> bool" where
  "job_args_ok ps \<longleftrightarrow>
     distinct (map fst ps) \<and> (\<forall>(n, r)\<in>set ps. n \<in> set ALLOWED_JOBS \<and> r \<in> set KNOWN_RESULTS)"

lemma allowed_jobs_shape: "n \<in> set ALLOWED_JOBS \<Longrightarrow> n \<noteq> [] \<and> CHR ''='' \<notin> set n"
  by (auto simp: ALLOWED_JOBS_def BASE_JOBS_def FULL_JOBS_def MAIN_JOBS_def APPROVAL_JOB_def)

lemma str_partition_char:
  "c \<notin> set a \<Longrightarrow> str_partition [c] (a @ c # b) = Some (a, b)"
  by (induction a) auto

lemma parse_job_Inr:
  "parse_job jobs value = Inr jobs' \<longleftrightarrow>
     (\<exists>n r. value = job_arg (n, r) \<and> n \<in> set ALLOWED_JOBS \<and> r \<in> set KNOWN_RESULTS \<and>
            jobs n = None \<and> jobs' = jobs(n \<mapsto> r))"
proof (cases "str_partition ''='' value")
  case None
  then have "value \<noteq> job_arg (n, r)" if "n \<in> set ALLOWED_JOBS" for n r
    using allowed_jobs_shape [OF that] by (auto simp: job_arg_def str_partition_char)
  with None show ?thesis by (auto simp: parse_job_def)
next
  case (Some p)
  obtain n r where p: "p = (n, r)" by (cases p)
  have v: "value = job_arg (n, r)"
    using str_partition_Some Some p by (force simp: job_arg_def)
  have uniq: "n' = n \<and> r' = r"
    if "value = job_arg (n', r')" "n' \<in> set ALLOWED_JOBS" for n' r'
    using that(1) allowed_jobs_shape [OF that(2)] Some p
    by (simp add: job_arg_def str_partition_char)
  have "parse_job jobs value = Inr jobs' \<longleftrightarrow>
      n \<noteq> [] \<and> r \<in> set KNOWN_RESULTS \<and> n \<in> set ALLOWED_JOBS \<and> jobs n = None \<and>
      jobs' = jobs(n \<mapsto> r)"
    using Some p by (auto simp: parse_job_def res_simps)
  then show ?thesis
    using v uniq allowed_jobs_shape by blast
qed

lemma job_args_ok_Cons:
  "job_args_ok ((n, r) # ps) \<longleftrightarrow>
     n \<in> set ALLOWED_JOBS \<and> r \<in> set KNOWN_RESULTS \<and> n \<notin> set (map fst ps) \<and> job_args_ok ps"
  by (auto simp: job_args_ok_def)

lemma foldE_parse_job:
  "foldE parse_job jobs values = Inr m \<longleftrightarrow>
     (\<exists>ps. values = map job_arg ps \<and> job_args_ok ps \<and> (\<forall>n\<in>set (map fst ps). jobs n = None) \<and>
           m = jobs ++ map_of ps)"
proof (induction "values" arbitrary: jobs)
  case Nil
  then show ?case by (auto simp: job_args_ok_def)
next
  case (Cons v vs)
  have "foldE parse_job jobs (v # vs) = Inr m \<longleftrightarrow>
      (\<exists>n r ps. v = job_arg (n, r) \<and> n \<in> set ALLOWED_JOBS \<and> r \<in> set KNOWN_RESULTS \<and>
         jobs n = None \<and> vs = map job_arg ps \<and> job_args_ok ps \<and>
         (\<forall>k\<in>set (map fst ps). (jobs(n \<mapsto> r)) k = None) \<and> m = jobs(n \<mapsto> r) ++ map_of ps)"
    by (simp only: foldE.simps bindE_Inr parse_job_Inr Cons.IH) blast
  also have "\<dots> \<longleftrightarrow>
      (\<exists>n r ps. v # vs = map job_arg ((n, r) # ps) \<and> job_args_ok ((n, r) # ps) \<and>
         (\<forall>k\<in>set (map fst ((n, r) # ps)). jobs k = None) \<and>
         m = jobs ++ map_of ((n, r) # ps))"
  proof (intro ex_cong1)
    fix n r ps
    have "jobs(n \<mapsto> r) ++ map_of ps = jobs ++ map_of ((n, r) # ps)" if "n \<notin> set (map fst ps)"
      using that by (simp add: map_add_upd_left dom_map_of_conv_image_fst)
    then show "(v = job_arg (n, r) \<and> n \<in> set ALLOWED_JOBS \<and> r \<in> set KNOWN_RESULTS \<and>
         jobs n = None \<and> vs = map job_arg ps \<and> job_args_ok ps \<and>
         (\<forall>k\<in>set (map fst ps). (jobs(n \<mapsto> r)) k = None) \<and> m = jobs(n \<mapsto> r) ++ map_of ps)
      = (v # vs = map job_arg ((n, r) # ps) \<and> job_args_ok ((n, r) # ps) \<and>
         (\<forall>k\<in>set (map fst ((n, r) # ps)). jobs k = None) \<and> m = jobs ++ map_of ((n, r) # ps))"
      by (auto simp: job_args_ok_Cons split: if_splits)
  qed
  also have "\<dots> \<longleftrightarrow> (\<exists>ps. v # vs = map job_arg ps \<and> job_args_ok ps \<and>
         (\<forall>n\<in>set (map fst ps). jobs n = None) \<and> m = jobs ++ map_of ps)"
    by (metis list.exhaust list.simps(8) list.distinct(1) surj_pair)
  finally show ?case .
qed

lemma parse_jobs_Inr:
  "parse_jobs values = Inr m \<longleftrightarrow>
     (\<exists>ps. values = map job_arg ps \<and> job_args_ok ps \<and> m = map_of ps)"
  by (simp add: parse_jobs_def foldE_parse_job)

subsection \<open>Properties\<close>

lemma gate_table_distinct: "distinct (map fst (gate_table event full))"
  by (simp add: gate_table_def Let_def BASE_JOBS_def FULL_JOBS_def MAIN_JOBS_def APPROVAL_JOB_def)

lemma table_of_all_jobs:
  assumes ok: "job_args_ok ps" and all: "\<forall>(n, r)\<in>set (gate_table event full). map_of ps n = Some r"
  shows "set ps = set (gate_table event full)"
proof (rule set_eqI, rule iffI)
  fix p assume "p \<in> set (gate_table event full)"
  with all show "p \<in> set ps" by (cases p) (auto dest: map_of_SomeD)
next
  fix p assume p: "p \<in> set ps"
  obtain n r where nr: "p = (n, r)" by (cases p)
  from p nr ok have "n \<in> set (map fst (gate_table event full))"
    by (auto simp: job_args_ok_def gate_table_keys simp del: set_map)
  then obtain r' where r': "(n, r') \<in> set (gate_table event full)" by auto
  with all have "map_of ps n = Some r'" by auto
  with p nr ok have "r' = r" by (auto simp: job_args_ok_def)
  with r' nr show "p \<in> set (gate_table event full)" by simp
qed

lemma gate_table_results: "(n, r) \<in> set (gate_table event full) \<Longrightarrow> r \<in> set KNOWN_RESULTS"
  by (auto simp: gate_table_def KNOWN_RESULTS_def Let_def split: if_splits)

lemma gate_main_zero:
  "fst (gate_main event full_arg args) = 0 \<longleftrightarrow>
     (\<exists>full ps. parse_bool full_arg ''full_required'' = Inr full \<and> args = map job_arg ps \<and>
        distinct (map fst ps) \<and> gate_event_ok event full \<and> set ps = set (gate_table event full))"
proof -
  have main: "fst (gate_main event full_arg args) = 0 \<longleftrightarrow>
      (\<exists>full jobs. parse_bool full_arg ''full_required'' = Inr full \<and> parse_jobs args = Inr jobs \<and>
         evaluate event full jobs = [])"
  proof (cases "parse_bool full_arg ''full_required''")
    case (Inl e)
    then show ?thesis by (cases e) (simp_all add: gate_main_def)
  next
    case full: (Inr full)
    show ?thesis
    proof (cases "parse_jobs args")
      case (Inl e)
      with full show ?thesis by (cases e) (simp_all add: gate_main_def)
    next
      case (Inr jobs)
      with full show ?thesis by (simp add: gate_main_def Let_def)
    qed
  qed
  have table: "(\<exists>jobs. parse_jobs args = Inr jobs \<and> evaluate event full jobs = []) \<longleftrightarrow>
      (\<exists>ps. args = map job_arg ps \<and> distinct (map fst ps) \<and> gate_event_ok event full \<and>
         set ps = set (gate_table event full))" (is "?L \<longleftrightarrow> ?R") for full
  proof
    assume ?L
    then obtain ps where ps: "args = map job_arg ps" "job_args_ok ps" "gate_event_ok event full"
        "\<forall>(n, r)\<in>set (gate_table event full). map_of ps n = Some r"
      unfolding parse_jobs_Inr evaluate_Nil by blast
    from ps(2) have "distinct (map fst ps)" by (simp add: job_args_ok_def)
    with ps table_of_all_jobs [OF ps(2,4)] show ?R by blast
  next
    assume ?R
    then obtain ps where ps: "args = map job_arg ps" "distinct (map fst ps)"
        "gate_event_ok event full" "set ps = set (gate_table event full)" by blast
    have ok: "job_args_ok ps"
      unfolding job_args_ok_def
    proof (intro conjI ballI)
      fix p assume "p \<in> set ps"
      with ps(4) have "p \<in> set (gate_table event full)" by simp
      moreover from this have "fst p \<in> set ALLOWED_JOBS"
        unfolding gate_table_keys [of event full, symmetric] by simp
      ultimately show "case p of (n, r) \<Rightarrow> n \<in> set ALLOWED_JOBS \<and> r \<in> set KNOWN_RESULTS"
        using gate_table_results [of "fst p" "snd p" event full] by (simp add: split_beta)
    qed (rule ps(2))
    have "\<forall>(n, r)\<in>set (gate_table event full). map_of ps n = Some r"
      using ps(2,4) by auto
    with ok ps show ?L by (auto simp: parse_jobs_Inr evaluate_Nil)
  qed
  have "fst (gate_main event full_arg args) = 0 \<longleftrightarrow>
      (\<exists>full. parse_bool full_arg ''full_required'' = Inr full \<and>
         (\<exists>jobs. parse_jobs args = Inr jobs \<and> evaluate event full jobs = []))"
    unfolding main by blast
  then show ?thesis unfolding table by (simp only: ex_simps)
qed

text \<open>The gate exits with 0 exactly when its arguments are, in some order, one result for each
of the twelve jobs, each the result the event calls for; runs outside pull requests must also be a
push or a manual run over the full graph. A missing, skipped or repeated job never passes.\<close>

theorem gate_main_success_iff:
  "fst (gate_main event full_arg args) = 0 \<longleftrightarrow>
     (\<exists>full ps. parse_bool full_arg ''full_required'' = Inr full \<and> args = map job_arg ps \<and>
        distinct (map fst ps) \<and> gate_event_ok event full \<and> set ps = set (gate_table event full))"
  by (rule gate_main_zero)

text \<open>Reading job arguments and printing them again are inverse: the arguments are accepted
exactly when they print a table of known results over distinct allowed jobs, and the map that is
read is that table.\<close>

theorem parse_jobs_roundtrip:
  "parse_jobs args = Inr m \<longleftrightarrow>
     (\<exists>ps. args = map job_arg ps \<and> distinct (map fst ps) \<and>
        set (map fst ps) \<subseteq> set ALLOWED_JOBS \<and> set (map snd ps) \<subseteq> set KNOWN_RESULTS \<and> m = map_of ps)"
  unfolding parse_jobs_Inr job_args_ok_def by (intro ex_cong1) auto

end
