(* ===== verification/Base64.thy ===== *)
theory Base64
  imports Prelude "HOL-Library.Word"
begin

text \<open>
  Standard base64 as \<open>base64.b64encode\<close> and \<open>base64.b64decode(s, validate=True)\<close> compute it,
  and the interface the fuzz campaign relies on: what was encoded decodes to itself.
\<close>

type_synonym byte = "8 word"

subsection \<open>The alphabet\<close>

definition b64_char :: "nat \<Rightarrow> char" where
  "b64_char n =
     (if n < 26 then char_of (65 + n)
      else if n < 52 then char_of (71 + n)
      else if n < 62 then char_of (n - 4)
      else if n = 62 then CHR ''+'' else CHR ''/'')"

definition b64_value :: "char \<Rightarrow> nat option" where
  "b64_value c =
     (let n = of_char c :: nat
      in if 65 \<le> n \<and> n \<le> 90 then Some (n - 65)
         else if 97 \<le> n \<and> n \<le> 122 then Some (n - 71)
         else if 48 \<le> n \<and> n \<le> 57 then Some (n + 4)
         else if n = 43 then Some 62
         else if n = 47 then Some 63
         else None)"

lemma b64_value_char: "n < 64 \<Longrightarrow> b64_value (b64_char n) = Some n"
  by (auto simp: b64_value_def b64_char_def Let_def)

lemma b64_char_not_pad: "n < 64 \<Longrightarrow> b64_char n \<noteq> CHR ''=''"
proof
  assume "n < 64" "b64_char n = CHR ''=''"
  with b64_value_char [of n] show False by (simp add: b64_value_def)
qed

subsection \<open>Encoding\<close>

text \<open>Three bytes give four characters; a last group of one or two bytes is padded.\<close>

fun b64encode :: "byte list \<Rightarrow> string" where
  "b64encode [] = []"
| "b64encode [a] =
     (let x = unat a
      in [b64_char (x div 4), b64_char (x mod 4 * 16), CHR ''='', CHR ''=''])"
| "b64encode [a, b] =
     (let x = unat a; y = unat b
      in [b64_char (x div 4), b64_char (x mod 4 * 16 + y div 16), b64_char (y mod 16 * 4), CHR ''=''])"
| "b64encode (a # b # c # bs) =
     (let x = unat a; y = unat b; z = unat c
      in b64_char (x div 4) # b64_char (x mod 4 * 16 + y div 16)
         # b64_char (y mod 16 * 4 + z div 64) # b64_char (z mod 64) # b64encode bs)"

subsection \<open>Strict decoding\<close>

text \<open>
  The loop of \<open>binascii.a2b_base64\<close> in strict mode: \<open>q\<close> is the position in the current group
  of four, \<open>l\<close> the bits left from the last character, \<open>p\<close> the padding characters seen in the
  group and \<open>st\<close> whether padding has started. \<open>None\<close> is \<open>binascii.Error\<close>.
\<close>

fun a2b :: "nat \<Rightarrow> nat \<Rightarrow> nat \<Rightarrow> bool \<Rightarrow> string \<Rightarrow> byte list option" where
  "a2b q l p st [] = (if q = 0 then Some [] else None)"
| "a2b q l p st (c # cs) =
     (if c = CHR ''='' then
        (if 2 \<le> q \<and> 4 \<le> q + (p + 1) then (if cs = [] then Some [] else None)
         else a2b q l (if 2 \<le> q then p + 1 else p) True cs)
      else case b64_value c of
             None \<Rightarrow> None
           | Some v \<Rightarrow>
               if st then None
               else if q = 0 then a2b 1 v 0 False cs
               else if q = 1 then
                 map_option (\<lambda>bs. of_nat (l * 4 + v div 16) # bs) (a2b 2 (v mod 16) 0 False cs)
               else if q = 2 then
                 map_option (\<lambda>bs. of_nat (l * 16 + v div 4) # bs) (a2b 3 (v mod 4) 0 False cs)
               else map_option (\<lambda>bs. of_nat (l * 64 + v) # bs) (a2b 0 0 0 False cs))"

definition b64decode :: "string \<Rightarrow> byte list option" where
  "b64decode s = (case s of c # _ \<Rightarrow> if c = CHR ''='' then None else a2b 0 0 0 False s
                          | [] \<Rightarrow> Some [])"

subsection \<open>Round trip\<close>

lemma unat_byte_less: "unat (b :: byte) < 256"
  using unsigned_less [of b, where ?'a = nat] by simp

lemma sextet_bounds:
  assumes "x < 256" "y < 256" "z < (256 :: nat)"
  shows "x div 4 < 64" "x mod 4 * 16 + y div 16 < 64" "y mod 16 * 4 + z div 64 < 64"
    "x mod 4 * 16 < 64" "y mod 16 * 4 < 64"
proof -
  have m: "x mod 4 \<le> 3" "y mod 16 \<le> 15" by (simp_all add: less_Suc_eq_le [symmetric])
  from assms have d: "x div 4 \<le> 63" "y div 16 \<le> 15" "z div 64 \<le> 3" by (simp_all)
  from m d show "x div 4 < 64" "x mod 4 * 16 + y div 16 < 64" "y mod 16 * 4 + z div 64 < 64"
    "x mod 4 * 16 < 64" "y mod 16 * 4 < 64"
    by linarith+
qed

lemma sextet_join:
  assumes "x < 256" "y < 256" "z < (256 :: nat)"
  shows "x div 4 * 4 + (x mod 4 * 16 + y div 16) div 16 = x"
    "(x mod 4 * 16 + y div 16) mod 16 * 16 + (y mod 16 * 4 + z div 64) div 4 = y"
    "(y mod 16 * 4 + z div 64) mod 4 * 64 + z mod 64 = z"
    "x div 4 * 4 + (x mod 4 * 16) div 16 = x"
    "(x mod 4 * 16 + y div 16) mod 16 * 16 + (y mod 16 * 4) div 4 = y"
proof -
  from assms have d: "y div 16 < 16" "z div 64 < 4" by simp_all
  then show "x div 4 * 4 + (x mod 4 * 16 + y div 16) div 16 = x"
    "(x mod 4 * 16 + y div 16) mod 16 * 16 + (y mod 16 * 4 + z div 64) div 4 = y"
    "(y mod 16 * 4 + z div 64) mod 4 * 64 + z mod 64 = z"
    "x div 4 * 4 + (x mod 4 * 16) div 16 = x"
    "(x mod 4 * 16 + y div 16) mod 16 * 16 + (y mod 16 * 4) div 4 = y"
    by simp_all
qed

lemma a2b_b64encode: "a2b 0 0 0 False (b64encode bs) = Some bs"
proof (induction bs rule: b64encode.induct)
  case 1
  then show ?case by simp
next
  case (2 a)
  have x: "unat a < 256" by (rule unat_byte_less)
  note b = sextet_bounds [OF x x x] and j = sextet_join [OF x x x]
  show ?case
    using b j by (simp add: Let_def b64_char_not_pad b64_value_char)
next
  case (3 a b)
  have x: "unat a < 256" and y: "unat b < 256" by (rule unat_byte_less)+
  note b = sextet_bounds [OF x y x] and j = sextet_join [OF x y x]
  show ?case
    using b j by (simp add: Let_def b64_char_not_pad b64_value_char)
next
  case (4 a b c bs)
  have x: "unat a < 256" and y: "unat b < 256" and z: "unat c < 256"
    by (rule unat_byte_less)+
  note b = sextet_bounds [OF x y z] and j = sextet_join [OF x y z]
  show ?case
    using b j "4.IH" by (simp add: Let_def b64_char_not_pad b64_value_char)
qed

lemma b64encode_head: "bs \<noteq> [] \<Longrightarrow> \<exists>n cs. n < 64 \<and> b64encode bs = b64_char n # cs"
proof (cases bs rule: b64encode.cases)
  case (2 a)
  then show ?thesis using sextet_bounds(1) [OF unat_byte_less unat_byte_less unat_byte_less, of a]
    by (auto simp: Let_def)
next
  case (3 a b)
  then show ?thesis using sextet_bounds(1) [OF unat_byte_less unat_byte_less unat_byte_less, of a]
    by (auto simp: Let_def)
next
  case (4 a b c bs)
  then show ?thesis using sextet_bounds(1) [OF unat_byte_less unat_byte_less unat_byte_less, of a]
    by (auto simp: Let_def)
qed simp

lemma b64decode_b64encode: "b64decode (b64encode bs) = Some bs"
proof (cases "bs = []")
  case False
  then obtain n cs where "n < 64" and hd: "b64encode bs = b64_char n # cs"
    using b64encode_head by blast
  then have "b64decode (b64encode bs) = a2b 0 0 0 False (b64encode bs)"
    by (simp add: b64decode_def b64_char_not_pad)
  then show ?thesis by (simp add: a2b_b64encode)
qed (simp add: b64decode_def)

subsection \<open>The codec interface\<close>

text \<open>What a client of an encoder and its decoder may rely on.\<close>

locale codec =
  fixes enc :: "'b \<Rightarrow> 't" and dec :: "'t \<Rightarrow> 'b option"
  assumes dec_enc: "dec (enc b) = Some b"
begin

lemma enc_inject: "enc a = enc b \<longleftrightarrow> a = b"
  by (metis dec_enc option.inject)

lemma dec_of_image: "t \<in> range enc \<Longrightarrow> \<exists>b. dec t = Some b \<and> enc b = t"
  using dec_enc by auto

end

interpretation b64: codec b64encode b64decode
  by unfold_locales (rule b64decode_b64encode)

end
