(* ===== verification/VectorShape.thy ===== *)
theory VectorShape
  imports PyEnv Base64
begin

text \<open>
  The helpers of \<open>tools/validate_vectors.py\<close>: the tables of a conformance vector's fields, the
  walkers over a vector's JSON tree and the shape checks of identifiers, manifest records and
  ledger events.
\<close>

subsection \<open>Constants\<close>

definition REQUIRED_TOP :: "string list" where
  "REQUIRED_TOP = [''vector_id'', ''op'', ''strict'', ''input'', ''expect'']"

definition REQUIRED_INPUT_BY_OP :: "(string \<times> string list) list" where
  "REQUIRED_INPUT_BY_OP =
     [(''dagcbor_validate'', [''bytes_b64'']),
      (''cid_derive'', [''bytes_b64'']),
      (''cose_verify'', [''cose_b64'', ''pub_b64'', ''external_aad_b64'']),
      (''qr_decode_gr1'', [''qr_string'']),
      (''e2e_decrypt'', [''encrypted_object_b64'', ''sync_secret_b64'', ''cid_link_b64'']),
      (''e2e_derive_v1'', [''sync_secret_b64'', ''cap_id_b64'', ''cid_link_bstr_b64'']),
      (''parse_cborseq_stream_v1'', [''stream_kind'']),
      (''manifest_resolve'', [''cid_b64'', ''eligible_records'', ''eligible_tombstones'']),
      (''ledger_reduce'', [''root_kid'', ''events''])]"

definition TYPED_OBJECT_TYPES :: "string list" where
  "TYPED_OBJECT_TYPES =
     [''IngredientRef'', ''NutrientProfile'', ''CookRun'', ''NutritionComputeResult'', ''IntakeEvent'',
      ''ServingOffer'', ''LedgerGenesis'', ''DeviceKeyGrant'', ''DeviceKeyRevoke'', ''VoidEvent'',
      ''CorrectionEvent'', ''LedgerEvent'', ''EncryptedObject'', ''ManifestRecord'']"

definition INVALID_OBJECT_SELECTOR_VECTOR_IDS :: "string list" where
  "INVALID_OBJECT_SELECTOR_VECTOR_IDS = [''NEG-OBJ-097'', ''NEG-OBJ-098'', ''NEG-OBJ-099'']"

definition INVALID_OBJECT_SELECTOR_EXPECTED_DIAG :: "(string \<times> string) list" where
  "INVALID_OBJECT_SELECTOR_EXPECTED_DIAG =
     [(''NEG-OBJ-097'', ''GRAIN_ERR_SCHEMA''), (''NEG-OBJ-098'', ''GRAIN_ERR_SCHEMA''),
      (''NEG-OBJ-099'', ''GRAIN_ERR_NONCANONICAL'')]"

definition PLACEHOLDER_TOKENS :: "string list" where
  "PLACEHOLDER_TOKENS = [''placeholder'', ''illustrative'', ''next phase'']"

definition MAX_SAFE_INTEGER :: int where
  "MAX_SAFE_INTEGER = 9007199254740991"

subsection \<open>Walkers\<close>

definition is_b64_field :: "string \<Rightarrow> bool" where
  "is_b64_field name = (ends_with name ''_b64'' \<or> name = ''bytes_b64'')"

definition validate_b64 :: "string \<Rightarrow> bool" where
  "validate_b64 value = (b64decode value \<noteq> None)"

definition child_path :: "string \<Rightarrow> string \<Rightarrow> string" where
  "child_path path k = (if path \<noteq> [] then path @ ''.'' @ k else k)"

fun walk_strings :: "json \<Rightarrow> string list" where
  "walk_strings (JStr s) = [s]"
| "walk_strings (JObj d) = concat (map (\<lambda>(k, v). walk_strings v) d)"
| "walk_strings (JArr xs) = concat (map walk_strings xs)"
| "walk_strings _ = []"

text \<open>A boolean is an \<open>int\<close> for Python; the first test keeps it out.\<close>

fun collect_unsafe_expect_integers :: "json \<Rightarrow> string \<Rightarrow> (string \<times> int) list" where
  "collect_unsafe_expect_integers (JBool _) path = []"
| "collect_unsafe_expect_integers (JInt n) path =
     (if \<bar>n\<bar> > MAX_SAFE_INTEGER then [(if path \<noteq> [] then path else ''<root>'', n)] else [])"
| "collect_unsafe_expect_integers (JObj d) path =
     concat (map (\<lambda>(k, v). collect_unsafe_expect_integers v (child_path path k)) d)"
| "collect_unsafe_expect_integers (JArr xs) path =
     concat (map (\<lambda>(i, x). collect_unsafe_expect_integers x (path_idx path i)) (enum xs))"
| "collect_unsafe_expect_integers _ path = []"

fun collect_b64_fields :: "json \<Rightarrow> string \<Rightarrow> (string \<times> string) list" where
  "collect_b64_fields (JObj d) path =
     concat (map (\<lambda>(k, v).
       case v of
         JStr s \<Rightarrow> if is_b64_field k then [(child_path path k, s)]
                    else collect_b64_fields v (child_path path k)
       | _ \<Rightarrow> collect_b64_fields v (child_path path k)) d)"
| "collect_b64_fields (JArr xs) path =
     concat (map (\<lambda>(i, x). collect_b64_fields x (path_idx path i)) (enum xs))"
| "collect_b64_fields _ path = []"

subsection \<open>Shapes\<close>

definition validate_manifest_record_shape :: "dict \<Rightarrow> string option res" where
  "validate_manifest_record_shape rec =
     (let op = dict_get rec ''op'' in
      bindE (in_strs op [''put'', ''del'']) (\<lambda>known.
        let has_cap = has_key rec ''cap_id_b64''; has_chash = has_key rec ''chash_b64'' in
        Inr (if \<not> known then Some (''manifest record op must be '' @ str_repr ''put'' @ '' or '' @ str_repr ''del'')
             else if op = JStr ''put'' \<and> (\<not> has_cap \<or> \<not> has_chash)
             then Some ''manifest put record must include cap_id_b64 and chash_b64''
             else if op = JStr ''del'' \<and> (has_cap \<or> has_chash)
             then Some ''manifest del record must not include cap_id_b64/chash_b64''
             else None)))"

definition LEDGER_EVENT_KEYS :: "string list" where
  "LEDGER_EVENT_KEYS = [''t'', ''ak'', ''seq'', ''payload_cid'', ''body'']"

definition validate_ledger_event_shape :: "dict \<Rightarrow> string option" where
  "validate_ledger_event_shape ev =
     (let missing = list_minus LEDGER_EVENT_KEYS (dict_keys ev) in
      if missing \<noteq> [] then Some (''ledger event missing keys: '' @ strs_repr (py_sorted missing))
      else case dict_get ev ''body'' of
             JObj body \<Rightarrow>
               (let t = dict_get ev ''t'' in
                if t = JStr ''DeviceKeyGrant'' \<and> \<not> has_key body ''grant_ak''
                then Some ''DeviceKeyGrant body must include grant_ak''
                else if t = JStr ''DeviceKeyRevoke'' \<and> \<not> has_key body ''revoke_ak''
                then Some ''DeviceKeyRevoke body must include revoke_ak''
                else if t = JStr ''IntakeEvent'' \<and> (\<not> has_key body ''mean'' \<or> \<not> has_key body ''var'')
                then Some ''IntakeEvent body must include mean and var''
                else None)
           | _ \<Rightarrow> Some ''ledger event body must be object'')"

definition looks_like_wa_id :: "string \<Rightarrow> bool" where
  "looks_like_wa_id vector_id =
     (case str_split ''-'' vector_id of
        [head, area, wave, digits] \<Rightarrow>
          if head \<notin> {''POS'', ''NEG''} then False
          else if area = [] \<or> \<not> str_isalnum area then False
          else if wave \<noteq> ''WA'' then False
          else if length digits \<noteq> 4 \<or> \<not> str_isdigit digits then False
          else True
      | _ \<Rightarrow> False)"

definition looks_like_object_id :: "string \<Rightarrow> bool" where
  "looks_like_object_id vector_id =
     (case str_split ''-'' vector_id of
        [head, area, digits] \<Rightarrow>
          head \<in> {''POS'', ''NEG''} \<and> area = ''OBJ'' \<and> length digits = 3 \<and> str_isdigit digits
      | _ \<Rightarrow> False)"

subsection \<open>What the walkers find\<close>

lemma walk_strings_iff: "s \<in> set (walk_strings v) \<longleftrightarrow> sub_value (JStr s) v"
proof (induction v rule: json_induct)
  case (JObj d)
  then show ?case by (force simp: sub_value_dict)
next
  case (JArr xs)
  then show ?case by (auto simp: sub_value_list)
qed auto

text \<open>The path text of a position, from the text of the position it starts at.\<close>

primrec step_text :: "string \<Rightarrow> pstep \<Rightarrow> string" where
  "step_text path (Key k) = child_path path k"
| "step_text path (Idx i) = path_idx path i"

definition position_text :: "string \<Rightarrow> pstep list \<Rightarrow> string" where
  "position_text path ps = foldl step_text path ps"

lemma position_text_simps [simp]:
  "position_text path [] = path"
  "position_text path (p # ps) = position_text (step_text path p) ps"
  by (simp_all add: position_text_def)

text \<open>The root is shown as \<open><root>\<close>; a position below it has its own text.\<close>

definition shown_path :: "string \<Rightarrow> string" where
  "shown_path path = (if path \<noteq> [] then path else ''<root>'')"

lemma collect_unsafe_sound:
  "(q, n) \<in> set (collect_unsafe_expect_integers v path) \<Longrightarrow> wf_json v \<Longrightarrow>
     \<bar>n\<bar> > MAX_SAFE_INTEGER \<and>
     (\<exists>ps. value_at v ps = Some (JInt n) \<and> q = shown_path (position_text path ps))"
proof (induction v arbitrary: path rule: json_induct)
  case (JInt i)
  then show ?case
    by (auto simp: shown_path_def split: if_splits intro!: exI [of _ "[]"])
next
  case (JArr xs)
  then obtain i where i: "i < length xs"
      and m: "(q, n) \<in> set (collect_unsafe_expect_integers (xs ! i) (path_idx path i))"
    by (auto simp: set_enum)
  from i JArr.prems(2) have "wf_json (xs ! i)" by (simp add: list_all_length)
  from JArr.IH [OF nth_mem [OF i] m this] obtain ps where
      "\<bar>n\<bar> > MAX_SAFE_INTEGER" "value_at (xs ! i) ps = Some (JInt n)"
      "q = shown_path (position_text (path_idx path i) ps)" by blast
  with i show ?case by (intro conjI exI [of _ "Idx i # ps"]) auto
next
  case (JObj d)
  then obtain k x where k: "(k, x) \<in> set d"
      and m: "(q, n) \<in> set (collect_unsafe_expect_integers x (child_path path k))"
    by auto
  from k JObj.prems(2) have "wf_json x" "map_of d k = Some x" by (auto simp: list_all_iff)
  with JObj.IH [OF k m] obtain ps where
      "\<bar>n\<bar> > MAX_SAFE_INTEGER" "value_at x ps = Some (JInt n)"
      "q = shown_path (position_text (child_path path k) ps)" by blast
  with \<open>map_of d k = Some x\<close> show ?case by (intro conjI exI [of _ "Key k # ps"]) auto
qed auto

lemma collect_unsafe_complete:
  "value_at v ps = Some (JInt n) \<Longrightarrow> \<bar>n\<bar> > MAX_SAFE_INTEGER \<Longrightarrow>
     (shown_path (position_text path ps), n) \<in> set (collect_unsafe_expect_integers v path)"
proof (induction ps arbitrary: v path)
  case Nil
  then show ?case by (simp add: shown_path_def)
next
  case (Cons p ps)
  then obtain w where w: "child v p = Some w" "value_at w ps = Some (JInt n)"
    by (auto split: option.splits)
  from Cons.IH [OF w(2) Cons.prems(2)]
  have IH: "(shown_path (position_text (step_text path p) ps), n)
      \<in> set (collect_unsafe_expect_integers w (step_text path p))" .
  show ?case
  proof (cases "(v, p)" rule: child.cases)
    case (1 d k)
    with w(1) have "(k, w) \<in> set d" by (auto dest: map_of_SomeD)
    with 1 IH show ?thesis by force
  next
    case (2 xs i)
    with w(1) have "(i, w) \<in> set (enum xs)" by (auto simp: set_enum split: if_splits)
    with 2 IH show ?thesis by force
  qed (use w in auto)
qed

lemma collect_b64_obj_mem:
  assumes "(j, w) \<in> set d" and "\<not> is_str w"
    and "x \<in> set (collect_b64_fields w (child_path path j))"
  shows "x \<in> set (collect_b64_fields (JObj d) path)"
proof -
  have "x \<in> set ((\<lambda>(k, v). case v of
         JStr s \<Rightarrow> if is_b64_field k then [(child_path path k, s)]
                    else collect_b64_fields v (child_path path k)
       | _ \<Rightarrow> collect_b64_fields v (child_path path k)) (j, w))"
    using assms(2,3) by (cases w) auto
  with assms(1) show ?thesis
    unfolding collect_b64_fields.simps set_concat set_map by blast
qed

lemma collect_b64_complete:
  "value_at v (ps @ [Key k]) = Some (JStr s) \<Longrightarrow> is_b64_field k \<Longrightarrow>
     (position_text path (ps @ [Key k]), s) \<in> set (collect_b64_fields v path)"
proof (induction ps arbitrary: v path)
  case Nil
  then obtain d where v: "v = JObj d" and k: "map_of d k = Some (JStr s)"
    by (cases "(v, Key k)" rule: child.cases) (auto split: option.splits)
  from k have "(k, JStr s) \<in> set d" by (rule map_of_SomeD)
  with v Nil.prems(2) show ?case by force
next
  case (Cons p ps)
  then obtain w where w: "child v p = Some w" "value_at w (ps @ [Key k]) = Some (JStr s)"
    by (auto split: option.splits)
  from Cons.IH [OF w(2) Cons.prems(2)]
  have IH: "(position_text (step_text path p) (ps @ [Key k]), s)
      \<in> set (collect_b64_fields w (step_text path p))" .
  have w_str: "\<not> is_str w" using w(2) by (cases w; cases ps) (auto split: option.splits)
  show ?case
  proof (cases "(v, p)" rule: child.cases)
    case (1 d j)
    with w(1) have "(j, w) \<in> set d" by (auto dest: map_of_SomeD)
    with IH w_str have "(position_text (step_text path p) (ps @ [Key k]), s)
        \<in> set (collect_b64_fields (JObj d) path)"
      using 1 by (intro collect_b64_obj_mem) simp_all
    with 1 show ?thesis by simp
  next
    case (2 xs i)
    with w(1) have "(i, w) \<in> set (enum xs)" by (auto simp: set_enum split: if_splits)
    with 2 IH show ?thesis by force
  qed (use w in auto)
qed

end
