(* ===== verification/VectorCheck.thy ===== *)
theory VectorCheck
  imports VectorShape
begin

text \<open>
  \<open>main\<close> of \<open>tools/validate_vectors.py\<close>. The body of its loop over the vector files is cut at the
  source's own blank lines into one definition per paragraph; each returns the messages it
  appends to \<open>bad\<close>, or the exception Python raises there. The state the loop carries is the
  record \<open>vstate\<close>. File names are relative to the repository root.
\<close>

subsection \<open>State\<close>

record vstate =
  bad :: "(string \<times> string) list"
  seen_vector_ids :: "string \<rightharpoonup> string"
  positive_object_types :: "string list"
  invalid_selector_vectors_seen :: "string list"

definition vstate_init :: vstate where
  "vstate_init = \<lparr>bad = [], seen_vector_ids = Map.empty, positive_object_types = [],
     invalid_selector_vectors_seen = []\<rparr>"

definition VECTORS_DIR :: string where
  "VECTORS_DIR = ''conformance/vectors''"

definition OBJECT_DIR :: string where
  "OBJECT_DIR = ''conformance/vectors/object''"

subsection \<open>Identifiers\<close>

text \<open>
  The tests on \<open>vector_id\<close>. A value that is not a string is reported first, and then makes the
  substring test or the call of \<open>split\<close> raise, unless it is a list or a dict the test accepts.
\<close>

definition check_vector_id :: "(string \<rightharpoonup> string) \<Rightarrow> string \<Rightarrow> string \<Rightarrow> bool \<Rightarrow> json \<Rightarrow> string list res" where
  "check_vector_id seen rel expected_name is_object_vector vid =
     (let dup = (case vid of
                   JStr s \<Rightarrow> (case seen s of
                               Some previous \<Rightarrow> [''duplicate vector_id also used by '' @ previous]
                             | None \<Rightarrow> [])
                 | _ \<Rightarrow> [''vector_id must be string'']);
          stem = (if vid \<noteq> JStr expected_name
                  then [''vector_id must match filename stem ('' @ expected_name @ '')''] else [])
      in bindE (str_in ''-WA-'' vid) (\<lambda>is_wa.
         bindE (if \<not> is_wa then Inr []
                else case vid of
                       JStr s \<Rightarrow> Inr (if looks_like_wa_id s then []
                                      else [''Wave-A vector_id must match POS/NEG-<AREA>-WA-####''])
                     | _ \<Rightarrow> Inl AttributeError) (\<lambda>wa.
         bindE (if \<not> is_object_vector then Inr []
                else case vid of
                       JStr s \<Rightarrow> Inr (if looks_like_object_id s then []
                                      else [''typed-object vector_id must match POS/NEG-OBJ-###''])
                     | _ \<Rightarrow> Inl AttributeError) (\<lambda>obj.
         Inr (dup @ stem @ wa @ obj)))))"

definition note_vector_id :: "string \<Rightarrow> json \<Rightarrow> vstate \<Rightarrow> vstate" where
  "note_vector_id rel vid st =
     (case vid of
        JStr s \<Rightarrow> (if seen_vector_ids st s = None
                    then st\<lparr>seen_vector_ids := (seen_vector_ids st)(s \<mapsto> rel)\<rparr> else st)
      | _ \<Rightarrow> st)"

subsection \<open>Object selectors\<close>

text \<open>The messages, the object type a positive vector covers and the selector vector seen.\<close>

definition check_object_type ::
  "string \<Rightarrow> dict \<Rightarrow> dict \<Rightarrow> json \<Rightarrow> bool \<Rightarrow> (string list \<times> string list \<times> string list) res" where
  "check_object_type op input obj vid is_object_vector =
     (case map_of input ''object_type'' of
        None \<Rightarrow>
          Inr (if is_object_vector then [''typed-object vectors must include input.object_type''] else [],
               [], [])
      | Some object_type \<Rightarrow>
          if op \<noteq> ''dagcbor_validate''
          then Inr ([''object_type is only valid for dagcbor_validate''], [], [])
          else (case object_type of
              JStr t \<Rightarrow>
                if t \<notin> set TYPED_OBJECT_TYPES then
                  (if \<not> is_object_vector then Inr ([''unknown object_type: '' @ t], [], [])
                   else bindE (in_strs vid [''NEG-OBJ-098'', ''NEG-OBJ-099'']) (\<lambda>known.
                     Inr (if \<not> known then ([''unknown object_type: '' @ t], [], [])
                          else ([], [], [json_str vid]))))
                else if is_object_vector then
                  (case vid of
                     JStr s \<Rightarrow>
                       if starts_with s ''POS-OBJ-'' then
                         bindE (attr_get (dict_get_or obj ''expect'' (JObj [])) ''pass'') (\<lambda>pass.
                           Inr (if \<not> is_true pass
                                then ([''positive typed-object vector must set expect.pass to true''], [], [])
                                else ([], [t], [])))
                       else Inr ([], [], [])
                   | _ \<Rightarrow> Inl AttributeError)
                else Inr ([], [], [])
            | _ \<Rightarrow>
                Inr (if \<not> is_object_vector \<or> vid \<noteq> JStr ''NEG-OBJ-097''
                     then ([''object_type must be string except in NEG-OBJ-097''], [], [])
                     else ([], [], [''NEG-OBJ-097'']))))"

definition check_selector_diag :: "dict \<Rightarrow> json \<Rightarrow> string list res" where
  "check_selector_diag obj vid =
     bindE (in_strs vid INVALID_OBJECT_SELECTOR_VECTOR_IDS) (\<lambda>known.
       if \<not> known then Inr []
       else case map_of INVALID_OBJECT_SELECTOR_EXPECTED_DIAG (json_str vid) of
              None \<Rightarrow> Inl (KeyError (json_str vid))
            | Some expected_diag \<Rightarrow>
                (let expect = dict_get_or obj ''expect'' (JObj []);
                     msg = ''selector-boundary vector must reject with '' @ expected_diag in
                 bindE (attr_get_or expect ''diag_contains'' (JArr [])) (\<lambda>expected_diags.
                 bindE (attr_get expect ''pass'') (\<lambda>pass.
                   if \<not> is_false pass then Inr [msg]
                   else bindE (str_in expected_diag expected_diags) (\<lambda>found.
                     Inr (if \<not> found then [msg] else []))))))"

subsection \<open>Texts, base64 fields and integers\<close>

definition has_placeholder :: "string \<Rightarrow> bool" where
  "has_placeholder s = list_ex (\<lambda>tok. contains (str_lower s) tok) PLACEHOLDER_TOKENS"

text \<open>Only the first offending string is reported.\<close>

definition check_placeholders :: "json \<Rightarrow> string list" where
  "check_placeholders obj =
     (case filter has_placeholder (walk_strings obj) of
        [] \<Rightarrow> []
      | s # _ \<Rightarrow> [''contains forbidden placeholder token in string: '' @ str_repr s])"

definition check_b64_fields :: "json \<Rightarrow> string list" where
  "check_b64_fields obj =
     map (\<lambda>(field_path, _). ''invalid base64 in field '' @ field_path)
       (filter (\<lambda>(_, value). \<not> validate_b64 value) (collect_b64_fields obj []))"

definition unsafe_integer_msg :: "string \<times> int \<Rightarrow> string" where
  "unsafe_integer_msg p =
     fst p @ '' uses integer '' @ int_str (snd p) @
     '' outside the JSON safe range; encode unsafe output integers as decimal strings''"

definition check_expect_integers :: "dict \<Rightarrow> string list res" where
  "check_expect_integers obj =
     bindE (mapE (\<lambda>expect_key.
         bindE (attr_get (dict_get_or obj ''expect'' (JObj [])) expect_key) (\<lambda>expect_value.
           Inr (if is_none expect_value then []
                else map unsafe_integer_msg
                       (collect_unsafe_expect_integers expect_value (''expect.'' @ expect_key)))))
         [''out'', ''out_equals''])
       (\<lambda>mss. Inr (concat mss))"

subsection \<open>Shapes of the operations\<close>

definition bucket_at :: "string \<Rightarrow> nat \<Rightarrow> string" where
  "bucket_at bucket i = path_idx bucket i"

definition check_record :: "bool \<Rightarrow> string \<Rightarrow> nat \<times> json \<Rightarrow> string list res" where
  "check_record allow bucket p =
     (case snd p of
        JObj rec \<Rightarrow>
          if allow then Inr []
          else bindE (validate_manifest_record_shape rec) (\<lambda>err.
            Inr (case err of None \<Rightarrow> [] | Some e \<Rightarrow> [bucket_at bucket (fst p) @ '': '' @ e]))
      | _ \<Rightarrow> Inr [bucket_at bucket (fst p) @ '' must be object''])"

definition check_bucket :: "bool \<Rightarrow> dict \<Rightarrow> string \<Rightarrow> string list res" where
  "check_bucket allow input bucket =
     bindE (py_iter (dict_get_or input bucket (JArr []))) (\<lambda>records.
     bindE (mapE (check_record allow bucket) (enum records)) (\<lambda>mss. Inr (concat mss)))"

text \<open>Whether the vector expects exactly this rejection: not passing, with the given diagnostic.\<close>

definition expects_rejection :: "dict \<Rightarrow> string \<Rightarrow> bool res" where
  "expects_rejection obj diag =
     (let expect = dict_get_or obj ''expect'' (JObj []) in
      bindE (attr_get expect ''pass'') (\<lambda>pass.
      bindE (attr_get_or expect ''diag_contains'' (JArr [])) (\<lambda>expected_diags.
        if truthy pass then Inr False else str_in diag expected_diags)))"

definition check_manifest_resolve :: "dict \<Rightarrow> dict \<Rightarrow> string list res" where
  "check_manifest_resolve obj input =
     (let eligible = concat (map (\<lambda>key.
            if \<not> is_list (dict_get input key) then [key @ '' must be array''] else [])
            [''eligible_records'', ''eligible_tombstones'']);
          ineligible = concat (map (\<lambda>key.
            if has_key input key \<and> \<not> is_list (dict_get input key)
            then [key @ '' must be array when present''] else [])
            [''ineligible_records'', ''ineligible_tombstones''])
      in bindE (expects_rejection obj ''GRAIN_ERR_MANIFEST_OP'') (\<lambda>allow.
         bindE (mapE (check_bucket allow input)
           [''eligible_records'', ''ineligible_records'', ''eligible_tombstones'', ''ineligible_tombstones''])
         (\<lambda>mss. Inr (eligible @ ineligible @ concat mss))))"

definition check_cborseq_stream :: "dict \<Rightarrow> dict \<Rightarrow> string list res" where
  "check_cborseq_stream obj input =
     (let has_seq = has_key input ''cborseq_b64''; has_segments = has_key input ''segments_b64'' in
      bindE (attr_get (dict_get_or obj ''expect'' (JObj [])) ''pass'') (\<lambda>_.
      bindE (in_strs (dict_get input ''stream_kind'') [''ledger'', ''manifest'']) (\<lambda>stream_kind_valid.
        let xor_input_form_valid = (has_seq \<noteq> has_segments);
            violations = of_bool (\<not> stream_kind_valid) + of_bool (\<not> xor_input_form_valid) :: nat
        in bindE (expects_rejection obj ''GRAIN_ERR_SCHEMA'') (\<lambda>rejects.
          let allow = (rejects \<and> violations = 1);
              kind = (if \<not> allow \<and> \<not> stream_kind_valid
                      then [''stream_kind must be '' @ str_repr ''ledger'' @ '' or '' @ str_repr ''manifest'']
                      else []);
              form = (if \<not> allow \<and> \<not> xor_input_form_valid
                      then [''parse_cborseq_stream_v1 requires exactly one of cborseq_b64 or segments_b64'']
                      else []);
              segs = (if \<not> has_segments then []
                      else case dict_get input ''segments_b64'' of
                             JArr segments \<Rightarrow>
                               concat (map (\<lambda>(i, seg).
                                 if \<not> is_str seg
                                 then [path_idx ''segments_b64'' i @ '' must be string''] else [])
                                 (enum segments))
                           | _ \<Rightarrow> [''segments_b64 must be array''])
          in Inr (kind @ form @ segs)))))"

definition check_ledger_reduce :: "dict \<Rightarrow> string list" where
  "check_ledger_reduce input =
     (case dict_get input ''events'' of
        JArr events \<Rightarrow>
          concat (map (\<lambda>(i, ev).
            case ev of
              JObj d \<Rightarrow> (case validate_ledger_event_shape d of
                           None \<Rightarrow> []
                         | Some e \<Rightarrow> [path_idx ''events'' i @ '': '' @ e])
            | _ \<Rightarrow> [path_idx ''events'' i @ '' must be object'']) (enum events))
      | _ \<Rightarrow> [''events must be array''])"

subsection \<open>One vector\<close>

definition check_operation :: "string \<Rightarrow> dict \<Rightarrow> dict \<Rightarrow> string list res" where
  "check_operation op obj input =
     (if op = ''manifest_resolve'' then check_manifest_resolve obj input
      else if op = ''parse_cborseq_stream_v1'' then check_cborseq_stream obj input
      else if op = ''ledger_reduce'' then Inr (check_ledger_reduce input)
      else Inr [])"

text \<open>The paragraphs after \<open>input\<close> is known to be an object.\<close>

definition check_body ::
  "string \<Rightarrow> string list \<Rightarrow> dict \<Rightarrow> dict \<Rightarrow> bool \<Rightarrow> (string list \<times> string list \<times> string list) res" where
  "check_body op required obj input is_object_vector =
     (let vid = dict_get obj ''vector_id'';
          missing_input = list_minus required (dict_keys input);
          m1 = (if missing_input \<noteq> []
                then [''missing op input keys: '' @ strs_repr (py_sorted missing_input)] else []);
          m3 = (if is_object_vector \<and> op \<noteq> ''dagcbor_validate''
                then [''typed-object vectors must use dagcbor_validate''] else [])
      in bindE (check_object_type op input obj vid is_object_vector) (\<lambda>(m2, pos, sel).
         bindE (check_selector_diag obj vid) (\<lambda>m4.
         bindE (check_expect_integers obj) (\<lambda>m7.
         bindE (check_operation op obj input) (\<lambda>m8.
           Inr (m1 @ m2 @ m3 @ m4 @ check_placeholders (JObj obj) @ check_b64_fields (JObj obj) @
                m7 @ m8, pos, sel))))))"

definition add_bad :: "string \<Rightarrow> string list \<Rightarrow> vstate \<Rightarrow> vstate" where
  "add_bad rel ms st = st\<lparr>bad := bad st @ map (\<lambda>m. (rel, m)) ms\<rparr>"

definition check_strict :: "dict \<Rightarrow> string list" where
  "check_strict obj =
     (if \<not> is_true (dict_get obj ''strict'') then [''strict must be true for v0.1 vectors''] else [])"

text \<open>The rest of the loop body once \<open>op\<close> is known.\<close>

definition check_input :: "vstate \<Rightarrow> string \<Rightarrow> string \<Rightarrow> dict \<Rightarrow> bool \<Rightarrow> vstate res" where
  "check_input st rel op obj is_object_vector =
     (case dict_get obj ''input'' of
        JObj input \<Rightarrow>
          (case map_of REQUIRED_INPUT_BY_OP op of
             None \<Rightarrow> Inl (KeyError op)
           | Some required \<Rightarrow>
               bindE (check_body op required obj input is_object_vector) (\<lambda>(ms, pos, sel).
                 Inr ((add_bad rel ms st)
                   \<lparr>positive_object_types := positive_object_types st @ pos,
                    invalid_selector_vectors_seen := invalid_selector_vectors_seen st @ sel\<rparr>)))
      | _ \<Rightarrow> Inr (add_bad rel [''input must be object''] st))"

text \<open>The body of the loop for the file \<open>rel\<close> holding the JSON value \<open>v\<close>.\<close>

definition check_vector :: "vstate \<Rightarrow> string \<Rightarrow> json \<Rightarrow> vstate res" where
  "check_vector st rel v =
     (case v of
        JObj obj \<Rightarrow>
          (let missing = list_minus REQUIRED_TOP (dict_keys obj) in
           if missing \<noteq> []
           then Inr (add_bad rel [''missing top-level keys: '' @ strs_repr (py_sorted missing)] st)
           else
             (let vid = dict_get obj ''vector_id'';
                  op = dict_get obj ''op'';
                  is_object_vector = (path_parent rel = OBJECT_DIR)
              in bindE (check_vector_id (seen_vector_ids st) rel (path_stem rel) is_object_vector vid) (\<lambda>ids.
                 let st1 = add_bad rel (ids @ check_strict obj) (note_vector_id rel vid st)
                 in bindE (in_strs op (map fst REQUIRED_INPUT_BY_OP)) (\<lambda>known.
                    if \<not> known then Inr (add_bad rel [''unknown op: '' @ json_str op] st1)
                    else check_input st1 rel (json_str op) obj is_object_vector))))
      | _ \<Rightarrow> Inl AttributeError)"

subsection \<open>The run over all vectors\<close>

definition check_vector_file :: "env \<Rightarrow> vstate \<Rightarrow> string \<Rightarrow> vstate res" where
  "check_vector_file w st rel = bindE (read_json w rel) (check_vector st rel)"

definition check_coverage :: "vstate \<Rightarrow> (string \<times> string) list" where
  "check_coverage st =
     (let missing_pos = py_sorted (list_minus TYPED_OBJECT_TYPES (positive_object_types st));
          missing_sel = py_sorted (list_minus INVALID_OBJECT_SELECTOR_VECTOR_IDS
                                     (invalid_selector_vectors_seen st))
      in (if missing_pos \<noteq> []
          then [(OBJECT_DIR, ''missing positive typed-object coverage: '' @ strs_repr missing_pos)]
          else []) @
         (if missing_sel \<noteq> []
          then [(OBJECT_DIR, ''missing invalid object-selector coverage: '' @ strs_repr missing_sel)]
          else []))"

definition vector_files :: "env \<Rightarrow> string list" where
  "vector_files w = sort_key path_parts (dir_glob w VECTORS_DIR ''**/*.json'')"

text \<open>Every entry of \<open>bad\<close> at the end of the run.\<close>

definition validate_vectors :: "env \<Rightarrow> (string \<times> string) list res" where
  "validate_vectors w =
     bindE (foldE (check_vector_file w) vstate_init (vector_files w)) (\<lambda>st.
       Inr (bad st @ check_coverage st))"

definition vectors_main :: "env \<Rightarrow> (nat \<times> string list) res" where
  "vectors_main w =
     bindE (validate_vectors w) (\<lambda>bads.
       Inr (if bads \<noteq> [] then (1, map (\<lambda>(f, err). ''[BAD] '' @ f @ '': '' @ err) bads)
            else (0, [''Vectors schema: OK''])))"

end
