(* ===== verification/VectorProps.thy ===== *)
theory VectorProps
  imports VectorCheck
begin

text \<open>
  What a clean run of \<open>tools/validate_vectors.py\<close> guarantees about the corpus. The lemmas read
  off, paragraph by paragraph, what it means that a paragraph added no message; an induction over
  the files then gives the properties of the whole run.
\<close>

subsection \<open>Specification of a vector\<close>

definition expect_of :: "dict \<Rightarrow> json" where
  "expect_of obj = dict_get_or obj ''expect'' (JObj [])"

definition vector_ok :: "string \<Rightarrow> json \<Rightarrow> bool" where
  "vector_ok rel v \<longleftrightarrow>
     (\<exists>obj input op required.
        v = JObj obj \<and>
        dict_get obj ''vector_id'' = JStr (path_stem rel) \<and>
        dict_get obj ''strict'' = JBool True \<and>
        dict_get obj ''op'' = JStr op \<and>
        map_of REQUIRED_INPUT_BY_OP op = Some required \<and>
        dict_get obj ''input'' = JObj input \<and>
        (\<forall>k\<in>set required. has_key input k) \<and>
        (\<forall>s. sub_value (JStr s) v \<longrightarrow> \<not> has_placeholder s) \<and>
        (\<forall>ps k s. value_at v (ps @ [Key k]) = Some (JStr s) \<and> is_b64_field k
            \<longrightarrow> b64decode s \<noteq> None) \<and>
        (\<forall>key\<in>{''out'', ''out_equals''}. \<forall>ps n.
            value_at v (Key ''expect'' # Key key # ps) = Some (JInt n) \<longrightarrow> \<bar>n\<bar> \<le> MAX_SAFE_INTEGER))"

text \<open>The positive vector that covers an object type.\<close>

definition covers_type :: "string \<Rightarrow> json \<Rightarrow> string \<Rightarrow> bool" where
  "covers_type rel v t \<longleftrightarrow>
     (\<exists>obj input expect.
        v = JObj obj \<and> path_parent rel = OBJECT_DIR \<and> starts_with (path_stem rel) ''POS-OBJ-'' \<and>
        dict_get obj ''op'' = JStr ''dagcbor_validate'' \<and>
        dict_get obj ''input'' = JObj input \<and> dict_get input ''object_type'' = JStr t \<and>
        expect_of obj = JObj expect \<and> dict_get expect ''pass'' = JBool True)"

subsection \<open>Paragraphs that add no message\<close>

lemma check_vector_id_clean:
  assumes "check_vector_id seen rel stem is_obj vid = Inr []"
  shows "vid = JStr stem" and "seen stem = None"
    and "contains stem ''-WA-'' \<Longrightarrow> looks_like_wa_id stem"
    and "is_obj \<Longrightarrow> looks_like_object_id stem"
proof -
  have vid: "vid = JStr stem"
    using assms by (auto simp: check_vector_id_def res_simps Let_def split: if_splits)
  then show "vid = JStr stem" .
  show "seen stem = None" "contains stem ''-WA-'' \<Longrightarrow> looks_like_wa_id stem"
    "is_obj \<Longrightarrow> looks_like_object_id stem"
    using assms unfolding vid
    by (auto simp: check_vector_id_def res_simps Let_def split: if_splits option.splits)
qed

lemma check_placeholders_clean:
  "check_placeholders v = [] \<longleftrightarrow> (\<forall>s. sub_value (JStr s) v \<longrightarrow> \<not> has_placeholder s)"
  by (auto simp: check_placeholders_def filter_empty_conv walk_strings_iff split: list.splits)
     (metis filter_empty_conv list.distinct(1) walk_strings_iff)

lemma check_b64_fields_clean:
  assumes "check_b64_fields v = []" and "value_at v (ps @ [Key k]) = Some (JStr s)"
    and "is_b64_field k"
  shows "b64decode s \<noteq> None"
  using collect_b64_complete [OF assms(2,3), of "[]"] assms(1)
  by (auto simp: check_b64_fields_def filter_empty_conv validate_b64_def)

lemma check_expect_integers_clean:
  assumes clean: "check_expect_integers obj = Inr []"
    and key: "key \<in> {''out'', ''out_equals''}"
    and at: "value_at (JObj obj) (Key ''expect'' # Key key # ps) = Some (JInt n)"
  shows "\<bar>n\<bar> \<le> MAX_SAFE_INTEGER"
proof (rule ccontr)
  assume big: "\<not> \<bar>n\<bar> \<le> MAX_SAFE_INTEGER"
  from at obtain ev where ev: "map_of obj ''expect'' = Some ev"
      "value_at ev (Key key # ps) = Some (JInt n)"
    by (auto split: option.splits)
  then obtain ed where ed: "ev = JObj ed" by (cases ev) (auto split: option.splits)
  with ev obtain x where e: "map_of obj ''expect'' = Some (JObj ed)" "map_of ed key = Some x"
      and x: "value_at x ps = Some (JInt n)"
    by (auto split: option.splits)
  from big have "\<bar>n\<bar> > MAX_SAFE_INTEGER" by simp
  from collect_unsafe_complete [OF x this, of "''expect.'' @ key"]
  have "collect_unsafe_expect_integers x (''expect.'' @ key) \<noteq> []"
    by (metis empty_iff list.set(1))
  moreover have "x \<noteq> JNull" using x by (cases ps) auto
  ultimately have "\<not> (\<forall>k\<in>{''out'', ''out_equals''}.
      (let y = dict_get ed k in is_none y \<or> collect_unsafe_expect_integers y (''expect.'' @ k) = []))"
    using key e by (auto simp: dict_get_def is_none_def Let_def)
  then show False
    using clean e
    by (auto simp: check_expect_integers_def res_simps dict_get_or_def list_all2_Cons1 Let_def
        split: if_splits)
qed

lemma check_object_type_pos:
  assumes "check_object_type op input obj vid is_obj = Inr ([], pos, sel)" and "t \<in> set pos"
  shows "op = ''dagcbor_validate''" and "dict_get input ''object_type'' = JStr t" and "is_obj"
    and "\<exists>s. vid = JStr s \<and> starts_with s ''POS-OBJ-''"
    and "\<exists>e. expect_of obj = JObj e \<and> dict_get e ''pass'' = JBool True"
  using assms
  by (auto simp: check_object_type_def dict_get_def expect_of_def is_true_def res_simps
      split: option.splits if_splits json.splits)

lemma check_body_clean:
  assumes "check_body op required obj input is_obj = Inr ([], pos, sel)"
  shows "set required \<subseteq> set (dict_keys input)"
    and "check_object_type op input obj (dict_get obj ''vector_id'') is_obj = Inr ([], pos, sel)"
    and "check_placeholders (JObj obj) = []" and "check_b64_fields (JObj obj) = []"
    and "check_expect_integers obj = Inr []"
    and "check_selector_diag obj (dict_get obj ''vector_id'') = Inr []"
    and "check_operation op obj input = Inr []"
  using assms
  by (auto simp: check_body_def res_simps Let_def list_minus_Nil_iff split: if_splits)

lemma add_bad_simps [simp]:
  "bad (add_bad rel ms st) = bad st @ map (\<lambda>m. (rel, m)) ms"
  "seen_vector_ids (add_bad rel ms st) = seen_vector_ids st"
  "positive_object_types (add_bad rel ms st) = positive_object_types st"
  "invalid_selector_vectors_seen (add_bad rel ms st) = invalid_selector_vectors_seen st"
  by (simp_all add: add_bad_def)

lemma note_vector_id_simps [simp]:
  "bad (note_vector_id rel vid st) = bad st"
  "positive_object_types (note_vector_id rel vid st) = positive_object_types st"
  "invalid_selector_vectors_seen (note_vector_id rel vid st) = invalid_selector_vectors_seen st"
  by (simp_all add: note_vector_id_def split: json.splits)

subsection \<open>One vector\<close>

lemma check_input_bad_grows:
  "check_input st rel op obj is_obj = Inr st' \<Longrightarrow> bad st' = [] \<Longrightarrow> bad st = []"
  by (auto simp: check_input_def bindE_Inr split: json.splits option.splits)

lemma check_input_clean:
  assumes "check_input st rel op obj is_obj = Inr st'" and "bad st' = []"
  obtains input required pos sel where
    "dict_get obj ''input'' = JObj input" "map_of REQUIRED_INPUT_BY_OP op = Some required"
    "check_body op required obj input is_obj = Inr ([], pos, sel)"
    "seen_vector_ids st' = seen_vector_ids st"
    "positive_object_types st' = positive_object_types st @ pos"
    "invalid_selector_vectors_seen st' = invalid_selector_vectors_seen st @ sel"
  using assms by (auto simp: check_input_def bindE_Inr split: json.splits option.splits)

lemma check_strict_clean: "check_strict obj = [] \<longleftrightarrow> dict_get obj ''strict'' = JBool True"
  by (simp add: check_strict_def is_true_def)

lemma check_vector_clean:
  assumes run: "check_vector st rel v = Inr st'" and clean: "bad st' = []"
  obtains obj input op required pos sel where
    "v = JObj obj" "dict_get obj ''vector_id'' = JStr (path_stem rel)"
    "seen_vector_ids st (path_stem rel) = None"
    "dict_get obj ''strict'' = JBool True" "dict_get obj ''op'' = JStr op"
    "map_of REQUIRED_INPUT_BY_OP op = Some required" "dict_get obj ''input'' = JObj input"
    "check_body op required obj input (path_parent rel = OBJECT_DIR) = Inr ([], pos, sel)"
    "bad st = []"
    "seen_vector_ids st' = (seen_vector_ids st)(path_stem rel \<mapsto> rel)"
    "positive_object_types st' = positive_object_types st @ pos"
    "invalid_selector_vectors_seen st' = invalid_selector_vectors_seen st @ sel"
proof -
  from run obtain obj where v: "v = JObj obj" by (cases v) (auto simp: check_vector_def)
  let ?vid = "dict_get obj ''vector_id''"
  from run clean v obtain ids known where
      ids: "check_vector_id (seen_vector_ids st) rel (path_stem rel) (path_parent rel = OBJECT_DIR) ?vid = Inr ids"
    and known: "in_strs (dict_get obj ''op'') (map fst REQUIRED_INPUT_BY_OP) = Inr known"
    and rest: "(let st1 = add_bad rel (ids @ check_strict obj) (note_vector_id rel ?vid st)
       in if \<not> known then Inr (add_bad rel [''unknown op: '' @ json_str (dict_get obj ''op'')] st1)
          else check_input st1 rel (json_str (dict_get obj ''op'')) obj (path_parent rel = OBJECT_DIR)) = Inr st'"
    unfolding check_vector_def by (fastforce simp: Let_def bindE_Inr split: if_split_asm)
  let ?st1 = "add_bad rel (ids @ check_strict obj) (note_vector_id rel ?vid st)"
  from rest clean have known_True: known by (auto simp: Let_def split: if_splits)
  with known obtain op where op: "dict_get obj ''op'' = JStr op" by (auto simp: in_strs_True)
  from rest known_True op
  have ci: "check_input ?st1 rel op obj (path_parent rel = OBJECT_DIR) = Inr st'"
    by (simp add: Let_def)
  from check_input_bad_grows [OF ci clean]
  have e: "ids = []" "check_strict obj = []" "bad st = []" by simp_all
  from ids e(1) have vid: "?vid = JStr (path_stem rel)" and fresh: "seen_vector_ids st (path_stem rel) = None"
    using check_vector_id_clean by blast+
  have seen1: "seen_vector_ids ?st1 = (seen_vector_ids st)(path_stem rel \<mapsto> rel)"
    using vid fresh by (simp add: note_vector_id_def)
  from check_input_clean [OF ci clean] obtain input required pos sel where i:
      "dict_get obj ''input'' = JObj input" "map_of REQUIRED_INPUT_BY_OP op = Some required"
      "check_body op required obj input (path_parent rel = OBJECT_DIR) = Inr ([], pos, sel)"
      "seen_vector_ids st' = seen_vector_ids ?st1"
      "positive_object_types st' = positive_object_types ?st1 @ pos"
      "invalid_selector_vectors_seen st' = invalid_selector_vectors_seen ?st1 @ sel" .
  from i(4) seen1 have seen: "seen_vector_ids st' = (seen_vector_ids st)(path_stem rel \<mapsto> rel)"
    by simp
  show thesis
    by (rule that [OF v vid fresh e(2) [unfolded check_strict_clean] op i(2,1,3) e(3) seen])
       (simp_all add: i(5,6))
qed

lemma check_vector_clean_ok:
  assumes "check_vector st rel v = Inr st'" and "bad st' = []"
  shows "vector_ok rel v"
  using assms
proof (rule check_vector_clean)
  fix obj input op required pos sel
  assume v: "v = JObj obj" and f: "dict_get obj ''vector_id'' = JStr (path_stem rel)"
    "dict_get obj ''strict'' = JBool True" "dict_get obj ''op'' = JStr op"
    "map_of REQUIRED_INPUT_BY_OP op = Some required" "dict_get obj ''input'' = JObj input"
    and body: "check_body op required obj input (path_parent rel = OBJECT_DIR) = Inr ([], pos, sel)"
  note c = check_body_clean [OF body]
  have k: "\<forall>k\<in>set required. has_key input k"
    using c(1) by (auto simp: has_key_def dict_keys_def)
  show "vector_ok rel v"
    unfolding vector_ok_def v
    using f k c(3) check_b64_fields_clean [OF c(4)] check_expect_integers_clean [OF c(5)]
    by (auto simp: check_placeholders_clean)
qed

lemma check_vector_clean_covers:
  assumes "check_vector st rel v = Inr st'" and "bad st' = []"
    and "t \<in> set (positive_object_types st')" and "t \<notin> set (positive_object_types st)"
  shows "covers_type rel v t"
  using assms(1,2)
proof (rule check_vector_clean)
  fix obj input op required pos sel
  assume v: "v = JObj obj" and vid: "dict_get obj ''vector_id'' = JStr (path_stem rel)"
    and f: "dict_get obj ''op'' = JStr op" "dict_get obj ''input'' = JObj input"
    and body: "check_body op required obj input (path_parent rel = OBJECT_DIR) = Inr ([], pos, sel)"
    and pos: "positive_object_types st' = positive_object_types st @ pos"
  from assms(3,4) pos have t: "t \<in> set pos" by auto
  note p = check_object_type_pos [OF check_body_clean(2) [OF body] t]
  show "covers_type rel v t"
    unfolding covers_type_def v using p vid f by auto
qed

subsection \<open>The run\<close>

text \<open>What holds between the files already checked and the state, as long as nothing was reported.\<close>

definition run_inv :: "env \<Rightarrow> string list \<Rightarrow> vstate \<Rightarrow> bool" where
  "run_inv w done st \<longleftrightarrow>
     (\<forall>rel\<in>set done. \<exists>v. document w rel = Some v \<and> vector_ok rel v) \<and>
     distinct (map path_stem done) \<and>
     dom (seen_vector_ids st) = path_stem ` set done \<and>
     (\<forall>t\<in>set (positive_object_types st). \<exists>rel\<in>set done. \<exists>v.
        document w rel = Some v \<and> covers_type rel v t)"

lemma foldE_bad_grows:
  "foldE (check_vector_file w) st files = Inr st' \<Longrightarrow> bad st' = [] \<Longrightarrow> bad st = []"
proof (induction files arbitrary: st)
  case (Cons f fs)
  then obtain st1 where s: "check_vector_file w st f = Inr st1" "foldE (check_vector_file w) st1 fs = Inr st'"
    by (auto simp: res_simps)
  from Cons.IH [OF s(2) Cons.prems(2)] have "bad st1 = []" .
  with s(1) show ?case
    by (auto simp: check_vector_file_def bindE_Inr elim: check_vector_clean)
qed simp

lemma foldE_run_inv:
  "foldE (check_vector_file w) st files = Inr st' \<Longrightarrow> bad st' = [] \<Longrightarrow> run_inv w done st \<Longrightarrow>
     run_inv w (done @ files) st'"
proof (induction files arbitrary: st "done")
  case (Cons f fs)
  then obtain st1 where s: "check_vector_file w st f = Inr st1" "foldE (check_vector_file w) st1 fs = Inr st'"
    by (auto simp: res_simps)
  have clean: "bad st1 = []" by (rule foldE_bad_grows [OF s(2) Cons.prems(2)])
  from s(1) obtain v where v: "document w f = Some v" and cv: "check_vector st f v = Inr st1"
    by (auto simp: check_vector_file_def bindE_Inr read_json_document)
  from check_vector_clean [OF cv clean]
  have fresh: "seen_vector_ids st (path_stem f) = None"
    and seen: "seen_vector_ids st1 = (seen_vector_ids st)(path_stem f \<mapsto> f)" by metis+
  have "run_inv w (done @ [f]) st1"
    unfolding run_inv_def
  proof (intro conjI)
    show "\<forall>rel\<in>set (done @ [f]). \<exists>v. document w rel = Some v \<and> vector_ok rel v"
      using Cons.prems(3) v check_vector_clean_ok [OF cv clean] by (auto simp: run_inv_def)
    have "path_stem f \<notin> path_stem ` set done"
      using Cons.prems(3) fresh unfolding run_inv_def by (metis domIff)
    with Cons.prems(3) show "distinct (map path_stem (done @ [f]))"
      by (auto simp: run_inv_def)
    show "dom (seen_vector_ids st1) = path_stem ` set (done @ [f])"
      using Cons.prems(3) seen by (auto simp: run_inv_def)
    show "\<forall>t\<in>set (positive_object_types st1). \<exists>rel\<in>set (done @ [f]). \<exists>v.
        document w rel = Some v \<and> covers_type rel v t"
    proof
      fix t assume t: "t \<in> set (positive_object_types st1)"
      show "\<exists>rel\<in>set (done @ [f]). \<exists>v. document w rel = Some v \<and> covers_type rel v t"
      proof (cases "t \<in> set (positive_object_types st)")
        case True
        with Cons.prems(3) show ?thesis by (auto simp: run_inv_def)
      next
        case False
        from check_vector_clean_covers [OF cv clean t False] v show ?thesis by auto
      qed
    qed
  qed
  from Cons.IH [OF s(2) Cons.prems(2) this] show ?case by simp
qed simp

lemma run_inv_init: "run_inv w [] vstate_init"
  by (simp add: run_inv_def vstate_init_def)

lemma check_coverage_Nil:
  "check_coverage st = [] \<longleftrightarrow>
     set TYPED_OBJECT_TYPES \<subseteq> set (positive_object_types st) \<and>
     set INVALID_OBJECT_SELECTOR_VECTOR_IDS \<subseteq> set (invalid_selector_vectors_seen st)"
  by (auto simp: check_coverage_def Let_def list_minus_Nil_iff split: if_splits)

subsection \<open>Examples\<close>

definition sample_vector :: "string \<Rightarrow> json \<Rightarrow> bool \<Rightarrow> string \<Rightarrow> json" where
  "sample_vector vid object_type pass diag =
     JObj [(''vector_id'', JStr vid), (''op'', JStr ''dagcbor_validate''), (''strict'', JBool True),
       (''input'', JObj [(''bytes_b64'', JStr ''oWE=''), (''object_type'', object_type)]),
       (''expect'', JObj [(''pass'', JBool pass), (''diag_contains'', JArr [JStr diag])])]"

definition sample_file :: string where
  "sample_file = ''conformance/vectors/object/POS-OBJ-003.json''"

definition sample_env :: env where
  "sample_env = docs_env [(sample_file, sample_vector ''POS-OBJ-003'' (JStr ''CookRun'') True ''OK'')]"

lemma sample_step:
  "case foldE (check_vector_file sample_env) vstate_init [sample_file] of
     Inl _ \<Rightarrow> False
   | Inr st \<Rightarrow> bad st = [] \<and> ''CookRun'' \<in> set (positive_object_types st)"
  by code_simp

subsection \<open>Properties\<close>

text \<open>C33: in a run over any files that reported nothing, every file holds a well-formed vector: its
id is the file's stem, it is strict, its operation is known and has its inputs, no string in it is
a placeholder, every base64 field decodes, and no expected output integer leaves the safe range.
No two files share an id.\<close>

theorem clean_run_vectors_ok:
  assumes run: "foldE (check_vector_file w) vstate_init files = Inr st" and clean: "bad st = []"
  shows "(\<forall>rel\<in>set files. \<exists>v. document w rel = Some v \<and> vector_ok rel v) \<and>
         distinct (map path_stem files)"
  using foldE_run_inv [OF run clean run_inv_init] by (simp add: run_inv_def)

theorem clean_run_vectors_ok_witness:
  "\<exists>v. document sample_env sample_file = Some v \<and> vector_ok sample_file v"
proof -
  obtain st where "foldE (check_vector_file sample_env) vstate_init [sample_file] = Inr st"
      "bad st = []"
    using sample_step by (auto split: sum.splits)
  from clean_run_vectors_ok [OF this] show ?thesis by simp
qed

text \<open>An object type the run counts as covered is covered by a real positive vector: a file of
the object directory with a positive id, whose typed input names the type and whose expectation is
a pass.\<close>

theorem covered_type_has_positive_vector:
  assumes run: "foldE (check_vector_file w) vstate_init files = Inr st" and clean: "bad st = []"
    and t: "t \<in> set (positive_object_types st)"
  shows "\<exists>rel\<in>set files. \<exists>v. document w rel = Some v \<and> covers_type rel v t"
  using foldE_run_inv [OF run clean run_inv_init] t by (simp add: run_inv_def)

theorem covered_type_has_positive_vector_witness:
  "\<exists>v. document sample_env sample_file = Some v \<and> covers_type sample_file v ''CookRun''"
proof -
  obtain st where "foldE (check_vector_file sample_env) vstate_init [sample_file] = Inr st"
      "bad st = []" "''CookRun'' \<in> set (positive_object_types st)"
    using sample_step by (auto split: sum.splits)
  from covered_type_has_positive_vector [OF this] show ?thesis by simp
qed

text \<open>The validator exits with 0 exactly when the loop over the vector files reports nothing and
the positive vectors and the selector vectors it met cover every typed object type and every
invalid selector id.\<close>

theorem vectors_main_success_iff:
  "(\<exists>out. vectors_main w = Inr (0, out)) \<longleftrightarrow>
     (\<exists>st. foldE (check_vector_file w) vstate_init (vector_files w) = Inr st \<and> bad st = [] \<and>
        set TYPED_OBJECT_TYPES \<subseteq> set (positive_object_types st) \<and>
        set INVALID_OBJECT_SELECTOR_VECTOR_IDS \<subseteq> set (invalid_selector_vectors_seen st))"
  unfolding check_coverage_Nil [symmetric]
  by (auto simp: vectors_main_def validate_vectors_def bindE_Inr split: if_splits)

text \<open>The integer walker finds exactly the integers outside the safe range: it reports a path
and a value when, and only when, that value sits at a position whose text is the path.\<close>

theorem unsafe_integers_exact:
  assumes "wf_json v"
  shows "(q, n) \<in> set (collect_unsafe_expect_integers v path) \<longleftrightarrow>
     \<bar>n\<bar> > MAX_SAFE_INTEGER \<and>
     (\<exists>ps. value_at v ps = Some (JInt n) \<and> q = shown_path (position_text path ps))"
  using collect_unsafe_sound [OF _ assms] collect_unsafe_complete by blast

theorem unsafe_integers_exact_witness:
  "(''expect.out.total[1]'', 9007199254740992) \<in>
     set (collect_unsafe_expect_integers
       (JObj [(''total'', JArr [JBool True, JInt 9007199254740992])]) ''expect.out'')"
proof -
  let ?v = "JObj [(''total'', JArr [JBool True, JInt 9007199254740992])]"
  have "wf_json ?v" by simp
  from unsafe_integers_exact [OF this, of _ "9007199254740992" "''expect.out''"]
  have "(shown_path (position_text ''expect.out'' [Key ''total'', Idx 1]), 9007199254740992) \<in>
      set (collect_unsafe_expect_integers ?v ''expect.out'')"
    by (auto simp: MAX_SAFE_INTEGER_def intro!: exI [of _ "[Key ''total'', Idx 1]"])
  moreover have "shown_path (position_text ''expect.out'' [Key ''total'', Idx 1]) = ''expect.out.total[1]''"
    by code_simp
  ultimately show ?thesis by simp
qed

text \<open>A vector whose id is an integer is never reported. The message is prepared, but the
substring test that follows raises \<open>TypeError\<close>, and the validator dies instead of listing the file.\<close>

theorem integer_vector_id_raises:
  "check_vector st rel
     (JObj [(''vector_id'', JInt n), (''op'', op), (''strict'', strict), (''input'', input), (''expect'', expect)])
   = Inl TypeError"
  by (simp add: check_vector_def check_vector_id_def REQUIRED_TOP_def dict_keys_def list_minus_def
      dict_get_def Let_def)

end
