(* ===== verification/PyHost.thy ===== *)
theory PyHost
  imports PyEnv "HOL-Library.Word"
begin

text \<open>
  Code that acts on the machine it runs on: subprocesses, files, directories, the clock and a
  random generator. Such code is a function of the world's state that returns a result, which may
  be an exception, and the new state: an exception does not undo what was done before it. The
  operations of the machine itself are the fields of a record, a parameter of the model.
\<close>

subsection \<open>Stateful code that may raise\<close>

type_synonym ('w, 'a) io = "'w \<Rightarrow> 'a res \<times> 'w"

definition retIO :: "'a \<Rightarrow> ('w, 'a) io" where
  "retIO x w = (Inr x, w)"

definition raiseIO :: "exc \<Rightarrow> ('w, 'a) io" where
  "raiseIO e w = (Inl e, w)"

definition bindIO :: "('w, 'a) io \<Rightarrow> ('a \<Rightarrow> ('w, 'b) io) \<Rightarrow> ('w, 'b) io" where
  "bindIO m f w = (case m w of (Inl e, w') \<Rightarrow> (Inl e, w') | (Inr x, w') \<Rightarrow> f x w')"

definition seqIO :: "('w, unit) io \<Rightarrow> ('w, 'b) io \<Rightarrow> ('w, 'b) io" where
  "seqIO m k = bindIO m (\<lambda>_. k)"

text \<open>A pure expression that may raise, a change of the state, and a step that cannot raise.\<close>

definition liftE :: "'a res \<Rightarrow> ('w, 'a) io" where
  "liftE r w = (r, w)"

definition act :: "('w \<Rightarrow> 'w) \<Rightarrow> ('w, unit) io" where
  "act f w = (Inr (), f w)"

definition stepIO :: "('w \<Rightarrow> 'a \<times> 'w) \<Rightarrow> ('w, 'a) io" where
  "stepIO f w = (case f w of (x, w') \<Rightarrow> (Inr x, w'))"

definition readIO :: "('w \<Rightarrow> 'a) \<Rightarrow> ('w, 'a) io" where
  "readIO f w = (Inr (f w), w)"

text \<open>\<open>try: m finally: c\<close>, with a clean-up that cannot raise.\<close>

definition finallyIO :: "('w, 'a) io \<Rightarrow> ('w \<Rightarrow> 'w) \<Rightarrow> ('w, 'a) io" where
  "finallyIO m c w = (case m w of (r, w') \<Rightarrow> (r, c w'))"

primrec foldIO :: "('s \<Rightarrow> 'a \<Rightarrow> ('w, 's) io) \<Rightarrow> 's \<Rightarrow> 'a list \<Rightarrow> ('w, 's) io" where
  "foldIO f s [] = retIO s"
| "foldIO f s (x # xs) = bindIO (f s x) (\<lambda>s'. foldIO f s' xs)"

primrec repeatIO :: "nat \<Rightarrow> ('w, 'a) io \<Rightarrow> ('w, 'a list) io" where
  "repeatIO 0 m = retIO []"
| "repeatIO (Suc n) m = bindIO m (\<lambda>x. bindIO (repeatIO n m) (\<lambda>xs. retIO (x # xs)))"

named_theorems io_simps

lemma retIO_Inr [io_simps]: "retIO x w = (Inr y, w') \<longleftrightarrow> x = y \<and> w = w'"
  by (simp add: retIO_def)

lemma raiseIO_Inr [io_simps]: "raiseIO e w = (Inr y, w') \<longleftrightarrow> False"
  by (simp add: raiseIO_def)

lemma liftE_Inr [io_simps]: "liftE r w = (Inr y, w') \<longleftrightarrow> r = Inr y \<and> w = w'"
  by (simp add: liftE_def)

lemma act_Inr [io_simps]: "act f w = (Inr y, w') \<longleftrightarrow> f w = w'"
  by (simp add: act_def)

lemma readIO_Inr [io_simps]: "readIO f w = (Inr y, w') \<longleftrightarrow> f w = y \<and> w = w'"
  by (simp add: readIO_def)

lemma stepIO_Inr [io_simps]: "stepIO f w = (Inr y, w') \<longleftrightarrow> f w = (y, w')"
  by (simp add: stepIO_def split: prod.split)

lemma bindIO_Inr [io_simps]:
  "bindIO m f w = (Inr y, w') \<longleftrightarrow> (\<exists>x w1. m w = (Inr x, w1) \<and> f x w1 = (Inr y, w'))"
  by (cases "m w"; cases "fst (m w)") (auto simp: bindIO_def)

lemma seqIO_Inr [io_simps]:
  "seqIO m k w = (Inr y, w') \<longleftrightarrow> (\<exists>w1. m w = (Inr (), w1) \<and> k w1 = (Inr y, w'))"
  by (simp add: seqIO_def io_simps)

lemma io_run [simp]:
  "bindIO (retIO x) f = f x" "bindIO (raiseIO e) f = raiseIO e"
  "bindIO (liftE (Inr x)) f = f x" "bindIO (liftE (Inl e)) f = raiseIO e"
  "seqIO (retIO ()) k = k" "seqIO (raiseIO e) k = raiseIO e"
  by (simp_all add: bindIO_def seqIO_def retIO_def raiseIO_def liftE_def fun_eq_iff)

lemma foldIO_invariant:
  assumes "foldIO f s xs w = (Inr t, w')" and "P s"
    and "\<And>s x v s' v'. P s \<Longrightarrow> x \<in> set xs \<Longrightarrow> f s x v = (Inr s', v') \<Longrightarrow> P s'"
  shows "P t"
  using assms
proof (induction xs arbitrary: s w)
  case Nil
  then show ?case by (simp add: io_simps)
next
  case (Cons x xs)
  from Cons.prems(1) obtain s' w1 where s': "f s x w = (Inr s', w1)"
      and rest: "foldIO f s' xs w1 = (Inr t, w')" by (auto simp: io_simps)
  have "P s'" by (rule Cons.prems(3) [OF Cons.prems(2) _ s']) simp
  with rest show ?case by (rule Cons.IH) (rule Cons.prems(3), simp_all)
qed

lemma repeatIO_length: "repeatIO n m w = (Inr xs, w') \<Longrightarrow> length xs = n"
  by (induction n arbitrary: w xs) (auto simp: io_simps)

subsection \<open>The machine\<close>

text \<open>
  What \<open>subprocess.run\<close> gives: a completed process with its return code and outputs,
  \<open>TimeoutExpired\<close> with the outputs so far, or an \<open>OSError\<close> with its number.
\<close>

datatype proc =
    Completed (returncode: int) (stdout: string) (stderr: string)
  | TimedOut (stdout: string) (stderr: string)
  | OSFail int

type_synonym 'w removal = "string \<Rightarrow> 'w \<Rightarrow> (string \<times> int option) option \<times> 'w"

text \<open>
  \<open>exec\<close> runs a command in a directory with a time limit; \<open>file_at\<close> and \<open>exists_at\<close> read the file
  system, \<open>write_at\<close>, \<open>mkdir_at\<close> and \<open>unlink_at\<close> change it; \<open>new_temp_file\<close> and \<open>new_temp_dir\<close>
  give fresh names; \<open>rmtree\<close> removes a tree, calling the handler, where there is one, on each
  entry it fails on, and gives the type name and number of the exception it raises, if it does.
\<close>

record 'w host =
  exec :: "string list \<Rightarrow> string \<Rightarrow> nat \<Rightarrow> 'w \<Rightarrow> proc \<times> 'w"
  file_at :: "'w \<Rightarrow> string \<Rightarrow> string option"
  exists_at :: "'w \<Rightarrow> string \<Rightarrow> bool"
  write_at :: "string \<Rightarrow> string \<Rightarrow> 'w \<Rightarrow> 'w"
  mkdir_at :: "string \<Rightarrow> 'w \<Rightarrow> 'w"
  unlink_at :: "string \<Rightarrow> 'w \<Rightarrow> 'w"
  new_temp_file :: "string \<Rightarrow> 'w \<Rightarrow> string \<times> 'w"
  new_temp_dir :: "string \<Rightarrow> 'w \<Rightarrow> string \<times> 'w"
  chmod_at :: "string \<Rightarrow> 'w \<Rightarrow> bool \<times> 'w"
  rmtree :: "((string \<Rightarrow> 'w \<Rightarrow> bool \<times> 'w) \<Rightarrow> string \<Rightarrow> 'w \<Rightarrow> 'w) option \<Rightarrow> 'w removal"
  print_line :: "string \<Rightarrow> 'w \<Rightarrow> 'w"
  environ :: "string \<Rightarrow> string option"
  resolve :: "string \<Rightarrow> string"
  clock :: "'w \<Rightarrow> rat \<times> 'w"
  seed_rng :: "int \<Rightarrow> 'w \<Rightarrow> 'w"
  rand_byte :: "'w \<Rightarrow> 8 word \<times> 'w"
  zip_tree :: "string \<Rightarrow> string \<Rightarrow> 'w \<Rightarrow> 'w"
  sha256_at :: "'w \<Rightarrow> string \<Rightarrow> string"
  sha256_text :: "string \<Rightarrow> string"
  parse_json :: "string \<Rightarrow> json option"

text \<open>\<open>subprocess.run(cmd, cwd=cwd, timeout=t, check=False)\<close>.\<close>

definition run :: "'w host \<Rightarrow> string list \<Rightarrow> string \<Rightarrow> nat \<Rightarrow> ('w, proc) io" where
  "run h cmd cwd t w =
     (case exec h cmd cwd t w of
        (Completed rc out err, w') \<Rightarrow> (Inr (Completed rc out err), w')
      | (TimedOut out err, w') \<Rightarrow> (Inl (TimeoutExpired out err), w')
      | (OSFail n, w') \<Rightarrow> (Inl (OSError n), w'))"

lemma run_Inr: "run h cmd cwd t w = (Inr p, w') \<Longrightarrow> \<exists>rc out err. p = Completed rc out err"
  by (auto simp: run_def split: prod.splits proc.splits)

definition host_loads :: "'w host \<Rightarrow> string \<Rightarrow> json res" where
  "host_loads h t = (case parse_json h t of None \<Rightarrow> Inl (JSONDecodeError t) | Some v \<Rightarrow> Inr v)"

definition host_read :: "'w host \<Rightarrow> string \<Rightarrow> ('w, string) io" where
  "host_read h p w =
     ((case file_at h w p of None \<Rightarrow> Inl (FileNotFoundError p) | Some t \<Rightarrow> Inr t), w)"

text \<open>\<open>path.relative_to(base)\<close>.\<close>

definition relative_to :: "string \<Rightarrow> string \<Rightarrow> string res" where
  "relative_to p base =
     (let a = path_parts p; b = path_parts base
      in if prefix b a then Inr (if a = b then ''.'' else str_join ''/'' (drop (length b) a))
         else Inl (ValueError p))"

text \<open>\<open>int(x)\<close> of a number, which truncates towards zero.\<close>

definition trunc :: "rat \<Rightarrow> int" where
  "trunc x = (if x < 0 then - floor (- x) else floor x)"

end
