(* ===== verification/JsonText.thy ===== *)
theory JsonText
  imports PyJson "HOL-Library.Multiset"
begin

text \<open>
  \<open>json.dumps\<close> with \<open>ensure_ascii=False\<close>: the plain form with chosen separators and optional
  sorting of keys, the indented form, and \<open>textwrap.dedent\<close>, which the reports use.
\<close>

subsection \<open>json.dumps\<close>

definition escape_char :: "char \<Rightarrow> string" where
  "escape_char c =
     (let n = of_char c :: nat
      in if c = dquote then [CHR 0x5C, dquote]
         else if n = 0x5C then [CHR 0x5C, CHR 0x5C]
         else if n = 8 then [CHR 0x5C, CHR ''b'']
         else if n = 9 then [CHR 0x5C, CHR ''t'']
         else if n = 10 then [CHR 0x5C, CHR ''n'']
         else if n = 12 then [CHR 0x5C, CHR ''f'']
         else if n = 13 then [CHR 0x5C, CHR ''r'']
         else if n < 32 then
           [CHR 0x5C, CHR ''u'', CHR ''0'', CHR ''0'', hex_digit (n div 16), hex_digit (n mod 16)]
         else [c])"

definition dumps_str :: "string \<Rightarrow> string" where
  "dumps_str s = dquote # concat (map escape_char s) @ [dquote]"

fun dumps_float :: "pyfloat \<Rightarrow> string \<Rightarrow> string" where
  "dumps_float PNan r = ''NaN''"
| "dumps_float PInf r = ''Infinity''"
| "dumps_float PNegInf r = ''-Infinity''"
| "dumps_float (PFin _) r = r"

text \<open>The items of a dict, with \<open>sort_keys\<close> by key.\<close>

definition sorted_items :: "(string \<times> 'a) list \<Rightarrow> (string \<times> 'a) list" where
  "sorted_items d = sort_key fst d"

fun dumps :: "string \<Rightarrow> string \<Rightarrow> bool \<Rightarrow> json \<Rightarrow> string" where
  "dumps isep ksep srt JNull = ''null''"
| "dumps isep ksep srt (JBool b) = (if b then ''true'' else ''false'')"
| "dumps isep ksep srt (JInt i) = int_str i"
| "dumps isep ksep srt (JFloat f r) = dumps_float f r"
| "dumps isep ksep srt (JStr s) = dumps_str s"
| "dumps isep ksep srt (JArr xs) = ''['' @ str_join isep (map (dumps isep ksep srt) xs) @ '']''"
| "dumps isep ksep srt (JObj d) =
     (let d' = map (\<lambda>(k, v). (k, dumps isep ksep srt v)) d;
          d'' = (if srt then sorted_items d' else d')
      in CHR 0x7B # str_join isep (map (\<lambda>(k, t). dumps_str k @ ksep @ t) d'') @ [CHR 0x7D])"

definition stable :: "json \<Rightarrow> string" where
  "stable v = dumps '','' '':'' True v"

text \<open>The indented form, at the indentation \<open>n\<close> of the line the value stands on.\<close>

definition nl_indent :: "nat \<Rightarrow> string" where
  "nl_indent n = newline # replicate n CHR '' ''"

fun dumps_indent :: "nat \<Rightarrow> nat \<Rightarrow> json \<Rightarrow> string" where
  "dumps_indent k n (JArr xs) =
     (if xs = [] then ''[]''
      else ''['' @ nl_indent (n + k) @
           str_join ('','' @ nl_indent (n + k)) (map (dumps_indent k (n + k)) xs) @
           nl_indent n @ '']'')"
| "dumps_indent k n (JObj d) =
     (if d = [] then [CHR 0x7B, CHR 0x7D]
      else [CHR 0x7B] @ nl_indent (n + k) @
           str_join ('','' @ nl_indent (n + k))
             (map (\<lambda>(key, v). dumps_str key @ '': '' @ dumps_indent k (n + k) v) d) @
           nl_indent n @ [CHR 0x7D])"
| "dumps_indent k n v = dumps '','' '': '' False v"

text \<open>The keys of every dict in order, as \<open>sort_keys\<close> writes them.\<close>

fun sort_json :: "json \<Rightarrow> json" where
  "sort_json (JArr xs) = JArr (map sort_json xs)"
| "sort_json (JObj d) = JObj (sorted_items (map (\<lambda>(k, v). (k, sort_json v)) d))"
| "sort_json v = v"

subsection \<open>textwrap.dedent\<close>

definition is_blank :: "char \<Rightarrow> bool" where
  "is_blank c = (c = CHR '' '' \<or> c = CHR 0x09)"

definition dedent :: "string \<Rightarrow> string" where
  "dedent s =
     (let rows = map (\<lambda>l. if list_all is_blank l then [] else l) (str_split [newline] s);
          margins = map (takeWhile is_blank) (filter (\<lambda>l. l \<noteq> []) rows);
          margin = (if margins = [] then [] else fold longest_common_prefix (tl margins) (hd margins))
      in str_join [newline]
           (map (\<lambda>l. if prefix margin l then drop (length margin) l else l) rows))"

subsection \<open>The stable text does not depend on the order of keys\<close>

lemma sorted_items_perm:
  assumes "mset d = mset d'" and "distinct (map fst d)"
  shows "sorted_items d = sorted_items d'"
proof -
  have "inj_on fst (set d)" using assms(2) by (simp add: distinct_map)
  then show ?thesis
    unfolding sorted_items_def using assms(1)
    by (intro sort_key_inj_key_eq) simp_all
qed

lemma stable_key_order:
  assumes "mset d = mset d'" and "distinct (map fst d)"
  shows "stable (JObj d) = stable (JObj d')"
proof -
  let ?f = "\<lambda>(k, v). (k, dumps '','' '':'' True v)"
  have "sorted_items (map ?f d) = sorted_items (map ?f d')"
  proof (rule sorted_items_perm)
    show "mset (map ?f d) = mset (map ?f d')" using assms(1) by simp
    have "map fst (map ?f d) = map fst d" by (induction d) auto
    then show "distinct (map fst (map ?f d))" using assms(2) by (simp only:)
  qed
  then show ?thesis by (simp add: stable_def)
qed

end
