(* ===== verification/FuzzVector.thy ===== *)
theory FuzzVector
  imports PyEnv Base64
begin

unbundle bit_operations_syntax

text \<open>
  The fuzzing half of \<open>tools/stabilization/run_rc_stab.py\<close>: finding the base64 fields of a seed
  vector, reading and writing a value at a path, mutating bytes and building the fuzz vector.
  Paths are lists of keys and indices. The random generator is a parameter: a function that
  returns the next \<open>getrandbits(8)\<close> and the generator's new state.
\<close>

subsection \<open>Reading and writing at a path\<close>

text \<open>
  \<open>cur[part]\<close>. A missing key, an index out of range, a key on a list and a subscript on any other
  value raise as Python does; the characters of a string can be read by index.
\<close>

fun subscript :: "json \<Rightarrow> pstep \<Rightarrow> json res" where
  "subscript (JObj d) (Key k) = dict_index d k"
| "subscript (JObj d) (Idx i) = Inl (KeyError (nat_str i))"
| "subscript (JArr xs) (Idx i) = (if i < length xs then Inr (xs ! i) else Inl IndexError)"
| "subscript (JStr s) (Idx i) = (if i < length s then Inr (JStr [s ! i]) else Inl IndexError)"
| "subscript _ _ = Inl TypeError"

definition get_at_path :: "json \<Rightarrow> pstep list \<Rightarrow> json res" where
  "get_at_path node path = foldE subscript node path"

text \<open>\<open>cur[part] = value\<close>. A JSON dict has no integer keys, so storing under an index raises here.\<close>

fun store :: "json \<Rightarrow> pstep \<Rightarrow> json \<Rightarrow> json res" where
  "store (JObj d) (Key k) value = Inr (JObj (dict_set d k value))"
| "store (JArr xs) (Idx i) value = (if i < length xs then Inr (JArr (xs[i := value])) else Inl IndexError)"
| "store _ _ value = Inl TypeError"

text \<open>
  \<open>set_at_path\<close> walks to the parent and stores there; the tree is returned with the changed
  children put back along the path. An empty path has no last part to store at.
\<close>

fun set_at_path :: "json \<Rightarrow> pstep list \<Rightarrow> json \<Rightarrow> json res" where
  "set_at_path node [] value = Inl IndexError"
| "set_at_path node [p] value = store node p value"
| "set_at_path node (p # ps) value =
     bindE (subscript node p) (\<lambda>sub. bindE (set_at_path sub ps value) (\<lambda>sub'. store node p sub'))"

subsection \<open>Finding the base64 fields\<close>

fun find_b64_paths :: "json \<Rightarrow> pstep list \<Rightarrow> pstep list list" where
  "find_b64_paths (JObj d) path =
     concat (map (\<lambda>(k, v).
       (if ends_with k ''_b64'' \<and> is_str v then [path @ [Key k]] else []) @
       find_b64_paths v (path @ [Key k])) d)"
| "find_b64_paths (JArr xs) path =
     concat (map (\<lambda>(idx, v). find_b64_paths v (path @ [Idx idx])) (enum xs))"
| "find_b64_paths _ path = []"

subsection \<open>Mutating bytes\<close>

type_synonym 'g rng = "'g \<Rightarrow> byte \<times> 'g"

fun random_bytes :: "'g rng \<Rightarrow> nat \<Rightarrow> 'g \<Rightarrow> byte list \<times> 'g" where
  "random_bytes rnd 0 g = ([], g)"
| "random_bytes rnd (Suc n) g =
     (let (b, g1) = rnd g; (bs, g2) = random_bytes rnd n g1 in (b # bs, g2))"

definition mutate_bytes :: "'g rng \<Rightarrow> byte list \<Rightarrow> nat \<Rightarrow> 'g \<Rightarrow> byte list \<times> 'g" where
  "mutate_bytes rnd src idx g =
     (if idx mod 8 = 0 then
        (if src = [] then ([0x00], g) else (src[0 := src ! 0 XOR 0x80], g))
      else if idx mod 8 = 1 then
        (if src = [] then ([0x01], g)
         else (src[length src - 1 := last src XOR 0x01], g))
      else if idx mod 8 = 2 then (if src \<noteq> [] then butlast src else src, g)
      else if idx mod 8 = 3 then (take (length src div 2) src, g)
      else if idx mod 8 = 4 then (src @ [0x00], g)
      else if idx mod 8 = 5 then (src @ [0xFF], g)
      else if idx mod 8 = 6 then random_bytes rnd (if src \<noteq> [] then length src else 8) g
      else random_bytes rnd (max 1 (min 32 (length src + 3))) g)"

subsection \<open>The fuzz vector\<close>

definition build_fuzz_vector :: "dict \<Rightarrow> pstep list \<Rightarrow> byte list \<Rightarrow> string \<Rightarrow> dict res" where
  "build_fuzz_vector base path mbytes case_id =
     bindE (dict_index base ''input'') (\<lambda>input.
     bindE (set_at_path input path (JStr (b64encode mbytes))) (\<lambda>input'.
       let v1 = dict_set base ''input'' input';
           v2 = dict_set v1 ''vector_id'' (JStr case_id);
           v3 = dict_set v2 ''strict'' (JBool True);
           v4 = dict_set v3 ''expect''
                  (JObj [(''pass'', JBool False), (''diag_contains'', JArr [])])
       in Inr v4))"

subsection \<open>Reading after writing\<close>

text \<open>
  The contract of reading and writing at a path: a write that succeeds is read back at the same
  path, and leaves every path that forks from it as it was.
\<close>

locale path_store =
  fixes get :: "'v \<Rightarrow> 'p list \<Rightarrow> 'e + 'v" and put :: "'v \<Rightarrow> 'p list \<Rightarrow> 'v \<Rightarrow> 'e + 'v"
  assumes get_put: "put t ps v = Inr t' \<Longrightarrow> get t' ps = Inr v"
    and get_put_fork: "put t (ps @ p # qs) v = Inr t' \<Longrightarrow> q \<noteq> p \<Longrightarrow>
          get t' (ps @ q # rs) = get t (ps @ q # rs)"
begin

lemma put_put_get: "put t ps v = Inr t' \<Longrightarrow> put t' ps w = Inr t'' \<Longrightarrow> get t'' ps = Inr w"
  by (rule get_put)

lemma put_sibling:
  assumes "put t (ps @ [p]) v = Inr t'" and "q \<noteq> p"
  shows "get t' (ps @ [q]) = get t (ps @ [q])"
  using get_put_fork [OF assms] .

end

lemma get_at_path_simps [simp]:
  "get_at_path v [] = Inr v"
  "get_at_path v (p # ps) = bindE (subscript v p) (\<lambda>w. get_at_path w ps)"
  by (simp_all add: get_at_path_def)

lemma subscript_store: "store node p value = Inr node' \<Longrightarrow> subscript node' p = Inr value"
  by (cases "(node, p)" rule: child.cases)
     (auto simp: dict_index_def map_of_dict_set split: if_splits)

lemma subscript_store_other:
  "store node p value = Inr node' \<Longrightarrow> q \<noteq> p \<Longrightarrow> subscript node' q = subscript node q"
  by (cases "(node, p)" rule: child.cases; cases q)
     (auto simp: dict_index_def map_of_dict_set split: if_splits)

lemma set_at_path_Cons:
  "ps \<noteq> [] \<Longrightarrow> set_at_path node (p # ps) value =
     bindE (subscript node p) (\<lambda>sub. bindE (set_at_path sub ps value) (\<lambda>sub'. store node p sub'))"
  by (cases ps) simp_all

lemma get_set_at_path:
  "set_at_path node ps value = Inr node' \<Longrightarrow> get_at_path node' ps = Inr value"
proof (induction ps arbitrary: node node')
  case (Cons p ps)
  show ?case
  proof (cases "ps = []")
    case True
    with Cons.prems show ?thesis by (simp add: subscript_store)
  next
    case False
    with Cons.prems obtain sub sub' where "set_at_path sub ps value = Inr sub'"
        "store node p sub' = Inr node'"
      by (auto simp: set_at_path_Cons bindE_Inr)
    with Cons.IH show ?thesis by (simp add: subscript_store)
  qed
qed simp

lemma get_set_at_path_fork:
  "set_at_path node (ps @ p # qs) value = Inr node' \<Longrightarrow> q \<noteq> p \<Longrightarrow>
     get_at_path node' (ps @ q # rs) = get_at_path node (ps @ q # rs)"
proof (induction ps arbitrary: node node')
  case Nil
  have "\<exists>u. store node p u = Inr node'"
  proof (cases "qs = []")
    case False
    with Nil show ?thesis by (auto simp: set_at_path_Cons bindE_Inr)
  qed (use Nil in auto)
  then obtain u where "store node p u = Inr node'" ..
  with Nil show ?case by (simp add: subscript_store_other)
next
  case (Cons r ps)
  then obtain sub sub' where s: "subscript node r = Inr sub"
      "set_at_path sub (ps @ p # qs) value = Inr sub'" "store node r sub' = Inr node'"
    by (auto simp: set_at_path_Cons bindE_Inr)
  from Cons.IH [OF s(2) Cons.prems(2)] s show ?case by (simp add: subscript_store)
qed

interpretation rc: path_store get_at_path set_at_path
  by unfold_locales (auto intro: get_set_at_path get_set_at_path_fork)

subsection \<open>The found paths\<close>

lemma subscript_child: "child v p = Some w \<Longrightarrow> subscript v p = Inr w"
  by (cases "(v, p)" rule: child.cases) (auto simp: dict_index_def split: if_splits)

lemma value_at_get: "value_at v ps = Some w \<Longrightarrow> get_at_path v ps = Inr w"
  by (induction ps arbitrary: v) (auto split: option.splits dest!: subscript_child)

lemma find_b64_paths_sound:
  "q \<in> set (find_b64_paths v path) \<Longrightarrow> wf_json v \<Longrightarrow>
     \<exists>ps k s. q = path @ ps @ [Key k] \<and> ends_with k ''_b64'' \<and>
       value_at v (ps @ [Key k]) = Some (JStr s)"
proof (induction v arbitrary: path rule: json_induct)
  case (JObj d)
  then obtain k x where k: "(k, x) \<in> set d"
      and q: "q \<in> set ((if ends_with k ''_b64'' \<and> is_str x then [path @ [Key k]] else []) @
                find_b64_paths x (path @ [Key k]))"
    by auto
  from k JObj.prems(2) have x: "wf_json x" "map_of d k = Some x" by (auto simp: list_all_iff)
  show ?case
  proof (cases "q \<in> set (find_b64_paths x (path @ [Key k]))")
    case True
    from JObj.IH [OF k True x(1)] obtain ps j s where
        "q = path @ (Key k # ps) @ [Key j]" "ends_with j ''_b64''"
        "value_at x (ps @ [Key j]) = Some (JStr s)" by auto
    with x(2) show ?thesis by (intro exI [of _ "Key k # ps"] exI [of _ j] exI [of _ s]) simp
  next
    case False
    with q obtain s where "q = path @ [] @ [Key k]" "ends_with k ''_b64''" "x = JStr s"
      by (auto simp: is_str_iff split: if_splits)
    with x(2) show ?thesis by (intro exI [of _ "[]"] exI [of _ k] exI [of _ s]) simp
  qed
next
  case (JArr xs)
  then obtain i where i: "i < length xs"
      and q: "q \<in> set (find_b64_paths (xs ! i) (path @ [Idx i]))"
    by (auto simp: set_enum)
  from i JArr.prems(2) have "wf_json (xs ! i)" by (simp add: list_all_length)
  from JArr.IH [OF nth_mem [OF i] q this] obtain ps k s where
      "q = path @ (Idx i # ps) @ [Key k]" "ends_with k ''_b64''"
      "value_at (xs ! i) (ps @ [Key k]) = Some (JStr s)" by auto
  with i show ?case by (intro exI [of _ "Idx i # ps"] exI [of _ k] exI [of _ s]) simp
qed auto

lemma find_b64_paths_complete:
  "value_at v (ps @ [Key k]) = Some (JStr s) \<Longrightarrow> ends_with k ''_b64'' \<Longrightarrow>
     path @ ps @ [Key k] \<in> set (find_b64_paths v path)"
proof (induction ps arbitrary: v path)
  case Nil
  then obtain d where "v = JObj d" and k: "map_of d k = Some (JStr s)"
    by (cases "(v, Key k)" rule: child.cases) (auto split: option.splits)
  moreover have "(k, JStr s) \<in> set d" using k by (rule map_of_SomeD)
  ultimately show ?case using Nil.prems(2) by force
next
  case (Cons p ps)
  then obtain w where w: "child v p = Some w" "value_at w (ps @ [Key k]) = Some (JStr s)"
    by (auto split: option.splits)
  from Cons.IH [OF w(2) Cons.prems(2), of "path @ [p]"]
  have IH: "path @ (p # ps) @ [Key k] \<in> set (find_b64_paths w (path @ [p]))" by simp
  show ?case
  proof (cases "(v, p)" rule: child.cases)
    case (1 d j)
    with w(1) have "(j, w) \<in> set d" by (auto dest: map_of_SomeD)
    with 1 IH show ?thesis by force
  next
    case (2 xs i)
    with w(1) have "(i, w) \<in> set (enum xs)" by (auto simp: set_enum split: if_splits)
    with 2 IH show ?thesis by force
  qed (use w in auto)
qed

text \<open>A value can be stored at a path that reads a value.\<close>

lemma set_at_path_defined:
  "value_at v ps = Some w \<Longrightarrow> ps \<noteq> [] \<Longrightarrow> \<exists>v'. set_at_path v ps x = Inr v'"
proof (induction ps arbitrary: v)
  case (Cons p ps)
  then obtain u where u: "child v p = Some u" "value_at u ps = Some w"
    by (auto split: option.splits)
  have st: "\<exists>v'. store v p y = Inr v'" for y
    using u(1) by (cases "(v, p)" rule: child.cases) (auto split: if_splits)
  show ?case
  proof (cases "ps = []")
    case False
    with Cons.IH [OF u(2)] obtain u' where "set_at_path u ps x = Inr u'" by blast
    with st [of u'] subscript_child [OF u(1)] False show ?thesis
      by (auto simp: set_at_path_Cons)
  qed (use st in auto)
qed simp

subsection \<open>Bounds of a mutation\<close>

lemma length_random_bytes: "length (fst (random_bytes rnd n g)) = n"
  by (induction n arbitrary: g) (simp_all add: split_beta Let_def)

lemma xor_changes: "k \<noteq> 0 \<Longrightarrow> x XOR k \<noteq> x" for x :: "'a::len word"
  by (metis xor.right_neutral word_bw_same(3) xor.left_commute)

lemma list_update_changes: "i < length xs \<Longrightarrow> y \<noteq> xs ! i \<Longrightarrow> xs[i := y] \<noteq> xs"
  by (metis nth_list_update_eq)

subsection \<open>Properties\<close>

text \<open>The search finds exactly the string fields whose key ends in \<open>_b64\<close>, at any depth, each
by the path that reads it.\<close>

theorem find_b64_paths_iff:
  assumes "wf_json v"
  shows "q \<in> set (find_b64_paths v []) \<longleftrightarrow>
     (\<exists>ps k s. q = ps @ [Key k] \<and> ends_with k ''_b64'' \<and> value_at v q = Some (JStr s))"
proof
  assume "q \<in> set (find_b64_paths v [])"
  from find_b64_paths_sound [OF this assms]
  show "\<exists>ps k s. q = ps @ [Key k] \<and> ends_with k ''_b64'' \<and> value_at v q = Some (JStr s)" by auto
next
  assume "\<exists>ps k s. q = ps @ [Key k] \<and> ends_with k ''_b64'' \<and> value_at v q = Some (JStr s)"
  then show "q \<in> set (find_b64_paths v [])"
    using find_b64_paths_complete [where path = "[]"] by auto
qed

theorem find_b64_paths_iff_witness:
  "[Key ''segments'', Idx 0, Key ''cose_b64''] \<in>
     set (find_b64_paths (JObj [(''segments'', JArr [JObj [(''cose_b64'', JStr ''oQ=='')]])]) [])"
proof -
  let ?v = "JObj [(''segments'', JArr [JObj [(''cose_b64'', JStr ''oQ=='')]])]"
  have wf: "wf_json ?v" by simp
  show ?thesis
    by (subst find_b64_paths_iff [OF wf],
        rule exI [of _ "[Key ''segments'', Idx 0]"], rule exI [of _ "''cose_b64''"],
        rule exI [of _ "''oQ==''"])
       (simp add: ends_with_def suffix_def)
qed

text \<open>C37: a fuzz vector built at a found path carries exactly the mutated bytes there: the string at
the path decodes to them. Every path of the input that forks from it reads as in the seed, and the
vector expects rejection.\<close>

theorem fuzz_vector_carries_bytes:
  assumes wf: "wf_json (JObj base)" and input: "dict_index base ''input'' = Inr input"
    and p: "p \<in> set (find_b64_paths input [])"
  shows "\<exists>v input' s. build_fuzz_vector base p mbytes case_id = Inr v \<and>
     dict_get v ''input'' = input' \<and> get_at_path input' p = Inr (JStr s) \<and> b64decode s = Some mbytes \<and>
     dict_get v ''vector_id'' = JStr case_id \<and> dict_get v ''strict'' = JBool True \<and>
     dict_get v ''expect'' = JObj [(''pass'', JBool False), (''diag_contains'', JArr [])] \<and>
     (\<forall>ps a qs b rs. p = ps @ a # qs \<longrightarrow> b \<noteq> a \<longrightarrow>
        get_at_path input' (ps @ b # rs) = get_at_path input (ps @ b # rs))"
proof -
  have wfi: "wf_json input"
    using wf_json_obj_lookup [OF wf input [unfolded dict_index_Inr]] .
  from p find_b64_paths_sound [OF p wfi] obtain s where ps: "p \<noteq> []" "value_at input p = Some (JStr s)"
    by auto
  obtain input' where i': "set_at_path input p (JStr (b64encode mbytes)) = Inr input'"
    using set_at_path_defined [OF ps(2,1)] by blast
  have fork: "\<forall>ps a qs b rs. p = ps @ a # qs \<longrightarrow> b \<noteq> a \<longrightarrow>
      get_at_path input' (ps @ b # rs) = get_at_path input (ps @ b # rs)"
    using rc.get_put_fork i' by blast
  show ?thesis
    using input rc.get_put [OF i'] fork b64.dec_enc [of mbytes]
    by (auto simp: build_fuzz_vector_def i' Let_def)
qed

theorem fuzz_vector_carries_bytes_witness:
  "\<exists>v. build_fuzz_vector [(''input'', JObj [(''bytes_b64'', JStr ''oQ=='')])] [Key ''bytes_b64''] [1, 2] ''FZ''
       = Inr v"
proof -
  let ?base = "[(''input'', JObj [(''bytes_b64'', JStr ''oQ=='')])]"
  have "wf_json (JObj ?base)" "dict_index ?base ''input'' = Inr (JObj [(''bytes_b64'', JStr ''oQ=='')])"
    "[Key ''bytes_b64''] \<in> set (find_b64_paths (JObj [(''bytes_b64'', JStr ''oQ=='')]) [])"
    by (simp_all add: dict_index_def ends_with_def suffix_def)
  from fuzz_vector_carries_bytes [OF this, of "[1, 2]" "''FZ''"] show ?thesis by blast
qed

lemma mutate_bytes_length:
  "length (fst (mutate_bytes rnd src idx g)) =
     [max 1 (length src), max 1 (length src), length src - 1, length src div 2, length src + 1, length src + 1,
      if src = [] then 8 else length src, min 32 (length src + 3)] ! (idx mod 8)"
proof -
  have "idx mod 8 < 8" by simp
  then consider "idx mod 8 = 0" | "idx mod 8 = 1" | "idx mod 8 = 2" | "idx mod 8 = 3"
    | "idx mod 8 = 4" | "idx mod 8 = 5" | "idx mod 8 = 6" | "idx mod 8 = 7"
    by linarith
  moreover have "src \<noteq> [] \<Longrightarrow> Suc 0 \<le> length src" by (cases src) simp_all
  ultimately show ?thesis by cases (auto simp: mutate_bytes_def length_random_bytes)
qed

lemma mutate_bytes_differ:
  assumes "src \<noteq> []" and "idx mod 8 < 6"
  shows "fst (mutate_bytes rnd src idx g) \<noteq> src"
proof -
  have x: "src ! 0 XOR 0x80 \<noteq> src ! 0" "last src XOR 0x01 \<noteq> src ! (length src - 1)"
    using xor_changes [of "0x80" "src ! 0"] xor_changes [of "0x01" "last src"] assms(1)
    by (simp_all add: last_conv_nth)
  have d: "length (fst (mutate_bytes rnd src idx g)) \<noteq> length src" if "2 \<le> idx mod 8"
  proof -
    from that assms(2) consider "idx mod 8 = 2" | "idx mod 8 = 3" | "idx mod 8 = 4" | "idx mod 8 = 5" by linarith
    moreover have "length src - 1 \<noteq> length src" "length src div 2 \<noteq> length src"
      using assms(1) by (cases src; simp; linarith)+
    ultimately show ?thesis unfolding mutate_bytes_length by cases simp_all
  qed
  consider "idx mod 8 = 0" | "idx mod 8 = 1" | "2 \<le> idx mod 8" by linarith
  then show ?thesis
  proof cases
    case 3
    then show ?thesis using d by metis
  qed (use x assms(1) in \<open>simp_all add: mutate_bytes_def list_update_changes\<close>)
qed

text \<open>C38: each of the six deterministic mutations of non-empty bytes changes the bytes, and none of the
six draws from the random generator. The length of the result is exact for each of the eight: the
two bit flips keep it (the empty input becomes one byte), the cuts drop the last byte or the upper
half, the appended byte adds one, and random bytes are as many as the input (eight for none) or
three more and at most 32. So no mutation grows its input by more than three bytes, but for the
eight of the empty input.\<close>

theorem mutate_bytes_changes:
  "(src \<noteq> [] \<and> idx mod 8 < 6 \<longrightarrow> fst (mutate_bytes rnd src idx g) \<noteq> src) \<and>
   (idx mod 8 < 6 \<longrightarrow> snd (mutate_bytes rnd src idx g) = g) \<and>
   length (fst (mutate_bytes rnd src idx g)) =
     [max 1 (length src), max 1 (length src), length src - 1, length src div 2, length src + 1, length src + 1,
      if src = [] then 8 else length src, min 32 (length src + 3)] ! (idx mod 8) \<and>
   length (fst (mutate_bytes rnd src idx g)) \<le> (if src = [] then 8 else length src + 3)"
proof (intro conjI impI)
  have "length (fst (mutate_bytes rnd src idx g)) \<in>
      {max 1 (length src), length src - 1, length src div 2, length src + 1,
       if src = [] then 8 else length src, min 32 (length src + 3)}"
    using nth_mem [of "idx mod 8" "[max 1 (length src), max 1 (length src), length src - 1, length src div 2, length src + 1,
      length src + 1, if src = [] then 8 else length src, min 32 (length src + 3)]"]
    by (simp add: mutate_bytes_length)
  moreover have "length src = 0 \<longleftrightarrow> src = []" by simp
  ultimately show "length (fst (mutate_bytes rnd src idx g)) \<le> (if src = [] then 8 else length src + 3)"
    by (auto split: if_splits)
  show "snd (mutate_bytes rnd src idx g) = g" if "idx mod 8 < 6"
    using that by (auto simp: mutate_bytes_def)
qed (simp_all add: mutate_bytes_differ mutate_bytes_length)

theorem mutate_bytes_changes_witness:
  "fst (mutate_bytes (\<lambda>g. (0, g)) [0x41, 0x42] 11 (0 :: nat)) \<noteq> [0x41, 0x42] \<and>
   length (fst (mutate_bytes (\<lambda>g. (0, g)) [0x41, 0x42] 15 (0 :: nat))) = 5"
  using mutate_bytes_changes [of "[0x41, 0x42]" 11 "\<lambda>g. (0, g)" "0 :: nat"]
    mutate_bytes_changes [of "[0x41, 0x42]" 15 "\<lambda>g. (0, g)" "0 :: nat"] by simp

end
