(* ===== verification/RcRunner.thy ===== *)
theory RcRunner
  imports PyHost JsonText FuzzVector
begin

text \<open>
  The conformance runners as \<open>tools/stabilization/run_rc_stab.py\<close> drives them: a vector is
  written to a temporary file, the runner is run on it and the last line of its output is parsed;
  then the verdict on one fuzz case, the attack matrix and the fuzz loop. \<open>rt\<close> is the source's
  \<open>ROOT\<close>, \<open>h\<close> the machine.
\<close>

subsection \<open>Data\<close>

record attack_case =
  case_ident :: string
  case_name :: string
  case_kind :: string
  case_vector :: string
  case_replays :: "nat option"

definition vector_case :: "string \<Rightarrow> string \<Rightarrow> string \<Rightarrow> attack_case" where
  "vector_case i n v =
     \<lparr>case_ident = i, case_name = n, case_kind = ''vector'', case_vector = v, case_replays = None\<rparr>"

definition ATTACK_CASES :: "attack_case list" where
  "ATTACK_CASES =
     [\<lparr>case_ident = ''AM-001'', case_name = ''GR1 replay yields deterministic decode'',
        case_kind = ''replay'', case_vector = ''conformance/vectors/qr/POS-QR-001.json'',
        case_replays = Some 3\<rparr>,
      vector_case ''AM-002'' ''COSE tag18 injection rejected''
        ''conformance/vectors/cose/NEG-COSE-010.json'',
      vector_case ''AM-003'' ''COSE profile header anomaly rejected''
        ''conformance/vectors/cose/NEG-COSE-001.json'',
      vector_case ''AM-004'' ''CBOR-seq garbage tail rejected''
        ''conformance/vectors/ledger/NEG-LED-WA-0002.json'',
      vector_case ''AM-005'' ''CBOR-seq invalid initial byte rejected''
        ''conformance/vectors/ledger/NEG-LED-WA-0003.json'',
      vector_case ''AM-006'' ''deterministic nonce mismatch rejected''
        ''conformance/vectors/e2e/NEG-E2E-010.json'',
      vector_case ''AM-007'' ''ciphertext hash mismatch rejected''
        ''conformance/vectors/e2e/NEG-E2E-020.json'',
      vector_case ''AM-008'' ''mixed manifest with tombstone remains unresolvable''
        ''conformance/vectors/manifest/NEG-MAN-WA-0200.json'',
      vector_case ''AM-009'' ''cap/chash ambiguity conflict deterministic''
        ''conformance/vectors/manifest/NEG-MAN-WA-0201.json'',
      vector_case ''AM-010'' ''ineligible records never perturb eligible winner''
        ''conformance/vectors/manifest/NEG-MAN-WA-0202.json'',
      vector_case ''AM-011'' ''retroactive revoke removes revoked semantics''
        ''conformance/vectors/ledger/NEG-LED-010.json'',
      vector_case ''AM-012'' ''UTF-8 bytes sorting trap rejected''
        ''conformance/vectors/utf8/NEG-UTF8-WA-0001.json'']"

definition FUZZ_SEED_VECTORS :: "string list" where
  "FUZZ_SEED_VECTORS =
     [''conformance/vectors/cid/POS-CID-001.json'',
      ''conformance/vectors/cose/POS-COSE-001.json'',
      ''conformance/vectors/ledger/POS-LED-WA-0001.json'',
      ''conformance/vectors/manifest/POS-MAN-WA-0001.json'',
      ''conformance/vectors/e2e/POS-E2E-WA-0001.json'',
      ''conformance/vectors/e2e/POS-E2E-001.json'']"

record runner_result =
  rr_crash :: bool
  rr_timeout :: bool
  rr_return_code :: int
  rr_output :: json
  rr_stdout :: string
  rr_stderr :: string

record campaign_context =
  rust_cmd :: "string list"
  ts_cmd :: "string list"
  out_dir :: string
  minimized_dir :: string

subsection \<open>Commands, files and the repository name\<close>

definition command_exists :: "'w host \<Rightarrow> string \<Rightarrow> string \<Rightarrow> ('w, bool) io" where
  "command_exists h rt name =
     bindIO (run h [''bash'', ''-lc'', ''command -v '' @ name] rt 30)
       (\<lambda>p. retIO (returncode p = 0))"

definition git_rev_parse :: "'w host \<Rightarrow> string \<Rightarrow> string \<Rightarrow> ('w, string) io" where
  "git_rev_parse h rt ref =
     bindIO (run h [''git'', ''rev-parse'', ref] rt 120) (\<lambda>p.
       if returncode p \<noteq> 0
       then raiseIO (RuntimeError (''git rev-parse failed for '' @ ref @ '': '' @ str_strip (stderr p)))
       else retIO (str_strip (stdout p)))"

definition git_commit_rev_parse :: "'w host \<Rightarrow> string \<Rightarrow> string \<Rightarrow> ('w, string) io" where
  "git_commit_rev_parse h rt ref = git_rev_parse h rt (ref @ ''^{commit}'')"

definition default_slug :: string where
  "default_slug = ''<owner>/<repo>''"

text \<open>The slug in the URL of the remote: the text after the host, without \<open>.git\<close> and slashes.\<close>

definition slug_of_url :: "string \<Rightarrow> string" where
  "slug_of_url url =
     (let finish = (\<lambda>slug.
            let s1 = (if ends_with slug ''.git'' then take (length slug - 4) slug else slug);
                s2 = str_strip_chars ''/'' s1
            in if CHR ''/'' \<in> set s2 then s2 else default_slug)
      in if starts_with url ''git@github.com:''
         then finish (snd (the (str_partition ''git@github.com:'' url)))
         else case str_partition ''github.com/'' url of
                Some (pre, rest) \<Rightarrow> finish rest
              | None \<Rightarrow> default_slug)"

definition detect_repo_slug :: "'w host \<Rightarrow> string \<Rightarrow> ('w, string) io" where
  "detect_repo_slug h rt =
     (let env_repo = (case environ h ''GITHUB_REPOSITORY'' of None \<Rightarrow> [] | Some s \<Rightarrow> str_strip s)
      in if env_repo \<noteq> [] \<and> CHR ''/'' \<in> set env_repo then retIO env_repo
         else bindIO (run h [''git'', ''config'', ''--get'', ''remote.origin.url''] rt 120) (\<lambda>p.
           if returncode p \<noteq> 0 then retIO default_slug
           else retIO (slug_of_url (str_strip (stdout p)))))"

definition load_json :: "'w host \<Rightarrow> string \<Rightarrow> ('w, json) io" where
  "load_json h p = bindIO (host_read h p) (\<lambda>t. liftE (host_loads h t))"

definition dump_json :: "'w host \<Rightarrow> string \<Rightarrow> json \<Rightarrow> ('w, unit) io" where
  "dump_json h p v =
     seqIO (act (mkdir_at h (path_parent p))) (act (write_at h p (dumps_indent 2 0 v @ [newline])))"

subsection \<open>Running a runner\<close>

definition parse_runner_output :: "'w host \<Rightarrow> string \<Rightarrow> json res" where
  "parse_runner_output h out =
     (let lines = filter (\<lambda>l. l \<noteq> []) (map str_strip (str_splitlines out))
      in if lines = [] then Inl (ValueError ''empty stdout'') else host_loads h (last lines))"

definition unlinkIO :: "'w host \<Rightarrow> string \<Rightarrow> ('w, unit) io" where
  "unlinkIO h p w =
     (if exists_at h w p then (Inr (), unlink_at h p w) else (Inl (FileNotFoundError p), w))"

text \<open>The runner's container command, used when the binary is for another platform.\<close>

definition docker_cmd :: "string \<Rightarrow> string \<Rightarrow> string list" where
  "docker_cmd rt rel =
     [''docker'', ''run'', ''--rm'', ''-v'', rt @ '':/work'', ''-w'', ''/work/core/rust'', ''rust:1.86'',
      ''bash'', ''-lc'',
      ''set -euo pipefail; export PATH=/usr/local/cargo/bin:$PATH; cargo run -q -p grain-runner -- run --strict --vector /work/''
        @ rel]"

definition timed_out_result :: "string \<Rightarrow> string \<Rightarrow> runner_result" where
  "timed_out_result out err =
     \<lparr>rr_crash = True, rr_timeout = True, rr_return_code = 124, rr_output = JObj [],
      rr_stdout = out, rr_stderr = err\<rparr>"

text \<open>
  The \<open>try\<close> block around the runner's process: a time-out is a result of its own (\<open>Inl\<close>); an
  \<open>ENOEXEC\<close> falls back to the container, whose own failures are raised.
\<close>

definition run_or_fall_back ::
  "'w host \<Rightarrow> string \<Rightarrow> string list \<Rightarrow> string \<Rightarrow> nat \<Rightarrow> ('w, runner_result + proc) io" where
  "run_or_fall_back h rt cmd temp_name t w =
     (case run h cmd rt t w of
        (Inr p, w1) \<Rightarrow> (Inr (Inr p), w1)
      | (Inl (OSError n), w1) \<Rightarrow>
          (if n = 8 then
             bindIO (command_exists h rt ''docker'') (\<lambda>ok.
               if ok then
                 bindIO (liftE (relative_to (resolve h temp_name) rt)) (\<lambda>rel.
                 bindIO (run h (docker_cmd rt rel) rt (max t 240)) (\<lambda>p. retIO (Inr p)))
               else raiseIO (OSError n)) w1
           else (Inl (OSError n), w1))
      | (Inl (TimeoutExpired out err), w1) \<Rightarrow>
          seqIO (unlinkIO h temp_name) (retIO (Inl (timed_out_result out err))) w1
      | (Inl e, w1) \<Rightarrow> (Inl e, w1))"

definition completed_result :: "'w host \<Rightarrow> proc \<Rightarrow> runner_result" where
  "completed_result h p =
     (case parse_runner_output h (stdout p) of
        Inr v \<Rightarrow> \<lparr>rr_crash = False, rr_timeout = False, rr_return_code = returncode p,
                   rr_output = v, rr_stdout = stdout p, rr_stderr = stderr p\<rparr>
      | Inl e \<Rightarrow> \<lparr>rr_crash = True, rr_timeout = False, rr_return_code = returncode p,
                   rr_output = JObj [], rr_stdout = stdout p, rr_stderr = stderr p\<rparr>)"

definition invoke_runner ::
  "'w host \<Rightarrow> string \<Rightarrow> string list \<Rightarrow> json \<Rightarrow> nat \<Rightarrow> ('w, runner_result) io" where
  "invoke_runner h rt pre vector t =
     (let temp_dir = path_join rt ''artifacts/.tmp-rc-stab''
      in seqIO (act (mkdir_at h temp_dir))
        (bindIO (stepIO (new_temp_file h temp_dir)) (\<lambda>temp_name.
         seqIO (act (write_at h temp_name (dumps '', '' '': '' False vector)))
        (bindIO (finallyIO
             (run_or_fall_back h rt (pre @ [''run'', ''--strict'', ''--vector'', temp_name]) temp_name t)
             (\<lambda>w. if exists_at h w temp_name then unlink_at h temp_name w else w)) (\<lambda>r.
           case r of Inl timed_out \<Rightarrow> retIO timed_out | Inr p \<Rightarrow> retIO (completed_result h p))))))"

subsection \<open>One fuzz case\<close>

definition runner_report :: "runner_result \<Rightarrow> json res" where
  "runner_report r =
     bindE (attr_get_or (rr_output r) ''diag'' (JArr [])) (\<lambda>diag.
     bindE (attr_get (rr_output r) ''pass'') (\<lambda>pass.
       Inr (JObj [(''crash'', JBool (rr_crash r)), (''timeout'', JBool (rr_timeout r)),
                  (''return_code'', JInt (rr_return_code r)), (''diag'', diag), (''pass'', pass)])))"

definition with_verdict :: "string \<Rightarrow> string \<Rightarrow> dict \<Rightarrow> dict" where
  "with_verdict v reason c = dict_set (dict_set c ''verdict'' (JStr v)) ''reason'' (JStr reason)"

text \<open>The tests of \<open>evaluate_mutation_case\<close> once both runners have run, in the source's order.\<close>

definition judge_mutation :: "runner_result \<Rightarrow> runner_result \<Rightarrow> string \<Rightarrow> dict res" where
  "judge_mutation rust ts case_id =
     bindE (runner_report rust) (\<lambda>rust_report.
     bindE (runner_report ts) (\<lambda>ts_report.
     let c = [(''id'', JStr case_id), (''rust'', rust_report), (''ts'', ts_report)] in
     if rr_crash rust \<or> rr_crash ts then
       Inr (with_verdict ''FOUND_BUG'' ''runner_crash_or_unparseable_output'' c)
     else
       bindE (attr_get_or (rr_output rust) ''pass'' (JBool False)) (\<lambda>rp.
       bindE (attr_get_or (rr_output ts) ''pass'' (JBool False)) (\<lambda>tp.
       let rust_matched = truthy rp; ts_matched = truthy tp in
       if rust_matched \<noteq> ts_matched then
         Inr (dict_set (dict_set (with_verdict ''FOUND_BUG'' ''accept_reject_divergence'' c)
                ''rust_matched_expectation'' (JBool rust_matched))
                ''ts_matched_expectation'' (JBool ts_matched))
       else if rust_matched \<and> ts_matched then
         Inr (with_verdict ''INTENTIONALLY_REJECTED'' ''both_rejected'' c)
       else if \<not> rust_matched \<and> \<not> ts_matched then
         Inr (with_verdict ''INTERESTING_ACCEPT'' ''mutated_input_accepted_by_both'' c)
       else Inr (with_verdict ''FOUND_BUG'' ''unexpected_mutation_state'' c)))))"

definition evaluate_mutation_case ::
  "'w host \<Rightarrow> string \<Rightarrow> campaign_context \<Rightarrow> dict \<Rightarrow> string \<Rightarrow> ('w, dict) io" where
  "evaluate_mutation_case h rt ctx vector case_id =
     bindIO (invoke_runner h rt (rust_cmd ctx) (JObj vector) 40) (\<lambda>rust.
     bindIO (invoke_runner h rt (ts_cmd ctx) (JObj vector) 40) (\<lambda>ts.
       liftE (judge_mutation rust ts case_id)))"

end
