(* ===== verification/RcCampaign.thy ===== *)
theory RcCampaign
  imports RcRunner
begin

text \<open>
  The two campaigns of \<open>tools/stabilization/run_rc_stab.py\<close>: the attack matrix, which runs the
  listed vectors on both runners, and the fuzz loop over every base64 field of the seed vectors;
  and the Markdown reports written from their results.
\<close>

subsection \<open>The attack matrix\<close>

definition found_bug_row :: "string \<Rightarrow> dict \<Rightarrow> dict" where
  "found_bug_row reason row = with_verdict ''FOUND_BUG'' reason row"

definition attack_finding :: "attack_case \<Rightarrow> string \<Rightarrow> dict" where
  "attack_finding entry reason =
     [(''id'', JStr (case_ident entry)), (''reason'', JStr reason),
      (''vector'', JStr (case_vector entry))]"

text \<open>The row and the finding, if there is one, of a vector entry.\<close>

definition judge_vector ::
  "attack_case \<Rightarrow> dict \<Rightarrow> runner_result \<Rightarrow> runner_result \<Rightarrow> (dict \<times> dict option) res" where
  "judge_vector entry row rust ts =
     bindE (attr_get (rr_output rust) ''pass'') (\<lambda>rp.
     bindE (attr_get (rr_output ts) ''pass'') (\<lambda>tp.
     bindE (attr_get_or (rr_output rust) ''diag'' (JArr [])) (\<lambda>rd.
     bindE (attr_get_or (rr_output ts) ''diag'' (JArr [])) (\<lambda>td.
     bindE (attr_get_or (rr_output rust) ''out'' (JObj [])) (\<lambda>ro.
     bindE (attr_get_or (rr_output ts) ''out'' (JObj [])) (\<lambda>to.
     let row1 = dict_set row ''observed''
           (JObj [(''rust_pass'', rp), (''ts_pass'', tp), (''rust_diag'', rd), (''ts_diag'', td)]);
         bug = (\<lambda>reason. Inr (found_bug_row reason row1, Some (attack_finding entry reason)))
     in if rr_crash rust \<or> rr_crash ts then bug ''runner_crash''
        else if \<not> (truthy rp \<and> truthy tp) then bug ''vector_expectation_failed''
        else if stable ro \<noteq> stable to then bug ''runner_output_divergence''
        else Inr (dict_set row1 ''verdict'' (JStr ''PASS''), None)))))))"

definition judge_replay ::
  "attack_case \<Rightarrow> dict \<Rightarrow> nat \<Rightarrow> json list \<Rightarrow> json list \<Rightarrow> (dict \<times> dict option) res" where
  "judge_replay entry row replays rust_runs ts_runs =
     bindE (mapE (\<lambda>r. attr_get r ''pass'') rust_runs) (\<lambda>rps.
     bindE (mapE (\<lambda>t. attr_get t ''pass'') ts_runs) (\<lambda>tps.
     if rust_runs = [] \<or> ts_runs = [] then Inl IndexError
     else
       let row1 = dict_set row ''observed''
             (JObj [(''replays'', JInt (int replays)), (''rust_passes'', JArr rps),
                    (''ts_passes'', JArr tps)]);
           rust_stable = (length (remdups (map stable rust_runs)) = 1);
           ts_stable = (length (remdups (map stable ts_runs)) = 1);
           parity = (stable (hd rust_runs) = stable (hd ts_runs));
           reason = ''replay_non_determinism_or_divergence''
       in if rust_stable \<and> ts_stable \<and> parity \<and> truthy (hd rps) \<and> truthy (hd tps)
          then Inr (dict_set row1 ''verdict'' (JStr ''PASS''), None)
          else Inr (found_bug_row reason row1, Some (attack_finding entry reason))))"

definition run_entry ::
  "'w host \<Rightarrow> string \<Rightarrow> campaign_context \<Rightarrow> attack_case \<Rightarrow> ('w, dict \<times> dict option) io" where
  "run_entry h rt ctx entry =
     bindIO (load_json h (path_join rt (case_vector entry))) (\<lambda>vector.
     let row = [(''id'', JStr (case_ident entry)), (''name'', JStr (case_name entry)),
                (''kind'', JStr (case_kind entry)), (''vector'', JStr (case_vector entry)),
                (''expected'', JStr ''vector_pass_true_and_runner_parity'')];
         rust_run = invoke_runner h rt (rust_cmd ctx) vector 40;
         ts_run = invoke_runner h rt (ts_cmd ctx) vector 40
     in if case_kind entry = ''vector'' then
          bindIO rust_run (\<lambda>rust. bindIO ts_run (\<lambda>ts. liftE (judge_vector entry row rust ts)))
        else if case_kind entry = ''replay'' then
          let replays = (case case_replays entry of None \<Rightarrow> 3 | Some n \<Rightarrow> n)
          in bindIO (repeatIO replays
                (bindIO rust_run (\<lambda>rust. bindIO ts_run (\<lambda>ts.
                   retIO (rr_output rust, rr_output ts))))) (\<lambda>runs.
               liftE (judge_replay entry row replays (map fst runs) (map snd runs)))
        else retIO (dict_set row ''verdict'' (JStr ''INTENTIONALLY_REJECTED''), None))"

definition run_attack_matrix ::
  "'w host \<Rightarrow> string \<Rightarrow> campaign_context \<Rightarrow> ('w, dict list \<times> dict list) io" where
  "run_attack_matrix h rt ctx =
     foldIO (\<lambda>(rows, findings) entry.
         bindIO (run_entry h rt ctx entry) (\<lambda>(row, finding).
           retIO (rows @ [row], findings @ (case finding of None \<Rightarrow> [] | Some f \<Rightarrow> [f]))))
       ([], []) ATTACK_CASES"

subsection \<open>The fuzz loop\<close>

type_synonym fuzz_acc = "dict list \<times> dict list \<times> string list"

definition step_str :: "pstep \<Rightarrow> string" where
  "step_str p = (case p of Key k \<Rightarrow> k | Idx i \<Rightarrow> nat_str i)"

definition fuzz_case_id :: "string \<Rightarrow> nat \<Rightarrow> nat \<Rightarrow> string" where
  "fuzz_case_id seed_path pidx midx =
     ''FZ-'' @ path_stem seed_path @ ''-'' @ nat_str2 pidx @ ''-'' @ nat_str2 midx"

definition verdict_of :: "dict \<Rightarrow> json" where
  "verdict_of c = dict_get c ''verdict''"

text \<open>The result of one case, with where it came from.\<close>

definition annotate_result :: "dict \<Rightarrow> string \<Rightarrow> pstep list \<Rightarrow> byte list \<Rightarrow> dict" where
  "annotate_result result seed_path p mutated =
     dict_set (dict_set (dict_set result ''seed_vector'' (JStr seed_path))
       ''mutated_path'' (JStr (str_join ''.'' (map step_str p))))
       ''mutated_size'' (JInt (int (length mutated)))"

definition run_fuzz_case ::
  "'w host \<Rightarrow> string \<Rightarrow> campaign_context \<Rightarrow> string \<Rightarrow> dict \<Rightarrow> pstep list \<Rightarrow> nat \<Rightarrow> byte list \<Rightarrow>
     fuzz_acc \<Rightarrow> nat \<Rightarrow> ('w, fuzz_acc) io" where
  "run_fuzz_case h rt ctx seed_path base p pidx original = (\<lambda>(cases, findings, saved) midx.
     let case_id = fuzz_case_id seed_path pidx midx in
     bindIO (stepIO (mutate_bytes (rand_byte h) original midx)) (\<lambda>mutated.
     bindIO (liftE (build_fuzz_vector base p mutated case_id)) (\<lambda>vector.
     bindIO (evaluate_mutation_case h rt ctx vector case_id) (\<lambda>result0.
     let result = annotate_result result0 seed_path p mutated;
         out = path_join (minimized_dir ctx) (case_id @ ''.json'');
         keep = verdict_of result \<in> {JStr ''FOUND_BUG'', JStr ''INTERESTING_ACCEPT''};
         cases' = cases @ [result];
         findings' = (if verdict_of result = JStr ''FOUND_BUG'' then findings @ [result]
                      else findings)
     in if keep then seqIO (dump_json h out (JObj vector)) (retIO (cases', findings', saved @ [out]))
        else retIO (cases', findings', saved)))))"

definition run_fuzz_path ::
  "'w host \<Rightarrow> string \<Rightarrow> campaign_context \<Rightarrow> string \<Rightarrow> string \<Rightarrow> dict \<Rightarrow>
     fuzz_acc \<Rightarrow> nat \<times> pstep list \<Rightarrow> ('w, fuzz_acc) io" where
  "run_fuzz_path h rt ctx mode seed_path base = (\<lambda>acc (pidx, p).
     let per_path = (if mode = ''smoke'' then 3 else 10) in
     bindIO (liftE (dict_index base ''input'')) (\<lambda>input.
     bindIO (liftE (get_at_path input p)) (\<lambda>raw.
       case raw of
         JStr s \<Rightarrow>
           (case b64decode s of
              None \<Rightarrow> retIO acc
            | Some original \<Rightarrow>
                foldIO (run_fuzz_case h rt ctx seed_path base p pidx original) acc [0..<per_path])
       | _ \<Rightarrow> retIO acc)))"

definition run_fuzz_seed ::
  "'w host \<Rightarrow> string \<Rightarrow> campaign_context \<Rightarrow> string \<Rightarrow> fuzz_acc \<Rightarrow> string \<Rightarrow> ('w, fuzz_acc) io" where
  "run_fuzz_seed h rt ctx mode = (\<lambda>acc seed_path.
     bindIO (load_json h (path_join rt seed_path)) (\<lambda>base_json.
     case base_json of
       JObj base \<Rightarrow>
         let paths = find_b64_paths (dict_get_or base ''input'' (JObj [])) []
         in foldIO (run_fuzz_path h rt ctx mode seed_path base) acc (enum paths)
     | _ \<Rightarrow> raiseIO AttributeError))"

definition run_fuzz ::
  "'w host \<Rightarrow> string \<Rightarrow> campaign_context \<Rightarrow> string \<Rightarrow> ('w, fuzz_acc) io" where
  "run_fuzz h rt ctx mode = foldIO (run_fuzz_seed h rt ctx mode) ([], [], []) FUZZ_SEED_VECTORS"

subsection \<open>Reports\<close>

text \<open>The table row of one attack case; a row without one of the four keys raises.\<close>

definition attack_line :: "dict \<Rightarrow> string res" where
  "attack_line r =
     bindE (dict_index r ''id'') (\<lambda>i. bindE (dict_index r ''name'') (\<lambda>n.
     bindE (dict_index r ''vector'') (\<lambda>v. bindE (dict_index r ''verdict'') (\<lambda>d.
       Inr (''| '' @ json_str i @ '' | '' @ json_str n @ '' | `'' @ json_str v @ ''` | '' @
            json_str d @ '' |'')))))"

definition attack_markdown :: "dict list \<Rightarrow> string res" where
  "attack_markdown rows =
     bindE (mapE attack_line rows) (\<lambda>ls.
       Inr (str_join [newline]
         ([''# Attack Matrix Results'', [], ''| ID | Scenario | Vector | Verdict |'',
           ''| --- | --- | --- | --- |''] @ ls @ [[]])))"

text \<open>The verdict of a case is always a string; the counts are a map from verdicts to numbers.\<close>

definition count_verdict :: "(string \<times> nat) list \<Rightarrow> dict \<Rightarrow> (string \<times> nat) list res" where
  "count_verdict counts c =
     bindE (dict_index c ''verdict'') (\<lambda>v.
       case v of
         JStr s \<Rightarrow>
           Inr (AList.update s ((case map_of counts s of None \<Rightarrow> 0 | Some n \<Rightarrow> n) + 1) counts)
       | _ \<Rightarrow> Inl TypeError)"

definition finding_line :: "dict \<Rightarrow> string res" where
  "finding_line f =
     bindE (dict_index f ''id'') (\<lambda>i.
       Inr (''- `'' @ json_str i @ ''`: '' @ json_str (dict_get_or f ''reason'' (JStr ''unknown''))))"

definition fuzz_markdown :: "dict list \<Rightarrow> dict list \<Rightarrow> string res" where
  "fuzz_markdown cases findings =
     bindE (foldE count_verdict [] cases) (\<lambda>counts.
     bindE (mapE finding_line (take 50 findings)) (\<lambda>fls.
       let lines =
         [''# Fuzz Report'', [], ''Total cases: **'' @ nat_str (length cases) @ ''**'', [],
          ''## Verdict counts''] @
         map (\<lambda>k. ''- '' @ k @ '': '' @ nat_str (the (map_of counts k))) (py_sorted (map fst counts)) @
         [[], ''## Findings''] @
         (if findings = [] then [''- none''] else fls)
       in Inr (str_join [newline] lines @ [newline])))"

definition write_attack_markdown :: "'w host \<Rightarrow> string \<Rightarrow> dict list \<Rightarrow> ('w, unit) io" where
  "write_attack_markdown h p rows =
     bindIO (liftE (attack_markdown rows)) (\<lambda>t. act (write_at h p t))"

definition write_fuzz_markdown :: "'w host \<Rightarrow> string \<Rightarrow> dict list \<Rightarrow> dict list \<Rightarrow> ('w, unit) io" where
  "write_fuzz_markdown h p cases findings =
     bindIO (liftE (fuzz_markdown cases findings)) (\<lambda>t. act (write_at h p t))"

end
