(* ===== verification/RcMain.thy ===== *)
theory RcMain
  imports RcCampaign
begin

text \<open>
  The rest of \<open>tools/stabilization/run_rc_stab.py\<close>: removal of temporary trees, the property
  suites, the reproducibility check in a clean clone, the rollback rehearsal, and the entry point
  with its gates, verdict and evidence.
\<close>

subsection \<open>Removing a tree\<close>

text \<open>The handler of \<open>shutil.rmtree\<close>: both of its attempts may fail, and it never raises.\<close>

definition rmtree_onerror :: "'w host \<Rightarrow> (string \<Rightarrow> 'w \<Rightarrow> bool \<times> 'w) \<Rightarrow> string \<Rightarrow> 'w \<Rightarrow> 'w" where
  "rmtree_onerror h func p w = snd (func p (snd (chmod_at h p w)))"

definition cleanup_report :: "string \<Rightarrow> string \<Rightarrow> json \<Rightarrow> json \<Rightarrow> dict" where
  "cleanup_report status p error_type errno =
     [(''status'', JStr status), (''root_path'', JStr p), (''error_type'', error_type),
      (''errno'', errno)]"

definition safe_rmtree :: "'w host \<Rightarrow> string \<Rightarrow> 'w \<Rightarrow> dict \<times> 'w" where
  "safe_rmtree h p w =
     (if \<not> exists_at h w p then (cleanup_report ''ok'' p JNull JNull, w)
      else case rmtree h (Some (rmtree_onerror h)) p w of
        (None, w1) \<Rightarrow> (cleanup_report ''ok'' p JNull JNull, w1)
      | (Some (ty, errno), w1) \<Rightarrow>
          (cleanup_report ''failed'' p (JStr ty)
             (case errno of None \<Rightarrow> JNull | Some n \<Rightarrow> JInt n),
           snd (rmtree h None p w1)))"

subsection \<open>Property suites\<close>

definition pass_fail :: "bool \<Rightarrow> string" where
  "pass_fail b = (if b then ''PASS'' else ''FAIL'')"

definition bool_str :: "bool \<Rightarrow> string" where
  "bool_str b = (if b then ''True'' else ''False'')"

definition cargo_properties_docker :: string where
  "cargo_properties_docker =
     ''docker run --rm -v <repo>:/work -w /work/core/rust rust:1.86 '' @
     ''bash -lc '' @ [squote] @
     ''cargo test --manifest-path /work/core/rust/Cargo.toml -p grain-core --test properties'' @ [squote]"

text \<open>The Rust suite runs with cargo, else in a container, else counts as a run that failed.\<close>

definition run_rust_properties :: "'w host \<Rightarrow> string \<Rightarrow> ('w, string \<times> int) io" where
  "run_rust_properties h rt =
     bindIO (command_exists h rt ''cargo'') (\<lambda>cargo.
     if cargo then
       bindIO (run h [''cargo'', ''test'', ''--manifest-path'', ''core/rust/Cargo.toml'', ''-p'',
                      ''grain-core'', ''--test'', ''properties''] rt 600) (\<lambda>p.
         retIO (''cargo test --manifest-path core/rust/Cargo.toml -p grain-core --test properties'',
                returncode p))
     else
       bindIO (command_exists h rt ''docker'') (\<lambda>docker.
       if docker then
         bindIO (run h [''docker'', ''run'', ''--rm'', ''-v'', rt @ '':/work'', ''-w'',
                        ''/work/core/rust'', ''rust:1.86'', ''bash'', ''-lc'',
                        ''set -euo pipefail; export PATH=/usr/local/cargo/bin:$PATH; cargo test --manifest-path /work/core/rust/Cargo.toml -p grain-core --test properties'']
                   rt 900) (\<lambda>p. retIO (cargo_properties_docker, returncode p))
       else
         retIO (''cargo test --manifest-path core/rust/Cargo.toml -p grain-core --test properties'',
                127)))"

definition suite_report :: "string \<Rightarrow> int \<Rightarrow> dict" where
  "suite_report command rc =
     [(''pass'', JBool (rc = 0)), (''command'', JStr command), (''return_code'', JInt rc)]"

definition margin :: string where
  "margin = replicate 12 CHR '' ''"

definition properties_markdown :: "bool \<Rightarrow> bool \<Rightarrow> string" where
  "properties_markdown rust_ok ts_ok =
     str_strip (dedent (str_join [newline]
       [[], margin @ ''# Property Checks'', [],
        margin @ ''- Rust properties: '' @ pass_fail rust_ok,
        margin @ ''- TS properties: '' @ pass_fail ts_ok, margin])) @ [newline]"

definition run_properties :: "'w host \<Rightarrow> string \<Rightarrow> string \<Rightarrow> ('w, dict) io" where
  "run_properties h rt out =
     bindIO (run_rust_properties h rt) (\<lambda>(command, rust_rc).
     bindIO (run h [''npm'', ''--prefix'', ''runner/typescript'', ''run'', ''test:properties''] rt 300) (\<lambda>ts.
     let ts_json_path = path_join rt ''runner/typescript/.properties-full.json'';
         ts_report = suite_report ''npm --prefix runner/typescript run test:properties'' (returncode ts)
     in bindIO (readIO (\<lambda>w. exists_at h w ts_json_path)) (\<lambda>has_json.
        bindIO (if has_json
                then bindIO (load_json h ts_json_path) (\<lambda>s. retIO (dict_set ts_report ''summary'' s))
                else retIO ts_report) (\<lambda>ts_report'.
        seqIO (act (write_at h (path_join out ''properties-report.md'')
                 (properties_markdown (rust_rc = 0) (returncode ts = 0))))
          (retIO [(''rust_properties'', JObj (suite_report command rust_rc)),
                  (''ts_properties'', JObj ts_report')])))))"

subsection \<open>Reproducibility\<close>

definition repro_report :: "string \<Rightarrow> string \<Rightarrow> string \<Rightarrow> dict" where
  "repro_report mode baseline_tag baseline_sha =
     [(''executed'', JBool (mode = ''deep'')), (''baseline_tag'', JStr baseline_tag),
      (''baseline_evidence_sha256'', JStr baseline_sha), (''pass'', JBool False),
      (''cleanup'', JObj [(''status'', JStr ''not_run''), (''root_path'', JNull),
                          (''error_type'', JNull), (''errno'', JNull)])]"

text \<open>The second word of the first line of the evidence file; an empty file has no first line.\<close>

definition observed_sha :: "string \<Rightarrow> string res" where
  "observed_sha t =
     (case str_splitlines t of
        [] \<Rightarrow> Inl IndexError
      | l # ls \<Rightarrow> (let parts = str_words (str_strip l)
                   in Inr (if length parts > 1 then parts ! 1 else [])))"

definition repro_markdown :: "dict \<Rightarrow> string \<Rightarrow> string \<Rightarrow> string \<Rightarrow> string \<Rightarrow> string" where
  "repro_markdown report baseline_tag baseline_commit baseline_sha observed =
     (let m = margin @ ''    '' in
      str_strip (dedent (str_join [newline]
        [[], m @ ''# Reproducibility Report'', [],
         m @ ''- Baseline tag: `'' @ baseline_tag @ ''`'',
         m @ ''- Baseline commit: `'' @ baseline_commit @ ''`'',
         m @ ''- Baseline evidence sha: `'' @ baseline_sha @ ''`'',
         m @ ''- Observed evidence sha: `'' @ observed @ ''`'',
         m @ ''- Observed node version: `'' @
           json_str (dict_get_or report ''observed_node_version'' (JStr ''unknown'')) @ ''`'',
         m @ ''- Verdict: '' @ pass_fail (truthy (dict_get report ''pass'')), m])) @ [newline])"

definition report_text :: "string \<Rightarrow> string \<Rightarrow> string" where
  "report_text title body = ''# '' @ title @ [newline, newline] @ body @ [newline]"

text \<open>Leaving the check early: the error is recorded, the report written.\<close>

definition repro_fail ::
  "'w host \<Rightarrow> string \<Rightarrow> dict \<Rightarrow> string \<Rightarrow> string \<Rightarrow> ('w, dict) io" where
  "repro_fail h md_path report err body =
     seqIO (act (write_at h md_path (report_text ''Reproducibility Report'' body)))
       (retIO (dict_set report ''error'' (JStr err)))"

definition repro_evidence ::
  "'w host \<Rightarrow> string \<Rightarrow> string \<Rightarrow> string \<Rightarrow> string \<Rightarrow> string \<Rightarrow> dict \<Rightarrow> ('w, dict) io" where
  "repro_evidence h md_path repro_out baseline_tag baseline_commit baseline_sha report =
     bindIO (host_read h (path_join repro_out ''evidence.sha256'')) (\<lambda>t.
     bindIO (liftE (observed_sha t)) (\<lambda>observed.
     let inputs = path_join repro_out ''inputs-hashes.json'' in
     bindIO (readIO (\<lambda>w. exists_at h w inputs)) (\<lambda>has_inputs.
     bindIO (if has_inputs
             then bindIO (load_json h inputs) (\<lambda>v. bindIO (liftE (attr_get v ''node_version'')) (\<lambda>n.
                    retIO (dict_set report ''observed_node_version'' n)))
             else retIO report) (\<lambda>report1.
     let report2 = dict_set (dict_set report1 ''observed_evidence_sha256'' (JStr observed))
                     ''pass'' (JBool (observed = baseline_sha))
     in seqIO (act (write_at h md_path
                 (repro_markdown report2 baseline_tag baseline_commit baseline_sha observed)))
          (retIO report2)))))"

definition repro_body ::
  "'w host \<Rightarrow> string \<Rightarrow> string \<Rightarrow> string \<Rightarrow> string \<Rightarrow> string \<Rightarrow> string \<Rightarrow> dict \<Rightarrow> ('w, dict) io" where
  "repro_body h rt md_path temp baseline_tag baseline_commit baseline_sha report =
     (let clone = path_join temp ''clone''; repro_out = path_join clone ''artifacts/interop-repro'' in
      bindIO (run h [''git'', ''clone'', ''--quiet'', rt, clone] rt 120) (\<lambda>c.
      if returncode c \<noteq> 0 then repro_fail h md_path report ''clone_failed'' ''Clone failed.'' else
      bindIO (run h [''git'', ''checkout'', baseline_tag] clone 60) (\<lambda>co.
      if returncode co \<noteq> 0 then repro_fail h md_path report ''checkout_failed'' ''Checkout failed.'' else
      bindIO (run h [''tools/interop_certify.sh'', ''--out-dir'', repro_out, ''--commit-sha'',
                     baseline_commit] clone 2400) (\<lambda>cert.
      let report1 = dict_set report ''interop_certify_return_code'' (JInt (returncode cert)) in
      if returncode cert \<noteq> 0
      then repro_fail h md_path report1 ''interop_certify_failed''
             ''`tools/interop_certify.sh` failed in clean clone.''
      else
      bindIO (readIO (\<lambda>w. exists_at h w (path_join repro_out ''evidence.sha256''))) (\<lambda>has_evidence.
      if \<not> has_evidence
      then repro_fail h md_path report1 ''missing_evidence_sha''
             ''Missing evidence.sha256 in repro output.''
      else repro_evidence h md_path repro_out baseline_tag baseline_commit baseline_sha report1)))))"

definition cleanup_warning :: "dict \<Rightarrow> string" where
  "cleanup_warning cleanup =
     ''STAB_CLEANUP_WARN: repro temp cleanup failed '' @
     ''(type='' @ json_str (dict_get cleanup ''error_type'') @ '' errno='' @
     json_str (dict_get cleanup ''errno'') @ '' root='' @ json_str (dict_get cleanup ''root_path'') @ '')''"

text \<open>
  The body under \<open>try\<close> ... \<open>finally\<close>: whatever the body returns or raises, the temporary tree is
  removed, and a report that is returned carries the outcome of the removal.
\<close>

definition with_cleanup :: "'w host \<Rightarrow> string \<Rightarrow> ('w, dict) io \<Rightarrow> ('w, dict) io" where
  "with_cleanup h temp body w =
     (case body w of (r, w1) \<Rightarrow>
      case safe_rmtree h temp w1 of (cleanup, w2) \<Rightarrow>
        let w3 = (if dict_get cleanup ''status'' = JStr ''failed''
                  then print_line h (cleanup_warning cleanup) w2 else w2)
        in (case r of Inl e \<Rightarrow> Inl e | Inr report \<Rightarrow> Inr (dict_set report ''cleanup'' (JObj cleanup)), w3))"

definition run_repro_check ::
  "'w host \<Rightarrow> string \<Rightarrow> string \<Rightarrow> string \<Rightarrow> string \<Rightarrow> string \<Rightarrow> ('w, dict) io" where
  "run_repro_check h rt mode out baseline_tag baseline_sha =
     (let report = repro_report mode baseline_tag baseline_sha;
          md_path = path_join out ''reproducibility-report.md''
      in if mode \<noteq> ''deep'' then
           seqIO (act (write_at h md_path
                    (report_text ''Reproducibility Report'' ''Skipped in smoke mode.''))) (retIO report)
         else
           bindIO (git_commit_rev_parse h rt baseline_tag) (\<lambda>baseline_commit.
           bindIO (stepIO (new_temp_dir h ''grain-rc-stab-repro-'')) (\<lambda>temp.
             with_cleanup h temp
               (repro_body h rt md_path temp baseline_tag baseline_commit baseline_sha
                  (dict_set report ''baseline_commit'' (JStr baseline_commit))))))"

end
