(* ===== verification/RcVerdict.thy ===== *)
theory RcVerdict
  imports RcMain
begin

text \<open>
  The rollback rehearsal of \<open>tools/stabilization/run_rc_stab.py\<close>, and its entry point: the five
  gates, the verdict, the evidence document and the exit code.
\<close>

subsection \<open>The rollback rehearsal\<close>

text \<open>\<open>any(name.startswith(p) for name in names)\<close>, which stops at the first name that does.\<close>

fun any_starts_with :: "string \<Rightarrow> json list \<Rightarrow> bool res" where
  "any_starts_with p [] = Inr False"
| "any_starts_with p (JStr s # xs) = (if starts_with s p then Inr True else any_starts_with p xs)"
| "any_starts_with p (_ # xs) = Inl AttributeError"

text \<open>Whether the release is a prerelease, the names of its assets, and whether both kinds are there.\<close>

definition release_facts :: "json \<Rightarrow> (bool \<times> json list \<times> bool) res" where
  "release_facts payload =
     bindE (attr_get_or payload ''prerelease'' (JBool False)) (\<lambda>pre.
     bindE (attr_get_or payload ''assets'' (JArr [])) (\<lambda>as.
     bindE (py_iter as) (\<lambda>items.
     bindE (mapE (\<lambda>a. attr_get_or a ''name'' (JStr [])) items) (\<lambda>names.
     bindE (any_starts_with ''evidence-'' names) (\<lambda>ev.
     bindE (if ev then any_starts_with ''interop-evidence-'' names else Inr False) (\<lambda>ok.
       Inr (truthy pre, names, ok)))))))"

definition rollback_markdown :: "string \<Rightarrow> string \<Rightarrow> bool \<Rightarrow> bool \<Rightarrow> bool \<Rightarrow> bool \<Rightarrow> bool \<Rightarrow> bool \<Rightarrow> string" where
  "rollback_markdown baseline_tag rc2_tag tag_exists rc2_exists lookup_ok prerelease release_ok pass =
     (let m = replicate 8 CHR '' '' in
      str_strip (dedent (str_join [newline]
        [[], m @ ''# Rollback Rehearsal'', [],
         m @ ''- Baseline RC tag exists: `'' @ bool_str tag_exists @ ''`'',
         m @ ''- RC release lookup success: `'' @ bool_str lookup_ok @ ''`'',
         m @ ''- RC release prerelease=true: `'' @ bool_str prerelease @ ''`'',
         m @ ''- RC release has evidence+interop assets: `'' @ bool_str release_ok @ ''`'',
         m @ ''- RC2 tag currently absent (`'' @ rc2_tag @ ''`): `'' @ bool_str (\<not> rc2_exists) @ ''`'',
         m @ ''- Drill verdict: '' @ pass_fail pass, [],
         m @ ''## Non-destructive rollback playbook (simulated)'', [],
         m @ ''1. Publish revocation note under `spec/rc/REVOCATIONS/` for `'' @ baseline_tag @ ''`.'',
         m @ ''2. Cut new signed tag `'' @ rc2_tag @ ''` on blocker-fix commit.'',
         m @ ''3. Push RC2 tag and verify `release-evidence` + `interop-certify` artifacts.'',
         m @ ''4. Update claim references to RC2 evidence hash.'', m])) @ [newline])"

definition rollback_report :: "string \<Rightarrow> string \<Rightarrow> string \<Rightarrow> dict" where
  "rollback_report mode baseline_tag repo_slug =
     [(''executed'', JBool (mode = ''deep'')), (''pass'', JBool False),
      (''baseline_tag'', JStr baseline_tag),
      (''rc2_tag_candidate'', JStr (str_replace ''rc1'' ''rc2'' baseline_tag)),
      (''repo'', JStr repo_slug)]"

definition run_rollback_rehearsal ::
  "'w host \<Rightarrow> string \<Rightarrow> string \<Rightarrow> string \<Rightarrow> string \<Rightarrow> string \<Rightarrow> ('w, dict) io" where
  "run_rollback_rehearsal h rt mode out baseline_tag repo_slug =
     (let report = rollback_report mode baseline_tag repo_slug;
          rc2_tag = str_replace ''rc1'' ''rc2'' baseline_tag;
          md_path = path_join out ''rollback-rehearsal.md''
      in if mode \<noteq> ''deep'' then
           seqIO (act (write_at h md_path
                    (report_text ''Rollback Rehearsal'' ''Skipped in smoke mode.''))) (retIO report)
         else
           bindIO (run h [''git'', ''tag'', ''--list'', baseline_tag] rt 120) (\<lambda>p1.
           bindIO (run h [''git'', ''tag'', ''--list'', rc2_tag] rt 120) (\<lambda>p2.
           let tag_exists = (str_strip (stdout p1) = baseline_tag);
               rc2_exists = (str_strip (stdout p2) \<noteq> []) in
           bindIO (run h [''gh'', ''--version''] rt 30) (\<lambda>gh.
           if returncode gh \<noteq> 0 then
             seqIO (act (write_at h md_path
                      (report_text ''Rollback Rehearsal'' ''`gh` CLI is required for deep rollback drill.'')))
               (retIO (dict_set report ''error'' (JStr ''gh_cli_missing'')))
           else
           bindIO (run h [''gh'', ''api'', ''repos/'' @ repo_slug @ ''/releases/tags/'' @ baseline_tag]
                      rt 120) (\<lambda>rel.
           bindIO (liftE (if returncode rel = 0
                          then bindE (host_loads h (stdout rel)) release_facts
                          else Inr (False, [], False))) (\<lambda>(prerelease, assets, release_ok).
           let lookup_ok = (returncode rel = 0);
               pass = (tag_exists \<and> \<not> rc2_exists \<and> lookup_ok \<and> release_ok \<and> prerelease);
               report1 = dict_set (dict_set (dict_set (dict_set (dict_set (dict_set (dict_set report
                   ''tag_exists'' (JBool tag_exists)) ''rc2_exists'' (JBool rc2_exists))
                   ''release_lookup_ok'' (JBool lookup_ok)) ''release_prerelease'' (JBool prerelease))
                   ''release_assets'' (JArr assets)) ''release_assets_ok'' (JBool release_ok))
                   ''pass'' (JBool pass)
           in seqIO (act (write_at h md_path (rollback_markdown baseline_tag rc2_tag tag_exists
                       rc2_exists lookup_ok prerelease release_ok pass)))
                (retIO report1)))))))"

subsection \<open>The entry point\<close>

record rc_args =
  arg_mode :: string
  arg_out_dir :: string
  arg_baseline_tag :: string
  arg_baseline_sha :: string
  arg_rust_cmd :: "string list"
  arg_ts_cmd :: "string list"
  arg_repo :: "string option"
  arg_seed :: int

definition zip_and_hash :: "'w host \<Rightarrow> string \<Rightarrow> string \<Rightarrow> string \<Rightarrow> 'w \<Rightarrow> 'w" where
  "zip_and_hash h source_dir zip_path sha_path w =
     (let w1 = zip_tree h source_dir zip_path w
      in write_at h sha_path (sha256_at h w1 zip_path @ ''  '' @ path_name zip_path @ [newline]) w1)"

definition campaign_gates ::
  "string \<Rightarrow> dict list \<Rightarrow> dict list \<Rightarrow> bool \<Rightarrow> dict \<Rightarrow> dict \<Rightarrow> (string \<times> bool) list" where
  "campaign_gates mode attack_findings fuzz_findings properties_pass repro rollback =
     [(''attack_matrix_pass'', attack_findings = []),
      (''fuzz_no_crash_or_divergence'', fuzz_findings = []),
      (''properties_pass'', properties_pass),
      (''repro_pass'', if mode = ''smoke'' then True
                       else truthy (dict_get_or repro ''pass'' (JBool False))),
      (''rollback_rehearsal_pass'', if mode = ''smoke'' then True
                       else truthy (dict_get_or rollback ''pass'' (JBool False)))]"

definition protocol_verdict :: "(string \<times> bool) list \<Rightarrow> string" where
  "protocol_verdict gates = (if list_all snd gates then ''PASS'' else ''FAIL'')"

definition suite_pass :: "dict \<Rightarrow> string \<Rightarrow> bool res" where
  "suite_pass properties k =
     bindE (dict_index properties k) (\<lambda>r.
       case r of JObj d \<Rightarrow> bindE (dict_index d ''pass'') (\<lambda>v. Inr (truthy v)) | _ \<Rightarrow> Inl TypeError)"

definition cleanup_section :: "dict \<Rightarrow> dict res" where
  "cleanup_section repro =
     (case dict_get_or repro ''cleanup'' (JObj []) of
        JObj c \<Rightarrow>
          let state = dict_get_or c ''status'' (JStr ''not_run'');
              warnings = (if state = JStr ''failed''
                then [JObj [(''code'', JStr ''STAB_CLEANUP_WARN''), (''root_path'', dict_get c ''root_path''),
                            (''error_type'', dict_get c ''error_type''), (''errno'', dict_get c ''errno'')]]
                else [])
          in Inr [(''status'', state), (''warnings'', JArr warnings),
                  (''repro_temp_dir'', dict_get c ''root_path'')]
      | _ \<Rightarrow> Inl AttributeError)"

definition count_interesting :: "dict list \<Rightarrow> nat" where
  "count_interesting cases = length (filter (\<lambda>c. verdict_of c = JStr ''INTERESTING_ACCEPT'') cases)"

definition jnat :: "nat \<Rightarrow> json" where
  "jnat n = JInt (int n)"

definition artifact_paths :: "string \<Rightarrow> string \<Rightarrow> json res" where
  "artifact_paths rt out =
     bindE (mapE (\<lambda>(k, f). bindE (relative_to (path_join out f) rt) (\<lambda>p. Inr (k, JStr p)))
       [(''fuzz_report'', ''fuzz-report.md''),
        (''attack_matrix_report'', ''attack-matrix-results.md''),
        (''reproducibility_report'', ''reproducibility-report.md''),
        (''rollback_rehearsal'', ''rollback-rehearsal.md''),
        (''minimized_repros_zip'', ''minimized-repros.zip''),
        (''minimized_repros_sha256'', ''minimized-repros.sha256'')])
       (\<lambda>ps. Inr (JObj ps))"

record campaign_results =
  res_attack :: "dict list \<times> dict list"
  res_fuzz :: fuzz_acc
  res_properties :: dict
  res_repro :: dict
  res_rollback :: dict

definition results_gates :: "string \<Rightarrow> campaign_results \<Rightarrow> (string \<times> bool) list res" where
  "results_gates mode r =
     bindE (suite_pass (res_properties r) ''rust_properties'') (\<lambda>rust_ok.
     bindE (if rust_ok then suite_pass (res_properties r) ''ts_properties'' else Inr False) (\<lambda>props_ok.
       Inr (campaign_gates mode (snd (res_attack r)) (fst (snd (res_fuzz r))) props_ok
              (res_repro r) (res_rollback r))))"

definition evidence_core ::
  "rc_args \<Rightarrow> string \<Rightarrow> string \<Rightarrow> string \<Rightarrow> (string \<times> bool) list \<Rightarrow> dict \<Rightarrow> json \<Rightarrow>
     campaign_results \<Rightarrow> dict" where
  "evidence_core args repo head_commit baseline_commit gates cleanup artifacts r =
     [(''tor'', JStr ''TOR-RC-STAB-A01''), (''mode'', JStr (arg_mode args)),
      (''verdict'', JStr (protocol_verdict gates)),
      (''protocol_verdict'', JStr (protocol_verdict gates)),
      (''repo_head'', JStr head_commit), (''repo'', JStr repo), (''seed'', JInt (arg_seed args)),
      (''baseline'', JObj [(''tag'', JStr (arg_baseline_tag args)), (''commit'', JStr baseline_commit),
                           (''evidence_sha256'', JStr (arg_baseline_sha args))]),
      (''runs'', JObj [(''attack_matrix_total'', jnat (length (fst (res_attack r)))),
                       (''fuzz_total'', jnat (length (fst (res_fuzz r)))),
                       (''fuzz_findings'', jnat (length (fst (snd (res_fuzz r))))),
                       (''fuzz_interesting'', jnat (count_interesting (fst (res_fuzz r)))),
                       (''minimized_repros'', jnat (length (snd (snd (res_fuzz r)))))]),
      (''gates'', JObj (map (\<lambda>(k, b). (k, JBool b)) gates)),
      (''cleanup'', JObj cleanup), (''artifacts'', artifacts),
      (''properties'', JObj (res_properties r)), (''reproducibility'', JObj (res_repro r)),
      (''rollback'', JObj (res_rollback r))]"

text \<open>The runs and the reports written after each of them.\<close>

definition run_campaign ::
  "'w host \<Rightarrow> string \<Rightarrow> rc_args \<Rightarrow> string \<Rightarrow> campaign_context \<Rightarrow> ('w, campaign_results) io" where
  "run_campaign h rt args repo ctx =
     (let out = out_dir ctx in
      bindIO (run_attack_matrix h rt ctx) (\<lambda>attack.
      seqIO (write_attack_markdown h (path_join out ''attack-matrix-results.md'') (fst attack))
     (seqIO (dump_json h (path_join out ''attack-matrix-results.json'') (JArr (map JObj (fst attack))))
     (bindIO (run_fuzz h rt ctx (arg_mode args)) (\<lambda>fuzz.
      seqIO (write_fuzz_markdown h (path_join out ''fuzz-report.md'') (fst fuzz) (fst (snd fuzz)))
     (seqIO (dump_json h (path_join out ''fuzz-cases.json'') (JArr (map JObj (fst fuzz))))
     (bindIO (run_properties h rt out) (\<lambda>properties.
      bindIO (run_repro_check h rt (arg_mode args) out (arg_baseline_tag args) (arg_baseline_sha args)) (\<lambda>repro.
      bindIO (run_rollback_rehearsal h rt (arg_mode args) out (arg_baseline_tag args) repo) (\<lambda>rollback.
        retIO \<lparr>res_attack = attack, res_fuzz = fuzz, res_properties = properties,
               res_repro = repro, res_rollback = rollback\<rparr>))))))))))"

definition write_evidence ::
  "'w host \<Rightarrow> string \<Rightarrow> dict \<Rightarrow> rat \<Rightarrow> campaign_results \<Rightarrow> ('w, unit) io" where
  "write_evidence h out core started r =
     bindIO (stepIO (clock h)) (\<lambda>now.
     let stabilization =
           dict_set (dict_set (dict_set core
             ''content_digest_sha256'' (JStr (sha256_text h (stable (JObj core)))))
             ''started_at_epoch'' (JInt (trunc started)))
             ''duration_seconds'' (JInt (trunc (now - started)))
     in seqIO (dump_json h (path_join out ''stabilization-evidence.json'') (JObj stabilization))
          (if length (snd (res_attack r)) + length (fst (snd (res_fuzz r))) > 0
           then dump_json h (path_join out ''findings.json'')
                  (JObj [(''attack'', JArr (map JObj (snd (res_attack r)))),
                         (''fuzz'', JArr (map JObj (fst (snd (res_fuzz r)))))])
           else retIO ()))"

definition rc_main :: "'w host \<Rightarrow> string \<Rightarrow> rc_args \<Rightarrow> ('w, int) io" where
  "rc_main h rt args =
     bindIO (detect_repo_slug h rt) (\<lambda>slug.
     let repo = (case arg_repo args of None \<Rightarrow> slug | Some r \<Rightarrow> r);
         out = resolve h (path_join rt (arg_out_dir args));
         mini = path_join out ''minimized-repros'';
         ctx = \<lparr>rust_cmd = arg_rust_cmd args, ts_cmd = arg_ts_cmd args, out_dir = out,
                minimized_dir = mini\<rparr> in
     seqIO (act (mkdir_at h out)) (seqIO (act (mkdir_at h mini))
     (bindIO (run h [''npm'', ''--prefix'', ''runner/typescript'', ''run'', ''build'', ''--silent''] rt 900)
       (\<lambda>ts_build.
      if returncode ts_build \<noteq> 0
      then raiseIO (RuntimeError ''npm --prefix runner/typescript run build --silent failed'')
      else
      seqIO (act (seed_rng h (arg_seed args)))
     (bindIO (stepIO (clock h)) (\<lambda>started.
      bindIO (git_commit_rev_parse h rt (arg_baseline_tag args)) (\<lambda>baseline_commit.
      bindIO (run_campaign h rt args repo ctx) (\<lambda>r.
      seqIO (act (zip_and_hash h mini (path_join out ''minimized-repros.zip'')
                    (path_join out ''minimized-repros.sha256'')))
     (bindIO (liftE (results_gates (arg_mode args) r)) (\<lambda>gates.
      bindIO (liftE (cleanup_section (res_repro r))) (\<lambda>cleanup.
      bindIO (git_rev_parse h rt ''HEAD'') (\<lambda>head_commit.
      bindIO (liftE (artifact_paths rt out)) (\<lambda>artifacts.
      seqIO (write_evidence h out
               (evidence_core args repo head_commit baseline_commit gates cleanup artifacts r)
               started r)
        (retIO (if protocol_verdict gates = ''PASS'' then 0 else 1)))))))))))))))"

end
