(* ===== verification/RcProps.thy ===== *)
theory RcProps
  imports RcVerdict
begin

text \<open>
  What the stabilization campaigns promise: the verdict on a fuzz case, the agreement of findings
  with rows and cases, that temporary files are removed on every path, that a failed clean-up
  never changes the outcome of the reproducibility check, and what exit code 0 means.
\<close>

subsection \<open>Verdicts\<close>

lemma verdict_of_set [simp]:
  "verdict_of (dict_set d k v) = (if k = ''verdict'' then v else verdict_of d)"
  by (simp add: verdict_of_def)

lemma verdict_of_with_verdict [simp]: "verdict_of (with_verdict v r c) = JStr v"
  by (simp add: with_verdict_def)

lemma runner_report_dict:
  "rr_output r = JObj d \<Longrightarrow> \<exists>j. runner_report r = Inr j"
  by (simp add: runner_report_def)

definition mutation_verdict :: "runner_result \<Rightarrow> dict \<Rightarrow> runner_result \<Rightarrow> dict \<Rightarrow> string" where
  "mutation_verdict rust ro ts to =
     (if rr_crash rust \<or> rr_crash ts then ''FOUND_BUG''
      else if truthy (dict_get ro ''pass'') \<noteq> truthy (dict_get to ''pass'') then ''FOUND_BUG''
      else if truthy (dict_get ro ''pass'') then ''INTENTIONALLY_REJECTED'' else ''INTERESTING_ACCEPT'')"

lemma truthy_get_or_False: "truthy (dict_get_or d k (JBool False)) = truthy (dict_get d k)"
  by (simp add: dict_get_or_def dict_get_def split: option.split)

lemma judge_mutation_dicts:
  assumes "rr_output rust = JObj ro" and "rr_output ts = JObj to"
  shows "\<exists>c. judge_mutation rust ts i = Inr c \<and>
           verdict_of c = JStr (mutation_verdict rust ro ts to) \<and> dict_get c ''id'' = JStr i \<and>
           dict_get c ''reason'' \<in> {JStr ''runner_crash_or_unparseable_output'',
             JStr ''accept_reject_divergence'', JStr ''both_rejected'',
             JStr ''mutated_input_accepted_by_both''}"
proof -
  obtain jr jt where "runner_report rust = Inr jr" "runner_report ts = Inr jt"
    using runner_report_dict assms by metis
  then show ?thesis
    using assms
    by (simp add: judge_mutation_def Let_def mutation_verdict_def truthy_get_or_False)
       (simp add: with_verdict_def dict_get_def [of "[_]"] dict_get_def [of "_ # _"])
qed

lemma judge_mutation_Inr:
  "judge_mutation rust ts i = Inr c \<Longrightarrow> \<exists>ro to. rr_output rust = JObj ro \<and> rr_output ts = JObj to"
  by (auto simp: judge_mutation_def runner_report_def res_simps)

lemma judge_mutation_id: "judge_mutation rust ts i = Inr c \<Longrightarrow> dict_get c ''id'' = JStr i"
  using judge_mutation_Inr judge_mutation_dicts by (metis sum.inject(2))

lemma judge_mutation_verdict:
  "judge_mutation rust ts i = Inr c \<Longrightarrow>
     verdict_of c \<in> {JStr ''FOUND_BUG'', JStr ''INTENTIONALLY_REJECTED'', JStr ''INTERESTING_ACCEPT''}"
proof -
  assume c: "judge_mutation rust ts i = Inr c"
  then obtain ro to where "rr_output rust = JObj ro" "rr_output ts = JObj to"
    using judge_mutation_Inr by blast
  from judge_mutation_dicts [OF this, of i] c show ?thesis
    by (auto simp: mutation_verdict_def)
qed

lemma evaluate_mutation_case_Inr:
  "evaluate_mutation_case h rt ctx v i w = (Inr c, w') \<Longrightarrow>
     \<exists>rust ts. judge_mutation rust ts i = Inr c"
  by (auto simp: evaluate_mutation_case_def io_simps)

text \<open>When both runners print an object, the verdict on a fuzz case is a bug exactly when a runner
crashed or the two disagree; otherwise it says whether both rejected or both accepted. The fallback
\<open>unexpected_mutation_state\<close> is never reached.\<close>

theorem mutation_case_verdict:
  assumes "rr_output rust = JObj ro" and "rr_output ts = JObj to"
  shows "\<exists>c. judge_mutation rust ts case_id = Inr c \<and>
     (verdict_of c = JStr ''FOUND_BUG'' \<longleftrightarrow>
        rr_crash rust \<or> rr_crash ts \<or>
        truthy (dict_get ro ''pass'') \<noteq> truthy (dict_get to ''pass'')) \<and>
     (verdict_of c = JStr ''INTENTIONALLY_REJECTED'' \<longleftrightarrow>
        \<not> rr_crash rust \<and> \<not> rr_crash ts \<and> truthy (dict_get ro ''pass'') \<and> truthy (dict_get to ''pass'')) \<and>
     (verdict_of c = JStr ''INTERESTING_ACCEPT'' \<longleftrightarrow>
        \<not> rr_crash rust \<and> \<not> rr_crash ts \<and> \<not> truthy (dict_get ro ''pass'') \<and>
        \<not> truthy (dict_get to ''pass'')) \<and>
     dict_get c ''reason'' \<noteq> JStr ''unexpected_mutation_state''"
proof -
  obtain c where c: "judge_mutation rust ts case_id = Inr c"
      "verdict_of c = JStr (mutation_verdict rust ro ts to)"
      "dict_get c ''reason'' \<in> {JStr ''runner_crash_or_unparseable_output'',
         JStr ''accept_reject_divergence'', JStr ''both_rejected'',
         JStr ''mutated_input_accepted_by_both''}"
    using judge_mutation_dicts [OF assms] by blast
  from c(3) have "dict_get c ''reason'' \<noteq> JStr ''unexpected_mutation_state''" by auto
  with c(1,2) show ?thesis by (intro exI [of _ c]) (simp add: mutation_verdict_def)
qed

definition printed :: "json \<Rightarrow> runner_result" where
  "printed v = \<lparr>rr_crash = False, rr_timeout = False, rr_return_code = 0, rr_output = v,
                rr_stdout = [], rr_stderr = []\<rparr>"

theorem mutation_case_verdict_witness:
  "\<exists>c. judge_mutation (printed (JObj [(''pass'', JBool True)])) (printed (JObj [])) ''FZ'' = Inr c \<and>
     verdict_of c = JStr ''FOUND_BUG''"
proof -
  have "rr_output (printed (JObj [(''pass'', JBool True)])) = JObj [(''pass'', JBool True)]"
    "rr_output (printed (JObj [])) = JObj []" by (simp_all add: printed_def)
  from mutation_case_verdict [OF this, of "''FZ''"] show ?thesis
    by (auto simp: dict_get_def)
qed

text \<open>A runner whose last output line is valid JSON but not an object is not reported as a bug: it
does not count as a crash, and judging the case raises \<open>AttributeError\<close>.\<close>

theorem non_object_output_raises:
  assumes "parse_runner_output h (stdout p) = Inr v" and "\<not> is_dict v"
  shows "\<not> rr_crash (completed_result h p) \<and>
         judge_mutation (completed_result h p) ts case_id = Inl AttributeError"
proof -
  have "rr_output (completed_result h p) = v" "\<not> rr_crash (completed_result h p)"
    using assms(1) by (simp_all add: completed_result_def)
  moreover have "attr_get_or v ''diag'' (JArr []) = Inl AttributeError"
    using assms(2) by (cases v) simp_all
  ultimately show ?thesis by (simp add: judge_mutation_def runner_report_def)
qed

text \<open>A machine whose runner prints one fixed line and whose files all hold one vector; \<open>wr\<close> says what
becomes of its state when a file is written.\<close>

definition fixed_host :: "(string \<Rightarrow> string \<Rightarrow> 'w \<Rightarrow> 'w) \<Rightarrow> json \<Rightarrow> json \<Rightarrow> 'w host" where
  "fixed_host wr file out =
     \<lparr>exec = (\<lambda>_ _ _ w. (Completed 0 ''out'' [], w)), file_at = (\<lambda>_ _. Some ''file''),
      exists_at = (\<lambda>_ _. False), write_at = wr, mkdir_at = (\<lambda>_ w. w),
      unlink_at = (\<lambda>_ w. w), new_temp_file = (\<lambda>_ w. (''t.json'', w)),
      new_temp_dir = (\<lambda>_ w. (''tmp'', w)), chmod_at = (\<lambda>_ w. (True, w)),
      rmtree = (\<lambda>_ _ w. (None, w)), print_line = (\<lambda>_ w. w), environ = (\<lambda>_. Some ''o/r''),
      resolve = (\<lambda>p. p), clock = (\<lambda>w. (0, w)), seed_rng = (\<lambda>_ w. w), rand_byte = (\<lambda>w. (0, w)),
      zip_tree = (\<lambda>_ _ w. w), sha256_at = (\<lambda>_ _. ''00''), sha256_text = (\<lambda>_. ''00''),
      parse_json = (\<lambda>t. if t = ''file'' then Some file else if t = ''out'' then Some out else None)\<rparr>"

theorem non_object_output_raises_witness:
  "\<forall>ts. judge_mutation (completed_result (fixed_host (\<lambda>_ _ (w :: unit). w) JNull (JArr [])) (Completed 0 ''out'' [])) ts ''FZ''
     = Inl AttributeError"
proof -
  have "parse_runner_output (fixed_host (\<lambda>_ _ (w :: unit). w) JNull (JArr [])) (stdout (Completed 0 ''out'' [])) = Inr (JArr [])"
    "\<not> is_dict (JArr [])"
    by code_simp+
  from non_object_output_raises [OF this, of _ "''FZ''"] show ?thesis by simp
qed

subsection \<open>The fuzz loop\<close>

definition is_bug :: "dict \<Rightarrow> bool" where
  "is_bug c = (verdict_of c = JStr ''FOUND_BUG'')"

definition is_kept :: "dict \<Rightarrow> bool" where
  "is_kept c = (verdict_of c \<in> {JStr ''FOUND_BUG'', JStr ''INTERESTING_ACCEPT''})"

definition repro_path :: "campaign_context \<Rightarrow> dict \<Rightarrow> string" where
  "repro_path ctx c = path_join (minimized_dir ctx) (json_str (dict_get c ''id'') @ ''.json'')"

fun fuzz_inv :: "campaign_context \<Rightarrow> fuzz_acc \<Rightarrow> bool" where
  "fuzz_inv ctx (cases, findings, saved) =
     (findings = filter is_bug cases \<and> saved = map (repro_path ctx) (filter is_kept cases) \<and>
      list_all (\<lambda>c. verdict_of c \<in> {JStr ''FOUND_BUG'', JStr ''INTENTIONALLY_REJECTED'',
                                  JStr ''INTERESTING_ACCEPT''}) cases \<and>
      list_all (\<lambda>c. is_str (dict_get c ''id'')) cases)"

lemma run_fuzz_case_inv:
  assumes "fuzz_inv ctx acc" and "run_fuzz_case h rt ctx seed base p pidx original acc midx w = (Inr acc', w')"
  shows "fuzz_inv ctx acc'"
proof -
  obtain cases findings saved where acc: "acc = (cases, findings, saved)" by (cases acc)
  let ?id = "fuzz_case_id seed pidx midx"
  let ?out = "path_join (minimized_dir ctx) (?id @ ''.json'')"
  from assms(2) obtain v mutated c w1 w2 where ev: "evaluate_mutation_case h rt ctx v ?id w1 = (Inr c, w2)"
    and tail: "(if verdict_of (annotate_result c seed p mutated) \<in> {JStr ''FOUND_BUG'', JStr ''INTERESTING_ACCEPT''}
        then seqIO (dump_json h ?out (JObj v))
               (retIO (cases @ [annotate_result c seed p mutated],
                  if verdict_of (annotate_result c seed p mutated) = JStr ''FOUND_BUG''
                  then findings @ [annotate_result c seed p mutated] else findings, saved @ [?out]))
        else retIO (cases @ [annotate_result c seed p mutated],
                  if verdict_of (annotate_result c seed p mutated) = JStr ''FOUND_BUG''
                  then findings @ [annotate_result c seed p mutated] else findings, saved)) w2 = (Inr acc', w')"
    unfolding acc run_fuzz_case_def Let_def prod.case bindIO_Inr stepIO_Inr liftE_Inr
    by (elim exE conjE) (rule that)
  obtain rust ts where c: "judge_mutation rust ts ?id = Inr c"
    using evaluate_mutation_case_Inr [OF ev] by blast
  have "verdict_of (annotate_result c seed p mutated) = verdict_of c"
      "dict_get (annotate_result c seed p mutated) ''id'' = dict_get c ''id''"
    by (simp_all add: annotate_result_def)
  moreover from tail obtain res where "res = annotate_result c seed p mutated"
      "acc' = (cases @ [res], if is_bug res then findings @ [res] else findings,
               if is_kept res then saved @ [?out] else saved)"
    unfolding is_bug_def is_kept_def
    by (cases "verdict_of (annotate_result c seed p mutated) \<in> {JStr ''FOUND_BUG'', JStr ''INTERESTING_ACCEPT''}")
       (simp_all only: if_True if_False io_simps, blast+)
  ultimately have step: "\<exists>res. verdict_of res = verdict_of c \<and> dict_get res ''id'' = dict_get c ''id'' \<and>
      acc' = (cases @ [res], if is_bug res then findings @ [res] else findings,
              if is_kept res then saved @ [?out] else saved)"
    by blast
  note c' = judge_mutation_verdict [OF c] judge_mutation_id [OF c]
  from step obtain res where res: "verdict_of res = verdict_of c" "dict_get res ''id'' = dict_get c ''id''"
      "acc' = (cases @ [res], if is_bug res then findings @ [res] else findings,
              if is_kept res then saved @ [path_join (minimized_dir ctx) (fuzz_case_id seed pidx midx @ ''.json'')]
              else saved)" by blast
  have "repro_path ctx res = path_join (minimized_dir ctx) (fuzz_case_id seed pidx midx @ ''.json'')"
    by (simp add: repro_path_def res(2) c'(2))
  with assms(1) res c' show ?thesis by (simp add: acc)
qed

lemma run_fuzz_path_inv:
  assumes "fuzz_inv ctx acc" and "run_fuzz_path h rt ctx mode seed base acc ip w = (Inr acc', w')"
  shows "fuzz_inv ctx acc'"
proof -
  obtain pidx p where ip: "ip = (pidx, p)" by (cases ip)
  from assms(2) obtain raw w1 where
    "(case raw of
         JStr s \<Rightarrow> (case b64decode s of None \<Rightarrow> retIO acc
            | Some original \<Rightarrow> foldIO (run_fuzz_case h rt ctx seed base p pidx original) acc
                                 [0..<if mode = ''smoke'' then 3 else 10])
       | _ \<Rightarrow> retIO acc) w1 = (Inr acc', w')"
    unfolding ip run_fuzz_path_def Let_def by (auto simp: io_simps)
  then show ?thesis
    using assms(1)
    by (cases raw) (auto simp: io_simps split: option.splits
                         elim!: foldIO_invariant [where P = "fuzz_inv ctx"] intro: run_fuzz_case_inv)
qed

lemma run_fuzz_seed_inv:
  assumes "fuzz_inv ctx acc" and "run_fuzz_seed h rt ctx mode acc seed w = (Inr acc', w')"
  shows "fuzz_inv ctx acc'"
proof -
  from assms(2) obtain b w1 where
    "(case b of JObj base \<Rightarrow>
         foldIO (run_fuzz_path h rt ctx mode seed base) acc
           (enum (find_b64_paths (dict_get_or base ''input'' (JObj [])) []))
     | _ \<Rightarrow> raiseIO AttributeError) w1 = (Inr acc', w')"
    unfolding run_fuzz_seed_def Let_def by (auto simp: io_simps)
  then show ?thesis
    using assms(1)
    by (cases b) (auto simp: io_simps Let_def elim!: foldIO_invariant [where P = "fuzz_inv ctx"]
                       intro: run_fuzz_path_inv)
qed

lemma run_fuzz_inv: "run_fuzz h rt ctx mode w = (Inr acc, w') \<Longrightarrow> fuzz_inv ctx acc"
  unfolding run_fuzz_def
  by (erule foldIO_invariant [where P = "fuzz_inv ctx"]) (auto intro: run_fuzz_seed_inv)

subsection \<open>What the fuzz loop saves\<close>

text \<open>A machine on which only the writes of the script reach a directory: \<open>seen\<close> lists the writes under
it in order, and nothing else the loop does (a runner, a temporary file, the random generator,
making or removing files) adds to it or takes from it.\<close>

definition in_dir :: "string \<Rightarrow> string \<Rightarrow> bool" where
  "in_dir d p = starts_with p (path_join d [])"

definition logs_writes :: "'w host \<Rightarrow> string \<Rightarrow> ('w \<Rightarrow> (string \<times> string) list) \<Rightarrow> bool" where
  "logs_writes h d seen \<longleftrightarrow>
     (\<forall>p t w. seen (write_at h p t w) = seen w @ (if in_dir d p then [(p, t)] else [])) \<and>
     (\<forall>p w. seen (mkdir_at h p w) = seen w \<and> seen (unlink_at h p w) = seen w) \<and>
     (\<forall>cmd cwd t w. seen (snd (exec h cmd cwd t w)) = seen w) \<and>
     (\<forall>w. seen (snd (rand_byte h w)) = seen w) \<and>
     (\<forall>t w. seen (snd (new_temp_file h t w)) = seen w \<and> \<not> in_dir d (fst (new_temp_file h t w)))"

definition keeps :: "('w \<Rightarrow> 's) \<Rightarrow> ('w, 'a) io \<Rightarrow> bool" where
  "keeps seen m \<longleftrightarrow> (\<forall>w. seen (snd (m w)) = seen w)"

lemma keeps_simps [intro]:
  "keeps seen (retIO x)" "keeps seen (liftE r)" "keeps seen (raiseIO e)"
  "(\<And>w. seen (f w) = seen w) \<Longrightarrow> keeps seen (act f)"
  "(\<And>w. seen (snd (g w)) = seen w) \<Longrightarrow> keeps seen (stepIO g)"
  "keeps seen m \<Longrightarrow> (\<And>w. seen (f w) = seen w) \<Longrightarrow> keeps seen (finallyIO m f)"
  by (simp_all add: keeps_def retIO_def liftE_def raiseIO_def act_def stepIO_def finallyIO_def split_beta)

lemma keeps_bind_value:
  "keeps seen m \<Longrightarrow> (\<And>w x w'. m w = (Inr x, w') \<Longrightarrow> keeps seen (f x)) \<Longrightarrow> keeps seen (bindIO m f)"
  unfolding keeps_def bindIO_def by (auto split: prod.splits sum.splits) (metis snd_conv)+

lemma keeps_bindIO [intro]: "keeps seen m \<Longrightarrow> (\<And>x. keeps seen (f x)) \<Longrightarrow> keeps seen (bindIO m f)"
  by (rule keeps_bind_value)

lemma keeps_if: "keeps seen a \<Longrightarrow> keeps seen b \<Longrightarrow> keeps seen (if c then a else b)"
  by simp

lemma keeps_seqIO [intro]: "keeps seen m \<Longrightarrow> keeps seen k \<Longrightarrow> keeps seen (seqIO m k)"
  unfolding seqIO_def by blast

lemma keepsD: "keeps seen m \<Longrightarrow> m w = (r, w') \<Longrightarrow> seen w' = seen w"
  unfolding keeps_def by (metis snd_conv)

lemma keeps_run: "logs_writes h d seen \<Longrightarrow> keeps seen (run h cmd cwd t)"
  unfolding keeps_def run_def logs_writes_def by (auto split: prod.splits proc.splits) (metis snd_conv)+

lemma keeps_fall_back:
  assumes "logs_writes h d seen"
  shows "keeps seen (run_or_fall_back h rt cmd n t)"
  unfolding keeps_def
proof
  fix w
  obtain r w1 where r: "run h cmd rt t w = (r, w1)" by fastforce
  have w1: "seen w1 = seen w" using keepsD [OF keeps_run [OF assms] r] .
  have docker: "keeps seen (bindIO (command_exists h rt ''docker'') (\<lambda>ok.
      if ok then bindIO (liftE (relative_to (resolve h n) rt)) (\<lambda>rel.
          bindIO (run h (docker_cmd rt rel) rt (max t 240)) (\<lambda>p. retIO (Inr p)))
      else raiseIO (OSError e)))" for e
    unfolding command_exists_def by (intro keeps_bindIO keeps_simps keeps_run [OF assms] keeps_if)
  have "keeps seen (unlinkIO h n)"
    using assms by (auto simp: keeps_def unlinkIO_def logs_writes_def)
  then have late: "keeps seen (seqIO (unlinkIO h n) (retIO (Inl (timed_out_result out err))))" for out err by blast
  note steps = docker [unfolded keeps_def, THEN spec, of _ w1] late [unfolded keeps_def, THEN spec, of _ _ w1]
  show "seen (snd (run_or_fall_back h rt cmd n t w)) = seen w"
    by (simp add: run_or_fall_back_def r steps w1 split: sum.split exc.split)
qed

lemma keeps_invoke:
  assumes "logs_writes h d seen"
  shows "keeps seen (invoke_runner h rt pre v t)"
proof -
  have temp: "keeps seen (act (write_at h n x))" if "new_temp_file h e w = (n, w')" for n x e w w'
    using assms that by (intro keeps_simps) (auto simp: logs_writes_def, metis fst_conv)
  have clean: "keeps seen (finallyIO (run_or_fall_back h rt cmd n t)
      (\<lambda>w. if exists_at h w n then unlink_at h n w else w))" for cmd n
    using assms by (intro keeps_simps keeps_fall_back) (auto simp: logs_writes_def)
  show ?thesis
    unfolding invoke_runner_def Let_def
    using assms
    by (intro keeps_seqIO keeps_bind_value [of _ "stepIO _"] keeps_simps(4,5) temp keeps_bindIO clean)
       (auto simp: logs_writes_def io_simps split: sum.split)
qed

lemma keeps_evaluate:
  "logs_writes h d seen \<Longrightarrow> keeps seen (evaluate_mutation_case h rt ctx v i)"
  unfolding evaluate_mutation_case_def by (intro keeps_bindIO keeps_invoke keeps_simps)

lemma random_bytes_keeps:
  "logs_writes h d seen \<Longrightarrow> seen (snd (random_bytes (rand_byte h) n w)) = seen w"
  by (induction n arbitrary: w) (auto simp: logs_writes_def split_beta Let_def)

lemma keeps_mutate: "logs_writes h d seen \<Longrightarrow> keeps seen (stepIO (mutate_bytes (rand_byte h) src idx))"
  by (intro keeps_simps) (auto simp: mutate_bytes_def random_bytes_keeps)

text \<open>The vector \<open>v\<close> is the one that the case \<open>c\<close> was judged on: a seed vector with one of its base64
fields replaced by a mutation of the bytes there.\<close>

definition reproduces :: "'w host \<Rightarrow> string \<Rightarrow> campaign_context \<Rightarrow> dict \<Rightarrow> dict \<Rightarrow> bool" where
  "reproduces h rt ctx c v \<longleftrightarrow>
     (\<exists>seed base input p s original pidx midx mutated result v0 w0 w1 w2.
        seed \<in> set FUZZ_SEED_VECTORS \<and> load_json h (path_join rt seed) v0 = (Inr (JObj base), v0) \<and>
        dict_index base ''input'' = Inr input \<and> get_at_path input p = Inr (JStr s) \<and> b64decode s = Some original \<and>
        mutate_bytes (rand_byte h) original midx w0 = (mutated, w1) \<and>
        build_fuzz_vector base p mutated (fuzz_case_id seed pidx midx) = Inr v \<and>
        evaluate_mutation_case h rt ctx v (fuzz_case_id seed pidx midx) w1 = (Inr result, w2) \<and>
        c = annotate_result result seed p mutated)"

definition saved_file :: "campaign_context \<Rightarrow> dict \<Rightarrow> dict \<Rightarrow> string \<times> string" where
  "saved_file ctx c v = (repro_path ctx c, dumps_indent 2 0 (JObj v) @ [newline])"

definition saves_inv :: "'w host \<Rightarrow> string \<Rightarrow> campaign_context \<Rightarrow> ('w \<Rightarrow> (string \<times> string) list) \<Rightarrow>
    (string \<times> string) list \<Rightarrow> fuzz_acc \<Rightarrow> 'w \<Rightarrow> bool" where
  "saves_inv h rt ctx seen before acc w \<longleftrightarrow>
     (\<exists>vectors. list_all2 (reproduces h rt ctx) (filter is_kept (fst acc)) vectors \<and>
        seen w = before @ map2 (saved_file ctx) (filter is_kept (fst acc)) vectors)"

lemma saves_kept:
  "saves_inv h rt ctx seen before (cases, f, s) w \<Longrightarrow> is_kept c \<Longrightarrow> reproduces h rt ctx c v \<Longrightarrow>
     seen w' = seen w @ [saved_file ctx c v] \<Longrightarrow> saves_inv h rt ctx seen before (cases @ [c], f', s') w'"
  unfolding saves_inv_def
  by (elim exE conjE, rule_tac x = "vectors @ [v]" in exI)
     (auto simp: list_all2_appendI dest: list_all2_lengthD)

lemma saves_dropped:
  "saves_inv h rt ctx seen before (cases, f, s) w \<Longrightarrow> \<not> is_kept c \<Longrightarrow> seen w' = seen w \<Longrightarrow>
     saves_inv h rt ctx seen before (cases @ [c], f', s') w'"
  by (simp add: saves_inv_def)

lemma foldIO_world:
  assumes "foldIO f s xs w = (Inr t, w')" and "P s w"
    and "\<And>s x v s' v'. f s x v = (Inr s', v') \<Longrightarrow> P s v \<Longrightarrow> x \<in> set xs \<Longrightarrow> P s' v'"
  shows "P t w'"
  using assms
proof (induction xs arbitrary: s w)
  case Nil
  then show ?case by (simp add: io_simps)
next
  case (Cons x xs)
  from Cons.prems(1) obtain s' w1 where s': "f s x w = (Inr s', w1)"
      and rest: "foldIO f s' xs w1 = (Inr t, w')" by (auto simp: io_simps)
  have "P s' w1" by (rule Cons.prems(3) [OF s' Cons.prems(2)]) simp
  with rest show ?case by (rule Cons.IH) (erule Cons.prems(3), assumption, simp)
qed

lemma run_fuzz_case_saves:
  assumes logs: "logs_writes h (minimized_dir ctx) seen"
    and run: "run_fuzz_case h rt ctx seed base p pidx original acc midx w = (Inr acc', w')"
    and inv: "saves_inv h rt ctx seen before acc w"
    and src: "seed \<in> set FUZZ_SEED_VECTORS" "load_json h (path_join rt seed) v0 = (Inr (JObj base), v0)"
      "dict_index base ''input'' = Inr input" "get_at_path input p = Inr (JStr s)" "b64decode s = Some original"
  shows "saves_inv h rt ctx seen before acc' w'"
proof -
  obtain cases findings saved where acc: "acc = (cases, findings, saved)" by (cases acc)
  let ?id = "fuzz_case_id seed pidx midx"
  let ?out = "path_join (minimized_dir ctx) (?id @ ''.json'')"
  from run obtain mutated v r w0 w1 w2 where m0: "mutate_bytes (rand_byte h) original midx w = (mutated, w0)"
    and v: "build_fuzz_vector base p mutated ?id = Inr v" and w0: "w0 = w1"
    and ev: "evaluate_mutation_case h rt ctx v ?id w1 = (Inr r, w2)"
    and tail0: "(if verdict_of (annotate_result r seed p mutated) \<in> {JStr ''FOUND_BUG'', JStr ''INTERESTING_ACCEPT''}
        then seqIO (dump_json h ?out (JObj v))
               (retIO (cases @ [annotate_result r seed p mutated],
                  if verdict_of (annotate_result r seed p mutated) = JStr ''FOUND_BUG''
                  then findings @ [annotate_result r seed p mutated] else findings, saved @ [?out]))
        else retIO (cases @ [annotate_result r seed p mutated],
                  if verdict_of (annotate_result r seed p mutated) = JStr ''FOUND_BUG''
                  then findings @ [annotate_result r seed p mutated] else findings, saved)) w2 = (Inr acc', w')"
    unfolding acc run_fuzz_case_def Let_def prod.case bindIO_Inr stepIO_Inr liftE_Inr
    by (elim exE conjE) (rule that)
  note m = m0 [unfolded w0] and tail = tail0 [folded is_kept_def]
  let ?c = "annotate_result r seed p mutated"
  have "mutate_bytes (rand_byte h) original midx w = (mutated, w1) \<Longrightarrow> seen w1 = seen w"
    using keeps_mutate [OF logs, of original midx] by (auto simp: keeps_def stepIO_def split_beta dest: spec [of _ w])
  with m have w2: "seen w2 = seen w" using keepsD [OF keeps_evaluate [OF logs] ev] by simp
  have rep: "reproduces h rt ctx ?c v" unfolding reproduces_def using src m v ev by blast
  obtain rust ts where "judge_mutation rust ts ?id = Inr r" using evaluate_mutation_case_Inr [OF ev] by blast
  then have "dict_get ?c ''id'' = JStr ?id" using judge_mutation_id by (simp add: annotate_result_def)
  then have out: "repro_path ctx ?c = ?out" by (simp add: repro_path_def)
  have "in_dir (minimized_dir ctx) ?out"
    by (simp add: in_dir_def starts_with_def path_join_def)
  then have dump: "seen (write_at h ?out x (mkdir_at h q u)) = seen u @ [(?out, x)]" for x q u
    using logs by (simp add: logs_writes_def)
  show ?thesis
  proof (cases "is_kept ?c")
    case True
    with tail have "fst acc' = cases @ [?c]" "seen w' = seen w @ [saved_file ctx ?c v]"
      by (auto simp: dump_json_def io_simps dump saved_file_def out w2)
    with saves_kept [OF inv [unfolded acc] True rep, of w' "fst (snd acc')" "snd (snd acc')"] show ?thesis
      by (metis prod.collapse)
  next
    case False
    with tail w2 have "fst acc' = cases @ [?c]" "seen w' = seen w" by (auto simp: io_simps)
    with saves_dropped [OF inv [unfolded acc] False, of w' "fst (snd acc')" "snd (snd acc')"] show ?thesis
      by (metis prod.collapse)
  qed
qed

lemma run_fuzz_path_saves:
  assumes logs: "logs_writes h (minimized_dir ctx) seen"
    and run: "run_fuzz_path h rt ctx mode seed base acc ip w = (Inr acc', w')"
    and inv: "saves_inv h rt ctx seen before acc w"
    and src: "seed \<in> set FUZZ_SEED_VECTORS" "load_json h (path_join rt seed) v0 = (Inr (JObj base), v0)"
  shows "saves_inv h rt ctx seen before acc' w'"
proof -
  obtain pidx p where ip: "ip = (pidx, p)" by (cases ip)
  from run obtain input raw where raw: "dict_index base ''input'' = Inr input" "get_at_path input p = Inr raw"
    and tail: "(case raw of
         JStr s \<Rightarrow> (case b64decode s of None \<Rightarrow> retIO acc
            | Some original \<Rightarrow> foldIO (run_fuzz_case h rt ctx seed base p pidx original) acc
                                 [0..<if mode = ''smoke'' then 3 else 10])
       | _ \<Rightarrow> retIO acc) w = (Inr acc', w')"
    unfolding ip run_fuzz_path_def Let_def by (auto simp: io_simps)
  have step: "saves_inv h rt ctx seen before a' u'"
    if "saves_inv h rt ctx seen before a u" "raw = JStr s" "b64decode s = Some original"
      "run_fuzz_case h rt ctx seed base p pidx original a midx u = (Inr a', u')" for a u a' u' s original midx
    using run_fuzz_case_saves [OF logs that(4,1) src raw(1) _ that(3)] raw(2) that(2) by blast
  show ?thesis
  proof (cases "\<exists>s original. raw = JStr s \<and> b64decode s = Some original")
    case True
    then obtain s original where s: "raw = JStr s" "b64decode s = Some original" by blast
    with tail have "foldIO (run_fuzz_case h rt ctx seed base p pidx original) acc
        [0..<if mode = ''smoke'' then 3 else 10] w = (Inr acc', w')" by simp
    from foldIO_world [where P = "saves_inv h rt ctx seen before", OF this inv] step [OF _ s] show ?thesis by blast
  next
    case False
    then have "acc' = acc \<and> w' = w" using tail by (cases raw) (auto simp: io_simps split: option.splits)
    with inv show ?thesis by simp
  qed
qed

lemma run_fuzz_seed_saves:
  assumes logs: "logs_writes h (minimized_dir ctx) seen"
    and run: "run_fuzz_seed h rt ctx mode acc seed w = (Inr acc', w')"
    and inv: "saves_inv h rt ctx seen before acc w" and seed: "seed \<in> set FUZZ_SEED_VECTORS"
  shows "saves_inv h rt ctx seen before acc' w'"
proof -
  from run obtain b w1 where load: "load_json h (path_join rt seed) w = (Inr b, w1)"
    and tail: "(case b of JObj base \<Rightarrow>
         foldIO (run_fuzz_path h rt ctx mode seed base) acc
           (enum (find_b64_paths (dict_get_or base ''input'' (JObj [])) []))
     | _ \<Rightarrow> raiseIO AttributeError) w1 = (Inr acc', w')"
    unfolding run_fuzz_seed_def Let_def by (auto simp: io_simps)
  from load have w1: "w1 = w" by (auto simp: load_json_def host_read_def io_simps)
  show ?thesis
  proof (cases b)
    case (JObj base)
    with tail have "foldIO (run_fuzz_path h rt ctx mode seed base) acc
        (enum (find_b64_paths (dict_get_or base ''input'' (JObj [])) [])) w1 = (Inr acc', w')" by simp
    moreover have "saves_inv h rt ctx seen before acc w1" using inv w1 by simp
    ultimately show ?thesis
      by (rule foldIO_world [where P = "saves_inv h rt ctx seen before"])
         (rule run_fuzz_path_saves [OF logs _ _ seed load [unfolded w1 JObj]])
  qed (use tail in \<open>simp_all add: io_simps\<close>)
qed

lemma run_fuzz_saves:
  assumes "logs_writes h (minimized_dir ctx) seen" and "run_fuzz h rt ctx mode w = (Inr acc, w')"
  shows "saves_inv h rt ctx seen (seen w) acc w'"
proof -
  have "saves_inv h rt ctx seen (seen w) ([], [], []) w" by (simp add: saves_inv_def)
  from foldIO_world [where P = "saves_inv h rt ctx seen (seen w)", OF assms(2) [unfolded run_fuzz_def] this]
  show ?thesis using run_fuzz_seed_saves [OF assms(1)] by blast
qed

text \<open>C34: a fuzz campaign that ends reports as findings exactly the cases judged a bug, in order; every
case has one of the three verdicts; and it saves a reproducer for exactly the bugs and the
interesting accepts. The names it returns are those of the files, one per such case and named
after it, and these files, in this order, are all that the campaign writes into the directory of
reproducers: each holds the very vector that both runners were given when the case was judged,
a seed vector with one base64 field mutated, in indented JSON.\<close>

theorem fuzz_findings_exact:
  assumes "run_fuzz h rt ctx mode w = (Inr (cases, findings, saved), w')"
  shows "findings = filter (\<lambda>c. verdict_of c = JStr ''FOUND_BUG'') cases \<and>
    saved = map (\<lambda>c. path_join (minimized_dir ctx) (json_str (dict_get c ''id'') @ ''.json''))
      (filter (\<lambda>c. verdict_of c = JStr ''FOUND_BUG'' \<or> verdict_of c = JStr ''INTERESTING_ACCEPT'') cases) \<and>
    verdict_of ` set cases \<subseteq>
      {JStr ''FOUND_BUG'', JStr ''INTENTIONALLY_REJECTED'', JStr ''INTERESTING_ACCEPT''} \<and>
    (\<forall>seen. logs_writes h (minimized_dir ctx) seen \<longrightarrow>
       (\<exists>vectors.
          list_all2 (reproduces h rt ctx)
            (filter (\<lambda>c. verdict_of c = JStr ''FOUND_BUG'' \<or> verdict_of c = JStr ''INTERESTING_ACCEPT'') cases) vectors \<and>
          seen w' = seen w @ zip saved (map (\<lambda>v. dumps_indent 2 0 (JObj v) @ [newline]) vectors)))"
proof -
  note inv = run_fuzz_inv [OF assms]
  have kept: "is_kept = (\<lambda>c. verdict_of c = JStr ''FOUND_BUG'' \<or> verdict_of c = JStr ''INTERESTING_ACCEPT'')"
    by (auto simp: is_kept_def [abs_def])
  have "map2 (saved_file ctx) cs vs = zip (map (repro_path ctx) cs) (map (\<lambda>v. dumps_indent 2 0 (JObj v) @ [newline]) vs)"
    for cs vs
    by (simp add: zip_map_map saved_file_def split_def)
  then have "\<exists>vectors. list_all2 (reproduces h rt ctx) (filter is_kept cases) vectors \<and>
      seen w' = seen w @ zip saved (map (\<lambda>v. dumps_indent 2 0 (JObj v) @ [newline]) vectors)"
    if "logs_writes h (minimized_dir ctx) seen" for seen
    using run_fuzz_saves [OF that assms] inv by (auto simp: saves_inv_def)
  with inv show ?thesis
    unfolding kept by (auto simp: is_bug_def [abs_def] repro_path_def [abs_def] list_all_iff kept)
qed

definition example_context :: campaign_context where
  "example_context = \<lparr>rust_cmd = [''rs''], ts_cmd = [''ts''], out_dir = ''/r/o'', minimized_dir = ''/r/o/m''\<rparr>"

definition example_on :: "(string \<Rightarrow> string \<Rightarrow> 'w \<Rightarrow> 'w) \<Rightarrow> 'w host" where
  "example_on wr =
     fixed_host wr (JObj [(''input'', JObj [(''x_b64'', JStr ''oQ=='')])]) (JObj [(''pass'', JBool False)])"

definition example_host :: "unit host" where
  "example_host = example_on (\<lambda>_ _ w. w)"

definition returns :: "('w, 'a) io \<Rightarrow> bool" where
  "returns m = (\<forall>w. is_ok (fst (m w)))"

lemma returns_simps [intro]:
  "returns (retIO x)" "returns (act f)" "returns (stepIO g)" "returns (readIO r)" "returns (liftE (Inr x))"
  by (simp_all add: returns_def retIO_def act_def stepIO_def readIO_def liftE_def split_beta)

lemma returns_bindIO [intro]: "returns m \<Longrightarrow> (\<And>x. returns (f x)) \<Longrightarrow> returns (bindIO m f)"
  by (auto simp: returns_def bindIO_def is_ok_iff split: prod.split sum.split)
     (metis Inl_Inr_False fst_conv)+

lemma returns_seqIO [intro]: "returns m \<Longrightarrow> returns k \<Longrightarrow> returns (seqIO m k)"
  unfolding seqIO_def by blast

lemma returns_if: "(c \<Longrightarrow> returns a) \<Longrightarrow> (\<not> c \<Longrightarrow> returns b) \<Longrightarrow> returns (if c then a else b)"
  by simp

lemma returns_foldIO: "(\<And>s x. x \<in> set xs \<Longrightarrow> returns (f s x)) \<Longrightarrow> returns (foldIO f s xs)"
  by (induction xs arbitrary: s) auto

lemma returns_unit: "returns m \<Longrightarrow> \<exists>x. m () = (Inr x, ())" for m :: "(unit, 'a) io"
proof -
  assume "returns m"
  then have "is_ok (fst (m ()))" unfolding returns_def by blast
  then obtain x where "fst (m ()) = Inr x" by (auto simp: is_ok_iff)
  then have "m () = (Inr x, ())" by (intro prod_eqI) simp_all
  then show ?thesis by blast
qed

lemma example_parse: "parse_runner_output (example_on wr) ''out'' = Inr (JObj [(''pass'', JBool False)])"
  by code_simp

lemma example_invoke_result:
  "fst (invoke_runner (example_on wr) rt pre v t w) = Inr (completed_result (example_on wr) (Completed 0 ''out'' []))"
  by (simp add: invoke_runner_def seqIO_def bindIO_def act_def stepIO_def finallyIO_def
        run_or_fall_back_def run_def retIO_def example_on_def fixed_host_def)

lemma example_invoke:
  "invoke_runner example_host rt pre v t w =
     (Inr (completed_result example_host (Completed 0 ''out'' [])), w)"
  by (intro prod_eqI) (simp_all add: example_host_def example_invoke_result del: unit_eq)

lemma example_output_of:
  "rr_output (completed_result (example_on wr) (Completed 0 ''out'' [])) = JObj [(''pass'', JBool False)]"
  by (simp add: completed_result_def example_parse)

lemma returns_bind_value: "(\<And>w. fst (m w) = Inr x) \<Longrightarrow> returns (f x) \<Longrightarrow> returns (bindIO m f)"
  by (auto simp: returns_def bindIO_def split: prod.splits sum.splits) (metis fst_conv sum.distinct(1) sum.inject(2))+

lemma example_case_returns: "returns (evaluate_mutation_case (example_on wr) rt ctx v i)"
proof -
  obtain c where "judge_mutation (completed_result (example_on wr) (Completed 0 ''out'' []))
      (completed_result (example_on wr) (Completed 0 ''out'' [])) i = Inr c"
    using judge_mutation_dicts [OF example_output_of example_output_of] by blast
  then show ?thesis
    unfolding evaluate_mutation_case_def
    by (intro returns_bind_value [OF example_invoke_result]) (simp add: returns_simps)
qed

lemma example_load: "load_json (example_on wr) p = retIO (JObj [(''input'', JObj [(''x_b64'', JStr ''oQ=='')])])"
  by (simp add: fun_eq_iff load_json_def bindIO_def host_read_def liftE_def host_loads_def retIO_def
        example_on_def fixed_host_def)

lemma example_build:
  "\<exists>v. build_fuzz_vector [(''input'', JObj [(''x_b64'', JStr ''oQ=='')])] [Key ''x_b64''] m i = Inr v"
  by (simp add: build_fuzz_vector_def dict_index_def Let_def)

lemma example_fuzz_returns: "returns (run_fuzz (example_on wr) rt ctx mode)"
proof -
  let ?base = "[(''input'', JObj [(''x_b64'', JStr ''oQ=='')])]"
  have paths: "find_b64_paths (dict_get_or ?base ''input'' (JObj [])) [] = [[Key ''x_b64'']]"
    by (simp add: dict_get_or_def ends_with_def suffix_def)
  have fuzz_case: "returns (run_fuzz_case (example_on wr) rt ctx seed ?base [Key ''x_b64''] pidx orig acc midx)"
    for seed pidx orig acc midx
  proof -
    obtain cases findings saved where acc: "acc = (cases, findings, saved)" by (cases acc)
    have build: "returns (liftE (build_fuzz_vector ?base [Key ''x_b64''] m i))" for m i
      using example_build [of m i] by auto
    show ?thesis
      unfolding acc run_fuzz_case_def Let_def dump_json_def prod.case
      by (intro returns_bindIO returns_seqIO returns_if returns_simps example_case_returns build)
  qed
  have fuzz_path: "returns (run_fuzz_path (example_on wr) rt ctx mode seed ?base acc (i, [Key ''x_b64'']))"
    for seed acc i
  proof -
    have path: "run_fuzz_path (example_on wr) rt ctx mode seed ?base acc (i, [Key ''x_b64'']) =
        (case b64decode ''oQ=='' of None \<Rightarrow> retIO acc
         | Some original \<Rightarrow> foldIO (run_fuzz_case (example_on wr) rt ctx seed ?base [Key ''x_b64''] i original)
                              acc [0..<if mode = ''smoke'' then 3 else 10])"
      by (simp add: run_fuzz_path_def dict_index_def del: upt.simps)
    show ?thesis
      unfolding path
      by (cases "b64decode ''oQ==''")
         (simp_all only: option.case returns_simps, rule returns_foldIO, rule fuzz_case)
  qed
  have fuzz_seed: "returns (run_fuzz_seed (example_on wr) rt ctx mode acc seed)" for acc seed
  proof -
    have "run_fuzz_seed (example_on wr) rt ctx mode acc seed =
        foldIO (run_fuzz_path (example_on wr) rt ctx mode seed ?base) acc [(0, [Key ''x_b64''])]"
      by (simp only: run_fuzz_seed_def example_load io_run json.case Let_def paths) (simp add: enum_def)
    then show ?thesis by (simp only:) (rule returns_foldIO, simp add: fuzz_path)
  qed
  show ?thesis unfolding run_fuzz_def by (rule returns_foldIO) (rule fuzz_seed)
qed

lemma example_host_fuzz_returns: "returns (run_fuzz example_host rt ctx mode)"
  unfolding example_host_def by (rule example_fuzz_returns)

text \<open>The machine that lists what is written under the directory of reproducers.\<close>

definition noting_host :: "(string \<times> string) list host" where
  "noting_host = example_on (\<lambda>p t w. if in_dir ''/r/o/m'' p then w @ [(p, t)] else w)"

lemma noting_host_logs: "logs_writes noting_host (minimized_dir example_context) (\<lambda>w. w)"
  by (simp add: logs_writes_def noting_host_def example_on_def fixed_host_def example_context_def
      in_dir_def starts_with_def path_join_def)

theorem fuzz_findings_exact_witness:
  "\<exists>cases findings saved vectors.
     run_fuzz noting_host ''/r'' example_context ''smoke'' [] =
       (Inr (cases, findings, saved), zip saved (map (\<lambda>v. dumps_indent 2 0 (JObj v) @ [newline]) vectors)) \<and>
     findings = filter (\<lambda>c. verdict_of c = JStr ''FOUND_BUG'') cases"
proof -
  have "returns (run_fuzz noting_host ''/r'' example_context ''smoke'')"
    unfolding noting_host_def by (rule example_fuzz_returns)
  then obtain cases findings saved w' where
      r: "run_fuzz noting_host ''/r'' example_context ''smoke'' [] = (Inr (cases, findings, saved), w')"
    unfolding returns_def is_ok_iff by (metis prod.collapse)
  note exact = fuzz_findings_exact [OF r]
  from exact have "\<exists>vectors. w' = [] @ zip saved (map (\<lambda>v. dumps_indent 2 0 (JObj v) @ [newline]) vectors)"
    using noting_host_logs by blast
  then obtain vectors where "w' = zip saved (map (\<lambda>v. dumps_indent 2 0 (JObj v) @ [newline]) vectors)" by auto
  with r exact show ?thesis by blast
qed

subsection \<open>The attack matrix\<close>

lemma judge_vector_cases:
  assumes "judge_vector entry row rust ts = Inr (r, f)"
  shows "dict_get r ''id'' = dict_get row ''id'' \<and>
    (verdict_of r = JStr ''PASS'' \<and> f = None \<or>
     verdict_of r = JStr ''FOUND_BUG'' \<and> (\<exists>reason. f = Some (attack_finding entry reason)))"
  using assms
  by (auto simp: judge_vector_def Let_def res_simps found_bug_row_def with_verdict_def split: if_splits)

lemma judge_replay_cases:
  assumes "judge_replay entry row n rs ts = Inr (r, f)"
  shows "dict_get r ''id'' = dict_get row ''id'' \<and>
    (verdict_of r = JStr ''PASS'' \<and> f = None \<or>
     verdict_of r = JStr ''FOUND_BUG'' \<and> (\<exists>reason. f = Some (attack_finding entry reason)))"
proof -
  have "bindE m f = Inr y \<Longrightarrow> (\<And>x. f x = Inr y \<Longrightarrow> P) \<Longrightarrow> P" for m :: "json list res" and f y P
    by (auto simp: res_simps)
  note step = this
  show ?thesis
    using assms unfolding judge_replay_def Let_def
    by (elim step) (auto simp: found_bug_row_def with_verdict_def split: if_splits)
qed

lemma attack_finding_id [simp]: "dict_get (attack_finding entry reason) ''id'' = JStr (case_ident entry)"
  by (simp add: attack_finding_def dict_get_def)

lemma run_entry_cases:
  assumes "run_entry h rt ctx entry w = (Inr (r, f), w')"
    and "case_kind entry = ''vector'' \<or> case_kind entry = ''replay''"
  shows "dict_get r ''id'' = JStr (case_ident entry) \<and>
    (verdict_of r = JStr ''PASS'' \<and> f = None \<or>
     verdict_of r = JStr ''FOUND_BUG'' \<and> (\<exists>reason. f = Some (attack_finding entry reason)))"
proof -
  let ?row = "[(''id'', JStr (case_ident entry)), (''name'', JStr (case_name entry)),
                (''kind'', JStr (case_kind entry)), (''vector'', JStr (case_vector entry)),
                (''expected'', JStr ''vector_pass_true_and_runner_parity'')]"
  have row: "dict_get ?row ''id'' = JStr (case_ident entry)" by (simp add: dict_get_def)
  show ?thesis
  proof (cases "case_kind entry = ''vector''")
    case True
    with assms(1) obtain rust ts where "judge_vector entry ?row rust ts = Inr (r, f)"
      by (auto simp: run_entry_def Let_def io_simps)
    from judge_vector_cases [OF this] row show ?thesis by simp
  next
    case False
    with assms obtain n rs ts where "judge_replay entry ?row n rs ts = Inr (r, f)"
      by (auto simp: run_entry_def Let_def io_simps)
    from judge_replay_cases [OF this] row show ?thesis by simp
  qed
qed

lemma attack_kinds: "list_all (\<lambda>e. case_kind e = ''vector'' \<or> case_kind e = ''replay'') ATTACK_CASES"
  by (simp add: ATTACK_CASES_def vector_case_def)

lemma attack_fold:
  assumes "foldIO (\<lambda>(rows, findings) entry.
         bindIO (run_entry h rt ctx entry) (\<lambda>(row, finding).
           retIO (rows @ [row], findings @ (case finding of None \<Rightarrow> [] | Some f \<Rightarrow> [f]))))
       (rows0, findings0) es w = (Inr (rows, findings), w')"
    and "list_all (\<lambda>e. case_kind e = ''vector'' \<or> case_kind e = ''replay'') es"
  shows "\<exists>rows1 findings1. rows = rows0 @ rows1 \<and> findings = findings0 @ findings1 \<and>
     map (\<lambda>r. dict_get r ''id'') rows1 = map (\<lambda>e. JStr (case_ident e)) es \<and>
     map (\<lambda>f. dict_get f ''id'') findings1 =
       map (\<lambda>r. dict_get r ''id'') (filter (\<lambda>r. verdict_of r = JStr ''FOUND_BUG'') rows1) \<and>
     verdict_of ` set rows1 \<subseteq> {JStr ''PASS'', JStr ''FOUND_BUG''}"
  using assms
proof (induction es arbitrary: rows0 findings0 w)
  case Nil
  then show ?case by (simp add: io_simps)
next
  case (Cons e es)
  from Cons.prems(1) obtain r f w1 w2 where r: "run_entry h rt ctx e w = (Inr (r, f), w1)"
    and rest: "foldIO (\<lambda>(rows, findings) entry.
         bindIO (run_entry h rt ctx entry) (\<lambda>(row, finding).
           retIO (rows @ [row], findings @ (case finding of None \<Rightarrow> [] | Some f \<Rightarrow> [f]))))
       (rows0 @ [r], findings0 @ (case f of None \<Rightarrow> [] | Some f \<Rightarrow> [f])) es w2 = (Inr (rows, findings), w')"
    by (auto simp: io_simps)
  from Cons.prems(2) have k: "case_kind e = ''vector'' \<or> case_kind e = ''replay''"
      "list_all (\<lambda>e. case_kind e = ''vector'' \<or> case_kind e = ''replay'') es" by simp_all
  from Cons.IH [OF rest k(2)] obtain rows1 findings1 where IH:
      "rows = (rows0 @ [r]) @ rows1"
      "findings = (findings0 @ (case f of None \<Rightarrow> [] | Some f \<Rightarrow> [f])) @ findings1"
      "map (\<lambda>r. dict_get r ''id'') rows1 = map (\<lambda>e. JStr (case_ident e)) es"
      "map (\<lambda>f. dict_get f ''id'') findings1 =
         map (\<lambda>r. dict_get r ''id'') (filter (\<lambda>r. verdict_of r = JStr ''FOUND_BUG'') rows1)"
      "verdict_of ` set rows1 \<subseteq> {JStr ''PASS'', JStr ''FOUND_BUG''}"
    by blast
  from run_entry_cases [OF r k(1)] IH show ?case
    by (intro exI [of _ "r # rows1"] exI [of _ "(case f of None \<Rightarrow> [] | Some f \<Rightarrow> [f]) @ findings1"]) auto
qed

text \<open>An attack campaign that ends has one row for each listed case, in order, each judged
\<open>PASS\<close> or \<open>FOUND_BUG\<close>, and its findings are exactly those of the rows judged a bug: no finding is
lost and none is made up.\<close>

theorem attack_findings_exact:
  assumes "run_attack_matrix h rt ctx w = (Inr (rows, findings), w')"
  shows "map (\<lambda>r. dict_get r ''id'') rows = map (\<lambda>e. JStr (case_ident e)) ATTACK_CASES \<and>
     map (\<lambda>f. dict_get f ''id'') findings =
       map (\<lambda>r. dict_get r ''id'') (filter (\<lambda>r. verdict_of r = JStr ''FOUND_BUG'') rows) \<and>
     verdict_of ` set rows \<subseteq> {JStr ''PASS'', JStr ''FOUND_BUG''}"
  using attack_fold [OF assms [unfolded run_attack_matrix_def] attack_kinds] by auto

lemma repeatIO_const: "(\<And>w. m w = (Inr x, w)) \<Longrightarrow> repeatIO n m w = (Inr (replicate n x), w)"
  by (induction n arbitrary: w) (simp_all add: retIO_def bindIO_def)

lemma mapE_replicate: "f x = Inr y \<Longrightarrow> mapE f (replicate n x) = Inr (replicate n y)"
  by (induction n) simp_all

abbreviation example_output :: json where
  "example_output \<equiv> JObj [(''pass'', JBool False)]"

lemma example_result: "rr_output (completed_result example_host (Completed 0 ''out'' [])) = example_output"
  unfolding example_host_def by (rule example_output_of)

lemma example_load_unit: "load_json example_host p = retIO (JObj [(''input'', JObj [(''x_b64'', JStr ''oQ=='')])])"
  unfolding example_host_def by (rule example_load)

lemma example_entry_returns:
  assumes "entry \<in> set ATTACK_CASES"
  shows "returns (run_entry example_host rt ctx entry)"
proof (cases "case_kind entry = ''vector''")
  case True
  have "is_ok (judge_vector entry row (completed_result example_host (Completed 0 ''out'' []))
      (completed_result example_host (Completed 0 ''out'' [])))" for row
    by (simp add: judge_vector_def example_result Let_def)
  with True show ?thesis
    by (simp add: returns_def run_entry_def example_load_unit Let_def bindIO_def example_invoke liftE_def)
next
  case False
  from assms False have kind: "case_kind entry = ''replay''" "case_replays entry = Some 3"
    by (auto simp: ATTACK_CASES_def vector_case_def)
  have runs: "repeatIO 3 (bindIO (invoke_runner example_host rt (rust_cmd ctx) v 40) (\<lambda>rust.
        bindIO (invoke_runner example_host rt (ts_cmd ctx) v 40) (\<lambda>ts.
          retIO (rr_output rust, rr_output ts)))) w
      = (Inr (replicate 3 (example_output, example_output)), w)" for v w
    by (rule repeatIO_const) (simp add: bindIO_def example_invoke retIO_def example_result)
  have "is_ok (judge_replay entry row 3 (replicate 3 example_output) (replicate 3 example_output))" for row
    by (simp add: judge_replay_def mapE_replicate Let_def)
  then show ?thesis
    using kind
    by (simp add: returns_def run_entry_def example_load_unit Let_def bindIO_def [of "repeatIO _ _"] runs liftE_def)
qed

lemma example_attack_returns: "returns (run_attack_matrix example_host rt ctx)"
proof -
  have "returns ((\<lambda>(rows, findings) entry.
         bindIO (run_entry example_host rt ctx entry) (\<lambda>(row, finding).
           retIO (rows @ [row], findings @ (case finding of None \<Rightarrow> [] | Some f \<Rightarrow> [f])))) s entry)"
    if "entry \<in> set ATTACK_CASES" for s entry
    by (cases s) (auto intro!: returns_bindIO example_entry_returns that)
  then show ?thesis unfolding run_attack_matrix_def by (rule returns_foldIO)
qed

theorem attack_findings_exact_witness:
  "\<exists>rows findings. run_attack_matrix example_host ''/r'' example_context () = (Inr (rows, findings), ()) \<and>
     map (\<lambda>r. dict_get r ''id'') rows = map (\<lambda>e. JStr (case_ident e)) ATTACK_CASES"
proof -
  obtain rows findings where
      r: "run_attack_matrix example_host ''/r'' example_context () = (Inr (rows, findings), ())"
    using returns_unit [OF example_attack_returns [of "''/r''" example_context]] by auto
  with attack_findings_exact [OF r] show ?thesis by blast
qed

end
