(* ===== verification/RcMainProps.thy ===== *)
theory RcMainProps
  imports RcProps
begin

text \<open>
  The stabilization run as a whole: temporary files, the repository name, the reports, the
  reproducibility check and the meaning of exit code 0.
\<close>

subsection \<open>Temporary files\<close>

lemma finallyIO_state: "snd (finallyIO m c w) = c (snd (m w))"
  by (simp add: finallyIO_def split_beta)

lemma bindIO_state:
  "(\<And>x w'. snd (f x w') = w') \<Longrightarrow> snd (bindIO m f w) = snd (m w)"
  by (cases "m w"; cases "fst (m w)") (auto simp: bindIO_def)

text \<open>On every path of running a runner (completion, time-out, container fallback, exception) the
temporary vector file is gone afterwards, on a machine where a removed file does not exist.\<close>

theorem temp_vector_removed:
  assumes "\<And>v. \<not> exists_at h (unlink_at h p v) p"
    and "fst (new_temp_file h (path_join rt ''artifacts/.tmp-rc-stab'')
          (mkdir_at h (path_join rt ''artifacts/.tmp-rc-stab'') w)) = p"
  shows "\<not> exists_at h (snd (invoke_runner h rt pre vector t w)) p"
proof -
  have tail: "snd ((case r of Inl x \<Rightarrow> retIO x | Inr q \<Rightarrow> retIO (completed_result h q)) v) = v" for r v
    by (simp add: retIO_def split: sum.split)
  show ?thesis
    using assms
    by (simp add: invoke_runner_def Let_def seqIO_def bindIO_def [of "act _"] act_def
          bindIO_def [of "stepIO _"] stepIO_def split_beta bindIO_state [OF tail] finallyIO_state)
qed

theorem temp_vector_removed_witness:
  "\<not> exists_at example_host (snd (invoke_runner example_host ''/r'' [''rs''] JNull 40 ())) ''t.json''"
  by (rule temp_vector_removed) (simp_all add: example_host_def example_on_def fixed_host_def)

subsection \<open>The repository name\<close>

lemma slug_of_url_slash: "CHR ''/'' \<in> set (slug_of_url url)"
  by (simp add: slug_of_url_def Let_def default_slug_def split: option.split)

text \<open>The repository name is always of the form that the release lookup needs: it has a slash.\<close>

theorem repo_slug_has_slash:
  assumes "detect_repo_slug h rt w = (Inr slug, w')"
  shows "CHR ''/'' \<in> set slug"
  using assms slug_of_url_slash
  by (auto simp: detect_repo_slug_def Let_def io_simps default_slug_def split: if_splits)

theorem repo_slug_has_slash_witness:
  "\<exists>slug. fst (detect_repo_slug example_host ''/r'' ()) = Inr slug \<and> CHR ''/'' \<in> set slug"
proof -
  have r: "detect_repo_slug example_host ''/r'' () = (Inr ''o/r'', ())"
    by code_simp
  from repo_slug_has_slash [OF r] show ?thesis by (simp add: r)
qed

subsection \<open>Counts in the fuzz report\<close>

lemma count_verdict_Inr:
  "count_verdict counts c = Inr counts' \<longleftrightarrow>
     (\<exists>v. map_of c ''verdict'' = Some (JStr v) \<and>
        counts' = AList.update v ((case map_of counts v of None \<Rightarrow> 0 | Some n \<Rightarrow> n) + 1) counts)"
  by (cases "map_of c ''verdict''")
     (auto simp: count_verdict_def dict_index_def split: json.splits)

lemma count_verdict_fold:
  assumes "foldE count_verdict counts cases = Inr counts'"
  shows "(case map_of counts' s of None \<Rightarrow> 0 | Some n \<Rightarrow> n) =
    (case map_of counts s of None \<Rightarrow> 0 | Some n \<Rightarrow> n) +
    length (filter (\<lambda>c. verdict_of c = JStr s) cases)"
  using assms
proof (induction cases arbitrary: counts)
  case (Cons c cs)
  then obtain v where v: "map_of c ''verdict'' = Some (JStr v)"
      "foldE count_verdict (AList.update v ((case map_of counts v of None \<Rightarrow> 0 | Some n \<Rightarrow> n) + 1) counts)
         cs = Inr counts'"
    unfolding foldE.simps bindE_Inr count_verdict_Inr by blast
  from Cons.IH [OF v(2)] v(1) show ?case
    by (simp add: update_conv' verdict_of_def dict_get_def)
qed simp

text \<open>The number the fuzz report gives for a verdict is the number of cases with that verdict.\<close>

theorem verdict_counts_exact:
  assumes "foldE count_verdict [] cases = Inr counts"
  shows "(case map_of counts s of None \<Rightarrow> 0 | Some n \<Rightarrow> n) =
    length (filter (\<lambda>c. verdict_of c = JStr s) cases)"
  using count_verdict_fold [OF assms] by simp

theorem verdict_counts_exact_witness:
  "map_of [(''FOUND_BUG'', 2 :: nat)] ''FOUND_BUG'' = Some 2 \<and>
   length (filter (\<lambda>c. verdict_of c = JStr ''FOUND_BUG'')
     [[(''verdict'', JStr ''FOUND_BUG'')], [(''verdict'', JStr ''FOUND_BUG'')]]) = 2"
proof -
  have "foldE count_verdict [] [[(''verdict'', JStr ''FOUND_BUG'')], [(''verdict'', JStr ''FOUND_BUG'')]]
      = Inr [(''FOUND_BUG'', 2)]"
    by (simp add: count_verdict_def dict_index_def)
  from verdict_counts_exact [OF this, of "''FOUND_BUG''"] show ?thesis by simp
qed

subsection \<open>Clean-up never changes the outcome\<close>

lemma delete_dict_set [simp]: "AList.delete k (dict_set d k v) = AList.delete k d"
  unfolding dict_set_def by (induction d) auto

lemma with_cleanup_outcome:
  "map_sum id (AList.delete ''cleanup'') (fst (with_cleanup h temp body w)) =
     map_sum id (AList.delete ''cleanup'') (fst (body w))"
  by (cases "body w"; cases "fst (body w)") (simp_all add: with_cleanup_def Let_def split_beta)

lemma other_removal [simp]:
  fixes h :: "'w host"
  shows "run (h\<lparr>rmtree := f\<rparr>) = run h"
    and "host_read (h\<lparr>rmtree := f\<rparr>) = host_read h"
    and "host_loads (h\<lparr>rmtree := f\<rparr>) = host_loads h"
    and "load_json (h\<lparr>rmtree := f\<rparr>) = load_json h"
    and "git_commit_rev_parse (h\<lparr>rmtree := f\<rparr>) = git_commit_rev_parse h"
    and "repro_fail (h\<lparr>rmtree := f\<rparr>) = repro_fail h"
proof -
  show r: "run (h\<lparr>rmtree := f\<rparr>) = run h" by (intro ext) (simp add: run_def)
  show hr: "host_read (h\<lparr>rmtree := f\<rparr>) = host_read h" by (intro ext) (simp add: host_read_def)
  show hl: "host_loads (h\<lparr>rmtree := f\<rparr>) = host_loads h" by (intro ext) (simp add: host_loads_def)
  show "load_json (h\<lparr>rmtree := f\<rparr>) = load_json h" by (intro ext) (simp add: load_json_def hr hl)
  show "git_commit_rev_parse (h\<lparr>rmtree := f\<rparr>) = git_commit_rev_parse h"
    by (intro ext) (simp add: git_commit_rev_parse_def git_rev_parse_def r)
  show "repro_fail (h\<lparr>rmtree := f\<rparr>) = repro_fail h" by (intro ext) (simp add: repro_fail_def)
qed

lemma repro_body_other_removal: "repro_body (h\<lparr>rmtree := f\<rparr>) = repro_body h"
proof -
  have "repro_evidence (h\<lparr>rmtree := f\<rparr>) = repro_evidence h"
    by (intro ext) (simp add: repro_evidence_def cong: if_cong)
  then show ?thesis by (intro ext) (simp add: repro_body_def cong: if_cong)
qed

lemma bindIO_map_outcome:
  assumes "\<And>x w'. map_sum id d (fst (f x w')) = map_sum id d (fst (g x w'))"
  shows "map_sum id d (fst (bindIO m f w)) = map_sum id d (fst (bindIO m g w))"
  using assms by (cases "m w"; cases "fst (m w)") (simp_all add: bindIO_def)

text \<open>C3: whatever the removal of the temporary clone does, including raising, the reproducibility
check raises the same exception or returns the same report, but for its \<open>cleanup\<close> entry; in
particular the gate computed from the report is the same (\<open>INV-STAB-001\<close>).\<close>

theorem cleanup_never_flips_verdict:
  "map_sum id (AList.delete ''cleanup'')
       (fst (run_repro_check (h\<lparr>rmtree := f\<rparr>) rt mode out baseline_tag baseline_sha w)) =
     map_sum id (AList.delete ''cleanup'')
       (fst (run_repro_check h rt mode out baseline_tag baseline_sha w)) \<and>
   campaign_gates mode af ff props (dict_set repro ''cleanup'' c) rollback =
     campaign_gates mode af ff props repro rollback"
proof
  have step: "map_sum id (AList.delete ''cleanup'')
        (fst (with_cleanup (h\<lparr>rmtree := f\<rparr>) temp (repro_body (h\<lparr>rmtree := f\<rparr>) rt md temp tag bc sha rep) v)) =
      map_sum id (AList.delete ''cleanup'') (fst (with_cleanup h temp (repro_body h rt md temp tag bc sha rep) v))"
    for md temp tag bc sha rep v
    by (simp add: with_cleanup_outcome repro_body_other_removal)
  show "map_sum id (AList.delete ''cleanup'')
       (fst (run_repro_check (h\<lparr>rmtree := f\<rparr>) rt mode out baseline_tag baseline_sha w)) =
     map_sum id (AList.delete ''cleanup'')
       (fst (run_repro_check h rt mode out baseline_tag baseline_sha w))"
  proof (cases "mode = ''deep''")
    case True
    then show ?thesis
      by (simp add: run_repro_check_def Let_def) (intro bindIO_map_outcome step)
  next
    case False
    then show ?thesis by (simp add: run_repro_check_def Let_def)
  qed
  have "dict_get_or (dict_set d ''cleanup'' c) ''pass'' j = dict_get_or d ''pass'' j" for d j
    by (simp add: dict_get_or_def map_of_dict_set)
  then show "campaign_gates mode af ff props (dict_set repro ''cleanup'' c) rollback =
     campaign_gates mode af ff props repro rollback"
    by (simp add: campaign_gates_def)
qed

subsection \<open>A reproducibility check that passes\<close>

lemma with_cleanup_Inr:
  assumes "with_cleanup h temp body w = (Inr rep, w')"
  obtains rep0 w1 c where "body w = (Inr rep0, w1)" "rep = dict_set rep0 ''cleanup'' c"
  using assms by (cases "body w"; cases "fst (body w)") (auto simp: with_cleanup_def Let_def split_beta)

lemma repro_fail_pass:
  "repro_fail h md report err body w = (Inr rep, w') \<Longrightarrow> dict_get rep ''pass'' = dict_get report ''pass''"
  by (auto simp: repro_fail_def io_simps)

lemma repro_evidence_pass:
  assumes "repro_evidence h md ro tag bc sha report w = (Inr rep, w')"
  shows "\<exists>t observed. file_at h w (path_join ro ''evidence.sha256'') = Some t \<and>
    observed_sha t = Inr observed \<and> dict_get rep ''pass'' = JBool (observed = sha) \<and>
    dict_get rep ''observed_evidence_sha256'' = JStr observed \<and>
    dict_get rep ''interop_certify_return_code'' = dict_get report ''interop_certify_return_code''"
  using assms unfolding repro_evidence_def Let_def
  by (auto simp: io_simps host_read_def split: option.splits if_splits)

lemma repro_body_pass:
  assumes "repro_body h rt md temp tag bc sha report w = (Inr rep, w')"
    and "dict_get report ''pass'' = JBool False" and "truthy (dict_get rep ''pass'')"
  shows "dict_get rep ''observed_evidence_sha256'' = JStr sha \<and>
    dict_get rep ''interop_certify_return_code'' = JInt 0 \<and>
    (\<exists>w1 t. file_at h w1 (path_join (path_join (path_join temp ''clone'') ''artifacts/interop-repro'')
       ''evidence.sha256'') = Some t \<and> observed_sha t = Inr sha)"
proof -
  let ?ro = "path_join (path_join temp ''clone'') ''artifacts/interop-repro''"
  have no_fail: False if "repro_fail h md r err body v = (Inr rep, w')"
      "dict_get r ''pass'' = dict_get report ''pass''" for r err body v
    using repro_fail_pass [OF that(1)] that(2) assms(2,3) by simp
  from assms(1) obtain r1 v where ev: "repro_evidence h md ?ro tag bc sha r1 v = (Inr rep, w')"
      "dict_get r1 ''interop_certify_return_code'' = JInt 0"
    unfolding repro_body_def Let_def
    by (auto simp: io_simps split: if_splits dest!: no_fail)
  from repro_evidence_pass [OF ev(1)] obtain t observed where t:
      "file_at h v (path_join ?ro ''evidence.sha256'') = Some t" "observed_sha t = Inr observed"
      "dict_get rep ''pass'' = JBool (observed = sha)"
      "dict_get rep ''observed_evidence_sha256'' = JStr observed"
      "dict_get rep ''interop_certify_return_code'' = JInt 0"
    unfolding ev(2) by blast
  from t(3) assms(3) have "observed = sha" by simp
  with t show ?thesis by blast
qed

lemma repro_check_pass:
  assumes "run_repro_check h rt mode out baseline_tag baseline_sha w = (Inr rep, w')"
    and "truthy (dict_get rep ''pass'')"
  shows "mode = ''deep'' \<and> dict_get rep ''observed_evidence_sha256'' = JStr baseline_sha \<and>
    dict_get rep ''interop_certify_return_code'' = JInt 0 \<and>
    (\<exists>w1 temp t. file_at h w1 (path_join (path_join (path_join temp ''clone'') ''artifacts/interop-repro'')
       ''evidence.sha256'') = Some t \<and> observed_sha t = Inr baseline_sha)"
proof (cases "mode = ''deep''")
  case False
  with assms(1) have "rep = repro_report mode baseline_tag baseline_sha"
    by (auto simp: run_repro_check_def Let_def io_simps)
  with assms(2) show ?thesis by (simp add: repro_report_def dict_get_def)
next
  case True
  let ?report = "repro_report mode baseline_tag baseline_sha"
  from assms(1) True obtain bc temp v where wc: "with_cleanup h temp
      (repro_body h rt (path_join out ''reproducibility-report.md'') temp baseline_tag bc baseline_sha
        (dict_set ?report ''baseline_commit'' (JStr bc))) v = (Inr rep, w')"
    by (auto simp: run_repro_check_def Let_def io_simps)
  obtain rep0 w1 c where body: "repro_body h rt (path_join out ''reproducibility-report.md'') temp baseline_tag bc
        baseline_sha (dict_set ?report ''baseline_commit'' (JStr bc)) v = (Inr rep0, w1)"
      "rep = dict_set rep0 ''cleanup'' c"
    using with_cleanup_Inr [OF wc] by blast
  have "dict_get ?report ''pass'' = JBool False" by (simp add: repro_report_def dict_get_def)
  then have "dict_get (dict_set ?report ''baseline_commit'' (JStr bc)) ''pass'' = JBool False" by simp
  from repro_body_pass [OF body(1) this] assms(2) body(2) True show ?thesis by auto
qed


definition repro_host :: "unit host" where
  "repro_host = example_host
     \<lparr>file_at := (\<lambda>_ _. Some ''sha256 abc''), exists_at := (\<lambda>_ p. ends_with p ''evidence.sha256'')\<rparr>"

lemma repro_host_run: "run repro_host cmd cwd t w = (Inr (Completed 0 ''out'' []), w)"
  by (simp add: run_def repro_host_def example_host_def example_on_def fixed_host_def)

lemma repro_host_evidence: "observed_sha ''sha256 abc'' = Inr ''abc''"
  by code_simp


end
