(* ===== verification/RcExit.thy ===== *)
theory RcExit
  imports RcMainProps
begin

text \<open>
  What the exit code of the stabilization run means, and that its reports can always be written
  from what the campaigns return.
\<close>

subsection \<open>Reports can be written\<close>

lemma has_key_dict_set: "has_key (dict_set d k v) k' \<longleftrightarrow> k' = k \<or> has_key d k'"
  by (auto simp: has_key_iff map_of_dict_set)

lemma dict_index_ok: "has_key d k \<Longrightarrow> dict_index d k = Inr (dict_get d k)"
  by (simp add: has_key_index)

definition row_keys :: "dict \<Rightarrow> bool" where
  "row_keys r = list_all (has_key r) [''id'', ''name'', ''vector'', ''verdict'']"

lemma attack_line_ok: "row_keys r \<Longrightarrow> is_ok (attack_line r)"
  by (simp add: row_keys_def attack_line_def dict_index_ok)

lemma mapE_ok: "list_all (\<lambda>x. is_ok (f x)) xs \<Longrightarrow> is_ok (mapE f xs)"
  by (induction xs) (auto simp: is_ok_iff)

lemma run_entry_keys:
  assumes "run_entry h rt ctx entry w = (Inr (r, f), w')"
  shows "row_keys r"
proof -
  let ?row = "[(''id'', JStr (case_ident entry)), (''name'', JStr (case_name entry)),
                (''kind'', JStr (case_kind entry)), (''vector'', JStr (case_vector entry)),
                (''expected'', JStr ''vector_pass_true_and_runner_parity'')]"
  have row: "has_key ?row ''id''" "has_key ?row ''name''" "has_key ?row ''vector''"
    by (simp_all add: has_key_def)
  have set: "row_keys (dict_set d ''verdict'' v)" if "has_key d ''id''" "has_key d ''name''" "has_key d ''vector''"
    for d v using that by (simp add: row_keys_def has_key_dict_set)
  have bug: "row_keys (found_bug_row reason (dict_set ?row ''observed'' o1))" for reason o1
    unfolding found_bug_row_def with_verdict_def
    using row by (simp add: row_keys_def has_key_dict_set)
  have pass: "row_keys (dict_set (dict_set ?row ''observed'' o1) ''verdict'' v)" for o1 v
    using row by (intro set) (simp_all add: has_key_dict_set)
  consider rust ts where "judge_vector entry ?row rust ts = Inr (r, f)"
    | n rs ts where "judge_replay entry ?row n rs ts = Inr (r, f)"
    | "r = dict_set ?row ''verdict'' (JStr ''INTENTIONALLY_REJECTED'')"
    using assms by (auto simp: run_entry_def Let_def io_simps split: if_splits)
  then show ?thesis
  proof cases
    case 1
    then show ?thesis
      unfolding judge_vector_def Let_def bindE_Inr
      by (elim exE conjE) (auto simp: bug pass split: if_splits)
  next
    case 2
    then show ?thesis
      unfolding judge_replay_def Let_def bindE_Inr
      by (elim exE conjE) (auto simp: bug pass split: if_splits)
  next
    case 3
    then show ?thesis using row by (simp add: set)
  qed
qed

lemma attack_rows_keys:
  "run_attack_matrix h rt ctx w = (Inr (rows, findings), w') \<Longrightarrow> list_all row_keys rows"
proof -
  assume "run_attack_matrix h rt ctx w = (Inr (rows, findings), w')"
  then have "list_all row_keys (fst (rows, findings))"
    unfolding run_attack_matrix_def
    by (rule foldIO_invariant [where P = "\<lambda>s. list_all row_keys (fst s)"])
       (auto simp: io_simps, rule run_entry_keys)
  then show ?thesis by simp
qed

lemma count_verdict_ok:
  "list_all (\<lambda>c. \<exists>s. verdict_of c = JStr s) cases \<Longrightarrow> is_ok (foldE count_verdict counts cases)"
proof (induction cases arbitrary: counts)
  case (Cons c cs)
  then obtain s where "dict_get c ''verdict'' = JStr s" by (auto simp: verdict_of_def)
  then have "map_of c ''verdict'' = Some (JStr s)" by (auto simp: dict_get_def split: option.splits)
  with Cons show ?case by (simp add: count_verdict_def dict_index_def)
qed simp

lemma finding_line_ok: "is_str (dict_get f ''id'') \<Longrightarrow> is_ok (finding_line f)"
  by (cases "map_of f ''id''") (auto simp: finding_line_def dict_index_def dict_get_def)

lemma attack_markdown_ok:
  "run_attack_matrix h rt ctx w = (Inr (rows, findings), w') \<Longrightarrow> is_ok (attack_markdown rows)"
proof -
  assume "run_attack_matrix h rt ctx w = (Inr (rows, findings), w')"
  then have "is_ok (mapE attack_line rows)"
    by (intro mapE_ok) (auto simp: list_all_iff intro: attack_line_ok dest!: attack_rows_keys)
  then show ?thesis by (auto simp: attack_markdown_def is_ok_iff)
qed

lemma fuzz_markdown_ok:
  assumes "run_fuzz h rt ctx mode w = (Inr (cases, findings, saved), w')"
  shows "is_ok (fuzz_markdown cases findings)"
proof -
  from run_fuzz_inv [OF assms] have inv: "findings = filter is_bug cases"
      "list_all (\<lambda>c. \<exists>s. verdict_of c = JStr s) cases" "list_all (\<lambda>c. is_str (dict_get c ''id'')) cases"
    by (auto simp: list_all_iff)
  have "list_all (\<lambda>c. is_str (dict_get c ''id'')) (take 50 findings)"
    using inv(1,3) by (auto simp: list_all_iff dest: in_set_takeD)
  then have "is_ok (mapE finding_line (take 50 findings))"
    by (intro mapE_ok) (auto simp: list_all_iff intro: finding_line_ok)
  with count_verdict_ok [OF inv(2), of "[]"] show ?thesis
    by (auto simp: fuzz_markdown_def is_ok_iff)
qed

text \<open>C36: whatever the two campaigns return, their Markdown reports can be written: every row and case
has the entries the report reads.\<close>

theorem campaign_reports_never_raise:
  "(case fst (run_attack_matrix h rt ctx w) of
      Inl e \<Rightarrow> True | Inr (rows, findings) \<Rightarrow> is_ok (attack_markdown rows)) \<and>
   (case fst (run_fuzz h rt ctx mode w) of
      Inl e \<Rightarrow> True | Inr (cases, findings, saved) \<Rightarrow> is_ok (fuzz_markdown cases findings))"
  by (cases "run_attack_matrix h rt ctx w"; cases "run_fuzz h rt ctx mode w")
     (auto intro: attack_markdown_ok fuzz_markdown_ok split: sum.split)

subsection \<open>The exit code\<close>

lemma bindIO_E:
  "bindIO m f w = (Inr y, w') \<Longrightarrow> (\<And>x w1. m w = (Inr x, w1) \<Longrightarrow> f x w1 = (Inr y, w') \<Longrightarrow> P) \<Longrightarrow> P"
  by (auto simp: io_simps)

lemma seqIO_E:
  "seqIO m k w = (Inr y, w') \<Longrightarrow> (\<And>w1. m w = (Inr (), w1) \<Longrightarrow> k w1 = (Inr y, w') \<Longrightarrow> P) \<Longrightarrow> P"
  by (auto simp: io_simps)

lemma if_raise_E:
  "(if c then raiseIO e else m) w = (Inr y, w') \<Longrightarrow> (\<not> c \<Longrightarrow> m w = (Inr y, w') \<Longrightarrow> P) \<Longrightarrow> P"
  by (auto simp: io_simps split: if_splits)

lemma run_campaign_parts:
  assumes "run_campaign h rt args repo ctx w = (Inr r, w')"
  obtains wa wa' wf wf' wr wr' where
    "run_attack_matrix h rt ctx wa = (Inr (res_attack r), wa')"
    "run_fuzz h rt ctx (arg_mode args) wf = (Inr (res_fuzz r), wf')"
    "run_repro_check h rt (arg_mode args) (out_dir ctx) (arg_baseline_tag args)
       (arg_baseline_sha args) wr = (Inr (res_repro r), wr')"
  using assms unfolding run_campaign_def Let_def
  by (simp only: bindIO_Inr seqIO_Inr retIO_Inr) (elim exE conjE, hypsubst, simp only: campaign_results.simps)

lemma attack_clear:
  assumes "run_attack_matrix h rt ctx w = (Inr (rows, findings), w')"
  shows "findings = [] \<longleftrightarrow> (\<forall>row\<in>set rows. verdict_of row = JStr ''PASS'')"
proof -
  from attack_fold [OF assms [unfolded run_attack_matrix_def] attack_kinds] have
      ids: "map (\<lambda>f. dict_get f ''id'') findings =
        map (\<lambda>r. dict_get r ''id'') (filter (\<lambda>r. verdict_of r = JStr ''FOUND_BUG'') rows)"
    and verdicts: "verdict_of ` set rows \<subseteq> {JStr ''PASS'', JStr ''FOUND_BUG''}" by auto
  from ids have "findings = [] \<longleftrightarrow> filter (\<lambda>r. verdict_of r = JStr ''FOUND_BUG'') rows = []"
    by (metis map_is_Nil_conv)
  also have "\<dots> \<longleftrightarrow> (\<forall>row\<in>set rows. verdict_of row = JStr ''PASS'')"
    using verdicts by (auto simp: filter_empty_conv)
  finally show ?thesis .
qed

lemma fuzz_clear:
  assumes "run_fuzz h rt ctx mode w = (Inr (cases, findings, saved), w')"
  shows "findings = [] \<longleftrightarrow> (\<forall>c\<in>set cases. verdict_of c \<noteq> JStr ''FOUND_BUG'')"
  using run_fuzz_inv [OF assms] by (auto simp: is_bug_def filter_empty_conv)

definition campaign_clear :: "string \<Rightarrow> campaign_results \<Rightarrow> bool" where
  "campaign_clear mode r =
     (list_all (\<lambda>row. verdict_of row = JStr ''PASS'') (fst (res_attack r)) \<and>
      list_all (\<lambda>c. verdict_of c \<noteq> JStr ''FOUND_BUG'') (fst (res_fuzz r)) \<and>
      suite_pass (res_properties r) ''rust_properties'' = Inr True \<and>
      suite_pass (res_properties r) ''ts_properties'' = Inr True \<and>
      (mode = ''smoke'' \<or>
       truthy (dict_get (res_repro r) ''pass'') \<and> truthy (dict_get (res_rollback r) ''pass'')))"

lemma gates_clear:
  assumes gates: "results_gates (arg_mode args) r = Inr gates"
    and r: "run_campaign h rt args repo ctx w = (Inr r, w')"
  shows "protocol_verdict gates = ''PASS'' \<longleftrightarrow> campaign_clear (arg_mode args) r"
proof -
  obtain rows af where rows: "res_attack r = (rows, af)" by (cases "res_attack r")
  obtain cases ff saved where cases: "res_fuzz r = (cases, ff, saved)" by (cases "res_fuzz r")
  note parts = rows cases
  obtain wa wa' wf wf' where runs: "run_attack_matrix h rt ctx wa = (Inr (res_attack r), wa')"
      "run_fuzz h rt ctx (arg_mode args) wf = (Inr (res_fuzz r), wf')"
    by (rule run_campaign_parts [OF r])
  note clear = attack_clear [OF runs(1) [unfolded rows]] fuzz_clear [OF runs(2) [unfolded cases]]
  from gates obtain rust_ok props where props: "suite_pass (res_properties r) ''rust_properties'' = Inr rust_ok"
      "(if rust_ok then suite_pass (res_properties r) ''ts_properties'' else Inr False) = Inr props"
      "gates = campaign_gates (arg_mode args) af ff props (res_repro r) (res_rollback r)"
    unfolding results_gates_def parts by (auto simp: res_simps)
  from props(1,2) have suites: "props \<longleftrightarrow> suite_pass (res_properties r) ''rust_properties'' = Inr True \<and>
      suite_pass (res_properties r) ''ts_properties'' = Inr True"
    by (cases rust_ok) simp_all
  have "protocol_verdict gates = ''PASS'' \<longleftrightarrow> list_all snd gates"
    by (simp add: protocol_verdict_def)
  also have "\<dots> \<longleftrightarrow> af = [] \<and> ff = [] \<and> props \<and>
      (arg_mode args = ''smoke'' \<or>
       truthy (dict_get (res_repro r) ''pass'') \<and> truthy (dict_get (res_rollback r) ''pass''))"
    unfolding props(3) campaign_gates_def by (simp add: truthy_get_or_False)
  finally show ?thesis
    unfolding campaign_clear_def suites clear parts fst_conv list_all_iff by blast
qed

lemma rc_main_parts:
  assumes "rc_main h rt args w = (Inr code, w')"
  obtains ctx repo r w1 w2 gates where "run_campaign h rt args repo ctx w1 = (Inr r, w2)"
    "results_gates (arg_mode args) r = Inr gates"
    "code = (if protocol_verdict gates = ''PASS'' then 0 else 1)"
proof -
  from assms show ?thesis
    unfolding rc_main_def Let_def
    by (elim bindIO_E seqIO_E if_raise_E) (rule that, assumption, simp add: io_simps, auto simp: io_simps)
qed

text \<open>C2: a stabilization run that ends returns 0 exactly when every attack row passes, no fuzz case is a
bug, both property suites pass and, outside smoke mode, the reproducibility check and the rollback
rehearsal pass; then in deep mode the certified evidence hash is the baseline's. Otherwise it
returns 1.\<close>

theorem exit_code_iff:
  assumes "rc_main h rt args w = (Inr code, w')"
  shows "\<exists>ctx repo r w1 w2. run_campaign h rt args repo ctx w1 = (Inr r, w2) \<and>
     code = (if campaign_clear (arg_mode args) r then 0 else 1) \<and>
     (code = 0 \<and> arg_mode args \<noteq> ''smoke'' \<longrightarrow>
        dict_get (res_repro r) ''observed_evidence_sha256'' = JStr (arg_baseline_sha args) \<and>
        dict_get (res_repro r) ''interop_certify_return_code'' = JInt 0)"
proof -
  obtain ctx repo r w1 w2 gates where parts: "run_campaign h rt args repo ctx w1 = (Inr r, w2)"
      "results_gates (arg_mode args) r = Inr gates"
      "code = (if protocol_verdict gates = ''PASS'' then 0 else 1)"
    by (rule rc_main_parts [OF assms])
  have code: "code = (if campaign_clear (arg_mode args) r then 0 else 1)"
    using parts(3) gates_clear [OF parts(2,1)] by simp
  obtain wr wr' where repro: "run_repro_check h rt (arg_mode args) (out_dir ctx) (arg_baseline_tag args)
       (arg_baseline_sha args) wr = (Inr (res_repro r), wr')"
    by (rule run_campaign_parts [OF parts(1)])
  have "dict_get (res_repro r) ''observed_evidence_sha256'' = JStr (arg_baseline_sha args) \<and>
        dict_get (res_repro r) ''interop_certify_return_code'' = JInt 0"
    if "code = 0" "arg_mode args \<noteq> ''smoke''"
  proof -
    from that code have "truthy (dict_get (res_repro r) ''pass'')"
      by (simp add: campaign_clear_def split: if_splits)
    from repro_check_pass [OF repro this] show ?thesis by blast
  qed
  with parts(1) code show ?thesis by blast
qed

text \<open>A smoke run on the example machine.\<close>

definition example_args :: rc_args where
  "example_args = \<lparr>arg_mode = ''smoke'', arg_out_dir = ''o'', arg_baseline_tag = ''v1'',
     arg_baseline_sha = ''abc'', arg_rust_cmd = [''rs''], arg_ts_cmd = [''ts''], arg_repo = None,
     arg_seed = 1\<rparr>"

lemma example_run: "run example_host cmd cwd t w = (Inr (Completed 0 ''out'' []), w)"
  by (simp add: run_def example_host_def example_on_def fixed_host_def)

lemma example_ops [simp]:
  "write_at example_host p tx w = w" "mkdir_at example_host p w = w" "exists_at example_host w p = False"
  "clock example_host w = (0, w)" "seed_rng example_host i w = w" "resolve example_host p = p"
  "zip_tree example_host p q w = w"
  by (simp_all add: example_host_def example_on_def fixed_host_def)

lemma example_properties:
  "\<exists>rust ts. run_properties example_host rt out w =
     (Inr [(''rust_properties'', JObj ((''pass'', JBool True) # rust)),
           (''ts_properties'', JObj ((''pass'', JBool True) # ts))], w)"
  by (simp add: run_properties_def run_rust_properties_def command_exists_def example_run bindIO_def
        seqIO_def act_def readIO_def retIO_def Let_def suite_report_def)

lemma example_campaign:
  "\<exists>r rust ts. run_campaign example_host rt example_args repo ctx () = (Inr r, ()) \<and>
     res_properties r = [(''rust_properties'', JObj ((''pass'', JBool True) # rust)),
                         (''ts_properties'', JObj ((''pass'', JBool True) # ts))] \<and>
     res_repro r = repro_report ''smoke'' ''v1'' ''abc''"
proof -
  obtain rows af where attack: "run_attack_matrix example_host rt ctx () = (Inr (rows, af), ())"
    using returns_unit [OF example_attack_returns] by (metis surj_pair)
  obtain cases ff saved where fuzz: "run_fuzz example_host rt ctx ''smoke'' () = (Inr (cases, ff, saved), ())"
    using returns_unit [OF example_host_fuzz_returns] by (metis surj_pair)
  obtain t u where reports: "attack_markdown rows = Inr t" "fuzz_markdown cases ff = Inr u"
    using attack_markdown_ok [OF attack] fuzz_markdown_ok [OF fuzz] by (auto simp: is_ok_iff)
  obtain rust ts where props: "run_properties example_host rt (out_dir ctx) () =
     (Inr [(''rust_properties'', JObj ((''pass'', JBool True) # rust)),
           (''ts_properties'', JObj ((''pass'', JBool True) # ts))], ())"
    using example_properties by blast
  have repro: "run_repro_check example_host rt ''smoke'' out ''v1'' ''abc'' () =
      (Inr (repro_report ''smoke'' ''v1'' ''abc''), ())" for out
    by (simp add: run_repro_check_def Let_def seqIO_def bindIO_def act_def retIO_def)
  have rollback: "run_rollback_rehearsal example_host rt ''smoke'' out ''v1'' repo () =
      (Inr (rollback_report ''smoke'' ''v1'' repo), ())" for out
    by (simp add: run_rollback_rehearsal_def Let_def seqIO_def bindIO_def act_def retIO_def)
  have args: "arg_mode example_args = ''smoke''" "arg_baseline_tag example_args = ''v1''"
      "arg_baseline_sha example_args = ''abc''" by (simp_all add: example_args_def)
  show ?thesis
    by (simp add: run_campaign_def Let_def seqIO_def bindIO_def act_def retIO_def dump_json_def
          write_attack_markdown_def write_fuzz_markdown_def liftE_def attack fuzz reports props repro
          rollback args)
qed

lemma example_main_returns: "\<exists>code. rc_main example_host ''/r'' example_args () = (Inr code, ())"
proof -
  have slug: "detect_repo_slug example_host ''/r'' () = (Inr ''o/r'', ())" by code_simp
  have paths: "is_ok (artifact_paths ''/r'' (path_join ''/r'' ''o''))" by code_simp
  then obtain ps where ps: "artifact_paths ''/r'' (path_join ''/r'' ''o'') = Inr ps"
    by (auto simp: is_ok_iff)
  let ?ctx = "\<lparr>rust_cmd = arg_rust_cmd example_args, ts_cmd = arg_ts_cmd example_args,
      out_dir = path_join ''/r'' ''o'', minimized_dir = path_join (path_join ''/r'' ''o'') ''minimized-repros''\<rparr>"
  obtain r rust ts where r: "run_campaign example_host ''/r'' example_args ''o/r'' ?ctx () = (Inr r, ())"
      "res_properties r = [(''rust_properties'', JObj ((''pass'', JBool True) # rust)),
                         (''ts_properties'', JObj ((''pass'', JBool True) # ts))]"
      "res_repro r = repro_report ''smoke'' ''v1'' ''abc''"
    using example_campaign by blast
  have git: "git_rev_parse example_host rt ref w = (Inr (str_strip ''out''), w)" for rt ref w
    by (simp add: git_rev_parse_def bindIO_def example_run retIO_def)
  have gates: "results_gates m r = Inr (campaign_gates m (snd (res_attack r)) (fst (snd (res_fuzz r))) True
      (res_repro r) (res_rollback r))" for m
    by (simp add: results_gates_def suite_pass_def r(2) dict_index_def)
  obtain c where clean: "cleanup_section (res_repro r) = Inr c"
    by (simp add: cleanup_section_def r(3) repro_report_def dict_get_or_def Let_def)
  have evid: "write_evidence example_host out core s r () = (Inr (), ())" for out core s
    by (simp add: write_evidence_def bindIO_def stepIO_def seqIO_def dump_json_def act_def retIO_def Let_def)
  have args: "arg_out_dir example_args = ''o''" "arg_repo example_args = None"
    by (simp_all add: example_args_def)
  show ?thesis
    by (simp add: rc_main_def Let_def bindIO_def seqIO_def act_def stepIO_def liftE_def slug args
          example_run git git_commit_rev_parse_def r(1) gates clean ps evid zip_and_hash_def retIO_def)
qed

theorem exit_code_iff_witness:
  "\<exists>code r. rc_main example_host ''/r'' example_args () = (Inr code, ()) \<and>
     code = (if campaign_clear ''smoke'' r then 0 else 1)"
proof -
  obtain code where code: "rc_main example_host ''/r'' example_args () = (Inr code, ())"
    using example_main_returns by blast
  have "arg_mode example_args = ''smoke''" by (simp add: example_args_def)
  with exit_code_iff [OF code] code show ?thesis by auto
qed

end
