(* ===== verification/PyRegex.thy ===== *)
theory PyRegex
  imports PyText
begin

text \<open>
  The part of Python's \<open>re\<close> the tools use. \<open>ends r c\<close> lists the positions at which a match of
  \<open>r\<close> from position \<open>c\<close> can end, in the order a backtracking matcher tries them, so its first
  element is the match Python reports. A position is the text before it, reversed, and the text
  after it; assertions (\<open>^\<close>, \<open>$\<close>, \<open>\b\<close>) look at both. \<open>lang\<close> is the meaning of an expression
  as a relation between positions, and \<open>ends_lang\<close> says that the matcher computes it.
\<close>

type_synonym 'c pos = "'c list \<times> 'c list"

datatype 'c regex =
    REps
  | RCls "'c \<Rightarrow> bool"
  | RSeq "'c regex" "'c regex"
  | RAlt "'c regex" "'c regex"
  | RStar "'c regex"
  | RAssert "'c pos \<Rightarrow> bool"
  | RNot "'c regex"

subsection \<open>The matcher\<close>

function ends :: "'c regex \<Rightarrow> 'c pos \<Rightarrow> 'c pos list" where
  "ends REps c = [c]"
| "ends (RCls P) c =
     (case snd c of [] \<Rightarrow> [] | x # xs \<Rightarrow> if P x then [(x # fst c, xs)] else [])"
| "ends (RSeq r q) c = concat (map (ends q) (ends r c))"
| "ends (RAlt r q) c = ends r c @ ends q c"
| "ends (RStar r) c =
     concat (map (\<lambda>c'. if length (snd c') < length (snd c) then ends (RStar r) c' else [])
                 (ends r c)) @ [c]"
| "ends (RAssert P) c = (if P c then [c] else [])"
| "ends (RNot r) c = (if ends r c = [] then [c] else [])"
  by pat_completeness auto
termination
  by (relation "measures [\<lambda>(r, c). size r, \<lambda>(r, c). length (snd c)]") auto

declare ends.simps(5) [simp del]

lemma ends_RStar_iff:
  "c' \<in> set (ends (RStar r) c) \<longleftrightarrow>
     c' = c \<or> (\<exists>d\<in>set (ends r c). length (snd d) < length (snd c) \<and> c' \<in> set (ends (RStar r) d))"
  by (subst ends.simps(5)) auto

text \<open>\<open>re.search\<close> tries every start position, \<open>re.match\<close> the first only.\<close>

fun search_from :: "'c regex \<Rightarrow> 'c list \<Rightarrow> 'c list \<Rightarrow> bool" where
  "search_from r p [] = (ends r (p, []) \<noteq> [])"
| "search_from r p (x # xs) = (ends r (p, x # xs) \<noteq> [] \<or> search_from r (x # p) xs)"

definition re_search :: "'c regex \<Rightarrow> 'c list \<Rightarrow> bool" where
  "re_search r s = search_from r [] s"

definition re_match :: "'c regex \<Rightarrow> 'c list \<Rightarrow> bool" where
  "re_match r s = (ends r ([], s) \<noteq> [])"

definition re_fullmatch :: "'c regex \<Rightarrow> 'c list \<Rightarrow> bool" where
  "re_fullmatch r s = list_ex (\<lambda>c. snd c = []) (ends r ([], s))"

subsection \<open>The meaning of an expression\<close>

primrec lang :: "'c regex \<Rightarrow> ('c pos \<times> 'c pos) set" where
  "lang REps = Id"
| "lang (RCls P) = {((p, x # s), (x # p, s)) |p x s. P x}"
| "lang (RSeq r q) = lang r O lang q"
| "lang (RAlt r q) = lang r \<union> lang q"
| "lang (RStar r) = (lang r)\<^sup>*"
| "lang (RAssert P) = Id_on (Collect P)"
| "lang (RNot r) = Id_on (- Domain (lang r))"

text \<open>A match only moves forward over the text.\<close>

definition advances :: "'c pos \<Rightarrow> 'c pos \<Rightarrow> bool" where
  "advances c c' \<longleftrightarrow> (\<exists>u. snd c = u @ snd c' \<and> fst c' = rev u @ fst c)"

lemma advances_refl [simp]: "advances c c"
  by (auto simp: advances_def)

lemma advances_trans: "advances a b \<Longrightarrow> advances b c \<Longrightarrow> advances a c"
  by (force simp: advances_def)

lemma advances_same: "advances c c' \<Longrightarrow> length (snd c) \<le> length (snd c') \<Longrightarrow> c' = c"
  by (cases c; cases c') (auto simp: advances_def)

lemma lang_advances: "(c, c') \<in> lang r \<Longrightarrow> advances c c'"
proof (induction r arbitrary: c c')
  case (RCls P)
  then show ?case by (auto simp: advances_def)
next
  case (RSeq r q)
  then obtain b where "(c, b) \<in> lang r" "(b, c') \<in> lang q" by auto
  with RSeq.IH show ?case by (blast intro: advances_trans)
next
  case (RStar r)
  from RStar.prems have "(c, c') \<in> (lang r)\<^sup>*" by simp
  then show ?case
  proof (induction rule: rtrancl_induct)
    case (step a b)
    then show ?case by (blast intro: advances_trans RStar.IH)
  qed simp
qed auto

lemma ends_star_iff:
  assumes IH: "\<And>c c'. c' \<in> set (ends r c) \<longleftrightarrow> (c, c') \<in> lang r"
  shows "c' \<in> set (ends (RStar r) c) \<longleftrightarrow> (c, c') \<in> (lang r)\<^sup>*"
proof
  assume "c' \<in> set (ends (RStar r) c)"
  then show "(c, c') \<in> (lang r)\<^sup>*"
  proof (induction "length (snd c)" arbitrary: c rule: less_induct)
    case less
    show ?case
    proof (cases "c' = c")
      case False
      with less.prems have "\<exists>c1\<in>set (ends r c). length (snd c1) < length (snd c) \<and>
          c' \<in> set (ends (RStar r) c1)"
        by (simp only: ends_RStar_iff [of c' r c]) blast
      then obtain c1 where c1: "(c, c1) \<in> lang r" "length (snd c1) < length (snd c)"
          "c' \<in> set (ends (RStar r) c1)"
        using IH by blast
      from less.hyps [OF c1(2,3)] c1(1) show ?thesis
        by (rule converse_rtrancl_into_rtrancl [rotated])
    qed simp
  qed
next
  assume "(c, c') \<in> (lang r)\<^sup>*"
  then show "c' \<in> set (ends (RStar r) c)"
  proof (induction rule: converse_rtrancl_induct)
    case (step c c1)
    show ?case
    proof (cases "c1 = c")
      case False
      with step(1) have "length (snd c1) < length (snd c)"
        by (metis advances_same lang_advances leI)
      moreover from step(1) have "c1 \<in> set (ends r c)" by (simp only: IH)
      ultimately have "\<exists>d\<in>set (ends r c). length (snd d) < length (snd c) \<and> c' \<in> set (ends (RStar r) d)"
        using step(3) by blast
      then show ?thesis by (subst ends_RStar_iff) blast
    qed (use step in simp)
  qed (simp add: ends_RStar_iff [of c' r c'])
qed

theorem ends_lang: "c' \<in> set (ends r c) \<longleftrightarrow> (c, c') \<in> lang r"
proof (induction r arbitrary: c c')
  case (RCls P)
  show ?case by (cases c) (auto split: list.splits)
next
  case (RStar r)
  then show ?case by (simp add: ends_star_iff)
next
  case (RNot r)
  have "ends r c = [] \<longleftrightarrow> c \<notin> Domain (lang r)"
    using RNot by (metis Domain.simps ex_in_conv set_empty)
  then show ?case by auto
next
  case (RSeq r q)
  then show ?case by (simp add: relcomp_unfold del: split_paired_Ex) blast
qed auto

lemma ends_Nil_iff: "ends r c = [] \<longleftrightarrow> (\<nexists>c'. (c, c') \<in> lang r)"
  by (metis ends_lang ex_in_conv set_empty)

lemma search_from_iff:
  "search_from r p s \<longleftrightarrow> (\<exists>u v c. s = u @ v \<and> ((rev u @ p, v), c) \<in> lang r)"
proof (induction s arbitrary: p)
  case Nil
  then show ?case by (auto simp: ends_Nil_iff)
next
  case (Cons x xs)
  show ?case
  proof
    assume "search_from r p (x # xs)"
    then consider "ends r (p, x # xs) \<noteq> []" | "search_from r (x # p) xs" by auto
    then show "\<exists>u v c. x # xs = u @ v \<and> ((rev u @ p, v), c) \<in> lang r"
    proof cases
      case 1
      then show ?thesis by (metis append_Nil ends_Nil_iff rev.simps(1))
    next
      case 2
      then obtain u v c where "xs = u @ v" "((rev u @ x # p, v), c) \<in> lang r"
        using Cons.IH by blast
      then have "x # xs = (x # u) @ v" "((rev (x # u) @ p, v), c) \<in> lang r" by simp_all
      then show ?thesis by blast
    qed
  next
    assume "\<exists>u v c. x # xs = u @ v \<and> ((rev u @ p, v), c) \<in> lang r"
    then obtain u v c where uv: "x # xs = u @ v" and m: "((rev u @ p, v), c) \<in> lang r" by blast
    show "search_from r p (x # xs)"
    proof (cases u)
      case Nil
      with uv m have "((p, x # xs), c) \<in> lang r" by simp
      then have "ends r (p, x # xs) \<noteq> []" unfolding ends_Nil_iff by blast
      then show ?thesis by simp
    next
      case (Cons y ys)
      with uv m have "xs = ys @ v" "((rev ys @ x # p, v), c) \<in> lang r" by simp_all
      then have "search_from r (x # p) xs" using Cons.IH by blast
      then show ?thesis by simp
    qed
  qed
qed

lemma re_search_iff: "re_search r s \<longleftrightarrow> (\<exists>u v c. s = u @ v \<and> ((rev u, v), c) \<in> lang r)"
  by (simp add: re_search_def search_from_iff)

lemma re_match_iff: "re_match r s \<longleftrightarrow> (\<exists>c. (([], s), c) \<in> lang r)"
  by (simp add: re_match_def ends_Nil_iff)

lemma re_fullmatch_iff: "re_fullmatch r s \<longleftrightarrow> (\<exists>p. (([], s), (p, [])) \<in> lang r)"
proof -
  have "re_fullmatch r s \<longleftrightarrow> (\<exists>c. (([], s), c) \<in> lang r \<and> snd c = [])"
    by (simp only: re_fullmatch_def list_ex_iff Bex_def ends_lang)
  then show ?thesis by auto
qed

subsection \<open>Derived forms\<close>

definition RPlus :: "'c regex \<Rightarrow> 'c regex" where
  "RPlus r = RSeq r (RStar r)"

definition ROpt :: "'c regex \<Rightarrow> 'c regex" where
  "ROpt r = RAlt r REps"

text \<open>\<open>r{n}\<close> and a sequence or a choice of several expressions.\<close>

primrec RRep :: "nat \<Rightarrow> 'c regex \<Rightarrow> 'c regex" where
  "RRep 0 r = REps"
| "RRep (Suc n) r = RSeq r (RRep n r)"

definition RSeqs :: "'c regex list \<Rightarrow> 'c regex" where
  "RSeqs rs = foldr RSeq rs REps"

fun RAlts :: "'c regex list \<Rightarrow> 'c regex" where
  "RAlts [] = RCls (\<lambda>_. False)"
| "RAlts [r] = r"
| "RAlts (r # q # rs) = RAlt r (RAlts (q # rs))"

text \<open>A literal text, and the same under \<open>re.IGNORECASE\<close>.\<close>

definition RLit :: "'c list \<Rightarrow> 'c regex" where
  "RLit s = RSeqs (map (\<lambda>c. RCls (\<lambda>x. x = c)) s)"

definition RLitI :: "string \<Rightarrow> char regex" where
  "RLitI s = RSeqs (map (\<lambda>c. RCls (\<lambda>x. chr_lower x = chr_lower c)) s)"

definition RAny :: "char regex" where
  "RAny = RCls (\<lambda>c. c \<noteq> newline)"

text \<open>\<open>^\<close> and \<open>$\<close>: the second also matches before a line feed that ends the text.\<close>

definition RBos :: "char regex" where
  "RBos = RAssert (\<lambda>(p, s). p = [])"

definition RDollar :: "char regex" where
  "RDollar = RAssert (\<lambda>(p, s). s = [] \<or> s = [newline])"

text \<open>\<open>\b\<close>.\<close>

definition at_word :: "string \<Rightarrow> bool" where
  "at_word s = (case s of [] \<Rightarrow> False | c # _ \<Rightarrow> chr_is_word c)"

definition RWordB :: "char regex" where
  "RWordB = RAssert (\<lambda>(p, s). at_word p \<noteq> at_word s)"

lemma lang_RSeqs [simp]:
  "lang (RSeqs []) = Id"
  "lang (RSeqs (r # rs)) = lang r O lang (RSeqs rs)"
  by (simp_all add: RSeqs_def)

lemma lang_RAlts: "lang (RAlts rs) = (\<Union>r\<in>set rs. lang r)"
  by (induction rs rule: RAlts.induct) auto

lemma lang_RRep_cls:
  "lang (RRep n (RCls P)) = {((p, u @ s), (rev u @ p, s)) |p u s. length u = n \<and> list_all P u}"
proof (induction n)
  case 0
  then show ?case by (auto simp: Id_def)
next
  case (Suc n)
  show ?case
  proof (intro set_eqI iffI)
    fix z assume "z \<in> lang (RRep (Suc n) (RCls P))"
    then obtain p x s u v where z: "z = ((p, x # s), (rev u @ x # p, v))" "P x" "s = u @ v"
        "length u = n" "list_all P u"
      by (auto simp: Suc)
    then have "z = ((p, (x # u) @ v), (rev (x # u) @ p, v))" by simp
    with z show "z \<in> {((p, u @ s), (rev u @ p, s)) |p u s. length u = Suc n \<and> list_all P u}"
      by (intro CollectI exI [of _ p] exI [of _ "x # u"] exI [of _ v]) simp
  next
    fix z assume "z \<in> {((p, u @ s), (rev u @ p, s)) |p u s. length u = Suc n \<and> list_all P u}"
    then obtain p u s x us where "z = ((p, u @ s), (rev u @ p, s))" "u = x # us" "length us = n"
        "P x" "list_all P us"
      by (auto simp: length_Suc_conv)
    then show "z \<in> lang (RRep (Suc n) (RCls P))"
      by (auto simp: Suc intro!: relcompI)
  qed
qed

lemma lang_RLit: "lang (RLit t) = {((p, t @ s), (rev t @ p, s)) |p s. True}"
proof (induction t)
  case Nil
  then show ?case by (auto simp: RLit_def)
next
  case (Cons c t)
  have "lang (RLit (c # t)) = lang (RCls (\<lambda>x. x = c)) O lang (RLit t)"
    by (simp add: RLit_def)
  then show ?case by (auto simp: Cons intro!: relcompI)
qed

lemma re_search_RLit: "re_search (RLit t) s \<longleftrightarrow> contains s t"
  by (auto simp: re_search_iff lang_RLit contains_def sublist_def)

lemma lang_RLitI_any_case: "str_lower x = str_lower t \<Longrightarrow> ((p, x @ s), (rev x @ p, s)) \<in> lang (RLitI t)"
proof (induction t arbitrary: x p)
  case Nil
  then show ?case by (simp add: RLitI_def str_lower_def)
next
  case (Cons c t)
  then obtain y ys where y: "x = y # ys" "chr_lower y = chr_lower c" "str_lower ys = str_lower t"
    by (auto simp: str_lower_def Cons_eq_map_conv)
  have "((y # p, ys @ s), (rev ys @ y # p, s)) \<in> lang (RLitI t)" by (rule Cons.IH [OF y(3)])
  moreover have "RLitI (c # t) = RSeq (RCls (\<lambda>x. chr_lower x = chr_lower c)) (RLitI t)"
    by (simp add: RLitI_def RSeqs_def)
  ultimately show ?case using y by (auto intro!: relcompI)
qed

subsection \<open>Hexadecimal digests\<close>

definition chr_is_hex :: "char \<Rightarrow> bool" where
  "chr_is_hex c = (chr_is_ascii_digit c \<or> c \<in> set ''abcdef'')"

text \<open>\<open>^[0-9a-f]{n}$\<close>.\<close>

definition hex_re :: "nat \<Rightarrow> char regex" where
  "hex_re n = RSeqs [RBos, RRep n (RCls chr_is_hex), RDollar]"

lemma lang_hex_re:
  "lang (hex_re n) = {(([], u @ s), (rev u, s)) |(u :: string) s.
     length u = n \<and> list_all chr_is_hex u \<and> (s = [] \<or> s = [newline])}"
proof (intro set_eqI iffI)
  fix z :: "char pos \<times> char pos" assume "z \<in> lang (hex_re n)"
  then show "z \<in> {(([], u @ s), (rev u, s)) |u s.
     length u = n \<and> list_all chr_is_hex u \<and> (s = [] \<or> s = [newline])}"
    by (cases z) (auto simp: hex_re_def RBos_def RDollar_def lang_RRep_cls Id_on_iff)
next
  fix z :: "char pos \<times> char pos" assume "z \<in> {(([], u @ s), (rev u, s)) |u s.
     length u = n \<and> list_all chr_is_hex u \<and> (s = [] \<or> s = [newline])}"
  then obtain u s where z: "z = (([], u @ s), (rev u, s))" and u: "length u = n" "list_all chr_is_hex u"
    and s: "s = [] \<or> s = [newline]" by blast
  from u have "(([], u @ s), (rev u @ [], s)) \<in> lang (RRep n (RCls chr_is_hex))"
    unfolding lang_RRep_cls by blast
  moreover have "(([], u @ s), ([], u @ s)) \<in> lang RBos" by (simp add: RBos_def Id_on_iff)
  moreover from s have "((rev u @ [], s), (rev u @ [], s)) \<in> lang RDollar"
    by (auto simp: RDollar_def Id_on_iff)
  ultimately show "z \<in> lang (hex_re n)"
    unfolding hex_re_def lang_RSeqs z by (auto intro!: relcompI)
qed

lemma fullmatch_hex_re: "re_fullmatch (hex_re n) s \<longleftrightarrow> length s = n \<and> list_all chr_is_hex s"
  by (auto simp: re_fullmatch_iff lang_hex_re)

text \<open>With \<open>match\<close> in place of \<open>fullmatch\<close> the pattern also accepts a trailing line feed.\<close>

lemma match_hex_re:
  "re_match (hex_re n) s \<longleftrightarrow>
     (\<exists>u. length u = n \<and> list_all chr_is_hex u \<and> (s = u \<or> s = u @ [newline]))"
  by (auto simp: re_match_iff lang_hex_re)

end
