(* ===== verification/Checks.thy ===== *)
theory Checks
  imports PyEnv PyRegex
begin

text \<open>
  The vocabulary of the contract checkers under \<open>tools/ci\<close>: a failed requirement stops the script
  with \<open>SystemExit\<close> and a message. A list of requirements stands for consecutive calls of
  \<open>require\<close>; the collection \<open>res_simps\<close> turns acceptance into the conjunction of the conditions.
\<close>

definition stop :: "string \<Rightarrow> 'a res" where
  "stop msg = Inl (SystemExit msg)"

fun checks :: "(bool \<times> string) list \<Rightarrow> unit res" where
  "checks [] = Inr ()"
| "checks ((c, msg) # rest) = (if c then checks rest else stop msg)"

text \<open>The same with the location in front of every message.\<close>

definition checks_at :: "string \<Rightarrow> (bool \<times> string) list \<Rightarrow> unit res" where
  "checks_at p cs = checks (map (\<lambda>(c, msg). (c, p @ '': '' @ msg)) cs)"

text \<open>\<open>require(v in {s1, ...}, msg)\<close>: an unhashable value raises before the requirement is tested.\<close>

definition check_in :: "json \<Rightarrow> string list \<Rightarrow> string \<Rightarrow> unit res" where
  "check_in v ss msg = bindE (in_strs v ss) (\<lambda>b. if b then Inr () else stop msg)"

lemma stop_Inr [simp, res_simps]: "stop msg = Inr x \<longleftrightarrow> False"
  by (simp add: stop_def)

lemma stop_then [simp]: "bindE (stop msg) f = stop msg" "thenE (stop msg) k = stop msg"
  by (simp_all add: stop_def)

lemma checks_Inr [res_simps]: "checks cs = Inr () \<longleftrightarrow> list_all fst cs"
  by (induction cs rule: checks.induct) simp_all

lemma checks_at_Inr [res_simps]: "checks_at p cs = Inr () \<longleftrightarrow> list_all fst cs"
  by (simp add: checks_at_def checks_Inr list_all_iff split_beta)

lemma check_in_Inr [res_simps]: "check_in v ss msg = Inr () \<longleftrightarrow> (\<exists>s. v = JStr s \<and> s \<in> set ss)"
  by (cases v) (simp_all add: check_in_def)

definition keys_subset :: "dict \<Rightarrow> string list \<Rightarrow> bool" where
  "keys_subset d ks = list_all (\<lambda>k. k \<in> set ks) (dict_keys d)"

definition has_keys :: "dict \<Rightarrow> string list \<Rightarrow> bool" where
  "has_keys d ks = list_all (has_key d) ks"

text \<open>\<open>set(d) == {k1, ...}\<close>.\<close>

definition keys_exact :: "dict \<Rightarrow> string list \<Rightarrow> bool" where
  "keys_exact d ks = (keys_subset d ks \<and> has_keys d ks)"

lemma keys_exact_iff: "keys_exact d ks \<longleftrightarrow> set (dict_keys d) = set ks"
  by (auto simp: keys_exact_def keys_subset_def has_keys_def has_key_def dict_keys_def list_all_iff)

text \<open>\<open>isinstance(v, int) and not isinstance(v, bool) and v >= n\<close>.\<close>

definition int_at_least :: "json \<Rightarrow> int \<Rightarrow> bool" where
  "int_at_least v n = (case v of JInt i \<Rightarrow> n \<le> i | _ \<Rightarrow> False)"

lemma int_at_least_iff: "int_at_least v n \<longleftrightarrow> (\<exists>i. v = JInt i \<and> n \<le> i)"
  by (cases v) (auto simp: int_at_least_def)

text \<open>\<open>isinstance(v, str) and v\<close>, and the same with \<open>v.strip()\<close>.\<close>

definition nonempty_str :: "json \<Rightarrow> bool" where
  "nonempty_str v = (case v of JStr s \<Rightarrow> s \<noteq> [] | _ \<Rightarrow> False)"

definition nonblank_str :: "json \<Rightarrow> bool" where
  "nonblank_str v = (case v of JStr s \<Rightarrow> str_strip s \<noteq> [] | _ \<Rightarrow> False)"

definition all_strs :: "json \<Rightarrow> bool" where
  "all_strs v = (case v of JArr xs \<Rightarrow> list_all is_str xs | _ \<Rightarrow> False)"

text \<open>The value of a dict at a key that is known to be there.\<close>

abbreviation fld :: "dict \<Rightarrow> string \<Rightarrow> json" where
  "fld d k \<equiv> dict_get d k"

text \<open>Reading JSON where the script turns a missing or malformed file into a failed requirement.\<close>

definition load_or_stop :: "env \<Rightarrow> string \<Rightarrow> json res" where
  "load_or_stop w p =
     (case file_text w p of
        None \<Rightarrow> stop (p @ '': unable to read JSON'')
      | Some t \<Rightarrow> (case json_loads w t of None \<Rightarrow> stop (p @ '': invalid JSON'') | Some v \<Rightarrow> Inr v))"

lemma load_or_stop_Inr [res_simps]: "load_or_stop w p = Inr v \<longleftrightarrow> document w p = Some v"
  by (auto simp: load_or_stop_def document_def split: option.splits)

subsection \<open>Short texts\<close>

text \<open>A text shorter than the shortest match of a pattern does not contain one.\<close>

primrec min_len :: "'c regex \<Rightarrow> nat" where
  "min_len REps = 0"
| "min_len (RCls P) = 1"
| "min_len (RSeq r q) = min_len r + min_len q"
| "min_len (RAlt r q) = min (min_len r) (min_len q)"
| "min_len (RStar r) = 0"
| "min_len (RAssert P) = 0"
| "min_len (RNot r) = 0"

lemma lang_min_len: "(c, c') \<in> lang r \<Longrightarrow> min_len r + length (snd c') \<le> length (snd c)"
proof (induction r arbitrary: c c')
  case (RSeq r q)
  then obtain d where "(c, d) \<in> lang r" "(d, c') \<in> lang q" by auto
  with RSeq.IH show ?case by fastforce
next
  case (RStar r)
  then have "advances c c'" by (intro lang_advances)
  then show ?case by (auto simp: advances_def)
next
  case (RAlt r q)
  then show ?case by fastforce
qed auto

lemma re_search_short: "length s < min_len r \<Longrightarrow> \<not> re_search r s"
proof
  assume short: "length s < min_len r" and "re_search r s"
  then obtain u v c where "s = u @ v" "((rev u, v), c) \<in> lang r" by (auto simp: re_search_iff)
  from lang_min_len [OF this(2)] this(1) short show False by simp
qed

lemma re_search_RAlts: "re_search (RAlts rs) s \<longleftrightarrow> (\<exists>r\<in>set rs. re_search r s)"
  unfolding re_search_iff lang_RAlts by blast

subsection \<open>Requirements with an error code\<close>

text \<open>\<open>err(code, detail)\<close> and the typed accessors built on it.\<close>

definition err :: "string \<Rightarrow> string \<Rightarrow> 'a res" where
  "err code detail = stop (code @ '': '' @ detail)"

definition need :: "bool \<Rightarrow> string \<Rightarrow> string \<Rightarrow> unit res" where
  "need c code detail = (if c then Inr () else err code detail)"

definition as_dict :: "json \<Rightarrow> string \<Rightarrow> string \<Rightarrow> dict res" where
  "as_dict v code detail = (case v of JObj d \<Rightarrow> Inr d | _ \<Rightarrow> err code (detail @ '' must be an object''))"

definition as_list :: "json \<Rightarrow> string \<Rightarrow> string \<Rightarrow> json list res" where
  "as_list v code detail = (case v of JArr xs \<Rightarrow> Inr xs | _ \<Rightarrow> err code (detail @ '' must be a list''))"

definition require_str :: "json \<Rightarrow> string \<Rightarrow> string \<Rightarrow> string res" where
  "require_str v code detail =
     (case v of JStr s \<Rightarrow> (if s = [] then err code (detail @ '' must be a non-empty string'') else Inr s)
      | _ \<Rightarrow> err code (detail @ '' must be a non-empty string''))"

definition int64 :: "int \<Rightarrow> bool" where
  "int64 i = (- (2 ^ 63) \<le> i \<and> i \<le> 2 ^ 63 - 1)"

definition require_equal :: "json \<Rightarrow> json \<Rightarrow> string \<Rightarrow> string \<Rightarrow> unit res" where
  "require_equal actual expected code detail =
     (if py_eq actual expected then Inr ()
      else err code (detail @ '': expected '' @ json_repr expected @ '', got '' @ json_repr actual))"

definition require_enum :: "json \<Rightarrow> string list \<Rightarrow> string \<Rightarrow> string \<Rightarrow> string res" where
  "require_enum v allowed code detail =
     bindE (require_str v code detail) (\<lambda>s.
       if s \<in> set allowed then Inr s
       else err code (detail @ '': expected one of '' @ strs_repr allowed @ '', got '' @ str_repr s))"

lemma err_Inr [simp, res_simps]: "err code detail = Inr x \<longleftrightarrow> False"
  by (simp add: err_def)

lemma need_Inr [res_simps]: "need c code detail = Inr () \<longleftrightarrow> c"
  by (simp add: need_def)

lemma as_dict_Inr [res_simps]: "as_dict v code detail = Inr d \<longleftrightarrow> v = JObj d"
  by (cases v) (auto simp: as_dict_def)

lemma as_list_Inr [res_simps]: "as_list v code detail = Inr xs \<longleftrightarrow> v = JArr xs"
  by (cases v) (auto simp: as_list_def)

lemma require_str_Inr [res_simps]: "require_str v code detail = Inr s \<longleftrightarrow> v = JStr s \<and> s \<noteq> []"
  by (cases v) (auto simp: require_str_def)

lemma require_equal_Inr [res_simps]: "require_equal a b code detail = Inr () \<longleftrightarrow> py_eq a b"
  by (simp add: require_equal_def)

lemma require_enum_Inr [res_simps]:
  "require_enum v allowed code detail = Inr s \<longleftrightarrow> v = JStr s \<and> s \<noteq> [] \<and> s \<in> set allowed"
  by (auto simp: require_enum_def res_simps)

subsection \<open>Scanning the fields of a document\<close>

text \<open>
  Several checkers walk a document and reject a field whose key or text matches a pattern. What
  they rely on: the walk yields every field of every dict in the document, and nothing else.
\<close>

definition field_of :: "json \<Rightarrow> string \<Rightarrow> json \<Rightarrow> bool" where
  "field_of v k x = (\<exists>d. sub_value (JObj d) v \<and> (k, x) \<in> set d)"

lemma field_of_simps:
  "field_of (JObj d) k x \<longleftrightarrow> (k, x) \<in> set d \<or> (\<exists>j y. (j, y) \<in> set d \<and> field_of y k x)"
  "field_of (JArr xs) k x \<longleftrightarrow> (\<exists>y\<in>set xs. field_of y k x)"
  "field_of (JStr s) k x \<longleftrightarrow> False" "field_of JNull k x \<longleftrightarrow> False" "field_of (JBool b) k x \<longleftrightarrow> False"
  "field_of (JInt i) k x \<longleftrightarrow> False" "field_of (JFloat f r) k x \<longleftrightarrow> False"
  by (auto simp: field_of_def sub_value_dict sub_value_list)

locale field_scan =
  fixes scan :: "json \<Rightarrow> ('p \<times> string \<times> json) list"
  assumes scan_fields: "(k, x) \<in> snd ` set (scan v) \<longleftrightarrow> field_of v k x"
begin

lemma guard_accepts:
  assumes "\<And>p k x. f (p, k, x) = Inr () \<longleftrightarrow> ok k x"
  shows "forE f (scan v) = Inr () \<longleftrightarrow> (\<forall>k x. field_of v k x \<longrightarrow> ok k x)"
proof -
  have "forE f (scan v) = Inr () \<longleftrightarrow> (\<forall>q\<in>set (scan v). ok (fst (snd q)) (snd (snd q)))"
    unfolding forE_Inr using assms by (metis prod.collapse)
  also have "\<dots> \<longleftrightarrow> (\<forall>q\<in>snd ` set (scan v). ok (fst q) (snd q))" by simp
  also have "\<dots> \<longleftrightarrow> (\<forall>k x. (k, x) \<in> snd ` set (scan v) \<longrightarrow> ok k x)" by (metis prod.collapse fst_conv snd_conv)
  finally show ?thesis unfolding scan_fields .
qed

lemma rejects_field:
  assumes "field_of v k x" and "\<not> ok k x"
    and "\<And>p k x. f (p, k, x) = Inr () \<longleftrightarrow> ok k x"
  shows "forE f (scan v) \<noteq> Inr ()"
  using assms guard_accepts by metis

end

end
