(* ===== verification/ClientFixtures.thy ===== *)
theory ClientFixtures
  imports Checks Base64
begin

text \<open>
  \<open>tools/ci/check_client_workflow_fixtures.py\<close>: the shape of the client workflow fixtures, the
  references they make into the conformance vectors and the trust anchor bundles, and the coverage
  of workflows. \<open>resolve_path\<close> stands for \<open>Path.resolve\<close> below the repository root.
\<close>

subsection \<open>Constants\<close>

definition chr_is_ref :: "char \<Rightarrow> bool" where
  "chr_is_ref c = (chr_is_ascii_alpha c \<or> chr_is_ascii_digit c \<or> c \<in> set ''_/-'')"

definition chr_is_pointer :: "char \<Rightarrow> bool" where
  "chr_is_pointer c = (chr_is_ascii_alpha c \<or> chr_is_ascii_digit c \<or> c \<in> set ''_~./-'')"

definition chr_is_name :: "char \<Rightarrow> bool" where
  "chr_is_name c = (chr_is_ascii_alpha c \<or> chr_is_ascii_digit c \<or> c \<in> set ''_-'')"

definition REF_RE :: "char regex" where
  "REF_RE = RSeqs [RBos, RLit ''conformance/vectors/'', RPlus (RCls chr_is_ref), RLit ''.json#/'',
     RPlus (RCls chr_is_pointer), RDollar]"

definition TRUST_BUNDLE_REF_RE :: "char regex" where
  "TRUST_BUNDLE_REF_RE = RSeqs [RBos, RLit ''sdk/trust/fixtures/'', RPlus (RCls chr_is_name),
     RLit ''.json'', RDollar]"

definition ALLOWED_WORKFLOW :: "string list" where
  "ALLOWED_WORKFLOW = [''scan_preview'', ''scan_accept'', ''scan_handoff'', ''device_lifecycle'',
     ''pairing'', ''sync_bundle'', ''store_snapshot'']"

definition ALLOWED_STATUS :: "string list" where
  "ALLOWED_STATUS = [''Verified'', ''Untrusted'', ''Accepted'', ''AlreadyAccepted'', ''Created'',
     ''Valid'', ''Paired'', ''AlreadyPaired'', ''Ready'', ''Uninitialized'', ''Exported'', ''Restored'',
     ''Empty'', ''Imported'', ''AlreadyImported'', ''Rejected'']"

definition SCAN_PREVIEW_STATUS :: "string list" where
  "SCAN_PREVIEW_STATUS = [''Verified'', ''Untrusted'', ''Rejected'']"
definition SCAN_ACCEPT_STATUS :: "string list" where
  "SCAN_ACCEPT_STATUS = [''Accepted'', ''AlreadyAccepted'', ''Rejected'']"
definition SCAN_HANDOFF_STATUS :: "string list" where
  "SCAN_HANDOFF_STATUS = [''Accepted'', ''AlreadyAccepted'', ''Rejected'']"
definition DEVICE_LIFECYCLE_STATUS :: "string list" where
  "DEVICE_LIFECYCLE_STATUS = [''Ready'', ''Uninitialized'']"
definition PAIRING_STATUS :: "string list" where
  "PAIRING_STATUS = [''Paired'', ''AlreadyPaired'', ''Rejected'']"
definition SYNC_BUNDLE_STATUS :: "string list" where
  "SYNC_BUNDLE_STATUS = [''Imported'', ''AlreadyImported'', ''Rejected'']"
definition STORE_SNAPSHOT_STATUS :: "string list" where
  "STORE_SNAPSHOT_STATUS = [''Exported'', ''Restored'', ''Empty'', ''Rejected'']"

definition ALLOWED_TOP_LEVEL :: "string list" where
  "ALLOWED_TOP_LEVEL = [''fixture_id'', ''workflow'', ''strict'', ''input'', ''expect'', ''meta'']"

definition ALLOWED_INPUT :: "string list" where
  "ALLOWED_INPUT = [''qr_string_ref'', ''trust_pub_b64_ref'', ''trust_pub_b64'', ''trust_anchor_id'',
     ''trust_anchor_bundle_ref'', ''accept_attempts'', ''import_attempts'', ''root_label'',
     ''device_label'', ''handoff_source'']"

definition ALLOWED_EXPECT :: "string list" where
  "ALLOWED_EXPECT = [''status'', ''diag'', ''diag_contains'', ''cose_b64'', ''store_mutation'',
     ''accepted_record_count'', ''device_count'', ''revoked_count'', ''lifecycle_event_count'',
     ''root_kid'', ''active_ak'', ''device_ak'', ''pairing_id'', ''envelope_b64'', ''bundle_b64'',
     ''snapshot_b64'', ''handoff_source'']"

definition ALLOWED_HANDOFF_SOURCE :: "string list" where
  "ALLOWED_HANDOFF_SOURCE = [''manual_entry'', ''camera'', ''injected'', ''share_sheet'', ''deep_link'',
     ''clipboard'', ''robot_vision'', ''external_sensor'', ''unknown'']"

definition REQUIRED_EXPECT :: "string list" where
  "REQUIRED_EXPECT = [''status'']"

definition PRESENCE_FIELDS :: "string list" where
  "PRESENCE_FIELDS = [''root_kid'', ''active_ak'', ''device_ak'', ''pairing_id'', ''envelope_b64'',
     ''bundle_b64'', ''snapshot_b64'']"

definition COUNT_FIELDS :: "string list" where
  "COUNT_FIELDS = [''accepted_record_count'', ''device_count'', ''revoked_count'', ''lifecycle_event_count'']"

record fixture_env = env +
  resolve_path :: "string \<Rightarrow> string"

text \<open>\<open>target == root or root in target.parents\<close>.\<close>

definition is_under :: "string \<Rightarrow> string \<Rightarrow> bool" where
  "is_under target root_path = prefix (path_parts root_path) (path_parts target)"

subsection \<open>References\<close>

definition unescape_pointer :: "string \<Rightarrow> string" where
  "unescape_pointer raw = str_replace ''~0'' ''~'' (str_replace ''~1'' ''/'' raw)"

definition pointer_step :: "string \<Rightarrow> json \<Rightarrow> json \<Rightarrow> string \<Rightarrow> json res" where
  "pointer_step p ref node raw =
     (case node of
        JObj d \<Rightarrow> (case map_of d (unescape_pointer raw) of
                     Some v \<Rightarrow> Inr v
                   | None \<Rightarrow> stop (p @ '': missing '' @ json_repr ref))
      | _ \<Rightarrow> stop (p @ '': missing '' @ json_repr ref))"

definition resolve_ref :: "fixture_env \<Rightarrow> json \<Rightarrow> string \<Rightarrow> string res" where
  "resolve_ref w ref p =
     (case ref of
        JStr r \<Rightarrow>
          if \<not> re_fullmatch REF_RE r then stop (p @ '': invalid ref '' @ str_repr r)
          else (case str_partition ''#/'' r of
              None \<Rightarrow> Inl (ValueError ''not enough values to unpack'')
            | Some (file_part, pointer) \<Rightarrow>
                let vectors_root = resolve_path w ''conformance/vectors''; target = resolve_path w file_part in
                thenE (checks_at p
                  [(\<not> path_is_absolute file_part \<and> ''..'' \<notin> set (path_parts file_part),
                    ''ref escapes repository root: '' @ str_repr r),
                   (is_under target vectors_root,
                    ''ref must stay under conformance/vectors: '' @ str_repr r)])
                (bindE (load_or_stop (env.truncate w) target) (\<lambda>doc.
                 bindE (foldE (pointer_step p ref) doc (str_split ''/'' pointer)) (\<lambda>node.
                   case node of
                     JStr s \<Rightarrow> Inr s
                   | _ \<Rightarrow> stop (p @ '': ref must point to string: '' @ str_repr r)))))
      | _ \<Rightarrow> stop (p @ '': ref must be a string: '' @ json_repr ref))"

subsection \<open>Trust anchor bundles\<close>

definition check_anchor :: "string \<Rightarrow> (string \<times> string) list \<Rightarrow> json \<Rightarrow> (string \<times> string) list res" where
  "check_anchor p seen anchor =
     (case anchor of
        JObj d \<Rightarrow>
          if \<not> keys_exact d [''id'', ''trust_pub_b64'']
          then stop (p @ '': trust anchor keys must be id and trust_pub_b64'')
          else (case fld d ''id'' of
              JStr i \<Rightarrow>
                if i = [] \<or> str_strip i \<noteq> i
                then stop (p @ '': trust anchor id must be non-blank without edge whitespace'')
                else if i \<in> set (map fst seen)
                then stop (p @ '': duplicate trust anchor id '' @ i)
                else (case fld d ''trust_pub_b64'' of
                    JStr pub \<Rightarrow>
                      if pub = [] then stop (p @ '': trust_pub_b64 must be a non-empty string'')
                      else (case b64decode pub of
                          None \<Rightarrow> stop (p @ '': trust_pub_b64 must be standard base64'')
                        | Some decoded \<Rightarrow>
                            if decoded = [] then stop (p @ '': trust_pub_b64 must decode to non-empty bytes'')
                            else Inr (seen @ [(i, pub)]))
                  | _ \<Rightarrow> stop (p @ '': trust_pub_b64 must be a non-empty string''))
            | _ \<Rightarrow> stop (p @ '': trust anchor id must be non-blank without edge whitespace''))
      | _ \<Rightarrow> stop (p @ '': trust anchor must be an object''))"

definition resolve_trust_anchor_bundle_ref ::
  "fixture_env \<Rightarrow> json \<Rightarrow> string \<Rightarrow> (string \<times> string) list res" where
  "resolve_trust_anchor_bundle_ref w ref p =
     (case ref of
        JStr r \<Rightarrow>
          let bundle_root = resolve_path w ''sdk/trust/fixtures''; target = resolve_path w r in
          thenE (checks_at p
            [(re_fullmatch TRUST_BUNDLE_REF_RE r, ''invalid trust_anchor_bundle_ref '' @ str_repr r),
             (\<not> path_is_absolute r \<and> ''..'' \<notin> set (path_parts r),
              ''trust_anchor_bundle_ref escapes repository root: '' @ str_repr r),
             (is_under target bundle_root,
              ''trust_anchor_bundle_ref must stay under sdk/trust/fixtures: '' @ str_repr r)])
          (bindE (load_or_stop (env.truncate w) target) (\<lambda>bundle.
             case bundle of
               JObj b \<Rightarrow>
                 if \<not> keys_exact b [''bundle_v'', ''anchors'']
                 then stop (p @ '': trust anchor bundle keys must be bundle_v and anchors'')
                 else if \<not> py_eq (fld b ''bundle_v'') (JInt 1)
                 then stop (p @ '': trust anchor bundle_v must be 1'')
                 else (case fld b ''anchors'' of
                     JArr anchors \<Rightarrow>
                       if anchors = []
                       then stop (p @ '': trust anchor bundle anchors must be a non-empty list'')
                       else foldE (check_anchor p) [] anchors
                   | _ \<Rightarrow> stop (p @ '': trust anchor bundle anchors must be a non-empty list''))
             | _ \<Rightarrow> stop (p @ '': trust anchor bundle must be an object'')))
      | _ \<Rightarrow> stop (p @ '': trust_anchor_bundle_ref must be a string''))"

subsection \<open>One fixture\<close>

definition check_opt :: "string \<Rightarrow> dict \<Rightarrow> string \<Rightarrow> (json \<Rightarrow> bool) \<Rightarrow> string \<Rightarrow> unit res" where
  "check_opt p d k ok msg = (if has_key d k then checks_at p [(ok (fld d k), msg)] else Inr ())"

definition check_opt_ref :: "fixture_env \<Rightarrow> string \<Rightarrow> dict \<Rightarrow> string \<Rightarrow> unit res" where
  "check_opt_ref w p d k =
     (if has_key d k then bindE (resolve_ref w (fld d k) p) (\<lambda>_. Inr ()) else Inr ())"

text \<open>The top level of the fixture and its identifier; the identifiers seen are extended.\<close>

definition check_fixture_id :: "string \<Rightarrow> string list \<Rightarrow> dict \<Rightarrow> string list res" where
  "check_fixture_id p seen d =
     thenE (checks_at p
       [(has_keys d ALLOWED_TOP_LEVEL,
         ''missing top-level keys: '' @ strs_repr (py_sorted (list_minus ALLOWED_TOP_LEVEL (dict_keys d)))),
        (keys_subset d ALLOWED_TOP_LEVEL,
         ''unexpected top-level keys: '' @ strs_repr (py_sorted (list_minus (dict_keys d) ALLOWED_TOP_LEVEL))),
        (\<not> has_key d ''vector_id'' \<and> \<not> has_key d ''op'', ''protocol vector shape leaked'')])
     (case fld d ''fixture_id'' of
        JStr i \<Rightarrow>
          thenE (checks_at p
            [(i \<notin> set seen, ''duplicate fixture_id '' @ i),
             (path_stem p = i, ''filename must match fixture_id'')])
            (Inr (seen @ [i]))
      | _ \<Rightarrow> stop (p @ '': fixture_id must be a string''))"

definition check_fixture_input :: "fixture_env \<Rightarrow> string \<Rightarrow> string \<Rightarrow> dict \<Rightarrow> unit res" where
  "check_fixture_input w p workflow input =
     thenE (checks_at p
       [(keys_subset input ALLOWED_INPUT, ''unexpected input keys''),
        (\<not> (has_key input ''trust_pub_b64_ref'' \<and> has_key input ''trust_pub_b64''),
         ''trust_pub_b64_ref and trust_pub_b64 are mutually exclusive''),
        (\<not> (has_key input ''trust_anchor_bundle_ref'' \<and> has_key input ''trust_pub_b64_ref''),
         ''trust_anchor_bundle_ref and trust_pub_b64_ref are mutually exclusive''),
        (\<not> (has_key input ''trust_anchor_bundle_ref'' \<and> has_key input ''trust_pub_b64''),
         ''trust_anchor_bundle_ref and trust_pub_b64 are mutually exclusive''),
        (workflow \<in> {''scan_preview'', ''scan_accept'', ''sync_bundle'', ''store_snapshot''} \<longrightarrow>
           has_key input ''qr_string_ref'', ''qr_string_ref is required'')])
    (thenE (check_opt_ref w p input ''qr_string_ref'')
    (thenE (check_opt_ref w p input ''trust_pub_b64_ref'')
    (thenE (check_opt p input ''trust_pub_b64'' is_str ''trust_pub_b64 must be a string'')
    (thenE (check_opt p input ''trust_anchor_id'' is_str ''trust_anchor_id must be a string'')
    (thenE (if has_key input ''trust_anchor_bundle_ref''
            then thenE (checks_at p [(has_key input ''trust_anchor_id'',
                          ''trust_anchor_bundle_ref requires trust_anchor_id'')])
                   (bindE (resolve_trust_anchor_bundle_ref w (fld input ''trust_anchor_bundle_ref'') p)
                      (\<lambda>_. Inr ()))
            else Inr ())
    (thenE (check_opt p input ''accept_attempts'' (\<lambda>v. int_at_least v 1)
              ''accept_attempts must be a positive integer'')
    (thenE (check_opt p input ''import_attempts'' (\<lambda>v. int_at_least v 1)
              ''import_attempts must be a positive integer'')
    (thenE (check_opt p input ''root_label'' is_str ''root_label must be a string'')
    (thenE (check_opt p input ''device_label'' is_str ''device_label must be a string'')
    (if has_key input ''handoff_source''
     then check_in (fld input ''handoff_source'') ALLOWED_HANDOFF_SOURCE (p @ '': invalid handoff_source'')
     else Inr ()))))))))))"

definition workflow_statuses :: "(string \<times> string list) list" where
  "workflow_statuses =
     [(''scan_preview'', SCAN_PREVIEW_STATUS), (''scan_accept'', SCAN_ACCEPT_STATUS),
      (''scan_handoff'', SCAN_HANDOFF_STATUS), (''device_lifecycle'', DEVICE_LIFECYCLE_STATUS),
      (''pairing'', PAIRING_STATUS), (''sync_bundle'', SYNC_BUNDLE_STATUS),
      (''store_snapshot'', STORE_SNAPSHOT_STATUS)]"

definition check_status :: "string \<Rightarrow> string \<Rightarrow> json \<Rightarrow> unit res" where
  "check_status p workflow status =
     thenE (check_in status ALLOWED_STATUS (p @ '': invalid status''))
       (case map_of workflow_statuses workflow of
          None \<Rightarrow> Inr ()
        | Some allowed \<Rightarrow> check_in status allowed (p @ '': invalid '' @ workflow @ '' status''))"

definition check_fixture_expect :: "string \<Rightarrow> string \<Rightarrow> dict \<Rightarrow> unit res" where
  "check_fixture_expect p workflow expect =
     thenE (checks_at p
       [(has_keys expect REQUIRED_EXPECT,
         ''missing expect keys: '' @ strs_repr (py_sorted (list_minus REQUIRED_EXPECT (dict_keys expect)))),
        (keys_subset expect ALLOWED_EXPECT,
         ''unexpected expect keys: '' @ strs_repr (py_sorted (list_minus (dict_keys expect) ALLOWED_EXPECT)))])
    (thenE (check_status p workflow (fld expect ''status''))
    (thenE (if has_key expect ''cose_b64''
            then check_in (fld expect ''cose_b64'') [''present'', ''absent''] (p @ '': invalid cose_b64'')
            else Inr ())
    (thenE (if has_key expect ''store_mutation''
            then check_in (fld expect ''store_mutation'') [''none'', ''accepted_scan_inserted'']
                   (p @ '': invalid store_mutation'')
            else Inr ())
    (thenE (forE (\<lambda>f. check_in (fld expect f) [''present'', ''absent''] (p @ '': invalid '' @ f))
              (filter (has_key expect) PRESENCE_FIELDS))
    (forE (\<lambda>f. checks_at p [(int_at_least (fld expect f) 0, f @ '' must be a non-negative integer'')])
       (filter (has_key expect) COUNT_FIELDS))))))"

subsection \<open>The rules of the workflows\<close>

text \<open>\<open>store_mutation == m and expect["accepted_record_count"] == n\<close>.\<close>

definition store_is :: "dict \<Rightarrow> string \<Rightarrow> int \<Rightarrow> bool" where
  "store_is expect mutation n =
     (fld expect ''store_mutation'' = JStr mutation \<and> py_eq (fld expect ''accepted_record_count'') (JInt n))"

text \<open>\<open>attempts >= n\<close> for a value already known to be a positive integer, or the default 1.\<close>

definition attempts :: "dict \<Rightarrow> string \<Rightarrow> json" where
  "attempts input k = dict_get_or input k (JInt 1)"

definition no_scan_input :: "dict \<Rightarrow> bool" where
  "no_scan_input input = list_all (\<lambda>k. \<not> has_key input k)
     [''qr_string_ref'', ''trust_pub_b64_ref'', ''trust_pub_b64'', ''trust_anchor_id'']"

definition check_scan_preview :: "string \<Rightarrow> dict \<Rightarrow> dict \<Rightarrow> unit res" where
  "check_scan_preview p input expect =
     checks_at p
       [(has_keys expect [''cose_b64'', ''store_mutation''], ''scan_preview missing scan expectations''),
        (\<not> has_key input ''accept_attempts'', ''scan_preview must not set accept_attempts''),
        (fld expect ''store_mutation'' = JStr ''none'', ''scan_preview store_mutation must be none''),
        (\<not> has_key expect ''accepted_record_count'',
         ''scan_preview must not assert accepted_record_count'')]"

definition check_scan_accept :: "string \<Rightarrow> dict \<Rightarrow> dict \<Rightarrow> unit res" where
  "check_scan_accept p input expect =
     (let status = fld expect ''status''; tries = attempts input ''accept_attempts'' in
      checks_at p
       [(has_keys expect [''cose_b64'', ''store_mutation'', ''accepted_record_count''],
         ''scan_accept missing scan expectations''),
        (has_key expect ''accepted_record_count'', ''scan_accept must assert accepted_record_count''),
        (status = JStr ''Accepted'' \<longrightarrow> py_eq tries (JInt 1),
         ''Accepted fixture must use exactly one accept attempt''),
        (status = JStr ''Accepted'' \<longrightarrow> fld expect ''store_mutation'' = JStr ''accepted_scan_inserted'',
         ''accepted scan must insert a record''),
        (status = JStr ''AlreadyAccepted'' \<longrightarrow> int_at_least tries 2,
         ''AlreadyAccepted fixture must repeat scan_accept''),
        (status = JStr ''AlreadyAccepted'' \<longrightarrow> store_is expect ''accepted_scan_inserted'' 1,
         ''AlreadyAccepted fixture must leave exactly one inserted record''),
        (status = JStr ''Rejected'' \<longrightarrow> store_is expect ''none'' 0,
         ''rejected scan_accept must not persist records'')])"

definition check_scan_handoff :: "string \<Rightarrow> dict \<Rightarrow> dict \<Rightarrow> unit res" where
  "check_scan_handoff p input expect =
     (let status = fld expect ''status'' in
      thenE (checks_at p
       [(has_keys expect [''cose_b64'', ''store_mutation'', ''accepted_record_count'', ''handoff_source''],
         ''scan_handoff missing handoff expectations''),
        (has_key input ''trust_anchor_bundle_ref'' \<and> has_key input ''trust_anchor_id'',
         ''scan_handoff must use explicit trust anchor bundle and ID'')])
     (thenE (check_in (fld expect ''handoff_source'') ALLOWED_HANDOFF_SOURCE
               (p @ '': invalid expected handoff_source''))
     (checks_at p
       [(py_eq (dict_get_or input ''handoff_source'' (JStr ''manual_entry'')) (fld expect ''handoff_source''),
         ''handoff source expectation must match input''),
        (status = JStr ''Rejected'' \<longrightarrow> store_is expect ''none'' 0,
         ''rejected scan_handoff must not persist records''),
        (status \<noteq> JStr ''Rejected'' \<longrightarrow> store_is expect ''accepted_scan_inserted'' 1,
         ''accepted scan_handoff must leave exactly one record'')])))"

definition check_device_lifecycle :: "string \<Rightarrow> dict \<Rightarrow> dict \<Rightarrow> unit res" where
  "check_device_lifecycle p input expect =
     checks_at p
       [(no_scan_input input, ''device_lifecycle must not set scan input''),
        (has_keys expect [''root_kid'', ''active_ak'', ''device_ak'', ''device_count'', ''revoked_count'',
           ''accepted_record_count'', ''lifecycle_event_count''],
         ''device_lifecycle missing lifecycle expectations''),
        (\<not> has_key expect ''cose_b64'' \<and> \<not> has_key expect ''store_mutation'',
         ''device_lifecycle must not set scan expectations'')]"

definition check_pairing :: "string \<Rightarrow> dict \<Rightarrow> dict \<Rightarrow> unit res" where
  "check_pairing p input expect =
     (let tries = attempts input ''accept_attempts'' in
      checks_at p
       [(no_scan_input input, ''pairing must not set scan input''),
        (has_keys expect [''root_kid'', ''pairing_id'', ''envelope_b64'', ''device_count''],
         ''pairing missing pairing expectations''),
        (int_at_least tries 1, ''pairing accept_attempts must be positive''),
        (fld expect ''status'' = JStr ''AlreadyPaired'' \<longrightarrow> int_at_least tries 2,
         ''AlreadyPaired fixture must repeat accept'')])"

definition trust_material :: "dict \<Rightarrow> bool" where
  "trust_material input = (has_key input ''trust_pub_b64_ref'' \<or> has_key input ''trust_pub_b64'')"

definition check_sync_bundle :: "string \<Rightarrow> dict \<Rightarrow> dict \<Rightarrow> unit res" where
  "check_sync_bundle p input expect =
     checks_at p
       [(trust_material input, ''sync_bundle requires trust material''),
        (\<not> has_key input ''trust_anchor_bundle_ref'', ''sync_bundle must use direct trust material''),
        (has_keys expect [''bundle_b64'', ''accepted_record_count'', ''device_count'', ''lifecycle_event_count''],
         ''sync_bundle missing sync expectations''),
        (fld expect ''status'' = JStr ''AlreadyImported'' \<longrightarrow> int_at_least (attempts input ''import_attempts'') 2,
         ''AlreadyImported fixture must repeat import'')]"

definition check_store_snapshot :: "string \<Rightarrow> dict \<Rightarrow> dict \<Rightarrow> unit res" where
  "check_store_snapshot p input expect =
     checks_at p
       [(trust_material input, ''store_snapshot requires trust material''),
        (\<not> has_key input ''trust_anchor_bundle_ref'', ''store_snapshot must use direct trust material''),
        (has_keys expect [''snapshot_b64'', ''accepted_record_count'', ''device_count'', ''lifecycle_event_count''],
         ''store_snapshot missing snapshot expectations''),
        (\<not> has_key expect ''cose_b64'' \<and> \<not> has_key expect ''store_mutation'',
         ''store_snapshot must not set scan expectations'')]"

definition check_workflow :: "string \<Rightarrow> string \<Rightarrow> dict \<Rightarrow> dict \<Rightarrow> unit res" where
  "check_workflow p workflow input expect =
     (if workflow = ''scan_preview'' then check_scan_preview p input expect
      else if workflow = ''scan_accept'' then check_scan_accept p input expect
      else if workflow = ''scan_handoff'' then check_scan_handoff p input expect
      else if workflow = ''device_lifecycle'' then check_device_lifecycle p input expect
      else if workflow = ''pairing'' then check_pairing p input expect
      else if workflow = ''sync_bundle'' then check_sync_bundle p input expect
      else if workflow = ''store_snapshot'' then check_store_snapshot p input expect
      else Inr ())"

subsection \<open>Diagnostics, the whole fixture, all fixtures\<close>

definition require_string_list :: "string \<Rightarrow> json \<Rightarrow> string \<Rightarrow> unit res" where
  "require_string_list p v label =
     checks_at p [(is_list v, label @ '' must be a list''), (all_strs v, label @ '' must contain only strings'')]"

definition check_diag :: "string \<Rightarrow> dict \<Rightarrow> unit res" where
  "check_diag p expect =
     thenE (checks_at p [(has_key expect ''diag'' \<noteq> has_key expect ''diag_contains'',
                           ''expected exactly one diagnostic expectation'')])
    (thenE (if has_key expect ''diag'' then require_string_list p (fld expect ''diag'') ''diag'' else Inr ())
    (if has_key expect ''diag_contains''
     then thenE (require_string_list p (fld expect ''diag_contains'') ''diag_contains'')
            (checks_at p [(fld expect ''diag_contains'' \<noteq> JArr [],
               ''diag_contains must not be empty; use diag: [] to assert empty diagnostics'')])
     else Inr ()))"

definition check_meta :: "string \<Rightarrow> json \<Rightarrow> unit res" where
  "check_meta p meta =
     (case meta of
        JObj m \<Rightarrow> checks_at p [(keys_exact m [''desc''], ''meta must contain only desc''),
                              (nonempty_str (fld m ''desc''), ''meta.desc must be a string'')]
      | _ \<Rightarrow> stop (p @ '': meta must be an object''))"

text \<open>Everything after the identifier is known, from the workflow to the meta data.\<close>

definition check_fixture_body :: "fixture_env \<Rightarrow> string \<Rightarrow> dict \<Rightarrow> unit res" where
  "check_fixture_body w p d =
     thenE (check_in (fld d ''workflow'') ALLOWED_WORKFLOW (p @ '': invalid workflow''))
    (thenE (checks_at p [(is_true (fld d ''strict''), ''strict must be true'')])
    (let workflow = json_str (fld d ''workflow'') in
     case fld d ''input'' of
       JObj input \<Rightarrow>
         thenE (check_fixture_input w p workflow input)
         (case fld d ''expect'' of
            JObj expect \<Rightarrow>
              thenE (check_fixture_expect p workflow expect)
             (thenE (check_workflow p workflow input expect)
             (thenE (check_diag p expect) (check_meta p (fld d ''meta''))))
          | _ \<Rightarrow> stop (p @ '': expect must be an object''))
     | _ \<Rightarrow> stop (p @ '': input must be an object'')))"

definition validate_fixture :: "fixture_env \<Rightarrow> string list \<Rightarrow> string \<Rightarrow> string list res" where
  "validate_fixture w seen p =
     bindE (load_or_stop (env.truncate w) p) (\<lambda>data.
     case data of
       JObj d \<Rightarrow>
         bindE (check_fixture_id p seen d) (\<lambda>seen'.
         thenE (check_fixture_body w p d) (Inr seen'))
     | _ \<Rightarrow> stop (p @ '': fixture must be a JSON object''))"

definition fixture_step ::
  "fixture_env \<Rightarrow> string list \<times> json list \<Rightarrow> string \<Rightarrow> (string list \<times> json list) res" where
  "fixture_step w = (\<lambda>(seen, workflows) p.
     bindE (validate_fixture w seen p) (\<lambda>seen'.
     bindE (load_or_stop (env.truncate w) p) (\<lambda>data.
       case data of
         JObj d \<Rightarrow> bindE (dict_index d ''workflow'') (\<lambda>v. Inr (seen', workflows @ [v]))
       | _ \<Rightarrow> Inl TypeError)))"

definition fixture_paths :: "fixture_env \<Rightarrow> string list" where
  "fixture_paths w = sort_key path_parts (dir_glob w ''sdk/workflows/fixtures'' ''*/*.json'')"

definition fixtures_main :: "fixture_env \<Rightarrow> string res" where
  "fixtures_main w =
     (let paths = fixture_paths w in
      thenE (checks [(paths \<noteq> [], ''expected at least one client workflow fixture'')])
     (bindE (foldE (fixture_step w) ([], []) paths) (\<lambda>(seen, workflows).
        let missing = filter (\<lambda>k. JStr k \<notin> set workflows) ALLOWED_WORKFLOW in
        thenE (checks [(missing = [],
                 ''missing fixture coverage for workflows: '' @ strs_repr (py_sorted missing))])
          (Inr (''Client workflow fixture check: OK ('' @ nat_str (length paths) @ '' fixtures)'')))))"

end
