(* ===== verification/ClientFixtureProps.thy ===== *)
theory ClientFixtureProps
  imports ClientFixtures
begin

text \<open>
  What an accepted client workflow fixture guarantees: references read strings of conformance
  vectors, trust bundles name each anchor once, and a run that succeeds has distinct identifiers
  and covers every workflow.
\<close>

subsection \<open>References\<close>

lemma pointer_step_Inr:
  "pointer_step p ref node raw = Inr v \<longleftrightarrow> child node (Key (unescape_pointer raw)) = Some v"
  by (cases node) (simp_all add: pointer_step_def split: option.split)

lemma pointer_fold:
  "foldE (pointer_step p ref) node raws = Inr v \<longleftrightarrow>
     value_at node (map (\<lambda>raw. Key (unescape_pointer raw)) raws) = Some v"
proof (induction raws arbitrary: node)
  case (Cons raw raws)
  show ?case
    by (simp only: foldE.simps bindE_Inr pointer_step_Inr Cons.IH list.map value_at.simps)
       (simp split: option.split)
qed simp

lemma last_case_str: "(case v of JStr s \<Rightarrow> Inr s | _ \<Rightarrow> stop m) = Inr t \<longleftrightarrow> v = JStr t"
  by (cases v) auto

text \<open>A reference is resolved exactly when it is a string that matches the reference pattern, its
file part stays below the vectors directory after resolution, and the JSON pointer behind \<open>#/\<close>,
with its escapes undone, reads a string of the document there; that string is the result.\<close>

theorem resolve_ref_iff:
  "resolve_ref w ref p = Inr s \<longleftrightarrow>
     (\<exists>r file_part pointer doc. ref = JStr r \<and> re_fullmatch REF_RE r \<and>
        str_partition ''#/'' r = Some (file_part, pointer) \<and>
        \<not> path_is_absolute file_part \<and> ''..'' \<notin> set (path_parts file_part) \<and>
        is_under (resolve_path w file_part) (resolve_path w ''conformance/vectors'') \<and>
        document (env.truncate w) (resolve_path w file_part) = Some doc \<and>
        value_at doc (map (\<lambda>raw. Key (unescape_pointer raw)) (str_split ''/'' pointer)) = Some (JStr s))"
proof (cases ref)
  case (JStr r)
  show ?thesis
  proof (cases "str_partition ''#/'' r")
    case (Some fp)
    obtain file_part pointer where fp: "fp = (file_part, pointer)" by (cases fp)
    show ?thesis
      unfolding resolve_ref_def JStr Some fp json.case Let_def option.case prod.case
      by (simp only: if_split_eq1 res_simps last_case_str pointer_fold stop_Inr list.pred_inject fst_conv)
         (auto simp: Some fp)
  qed (simp add: resolve_ref_def JStr)
qed (simp_all add: resolve_ref_def)

subsection \<open>Trust anchor bundles\<close>

definition anchors_ok :: "(string \<times> string) list \<Rightarrow> bool" where
  "anchors_ok m =
     (distinct (map fst m) \<and>
      list_all (\<lambda>(i, pub). i \<noteq> [] \<and> str_strip i = i \<and> (\<exists>bytes. bytes \<noteq> [] \<and> b64decode pub = Some bytes)) m)"

lemma check_anchor_ok:
  assumes "check_anchor p seen anchor = Inr seen'" and "anchors_ok seen"
  shows "anchors_ok seen'"
  using assms
  by (auto simp: check_anchor_def anchors_ok_def split: json.splits if_splits option.splits)

lemma check_anchor_grows: "check_anchor p seen anchor = Inr seen' \<Longrightarrow> seen' \<noteq> []"
  by (auto simp: check_anchor_def split: json.splits if_splits option.splits)

lemma check_anchors_ne:
  "foldE (check_anchor p) seen anchors = Inr m \<Longrightarrow> anchors \<noteq> [] \<or> seen \<noteq> [] \<Longrightarrow> m \<noteq> []"
  by (induction anchors arbitrary: seen) (auto simp: res_simps dest: check_anchor_grows)

lemma last_case_obj: "(case v of JObj d \<Rightarrow> f d | _ \<Rightarrow> stop m) = Inr t \<longleftrightarrow> (\<exists>d. v = JObj d \<and> f d = Inr t)"
  by (cases v) auto

lemma last_case_arr: "(case v of JArr xs \<Rightarrow> f xs | _ \<Rightarrow> stop m) = Inr t \<longleftrightarrow> (\<exists>xs. v = JArr xs \<and> f xs = Inr t)"
  by (cases v) auto

lemma if_stop: "(if c then stop m else k) = Inr t \<longleftrightarrow> \<not> c \<and> k = Inr t"
  by simp

text \<open>A trust anchor bundle that is accepted is not empty, names no anchor twice, and gives every
anchor a key that decodes to at least one byte.\<close>

theorem trust_bundle_ok:
  assumes "resolve_trust_anchor_bundle_ref w ref p = Inr m"
  shows "m \<noteq> [] \<and> distinct (map fst m) \<and>
    (\<forall>(i, pub)\<in>set m. i \<noteq> [] \<and> str_strip i = i \<and> (\<exists>bytes. bytes \<noteq> [] \<and> b64decode pub = Some bytes))"
proof -
  from assms obtain anchors where a: "anchors \<noteq> []" "foldE (check_anchor p) [] anchors = Inr m"
    by (cases ref)
       (auto simp: resolve_trust_anchor_bundle_ref_def Let_def res_simps last_case_obj last_case_arr if_stop)
  have "anchors_ok m"
    by (rule foldE_invariant [OF a(2)]) (auto simp: anchors_ok_def [of "[]"] intro: check_anchor_ok)
  with check_anchors_ne [OF a(2)] a(1) show ?thesis
    by (auto simp: anchors_ok_def list_all_iff)
qed

definition fixture_docs :: "(string \<times> json) list \<Rightarrow> fixture_env" where
  "fixture_docs ds = env.extend (docs_env ds) \<lparr>resolve_path = (\<lambda>p. p)\<rparr>"

lemma truncate_fixture_docs [simp]: "env.truncate (fixture_docs ds) = docs_env ds"
  by (simp add: fixture_docs_def env.defs docs_env_def)

definition example_bundle :: json where
  "example_bundle = JObj [(''bundle_v'', JInt 1),
     (''anchors'', JArr [JObj [(''id'', JStr ''lab''), (''trust_pub_b64'', JStr ''oQ=='')]])]"

lemma example_bundle_accepted:
  "resolve_trust_anchor_bundle_ref (fixture_docs [(''sdk/trust/fixtures/a.json'', example_bundle)])
     (JStr ''sdk/trust/fixtures/a.json'') ''f'' = Inr [(''lab'', ''oQ=='')]"
  by code_simp

theorem trust_bundle_ok_witness: "\<exists>bytes. bytes \<noteq> [] \<and> b64decode ''oQ=='' = Some bytes"
  using trust_bundle_ok [OF example_bundle_accepted] by simp

subsection \<open>Identifiers and coverage\<close>

definition fixture_ok :: "fixture_env \<Rightarrow> string \<Rightarrow> bool" where
  "fixture_ok w p = is_ok (validate_fixture w [] p)"

definition workflow_of :: "fixture_env \<Rightarrow> string \<Rightarrow> json" where
  "workflow_of w p = (case document (env.truncate w) p of Some (JObj d) \<Rightarrow> dict_get d ''workflow'' | _ \<Rightarrow> JNull)"

lemma check_fixture_id_Inr:
  "check_fixture_id p seen d = Inr s \<longleftrightarrow>
     path_stem p \<notin> set seen \<and> s = seen @ [path_stem p] \<and> check_fixture_id p [] d = Inr [path_stem p]"
  by (cases "fld d ''fixture_id''") (auto simp: check_fixture_id_def res_simps)

lemma validate_fixture_Inr:
  "validate_fixture w seen p = Inr s \<longleftrightarrow>
     path_stem p \<notin> set seen \<and> s = seen @ [path_stem p] \<and> fixture_ok w p"
proof -
  have "validate_fixture w seen p = Inr s \<longleftrightarrow> path_stem p \<notin> set seen \<and> s = seen @ [path_stem p] \<and>
      (\<exists>d. document (env.truncate w) p = Some (JObj d) \<and>
         check_fixture_id p [] d = Inr [path_stem p] \<and> check_fixture_body w p d = Inr ())" for seen s
    unfolding validate_fixture_def bindE_Inr load_or_stop_Inr last_case_obj thenE_Inr
      check_fixture_id_Inr [of p seen] by auto
  then show ?thesis unfolding fixture_ok_def is_ok_iff by auto
qed

lemma fixture_ok_document: "fixture_ok w p \<Longrightarrow> \<exists>d. document (env.truncate w) p = Some (JObj d) \<and> has_key d ''workflow''"
proof -
  assume "fixture_ok w p"
  then obtain s d where "document (env.truncate w) p = Some (JObj d)" "check_fixture_id p [] d = Inr s"
    unfolding fixture_ok_def is_ok_iff validate_fixture_def bindE_Inr load_or_stop_Inr last_case_obj by blast
  then show ?thesis
    by (auto simp: check_fixture_id_def res_simps has_keys_def ALLOWED_TOP_LEVEL_def)
qed

lemma fixture_step_Inr:
  "fixture_step w (seen, wfs) p = Inr (seen', wfs') \<longleftrightarrow>
     path_stem p \<notin> set seen \<and> fixture_ok w p \<and> seen' = seen @ [path_stem p] \<and> wfs' = wfs @ [workflow_of w p]"
proof -
  let ?read = "\<lambda>s. bindE (load_or_stop (env.truncate w) p) (\<lambda>data.
       case data of JObj d \<Rightarrow> bindE (dict_index d ''workflow'') (\<lambda>v. Inr (s, wfs @ [v])) | _ \<Rightarrow> Inl TypeError)"
  have read: "?read s = Inr (s, wfs @ [workflow_of w p])" if ok: "fixture_ok w p" for s :: "string list"
  proof -
    from fixture_ok_document [OF ok] obtain d where d: "document (env.truncate w) p = Some (JObj d)"
        "has_key d ''workflow''" by blast
    from d(1) have "load_or_stop (env.truncate w) p = Inr (JObj d)" by (simp add: load_or_stop_Inr)
    with d show ?thesis by (simp add: has_key_index workflow_of_def)
  qed
  have step: "fixture_step w (seen, wfs) p = bindE (validate_fixture w seen p) ?read"
    by (simp add: fixture_step_def)
  show ?thesis
  proof (cases "path_stem p \<notin> set seen \<and> fixture_ok w p")
    case True
    then have "validate_fixture w seen p = Inr (seen @ [path_stem p])" by (simp add: validate_fixture_Inr)
    then have "fixture_step w (seen, wfs) p = Inr (seen @ [path_stem p], wfs @ [workflow_of w p])"
      using True read by (simp only: step bindE_simps)
    with True show ?thesis by auto
  next
    case False
    then show ?thesis unfolding step bindE_Inr validate_fixture_Inr by blast
  qed
qed

lemma fixture_fold:
  "foldE (fixture_step w) (seen, wfs) ps = Inr (seen', wfs') \<longleftrightarrow>
     list_all (fixture_ok w) ps \<and> distinct (map path_stem ps) \<and> set seen \<inter> path_stem ` set ps = {} \<and>
     seen' = seen @ map path_stem ps \<and> wfs' = wfs @ map (workflow_of w) ps"
proof (induction ps arbitrary: seen wfs)
  case (Cons p ps)
  have "foldE (fixture_step w) (seen, wfs) (p # ps) = Inr (seen', wfs') \<longleftrightarrow>
      path_stem p \<notin> set seen \<and> fixture_ok w p \<and>
      foldE (fixture_step w) (seen @ [path_stem p], wfs @ [workflow_of w p]) ps = Inr (seen', wfs')"
    by (simp add: bindE_Inr fixture_step_Inr)
  then show ?case unfolding Cons.IH by auto
qed auto

text \<open>The fixture check succeeds exactly when there is a fixture, every fixture on its own is valid,
no two files share an identifier, and every workflow has a fixture.\<close>

theorem fixtures_main_success_iff:
  "is_ok (fixtures_main w) \<longleftrightarrow>
     fixture_paths w \<noteq> [] \<and> list_all (fixture_ok w) (fixture_paths w) \<and>
     distinct (map path_stem (fixture_paths w)) \<and>
     JStr ` set ALLOWED_WORKFLOW \<subseteq> workflow_of w ` set (fixture_paths w)"
proof -
  have cover: "filter (\<lambda>k. JStr k \<notin> set (map (workflow_of w) ps)) ks = [] \<longleftrightarrow>
      JStr ` set ks \<subseteq> workflow_of w ` set ps" for ks ps
    by (auto simp: filter_empty_conv)
  have "is_ok (fixtures_main w) \<longleftrightarrow> fixture_paths w \<noteq> [] \<and>
     (\<exists>seen wfs. foldE (fixture_step w) ([], []) (fixture_paths w) = Inr (seen, wfs) \<and>
        filter (\<lambda>k. JStr k \<notin> set wfs) ALLOWED_WORKFLOW = [])"
    unfolding fixtures_main_def Let_def is_ok_thenE is_ok_bindE checks_Inr
    by (auto simp: is_ok_thenE checks_Inr)
  then show ?thesis unfolding fixture_fold by (simp add: cover del: set_map)
qed

subsection \<open>Rejected scans\<close>

lemma fixture_ok_parts:
  assumes "fixture_ok w p" and "document (env.truncate w) p = Some (JObj d)"
  obtains workflow input expect where "fld d ''workflow'' = JStr workflow" "fld d ''input'' = JObj input"
    "fld d ''expect'' = JObj expect" "check_fixture_expect p workflow expect = Inr ()"
    "check_workflow p workflow input expect = Inr ()"
proof -
  from assms have "check_fixture_body w p d = Inr ()"
    unfolding fixture_ok_def is_ok_iff validate_fixture_def bindE_Inr load_or_stop_Inr last_case_obj thenE_Inr
    by auto
  then show ?thesis
    unfolding check_fixture_body_def Let_def thenE_Inr check_in_Inr last_case_obj by (auto intro: that)
qed

lemma expect_count:
  assumes "check_fixture_expect p workflow expect = Inr ()" and "has_key expect ''accepted_record_count''"
    and "py_eq (fld expect ''accepted_record_count'') (JInt n)"
  shows "fld expect ''accepted_record_count'' = JInt n"
proof -
  have "''accepted_record_count'' \<in> set (filter (has_key expect) COUNT_FIELDS)"
    using assms(2) by (simp add: COUNT_FIELDS_def)
  with assms(1) have "int_at_least (fld expect ''accepted_record_count'') 0"
    unfolding check_fixture_expect_def thenE_Inr forE_Inr checks_at_Inr by auto
  with assms(3) show ?thesis by (auto simp: int_at_least_iff num_eq_def)
qed

text \<open>C39: a valid fixture of a scan that persists never lets a rejected scan change the store: it expects no
mutation and exactly zero records. Every other hand-off, and a repeated acceptance, expects exactly
one inserted record.\<close>

theorem rejected_scan_persists_nothing:
  assumes "fixture_ok w p" and "document (env.truncate w) p = Some (JObj d)"
    and "fld d ''workflow'' = JStr workflow" and "workflow = ''scan_accept'' \<or> workflow = ''scan_handoff''"
    and "fld d ''expect'' = JObj expect"
  shows "(fld expect ''status'' = JStr ''Rejected'' \<longrightarrow>
       fld expect ''store_mutation'' = JStr ''none'' \<and> fld expect ''accepted_record_count'' = JInt 0) \<and>
    (fld expect ''status'' = JStr ''AlreadyAccepted'' \<or>
       workflow = ''scan_handoff'' \<and> fld expect ''status'' \<noteq> JStr ''Rejected'' \<longrightarrow>
       fld expect ''store_mutation'' = JStr ''accepted_scan_inserted'' \<and>
       fld expect ''accepted_record_count'' = JInt 1)"
proof -
  obtain input where ce: "check_fixture_expect p workflow expect = Inr ()"
      and cw: "check_workflow p workflow input expect = Inr ()"
    using assms(3,5) by (auto intro: fixture_ok_parts [OF assms(1,2)])
  note count = expect_count [OF ce]
  from assms(4) show ?thesis
  proof
    assume wf: "workflow = ''scan_accept''"
    with cw have "check_scan_accept p input expect = Inr ()" by (simp add: check_workflow_def)
    then have k: "has_key expect ''accepted_record_count''"
        "fld expect ''status'' = JStr ''AlreadyAccepted'' \<longrightarrow> store_is expect ''accepted_scan_inserted'' 1"
        "fld expect ''status'' = JStr ''Rejected'' \<longrightarrow> store_is expect ''none'' 0"
      unfolding check_scan_accept_def Let_def checks_at_Inr by simp_all
    show ?thesis using k(2,3) count [OF k(1)] wf unfolding store_is_def by auto
  next
    assume wf: "workflow = ''scan_handoff''"
    with cw have "check_scan_handoff p input expect = Inr ()" by (simp add: check_workflow_def)
    then have k: "has_key expect ''accepted_record_count''"
        "fld expect ''status'' = JStr ''Rejected'' \<longrightarrow> store_is expect ''none'' 0"
        "fld expect ''status'' \<noteq> JStr ''Rejected'' \<longrightarrow> store_is expect ''accepted_scan_inserted'' 1"
      unfolding check_scan_handoff_def Let_def thenE_Inr checks_at_Inr by (simp_all add: has_keys_def)
    show ?thesis using k(2,3) count [OF k(1)] wf unfolding store_is_def by auto
  qed
qed

definition example_fixture :: dict where
  "example_fixture =
     [(''fixture_id'', JStr ''a''), (''workflow'', JStr ''scan_accept''), (''strict'', JBool True),
      (''input'', JObj [(''qr_string_ref'', JStr ''conformance/vectors/q.json#/qr'')]),
      (''expect'', JObj [(''status'', JStr ''Rejected''), (''diag'', JArr []), (''cose_b64'', JStr ''absent''),
         (''store_mutation'', JStr ''none''), (''accepted_record_count'', JInt 0)]),
      (''meta'', JObj [(''desc'', JStr ''d'')])]"

definition example_fixtures :: fixture_env where
  "example_fixtures = fixture_docs [(''sdk/workflows/fixtures/s/a.json'', JObj example_fixture),
     (''conformance/vectors/q.json'', JObj [(''qr'', JStr ''GR1:'')])]"

lemma example_fixture_ok: "fixture_ok example_fixtures ''sdk/workflows/fixtures/s/a.json''"
  by code_simp

theorem rejected_scan_persists_nothing_witness:
  "fld [(''status'', JStr ''Rejected''), (''diag'', JArr []), (''cose_b64'', JStr ''absent''),
        (''store_mutation'', JStr ''none''), (''accepted_record_count'', JInt 0)] ''store_mutation'' = JStr ''none''"
proof -
  have "document (env.truncate example_fixtures) ''sdk/workflows/fixtures/s/a.json'' = Some (JObj example_fixture)"
    by (simp add: example_fixtures_def)
  moreover have "fld example_fixture ''workflow'' = JStr ''scan_accept''"
    by (simp add: example_fixture_def dict_get_def)
  moreover have "fld example_fixture ''expect'' = JObj [(''status'', JStr ''Rejected''), (''diag'', JArr []),
        (''cose_b64'', JStr ''absent''), (''store_mutation'', JStr ''none''), (''accepted_record_count'', JInt 0)]"
    by (simp add: example_fixture_def dict_get_def)
  ultimately show ?thesis
    using rejected_scan_persists_nothing [OF example_fixture_ok] by (auto simp: dict_get_def)
qed

end
