(* ===== verification/FoodWallet.thy ===== *)
theory FoodWallet
  imports Checks
begin

text \<open>
  \<open>tools/ci/check_food_wallet_contract.py\<close>: the app-facing Food Wallet contract, its README and its
  reference fixtures. A fixture may not carry raw material under any key, and its drafts keep
  their trust status and source class.
\<close>

subsection \<open>Constants\<close>

definition CONTRACT_SCHEMA :: string where "CONTRACT_SCHEMA = ''grain.food-wallet.v1''"
definition FIXTURE_SCHEMA :: string where "FIXTURE_SCHEMA = ''grain.food-wallet.fixture.v1''"
definition SAFE_SUMMARY_SCHEMA :: string where "SAFE_SUMMARY_SCHEMA = ''grain.food-wallet.safe-summary.v1''"

definition CONCEPT_NAMES :: "string list" where
  "CONCEPT_NAMES = [''FoodIntakeEntry'', ''MealEstimateCandidate'', ''VerifiedServingOffer'',
     ''FoodIntakeDraft'', ''TrustStatus'', ''FoodSourceClass'', ''NutritionInsight'', ''SafeFoodSummary'']"

definition TRUST_STATUS_VALUES :: "string list" where
  "TRUST_STATUS_VALUES = [''verified'', ''self_issued'', ''estimated'', ''untrusted'']"

definition SOURCE_CLASS_VALUES :: "string list" where
  "SOURCE_CLASS_VALUES = [''attested'', ''measured'', ''estimated'']"

definition FORBIDDEN_RAW_MATERIAL :: "string list" where
  "FORBIDDEN_RAW_MATERIAL = [''raw_photo'', ''raw_image'', ''raw_trust_bundle'', ''raw_snapshot'',
     ''private_key'', ''raw_qr_payload'']"

definition ALLOWED_SUMMARY_FIELDS :: "string list" where
  "ALLOWED_SUMMARY_FIELDS = [''schema'', ''summary_id'', ''entries'', ''totals'', ''insights'', ''generated_at'']"

definition EXPECTED_FIXTURES :: "(string \<times> string) list" where
  "EXPECTED_FIXTURES =
     [(''food-wallet-fake-photo-estimate.v1.json'', ''fake_photo_estimate''),
      (''food-wallet-verified-qr-draft.v1.json'', ''verified_qr_draft''),
      (''food-wallet-self-issued-draft.v1.json'', ''self_issued_draft''),
      (''food-wallet-safe-summary.v1.json'', ''safe_summary_export'')]"

text \<open>\<open>[_-]?\<close>, a sequence of words with that between them, and \<open>\s+\<close>; case does not matter.\<close>

definition opt_sep :: "char regex" where
  "opt_sep = ROpt (RCls (\<lambda>c. c \<in> set ''_-''))"

definition words_re :: "string list \<Rightarrow> char regex" where
  "words_re ws = (case ws of [] \<Rightarrow> REps
     | w # rest \<Rightarrow> RSeq (RLitI w) (RSeqs (map (\<lambda>x. RSeq opt_sep (RLitI x)) rest)))"

definition spaces :: "char regex" where "spaces = RPlus (RCls chr_is_space)"
definition opt_spaces :: "char regex" where "opt_spaces = RStar (RCls chr_is_space)"

definition FORBIDDEN_FIELD_RE :: "char regex" where
  "FORBIDDEN_FIELD_RE = RAlts
     ([RSeqs [RLitI ''raw'', opt_sep, RAlts (map RLitI [''photo'', ''image'', ''qr'', ''snapshot'', ''trust''])],
       RSeqs [RAlts (map RLitI [''photo'', ''image'']), opt_sep, RAlts (map RLitI [''b64'', ''bytes'', ''data''])]] @
      map words_re [[''trust'', ''bundle''], [''trust'', ''pub''], [''snapshot''], [''sync'', ''bundle''],
        [''identity'', ''bundle''], [''qr'', ''payload''], [''qr'', ''string''], [''private'', ''key''],
        [''secret'', ''key''], [''seed''], [''mnemonic''], [''cose'', ''b64'']])"

definition FORBIDDEN_CONTENT_RE :: "char regex" where
  "FORBIDDEN_CONTENT_RE = RAlts
     [RSeqs [RLitI ''-----BEGIN '', RStar (RCls (\<lambda>c. chr_is_ascii_alpha c \<or> c = CHR '' '')),
             RLitI ''PRIVATE KEY-----''],
      RSeqs [RLitI ''raw'', spaces, RLitI ''qr'', spaces, RLitI ''payload'', opt_spaces, RLitI '':''],
      RSeqs [RWordB, RLitI ''GR1'',
             RRep 8 (RCls (\<lambda>c. chr_is_ascii_alpha c \<or> chr_is_ascii_digit c \<or> c \<in> set ''_-'')),
             RStar (RCls (\<lambda>c. chr_is_ascii_alpha c \<or> chr_is_ascii_digit c \<or> c \<in> set ''_-''))],
      RSeqs [words_re [''trust'', ''pub'', ''b64''], opt_spaces, RLitI '':''],
      RSeqs [words_re [''identity'', ''bundle''], opt_spaces, RLitI '':''],
      RSeqs [words_re [''sync'', ''bundle''], opt_spaces, RLitI '':''],
      RSeqs [words_re [''snapshot'', ''b64''], opt_spaces, RLitI '':''],
      RSeqs [RLitI ''raw'', spaces, RLitI ''trust'', spaces, RLitI ''bundle'', opt_spaces, RLitI '':'']]"

subsection \<open>Loading and numbers\<close>

definition wallet_load :: "env \<Rightarrow> string \<Rightarrow> dict res" where
  "wallet_load w p =
     thenE (need (is_file w p) ''FOOD_WALLET_CONTRACT_ERR_FILE_MISSING'' p)
    (bindE (read_json w p) (\<lambda>v.
       case v of JObj d \<Rightarrow> Inr d | _ \<Rightarrow> err ''FOOD_WALLET_CONTRACT_ERR_JSON_OBJECT'' p))"

definition require_int :: "json \<Rightarrow> string \<Rightarrow> string \<Rightarrow> int option \<Rightarrow> int res" where
  "require_int v code detail least =
     (case v of
        JInt i \<Rightarrow>
          if \<not> int64 i then err code (detail @ '' must fit int64'')
          else (case least of
              None \<Rightarrow> Inr i
            | Some n \<Rightarrow> if i < n then err code (detail @ '' must be >= '' @ int_str n) else Inr i)
      | _ \<Rightarrow> err code (detail @ '' must be an integer''))"

definition require_kcal_map :: "json \<Rightarrow> string \<Rightarrow> string \<Rightarrow> bool \<Rightarrow> unit res" where
  "require_kcal_map v code detail non_negative =
     bindE (as_dict v code detail) (\<lambda>m.
     thenE (need (has_key m ''kcal'') code (detail @ ''.kcal is required''))
    (bindE (require_int (fld m ''kcal'') code (detail @ ''.kcal'') (if non_negative then Some 0 else None))
      (\<lambda>_. Inr ())))"

subsection \<open>Raw material\<close>

fun walk_items :: "json \<Rightarrow> string \<Rightarrow> (string \<times> string \<times> json) list" where
  "walk_items (JObj d) path =
     concat (map (\<lambda>(k, x). (path_key path k, k, x) # walk_items x (path_key path k)) d)"
| "walk_items (JArr xs) path = concat (map (\<lambda>(i, x). walk_items x (path_idx path i)) (enum xs))"
| "walk_items _ path = []"

definition forbidden_field :: "string \<Rightarrow> bool" where
  "forbidden_field k = re_search FORBIDDEN_FIELD_RE k"

definition forbidden_content :: "json \<Rightarrow> bool" where
  "forbidden_content v = (case v of JStr s \<Rightarrow> re_search FORBIDDEN_CONTENT_RE s | _ \<Rightarrow> False)"

definition reject_forbidden_raw_material :: "dict \<Rightarrow> string \<Rightarrow> unit res" where
  "reject_forbidden_raw_material fixture p =
     forE (\<lambda>(item_path, k, v).
         if forbidden_field k
         then err ''FOOD_WALLET_CONTRACT_ERR_FORBIDDEN_RAW_FIELD'' (p @ '':'' @ item_path)
         else if forbidden_content v
         then err ''FOOD_WALLET_CONTRACT_ERR_FORBIDDEN_RAW_CONTENT'' (p @ '':'' @ item_path)
         else Inr ())
       (walk_items (JObj fixture) ''$'')"

subsection \<open>The contract and its README\<close>

definition jstrs :: "string list \<Rightarrow> json" where
  "jstrs ss = JArr (map JStr ss)"

definition validate_schema :: "dict \<Rightarrow> unit res" where
  "validate_schema schema =
     bindE (as_dict (fld schema ''properties'') ''FOOD_WALLET_CONTRACT_ERR_PROPERTIES'' ''properties'') (\<lambda>properties.
     bindE (as_dict (fld properties ''schema'') ''FOOD_WALLET_CONTRACT_ERR_SCHEMA'' ''properties.schema'') (\<lambda>schema_field.
     thenE (require_equal (fld schema_field ''const'') (JStr CONTRACT_SCHEMA) ''FOOD_WALLET_CONTRACT_ERR_SCHEMA'' ''schema.const'')
    (bindE (as_dict (fld properties ''version'') ''FOOD_WALLET_CONTRACT_ERR_VERSION'' ''properties.version'') (\<lambda>version.
     thenE (require_equal (fld version ''const'') (JInt 1) ''FOOD_WALLET_CONTRACT_ERR_VERSION'' ''version.const'')
    (bindE (as_dict (fld schema ''$defs'') ''FOOD_WALLET_CONTRACT_ERR_DEFS'' ''$defs'') (\<lambda>defs.
     bindE (as_dict (fld properties ''concepts'') ''FOOD_WALLET_CONTRACT_ERR_CONCEPTS'' ''properties.concepts'') (\<lambda>concepts.
     bindE (as_list (fld concepts ''required'') ''FOOD_WALLET_CONTRACT_ERR_CONCEPTS'' ''concepts.required'') (\<lambda>concept_required.
     bindE (as_dict (fld concepts ''properties'') ''FOOD_WALLET_CONTRACT_ERR_CONCEPTS'' ''concepts.properties'') (\<lambda>concept_properties.
     thenE (forE (\<lambda>concept.
         need (has_key defs concept \<and> str_in_arr concept concept_required \<and> has_key concept_properties concept)
           ''FOOD_WALLET_CONTRACT_ERR_CONCEPT_MISSING'' concept) CONCEPT_NAMES)
    (bindE (as_dict (fld defs ''TrustStatus'') ''FOOD_WALLET_CONTRACT_ERR_TRUST_STATUS'' ''TrustStatus'') (\<lambda>trust_status.
     bindE (as_dict (fld defs ''FoodSourceClass'') ''FOOD_WALLET_CONTRACT_ERR_SOURCE_CLASS'' ''FoodSourceClass'') (\<lambda>source_class.
     thenE (require_equal (fld trust_status ''enum'') (jstrs TRUST_STATUS_VALUES)
       ''FOOD_WALLET_CONTRACT_ERR_TRUST_STATUS'' ''TrustStatus.enum'')
    (thenE (require_equal (fld source_class ''enum'') (jstrs SOURCE_CLASS_VALUES)
       ''FOOD_WALLET_CONTRACT_ERR_SOURCE_CLASS'' ''FoodSourceClass.enum'')
    (bindE (as_dict (fld properties ''safe_summary_policy'') ''FOOD_WALLET_CONTRACT_ERR_SAFE_POLICY'' ''safe_summary_policy'') (\<lambda>policy.
     bindE (as_dict (fld policy ''properties'') ''FOOD_WALLET_CONTRACT_ERR_SAFE_POLICY'' ''safe_summary_policy.properties'') (\<lambda>policy_props.
     bindE (as_dict (fld policy_props ''forbidden_raw_material'') ''FOOD_WALLET_CONTRACT_ERR_SAFE_POLICY'' ''forbidden_raw_material'') (\<lambda>frm.
     bindE (as_dict (fld frm ''items'') ''FOOD_WALLET_CONTRACT_ERR_SAFE_POLICY'' ''forbidden_raw_material.items'') (\<lambda>forbidden_items.
     bindE (as_dict (fld policy_props ''allowed_summary_fields'') ''FOOD_WALLET_CONTRACT_ERR_SAFE_POLICY'' ''allowed_summary_fields'') (\<lambda>asf.
     bindE (as_dict (fld asf ''items'') ''FOOD_WALLET_CONTRACT_ERR_SAFE_POLICY'' ''allowed_summary_fields.items'') (\<lambda>allowed_items.
     thenE (require_equal (fld forbidden_items ''enum'') (jstrs FORBIDDEN_RAW_MATERIAL)
       ''FOOD_WALLET_CONTRACT_ERR_SAFE_POLICY'' ''forbidden_raw_material'')
      (require_equal (fld allowed_items ''enum'') (jstrs ALLOWED_SUMMARY_FIELDS)
       ''FOOD_WALLET_CONTRACT_ERR_SAFE_POLICY'' ''allowed_summary_fields'')))))))))))))))))))))"

definition validate_readme :: "env \<Rightarrow> string \<Rightarrow> unit res" where
  "validate_readme w p =
     thenE (need (is_file w p) ''FOOD_WALLET_CONTRACT_ERR_README_MISSING'' p)
    (bindE (read_text w p) (\<lambda>t.
     thenE (forE (\<lambda>concept. need (contains t concept) ''FOOD_WALLET_CONTRACT_ERR_README_CONCEPT_MISSING'' concept)
              CONCEPT_NAMES)
    (thenE (forE (\<lambda>v. need (contains t v) ''FOOD_WALLET_CONTRACT_ERR_README_VALUE_MISSING'' v)
              (TRUST_STATUS_VALUES @ SOURCE_CLASS_VALUES))
    (forE (\<lambda>phrase. need (contains (str_lower t) (str_lower phrase))
                      ''FOOD_WALLET_CONTRACT_ERR_README_PRIVACY_MISSING'' phrase)
       [''raw photos'', ''raw trust bundles'', ''raw snapshots'', ''private keys'', ''raw QR payload'']))))"

subsection \<open>Entries, drafts, candidates, offers and summaries\<close>

definition validate_entry :: "json \<Rightarrow> string \<Rightarrow> string \<Rightarrow> (string \<times> string) res" where
  "validate_entry v code detail =
     bindE (as_dict v code detail) (\<lambda>entry.
     bindE (require_str (fld entry ''entry_id'') code (detail @ ''.entry_id'')) (\<lambda>_.
     bindE (require_enum (fld entry ''source_class'') SOURCE_CLASS_VALUES code (detail @ ''.source_class'')) (\<lambda>source_class.
     bindE (require_enum (fld entry ''trust_status'') TRUST_STATUS_VALUES code (detail @ ''.trust_status'')) (\<lambda>trust_status.
     thenE (require_kcal_map (fld entry ''mean'') code (detail @ ''.mean'') False)
    (thenE (require_kcal_map (fld entry ''var'') code (detail @ ''.var'') True)
    (thenE (forE (\<lambda>q. bindE (require_int (fld entry q) code (detail @ ''.'' @ q) (Some 0)) (\<lambda>_. Inr ()))
              [''amount_g'', ''serving_g'', ''servings''])
      (Inr (source_class, trust_status))))))))"

definition validate_draft :: "json \<Rightarrow> string \<Rightarrow> string \<Rightarrow> string \<Rightarrow> unit res" where
  "validate_draft v code detail expected_trust =
     bindE (as_dict v code detail) (\<lambda>draft.
     bindE (require_str (fld draft ''draft_id'') code (detail @ ''.draft_id'')) (\<lambda>_.
     bindE (require_enum (fld draft ''source_class'') SOURCE_CLASS_VALUES code (detail @ ''.source_class'')) (\<lambda>source_class.
     bindE (require_enum (fld draft ''trust_status'') TRUST_STATUS_VALUES code (detail @ ''.trust_status'')) (\<lambda>trust_status.
     thenE (require_equal (JStr trust_status) (JStr expected_trust) code (detail @ ''.trust_status''))
    (bindE (validate_entry (fld draft ''entry'') code (detail @ ''.entry'')) (\<lambda>(entry_source, entry_trust).
     thenE (require_equal (JStr entry_source) (JStr source_class) code (detail @ ''.entry.source_class''))
       (require_equal (JStr entry_trust) (JStr trust_status) code (detail @ ''.entry.trust_status''))))))))"

definition validate_candidate :: "json \<Rightarrow> string \<Rightarrow> unit res" where
  "validate_candidate v detail =
     (let code = ''FOOD_WALLET_CONTRACT_ERR_FAKE_PHOTO_ESTIMATE'' in
      bindE (as_dict v code detail) (\<lambda>candidate.
      bindE (require_str (fld candidate ''candidate_id'') code (detail @ ''.candidate_id'')) (\<lambda>_.
      bindE (require_str (fld candidate ''label'') code (detail @ ''.label'')) (\<lambda>_.
      thenE (require_equal (fld candidate ''source_class'') (JStr ''estimated'') code (detail @ ''.source_class''))
     (thenE (require_equal (fld candidate ''trust_status'') (JStr ''estimated'') code (detail @ ''.trust_status''))
     (thenE (require_kcal_map (fld candidate ''mean'') code (detail @ ''.mean'') False)
       (require_kcal_map (fld candidate ''var'') code (detail @ ''.var'') True)))))))"

definition validate_offer :: "json \<Rightarrow> string \<Rightarrow> unit res" where
  "validate_offer v detail =
     (let code = ''FOOD_WALLET_CONTRACT_ERR_VERIFIED_QR_DRAFT'' in
      bindE (as_dict v code detail) (\<lambda>offer.
      bindE (require_str (fld offer ''offer_id'') code (detail @ ''.offer_id'')) (\<lambda>_.
      bindE (require_str (fld offer ''issuer'') code (detail @ ''.issuer'')) (\<lambda>_.
      thenE (require_equal (fld offer ''source_class'') (JStr ''attested'') code (detail @ ''.source_class''))
     (thenE (require_equal (fld offer ''trust_status'') (JStr ''verified'') code (detail @ ''.trust_status''))
     (bindE (require_int (fld offer ''serving_g'') code (detail @ ''.serving_g'') (Some 0)) (\<lambda>_.
      thenE (require_kcal_map (fld offer ''mean'') code (detail @ ''.mean'') False)
       (require_kcal_map (fld offer ''var'') code (detail @ ''.var'') True))))))))"

definition validate_insight :: "string \<Rightarrow> nat \<times> json \<Rightarrow> unit res" where
  "validate_insight detail = (\<lambda>(i, v).
     let code = ''FOOD_WALLET_CONTRACT_ERR_SAFE_SUMMARY''; at_i = path_idx (detail @ ''.insights'') i in
     bindE (as_dict v code at_i) (\<lambda>insight.
     bindE (require_enum (fld insight ''kind'') [''energy'', ''serving'', ''confidence''] code (at_i @ ''.kind'')) (\<lambda>_.
     bindE (require_str (fld insight ''message'') code (at_i @ ''.message'')) (\<lambda>_. Inr ()))))"

definition validate_safe_summary :: "json \<Rightarrow> string \<Rightarrow> unit res" where
  "validate_safe_summary v detail =
     (let code = ''FOOD_WALLET_CONTRACT_ERR_SAFE_SUMMARY'' in
      bindE (as_dict v code detail) (\<lambda>summary.
      thenE (require_equal (fld summary ''schema'') (JStr SAFE_SUMMARY_SCHEMA) code (detail @ ''.schema''))
     (thenE (require_equal (jstrs (dict_keys summary)) (jstrs ALLOWED_SUMMARY_FIELDS)
               ''FOOD_WALLET_CONTRACT_ERR_SAFE_SUMMARY_FIELDS'' detail)
     (bindE (require_str (fld summary ''summary_id'') code (detail @ ''.summary_id'')) (\<lambda>_.
      bindE (as_list (fld summary ''entries'') code (detail @ ''.entries'')) (\<lambda>entries.
      thenE (need (entries \<noteq> []) code (detail @ ''.entries must not be empty''))
     (thenE (forE (\<lambda>(i, e). bindE (validate_entry e code (path_idx (detail @ ''.entries'') i)) (\<lambda>_. Inr ()))
              (enum entries))
     (bindE (as_dict (fld summary ''totals'') code (detail @ ''.totals'')) (\<lambda>totals.
      thenE (require_kcal_map (fld totals ''mean'') code (detail @ ''.totals.mean'') False)
     (thenE (require_kcal_map (fld totals ''var'') code (detail @ ''.totals.var'') True)
     (bindE (as_list (fld summary ''insights'') code (detail @ ''.insights'')) (\<lambda>insights.
      thenE (forE (validate_insight detail) (enum insights))
     (bindE (require_str (fld summary ''generated_at'') code (detail @ ''.generated_at'')) (\<lambda>_. Inr ()))))))))))))))"

subsection \<open>Fixtures and the whole contract\<close>

definition wallet_fixture :: "env \<Rightarrow> string \<Rightarrow> string \<Rightarrow> unit res" where
  "wallet_fixture w p expected_kind =
     bindE (wallet_load w p) (\<lambda>fixture.
     thenE (reject_forbidden_raw_material fixture p)
    (thenE (require_equal (fld fixture ''schema'') (JStr FIXTURE_SCHEMA) ''FOOD_WALLET_CONTRACT_ERR_FIXTURE_SCHEMA'' (path_name p))
    (thenE (require_equal (fld fixture ''kind'') (JStr expected_kind) ''FOOD_WALLET_CONTRACT_ERR_FIXTURE_KIND'' (path_name p))
    (thenE (require_equal (fld fixture ''fixture_id'') (JStr (remove_suffix (path_name p) ''.json''))
              ''FOOD_WALLET_CONTRACT_ERR_FIXTURE_ID'' (path_name p))
    (if expected_kind = ''fake_photo_estimate'' then
       validate_candidate (fld fixture ''candidate'') (path_name p @ ''.candidate'')
     else if expected_kind = ''verified_qr_draft'' then
       thenE (validate_offer (fld fixture ''offer'') (path_name p @ ''.offer''))
         (validate_draft (fld fixture ''draft'') ''FOOD_WALLET_CONTRACT_ERR_VERIFIED_QR_DRAFT''
            (path_name p @ ''.draft'') ''verified'')
     else if expected_kind = ''self_issued_draft'' then
       validate_draft (fld fixture ''draft'') ''FOOD_WALLET_CONTRACT_ERR_SELF_ISSUED_DRAFT''
         (path_name p @ ''.draft'') ''self_issued''
     else if expected_kind = ''safe_summary_export'' then
       validate_safe_summary (fld fixture ''summary'') (path_name p @ ''.summary'')
     else Inr ())))))"

text \<open>The last path of a name wins in the dict comprehension, as in \<open>map_of\<close> of the reversed list.\<close>

definition wallet_fixtures :: "env \<Rightarrow> string \<Rightarrow> unit res" where
  "wallet_fixtures w dir =
     thenE (need (is_dir w dir) ''FOOD_WALLET_CONTRACT_ERR_FIXTURE_DIR_MISSING'' dir)
    (let paths = dir_glob w dir ''food-wallet-*.json'';
         seen = map_of (rev (map (\<lambda>p. (path_name p, p)) paths)) in
     thenE (require_equal (jstrs (py_sorted (remdups (map path_name paths))))
              (jstrs (py_sorted (map fst EXPECTED_FIXTURES)))
              ''FOOD_WALLET_CONTRACT_ERR_FIXTURE_SET'' ''food-wallet fixtures'')
       (forE (\<lambda>(filename, kind).
          case seen filename of None \<Rightarrow> Inl (KeyError filename) | Some p \<Rightarrow> wallet_fixture w p kind)
        EXPECTED_FIXTURES))"

definition check_food_wallet_contract ::
  "env \<Rightarrow> string \<Rightarrow> string option \<Rightarrow> string option \<Rightarrow> string option \<Rightarrow> (string \<times> nat \<times> nat) res" where
  "check_food_wallet_contract w root_dir contract readme fixture_dir =
     (let or_default = (\<lambda>opt d. case opt of None \<Rightarrow> path_join root_dir d | Some p \<Rightarrow> p) in
      bindE (wallet_load w (or_default contract ''sdk/food/contract/food_wallet_v1.schema.json'')) (\<lambda>schema.
      thenE (validate_schema schema)
     (thenE (validate_readme w (or_default readme ''sdk/food/README.md''))
     (thenE (wallet_fixtures w (or_default fixture_dir ''examples/reference-fixtures''))
       (Inr (CONTRACT_SCHEMA, length CONCEPT_NAMES, length EXPECTED_FIXTURES))))))"

definition food_wallet_main ::
  "env \<Rightarrow> string \<Rightarrow> string option \<Rightarrow> string option \<Rightarrow> string option \<Rightarrow> string res" where
  "food_wallet_main w root_dir contract readme fixture_dir =
     bindE (check_food_wallet_contract w root_dir contract readme fixture_dir) (\<lambda>(schema, concepts, fixtures).
       Inr (''Food Wallet contract check: OK ('' @ nat_str concepts @ '' concepts, '' @
            nat_str fixtures @ '' fixtures)''))"

subsection \<open>Properties\<close>

lemma walk_items_fields: "(k, x) \<in> snd ` set (walk_items v path) \<longleftrightarrow> field_of v k x"
proof (induction v arbitrary: path rule: json_induct)
  case (JObj d)
  have IH: "(k, x) \<in> snd ` set (walk_items (snd q) (path_key path (fst q))) \<longleftrightarrow> field_of (snd q) k x"
    if "q \<in> set d" for q using JObj [of "fst q" "snd q"] that by simp
  have "(k, x) \<in> snd ` set (walk_items (JObj d) path) \<longleftrightarrow>
      (\<exists>q\<in>set d. (k, x) \<in> snd ` set ((path_key path (fst q), fst q, snd q) #
                      walk_items (snd q) (path_key path (fst q))))"
    by (simp add: split_beta image_UN)
  also have "\<dots> \<longleftrightarrow> (\<exists>q\<in>set d. (k, x) = q \<or> field_of (snd q) k x)"
    by (rule bex_cong [OF refl]) (simp add: IH)
  also have "\<dots> \<longleftrightarrow> field_of (JObj d) k x"
    by (simp add: field_of_simps bex_disj_distrib Bex_def split_paired_Ex)
  finally show ?case .
next
  case (JArr xs)
  have IH: "(k, x) \<in> snd ` set (walk_items (snd q) (path_idx path (fst q))) \<longleftrightarrow> field_of (snd q) k x"
    if "q \<in> set (enum xs)" for q
  proof (rule JArr)
    show "snd q \<in> set xs" using that by (auto simp: set_enum)
  qed
  have "(k, x) \<in> snd ` set (walk_items (JArr xs) path) \<longleftrightarrow>
      (\<exists>q\<in>set (enum xs). (k, x) \<in> snd ` set (walk_items (snd q) (path_idx path (fst q))))"
    by (simp add: split_beta image_UN)
  also have "\<dots> \<longleftrightarrow> (\<exists>q\<in>set (enum xs). field_of (snd q) k x)"
    by (rule bex_cong [OF refl]) (simp add: IH)
  also have "\<dots> \<longleftrightarrow> field_of (JArr xs) k x"
    unfolding field_of_simps by (simp flip: snd_set_enum [of xs])
  finally show ?case .
qed (simp_all add: field_of_simps)

interpretation wallet: field_scan "\<lambda>v. walk_items v path" for path
  by unfold_locales (rule walk_items_fields)

text \<open>The raw-material guard accepts a fixture exactly when no field at any depth has a forbidden key
or a forbidden text.\<close>

theorem raw_material_guard_iff:
  "reject_forbidden_raw_material fixture p = Inr () \<longleftrightarrow>
     \<not> (\<exists>k x. field_of (JObj fixture) k x \<and> (forbidden_field k \<or> forbidden_content x))"
proof -
  have "reject_forbidden_raw_material fixture p = Inr () \<longleftrightarrow>
      (\<forall>k x. field_of (JObj fixture) k x \<longrightarrow> \<not> forbidden_field k \<and> \<not> forbidden_content x)"
    unfolding reject_forbidden_raw_material_def
    by (rule wallet.guard_accepts) simp
  then show ?thesis by blast
qed

text \<open>A forbidden text that is an element of a list escapes the raw-material guard: the text
\<open>sync_bundle:\<close> in a list is accepted.\<close>

theorem list_text_escapes_guard:
  "\<exists>fixture s. reject_forbidden_raw_material fixture ''f.json'' = Inr () \<and>
     sub_value (JStr s) (JObj fixture) \<and> forbidden_content (JStr s)"
proof -
  let ?s = "''sync_bundle:''"
  have short: "\<not> forbidden_field ''n''"
    unfolding forbidden_field_def
    by (rule re_search_short)
       (simp add: FORBIDDEN_FIELD_RE_def words_re_def RSeqs_def RLitI_def opt_sep_def ROpt_def)
  have "reject_forbidden_raw_material [(''n'', JArr [JStr ?s])] ''f.json'' = Inr ()"
    by (simp add: reject_forbidden_raw_material_def enum_def forbidden_content_def short)
  moreover have "forbidden_content (JStr ?s)"
  proof -
    have "re_search (RSeqs [words_re [''sync'', ''bundle''], opt_spaces, RLitI '':'']) ?s" by code_simp
    then show ?thesis by (simp add: forbidden_content_def FORBIDDEN_CONTENT_RE_def re_search_RAlts del: RAlts.simps)
  qed
  moreover have "sub_value (JStr ?s) (JObj [(''n'', JArr [JStr ?s])])"
    by (simp add: sub_value_dict sub_value_list)
  ultimately show ?thesis by blast
qed

lemma require_int_Inr [res_simps]:
  "require_int v code detail least = Inr i \<longleftrightarrow> v = JInt i \<and> int64 i \<and> (\<forall>n. least = Some n \<longrightarrow> n \<le> i)"
  by (cases v; cases least) (auto simp: require_int_def)

lemma require_kcal_map_Inr [res_simps]:
  "require_kcal_map v code detail nn = Inr () \<longleftrightarrow>
     (\<exists>m i. v = JObj m \<and> has_key m ''kcal'' \<and> fld m ''kcal'' = JInt i \<and> int64 i \<and> (nn \<longrightarrow> 0 \<le> i))"
  by (auto simp: require_kcal_map_def res_simps)

lemma validate_entry_Inr:
  "validate_entry v code detail = Inr (sc, ts) \<Longrightarrow>
     \<exists>entry. v = JObj entry \<and> fld entry ''source_class'' = JStr sc \<and> sc \<in> set SOURCE_CLASS_VALUES \<and>
       fld entry ''trust_status'' = JStr ts \<and> ts \<in> set TRUST_STATUS_VALUES \<and>
       (\<forall>q\<in>{''amount_g'', ''serving_g'', ''servings''}. \<exists>i. fld entry q = JInt i \<and> 0 \<le> i \<and> i \<le> 2 ^ 63 - 1)"
  unfolding validate_entry_def bindE_Inr thenE_Inr as_dict_Inr require_enum_Inr forE_Inr require_int_Inr
  by (auto simp: int64_def)

text \<open>An accepted draft has the expected trust status, its entry repeats that status and the draft's
source class, both from the allowed values, and every quantity of the entry is an integer between
0 and the largest 64-bit integer.\<close>

theorem draft_keeps_trust:
  assumes "validate_draft v code detail expected_trust = Inr ()"
  shows "\<exists>draft entry sc. v = JObj draft \<and> fld draft ''entry'' = JObj entry \<and>
    fld draft ''trust_status'' = JStr expected_trust \<and> fld entry ''trust_status'' = JStr expected_trust \<and>
    fld draft ''source_class'' = JStr sc \<and> fld entry ''source_class'' = JStr sc \<and>
    sc \<in> set SOURCE_CLASS_VALUES \<and> expected_trust \<in> set TRUST_STATUS_VALUES \<and>
    (\<forall>q\<in>{''amount_g'', ''serving_g'', ''servings''}. \<exists>i. fld entry q = JInt i \<and> 0 \<le> i \<and> i \<le> 2 ^ 63 - 1)"
proof -
  from assms obtain draft sc where d: "v = JObj draft" "fld draft ''source_class'' = JStr sc"
      "fld draft ''trust_status'' = JStr expected_trust" "expected_trust \<in> set TRUST_STATUS_VALUES"
    and e: "validate_entry (fld draft ''entry'') code (detail @ ''.entry'') = Inr (sc, expected_trust)"
    unfolding validate_draft_def bindE_Inr thenE_Inr as_dict_Inr require_enum_Inr require_equal_Inr
    by (auto simp: res_simps)
  from validate_entry_Inr [OF e] obtain entry where "fld draft ''entry'' = JObj entry"
      "fld entry ''source_class'' = JStr sc" "sc \<in> set SOURCE_CLASS_VALUES"
      "fld entry ''trust_status'' = JStr expected_trust"
      "\<forall>q\<in>{''amount_g'', ''serving_g'', ''servings''}. \<exists>i. fld entry q = JInt i \<and> 0 \<le> i \<and> i \<le> 2 ^ 63 - 1"
    by blast
  with d show ?thesis by blast
qed

definition example_entry :: json where
  "example_entry = JObj [(''entry_id'', JStr ''e''), (''source_class'', JStr ''measured''),
     (''trust_status'', JStr ''self_issued''), (''mean'', JObj [(''kcal'', JInt 5)]),
     (''var'', JObj [(''kcal'', JInt 0)]), (''amount_g'', JInt 1), (''serving_g'', JInt 1), (''servings'', JInt 1)]"

definition example_draft :: json where
  "example_draft = JObj [(''draft_id'', JStr ''d''), (''source_class'', JStr ''measured''),
     (''trust_status'', JStr ''self_issued''), (''entry'', example_entry)]"

theorem draft_keeps_trust_witness:
  "\<exists>draft. example_draft = JObj draft \<and> fld draft ''trust_status'' = JStr ''self_issued''"
proof -
  have "validate_draft example_draft ''E'' ''d'' ''self_issued'' = Inr ()" by code_simp
  from draft_keeps_trust [OF this] show ?thesis by blast
qed

end
