(* ===== verification/FoodProfile.thy ===== *)
theory FoodProfile
  imports Checks
begin

text \<open>
  \<open>tools/ci/check_food_profile.py\<close>: the constraints of Food Profile 1.0, their anchors in the
  profile text and the CDDL, and the local pilot fixture, whose expected reducer output must be
  the sum of its events.
\<close>

subsection \<open>Constants\<close>

definition EXPECTED_SOURCE_CLASSES :: "string list" where
  "EXPECTED_SOURCE_CLASSES = [''attested'', ''measured'', ''estimated'']"

definition EXPECTED_REDUCER_VISIBLE_NUTRIENTS :: json where
  "EXPECTED_REDUCER_VISIBLE_NUTRIENTS = JObj [(''kcal'', JObj [(''unit'', JStr ''kilocalorie''),
     (''scale_exp10'', JInt 0), (''integer_domain'', JStr ''int64'')])]"

definition quantity_spec :: "string \<Rightarrow> json" where
  "quantity_spec u = JObj [(''unit'', JStr u), (''scale_exp10'', JInt 0),
     (''integer_domain'', JStr ''int64''), (''minimum'', JInt 0)]"

definition EXPECTED_QUANTITY_FIELDS :: dict where
  "EXPECTED_QUANTITY_FIELDS = [(''amount_g'', quantity_spec ''gram''), (''yield_g'', quantity_spec ''gram''),
     (''serving_g'', quantity_spec ''gram''), (''servings'', quantity_spec ''serving'')]"

definition EXPECTED_REDUCER_OUTPUTS :: "string list" where
  "EXPECTED_REDUCER_OUTPUTS = [''sum_mean'', ''sum_var'']"

definition EXPECTED_LOCAL_PILOT_FIXTURE_ID :: string where
  "EXPECTED_LOCAL_PILOT_FIXTURE_ID = ''food-local-pilot.valid.v1''"
definition EXPECTED_LOCAL_PILOT_CATALOG_ID :: string where
  "EXPECTED_LOCAL_PILOT_CATALOG_ID = ''profile.food-local-pilot.valid''"
definition EXPECTED_LOCAL_PILOT_FIXTURE_PATH :: string where
  "EXPECTED_LOCAL_PILOT_FIXTURE_PATH = ''examples/reference-fixtures/food-local-pilot.valid.v1.json''"

subsection \<open>Accessors\<close>

definition profile_load :: "env \<Rightarrow> string \<Rightarrow> dict res" where
  "profile_load w p =
     (case file_text w p of
        None \<Rightarrow> err ''FOOD_PROFILE_ERR_MISSING'' p
      | Some t \<Rightarrow> bindE (loads w t) (\<lambda>v.
          case v of JObj d \<Rightarrow> Inr d | _ \<Rightarrow> err ''FOOD_PROFILE_ERR_SCHEMA'' ''profile JSON must be an object''))"

definition require_contains :: "string \<Rightarrow> string \<Rightarrow> string \<Rightarrow> string \<Rightarrow> unit res" where
  "require_contains t needle code p = need (contains t needle) code (p @ '' missing '' @ str_repr needle)"

definition require_json_int :: "json \<Rightarrow> string \<Rightarrow> string \<Rightarrow> int res" where
  "require_json_int v code detail =
     (case v of
        JInt i \<Rightarrow> if \<not> int64 i then err code (detail @ '' must fit int64'') else Inr i
      | _ \<Rightarrow> err code (detail @ '' must be an integer''))"

definition require_non_negative_int64 :: "json \<Rightarrow> string \<Rightarrow> string \<Rightarrow> int res" where
  "require_non_negative_int64 v code detail =
     bindE (require_json_int v code detail) (\<lambda>i.
       if i < 0 then err code (detail @ '' must be non-negative'') else Inr i)"

definition profile_kcal_map :: "json \<Rightarrow> string \<Rightarrow> string \<Rightarrow> bool \<Rightarrow> int res" where
  "profile_kcal_map v code detail non_negative =
     bindE (as_dict v code detail) (\<lambda>m.
       if \<not> has_key m ''kcal'' then err code (detail @ ''.kcal is required'')
       else if non_negative then require_non_negative_int64 (fld m ''kcal'') code (detail @ ''.kcal'')
       else require_json_int (fld m ''kcal'') code (detail @ ''.kcal''))"

lemma require_json_int_Inr [res_simps]:
  "require_json_int v code detail = Inr i \<longleftrightarrow> v = JInt i \<and> int64 i"
  by (cases v) (auto simp: require_json_int_def)

lemma require_non_negative_int64_Inr [res_simps]:
  "require_non_negative_int64 v code detail = Inr i \<longleftrightarrow> v = JInt i \<and> int64 i \<and> 0 \<le> i"
proof -
  have "(if x < 0 then err code (detail @ '' must be non-negative'') else Inr x) = Inr i \<longleftrightarrow> x = i \<and> 0 \<le> i" for x
    by auto
  then show ?thesis
    unfolding require_non_negative_int64_def bindE_Inr require_json_int_Inr by auto
qed

lemma profile_kcal_map_Inr [res_simps]:
  "profile_kcal_map v code detail nn = Inr i \<longleftrightarrow>
     (\<exists>m. v = JObj m \<and> has_key m ''kcal'' \<and> fld m ''kcal'' = JInt i \<and> int64 i \<and> (nn \<longrightarrow> 0 \<le> i))"
  by (auto simp: profile_kcal_map_def res_simps)

subsection \<open>The local pilot fixture\<close>

definition validate_food_event :: "nat \<times> json \<Rightarrow> (int \<times> int) res" where
  "validate_food_event = (\<lambda>(index, event).
     let here = path_idx ''pilot.events'' index in
     bindE (as_dict event ''FOOD_PROFILE_ERR_LOCAL_PILOT_EVENT'' here) (\<lambda>item.
     thenE (require_equal (fld item ''t'') (JStr ''IntakeEvent'') ''FOOD_PROFILE_ERR_LOCAL_PILOT_EVENT'' (here @ ''.t''))
    (thenE (need (case fld item ''payload_cid'' of JStr s \<Rightarrow> starts_with s ''meal-scan:'' | _ \<Rightarrow> False)
              ''FOOD_PROFILE_ERR_LOCAL_PILOT_EVENT'' (here @ ''.payload_cid must use meal-scan: identity''))
    (bindE (as_dict (fld item ''body'') ''FOOD_PROFILE_ERR_LOCAL_PILOT_EVENT'' (here @ ''.body'')) (\<lambda>body.
     thenE (need (in_str_list (fld body ''source_class'') EXPECTED_SOURCE_CLASSES)
              ''FOOD_PROFILE_ERR_LOCAL_PILOT_SOURCE_CLASS'' (here @ ''.body.source_class''))
    (bindE (profile_kcal_map (fld body ''mean'') ''FOOD_PROFILE_ERR_LOCAL_PILOT_NUTRIENTS'' (here @ ''.body.mean'') False) (\<lambda>mean_kcal.
     bindE (profile_kcal_map (fld body ''var'') ''FOOD_PROFILE_ERR_LOCAL_PILOT_NUTRIENTS'' (here @ ''.body.var'') True) (\<lambda>var_kcal.
     thenE (forE (\<lambda>f.
         if \<not> has_key body f
         then err ''FOOD_PROFILE_ERR_LOCAL_PILOT_QUANTITY'' (here @ ''.body.'' @ f @ '' is required'')
         else bindE (require_non_negative_int64 (fld body f) ''FOOD_PROFILE_ERR_LOCAL_PILOT_QUANTITY''
                       (here @ ''.body.'' @ f)) (\<lambda>_. Inr ()))
       [''amount_g'', ''serving_g'', ''servings''])
    (thenE (if has_key body ''yield_g''
            then bindE (require_non_negative_int64 (fld body ''yield_g'') ''FOOD_PROFILE_ERR_LOCAL_PILOT_QUANTITY''
                          (here @ ''.body.yield_g'')) (\<lambda>_. Inr ())
            else Inr ())
      (Inr (mean_kcal, var_kcal)))))))))))"

definition validate_scanner_offer :: "json \<Rightarrow> unit res" where
  "validate_scanner_offer v =
     (let code = ''FOOD_PROFILE_ERR_LOCAL_PILOT_OFFER'' in
      bindE (as_dict v code ''pilot.scanner_offer'') (\<lambda>offer.
      thenE (require_equal (fld offer ''t'') (JStr ''ServingOffer'') code ''pilot.scanner_offer.t'')
     (bindE (require_non_negative_int64 (fld offer ''serving_g'') code ''pilot.scanner_offer.serving_g'') (\<lambda>_.
      bindE (profile_kcal_map (fld offer ''mean'') code ''pilot.scanner_offer.mean'' False) (\<lambda>_.
      bindE (profile_kcal_map (fld offer ''var'') code ''pilot.scanner_offer.var'' True) (\<lambda>_. Inr ()))))))"

definition kcal_obj :: "int \<Rightarrow> json" where
  "kcal_obj n = JObj [(''kcal'', JInt n)]"

definition sum_events :: "json list \<Rightarrow> (int \<times> int) res" where
  "sum_events events =
     foldE (\<lambda>(sum_mean, sum_var) e.
       bindE (validate_food_event e) (\<lambda>(mean_kcal, var_kcal). Inr (sum_mean + mean_kcal, sum_var + var_kcal)))
     (0, 0) (enum events)"

definition pilot_checks :: "dict \<Rightarrow> unit res" where
  "pilot_checks pilot =
     thenE (require_equal (fld pilot ''scope'') (JStr ''local-source-validation-only'')
              ''FOOD_PROFILE_ERR_LOCAL_PILOT_SCOPE'' ''pilot.scope'')
    (thenE (forE (\<lambda>f. require_equal (fld pilot f) (JBool False) ''FOOD_PROFILE_ERR_LOCAL_PILOT_BOUNDARY'' (''pilot.'' @ f))
              [''requires_external_apps'', ''requires_external_devices'', ''requires_external_credentials''])
    (bindE (as_list (fld pilot ''events'') ''FOOD_PROFILE_ERR_LOCAL_PILOT_EVENT'' ''pilot.events'') (\<lambda>events.
     thenE (need (events \<noteq> []) ''FOOD_PROFILE_ERR_LOCAL_PILOT_EVENT'' ''pilot.events must not be empty'')
    (bindE (sum_events events) (\<lambda>(sum_mean, sum_var).
     thenE (validate_scanner_offer (fld pilot ''scanner_offer''))
    (bindE (as_dict (fld pilot ''expected_reducer'') ''FOOD_PROFILE_ERR_LOCAL_PILOT_EXPECTED'' ''pilot.expected_reducer'') (\<lambda>expected.
     require_equal (JObj expected) (JObj [(''sum_mean'', kcal_obj sum_mean), (''sum_var'', kcal_obj sum_var)])
       ''FOOD_PROFILE_ERR_LOCAL_PILOT_EXPECTED'' ''pilot.expected_reducer'')))))))"

text \<open>The first dict of the catalog with the pilot's id decides.\<close>

fun catalog_entry :: "json list \<Rightarrow> string res" where
  "catalog_entry [] = err ''FOOD_PROFILE_ERR_LOCAL_PILOT_CATALOG'' EXPECTED_LOCAL_PILOT_CATALOG_ID"
| "catalog_entry (JObj entry # rest) =
     (if fld entry ''fixture_id'' = JStr EXPECTED_LOCAL_PILOT_CATALOG_ID then
        thenE (require_equal (fld entry ''path'') (JStr EXPECTED_LOCAL_PILOT_FIXTURE_PATH)
                 ''FOOD_PROFILE_ERR_LOCAL_PILOT_CATALOG'' EXPECTED_LOCAL_PILOT_CATALOG_ID)
       (thenE (require_equal (fld entry ''profile_id'') (JStr ''food-v0.1'')
                 ''FOOD_PROFILE_ERR_LOCAL_PILOT_CATALOG'' EXPECTED_LOCAL_PILOT_CATALOG_ID)
         (Inr EXPECTED_LOCAL_PILOT_FIXTURE_PATH))
      else catalog_entry rest)"
| "catalog_entry (_ # rest) = catalog_entry rest"

definition validate_local_pilot_fixture :: "env \<Rightarrow> string \<Rightarrow> string res" where
  "validate_local_pilot_fixture w root_dir =
     bindE (profile_load w (path_join root_dir EXPECTED_LOCAL_PILOT_FIXTURE_PATH)) (\<lambda>fixture.
     thenE (require_equal (fld fixture ''fixture_id'') (JStr EXPECTED_LOCAL_PILOT_FIXTURE_ID)
              ''FOOD_PROFILE_ERR_LOCAL_PILOT_ID'' ''fixture_id'')
    (thenE (require_equal (fld fixture ''profile_id'') (JStr ''food-v0.1'') ''FOOD_PROFILE_ERR_LOCAL_PILOT_PROFILE'' ''profile_id'')
    (bindE (as_dict (fld fixture ''pilot'') ''FOOD_PROFILE_ERR_LOCAL_PILOT'' ''pilot'') (\<lambda>pilot.
     thenE (pilot_checks pilot)
    (bindE (profile_load w (path_join root_dir ''examples/reference-fixtures/catalog.v1.json'')) (\<lambda>catalog.
     bindE (as_list (fld catalog ''fixtures'') ''FOOD_PROFILE_ERR_LOCAL_PILOT_CATALOG'' ''catalog.fixtures'') catalog_entry))))))"

subsection \<open>The profile\<close>

definition profile_constraints :: "dict \<Rightarrow> unit res" where
  "profile_constraints profile =
     thenE (require_equal (fld profile ''schema'') (JStr ''grain.food-profile.constraints.v1'') ''FOOD_PROFILE_ERR_SCHEMA'' ''schema'')
    (thenE (require_equal (fld profile ''profile'') (JStr ''food-v0.1'') ''FOOD_PROFILE_ERR_PROFILE'' ''profile'')
    (thenE (require_equal (fld profile ''protocol_schema_major'') (JInt 1) ''FOOD_PROFILE_ERR_SCHEMA_MAJOR'' ''protocol_schema_major'')
    (case fld profile ''source_class'' of
       JObj source_class \<Rightarrow>
         thenE (require_equal (fld source_class ''allowed'') (JArr (map JStr EXPECTED_SOURCE_CLASSES))
                  ''FOOD_PROFILE_ERR_SOURCE_CLASS'' ''source_class.allowed'')
        (thenE (need (in_str_list (fld source_class ''default'') EXPECTED_SOURCE_CLASSES)
                  ''FOOD_PROFILE_ERR_SOURCE_CLASS'' ''source_class.default must be one of the allowed values'')
        (thenE (require_equal (fld profile ''reducer_visible_nutrients'') EXPECTED_REDUCER_VISIBLE_NUTRIENTS
                  ''FOOD_PROFILE_ERR_NUTRIENTS'' ''reducer_visible_nutrients'')
        (thenE (require_equal (fld profile ''quantity_fields'') (JObj EXPECTED_QUANTITY_FIELDS)
                  ''FOOD_PROFILE_ERR_QUANTITY_SCALE'' ''quantity_fields'')
          (require_equal (fld profile ''reducer_outputs'') (JArr (map JStr EXPECTED_REDUCER_OUTPUTS))
                  ''FOOD_PROFILE_ERR_REDUCER_OUTPUTS'' ''reducer_outputs''))))
     | _ \<Rightarrow> err ''FOOD_PROFILE_ERR_SOURCE_CLASS'' ''source_class must be an object'')))"

definition profile_anchors :: "string \<Rightarrow> string \<Rightarrow> string \<Rightarrow> string \<Rightarrow> unit res" where
  "profile_anchors md_path md cddl_path cddl =
     thenE (forE (\<lambda>v. thenE (require_contains md v ''FOOD_PROFILE_ERR_DOC_ANCHOR'' md_path)
                        (require_contains cddl v ''FOOD_PROFILE_ERR_CDDL_ANCHOR'' cddl_path)) EXPECTED_SOURCE_CLASSES)
    (thenE (forE (\<lambda>v. require_contains md v ''FOOD_PROFILE_ERR_DOC_ANCHOR'' md_path)
              [''kcal'', ''scale_exp10 = 0'', ''amount_g'', ''yield_g'', ''serving_g'', ''servings''])
      (require_contains cddl ''Food Profile 1.0'' ''FOOD_PROFILE_ERR_CDDL_ANCHOR'' cddl_path))"

definition read_or_missing :: "env \<Rightarrow> string \<Rightarrow> string res" where
  "read_or_missing w p =
     (case file_text w p of None \<Rightarrow> err ''FOOD_PROFILE_ERR_MISSING'' p | Some t \<Rightarrow> Inr t)"

record food_profile_check =
  fp_profile :: string
  fp_source_classes :: "string list"
  fp_nutrients :: "string list"
  fp_quantity_fields :: "string list"
  fp_local_pilot :: string

definition check_food_profile :: "env \<Rightarrow> string \<Rightarrow> food_profile_check res" where
  "check_food_profile w root_dir =
     (let md_path = path_join root_dir ''spec/profiles/food-profile.md'';
          cddl_path = path_join root_dir ''spec/schemas/grain-v0.1.cddl'' in
      bindE (profile_load w (path_join root_dir ''spec/profiles/food-profile.v1.json'')) (\<lambda>profile.
      thenE (profile_constraints profile)
     (bindE (read_or_missing w md_path) (\<lambda>md.
      bindE (read_or_missing w cddl_path) (\<lambda>cddl.
      thenE (profile_anchors md_path md cddl_path cddl)
     (bindE (validate_local_pilot_fixture w root_dir) (\<lambda>pilot.
        Inr \<lparr>fp_profile = json_str (fld profile ''profile''), fp_source_classes = EXPECTED_SOURCE_CLASSES,
             fp_nutrients = [''kcal''], fp_quantity_fields = map fst EXPECTED_QUANTITY_FIELDS,
             fp_local_pilot = pilot\<rparr>)))))))"

definition food_profile_main :: "env \<Rightarrow> string \<Rightarrow> string res" where
  "food_profile_main w root_dir =
     bindE (check_food_profile w root_dir) (\<lambda>r.
       Inr (''Food Profile static check: OK ('' @ fp_profile r @ '', source_class='' @
            str_join '','' (fp_source_classes r) @ '', reducer_visible='' @ str_join '','' (fp_nutrients r) @
            '', local_pilot='' @ fp_local_pilot r @ '')''))"

subsection \<open>Properties\<close>

text \<open>The energy an event carries.\<close>

definition event_kcal :: "string \<Rightarrow> json \<Rightarrow> int" where
  "event_kcal k e =
     (case e of JObj item \<Rightarrow>
        (case fld item ''body'' of JObj body \<Rightarrow>
           (case fld body k of JObj m \<Rightarrow> (case fld m ''kcal'' of JInt i \<Rightarrow> i | _ \<Rightarrow> 0) | _ \<Rightarrow> 0)
         | _ \<Rightarrow> 0)
      | _ \<Rightarrow> 0)"

lemma validate_food_event_kcal:
  "validate_food_event (i, e) = Inr (m, v) \<Longrightarrow> m = event_kcal ''mean'' e \<and> v = event_kcal ''var'' e \<and> 0 \<le> v"
  unfolding validate_food_event_def prod.case Let_def bindE_Inr thenE_Inr as_dict_Inr profile_kcal_map_Inr
  by (auto simp: event_kcal_def)

lemma sum_events_fold:
  assumes "foldE (\<lambda>(sum_mean, sum_var) e.
       bindE (validate_food_event e) (\<lambda>(mean_kcal, var_kcal). Inr (sum_mean + mean_kcal, sum_var + var_kcal)))
     (a, b) ies = Inr (m, v)"
  shows "m = a + sum_list (map (event_kcal ''mean'' \<circ> snd) ies) \<and>
    v = b + sum_list (map (event_kcal ''var'' \<circ> snd) ies) \<and> b \<le> v"
  using assms
proof (induction ies arbitrary: a b)
  case (Cons ie ies)
  obtain i e where ie: "ie = (i, e)" by (cases ie)
  from Cons.prems obtain m1 v1 where e: "validate_food_event (i, e) = Inr (m1, v1)"
    and rest: "foldE (\<lambda>(sum_mean, sum_var) e.
       bindE (validate_food_event e) (\<lambda>(mean_kcal, var_kcal). Inr (sum_mean + mean_kcal, sum_var + var_kcal)))
     (a + m1, b + v1) ies = Inr (m, v)"
    unfolding ie by (auto simp: bindE_Inr)
  from Cons.IH [OF rest] validate_food_event_kcal [OF e] show ?case by (simp add: ie)
qed simp

text \<open>An accepted pilot has events, and its expected reducer output states the exact sums of their
mean and variance energies; the variance sum is not negative.\<close>

theorem pilot_reducer_sums_exact:
  assumes "pilot_checks pilot = Inr ()"
  shows "\<exists>events. fld pilot ''events'' = JArr events \<and> events \<noteq> [] \<and>
    py_eq (fld pilot ''expected_reducer'')
      (JObj [(''sum_mean'', kcal_obj (sum_list (map (event_kcal ''mean'') events))),
             (''sum_var'', kcal_obj (sum_list (map (event_kcal ''var'') events)))]) \<and>
    0 \<le> sum_list (map (event_kcal ''var'') events)"
proof -
  from assms obtain events m v expected where e: "fld pilot ''events'' = JArr events" "events \<noteq> []"
      "sum_events events = Inr (m, v)" "fld pilot ''expected_reducer'' = JObj expected"
      "py_eq (JObj expected) (JObj [(''sum_mean'', kcal_obj m), (''sum_var'', kcal_obj v)])"
    unfolding pilot_checks_def bindE_Inr thenE_Inr as_dict_Inr as_list_Inr require_equal_Inr need_Inr
    by (auto simp: res_simps)
  have "map (f \<circ> snd) (enum events) = map f events" for f :: "json \<Rightarrow> int"
    by (simp add: enum_def flip: map_map)
  with sum_events_fold [OF e(3) [unfolded sum_events_def]]
  have "m = sum_list (map (event_kcal ''mean'') events)" "v = sum_list (map (event_kcal ''var'') events)" "0 \<le> v"
    by simp_all
  with e show ?thesis by auto
qed

definition example_pilot :: dict where
  "example_pilot =
     [(''scope'', JStr ''local-source-validation-only''), (''requires_external_apps'', JBool False),
      (''requires_external_devices'', JBool False), (''requires_external_credentials'', JBool False),
      (''events'', JArr [JObj [(''t'', JStr ''IntakeEvent''), (''payload_cid'', JStr ''meal-scan:1''),
         (''body'', JObj [(''source_class'', JStr ''measured''), (''mean'', kcal_obj 7), (''var'', kcal_obj 2),
            (''amount_g'', JInt 1), (''serving_g'', JInt 1), (''servings'', JInt 1)])]]),
      (''scanner_offer'', JObj [(''t'', JStr ''ServingOffer''), (''serving_g'', JInt 1),
         (''mean'', kcal_obj 1), (''var'', kcal_obj 0)]),
      (''expected_reducer'', JObj [(''sum_mean'', kcal_obj 7), (''sum_var'', kcal_obj 2)])]"

theorem pilot_reducer_sums_exact_witness:
  "\<exists>events. fld example_pilot ''events'' = JArr events \<and> 0 \<le> sum_list (map (event_kcal ''var'') events)"
proof -
  have "pilot_checks example_pilot = Inr ()" by code_simp
  from pilot_reducer_sums_exact [OF this] show ?thesis by blast
qed

end
