(* ===== verification/DeviceAdapter.thy ===== *)
theory DeviceAdapter
  imports Checks
begin

text \<open>
  \<open>tools/ci/check_device_adapter_contract.py\<close>: the edges, capabilities and prohibitions of the
  device adapter contract, and the search for terms of network trust, secret export and platform
  accounts in the tokens of its schema.
\<close>

subsection \<open>Constants\<close>

definition DEVICE_SCHEMA :: string where "DEVICE_SCHEMA = ''grain.device-adapter.v1''"

definition REQUIRED_EDGES :: "string list" where
  "REQUIRED_EDGES = [''ScanInput'', ''DeviceCapabilities'', ''SecureLocalStore'', ''ExportSink'',
     ''DiagnosticSink'', ''TrustProvider'']"

definition REQUIRED_CAPABILITIES :: "string list" where
  "REQUIRED_CAPABILITIES = [''cameraScan'', ''manualPaste'', ''secureLocalPersistence'', ''safeExport'',
     ''safeDiagnostics'', ''localTrustAnchors'']"

definition REQUIRED_PROHIBITIONS :: "string list" where
  "REQUIRED_PROHIBITIONS = [''no_network_trust_discovery'', ''no_secret_export_fields'',
     ''no_platform_store_or_account_assumptions'', ''no_publication_credentials'']"

definition VALUE_KEYS :: "string list" where
  "VALUE_KEYS = [''const'', ''enum'', ''default'', ''examples'']"

definition any_word :: "string list \<Rightarrow> char regex" where
  "any_word ws = RAlts (map RLitI ws)"

definition TRUST_NETWORK_RE :: "char regex" where
  "TRUST_NETWORK_RE = any_word [''network'', ''url'', ''uri'', ''http'', ''https'', ''endpoint'', ''remote'',
     ''discover'', ''wellknown'', ''well-known'', ''fetch'', ''socket'', ''tofu'', ''trustonfirstuse'']"

definition EXPORT_SECRET_RE :: "char regex" where
  "EXPORT_SECRET_RE = any_word [''secret'', ''privatekey'', ''private_key'', ''seed'', ''token'', ''credential'',
     ''snapshot'', ''identitybundle'', ''syncbundle'', ''trustpubb64'', ''mnemonic'']"

definition PLATFORM_ACCOUNT_RE :: "char regex" where
  "PLATFORM_ACCOUNT_RE = any_word [''account'', ''appstore'', ''app_store'', ''testflight'', ''playconsole'',
     ''play_console'', ''playstore'', ''play_store'', ''publication'', ''developerprogram'', ''developer_program'',
     ''mavencentral'', ''maven_central'', ''npmpublish'', ''npm_publish'', ''registrycredential'',
     ''registry_credential'']"

subsection \<open>Accessors\<close>

definition device_require :: "bool \<Rightarrow> string \<Rightarrow> unit res" where
  "device_require c msg = checks [(c, msg)]"

definition device_dict :: "json \<Rightarrow> string \<Rightarrow> dict res" where
  "device_dict v msg = (case v of JObj d \<Rightarrow> Inr d | _ \<Rightarrow> stop msg)"

definition device_list :: "json \<Rightarrow> string \<Rightarrow> json list res" where
  "device_list v msg = (case v of JArr xs \<Rightarrow> Inr xs | _ \<Rightarrow> stop msg)"

definition device_load :: "env \<Rightarrow> string \<Rightarrow> dict res" where
  "device_load w p =
     thenE (device_require (is_file w p) (''DEVICE_ADAPTER_CONTRACT_ERR_FILE_MISSING: '' @ p))
    (bindE (read_json w p) (\<lambda>v. device_dict v (''DEVICE_ADAPTER_CONTRACT_ERR_JSON_OBJECT: '' @ p)))"

lemma device_require_Inr [res_simps]: "device_require c msg = Inr () \<longleftrightarrow> c"
  by (simp add: device_require_def)

lemma device_dict_Inr [res_simps]: "device_dict v msg = Inr d \<longleftrightarrow> v = JObj d"
  by (cases v) (auto simp: device_dict_def)

lemma device_list_Inr [res_simps]: "device_list v msg = Inr xs \<longleftrightarrow> v = JArr xs"
  by (cases v) (auto simp: device_list_def)

subsection \<open>Tokens and forbidden terms\<close>

text \<open>
  Every key is a token; so is every string under a key that holds values, unless the dict lies
  below the list of prohibitions.
\<close>

fun schema_tokens :: "json \<Rightarrow> string \<Rightarrow> (string \<times> string) list" where
  "schema_tokens (JObj d) path =
     concat (map (\<lambda>(k, v).
       (path @ ''/'' @ k, k) #
       (if k \<in> set VALUE_KEYS \<and> \<not> starts_with path ''/properties/prohibitions''
        then map (\<lambda>s. (path @ ''/'' @ k, s)) (strings_in v) else []) @
       schema_tokens v (path @ ''/'' @ k)) d)"
| "schema_tokens (JArr xs) path =
     concat (map (\<lambda>(i, v). schema_tokens v (path @ ''/'' @ nat_str i)) (enum xs))"
| "schema_tokens _ path = []"

definition normalize_token :: "string \<Rightarrow> string" where
  "normalize_token t = filter (\<lambda>c. chr_is_ascii_alpha c \<or> chr_is_ascii_digit c \<or> c = CHR ''_'') t"

definition forbidden_hits :: "json \<Rightarrow> char regex \<Rightarrow> string list" where
  "forbidden_hits node pat =
     map (\<lambda>(path, token). path @ '': '' @ token)
       (filter (\<lambda>(path, token). re_search pat (normalize_token token)) (schema_tokens node []))"

subsection \<open>The contract\<close>

definition validate_edges :: "dict \<Rightarrow> dict res" where
  "validate_edges schema =
     bindE (device_dict (fld schema ''properties'') ''DEVICE_ADAPTER_CONTRACT_ERR_PROPERTIES'') (\<lambda>properties.
     bindE (device_dict (fld properties ''schema'') ''DEVICE_ADAPTER_CONTRACT_ERR_SCHEMA_FIELD'') (\<lambda>schema_property.
     thenE (device_require (fld schema_property ''const'' = JStr DEVICE_SCHEMA) ''DEVICE_ADAPTER_CONTRACT_ERR_SCHEMA'')
    (bindE (device_dict (fld schema ''$defs'') ''DEVICE_ADAPTER_CONTRACT_ERR_DEFS'') (\<lambda>defs.
     bindE (device_dict (fld properties ''edges'') ''DEVICE_ADAPTER_CONTRACT_ERR_EDGES'') (\<lambda>edges.
     bindE (device_dict (fld edges ''properties'') ''DEVICE_ADAPTER_CONTRACT_ERR_EDGE_PROPERTIES'') (\<lambda>edge_properties.
     bindE (device_list (fld edges ''required'') ''DEVICE_ADAPTER_CONTRACT_ERR_EDGE_REQUIRED'') (\<lambda>edge_required.
     thenE (forE (\<lambda>edge. checks
         [(has_key defs edge \<and> is_dict (fld defs edge), ''DEVICE_ADAPTER_CONTRACT_ERR_EDGE_MISSING: '' @ edge),
          (has_key edge_properties edge, ''DEVICE_ADAPTER_CONTRACT_ERR_EDGE_PROPERTY_MISSING: '' @ edge),
          (str_in_arr edge edge_required, ''DEVICE_ADAPTER_CONTRACT_ERR_EDGE_REQUIRED_MISSING: '' @ edge)])
        REQUIRED_EDGES)
       (Inr defs))))))))"

definition validate_capabilities :: "dict \<Rightarrow> unit res" where
  "validate_capabilities defs =
     bindE (device_dict (fld defs ''DeviceCapabilities'') ''DEVICE_ADAPTER_CONTRACT_ERR_CAPABILITIES'') (\<lambda>capabilities.
     bindE (device_dict (fld capabilities ''properties'') ''DEVICE_ADAPTER_CONTRACT_ERR_CAPABILITY_PROPERTIES'') (\<lambda>props.
     bindE (device_list (fld capabilities ''required'') ''DEVICE_ADAPTER_CONTRACT_ERR_CAPABILITY_REQUIRED'') (\<lambda>required.
       forE (\<lambda>c. device_require (has_key props c \<and> str_in_arr c required)
                   (''DEVICE_ADAPTER_CONTRACT_ERR_CAPABILITY_MISSING: '' @ c)) REQUIRED_CAPABILITIES)))"

definition validate_prohibitions :: "dict \<Rightarrow> unit res" where
  "validate_prohibitions schema =
     bindE (device_dict (fld schema ''properties'') ''DEVICE_ADAPTER_CONTRACT_ERR_PROPERTIES'') (\<lambda>properties.
     bindE (device_dict (fld properties ''prohibitions'') ''DEVICE_ADAPTER_CONTRACT_ERR_PROHIBITIONS'') (\<lambda>prohibitions.
     bindE (device_dict (fld prohibitions ''items'') ''DEVICE_ADAPTER_CONTRACT_ERR_PROHIBITION_ITEMS'') (\<lambda>items.
     bindE (device_list (fld items ''enum'') ''DEVICE_ADAPTER_CONTRACT_ERR_PROHIBITION_ENUM'') (\<lambda>vals.
       forE (\<lambda>p. device_require (str_in_arr p vals)
                   (''DEVICE_ADAPTER_CONTRACT_ERR_PROHIBITION_MISSING: '' @ p)) REQUIRED_PROHIBITIONS))))"

definition no_hits :: "json \<Rightarrow> char regex \<Rightarrow> string \<Rightarrow> unit res" where
  "no_hits node pat code =
     (let hits = forbidden_hits node pat in device_require (hits = []) (code @ '': '' @ str_join ''; '' hits))"

definition validate_forbidden_contract_terms :: "dict \<Rightarrow> dict \<Rightarrow> unit res" where
  "validate_forbidden_contract_terms schema defs =
     bindE (dict_index defs ''TrustProvider'') (\<lambda>trust.
     thenE (no_hits trust TRUST_NETWORK_RE ''DEVICE_ADAPTER_CONTRACT_ERR_TRUST_NETWORK'')
    (bindE (dict_index defs ''ExportSink'') (\<lambda>sink.
     thenE (no_hits sink EXPORT_SECRET_RE ''DEVICE_ADAPTER_CONTRACT_ERR_EXPORT_SECRET'')
       (no_hits (JObj schema) PLATFORM_ACCOUNT_RE ''DEVICE_ADAPTER_CONTRACT_ERR_PLATFORM_ACCOUNT''))))"

definition device_readme :: "env \<Rightarrow> string \<Rightarrow> unit res" where
  "device_readme w p =
     thenE (device_require (is_file w p) (''DEVICE_ADAPTER_CONTRACT_ERR_README_MISSING: '' @ p))
    (bindE (read_text w p) (\<lambda>t.
     thenE (forE (\<lambda>edge. device_require (contains t edge)
                   (''DEVICE_ADAPTER_CONTRACT_ERR_README_EDGE_MISSING: '' @ edge)) REQUIRED_EDGES)
       (forE (\<lambda>phrase. device_require (contains (str_lower t) phrase)
                   (''DEVICE_ADAPTER_CONTRACT_ERR_README_PROHIBITION_MISSING: '' @ phrase))
         [''no accounts'', ''network trust discovery'', ''platform-store'', ''publication credentials'',
          ''secret exports''])))"

definition check_device_adapter_contract ::
  "env \<Rightarrow> string \<Rightarrow> string option \<Rightarrow> string option \<Rightarrow> (string \<times> nat \<times> nat \<times> nat) res" where
  "check_device_adapter_contract w root_dir contract readme =
     (let or_default = (\<lambda>opt d. case opt of None \<Rightarrow> path_join root_dir d | Some p \<Rightarrow> p) in
      bindE (device_load w (or_default contract ''sdk/device/device_adapter_v1.schema.json'')) (\<lambda>schema.
      bindE (validate_edges schema) (\<lambda>defs.
      thenE (validate_capabilities defs)
     (thenE (validate_prohibitions schema)
     (thenE (validate_forbidden_contract_terms schema defs)
     (thenE (device_readme w (or_default readme ''sdk/device/README.md''))
       (Inr (DEVICE_SCHEMA, length REQUIRED_EDGES, length REQUIRED_CAPABILITIES,
             length REQUIRED_PROHIBITIONS))))))))"

definition device_main :: "env \<Rightarrow> string \<Rightarrow> string option \<Rightarrow> string option \<Rightarrow> string res" where
  "device_main w root_dir contract readme =
     bindE (check_device_adapter_contract w root_dir contract readme) (\<lambda>(s, edges, caps, prohibs).
       Inr (''Device adapter contract check: OK ('' @ nat_str edges @ '' edges, '' @ nat_str caps @
            '' capabilities, '' @ nat_str prohibs @ '' prohibitions)''))"

subsection \<open>Properties\<close>

text \<open>Every key of every dict below a node is a token of it.\<close>

lemma key_is_token: "field_of v k x \<Longrightarrow> \<exists>p. (p, k) \<in> set (schema_tokens v path)"
proof (induction v arbitrary: path rule: json_induct)
  case (JObj d)
  then consider "(k, x) \<in> set d" | j y where "(j, y) \<in> set d" "field_of y k x"
    by (auto simp: field_of_simps)
  then show ?case
  proof cases
    case 1
    then have "(path @ ''/'' @ k, k) \<in> set (schema_tokens (JObj d) path)"
      by (auto intro!: bexI [of _ "(k, x)"])
    then show ?thesis by blast
  next
    case 2
    from JObj.IH [OF this] obtain p where "(p, k) \<in> set (schema_tokens y (path @ ''/'' @ j))" by blast
    with 2(1) have "(p, k) \<in> set (schema_tokens (JObj d) path)"
      by (auto intro!: bexI [of _ "(j, y)"])
    then show ?thesis by blast
  qed
next
  case (JArr xs)
  then obtain y where "y \<in> set xs" "field_of y k x" by (auto simp: field_of_simps)
  then obtain i where i: "i < length xs" "field_of (xs ! i) k x" by (metis in_set_conv_nth)
  from JArr.IH [OF nth_mem [OF i(1)] i(2)] obtain p where
      "(p, k) \<in> set (schema_tokens (xs ! i) (path @ ''/'' @ nat_str i))" by blast
  with i(1) have "(p, k) \<in> set (schema_tokens (JArr xs) path)"
    by (auto simp: set_enum)
  then show ?case by blast
qed (simp_all add: field_of_simps)

lemma no_hits_keys:
  assumes "no_hits node pat code = Inr ()" and "field_of node k x"
  shows "\<not> re_search pat (normalize_token k)"
proof
  assume "re_search pat (normalize_token k)"
  moreover obtain p where "(p, k) \<in> set (schema_tokens node [])"
    using key_is_token [OF assms(2)] by blast
  ultimately have "forbidden_hits node pat \<noteq> []"
    by (auto simp: forbidden_hits_def filter_empty_conv)
  with assms(1) show False by (simp add: no_hits_def Let_def res_simps)
qed

text \<open>In an accepted contract no key at any depth of the trust provider speaks of the network, none of
the export sink of secrets, and none of the whole schema of platform accounts, whatever
punctuation and case the key is written with.\<close>

theorem device_contract_terms:
  assumes "validate_forbidden_contract_terms schema defs = Inr ()"
  shows "(field_of (fld defs ''TrustProvider'') k x \<longrightarrow> \<not> re_search TRUST_NETWORK_RE (normalize_token k)) \<and>
    (field_of (fld defs ''ExportSink'') k x \<longrightarrow> \<not> re_search EXPORT_SECRET_RE (normalize_token k)) \<and>
    (field_of (JObj schema) k x \<longrightarrow> \<not> re_search PLATFORM_ACCOUNT_RE (normalize_token k))"
proof -
  from assms obtain trust sink where t: "map_of defs ''TrustProvider'' = Some trust"
      "no_hits trust TRUST_NETWORK_RE ''DEVICE_ADAPTER_CONTRACT_ERR_TRUST_NETWORK'' = Inr ()"
      "map_of defs ''ExportSink'' = Some sink"
      "no_hits sink EXPORT_SECRET_RE ''DEVICE_ADAPTER_CONTRACT_ERR_EXPORT_SECRET'' = Inr ()"
      "no_hits (JObj schema) PLATFORM_ACCOUNT_RE ''DEVICE_ADAPTER_CONTRACT_ERR_PLATFORM_ACCOUNT'' = Inr ()"
    unfolding validate_forbidden_contract_terms_def bindE_Inr thenE_Inr dict_index_Inr by blast
  have "fld defs ''TrustProvider'' = trust" "fld defs ''ExportSink'' = sink"
    using t(1,3) by (simp_all add: dict_get_def)
  with no_hits_keys [OF t(2)] no_hits_keys [OF t(4)] no_hits_keys [OF t(5)] show ?thesis by blast
qed

lemma device_min_len:
  "min_len TRUST_NETWORK_RE = 3" "min_len EXPORT_SECRET_RE = 4" "min_len PLATFORM_ACCOUNT_RE = 7"
  by (simp_all add: TRUST_NETWORK_RE_def EXPORT_SECRET_RE_def PLATFORM_ACCOUNT_RE_def any_word_def
        RLitI_def RSeqs_def)

theorem device_contract_terms_witness:
  "\<not> re_search TRUST_NETWORK_RE (normalize_token ''id'')"
proof -
  let ?defs = "[(''TrustProvider'', JObj [(''id'', JNull)]), (''ExportSink'', JObj [(''sum'', JNull)])]"
  have tokens: "schema_tokens (JObj [(''id'', JNull)]) [] = [(''/id'', ''id'')]"
      "schema_tokens (JObj [(''sum'', JNull)]) [] = [(''/sum'', ''sum'')]"
    by (simp_all add: VALUE_KEYS_def)
  have short: "\<not> re_search pat (normalize_token s)" if "length s < min_len pat" for pat s
    using that by (intro re_search_short) (simp add: normalize_token_def le_less_trans [OF length_filter_le])
  have "validate_forbidden_contract_terms [(''id'', JNull)] ?defs = Inr ()"
    by (simp add: validate_forbidden_contract_terms_def dict_index_def no_hits_def Let_def forbidden_hits_def
          tokens short device_min_len device_require_def del: schema_tokens.simps)
  moreover have "field_of (fld ?defs ''TrustProvider'') ''id'' JNull"
    by (simp add: dict_get_def field_of_simps)
  ultimately show ?thesis using device_contract_terms by blast
qed

end
