(* ===== verification/ReportScan.thy ===== *)
theory ReportScan
  imports Checks
begin

text \<open>
  What the report checkers under \<open>tools/ci\<close> share: the typed accessors of the local flow reports
  (\<open>require_object\<close>, \<open>require_string\<close>), and the contracts of the two walkers every checker has
  a copy of. A claim guard looks at every string of a document, a field guard at every key,
  with one position exempt. Each checker's own walker is an interpretation.
\<close>

subsection \<open>Typed accessors\<close>

definition report_object :: "json \<Rightarrow> string \<Rightarrow> dict res" where
  "report_object v msg = (case v of JObj d \<Rightarrow> Inr d | _ \<Rightarrow> stop msg)"

definition report_string :: "json \<Rightarrow> string \<Rightarrow> string res" where
  "report_string v msg =
     (case v of JStr s \<Rightarrow> if s \<noteq> [] \<and> str_strip s = s then Inr s else stop msg | _ \<Rightarrow> stop msg)"

definition report_list :: "json \<Rightarrow> string \<Rightarrow> json list res" where
  "report_list v msg = (case v of JArr xs \<Rightarrow> Inr xs | _ \<Rightarrow> stop msg)"

lemma report_list_Inr [res_simps]: "report_list v msg = Inr xs \<longleftrightarrow> v = JArr xs"
  by (cases v) (auto simp: report_list_def)

lemma report_object_Inr [res_simps]: "report_object v msg = Inr d \<longleftrightarrow> v = JObj d"
  by (cases v) (auto simp: report_object_def)

lemma report_string_Inr [res_simps]:
  "report_string v msg = Inr s \<longleftrightarrow> v = JStr s \<and> s \<noteq> [] \<and> str_strip s = s"
  by (cases v) (auto simp: report_string_def)

lemma if_stop_Inr [res_simps]:
  "(if c then k else stop msg) = Inr x \<longleftrightarrow> c \<and> k = Inr x"
  "(if c then stop msg else k) = Inr x \<longleftrightarrow> \<not> c \<and> k = Inr x"
  by simp_all

lemma strip_replicate: "\<not> chr_is_space c \<Longrightarrow> str_strip (replicate n c) = replicate n c"
  by (cases n) (simp_all add: str_strip_def str_lstrip_def flip: replicate_Suc)

lemma mapE_value: "mapE f xs = Inr ys \<Longrightarrow> x \<in> set xs \<Longrightarrow> \<exists>y\<in>set ys. f x = Inr y"
  by (induction xs arbitrary: ys) (auto simp: bindE_Inr)

lemma mapE_source: "mapE f xs = Inr ys \<Longrightarrow> y \<in> set ys \<Longrightarrow> \<exists>x\<in>set xs. f x = Inr y"
  by (induction xs arbitrary: ys) (auto simp: bindE_Inr)

text \<open>Reading a report: a missing file raises, a malformed one stops the checker with \<open>msg\<close>.\<close>

definition report_load :: "env \<Rightarrow> string \<Rightarrow> string \<Rightarrow> json res" where
  "report_load w p msg =
     bindE (read_text w p) (\<lambda>t. case json_loads w t of None \<Rightarrow> stop msg | Some v \<Rightarrow> Inr v)"

lemma report_load_Inr [res_simps]: "report_load w p msg = Inr v \<longleftrightarrow> document w p = Some v"
  by (auto simp: report_load_def document_def read_text_def split: option.splits)

text \<open>\<open>[-\\s]*\<close>, and words with it between them, under \<open>re.IGNORECASE\<close>.\<close>

definition dash_spaces :: "char regex" where
  "dash_spaces = RStar (RCls (\<lambda>c. c = CHR ''-'' \<or> chr_is_space c))"

fun spaced :: "string list \<Rightarrow> char regex" where
  "spaced [] = REps"
| "spaced [t] = RLitI t"
| "spaced (t # u # ts) = RSeq (RLitI t) (RSeq dash_spaces (spaced (u # ts)))"

text \<open>A match of a sequence has a match of each part; a match of a word has the word's letters.\<close>

lemma re_search_RSeq:
  assumes "re_search (RSeq r q) s" shows "re_search r s \<and> re_search q s"
proof -
  from assms obtain u v c d where s: "s = u @ v" "((rev u, v), d) \<in> lang r" "(d, c) \<in> lang q"
    by (auto simp: re_search_iff)
  from lang_advances [OF s(2)] obtain x where "v = x @ snd d" "fst d = rev x @ rev u"
    by (auto simp: advances_def)
  then have "d = (rev (u @ x), snd d)" "s = (u @ x) @ snd d" using s(1) by (simp_all add: prod_eq_iff)
  with s(3) have "s = (u @ x) @ snd d" "((rev (u @ x), snd d), c) \<in> lang q" by simp_all
  with s(1,2) show ?thesis unfolding re_search_iff by blast
qed

lemma re_search_RSeqs: "re_search (RSeqs (r # rs)) s \<Longrightarrow> re_search r s \<and> re_search (RSeqs rs) s"
  using re_search_RSeq [of r "RSeqs rs" s] by (simp add: RSeqs_def)

lemma re_search_RAlt: "re_search (RAlt r q) s \<longleftrightarrow> re_search r s \<or> re_search q s"
  unfolding re_search_iff lang.simps by blast

lemma lang_RLitI: "((p, v), c) \<in> lang (RLitI t) \<Longrightarrow> \<exists>x y. v = x @ y \<and> str_lower x = str_lower t"
proof (induction t arbitrary: p v)
  case Nil
  have "v = [] @ v \<and> str_lower [] = str_lower []" by simp
  then show ?case by blast
next
  case (Cons a t)
  then obtain b v' where v: "v = b # v'" "chr_lower b = chr_lower a" "((b # p, v'), c) \<in> lang (RLitI t)"
    by (auto simp: RLitI_def)
  from Cons.IH [OF v(3)] obtain x y where "v' = x @ y" "str_lower x = str_lower t" by blast
  with v have "v = (b # x) @ y \<and> str_lower (b # x) = str_lower (a # t)" by (simp add: str_lower_def)
  then show ?case by blast
qed

lemma str_lower_append: "str_lower (s @ t) = str_lower s @ str_lower t"
  by (simp add: str_lower_def)

lemma re_search_RLitI: "re_search (RLitI t) s \<Longrightarrow> contains (str_lower s) (str_lower t)"
  unfolding re_search_iff contains_def sublist_def
proof -
  assume "\<exists>u v c. s = u @ v \<and> ((rev u, v), c) \<in> lang (RLitI t)"
  then obtain u x y where "s = u @ x @ y" "str_lower x = str_lower t" by (blast dest: lang_RLitI)
  then have "str_lower s = str_lower u @ str_lower t @ str_lower y" by (simp add: str_lower_append)
  then show "\<exists>ps ss. str_lower s = ps @ str_lower t @ ss" by blast
qed

lemma re_search_spaced: "re_search (spaced ts) s \<Longrightarrow> list_all (\<lambda>t. contains (str_lower s) (str_lower t)) ts"
  by (induction ts rule: spaced.induct) (auto dest!: re_search_RSeq re_search_RLitI)

text \<open>A text that matches an alternative has all the words of one of the given lists.\<close>

lemma claim_wordsI:
  assumes "list_all (\<lambda>t. contains (str_lower s) (str_lower t)) ts"
    and "list_ex (list_all (\<lambda>t. t \<in> set ts)) claims" and "map (map str_lower) claims = claims"
  shows "list_ex (list_all (contains (str_lower s))) claims"
proof -
  from assms(1,2) have "list_ex (list_all (contains (str_lower s))) (map (map str_lower) claims)"
    by (auto simp: list_ex_iff list_all_iff)
  then show ?thesis unfolding assms(3) .
qed

lemma re_search_word: "re_search (RLitI t) s \<Longrightarrow> list_all (\<lambda>t. contains (str_lower s) (str_lower t)) [t]"
  by (simp add: re_search_RLitI)

lemma re_search_word_seq:
  assumes "re_search (RSeqs [spaced ts, r]) s"
  shows "list_all (\<lambda>t. contains (str_lower s) (str_lower t)) ts"
  using assms re_search_RSeq re_search_spaced by (simp add: RSeqs_def) blast

lemma re_search_word_last:
  assumes "re_search (RSeqs [RLitI t, q, r, RLitI u]) s"
  shows "list_all (\<lambda>t. contains (str_lower s) (str_lower t)) [t, u]"
  using assms re_search_RSeq re_search_RLitI by (simp add: RSeqs_def) blast

subsection \<open>Claim guards\<close>

locale claim_guard =
  fixes guard :: "json \<Rightarrow> string \<Rightarrow> unit res" and bad :: "string \<Rightarrow> bool"
  assumes guard_text: "guard (JStr s) c = Inr () \<longleftrightarrow> \<not> bad s"
    and guard_dict: "guard (JObj d) c = Inr () \<longleftrightarrow> (\<forall>(k, x)\<in>set d. guard x (path_key c k) = Inr ())"
    and guard_list: "guard (JArr xs) c = Inr () \<longleftrightarrow> (\<forall>(i, x)\<in>set (enum xs). guard x (path_idx c i) = Inr ())"
    and guard_atom: "guard JNull c = Inr ()" "guard (JBool b) c = Inr ()" "guard (JInt n) c = Inr ()"
      "guard (JFloat f r) c = Inr ()"
begin

lemma guard_strings: "guard v c = Inr () \<longleftrightarrow> (\<forall>s\<in>set (strings_in v). \<not> bad s)"
proof (induction v arbitrary: c rule: json_induct)
  case (JObj d)
  have "guard (JObj d) c = Inr () \<longleftrightarrow> (\<forall>(k, x)\<in>set d. \<forall>s\<in>set (strings_in x). \<not> bad s)"
    unfolding guard_dict using JObj.IH by fastforce
  then show ?case by fastforce
next
  case (JArr xs)
  have "guard (JArr xs) c = Inr () \<longleftrightarrow> (\<forall>p\<in>set (enum xs). \<forall>s\<in>set (strings_in (snd p)). \<not> bad s)"
    unfolding guard_list using JArr.IH by (fastforce simp: set_enum)
  also have "\<dots> \<longleftrightarrow> (\<forall>x\<in>set xs. \<forall>s\<in>set (strings_in x). \<not> bad s)"
    by (rule enum_ball)
  finally show ?case by simp
qed (simp_all add: guard_text guard_atom)

lemma guard_sub_values: "guard v c = Inr () \<longleftrightarrow> (\<forall>s. sub_value (JStr s) v \<longrightarrow> \<not> bad s)"
  by (simp only: guard_strings Ball_def strings_in_iff)

lemma guard_context: "guard v c = Inr () \<longleftrightarrow> guard v c' = Inr ()"
  by (simp only: guard_strings)

end

subsection \<open>Field guards\<close>

text \<open>The text of a position below \<open>path\<close>, as the walkers build it.\<close>

primrec step_text :: "pstep \<Rightarrow> string" where
  "step_text (Key k) = ''.'' @ k"
| "step_text (Idx i) = ''['' @ nat_str i @ '']''"

definition path_text :: "string \<Rightarrow> pstep list \<Rightarrow> string" where
  "path_text path ps = path @ concat (map step_text ps)"

lemma path_text_simps [simp]:
  "path_text path [] = path"
  "path_text path (Key k # ps) = path_text (path_key path k) ps"
  "path_text path (Idx i # ps) = path_text (path_idx path i) ps"
  by (simp_all add: path_text_def path_key_def path_idx_def)

text \<open>Only one position of a document is written as a dot and a name without dots and brackets.\<close>

lemma step_text_hd: "\<exists>s. step_text p = CHR ''.'' # s \<or> step_text p = CHR ''['' # s"
  by (cases p) auto

lemma path_text_name:
  assumes "CHR ''.'' \<notin> set n" "CHR ''['' \<notin> set n"
  shows "path_text path ps = path_key path n \<longleftrightarrow> ps = [Key n]"
proof
  assume eq: "path_text path ps = path_key path n"
  then obtain p qs where ps: "ps = p # qs"
    by (cases ps) (auto simp: path_text_def path_key_def)
  with eq have head: "step_text p @ concat (map step_text qs) = CHR ''.'' # n"
    by (simp add: path_text_def path_key_def)
  then obtain k where p: "p = Key k" by (cases p) auto
  with head have rest: "k @ concat (map step_text qs) = n" by simp
  have "qs = []"
  proof (cases qs)
    case (Cons q rs)
    with rest assms step_text_hd [of q] show ?thesis by auto
  qed
  with rest p ps show "ps = [Key n]" by simp
qed (simp add: path_text_def path_key_def)

lemma value_at_atom:
  "value_at (JStr s) ps = Some w \<longleftrightarrow> ps = [] \<and> w = JStr s"
  "value_at JNull ps = Some w \<longleftrightarrow> ps = [] \<and> w = JNull"
  "value_at (JBool b) ps = Some w \<longleftrightarrow> ps = [] \<and> w = JBool b"
  "value_at (JInt n) ps = Some w \<longleftrightarrow> ps = [] \<and> w = JInt n"
  "value_at (JFloat f r) ps = Some w \<longleftrightarrow> ps = [] \<and> w = JFloat f r"
  by (cases ps; auto)+

locale field_guard =
  fixes guard :: "json \<Rightarrow> string \<Rightarrow> unit res" and bad :: "string \<Rightarrow> bool" and exempt :: string
  assumes guard_dict: "guard (JObj d) p = Inr () \<longleftrightarrow>
      (\<forall>(k, x)\<in>set d. (bad k \<longrightarrow> p = exempt) \<and> guard x (path_key p k) = Inr ())"
    and guard_list: "guard (JArr xs) p = Inr () \<longleftrightarrow> (\<forall>(i, x)\<in>set (enum xs). guard x (path_idx p i) = Inr ())"
    and guard_atom: "guard (JStr s) p = Inr ()" "guard JNull p = Inr ()" "guard (JBool b) p = Inr ()"
      "guard (JInt n) p = Inr ()" "guard (JFloat f r) p = Inr ()"
begin

lemma guard_positions:
  "wf_json v \<Longrightarrow> guard v p = Inr () \<longleftrightarrow>
     (\<forall>ps d k. value_at v ps = Some (JObj d) \<and> has_key d k \<and> bad k \<longrightarrow> path_text p ps = exempt)"
  (is "_ \<Longrightarrow> _ \<longleftrightarrow> ?ok v p")
proof (induction v arbitrary: p rule: json_induct)
  case (JObj d)
  have wf: "distinct (map fst d)" "\<And>k x. (k, x) \<in> set d \<Longrightarrow> wf_json x"
    using JObj.prems by (auto simp: list_all_iff)
  have "?ok (JObj d) p \<longleftrightarrow> (\<forall>k. has_key d k \<and> bad k \<longrightarrow> p = exempt) \<and>
      (\<forall>k x. (k, x) \<in> set d \<longrightarrow> ?ok x (path_key p k))"
  proof (intro iffI conjI allI impI; (elim conjE)?)
    fix k assume "?ok (JObj d) p" "has_key d k" "bad k"
    then show "p = exempt" by (metis path_text_simps(1) value_at.simps(1))
  next
    fix k x ps e j
    assume ok: "?ok (JObj d) p" and x: "(k, x) \<in> set d"
      and at: "value_at x ps = Some (JObj e)" "has_key e j" "bad j"
    from x wf(1) have "map_of d k = Some x" by simp
    with at have "value_at (JObj d) (Key k # ps) = Some (JObj e)" by simp
    with ok at have "path_text p (Key k # ps) = exempt" by blast
    then show "path_text (path_key p k) ps = exempt" by simp
  next
    fix ps e j
    assume root: "\<forall>k. has_key d k \<and> bad k \<longrightarrow> p = exempt"
      and below: "\<forall>k x. (k, x) \<in> set d \<longrightarrow> ?ok x (path_key p k)"
      and at: "value_at (JObj d) ps = Some (JObj e)" "has_key e j" "bad j"
    show "path_text p ps = exempt"
    proof (cases ps)
      case Nil
      with at root show ?thesis by auto
    next
      case (Cons q qs)
      with at(1) obtain k x where q: "q = Key k" "map_of d k = Some x" "value_at x qs = Some (JObj e)"
        by (cases q) (auto split: option.splits)
      with below at have "path_text (path_key p k) qs = exempt" by (blast dest: map_of_SomeD)
      with Cons q show ?thesis by simp
    qed
  qed
  moreover have "(\<forall>k. has_key d k \<and> bad k \<longrightarrow> p = exempt) \<longleftrightarrow> (\<forall>(k, x)\<in>set d. bad k \<longrightarrow> p = exempt)"
    by (force simp: has_key_def)
  moreover have "(\<forall>k x. (k, x) \<in> set d \<longrightarrow> ?ok x (path_key p k)) \<longleftrightarrow>
      (\<forall>(k, x)\<in>set d. guard x (path_key p k) = Inr ())"
  proof -
    have "?ok x (path_key p k) \<longleftrightarrow> guard x (path_key p k) = Inr ()" if "(k, x) \<in> set d" for k x
      using JObj.IH [OF that wf(2) [OF that]] by (rule sym)
    then show ?thesis by (simp add: split_beta Ball_def)
  qed
  ultimately show ?case unfolding guard_dict by auto
next
  case (JArr xs)
  have split: "?ok (JArr xs) p \<longleftrightarrow> (\<forall>i<length xs. ?ok (xs ! i) (path_idx p i))"
  proof (intro iffI allI impI; (elim conjE)?)
    fix i ps e j
    assume "?ok (JArr xs) p" "i < length xs" "value_at (xs ! i) ps = Some (JObj e)" "has_key e j" "bad j"
    moreover from this have "value_at (JArr xs) (Idx i # ps) = Some (JObj e)" by simp
    ultimately have "path_text p (Idx i # ps) = exempt" by blast
    then show "path_text (path_idx p i) ps = exempt" by simp
  next
    fix ps e j
    assume below: "\<forall>i<length xs. ?ok (xs ! i) (path_idx p i)"
      and at: "value_at (JArr xs) ps = Some (JObj e)" "has_key e j" "bad j"
    then obtain q qs where ps: "ps = q # qs" by (cases ps) auto
    with at(1) obtain i where "q = Idx i" "i < length xs" "value_at (xs ! i) qs = Some (JObj e)"
      by (cases q) (auto split: if_splits)
    with below at ps show "path_text p ps = exempt" by auto
  qed
  show ?case unfolding split guard_list
    using JArr.IH JArr.prems by (auto simp: set_enum list_all_iff)
qed (simp_all add: guard_atom value_at_atom)

lemma guard_exempt:
  assumes "wf_json v" "exempt = path_key p n" "CHR ''.'' \<notin> set n" "CHR ''['' \<notin> set n"
  shows "guard v p = Inr () \<longleftrightarrow>
     (\<forall>ps d k. value_at v ps = Some (JObj d) \<and> has_key d k \<and> bad k \<longrightarrow> ps = [Key n])"
  using guard_positions [OF assms(1)] path_text_name [OF assms(3,4)] assms(2) by simp

end

end
