(* ===== verification/FoodPilotReport.thy ===== *)
theory FoodPilotReport
  imports ReportScan
begin

text \<open>
  \<open>tools/ci/check_local_food_pilot_report.py\<close>: the shape of the local Food pilot report, the ban
  on fields that would carry secrets, and the SDK proof file next to the report. The text that
  the JSON parser adds to a message is left out. The loops over Python sets take the order of
  the list here; it only decides which of several failures is named.
\<close>

subsection \<open>Constants\<close>

definition SCHEMA_pilot :: string where "SCHEMA_pilot = ''grain.sdk.local_food_pilot.v1''"
definition PROOF_SCHEMA :: string where "PROOF_SCHEMA = ''grain.sdk.local_food_pilot_proof.v1''"
definition HEX_SHA_RE :: "char regex" where "HEX_SHA_RE = hex_re 40"
definition SHA256_RE :: "char regex" where "SHA256_RE = hex_re 64"

definition ALLOWED_CHECK_STATUSES :: "string list" where
  "ALLOWED_CHECK_STATUSES = [''pass'', ''fail'']"

definition REQUIRED_CHECKS_pilot :: "string list" where
  "REQUIRED_CHECKS_pilot = [''food_profile'', ''sdk_build'', ''sdk_reduce'', ''reference_issuer'',
     ''reference_issuer_verify'', ''local_trust_bundle'']"

definition REQUIRED_ARTIFACTS_pilot :: "(string \<times> string) list" where
  "REQUIRED_ARTIFACTS_pilot =
     [(''pilot_fixture'', ''food-local-pilot.valid.v1.json''),
      (''sdk_proof'', ''local-food-pilot-sdk-proof.json''),
      (''issuer_output'', ''issuer-output.json''),
      (''qr_string'', ''qr-string.txt''),
      (''trust_bundle'', ''local-trust-bundle.json''),
      (''logs'', ''logs'')]"

definition REQUIRED_SAFE_REPORT :: "string list" where
  "REQUIRED_SAFE_REPORT =
     [''raw_qr_string'', ''raw_trust_material'', ''raw_snapshot_material'', ''raw_sync_material'']"

definition EXPECTED_REDUCER :: json where
  "EXPECTED_REDUCER =
     JObj [(''sum_mean'', JObj [(''kcal'', JInt 620)]), (''sum_var'', JObj [(''kcal'', JInt 9)])]"

definition FORBIDDEN_FIELD_NAMES :: "string list" where
  "FORBIDDEN_FIELD_NAMES = [''qr_string'', ''qrString'', ''trust_pub_b64'', ''trustPubB64'', ''snapshot_b64'',
     ''snapshotB64'', ''bundle_b64'', ''bundleB64'', ''sync_bundle'', ''syncBundle'', ''identity_bundle'',
     ''identityBundle'', ''cose_b64'', ''coseB64'', ''trust_material'', ''trustMaterial'']"

definition pilot_err :: "string \<Rightarrow> string" where
  "pilot_err s = ''SDK_LOCAL_FOOD_PILOT_REPORT_ERR_'' @ s"

subsection \<open>Forbidden fields\<close>

fun reject_forbidden_fields :: "json \<Rightarrow> string \<Rightarrow> unit res" where
  "reject_forbidden_fields (JObj d) path =
     forE (\<lambda>(k, x).
       if k \<in> set FORBIDDEN_FIELD_NAMES \<and> path \<noteq> ''$.artifacts''
       then stop (pilot_err ''FORBIDDEN_FIELD: '' @ path_key path k)
       else reject_forbidden_fields x (path_key path k)) d"
| "reject_forbidden_fields (JArr xs) path =
     forE (\<lambda>(i, x). reject_forbidden_fields x (path_idx path i)) (enum xs)"
| "reject_forbidden_fields _ path = Inr ()"

interpretation pilot_guard: field_guard reject_forbidden_fields
  "\<lambda>k. k \<in> set FORBIDDEN_FIELD_NAMES" "''$.artifacts''"
  by unfold_locales (auto simp: res_simps)

subsection \<open>The SDK proof\<close>

definition validate_sdk_proof :: "env \<Rightarrow> string \<Rightarrow> string \<Rightarrow> unit res" where
  "validate_sdk_proof w report_path sdk_proof_path =
     (let proof_path = path_join (path_parent report_path) sdk_proof_path in
      bindE (report_load w proof_path (pilot_err ''PROOF_JSON: '' @ proof_path)) (\<lambda>v.
      bindE (report_object v (pilot_err ''PROOF_OBJECT'')) (\<lambda>prf.
      thenE (checks
        [(fld prf ''schema'' = JStr PROOF_SCHEMA, pilot_err ''PROOF_SCHEMA''),
         (fld prf ''fixture_id'' = JStr ''food-local-pilot.valid.v1'', pilot_err ''PROOF_FIXTURE''),
         (fld prf ''profile_id'' = JStr ''food-v0.1'', pilot_err ''PROOF_PROFILE''),
         (py_eq (fld prf ''event_count'') (JInt 1), pilot_err ''PROOF_EVENT_COUNT''),
         (is_true (fld prf ''reducer_pass''), pilot_err ''PROOF_REDUCER''),
         (py_eq (fld prf ''reducer_diag'') (JArr []), pilot_err ''PROOF_REDUCER''),
         (py_eq (fld prf ''reducer_out'') EXPECTED_REDUCER, pilot_err ''PROOF_REDUCER'')])
     (bindE (report_string (fld prf ''proof_sha256'') (pilot_err ''PROOF_SHA'')) (\<lambda>proof_sha.
        checks [(re_fullmatch SHA256_RE proof_sha, pilot_err ''PROOF_SHA'')])))))"

subsection \<open>The report\<close>

definition EXPECTED_BOUNDARIES_pilot :: "(string \<times> string) list" where
  "EXPECTED_BOUNDARIES_pilot =
     [(''publication_boundary'', ''local-source-validation-only''),
      (''external_apps'', ''not_required''),
      (''external_devices'', ''not_required''),
      (''external_credentials'', ''not_required''),
      (''registry_publication'', ''not_included''),
      (''app_store_publication'', ''not_included''),
      (''play_console_publication'', ''not_included'')]"

definition pilot_header :: "dict \<Rightarrow> string option \<Rightarrow> bool \<Rightarrow> unit res" where
  "pilot_header report expected_commit require_clean =
     thenE (checks [(fld report ''schema'' = JStr SCHEMA_pilot, pilot_err ''SCHEMA'')])
    (bindE (report_string (fld report ''commit'') (pilot_err ''COMMIT'')) (\<lambda>commit.
     thenE (checks
       [(re_fullmatch HEX_SHA_RE commit, pilot_err ''COMMIT''),
        (expected_commit = None \<or> expected_commit = Some commit, pilot_err ''COMMIT_MISMATCH''),
        (is_bool (fld report ''dirty''), pilot_err ''DIRTY''),
        (require_clean \<longrightarrow> is_false (fld report ''dirty''), pilot_err ''DIRTY'')])
       (checks (map (\<lambda>(field, expected).
          (fld report field = JStr expected, pilot_err ''BOUNDARY: '' @ field)) EXPECTED_BOUNDARIES_pilot))))"

definition pilot_flow :: "json \<Rightarrow> unit res" where
  "pilot_flow flow =
     thenE (checks [(all_strs flow, pilot_err ''FLOW'')])
       (forE (\<lambda>required.
          bindE (str_in required flow) (\<lambda>b. checks [(b, pilot_err ''FLOW: '' @ required)]))
        REQUIRED_CHECKS_pilot)"

definition pilot_artifact :: "string \<times> json \<Rightarrow> unit res" where
  "pilot_artifact = (\<lambda>(name, v).
     bindE (report_string v (pilot_err ''ARTIFACT_PATH: '' @ name)) (\<lambda>artifact_path.
     case map_of REQUIRED_ARTIFACTS_pilot name of
       None \<Rightarrow> Inl (KeyError name)
     | Some expected \<Rightarrow> checks
        [(artifact_path = expected, pilot_err ''ARTIFACT_PATH: '' @ name),
         (\<not> starts_with artifact_path ''/'', pilot_err ''ABSOLUTE_ARTIFACT: '' @ name)]))"

definition pilot_artifacts :: "json \<Rightarrow> dict res" where
  "pilot_artifacts v =
     bindE (report_object v (pilot_err ''ARTIFACTS'')) (\<lambda>artifacts.
     thenE (checks [(keys_exact artifacts (map fst REQUIRED_ARTIFACTS_pilot), pilot_err ''ARTIFACTS'')])
    (thenE (forE pilot_artifact artifacts) (Inr artifacts)))"

definition pilot_check :: "string \<times> json \<Rightarrow> unit res" where
  "pilot_check = (\<lambda>(name, raw_check).
     bindE (report_object raw_check (pilot_err ''CHECK_OBJECT: '' @ name)) (\<lambda>check.
     bindE (report_string (fld check ''status'') (pilot_err ''CHECK_STATUS: '' @ name)) (\<lambda>status.
     thenE (checks [(status \<in> set ALLOWED_CHECK_STATUSES, pilot_err ''CHECK_STATUS: '' @ name)])
    (bindE (report_string (fld check ''command'') (pilot_err ''CHECK_COMMAND: '' @ name)) (\<lambda>_.
     bindE (report_string (fld check ''output'') (pilot_err ''CHECK_OUTPUT: '' @ name)) (\<lambda>output.
       checks [(\<not> starts_with output ''/'', pilot_err ''ABSOLUTE_OUTPUT: '' @ name),
               (status = ''pass'', pilot_err ''CHECK_STATUS: '' @ name)]))))))"

definition pilot_checks_all :: "json \<Rightarrow> unit res" where
  "pilot_checks_all v =
     bindE (report_object v (pilot_err ''CHECKS'')) (\<lambda>cs.
     thenE (checks [(has_keys cs REQUIRED_CHECKS_pilot, pilot_err ''CHECKS'')])
       (forE pilot_check cs))"

definition pilot_tail :: "dict \<Rightarrow> unit res" where
  "pilot_tail report =
     bindE (report_object (fld report ''reducer'') (pilot_err ''REDUCER'')) (\<lambda>reducer.
     thenE (checks [(py_eq (fld reducer ''expected'') EXPECTED_REDUCER, pilot_err ''REDUCER''),
                    (py_eq (fld reducer ''actual'') EXPECTED_REDUCER, pilot_err ''REDUCER'')])
    (bindE (report_object (fld report ''safe_report'') (pilot_err ''SAFE_REPORT'')) (\<lambda>safe_report.
     thenE (checks [(keys_exact safe_report REQUIRED_SAFE_REPORT, pilot_err ''SAFE_REPORT'')])
    (thenE (checks (map (\<lambda>(name, v). (v = JStr ''not_included'', pilot_err ''SAFE_REPORT: '' @ name)) safe_report))
       (checks [(fld report ''residual_gaps'' = JArr [], pilot_err ''RESIDUAL_GAPS'')])))))"

definition validate_report_pilot :: "env \<Rightarrow> string \<Rightarrow> string option \<Rightarrow> bool \<Rightarrow> unit res" where
  "validate_report_pilot w p expected_commit require_clean =
     bindE (report_load w p (pilot_err ''JSON: '' @ p)) (\<lambda>v.
     bindE (report_object v (pilot_err ''OBJECT: '' @ p)) (\<lambda>report.
     thenE (reject_forbidden_fields (JObj report) ''$'')
    (thenE (pilot_header report expected_commit require_clean)
    (thenE (pilot_flow (fld report ''flow''))
    (bindE (pilot_artifacts (fld report ''artifacts'')) (\<lambda>artifacts.
     thenE (pilot_checks_all (fld report ''checks''))
    (thenE (pilot_tail report)
    (bindE (dict_index artifacts ''sdk_proof'') (\<lambda>sdk_proof.
       validate_sdk_proof w p (json_str sdk_proof))))))))))"

definition food_pilot_main :: "env \<Rightarrow> string \<Rightarrow> string option \<Rightarrow> bool \<Rightarrow> string res" where
  "food_pilot_main w report expected_commit require_clean =
     thenE (validate_report_pilot w (path_str report) expected_commit require_clean)
       (Inr ''local Food pilot report: PASS'')"

subsection \<open>Properties\<close>

lemma strip_pass: "str_strip ''pass'' = ''pass''"
  by (simp add: str_strip_def str_lstrip_def chr_is_space_def)

lemma pilot_check_pass:
  assumes "pilot_check (name, v) = Inr ()"
  shows "\<exists>check out. v = JObj check \<and> fld check ''status'' = JStr ''pass'' \<and>
    fld check ''output'' = JStr out \<and> \<not> starts_with out ''/''"
proof -
  from assms obtain check status out where "v = JObj check" "fld check ''status'' = JStr status"
      "fld check ''output'' = JStr out" "\<not> starts_with out ''/''" "status = ''pass''"
    unfolding pilot_check_def by (auto simp: res_simps)
  then show ?thesis by blast
qed

lemma pilot_artifact_file:
  assumes "pilot_artifacts v = Inr a" and "(n, x) \<in> set a"
  shows "\<exists>f. x = JStr f \<and> map_of REQUIRED_ARTIFACTS_pilot n = Some f"
proof -
  from assms have "pilot_artifact (n, x) = Inr ()"
    unfolding pilot_artifacts_def by (auto simp: res_simps)
  then show ?thesis unfolding pilot_artifact_def by (auto simp: res_simps split: option.splits)
qed

text \<open>The walk over a report rejects exactly the reports that have a forbidden key somewhere
other than directly under the artifacts of the root: every key of every dict at every depth is
looked at, and no other position is exempt.\<close>

theorem pilot_forbidden_fields_iff:
  assumes "wf_json v"
  shows "reject_forbidden_fields v ''$'' = Inr () \<longleftrightarrow>
    (\<forall>ps d k. value_at v ps = Some (JObj d) \<and> has_key d k \<and> k \<in> set FORBIDDEN_FIELD_NAMES \<longrightarrow>
       ps = [Key ''artifacts''])"
  by (rule pilot_guard.guard_exempt [OF assms]) (simp_all add: path_key_def)

theorem pilot_forbidden_fields_iff_witness:
  "reject_forbidden_fields (JObj [(''artifacts'', JObj [(''logs'', JNull)])]) ''$'' = Inr ()"
proof -
  let ?v = "JObj [(''artifacts'', JObj [(''logs'', JNull)])]"
  have "wf_json ?v" by simp
  moreover have "\<forall>ps d k. value_at ?v ps = Some (JObj d) \<and> has_key d k \<and> k \<in> set FORBIDDEN_FIELD_NAMES \<longrightarrow>
       ps = [Key ''artifacts'']"
  proof (intro allI impI, elim conjE)
    fix ps d k
    assume at: "value_at ?v ps = Some (JObj d)" "has_key d k" "k \<in> set FORBIDDEN_FIELD_NAMES"
    from at(1) have "sub_value (JObj d) ?v" by (rule value_at_sub_value)
    then have "d = [(''artifacts'', JObj [(''logs'', JNull)])] \<or> d = [(''logs'', JNull)]"
      by (auto simp: sub_value_dict)
    with at(2,3) show "ps = [Key ''artifacts'']" by (auto simp: has_key_def FORBIDDEN_FIELD_NAMES_def)
  qed
  ultimately show ?thesis using pilot_forbidden_fields_iff by blast
qed

text \<open>An accepted pilot report comes with evidence: every check it lists passed and leaves its
output at a relative place, its tree was clean where that was asked for, the commit is the
expected one, and the proof file beside the report holds the reducer output that the report
claims, with a SHA-256 digest.\<close>

theorem pilot_report_evidence:
  assumes "validate_report_pilot w p expected_commit require_clean = Inr ()"
  shows "\<exists>report cs prf sha. document w p = Some (JObj report) \<and>
    fld report ''checks'' = JObj cs \<and> set REQUIRED_CHECKS_pilot \<subseteq> set (dict_keys cs) \<and>
    (\<forall>(name, v)\<in>set cs. \<exists>check out. v = JObj check \<and> fld check ''status'' = JStr ''pass'' \<and>
       fld check ''output'' = JStr out \<and> \<not> starts_with out ''/'') \<and>
    (require_clean \<longrightarrow> fld report ''dirty'' = JBool False) \<and>
    (\<forall>c. expected_commit = Some c \<longrightarrow> fld report ''commit'' = JStr c) \<and>
    document w (path_join (path_parent p) ''local-food-pilot-sdk-proof.json'') = Some (JObj prf) \<and>
    py_eq (fld prf ''reducer_out'') EXPECTED_REDUCER \<and> fld prf ''reducer_pass'' = JBool True \<and>
    fld prf ''proof_sha256'' = JStr sha \<and> length sha = 64 \<and> list_all chr_is_hex sha"
proof -
  from assms obtain report artifacts sdk_proof where
      doc: "document w p = Some (JObj report)"
    and hd: "pilot_header report expected_commit require_clean = Inr ()"
    and art: "pilot_artifacts (fld report ''artifacts'') = Inr artifacts"
    and chk: "pilot_checks_all (fld report ''checks'') = Inr ()"
    and idx: "map_of artifacts ''sdk_proof'' = Some sdk_proof"
    and sdk: "validate_sdk_proof w p (json_str sdk_proof) = Inr ()"
    unfolding validate_report_pilot_def
    by (auto simp: bindE_Inr thenE_Inr report_load_Inr report_object_Inr dict_index_Inr)
  from chk obtain cs where cs: "fld report ''checks'' = JObj cs" "has_keys cs REQUIRED_CHECKS_pilot"
      "\<forall>c\<in>set cs. pilot_check c = Inr ()"
    unfolding pilot_checks_all_def by (auto simp: res_simps)
  have req: "set REQUIRED_CHECKS_pilot \<subseteq> set (dict_keys cs)"
    using cs(2) by (auto simp: has_keys_def has_key_def dict_keys_def list_all_iff)
  have passed: "\<forall>(name, v)\<in>set cs. \<exists>check out. v = JObj check \<and> fld check ''status'' = JStr ''pass'' \<and>
       fld check ''output'' = JStr out \<and> \<not> starts_with out ''/''"
    using cs(3) pilot_check_pass by blast
  from pilot_artifact_file [OF art map_of_SomeD [OF idx]]
  have fname: "json_str sdk_proof = ''local-food-pilot-sdk-proof.json''"
    by (auto simp: REQUIRED_ARTIFACTS_pilot_def)
  from sdk obtain d sha where d: "document w (path_join (path_parent p) ''local-food-pilot-sdk-proof.json'') = Some (JObj d)"
      "py_eq (fld d ''reducer_out'') EXPECTED_REDUCER" "fld d ''reducer_pass'' = JBool True"
      "fld d ''proof_sha256'' = JStr sha" "re_fullmatch SHA256_RE sha"
    unfolding validate_sdk_proof_def fname Let_def by (auto simp: res_simps is_true_def)
  from hd have "require_clean \<longrightarrow> fld report ''dirty'' = JBool False"
      "\<forall>c. expected_commit = Some c \<longrightarrow> fld report ''commit'' = JStr c"
    unfolding pilot_header_def by (auto simp: res_simps is_false_def)
  with doc cs(1) req passed d show ?thesis
    by (intro exI [of _ report] exI [of _ cs] exI [of _ d] exI [of _ sha])
       (simp add: SHA256_RE_def fullmatch_hex_re)
qed

definition pilot_example :: json where
  "pilot_example = JObj
     ([(''schema'', JStr SCHEMA_pilot), (''commit'', JStr (replicate 40 CHR ''a'')), (''dirty'', JBool False)] @
      map (\<lambda>(k, v). (k, JStr v)) EXPECTED_BOUNDARIES_pilot @
      [(''flow'', JArr (map JStr REQUIRED_CHECKS_pilot)),
       (''artifacts'', JObj (map (\<lambda>(n, f). (n, JStr f)) REQUIRED_ARTIFACTS_pilot)),
       (''checks'', JObj (map (\<lambda>n. (n, JObj [(''status'', JStr ''pass''), (''command'', JStr ''make''),
          (''output'', JStr ''logs'')])) REQUIRED_CHECKS_pilot)),
       (''reducer'', JObj [(''expected'', EXPECTED_REDUCER), (''actual'', EXPECTED_REDUCER)]),
       (''safe_report'', JObj (map (\<lambda>n. (n, JStr ''not_included'')) REQUIRED_SAFE_REPORT)),
       (''residual_gaps'', JArr [])])"

definition pilot_proof_example :: json where
  "pilot_proof_example = JObj
     [(''schema'', JStr PROOF_SCHEMA), (''fixture_id'', JStr ''food-local-pilot.valid.v1''),
      (''profile_id'', JStr ''food-v0.1''), (''event_count'', JInt 1), (''reducer_pass'', JBool True),
      (''reducer_diag'', JArr []), (''reducer_out'', EXPECTED_REDUCER),
      (''proof_sha256'', JStr (replicate 64 CHR ''b''))]"

definition pilot_world :: env where
  "pilot_world = docs_env [(''out/report.json'', pilot_example),
     (''out/local-food-pilot-sdk-proof.json'', pilot_proof_example)]"

lemmas pilot_constants = SCHEMA_pilot_def EXPECTED_BOUNDARIES_pilot_def REQUIRED_CHECKS_pilot_def
  REQUIRED_ARTIFACTS_pilot_def REQUIRED_SAFE_REPORT_def EXPECTED_REDUCER_def PROOF_SCHEMA_def

lemma pilot_example_parts:
  "reject_forbidden_fields pilot_example ''$'' = Inr ()"
  "pilot_flow (JArr (map JStr REQUIRED_CHECKS_pilot)) = Inr ()"
  by (simp_all add: pilot_example_def pilot_constants FORBIDDEN_FIELD_NAMES_def path_key_def path_idx_def enum_def
      pilot_flow_def all_strs_def str_in_arr_def)

lemma pilot_example_fields:
  "\<exists>report. pilot_example = JObj report \<and>
     pilot_header report (Some (replicate 40 CHR ''a'')) True = Inr () \<and>
     fld report ''flow'' = JArr (map JStr REQUIRED_CHECKS_pilot) \<and>
     pilot_artifacts (fld report ''artifacts'') = Inr (map (\<lambda>(n, f). (n, JStr f)) REQUIRED_ARTIFACTS_pilot) \<and>
     pilot_checks_all (fld report ''checks'') = Inr () \<and> pilot_tail report = Inr ()"
  apply (simp add: pilot_example_def)
  apply (intro conjI)
  subgoal by (simp add: pilot_header_def dict_get_def pilot_constants report_string_def strip_replicate
     HEX_SHA_RE_def fullmatch_hex_re chr_is_space_def chr_is_hex_def list_all_iff is_false_def)
  subgoal by (simp add: dict_get_def pilot_constants)
  subgoal by (simp add: dict_get_def pilot_constants pilot_artifacts_def report_object_def keys_exact_def
      keys_subset_def has_keys_def has_key_def dict_keys_def pilot_artifact_def report_string_def
      str_strip_def str_lstrip_def chr_is_space_def starts_with_def)
  subgoal by (simp add: dict_get_def pilot_constants pilot_checks_all_def report_object_def
      has_keys_def has_key_def pilot_check_def report_string_def ALLOWED_CHECK_STATUSES_def
      str_strip_def str_lstrip_def chr_is_space_def starts_with_def)
  subgoal by (simp add: dict_get_def pilot_constants pilot_tail_def report_object_def
      has_keys_def has_key_def keys_exact_def keys_subset_def dict_keys_def num_eq_def)
  done

lemma pilot_parent: "path_parent ''out/report.json'' = ''out''"
  by code_simp

lemma pilot_world_documents:
  "report_load pilot_world ''out/report.json'' msg = Inr pilot_example"
  "report_load pilot_world ''out/local-food-pilot-sdk-proof.json'' msg = Inr pilot_proof_example"
  by (simp_all add: report_load_Inr pilot_world_def)

lemma pilot_proof_ok:
  "validate_sdk_proof pilot_world ''out/report.json'' ''local-food-pilot-sdk-proof.json'' = Inr ()"
  by (simp add: validate_sdk_proof_def Let_def pilot_parent path_join_def pilot_world_documents
      pilot_proof_example_def report_object_def dict_get_def pilot_constants num_eq_def is_true_def
      report_string_def strip_replicate chr_is_space_def SHA256_RE_def fullmatch_hex_re chr_is_hex_def list_all_iff)

lemma pilot_example_ok:
  "validate_report_pilot pilot_world ''out/report.json'' (Some (replicate 40 CHR ''a'')) True = Inr ()"
proof -
  from pilot_example_fields obtain report where r: "pilot_example = JObj report"
      "pilot_header report (Some (replicate 40 CHR ''a'')) True = Inr ()"
      "fld report ''flow'' = JArr (map JStr REQUIRED_CHECKS_pilot)"
      "pilot_artifacts (fld report ''artifacts'') = Inr (map (\<lambda>(n, f). (n, JStr f)) REQUIRED_ARTIFACTS_pilot)"
      "pilot_checks_all (fld report ''checks'') = Inr ()" "pilot_tail report = Inr ()" by blast
  have "dict_index (map (\<lambda>(n, f). (n, JStr f)) REQUIRED_ARTIFACTS_pilot) ''sdk_proof'' =
      Inr (JStr ''local-food-pilot-sdk-proof.json'')"
    by (simp add: dict_index_def REQUIRED_ARTIFACTS_pilot_def)
  with r(2-) pilot_example_parts pilot_proof_ok show ?thesis
    unfolding validate_report_pilot_def pilot_world_documents r(1)
    by (simp add: report_object_def del: reject_forbidden_fields.simps)
qed

theorem pilot_report_evidence_witness:
  "\<exists>report. document pilot_world ''out/report.json'' = Some (JObj report) \<and>
     fld report ''commit'' = JStr (replicate 40 CHR ''a'')"
  using pilot_report_evidence [OF pilot_example_ok] by blast

end
