(* ===== verification/ScannerFlow.thy ===== *)
theory ScannerFlow
  imports ReportScan
begin

text \<open>
  \<open>tools/ci/check_local_scanner_flow_report.py\<close>: the shape of the local scanner report. It has two
  modes: in the strict one every check must have passed, in the automatic one a check may fail
  or lack its prerequisites. Loops over Python sets take the order of the list here.
\<close>

subsection \<open>Constants\<close>

definition SCHEMA_flow :: string where "SCHEMA_flow = ''grain.sdk.local_scanner_flow.v1''"
definition HEX_SHA_RE_flow :: "char regex" where "HEX_SHA_RE_flow = hex_re 40"

definition ALLOWED_CHECK_STATUSES_flow :: "string list" where
  "ALLOWED_CHECK_STATUSES_flow = [''pass'', ''fail'', ''unsupported_prereq'']"

definition REQUIRED_CHECKS_flow :: "string list" where
  "REQUIRED_CHECKS_flow = [''sdk_doctor'', ''issuer_qr'', ''local_trust_bundle'', ''scanner_examples'']"

definition REQUIRED_ARTIFACTS_flow :: "(string \<times> string) list" where
  "REQUIRED_ARTIFACTS_flow =
     [(''issuer_output'', ''issuer-output.json''), (''qr_string'', ''qr-string.txt''),
      (''trust_bundle'', ''local-trust-bundle.json''), (''logs'', ''logs'')]"

definition REQUIRED_SAFE_REPORT_flow :: "string list" where
  "REQUIRED_SAFE_REPORT_flow =
     [''raw_qr_string'', ''raw_trust_material'', ''raw_snapshot_material'', ''raw_sync_material'']"

definition FORBIDDEN_FIELD_NAMES_flow :: "string list" where
  "FORBIDDEN_FIELD_NAMES_flow = [''qr_string'', ''qrString'', ''trust_pub_b64'', ''trustPubB64'', ''snapshot_b64'',
     ''snapshotB64'', ''bundle_b64'', ''bundleB64'', ''sync_bundle'', ''syncBundle'', ''identity_bundle'',
     ''identityBundle'', ''cose_b64'', ''coseB64'', ''trust_material'', ''trustMaterial'']"

definition flow_err :: "string \<Rightarrow> string" where
  "flow_err s = ''SDK_LOCAL_FLOW_REPORT_ERR_'' @ s"

subsection \<open>Forbidden fields\<close>

fun reject_forbidden_fields_flow :: "json \<Rightarrow> string \<Rightarrow> unit res" where
  "reject_forbidden_fields_flow (JObj d) path =
     forE (\<lambda>(k, x).
       if k \<in> set FORBIDDEN_FIELD_NAMES_flow \<and> path \<noteq> ''$.artifacts''
       then stop (flow_err ''FORBIDDEN_FIELD: '' @ path_key path k)
       else reject_forbidden_fields_flow x (path_key path k)) d"
| "reject_forbidden_fields_flow (JArr xs) path =
     forE (\<lambda>(i, x). reject_forbidden_fields_flow x (path_idx path i)) (enum xs)"
| "reject_forbidden_fields_flow _ path = Inr ()"

interpretation flow_guard: field_guard reject_forbidden_fields_flow
  "\<lambda>k. k \<in> set FORBIDDEN_FIELD_NAMES_flow" "''$.artifacts''"
  by unfold_locales (fastforce simp: res_simps)+

subsection \<open>The report\<close>

definition EXPECTED_BOUNDARIES_flow :: "(string \<times> string) list" where
  "EXPECTED_BOUNDARIES_flow =
     [(''publication_boundary'', ''local-source-validation-only''),
      (''external_credentials'', ''not_required''),
      (''paid_developer_accounts'', ''not_required''),
      (''registry_publication'', ''not_included''),
      (''app_store_publication'', ''not_included''),
      (''play_console_publication'', ''not_included'')]"

text \<open>Returns the mode of the report.\<close>

definition flow_header :: "dict \<Rightarrow> string option \<Rightarrow> bool \<Rightarrow> string res" where
  "flow_header report expected_commit require_strict =
     thenE (checks [(fld report ''schema'' = JStr SCHEMA_flow, flow_err ''SCHEMA'')])
    (bindE (report_string (fld report ''commit'') (flow_err ''COMMIT'')) (\<lambda>commit.
     thenE (checks
       [(re_fullmatch HEX_SHA_RE_flow commit, flow_err ''COMMIT''),
        (expected_commit = None \<or> expected_commit = Some commit, flow_err ''COMMIT_MISMATCH''),
        (is_bool (fld report ''dirty''), flow_err ''DIRTY'')])
    (bindE (report_string (fld report ''mode'') (flow_err ''MODE'')) (\<lambda>mode.
     thenE (checks
       [(mode \<in> {''auto'', ''strict''}, flow_err ''MODE''),
        (require_strict \<longrightarrow> mode = ''strict'', flow_err ''STRICT_REQUIRED'')])
    (thenE (checks (map (\<lambda>(field, expected).
       (fld report field = JStr expected, flow_err ''BOUNDARY: '' @ field)) EXPECTED_BOUNDARIES_flow))
       (Inr mode))))))"

definition flow_steps :: "json \<Rightarrow> unit res" where
  "flow_steps flow =
     thenE (checks [(all_strs flow, flow_err ''FLOW'')])
       (forE (\<lambda>required.
          bindE (str_in required flow) (\<lambda>b. checks [(b, flow_err ''FLOW: '' @ required)]))
        REQUIRED_CHECKS_flow)"

definition flow_artifact :: "string \<times> json \<Rightarrow> unit res" where
  "flow_artifact = (\<lambda>(name, v).
     bindE (report_string v (flow_err ''ARTIFACT_PATH: '' @ name)) (\<lambda>artifact_path.
     case map_of REQUIRED_ARTIFACTS_flow name of
       None \<Rightarrow> Inl (KeyError name)
     | Some expected \<Rightarrow> checks
        [(artifact_path = expected, flow_err ''ARTIFACT_PATH: '' @ name),
         (\<not> starts_with artifact_path ''/'', flow_err ''ABSOLUTE_ARTIFACT: '' @ name)]))"

definition flow_artifacts :: "json \<Rightarrow> unit res" where
  "flow_artifacts v =
     bindE (report_object v (flow_err ''ARTIFACTS'')) (\<lambda>artifacts.
     thenE (checks [(keys_exact artifacts (map fst REQUIRED_ARTIFACTS_flow), flow_err ''ARTIFACTS'')])
       (forE flow_artifact artifacts))"

definition flow_check :: "bool \<Rightarrow> string \<times> json \<Rightarrow> unit res" where
  "flow_check strict = (\<lambda>(name, raw_check).
     bindE (report_object raw_check (flow_err ''CHECK_OBJECT: '' @ name)) (\<lambda>check.
     bindE (report_string (fld check ''status'') (flow_err ''CHECK_STATUS: '' @ name)) (\<lambda>status.
     thenE (checks [(status \<in> set ALLOWED_CHECK_STATUSES_flow, flow_err ''CHECK_STATUS: '' @ name)])
    (bindE (report_string (fld check ''command'') (flow_err ''CHECK_COMMAND: '' @ name)) (\<lambda>_.
     bindE (report_string (fld check ''output'') (flow_err ''CHECK_OUTPUT: '' @ name)) (\<lambda>output.
     thenE (checks
       [(\<not> starts_with output ''/'', flow_err ''ABSOLUTE_OUTPUT: '' @ name),
        (\<not> (status \<noteq> ''pass'' \<and> strict), flow_err ''CHECK_STATUS: '' @ name)])
       (if status = ''unsupported_prereq''
        then bindE (report_string (fld check ''reason'') (flow_err ''CHECK_REASON: '' @ name)) (\<lambda>_. Inr ())
        else Inr ())))))))"

definition flow_checks :: "bool \<Rightarrow> json \<Rightarrow> unit res" where
  "flow_checks strict v =
     bindE (report_object v (flow_err ''CHECKS'')) (\<lambda>cs.
     thenE (checks [(has_keys cs REQUIRED_CHECKS_flow, flow_err ''CHECKS'')])
    (thenE (forE (flow_check strict) cs)
    (bindE (report_object (fld cs ''scanner_examples'') (flow_err ''SCANNER_EXAMPLES'')) (\<lambda>scanner.
     case fld scanner ''platforms'' of
       JArr platforms \<Rightarrow>
         thenE (checks [(platforms \<noteq> [], flow_err ''SCANNER_PLATFORMS'')])
           (checks (map (\<lambda>p. (str_in_arr p platforms, flow_err ''SCANNER_PLATFORMS: '' @ p))
              [''ios-scanner'', ''android-scanner'', ''wasm-scanner'']))
     | _ \<Rightarrow> stop (flow_err ''SCANNER_PLATFORMS'')))))"

definition flow_tail :: "dict \<Rightarrow> unit res" where
  "flow_tail report =
     bindE (report_object (fld report ''safe_report'') (flow_err ''SAFE_REPORT'')) (\<lambda>safe_report.
     thenE (checks [(keys_exact safe_report REQUIRED_SAFE_REPORT_flow, flow_err ''SAFE_REPORT'')])
    (thenE (checks (map (\<lambda>(name, v). (v = JStr ''not_included'', flow_err ''SAFE_REPORT: '' @ name)) safe_report))
       (checks [(is_list (fld report ''residual_gaps''), flow_err ''RESIDUAL_GAPS'')])))"

definition validate_report_flow :: "env \<Rightarrow> string \<Rightarrow> string option \<Rightarrow> bool \<Rightarrow> unit res" where
  "validate_report_flow w p expected_commit require_strict =
     bindE (report_load w p (flow_err ''JSON: '' @ p)) (\<lambda>v.
     bindE (report_object v (flow_err ''OBJECT: '' @ p)) (\<lambda>report.
     thenE (reject_forbidden_fields_flow (JObj report) ''$'')
    (bindE (flow_header report expected_commit require_strict) (\<lambda>mode.
     thenE (flow_steps (fld report ''flow''))
    (thenE (flow_artifacts (fld report ''artifacts''))
    (thenE (flow_checks (require_strict \<or> mode = ''strict'') (fld report ''checks''))
       (flow_tail report)))))))"

definition scanner_flow_main :: "env \<Rightarrow> string \<Rightarrow> string option \<Rightarrow> bool \<Rightarrow> string res" where
  "scanner_flow_main w report expected_commit require_strict =
     thenE (validate_report_flow w (path_str report) expected_commit require_strict)
       (Inr ''local scanner flow report: PASS'')"

subsection \<open>Properties\<close>

lemma flow_check_status:
  assumes "flow_check strict (name, v) = Inr ()"
  shows "\<exists>check s. v = JObj check \<and> fld check ''status'' = JStr s \<and> (strict \<longrightarrow> s = ''pass'') \<and>
    (s = ''unsupported_prereq'' \<longrightarrow> (\<exists>r. fld check ''reason'' = JStr r \<and> r \<noteq> []))"
proof -
  from assms obtain check s where c: "v = JObj check" "fld check ''status'' = JStr s" "strict \<longrightarrow> s = ''pass''"
      "(if s = ''unsupported_prereq''
        then bindE (report_string (fld check ''reason'') (flow_err ''CHECK_REASON: '' @ name)) (\<lambda>_. Inr ())
        else Inr ()) = Inr ()"
    unfolding flow_check_def by (auto simp: res_simps)
  from c(4) have "s = ''unsupported_prereq'' \<longrightarrow> (\<exists>r. fld check ''reason'' = JStr r \<and> r \<noteq> [])"
    by (auto simp: res_simps split: if_splits)
  with c show ?thesis by blast
qed


text \<open>An accepted scanner report is honest about what ran: in strict mode, whether the report or the
caller asks for it, every check passed; in automatic mode a check without its prerequisites gives
the reason; and in both modes the forbidden fields are nowhere outside the artifacts.\<close>

theorem scanner_flow_report:
  assumes "validate_report_flow w p expected_commit require_strict = Inr ()"
    and "\<And>v. document w p = Some v \<Longrightarrow> wf_json v"
  shows "\<exists>report cs. document w p = Some (JObj report) \<and> fld report ''checks'' = JObj cs \<and>
    set REQUIRED_CHECKS_flow \<subseteq> set (dict_keys cs) \<and>
    (\<forall>(name, v)\<in>set cs. \<exists>check s. v = JObj check \<and> fld check ''status'' = JStr s \<and>
       (require_strict \<or> fld report ''mode'' = JStr ''strict'' \<longrightarrow> s = ''pass'') \<and>
       (s = ''unsupported_prereq'' \<longrightarrow> (\<exists>r. fld check ''reason'' = JStr r \<and> r \<noteq> []))) \<and>
    (require_strict \<longrightarrow> fld report ''mode'' = JStr ''strict'') \<and>
    (\<forall>ps d k. value_at (JObj report) ps = Some (JObj d) \<and> has_key d k \<and>
       k \<in> set FORBIDDEN_FIELD_NAMES_flow \<longrightarrow> ps = [Key ''artifacts''])"
proof -
  from assms(1) obtain report mode where doc: "document w p = Some (JObj report)"
    and guard: "reject_forbidden_fields_flow (JObj report) ''$'' = Inr ()"
    and hd: "flow_header report expected_commit require_strict = Inr mode"
    and chk: "flow_checks (require_strict \<or> mode = ''strict'') (fld report ''checks'') = Inr ()"
    unfolding validate_report_flow_def
    by (auto simp: bindE_Inr thenE_Inr report_load_Inr report_object_Inr del: reject_forbidden_fields_flow.simps)
  from hd have mode: "fld report ''mode'' = JStr mode" "require_strict \<longrightarrow> mode = ''strict''"
    unfolding flow_header_def by (auto simp: res_simps)
  from chk obtain cs where cs: "fld report ''checks'' = JObj cs" "has_keys cs REQUIRED_CHECKS_flow"
      "\<forall>c\<in>set cs. flow_check (require_strict \<or> mode = ''strict'') c = Inr ()"
    unfolding flow_checks_def by (auto simp: res_simps)
  have status: "\<forall>(name, v)\<in>set cs. \<exists>check s. v = JObj check \<and> fld check ''status'' = JStr s \<and>
       (require_strict \<or> fld report ''mode'' = JStr ''strict'' \<longrightarrow> s = ''pass'') \<and>
       (s = ''unsupported_prereq'' \<longrightarrow> (\<exists>r. fld check ''reason'' = JStr r \<and> r \<noteq> []))"
    unfolding mode(1) json.inject using cs(3) flow_check_status by blast
  have fields: "\<forall>ps d k. value_at (JObj report) ps = Some (JObj d) \<and> has_key d k \<and>
       k \<in> set FORBIDDEN_FIELD_NAMES_flow \<longrightarrow> ps = [Key ''artifacts'']"
    using guard flow_guard.guard_exempt [OF assms(2) [OF doc], of "''$''" "''artifacts''"]
    by (simp add: path_key_def)
  have "set REQUIRED_CHECKS_flow \<subseteq> set (dict_keys cs)"
    using cs(2) by (auto simp: has_keys_def has_key_def dict_keys_def list_all_iff)
  with doc cs(1) status mode fields show ?thesis by (intro exI [of _ report] exI [of _ cs]) simp
qed

definition flow_example :: json where
  "flow_example = JObj
     ([(''schema'', JStr SCHEMA_flow), (''commit'', JStr (replicate 40 CHR ''a'')), (''dirty'', JBool False),
       (''mode'', JStr ''strict'')] @
      map (\<lambda>(k, v). (k, JStr v)) EXPECTED_BOUNDARIES_flow @
      [(''flow'', JArr (map JStr REQUIRED_CHECKS_flow)),
       (''artifacts'', JObj (map (\<lambda>(n, f). (n, JStr f)) REQUIRED_ARTIFACTS_flow)),
       (''checks'', JObj (map (\<lambda>n. (n, JObj [(''status'', JStr ''pass''), (''command'', JStr ''make''),
          (''output'', JStr ''logs''),
          (''platforms'', JArr (map JStr [''ios-scanner'', ''android-scanner'', ''wasm-scanner'']))]))
          REQUIRED_CHECKS_flow)),
       (''safe_report'', JObj (map (\<lambda>n. (n, JStr ''not_included'')) REQUIRED_SAFE_REPORT_flow)),
       (''residual_gaps'', JArr [])])"

lemmas flow_constants = SCHEMA_flow_def EXPECTED_BOUNDARIES_flow_def REQUIRED_CHECKS_flow_def
  REQUIRED_ARTIFACTS_flow_def REQUIRED_SAFE_REPORT_flow_def

lemma flow_example_wf: "wf_json flow_example"
  by (simp add: flow_example_def flow_constants)

lemma flow_example_parts:
  "reject_forbidden_fields_flow flow_example ''$'' = Inr ()"
  "flow_steps (JArr (map JStr REQUIRED_CHECKS_flow)) = Inr ()"
  by (simp_all add: flow_example_def flow_constants FORBIDDEN_FIELD_NAMES_flow_def path_key_def path_idx_def
      enum_def flow_steps_def all_strs_def str_in_arr_def)

lemma flow_example_fields:
  "\<exists>report. flow_example = JObj report \<and>
     flow_header report (Some (replicate 40 CHR ''a'')) True = Inr ''strict'' \<and>
     fld report ''flow'' = JArr (map JStr REQUIRED_CHECKS_flow) \<and>
     flow_artifacts (fld report ''artifacts'') = Inr () \<and>
     flow_checks True (fld report ''checks'') = Inr () \<and> flow_tail report = Inr ()"
  apply (simp add: flow_example_def)
  apply (intro conjI)
  subgoal by (simp add: flow_header_def dict_get_def flow_constants report_string_def strip_replicate
     HEX_SHA_RE_flow_def fullmatch_hex_re chr_is_space_def chr_is_hex_def list_all_iff
     str_strip_def [of "''strict''"] str_lstrip_def)
  subgoal by (simp add: dict_get_def flow_constants)
  subgoal by (simp add: dict_get_def flow_constants flow_artifacts_def report_object_def keys_exact_def
      keys_subset_def has_keys_def has_key_def dict_keys_def flow_artifact_def report_string_def
      str_strip_def str_lstrip_def chr_is_space_def starts_with_def)
  subgoal by (simp add: dict_get_def flow_constants flow_checks_def report_object_def
      has_keys_def has_key_def flow_check_def report_string_def ALLOWED_CHECK_STATUSES_flow_def
      str_strip_def str_lstrip_def chr_is_space_def starts_with_def str_in_arr_def)
  subgoal by (simp add: dict_get_def flow_constants flow_tail_def report_object_def
      has_keys_def has_key_def keys_exact_def keys_subset_def dict_keys_def)
  done

lemma flow_example_ok:
  "validate_report_flow (docs_env [(''r'', flow_example)]) ''r'' (Some (replicate 40 CHR ''a'')) True = Inr ()"
proof -
  from flow_example_fields obtain report where r: "flow_example = JObj report"
      "flow_header report (Some (replicate 40 CHR ''a'')) True = Inr ''strict''"
      "fld report ''flow'' = JArr (map JStr REQUIRED_CHECKS_flow)"
      "flow_artifacts (fld report ''artifacts'') = Inr ()"
      "flow_checks True (fld report ''checks'') = Inr ()" "flow_tail report = Inr ()" by blast
  have load: "report_load (docs_env [(''r'', flow_example)]) ''r'' msg = Inr flow_example" for msg
    by (simp add: report_load_Inr)
  from r(2-) flow_example_parts show ?thesis
    unfolding validate_report_flow_def load unfolding r(1)
    by (simp add: report_object_def del: reject_forbidden_fields_flow.simps)
qed

theorem scanner_flow_report_witness:
  "\<exists>report. flow_example = JObj report \<and> fld report ''mode'' = JStr ''strict''"
proof -
  have "wf_json v" if "document (docs_env [(''r'', flow_example)]) ''r'' = Some v" for v
    using that flow_example_wf by simp
  from scanner_flow_report [OF flow_example_ok this] show ?thesis by auto
qed

end
