(* ===== verification/RegistryDryRun.thy ===== *)
theory RegistryDryRun
  imports ReportScan
begin

text \<open>
  \<open>tools/ci/check_registry_dry_run_metadata.py\<close>: the metadata of the registry dry runs must name
  exactly the three local channels, ask for no credentials, and claim no publication in any
  string at any depth.
\<close>

subsection \<open>Constants\<close>

definition SCHEMA_dry :: string where "SCHEMA_dry = ''grain.sdk.registry_dry_run.v1''"
definition COMMIT_RE_dry :: "char regex" where "COMMIT_RE_dry = hex_re 40"

definition chr_is_safe_path :: "char \<Rightarrow> bool" where
  "chr_is_safe_path c = (chr_is_ascii_alpha c \<or> chr_is_ascii_digit c \<or> c \<in> set ''._/-'')"

definition SAFE_RELATIVE_RE :: "char regex" where
  "SAFE_RELATIVE_RE = RSeqs [RBos, RPlus (RCls chr_is_safe_path), RDollar]"

record channel_policy =
  ecosystem :: string
  publication :: "string list"
  policy_tokens :: "string list"

definition EXPECTED_CHANNELS :: "(string \<times> channel_policy) list" where
  "EXPECTED_CHANNELS =
     [(''swiftpm'', \<lparr>ecosystem = ''swiftpm'', publication = [''none''],
         policy_tokens = [''swift'', ''package'', ''describe'']\<rparr>),
      (''maven-local'', \<lparr>ecosystem = ''maven-local'', publication = [''local-dry-run''],
         policy_tokens = [''publishToMavenLocal'', ''--dry-run'']\<rparr>),
      (''npm-pack'', \<lparr>ecosystem = ''npm-pack'', publication = [''pack-only''],
         policy_tokens = [''npm'', ''pack'', ''--dry-run'']\<rparr>)]"

definition ALLOWED_STATUS_dry :: "string list" where
  "ALLOWED_STATUS_dry = [''pass'', ''unsupported_prereq'', ''unsupported_channel'']"

definition FORBIDDEN_PUBLICATION_RE_dry :: "char regex" where
  "FORBIDDEN_PUBLICATION_RE_dry = RAlts
     [spaced [''npm'', ''publish''], spaced [''npm'', ''registry''], spaced [''maven'', ''central''],
      RLitI ''sonatype'', RLitI ''ossrh'', spaced [''github'', ''packages''], spaced [''app'', ''store''],
      spaced [''app'', ''store'', ''connect''], RLitI ''testflight'', spaced [''play'', ''console''],
      spaced [''play'', ''store''], spaced [''store'', ''connect''], spaced [''registry'', ''publish''],
      RSeqs [spaced [''required'', ''credential''], ROpt (RLitI ''s'')],
      RSeqs [RLitI ''credential'', ROpt (RLitI ''s''), dash_spaces, RLitI ''required''],
      RSeqs [spaced [''external'', ''credential''], ROpt (RLitI ''s'')]]"

definition dry_err :: "string \<Rightarrow> string" where
  "dry_err s = ''REGISTRY_DRY_RUN_ERR_'' @ s"

subsection \<open>Fields\<close>

definition safe_relative_path :: "json \<Rightarrow> string \<Rightarrow> string res" where
  "safe_relative_path v field =
     (case v of
        JStr s \<Rightarrow>
          (if s = [] then stop (dry_err (field @ ''_MISSING''))
           else if \<not> path_is_absolute s \<and> ''..'' \<notin> set (path_parts s) \<and> re_match SAFE_RELATIVE_RE s then Inr s
           else stop (dry_err (field @ ''_PATH: '' @ s)))
      | _ \<Rightarrow> stop (dry_err (field @ ''_MISSING'')))"

definition command_tokens :: "json \<Rightarrow> string list res" where
  "command_tokens command =
     (case command of
        JArr tokens \<Rightarrow>
          thenE (checks [(tokens \<noteq> [], dry_err ''COMMAND'')])
            (mapE (\<lambda>t. case t of
                JStr s \<Rightarrow> if s = [] then stop (dry_err ''COMMAND_TOKEN'') else Inr s
              | _ \<Rightarrow> stop (dry_err ''COMMAND_TOKEN'')) tokens)
      | _ \<Rightarrow> stop (dry_err ''COMMAND''))"

definition reject_credential_claim :: "dict \<Rightarrow> unit res" where
  "reject_credential_claim channel =
     checks
       ([(fld channel ''credentials'' = JStr ''not_required'', dry_err ''CREDENTIAL_CLAIM''),
         (has_key channel ''external_credentials'' \<longrightarrow>
            fld channel ''external_credentials'' = JStr ''not_required'', dry_err ''CREDENTIAL_CLAIM'')] @
        map (\<lambda>k. (\<not> has_key channel k, dry_err ''CREDENTIAL_CLAIM''))
          [''credential_env'', ''credential_file'', ''token_env'', ''secret_env''])"

definition reject_store_claim :: "json \<Rightarrow> unit res" where
  "reject_store_claim v = checks [(v = JStr ''none'', dry_err ''STORE_PUBLICATION_CLAIM'')]"

definition no_publication :: "dict \<Rightarrow> string \<Rightarrow> bool" where
  "no_publication metadata k =
     (has_key metadata k \<longrightarrow> fld metadata k \<in> {JNull, JStr ''none'', JStr ''not_included''})"

definition reject_top_level_publication_claims :: "dict \<Rightarrow> unit res" where
  "reject_top_level_publication_claims metadata =
     checks
       (map (\<lambda>k. (no_publication metadata k, dry_err ''PUBLICATION_CLAIM: '' @ k))
          [''registry_publication'', ''package_registry_publication''] @
        map (\<lambda>k. (no_publication metadata k, dry_err ''STORE_PUBLICATION_CLAIM: '' @ k))
          [''store_publication'', ''platform_store_publication''] @
        map (\<lambda>k. (has_key metadata k \<longrightarrow> fld metadata k = JStr ''not_required'', dry_err ''CREDENTIAL_CLAIM: '' @ k))
          [''external_credentials'', ''registry_credentials'', ''store_credentials''])"

fun reject_forbidden_claims_dry :: "json \<Rightarrow> string \<Rightarrow> unit res" where
  "reject_forbidden_claims_dry (JObj d) context =
     forE (\<lambda>(k, x). reject_forbidden_claims_dry x (path_key context k)) d"
| "reject_forbidden_claims_dry (JArr xs) context =
     forE (\<lambda>(i, x). reject_forbidden_claims_dry x (path_idx context i)) (enum xs)"
| "reject_forbidden_claims_dry (JStr s) context =
     checks [(\<not> re_search FORBIDDEN_PUBLICATION_RE_dry s, dry_err ''FORBIDDEN_PUBLICATION_CLAIM: '' @ context)]"
| "reject_forbidden_claims_dry _ context = Inr ()"

interpretation dry_guard: claim_guard reject_forbidden_claims_dry "re_search FORBIDDEN_PUBLICATION_RE_dry"
  by unfold_locales (auto simp: res_simps)

subsection \<open>Channels and metadata\<close>

definition validate_channel :: "json \<Rightarrow> string res" where
  "validate_channel v =
     (case v of
        JObj channel \<Rightarrow>
          (case fld channel ''name'' of
             JStr name \<Rightarrow>
               (case map_of EXPECTED_CHANNELS name of
                  None \<Rightarrow> stop (dry_err ''CHANNEL_NAME'')
                | Some expected \<Rightarrow>
                    thenE (checks
                      [(fld channel ''ecosystem'' = JStr (ecosystem expected), dry_err ''ECOSYSTEM: '' @ name),
                       (fld channel ''mode'' = JStr ''dry-run-only'', dry_err ''MODE: '' @ name)])
                   (thenE (reject_credential_claim channel)
                   (thenE (reject_store_claim (fld channel ''store_publication''))
                   (thenE (checks
                      [(in_str_list (fld channel ''publication'') (publication expected),
                        dry_err ''PUBLICATION_CLAIM: '' @ name),
                       (\<not> re_search FORBIDDEN_PUBLICATION_RE_dry (json_str (fld channel ''publication'')),
                        dry_err ''PUBLICATION_CLAIM: '' @ name),
                       (in_str_list (dict_get_or channel ''status'' (JStr ''pass'')) ALLOWED_STATUS_dry,
                        dry_err ''STATUS: '' @ name)])
                   (bindE (safe_relative_path (fld channel ''output'') ''OUTPUT'') (\<lambda>_.
                    bindE (command_tokens (fld channel ''command'')) (\<lambda>tokens.
                    let missing = list_minus (policy_tokens expected) tokens in
                    thenE (checks
                      [(missing = [], dry_err ''COMMAND_POLICY: '' @ name @ '':'' @ str_join '','' (py_sorted missing)),
                       (dict_get_or channel ''status'' (JStr ''pass'') \<noteq> JStr ''pass'' \<longrightarrow>
                          nonempty_str (fld channel ''reason''), dry_err ''REASON: '' @ name)])
                      (Inr name))))))))
             | _ \<Rightarrow> stop (dry_err ''CHANNEL_NAME''))
      | _ \<Rightarrow> stop (dry_err ''CHANNEL_TYPE''))"

definition metadata_header :: "dict \<Rightarrow> string option \<Rightarrow> unit res" where
  "metadata_header metadata expected_commit =
     checks
       [(fld metadata ''schema'' = JStr SCHEMA_dry, dry_err ''SCHEMA''),
        (is_str (fld metadata ''commit'') \<and> re_match COMMIT_RE_dry (json_str (fld metadata ''commit'')),
         dry_err ''COMMIT''),
        ((case expected_commit of None \<Rightarrow> True | Some c \<Rightarrow> fld metadata ''commit'' = JStr c),
         dry_err ''COMMIT_MISMATCH''),
        (is_bool (fld metadata ''dirty''), dry_err ''DIRTY''),
        (fld metadata ''credentials'' = JStr ''not_required'', dry_err ''CREDENTIAL_CLAIM''),
        (fld metadata ''external_credentials'' = JStr ''not_required'', dry_err ''CREDENTIAL_CLAIM''),
        (fld metadata ''publication_boundary'' = JStr ''local-source-validation-only'',
         dry_err ''PUBLICATION_BOUNDARY'')]"

definition validate_metadata :: "env \<Rightarrow> string \<Rightarrow> string option \<Rightarrow> dict res" where
  "validate_metadata w p expected_commit =
     thenE (checks [(is_file w p, dry_err ''METADATA_MISSING: '' @ path_str p)])
    (bindE (read_json w p) (\<lambda>v.
     bindE (report_object v (dry_err ''METADATA_TYPE'')) (\<lambda>metadata.
     thenE (metadata_header metadata expected_commit)
    (thenE (reject_top_level_publication_claims metadata)
    (bindE (report_list (fld metadata ''channels'') (dry_err ''CHANNELS'')) (\<lambda>channels.
     bindE (mapE validate_channel channels) (\<lambda>seen.
     thenE (checks [(set seen = set (map fst EXPECTED_CHANNELS), dry_err ''CHANNEL_SET'')])
    (thenE (reject_forbidden_claims_dry (JObj metadata) ''metadata'') (Inr metadata)))))))))"

definition dry_run_main :: "env \<Rightarrow> string \<Rightarrow> string option \<Rightarrow> string res" where
  "dry_run_main w p expected_commit =
     bindE (validate_metadata w p expected_commit) (\<lambda>metadata.
     bindE (dict_index metadata ''channels'') (\<lambda>channels.
     bindE (dict_index metadata ''commit'') (\<lambda>commit.
       case channels of
         JArr xs \<Rightarrow> Inr (''registry dry-run metadata: PASS ('' @ nat_str (length xs) @ '' channels, commit '' @
                         json_str commit @ '')'')
       | _ \<Rightarrow> Inl TypeError)))"

subsection \<open>Properties\<close>

lemma validate_channel_ok:
  assumes "validate_channel v = Inr name"
  shows "\<exists>channel out. v = JObj channel \<and> name \<in> set (map fst EXPECTED_CHANNELS) \<and>
    fld channel ''name'' = JStr name \<and> fld channel ''mode'' = JStr ''dry-run-only'' \<and>
    fld channel ''credentials'' = JStr ''not_required'' \<and> \<not> has_key channel ''token_env'' \<and>
    \<not> has_key channel ''secret_env'' \<and> fld channel ''store_publication'' = JStr ''none'' \<and>
    fld channel ''output'' = JStr out \<and> \<not> path_is_absolute out \<and> ''..'' \<notin> set (path_parts out)"
proof -
  from assms obtain channel e where c: "v = JObj channel" "fld channel ''name'' = JStr name"
      "map_of EXPECTED_CHANNELS name = Some e" "fld channel ''mode'' = JStr ''dry-run-only''"
      "reject_credential_claim channel = Inr ()" "fld channel ''store_publication'' = JStr ''none''"
      "\<exists>x. safe_relative_path (fld channel ''output'') ''OUTPUT'' = Inr x"
    unfolding validate_channel_def reject_store_claim_def
    by (auto simp: res_simps Let_def split: json.splits option.splits)
  from c(5) have "fld channel ''credentials'' = JStr ''not_required''" "\<not> has_key channel ''token_env''"
      "\<not> has_key channel ''secret_env''"
    unfolding reject_credential_claim_def by (auto simp: res_simps)
  moreover from c(7) obtain out where "fld channel ''output'' = JStr out" "\<not> path_is_absolute out"
      "''..'' \<notin> set (path_parts out)"
    unfolding safe_relative_path_def by (auto split: json.splits if_splits)
  moreover from c(3) have "name \<in> set (map fst EXPECTED_CHANNELS)"
    by (force dest: map_of_SomeD)
  ultimately show ?thesis using c(1,2,4,6) by blast
qed

text \<open>Accepted dry-run metadata stays local: it lists each of the three channels and no other, each in
dry-run mode without credentials, without store publication and with an output below the
working directory, and no string anywhere in it matches the pattern of publication claims.\<close>

theorem dry_run_stays_local:
  assumes "validate_metadata w p expected_commit = Inr metadata"
  shows "\<exists>channels. document w p = Some (JObj metadata) \<and> fld metadata ''channels'' = JArr channels \<and>
    {n. \<exists>channel\<in>set channels. \<exists>d. channel = JObj d \<and> fld d ''name'' = JStr n}
      = {''swiftpm'', ''maven-local'', ''npm-pack''} \<and>
    (\<forall>v\<in>set channels. \<exists>channel out. v = JObj channel \<and> fld channel ''mode'' = JStr ''dry-run-only'' \<and>
       fld channel ''credentials'' = JStr ''not_required'' \<and> \<not> has_key channel ''token_env'' \<and>
       \<not> has_key channel ''secret_env'' \<and> fld channel ''store_publication'' = JStr ''none'' \<and>
       fld channel ''output'' = JStr out \<and> \<not> path_is_absolute out \<and> ''..'' \<notin> set (path_parts out)) \<and>
    (\<forall>s. sub_value (JStr s) (JObj metadata) \<longrightarrow> \<not> re_search FORBIDDEN_PUBLICATION_RE_dry s)"
proof -
  from assms obtain v md channels seen where md: "read_json w p = Inr v" "v = JObj md" "Inr md = (Inr metadata :: dict res)"
      "fld md ''channels'' = JArr channels" "mapE validate_channel channels = Inr seen"
      "set seen = set (map fst EXPECTED_CHANNELS)"
      "reject_forbidden_claims_dry (JObj md) ''metadata'' = Inr ()"
    unfolding validate_metadata_def bindE_Inr thenE_Inr report_object_Inr report_list_Inr checks_Inr
      list.pred_inject fst_conv by (elim exE conjE) (rule that; assumption)
  from md(3) have eq: "md = metadata" by simp
  note m = md(1,4-) [unfolded md(2) eq]
  note each = mapE_value [OF m(3)] and named = mapE_source [OF m(3)]
  have "{n. \<exists>channel\<in>set channels. \<exists>d. channel = JObj d \<and> fld d ''name'' = JStr n} = set seen"
  proof (intro set_eqI iffI)
    fix n assume "n \<in> {n. \<exists>channel\<in>set channels. \<exists>d. channel = JObj d \<and> fld d ''name'' = JStr n}"
    then obtain d where d: "JObj d \<in> set channels" "fld d ''name'' = JStr n" by blast
    from each [OF d(1)] obtain n' where "validate_channel (JObj d) = Inr n'" "n' \<in> set seen" by blast
    with validate_channel_ok [OF this(1)] d(2) show "n \<in> set seen" by auto
  next
    fix n assume "n \<in> set seen"
    from named [OF this] validate_channel_ok
    show "n \<in> {n. \<exists>channel\<in>set channels. \<exists>d. channel = JObj d \<and> fld d ''name'' = JStr n}" by blast
  qed
  also have "\<dots> = {''swiftpm'', ''maven-local'', ''npm-pack''}"
    using m(4) by (simp add: EXPECTED_CHANNELS_def)
  finally have names: "{n. \<exists>channel\<in>set channels. \<exists>d. channel = JObj d \<and> fld d ''name'' = JStr n}
      = {''swiftpm'', ''maven-local'', ''npm-pack''}" .
  have local: "\<forall>v\<in>set channels. \<exists>channel out. v = JObj channel \<and> fld channel ''mode'' = JStr ''dry-run-only'' \<and>
       fld channel ''credentials'' = JStr ''not_required'' \<and> \<not> has_key channel ''token_env'' \<and>
       \<not> has_key channel ''secret_env'' \<and> fld channel ''store_publication'' = JStr ''none'' \<and>
       fld channel ''output'' = JStr out \<and> \<not> path_is_absolute out \<and> ''..'' \<notin> set (path_parts out)"
    using each validate_channel_ok by meson
  have claims: "\<forall>s. sub_value (JStr s) (JObj metadata) \<longrightarrow> \<not> re_search FORBIDDEN_PUBLICATION_RE_dry s"
    using m(5) by (simp only: dry_guard.guard_sub_values)
  show ?thesis
    using m(1,2) names local claims unfolding read_json_document by blast
qed

text \<open>A text that lacks one of the words of every alternative is no claim.\<close>

definition claim_words :: "string list list" where
  "claim_words =
     [[''npm'', ''publish''], [''npm'', ''registry''], [''maven'', ''central''], [''sonatype''], [''ossrh''],
      [''github'', ''packages''], [''store''], [''testflight''], [''play''], [''registry'', ''publish''],
      [''credential'', ''required''], [''external'', ''credential'']]"

lemma claim_words_lower: "map (map str_lower) claim_words = claim_words"
  by code_simp

lemma dry_claim_words:
  assumes "re_search FORBIDDEN_PUBLICATION_RE_dry s"
  shows "list_ex (list_all (contains (str_lower s))) claim_words"
  using assms unfolding FORBIDDEN_PUBLICATION_RE_dry_def re_search_RAlts list.set bex_simps
  by (elim disjE)
     ((drule re_search_spaced re_search_word re_search_word_seq re_search_word_last,
       erule claim_wordsI [OF _ _ claim_words_lower], simp add: claim_words_def) | simp)+

definition dry_channel :: "string \<times> channel_policy \<Rightarrow> json" where
  "dry_channel = (\<lambda>(n, e). JObj
     [(''name'', JStr n), (''ecosystem'', JStr (ecosystem e)), (''mode'', JStr ''dry-run-only''),
      (''credentials'', JStr ''not_required''), (''store_publication'', JStr ''none''),
      (''publication'', JStr (hd (publication e))), (''output'', JStr ''out/log.txt''),
      (''command'', JArr (map JStr (policy_tokens e)))])"

definition dry_metadata :: "string \<Rightarrow> dict" where
  "dry_metadata commit =
     [(''schema'', JStr SCHEMA_dry), (''commit'', JStr commit), (''dirty'', JBool False),
      (''credentials'', JStr ''not_required''), (''external_credentials'', JStr ''not_required''),
      (''publication_boundary'', JStr ''local-source-validation-only''),
      (''channels'', JArr (map dry_channel EXPECTED_CHANNELS))]"

lemma dry_strings_clean:
  "list_all (\<lambda>s. \<not> list_ex (list_all (contains (str_lower s))) claim_words)
     (strings_in (JObj (dry_metadata (replicate 40 CHR ''a''))))"
  by code_simp

lemma dry_claims_clean:
  "reject_forbidden_claims_dry (JObj (dry_metadata (replicate 40 CHR ''a''))) c = Inr ()"
  unfolding dry_guard.guard_strings using dry_strings_clean dry_claim_words by (auto simp: list_all_iff)

lemma dry_output_ok: "safe_relative_path (JStr ''out/log.txt'') f = Inr ''out/log.txt''"
proof -
  have "\<not> path_is_absolute ''out/log.txt''" "''..'' \<notin> set (path_parts ''out/log.txt'')" by code_simp+
  moreover have "re_match SAFE_RELATIVE_RE ''out/log.txt''" by code_simp
  ultimately show ?thesis by (simp add: safe_relative_path_def)
qed

lemma dry_channels_ok: "mapE validate_channel (map dry_channel EXPECTED_CHANNELS) = Inr (map fst EXPECTED_CHANNELS)"
proof -
  have "validate_channel (dry_channel ch) = Inr (fst ch)" if ch: "ch \<in> set EXPECTED_CHANNELS" for ch
  proof -
    have "hd (publication (snd ch)) \<in> set (strings_in (JObj (dry_metadata (replicate 40 CHR ''a''))))"
      using ch by (auto simp: dry_metadata_def dry_channel_def EXPECTED_CHANNELS_def)
    then have "\<not> re_search FORBIDDEN_PUBLICATION_RE_dry (hd (publication (snd ch)))"
      using dry_strings_clean dry_claim_words by (auto simp: list_all_iff)
    with ch dry_output_ok show ?thesis
      by (auto simp: EXPECTED_CHANNELS_def validate_channel_def dry_channel_def dict_get_def dict_get_or_def
        reject_credential_claim_def reject_store_claim_def has_key_def ALLOWED_STATUS_dry_def command_tokens_def
        list_minus_def Let_def)
  qed
  moreover have "mapE validate_channel (map dry_channel es) = Inr (map fst es)"
    if "\<And>ch. ch \<in> set es \<Longrightarrow> validate_channel (dry_channel ch) = Inr (fst ch)" for es
    using that by (induction es) simp_all
  ultimately show ?thesis by blast
qed

lemma dry_example_ok:
  "validate_metadata (docs_env [(''m'', JObj (dry_metadata (replicate 40 CHR ''a'')))]) ''m'' None =
     Inr (dry_metadata (replicate 40 CHR ''a''))"
proof -
  let ?w = "docs_env [(''m'', JObj (dry_metadata (replicate 40 CHR ''a'')))]"
  let ?d = "dry_metadata (replicate 40 CHR ''a'')"
  have "is_file ?w ''m''" by (simp add: is_file_def docs_env_def)
  moreover have "read_json ?w ''m'' = Inr (JObj ?d)" by (simp add: read_json_document)
  moreover have "re_match COMMIT_RE_dry (replicate 40 CHR ''a'')"
    unfolding COMMIT_RE_dry_def match_hex_re
    by (intro exI [of _ "replicate 40 CHR ''a''"]) (simp add: chr_is_hex_def list_all_iff)
  then have "metadata_header ?d None = Inr ()"
    by (simp add: metadata_header_def dry_metadata_def dict_get_def)
  moreover have "reject_top_level_publication_claims ?d = Inr ()"
    by (simp add: reject_top_level_publication_claims_def no_publication_def has_key_def dry_metadata_def dict_get_def)
  moreover have "fld ?d ''channels'' = JArr (map dry_channel EXPECTED_CHANNELS)"
    by (simp add: dry_metadata_def dict_get_def)
  ultimately show ?thesis
    by (simp add: validate_metadata_def report_object_def report_list_def dry_channels_ok dry_claims_clean
        del: reject_forbidden_claims_dry.simps)
qed

theorem dry_run_stays_local_witness:
  "\<not> re_search FORBIDDEN_PUBLICATION_RE_dry ''dry-run-only''"
proof -
  have "sub_value (JStr ''dry-run-only'') (JObj (dry_metadata (replicate 40 CHR ''a'')))"
    unfolding strings_in_iff [symmetric]
    by (simp add: dry_metadata_def dry_channel_def EXPECTED_CHANNELS_def)
  with dry_run_stays_local [OF dry_example_ok] show ?thesis by blast
qed

text \<open>The commit check lets a trailing line feed through: \<open>match\<close> with \<open>$\<close> accepts a commit of 41
characters that \<open>fullmatch\<close> would reject, so the header of such metadata is accepted.\<close>

theorem dry_commit_newline:
  "metadata_header (dry_metadata (replicate 40 CHR ''a'' @ [newline])) None = Inr () \<and>
   \<not> re_fullmatch COMMIT_RE_dry (replicate 40 CHR ''a'' @ [newline])"
proof -
  have "re_match COMMIT_RE_dry (replicate 40 CHR ''a'' @ [newline])"
    unfolding COMMIT_RE_dry_def match_hex_re
    by (intro exI [of _ "replicate 40 CHR ''a''"]) (simp add: chr_is_hex_def list_all_iff)
  then have "metadata_header (dry_metadata (replicate 40 CHR ''a'' @ [newline])) None = Inr ()"
    by (simp add: metadata_header_def dry_metadata_def dict_get_def)
  then show ?thesis by (simp add: COMMIT_RE_dry_def fullmatch_hex_re)
qed

end
