(* ===== verification/ClientCert.thy ===== *)
theory ClientCert
  imports ReportScan
begin

text \<open>
  \<open>tools/ci/check_external_client_certification.py\<close>: a third-party client is certified when its
  report covers every required check, each one passed, and nothing in it claims a publication
  or asks for credentials.
\<close>

subsection \<open>Constants\<close>

definition COMMIT_RE_cert :: "char regex" where "COMMIT_RE_cert = hex_re 40"

definition REQUIRED_CHECKS_cert :: "string list" where
  "REQUIRED_CHECKS_cert = [''workflow_fixtures'', ''no_network'', ''trust_provider'', ''secret_logging'',
     ''api_compatibility'', ''starter_templates'', ''ios_reference_app'', ''android_reference_app'',
     ''device_contract'', ''no_secret_telemetry'', ''trust_governance'', ''registry_dry_runs'',
     ''sdk_release_package'', ''release_consumer'']"

definition FORBIDDEN_PUBLICATION_RE_cert :: "char regex" where
  "FORBIDDEN_PUBLICATION_RE_cert = RAlts
     [spaced [''app'', ''store''], RLitI ''testflight'', spaced [''play'', ''console''],
      spaced [''play'', ''store''], spaced [''npm'', ''publish''], spaced [''maven'', ''central''],
      RLitI ''sonatype'', RLitI ''ossrh'', RSeqs [spaced [''required'', ''credential''], ROpt (RLitI ''s'')],
      RSeqs [RLitI ''credential'', ROpt (RLitI ''s''), dash_spaces, RLitI ''required''],
      RSeqs [spaced [''external'', ''credential''], ROpt (RLitI ''s'')]]"

record certification_result =
  client_name :: string
  grain_commit :: string
  summary :: string

definition cert_err :: "string \<Rightarrow> string" where
  "cert_err s = ''EXTERNAL_CLIENT_CERT_ERR_'' @ s"

subsection \<open>The report\<close>

definition cert_load :: "env \<Rightarrow> string \<Rightarrow> dict res" where
  "cert_load w p =
     thenE (checks [(is_file w p, cert_err ''MISSING_REPORT: '' @ p)])
    (bindE (report_load w p (cert_err ''INVALID_JSON: '' @ p)) (\<lambda>v.
       report_object v (cert_err ''REPORT_OBJECT'')))"

fun reject_forbidden_claims :: "json \<Rightarrow> string \<Rightarrow> unit res" where
  "reject_forbidden_claims (JObj d) context =
     forE (\<lambda>(k, x). reject_forbidden_claims x (path_key context k)) d"
| "reject_forbidden_claims (JArr xs) context =
     forE (\<lambda>(i, x). reject_forbidden_claims x (path_idx context i)) (enum xs)"
| "reject_forbidden_claims (JStr s) context =
     checks [(\<not> re_search FORBIDDEN_PUBLICATION_RE_cert s, cert_err ''PUBLICATION_CLAIM: '' @ context)]"
| "reject_forbidden_claims _ context = Inr ()"

interpretation cert_guard: claim_guard reject_forbidden_claims "re_search FORBIDDEN_PUBLICATION_RE_cert"
  by unfold_locales (auto simp: res_simps)

definition validate_scope :: "dict \<Rightarrow> unit res" where
  "validate_scope report =
     bindE (report_object (fld report ''certification_scope'') (cert_err ''SCOPE'')) (\<lambda>scope.
       checks
         ([(fld scope ''mode'' = JStr ''local-source-validation'', cert_err ''SCOPE_MODE''),
           (fld scope ''publication_boundary'' = JStr ''source-validation-only'', cert_err ''PUBLICATION_BOUNDARY'')] @
          map (\<lambda>k. (fld scope k = JStr ''not_included'', cert_err ''PUBLICATION_CLAIM: '' @ k))
            [''registry_publication'', ''app_store_publication'', ''play_console_publication'',
             ''npm_publication'', ''maven_central_publication''] @
          [(fld scope ''external_credentials'' = JStr ''not_required'', cert_err ''CREDENTIAL_CLAIM''),
           (fld scope ''paid_developer_accounts'' = JStr ''not_required'', cert_err ''CREDENTIAL_CLAIM'')]))"

definition cert_check :: "dict \<Rightarrow> string \<Rightarrow> unit res" where
  "cert_check cs name =
     bindE (dict_index cs name) (\<lambda>v.
     bindE (report_object v (cert_err ''CHECK_OBJECT: '' @ name)) (\<lambda>check.
       checks
         [(fld check ''status'' = JStr ''pass'', cert_err ''CHECK_NOT_PASS: '' @ name),
          (nonblank_str (fld check ''command''), cert_err ''CHECK_COMMAND: '' @ name),
          (nonblank_str (fld check ''output''), cert_err ''CHECK_OUTPUT: '' @ name)]))"

definition cert_checks :: "dict \<Rightarrow> unit res" where
  "cert_checks report =
     bindE (report_object (fld report ''checks'') (cert_err ''CHECKS'')) (\<lambda>cs.
     let missing = filter (\<lambda>name. \<not> has_key cs name) REQUIRED_CHECKS_cert in
     thenE (checks [(missing = [], cert_err ''MISSING_CHECK: '' @ str_join '', '' missing)])
       (forE (cert_check cs) REQUIRED_CHECKS_cert))"

definition cert_client :: "dict \<Rightarrow> (string \<times> string) res" where
  "cert_client report =
     bindE (report_object (fld report ''client'') (cert_err ''CLIENT'')) (\<lambda>client.
     thenE (checks
       [(nonblank_str (fld client ''name''), cert_err ''CLIENT_NAME''),
        (is_str (fld client ''grain_commit'') \<and>
           re_fullmatch COMMIT_RE_cert (json_str (fld client ''grain_commit'')), cert_err ''COMMIT'')])
       (Inr (json_str (fld client ''name''), json_str (fld client ''grain_commit''))))"

definition cert_gaps :: "dict \<Rightarrow> json list res" where
  "cert_gaps report =
     bindE (report_object (fld report ''artifacts'') (cert_err ''ARTIFACTS'')) (\<lambda>artifacts.
     thenE (checks [(nonblank_str (fld artifacts ''source_handoff''), cert_err ''SOURCE_HANDOFF'')])
    (bindE (report_list (fld report ''residual_gaps'') (cert_err ''RESIDUAL_GAPS'')) (\<lambda>gaps.
     thenE (checks [(list_all is_str gaps, cert_err ''RESIDUAL_GAPS'')]) (Inr gaps))))"

definition cert_result :: "string \<Rightarrow> string \<Rightarrow> json list \<Rightarrow> certification_result" where
  "cert_result name commit gaps =
     \<lparr>client_name = name, grain_commit = commit,
      summary = name @ '': '' @ nat_str (length REQUIRED_CHECKS_cert) @ '' checks passed for '' @ commit @
        (if gaps = [] then [] else ''; residual gaps: '' @ nat_str (length gaps))\<rparr>"

definition validate_report_cert :: "env \<Rightarrow> string \<Rightarrow> certification_result res" where
  "validate_report_cert w p =
     bindE (cert_load w p) (\<lambda>report.
     thenE (checks [(fld report ''schema'' = JStr ''grain.external_client.certification.v1'', cert_err ''SCHEMA'')])
    (thenE (validate_scope report)
    (thenE (reject_forbidden_claims (JObj report) ''report'')
    (bindE (cert_client report) (\<lambda>(name, commit).
     thenE (cert_checks report)
    (bindE (cert_gaps report) (\<lambda>gaps.
       Inr (cert_result name commit gaps))))))))"

text \<open>\<open>resolve\<close> stands for \<open>Path.resolve\<close>, which follows the symbolic links of the machine.\<close>

definition cert_main :: "env \<Rightarrow> (string \<Rightarrow> string) \<Rightarrow> string \<Rightarrow> string \<Rightarrow> string res" where
  "cert_main w resolve root_dir report =
     bindE (validate_report_cert w
        (if path_is_absolute report then path_str report else resolve (path_join root_dir report)))
       (\<lambda>r. Inr (summary r))"

subsection \<open>Properties\<close>

lemma cert_load_Inr: "cert_load w p = Inr d \<longleftrightarrow> document w p = Some (JObj d)"
  by (auto simp: cert_load_def res_simps is_file_def document_def split: option.splits)

lemma nonblank_str_iff: "nonblank_str v \<longleftrightarrow> (\<exists>s. v = JStr s \<and> str_strip s \<noteq> [])"
  by (cases v) (auto simp: nonblank_str_def)

lemma cert_client_Inr:
  "cert_client report = Inr (name, commit) \<longleftrightarrow>
     (\<exists>client. fld report ''client'' = JObj client \<and> fld client ''name'' = JStr name \<and> str_strip name \<noteq> [] \<and>
        fld client ''grain_commit'' = JStr commit \<and> length commit = 40 \<and> list_all chr_is_hex commit)"
  by (auto simp: cert_client_def bindE_Inr thenE_Inr report_object_Inr checks_Inr nonblank_str_iff is_str_iff
      COMMIT_RE_cert_def fullmatch_hex_re simp del: checks.simps)

lemma cert_check_Inr:
  "cert_check cs n = Inr () \<longleftrightarrow> (\<exists>check. map_of cs n = Some (JObj check) \<and> fld check ''status'' = JStr ''pass'' \<and>
      nonblank_str (fld check ''command'') \<and> nonblank_str (fld check ''output''))"
  by (auto simp: cert_check_def bindE_Inr report_object_Inr checks_Inr dict_index_Inr simp del: checks.simps)

lemma cert_checks_Inr:
  "cert_checks report = Inr () \<longleftrightarrow>
     (\<exists>cs. fld report ''checks'' = JObj cs \<and> list_all (\<lambda>n. cert_check cs n = Inr ()) REQUIRED_CHECKS_cert)"
proof -
  have "filter (\<lambda>n. \<not> has_key cs n) REQUIRED_CHECKS_cert = []"
    if "list_all (\<lambda>n. cert_check cs n = Inr ()) REQUIRED_CHECKS_cert" for cs
    using that by (auto simp: list_all_iff filter_empty_conv cert_check_Inr has_key_iff)
  then show ?thesis
    by (auto simp: cert_checks_def bindE_Inr thenE_Inr report_object_Inr checks_Inr forE_Inr Let_def
        list_all_iff simp del: checks.simps)
qed

lemma cert_gaps_Inr:
  "cert_gaps report = Inr gaps \<longleftrightarrow>
     (\<exists>artifacts. fld report ''artifacts'' = JObj artifacts \<and> nonblank_str (fld artifacts ''source_handoff'') \<and>
        fld report ''residual_gaps'' = JArr gaps \<and> list_all is_str gaps)"
  by (auto simp: cert_gaps_def bindE_Inr thenE_Inr report_object_Inr report_list_Inr checks_Inr simp del: checks.simps)

lemma validate_scope_Inr:
  "validate_scope report = Inr () \<longleftrightarrow>
     (\<exists>scope. fld report ''certification_scope'' = JObj scope \<and>
        fld scope ''mode'' = JStr ''local-source-validation'' \<and>
        fld scope ''publication_boundary'' = JStr ''source-validation-only'' \<and>
        fld scope ''registry_publication'' = JStr ''not_included'' \<and>
        fld scope ''app_store_publication'' = JStr ''not_included'' \<and>
        fld scope ''play_console_publication'' = JStr ''not_included'' \<and>
        fld scope ''npm_publication'' = JStr ''not_included'' \<and>
        fld scope ''maven_central_publication'' = JStr ''not_included'' \<and>
        fld scope ''external_credentials'' = JStr ''not_required'' \<and>
        fld scope ''paid_developer_accounts'' = JStr ''not_required'')"
  by (auto simp: validate_scope_def bindE_Inr report_object_Inr checks_Inr simp del: checks.simps)

text \<open>C40: a certificate is issued exactly where it is deserved: for a report with the right schema; with a
scope of local source validation that includes no publication in a registry, an app store, the Play
console, npm or Maven Central and requires no credentials and no paid account; with no publication
claim in any string at any depth; with a named client at a full commit; with every required check
passed, its command and its output given; with the source hand-off among its artifacts; and with a
list of residual gaps in text.\<close>

theorem certification_iff:
  "(\<exists>r. validate_report_cert w p = Inr r) \<longleftrightarrow>
     (\<exists>report scope client cs artifacts gaps name commit.
        document w p = Some (JObj report) \<and>
        fld report ''schema'' = JStr ''grain.external_client.certification.v1'' \<and>
        fld report ''certification_scope'' = JObj scope \<and>
        fld scope ''mode'' = JStr ''local-source-validation'' \<and>
        fld scope ''publication_boundary'' = JStr ''source-validation-only'' \<and>
        fld scope ''registry_publication'' = JStr ''not_included'' \<and>
        fld scope ''app_store_publication'' = JStr ''not_included'' \<and>
        fld scope ''play_console_publication'' = JStr ''not_included'' \<and>
        fld scope ''npm_publication'' = JStr ''not_included'' \<and>
        fld scope ''maven_central_publication'' = JStr ''not_included'' \<and>
        fld scope ''external_credentials'' = JStr ''not_required'' \<and>
        fld scope ''paid_developer_accounts'' = JStr ''not_required'' \<and>
        set (strings_in (JObj report)) \<inter> Collect (re_search FORBIDDEN_PUBLICATION_RE_cert) = {} \<and>
        fld report ''client'' = JObj client \<and> fld client ''name'' = JStr name \<and> str_strip name \<noteq> [] \<and>
        fld client ''grain_commit'' = JStr commit \<and> length commit = 40 \<and> list_all chr_is_hex commit \<and>
        fld report ''checks'' = JObj cs \<and>
        list_all (\<lambda>n. \<exists>check. map_of cs n = Some (JObj check) \<and> fld check ''status'' = JStr ''pass'' \<and>
          nonblank_str (fld check ''command'') \<and> nonblank_str (fld check ''output'')) REQUIRED_CHECKS_cert \<and>
        fld report ''artifacts'' = JObj artifacts \<and> nonblank_str (fld artifacts ''source_handoff'') \<and>
        fld report ''residual_gaps'' = JArr gaps \<and> list_all is_str gaps)"
proof -
  have guard: "reject_forbidden_claims (JObj report) ''report'' = Inr () \<longleftrightarrow>
      set (strings_in (JObj report)) \<inter> Collect (re_search FORBIDDEN_PUBLICATION_RE_cert) = {}" for report
    unfolding cert_guard.guard_strings by blast
  have "(\<exists>r. validate_report_cert w p = Inr r) \<longleftrightarrow>
     (\<exists>report name commit gaps. cert_load w p = Inr report \<and>
        fld report ''schema'' = JStr ''grain.external_client.certification.v1'' \<and>
        validate_scope report = Inr () \<and> reject_forbidden_claims (JObj report) ''report'' = Inr () \<and>
        cert_client report = Inr (name, commit) \<and> cert_checks report = Inr () \<and> cert_gaps report = Inr gaps)"
    unfolding validate_report_cert_def bindE_Inr thenE_Inr checks_Inr list.pred_inject fst_conv split_paired_Ex
      prod.case by (auto simp del: reject_forbidden_claims.simps)
  then show ?thesis
    unfolding cert_load_Inr cert_client_Inr cert_checks_Inr cert_check_Inr cert_gaps_Inr guard validate_scope_Inr
    by blast
qed

end
