(* ===== verification/SdkRelease.thy ===== *)
theory SdkRelease
  imports ReportScan
begin

text \<open>
  \<open>tools/ci/check_sdk_release_package.py\<close>: the integrity of an SDK release directory. The manifest
  names eight source archives; their sizes and SHA-256 digests, the entries of every archive, the
  file \<open>SHA256SUMS\<close> and the SBOM must all agree with it. Digests, archives and TOML come from
  libraries: they are fields of the record \<open>renv\<close>, a parameter of the model.
\<close>

subsection \<open>The release directory\<close>

text \<open>
  A member of a tar archive with what \<open>isfile\<close>, \<open>isdir\<close> and \<open>extractfile(...).read()\<close> give;
  \<open>sha256_of\<close>, \<open>size_of\<close> and \<open>members_of\<close> are the digest, the size and the members of the file at
  a path, \<open>toml_loads\<close> is \<open>tomllib.loads\<close>.
\<close>

record member =
  m_name :: string
  m_isfile :: bool
  m_isdir :: bool
  m_data :: "string option"

record renv =
  files :: env
  sha256_of :: "string \<Rightarrow> string"
  size_of :: "string \<Rightarrow> int"
  members_of :: "string \<Rightarrow> member list option"
  toml_loads :: "string \<Rightarrow> json option"

record release_args =
  expected_commit :: "string option"
  require_strict :: bool
  require_clean :: bool

definition sha256_file :: "renv \<Rightarrow> string \<Rightarrow> string res" where
  "sha256_file w p = (if is_file (files w) p then Inr (sha256_of w p) else Inl (FileNotFoundError p))"

definition tar_members :: "renv \<Rightarrow> string \<Rightarrow> member list res" where
  "tar_members w p =
     (if \<not> is_file (files w) p then Inl (FileNotFoundError p)
      else case members_of w p of None \<Rightarrow> Inl (BadFile p) | Some ms \<Rightarrow> Inr ms)"

lemma sha256_file_Inr [res_simps]: "sha256_file w p = Inr s \<longleftrightarrow> is_file (files w) p \<and> sha256_of w p = s"
  by (simp add: sha256_file_def)

lemma tar_members_Inr [res_simps]:
  "tar_members w p = Inr ms \<longleftrightarrow> is_file (files w) p \<and> members_of w p = Some ms"
  by (auto simp: tar_members_def split: option.splits)

subsection \<open>Constants\<close>

record artifact_policy =
  a_kind :: string
  a_required_entries :: "string list"
  a_consumer_paths :: "string list"

definition EXPECTED_ARTIFACTS :: "(string \<times> artifact_policy) list" where
  "EXPECTED_ARTIFACTS =
     [(''grain-generated-bindings'', \<lparr>a_kind = ''generated-bindings'',
        a_required_entries = [''generated-bindings/swift/'', ''generated-bindings/kotlin/''],
        a_consumer_paths = [''generated-bindings/swift'', ''generated-bindings/kotlin'']\<rparr>),
      (''grain-swift-client'', \<lparr>a_kind = ''swift-client'',
        a_required_entries = [''sdk/swift/Package.swift'', ''sdk/swift/Sources/GrainClient/''],
        a_consumer_paths = [''sdk/swift'']\<rparr>),
      (''grain-kotlin-client'', \<lparr>a_kind = ''kotlin-client'',
        a_required_entries = [''sdk/kotlin/build.gradle.kts'', ''sdk/kotlin/src/main/kotlin/''],
        a_consumer_paths = [''sdk/kotlin'']\<rparr>),
      (''grain-wasm-client'', \<lparr>a_kind = ''wasm-client'',
        a_required_entries = [''sdk/wasm/package.json'', ''sdk/wasm/src/index.mjs'',
                            ''core/rust/grain-client-wasm/Cargo.toml''],
        a_consumer_paths = [''sdk/wasm'', ''core/rust/grain-client-wasm'']\<rparr>),
      (''grain-rust-client-core'', \<lparr>a_kind = ''rust-client-core'',
        a_required_entries = [''core/rust/Cargo.toml'', ''core/rust/Cargo.lock'',
                            ''core/rust/rust-toolchain.toml'', ''core/rust/grain-core/Cargo.toml'',
                            ''core/rust/grain-client-core/Cargo.toml'',
                            ''core/rust/grain-client-wasm/Cargo.toml''],
        a_consumer_paths = [''core/rust'']\<rparr>),
      (''grain-typescript-sdk'', \<lparr>a_kind = ''typescript-sdk'',
        a_required_entries = [''core/ts/grain-ts-core/package.json'',
                            ''core/ts/grain-ts-core/package-lock.json'', ''core/ts/grain-ts-core/src/'',
                            ''core/ts/grain-sdk/package.json'', ''core/ts/grain-sdk/package-lock.json'',
                            ''core/ts/grain-sdk/src/'', ''core/ts/grain-sdk-ai/package.json'',
                            ''core/ts/grain-sdk-ai/package-lock.json'', ''core/ts/grain-sdk-ai/src/'',
                            ''fixtures/external-consumers/npm-sdk/package.json'',
                            ''fixtures/external-consumers/npm-sdk/tsconfig.json'',
                            ''fixtures/external-consumers/npm-sdk/src/import-smoke.ts'',
                            ''fixtures/external-consumers/npm-sdk/src/runtime-smoke.mjs''],
        a_consumer_paths = [''core/ts/grain-ts-core'', ''core/ts/grain-sdk'', ''core/ts/grain-sdk-ai'',
                          ''fixtures/external-consumers/npm-sdk'']\<rparr>),
      (''grain-sdk-workflow-contract'', \<lparr>a_kind = ''workflow-contract'',
        a_required_entries = [''sdk/api/public-sdk-v0.1.json'',
                            ''sdk/custody/secure_storage_adapter_v1.md'',
                            ''sdk/device/device_adapter_v1.schema.json'', ''sdk/device/README.md'',
                            ''sdk/workflows/contract/client_workflow_v1.md'',
                            ''sdk/workflows/contract/safe_diagnostic_event_v1.schema.json'',
                            ''sdk/trust/trust_anchor_bundle_v1.schema.json'',
                            ''sdk/generated/README.md'', ''docs/human/sdk/version-matrix.md'',
                            ''docs/human/sdk/security-review.md'', ''docs/human/sdk/release-train.md'',
                            ''docs/llm/SDK_GENERATED_VERIFICATION.md''],
        a_consumer_paths = [''sdk/api'', ''sdk/custody'', ''sdk/device'', ''sdk/workflows'',
                          ''sdk/trust'', ''sdk/generated'', ''docs/human/sdk/version-matrix.md'',
                          ''docs/human/sdk/security-review.md'', ''docs/human/sdk/release-train.md'',
                          ''docs/llm/SDK_GENERATED_VERIFICATION.md'']\<rparr>),
      (''grain-starter-templates'', \<lparr>a_kind = ''starter-templates'',
        a_required_entries = [''templates/ios-starter/Package.swift'',
                            ''templates/android-starter/build.gradle.kts'',
                            ''templates/web-wasm-starter/package.json'',
                            ''examples/ios-scanner/Package.swift'',
                            ''examples/android-scanner/build.gradle.kts'',
                            ''examples/wasm-scanner/package.json'',
                            ''examples/ios-reference-app/Package.swift'',
                            ''examples/android-reference-app/build.gradle.kts'',
                            ''scripts/sdk/check_starter_templates.sh'',
                            ''scripts/sdk/run_local_scanner_flow.sh'',
                            ''tools/ci/check_local_scanner_flow_report.py'',
                            ''docs/human/sdk/start-here.md'', ''docs/human/sdk/scan-quickstart.md''],
        a_consumer_paths = [''templates'', ''examples/ios-scanner'', ''examples/android-scanner'',
                          ''examples/wasm-scanner'', ''examples/ios-reference-app'',
                          ''examples/android-reference-app'',
                          ''scripts/sdk/check_starter_templates.sh'',
                          ''scripts/sdk/run_local_scanner_flow.sh'',
                          ''tools/ci/check_local_scanner_flow_report.py'',
                          ''docs/human/sdk/start-here.md'', ''docs/human/sdk/scan-quickstart.md'']\<rparr>)]"

definition rel_err :: "string \<Rightarrow> string" where
  "rel_err s = ''SDK_RELEASE_CHECK_ERR_'' @ s"

text \<open>\<open>(^|/)\<close>, and a literal text.\<close>

definition at_component :: "char regex" where
  "at_component = RAlt RBos (RLit ''/'')"

definition FORBIDDEN_ARCHIVE_RE :: "char regex" where
  "FORBIDDEN_ARCHIVE_RE = RAlts
     [RSeqs [at_component,
             RAlts (map RLit [''node_modules'', ''dist'', ''build'', ''.build'', ''.gradle'', ''.kotlin'', ''target'', ''pkg'']),
             RLit ''/''],
      RSeqs [at_component, RLit ''tsconfig.build.tsbuildinfo'', RDollar],
      RSeqs [RLit ''.wasm'', RDollar]]"

definition SECRET_ARCHIVE_RE :: "char regex" where
  "SECRET_ARCHIVE_RE = RAlts
     [RSeqs [at_component,
             RAlt (RSeqs [RLit ''.env'', ROpt (RSeqs [RCls (\<lambda>c. c \<in> set ''._-''), RStar (RCls (\<lambda>c. c \<noteq> CHR ''/''))])])
                  (RSeqs [RLit ''secret'', ROpt (RLit ''s'')]),
             RAlt (RLit ''/'') RDollar],
      RSeqs [RLit ''.'', RAlts (map RLit [''pem'', ''key'', ''p12'', ''pfx'']), RDollar]]"

definition FORBIDDEN_POLICY_CLAIM_RE :: "char regex" where
  "FORBIDDEN_POLICY_CLAIM_RE = RAlts
     [spaced [''app'', ''store''], RLitI ''testflight'', spaced [''play'', ''console''],
      spaced [''play'', ''store''], spaced [''npm'', ''publish''], spaced [''maven'', ''central''],
      RLitI ''sonatype'', RLitI ''ossrh'', RSeqs [spaced [''required'', ''credential''], ROpt (RLitI ''s'')],
      RSeqs [RLitI ''credential'', ROpt (RLitI ''s''), dash_spaces, RLitI ''required''],
      RSeqs [spaced [''external'', ''credential''], ROpt (RLitI ''s'')]]"

definition SHA_RE :: "char regex" where "SHA_RE = hex_re 64"
definition COMMIT_RE :: "char regex" where "COMMIT_RE = hex_re 40"

subsection \<open>File names and paths\<close>

definition safe_file_name :: "string \<Rightarrow> bool" where
  "safe_file_name s =
     (s \<noteq> [] \<and> path_name s = s \<and> \<not> path_is_absolute s \<and> ''..'' \<notin> set (path_parts s) \<and> CHR ''/'' \<notin> set s)"

definition safe_consumer_path :: "string \<Rightarrow> bool" where
  "safe_consumer_path s =
     (s \<noteq> [] \<and> s = path_str s \<and> \<not> path_is_absolute s \<and> ''.'' \<notin> set (path_parts s) \<and>
      ''..'' \<notin> set (path_parts s) \<and> CHR 0x5C \<notin> set s \<and> \<not> ends_with s ''/'')"

definition validate_consumer_paths :: "string \<Rightarrow> artifact_policy \<Rightarrow> dict \<Rightarrow> unit res" where
  "validate_consumer_paths pre expected artifact =
     bindE (report_list (fld artifact ''consumer_paths'') (rel_err ''CONSUMER_PATHS: '' @ pre)) (\<lambda>paths.
     thenE (forE (\<lambda>v. checks
         [((case v of JStr s \<Rightarrow> safe_consumer_path s | _ \<Rightarrow> False),
           rel_err ''CONSUMER_PATH: '' @ pre @ '':'' @ json_str v)]) paths)
       (checks [(paths = map JStr (a_consumer_paths expected), rel_err ''CONSUMER_PATHS: '' @ pre)]))"

definition artifact_suffix :: "string \<Rightarrow> string" where
  "artifact_suffix commit = ''-'' @ commit @ ''.tar.gz''"

definition artifact_prefix :: "string \<Rightarrow> string \<Rightarrow> string res" where
  "artifact_prefix file_name commit =
     (let suf = artifact_suffix commit in
      if ends_with file_name suf then Inr (take (length file_name - length suf) file_name)
      else stop (rel_err ''ARTIFACT_COMMIT: '' @ file_name @ '' does not end with '' @ suf))"

lemma artifact_prefix_Inr [res_simps]:
  "artifact_prefix file_name commit = Inr pre \<longleftrightarrow> file_name = pre @ artifact_suffix commit"
  by (auto simp: artifact_prefix_def Let_def ends_with_def suffix_def)

subsection \<open>Versions\<close>

text \<open>\<open>v[k]\<close> on any value.\<close>

fun json_index :: "json \<Rightarrow> string \<Rightarrow> json res" where
  "json_index (JObj d) k = dict_index d k"
| "json_index _ k = Inl TypeError"

definition load_cargo_version :: "renv \<Rightarrow> string \<Rightarrow> string \<Rightarrow> string res" where
  "load_cargo_version w root_dir p =
     bindE (read_text (files w) (path_join root_dir p)) (\<lambda>t.
     case toml_loads w t of
       None \<Rightarrow> Inl (ValueError p)
     | Some data \<Rightarrow>
         bindE (json_index data ''package'') (\<lambda>package.
         bindE (json_index package ''version'') (\<lambda>v. Inr (json_str v))))"

text \<open>
  \<open>re.search(r'^\s*version\s*=\s*"([^"]+)"', text, re.MULTILINE).group(1)\<close>: the part of the pattern
  before the group, the group itself, and the search over the start positions.
\<close>

definition at_line :: "char regex" where
  "at_line = RAssert (\<lambda>(p, s). p = [] \<or> hd p = newline)"

definition version_assignment :: "char regex" where
  "version_assignment = RSeqs [at_line, RStar (RCls chr_is_space), RLit ''version'', RStar (RCls chr_is_space),
     RLit ''='', RStar (RCls chr_is_space), RCls (\<lambda>c. c = dquote)]"

definition quoted_group :: "char pos \<Rightarrow> string list" where
  "quoted_group c =
     (let v = takeWhile (\<lambda>x. x \<noteq> dquote) (snd c)
      in if v \<noteq> [] \<and> length v < length (snd c) then [v] else [])"

fun find_quoted :: "char regex \<Rightarrow> string \<Rightarrow> string \<Rightarrow> string option" where
  "find_quoted r p [] = (case concat (map quoted_group (ends r (p, []))) of v # _ \<Rightarrow> Some v | [] \<Rightarrow> None)"
| "find_quoted r p (x # xs) =
     (case concat (map quoted_group (ends r (p, x # xs))) of
        v # _ \<Rightarrow> Some v | [] \<Rightarrow> find_quoted r (x # p) xs)"

definition package_version :: "renv \<Rightarrow> string \<Rightarrow> string \<Rightarrow> json res" where
  "package_version w root_dir p = read_json (files w) (path_join root_dir p)"

definition expected_versions :: "renv \<Rightarrow> string \<Rightarrow> (string \<times> string) list res" where
  "expected_versions w root_dir =
     bindE (read_text (files w) (path_join root_dir ''sdk/kotlin/build.gradle.kts'')) (\<lambda>kotlin_text.
     case find_quoted version_assignment [] kotlin_text of
       None \<Rightarrow> stop (rel_err ''KOTLIN_VERSION_MISSING'')
     | Some kotlin_version \<Rightarrow>
     bindE (package_version w root_dir ''sdk/wasm/package.json'') (\<lambda>wasm.
     bindE (package_version w root_dir ''core/ts/grain-ts-core/package.json'') (\<lambda>ts_core.
     bindE (package_version w root_dir ''core/ts/grain-sdk/package.json'') (\<lambda>ts_sdk.
     bindE (package_version w root_dir ''core/ts/grain-sdk-ai/package.json'') (\<lambda>ts_ai.
     bindE (load_cargo_version w root_dir ''core/rust/grain-client-core/Cargo.toml'') (\<lambda>core.
     bindE (load_cargo_version w root_dir ''core/rust/grain-client-wasm/Cargo.toml'') (\<lambda>core_wasm.
     bindE (json_index wasm ''version'') (\<lambda>wasm_v.
     bindE (json_index ts_core ''version'') (\<lambda>ts_core_v.
     bindE (json_index ts_sdk ''version'') (\<lambda>ts_sdk_v.
     bindE (json_index ts_ai ''version'') (\<lambda>ts_ai_v.
       Inr [(''grain_client_core'', core), (''grain_client_wasm'', core_wasm),
            (''kotlin_client'', kotlin_version), (''wasm_client'', json_str wasm_v), (''swift_client'', ''repo-sha''),
            (''typescript_core'', json_str ts_core_v), (''typescript_sdk'', json_str ts_sdk_v),
            (''typescript_ai_sdk'', json_str ts_ai_v)])))))))))))"

subsection \<open>Policy, archives and checksum file\<close>

definition validate_artifact_policy :: "json \<Rightarrow> string \<Rightarrow> unit res" where
  "validate_artifact_policy v error_prefix =
     bindE (report_object v (error_prefix @ ''_ARTIFACT_POLICY'')) (\<lambda>policy.
       checks
         ([(fld policy ''release_kind'' = JStr ''source-archive'', error_prefix @ ''_RELEASE_KIND''),
           (fld policy ''wasm_binary'' = JStr ''not_included_source_only'', error_prefix @ ''_WASM_BINARY_POLICY''),
           (fld policy ''platform_store_packages'' = JStr ''not_included'', error_prefix @ ''_STORE_PACKAGE_POLICY''),
           (fld policy ''registry_publication'' = JStr ''not_included'', error_prefix @ ''_REGISTRY_POLICY'')] @
          map (\<lambda>(key, x). (\<not> (is_str x \<and> re_search FORBIDDEN_POLICY_CLAIM_RE (json_str x)),
                           error_prefix @ ''_PUBLICATION_CLAIM: '' @ key)) policy))"

text \<open>The checks of one member, after the check that its name is new.\<close>

definition member_checks :: "string \<Rightarrow> member \<Rightarrow> (bool \<times> string) list" where
  "member_checks archive m =
     (let name = m_name m; where_at = archive @ '':'' @ name in
      [(name \<noteq> [] \<and> \<not> starts_with name ''/'', rel_err ''ABSOLUTE_ENTRY: '' @ where_at),
       (''..'' \<notin> set (path_parts name), rel_err ''TRAVERSAL_ENTRY: '' @ where_at),
       (m_isfile m \<or> m_isdir m, rel_err ''UNSUPPORTED_ARCHIVE_ENTRY: '' @ where_at),
       (\<not> re_search FORBIDDEN_ARCHIVE_RE name, rel_err ''FORBIDDEN_ARCHIVE_ENTRY: '' @ where_at),
       (\<not> re_search SECRET_ARCHIVE_RE name, rel_err ''SECRET_ARCHIVE_ENTRY: '' @ where_at)])"

definition archive_step :: "string \<Rightarrow> string list \<Rightarrow> member \<Rightarrow> string list res" where
  "archive_step archive entries m =
     thenE (checks [(m_name m \<notin> set entries, rel_err ''DUP_ARCHIVE_ENTRY: '' @ archive @ '':'' @ m_name m)])
    (thenE (checks (member_checks archive m)) (Inr (entries @ [m_name m])))"

definition has_entry :: "string list \<Rightarrow> string \<Rightarrow> bool" where
  "has_entry entries req = list_ex (\<lambda>entry. entry = req \<or> starts_with entry req) entries"

definition validate_archive :: "renv \<Rightarrow> string \<Rightarrow> artifact_policy \<Rightarrow> unit res" where
  "validate_archive w p expected =
     bindE (tar_members w p) (\<lambda>ms.
     bindE (foldE (archive_step (path_name p)) [] ms) (\<lambda>entries.
       checks (map (\<lambda>req. (has_entry entries req, rel_err ''REQUIRED_ENTRY_MISSING: '' @ path_name p @ '':'' @ req))
         (a_required_entries expected))))"

definition sums_line :: "(string \<times> string) list \<Rightarrow> string \<Rightarrow> (string \<times> string) list res" where
  "sums_line actual line =
     (if line = [] then Inr actual
      else case str_split ''  '' line of
        [checksum, file_name] \<Rightarrow>
          thenE (checks
            [(re_match SHA_RE checksum, rel_err ''SHA256SUMS_HASH: '' @ line),
             (safe_file_name file_name, rel_err ''SHA256SUMS_FILE: '' @ line),
             (file_name \<notin> set (map fst actual), rel_err ''SHA256SUMS_DUP: '' @ file_name)])
            (Inr (actual @ [(file_name, checksum)]))
      | _ \<Rightarrow> stop (rel_err ''SHA256SUMS_LINE: '' @ line))"

text \<open>Two dicts of strings are equal when they have the same items; neither repeats a key.\<close>

definition validate_sums :: "renv \<Rightarrow> string \<Rightarrow> (string \<times> string) list \<Rightarrow> unit res" where
  "validate_sums w out_dir expected =
     (let sums_path = path_join out_dir ''SHA256SUMS'' in
      thenE (checks [(is_file (files w) sums_path, rel_err ''SHA256SUMS_MISSING'')])
     (bindE (read_text (files w) sums_path) (\<lambda>t.
      bindE (foldE sums_line [] (str_splitlines t)) (\<lambda>actual.
        checks [(set actual = set expected, rel_err ''SHA256SUMS_MISMATCH'')]))))"

subsection \<open>SBOM\<close>

text \<open>Python's dicts and sets take hashable keys only, compared with \<open>==\<close>.\<close>

fun hashable :: "json \<Rightarrow> bool" where
  "hashable (JArr _) = False" | "hashable (JObj _) = False" | "hashable _ = True"

definition hash_key :: "json \<Rightarrow> json res" where
  "hash_key v = (if hashable v then Inr v else Inl TypeError)"

text \<open>\<open>{pkg.get("name"): pkg for pkg in packages if isinstance(pkg, dict)}\<close>, newest entry first.\<close>

definition package_index :: "json list \<Rightarrow> (json \<times> dict) list res" where
  "package_index packages =
     foldE (\<lambda>acc v. case v of
         JObj pkg \<Rightarrow> bindE (hash_key (fld pkg ''name'')) (\<lambda>k. Inr ((k, pkg) # acc))
       | _ \<Rightarrow> Inr acc) [] packages"

definition package_lookup :: "(json \<times> dict) list \<Rightarrow> json \<Rightarrow> dict option res" where
  "package_lookup idx name =
     bindE (hash_key name) (\<lambda>k. Inr (map_option snd (find (\<lambda>(j, _). py_eq j k) idx)))"

text \<open>\<open>item.get("checksumValue")\<close> of the SHA256 items, as a set.\<close>

definition sha_values :: "json list \<Rightarrow> json list res" where
  "sha_values checksums =
     foldE (\<lambda>acc v. case v of
         JObj item \<Rightarrow>
           if fld item ''algorithm'' = JStr ''SHA256''
           then bindE (hash_key (fld item ''checksumValue'')) (\<lambda>x. Inr (x # acc)) else Inr acc
       | _ \<Rightarrow> Inr acc) [] checksums"

definition sbom_artifact :: "(json \<times> dict) list \<Rightarrow> json \<Rightarrow> unit res" where
  "sbom_artifact idx artifact =
     bindE (json_index artifact ''name'') (\<lambda>name.
     bindE (package_lookup idx name) (\<lambda>found.
     case found of
       None \<Rightarrow> stop (rel_err ''SBOM_PACKAGE_MISSING: '' @ json_str name)
     | Some pkg \<Rightarrow>
         bindE (report_list (dict_get_or pkg ''checksums'' (JArr [])) (rel_err ''SBOM_CHECKSUMS: '' @ json_str name)) (\<lambda>cs.
         bindE (sha_values cs) (\<lambda>shas.
         bindE (json_index artifact ''sha256'') (\<lambda>sha.
         bindE (hash_key sha) (\<lambda>k.
           checks [(list_ex (\<lambda>x. py_eq x k) shas, rel_err ''SBOM_ARTIFACT_SHA: '' @ json_str name)]))))))"

definition validate_sbom :: "renv \<Rightarrow> string \<Rightarrow> dict \<Rightarrow> unit res" where
  "validate_sbom w out_dir manifest =
     bindE (report_object (fld manifest ''sbom'') (rel_err ''SBOM_META'')) (\<lambda>meta.
     case fld meta ''file'' of
       JStr file_name \<Rightarrow>
         thenE (checks [(safe_file_name file_name, rel_err ''SBOM_FILE'')])
        (let sbom_path = path_join out_dir file_name in
         thenE (checks [(is_file (files w) sbom_path, rel_err ''SBOM_MISSING'')])
        (bindE (sha256_file w sbom_path) (\<lambda>sha.
         thenE (checks
           [(fld meta ''sha256'' = JStr sha, rel_err ''SBOM_SHA''),
            (py_eq (fld meta ''bytes'') (JInt (size_of w sbom_path)), rel_err ''SBOM_BYTES'')])
        (bindE (read_json (files w) sbom_path) (\<lambda>sbom.
         bindE (attr_get sbom ''spdxVersion'') (\<lambda>version.
         thenE (checks [(version = JStr ''SPDX-2.3'', rel_err ''SBOM_VERSION'')])
        (bindE (attr_get sbom ''SPDXID'') (\<lambda>ident.
         thenE (checks [(ident = JStr ''SPDXRef-DOCUMENT'', rel_err ''SBOM_ID'')])
        (bindE (attr_get_or sbom ''packages'' (JArr [])) (\<lambda>packages.
         bindE (py_iter packages) (\<lambda>pkgs.
         bindE (package_index pkgs) (\<lambda>idx.
         bindE (dict_index manifest ''artifacts'') (\<lambda>artifacts.
         bindE (py_iter artifacts) (\<lambda>xs. forE (sbom_artifact idx) xs))))))))))))))
     | _ \<Rightarrow> stop (rel_err ''SBOM_FILE''))"

subsection \<open>Manifest\<close>

definition release_header :: "renv \<Rightarrow> string \<Rightarrow> release_args \<Rightarrow> dict \<Rightarrow> string res" where
  "release_header w root_dir args manifest =
     thenE (checks [(fld manifest ''schema'' = JStr ''grain.sdk.release.manifest.v1'', rel_err ''SCHEMA'')])
    (case fld manifest ''commit'' of
       JStr commit \<Rightarrow>
         thenE (checks
           [(re_match COMMIT_RE commit, rel_err ''COMMIT''),
            ((case expected_commit args of None \<Rightarrow> True | Some c \<Rightarrow> c = [] \<or> commit = c), rel_err ''COMMIT_MISMATCH''),
            (is_bool (fld manifest ''dirty''), rel_err ''DIRTY_TYPE''),
            (require_clean args \<longrightarrow> is_false (fld manifest ''dirty''), rel_err ''DIRTY_RELEASE'')])
        (bindE (report_object (fld manifest ''verification'') (rel_err ''VERIFICATION'')) (\<lambda>verification.
         thenE (check_in (fld verification ''mode'') [''strict'', ''strict-upstream'', ''skipped''] (rel_err ''VERIFICATION_MODE''))
        (thenE (checks
           [(nonempty_str (fld verification ''source''), rel_err ''VERIFICATION_SOURCE''),
            (require_strict args \<longrightarrow> in_str_list (fld verification ''mode'') [''strict'', ''strict-upstream''],
             rel_err ''VERIFICATION_NOT_STRICT''),
            (fld manifest ''workflow_contract'' = JStr ''client_workflow_v1'', rel_err ''WORKFLOW_CONTRACT'')])
        (thenE (validate_artifact_policy (fld manifest ''artifact_policy'') ''SDK_RELEASE_CHECK_ERR'')
           (Inr commit)))))
     | _ \<Rightarrow> stop (rel_err ''COMMIT''))"

definition release_matrix :: "renv \<Rightarrow> string \<Rightarrow> dict \<Rightarrow> unit res" where
  "release_matrix w root_dir manifest =
     bindE (report_object (fld manifest ''version_matrix'') (rel_err ''VERSION_MATRIX'')) (\<lambda>matrix.
     thenE (checks [(fld matrix ''path'' = JStr ''docs/human/sdk/version-matrix.md'', rel_err ''VERSION_MATRIX_PATH'')])
    (bindE (sha256_file w (path_join root_dir ''docs/human/sdk/version-matrix.md'')) (\<lambda>sha.
     thenE (checks [(fld matrix ''sha256'' = JStr sha, rel_err ''VERSION_MATRIX_SHA''),
                    (fld matrix ''rule'' = JStr ''same-repo-sha'', rel_err ''VERSION_MATRIX_RULE'')])
    (bindE (report_object (fld manifest ''sdk_versions'') (rel_err ''SDK_VERSIONS'')) (\<lambda>versions.
     bindE (expected_versions w root_dir) (\<lambda>expected.
       forE (\<lambda>(key, x). case map_of versions key of
           Some (JObj d) \<Rightarrow> checks [(fld d ''version'' = JStr x, rel_err ''VERSION_VALUE: '' @ key)]
         | _ \<Rightarrow> stop (rel_err ''VERSION_KEY: '' @ key)) expected))))))"

text \<open>One turn of the loop over the artifacts; the state is the dict of expected checksums, whose keys are
the file names seen.\<close>

type_synonym sum_table = "(string \<times> string) list"

definition artifact_step :: "renv \<Rightarrow> string \<Rightarrow> string \<Rightarrow> sum_table \<Rightarrow> json \<Rightarrow> sum_table res" where
  "artifact_step w out_dir commit st v =
     bindE (report_object v (rel_err ''ARTIFACT_TYPE'')) (\<lambda>artifact.
     case fld artifact ''file'' of
       JStr file_name \<Rightarrow>
         thenE (checks
           [(safe_file_name file_name, rel_err ''ARTIFACT_FILE''),
            (file_name \<notin> set (map fst st), rel_err ''ARTIFACT_DUP: '' @ file_name)])
        (bindE (artifact_prefix file_name commit) (\<lambda>pre.
         case map_of EXPECTED_ARTIFACTS pre of
           None \<Rightarrow> stop (rel_err ''ARTIFACT_UNKNOWN: '' @ file_name)
         | Some expected \<Rightarrow>
             thenE (checks [(fld artifact ''kind'' = JStr (a_kind expected), rel_err ''ARTIFACT_KIND: '' @ file_name)])
            (thenE (validate_consumer_paths pre expected artifact)
            (let artifact_path = path_join out_dir file_name in
             thenE (checks
               [(is_file (files w) artifact_path, rel_err ''ARTIFACT_MISSING: '' @ file_name),
                (py_eq (fld artifact ''bytes'') (JInt (size_of w artifact_path)), rel_err ''ARTIFACT_BYTES: '' @ file_name),
                (is_str (fld artifact ''sha256'') \<and> re_match SHA_RE (json_str (fld artifact ''sha256'')),
                 rel_err ''ARTIFACT_SHA_FORMAT: '' @ file_name)])
            (bindE (sha256_file w artifact_path) (\<lambda>sha.
             thenE (checks [(fld artifact ''sha256'' = JStr sha, rel_err ''ARTIFACT_SHA: '' @ file_name)])
            (thenE (validate_archive w artifact_path expected)
               (Inr (st @ [(file_name, sha)])))))))))
     | _ \<Rightarrow> stop (rel_err ''ARTIFACT_FILE''))"

definition validate_manifest :: "renv \<Rightarrow> string \<Rightarrow> string \<Rightarrow> release_args \<Rightarrow> dict res" where
  "validate_manifest w root_dir out_dir args =
     (let manifest_path = path_join out_dir ''manifest.json'' in
      thenE (checks [(is_file (files w) manifest_path, rel_err ''MANIFEST_MISSING'')])
     (bindE (read_json (files w) manifest_path) (\<lambda>v.
      bindE (case v of JObj d \<Rightarrow> Inr d | _ \<Rightarrow> Inl AttributeError) (\<lambda>manifest.
      bindE (release_header w root_dir args manifest) (\<lambda>commit.
      thenE (release_matrix w root_dir manifest)
     (bindE (report_list (fld manifest ''artifacts'') (rel_err ''ARTIFACTS_TYPE'')) (\<lambda>artifacts.
      thenE (checks [(length artifacts = length EXPECTED_ARTIFACTS, rel_err ''ARTIFACT_COUNT'')])
     (bindE (foldE (artifact_step w out_dir commit) [] artifacts) (\<lambda>sums0.
      bindE (report_object (fld manifest ''sbom'') (rel_err ''SBOM_META'')) (\<lambda>sbom.
      bindE (dict_index sbom ''file'') (\<lambda>sbom_file.
      bindE (dict_index sbom ''sha256'') (\<lambda>sbom_sha.
      thenE (validate_sums w out_dir (AList.update (json_str sbom_file) (json_str sbom_sha) sums0))
     (thenE (validate_sbom w out_dir manifest) (Inr manifest))))))))))))))"

definition release_main :: "renv \<Rightarrow> (string \<Rightarrow> string) \<Rightarrow> string \<Rightarrow> string \<Rightarrow> release_args \<Rightarrow> string res" where
  "release_main w resolve root_dir out args =
     (let out_dir = resolve out in
      thenE (checks [(is_dir (files w) out_dir, rel_err ''OUT_DIR_MISSING: '' @ out_dir)])
     (bindE (validate_manifest w root_dir out_dir args) (\<lambda>manifest.
      bindE (dict_index manifest ''artifacts'') (\<lambda>artifacts.
      bindE (py_iter artifacts) (\<lambda>xs.
      bindE (dict_index manifest ''commit'') (\<lambda>commit.
        Inr (''SDK release package check: OK ('' @ nat_str (length xs) @ '' artifacts, commit '' @
             json_str commit @ '')'')))))))"

end
