(* ===== verification/SdkHandoff.thy ===== *)
theory SdkHandoff
  imports SdkRelease PyHost
begin

text \<open>
  \<open>tools/ci/check_external_sdk_handoff.py\<close>: takes an SDK release directory over into the vendor
  directory of an outside application. The archives are unpacked member by member into a directory
  named after the commit. The release directory is only read (\<open>renv\<close>); the vendor side is a file
  system \<open>fs\<close>, from the components of a path to a directory or a file, which the operations change
  even where they raise later.
\<close>

subsection \<open>The file system of the vendor side\<close>

datatype node = Dir | File string

type_synonym path = "string list"
type_synonym fs = "(path \<times> node) list"

definition set_node :: "path \<Rightarrow> node \<Rightarrow> fs \<Rightarrow> fs" where
  "set_node p n fs = AList.update p n fs"

lemma map_of_set_node [simp]: "map_of (set_node p n fs) q = (if q = p then Some n else map_of fs q)"
  by (simp add: set_node_def update_conv')

text \<open>\<open>path.mkdir(parents=True, exist_ok=True)\<close>: a file on the way is \<open>ENOTDIR\<close>, at the end \<open>EEXIST\<close>.\<close>

fun mkdirs :: "path \<Rightarrow> path \<Rightarrow> (fs, unit) io" where
  "mkdirs done [] fs = (Inr (), fs)"
| "mkdirs done (c # cs) fs =
     (case map_of fs (done @ [c]) of
        None \<Rightarrow> mkdirs (done @ [c]) cs (set_node (done @ [c]) Dir fs)
      | Some Dir \<Rightarrow> mkdirs (done @ [c]) cs fs
      | Some (File _) \<Rightarrow> (Inl (OSError (if cs = [] then 17 else 20)), fs))"

text \<open>\<open>path.open("wb")\<close> and \<open>write\<close>: a directory is \<open>EISDIR\<close>.\<close>

definition write_file :: "path \<Rightarrow> string \<Rightarrow> (fs, unit) io" where
  "write_file p data fs =
     (case map_of fs p of Some Dir \<Rightarrow> (Inl (OSError 21), fs) | _ \<Rightarrow> (Inr (), set_node p (File data) fs))"

text \<open>\<open>any(path.iterdir())\<close> of a path that exists.\<close>

definition has_children :: "path \<Rightarrow> fs \<Rightarrow> bool res" where
  "has_children p fs =
     (case map_of fs p of
        Some (File _) \<Rightarrow> Inl (OSError 20)
      | _ \<Rightarrow> Inr (list_ex (\<lambda>(q, _). length q = Suc (length p) \<and> prefix p q) fs))"

subsection \<open>Constants\<close>

record handoff_policy =
  h_kind :: string
  h_required_entries :: "string list"

definition EXPECTED_ARTIFACTS_handoff :: "(string \<times> handoff_policy) list" where
  "EXPECTED_ARTIFACTS_handoff =
     [(''grain-generated-bindings'', \<lparr>h_kind = ''generated-bindings'',
        h_required_entries = [''generated-bindings/swift/'', ''generated-bindings/kotlin/'']\<rparr>),
      (''grain-swift-client'', \<lparr>h_kind = ''swift-client'',
        h_required_entries = [''sdk/swift/Package.swift'', ''sdk/swift/Sources/GrainClient/'']\<rparr>),
      (''grain-kotlin-client'', \<lparr>h_kind = ''kotlin-client'',
        h_required_entries = [''sdk/kotlin/build.gradle.kts'', ''sdk/kotlin/src/main/kotlin/'']\<rparr>),
      (''grain-wasm-client'', \<lparr>h_kind = ''wasm-client'',
        h_required_entries = [''sdk/wasm/package.json'', ''sdk/wasm/src/index.mjs'',
                              ''core/rust/grain-client-wasm/Cargo.toml'']\<rparr>),
      (''grain-rust-client-core'', \<lparr>h_kind = ''rust-client-core'',
        h_required_entries = [''core/rust/Cargo.toml'', ''core/rust/Cargo.lock'',
                              ''core/rust/rust-toolchain.toml'', ''core/rust/grain-core/Cargo.toml'',
                              ''core/rust/grain-client-core/Cargo.toml'',
                              ''core/rust/grain-client-wasm/Cargo.toml'']\<rparr>),
      (''grain-typescript-sdk'', \<lparr>h_kind = ''typescript-sdk'',
        h_required_entries = [''core/ts/grain-ts-core/package.json'', ''core/ts/grain-ts-core/src/'',
                              ''core/ts/grain-sdk/package.json'', ''core/ts/grain-sdk/src/'',
                              ''core/ts/grain-sdk-ai/package.json'', ''core/ts/grain-sdk-ai/src/'',
                              ''fixtures/external-consumers/npm-sdk/package.json'',
                              ''fixtures/external-consumers/npm-sdk/src/import-smoke.ts'',
                              ''fixtures/external-consumers/npm-sdk/src/runtime-smoke.mjs'']\<rparr>),
      (''grain-sdk-workflow-contract'', \<lparr>h_kind = ''workflow-contract'',
        h_required_entries = [''sdk/api/public-sdk-v0.1.json'',
                              ''sdk/custody/secure_storage_adapter_v1.md'',
                              ''sdk/device/device_adapter_v1.schema.json'', ''sdk/device/README.md'',
                              ''sdk/workflows/contract/client_workflow_v1.md'',
                              ''sdk/workflows/contract/safe_diagnostic_event_v1.schema.json'',
                              ''sdk/trust/trust_anchor_bundle_v1.schema.json'',
                              ''sdk/generated/README.md'', ''docs/human/sdk/version-matrix.md'',
                              ''docs/human/sdk/security-review.md'',
                              ''docs/human/sdk/release-train.md'',
                              ''docs/llm/SDK_GENERATED_VERIFICATION.md'']\<rparr>),
      (''grain-starter-templates'', \<lparr>h_kind = ''starter-templates'',
        h_required_entries = [''templates/ios-starter/Package.swift'',
                              ''templates/android-starter/build.gradle.kts'',
                              ''templates/web-wasm-starter/package.json'',
                              ''examples/ios-scanner/Package.swift'',
                              ''examples/android-scanner/build.gradle.kts'',
                              ''examples/wasm-scanner/package.json'',
                              ''examples/ios-reference-app/Package.swift'',
                              ''examples/android-reference-app/build.gradle.kts'',
                              ''scripts/sdk/check_starter_templates.sh'',
                              ''scripts/sdk/run_local_scanner_flow.sh'',
                              ''tools/ci/check_local_scanner_flow_report.py'']\<rparr>)]"

definition ALLOWED_ENTRY_PREFIXES :: "string list" where
  "ALLOWED_ENTRY_PREFIXES =
     [''generated-bindings/swift/'', ''generated-bindings/kotlin/'', ''sdk/swift/'', ''sdk/kotlin/'',
      ''sdk/wasm/'', ''sdk/api/'', ''sdk/custody/'', ''sdk/device/'', ''sdk/workflows/'',
      ''sdk/trust/'', ''sdk/generated/'', ''templates/'', ''examples/ios-scanner/'',
      ''examples/android-scanner/'', ''examples/wasm-scanner/'', ''examples/ios-reference-app/'',
      ''examples/android-reference-app/'', ''scripts/sdk/check_starter_templates.sh'',
      ''scripts/sdk/run_local_scanner_flow.sh'', ''tools/ci/check_local_scanner_flow_report.py'',
      ''core/rust/Cargo.toml'', ''core/rust/Cargo.lock'', ''core/rust/rust-toolchain.toml'',
      ''core/rust/grain-core/'', ''core/rust/grain-client-core/'', ''core/rust/grain-client-wasm/'',
      ''core/ts/grain-ts-core/'', ''core/ts/grain-sdk/'', ''core/ts/grain-sdk-ai/'',
      ''fixtures/external-consumers/npm-sdk/'', ''docs/human/sdk/version-matrix.md'',
      ''docs/human/sdk/start-here.md'', ''docs/human/sdk/scan-quickstart.md'',
      ''docs/human/sdk/security-review.md'', ''docs/human/sdk/release-train.md'',
      ''docs/llm/SDK_GENERATED_VERIFICATION.md'']"

definition ALLOWED_DIRECTORY_ENTRIES :: "string list" where
  "ALLOWED_DIRECTORY_ENTRIES =
     [''generated-bindings'', ''generated-bindings/swift'', ''generated-bindings/kotlin'', ''sdk'',
      ''sdk/swift'', ''sdk/swift/Sources'', ''sdk/kotlin'', ''sdk/kotlin/src'', ''sdk/kotlin/src/main'',
      ''sdk/kotlin/src/main/kotlin'', ''sdk/wasm'', ''sdk/wasm/src'', ''sdk/api'', ''sdk/custody'',
      ''sdk/device'', ''sdk/workflows'', ''sdk/workflows/contract'', ''sdk/trust'', ''sdk/generated'',
      ''templates'', ''templates/ios-starter'', ''templates/android-starter'',
      ''templates/web-wasm-starter'', ''examples'', ''examples/ios-scanner'',
      ''examples/android-scanner'', ''examples/wasm-scanner'', ''examples/ios-reference-app'',
      ''examples/android-reference-app'', ''scripts'', ''scripts/sdk'', ''tools'', ''tools/ci'',
      ''core'', ''core/rust'', ''core/rust/grain-core'', ''core/rust/grain-client-core'',
      ''core/rust/grain-client-wasm'', ''core/ts'', ''core/ts/grain-ts-core'',
      ''core/ts/grain-ts-core/src'', ''core/ts/grain-sdk'', ''core/ts/grain-sdk/src'',
      ''core/ts/grain-sdk/examples'', ''core/ts/grain-sdk/scripts'', ''core/ts/grain-sdk-ai'',
      ''core/ts/grain-sdk-ai/src'', ''core/ts/grain-sdk-ai/scripts'', ''fixtures'',
      ''fixtures/external-consumers'', ''fixtures/external-consumers/npm-sdk'',
      ''fixtures/external-consumers/npm-sdk/src'', ''docs'', ''docs/human'', ''docs/human/sdk'',
      ''docs/llm'']"

definition VENDOR_FILES :: "string list" where
  "VENDOR_FILES =
     [''sdk/swift/Package.swift'', ''sdk/kotlin/build.gradle.kts'', ''sdk/wasm/package.json'',
      ''core/rust/Cargo.toml'', ''core/rust/Cargo.lock'', ''core/rust/rust-toolchain.toml'',
      ''core/rust/grain-core/Cargo.toml'', ''core/rust/grain-client-core/Cargo.toml'',
      ''core/rust/grain-client-wasm/Cargo.toml'', ''core/ts/grain-ts-core/package.json'',
      ''core/ts/grain-sdk/package.json'', ''core/ts/grain-sdk-ai/package.json'',
      ''fixtures/external-consumers/npm-sdk/package.json'',
      ''sdk/workflows/contract/client_workflow_v1.md'',
      ''sdk/workflows/contract/safe_diagnostic_event_v1.schema.json'', ''sdk/api/public-sdk-v0.1.json'',
      ''sdk/custody/secure_storage_adapter_v1.md'', ''sdk/device/device_adapter_v1.schema.json'',
      ''sdk/device/README.md'', ''sdk/trust/trust_anchor_bundle_v1.schema.json'',
      ''templates/ios-starter/Package.swift'', ''templates/android-starter/build.gradle.kts'',
      ''templates/web-wasm-starter/package.json'', ''examples/ios-scanner/Package.swift'',
      ''examples/android-scanner/build.gradle.kts'', ''examples/wasm-scanner/package.json'',
      ''examples/ios-reference-app/Package.swift'', ''examples/android-reference-app/build.gradle.kts'',
      ''scripts/sdk/check_starter_templates.sh'', ''scripts/sdk/run_local_scanner_flow.sh'',
      ''tools/ci/check_local_scanner_flow_report.py'', ''generated-bindings/swift'',
      ''generated-bindings/kotlin'']"

record handoff_result =
  hr_commit :: string
  hr_registry_channel :: string
  hr_vendor_root :: path
  hr_artifacts :: "string list"

definition ho_err :: "string \<Rightarrow> string" where
  "ho_err s = ''EXTERNAL_SDK_HANDOFF_ERR_'' @ s"

subsection \<open>Manifest and policy\<close>

definition handoff_manifest :: "renv \<Rightarrow> string \<Rightarrow> dict res" where
  "handoff_manifest w release_dir =
     (let manifest_path = path_join release_dir ''manifest.json'' in
      thenE (checks [(is_file (files w) manifest_path, ho_err ''MANIFEST_MISSING'')])
     (bindE (read_json (files w) manifest_path) (\<lambda>v.
      bindE (case v of JObj d \<Rightarrow> Inr d | _ \<Rightarrow> Inl AttributeError) (\<lambda>manifest.
      thenE (checks
        [(fld manifest ''schema'' = JStr ''grain.sdk.release.manifest.v1'', ho_err ''SCHEMA''),
         (is_str (fld manifest ''commit'') \<and> re_match COMMIT_RE (json_str (fld manifest ''commit'')), ho_err ''COMMIT'')])
        (Inr manifest)))))"

definition validate_source_policy :: "dict \<Rightarrow> unit res" where
  "validate_source_policy manifest =
     bindE (report_object (fld manifest ''artifact_policy'') (ho_err ''ARTIFACT_POLICY'')) (\<lambda>policy.
       checks
         [(fld policy ''release_kind'' = JStr ''source-archive'', ho_err ''RELEASE_KIND''),
          (fld policy ''wasm_binary'' = JStr ''not_included_source_only'', ho_err ''WASM_BINARY_POLICY''),
          (fld policy ''platform_store_packages'' = JStr ''not_included'', ho_err ''STORE_PACKAGE_CHANNEL''),
          (fld policy ''registry_publication'' = JStr ''not_included'', ho_err ''REGISTRY_CHANNEL'')])"

definition handoff_prefix :: "string \<Rightarrow> string \<Rightarrow> string res" where
  "handoff_prefix file_name commit =
     (let suf = artifact_suffix commit in
      if ends_with file_name suf then Inr (take (length file_name - length suf) file_name)
      else stop (ho_err ''ARTIFACT_COMMIT: '' @ file_name))"

subsection \<open>Archives\<close>

text \<open>\<open>prefix.rstrip("/")\<close>.\<close>

definition rstrip_slash :: "string \<Rightarrow> string" where
  "rstrip_slash s = rev (dropWhile (\<lambda>c. c = CHR ''/'') (rev s))"

definition allowed_entry :: "string \<Rightarrow> bool" where
  "allowed_entry name =
     (name \<in> set ALLOWED_DIRECTORY_ENTRIES \<or>
      list_ex (\<lambda>pre. name = rstrip_slash pre \<or> starts_with name pre) ALLOWED_ENTRY_PREFIXES)"

definition validate_entry_boundary :: "string \<Rightarrow> string \<Rightarrow> unit res" where
  "validate_entry_boundary archive_name name =
     (let where_at = archive_name @ '':'' @ name in
      checks
        [(name \<noteq> [] \<and> \<not> starts_with name ''/'', ho_err ''ABSOLUTE_ENTRY: '' @ where_at),
         (''..'' \<notin> set (path_parts name), ho_err ''TRAVERSAL_ENTRY: '' @ where_at),
         (allowed_entry name, ho_err ''MONOREPO_INTERNAL_ENTRY: '' @ where_at)])"

definition extract_member :: "string \<Rightarrow> path \<Rightarrow> string list \<Rightarrow> member \<Rightarrow> (fs, string list) io" where
  "extract_member archive_name target entries m =
     (let name = m_name m; out = target @ path_comps name in
      seqIO (liftE (validate_entry_boundary archive_name name))
     (seqIO (liftE (checks [(m_isfile m \<or> m_isdir m,
               ho_err ''UNSUPPORTED_ARCHIVE_ENTRY: '' @ archive_name @ '':'' @ name)]))
     (if m_isdir m then seqIO (mkdirs [] out) (retIO (entries @ [name]))
      else seqIO (mkdirs [] (butlast out))
        (case m_data m of
           None \<Rightarrow> raiseIO (SystemExit (ho_err ''UNREADABLE_ENTRY: '' @ archive_name @ '':'' @ name))
         | Some data \<Rightarrow> seqIO (write_file out data) (retIO (entries @ [name]))))))"

definition safe_extract_archive :: "renv \<Rightarrow> string \<Rightarrow> path \<Rightarrow> string list \<Rightarrow> (fs, unit) io" where
  "safe_extract_archive w archive_path target required_entries =
     bindIO (liftE (tar_members w archive_path)) (\<lambda>ms.
     bindIO (foldIO (extract_member (path_name archive_path) target) [] ms) (\<lambda>entries.
       liftE (checks (map (\<lambda>req. (has_entry entries req,
           ho_err ''REQUIRED_ENTRY_MISSING: '' @ path_name archive_path @ '':'' @ req)) required_entries))))"

subsection \<open>Artifacts, layout, hand-off\<close>

text \<open>One turn of the loop; the state is the prefixes seen and the files extracted.\<close>

definition handoff_artifact ::
  "renv \<Rightarrow> string \<Rightarrow> path \<Rightarrow> string \<Rightarrow> string list \<times> string list \<Rightarrow> json \<Rightarrow> (fs, string list \<times> string list) io" where
  "handoff_artifact w release_dir target commit = (\<lambda>(seen, extracted) v.
     bindIO (liftE (report_object v (ho_err ''ARTIFACT_TYPE''))) (\<lambda>artifact.
     case fld artifact ''file'' of
       JStr file_name \<Rightarrow>
         seqIO (liftE (checks [(safe_file_name file_name, ho_err ''ARTIFACT_FILE'')]))
        (bindIO (liftE (handoff_prefix file_name commit)) (\<lambda>pre.
         case map_of EXPECTED_ARTIFACTS_handoff pre of
           None \<Rightarrow> raiseIO (SystemExit (ho_err ''ARTIFACT_UNKNOWN: '' @ file_name))
         | Some expected \<Rightarrow>
             seqIO (liftE (checks
               [(pre \<notin> set seen, ho_err ''ARTIFACT_DUP: '' @ file_name),
                (fld artifact ''kind'' = JStr (h_kind expected), ho_err ''ARTIFACT_KIND: '' @ file_name),
                (is_file (files w) (path_join release_dir file_name), ho_err ''ARTIFACT_MISSING: '' @ file_name)]))
            (seqIO (safe_extract_archive w (path_join release_dir file_name) target (h_required_entries expected))
               (retIO (seen @ [pre], extracted @ [file_name])))))
     | _ \<Rightarrow> raiseIO (SystemExit (ho_err ''ARTIFACT_FILE''))))"

definition handoff_artifacts :: "renv \<Rightarrow> dict \<Rightarrow> string \<Rightarrow> path \<Rightarrow> string \<Rightarrow> (fs, string list) io" where
  "handoff_artifacts w manifest release_dir target commit =
     bindIO (liftE (report_list (fld manifest ''artifacts'') (ho_err ''ARTIFACTS_TYPE''))) (\<lambda>artifacts.
     seqIO (liftE (checks [(length artifacts = length EXPECTED_ARTIFACTS_handoff, ho_err ''ARTIFACT_COUNT'')]))
    (bindIO (foldIO (handoff_artifact w release_dir target commit) ([], []) artifacts) (\<lambda>(seen, extracted).
     seqIO (liftE (checks [(set seen = set (map fst EXPECTED_ARTIFACTS_handoff), ho_err ''ARTIFACT_SET'')]))
       (retIO (py_sorted extracted)))))"

definition validate_vendor_layout :: "path \<Rightarrow> fs \<Rightarrow> unit res" where
  "validate_vendor_layout target fs =
     checks (map (\<lambda>rel. (map_of fs (target @ path_comps rel) \<noteq> None, ho_err ''VENDOR_FILE_MISSING: '' @ rel))
       VENDOR_FILES)"

text \<open>What happens before anything is written; returns the manifest and its commit.\<close>

definition handoff_precheck :: "renv \<Rightarrow> string \<Rightarrow> string \<Rightarrow> release_args \<Rightarrow> (dict \<times> string) res" where
  "handoff_precheck w root_dir release_dir args =
     bindE (handoff_manifest w release_dir) (\<lambda>manifest.
     let commit = json_str (fld manifest ''commit'') in
     thenE (checks [((case expected_commit args of None \<Rightarrow> True | Some c \<Rightarrow> commit = c), ho_err ''COMMIT_MISMATCH'')])
    (thenE (validate_source_policy manifest)
    (thenE (if path_exists (files w) (path_join release_dir ''SHA256SUMS'') \<and>
               path_exists (files w) (path_join release_dir ''sbom.spdx.json'')
            then bindE (validate_manifest w root_dir release_dir args) (\<lambda>_. Inr ()) else Inr ())
       (Inr (manifest, commit)))))"

definition check_handoff ::
  "renv \<Rightarrow> string \<Rightarrow> string \<Rightarrow> path \<Rightarrow> release_args \<Rightarrow> (fs, handoff_result) io" where
  "check_handoff w root_dir release_dir vendor args =
     bindIO (liftE (handoff_precheck w root_dir release_dir args)) (\<lambda>(manifest, commit).
     let target = vendor @ [commit] in
     bindIO (\<lambda>fs. ((if map_of fs target = None then Inr False else has_children target fs), fs)) (\<lambda>busy.
     seqIO (liftE (checks [(\<not> busy, ho_err ''VENDOR_TARGET_EXISTS: /'' @ str_join ''/'' target)]))
    (seqIO (mkdirs [] target)
    (bindIO (handoff_artifacts w manifest release_dir target commit) (\<lambda>artifacts.
     seqIO (\<lambda>fs. (validate_vendor_layout target fs, fs))
       (retIO \<lparr>hr_commit = commit, hr_registry_channel = ''source-only'', hr_vendor_root = target,
               hr_artifacts = artifacts\<rparr>))))))"

text \<open>
  The command line: with \<open>--vendor-dir\<close> (its components, once resolved), or in a temporary directory
  \<open>tmp\<close> that is removed at the end, whatever happens.
\<close>

definition handoff_message :: "handoff_result \<Rightarrow> string" where
  "handoff_message r = ''External SDK handoff check: OK ('' @ nat_str (length (hr_artifacts r)) @
     '' source artifacts, commit '' @ hr_commit r @ '', channel '' @ hr_registry_channel r @ '')''"

definition remove_tree :: "path \<Rightarrow> fs \<Rightarrow> fs" where
  "remove_tree p fs = filter (\<lambda>(q, _). \<not> prefix p q) fs"

definition handoff_main ::
  "renv \<Rightarrow> string \<Rightarrow> string \<Rightarrow> path option \<Rightarrow> path \<Rightarrow> release_args \<Rightarrow> (fs, string) io" where
  "handoff_main w root_dir release_dir vendor tmp args =
     bindIO
       (case vendor of
          Some v \<Rightarrow> check_handoff w root_dir release_dir v args
        | None \<Rightarrow>
            seqIO (act (set_node tmp Dir))
              (finallyIO (check_handoff w root_dir release_dir (tmp @ [''external-app'', ''vendor'', ''grain-sdk'']) args)
                 (remove_tree tmp)))
       (\<lambda>r. retIO (handoff_message r))"

end
