(* ===== verification/SdkReleaseProps.thy ===== *)
theory SdkReleaseProps
  imports SdkRelease
begin

text \<open>
  What an accepted release directory guarantees. An invariant of the loop over the artifacts and
  the count of the manifest's entries give, by the pigeonhole principle, that all eight packages
  are there; the checksum file then covers each of them with the digest of the actual file.
\<close>

subsection \<open>Archives\<close>

definition member_ok :: "member \<Rightarrow> bool" where
  "member_ok m =
     (m_name m \<noteq> [] \<and> \<not> starts_with (m_name m) ''/'' \<and> ''..'' \<notin> set (path_parts (m_name m)) \<and>
      (m_isfile m \<or> m_isdir m) \<and> \<not> re_search FORBIDDEN_ARCHIVE_RE (m_name m) \<and>
      \<not> re_search SECRET_ARCHIVE_RE (m_name m))"

lemma member_checks_ok: "list_all fst (member_checks a m) \<longleftrightarrow> member_ok m"
  by (simp add: member_checks_def member_ok_def Let_def)

lemma archive_fold:
  "foldE (archive_step a) es ms = Inr es' \<longleftrightarrow>
     es' = es @ map m_name ms \<and> list_all member_ok ms \<and>
     distinct (map m_name ms) \<and> set es \<inter> set (map m_name ms) = {}"
proof (induction ms arbitrary: es)
  case Nil
  then show ?case by auto
next
  case (Cons m ms)
  have "foldE (archive_step a) es (m # ms) = Inr es' \<longleftrightarrow>
      m_name m \<notin> set es \<and> member_ok m \<and> foldE (archive_step a) (es @ [m_name m]) ms = Inr es'"
    by (auto simp: archive_step_def bindE_Inr thenE_Inr checks_Inr member_checks_ok simp del: checks.simps)
  then show ?case unfolding Cons.IH by auto
qed

definition archive_ok :: "member list \<Rightarrow> artifact_policy \<Rightarrow> bool" where
  "archive_ok ms pol =
     (list_all member_ok ms \<and> distinct (map m_name ms) \<and>
      list_all (has_entry (map m_name ms)) (a_required_entries pol))"

lemma validate_archive_Inr:
  "validate_archive w p pol = Inr () \<longleftrightarrow>
     is_file (files w) p \<and> (\<exists>ms. members_of w p = Some ms \<and> archive_ok ms pol)"
  by (auto simp: validate_archive_def bindE_Inr tar_members_Inr archive_fold checks_Inr archive_ok_def
      list_all_iff simp del: checks.simps)

subsection \<open>The loop over the artifacts\<close>

text \<open>What the loop has established for a file name and its digest.\<close>

definition shipped :: "renv \<Rightarrow> string \<Rightarrow> string \<Rightarrow> string \<times> string \<Rightarrow> bool" where
  "shipped w out_dir commit = (\<lambda>(file_name, sha).
     \<exists>pre pol. file_name = pre @ artifact_suffix commit \<and> map_of EXPECTED_ARTIFACTS pre = Some pol \<and>
       sha256_of w (path_join out_dir file_name) = sha \<and>
       validate_archive w (path_join out_dir file_name) pol = Inr ())"

lemma artifact_step_Inr:
  assumes "artifact_step w out_dir commit st v = Inr st'"
  shows "\<exists>artifact file_name sha. v = JObj artifact \<and> fld artifact ''file'' = JStr file_name \<and>
    fld artifact ''sha256'' = JStr sha \<and> st' = st @ [(file_name, sha)] \<and>
    file_name \<notin> set (map fst st) \<and> shipped w out_dir commit (file_name, sha)"
proof -
  from assms obtain artifact where a: "v = JObj artifact"
    by (cases v) (auto simp: artifact_step_def report_object_def)
  with assms obtain f where f: "fld artifact ''file'' = JStr f"
    by (auto simp: artifact_step_def report_object_def split: json.splits)
  from assms a f obtain pre where pre: "artifact_prefix f commit = Inr pre" and new: "f \<notin> set (map fst st)"
    by (auto simp: artifact_step_def report_object_def bindE_Inr thenE_Inr checks_Inr simp del: checks.simps)
  from assms a f pre obtain pol where pol: "map_of EXPECTED_ARTIFACTS pre = Some pol"
    by (auto simp: artifact_step_def report_object_def bindE_Inr thenE_Inr checks_Inr simp del: checks.simps
        split: option.splits)
  from assms a f pre pol have rest: "sha256_file w (path_join out_dir f) = Inr (sha256_of w (path_join out_dir f))"
      "fld artifact ''sha256'' = JStr (sha256_of w (path_join out_dir f))"
      "validate_archive w (path_join out_dir f) pol = Inr ()"
      "st' = st @ [(f, sha256_of w (path_join out_dir f))]"
    by (auto simp: artifact_step_def report_object_def bindE_Inr thenE_Inr checks_Inr sha256_file_Inr Let_def
        simp del: checks.simps)
  have "shipped w out_dir commit (f, sha256_of w (path_join out_dir f))"
    using pre pol rest(3) by (auto simp: shipped_def artifact_prefix_Inr)
  with a f rest new show ?thesis by blast
qed

lemma artifact_fold:
  "foldE (artifact_step w out_dir commit) st xs = Inr st' \<Longrightarrow> distinct (map fst st) \<Longrightarrow>
     list_all (shipped w out_dir commit) st \<Longrightarrow>
     distinct (map fst st') \<and> list_all (shipped w out_dir commit) st' \<and> length st' = length st + length xs"
proof (induction xs arbitrary: st)
  case Nil
  then show ?case by simp
next
  case (Cons x xs)
  then obtain st1 where s: "artifact_step w out_dir commit st x = Inr st1"
      "foldE (artifact_step w out_dir commit) st1 xs = Inr st'" by (auto simp: bindE_Inr)
  from artifact_step_Inr [OF s(1)] Cons.prems(2,3)
  have "distinct (map fst st1)" "list_all (shipped w out_dir commit) st1" "length st1 = Suc (length st)"
    by auto
  with Cons.IH [OF s(2)] show ?case by simp
qed

text \<open>As many different shipped files as there are expected packages means that every package is shipped.\<close>

lemma all_shipped:
  assumes "distinct (map fst st)" and "list_all (shipped w out_dir commit) st"
    and "length st = length EXPECTED_ARTIFACTS" and "pre \<in> set (map fst EXPECTED_ARTIFACTS)"
  shows "\<exists>sha. (pre @ artifact_suffix commit, sha) \<in> set st"
proof -
  let ?P = "set (map fst EXPECTED_ARTIFACTS)" and ?F = "set (map fst st)"
  let ?name = "\<lambda>p. p @ artifact_suffix commit"
  have inj: "inj ?name" by (simp add: inj_def)
  have "?F \<subseteq> ?name ` ?P"
  proof
    fix f assume "f \<in> ?F"
    then obtain sha where "(f, sha) \<in> set st" by auto
    with assms(2) have "shipped w out_dir commit (f, sha)" by (auto simp: list_all_iff)
    then show "f \<in> ?name ` ?P" by (force simp: shipped_def dest: map_of_SomeD)
  qed
  moreover have "card ?F = card (?name ` ?P)"
  proof -
    have "card ?F = length EXPECTED_ARTIFACTS"
      using assms(1,3) by (simp add: distinct_card del: set_map)
    also have "\<dots> = card ?P"
      by (subst distinct_card) (simp_all add: EXPECTED_ARTIFACTS_def)
    finally show ?thesis by (simp add: card_image inj_on_def del: set_map)
  qed
  ultimately have "?F = ?name ` ?P" by (intro card_subset_eq) simp_all
  with assms(4) show ?thesis by (metis (no_types, lifting) imageE image_eqI list.set_map prod.collapse)
qed

subsection \<open>Accepted releases\<close>

lemma sums_fold:
  "foldE sums_line st ls = Inr st' \<Longrightarrow> (f, sha) \<in> set st' \<Longrightarrow>
     (f, sha) \<in> set st \<or> sha @ ''  '' @ f \<in> set ls"
proof (induction ls arbitrary: st)
  case Nil
  then show ?case by simp
next
  case (Cons l ls)
  from Cons.prems(1) obtain st1 where s: "sums_line st l = Inr st1" "foldE sums_line st1 ls = Inr st'"
    by (auto simp: bindE_Inr)
  from Cons.IH [OF s(2) Cons.prems(2)] consider "(f, sha) \<in> set st1" | "sha @ ''  '' @ f \<in> set ls" by blast
  then show ?case
  proof cases
    case 1
    show ?thesis
    proof (cases "l = []")
      case True
      with s(1) 1 show ?thesis by (simp add: sums_line_def)
    next
      case False
      with s(1) obtain a b where ab: "str_split ''  '' l = [a, b]" "st1 = st @ [(b, a)]"
        by (auto simp: sums_line_def thenE_Inr simp del: checks.simps split: list.splits)
      from str_join_split [of "''  ''" l] ab(1) have "l = a @ ''  '' @ b" by simp
      with 1 ab(2) show ?thesis by auto
    qed
  qed simp
qed

lemma sum_table_kept:
  assumes "(f, sha) \<in> set st" and "distinct (map fst st)" and "f = g \<Longrightarrow> sha = x"
  shows "(f, sha) \<in> set (AList.update g x st)"
proof (cases "f = g")
  case True
  have "map_of (AList.update g x st) g = Some x" by (simp add: update_conv')
  with True assms(3) show ?thesis by (blast dest: map_of_SomeD)
next
  case False
  with assms(1,2) have "map_of (AList.update g x st) f = Some sha" by (simp add: update_conv')
  then show ?thesis by (rule map_of_SomeD)
qed

lemma sbom_meta:
  assumes "validate_sbom w out_dir manifest = Inr ()" and "fld manifest ''sbom'' = JObj meta"
  shows "\<exists>g. fld meta ''file'' = JStr g \<and> fld meta ''sha256'' = JStr (sha256_of w (path_join out_dir g))"
proof -
  from assms obtain g where g: "fld meta ''file'' = JStr g"
    unfolding validate_sbom_def by (cases "fld meta ''file''") (auto simp: report_object_def)
  with assms show ?thesis
    unfolding validate_sbom_def by (auto simp: report_object_def thenE_Inr bindE_Inr checks_Inr sha256_file_Inr
        Let_def simp del: checks.simps)
qed

lemma fld_index: "dict_index d k = Inr v \<Longrightarrow> fld d k = v"
  by (simp add: dict_index_Inr dict_get_def)

lemma release_header_commit:
  assumes "release_header w root_dir args manifest = Inr commit"
  shows "fld manifest ''commit'' = JStr commit \<and>
    (\<forall>c. expected_commit args = Some c \<and> c \<noteq> [] \<longrightarrow> commit = c) \<and>
    (require_clean args \<longrightarrow> fld manifest ''dirty'' = JBool False)"
proof -
  from assms obtain c where "fld manifest ''commit'' = JStr c"
    unfolding release_header_def by (cases "fld manifest ''commit''") (auto simp: thenE_Inr)
  with assms show ?thesis
    unfolding release_header_def
    by (auto simp: thenE_Inr bindE_Inr checks_Inr is_false_def simp del: checks.simps)
qed

text \<open>C24: an accepted release directory is complete and intact: for each of the eight packages there is the
archive of exactly this commit, all its entries are relative, free of build products and secrets
and include the required ones, and the checksum file lists it with the digest of the actual file.\<close>

theorem release_integrity:
  assumes "validate_manifest w root_dir out_dir args = Inr manifest"
  shows "\<exists>commit lines. fld manifest ''commit'' = JStr commit \<and>
    (\<forall>c. expected_commit args = Some c \<and> c \<noteq> [] \<longrightarrow> commit = c) \<and>
    (require_clean args \<longrightarrow> fld manifest ''dirty'' = JBool False) \<and>
    map_option str_splitlines (file_text (files w) (path_join out_dir ''SHA256SUMS'')) = Some lines \<and>
    (\<forall>(pre, pol)\<in>set EXPECTED_ARTIFACTS.
       let f = pre @ artifact_suffix commit in
       sha256_of w (path_join out_dir f) @ ''  '' @ f \<in> set lines \<and>
       (\<exists>ms. members_of w (path_join out_dir f) = Some ms \<and> archive_ok ms pol))"
proof -
  from assms obtain v commit artifacts st meta g x where
      hd: "release_header w root_dir args manifest = Inr commit"
    and len: "length artifacts = length EXPECTED_ARTIFACTS"
    and st: "foldE (artifact_step w out_dir commit) [] artifacts = Inr st"
    and meta: "fld manifest ''sbom'' = JObj meta" "dict_index meta ''file'' = Inr g" "dict_index meta ''sha256'' = Inr x"
    and sums: "validate_sums w out_dir (AList.update (json_str g) (json_str x) st) = Inr ()"
    and sbom: "validate_sbom w out_dir manifest = Inr ()"
    unfolding validate_manifest_def Let_def bindE_Inr thenE_Inr checks_Inr report_list_Inr report_object_Inr
      list.pred_inject fst_conv
    by (elim exE conjE) (auto split: json.splits)
  from sums obtain t actual where t: "file_text (files w) (path_join out_dir ''SHA256SUMS'') = Some t"
      "foldE sums_line [] (str_splitlines t) = Inr actual" "set actual = set (AList.update (json_str g) (json_str x) st)"
    unfolding validate_sums_def Let_def
    by (auto simp: bindE_Inr thenE_Inr checks_Inr read_text_Inr simp del: checks.simps)
  from sbom_meta [OF sbom meta(1)] obtain h where
      h: "json_str g = h" "json_str x = sha256_of w (path_join out_dir h)"
    unfolding fld_index [OF meta(2)] fld_index [OF meta(3)] by auto
  have inv: "distinct (map fst st)" "list_all (shipped w out_dir commit) st"
      "length st = length EXPECTED_ARTIFACTS"
    using artifact_fold [OF st] len by simp_all
  have each: "let f = pre @ artifact_suffix commit in
       sha256_of w (path_join out_dir f) @ ''  '' @ f \<in> set (str_splitlines t) \<and>
       (\<exists>ms. members_of w (path_join out_dir f) = Some ms \<and> archive_ok ms pol)"
    if pol: "(pre, pol) \<in> set EXPECTED_ARTIFACTS" for pre pol
  proof -
    let ?f = "pre @ artifact_suffix commit"
    from pol have "pre \<in> set (map fst EXPECTED_ARTIFACTS)" by force
    from all_shipped [OF inv this] obtain sha where sha: "(?f, sha) \<in> set st" by blast
    with inv(2) have "shipped w out_dir commit (?f, sha)" by (auto simp: list_all_iff)
    then obtain pre' pol' where s: "?f = pre' @ artifact_suffix commit" "map_of EXPECTED_ARTIFACTS pre' = Some pol'"
        "sha256_of w (path_join out_dir ?f) = sha" "validate_archive w (path_join out_dir ?f) pol' = Inr ()"
      by (auto simp: shipped_def)
    have "distinct (map fst EXPECTED_ARTIFACTS)" by (simp add: EXPECTED_ARTIFACTS_def)
    then have "map_of EXPECTED_ARTIFACTS pre = Some pol" using pol by (rule map_of_is_SomeI)
    with s(1,2) have pol': "pol' = pol" by simp
    have "(?f, sha) \<in> set actual"
      unfolding t(3) using sha inv(1) by (rule sum_table_kept) (use h s(3) in auto)
    with sums_fold [OF t(2)] have "sha @ ''  '' @ ?f \<in> set (str_splitlines t)" by force
    with s(3,4) show ?thesis unfolding pol' validate_archive_Inr by (auto simp: Let_def)
  qed
  from release_header_commit [OF hd] t(1) each show ?thesis
    by (intro exI [of _ commit] exI [of _ "str_splitlines t"]) (auto simp: split_beta)
qed

subsection \<open>An accepted release directory\<close>

definition ex_commit :: string where "ex_commit = replicate 40 CHR ''a''"
definition ex_sha :: string where "ex_sha = replicate 64 CHR ''b''"

definition ex_file :: "string \<Rightarrow> string" where
  "ex_file pre = pre @ artifact_suffix ex_commit"

definition ex_artifact :: "string \<times> artifact_policy \<Rightarrow> json" where
  "ex_artifact = (\<lambda>(pre, pol). JObj
     [(''file'', JStr (ex_file pre)), (''name'', JStr pre), (''kind'', JStr (a_kind pol)),
      (''consumer_paths'', JArr (map JStr (a_consumer_paths pol))), (''bytes'', JInt 1), (''sha256'', JStr ex_sha)])"

definition ex_versions :: "(string \<times> string) list" where
  "ex_versions = [(''grain_client_core'', ''1''), (''grain_client_wasm'', ''1''), (''kotlin_client'', ''1''),
     (''wasm_client'', ''1''), (''swift_client'', ''repo-sha''), (''typescript_core'', ''1''),
     (''typescript_sdk'', ''1''), (''typescript_ai_sdk'', ''1'')]"

definition ex_manifest :: dict where
  "ex_manifest =
     [(''schema'', JStr ''grain.sdk.release.manifest.v1''), (''commit'', JStr ex_commit), (''dirty'', JBool False),
      (''verification'', JObj [(''mode'', JStr ''strict''), (''source'', JStr ''ci'')]),
      (''workflow_contract'', JStr ''client_workflow_v1''),
      (''artifact_policy'', JObj [(''release_kind'', JStr ''source-archive''),
         (''wasm_binary'', JStr ''not_included_source_only''), (''platform_store_packages'', JStr ''not_included''),
         (''registry_publication'', JStr ''not_included'')]),
      (''version_matrix'', JObj [(''path'', JStr ''docs/human/sdk/version-matrix.md''), (''sha256'', JStr ex_sha),
         (''rule'', JStr ''same-repo-sha'')]),
      (''sdk_versions'', JObj (map (\<lambda>(k, v). (k, JObj [(''version'', JStr v)])) ex_versions)),
      (''artifacts'', JArr (map ex_artifact EXPECTED_ARTIFACTS)),
      (''sbom'', JObj [(''file'', JStr ''sbom.spdx.json''), (''sha256'', JStr ex_sha), (''bytes'', JInt 1)])]"

definition ex_sbom :: json where
  "ex_sbom = JObj
     [(''spdxVersion'', JStr ''SPDX-2.3''), (''SPDXID'', JStr ''SPDXRef-DOCUMENT''),
      (''packages'', JArr (map (\<lambda>(pre, pol). JObj [(''name'', JStr pre), (''checksums'',
         JArr [JObj [(''algorithm'', JStr ''SHA256''), (''checksumValue'', JStr ex_sha)]])]) EXPECTED_ARTIFACTS))]"

definition ex_lines :: "string list" where
  "ex_lines = map (\<lambda>(pre, pol). ex_sha @ ''  '' @ ex_file pre) EXPECTED_ARTIFACTS @ [ex_sha @ ''  '' @ ''sbom.spdx.json'']"

text \<open>The summaries of the evidence archive of the same release.\<close>

definition ex_suite :: dict where
  "ex_suite = [(''commit_sha'', JStr ex_commit), (''strict'', JBool True)] @
     map (\<lambda>k. (k, JObj [(''failed'', JInt 0), (''mismatches'', JInt 0), (''total'', JInt 1), (''passed'', JInt 1)]))
       [''rust_full'', ''ts_c01'', ''divergence_c01'', ''ts_full'', ''ts_suite_runner'', ''divergence_full'',
        ''properties_full'', ''sdk_suite'']"

definition ex_run :: dict where
  "ex_run = [(''commit_sha'', JStr ex_commit), (''metadata'', JObj [(''workflow'', JStr ''release-evidence'')])]"

definition ex_sdk :: dict where
  "ex_sdk = [(''commit_sha'', JStr ex_commit), (''strict'', JBool True), (''total'', JInt 1), (''passed'', JInt 1),
     (''failed'', JInt 0)]"

definition ex_evidence :: "(string \<times> json) list" where
  "ex_evidence = [(''suite'', JObj ex_suite), (''run'', JObj ex_run), (''sdk'', JObj ex_sdk)]"

definition ex_world :: renv where
  "ex_world = \<lparr>files =
       \<lparr>file_text = (\<lambda>p. if p = ''o/SHA256SUMS'' then Some (concat (map (\<lambda>l. l @ [newline]) ex_lines))
                       else if p = ''r/sdk/kotlin/build.gradle.kts'' then Some (''version = '' @ [dquote] @ ''1'' @ [dquote])
                       else Some p),
        json_loads = (\<lambda>t. if t = ''o/manifest.json'' then Some (JObj ex_manifest)
                        else if t = ''o/sbom.spdx.json'' then Some ex_sbom
                        else case map_of ex_evidence t of
                               Some v \<Rightarrow> Some v | None \<Rightarrow> Some (JObj [(''version'', JStr ''1'')])),
        is_dir = (\<lambda>_. True), dir_glob = (\<lambda>_ _. [])\<rparr>,
     sha256_of = (\<lambda>_. ex_sha), size_of = (\<lambda>_. 1),
     members_of = (\<lambda>p. map_option (\<lambda>pol. map (\<lambda>n. \<lparr>m_name = n, m_isfile = True, m_isdir = False, m_data = Some []\<rparr>)
         (a_required_entries pol)) (map_of (map (\<lambda>(pre, pol). (''o/'' @ ex_file pre, pol)) EXPECTED_ARTIFACTS) p)),
     toml_loads = (\<lambda>_. Some (JObj [(''package'', JObj [(''version'', JStr ''1'')])]))\<rparr>"

definition ex_args :: release_args where
  "ex_args = \<lparr>expected_commit = Some ex_commit, require_strict = True, require_clean = True\<rparr>"

text \<open>Names that contain none of the fixed words of a pattern do not match it.\<close>

lemma re_search_RSeqs_last:
  assumes "re_search (RSeqs [r, RAlts (map RLit ws), RLit u]) s"
  shows "list_ex (\<lambda>t. contains s (t @ u)) ws"
proof -
  have "re_search (RSeq (RAlts (map RLit ws)) (RSeq (RLit u) REps)) s"
    using re_search_RSeqs [OF assms] by (simp add: RSeqs_def)
  then obtain a v c where m: "s = a @ v" "((rev a, v), c) \<in> lang (RSeq (RAlts (map RLit ws)) (RSeq (RLit u) REps))"
    unfolding re_search_iff by blast
  from m(2) obtain d e t where s: "t \<in> set ws" "((rev a, v), d) \<in> lang (RLit t)" "(d, e) \<in> lang (RLit u)"
    by (auto simp: lang_RAlts)
  then obtain z where "v = t @ u @ z" by (auto simp: lang_RLit)
  with m(1) have "s = a @ (t @ u) @ z" by simp
  then have "contains s (t @ u)" unfolding contains_def sublist_def by blast
  with s(1) show ?thesis by (auto simp: list_ex_iff)
qed

lemma re_search_lit_alts:
  assumes "re_search (RSeqs (RLit u # RAlts (map RLit ws) # rs)) s"
  shows "list_ex (\<lambda>t. contains s (u @ t)) ws"
proof -
  from assms obtain a v c where m: "s = a @ v" "((rev a, v), c) \<in> lang (RSeqs (RLit u # RAlts (map RLit ws) # rs))"
    unfolding re_search_iff by blast
  from m(2) obtain d e t where s: "t \<in> set ws" "((rev a, v), d) \<in> lang (RLit u)" "(d, e) \<in> lang (RLit t)"
    by (auto simp: lang_RAlts)
  then obtain z where "v = u @ t @ z" by (auto simp: lang_RLit)
  with m(1) have "s = a @ (u @ t) @ z" by simp
  then have "contains s (u @ t)" unfolding contains_def sublist_def by blast
  with s(1) show ?thesis by (auto simp: list_ex_iff)
qed

definition forbidden_words :: "string list" where
  "forbidden_words = map (\<lambda>t. t @ ''/'') [''node_modules'', ''dist'', ''build'', ''.build'', ''.gradle'', ''.kotlin'', ''target'', ''pkg''] @
     [''tsconfig.build.tsbuildinfo'', ''.wasm'']"

lemma forbidden_archive_words: "re_search FORBIDDEN_ARCHIVE_RE s \<Longrightarrow> list_ex (contains s) forbidden_words"
  unfolding FORBIDDEN_ARCHIVE_RE_def re_search_RAlts list.set bex_simps
proof (elim disjE)
  assume "re_search (RSeqs [at_component, RAlts (map RLit [''node_modules'', ''dist'', ''build'', ''.build'', ''.gradle'', ''.kotlin'', ''target'', ''pkg'']), RLit ''/'']) s"
  from re_search_RSeqs_last [OF this] show ?thesis unfolding forbidden_words_def by simp blast
next
  assume "re_search (RSeqs [at_component, RLit ''tsconfig.build.tsbuildinfo'', RDollar]) s"
  then have "re_search (RLit ''tsconfig.build.tsbuildinfo'') s" by (blast dest: re_search_RSeqs)
  then show ?thesis by (simp add: forbidden_words_def re_search_RLit)
next
  assume "re_search (RSeqs [RLit ''.wasm'', RDollar]) s"
  then have "re_search (RLit ''.wasm'') s" by (blast dest: re_search_RSeqs)
  then show ?thesis by (simp add: forbidden_words_def re_search_RLit)
qed simp

definition secret_words :: "string list" where
  "secret_words = [''.env'', ''secret'', ''.pem'', ''.key'', ''.p12'', ''.pfx'']"

lemma secret_archive_words: "re_search SECRET_ARCHIVE_RE s \<Longrightarrow> list_ex (contains s) secret_words"
  unfolding SECRET_ARCHIVE_RE_def RAlts.simps re_search_RAlt
proof (elim disjE)
  let ?env = "[RLit ''.env'', ROpt (RSeqs [RCls (\<lambda>c. c \<in> set ''._-''), RStar (RCls (\<lambda>c. c \<noteq> CHR ''/''))])]"
  let ?secret = "[RLit ''secret'', ROpt (RLit ''s'')]"
  assume "re_search (RSeqs [at_component, RAlt (RSeqs ?env) (RSeqs ?secret), RAlt (RLit ''/'') RDollar]) s"
  then have "re_search (RAlt (RSeqs ?env) (RSeqs ?secret)) s" by (blast dest: re_search_RSeqs)
  then have "re_search (RSeqs ?env) s \<or> re_search (RSeqs ?secret) s" by (simp only: re_search_RAlt)
  then have "re_search (RLit ''.env'') s \<or> re_search (RLit ''secret'') s" by (blast dest: re_search_RSeqs)
  then show ?thesis by (auto simp: secret_words_def re_search_RLit)
next
  assume "re_search (RSeqs [RLit ''.'', RAlts (map RLit [''pem'', ''key'', ''p12'', ''pfx'']), RDollar]) s"
  from re_search_lit_alts [OF this] show ?thesis by (auto simp: secret_words_def)
qed

lemma ex_names_clean:
  "list_all (\<lambda>(pre, pol). list_all (\<lambda>n. n \<noteq> [] \<and> \<not> starts_with n ''/'' \<and> ''..'' \<notin> set (path_parts n) \<and>
     \<not> list_ex (contains n) forbidden_words \<and> \<not> list_ex (contains n) secret_words) (a_required_entries pol) \<and>
     distinct (a_required_entries pol) \<and> list_all safe_consumer_path (a_consumer_paths pol) \<and>
     safe_file_name (ex_file pre)) EXPECTED_ARTIFACTS"
  by code_simp

definition policy_words :: "string list list" where
  "policy_words =
     [[''store''], [''testflight''], [''play''], [''npm'', ''publish''], [''maven'', ''central''], [''sonatype''],
      [''ossrh''], [''credential'', ''required''], [''external'', ''credential'']]"

lemma policy_words_lower: "map (map str_lower) policy_words = policy_words"
  by code_simp

lemma policy_claim_words:
  "re_search FORBIDDEN_POLICY_CLAIM_RE s \<Longrightarrow> list_ex (list_all (contains (str_lower s))) policy_words"
  unfolding FORBIDDEN_POLICY_CLAIM_RE_def re_search_RAlts list.set bex_simps
  by (elim disjE)
     ((drule re_search_spaced re_search_word re_search_word_seq re_search_word_last,
       erule claim_wordsI [OF _ _ policy_words_lower], simp add: policy_words_def) | simp)+

lemma ex_policy_ok: "validate_artifact_policy (fld ex_manifest ''artifact_policy'') e = Inr ()"
proof -
  have "list_all (\<lambda>s. \<not> list_ex (list_all (contains (str_lower s))) policy_words)
      [''source-archive'', ''not_included_source_only'', ''not_included'']" by code_simp
  then have "\<not> re_search FORBIDDEN_POLICY_CLAIM_RE s"
    if "s \<in> {''source-archive'', ''not_included_source_only'', ''not_included''}" for s
    using that policy_claim_words by (auto simp: list_all_iff)
  then show ?thesis
    by (simp add: validate_artifact_policy_def report_object_def ex_manifest_def dict_get_def)
qed

lemma ex_matrix_ok: "release_matrix ex_world ''r'' ex_manifest = Inr ()"
  by code_simp

lemma ex_sbom_ok: "validate_sbom ex_world ''o'' ex_manifest = Inr ()"
  by code_simp

lemma ex_hex: "re_match COMMIT_RE ex_commit" "re_match SHA_RE ex_sha"
  unfolding COMMIT_RE_def SHA_RE_def match_hex_re
  by (intro exI [of _ ex_commit]; simp add: ex_commit_def chr_is_hex_def list_all_iff)
     (intro exI [of _ ex_sha]; simp add: ex_sha_def chr_is_hex_def list_all_iff)

lemma ex_header_ok: "release_header ex_world ''r'' ex_args ex_manifest = Inr ex_commit"
  using ex_policy_ok ex_hex(1)
  by (simp add: release_header_def ex_manifest_def ex_args_def dict_get_def is_false_def report_object_def
      nonempty_str_def check_in_def)

lemma splitlines_lines:
  "list_all (list_all (\<lambda>c. \<not> chr_is_newline c)) ls \<Longrightarrow> str_splitlines (concat (map (\<lambda>l. l @ [newline]) ls)) = ls"
proof (induction ls)
  case Nil
  then show ?case by (simp add: str_splitlines.simps)
next
  case (Cons l ls)
  let ?t = "concat (map (\<lambda>l. l @ [newline]) ls)"
  have l: "takeWhile (\<lambda>c. \<not> chr_is_newline c) (l @ newline # ?t) = l"
      "dropWhile (\<lambda>c. \<not> chr_is_newline c) (l @ newline # ?t) = newline # ?t"
    using Cons.prems by (simp_all add: list_all_iff chr_is_newline_def)
  have "str_splitlines (l @ newline # ?t) = l # str_splitlines ?t"
    by (subst str_splitlines.simps) (simp add: l Let_def split: list.split)
  with Cons show ?case by simp
qed

lemma partition_spaces: "CHR '' '' \<notin> set a \<Longrightarrow> str_partition ''  '' (a @ ''  '' @ b) = Some (a, b)"
  by (induction a) (auto split: option.splits)

lemma split_spaces:
  assumes "CHR '' '' \<notin> set a" and "CHR '' '' \<notin> set b"
  shows "str_split ''  '' (a @ ''  '' @ b) = [a, b]"
proof -
  have "str_partition ''  '' b = None"
    using assms(2) by (auto simp: str_partition_None_iff sublist_def)
  then have "str_split ''  '' b = [b]" by (subst str_split.simps) simp
  then show ?thesis
    using partition_spaces [OF assms(1), of b] by (subst str_split.simps) simp
qed

definition plain_text :: "string \<Rightarrow> bool" where
  "plain_text s = list_all (\<lambda>c. c \<noteq> CHR '' '' \<and> \<not> chr_is_newline c) s"

lemma plain_text_append: "plain_text (s @ t) \<longleftrightarrow> plain_text s \<and> plain_text t"
  by (simp add: plain_text_def)

lemma plain_text_D: "plain_text s \<Longrightarrow> CHR '' '' \<notin> set s \<and> list_all (\<lambda>c. \<not> chr_is_newline c) s"
  by (auto simp: plain_text_def list_all_iff)

lemma ex_plain:
  "list_all plain_text (map fst EXPECTED_ARTIFACTS)" "plain_text ''sbom.spdx.json''" "plain_text ex_sha"
  "plain_text (artifact_suffix ex_commit)" "safe_file_name ''sbom.spdx.json''"
  by code_simp+

lemma ex_parts_spaceless:
  "list_all (\<lambda>f. CHR '' '' \<notin> set f \<and> list_all (\<lambda>c. \<not> chr_is_newline c) f \<and> safe_file_name f)
     (map (ex_file \<circ> fst) EXPECTED_ARTIFACTS @ [''sbom.spdx.json''])"
  "CHR '' '' \<notin> set ex_sha" "list_all (\<lambda>c. \<not> chr_is_newline c) ex_sha"
proof -
  have "plain_text (ex_file (fst e)) \<and> safe_file_name (ex_file (fst e))" if "e \<in> set EXPECTED_ARTIFACTS" for e
    using that ex_plain(1,4) ex_names_clean by (auto simp: ex_file_def plain_text_append list_all_iff)
  then show "list_all (\<lambda>f. CHR '' '' \<notin> set f \<and> list_all (\<lambda>c. \<not> chr_is_newline c) f \<and> safe_file_name f)
     (map (ex_file \<circ> fst) EXPECTED_ARTIFACTS @ [''sbom.spdx.json''])"
    using ex_plain(2,5) plain_text_D by (fastforce simp: list_all_iff)
  show "CHR '' '' \<notin> set ex_sha" "list_all (\<lambda>c. \<not> chr_is_newline c) ex_sha"
    using plain_text_D [OF ex_plain(3)] by simp_all
qed

definition ex_sums :: sum_table where
  "ex_sums = map (\<lambda>(pre, pol). (ex_file pre, ex_sha)) EXPECTED_ARTIFACTS"

definition ex_all_sums :: sum_table where
  "ex_all_sums = ex_sums @ [(''sbom.spdx.json'', ex_sha)]"

lemma ex_sums_keys: "map fst ex_all_sums = map (ex_file \<circ> fst) EXPECTED_ARTIFACTS @ [''sbom.spdx.json'']"
  by (simp add: ex_all_sums_def ex_sums_def split_beta)

lemma ex_keys_distinct: "distinct (map fst ex_all_sums)"
  by code_simp

definition sums_entry_ok :: "string \<times> string \<Rightarrow> bool" where
  "sums_entry_ok = (\<lambda>(f, sha). sha \<noteq> [] \<and> CHR '' '' \<notin> set sha \<and> re_match SHA_RE sha \<and>
     CHR '' '' \<notin> set f \<and> safe_file_name f)"

lemma sums_fold_ok:
  assumes "list_all sums_entry_ok es" and "distinct (map fst (st @ es))"
  shows "foldE sums_line st (map (\<lambda>(f, sha). sha @ ''  '' @ f) es) = Inr (st @ es)"
  using assms
proof (induction es arbitrary: st)
  case Nil
  then show ?case by simp
next
  case (Cons e es)
  obtain f sha where e: "e = (f, sha)" "sha \<noteq> []" "CHR '' '' \<notin> set sha" "re_match SHA_RE sha"
      "CHR '' '' \<notin> set f" "safe_file_name f"
    using Cons.prems(1) by (cases e) (auto simp: sums_entry_ok_def)
  have "sums_line st (sha @ ''  '' @ f) = Inr (st @ [(f, sha)])"
    using Cons.prems(2) e split_spaces [OF e(3,5)] by (simp add: sums_line_def)
  with Cons.IH [of "st @ [e]"] Cons.prems e(1) show ?case by simp
qed

lemma ex_sums_ok: "validate_sums ex_world ''o'' ex_all_sums = Inr ()"
proof -
  have lines: "ex_lines = map (\<lambda>(f, sha). sha @ ''  '' @ f) ex_all_sums"
    by (simp add: ex_lines_def ex_all_sums_def ex_sums_def split_beta comp_def)
  have ok: "list_all sums_entry_ok ex_all_sums"
    using ex_parts_spaceless(1,2) ex_hex(2)
    by (auto simp: ex_all_sums_def ex_sums_def sums_entry_ok_def list_all_iff ex_sha_def)
  have "list_all (list_all (\<lambda>c. \<not> chr_is_newline c)) ex_lines"
    using ex_parts_spaceless(1,3) by (auto simp: ex_lines_def list_all_iff chr_is_newline_def)
  then have "str_splitlines (concat (map (\<lambda>l. l @ [newline]) ex_lines)) = ex_lines"
    by (rule splitlines_lines)
  moreover have "foldE sums_line [] ex_lines = Inr ex_all_sums"
    unfolding lines using sums_fold_ok [OF ok, of "[]"] ex_keys_distinct by simp
  ultimately show ?thesis
    by (simp add: validate_sums_def Let_def ex_world_def path_join_def is_file_def read_text_def)
qed

lemma ex_distinct_names: "distinct (map fst EXPECTED_ARTIFACTS)"
  by (simp add: EXPECTED_ARTIFACTS_def)

lemma ex_members:
  assumes "(pre, pol) \<in> set EXPECTED_ARTIFACTS"
  shows "members_of ex_world (''o/'' @ ex_file pre) =
    Some (map (\<lambda>n. \<lparr>m_name = n, m_isfile = True, m_isdir = False, m_data = Some []\<rparr>) (a_required_entries pol))"
proof -
  have shift: "map_of (map (\<lambda>(pre, pol). (''o/'' @ ex_file pre, pol)) es) (''o/'' @ ex_file p) = map_of es p" for es p
    by (induction es) (auto simp: ex_file_def)
  have "map_of (map (\<lambda>(pre, pol). (''o/'' @ ex_file pre, pol)) EXPECTED_ARTIFACTS) (''o/'' @ ex_file pre) = Some pol"
    unfolding shift using ex_distinct_names assms by (rule map_of_is_SomeI)
  then show ?thesis by (simp only: ex_world_def renv.simps option.map)
qed

lemma ex_archive_ok:
  assumes "(pre, pol) \<in> set EXPECTED_ARTIFACTS"
  shows "validate_archive ex_world (''o/'' @ ex_file pre) pol = Inr ()"
proof -
  let ?ms = "map (\<lambda>n. \<lparr>m_name = n, m_isfile = True, m_isdir = False, m_data = Some []\<rparr>) (a_required_entries pol)"
  from assms ex_names_clean have n: "list_all (\<lambda>n. n \<noteq> [] \<and> \<not> starts_with n ''/'' \<and> ''..'' \<notin> set (path_parts n) \<and>
     \<not> list_ex (contains n) forbidden_words \<and> \<not> list_ex (contains n) secret_words) (a_required_entries pol)"
     "distinct (a_required_entries pol)" by (auto simp: list_all_iff)
  then have "list_all member_ok ?ms"
    using forbidden_archive_words secret_archive_words by (auto simp: list_all_iff member_ok_def)
  moreover have "map m_name ?ms = a_required_entries pol" by (simp add: comp_def)
  moreover have "list_all (has_entry (a_required_entries pol)) (a_required_entries pol)"
    by (auto simp: list_all_iff list_ex_iff has_entry_def)
  ultimately have "archive_ok ?ms pol" using n(2) by (simp add: archive_ok_def)
  moreover have "is_file (files ex_world) (''o/'' @ ex_file pre)"
    by (simp add: is_file_def ex_world_def)
  ultimately show ?thesis using ex_members [OF assms] by (auto simp: validate_archive_Inr)
qed

lemma ex_step_ok:
  assumes "(pre, pol) \<in> set EXPECTED_ARTIFACTS" and "ex_file pre \<notin> set (map fst st)"
  shows "artifact_step ex_world ''o'' ex_commit st (ex_artifact (pre, pol)) = Inr (st @ [(ex_file pre, ex_sha)])"
proof -
  from assms(1) ex_names_clean have n: "safe_file_name (ex_file pre)" "list_all safe_consumer_path (a_consumer_paths pol)"
    by (auto simp: list_all_iff)
  have pre: "artifact_prefix (ex_file pre) ex_commit = Inr pre" by (simp add: artifact_prefix_Inr ex_file_def)
  have pol: "map_of EXPECTED_ARTIFACTS pre = Some pol"
    using ex_distinct_names assms(1) by (rule map_of_is_SomeI)
  let ?a = "[(''file'', JStr (ex_file pre)), (''name'', JStr pre), (''kind'', JStr (a_kind pol)),
      (''consumer_paths'', JArr (map JStr (a_consumer_paths pol))), (''bytes'', JInt 1), (''sha256'', JStr ex_sha)]"
  have "forE (\<lambda>v. checks
         [((case v of JStr s \<Rightarrow> safe_consumer_path s | _ \<Rightarrow> False),
           rel_err ''CONSUMER_PATH: '' @ pre @ '':'' @ json_str v)]) (map JStr (a_consumer_paths pol)) = Inr ()"
    unfolding forE_Inr using n(2) by (auto simp: list_all_iff)
  then have paths: "validate_consumer_paths pre pol ?a = Inr ()"
    by (simp add: validate_consumer_paths_def dict_get_def report_list_def)
  have world: "is_file (files ex_world) p \<longleftrightarrow> True" "sha256_of ex_world p = ex_sha" "size_of ex_world p = 1" for p
    by (simp_all add: ex_world_def is_file_def)
  from n(1) pre pol paths assms(2) ex_hex(2) ex_archive_ok [OF assms(1)] show ?thesis
    by (simp add: artifact_step_def ex_artifact_def report_object_def dict_get_def Let_def path_join_def
        world sha256_file_def num_eq_def)
qed

lemma ex_fold_ok:
  "foldE (artifact_step ex_world ''o'' ex_commit) [] (map ex_artifact EXPECTED_ARTIFACTS) = Inr ex_sums"
proof -
  have "foldE (artifact_step ex_world ''o'' ex_commit) st (map ex_artifact es) =
      Inr (st @ map (\<lambda>(pre, pol). (ex_file pre, ex_sha)) es)"
    if "set es \<subseteq> set EXPECTED_ARTIFACTS" "distinct (map fst st @ map (ex_file \<circ> fst) es)" for es st
    using that
  proof (induction es arbitrary: st)
    case Nil
    then show ?case by simp
  next
    case (Cons e es)
    obtain pre pol where e: "e = (pre, pol)" by (cases e)
    with Cons.prems have "artifact_step ex_world ''o'' ex_commit st (ex_artifact e) = Inr (st @ [(ex_file pre, ex_sha)])"
      by (auto intro: ex_step_ok)
    with Cons.IH [of "st @ [(ex_file pre, ex_sha)]"] Cons.prems e show ?case by simp
  qed
  moreover have "distinct (map (ex_file \<circ> fst) EXPECTED_ARTIFACTS)"
    using ex_keys_distinct unfolding ex_sums_keys by simp
  ultimately show ?thesis by (simp add: ex_sums_def)
qed

lemma ex_accepted: "validate_manifest ex_world ''r'' ''o'' ex_args = Inr ex_manifest"
proof -
  have upd: "AList.update ''sbom.spdx.json'' ex_sha ex_sums = ex_all_sums"
  proof -
    have "AList.update k v es = es @ [(k, v)]" if "k \<notin> set (map fst es)" for k v and es :: sum_table
      using that by (induction es) auto
    moreover have "''sbom.spdx.json'' \<notin> set (map fst ex_sums)"
      using ex_keys_distinct by (simp add: ex_all_sums_def)
    ultimately show ?thesis unfolding ex_all_sums_def by blast
  qed
  have world: "is_file (files ex_world) p \<longleftrightarrow> True" for p
    by (simp add: ex_world_def is_file_def)
  have "read_json (files ex_world) ''o/manifest.json'' = Inr (JObj ex_manifest)"
    by (simp add: ex_world_def read_json_def read_text_def loads_def)
  moreover have "fld ex_manifest ''artifacts'' = JArr (map ex_artifact EXPECTED_ARTIFACTS)"
      "fld ex_manifest ''sbom'' = JObj [(''file'', JStr ''sbom.spdx.json''), (''sha256'', JStr ex_sha), (''bytes'', JInt 1)]"
    by (simp_all add: ex_manifest_def dict_get_def)
  ultimately show ?thesis
    using ex_header_ok ex_matrix_ok ex_sbom_ok ex_sums_ok ex_fold_ok upd world
    by (simp add: validate_manifest_def Let_def path_join_def report_list_def report_object_def dict_index_def)
qed

theorem release_integrity_witness:
  "\<exists>lines. map_option str_splitlines (file_text (files ex_world) (path_join ''o'' ''SHA256SUMS'')) = Some lines"
  using release_integrity [OF ex_accepted] by blast

end
