(* ===== verification/SdkHandoffProps.thy ===== *)
theory SdkHandoffProps
  imports SdkHandoff SdkReleaseProps
begin

text \<open>
  Where a hand-off may write. A relation between the file system before and after that holds of
  every primitive, is reflexive and transitive, and so holds of the whole hand-off, whatever the
  archives hold and however the run ends.
\<close>

subsection \<open>Relations that every run keeps\<close>

definition framed :: "('w \<Rightarrow> 'w \<Rightarrow> bool) \<Rightarrow> ('w, 'a) io \<Rightarrow> bool" where
  "framed R m = (\<forall>w. R w (snd (m w)))"

locale frame =
  fixes R :: "'w \<Rightarrow> 'w \<Rightarrow> bool"
  assumes frame_refl: "R w w" and frame_trans: "R u v \<Longrightarrow> R v w \<Longrightarrow> R u w"
begin

lemma framed_pure: "framed R (retIO x)" "framed R (raiseIO e)" "framed R (liftE r)" "framed R (readIO f)"
  by (simp_all add: framed_def retIO_def raiseIO_def liftE_def readIO_def frame_refl)

lemma framed_bindIO:
  assumes "framed R m" and "\<And>x. framed R (f x)" shows "framed R (bindIO m f)"
  unfolding framed_def
proof
  fix w
  obtain r w1 where m: "m w = (r, w1)" by (cases "m w")
  with assms(1) have "R w w1" by (metis framed_def snd_conv)
  with m show "R w (snd (bindIO m f w))"
    using assms(2) by (cases r) (auto simp: bindIO_def framed_def intro: frame_trans)
qed

lemma framed_seqIO: "framed R m \<Longrightarrow> framed R k \<Longrightarrow> framed R (seqIO m k)"
  by (simp add: seqIO_def framed_bindIO)

lemma framed_foldIO: "(\<And>s x. framed R (f s x)) \<Longrightarrow> framed R (foldIO f s xs)"
  by (induction xs arbitrary: s) (simp_all add: framed_pure framed_bindIO)

lemma framed_read: "(\<And>w. snd (m w) = w) \<Longrightarrow> framed R m"
  by (simp add: framed_def frame_refl)

lemma framed_result: "framed R m \<Longrightarrow> m w = (r, w') \<Longrightarrow> R w w'"
  by (metis framed_def snd_conv)

end

subsection \<open>The relation of a hand-off\<close>

text \<open>
  A path that does not lie in the target directory keeps its node, except that missing directories
  on the way to the target are made. A file whose content differs lies where an entry with an
  allowed name, relative and without \<open>..\<close>, belongs.
\<close>

definition vendored :: "path \<Rightarrow> path \<Rightarrow> bool" where
  "vendored target q =
     (\<exists>name. q = target @ path_comps name \<and> allowed_entry name \<and> ''..'' \<notin> set (path_parts name) \<and>
        \<not> starts_with name ''/'')"

definition outside_kept :: "path \<Rightarrow> fs \<Rightarrow> fs \<Rightarrow> bool" where
  "outside_kept target fs fs' =
     (\<forall>q. prefix target q \<or> map_of fs' q = map_of fs q \<or>
        (prefix q target \<and> map_of fs q = None \<and> map_of fs' q = Some Dir))"

definition new_files_vendored :: "path \<Rightarrow> fs \<Rightarrow> fs \<Rightarrow> bool" where
  "new_files_vendored target fs fs' =
     (\<forall>q d. map_of fs' q = Some (File d) \<longrightarrow> map_of fs q = Some (File d) \<or> vendored target q)"

definition dirs_kept :: "fs \<Rightarrow> fs \<Rightarrow> bool" where
  "dirs_kept fs fs' = (\<forall>q. map_of fs q = Some Dir \<longrightarrow> map_of fs' q = Some Dir)"

definition handoff_frame :: "path \<Rightarrow> fs \<Rightarrow> fs \<Rightarrow> bool" where
  "handoff_frame target fs fs' =
     (outside_kept target fs fs' \<and> new_files_vendored target fs fs' \<and> dirs_kept fs fs')"

lemma outside_kept_trans: "outside_kept t u v \<Longrightarrow> outside_kept t v w \<Longrightarrow> outside_kept t u w"
  unfolding outside_kept_def by (metis option.distinct(1))

lemma new_files_trans: "new_files_vendored t u v \<Longrightarrow> new_files_vendored t v w \<Longrightarrow> new_files_vendored t u w"
  unfolding new_files_vendored_def by meson

interpretation handoff: frame "handoff_frame target" for target
proof
  show "handoff_frame target w w" for w
    by (simp add: handoff_frame_def outside_kept_def new_files_vendored_def dirs_kept_def)
  show "handoff_frame target u v \<Longrightarrow> handoff_frame target v w \<Longrightarrow> handoff_frame target u w" for u v w
    unfolding handoff_frame_def dirs_kept_def using outside_kept_trans new_files_trans by blast
qed

text \<open>Making directories only adds directories on the path.\<close>

lemma mkdirs_adds:
  "mkdirs done cs fs = (r, fs') \<Longrightarrow>
     map_of fs' q = map_of fs q \<or> (prefix q (done @ cs) \<and> map_of fs q = None \<and> map_of fs' q = Some Dir)"
proof (induction "done" cs fs rule: mkdirs.induct)
  case (1 "done" fs)
  then show ?case by simp
next
  case (2 "done" c cs fs)
  show ?case
  proof (cases "map_of fs (done @ [c])")
    case None
    with 2 have "map_of fs' q = map_of (set_node (done @ [c]) Dir fs) q \<or>
        (prefix q ((done @ [c]) @ cs) \<and> map_of (set_node (done @ [c]) Dir fs) q = None \<and> map_of fs' q = Some Dir)"
      by simp
    with None show ?thesis by (auto split: if_splits)
  next
    case (Some n)
    with 2 show ?thesis by (cases n) auto
  qed
qed

lemma framed_mkdirs:
  assumes "prefix p target \<or> prefix target p"
  shows "framed (handoff_frame target) (mkdirs [] p)"
  unfolding framed_def
proof
  fix fs
  obtain r fs' where m: "mkdirs [] p fs = (r, fs')" by (cases "mkdirs [] p fs")
  note adds = mkdirs_adds [OF m, simplified]
  have "outside_kept target fs fs'"
    unfolding outside_kept_def
  proof
    fix q
    show "prefix target q \<or> map_of fs' q = map_of fs q \<or>
        (prefix q target \<and> map_of fs q = None \<and> map_of fs' q = Some Dir)"
      using adds [of q] assms by (meson prefix_order.trans prefix_same_cases)
  qed
  moreover have "new_files_vendored target fs fs'"
    unfolding new_files_vendored_def using adds by (metis node.distinct(1) option.inject)
  moreover have "dirs_kept fs fs'"
    unfolding dirs_kept_def using adds by metis
  ultimately show "handoff_frame target fs (snd (mkdirs [] p fs))"
    using m by (simp add: handoff_frame_def)
qed

lemma framed_write:
  assumes "vendored target p"
  shows "framed (handoff_frame target) (write_file p d)"
proof -
  from assms have p: "prefix target p" by (auto simp: vendored_def)
  have "handoff_frame target fs (snd (write_file p d fs))" for fs
  proof (cases "map_of fs p = Some Dir")
    case True
    then show ?thesis by (simp add: write_file_def handoff.frame_refl)
  next
    case False
    then have w: "snd (write_file p d fs) = set_node p (File d) fs"
      by (auto simp: write_file_def split: option.splits node.splits)
    show ?thesis
      unfolding w handoff_frame_def outside_kept_def new_files_vendored_def dirs_kept_def
      using assms p False by auto
  qed
  then show ?thesis by (simp add: framed_def)
qed

lemma framed_extract_member: "framed (handoff_frame target) (extract_member a target es m)"
proof (cases "validate_entry_boundary a (m_name m) = Inr ()")
  case False
  then obtain e where "validate_entry_boundary a (m_name m) = Inl e"
    by (cases "validate_entry_boundary a (m_name m)") auto
  then have "extract_member a target es m = raiseIO e"
    by (simp add: extract_member_def Let_def seqIO_def)
  then show ?thesis by (simp add: handoff.framed_pure)
next
  case True
  let ?out = "target @ path_comps (m_name m)"
  from True have v: "vendored target ?out"
    by (auto simp: vendored_def validate_entry_boundary_def Let_def checks_Inr simp del: checks.simps)
  have up: "prefix target ?out" by simp
  then have "prefix (butlast ?out) target \<or> prefix target (butlast ?out)"
    by (meson prefix_order.trans prefix_same_cases prefixeq_butlast)
  with v up show ?thesis
    unfolding extract_member_def Let_def
    by (auto intro!: handoff.framed_seqIO framed_mkdirs framed_write handoff.framed_pure
        split: option.split)
qed

lemma framed_extract: "framed (handoff_frame target) (safe_extract_archive w a target req)"
  unfolding safe_extract_archive_def
  by (intro handoff.framed_bindIO handoff.framed_foldIO framed_extract_member handoff.framed_pure)

lemma framed_artifact: "framed (handoff_frame target) (handoff_artifact w release_dir target commit st v)"
  unfolding handoff_artifact_def
  by (cases st) (auto intro!: handoff.framed_bindIO handoff.framed_seqIO framed_extract handoff.framed_pure
      split: json.split option.split)

lemma framed_artifacts: "framed (handoff_frame target) (handoff_artifacts w manifest release_dir target commit)"
  unfolding handoff_artifacts_def
  by (auto intro!: handoff.framed_bindIO handoff.framed_seqIO handoff.framed_foldIO framed_artifact
      handoff.framed_pure)

subsection \<open>Hand-offs\<close>

lemma precheck_Inr:
  assumes "handoff_precheck w root_dir release_dir args = Inr (manifest, commit)"
  shows "(\<forall>c. expected_commit args = Some c \<longrightarrow> commit = c) \<and>
    (is_file (files w) (path_join release_dir ''SHA256SUMS'') \<and> is_file (files w) (path_join release_dir ''sbom.spdx.json'') \<longrightarrow>
       is_ok (validate_manifest w root_dir release_dir args))"
  using assms unfolding handoff_precheck_def
  by (auto simp: bindE_Inr thenE_Inr checks_Inr path_exists_def is_ok_iff Let_def simp del: checks.simps split: if_splits)

text \<open>What a hand-off does once its prechecks have passed.\<close>

lemma check_handoff_cases:
  assumes "check_handoff w root_dir release_dir vendor args fs = (r, fs')" and "fs' \<noteq> fs"
  shows "\<exists>manifest commit. handoff_precheck w root_dir release_dir args = Inr (manifest, commit) \<and>
    (map_of fs (vendor @ [commit]) = None \<or> has_children (vendor @ [commit]) fs = Inr False) \<and>
    handoff_frame (vendor @ [commit]) fs fs'"
proof -
  obtain manifest commit where pre: "handoff_precheck w root_dir release_dir args = Inr (manifest, commit)"
    using assms by (cases "handoff_precheck w root_dir release_dir args")
      (auto simp: check_handoff_def raiseIO_def)
  let ?target = "vendor @ [commit]"
  define busy where "busy = (if map_of fs ?target = None then Inr False else has_children ?target fs)"
  define rest where "rest = (\<lambda>busy. seqIO (liftE (checks [(\<not> busy, ho_err ''VENDOR_TARGET_EXISTS: /'' @ str_join ''/'' ?target)]))
    (seqIO (mkdirs [] ?target)
    (bindIO (handoff_artifacts w manifest release_dir ?target commit) (\<lambda>artifacts.
     seqIO (\<lambda>fs. (validate_vendor_layout ?target fs, fs))
       (retIO \<lparr>hr_commit = commit, hr_registry_channel = ''source-only'', hr_vendor_root = ?target,
               hr_artifacts = artifacts\<rparr>)))))"
  have run: "check_handoff w root_dir release_dir vendor args fs =
      (case busy of Inl e \<Rightarrow> (Inl e, fs) | Inr b \<Rightarrow> rest b fs)"
    unfolding check_handoff_def pre io_run prod.case Let_def rest_def busy_def
    by (simp add: bindIO_def split: sum.split)
  have "rest True fs = (Inl (SystemExit (ho_err ''VENDOR_TARGET_EXISTS: /'' @ str_join ''/'' ?target)), fs)"
    by (simp add: rest_def stop_def seqIO_def raiseIO_def)
  with run assms have free: "busy = Inr False" by (cases busy) (auto split: if_splits)
  have "framed (handoff_frame ?target) (rest False)"
    unfolding rest_def
    by (intro handoff.framed_seqIO handoff.framed_bindIO handoff.framed_pure framed_mkdirs framed_artifacts
        handoff.framed_read) simp_all
  moreover have "rest False fs = (r, fs')" using run free assms(1) by simp
  ultimately have "handoff_frame ?target fs fs'" by (rule handoff.framed_result)
  with pre free show ?thesis by (auto simp: busy_def split: if_splits)
qed

text \<open>C28: a hand-off that changes the vendor side at all has passed its prechecks, the expected commit and,
where the release ships checksums and an SBOM, the whole integrity check; its target was unused;
and whatever the archives hold, and however the run ends, it changes nothing outside the target
but missing directories on the way there, and every new file lies at an allowed, relative name
without parent steps.\<close>

theorem handoff_contained:
  assumes "check_handoff w root_dir release_dir vendor args fs = (r, fs')" and "fs' \<noteq> fs"
  shows "\<exists>manifest commit target. handoff_precheck w root_dir release_dir args = Inr (manifest, commit) \<and>
    target = vendor @ [commit] \<and> (\<forall>c. expected_commit args = Some c \<longrightarrow> commit = c) \<and>
    (is_file (files w) (path_join release_dir ''SHA256SUMS'') \<and> is_file (files w) (path_join release_dir ''sbom.spdx.json'') \<longrightarrow>
       is_ok (validate_manifest w root_dir release_dir args)) \<and>
    (map_of fs target = None \<or> has_children target fs = Inr False) \<and>
    (\<forall>q. prefix target q \<or> map_of fs' q = map_of fs q \<or>
       (prefix q target \<and> map_of fs q = None \<and> map_of fs' q = Some Dir)) \<and>
    (\<forall>q d. map_of fs' q = Some (File d) \<longrightarrow> map_of fs q = Some (File d) \<or>
       (\<exists>name. q = target @ path_comps name \<and> allowed_entry name \<and> ''..'' \<notin> set (path_parts name) \<and>
          \<not> starts_with name ''/''))"
proof -
  from check_handoff_cases [OF assms] obtain manifest commit where
      pre: "handoff_precheck w root_dir release_dir args = Inr (manifest, commit)"
    and free: "map_of fs (vendor @ [commit]) = None \<or> has_children (vendor @ [commit]) fs = Inr False"
    and frame: "handoff_frame (vendor @ [commit]) fs fs'" by blast
  from frame have "outside_kept (vendor @ [commit]) fs fs'" "new_files_vendored (vendor @ [commit]) fs fs'"
    by (simp_all add: handoff_frame_def)
  with pre free precheck_Inr [OF pre] show ?thesis
    unfolding outside_kept_def new_files_vendored_def vendored_def
    by (intro exI [of _ manifest] exI [of _ commit] exI [of _ "vendor @ [commit]"] conjI refl) blast+
qed

lemma ex_precheck: "handoff_precheck ex_world ''r'' ''o'' ex_args = Inr (ex_manifest, ex_commit)"
proof -
  have man: "handoff_manifest ex_world ''o'' = Inr ex_manifest"
    using ex_hex(1)
    by (simp add: handoff_manifest_def ex_world_def path_join_def is_file_def read_json_def read_text_def
        loads_def ex_manifest_def dict_get_def)
  moreover have "validate_source_policy ex_manifest = Inr ()"
    by (simp add: validate_source_policy_def report_object_def ex_manifest_def dict_get_def)
  moreover have "fld ex_manifest ''commit'' = JStr ex_commit" by (simp add: ex_manifest_def dict_get_def)
  moreover have "expected_commit ex_args = Some ex_commit" by (simp add: ex_args_def)
  ultimately show ?thesis using ex_accepted by (simp add: handoff_precheck_def)
qed

lemma ex_handoff_changes: "snd (check_handoff ex_world ''r'' ''o'' [''v''] ex_args []) \<noteq> []"
proof -
  let ?target = "[''v'', ex_commit]"
  define fs1 where "fs1 = snd (mkdirs [] ?target [])"
  have fs1: "mkdirs [] ?target [] = (Inr (), fs1)" "map_of fs1 [''v''] = Some Dir"
    by (simp_all add: fs1_def)
  define rest where "rest = bindIO (handoff_artifacts ex_world ex_manifest ''o'' ?target ex_commit) (\<lambda>artifacts.
     seqIO (\<lambda>fs. (validate_vendor_layout ?target fs, fs))
       (retIO \<lparr>hr_commit = ex_commit, hr_registry_channel = ''source-only'', hr_vendor_root = ?target,
               hr_artifacts = artifacts\<rparr>))"
  have "framed (handoff_frame ?target) rest"
    unfolding rest_def
    by (intro handoff.framed_seqIO handoff.framed_bindIO handoff.framed_pure framed_artifacts
        handoff.framed_read) simp_all
  then have "handoff_frame ?target fs1 (snd (rest fs1))" by (simp add: framed_def)
  with fs1(2) have "map_of (snd (rest fs1)) [''v''] = Some Dir"
    by (simp add: handoff_frame_def dirs_kept_def)
  moreover have "check_handoff ex_world ''r'' ''o'' [''v''] ex_args [] = rest fs1"
    using fs1(1) unfolding check_handoff_def ex_precheck io_run prod.case Let_def rest_def
    by (simp add: bindIO_def seqIO_def liftE_def)
  ultimately show ?thesis by auto
qed

theorem handoff_contained_witness:
  "\<exists>fs'. fs' \<noteq> [] \<and> (\<forall>q d. map_of fs' q = Some (File d) \<longrightarrow> prefix [''v'', ex_commit] q)"
proof -
  obtain r fs' where run: "check_handoff ex_world ''r'' ''o'' [''v''] ex_args [] = (r, fs')"
    by (cases "check_handoff ex_world ''r'' ''o'' [''v''] ex_args []")
  with ex_handoff_changes have ne: "fs' \<noteq> []" by simp
  from handoff_contained [OF run ne] ex_precheck
  have "\<forall>q d. map_of fs' q = Some (File d) \<longrightarrow> prefix [''v'', ex_commit] q" by fastforce
  with ne show ?thesis by blast
qed

end
