(* ===== verification/ReleaseEvidence.thy ===== *)
theory ReleaseEvidence
  imports SdkReleaseProps "HOL-Library.Word"
begin

text \<open>
  \<open>tools/ci/check_release_evidence_assets.py\<close>: the downloaded assets of a release: the SDK release
  package, checked in strict mode, and the archive of evidence with its suite summaries. The zip
  archive is a list of entries, a parameter of the model.
\<close>

unbundle bit_operations_syntax

subsection \<open>Constants and archives\<close>

text \<open>A zip entry: its name, its external attributes and its text (\<open>None\<close> where it is not UTF-8).\<close>

record zentry =
  z_name :: string
  z_attr :: "32 word"
  z_text :: "string option"

definition COMMIT_RE_evidence :: "char regex" where "COMMIT_RE_evidence = hex_re 40"

definition SHA_HEADER_RE :: "char regex" where
  "SHA_HEADER_RE = RSeq (RLit ''evidence_sha256 '') (RRep 64 (RCls chr_is_hex))"

definition REQUIRED_EVIDENCE_ENTRIES :: "string list" where
  "REQUIRED_EVIDENCE_ENTRIES = [''evidence/suite-summary.json'', ''evidence/suite-run.json'',
     ''evidence/sdk-suite-summary.json'', ''evidence/evidence.sha256'']"

definition ZERO_FAILURE_FIELDS :: "(string \<times> string) list" where
  "ZERO_FAILURE_FIELDS =
     [(''rust_full'', ''failed''), (''ts_c01'', ''failed''), (''divergence_c01'', ''mismatches''),
      (''ts_full'', ''failed''), (''ts_suite_runner'', ''failed''), (''divergence_full'', ''mismatches''),
      (''properties_full'', ''failed''), (''sdk_suite'', ''failed'')]"

definition ev_err :: "string \<Rightarrow> string" where
  "ev_err s = ''RELEASE_EVIDENCE_ERR_'' @ s"

definition safe_zip_name :: "string \<Rightarrow> bool" where
  "safe_zip_name name = (name \<noteq> [] \<and> \<not> starts_with name ''/'' \<and> ''..'' \<notin> set (path_parts name))"

text \<open>The file type bits of the Unix mode in the upper half of the attributes.\<close>

definition file_type :: "32 word \<Rightarrow> 32 word" where
  "file_type a = drop_bit 16 a AND 0xF000"

subsection \<open>Summaries\<close>

definition require_zero :: "dict \<Rightarrow> string \<Rightarrow> string \<Rightarrow> unit res" where
  "require_zero summary sec key =
     bindE (report_object (fld summary sec) (ev_err ''SUMMARY_SECTION: '' @ sec)) (\<lambda>v.
       checks
         [(\<not> (sec = ''sdk_suite'' \<and> \<not> py_eq (fld v key) (JInt 0)), ev_err ''SDK_SUITE: '' @ sec @ ''.'' @ key),
          (py_eq (fld v key) (JInt 0), ev_err ''SUITE_FAILURE: '' @ sec @ ''.'' @ key)])"

definition validate_embedded_sdk_summary :: "dict \<Rightarrow> dict \<Rightarrow> string \<Rightarrow> unit res" where
  "validate_embedded_sdk_summary suite_summary sdk_summary commit =
     bindE (report_object (fld suite_summary ''sdk_suite'') (ev_err ''SDK_SUITE_SUMMARY'')) (\<lambda>embedded.
       checks
         ([(fld sdk_summary ''commit_sha'' = JStr commit, ev_err ''SDK_SUMMARY_COMMIT''),
           (is_true (fld sdk_summary ''strict''), ev_err ''SDK_SUMMARY_STRICT'')] @
          map (\<lambda>key. (py_eq (fld embedded key) (fld sdk_summary key), ev_err ''SDK_SUITE_SUMMARY: '' @ key))
            [''total'', ''passed'', ''failed'']))"

subsection \<open>The archive\<close>

definition zip_read :: "zentry list \<Rightarrow> string \<Rightarrow> string option res" where
  "zip_read es name =
     (case find (\<lambda>e. z_name e = name) es of None \<Rightarrow> Inl (KeyError name) | Some e \<Rightarrow> Inr (z_text e))"

definition read_json_entry :: "renv \<Rightarrow> zentry list \<Rightarrow> string \<Rightarrow> dict res" where
  "read_json_entry w es entry =
     (case find (\<lambda>e. z_name e = entry) es of
        None \<Rightarrow> stop (ev_err ''ENTRY_MISSING: '' @ entry)
      | Some e \<Rightarrow>
          (case z_text e of
             None \<Rightarrow> stop (ev_err ''JSON: '' @ entry)
           | Some t \<Rightarrow>
               (case json_loads (files w) t of
                  None \<Rightarrow> stop (ev_err ''JSON: '' @ entry)
                | Some v \<Rightarrow> report_object v (ev_err ''JSON_OBJECT: '' @ entry))))"

definition zip_step :: "string list \<Rightarrow> zentry \<Rightarrow> string list res" where
  "zip_step seen e =
     thenE (checks
       [(z_name e \<notin> set seen, ev_err ''DUP_ENTRY: '' @ z_name e),
        (safe_zip_name (z_name e), ev_err ''UNSAFE_ENTRY: '' @ z_name e),
        (file_type (z_attr e) \<noteq> 0xA000, ev_err ''SYMLINK_ENTRY: '' @ z_name e)])
       (Inr (seen @ [z_name e]))"

definition tag_matches :: "string option \<Rightarrow> dict \<Rightarrow> bool" where
  "tag_matches expected d = (case expected of None \<Rightarrow> True | Some t \<Rightarrow> fld d ''tag'' = JStr t)"

definition evidence_summaries :: "string \<Rightarrow> string option \<Rightarrow> dict \<Rightarrow> dict \<Rightarrow> dict \<Rightarrow> string \<Rightarrow> unit res" where
  "evidence_summaries commit tag suite_summary suite_run sdk_summary evidence_sha =
     thenE (checks
       [(fld suite_summary ''commit_sha'' = JStr commit, ev_err ''SUMMARY_COMMIT''),
        (is_true (fld suite_summary ''strict''), ev_err ''SUMMARY_STRICT''),
        (tag_matches tag suite_summary, ev_err ''SUMMARY_TAG''),
        (fld suite_run ''commit_sha'' = JStr commit, ev_err ''RUN_COMMIT''),
        (tag_matches tag suite_run, ev_err ''RUN_TAG'')])
    (bindE (report_object (fld suite_run ''metadata'') (ev_err ''RUN_METADATA'')) (\<lambda>metadata.
     thenE (checks [(fld metadata ''workflow'' = JStr ''release-evidence'', ev_err ''WORKFLOW'')])
    (thenE (validate_embedded_sdk_summary suite_summary sdk_summary commit)
    (thenE (forE (\<lambda>(sec, key). require_zero suite_summary sec key) ZERO_FAILURE_FIELDS)
    (let ls = str_splitlines evidence_sha; first_line = (case ls of [] \<Rightarrow> [] | l # _ \<Rightarrow> l) in
       checks
         [(re_fullmatch SHA_HEADER_RE first_line, ev_err ''SHA_HEADER''),
          (contains evidence_sha '' sdk-suite-summary.json'', ev_err ''SDK_SUITE_HASH_MISSING'')])))))"

definition validate_evidence_zip ::
  "renv \<Rightarrow> (string \<Rightarrow> zentry list option) \<Rightarrow> string \<Rightarrow> string \<Rightarrow> string option \<Rightarrow> unit res" where
  "validate_evidence_zip w zip_at p commit tag =
     thenE (checks
       [(is_file (files w) p, ev_err ''ZIP_MISSING: '' @ p),
        (path_name p = ''evidence-'' @ commit @ ''.zip'', ev_err ''ZIP_NAME'')])
    (bindE (case zip_at p of None \<Rightarrow> Inl (BadFile p) | Some es \<Rightarrow> Inr es) (\<lambda>es.
     bindE (foldE zip_step [] es) (\<lambda>seen.
     let missing = py_sorted (list_minus REQUIRED_EVIDENCE_ENTRIES seen) in
     thenE (checks [(missing = [], ev_err ''REQUIRED_ENTRIES: '' @ str_join '', '' missing)])
    (bindE (read_json_entry w es ''evidence/suite-summary.json'') (\<lambda>suite_summary.
     bindE (read_json_entry w es ''evidence/suite-run.json'') (\<lambda>suite_run.
     bindE (read_json_entry w es ''evidence/sdk-suite-summary.json'') (\<lambda>sdk_summary.
     bindE (zip_read es ''evidence/evidence.sha256'') (\<lambda>raw.
     bindE (case raw of None \<Rightarrow> Inl UnicodeDecodeError | Some t \<Rightarrow> Inr t) (\<lambda>evidence_sha.
       evidence_summaries commit tag suite_summary suite_run sdk_summary evidence_sha)))))))))"

definition validate_sdk_assets :: "renv \<Rightarrow> string \<Rightarrow> string \<Rightarrow> string \<Rightarrow> dict res" where
  "validate_sdk_assets w root_dir release_dir commit =
     validate_manifest w root_dir release_dir
       \<lparr>expected_commit = Some commit, require_strict = True, require_clean = True\<rparr>"

definition evidence_main ::
  "renv \<Rightarrow> (string \<Rightarrow> zentry list option) \<Rightarrow> (string \<Rightarrow> string) \<Rightarrow> string \<Rightarrow> string \<Rightarrow> string \<Rightarrow> string option \<Rightarrow> string res" where
  "evidence_main w zip_at resolve root_dir release commit tag =
     (let release_dir = resolve release in
      thenE (checks
        [(re_fullmatch COMMIT_RE_evidence commit, ev_err ''COMMIT''),
         (is_dir (files w) release_dir, ev_err ''RELEASE_DIR: '' @ release_dir)])
     (bindE (validate_sdk_assets w root_dir release_dir commit) (\<lambda>_.
      thenE (validate_evidence_zip w zip_at (path_join release_dir (''evidence-'' @ commit @ ''.zip'')) commit tag)
        (Inr (''release evidence assets check: OK ('' @ commit @ '')'')))))"

subsection \<open>Properties\<close>

lemma zip_fold:
  "foldE zip_step seen es = Inr seen' \<longleftrightarrow>
     seen' = seen @ map z_name es \<and> distinct (map z_name es) \<and> set seen \<inter> set (map z_name es) = {} \<and>
     list_all (\<lambda>e. safe_zip_name (z_name e) \<and> file_type (z_attr e) \<noteq> 0xA000) es"
proof (induction es arbitrary: seen)
  case Nil
  then show ?case by auto
next
  case (Cons e es)
  have "foldE zip_step seen (e # es) = Inr seen' \<longleftrightarrow> z_name e \<notin> set seen \<and> safe_zip_name (z_name e) \<and>
      file_type (z_attr e) \<noteq> 0xA000 \<and> foldE zip_step (seen @ [z_name e]) es = Inr seen'"
    by (auto simp: zip_step_def bindE_Inr thenE_Inr checks_Inr simp del: checks.simps)
  then show ?case unfolding Cons.IH by auto
qed

lemma require_zero_Inr:
  "require_zero summary sec key = Inr () \<longleftrightarrow> (\<exists>d. fld summary sec = JObj d \<and> py_eq (fld d key) (JInt 0))"
  by (auto simp: require_zero_def bindE_Inr report_object_Inr checks_Inr simp del: checks.simps)

lemma read_json_entry_Inr:
  "read_json_entry w es entry = Inr d \<longleftrightarrow>
     (\<exists>e t. find (\<lambda>e. z_name e = entry) es = Some e \<and> z_text e = Some t \<and> json_loads (files w) t = Some (JObj d))"
  by (auto simp: read_json_entry_def report_object_Inr split: option.splits)

text \<open>C29: released evidence that passes is strict and clean: the SDK package beside it passed its own check
in strict mode for exactly this commit and a clean tree; no entry of the archive is repeated,
absolute, steps to a parent or is a symbolic link; and every failure counter of the suite
summary is zero, for this commit.\<close>

theorem evidence_all_green:
  assumes "evidence_main w zip_at resolve root_dir release commit tag = Inr msg"
  shows "\<exists>manifest es summary. length commit = 40 \<and> list_all chr_is_hex commit \<and>
    validate_manifest w root_dir (resolve release)
      \<lparr>expected_commit = Some commit, require_strict = True, require_clean = True\<rparr> = Inr manifest \<and>
    zip_at (path_join (resolve release) (''evidence-'' @ commit @ ''.zip'')) = Some es \<and>
    distinct (map z_name es) \<and>
    list_all (\<lambda>e. safe_zip_name (z_name e) \<and> file_type (z_attr e) \<noteq> 0xA000) es \<and>
    read_json_entry w es ''evidence/suite-summary.json'' = Inr summary \<and>
    fld summary ''commit_sha'' = JStr commit \<and> fld summary ''strict'' = JBool True \<and>
    (\<forall>(sec, key)\<in>set ZERO_FAILURE_FIELDS. \<exists>d. fld summary sec = JObj d \<and> py_eq (fld d key) (JInt 0))"
proof -
  from assms obtain manifest where c: "re_fullmatch COMMIT_RE_evidence commit"
    and m: "validate_sdk_assets w root_dir (resolve release) commit = Inr manifest"
    and z: "validate_evidence_zip w zip_at (path_join (resolve release) (''evidence-'' @ commit @ ''.zip'')) commit tag = Inr ()"
    unfolding evidence_main_def Let_def
    by (auto simp: bindE_Inr thenE_Inr checks_Inr simp del: checks.simps)
  from z obtain es seen summary run sdk sha where es:
      "zip_at (path_join (resolve release) (''evidence-'' @ commit @ ''.zip'')) = Some es"
      "foldE zip_step [] es = Inr seen" "read_json_entry w es ''evidence/suite-summary.json'' = Inr summary"
      "evidence_summaries commit tag summary run sdk sha = Inr ()"
    unfolding validate_evidence_zip_def Let_def
    by (auto simp: bindE_Inr thenE_Inr split: option.splits)
  from es(4) have s: "fld summary ''commit_sha'' = JStr commit" "fld summary ''strict'' = JBool True"
      "\<forall>(sec, key)\<in>set ZERO_FAILURE_FIELDS. \<exists>d. fld summary sec = JObj d \<and> py_eq (fld d key) (JInt 0)"
    unfolding evidence_summaries_def
    by (auto simp: bindE_Inr thenE_Inr checks_Inr forE_Inr require_zero_Inr is_true_def split_beta simp del: checks.simps)
  from c have "length commit = 40" "list_all chr_is_hex commit"
    by (simp_all add: COMMIT_RE_evidence_def fullmatch_hex_re)
  moreover from es(2) have "distinct (map z_name es)"
      "list_all (\<lambda>e. safe_zip_name (z_name e) \<and> file_type (z_attr e) \<noteq> 0xA000) es"
    unfolding zip_fold by simp_all
  ultimately show ?thesis using m es(1,3) s unfolding validate_sdk_assets_def by blast
qed

definition ex_zip :: "zentry list" where
  "ex_zip = map (\<lambda>(n, t). \<lparr>z_name = n, z_attr = 0x81A40000, z_text = Some t\<rparr>)
     [(''evidence/suite-summary.json'', ''suite''), (''evidence/suite-run.json'', ''run''),
      (''evidence/sdk-suite-summary.json'', ''sdk''),
      (''evidence/evidence.sha256'', ''evidence_sha256 '' @ ex_sha @ [newline] @ ''00 sdk-suite-summary.json'')]"

definition ex_zip_at :: "string \<Rightarrow> zentry list option" where
  "ex_zip_at p = Some ex_zip"

lemma ex_header_line: "re_fullmatch SHA_HEADER_RE (''evidence_sha256 '' @ ex_sha)"
proof -
  have "(([], ''evidence_sha256 '' @ ex_sha), (rev ''evidence_sha256 '' @ [], ex_sha)) \<in> lang (RLit ''evidence_sha256 '')"
    unfolding lang_RLit by blast
  moreover have "((rev ''evidence_sha256 '' @ [], ex_sha @ []), (rev ex_sha @ rev ''evidence_sha256 '' @ [], []))
      \<in> lang (RRep 64 (RCls chr_is_hex))"
    unfolding lang_RRep_cls using ex_hex(2)
    by (intro CollectI exI [of _ "rev ''evidence_sha256 '' @ []"] exI [of _ ex_sha] exI [of _ "[]"])
       (simp add: ex_sha_def list_all_iff chr_is_hex_def)
  ultimately show ?thesis
    unfolding re_fullmatch_iff SHA_HEADER_RE_def lang.simps by (auto intro!: exI relcompI)
qed

lemma ex_sha_line:
  "str_splitlines (''evidence_sha256 '' @ ex_sha @ [newline] @ ''00 sdk-suite-summary.json'') =
     [''evidence_sha256 '' @ ex_sha, ''00 sdk-suite-summary.json'']"
proof -
  let ?l = "''evidence_sha256 '' @ ex_sha" and ?rest = "''00 sdk-suite-summary.json''"
  have plain: "list_all (\<lambda>c. \<not> chr_is_newline c) ?l" "list_all (\<lambda>c. \<not> chr_is_newline c) ?rest"
    using ex_parts_spaceless(3) by (simp_all add: chr_is_newline_def)
  have split: "takeWhile (\<lambda>c. \<not> chr_is_newline c) (?l @ newline # ?rest) = ?l"
      "dropWhile (\<lambda>c. \<not> chr_is_newline c) (?l @ newline # ?rest) = newline # ?rest"
    using plain(1) by (simp_all add: list_all_iff chr_is_newline_def)
  have last: "takeWhile (\<lambda>c. \<not> chr_is_newline c) ?rest = ?rest" "dropWhile (\<lambda>c. \<not> chr_is_newline c) ?rest = []"
    by (simp_all add: chr_is_newline_def)
  have "str_splitlines ?rest = [?rest]"
    by (subst str_splitlines.simps) (simp only: last Let_def list.simps if_False)
  moreover have "str_splitlines (?l @ newline # ?rest) = ?l # str_splitlines ?rest"
    by (subst str_splitlines.simps) (simp only: split Let_def list.simps, simp)
  ultimately show ?thesis by simp
qed

lemma ex_summaries_ok:
  "evidence_summaries ex_commit None ex_suite ex_run ex_sdk
     (''evidence_sha256 '' @ ex_sha @ [newline] @ ''00 sdk-suite-summary.json'') = Inr ()"
proof -
  have "validate_embedded_sdk_summary ex_suite ex_sdk ex_commit = Inr ()"
    by (simp add: validate_embedded_sdk_summary_def ex_suite_def ex_sdk_def dict_get_def report_object_def is_true_def
        num_eq_def)
  moreover have "forE (\<lambda>(sec, key). require_zero ex_suite sec key) ZERO_FAILURE_FIELDS = Inr ()"
    by (simp add: ZERO_FAILURE_FIELDS_def require_zero_def ex_suite_def dict_get_def report_object_def num_eq_def)
  moreover have "contains (''evidence_sha256 '' @ ex_sha @ [newline] @ ''00 sdk-suite-summary.json'') '' sdk-suite-summary.json''"
    unfolding contains_def sublist_def
    by (intro exI [of _ "''evidence_sha256 '' @ ex_sha @ [newline] @ ''00''"] exI [of _ "[]"]) simp
  ultimately show ?thesis
    unfolding evidence_summaries_def Let_def ex_sha_line using ex_header_line
    by (simp add: ex_suite_def ex_run_def dict_get_def report_object_def is_true_def tag_matches_def)
qed

lemma ex_zip_ok:
  "validate_evidence_zip ex_world ex_zip_at (''o/evidence-'' @ ex_commit @ ''.zip'') ex_commit None = Inr ()"
proof -
  have names: "map z_name ex_zip = [''evidence/suite-summary.json'', ''evidence/suite-run.json'',
      ''evidence/sdk-suite-summary.json'', ''evidence/evidence.sha256'']"
    by (simp add: ex_zip_def)
  have safe: "list_all safe_zip_name (map z_name ex_zip)" unfolding names by code_simp
  have attr: "file_type 0x81A40000 \<noteq> 0xA000" by code_simp
  then have "list_all (\<lambda>e. safe_zip_name (z_name e) \<and> file_type (z_attr e) \<noteq> 0xA000) ex_zip"
    using safe by (simp add: ex_zip_def)
  then have fold: "foldE zip_step [] ex_zip = Inr (map z_name ex_zip)"
    unfolding zip_fold by (simp add: names)
  have name: "path_name (''o/evidence-'' @ ex_commit @ ''.zip'') = ''evidence-'' @ ex_commit @ ''.zip''"
    by code_simp
  have loads: "json_loads (files ex_world) ''suite'' = Some (JObj ex_suite)"
      "json_loads (files ex_world) ''run'' = Some (JObj ex_run)"
      "json_loads (files ex_world) ''sdk'' = Some (JObj ex_sdk)"
      "is_file (files ex_world) p" for p
    by (simp_all add: ex_world_def ex_evidence_def is_file_def)
  have missing: "list_minus REQUIRED_EVIDENCE_ENTRIES (map z_name ex_zip) = []"
    unfolding names by (simp add: list_minus_def REQUIRED_EVIDENCE_ENTRIES_def)
  have read: "read_json_entry ex_world ex_zip ''evidence/suite-summary.json'' = Inr ex_suite"
      "read_json_entry ex_world ex_zip ''evidence/suite-run.json'' = Inr ex_run"
      "read_json_entry ex_world ex_zip ''evidence/sdk-suite-summary.json'' = Inr ex_sdk"
      "zip_read ex_zip ''evidence/evidence.sha256'' =
         Inr (Some (''evidence_sha256 '' @ ex_sha @ [newline] @ ''00 sdk-suite-summary.json''))"
    by (simp_all add: read_json_entry_def zip_read_def ex_zip_def loads report_object_def)
  show ?thesis
    unfolding validate_evidence_zip_def Let_def name
    using fold missing read ex_summaries_ok loads(4)
    by (simp add: ex_zip_at_def py_sorted_def)
qed

lemma ex_evidence_ok:
  "evidence_main ex_world ex_zip_at id ''r'' ''o'' ex_commit None =
     Inr (''release evidence assets check: OK ('' @ ex_commit @ '')'')"
proof -
  have "validate_sdk_assets ex_world ''r'' ''o'' ex_commit = Inr ex_manifest"
    using ex_accepted by (simp add: validate_sdk_assets_def ex_args_def)
  moreover have "re_fullmatch COMMIT_RE_evidence ex_commit"
    by (simp add: COMMIT_RE_evidence_def fullmatch_hex_re ex_commit_def chr_is_hex_def list_all_iff)
  moreover have "is_dir (files ex_world) ''o''" by (simp add: ex_world_def)
  ultimately show ?thesis
    using ex_zip_ok by (simp add: evidence_main_def path_join_def)
qed

theorem evidence_all_green_witness:
  "\<exists>es. ex_zip_at (path_join (id ''o'') (''evidence-'' @ ex_commit @ ''.zip'')) = Some es \<and> distinct (map z_name es)"
  using evidence_all_green [OF ex_evidence_ok] by blast

end
