(* ===== verification/UniText.thy ===== *)
theory UniText
  imports PyRegex Base64
begin

text \<open>
  Texts over all code points, for the script that looks for Cyrillic letters: a text is a list of
  code points, bytes become text by UTF-8. Of the Unicode tables the code needs which code points
  from 256 on are word characters and which are decimal digits: the fields of the record \<open>ucd\<close>, a
  parameter of the model.
\<close>

type_synonym utext = "nat list"

record ucd =
  ucd_word :: "nat \<Rightarrow> bool"
  ucd_digit :: "nat \<Rightarrow> nat option"

definition u :: "string \<Rightarrow> utext" where
  "u s = map of_char s"

lemma u_simps: "u [] = []" "u (c # s) = of_char c # u s" "u (s @ t) = u s @ u t"
  by (simp_all add: u_def)

subsection \<open>Characters\<close>

definition u_is_space :: "nat \<Rightarrow> bool" where
  "u_is_space n =
     ((9 \<le> n \<and> n \<le> 13) \<or> (28 \<le> n \<and> n \<le> 32) \<or> n = 133 \<or> n = 160 \<or> n = 0x1680 \<or>
      (0x2000 \<le> n \<and> n \<le> 0x200A) \<or> n \<in> {0x2028, 0x2029, 0x202F, 0x205F, 0x3000})"

definition u_is_newline :: "nat \<Rightarrow> bool" where
  "u_is_newline n = ((10 \<le> n \<and> n \<le> 13) \<or> (28 \<le> n \<and> n \<le> 30) \<or> n \<in> {133, 0x2028, 0x2029})"

definition u_is_word :: "ucd \<Rightarrow> nat \<Rightarrow> bool" where
  "u_is_word U n = (if n < 256 then chr_is_word (char_of n) else ucd_word U n)"

text \<open>The value of a decimal digit, for \<open>int\<close>.\<close>

definition u_digit :: "ucd \<Rightarrow> nat \<Rightarrow> nat option" where
  "u_digit U n = (if 48 \<le> n \<and> n \<le> 57 then Some (n - 48) else if n < 256 then None else ucd_digit U n)"

text \<open>
  Under \<open>re.IGNORECASE\<close> an ASCII letter also matches its other case, and four code points outside
  ASCII count as i, s and k. The names the code compares after \<open>lower\<close> are ASCII; only the Kelvin
  sign lowers into ASCII from outside.
\<close>

definition u_fold :: "nat \<Rightarrow> nat" where
  "u_fold n =
     (if 65 \<le> n \<and> n \<le> 90 then n + 32
      else if n \<in> {0x130, 0x131} then 105 else if n = 0x17F then 115 else if n = 0x212A then 107 else n)"

definition u_lower :: "utext \<Rightarrow> utext" where
  "u_lower s = map (\<lambda>n. if 65 \<le> n \<and> n \<le> 90 then n + 32 else if n = 0x212A then 107 else n) s"

definition u_slug :: "nat \<Rightarrow> bool" where
  "u_slug n = ((97 \<le> n \<and> n \<le> 122) \<or> (65 \<le> n \<and> n \<le> 90) \<or> (48 \<le> n \<and> n \<le> 57) \<or> n \<in> set (u ''_.-''))"

subsection \<open>Words and lines\<close>

text \<open>\<open>s.split()\<close> and \<open>s.splitlines()\<close>.\<close>

fun u_words :: "utext \<Rightarrow> utext list" where
  "u_words [] = []"
| "u_words (c # s) =
     (if u_is_space c then u_words s
      else if s = [] \<or> u_is_space (hd s) then [c] # u_words s
      else (c # hd (u_words s)) # tl (u_words s))"

text \<open>The rest after a carriage return, whose line feed belongs to the same line end.\<close>

definition skip_lf :: "utext \<Rightarrow> utext" where
  "skip_lf s = (if take 1 s = [10] then drop 1 s else s)"

lemma skip_lf_length [termination_simp]: "length (skip_lf s) \<le> length s"
  by (simp add: skip_lf_def)

lemma skip_lf_less [termination_simp]: "length (if b then skip_lf s else s) < Suc (length s)"
  using skip_lf_length [of s] by simp

fun u_splitlines :: "utext \<Rightarrow> utext list" where
  "u_splitlines [] = []"
| "u_splitlines (c # s) =
     (if u_is_newline c then [] # u_splitlines (if c = 13 then skip_lf s else s)
      else (case u_splitlines s of l # ls \<Rightarrow> (c # l) # ls | [] \<Rightarrow> [[c]]))"

text \<open>Universal newlines, of a subprocess in text mode and of \<open>read_text\<close>.\<close>

fun universal_newlines :: "utext \<Rightarrow> utext" where
  "universal_newlines [] = []"
| "universal_newlines (c # s) =
     (if c = 13 then 10 # universal_newlines (skip_lf s) else c # universal_newlines s)"

text \<open>\<open>int(s)\<close>: white space around, a sign, digits with single underscores between them.\<close>

fun u_digits :: "ucd \<Rightarrow> nat \<Rightarrow> utext \<Rightarrow> nat option" where
  "u_digits U acc [] = Some acc"
| "u_digits U acc (c # s) =
     (case u_digit U c of
        Some d \<Rightarrow> u_digits U (10 * acc + d) s
      | None \<Rightarrow> if c = 95 then (case s of [] \<Rightarrow> None
                                     | c' # s' \<Rightarrow> (case u_digit U c' of None \<Rightarrow> None
                                                 | Some d \<Rightarrow> u_digits U (10 * acc + d) s'))
               else None)"

definition u_strip :: "utext \<Rightarrow> utext" where
  "u_strip s = rev (dropWhile u_is_space (rev (dropWhile u_is_space s)))"

definition u_nat :: "ucd \<Rightarrow> utext \<Rightarrow> nat option" where
  "u_nat U s = (case s of [] \<Rightarrow> None
                | c # t \<Rightarrow> (case u_digit U c of None \<Rightarrow> None | Some d \<Rightarrow> u_digits U d t))"

definition u_int :: "ucd \<Rightarrow> utext \<Rightarrow> int res" where
  "u_int U s =
     (let t = u_strip s;
          r = (case t of [] \<Rightarrow> None
               | c # v \<Rightarrow> if c = 45 then map_option (\<lambda>n. - int n) (u_nat U v)
                          else if c = 43 then map_option int (u_nat U v) else map_option int (u_nat U t))
      in case r of None \<Rightarrow> Inl (ValueError ''invalid literal for int()'') | Some i \<Rightarrow> Inr i)"

subsection \<open>Paths\<close>

definition u_comps :: "utext \<Rightarrow> utext list" where
  "u_comps s = filter (\<lambda>x. x \<noteq> [] \<and> x \<noteq> u ''.'') (str_split (u ''/'') s)"

definition u_path_name :: "utext \<Rightarrow> utext" where
  "u_path_name s = (if u_comps s = [] then [] else last (u_comps s))"

definition u_path_suffix :: "utext \<Rightarrow> utext" where
  "u_path_suffix s =
     (let n = u_path_name s;
          ext = rev (takeWhile (\<lambda>c. c \<noteq> 46) (rev n));
          stem = take (length n - length ext - 1) n
      in if 46 \<in> set n \<and> ext \<noteq> [] \<and> stem \<noteq> [] then 46 # ext else [])"

subsection \<open>UTF-8\<close>

definition byte_of :: "nat \<Rightarrow> byte" where
  "byte_of n = word_of_nat n"

definition utf8_char :: "nat \<Rightarrow> byte list" where
  "utf8_char n = map byte_of
     (if n < 0x80 then [n]
      else if n < 0x800 then [192 + n div 64, 128 + n mod 64]
      else if n < 0x10000 then [224 + n div 4096, 128 + n div 64 mod 64, 128 + n mod 64]
      else [240 + n div 262144, 128 + n div 4096 mod 64, 128 + n div 64 mod 64, 128 + n mod 64])"

definition utf8_encode :: "utext \<Rightarrow> byte list" where
  "utf8_encode s = concat (map utf8_char s)"

definition is_cont :: "nat \<Rightarrow> bool" where
  "is_cont b = (128 \<le> b \<and> b < 192)"

text \<open>A code point: no surrogate, at most \<open>10FFFF\<close>.\<close>

definition code_point :: "nat \<Rightarrow> bool" where
  "code_point n = (n < 0xD800 \<or> (0xE000 \<le> n \<and> n < 0x110000))"

text \<open>The first character of a byte sequence and the rest, if the sequence begins with a valid one.\<close>

definition utf8_head :: "byte list \<Rightarrow> (nat \<times> byte list) option" where
  "utf8_head bs =
     (case bs of [] \<Rightarrow> None | b # r \<Rightarrow>
      let a = unat b in
      if a < 128 then Some (a, r)
      else if 194 \<le> a \<and> a < 224 then
        (case r of c # r' \<Rightarrow> if is_cont (unat c) then Some ((a - 192) * 64 + (unat c - 128), r') else None
         | _ \<Rightarrow> None)
      else if 224 \<le> a \<and> a < 240 then
        (case r of c # d # r' \<Rightarrow>
           let n = (a - 224) * 4096 + (unat c - 128) * 64 + (unat d - 128) in
           if is_cont (unat c) \<and> is_cont (unat d) \<and> 0x800 \<le> n \<and> code_point n then Some (n, r') else None
         | _ \<Rightarrow> None)
      else if 240 \<le> a \<and> a < 245 then
        (case r of c # d # e # r' \<Rightarrow>
           let n = (a - 240) * 262144 + (unat c - 128) * 4096 + (unat d - 128) * 64 + (unat e - 128) in
           if is_cont (unat c) \<and> is_cont (unat d) \<and> is_cont (unat e) \<and> 0x10000 \<le> n \<and> code_point n
           then Some (n, r') else None
         | _ \<Rightarrow> None)
      else None)"

lemma utf8_head_shorter: "utf8_head bs = Some (n, r) \<Longrightarrow> length r < length bs"
  by (auto simp: utf8_head_def Let_def split: list.splits if_splits)

text \<open>
  \<open>decode("utf-8")\<close>, which raises at the first invalid byte, and the same with \<open>errors="ignore"\<close>. The
  latter drops an invalid beginning of a character; the continuation bytes it drops with it are
  invalid on their own, so dropping one byte at a time gives the same text.
\<close>

function utf8_strict :: "byte list \<Rightarrow> utext res" where
  "utf8_strict bs =
     (if bs = [] then Inr []
      else case utf8_head bs of
        None \<Rightarrow> Inl UnicodeDecodeError
      | Some (n, r) \<Rightarrow> bindE (utf8_strict r) (\<lambda>s. Inr (n # s)))"
  by pat_completeness auto
termination by (relation "measure length") (auto dest: utf8_head_shorter)

function utf8_ignore :: "byte list \<Rightarrow> utext" where
  "utf8_ignore bs =
     (if bs = [] then []
      else case utf8_head bs of
        None \<Rightarrow> utf8_ignore (tl bs)
      | Some (n, r) \<Rightarrow> n # utf8_ignore r)"
  by pat_completeness auto
termination by (relation "measure length") (auto dest: utf8_head_shorter)

declare utf8_strict.simps [simp del] utf8_ignore.simps [simp del]

lemma unat_byte_of [simp]: "n < 256 \<Longrightarrow> unat (byte_of n) = n"
  by (simp add: byte_of_def unat_of_nat)

text \<open>One case for each number of bytes, in terms of the groups of six bits.\<close>

lemma utf8_head_bytes:
  "a < 128 \<Longrightarrow> utf8_head (byte_of a # r) = Some (a, r)"
  "2 \<le> a \<Longrightarrow> a < 32 \<Longrightarrow> b < 64 \<Longrightarrow> utf8_head (byte_of (192 + a) # byte_of (128 + b) # r) = Some (a * 64 + b, r)"
  "a < 16 \<Longrightarrow> b < 64 \<Longrightarrow> c < 64 \<Longrightarrow> 0x800 \<le> a * 4096 + b * 64 + c \<Longrightarrow> code_point (a * 4096 + b * 64 + c) \<Longrightarrow>
     utf8_head (byte_of (224 + a) # byte_of (128 + b) # byte_of (128 + c) # r) = Some (a * 4096 + b * 64 + c, r)"
  "a < 5 \<Longrightarrow> b < 64 \<Longrightarrow> c < 64 \<Longrightarrow> d < 64 \<Longrightarrow> 0x10000 \<le> a * 262144 + b * 4096 + c * 64 + d \<Longrightarrow>
     code_point (a * 262144 + b * 4096 + c * 64 + d) \<Longrightarrow>
     utf8_head (byte_of (240 + a) # byte_of (128 + b) # byte_of (128 + c) # byte_of (128 + d) # r) =
       Some (a * 262144 + b * 4096 + c * 64 + d, r)"
  by (simp_all add: utf8_head_def is_cont_def Let_def)

lemma six_bit_groups:
  fixes n :: nat
  shows "n div 64 * 64 + n mod 64 = n"
    "n div 4096 * 4096 + n div 64 mod 64 * 64 + n mod 64 = n"
    "n div 262144 * 262144 + n div 4096 mod 64 * 4096 + n div 64 mod 64 * 64 + n mod 64 = n"
proof -
  have "n div 4096 = n div 64 div 64" "n div 262144 = n div 4096 div 64"
    by (simp_all add: div_mult2_eq [symmetric])
  then show "n div 64 * 64 + n mod 64 = n"
    "n div 4096 * 4096 + n div 64 mod 64 * 64 + n mod 64 = n"
    "n div 262144 * 262144 + n div 4096 mod 64 * 4096 + n div 64 mod 64 * 64 + n mod 64 = n"
    using div_mult_mod_eq [of n 64] div_mult_mod_eq [of "n div 64" 64] div_mult_mod_eq [of "n div 4096" 64]
    by linarith+
qed

lemma utf8_head_char:
  assumes "code_point n" shows "utf8_head (utf8_char n @ r) = Some (n, r)"
proof -
  have m: "n mod 64 < 64" "n div 64 mod 64 < 64" "n div 4096 mod 64 < 64" by simp_all
  consider "n < 0x80" | "0x80 \<le> n" "n < 0x800" | "0x800 \<le> n" "n < 0x10000" | "0x10000 \<le> n" "n < 0x110000"
    using assms unfolding code_point_def by linarith
  then show ?thesis
  proof cases
    case 1
    then show ?thesis by (simp add: utf8_char_def utf8_head_bytes(1))
  next
    case 2
    then have "2 \<le> n div 64" "n div 64 < 32" by simp_all
    from utf8_head_bytes(2) [OF this m(1)] 2 show ?thesis
      by (simp only: utf8_char_def six_bit_groups) simp
  next
    case 3
    then have "n div 4096 < 16" by simp
    from utf8_head_bytes(3) [OF this m(2,1)] 3 assms show ?thesis
      by (simp only: utf8_char_def six_bit_groups) simp
  next
    case 4
    then have "n div 262144 < 5" by simp
    from utf8_head_bytes(4) [OF this m(3,2,1)] 4 assms show ?thesis
      by (simp only: utf8_char_def six_bit_groups) simp
  qed
qed

lemma utf8_char_ne [simp]: "utf8_char n \<noteq> []"
  by (simp add: utf8_char_def)

lemma utf8_encode_simps [simp]: "utf8_encode [] = []" "utf8_encode (n # s) = utf8_char n @ utf8_encode s"
    "utf8_encode (s @ t) = utf8_encode s @ utf8_encode t"
  by (simp_all add: utf8_encode_def)

lemma utf8_strict_encode: "list_all code_point s \<Longrightarrow> utf8_strict (utf8_encode s) = Inr s"
proof (induction s)
  case Nil
  show ?case by (subst utf8_strict.simps) simp
next
  case (Cons n s)
  then show ?case by (subst utf8_strict.simps) (simp add: utf8_head_char)
qed

lemma utf8_ignore_encode: "list_all code_point s \<Longrightarrow> utf8_ignore (utf8_encode s @ r) = s @ utf8_ignore r"
proof (induction s)
  case (Cons n s)
  then show ?case by (subst utf8_ignore.simps) (simp add: utf8_head_char)
qed simp

text \<open>A tolerant decoder finds every encoded text that starts where it has decoded up to.\<close>

lemma utf8_ignore_strict: "utf8_strict bs = Inr s \<Longrightarrow> utf8_ignore bs = s"
proof (induction bs arbitrary: s rule: utf8_strict.induct)
  case (1 bs)
  show ?case
  proof (cases "bs = []")
    case True
    with 1(2) show ?thesis by (simp add: utf8_strict.simps utf8_ignore.simps)
  next
    case False
    with 1(2) obtain n r t where h: "utf8_head bs = Some (n, r)" "utf8_strict r = Inr t" "s = n # t"
      by (subst (asm) utf8_strict.simps) (auto simp: bindE_Inr split: option.splits)
    from 1(1) [OF False h(1) refl h(2)] h False show ?thesis
      by (subst utf8_ignore.simps) simp
  qed
qed

subsection \<open>Numbers printed and read back\<close>

lemma nat_str_digits: "list_all (\<lambda>c. (of_char c :: nat) \<in> {48..57}) (nat_str n)"
proof (induction n rule: nat_str.induct)
  case (1 n)
  then show ?case by (subst nat_str.simps) (auto simp: digit_char_def)
qed

lemma u_digits_string:
  assumes "list_all (\<lambda>c. (of_char c :: nat) \<in> {48..57}) s"
  shows "u_digits U acc (u s) = Some (foldl (\<lambda>acc c. 10 * acc + digit_value c) acc s)"
  using assms by (induction s arbitrary: acc) (simp_all add: u_simps u_digit_def digit_value_def)

lemma u_int_nat_str: "u_int U (u (nat_str n)) = Inr (int n)"
proof -
  have d: "list_all (\<lambda>c. (of_char c :: nat) \<in> {48..57}) (nat_str n)" by (rule nat_str_digits)
  then have sp: "list_all (\<lambda>c. \<not> u_is_space c) (u (nat_str n))"
    by (auto simp: list_all_iff u_def u_is_space_def)
  have "dropWhile u_is_space t = t" if "list_all (\<lambda>c. \<not> u_is_space c) t" for t
    using that by (cases t) auto
  from this [OF sp] this [of "rev (u (nat_str n))"] sp have "u_strip (u (nat_str n)) = u (nat_str n)"
    by (simp add: u_strip_def list_all_iff)
  moreover obtain c s where s: "nat_str n = c # s" by (cases "nat_str n") auto
  moreover have "u_nat U (u (nat_str n)) = Some n"
    using d u_digits_string [of s U] digits_nat_nat_str [of n]
    by (simp add: s u_nat_def u_simps u_digit_def digits_nat_def digit_value_def)
  ultimately show ?thesis using d by (auto simp: u_int_def u_simps Let_def)
qed

end
