(* ===== verification/HistoryHygiene.thy ===== *)
theory HistoryHygiene
  imports UniText
begin

text \<open>
  \<open>tools/ci/check_history_hygiene.py\<close>: looks for leaks (private addresses, home directories, private
  repository names, Cyrillic text) in the tracked files, in every blob, commit and tag of the
  history, in the staged files or in one commit message. What \<open>git\<close> prints and what lies on disk are
  the fields of the record \<open>repo\<close>, a parameter of the model.
\<close>

subsection \<open>Patterns\<close>

definition u_lit :: "string \<Rightarrow> nat regex" where
  "u_lit s = RLit (u s)"

text \<open>A literal text under \<open>re.IGNORECASE\<close>, and a character class.\<close>

definition u_liti :: "string \<Rightarrow> nat regex" where
  "u_liti s = RSeqs (map (\<lambda>c. RCls (\<lambda>x. u_fold x = u_fold (of_char c))) s)"

definition u_at_word :: "ucd \<Rightarrow> utext \<Rightarrow> bool" where
  "u_at_word U s = (case s of [] \<Rightarrow> False | c # _ \<Rightarrow> u_is_word U c)"

definition u_wordb :: "ucd \<Rightarrow> nat regex" where
  "u_wordb U = RAssert (\<lambda>(p, s). u_at_word U p \<noteq> u_at_word U s)"

definition not_space :: "string \<Rightarrow> nat regex" where
  "not_space cs = RCls (\<lambda>c. \<not> u_is_space c \<and> c \<notin> set (u cs))"

definition slug_chr :: "nat regex" where
  "slug_chr = RCls (\<lambda>c. u_slug (u_fold c))"

definition CYRILLIC_RE :: "nat regex" where
  "CYRILLIC_RE = RCls (\<lambda>c. 0x400 \<le> c \<and> c \<le> 0x4FF)"

definition PRIVATE_REPO_SLUG_BOUNDARY :: "nat regex" where
  "PRIVATE_REPO_SLUG_BOUNDARY = RNot slug_chr"

text \<open>\<open>[A-Za-z0-9_.-]+/[A-Za-z0-9_.-]+-private(?:\.git)?\<close>, the tail of all three forms.\<close>

definition private_slug :: "nat regex" where
  "private_slug = RSeqs [RPlus slug_chr, u_lit ''/'', RPlus slug_chr, u_liti ''-private'', ROpt (u_liti ''.git'')]"

definition home_path :: "string \<Rightarrow> nat regex" where
  "home_path s = RSeqs [u_lit s, RPlus (not_space ''/''), RPlus (RSeq (u_lit ''/'') (RPlus (not_space [CHR 0x22, CHR 0x27])))]"

definition PATTERNS :: "ucd \<Rightarrow> (string \<times> nat regex) list" where
  "PATTERNS U =
     [(''consumer-email-domain'',
       RSeqs [u_wordb U, RPlus (RCls (\<lambda>c. u_is_word U c \<or> c \<in> set (u ''.+-''))), u_lit ''@'',
         RAlts [u_liti ''icloud.com'', u_liti ''me.com'', u_liti ''gmail.com'', u_liti ''yahoo.com'',
           u_liti ''hotmail.com'', u_liti ''outlook.com''], u_wordb U]),
      (''private-repo-slug'',
       RSeqs [RAlts [RSeq (u_wordb U) private_slug,
           RSeqs [u_wordb U, u_liti ''git@github.com:'', private_slug],
           RSeqs [u_wordb U, u_liti ''https://github.com/'', private_slug]], PRIVATE_REPO_SLUG_BOUNDARY]),
      (''macos-home-path'', home_path ''/Users/''),
      (''unix-home-path'', home_path ''/home/''),
      (''private-tmp-path'', RSeq (u_lit ''/private/tmp'')
         (ROpt (RSeq (u_lit ''/'') (RPlus (not_space [CHR 0x22, CHR 0x27]))))),
      (''publication-transition-marker'', RSeqs [u_wordb U, u_liti ''public-mirror'', u_wordb U])]"

definition COMMIT_MESSAGE_PATTERNS :: "ucd \<Rightarrow> (string \<times> nat regex) list" where
  "COMMIT_MESSAGE_PATTERNS U =
     [(''cyrillic-discussion'', RSeqs [u_wordb U, u_liti ''cyrillic'', u_wordb U]),
      (''tmp-path-discussion'',
       RSeqs [RAssert (\<lambda>(p, s). \<not> (case p of [] \<Rightarrow> False | c # _ \<Rightarrow> u_slug c \<and> c \<notin> set (u ''.-''))),
         u_lit ''/'', ROpt (u_lit ''private/''), u_lit ''tmp/'', RPlus (not_space [CHR 0x22, CHR 0x27])])]"

definition TEXT_EXT_ALLOWLIST :: "utext list" where
  "TEXT_EXT_ALLOWLIST = map u
     [''.md'', ''.txt'', ''.json'', ''.yml'', ''.yaml'', ''.toml'', ''.py'', ''.sh'', ''.ts'', ''.tsx'', ''.js'',
      ''.cjs'', ''.mjs'', ''.rs'', ''.cddl'']"

definition BINARY_EXT :: "utext list" where
  "BINARY_EXT = map u
     [''.png'', ''.jpg'', ''.jpeg'', ''.gif'', ''.pdf'', ''.zip'', ''.gz'', ''.tgz'', ''.tar'', ''.wasm'', ''.ico'', ''.bin'']"

definition MAX_FINDINGS :: nat where "MAX_FINDINGS = 50"

subsection \<open>The repository\<close>

datatype disk_entry = Absent | Directory | Content "byte list"

text \<open>
  \<open>git_out\<close> is the standard output of \<open>git\<close> with the given arguments and input (\<open>None\<close>: it fails),
  \<open>disk\<close> what lies at a path, \<open>resolved\<close> is \<open>Path.resolve\<close>.
\<close>

record repo =
  tables :: ucd
  git_out :: "utext list \<Rightarrow> byte list option \<Rightarrow> byte list option"
  disk :: "utext \<Rightarrow> disk_entry"
  resolved :: "utext \<Rightarrow> utext"

definition git_bytes :: "repo \<Rightarrow> utext list \<Rightarrow> byte list option \<Rightarrow> byte list res" where
  "git_bytes w args inp =
     (case git_out w args inp of None \<Rightarrow> Inl (CalledProcessError ''git'') | Some out \<Rightarrow> Inr out)"

definition git :: "repo \<Rightarrow> utext list \<Rightarrow> utext res" where
  "git w args = bindE (git_bytes w args None) (\<lambda>out. bindE (utf8_strict out) (\<lambda>t. Inr (universal_newlines t)))"

definition read_disk :: "repo \<Rightarrow> utext \<Rightarrow> byte list res" where
  "read_disk w p = (case disk w p of Absent \<Rightarrow> Inl (OSError 2) | Directory \<Rightarrow> Inl (OSError 21) | Content d \<Rightarrow> Inr d)"

definition is_binary :: "utext \<Rightarrow> byte list \<Rightarrow> bool" where
  "is_binary path data =
     (0 \<in> set (take 8192 data) \<or>
      (let suffix = u_path_suffix path in
       suffix \<noteq> [] \<and> u_lower suffix \<notin> set TEXT_EXT_ALLOWLIST \<and> u_lower suffix \<in> set BINARY_EXT))"

subsection \<open>Findings\<close>

definition matched :: "(string \<times> nat regex) list \<Rightarrow> utext \<Rightarrow> utext \<Rightarrow> utext list" where
  "matched patterns t scope =
     map (\<lambda>(label, _). scope @ u '': matched '' @ u label) (filter (\<lambda>(_, r). re_search r t) patterns)"

definition record_findings :: "ucd \<Rightarrow> utext \<Rightarrow> utext \<Rightarrow> utext list \<Rightarrow> utext list" where
  "record_findings U t scope findings =
     findings @ (if re_search CYRILLIC_RE t then [scope @ u '': Cyrillic text detected''] else [])
       @ matched (PATTERNS U) t scope"

definition record_commit_message_findings :: "ucd \<Rightarrow> utext \<Rightarrow> utext \<Rightarrow> utext list \<Rightarrow> utext list" where
  "record_commit_message_findings U t scope findings =
     record_findings U t scope findings @ matched (COMMIT_MESSAGE_PATTERNS U) t scope"

text \<open>Record the findings in a text, and go on unless there are enough of them.\<close>

definition noted :: "ucd \<Rightarrow> utext \<Rightarrow> utext \<Rightarrow> (utext list \<Rightarrow> utext list res) \<Rightarrow> utext list \<Rightarrow> utext list res" where
  "noted U t scope k findings =
     (let fs = record_findings U t scope findings in if length fs \<ge> MAX_FINDINGS then Inr fs else k fs)"

subsection \<open>Tracked and staged files\<close>

definition u_double_slash :: "utext \<Rightarrow> bool" where
  "u_double_slash s = (prefix (u ''//'') s \<and> \<not> prefix (u ''///'') s)"

text \<open>\<open>(root / rel).relative_to(root)\<close> as text: an absolute \<open>rel\<close> replaces the root.\<close>

definition tracked_rel :: "utext \<Rightarrow> utext \<Rightarrow> utext res" where
  "tracked_rel root_dir rel =
     (let cs = u_comps rel; rs = u_comps root_dir;
          text_of = (\<lambda>xs. if xs = [] then u ''.'' else str_join (u ''/'') xs)
      in if \<not> prefix (u ''/'') rel then Inr (text_of cs)
         else if prefix rs cs \<and> u_double_slash rel = u_double_slash root_dir then Inr (text_of (drop (length rs) cs))
         else Inl (ValueError ''relative_to''))"

definition under :: "utext \<Rightarrow> utext \<Rightarrow> utext" where
  "under root_dir rel = (if prefix (u ''/'') rel then rel else root_dir @ u ''/'' @ rel)"

text \<open>The non-empty parts between NUL characters.\<close>

definition nul_parts :: "utext \<Rightarrow> utext list" where
  "nul_parts t = filter (\<lambda>p. p \<noteq> []) (str_split [0] t)"

definition tracked_files :: "repo \<Rightarrow> utext list res" where
  "tracked_files w = bindE (git w [u ''ls-files'', u ''-z'']) (\<lambda>out. Inr (nul_parts out))"

text \<open>The part of the loop that reads the file, before the rest of the loop \<open>k\<close>.\<close>

definition tracked_content ::
    "repo \<Rightarrow> utext \<Rightarrow> utext \<Rightarrow> (utext list \<Rightarrow> utext list res) \<Rightarrow> utext list \<Rightarrow> utext list res" where
  "tracked_content w path rel k findings =
     (case disk w path of
        Absent \<Rightarrow> k findings
      | Directory \<Rightarrow> Inl (OSError 21)
      | Content data \<Rightarrow>
          if is_binary path data then k findings
          else noted (tables w) (utf8_ignore data) (u ''file:'' @ rel) k findings)"

fun tracked_loop :: "repo \<Rightarrow> utext \<Rightarrow> utext list \<Rightarrow> utext list \<Rightarrow> utext list res" where
  "tracked_loop w root_dir [] findings = Inr findings"
| "tracked_loop w root_dir (p # ps) findings =
     bindE (tracked_rel root_dir p) (\<lambda>rel.
       noted (tables w) rel (u ''path:'' @ rel)
         (\<lambda>fs. tracked_content w (under root_dir p) rel (\<lambda>gs. tracked_loop w root_dir ps gs) fs) findings)"

definition scan_tracked_files :: "repo \<Rightarrow> utext \<Rightarrow> utext list \<Rightarrow> utext list res" where
  "scan_tracked_files w root_dir findings = bindE (tracked_files w) (\<lambda>ps. tracked_loop w root_dir ps findings)"

definition staged_paths :: "repo \<Rightarrow> utext list res" where
  "staged_paths w =
     bindE (git w (map u [''diff'', ''--cached'', ''--name-only'', ''-z'', ''--diff-filter=ACMR'']))
       (\<lambda>out. Inr (nul_parts out))"

definition staged_content ::
    "repo \<Rightarrow> utext \<Rightarrow> (utext list \<Rightarrow> utext list res) \<Rightarrow> utext list \<Rightarrow> utext list res" where
  "staged_content w rel k findings =
     bindE (git_bytes w [u ''show'', u '':'' @ rel] None) (\<lambda>data.
       if is_binary rel data then k findings
       else noted (tables w) (utf8_ignore data) (u ''staged-file:'' @ rel) k findings)"

fun staged_loop :: "repo \<Rightarrow> utext list \<Rightarrow> utext list \<Rightarrow> utext list res" where
  "staged_loop w [] findings = Inr findings"
| "staged_loop w (rel # rels) findings =
     noted (tables w) rel (u ''staged-path:'' @ rel)
       (\<lambda>fs. staged_content w rel (\<lambda>gs. staged_loop w rels gs) fs) findings"

definition scan_staged_files :: "repo \<Rightarrow> utext list \<Rightarrow> utext list res" where
  "scan_staged_files w findings = bindE (staged_paths w) (\<lambda>rels. staged_loop w rels findings)"

subsection \<open>The blobs of the history\<close>

text \<open>\<open>mapping.setdefault(oid, path)\<close> over the lines that have a space.\<close>

definition blob_path_step :: "(utext \<times> utext) list \<Rightarrow> utext \<Rightarrow> (utext \<times> utext) list" where
  "blob_path_step m line =
     (case str_partition [32] line of
        None \<Rightarrow> m
      | Some (oid, path) \<Rightarrow> if oid \<in> set (map fst m) then m else m @ [(oid, path)])"

definition reachable_blob_paths :: "repo \<Rightarrow> (utext \<times> utext) list res" where
  "reachable_blob_paths w =
     bindE (git w (map u [''rev-list'', ''--objects'', ''--all'']))
       (\<lambda>out. Inr (foldl blob_path_step [] (u_splitlines out)))"

definition oid_lines :: "utext list \<Rightarrow> byte list" where
  "oid_lines oids = utf8_encode (concat (map (\<lambda>oid. oid @ [10]) oids))"

text \<open>\<open>a, b, c = s.split()\<close>.\<close>

definition three_words :: "utext \<Rightarrow> (utext \<times> utext \<times> utext) res" where
  "three_words t = (case u_words t of [a, b, c] \<Rightarrow> Inr (a, b, c) | _ \<Rightarrow> Inl (ValueError ''unpack''))"

definition blob_object_ids :: "repo \<Rightarrow> (utext \<times> utext) list \<Rightarrow> utext list res" where
  "blob_object_ids w path_by_oid =
     (if path_by_oid = [] then Inr []
      else bindE (git_bytes w [u ''cat-file'', u ''--batch-check=%(objectname) %(objecttype) %(objectsize)'']
                    (Some (oid_lines (map fst path_by_oid)))) (\<lambda>raw.
           bindE (utf8_strict raw) (\<lambda>out.
           bindE (mapE three_words (u_splitlines out)) (\<lambda>rows.
             Inr (map fst (filter (\<lambda>(_, obj_type, _). obj_type = u ''blob'') rows))))))"

text \<open>
  One turn of the loop over the output of \<open>git cat-file --batch\<close>: \<open>stream.readline()\<close>, the three
  words of the header, \<open>stream.read(size)\<close>, which reads everything for a negative size, and
  \<open>stream.read(1)\<close>.
\<close>

definition read_object :: "ucd \<Rightarrow> byte list \<Rightarrow> (utext \<times> utext \<times> byte list \<times> byte list) res" where
  "read_object U stream =
     (let header = takeWhile (\<lambda>b. b \<noteq> 10) stream;
          rest = drop (Suc (length header)) stream
      in bindE (utf8_strict header) (\<lambda>t.
         bindE (three_words t) (\<lambda>(oid, obj_type, size_str).
         bindE (u_int U size_str) (\<lambda>size.
         let n = (if size < 0 then length rest else nat size) in
         Inr (oid, obj_type, take n rest, drop (Suc n) rest)))))"

definition blob_rel :: "(utext \<times> utext) list \<Rightarrow> utext \<Rightarrow> utext" where
  "blob_rel path_by_oid oid = (case map_of path_by_oid oid of None \<Rightarrow> u ''<unknown>'' | Some p \<Rightarrow> p)"

partial_function (option) blob_loop ::
    "ucd \<Rightarrow> (utext \<times> utext) list \<Rightarrow> byte list \<Rightarrow> utext list \<Rightarrow> utext list res option" where
  "blob_loop U path_by_oid stream findings =
     (if stream = [] then Some (Inr findings)
      else case read_object U stream of
        Inl e \<Rightarrow> Some (Inl e)
      | Inr (oid, obj_type, data, rest) \<Rightarrow>
          (let rel = blob_rel path_by_oid oid in
           if obj_type \<noteq> u ''blob'' \<or> is_binary rel data then blob_loop U path_by_oid rest findings
           else let fs = record_findings U (utf8_ignore data)
                           (u ''history-blob:'' @ rel @ u ''@'' @ take 12 oid) findings in
                if length fs \<ge> MAX_FINDINGS then Some (Inr fs) else blob_loop U path_by_oid rest fs))"

text \<open>Sequencing of code that may raise and may not return (\<open>None\<close>).\<close>

definition bindO :: "'a res option \<Rightarrow> ('a \<Rightarrow> 'b res option) \<Rightarrow> 'b res option" where
  "bindO m f = (case m of None \<Rightarrow> None | Some (Inl e) \<Rightarrow> Some (Inl e) | Some (Inr x) \<Rightarrow> f x)"

definition scan_history_blobs :: "repo \<Rightarrow> utext list \<Rightarrow> utext list res option" where
  "scan_history_blobs w findings =
     bindO (Some (reachable_blob_paths w)) (\<lambda>path_by_oid.
     bindO (Some (blob_object_ids w path_by_oid)) (\<lambda>blob_ids.
     if blob_ids = [] then Some (Inr findings)
     else bindO (Some (git_bytes w [u ''cat-file'', u ''--batch''] (Some (oid_lines blob_ids)))) (\<lambda>stream.
            blob_loop (tables w) path_by_oid stream findings)))"

subsection \<open>Commits and tags\<close>

definition commit_meta :: "repo \<Rightarrow> utext \<Rightarrow> (utext \<times> utext \<times> utext) res" where
  "commit_meta w commit =
     bindE (git w [u ''show'', u ''-s'', u ''--format=%ae%x00%ce%x00%B'', commit]) (\<lambda>meta.
     case str_partition [0] meta of
       None \<Rightarrow> Inl (ValueError ''unpack'')
     | Some (author, r) \<Rightarrow>
         (case str_partition [0] r of None \<Rightarrow> Inl (ValueError ''unpack'') | Some (committer, message) \<Rightarrow>
            Inr (author, committer, message)))"

definition noted_commit ::
    "repo \<Rightarrow> utext \<Rightarrow> (utext list \<Rightarrow> utext list res) \<Rightarrow> utext list \<Rightarrow> utext list res" where
  "noted_commit w commit k findings =
     bindE (commit_meta w commit) (\<lambda>(author_email, committer_email, message).
       noted (tables w) author_email (u ''commit-author:'' @ take 12 commit)
      (noted (tables w) committer_email (u ''commit-committer:'' @ take 12 commit)
      (noted (tables w) message (u ''commit-message:'' @ take 12 commit) k)) findings)"

fun commit_loop :: "repo \<Rightarrow> utext list \<Rightarrow> utext list \<Rightarrow> utext list res" where
  "commit_loop w [] findings = Inr findings"
| "commit_loop w (commit # commits) findings = noted_commit w commit (\<lambda>fs. commit_loop w commits fs) findings"

definition commit_ids :: "repo \<Rightarrow> utext list res" where
  "commit_ids w = bindE (git w [u ''rev-list'', u ''--all'']) (\<lambda>out. Inr (u_splitlines out))"

definition scan_commits :: "repo \<Rightarrow> utext list \<Rightarrow> utext list res" where
  "scan_commits w findings = bindE (commit_ids w) (\<lambda>commits. commit_loop w commits findings)"

definition tag_names :: "repo \<Rightarrow> utext list res" where
  "tag_names w =
     bindE (git w [u ''tag'', u ''--list'']) (\<lambda>out. Inr (filter (\<lambda>line. line \<noteq> []) (u_splitlines out)))"

definition tag_contents :: "repo \<Rightarrow> utext \<Rightarrow> utext res" where
  "tag_contents w tag =
     git w [u ''for-each-ref'', u ''refs/tags/'' @ tag, u ''--format=%(taggeremail)%00%(contents)'']"

definition noted_tag ::
    "repo \<Rightarrow> utext \<Rightarrow> (utext list \<Rightarrow> utext list res) \<Rightarrow> utext list \<Rightarrow> utext list res" where
  "noted_tag w tag k findings =
     bindE (tag_contents w tag) (\<lambda>contents.
     if contents = [] then k findings
     else case str_partition [0] contents of
       None \<Rightarrow> Inl (ValueError ''unpack'')
     | Some (tagger_email, message) \<Rightarrow>
         noted (tables w) tagger_email (u ''tagger:'' @ tag)
        (noted (tables w) message (u ''tag-message:'' @ tag) k) findings)"

fun tag_loop :: "repo \<Rightarrow> utext list \<Rightarrow> utext list \<Rightarrow> utext list res" where
  "tag_loop w [] findings = Inr findings"
| "tag_loop w (tag # tags) findings = noted_tag w tag (\<lambda>fs. tag_loop w tags fs) findings"

definition scan_tags :: "repo \<Rightarrow> utext list \<Rightarrow> utext list res" where
  "scan_tags w findings = bindE (tag_names w) (\<lambda>tags. tag_loop w tags findings)"

subsection \<open>The command line\<close>

text \<open>The exit code and the lines on standard output and standard error.\<close>

type_synonym outcome = "int \<times> utext list \<times> utext list"

definition print_findings :: "utext \<Rightarrow> utext list \<Rightarrow> int \<times> utext list" where
  "print_findings heading findings =
     (if findings = [] then (0, [])
      else (1, heading # map (\<lambda>f. u ''- '' @ f) (take MAX_FINDINGS findings) @
              (if length findings > MAX_FINDINGS
               then [u ''- ... and '' @ u (nat_str (length findings - MAX_FINDINGS)) @ u '' more''] else [])))"

definition report_findings :: "string \<Rightarrow> utext list \<Rightarrow> outcome" where
  "report_findings title findings =
     (let (code, err) = print_findings (u title @ u '' failed:'') findings in
      (code, if code = 0 then [u title @ u '': OK''] else [], err))"

record hygiene_args =
  h_root :: utext
  h_staged :: bool
  h_commit_msg_file :: "utext option"

definition unless_full :: "(utext list \<Rightarrow> utext list res option) \<Rightarrow> utext list \<Rightarrow> utext list res option" where
  "unless_full scan findings = (if length findings < MAX_FINDINGS then scan findings else Some (Inr findings))"

definition scan_repository :: "repo \<Rightarrow> utext \<Rightarrow> utext list res option" where
  "scan_repository w root_dir =
     bindO (Some (scan_tracked_files w root_dir [])) (\<lambda>fs.
     bindO (unless_full (scan_history_blobs w) fs) (\<lambda>gs.
     bindO (unless_full (\<lambda>x. Some (scan_commits w x)) gs) (\<lambda>hs.
       unless_full (\<lambda>x. Some (scan_tags w x)) hs)))"

definition hygiene_main :: "repo \<Rightarrow> hygiene_args \<Rightarrow> outcome res option" where
  "hygiene_main w args =
     (let root_dir = resolved w (h_root args) in
      if h_staged args then
        Some (bindE (scan_staged_files w []) (\<lambda>fs.
          Inr (report_findings ''Staged publication hygiene check'' fs)))
      else case h_commit_msg_file args of
        Some (c # p) \<Rightarrow>
          Some (bindE (read_disk w (c # p)) (\<lambda>d.
            Inr (report_findings ''Commit message publication hygiene check''
              (record_commit_message_findings (tables w) (universal_newlines (utf8_ignore d))
                 (u ''commit-msg:'' @ u_path_name (c # p)) []))))
      | _ \<Rightarrow> bindO (scan_repository w root_dir) (\<lambda>fs.
               Some (Inr (report_findings ''Repository history hygiene check'' fs))))"

end
