(* ===== verification/HistoryProps.thy ===== *)
theory HistoryProps
  imports HistoryHygiene
begin

text \<open>
  What a green hygiene check means. The scans only ever add findings (the locale \<open>scan\<close>), so an empty
  list at the end says that every text on the way was clean; the loop over the stream of objects is
  shown to return for every stream, and to see exactly the objects that a well-formed stream holds.
\<close>

subsection \<open>Clean texts\<close>

definition hygienic :: "ucd \<Rightarrow> utext \<Rightarrow> bool" where
  "hygienic U t = (\<not> re_search CYRILLIC_RE t \<and> list_all (\<lambda>(_, r). \<not> re_search r t) (PATTERNS U))"

lemma record_findings_Nil [simp]:
  "record_findings U t scope fs = [] \<longleftrightarrow> fs = [] \<and> hygienic U t"
  by (auto simp: record_findings_def hygienic_def matched_def filter_empty_conv list_all_iff)

lemma hygienic_findings [simp]: "hygienic U t \<Longrightarrow> record_findings U t scope [] = []"
  by simp

lemma record_findings_prefix: "prefix fs (record_findings U t scope fs)"
  by (simp add: record_findings_def)

lemma record_findings_length: "length (record_findings U t scope fs) \<le> length fs + 7"
proof -
  have "length (matched (PATTERNS U) t scope) \<le> length (PATTERNS U)"
    by (simp only: matched_def length_map length_filter_le)
  also have "\<dots> = 6" by (simp add: PATTERNS_def)
  finally show ?thesis by (simp add: record_findings_def)
qed

text \<open>The findings after some code: more behind, and at most seven more than the limit allows.\<close>

definition grows :: "utext list \<Rightarrow> utext list \<Rightarrow> bool" where
  "grows fs gs = (prefix fs gs \<and> (length fs < MAX_FINDINGS \<longrightarrow> length gs < MAX_FINDINGS + 7))"

lemma grows_refl [simp]: "grows fs fs"
  by (simp add: grows_def)

lemma grows_Nil: "grows fs [] \<Longrightarrow> fs = []"
  by (simp add: grows_def)

lemma grows_record: "grows fs (record_findings U t scope fs)"
  using record_findings_length [of U t scope fs] by (simp add: grows_def record_findings_prefix)

lemma grows_trans: "grows fs gs \<Longrightarrow> length gs < MAX_FINDINGS \<Longrightarrow> grows gs hs \<Longrightarrow> grows fs hs"
  by (auto simp: grows_def intro: prefix_order.trans)

lemma cyrillic_iff: "re_search CYRILLIC_RE t \<longleftrightarrow> (\<exists>c\<in>set t. 0x400 \<le> c \<and> c \<le> 0x4FF)"
proof -
  have "re_search CYRILLIC_RE t \<longleftrightarrow> (\<exists>v c v'. t = v @ c # v' \<and> 0x400 \<le> c \<and> c \<le> 0x4FF)"
    by (auto simp: re_search_iff CYRILLIC_RE_def)
  then show ?thesis by (metis in_set_conv_decomp)
qed

subsection \<open>Scans only add findings\<close>

text \<open>A scan: given the findings so far it raises, or returns them with more behind.\<close>

locale scan =
  fixes f :: "utext list \<Rightarrow> utext list res"
  assumes adds: "f fs = Inr gs \<Longrightarrow> grows fs gs"
begin

lemma from_Nil: "f fs = Inr [] \<Longrightarrow> fs = []"
  using adds [of fs "[]"] by (simp add: grows_Nil)

lemma Nil_iff: "f fs = Inr [] \<longleftrightarrow> fs = [] \<and> f [] = Inr []"
  using from_Nil by auto

lemma noted_adds: "noted U t scope f fs = Inr gs \<Longrightarrow> grows fs gs"
  using grows_trans [OF grows_record [of fs U t scope]]
  by (auto simp: noted_def Let_def grows_record split: if_splits dest: adds)

lemma noted_Nil: "noted U t scope f fs = Inr [] \<longleftrightarrow> fs = [] \<and> hygienic U t \<and> f [] = Inr []"
proof (cases "record_findings U t scope fs = []")
  case True
  have "noted U t scope f fs = f []"
    unfolding noted_def Let_def True by (simp add: MAX_FINDINGS_def)
  with True show ?thesis by simp
next
  case False
  then have "noted U t scope f fs \<noteq> Inr []"
    using from_Nil [of "record_findings U t scope fs"]
    unfolding noted_def Let_def by (simp del: record_findings_Nil split: if_splits) blast
  with False show ?thesis by auto
qed

end

lemma scan_noted: "scan f \<Longrightarrow> scan (noted U t scope f)"
  by (auto simp: scan_def scan.noted_adds)

lemma scan_bindE: "(\<And>x. m = Inr x \<Longrightarrow> scan (f x)) \<Longrightarrow> scan (\<lambda>fs. bindE m (\<lambda>x. f x fs))"
  by (auto simp: scan_def bindE_Inr)

lemma scan_Inl: "scan (\<lambda>fs. Inl e)"
  by (simp add: scan_def)

lemma scan_Inr: "scan Inr"
  by (simp add: scan_def)

text \<open>What the loops say of each item when they find nothing.\<close>

definition tracked_clean :: "repo \<Rightarrow> utext \<Rightarrow> utext \<Rightarrow> bool" where
  "tracked_clean w root_dir p =
     (\<exists>rel. tracked_rel root_dir p = Inr rel \<and> hygienic (tables w) rel \<and>
        (case disk w (under root_dir p) of Absent \<Rightarrow> True | Directory \<Rightarrow> False
         | Content d \<Rightarrow> is_binary (under root_dir p) d \<or> hygienic (tables w) (utf8_ignore d)))"

definition staged_clean :: "repo \<Rightarrow> utext \<Rightarrow> bool" where
  "staged_clean w rel =
     (hygienic (tables w) rel \<and> (\<exists>d. git_out w [u ''show'', u '':'' @ rel] None = Some d \<and>
        (is_binary rel d \<or> hygienic (tables w) (utf8_ignore d))))"

definition commit_clean :: "repo \<Rightarrow> utext \<Rightarrow> bool" where
  "commit_clean w commit =
     (\<exists>a c m. commit_meta w commit = Inr (a, c, m) \<and>
        hygienic (tables w) a \<and> hygienic (tables w) c \<and> hygienic (tables w) m)"

definition tag_clean :: "repo \<Rightarrow> utext \<Rightarrow> bool" where
  "tag_clean w tag =
     (\<exists>t. tag_contents w tag = Inr t \<and>
        (t = [] \<or> (\<exists>e m. str_partition [0] t = Some (e, m) \<and> hygienic (tables w) e \<and> hygienic (tables w) m)))"

lemma tracked_content:
  assumes "scan k"
  shows "scan (tracked_content w p rel k)"
    and "tracked_content w p rel k fs = Inr [] \<longleftrightarrow> fs = [] \<and> k [] = Inr [] \<and>
      (case disk w p of Absent \<Rightarrow> True | Directory \<Rightarrow> False
       | Content d \<Rightarrow> is_binary p d \<or> hygienic (tables w) (utf8_ignore d))"
  using scan.adds [OF assms] scan.noted_adds [OF assms] scan.Nil_iff [OF assms, of fs]
  by (auto simp: tracked_content_def scan_def scan.noted_Nil [OF assms] split: disk_entry.splits if_splits)

lemma staged_content:
  assumes "scan k"
  shows "scan (staged_content w rel k)"
    and "staged_content w rel k fs = Inr [] \<longleftrightarrow> fs = [] \<and> k [] = Inr [] \<and>
      (\<exists>d. git_out w [u ''show'', u '':'' @ rel] None = Some d \<and> (is_binary rel d \<or> hygienic (tables w) (utf8_ignore d)))"
  using scan.adds [OF assms] scan.noted_adds [OF assms] scan.Nil_iff [OF assms, of fs]
  by (auto simp: staged_content_def scan_def scan.noted_Nil [OF assms] git_bytes_def bindE_Inr
      split: option.splits if_splits)

lemma noted_commit:
  assumes "scan k"
  shows "scan (noted_commit w commit k)"
    and "noted_commit w commit k fs = Inr [] \<longleftrightarrow> fs = [] \<and> k [] = Inr [] \<and> commit_clean w commit"
proof -
  note n = scan_noted [OF assms] scan_noted [OF scan_noted [OF assms]]
  show "scan (noted_commit w commit k)"
    using scan.adds [OF scan_noted [OF n(2)]]
    by (auto simp: noted_commit_def scan_def bindE_Inr split: prod.splits)
  show "noted_commit w commit k fs = Inr [] \<longleftrightarrow> fs = [] \<and> k [] = Inr [] \<and> commit_clean w commit"
    by (auto simp: noted_commit_def commit_clean_def bindE_Inr scan.noted_Nil [OF assms]
        scan.noted_Nil [OF n(1)] scan.noted_Nil [OF n(2)] split: prod.splits)
qed

lemma noted_tag:
  assumes "scan k"
  shows "scan (noted_tag w tag k)"
    and "noted_tag w tag k fs = Inr [] \<longleftrightarrow> fs = [] \<and> k [] = Inr [] \<and> tag_clean w tag"
proof -
  note n = scan_noted [OF assms]
  have "scan (noted_tag w tag k) \<and>
      (noted_tag w tag k fs = Inr [] \<longleftrightarrow> fs = [] \<and> k [] = Inr [] \<and> tag_clean w tag)"
  proof (cases "tag_contents w tag")
    case (Inl e)
    then show ?thesis by (simp add: noted_tag_def tag_clean_def scan_def)
  next
    case (Inr t)
    show ?thesis
    proof (cases "t = []")
      case True
      with Inr have "noted_tag w tag k = k" by (simp add: noted_tag_def fun_eq_iff)
      with Inr True show ?thesis
        using assms scan.Nil_iff [OF assms, of fs] by (simp add: tag_clean_def)
    next
      case False
      show ?thesis
      proof (cases "str_partition [0] t")
        case None
        with Inr False show ?thesis by (simp add: noted_tag_def tag_clean_def scan_def)
      next
        case (Some p)
        obtain e m where p: "p = (e, m)" by (cases p)
        with Inr False Some have "noted_tag w tag k = noted (tables w) e (u ''tagger:'' @ tag)
            (noted (tables w) m (u ''tag-message:'' @ tag) k)"
          by (simp add: noted_tag_def fun_eq_iff)
        with Inr False Some p show ?thesis
          using scan_noted [OF n]
          by (simp add: tag_clean_def scan.noted_Nil [OF assms] scan.noted_Nil [OF n]) blast
      qed
    qed
  qed
  then show "scan (noted_tag w tag k)"
    and "noted_tag w tag k fs = Inr [] \<longleftrightarrow> fs = [] \<and> k [] = Inr [] \<and> tag_clean w tag" by simp_all
qed

text \<open>A loop over items, each of which is clean or adds findings before the rest of the loop.\<close>

locale scan_loop =
  fixes item :: "'i \<Rightarrow> (utext list \<Rightarrow> utext list res) \<Rightarrow> utext list \<Rightarrow> utext list res"
    and loop :: "'i list \<Rightarrow> utext list \<Rightarrow> utext list res"
    and clean :: "'i \<Rightarrow> bool"
  assumes loop_end: "loop [] fs = Inr fs"
    and loop_item: "loop (x # xs) = item x (loop xs)"
    and item_scan: "scan k \<Longrightarrow> scan (item x k)"
    and item_Nil: "scan k \<Longrightarrow> item x k [] = Inr [] \<longleftrightarrow> clean x \<and> k [] = Inr []"
begin

lemma loop_scan: "scan (loop xs)"
proof (induction xs)
  case Nil
  show ?case by (simp add: scan_def loop_end)
next
  case (Cons x xs)
  then show ?case by (simp add: loop_item item_scan)
qed

lemma loop_Nil: "loop xs [] = Inr [] \<longleftrightarrow> list_all clean xs"
  by (induction xs) (simp_all add: loop_end loop_item item_Nil loop_scan)

lemma loop_adds: "loop xs fs = Inr gs \<Longrightarrow> grows fs gs"
  by (rule scan.adds [OF loop_scan])

end

interpretation recorded: scan "\<lambda>fs. Inr (record_findings U t scope fs)" for U t scope
  by unfold_locales (auto simp: grows_record)

interpretation tracked: scan_loop
  "\<lambda>p k. \<lambda>fs. bindE (tracked_rel root_dir p) (\<lambda>rel.
     noted (tables w) rel (u ''path:'' @ rel) (tracked_content w (under root_dir p) rel k) fs)"
  "tracked_loop w root_dir" "tracked_clean w root_dir" for w root_dir
proof (rule scan_loop.intro)
  fix k p assume k: "scan k"
  show "scan (\<lambda>fs. bindE (tracked_rel root_dir p) (\<lambda>rel.
     noted (tables w) rel (u ''path:'' @ rel) (tracked_content w (under root_dir p) rel k) fs))"
    by (intro scan_bindE scan_noted tracked_content(1) k)
  show "bindE (tracked_rel root_dir p) (\<lambda>rel.
     noted (tables w) rel (u ''path:'' @ rel) (tracked_content w (under root_dir p) rel k) []) = Inr [] \<longleftrightarrow>
     tracked_clean w root_dir p \<and> k [] = Inr []"
    unfolding bindE_Inr scan.noted_Nil [OF tracked_content(1) [OF k]] tracked_content(2) [OF k] tracked_clean_def
    by blast
qed (simp_all add: fun_eq_iff)

interpretation staged: scan_loop
  "\<lambda>rel k. noted (tables w) rel (u ''staged-path:'' @ rel) (staged_content w rel k)"
  "staged_loop w" "staged_clean w" for w
  by (rule scan_loop.intro)
     (auto simp: fun_eq_iff scan_noted staged_content(1) staged_content(2) scan.noted_Nil [OF staged_content(1)] staged_clean_def)

interpretation commits: scan_loop "noted_commit w" "commit_loop w" "commit_clean w" for w
  by (rule scan_loop.intro) (auto simp: fun_eq_iff noted_commit)

interpretation tags: scan_loop "noted_tag w" "tag_loop w" "tag_clean w" for w
  by (rule scan_loop.intro) (auto simp: fun_eq_iff noted_tag)


subsection \<open>The stream of objects\<close>

lemma read_object_shorter:
  "read_object U s = Inr (oid, ty, data, rest) \<Longrightarrow> s \<noteq> [] \<Longrightarrow> length rest < length s"
  by (cases s) (auto simp: read_object_def Let_def bindE_Inr)

lemma blob_loop_returns: "\<exists>r. blob_loop U m s fs = Some r"
proof (induction "length s" arbitrary: s fs rule: less_induct)
  case less
  show ?case
  proof (cases "s = []")
    case True
    then show ?thesis by (subst blob_loop.simps) simp
  next
    case False
    show ?thesis
    proof (cases "read_object U s")
      case (Inl e)
      with False show ?thesis by (subst blob_loop.simps) simp
    next
      case (Inr x)
      obtain oid ty data rest where x: "x = (oid, ty, data, rest)" by (cases x)
      with Inr False have "length rest < length s" by (auto dest: read_object_shorter)
      from less [OF this] Inr x False show ?thesis
        by (subst blob_loop.simps) (simp add: Let_def)
    qed
  qed
qed

type_synonym git_object = "utext \<times> utext \<times> byte list"

text \<open>The objects of a stream, with no regard to findings.\<close>

function objects_of :: "ucd \<Rightarrow> byte list \<Rightarrow> git_object list res" where
  "objects_of U s =
     (if s = [] then Inr []
      else case read_object U s of
        Inl e \<Rightarrow> Inl e
      | Inr (oid, ty, data, rest) \<Rightarrow> bindE (objects_of U rest) (\<lambda>os. Inr ((oid, ty, data) # os)))"
  by pat_completeness auto
termination by (relation "measure (\<lambda>(U, s). length s)") (auto dest: read_object_shorter)

declare objects_of.simps [simp del]

definition blob_clean :: "ucd \<Rightarrow> (utext \<times> utext) list \<Rightarrow> git_object \<Rightarrow> bool" where
  "blob_clean U m = (\<lambda>(oid, ty, data).
     ty \<noteq> u ''blob'' \<or> is_binary (blob_rel m oid) data \<or> hygienic U (utf8_ignore data))"

text \<open>One turn of the loop.\<close>

lemma blob_loop_end [simp]: "blob_loop U m [] fs = Some (Inr fs)"
  by (subst blob_loop.simps) simp

lemma blob_loop_raise: "s \<noteq> [] \<Longrightarrow> read_object U s = Inl e \<Longrightarrow> blob_loop U m s fs = Some (Inl e)"
  by (subst blob_loop.simps) simp

lemma blob_loop_skip:
  "s \<noteq> [] \<Longrightarrow> read_object U s = Inr (oid, ty, data, rest) \<Longrightarrow> ty \<noteq> u ''blob'' \<or> is_binary (blob_rel m oid) data \<Longrightarrow>
     blob_loop U m s fs = blob_loop U m rest fs"
  by (subst blob_loop.simps) (simp add: Let_def)

lemma blob_loop_text:
  "s \<noteq> [] \<Longrightarrow> read_object U s = Inr (oid, ty, data, rest) \<Longrightarrow> \<not> (ty \<noteq> u ''blob'' \<or> is_binary (blob_rel m oid) data) \<Longrightarrow>
     gs = record_findings U (utf8_ignore data) (u ''history-blob:'' @ blob_rel m oid @ u ''@'' @ take 12 oid) fs \<Longrightarrow>
     blob_loop U m s fs = (if length gs \<ge> MAX_FINDINGS then Some (Inr gs) else blob_loop U m rest gs)"
  by (subst blob_loop.simps) (simp add: Let_def)

lemma blob_loop_grows: "blob_loop U m s fs = Some (Inr gs) \<Longrightarrow> grows fs gs"
proof (induction "length s" arbitrary: s fs rule: less_induct)
  case less
  show ?case
  proof (cases "s = []")
    case True
    with less.prems show ?thesis by simp
  next
    case False
    show ?thesis
    proof (cases "read_object U s")
      case (Inl e)
      with False less.prems show ?thesis by (simp add: blob_loop_raise)
    next
      case (Inr x)
      obtain oid ty data rest where x: "read_object U s = Inr (oid, ty, data, rest)" using Inr by (cases x) simp
      note IH = less.hyps [OF read_object_shorter [OF x False]]
      show ?thesis
      proof (cases "ty \<noteq> u ''blob'' \<or> is_binary (blob_rel m oid) data")
        case True
        with less.prems show ?thesis by (simp only: blob_loop_skip [OF False x] IH)
      next
        case scanned: False
        from less.prems show ?thesis
          unfolding blob_loop_text [OF False x scanned refl]
          by (auto simp: grows_record not_le split: if_splits dest!: IH elim!: grows_trans [OF grows_record])
      qed
    qed
  qed
qed

lemma objects_of_step:
  "objects_of U [] = Inr []"
  "s \<noteq> [] \<Longrightarrow> read_object U s = Inl e \<Longrightarrow> objects_of U s = Inl e"
  "s \<noteq> [] \<Longrightarrow> read_object U s = Inr (oid, ty, data, rest) \<Longrightarrow>
     objects_of U s = bindE (objects_of U rest) (\<lambda>os. Inr ((oid, ty, data) # os))"
  by (subst objects_of.simps, simp)+

lemma blob_loop_Nil:
  "blob_loop U m s [] = Some (Inr []) \<longleftrightarrow> (\<exists>os. objects_of U s = Inr os \<and> list_all (blob_clean U m) os)"
proof (induction "length s" arbitrary: s rule: less_induct)
  case less
  show ?case
  proof (cases "s = []")
    case True
    then show ?thesis by (simp add: objects_of_step)
  next
    case False
    show ?thesis
    proof (cases "read_object U s")
      case (Inl e)
      with False show ?thesis by (simp add: objects_of_step(2) blob_loop_raise)
    next
      case (Inr x)
      obtain oid ty data rest where x: "read_object U s = Inr (oid, ty, data, rest)" using Inr by (cases x) simp
      have "blob_loop U m s [] = Some (Inr []) \<longleftrightarrow>
          blob_clean U m (oid, ty, data) \<and> blob_loop U m rest [] = Some (Inr [])"
      proof (cases "ty \<noteq> u ''blob'' \<or> is_binary (blob_rel m oid) data")
        case True
        then show ?thesis unfolding blob_loop_skip [OF False x True] by (auto simp: blob_clean_def)
      next
        case scanned: False
        then have clean: "blob_clean U m (oid, ty, data) \<longleftrightarrow> hygienic U (utf8_ignore data)"
          by (simp add: blob_clean_def)
        show ?thesis
        proof (cases "hygienic U (utf8_ignore data)")
          case True
          then show ?thesis unfolding blob_loop_text [OF False x scanned refl] clean by (simp add: MAX_FINDINGS_def)
        next
          case dirty: False
          let ?f = "record_findings U (utf8_ignore data) (u ''history-blob:'' @ blob_rel m oid @ u ''@'' @ take 12 oid) []"
          have "?f \<noteq> []" using dirty by simp
          then have "blob_loop U m s [] \<noteq> Some (Inr [])"
            using grows_Nil [OF blob_loop_grows [of U m rest ?f "[]"]]
            unfolding blob_loop_text [OF False x scanned refl] by (auto simp del: record_findings_Nil split: if_splits)
          with dirty clean show ?thesis by blast
        qed
      qed
      with less [OF read_object_shorter [OF x False]] x False show ?thesis
        by (auto simp: bindE_Inr objects_of_step(3))
    qed
  qed
qed


subsection \<open>What git writes is what the loop reads\<close>

text \<open>A stream as \<open>git cat-file --batch\<close> writes it.\<close>

definition object_entry :: "git_object \<Rightarrow> byte list" where
  "object_entry = (\<lambda>(oid, ty, data).
     utf8_encode (oid @ [32] @ ty @ [32] @ u (nat_str (length data))) @ [10] @ data @ [10])"

definition batch_stream :: "git_object list \<Rightarrow> byte list" where
  "batch_stream os = concat (map object_entry os)"

definition plain_word :: "utext \<Rightarrow> bool" where
  "plain_word t = (t \<noteq> [] \<and> list_all (\<lambda>c. code_point c \<and> \<not> u_is_space c) t)"

definition wf_object :: "git_object \<Rightarrow> bool" where
  "wf_object = (\<lambda>(oid, ty, data). plain_word oid \<and> plain_word ty)"

lemma u_words_end: "t \<noteq> [] \<Longrightarrow> list_all (\<lambda>c. \<not> u_is_space c) t \<Longrightarrow> u_words t = [t]"
proof (induction t)
  case (Cons c t)
  then show ?case by (cases t) auto
qed simp

lemma u_words_word:
  "t \<noteq> [] \<Longrightarrow> list_all (\<lambda>c. \<not> u_is_space c) t \<Longrightarrow> u_words (t @ 32 # r) = t # u_words r"
proof (induction t)
  case (Cons c t)
  have "u_is_space 32" by (simp add: u_is_space_def)
  with Cons show ?case by (cases t) auto
qed simp

lemma byte_of_eq: "n < 256 \<Longrightarrow> byte_of n = 10 \<longleftrightarrow> n = 10"
proof -
  assume "n < 256"
  then have "unat (byte_of n) = n" "unat (byte_of 10) = 10" by simp_all
  then have "byte_of n = byte_of 10 \<longleftrightarrow> n = 10" by metis
  then show ?thesis by (simp add: byte_of_def)
qed

lemma utf8_char_line_feed: "code_point n \<Longrightarrow> n \<noteq> 10 \<Longrightarrow> 10 \<notin> set (utf8_char n)"
proof -
  assume n: "code_point n" "n \<noteq> 10"
  then have "n div 262144 < 16" by (auto simp: code_point_def)
  moreover have "n div 4096 < 16" if "n < 65536" using that by simp
  moreover have "n div 64 < 32" if "n < 2048" using that by simp
  moreover have "n mod 64 < 64" "n div 64 mod 64 < 64" "n div 4096 mod 64 < 64" by simp_all
  ultimately show ?thesis using n by (auto simp: utf8_char_def byte_of_eq eq_commute [of 10])
qed

lemma utf8_encode_line_feed: "list_all code_point s \<Longrightarrow> 10 \<notin> set s \<Longrightarrow> 10 \<notin> set (utf8_encode s)"
  by (induction s) (auto simp: utf8_char_line_feed)

lemma read_object_entry:
  assumes "wf_object (oid, ty, data)"
  shows "read_object U (object_entry (oid, ty, data) @ r) = Inr (oid, ty, data, r)"
proof -
  let ?h = "oid @ [32] @ ty @ [32] @ u (nat_str (length data))"
  from assms have oid: "oid \<noteq> []" "list_all (\<lambda>c. \<not> u_is_space c) oid"
    and ty: "ty \<noteq> []" "list_all (\<lambda>c. \<not> u_is_space c) ty"
    and cp: "list_all code_point oid" "list_all code_point ty"
    by (auto simp: wf_object_def plain_word_def list_all_iff)
  have num: "u (nat_str (length data)) \<noteq> []" "list_all (\<lambda>c. \<not> u_is_space c \<and> code_point c) (u (nat_str (length data)))"
    using nat_str_digits [of "length data"] by (auto simp: list_all_iff u_def u_is_space_def code_point_def)
  have "u_is_space 10" "code_point 32" by (simp_all add: u_is_space_def code_point_def)
  with oid ty cp num have "10 \<notin> set ?h" "list_all code_point ?h" by (auto simp: list_all_iff)
  then have h: "10 \<notin> set (utf8_encode ?h)" "utf8_strict (utf8_encode ?h) = Inr ?h"
    by (simp_all only: utf8_encode_line_feed utf8_strict_encode not_False_eq_True)
  have w: "u_words ?h = [oid, ty, u (nat_str (length data))]"
    using u_words_word [OF oid] u_words_word [OF ty] u_words_end [OF num(1)] num(2)
    by (simp add: list_all_iff)
  have s: "object_entry (oid, ty, data) @ r = utf8_encode ?h @ 10 # data @ 10 # r"
    by (simp add: object_entry_def)
  have t: "takeWhile (\<lambda>b. b \<noteq> 10) (utf8_encode ?h @ 10 # data @ 10 # r) = utf8_encode ?h"
    using h(1) by (subst takeWhile_append2) auto
  show ?thesis
    unfolding s read_object_def Let_def t h(2) bindE_simps three_words_def w
    by (simp add: u_int_nat_str)
qed

lemma objects_of_batch: "list_all wf_object os \<Longrightarrow> objects_of U (batch_stream os) = Inr os"
proof (induction os)
  case Nil
  show ?case by (simp add: batch_stream_def objects_of_step(1))
next
  case (Cons x os)
  obtain oid ty data where x: "x = (oid, ty, data)" by (cases x)
  have "batch_stream (x # os) = object_entry (oid, ty, data) @ batch_stream os" by (simp add: batch_stream_def x)
  moreover have "object_entry (oid, ty, data) @ batch_stream os \<noteq> []" by (simp add: object_entry_def)
  moreover have "read_object U (object_entry (oid, ty, data) @ batch_stream os) = Inr (oid, ty, data, batch_stream os)"
    using Cons.prems x by (simp add: read_object_entry)
  ultimately show ?case using Cons x by (simp add: objects_of_step(3))
qed


subsection \<open>The whole repository\<close>

text \<open>The blobs that the history scan sees, with the path that each is judged under.\<close>

definition history_objects :: "repo \<Rightarrow> ((utext \<times> utext) list \<times> git_object list) res" where
  "history_objects w =
     bindE (reachable_blob_paths w) (\<lambda>m.
     bindE (blob_object_ids w m) (\<lambda>ids.
     if ids = [] then Inr (m, [])
     else bindE (git_bytes w [u ''cat-file'', u ''--batch''] (Some (oid_lines ids))) (\<lambda>s.
          bindE (objects_of (tables w) s) (\<lambda>os. Inr (m, os)))))"

lemma bindO_Some [simp]:
  "bindO (Some (Inl e)) f = Some (Inl e)" "bindO (Some (Inr x)) f = f x"
  by (simp_all add: bindO_def)

lemma bindO_Inr: "bindO m f = Some (Inr y) \<longleftrightarrow> (\<exists>x. m = Some (Inr x) \<and> f x = Some (Inr y))"
  by (auto simp: bindO_def split: option.splits sum.splits)

lemma bindO_returns: "\<exists>r. m = Some r \<Longrightarrow> (\<And>x. \<exists>r. f x = Some r) \<Longrightarrow> \<exists>r. bindO m f = Some r"
  by (auto simp: bindO_def split: sum.split)

lemma scan_history_blobs_Nil:
  "scan_history_blobs w [] = Some (Inr []) \<longleftrightarrow>
     (\<exists>m os. history_objects w = Inr (m, os) \<and> list_all (blob_clean (tables w) m) os)"
  by (auto simp: scan_history_blobs_def history_objects_def bindO_Inr bindE_Inr blob_loop_Nil split: if_splits) blast

lemma scan_history_blobs_grows: "scan_history_blobs w fs = Some (Inr gs) \<Longrightarrow> grows fs gs"
  by (auto simp: scan_history_blobs_def bindO_Inr split: if_splits dest: blob_loop_grows)

lemma scan_history_blobs_returns: "\<exists>r. scan_history_blobs w fs = Some r"
  unfolding scan_history_blobs_def
  by (intro bindO_returns) (auto intro: bindO_returns blob_loop_returns)

lemma unless_full_Nil: "(\<And>fs gs. f fs = Some (Inr gs) \<Longrightarrow> grows fs gs) \<Longrightarrow>
    unless_full f fs = Some (Inr []) \<longleftrightarrow> fs = [] \<and> f [] = Some (Inr [])"
  by (auto simp: unless_full_def MAX_FINDINGS_def split: if_splits dest: grows_Nil)

lemma unless_full_bound: "(\<And>fs gs. f fs = Some (Inr gs) \<Longrightarrow> grows fs gs) \<Longrightarrow>
    unless_full f fs = Some (Inr gs) \<Longrightarrow> length fs < MAX_FINDINGS + 7 \<Longrightarrow> length gs < MAX_FINDINGS + 7"
  by (auto simp: unless_full_def grows_def split: if_splits)

lemma scans_grow:
  "scan_tracked_files w root_dir fs = Inr gs \<Longrightarrow> grows fs gs" "scan_staged_files w fs = Inr gs \<Longrightarrow> grows fs gs"
  "scan_commits w fs = Inr gs \<Longrightarrow> grows fs gs" "scan_tags w fs = Inr gs \<Longrightarrow> grows fs gs"
  by (auto simp: scan_tracked_files_def scan_staged_files_def scan_commits_def scan_tags_def bindE_Inr
      dest: tracked.loop_adds staged.loop_adds commits.loop_adds tags.loop_adds)

definition repository_clean :: "repo \<Rightarrow> utext \<Rightarrow> bool" where
  "repository_clean w root_dir =
     (\<exists>ps m os cs ts. tracked_files w = Inr ps \<and> list_all (tracked_clean w root_dir) ps \<and>
        history_objects w = Inr (m, os) \<and> list_all (blob_clean (tables w) m) os \<and>
        commit_ids w = Inr cs \<and> list_all (commit_clean w) cs \<and>
        tag_names w = Inr ts \<and> list_all (tag_clean w) ts)"

lemma scan_repository_Nil: "scan_repository w root_dir = Some (Inr []) \<longleftrightarrow> repository_clean w root_dir"
proof -
  have c: "unless_full (scan_history_blobs w) fs = Some (Inr []) \<longleftrightarrow> fs = [] \<and> scan_history_blobs w [] = Some (Inr [])"
      "unless_full (\<lambda>x. Some (scan_commits w x)) fs = Some (Inr []) \<longleftrightarrow> fs = [] \<and> scan_commits w [] = Inr []"
      "unless_full (\<lambda>x. Some (scan_tags w x)) fs = Some (Inr []) \<longleftrightarrow> fs = [] \<and> scan_tags w [] = Inr []" for fs
    by (subst unless_full_Nil; simp add: scan_history_blobs_grows scans_grow)+
  have "scan_repository w root_dir = Some (Inr []) \<longleftrightarrow>
      scan_tracked_files w root_dir [] = Inr [] \<and> scan_history_blobs w [] = Some (Inr []) \<and>
      scan_commits w [] = Inr [] \<and> scan_tags w [] = Inr []"
    unfolding scan_repository_def bindO_Inr using c by fastforce
  then show ?thesis
    by (auto simp: repository_clean_def scan_history_blobs_Nil scan_tracked_files_def scan_commits_def scan_tags_def
        bindE_Inr tracked.loop_Nil commits.loop_Nil tags.loop_Nil)
qed

lemma report_findings_code: "fst (report_findings title fs) = 0 \<longleftrightarrow> fs = []"
  by (auto simp: report_findings_def print_findings_def)


lemma hygiene_main_repository:
  "(\<exists>out err. hygiene_main w \<lparr>h_root = r, h_staged = False, h_commit_msg_file = None\<rparr> = Some (Inr (0, out, err))) \<longleftrightarrow>
     repository_clean w (resolved w r)"
proof -
  have "(\<exists>out err. hygiene_main w \<lparr>h_root = r, h_staged = False, h_commit_msg_file = None\<rparr> = Some (Inr (0, out, err))) \<longleftrightarrow>
      (\<exists>fs. scan_repository w (resolved w r) = Some (Inr fs) \<and>
         fst (report_findings ''Repository history hygiene check'' fs) = 0)"
    by (simp add: hygiene_main_def bindO_Inr Let_def) (metis fst_conv prod.collapse)
  then show ?thesis by (simp add: report_findings_code scan_repository_Nil)
qed

text \<open>C30: the repository check exits with 0 exactly if git's listings are read and all patterns are absent
from every tracked path, from the text of every tracked file and of every blob of the history that is
not skipped as binary, and from every author and committer address, commit message and tag. A file
or blob is skipped if one of its first 8192 bytes is NUL or if its path (for a blob the first that git
lists for it) has a suffix of a binary format; the content of such a blob is not looked at.\<close>

theorem hygiene_ok_iff:
  "(\<exists>out err. hygiene_main w \<lparr>h_root = r, h_staged = False, h_commit_msg_file = None\<rparr> = Some (Inr (0, out, err))) \<longleftrightarrow>
     repository_clean w (resolved w r)"
  by (rule hygiene_main_repository)

text \<open>The scan of a repository stops soon after fifty findings: whatever it reads, it ends with at
most fifty-six of them, so the report never counts more than six further ones.\<close>

theorem hygiene_findings_bounded:
  assumes "scan_repository w root_dir = Some (Inr fs)"
  shows "length fs < MAX_FINDINGS + 7"
proof -
  from assms obtain a b c where run: "scan_tracked_files w root_dir [] = Inr a"
      "unless_full (scan_history_blobs w) a = Some (Inr b)"
      "unless_full (\<lambda>x. Some (scan_commits w x)) b = Some (Inr c)"
      "unless_full (\<lambda>x. Some (scan_tags w x)) c = Some (Inr fs)"
    by (auto simp: scan_repository_def bindO_Inr)
  from scans_grow(1) [OF run(1)] have "length a < MAX_FINDINGS + 7" by (simp add: grows_def MAX_FINDINGS_def)
  from unless_full_bound [OF scan_history_blobs_grows run(2) this] have "length b < MAX_FINDINGS + 7" .
  from unless_full_bound [OF _ run(3) this] have "length c < MAX_FINDINGS + 7" by (simp add: scans_grow(3))
  from unless_full_bound [OF _ run(4) this] show ?thesis by (simp add: scans_grow(4))
qed

text \<open>C31: the check returns (or raises) whatever git prints: the loop over the stream of objects, which
runs until the stream is empty, ends for every stream, and so does every mode of the script.\<close>

theorem hygiene_main_returns: "\<exists>r. hygiene_main w args = Some r"
proof -
  have s: "\<exists>r. unless_full f fs = Some r" if "\<And>fs. \<exists>r. f fs = Some r" for f fs
    using that by (simp add: unless_full_def)
  have "\<exists>r. scan_repository w root_dir = Some r" for root_dir
    unfolding scan_repository_def
    by (intro bindO_returns s scan_history_blobs_returns) simp_all
  then have "\<exists>r. bindO (scan_repository w root_dir)
      (\<lambda>fs. Some (Inr (report_findings ''Repository history hygiene check'' fs))) = Some r" for root_dir
    by (intro bindO_returns) simp_all
  then show ?thesis
    by (auto simp: hygiene_main_def Let_def split: option.splits list.splits)
qed

text \<open>The findings that the scan of a list of objects adds, one object after the other, until there are
enough of them: a specification of the loop over the stream that reads no bytes.\<close>

fun scan_objects :: "ucd \<Rightarrow> (utext \<times> utext) list \<Rightarrow> git_object list \<Rightarrow> utext list \<Rightarrow> utext list" where
  "scan_objects U m [] fs = fs"
| "scan_objects U m ((oid, ty, data) # os) fs =
     (if ty \<noteq> u ''blob'' \<or> is_binary (blob_rel m oid) data then scan_objects U m os fs
      else let gs = record_findings U (utf8_ignore data)
                      (u ''history-blob:'' @ blob_rel m oid @ u ''@'' @ take 12 oid) fs
           in if length gs \<ge> MAX_FINDINGS then gs else scan_objects U m os gs)"

lemma blob_loop_batch:
  assumes "list_all wf_object os"
  shows "blob_loop U m (batch_stream os) fs = Some (Inr (scan_objects U m os fs))"
  using assms
proof (induction os arbitrary: fs)
  case Nil
  show ?case by (simp add: batch_stream_def)
next
  case (Cons x os)
  obtain oid ty data where x: "x = (oid, ty, data)" by (cases x)
  have s: "batch_stream (x # os) = object_entry x @ batch_stream os" by (simp add: batch_stream_def)
  have n: "object_entry x @ batch_stream os \<noteq> []" by (simp add: object_entry_def x)
  have r: "read_object U (object_entry x @ batch_stream os) = Inr (oid, ty, data, batch_stream os)"
    using Cons.prems x by (simp add: read_object_entry)
  note IH = Cons.IH [OF list.pred_inject(2) [THEN iffD1, OF Cons.prems, THEN conjunct2]]
  show ?case
  proof (cases "ty \<noteq> u ''blob'' \<or> is_binary (blob_rel m oid) data")
    case True
    then show ?thesis unfolding s blob_loop_skip [OF n r True] IH by (simp add: x)
  next
    case False
    then show ?thesis unfolding s blob_loop_text [OF n r False refl] IH by (simp add: x Let_def)
  qed
qed

text \<open>C32: the history scan reads from the stream the objects that git wrote into it, one after the other
and to the last, whatever bytes they hold, line feeds included: each text blob is searched, under its
path and id, in the order of the stream and until there are enough findings; other objects are
stepped over. The findings before it are kept, and the scan neither raises nor runs on.\<close>

theorem history_stream_roundtrip:
  assumes "list_all wf_object os"
  shows "objects_of U (batch_stream os) = Inr os \<and>
    blob_loop U m (batch_stream os) fs = Some (Inr (scan_objects U m os fs))"
  by (simp add: objects_of_batch [OF assms] blob_loop_batch [OF assms])

text \<open>A text with a Cyrillic letter in a blob of the history, encoded in UTF-8 and not skipped as a
binary, keeps the repository check from succeeding.\<close>

theorem cyrillic_blob_found:
  assumes "history_objects w = Inr (m, os)" and "(oid, u ''blob'', utf8_encode t) \<in> set os"
    and "list_all code_point t" and "c \<in> set t" and "0x400 \<le> c" and "c \<le> 0x4FF"
    and "\<not> is_binary (blob_rel m oid) (utf8_encode t)"
  shows "hygiene_main w \<lparr>h_root = r, h_staged = False, h_commit_msg_file = None\<rparr> \<noteq> Some (Inr (0, out, err))"
proof
  assume "hygiene_main w \<lparr>h_root = r, h_staged = False, h_commit_msg_file = None\<rparr> = Some (Inr (0, out, err))"
  then have "repository_clean w (resolved w r)" using hygiene_main_repository by blast
  with assms(1,2) have "blob_clean (tables w) m (oid, u ''blob'', utf8_encode t)"
    by (auto simp: repository_clean_def list_all_iff)
  with assms(7) have "hygienic (tables w) (utf8_ignore (utf8_encode t))" by (simp add: blob_clean_def)
  moreover have "utf8_ignore (utf8_encode t) = t"
    using utf8_ignore_encode [OF assms(3), of "[]"] by (simp add: utf8_ignore.simps)
  ultimately show False using assms(4-6) by (auto simp: hygienic_def cyrillic_iff)
qed


subsection \<open>A repository with a Cyrillic note\<close>

definition ex_note :: utext where "ex_note = [0x416, 10]"

definition ex_objects :: "git_object list" where
  "ex_objects = [(u ''a1'', u ''blob'', utf8_encode ex_note)]"

definition ex_repo :: repo where
  "ex_repo = \<lparr>tables = \<lparr>ucd_word = \<lambda>_. True, ucd_digit = \<lambda>_. None\<rparr>,
     git_out = (\<lambda>args _.
       if args = map u [''rev-list'', ''--objects'', ''--all''] then Some (utf8_encode (u ''a1 notes.md''))
       else if args = [u ''cat-file'', u ''--batch''] then Some (batch_stream ex_objects)
       else if take 1 args = [u ''cat-file''] then Some (utf8_encode (u ''a1 blob 3''))
       else Some []),
     disk = (\<lambda>_. Absent), resolved = id\<rparr>"

lemma ascii_code_points: "list_all code_point (u s)"
proof -
  have "code_point (of_char c)" for c
  proof -
    have "(of_char c :: nat) mod 256 < 256" by (rule mod_less_divisor) simp
    then show ?thesis unfolding of_char_mod_256 code_point_def by linarith
  qed
  then show ?thesis by (simp add: list_all_iff u_def)
qed

lemma git_text: "git_out w args None = Some (utf8_encode (u s)) \<Longrightarrow> git w args = Inr (universal_newlines (u s))"
  by (simp add: git_def git_bytes_def utf8_strict_encode ascii_code_points)

lemma ex_objects_wf: "list_all wf_object ex_objects"
  by (simp add: ex_objects_def wf_object_def plain_word_def u_simps code_point_def u_is_space_def)

lemma ex_git_other: "git ex_repo [u ''ls-files'', u ''-z''] = Inr []" "git ex_repo [u ''rev-list'', u ''--all''] = Inr []"
    "git ex_repo [u ''tag'', u ''--list''] = Inr []"
  by (subst git_text [of _ _ "[]"]; simp add: ex_repo_def u_simps)+

lemma ex_paths: "reachable_blob_paths ex_repo = Inr [(u ''a1'', u ''notes.md'')]"
proof -
  have "git ex_repo (map u [''rev-list'', ''--objects'', ''--all'']) = Inr (universal_newlines (u ''a1 notes.md''))"
    by (rule git_text) (simp add: ex_repo_def)
  then show ?thesis
    by (simp add: reachable_blob_paths_def u_simps u_is_newline_def blob_path_step_def)
qed

lemma ex_ids: "blob_object_ids ex_repo [(u ''a1'', u ''notes.md'')] = Inr [u ''a1'']"
proof -
  have "git_bytes ex_repo [u ''cat-file'', u ''--batch-check=%(objectname) %(objecttype) %(objectsize)''] x =
      Inr (utf8_encode (u ''a1 blob 3''))" for x
    by (simp add: git_bytes_def ex_repo_def u_simps)
  then show ?thesis
    by (simp add: blob_object_ids_def utf8_strict_encode ascii_code_points)
       (simp add: u_simps u_is_newline_def u_is_space_def three_words_def)
qed

lemma ex_stream: "git_bytes ex_repo [u ''cat-file'', u ''--batch''] x = Inr (batch_stream ex_objects)"
  by (simp add: git_bytes_def ex_repo_def u_simps)

lemma ex_history: "history_objects ex_repo = Inr ([(u ''a1'', u ''notes.md'')], ex_objects)"
  by (simp add: history_objects_def ex_paths ex_ids ex_stream objects_of_batch [OF ex_objects_wf])

lemma ex_text: "\<not> is_binary (blob_rel [(u ''a1'', u ''notes.md'')] (u ''a1'')) (utf8_encode ex_note)"
proof -
  have "u_path_suffix (u ''notes.md'') = u ''.md''"
    by (simp add: u_path_suffix_def u_path_name_def u_comps_def str_split.simps u_simps)
  then show ?thesis
    by (simp add: is_binary_def blob_rel_def ex_note_def utf8_char_def byte_of_def u_simps BINARY_EXT_def u_lower_def Let_def)
qed

theorem cyrillic_blob_found_witness:
  "\<forall>r out err. hygiene_main ex_repo \<lparr>h_root = r, h_staged = False, h_commit_msg_file = None\<rparr> \<noteq> Some (Inr (0, out, err))"
proof -
  have "(u ''a1'', u ''blob'', utf8_encode ex_note) \<in> set ex_objects" "list_all code_point ex_note"
      "0x416 \<in> set ex_note"
    by (simp_all add: ex_objects_def ex_note_def code_point_def)
  from cyrillic_blob_found [OF ex_history this _ _ ex_text] show ?thesis by simp
qed

theorem history_stream_roundtrip_witness:
  "\<forall>U m fs. objects_of U (batch_stream ex_objects) = Inr ex_objects \<and>
     blob_loop U m (batch_stream ex_objects) fs = Some (Inr (scan_objects U m ex_objects fs))"
  using history_stream_roundtrip [OF ex_objects_wf] by blast

lemma ex_scan: "\<exists>fs. fs \<noteq> [] \<and> scan_repository ex_repo [] = Some (Inr fs)"
proof -
  let ?U = "tables ex_repo" and ?m = "[(u ''a1'', u ''notes.md'')]"
  have "\<not> hygienic ?U (utf8_ignore (utf8_encode ex_note))"
    using utf8_ignore_encode [of ex_note "[]"]
    by (auto simp: hygienic_def cyrillic_iff ex_note_def code_point_def utf8_ignore.simps)
  then obtain f where f: "f \<noteq> []" "length f \<le> 7"
      "f = record_findings ?U (utf8_ignore (utf8_encode ex_note)) (u ''history-blob:'' @ blob_rel ?m (u ''a1'') @ u ''@'' @ take 12 (u ''a1'')) []"
    using record_findings_length [of ?U "utf8_ignore (utf8_encode ex_note)" _ "[]"] by fastforce
  have r: "read_object ?U (batch_stream ex_objects) = Inr (u ''a1'', u ''blob'', utf8_encode ex_note, [])"
    using ex_objects_wf read_object_entry [of "u ''a1''" "u ''blob''" "utf8_encode ex_note" ?U "[]"]
    by (simp add: ex_objects_def batch_stream_def del: utf8_encode_simps)
  have "batch_stream ex_objects \<noteq> []" by (simp add: batch_stream_def ex_objects_def object_entry_def)
  from blob_loop_text [OF this r _ f(3)] ex_text f(2)
  have "blob_loop ?U ?m (batch_stream ex_objects) [] = Some (Inr f)" by (simp add: MAX_FINDINGS_def)
  then have "scan_history_blobs ex_repo [] = Some (Inr f)"
    by (simp add: scan_history_blobs_def ex_paths ex_ids ex_stream)
  then have "scan_repository ex_repo [] = Some (Inr f)"
    using f(2)
    by (simp add: scan_repository_def scan_tracked_files_def tracked_files_def scan_commits_def commit_ids_def
        scan_tags_def tag_names_def ex_git_other nul_parts_def str_split.simps unless_full_def MAX_FINDINGS_def)
  with f(1) show ?thesis by blast
qed

theorem hygiene_findings_bounded_witness:
  "\<exists>fs. fs \<noteq> [] \<and> scan_repository ex_repo [] = Some (Inr fs) \<and> length fs < MAX_FINDINGS + 7"
  using ex_scan hygiene_findings_bounded by blast

end
