(* ===== verification/SdkBuilder.thy ===== *)
theory SdkBuilder
  imports SdkRelease PyHost JsonText UniText
begin

text \<open>
  \<open>tools/ci/build_sdk_release_metadata.py\<close>: writes the manifest, the SBOM and the checksum file of an SDK
  release directory, the files that \<open>check_sdk_release_package.py\<close> (theory \<open>SdkRelease\<close>) then judges. The
  state is the world \<open>renv\<close> of that theory, which the writes change; the digest of a text that is
  written and what \<open>git\<close> says of a commit are the fields of the record \<open>builder\<close>, a parameter.
\<close>

subsection \<open>Artifact kinds\<close>

record artifact_kind =
  k_kind :: string
  k_name :: string
  k_source_paths :: "string list"
  k_consumer_paths :: "string list"

definition ARTIFACT_KINDS :: "(string \<times> artifact_kind) list" where
  "ARTIFACT_KINDS =
     [(''grain-generated-bindings'', \<lparr>k_kind = ''generated-bindings'', k_name = ''Grain generated Swift/Kotlin bindings'',
          k_source_paths = [''core/rust/grain-client-core/src/grain_client_core.udl'',
            ''scripts/sdk/generate_client_bindings.sh''],
          k_consumer_paths = [''generated-bindings/swift'', ''generated-bindings/kotlin'']\<rparr>),
      (''grain-swift-client'', \<lparr>k_kind = ''swift-client'', k_name = ''Grain Swift client source package'',
          k_source_paths = [''sdk/swift''],
          k_consumer_paths = [''sdk/swift'']\<rparr>),
      (''grain-kotlin-client'', \<lparr>k_kind = ''kotlin-client'', k_name = ''Grain Kotlin client source package'',
          k_source_paths = [''sdk/kotlin''],
          k_consumer_paths = [''sdk/kotlin'']\<rparr>),
      (''grain-wasm-client'', \<lparr>k_kind = ''wasm-client'', k_name = ''Grain WASM/mobile-web client source package'',
          k_source_paths = [''sdk/wasm'', ''core/rust/grain-client-wasm''],
          k_consumer_paths = [''sdk/wasm'', ''core/rust/grain-client-wasm'']\<rparr>),
      (''grain-rust-client-core'', \<lparr>k_kind = ''rust-client-core'', k_name = ''Grain Rust client core source package'',
          k_source_paths = [''core/rust/Cargo.toml'', ''core/rust/Cargo.lock'', ''core/rust/rust-toolchain.toml'',
            ''core/rust/grain-core'', ''core/rust/grain-client-core'',
            ''core/rust/grain-client-wasm''],
          k_consumer_paths = [''core/rust'']\<rparr>),
      (''grain-typescript-sdk'', \<lparr>k_kind = ''typescript-sdk'', k_name = ''Grain TypeScript SDK source package'',
          k_source_paths = [''core/ts/grain-ts-core'', ''core/ts/grain-sdk'', ''core/ts/grain-sdk-ai'',
            ''fixtures/external-consumers/npm-sdk''],
          k_consumer_paths = [''core/ts/grain-ts-core'', ''core/ts/grain-sdk'', ''core/ts/grain-sdk-ai'',
            ''fixtures/external-consumers/npm-sdk'']\<rparr>),
      (''grain-sdk-workflow-contract'', \<lparr>k_kind = ''workflow-contract'', k_name = ''Grain client workflow contract package'',
          k_source_paths = [''sdk/api'', ''sdk/custody'', ''sdk/device'', ''sdk/workflows'', ''sdk/trust'',
            ''sdk/generated'', ''docs/human/sdk/version-matrix.md'',
            ''docs/human/sdk/security-review.md'', ''docs/human/sdk/release-train.md'',
            ''docs/llm/SDK_GENERATED_VERIFICATION.md''],
          k_consumer_paths = [''sdk/api'', ''sdk/custody'', ''sdk/device'', ''sdk/workflows'', ''sdk/trust'',
            ''sdk/generated'', ''docs/human/sdk/version-matrix.md'',
            ''docs/human/sdk/security-review.md'', ''docs/human/sdk/release-train.md'',
            ''docs/llm/SDK_GENERATED_VERIFICATION.md'']\<rparr>),
      (''grain-starter-templates'', \<lparr>k_kind = ''starter-templates'', k_name = ''Grain starter template source package'',
          k_source_paths = [''templates'', ''examples/ios-scanner'', ''examples/android-scanner'',
            ''examples/wasm-scanner'', ''examples/ios-reference-app'',
            ''examples/android-reference-app'', ''scripts/sdk/check_starter_templates.sh'',
            ''scripts/sdk/run_local_scanner_flow.sh'',
            ''tools/ci/check_local_scanner_flow_report.py'', ''docs/human/sdk/start-here.md'',
            ''docs/human/sdk/scan-quickstart.md''],
          k_consumer_paths = [''templates'', ''examples/ios-scanner'', ''examples/android-scanner'',
            ''examples/wasm-scanner'', ''examples/ios-reference-app'',
            ''examples/android-reference-app'', ''scripts/sdk/check_starter_templates.sh'',
            ''scripts/sdk/run_local_scanner_flow.sh'',
            ''tools/ci/check_local_scanner_flow_report.py'', ''docs/human/sdk/start-here.md'',
            ''docs/human/sdk/scan-quickstart.md'']\<rparr>)]"

record build_args =
  b_out_dir :: string
  b_commit :: string
  b_dirty :: string
  b_mode :: string
  b_source :: string

text \<open>
  \<open>committer_time\<close> is the output of \<open>git show -s --format=%ct\<close> for a commit (\<open>None\<close>: it fails),
  \<open>text_sha256\<close> the SHA-256 digest of a text in UTF-8, \<open>resolve_dir\<close> is \<open>Path.resolve\<close>.
\<close>

record builder =
  committer_time :: "string \<Rightarrow> string option"
  text_sha256 :: "string \<Rightarrow> string"
  resolve_dir :: "string \<Rightarrow> string"

definition md_err :: "string \<Rightarrow> string" where
  "md_err s = ''SDK_RELEASE_METADATA_ERR_'' @ s"

subsection \<open>The time of a commit\<close>

text \<open>The Gregorian date of a day counted from 1 January 1970, through years that begin in March.\<close>

definition civil_date :: "int \<Rightarrow> int \<times> int \<times> int" where
  "civil_date day =
     (let z = day + 719468; era = z div 146097; doe = z mod 146097;
          yoe = (doe - doe div 1460 + doe div 36524 - doe div 146096) div 365;
          doy = doe - (365 * yoe + yoe div 4 - yoe div 100);
          mp = (5 * doy + 2) div 153;
          m = (if mp < 10 then mp + 3 else mp - 9)
      in (yoe + era * 400 + (if m \<le> 2 then 1 else 0), m, doy - (153 * mp + 2) div 5 + 1))"

definition pad :: "nat \<Rightarrow> int \<Rightarrow> string" where
  "pad n i = (let s = int_str i in replicate (n - length s) CHR ''0'' @ s)"

text \<open>\<open>datetime.fromtimestamp(epoch, UTC).isoformat()\<close> with \<open>Z\<close> for the offset; years 1 to 9999 exist.\<close>

definition iso_utc :: "int \<Rightarrow> string res" where
  "iso_utc epoch =
     (let (y, m, d) = civil_date (epoch div 86400); s = epoch mod 86400 in
      if 1 \<le> y \<and> y \<le> 9999
      then Inr (pad 4 y @ ''-'' @ pad 2 m @ ''-'' @ pad 2 d @ ''T'' @ pad 2 (s div 3600) @ '':'' @
                pad 2 (s div 60 mod 60) @ '':'' @ pad 2 (s mod 60) @ ''Z'')
      else Inl (ValueError ''year''))"

text \<open>\<open>int(s)\<close>; below code point 256 only the ASCII digits count.\<close>

definition py_int :: "string \<Rightarrow> int res" where
  "py_int s = u_int \<lparr>ucd_word = \<lambda>_. False, ucd_digit = \<lambda>_. None\<rparr> (u s)"

definition source_created_at :: "builder \<Rightarrow> string \<Rightarrow> string res" where
  "source_created_at h commit =
     (if \<not> (length commit = 40 \<and> list_all chr_is_hex commit)
      then Inl (ValueError ''SDK_RELEASE_METADATA_ERR_COMMIT'')
      else case committer_time h commit of
        None \<Rightarrow> Inl (CalledProcessError ''git'')
      | Some t \<Rightarrow> bindE (py_int (str_strip t)) iso_utc)"

subsection \<open>SDK components\<close>

record sdk_component =
  c_name :: string
  c_version :: string
  c_license :: string
  c_source :: string

definition load_cargo_package :: "renv \<Rightarrow> string \<Rightarrow> string \<Rightarrow> sdk_component res" where
  "load_cargo_package w root_dir p =
     bindE (read_text (files w) (path_join root_dir p)) (\<lambda>t.
     case toml_loads w t of
       None \<Rightarrow> Inl (ValueError p)
     | Some data \<Rightarrow>
         bindE (json_index data ''package'') (\<lambda>package.
         bindE (json_index package ''name'') (\<lambda>name.
         bindE (json_index package ''version'') (\<lambda>version.
         bindE (attr_get_or package ''license'' (JStr ''NOASSERTION'')) (\<lambda>license.
           Inr \<lparr>c_name = json_str name, c_version = json_str version, c_license = json_str license, c_source = p\<rparr>)))))"

definition load_npm_package :: "renv \<Rightarrow> string \<Rightarrow> string \<Rightarrow> sdk_component res" where
  "load_npm_package w root_dir p =
     bindE (read_json (files w) (path_join root_dir p)) (\<lambda>data.
     bindE (json_index data ''name'') (\<lambda>name.
     bindE (json_index data ''version'') (\<lambda>version.
       Inr \<lparr>c_name = json_str name, c_version = json_str version, c_license = ''Apache-2.0'', c_source = p\<rparr>)))"

definition load_wasm_package :: "renv \<Rightarrow> string \<Rightarrow> sdk_component res" where
  "load_wasm_package w root_dir = load_npm_package w root_dir ''sdk/wasm/package.json''"

definition load_kotlin_package :: "renv \<Rightarrow> string \<Rightarrow> sdk_component res" where
  "load_kotlin_package w root_dir =
     (let p = ''sdk/kotlin/build.gradle.kts'' in
      bindE (read_text (files w) (path_join root_dir p)) (\<lambda>t.
      case find_quoted version_assignment [] t of
        None \<Rightarrow> stop (md_err ''KOTLIN_VERSION: missing '' @ p @ '' version'')
      | Some v \<Rightarrow> Inr \<lparr>c_name = ''dev.grain:grain-client'', c_version = v, c_license = ''Apache-2.0'', c_source = p\<rparr>))"

type_synonym sdk_versions = "(string \<times> sdk_component) list"

definition load_sdk_versions :: "renv \<Rightarrow> string \<Rightarrow> sdk_versions res" where
  "load_sdk_versions w root_dir =
     bindE (load_cargo_package w root_dir ''core/rust/grain-client-core/Cargo.toml'') (\<lambda>core.
     bindE (load_cargo_package w root_dir ''core/rust/grain-client-wasm/Cargo.toml'') (\<lambda>core_wasm.
     bindE (load_kotlin_package w root_dir) (\<lambda>kotlin.
     bindE (load_wasm_package w root_dir) (\<lambda>wasm.
     bindE (load_npm_package w root_dir ''core/ts/grain-ts-core/package.json'') (\<lambda>ts_core.
     bindE (load_npm_package w root_dir ''core/ts/grain-sdk/package.json'') (\<lambda>ts_sdk.
     bindE (load_npm_package w root_dir ''core/ts/grain-sdk-ai/package.json'') (\<lambda>ts_ai.
       Inr [(''grain_client_core'', core), (''grain_client_wasm'', core_wasm),
            (''swift_client'', \<lparr>c_name = ''GrainClient'', c_version = ''repo-sha'', c_license = ''Apache-2.0'',
               c_source = ''sdk/swift/Package.swift''\<rparr>),
            (''kotlin_client'', kotlin), (''wasm_client'', wasm), (''typescript_core'', ts_core),
            (''typescript_sdk'', ts_sdk), (''typescript_ai_sdk'', ts_ai)])))))))"

definition classify_artifact :: "string \<Rightarrow> string \<Rightarrow> artifact_kind res" where
  "classify_artifact file_name commit =
     (let suf = artifact_suffix commit in
      if \<not> ends_with file_name suf then stop (md_err ''ARTIFACT_NAME: '' @ file_name)
      else case map_of ARTIFACT_KINDS (take (length file_name - length suf) file_name) of
        None \<Rightarrow> stop (md_err ''ARTIFACT_KIND: '' @ file_name)
      | Some spec \<Rightarrow> Inr spec)"

record built_artifact =
  e_file :: string
  e_kind :: artifact_kind
  e_sha256 :: string
  e_bytes :: int

definition artifact_entry :: "renv \<Rightarrow> string \<Rightarrow> string \<Rightarrow> built_artifact res" where
  "artifact_entry w commit artifact_path =
     bindE (classify_artifact (path_name artifact_path) commit) (\<lambda>spec.
     bindE (sha256_file w artifact_path) (\<lambda>sha.
       Inr \<lparr>e_file = path_name artifact_path, e_kind = spec, e_sha256 = sha, e_bytes = size_of w artifact_path\<rparr>))"

subsection \<open>The documents\<close>

definition component_json :: "sdk_component \<Rightarrow> json" where
  "component_json c = JObj [(''name'', JStr (c_name c)), (''version'', JStr (c_version c)),
     (''license'', JStr (c_license c)), (''source'', JStr (c_source c))]"

definition artifact_json :: "built_artifact \<Rightarrow> json" where
  "artifact_json e = JObj [(''file'', JStr (e_file e)), (''kind'', JStr (k_kind (e_kind e))),
     (''name'', JStr (k_name (e_kind e))), (''sha256'', JStr (e_sha256 e)), (''bytes'', JInt (e_bytes e)),
     (''source_paths'', JArr (map JStr (k_source_paths (e_kind e)))),
     (''consumer_paths'', JArr (map JStr (k_consumer_paths (e_kind e))))]"

definition sbom_artifact_package :: "string \<Rightarrow> built_artifact \<Rightarrow> json" where
  "sbom_artifact_package commit e = JObj
     [(''name'', JStr (k_name (e_kind e))), (''SPDXID'', JStr (''SPDXRef-Package-'' @ k_kind (e_kind e))),
      (''versionInfo'', JStr commit), (''downloadLocation'', JStr ''NOASSERTION''), (''filesAnalyzed'', JBool False),
      (''licenseConcluded'', JStr ''Apache-2.0''), (''licenseDeclared'', JStr ''Apache-2.0''),
      (''copyrightText'', JStr ''NOASSERTION''),
      (''checksums'', JArr [JObj [(''algorithm'', JStr ''SHA256''), (''checksumValue'', JStr (e_sha256 e))]]),
      (''supplier'', JStr ''Organization: Grain maintainers'')]"

definition sbom_component_package :: "string \<times> sdk_component \<Rightarrow> json" where
  "sbom_component_package = (\<lambda>(key, c). JObj
     [(''name'', JStr (c_name c)), (''SPDXID'', JStr (''SPDXRef-Component-'' @ str_replace ''_'' ''-'' key)),
      (''versionInfo'', JStr (c_version c)), (''downloadLocation'', JStr ''NOASSERTION''), (''filesAnalyzed'', JBool False),
      (''licenseConcluded'', JStr (c_license c)), (''licenseDeclared'', JStr (c_license c)),
      (''copyrightText'', JStr ''NOASSERTION''), (''supplier'', JStr ''Organization: Grain maintainers'')])"

definition describes :: "string \<Rightarrow> json" where
  "describes spdx_id = JObj [(''spdxElementId'', JStr ''SPDXRef-DOCUMENT''), (''relationshipType'', JStr ''DESCRIBES''),
     (''relatedSpdxElement'', JStr spdx_id)]"

definition build_sbom :: "string \<Rightarrow> string \<Rightarrow> built_artifact list \<Rightarrow> sdk_versions \<Rightarrow> json" where
  "build_sbom commit created_at artifacts versions = JObj
     [(''spdxVersion'', JStr ''SPDX-2.3''), (''dataLicense'', JStr ''CC0-1.0''), (''SPDXID'', JStr ''SPDXRef-DOCUMENT''),
      (''name'', JStr (''grain-client-sdk-source-'' @ commit)),
      (''documentNamespace'', JStr (''https://github.com/IvGolovach/grain-protocol/sdk-release/'' @ commit)),
      (''creationInfo'', JObj [(''created'', JStr created_at),
         (''creators'', JArr [JStr ''Tool: scripts/sdk/package_client_sdks.sh''])]),
      (''packages'', JArr (map (sbom_artifact_package commit) artifacts @ map sbom_component_package versions)),
      (''relationships'', JArr (map (\<lambda>e. describes (''SPDXRef-Package-'' @ k_kind (e_kind e))) artifacts @
         map (\<lambda>(key, _). describes (''SPDXRef-Component-'' @ str_replace ''_'' ''-'' key)) versions))]"

text \<open>\<open>json.dumps(v, indent=2, sort_keys=True) + "\n"\<close>.\<close>

definition json_document :: "json \<Rightarrow> string" where
  "json_document v = dumps_indent 2 0 (sort_json v) @ [newline]"

definition build_manifest ::
    "build_args \<Rightarrow> string \<Rightarrow> built_artifact list \<Rightarrow> sdk_versions \<Rightarrow> string \<Rightarrow> string \<Rightarrow> int \<Rightarrow> json" where
  "build_manifest args created_at artifacts versions matrix_sha sbom_sha sbom_bytes = JObj
     [(''schema'', JStr ''grain.sdk.release.manifest.v1''), (''commit'', JStr (b_commit args)),
      (''created_at'', JStr created_at), (''dirty'', JBool (b_dirty args = ''true'')),
      (''verification'', JObj [(''mode'', JStr (b_mode args)), (''source'', JStr (b_source args))]),
      (''workflow_contract'', JStr ''client_workflow_v1''),
      (''artifact_policy'', JObj [(''release_kind'', JStr ''source-archive''),
         (''wasm_binary'', JStr ''not_included_source_only''), (''platform_store_packages'', JStr ''not_included''),
         (''registry_publication'', JStr ''not_included'')]),
      (''version_matrix'', JObj [(''path'', JStr ''docs/human/sdk/version-matrix.md''), (''sha256'', JStr matrix_sha),
         (''rule'', JStr ''same-repo-sha'')]),
      (''sdk_versions'', JObj (map (\<lambda>(key, c). (key, component_json c)) versions)),
      (''sbom'', JObj [(''file'', JStr ''sbom.spdx.json''), (''sha256'', JStr sbom_sha), (''bytes'', JInt sbom_bytes),
         (''format'', JStr ''SPDX-2.3 JSON'')]),
      (''artifacts'', JArr (map artifact_json artifacts))]"

definition sums_text :: "(string \<times> string) list \<Rightarrow> string" where
  "sums_text entries =
     concat (map (\<lambda>(checksum, file_name). checksum @ ''  '' @ file_name @ [newline])
       (sort_key (\<lambda>(checksum, file_name). [checksum, file_name]) entries))"

subsection \<open>Writing the files\<close>

definition put_text :: "builder \<Rightarrow> string \<Rightarrow> string \<Rightarrow> renv \<Rightarrow> renv" where
  "put_text h p t w = w
     \<lparr>files := (files w)\<lparr>file_text := (file_text (files w))(p := Some t)\<rparr>,
      sha256_of := (sha256_of w)(p := text_sha256 h t),
      size_of := (size_of w)(p := int (length (utf8_encode (u t))))\<rparr>"

definition readE :: "('w \<Rightarrow> 'a res) \<Rightarrow> ('w, 'a) io" where
  "readE f w = (f w, w)"

lemma readE_Inr [io_simps]: "readE f w = (Inr y, w') \<longleftrightarrow> f w = Inr y \<and> w = w'"
  by (simp add: readE_def)

definition build_artifacts :: "renv \<Rightarrow> string \<Rightarrow> string \<Rightarrow> built_artifact list res" where
  "build_artifacts w out_dir commit =
     bindE (mapE (artifact_entry w commit) (sort_key path_parts (dir_glob (files w) out_dir ''*.tar.gz''))) (\<lambda>artifacts.
     thenE (checks [(length artifacts = length ARTIFACT_KINDS,
             md_err ''ARTIFACT_COUNT: expected '' @ nat_str (length ARTIFACT_KINDS) @ '', found '' @
             nat_str (length artifacts))])
       (Inr artifacts))"

definition build_main :: "builder \<Rightarrow> string \<Rightarrow> build_args \<Rightarrow> (renv, string list) io" where
  "build_main h root_dir args =
     (let out_dir = resolve_dir h (b_out_dir args); commit = b_commit args;
          sbom_path = path_join out_dir ''sbom.spdx.json''; sums_path = path_join out_dir ''SHA256SUMS'';
          manifest_path = path_join out_dir ''manifest.json'' in
      seqIO (readE (\<lambda>w. checks [(is_dir (files w) out_dir, md_err ''OUT_DIR_MISSING: '' @ out_dir)]))
     (bindIO (liftE (source_created_at h commit)) (\<lambda>created_at.
      bindIO (readE (\<lambda>w. load_sdk_versions w root_dir)) (\<lambda>versions.
      bindIO (readE (\<lambda>w. build_artifacts w out_dir commit)) (\<lambda>artifacts.
      seqIO (act (put_text h sbom_path (json_document (build_sbom commit created_at artifacts versions))))
     (bindIO (readE (\<lambda>w. sha256_file w sbom_path)) (\<lambda>sbom_sha.
      seqIO (act (put_text h sums_path
              (sums_text (map (\<lambda>e. (e_sha256 e, e_file e)) artifacts @ [(sbom_sha, ''sbom.spdx.json'')]))))
     (bindIO (readE (\<lambda>w. sha256_file w (path_join root_dir ''docs/human/sdk/version-matrix.md''))) (\<lambda>matrix_sha.
      bindIO (readIO (\<lambda>w. size_of w sbom_path)) (\<lambda>sbom_bytes.
      seqIO (act (put_text h manifest_path
              (json_document (build_manifest args created_at artifacts versions matrix_sha sbom_sha sbom_bytes))))
        (retIO [''SDK release metadata: OK'', ''manifest: '' @ manifest_path, ''sha256sums: '' @ sums_path,
                ''sbom: '' @ sbom_path])))))))))))"

end
