(* ===== verification/SdkBuilderProps.thy ===== *)
theory SdkBuilderProps
  imports SdkBuilder SdkReleaseProps
begin

text \<open>
  The builder and the checker of a release agree: a directory that the builder has finished passes the
  check, whatever the packages hold, as long as the archives themselves are acceptable. The parts
  follow the checker: header, version matrix, artifacts, checksum file and SBOM.
\<close>

subsection \<open>Documents with sorted keys\<close>

lemma map_of_sorted_items: "distinct (map fst d) \<Longrightarrow> map_of (sorted_items d) = map_of d"
proof -
  assume d: "distinct (map fst d)"
  have "mset (map fst (sorted_items d)) = mset (map fst d)"
    by (simp only: sorted_items_def mset_map mset_sort)
  then have "distinct (map fst (sorted_items d)) = distinct (map fst d)" by (rule mset_eq_imp_distinct_iff)
  with d show ?thesis by (subst map_of_inject_set) (simp_all add: sorted_items_def)
qed

definition sorted_dict :: "dict \<Rightarrow> dict" where
  "sorted_dict d = sorted_items (map (\<lambda>(k, v). (k, sort_json v)) d)"

lemma sort_json_obj: "sort_json (JObj d) = JObj (sorted_dict d)"
  by (simp add: sorted_dict_def)

lemma map_of_sorted_dict:
  assumes "distinct (map fst d)" shows "map_of (sorted_dict d) k = map_option sort_json (map_of d k)"
proof -
  have "map fst (map (\<lambda>(k, v). (k, sort_json v)) d) = map fst d" by (induction d) auto
  with assms have "distinct (map fst (map (\<lambda>(k, v). (k, sort_json v)) d))" by (simp only:)
  then show ?thesis by (simp add: sorted_dict_def map_of_sorted_items map_of_map)
qed

lemma fld_sorted_dict: "distinct (map fst d) \<Longrightarrow> fld (sorted_dict d) k = sort_json (fld d k)"
  by (auto simp: dict_get_def map_of_sorted_dict split: option.splits)

lemma set_sorted_dict: "set (sorted_dict d) = (\<lambda>(k, v). (k, sort_json v)) ` set d"
  by (simp add: sorted_dict_def sorted_items_def)

lemma sort_json_strs [simp]: "sort_json (JArr (map JStr ss)) = JArr (map JStr ss)"
  by (simp add: comp_def)

declare sort_json.simps(2) [simp del]

subsection \<open>Names\<close>

definition is_sha256 :: "string \<Rightarrow> bool" where
  "is_sha256 s = (length s = 64 \<and> list_all chr_is_hex s)"

lemma hex_plain: "chr_is_hex c \<Longrightarrow> c \<noteq> CHR '' '' \<and> c \<noteq> CHR ''/'' \<and> \<not> chr_is_newline c"
  by (auto simp: chr_is_hex_def chr_is_ascii_digit_def chr_is_newline_def Let_def)

lemma sha256_plain:
  assumes "is_sha256 s"
  shows "s \<noteq> []" "plain_text s" "re_match SHA_RE s"
proof -
  from assms show "s \<noteq> []" "plain_text s"
    using hex_plain by (auto simp: is_sha256_def plain_text_def list_all_iff)
  from assms show "re_match SHA_RE s"
    unfolding SHA_RE_def match_hex_re by (intro exI [of _ s]) (simp add: is_sha256_def)
qed

lemma kinds_agree:
  "map (\<lambda>(pre, k). (pre, k_kind k, k_consumer_paths k)) ARTIFACT_KINDS =
   map (\<lambda>(pre, a). (pre, a_kind a, a_consumer_paths a)) EXPECTED_ARTIFACTS"
  by (simp add: ARTIFACT_KINDS_def EXPECTED_ARTIFACTS_def)

lemma kind_expected:
  assumes "map_of ARTIFACT_KINDS pre = Some k"
  obtains pol where "map_of EXPECTED_ARTIFACTS pre = Some pol" "(pre, pol) \<in> set EXPECTED_ARTIFACTS"
    "a_kind pol = k_kind k" "a_consumer_paths pol = k_consumer_paths k"
proof -
  have "map_of (map (\<lambda>(pre, k). (pre, k_kind k, k_consumer_paths k)) ARTIFACT_KINDS) pre =
      map_of (map (\<lambda>(pre, a). (pre, a_kind a, a_consumer_paths a)) EXPECTED_ARTIFACTS) pre"
    by (simp only: kinds_agree)
  with assms obtain pol where "map_of EXPECTED_ARTIFACTS pre = Some pol" "a_kind pol = k_kind k"
      "a_consumer_paths pol = k_consumer_paths k"
    by (cases "map_of EXPECTED_ARTIFACTS pre") (auto simp: map_of_map)
  then show thesis using map_of_SomeD that by fastforce
qed

lemma kind_facts:
  "list_all (\<lambda>(pre, k). plain_text pre \<and> CHR ''/'' \<notin> set pre \<and> length pre > 2 \<and> list_all safe_consumer_path (k_consumer_paths k))
     ARTIFACT_KINDS"
  "distinct (map (k_name \<circ> snd) ARTIFACT_KINDS)" "distinct (map fst ARTIFACT_KINDS)"
  by code_simp+

text \<open>A name without a slash is its own only component.\<close>

lemma split_no_slash: "CHR ''/'' \<notin> set f \<Longrightarrow> str_split ''/'' f = [f]"
  by (subst str_split.simps) (auto simp: str_partition_None_iff sublist_def dest: str_partition_Some split: option.splits)

lemma slash_free_name:
  assumes "CHR ''/'' \<notin> set f" and "f \<noteq> []" and "f \<noteq> ''.''" and "f \<noteq> ''..''"
  shows "safe_file_name f" "path_name f = f"
proof -
  have "path_comps f = [f]" using assms by (simp add: path_comps_def split_no_slash)
  moreover have "path_root f = []" using assms by (cases f) (auto simp: path_root_def starts_with_def)
  ultimately show "safe_file_name f" "path_name f = f"
    using assms by (auto simp: safe_file_name_def path_name_def path_is_absolute_def path_parts_def)
qed

lemma partition_slash: "CHR ''/'' \<notin> set a \<Longrightarrow> str_partition ''/'' (a @ CHR ''/'' # b) = Some (a, b)"
  by (induction a) (auto split: option.splits)

lemma split_join_last: "CHR ''/'' \<notin> set f \<Longrightarrow> \<exists>xs. str_split ''/'' (p @ CHR ''/'' # f) = xs @ [f]"
proof (induction "length p" arbitrary: p rule: less_induct)
  case less
  show ?case
  proof (cases "CHR ''/'' \<in> set p")
    case False
    from partition_slash [OF this, of f] split_no_slash [OF less.prems] show ?thesis
      by (subst str_split.simps) simp
  next
    case True
    then obtain a b where p: "p = a @ CHR ''/'' # b" "CHR ''/'' \<notin> set a" by (meson split_list_first)
    then obtain xs where "str_split ''/'' (b @ CHR ''/'' # f) = xs @ [f]" using less by fastforce
    with partition_slash [OF p(2), of "b @ CHR ''/'' # f"] have "str_split ''/'' (p @ CHR ''/'' # f) = (a # xs) @ [f]"
      by (subst str_split.simps) (simp add: p(1))
    then show ?thesis by blast
  qed
qed

lemma path_name_join:
  assumes "CHR ''/'' \<notin> set f" and "f \<noteq> []" and "f \<noteq> ''.''"
  shows "path_name (path_join p f) = f"
proof -
  from split_join_last [OF assms(1), of p] obtain xs where "str_split ''/'' (p @ CHR ''/'' # f) = xs @ [f]" by blast
  with assms show ?thesis by (simp add: path_name_def path_comps_def path_join_def)
qed

subsection \<open>The artifacts found in the directory\<close>

definition built_ok :: "renv \<Rightarrow> string \<Rightarrow> string \<Rightarrow> built_artifact \<Rightarrow> bool" where
  "built_ok w out_dir commit e =
     (\<exists>pre. e_file e = pre @ artifact_suffix commit \<and> map_of ARTIFACT_KINDS pre = Some (e_kind e) \<and>
        is_file (files w) (path_join out_dir (e_file e)) \<and>
        e_sha256 e = sha256_of w (path_join out_dir (e_file e)) \<and>
        e_bytes e = size_of w (path_join out_dir (e_file e)))"

text \<open>What \<open>Path.glob("*.tar.gz")\<close> gives: distinct paths of entries of the directory.\<close>

definition globbed :: "string \<Rightarrow> string list \<Rightarrow> bool" where
  "globbed out_dir paths =
     (distinct paths \<and> list_all (\<lambda>p. \<exists>n. p = path_join out_dir n \<and> CHR ''/'' \<notin> set n \<and> ends_with n ''.tar.gz'') paths)"

lemma mapE_list_all2: "mapE f xs = Inr ys \<Longrightarrow> list_all2 (\<lambda>x y. f x = Inr y) xs ys"
  by (induction xs arbitrary: ys) (auto simp: bindE_Inr)

lemma globbed_name:
  assumes "globbed out_dir paths" and "p \<in> set paths"
  shows "p = path_join out_dir (path_name p)"
proof -
  from assms obtain n where n: "p = path_join out_dir n" "CHR ''/'' \<notin> set n" "ends_with n ''.tar.gz''"
    by (auto simp: globbed_def list_all_iff)
  then have "n \<noteq> []" "n \<noteq> ''.''" by (auto simp: ends_with_def suffix_def Cons_eq_append_conv)
  with n(1,2) show ?thesis by (simp add: path_name_join)
qed

lemma classify_artifact_Inr:
  "classify_artifact f commit = Inr k \<Longrightarrow> \<exists>pre. f = pre @ artifact_suffix commit \<and> map_of ARTIFACT_KINDS pre = Some k"
  by (auto simp: classify_artifact_def Let_def ends_with_def suffix_def split: if_splits option.splits)

lemma build_artifacts_ok:
  assumes "build_artifacts w out_dir commit = Inr es"
    and "globbed out_dir (dir_glob (files w) out_dir ''*.tar.gz'')"
  shows "list_all (built_ok w out_dir commit) es" "distinct (map e_file es)" "length es = length EXPECTED_ARTIFACTS"
proof -
  let ?ps = "sort_key path_parts (dir_glob (files w) out_dir ''*.tar.gz'')"
  from assms(1) have m: "mapE (artifact_entry w commit) ?ps = Inr es" and len: "length es = length ARTIFACT_KINDS"
    by (auto simp: build_artifacts_def bindE_Inr thenE_Inr checks_Inr simp del: checks.simps)
  from len show "length es = length EXPECTED_ARTIFACTS" using arg_cong [OF kinds_agree, of length] by simp
  have g: "globbed out_dir ?ps" using assms(2) by (simp add: globbed_def list_all_iff)
  have entry: "e_file e = path_name p" "built_ok w out_dir commit e" if "artifact_entry w commit p = Inr e" "p \<in> set ?ps" for p e
  proof -
    from that obtain k where k: "classify_artifact (path_name p) commit = Inr k" "is_file (files w) p"
        "e = \<lparr>e_file = path_name p, e_kind = k, e_sha256 = sha256_of w p, e_bytes = size_of w p\<rparr>"
      by (auto simp: artifact_entry_def bindE_Inr sha256_file_Inr)
    then show "e_file e = path_name p" by simp
    from classify_artifact_Inr [OF k(1)] k(2,3) globbed_name [OF g that(2)]
    show "built_ok w out_dir commit e" by (auto simp: built_ok_def)
  qed
  show "list_all (built_ok w out_dir commit) es"
    unfolding list_all_iff
  proof
    fix e assume "e \<in> set es"
    from mapE_source [OF m this] obtain p where "p \<in> set ?ps" "artifact_entry w commit p = Inr e" by blast
    from entry(2) [OF this(2,1)] show "built_ok w out_dir commit e" .
  qed
  have "list_all2 (\<lambda>p e. e_file e = path_name p) ?ps es"
    using mapE_list_all2 [OF m] by (rule list.rel_mono_strong) (use entry in blast)
  then have "map e_file es = map path_name ?ps" by (induction rule: list_all2_induct) simp_all
  moreover have "inj_on path_name (set ?ps)" 
    by (rule inj_on_inverseI [of _ "path_join out_dir"]) (rule globbed_name [OF g, symmetric])
  ultimately show "distinct (map e_file es)" using g by (simp add: globbed_def distinct_map)
qed

text \<open>The digits of the commit make the names of the packages plain.\<close>

lemma suffix_plain:
  assumes "length commit = 40" and "list_all chr_is_hex commit"
  shows "plain_text (artifact_suffix commit)" "CHR ''/'' \<notin> set (artifact_suffix commit)"
proof -
  have "plain_text commit" "CHR ''/'' \<notin> set commit"
    using assms(2) hex_plain by (auto simp: plain_text_def list_all_iff)
  moreover have "plain_text ''-''" "plain_text ''.tar.gz''" by (simp_all add: plain_text_def chr_is_newline_def)
  ultimately show "plain_text (artifact_suffix commit)" "CHR ''/'' \<notin> set (artifact_suffix commit)"
    using plain_text_append by (simp_all add: artifact_suffix_def plain_text_def chr_is_newline_def)
qed

lemma built_name:
  assumes "built_ok w out_dir commit e" and "length commit = 40" and "list_all chr_is_hex commit"
  shows "plain_text (e_file e)" "safe_file_name (e_file e)" "e_file e \<noteq> ''sbom.spdx.json''"
    "\<And>n. n \<in> {''sbom.spdx.json'', ''SHA256SUMS'', ''manifest.json''} \<Longrightarrow> path_join out_dir (e_file e) \<noteq> path_join out_dir n"
proof -
  from assms(1) obtain pre where pre: "e_file e = pre @ artifact_suffix commit" "map_of ARTIFACT_KINDS pre = Some (e_kind e)"
    by (auto simp: built_ok_def)
  from map_of_SomeD [OF pre(2)] kind_facts(1) have p: "plain_text pre" "CHR ''/'' \<notin> set pre" "length pre > 2"
    by (auto simp: list_all_iff)
  note s = suffix_plain [OF assms(2,3)]
  show "plain_text (e_file e)" using p(1) s(1) by (simp add: pre(1) plain_text_append)
  have "length (e_file e) > 2" using p(3) by (simp add: pre(1))
  then have "e_file e \<noteq> []" "e_file e \<noteq> ''.''" "e_file e \<noteq> ''..''" by auto
  with p(2) s(2) show "safe_file_name (e_file e)" by (intro slash_free_name(1)) (simp_all add: pre(1))
  have "last (e_file e) = CHR ''z''" by (simp add: pre(1) artifact_suffix_def)
  then show "e_file e \<noteq> ''sbom.spdx.json''"
    "\<And>n. n \<in> {''sbom.spdx.json'', ''SHA256SUMS'', ''manifest.json''} \<Longrightarrow> path_join out_dir (e_file e) \<noteq> path_join out_dir n"
    by (auto simp: path_join_def)
qed

lemma artifact_fields:
  "\<exists>d. sort_json (artifact_json e) = JObj d \<and> fld d ''file'' = JStr (e_file e) \<and>
     fld d ''kind'' = JStr (k_kind (e_kind e)) \<and> fld d ''name'' = JStr (k_name (e_kind e)) \<and>
     fld d ''sha256'' = JStr (e_sha256 e) \<and> fld d ''bytes'' = JInt (e_bytes e) \<and>
     fld d ''consumer_paths'' = JArr (map JStr (k_consumer_paths (e_kind e)))"
  unfolding artifact_json_def sort_json_obj json.inject
  by (rule exI, rule conjI, rule refl) (simp add: fld_sorted_dict, simp add: dict_get_def comp_def)

lemma built_step:
  assumes e: "built_ok w out_dir commit e" and c: "length commit = 40" "list_all chr_is_hex commit"
    and new: "e_file e \<notin> set (map fst st)" and sha: "is_sha256 (e_sha256 e)"
    and arch: "\<And>pre pol. (pre, pol) \<in> set EXPECTED_ARTIFACTS \<Longrightarrow>
      validate_archive w (path_join out_dir (pre @ artifact_suffix commit)) pol = Inr ()"
  shows "artifact_step w out_dir commit st (sort_json (artifact_json e)) = Inr (st @ [(e_file e, e_sha256 e)])"
proof -
  from e obtain pre where pre: "e_file e = pre @ artifact_suffix commit" "map_of ARTIFACT_KINDS pre = Some (e_kind e)"
      "is_file (files w) (path_join out_dir (e_file e))" "e_sha256 e = sha256_of w (path_join out_dir (e_file e))"
      "e_bytes e = size_of w (path_join out_dir (e_file e))"
    by (auto simp: built_ok_def)
  from kind_expected [OF pre(2)] obtain pol where pol: "map_of EXPECTED_ARTIFACTS pre = Some pol"
      "(pre, pol) \<in> set EXPECTED_ARTIFACTS" "a_kind pol = k_kind (e_kind e)"
      "a_consumer_paths pol = k_consumer_paths (e_kind e)" .
  obtain d where d: "sort_json (artifact_json e) = JObj d"
    and f: "fld d ''file'' = JStr (e_file e)" "fld d ''kind'' = JStr (k_kind (e_kind e))"
      "fld d ''sha256'' = JStr (e_sha256 e)" "fld d ''bytes'' = JInt (e_bytes e)"
      "fld d ''consumer_paths'' = JArr (map JStr (k_consumer_paths (e_kind e)))"
    using artifact_fields by blast
  from map_of_SomeD [OF pre(2)] kind_facts(1) have "list_all safe_consumer_path (k_consumer_paths (e_kind e))"
    by (auto simp: list_all_iff)
  then have "forE (\<lambda>v. checks
         [((case v of JStr s \<Rightarrow> safe_consumer_path s | _ \<Rightarrow> False),
           rel_err ''CONSUMER_PATH: '' @ pre @ '':'' @ json_str v)]) (map JStr (k_consumer_paths (e_kind e))) = Inr ()"
    unfolding forE_Inr by (auto simp: list_all_iff)
  then have paths: "validate_consumer_paths pre pol d = Inr ()"
    by (simp add: validate_consumer_paths_def f report_list_def pol(4))
  have pref: "artifact_prefix (e_file e) commit = Inr pre" by (simp add: artifact_prefix_Inr pre(1))
  have arc: "validate_archive w (path_join out_dir (e_file e)) pol = Inr ()" unfolding pre(1) by (rule arch [OF pol(2)])
  show ?thesis
    using built_name(2) [OF e c] new pref pol(1,3) paths pre(3) arc sha256_plain(3) [OF sha]
    by (simp add: d artifact_step_def report_object_def f Let_def sha256_file_def num_eq_def
        pre(4) [symmetric] pre(5) [symmetric])
qed

lemma built_fold:
  assumes "list_all (built_ok w out_dir commit) es" and c: "length commit = 40" "list_all chr_is_hex commit"
    and "distinct (map fst st @ map e_file es)" and "list_all (is_sha256 \<circ> e_sha256) es"
    and arch: "\<And>pre pol. (pre, pol) \<in> set EXPECTED_ARTIFACTS \<Longrightarrow>
      validate_archive w (path_join out_dir (pre @ artifact_suffix commit)) pol = Inr ()"
  shows "foldE (artifact_step w out_dir commit) st (map (sort_json \<circ> artifact_json) es) =
    Inr (st @ map (\<lambda>e. (e_file e, e_sha256 e)) es)"
  using assms(1,4,5)
proof (induction es arbitrary: st)
  case Nil
  then show ?case by simp
next
  case (Cons e es)
  then have "artifact_step w out_dir commit st (sort_json (artifact_json e)) = Inr (st @ [(e_file e, e_sha256 e)])"
    by (intro built_step c arch) auto
  with Cons show ?case by simp
qed

subsection \<open>The checksum file\<close>

lemma built_sums:
  assumes body: "file_text (files w) (path_join out_dir ''SHA256SUMS'') = Some (sums_text entries)"
    and ok: "list_all (\<lambda>(sha, f). is_sha256 sha \<and> plain_text f \<and> safe_file_name f) entries"
    and names: "distinct (map snd entries)" and tbl: "set tbl = prod.swap ` set entries"
  shows "validate_sums w out_dir tbl = Inr ()"
proof -
  let ?es = "map prod.swap (sort_key (\<lambda>(checksum, file_name). [checksum, file_name]) entries)"
  have "list_all sums_entry_ok ?es"
    using ok plain_text_D by (fastforce simp: list_all_iff sums_entry_ok_def dest: sha256_plain)
  moreover have "distinct (map fst ?es)"
  proof -
    have "mset (map fst ?es) = mset (map snd entries)" by (simp add: multiset.map_comp comp_def split_beta)
    from mset_eq_imp_distinct_iff [OF this] names show ?thesis by simp
  qed
  ultimately have fold: "foldE sums_line [] (map (\<lambda>(f, sha). sha @ ''  '' @ f) ?es) = Inr ?es"
    using sums_fold_ok [of ?es "[]"] by simp
  have joined: "sums_text entries = concat (map (\<lambda>l. l @ [newline]) (map (\<lambda>(f, sha). sha @ ''  '' @ f) ?es))"
  proof -
    have "concat (map (\<lambda>(checksum, file_name). checksum @ ''  '' @ file_name @ [newline]) ys) =
        concat (map (\<lambda>l. l @ [newline]) (map (\<lambda>(f, sha). sha @ ''  '' @ f) (map prod.swap ys)))" for ys
      by (induction ys) auto
    then show ?thesis by (simp only: sums_text_def)
  qed
  have "list_all (list_all (\<lambda>c. \<not> chr_is_newline c)) (map (\<lambda>(f, sha). sha @ ''  '' @ f) ?es)"
    using ok plain_text_D sha256_plain(2) by (fastforce simp: list_all_iff chr_is_newline_def)
  from splitlines_lines [OF this] have "str_splitlines (sums_text entries) = map (\<lambda>(f, sha). sha @ ''  '' @ f) ?es"
    by (simp only: joined)
  moreover have "set ?es = set tbl" by (simp add: tbl)
  ultimately show ?thesis
    using body fold by (simp add: validate_sums_def Let_def is_file_def read_text_def)
qed

subsection \<open>The SBOM\<close>

lemma package_index_map:
  assumes "list_all (\<lambda>(n, d). fld d ''name'' = JStr n) ps"
  shows "package_index (map (\<lambda>(n, d). JObj d) ps) = Inr (rev (map (\<lambda>(n, d). (JStr n, d)) ps))"
proof -
  have "foldE (\<lambda>acc v. case v of
         JObj pkg \<Rightarrow> bindE (hash_key (fld pkg ''name'')) (\<lambda>k. Inr ((k, pkg) # acc))
       | _ \<Rightarrow> Inr acc) acc (map (\<lambda>(n, d). JObj d) ps) = Inr (rev (map (\<lambda>(n, d). (JStr n, d)) ps) @ acc)" for acc
    using assms by (induction ps arbitrary: acc) (auto simp: hash_key_def)
  from this [of "[]"] show ?thesis by (simp add: package_index_def)
qed

lemma package_lookup_name:
  assumes "(n, d) \<in> set ps" and "\<And>d'. (n, d') \<in> set ps \<Longrightarrow> d' = d"
  shows "package_lookup (rev (map (\<lambda>(n, d). (JStr n, d)) ps)) (JStr n) = Inr (Some d)"
proof -
  let ?xs = "rev (map (\<lambda>(n, d). (JStr n, d)) ps)"
  have "find (\<lambda>(j, _). py_eq j (JStr n)) ?xs \<noteq> None"
    using assms(1) unfolding find_None_iff by force
  then obtain j d' where f: "find (\<lambda>(j, _). py_eq j (JStr n)) ?xs = Some (j, d')" by fastforce
  then obtain i where i: "i < length ?xs" "?xs ! i = (j, d')" "py_eq j (JStr n)"
    unfolding find_Some_iff by auto
  from nth_mem [OF i(1)] i(2,3) have "(JStr n, d') \<in> (\<lambda>(n, d). (JStr n, d)) ` set ps" by simp
  then have "(n, d') \<in> set ps" by auto
  with assms(2) f show ?thesis by (simp add: package_lookup_def hash_key_def)
qed

lemma sbom_packages_fields:
  "\<exists>d. sort_json (sbom_artifact_package commit e) = JObj d \<and> fld d ''name'' = JStr (k_name (e_kind e)) \<and>
     dict_get_or d ''checksums'' (JArr []) =
       JArr [sort_json (JObj [(''algorithm'', JStr ''SHA256''), (''checksumValue'', JStr (e_sha256 e))])]"
  "\<exists>d. sort_json (sbom_component_package (key, c)) = JObj d \<and> fld d ''name'' = JStr (c_name c)"
  unfolding sbom_artifact_package_def sbom_component_package_def prod.case sort_json_obj json.inject
  by ((rule exI, rule conjI, rule refl)
      , (simp add: fld_sorted_dict dict_get_or_def map_of_sorted_dict, simp add: dict_get_def sort_json_obj)?)+

text \<open>The packages of the SBOM, by name.\<close>

fun dict_of :: "json \<Rightarrow> dict" where
  "dict_of (JObj d) = d"
| "dict_of _ = []"

definition sbom_packages :: "string \<Rightarrow> built_artifact list \<Rightarrow> sdk_versions \<Rightarrow> (string \<times> dict) list" where
  "sbom_packages commit es versions =
     map (\<lambda>e. (k_name (e_kind e), dict_of (sort_json (sbom_artifact_package commit e)))) es @
     map (\<lambda>v. (c_name (snd v), dict_of (sort_json (sbom_component_package v)))) versions"

lemma sbom_packages_json:
  "map sort_json (map (sbom_artifact_package commit) es @ map sbom_component_package versions) =
     map (\<lambda>(n, d). JObj d) (sbom_packages commit es versions)"
  "list_all (\<lambda>(n, d). fld d ''name'' = JStr n) (sbom_packages commit es versions)"
proof -
  have a: "sort_json (sbom_artifact_package commit e) = JObj (dict_of (sort_json (sbom_artifact_package commit e)))"
      "fld (dict_of (sort_json (sbom_artifact_package commit e))) ''name'' = JStr (k_name (e_kind e))" for e
    using sbom_packages_fields(1) [of commit e] by auto
  have c: "sort_json (sbom_component_package v) = JObj (dict_of (sort_json (sbom_component_package v)))"
      "fld (dict_of (sort_json (sbom_component_package v))) ''name'' = JStr (c_name (snd v))" for v
    using sbom_packages_fields(2) [of "fst v" "snd v"] by auto
  show "map sort_json (map (sbom_artifact_package commit) es @ map sbom_component_package versions) =
      map (\<lambda>(n, d). JObj d) (sbom_packages commit es versions)"
    using a(1) c(1) by (simp add: sbom_packages_def comp_def)
  show "list_all (\<lambda>(n, d). fld d ''name'' = JStr n) (sbom_packages commit es versions)"
    using a(2) c(2) by (auto simp: sbom_packages_def list_all_iff)
qed

lemma same_kind_name:
  assumes "built_ok w out_dir commit e" and "built_ok w out_dir commit e'"
    and "k_name (e_kind e) = k_name (e_kind e')"
  shows "e_file e = e_file e'"
proof -
  from assms obtain pre pre' where pre: "e_file e = pre @ artifact_suffix commit" "(pre, e_kind e) \<in> set ARTIFACT_KINDS"
      "e_file e' = pre' @ artifact_suffix commit" "(pre', e_kind e') \<in> set ARTIFACT_KINDS"
    by (auto simp: built_ok_def dest: map_of_SomeD)
  from kind_facts(2) have "inj_on (k_name \<circ> snd) (set ARTIFACT_KINDS)" by (simp add: distinct_map)
  from inj_onD [OF this _ pre(2,4)] assms(3) have "pre = pre'" by simp
  with pre show ?thesis by simp
qed

lemma built_sbom_artifact:
  assumes es: "list_all (built_ok w out_dir commit) es" "distinct (map e_file es)" and e: "e \<in> set es"
    and names: "\<And>v. v \<in> set versions \<Longrightarrow> c_name (snd v) \<notin> k_name ` snd ` set ARTIFACT_KINDS"
  shows "sbom_artifact (rev (map (\<lambda>(n, d). (JStr n, d)) (sbom_packages commit es versions))) (sort_json (artifact_json e)) = Inr ()"
proof -
  let ?name = "k_name (e_kind e)" and ?pkg = "dict_of (sort_json (sbom_artifact_package commit e))"
  have "(?name, ?pkg) \<in> set (sbom_packages commit es versions)" using e by (simp add: sbom_packages_def)
  moreover have "d' = ?pkg" if "(?name, d') \<in> set (sbom_packages commit es versions)" for d'
  proof -
    from es(1) e have "built_ok w out_dir commit e" by (simp add: list_all_iff)
    then have "?name \<in> k_name ` snd ` set ARTIFACT_KINDS" by (force simp: built_ok_def dest: map_of_SomeD)
    with names have other: "\<not> (\<exists>v\<in>set versions. c_name (snd v) = ?name)" by metis
    from that have "(\<exists>e'\<in>set es. k_name (e_kind e') = ?name \<and> d' = dict_of (sort_json (sbom_artifact_package commit e'))) \<or>
        (\<exists>v\<in>set versions. c_name (snd v) = ?name)"
      unfolding sbom_packages_def by force
    with other obtain e' where e': "e' \<in> set es" "k_name (e_kind e') = ?name"
        "d' = dict_of (sort_json (sbom_artifact_package commit e'))"
      by blast
    with es(1) e have "e_file e' = e_file e" by (auto simp: list_all_iff intro: same_kind_name)
    with es(2) e e'(1) have "e' = e" by (auto simp: distinct_map dest: inj_onD)
    with e'(3) show ?thesis by simp
  qed
  ultimately have look: "package_lookup (rev (map (\<lambda>(n, d). (JStr n, d)) (sbom_packages commit es versions))) (JStr ?name)
      = Inr (Some ?pkg)"
    by (rule package_lookup_name)
  from artifact_fields [of e] obtain d where d: "sort_json (artifact_json e) = JObj d"
      "fld d ''name'' = JStr ?name" "fld d ''sha256'' = JStr (e_sha256 e)" by blast
  have i: "dict_index d ''name'' = Inr (JStr ?name)" "dict_index d ''sha256'' = Inr (JStr (e_sha256 e))"
    using d(2,3) by (auto simp: dict_index_def dict_get_def split: option.splits)
  have checksum: "sort_json (JObj [(''algorithm'', JStr ''SHA256''), (''checksumValue'', JStr (e_sha256 e))]) =
      JObj (sorted_dict [(''algorithm'', JStr ''SHA256''), (''checksumValue'', JStr (e_sha256 e))])"
    by (rule sort_json_obj)
  have shas: "sha_values [sort_json (JObj [(''algorithm'', JStr ''SHA256''), (''checksumValue'', JStr (e_sha256 e))])] =
      Inr [JStr (e_sha256 e)]"
    unfolding checksum sha_values_def by (simp add: fld_sorted_dict) (simp add: dict_get_def hash_key_def)
  have cs: "dict_get_or ?pkg ''checksums'' (JArr []) =
       JArr [sort_json (JObj [(''algorithm'', JStr ''SHA256''), (''checksumValue'', JStr (e_sha256 e))])]"
    using sbom_packages_fields(1) [of commit e] by auto
  show ?thesis
    using look i shas by (simp add: sbom_artifact_def d(1) cs report_list_def hash_key_def)
qed

subsection \<open>The manifest\<close>

definition policy_dict :: dict where
  "policy_dict = [(''release_kind'', JStr ''source-archive''), (''wasm_binary'', JStr ''not_included_source_only''),
     (''platform_store_packages'', JStr ''not_included''), (''registry_publication'', JStr ''not_included'')]"

lemma policy_ok: "validate_artifact_policy (sort_json (JObj policy_dict)) e = Inr ()"
proof -
  have "list_all (\<lambda>s. \<not> list_ex (list_all (contains (str_lower s))) policy_words)
      [''source-archive'', ''not_included_source_only'', ''not_included'']" by code_simp
  then have "\<not> re_search FORBIDDEN_POLICY_CLAIM_RE s"
    if "s \<in> {''source-archive'', ''not_included_source_only'', ''not_included''}" for s
    using that policy_claim_words by auto
  moreover have "fld (sorted_dict policy_dict) k = sort_json (fld policy_dict k)" for k
    by (rule fld_sorted_dict) (simp add: policy_dict_def)
  ultimately show ?thesis
    unfolding validate_artifact_policy_def sort_json_obj
    by (simp add: report_object_def checks_Inr list_all_iff set_sorted_dict del: checks.simps)
       (simp add: policy_dict_def dict_get_def)
qed

definition manifest_dict ::
    "build_args \<Rightarrow> string \<Rightarrow> built_artifact list \<Rightarrow> sdk_versions \<Rightarrow> string \<Rightarrow> string \<Rightarrow> int \<Rightarrow> dict" where
  "manifest_dict args created es versions msha ssha n =
     dict_of (sort_json (build_manifest args created es versions msha ssha n))"

lemma manifest_fields:
  "sort_json (build_manifest args created es versions msha ssha n) = JObj (manifest_dict args created es versions msha ssha n)"
  "fld (manifest_dict args created es versions msha ssha n) ''schema'' = JStr ''grain.sdk.release.manifest.v1''"
  "fld (manifest_dict args created es versions msha ssha n) ''commit'' = JStr (b_commit args)"
  "fld (manifest_dict args created es versions msha ssha n) ''dirty'' = JBool (b_dirty args = ''true'')"
  "fld (manifest_dict args created es versions msha ssha n) ''verification'' =
     JObj (sorted_dict [(''mode'', JStr (b_mode args)), (''source'', JStr (b_source args))])"
  "fld (manifest_dict args created es versions msha ssha n) ''workflow_contract'' = JStr ''client_workflow_v1''"
  "fld (manifest_dict args created es versions msha ssha n) ''artifact_policy'' = sort_json (JObj policy_dict)"
  "fld (manifest_dict args created es versions msha ssha n) ''version_matrix'' =
     JObj (sorted_dict [(''path'', JStr ''docs/human/sdk/version-matrix.md''), (''sha256'', JStr msha), (''rule'', JStr ''same-repo-sha'')])"
  "fld (manifest_dict args created es versions msha ssha n) ''sdk_versions'' =
     JObj (sorted_dict (map (\<lambda>(key, c). (key, component_json c)) versions))"
  "fld (manifest_dict args created es versions msha ssha n) ''sbom'' =
     JObj (sorted_dict [(''file'', JStr ''sbom.spdx.json''), (''sha256'', JStr ssha), (''bytes'', JInt n), (''format'', JStr ''SPDX-2.3 JSON'')])"
  "fld (manifest_dict args created es versions msha ssha n) ''artifacts'' = JArr (map (sort_json \<circ> artifact_json) es)"
  unfolding manifest_dict_def build_manifest_def sort_json_obj dict_of.simps policy_dict_def
  by ((subst fld_sorted_dict, simp)?, simp add: dict_get_def sort_json_obj)+

lemma fld_present: "fld d k = v \<Longrightarrow> v \<noteq> JNull \<Longrightarrow> dict_index d k = Inr v"
  by (auto simp: dict_index_def dict_get_def split: option.splits)

lemma built_header:
  assumes "length (b_commit args) = 40" "list_all chr_is_hex (b_commit args)"
    and "b_mode args \<in> {''strict'', ''strict-upstream'', ''skipped''}" and "b_source args \<noteq> []"
  shows "release_header w root_dir
    \<lparr>expected_commit = Some (b_commit args), require_strict = (b_mode args \<noteq> ''skipped''), require_clean = (b_dirty args \<noteq> ''true'')\<rparr>
    (manifest_dict args created es versions msha ssha n) = Inr (b_commit args)"
proof -
  have c: "re_match COMMIT_RE (b_commit args)"
    unfolding COMMIT_RE_def match_hex_re using assms(1,2) by (intro exI [of _ "b_commit args"]) simp
  let ?v = "sorted_dict [(''mode'', JStr (b_mode args)), (''source'', JStr (b_source args))]"
  have v: "fld ?v ''mode'' = JStr (b_mode args)" "fld ?v ''source'' = JStr (b_source args)"
    by (simp add: fld_sorted_dict, simp add: dict_get_def)+
  show ?thesis
    unfolding release_header_def manifest_fields
    using c assms(3,4) by (auto simp: v report_object_def check_in_def nonempty_str_def is_false_def policy_ok)
qed

subsection \<open>Versions\<close>

lemma cargo_versions:
  "load_cargo_package w root_dir p = Inr c \<Longrightarrow> load_cargo_version w root_dir p = Inr (c_version c)"
proof -
  assume "load_cargo_package w root_dir p = Inr c"
  then obtain t data package v where "read_text (files w) (path_join root_dir p) = Inr t" "toml_loads w t = Some data"
      "json_index data ''package'' = Inr package" "json_index package ''version'' = Inr v" "json_str v = c_version c"
    by (auto simp: load_cargo_package_def bindE_Inr split: option.splits)
  then show ?thesis by (simp add: load_cargo_version_def)
qed

lemma npm_versions:
  "load_npm_package w root_dir p = Inr c \<Longrightarrow>
     \<exists>v x. package_version w root_dir p = Inr v \<and> json_index v ''version'' = Inr x \<and> json_str x = c_version c"
  by (auto simp: load_npm_package_def package_version_def bindE_Inr)

lemma kotlin_versions:
  "load_kotlin_package w root_dir = Inr c \<Longrightarrow>
     \<exists>t. read_text (files w) (path_join root_dir ''sdk/kotlin/build.gradle.kts'') = Inr t \<and>
       find_quoted version_assignment [] t = Some (c_version c)"
  by (auto simp: load_kotlin_package_def bindE_Inr Let_def split: option.splits)

lemma versions_expected:
  assumes "load_sdk_versions w root_dir = Inr vs"
  shows "distinct (map fst vs)"
    and "\<exists>xs. expected_versions w root_dir = Inr xs \<and>
      (\<forall>k x. (k, x) \<in> set xs \<longrightarrow> (\<exists>c. map_of vs k = Some c \<and> c_version c = x))"
proof -
  from assms obtain core core_wasm kotlin wasm ts_core ts_sdk ts_ai where l:
      "load_cargo_package w root_dir ''core/rust/grain-client-core/Cargo.toml'' = Inr core"
      "load_cargo_package w root_dir ''core/rust/grain-client-wasm/Cargo.toml'' = Inr core_wasm"
      "load_kotlin_package w root_dir = Inr kotlin"
      "load_npm_package w root_dir ''sdk/wasm/package.json'' = Inr wasm"
      "load_npm_package w root_dir ''core/ts/grain-ts-core/package.json'' = Inr ts_core"
      "load_npm_package w root_dir ''core/ts/grain-sdk/package.json'' = Inr ts_sdk"
      "load_npm_package w root_dir ''core/ts/grain-sdk-ai/package.json'' = Inr ts_ai"
    and vs: "vs = [(''grain_client_core'', core), (''grain_client_wasm'', core_wasm),
            (''swift_client'', \<lparr>c_name = ''GrainClient'', c_version = ''repo-sha'', c_license = ''Apache-2.0'',
               c_source = ''sdk/swift/Package.swift''\<rparr>),
            (''kotlin_client'', kotlin), (''wasm_client'', wasm), (''typescript_core'', ts_core),
            (''typescript_sdk'', ts_sdk), (''typescript_ai_sdk'', ts_ai)]"
    unfolding load_sdk_versions_def load_wasm_package_def bindE_Inr sum.inject by (elim exE conjE) blast
  show "distinct (map fst vs)" by (simp add: vs)
  from kotlin_versions [OF l(3)] npm_versions [OF l(4)] npm_versions [OF l(5)] npm_versions [OF l(6)] npm_versions [OF l(7)]
  obtain t v4 x4 v5 x5 v6 x6 v7 x7 where
      t: "read_text (files w) (path_join root_dir ''sdk/kotlin/build.gradle.kts'') = Inr t"
      "find_quoted version_assignment [] t = Some (c_version kotlin)"
    and n: "package_version w root_dir ''sdk/wasm/package.json'' = Inr v4" "json_index v4 ''version'' = Inr x4" "json_str x4 = c_version wasm"
      "package_version w root_dir ''core/ts/grain-ts-core/package.json'' = Inr v5" "json_index v5 ''version'' = Inr x5" "json_str x5 = c_version ts_core"
      "package_version w root_dir ''core/ts/grain-sdk/package.json'' = Inr v6" "json_index v6 ''version'' = Inr x6" "json_str x6 = c_version ts_sdk"
      "package_version w root_dir ''core/ts/grain-sdk-ai/package.json'' = Inr v7" "json_index v7 ''version'' = Inr x7" "json_str x7 = c_version ts_ai"
    by (elim exE conjE) blast
  have "expected_versions w root_dir =
      Inr [(''grain_client_core'', c_version core), (''grain_client_wasm'', c_version core_wasm),
            (''kotlin_client'', c_version kotlin), (''wasm_client'', c_version wasm), (''swift_client'', ''repo-sha''),
            (''typescript_core'', c_version ts_core), (''typescript_sdk'', c_version ts_sdk),
            (''typescript_ai_sdk'', c_version ts_ai)]"
    by (simp add: expected_versions_def t n cargo_versions [OF l(1)] cargo_versions [OF l(2)])
  then show "\<exists>xs. expected_versions w root_dir = Inr xs \<and>
      (\<forall>k x. (k, x) \<in> set xs \<longrightarrow> (\<exists>c. map_of vs k = Some c \<and> c_version c = x))"
    by (simp add: vs)
qed

text \<open>What the manifest says of a component: its version, and no commit of its own.\<close>

lemma built_component:
  assumes "distinct (map fst versions)" and "map_of versions k = Some c"
  shows "\<exists>d. map_of (sorted_dict (map (\<lambda>(key, c). (key, component_json c)) versions)) k = Some (JObj d) \<and>
    fld d ''version'' = JStr (c_version c) \<and> \<not> has_key d ''commit''"
proof -
  have "map fst (map (\<lambda>(key, c). (key, component_json c)) versions) = map fst versions" by (induction versions) auto
  with assms(1) have "distinct (map fst (map (\<lambda>(key, c). (key, component_json c)) versions))" by (simp only:)
  then have "map_of (sorted_dict (map (\<lambda>(key, c). (key, component_json c)) versions)) k = Some (sort_json (component_json c))"
    by (simp add: map_of_sorted_dict map_of_map assms(2))
  moreover have "\<exists>d. sort_json (component_json c) = JObj d \<and> fld d ''version'' = JStr (c_version c) \<and> \<not> has_key d ''commit''"
    unfolding component_json_def sort_json_obj json.inject
    by (rule exI, rule conjI, rule refl) (simp add: fld_sorted_dict has_key_iff map_of_sorted_dict, simp add: dict_get_def)
  ultimately show ?thesis by auto
qed

lemma built_matrix:
  assumes v: "load_sdk_versions w root_dir = Inr versions"
    and m: "is_file (files w) (path_join root_dir ''docs/human/sdk/version-matrix.md'')"
      "sha256_of w (path_join root_dir ''docs/human/sdk/version-matrix.md'') = msha"
  shows "release_matrix w root_dir (manifest_dict args created es versions msha ssha n) = Inr ()"
proof -
  let ?m = "sorted_dict [(''path'', JStr ''docs/human/sdk/version-matrix.md''), (''sha256'', JStr msha), (''rule'', JStr ''same-repo-sha'')]"
  let ?vs = "sorted_dict (map (\<lambda>(key, c). (key, component_json c)) versions)"
  have f: "fld ?m ''path'' = JStr ''docs/human/sdk/version-matrix.md''" "fld ?m ''sha256'' = JStr msha" "fld ?m ''rule'' = JStr ''same-repo-sha''"
    by (simp add: fld_sorted_dict, simp add: dict_get_def)+
  from versions_expected [OF v] obtain xs where xs: "expected_versions w root_dir = Inr xs"
      "\<And>k x. (k, x) \<in> set xs \<Longrightarrow> \<exists>c. map_of versions k = Some c \<and> c_version c = x" and d: "distinct (map fst versions)"
    by blast
  have each: "\<exists>d. map_of ?vs k = Some (JObj d) \<and> fld d ''version'' = JStr x" if "(k, x) \<in> set xs" for k x
    using xs(2) [OF that] built_component [OF d] by blast
  have "forE (\<lambda>(key, x). case map_of ?vs key of
           Some (JObj d) \<Rightarrow> checks [(fld d ''version'' = JStr x, rel_err ''VERSION_VALUE: '' @ key)]
         | _ \<Rightarrow> stop (rel_err ''VERSION_KEY: '' @ key)) xs = Inr ()"
    unfolding forE_Inr
  proof
    fix e assume mem: "e \<in> set xs"
    obtain k x where e: "e = (k, x)" by (cases e)
    from each [OF mem [unfolded e]] obtain d where "map_of ?vs k = Some (JObj d)" "fld d ''version'' = JStr x" by blast
    then show "(case e of (key, x) \<Rightarrow> case map_of ?vs key of
           Some (JObj d) \<Rightarrow> checks [(fld d ''version'' = JStr x, rel_err ''VERSION_VALUE: '' @ key)]
         | _ \<Rightarrow> stop (rel_err ''VERSION_KEY: '' @ key)) = Inr ()"
      by (simp add: e)
  qed
  with m xs(1) show ?thesis
    unfolding release_matrix_def manifest_fields
    by (simp add: report_object_def f sha256_file_def)
qed

subsection \<open>The directory after the run\<close>

lemma put_text_world [simp]:
  "json_loads (files (put_text h p t w)) = json_loads (files w)" "is_dir (files (put_text h p t w)) = is_dir (files w)"
  "dir_glob (files (put_text h p t w)) = dir_glob (files w)" "members_of (put_text h p t w) = members_of w"
  "toml_loads (put_text h p t w) = toml_loads w"
  "file_text (files (put_text h p t w)) = (file_text (files w))(p := Some t)"
  "sha256_of (put_text h p t w) = (sha256_of w)(p := text_sha256 h t)"
  "size_of (put_text h p t w) = (size_of w)(p := int (length (utf8_encode (u t))))"
  by (simp_all add: put_text_def)

definition release_sbom :: "build_args \<Rightarrow> string \<Rightarrow> built_artifact list \<Rightarrow> sdk_versions \<Rightarrow> json" where
  "release_sbom args created es versions = build_sbom (b_commit args) created es versions"

definition release_manifest ::
    "builder \<Rightarrow> build_args \<Rightarrow> string \<Rightarrow> built_artifact list \<Rightarrow> sdk_versions \<Rightarrow> string \<Rightarrow> json" where
  "release_manifest h args created es versions msha =
     (let t = json_document (release_sbom args created es versions) in
      build_manifest args created es versions msha (text_sha256 h t) (int (length (utf8_encode (u t)))))"

definition released :: "builder \<Rightarrow> string \<Rightarrow> build_args \<Rightarrow> string \<Rightarrow> built_artifact list \<Rightarrow> sdk_versions \<Rightarrow> renv \<Rightarrow> renv" where
  "released h root_dir args created es versions w =
     (let out_dir = resolve_dir h (b_out_dir args);
          sbom = json_document (release_sbom args created es versions);
          msha = sha256_of w (path_join root_dir ''docs/human/sdk/version-matrix.md'') in
      put_text h (path_join out_dir ''manifest.json'') (json_document (release_manifest h args created es versions msha))
     (put_text h (path_join out_dir ''SHA256SUMS'')
        (sums_text (map (\<lambda>e. (e_sha256 e, e_file e)) es @ [(text_sha256 h sbom, ''sbom.spdx.json'')]))
     (put_text h (path_join out_dir ''sbom.spdx.json'') sbom w)))"

lemma tail_differs: "take 6 (rev x) \<noteq> take 6 (rev y) \<Longrightarrow> 6 \<le> length x \<Longrightarrow> 6 \<le> length y \<Longrightarrow> path_join a x \<noteq> path_join b y"
proof
  assume l: "6 \<le> length x" "6 \<le> length y" and ne: "take 6 (rev x) \<noteq> take 6 (rev y)" and "path_join a x = path_join b y"
  then have "take 6 (rev (path_join a x)) = take 6 (rev (path_join b y))" by simp
  with l ne show False by (simp add: path_join_def)
qed

text \<open>The sources that the versions and the matrix come from.\<close>

definition SOURCES :: "string list" where
  "SOURCES = [''sdk/kotlin/build.gradle.kts'', ''sdk/wasm/package.json'', ''core/ts/grain-ts-core/package.json'',
     ''core/ts/grain-sdk/package.json'', ''core/ts/grain-sdk-ai/package.json'',
     ''core/rust/grain-client-core/Cargo.toml'', ''core/rust/grain-client-wasm/Cargo.toml'',
     ''docs/human/sdk/version-matrix.md'']"

lemma sources_untouched:
  assumes "s \<in> set SOURCES"
  shows "path_join a s \<noteq> path_join b ''manifest.json''" "path_join a s \<noteq> path_join b ''SHA256SUMS''"
    "path_join a s \<noteq> path_join b ''sbom.spdx.json''"
proof -
  have "list_all (\<lambda>s. 6 \<le> length s \<and> (\<forall>n\<in>set [''manifest.json'', ''SHA256SUMS'', ''sbom.spdx.json''].
      take 6 (rev s) \<noteq> take 6 (rev n))) SOURCES" by code_simp
  with assms show "path_join a s \<noteq> path_join b ''manifest.json''" "path_join a s \<noteq> path_join b ''SHA256SUMS''"
    "path_join a s \<noteq> path_join b ''sbom.spdx.json''"
    by - (rule tail_differs; auto simp: list_all_iff)+
qed

lemma outputs_distinct:
  "path_join a ''manifest.json'' \<noteq> path_join a ''SHA256SUMS''" "path_join a ''manifest.json'' \<noteq> path_join a ''sbom.spdx.json''"
  "path_join a ''SHA256SUMS'' \<noteq> path_join a ''sbom.spdx.json''"
  by (simp_all add: path_join_def)

lemma build_main_Inr:
  assumes "build_main h root_dir args w = (Inr out, w')"
  obtains created versions es where "source_created_at h (b_commit args) = Inr created"
    "load_sdk_versions w root_dir = Inr versions"
    "build_artifacts w (resolve_dir h (b_out_dir args)) (b_commit args) = Inr es"
    "is_file (files w) (path_join root_dir ''docs/human/sdk/version-matrix.md'')"
    "w' = released h root_dir args created es versions w"
proof -
  let ?m = "''docs/human/sdk/version-matrix.md''"
  have m: "?m \<in> set SOURCES" by (simp add: SOURCES_def)
  from assms show thesis
    unfolding build_main_def Let_def
    by (auto simp: io_simps sha256_file_Inr sources_untouched [OF m] outputs_distinct
        outputs_distinct [symmetric] is_file_def released_def release_sbom_def release_manifest_def Let_def intro!: that)
qed

subsection \<open>The checker accepts what the builder built\<close>

lemma read_text_same: "file_text (files w') p = file_text (files w) p \<Longrightarrow> read_text (files w') p = read_text (files w) p"
  by (simp add: read_text_def)

lemma read_json_same:
  "file_text (files w') p = file_text (files w) p \<Longrightarrow> json_loads (files w') = json_loads (files w) \<Longrightarrow>
     read_json (files w') p = read_json (files w) p"
  by (simp add: read_json_def read_text_def loads_def fun_eq_iff cong: bindE_cong)

lemma load_versions_same:
  assumes "\<And>s. s \<in> set SOURCES \<Longrightarrow> file_text (files w') (path_join root_dir s) = file_text (files w) (path_join root_dir s)"
    and j: "\<And>s. s \<in> set SOURCES \<Longrightarrow> read_json (files w') (path_join root_dir s) = read_json (files w) (path_join root_dir s)"
    and "toml_loads w' = toml_loads w"
  shows "load_sdk_versions w' root_dir = load_sdk_versions w root_dir"
proof -
  have r: "read_text (files w') (path_join root_dir s) = read_text (files w) (path_join root_dir s)" if "s \<in> set SOURCES" for s
    by (rule read_text_same) (rule assms(1) [OF that])
  have "set SOURCES = {''sdk/kotlin/build.gradle.kts'', ''sdk/wasm/package.json'', ''core/ts/grain-ts-core/package.json'',
     ''core/ts/grain-sdk/package.json'', ''core/ts/grain-sdk-ai/package.json'',
     ''core/rust/grain-client-core/Cargo.toml'', ''core/rust/grain-client-wasm/Cargo.toml'',
     ''docs/human/sdk/version-matrix.md''}" by (simp add: SOURCES_def)
  then show ?thesis
    by (simp add: load_sdk_versions_def load_cargo_package_def load_npm_package_def load_wasm_package_def
        load_kotlin_package_def r j assms(3) Let_def)
qed

lemma sbom_fields:
  "\<exists>d. sort_json (build_sbom commit created es versions) = JObj d \<and> fld d ''spdxVersion'' = JStr ''SPDX-2.3'' \<and>
     fld d ''SPDXID'' = JStr ''SPDXRef-DOCUMENT'' \<and> dict_get_or d ''packages'' (JArr []) =
       JArr (map sort_json (map (sbom_artifact_package commit) es @ map sbom_component_package versions))"
  unfolding build_sbom_def sort_json_obj json.inject
  by (rule exI, rule conjI, rule refl)
     (simp add: fld_sorted_dict dict_get_or_def map_of_sorted_dict, simp add: dict_get_def)

lemma built_sbom_file:
  assumes sbom: "file_text (files w) p = Some (json_document (build_sbom commit created es versions))"
    "json_loads (files w) (json_document (build_sbom commit created es versions)) =
       Some (sort_json (build_sbom commit created es versions))"
    and p: "p = path_join out_dir ''sbom.spdx.json''" and sha: "sha256_of w p = ssha" "size_of w p = n"
    and es: "list_all (built_ok v out_dir commit) es" "distinct (map e_file es)"
    and names: "\<And>v. v \<in> set versions \<Longrightarrow> c_name (snd v) \<notin> k_name ` snd ` set ARTIFACT_KINDS"
  shows "validate_sbom w out_dir (manifest_dict args created es versions msha ssha n) = Inr ()"
proof -
  let ?M = "manifest_dict args created es versions msha ssha n"
  let ?meta = "sorted_dict [(''file'', JStr ''sbom.spdx.json''), (''sha256'', JStr ssha), (''bytes'', JInt n), (''format'', JStr ''SPDX-2.3 JSON'')]"
  have meta: "fld ?meta ''file'' = JStr ''sbom.spdx.json''" "fld ?meta ''sha256'' = JStr ssha" "fld ?meta ''bytes'' = JInt n"
    by (simp add: fld_sorted_dict, simp add: dict_get_def)+
  let ?ps = "sbom_packages commit es versions"
  obtain d where d: "sort_json (build_sbom commit created es versions) = JObj d"
      "fld d ''spdxVersion'' = JStr ''SPDX-2.3''" "fld d ''SPDXID'' = JStr ''SPDXRef-DOCUMENT''"
      "dict_get_or d ''packages'' (JArr []) = JArr (map (\<lambda>(n, d). JObj d) ?ps)"
    using sbom_fields [of commit created es versions] unfolding sbom_packages_json(1) by blast
  have arts: "dict_index ?M ''artifacts'' = Inr (JArr (map (sort_json \<circ> artifact_json) es))"
    by (rule fld_present [OF manifest_fields(11)]) simp
  have "forE (sbom_artifact (rev (map (\<lambda>(n, d). (JStr n, d)) ?ps))) (map (sort_json \<circ> artifact_json) es) = Inr ()"
    unfolding forE_Inr using built_sbom_artifact [OF es _ names] by auto
  then show ?thesis
    unfolding validate_sbom_def manifest_fields
    using sbom p sha ex_plain(5)
    by (simp add: report_object_def meta d arts is_file_def sha256_file_def num_eq_def read_json_def read_text_def loads_def
        package_index_map [OF sbom_packages_json(2)])
qed

lemma released_world:
  assumes "out_dir = resolve_dir h (b_out_dir args)"
    and "msha = sha256_of w (path_join root_dir ''docs/human/sdk/version-matrix.md'')"
    and "sbom = json_document (release_sbom args created es versions)" and "w' = released h root_dir args created es versions w"
  shows "file_text (files w') (path_join out_dir ''sbom.spdx.json'') = Some sbom"
    "sha256_of w' (path_join out_dir ''sbom.spdx.json'') = text_sha256 h sbom"
    "size_of w' (path_join out_dir ''sbom.spdx.json'') = int (length (utf8_encode (u sbom)))"
    "file_text (files w') (path_join out_dir ''SHA256SUMS'') =
       Some (sums_text (map (\<lambda>e. (e_sha256 e, e_file e)) es @ [(text_sha256 h sbom, ''sbom.spdx.json'')]))"
    "file_text (files w') (path_join out_dir ''manifest.json'') = Some (json_document (release_manifest h args created es versions msha))"
    "json_loads (files w') = json_loads (files w)" "members_of w' = members_of w" "toml_loads w' = toml_loads w"
    "\<And>p. p \<notin> path_join out_dir ` {''sbom.spdx.json'', ''SHA256SUMS'', ''manifest.json''} \<Longrightarrow>
       file_text (files w') p = file_text (files w) p \<and> sha256_of w' p = sha256_of w p \<and> size_of w' p = size_of w p"
  unfolding assms released_def Let_def
  by (simp_all add: outputs_distinct outputs_distinct [symmetric])

lemma update_append: "k \<notin> set (map fst es) \<Longrightarrow> AList.update k v es = es @ [(k, v)]"
  by (induction es) auto

lemma build_accepted:
  assumes created: "source_created_at h (b_commit args) = Inr created"
    and versions: "load_sdk_versions w root_dir = Inr versions"
    and built: "build_artifacts w out_dir (b_commit args) = Inr es"
    and matrix: "is_file (files w) (path_join root_dir ''docs/human/sdk/version-matrix.md'')"
    and out: "out_dir = resolve_dir h (b_out_dir args)"
    and w': "w' = released h root_dir args created es versions w"
    and glob: "globbed out_dir (dir_glob (files w) out_dir ''*.tar.gz'')"
    and archives: "\<And>pre pol. (pre, pol) \<in> set EXPECTED_ARTIFACTS \<Longrightarrow>
      validate_archive w (path_join out_dir (pre @ artifact_suffix (b_commit args))) pol = Inr ()"
    and sha: "\<And>p. is_sha256 (sha256_of w p)" "\<And>t. is_sha256 (text_sha256 h t)"
    and msha: "msha = sha256_of w (path_join root_dir ''docs/human/sdk/version-matrix.md'')"
    and parse: "\<And>v. v \<in> {release_sbom args created es versions, release_manifest h args created es versions msha} \<Longrightarrow>
      json_loads (files w) (json_document v) = Some (sort_json v)"
    and names: "\<And>v. v \<in> set versions \<Longrightarrow> c_name (snd v) \<notin> k_name ` snd ` set ARTIFACT_KINDS"
    and mode: "b_mode args \<in> {''strict'', ''strict-upstream'', ''skipped''}" and source: "b_source args \<noteq> []"
  shows "is_ok (validate_manifest w' root_dir out_dir \<lparr>expected_commit = Some (b_commit args),
    require_strict = (b_mode args \<noteq> ''skipped''), require_clean = (b_dirty args \<noteq> ''true'')\<rparr>)"
proof -
  let ?c = "b_commit args"
  define sbom where sbom: "sbom = json_document (release_sbom args created es versions)"
  let ?ssha = "text_sha256 h sbom" and ?n = "int (length (utf8_encode (u sbom)))"
  let ?M = "manifest_dict args created es versions msha ?ssha ?n"
  from created have c: "length ?c = 40" "list_all chr_is_hex ?c"
    by (auto simp: source_created_at_def split: if_splits)
  note es = build_artifacts_ok [OF built glob]
  note W = released_world [OF out msha sbom w']
  have man: "release_manifest h args created es versions msha = build_manifest args created es versions msha ?ssha ?n"
    by (simp add: release_manifest_def sbom Let_def)
  have mj: "read_json (files w') (path_join out_dir ''manifest.json'') = Inr (JObj ?M)"
    using parse [of "release_manifest h args created es versions msha"] W(5,6)
    by (simp add: read_json_def read_text_def loads_def man manifest_fields(1))
  have src: "file_text (files w') (path_join root_dir s) = file_text (files w) (path_join root_dir s) \<and>
      sha256_of w' (path_join root_dir s) = sha256_of w (path_join root_dir s)" if "s \<in> set SOURCES" for s
    using W(9) [of "path_join root_dir s"] sources_untouched [OF that] by auto
  have "load_sdk_versions w' root_dir = Inr versions"
    using load_versions_same [OF _ read_json_same [OF _ W(6)] W(8), of root_dir] src versions by simp
  then have mat: "release_matrix w' root_dir ?M = Inr ()"
    using src [of "''docs/human/sdk/version-matrix.md''"] matrix msha
    by (intro built_matrix) (auto simp: SOURCES_def is_file_def)
  have art: "path_join out_dir (e_file e) \<notin> path_join out_dir ` {''sbom.spdx.json'', ''SHA256SUMS'', ''manifest.json''}" if "e \<in> set es" for e
    using es(1) that built_name(4) [OF _ c] by (fastforce simp: list_all_iff)
  have es': "list_all (built_ok w' out_dir ?c) es"
    using es(1) W(9) [OF art] by (fastforce simp: list_all_iff built_ok_def is_file_def)
  have arch': "validate_archive w' (path_join out_dir (pre @ artifact_suffix ?c)) pol = Inr ()"
    if "(pre, pol) \<in> set EXPECTED_ARTIFACTS" for pre pol
  proof -
    have "last (pre @ artifact_suffix ?c) = CHR ''z''" by (simp add: artifact_suffix_def)
    then have "path_join out_dir (pre @ artifact_suffix ?c) \<notin> path_join out_dir ` {''sbom.spdx.json'', ''SHA256SUMS'', ''manifest.json''}"
      by (auto simp: path_join_def)
    from W(9) [OF this] W(7) archives [OF that] show ?thesis by (simp add: validate_archive_Inr is_file_def)
  qed
  have shas: "list_all (is_sha256 \<circ> e_sha256) es" using es(1) sha(1) by (auto simp: list_all_iff built_ok_def)
  let ?sums = "map (\<lambda>e. (e_file e, e_sha256 e)) es"
  have fold: "foldE (artifact_step w' out_dir ?c) [] (map (sort_json \<circ> artifact_json) es) = Inr ?sums"
    using built_fold [OF es' c _ shas arch', of "[]"] es(2) by simp
  have notin: "''sbom.spdx.json'' \<notin> set (map fst ?sums)"
    using es(1) built_name(3) [OF _ c] by (fastforce simp: list_all_iff)
  have upd: "AList.update ''sbom.spdx.json'' ?ssha ?sums = ?sums @ [(''sbom.spdx.json'', ?ssha)]"
    using notin by (rule update_append)
  let ?entries = "map (\<lambda>e. (e_sha256 e, e_file e)) es @ [(?ssha, ''sbom.spdx.json'')]"
  have "list_all (\<lambda>(sha, f). is_sha256 sha \<and> plain_text f \<and> safe_file_name f) ?entries"
    using shas es(1) built_name(1,2) [OF _ c] sha(2) ex_plain(2,5) by (auto simp: list_all_iff)
  moreover have "distinct (map snd ?entries)" using es(2) notin by (simp add: comp_def)
  moreover have "set (?sums @ [(''sbom.spdx.json'', ?ssha)]) = prod.swap ` set ?entries" by (auto simp: image_image)
  ultimately have chk: "validate_sums w' out_dir (AList.update ''sbom.spdx.json'' ?ssha ?sums) = Inr ()"
    unfolding upd by (rule built_sums [OF W(4)])
  have js: "json_loads (files w') sbom = Some (sort_json (build_sbom ?c created es versions))"
    using parse [of "release_sbom args created es versions"] W(6) by (simp add: sbom release_sbom_def)
  have sb: "validate_sbom w' out_dir ?M = Inr ()"
    using W(1) js es(1,2) W(2,3) names
    by (intro built_sbom_file [where p = "path_join out_dir ''sbom.spdx.json''" and v = w and created = created])
       (simp_all add: sbom release_sbom_def)
  let ?meta = "sorted_dict [(''file'', JStr ''sbom.spdx.json''), (''sha256'', JStr ?ssha), (''bytes'', JInt ?n), (''format'', JStr ''SPDX-2.3 JSON'')]"
  have "fld ?meta ''file'' = JStr ''sbom.spdx.json''" "fld ?meta ''sha256'' = JStr ?ssha"
    by (simp add: fld_sorted_dict, simp add: dict_get_def)+
  then have meta: "dict_index ?meta ''file'' = Inr (JStr ''sbom.spdx.json'')" "dict_index ?meta ''sha256'' = Inr (JStr ?ssha)"
    by (auto intro: fld_present)
  show ?thesis
    unfolding validate_manifest_def Let_def mj bindE_simps json.case built_header [OF c mode source] mat thenE_simps
      manifest_fields
    using W(5) es(3) fold chk sb
    by (simp add: is_file_def report_list_def report_object_def meta)
qed

end
