(* ===== verification/SdkBuilderAccept.thy ===== *)
theory SdkBuilderAccept
  imports SdkBuilderProps
begin

text \<open>
  The builder and the checker of an SDK release put together, and a run of both.
\<close>

text \<open>C27: a release directory that the metadata builder has finished is accepted by the release checker,
for exactly the commit it was built for, whatever the packages hold: the manifest, the checksum file
and the SBOM that the one writes are those the other asks for. The archives themselves must be
acceptable, the listing of the directory must be that of its files, digests are hexadecimal, the parser
reads back what was written, no SDK component has the display name of an archive, the build names its
source, and its mode is one of the three that the checker knows.\<close>

theorem built_release_accepted:
  assumes run: "build_main h root_dir args w = (Inr lines, w')" and out: "out_dir = resolve_dir h (b_out_dir args)"
    and created: "source_created_at h (b_commit args) = Inr created"
    and versions: "load_sdk_versions w root_dir = Inr versions"
    and built: "build_artifacts w out_dir (b_commit args) = Inr es"
    and glob: "globbed out_dir (dir_glob (files w) out_dir ''*.tar.gz'')"
    and archives: "\<forall>(pre, pol)\<in>set EXPECTED_ARTIFACTS.
      validate_archive w (path_join out_dir (pre @ artifact_suffix (b_commit args))) pol = Inr ()"
    and sha: "\<forall>p. is_sha256 (sha256_of w p)" "\<forall>t. is_sha256 (text_sha256 h t)"
    and parse: "\<forall>v\<in>{release_sbom args created es versions, release_manifest h args created es versions
        (sha256_of w (path_join root_dir ''docs/human/sdk/version-matrix.md''))}.
      json_loads (files w) (json_document v) = Some (sort_json v)"
    and names: "\<forall>v\<in>set versions. c_name (snd v) \<notin> k_name ` snd ` set ARTIFACT_KINDS"
    and mode: "b_mode args \<in> {''strict'', ''strict-upstream'', ''skipped''}" and source: "b_source args \<noteq> []"
  shows "is_ok (validate_manifest w' root_dir out_dir \<lparr>expected_commit = Some (b_commit args),
    require_strict = (b_mode args \<noteq> ''skipped''), require_clean = (b_dirty args \<noteq> ''true'')\<rparr>)"
proof -
  from build_main_Inr [OF run] created versions built out
  have m: "is_file (files w) (path_join root_dir ''docs/human/sdk/version-matrix.md'')"
    and w': "w' = released h root_dir args created es versions w" by (metis Inr_inject)+
  show ?thesis
    by (rule build_accepted [OF created versions built m out w' glob _ _ _ refl _ _ mode source])
       (use archives sha parse names in auto)
qed

subsection \<open>A run of both\<close>

definition ex_build_args :: build_args where
  "ex_build_args = \<lparr>b_out_dir = ''o'', b_commit = ex_commit, b_dirty = ''false'', b_mode = ''strict'', b_source = ''ci''\<rparr>"

definition ex_builder :: builder where
  "ex_builder = \<lparr>committer_time = \<lambda>_. Some ''0'', text_sha256 = \<lambda>_. ex_sha, resolve_dir = id\<rparr>"

text \<open>The world before the run, but for the parser of the two documents.\<close>

definition ex_source :: renv where
  "ex_source = ex_world\<lparr>files := (files ex_world)\<lparr>
       json_loads := (\<lambda>_. Some (JObj [(''name'', JStr ''n''), (''version'', JStr ''1'')])),
       dir_glob := (\<lambda>_ _. map (\<lambda>(pre, _). path_join ''o'' (ex_file pre)) ARTIFACT_KINDS)\<rparr>,
     toml_loads := (\<lambda>_. Some (JObj [(''package'', JObj [(''name'', JStr ''n''), (''version'', JStr ''1'')])]))\<rparr>"

definition ok_value :: "'a res \<Rightarrow> 'a \<Rightarrow> 'a" where
  "ok_value r x = (case r of Inl _ \<Rightarrow> x | Inr y \<Rightarrow> y)"

definition ex_created :: string where "ex_created = ok_value (source_created_at ex_builder ex_commit) []"
definition ex_components :: sdk_versions where "ex_components = ok_value (load_sdk_versions ex_source ''r'') []"
definition ex_entries :: "built_artifact list" where "ex_entries = ok_value (build_artifacts ex_source ''o'' ex_commit) []"

definition ex_docs :: "json list" where
  "ex_docs = [release_sbom ex_build_args ex_created ex_entries ex_components,
     release_manifest ex_builder ex_build_args ex_created ex_entries ex_components ex_sha]"

definition ex_tree :: renv where
  "ex_tree = ex_source\<lparr>files := (files ex_source)\<lparr>
     json_loads := (\<lambda>t. case find (\<lambda>v. json_document v = t) ex_docs of
        Some v \<Rightarrow> Some (sort_json v) | None \<Rightarrow> Some (JObj [(''name'', JStr ''n''), (''version'', JStr ''1'')]))\<rparr>\<rparr>"

lemma ex_created_ok: "source_created_at ex_builder ex_commit = Inr ex_created"
proof -
  have "length ex_commit = 40" "list_all chr_is_hex ex_commit"
    by (simp_all add: ex_commit_def chr_is_hex_def list_all_iff)
  moreover have "str_strip ''0'' = ''0''" by code_simp
  moreover have "py_int ''0'' = Inr 0"
  proof -
    have "nat_str 0 = ''0''" by (subst nat_str.simps) (simp, code_simp)
    then show ?thesis using u_int_nat_str [of _ 0] by (simp add: py_int_def)
  qed
  moreover have "civil_date 0 = (1970, 1, 1)" by code_simp
  then have "is_ok (iso_utc 0)" by (simp add: iso_utc_def)
  ultimately have "is_ok (source_created_at ex_builder ex_commit)" by (simp add: source_created_at_def ex_builder_def)
  then show ?thesis by (auto simp: ex_created_def ok_value_def is_ok_iff)
qed

lemma ex_components_ok:
  "load_sdk_versions ex_source ''r'' = Inr ex_components"
  "\<forall>v\<in>set ex_components. c_name (snd v) \<notin> k_name ` snd ` set ARTIFACT_KINDS"
  "\<forall>v\<in>set ex_components. c_version (snd v) \<noteq> []"
proof -
  have q: "find_quoted version_assignment [] (''version = '' @ [dquote] @ ''1'' @ [dquote]) = Some ''1''" by code_simp
  have cargo: "load_cargo_package ex_source ''r'' p =
      Inr \<lparr>c_name = ''n'', c_version = ''1'', c_license = ''NOASSERTION'', c_source = p\<rparr>"
    if "p \<in> {''core/rust/grain-client-core/Cargo.toml'', ''core/rust/grain-client-wasm/Cargo.toml''}" for p
    using that by (auto simp: load_cargo_package_def ex_source_def ex_world_def read_text_def path_join_def dict_index_def dict_get_or_def)
  have npm: "load_npm_package ex_source ''r'' p =
      Inr \<lparr>c_name = ''n'', c_version = ''1'', c_license = ''Apache-2.0'', c_source = p\<rparr>"
    if "p \<in> {''sdk/wasm/package.json'', ''core/ts/grain-ts-core/package.json'', ''core/ts/grain-sdk/package.json'',
      ''core/ts/grain-sdk-ai/package.json''}" for p
    using that
    by (auto simp: load_npm_package_def ex_source_def ex_world_def read_json_def read_text_def loads_def path_join_def dict_index_def)
  have kotlin: "load_kotlin_package ex_source ''r'' = Inr \<lparr>c_name = ''dev.grain:grain-client'', c_version = ''1'',
      c_license = ''Apache-2.0'', c_source = ''sdk/kotlin/build.gradle.kts''\<rparr>"
    using q by (simp add: load_kotlin_package_def ex_source_def ex_world_def read_text_def path_join_def)
  have e: "\<exists>vs. load_sdk_versions ex_source ''r'' = Inr vs \<and>
      (\<forall>v\<in>set vs. c_name (snd v) \<in> {''n'', ''GrainClient'', ''dev.grain:grain-client''} \<and> c_version (snd v) \<noteq> [])"
    by (simp add: load_sdk_versions_def load_wasm_package_def cargo npm kotlin)
  then show "load_sdk_versions ex_source ''r'' = Inr ex_components" by (auto simp: ex_components_def ok_value_def)
  with e have "\<forall>v\<in>set ex_components. c_name (snd v) \<in> {''n'', ''GrainClient'', ''dev.grain:grain-client''}"
    and "\<forall>v\<in>set ex_components. c_version (snd v) \<noteq> []" by auto
  then show "\<forall>v\<in>set ex_components. c_version (snd v) \<noteq> []"
    by blast
  from \<open>\<forall>v\<in>set ex_components. c_name (snd v) \<in> {''n'', ''GrainClient'', ''dev.grain:grain-client''}\<close>
  have "\<forall>v\<in>set ex_components. c_name (snd v) \<in> {''n'', ''GrainClient'', ''dev.grain:grain-client''}" .
  moreover have "\<forall>n\<in>{''n'', ''GrainClient'', ''dev.grain:grain-client''}. n \<notin> k_name ` snd ` set ARTIFACT_KINDS" by code_simp
  ultimately show "\<forall>v\<in>set ex_components. c_name (snd v) \<notin> k_name ` snd ` set ARTIFACT_KINDS" by blast
qed

lemma mapE_all_ok: "\<forall>x\<in>set xs. is_ok (f x) \<Longrightarrow> \<exists>ys. mapE f xs = Inr ys \<and> length ys = length xs"
  by (induction xs) (auto simp: is_ok_iff bindE_Inr)

lemma ex_name_facts:
  assumes "(pre, k) \<in> set ARTIFACT_KINDS"
  shows "path_name (path_join ''o'' (ex_file pre)) = ex_file pre" "CHR ''/'' \<notin> set (ex_file pre)"
    "ends_with (ex_file pre) ''.tar.gz''"
proof -
  from assms kind_facts(1) have p: "CHR ''/'' \<notin> set pre" "length pre > 2" by (auto simp: list_all_iff)
  then show s: "CHR ''/'' \<notin> set (ex_file pre)" by (simp add: ex_file_def artifact_suffix_def ex_commit_def)
  show "ends_with (ex_file pre) ''.tar.gz''" by (simp add: ex_file_def artifact_suffix_def ends_with_def suffix_def)
  from p(2) have "length (ex_file pre) > 2" by (simp add: ex_file_def)
  with s show "path_name (path_join ''o'' (ex_file pre)) = ex_file pre" by (intro path_name_join) auto
qed

lemma ex_entries_ok: "build_artifacts ex_source ''o'' ex_commit = Inr ex_entries"
proof -
  let ?ps = "map (\<lambda>(pre, _). path_join ''o'' (ex_file pre)) ARTIFACT_KINDS"
  have "is_ok (artifact_entry ex_source ex_commit p)" if "p \<in> set (sort_key path_parts ?ps)" for p
  proof -
    from that obtain pre k where p: "(pre, k) \<in> set ARTIFACT_KINDS" "p = path_join ''o'' (ex_file pre)" by auto
    from kind_facts(3) p(1) have "map_of ARTIFACT_KINDS pre = Some k" by (rule map_of_is_SomeI)
    then have "classify_artifact (ex_file pre) ex_commit = Inr k"
      by (simp add: classify_artifact_def ex_file_def ends_with_def suffix_def Let_def)
    then show ?thesis
      by (simp add: p(2) artifact_entry_def ex_name_facts(1) [OF p(1)] sha256_file_def is_file_def ex_source_def ex_world_def)
  qed
  then obtain es where "mapE (artifact_entry ex_source ex_commit) (sort_key path_parts ?ps) = Inr es" "length es = length ARTIFACT_KINDS"
    using mapE_all_ok [of "sort_key path_parts ?ps" "artifact_entry ex_source ex_commit"] by auto
  then have "build_artifacts ex_source ''o'' ex_commit = Inr es" by (simp add: build_artifacts_def ex_source_def)
  then show ?thesis by (simp add: ex_entries_def ok_value_def)
qed

lemma ex_globbed: "globbed ''o'' (dir_glob (files ex_tree) ''o'' ''*.tar.gz'')"
proof -
  have "inj_on fst (set ARTIFACT_KINDS)" using kind_facts(3) by (simp add: distinct_map)
  moreover have "inj_on (\<lambda>pre. path_join ''o'' (ex_file pre)) (fst ` set ARTIFACT_KINDS)"
    by (rule inj_onI) (simp add: ex_file_def path_join_def)
  ultimately have "inj_on ((\<lambda>pre. path_join ''o'' (ex_file pre)) \<circ> fst) (set ARTIFACT_KINDS)" by (rule comp_inj_on)
  then have "inj_on (\<lambda>(pre, _). path_join ''o'' (ex_file pre)) (set ARTIFACT_KINDS)" by (simp add: comp_def case_prod_unfold)
  moreover have "distinct ARTIFACT_KINDS" using kind_facts(3) by (simp add: distinct_map)
  ultimately have "distinct (map (\<lambda>(pre, _). path_join ''o'' (ex_file pre)) ARTIFACT_KINDS)" by (simp add: distinct_map)
  then show ?thesis
    using ex_name_facts by (fastforce simp: globbed_def ex_tree_def ex_source_def list_all_iff)
qed

text \<open>The two documents differ in their first key.\<close>

lemma document_first_key:
  assumes "sort_json v = JObj ((k, x) # d)"
  shows "\<exists>r. json_document v = [CHR 0x7B] @ nl_indent 2 @ dumps_str k @ '': '' @ r"
  using assms by (cases d) (auto simp: json_document_def numeral_2_eq_2)

lemma sorted_dict_keys: "map fst (sorted_dict d) = sort (map fst d)"
proof -
  have "sort (map fst d) = map fst (sorted_dict d)"
  proof (rule properties_for_sort)
    have "map fst (map (\<lambda>(k, v). (k, sort_json v)) d) = map fst d" by (induction d) auto
    then show "mset (map fst (sorted_dict d)) = mset (map fst d)"
      by (metis mset_map mset_sort sorted_dict_def sorted_items_def)
    show "sorted (map fst (sorted_dict d))" by (simp add: sorted_dict_def sorted_items_def)
  qed
  then show ?thesis by simp
qed

lemma ex_first_keys:
  "\<exists>x d. sort_json (release_sbom args created es versions) = JObj ((''SPDXID'', x) # d)"
  "\<exists>x d. sort_json (release_manifest h args created es versions msha) = JObj ((''artifact_policy'', x) # d)"
proof -
  have first: "\<exists>x d'. sorted_dict d = (k, x) # d'" if "sort (map fst d) = k # ks" for d k ks
    using that by (simp flip: sorted_dict_keys) (cases "sorted_dict d"; auto)
  have "sort [''spdxVersion'', ''dataLicense'', ''SPDXID'', ''name'', ''documentNamespace'', ''creationInfo'', ''packages'',
      ''relationships''] = ''SPDXID'' # [''creationInfo'', ''dataLicense'', ''documentNamespace'', ''name'', ''packages'',
      ''relationships'', ''spdxVersion'']" by code_simp
  then show "\<exists>x d. sort_json (release_sbom args created es versions) = JObj ((''SPDXID'', x) # d)"
    unfolding release_sbom_def build_sbom_def sort_json_obj json.inject by (intro first) simp
  have "sort [''schema'', ''commit'', ''created_at'', ''dirty'', ''verification'', ''workflow_contract'', ''artifact_policy'',
      ''version_matrix'', ''sdk_versions'', ''sbom'', ''artifacts''] = ''artifact_policy'' # [''artifacts'', ''commit'',
      ''created_at'', ''dirty'', ''sbom'', ''schema'', ''sdk_versions'', ''verification'', ''version_matrix'',
      ''workflow_contract'']" by code_simp
  then show "\<exists>x d. sort_json (release_manifest h args created es versions msha) = JObj ((''artifact_policy'', x) # d)"
    unfolding release_manifest_def build_manifest_def Let_def sort_json_obj json.inject by (intro first) simp
qed

lemma ex_docs_differ: "json_document (ex_docs ! 0) \<noteq> json_document (ex_docs ! 1)"
proof
  assume eq: "json_document (ex_docs ! 0) = json_document (ex_docs ! 1)"
  from ex_first_keys document_first_key obtain r s where
      "json_document (ex_docs ! 0) = [CHR 0x7B] @ nl_indent 2 @ dumps_str ''SPDXID'' @ '': '' @ r"
      "json_document (ex_docs ! 1) = [CHR 0x7B] @ nl_indent 2 @ dumps_str ''artifact_policy'' @ '': '' @ s"
    unfolding ex_docs_def by (metis nth_Cons_0 nth_Cons_Suc One_nat_def)
  with eq have "dumps_str ''SPDXID'' @ '': '' @ r = dumps_str ''artifact_policy'' @ '': '' @ s" by simp
  then show False by (simp add: dumps_str_def escape_char_def)
qed

lemma ex_tree_fields:
  "file_text (files ex_tree) = file_text (files ex_world)" "dir_glob (files ex_tree) = dir_glob (files ex_source)"
  "is_dir (files ex_tree) = is_dir (files ex_world)" "sha256_of ex_tree = sha256_of ex_world" "size_of ex_tree = size_of ex_world"
  "members_of ex_tree = members_of ex_world" "toml_loads ex_tree = toml_loads ex_source"
  by (simp_all add: ex_tree_def ex_source_def)

lemma ex_docs_brace: "v \<in> set ex_docs \<Longrightarrow> \<exists>r. json_document v = CHR 0x7B # r"
proof -
  assume "v \<in> set ex_docs"
  then consider "v = release_sbom ex_build_args ex_created ex_entries ex_components"
    | "v = release_manifest ex_builder ex_build_args ex_created ex_entries ex_components ex_sha"
    by (auto simp: ex_docs_def)
  then obtain k x d where "sort_json v = JObj ((k, x) # d)" using ex_first_keys by cases blast+
  from document_first_key [OF this] show ?thesis by auto
qed

lemma ex_tree_read:
  assumes "file_text (files ex_world) p = Some (c # t)" and "c \<noteq> CHR 0x7B"
  shows "read_json (files ex_tree) p = read_json (files ex_source) p"
proof -
  have "find (\<lambda>v. json_document v = c # t) ex_docs = None"
    using ex_docs_brace assms(2) by (fastforce simp: find_None_iff)
  with assms(1) show ?thesis
    by (simp add: read_json_def read_text_def loads_def ex_tree_def ex_source_def)
qed

lemma ex_tree_same:
  "load_sdk_versions ex_tree ''r'' = Inr ex_components" "build_artifacts ex_tree ''o'' ex_commit = Inr ex_entries"
proof -
  have f: "file_text (files ex_source) = file_text (files ex_world)" by (simp add: ex_source_def)
  have "\<exists>c t. file_text (files ex_world) (path_join ''r'' s) = Some (c # t) \<and> c \<noteq> CHR 0x7B" if "s \<in> set SOURCES" for s
    using that by (auto simp: SOURCES_def path_join_def ex_world_def)
  then have "read_json (files ex_tree) (path_join ''r'' s) = read_json (files ex_source) (path_join ''r'' s)" if "s \<in> set SOURCES" for s
    using that ex_tree_read by blast
  then have "load_sdk_versions ex_tree ''r'' = load_sdk_versions ex_source ''r''"
    by (intro load_versions_same) (simp_all add: ex_tree_fields f)
  then show "load_sdk_versions ex_tree ''r'' = Inr ex_components" by (simp add: ex_components_ok)
  have "sha256_of ex_source = sha256_of ex_world" "size_of ex_source = size_of ex_world" by (simp_all add: ex_source_def)
  then have "artifact_entry ex_tree ex_commit = artifact_entry ex_source ex_commit"
    by (simp add: artifact_entry_def sha256_file_def is_file_def ex_tree_fields f fun_eq_iff)
  then show "build_artifacts ex_tree ''o'' ex_commit = Inr ex_entries"
    using ex_entries_ok by (simp add: build_artifacts_def ex_tree_fields)
qed

lemma ex_build: "\<exists>lines w'. build_main ex_builder ''r'' ex_build_args ex_tree = (Inr lines, w')"
proof -
  let ?m = "''docs/human/sdk/version-matrix.md''"
  have m: "?m \<in> set SOURCES" by (simp add: SOURCES_def)
  have "is_dir (files ex_tree) ''o''" "file_text (files ex_tree) (path_join ''r'' ?m) \<noteq> None"
    by (simp_all add: ex_tree_fields ex_world_def)
  then show ?thesis
    using ex_tree_same ex_created_ok sources_untouched [OF m]
    by (simp add: build_main_def Let_def ex_build_args_def ex_builder_def bindIO_def seqIO_def readE_def liftE_def act_def
        readIO_def retIO_def sha256_file_def is_file_def)
qed

theorem built_release_accepted_witness:
  "\<exists>lines w'. build_main ex_builder ''r'' ex_build_args ex_tree = (Inr lines, w') \<and>
     is_ok (validate_manifest w' ''r'' ''o'' ex_args)"
proof -
  from ex_build obtain lines w' where run: "build_main ex_builder ''r'' ex_build_args ex_tree = (Inr lines, w')" by blast
  have hex: "is_sha256 ex_sha" by (simp add: is_sha256_def ex_sha_def chr_is_hex_def list_all_iff)
  have sha: "sha256_of ex_tree = (\<lambda>_. ex_sha)" by (simp add: ex_tree_fields ex_world_def)
  have arch: "validate_archive ex_tree (path_join ''o'' (pre @ artifact_suffix ex_commit)) pol = Inr ()"
    if "(pre, pol) \<in> set EXPECTED_ARTIFACTS" for pre pol
    using ex_archive_ok [OF that] by (simp add: validate_archive_Inr ex_tree_fields is_file_def path_join_def ex_file_def)
  have docs: "json_loads (files ex_tree) (json_document v) = Some (sort_json v)" if "v \<in> set ex_docs" for v
    using that ex_docs_differ by (auto simp: ex_tree_def ex_docs_def)
  have "is_ok (validate_manifest w' ''r'' ''o'' \<lparr>expected_commit = Some (b_commit ex_build_args),
      require_strict = (b_mode ex_build_args \<noteq> ''skipped''), require_clean = (b_dirty ex_build_args \<noteq> ''true'')\<rparr>)"
    by (rule built_release_accepted [OF run _ _ ex_tree_same(1), of "''o''" ex_created ex_entries])
       (use ex_created_ok ex_tree_same(2) ex_globbed arch hex docs ex_components_ok(2) in
         \<open>auto simp: ex_build_args_def ex_builder_def sha ex_docs_def\<close>)
  with run show ?thesis by (auto simp: ex_build_args_def ex_args_def)
qed

end
