(* ===== verification/PyFind.thy ===== *)
theory PyFind
  imports PyRegex
begin

text \<open>
  \<open>re.search\<close> with the place of the match, \<open>re.findall\<close> and \<open>re.finditer\<close> with one group, and the
  line anchors of \<open>re.MULTILINE\<close>. The locale \<open>line_pattern\<close> is the contract of a pattern that
  starts at a line start and stays within its line: scanning a text with it is the same as reading
  the text line by line.
\<close>

subsection \<open>Line anchors and counting\<close>

definition at_bol :: "char pos \<Rightarrow> bool" where
  "at_bol c = (fst c = [] \<or> hd (fst c) = newline)"

definition at_eol :: "char pos \<Rightarrow> bool" where
  "at_eol c = (snd c = [] \<or> hd (snd c) = newline)"

definition RBol :: "char regex" where "RBol = RAssert at_bol"
definition REol :: "char regex" where "REol = RAssert at_eol"

definition chr_is_blank :: "char \<Rightarrow> bool" where
  "chr_is_blank c = (c = CHR '' '' \<or> c = CHR 0x09)"

text \<open>\<open>[A-Za-z0-9_-]\<close>.\<close>

definition chr_is_slug :: "char \<Rightarrow> bool" where
  "chr_is_slug c = (chr_is_ascii_alpha c \<or> chr_is_ascii_digit c \<or> c = CHR ''_'' \<or> c = CHR ''-'')"

text \<open>\<open>s.count(t)\<close> for a non-empty \<open>t\<close>.\<close>

definition str_count :: "string \<Rightarrow> string \<Rightarrow> nat" where
  "str_count s t = length (str_split t s) - 1"

subsection \<open>Searching\<close>

text \<open>The text between two positions of the same text.\<close>

definition span :: "char pos \<Rightarrow> char pos \<Rightarrow> string" where
  "span a b = take (length (snd a) - length (snd b)) (snd a)"

text \<open>\<open>re.search\<close>: the positions where the first match begins and ends.\<close>

fun search_pos :: "char regex \<Rightarrow> string \<Rightarrow> string \<Rightarrow> (char pos \<times> char pos) option" where
  "search_pos r p s =
     (case ends r (p, s) of
        c # _ \<Rightarrow> Some ((p, s), c)
      | [] \<Rightarrow> (case s of [] \<Rightarrow> None | x # xs \<Rightarrow> search_pos r (x # p) xs))"

declare search_pos.simps [simp del]

text \<open>The positions a lazy \<open>x*?\<close> over one class of characters tries, nearest first.\<close>

fun lazy_ends :: "(char \<Rightarrow> bool) \<Rightarrow> string \<Rightarrow> string \<Rightarrow> char pos list" where
  "lazy_ends P p [] = [(p, [])]"
| "lazy_ends P p (x # xs) = (p, x # xs) # (if P x then lazy_ends P (x # p) xs else [])"

text \<open>A lazy group over all characters, up to the nearest position that satisfies \<open>P\<close> or the end.\<close>

fun lazy_to :: "(char pos \<Rightarrow> bool) \<Rightarrow> string \<Rightarrow> string \<Rightarrow> char pos" where
  "lazy_to P p [] = (p, [])"
| "lazy_to P p (x # xs) = (if P (p, x # xs) then (p, x # xs) else lazy_to P (x # p) xs)"

text \<open>
  A pattern with one group: what comes before it, the group and what comes after it. The result
  lists the captured texts with the ends of the match, in the order they are tried.
\<close>

type_synonym matcher = "char pos \<Rightarrow> (string \<times> char pos) list"

definition capture :: "char regex \<Rightarrow> (char pos \<Rightarrow> char pos list) \<Rightarrow> char regex \<Rightarrow> matcher" where
  "capture r g q c =
     concat (map (\<lambda>a. concat (map (\<lambda>b. map (\<lambda>e. (span a b, e)) (ends q b)) (g a))) (ends r c))"

text \<open>\<open>re.findall\<close>: the groups of the successive matches. After an empty match the search goes on
one character later.\<close>

function finds :: "matcher \<Rightarrow> string \<Rightarrow> string \<Rightarrow> string list" where
  "finds m p s =
     (case m (p, s) of
        (g, e) # _ \<Rightarrow>
          g # (if length (snd e) < length s then finds m (fst e) (snd e)
               else case s of [] \<Rightarrow> [] | x # xs \<Rightarrow> finds m (x # p) xs)
      | [] \<Rightarrow> (case s of [] \<Rightarrow> [] | x # xs \<Rightarrow> finds m (x # p) xs))"
  by pat_completeness auto
termination by (relation "measure (\<lambda>(m, p, s). length s)") auto

declare finds.simps [simp del]

subsection \<open>Deterministic pieces\<close>

text \<open>What follows a line: nothing, or a line feed and more.\<close>

definition is_eol :: "string \<Rightarrow> bool" where
  "is_eol r = (r = [] \<or> hd r = newline)"

named_theorems piece_simps

text \<open>A greedy \<open>x*\<close> over a class, followed by something that fails at every character of the class.\<close>

lemma ends_RStar_cls:
  "ends (RStar (RCls P)) (p, s) =
     (case s of x # xs \<Rightarrow> if P x then ends (RStar (RCls P)) (x # p, xs) else [] | [] \<Rightarrow> []) @ [(p, s)]"
  by (subst ends.simps(5)) (simp split: list.split)

lemma ends_greedy:
  assumes "\<And>q x xs. P x \<Longrightarrow> ends k (q, x # xs) = []"
  shows "ends (RSeq (RStar (RCls P)) k) (p, s) = ends k (rev (takeWhile P s) @ p, dropWhile P s)"
proof (induction s arbitrary: p)
  case Nil
  then show ?case by (subst ends.simps(3), subst ends_RStar_cls) simp
next
  case (Cons x xs)
  show ?case
  proof (cases "P x")
    case True
    then have "ends (RSeq (RStar (RCls P)) k) (p, x # xs) =
        ends (RSeq (RStar (RCls P)) k) (x # p, xs)"
      by (subst ends.simps(3), subst ends_RStar_cls) (simp add: assms)
    with Cons True show ?thesis by simp
  next
    case False
    then show ?thesis by (subst ends.simps(3), subst ends_RStar_cls) simp
  qed
qed

lemma ends_RLit [piece_simps]:
  "ends (RLit t) (p, s) = (if prefix t s then [(rev t @ p, drop (length t) s)] else [])"
proof (induction t arbitrary: p s)
  case Nil
  then show ?case by (simp add: RLit_def RSeqs_def)
next
  case (Cons c t)
  have "ends (RLit (c # t)) (p, s) = concat (map (ends (RLit t)) (ends (RCls (\<lambda>x. x = c)) (p, s)))"
    by (simp add: RLit_def RSeqs_def)
  then show ?case using Cons by (cases s) simp_all
qed

lemma ends_RSeqs [piece_simps]:
  "ends (RSeqs []) c = [c]"
  "ends (RSeqs (r # rs)) c = ends (RSeq r (RSeqs rs)) c"
  by (simp_all add: RSeqs_def)

lemma not_blank_newline [simp]: "\<not> chr_is_blank newline"
  by (simp add: chr_is_blank_def)

lemma takeWhile_eol: "is_eol r \<Longrightarrow> \<not> P newline \<Longrightarrow> takeWhile P (l @ r) = takeWhile P l"
proof (induction l)
  case Nil
  then show ?case by (cases r) (auto simp: is_eol_def)
qed simp

lemma dropWhile_eol: "is_eol r \<Longrightarrow> \<not> P newline \<Longrightarrow> dropWhile P (l @ r) = dropWhile P l @ r"
proof (induction l)
  case Nil
  then show ?case by (cases r) (auto simp: is_eol_def)
qed simp

lemma prefix_eol:
  assumes "is_eol r" "newline \<notin> set t"
  shows "prefix t (l @ r) \<longleftrightarrow> prefix t l"
proof
  assume "prefix t (l @ r)"
  then show "prefix t l"
  proof (rule prefix_append [THEN iffD1, THEN disjE])
    assume "\<exists>us. t = l @ us \<and> prefix us r"
    then obtain us where us: "t = l @ us" "prefix us r" by blast
    then have "us = []" using assms by (cases us; cases r) (auto simp: is_eol_def)
    with us show ?thesis by simp
  qed simp
qed (rule prefix_prefix)

text \<open>\<open>[ \t]*$\<close> to the end of the line.\<close>

definition blanks_eol :: "char regex" where
  "blanks_eol = RSeqs [RStar (RCls chr_is_blank), REol]"

lemma REol_blank: "chr_is_blank x \<Longrightarrow> ends (RSeqs [REol]) (q, x # xs) = []"
  by (cases "x = newline") (simp_all add: ends_RSeqs REol_def at_eol_def)

lemma ends_blanks_eol [piece_simps]:
  assumes "newline \<notin> set b" "is_eol r"
  shows "ends blanks_eol (q, b @ r) = (if list_all chr_is_blank b then [(rev b @ q, r)] else [])"
proof -
  have "ends blanks_eol (q, b @ r) = ends (RSeqs [REol])
      (rev (takeWhile chr_is_blank b) @ q, dropWhile chr_is_blank b @ r)"
    unfolding blanks_eol_def ends_RSeqs(2) [of "RStar _"]
    by (subst ends_greedy [OF REol_blank]) (simp_all add: takeWhile_eol dropWhile_eol assms(2))
  also have "\<dots> = (if list_all chr_is_blank b then [(rev b @ q, r)] else [])"
  proof (cases "list_all chr_is_blank b")
    case True
    then have d: "takeWhile chr_is_blank b = b" "dropWhile chr_is_blank b = []"
      by (auto simp: list_all_iff)
    show ?thesis using True assms(2) by (simp add: d ends_RSeqs REol_def at_eol_def is_eol_def)
  next
    case False
    then obtain x xs where x: "dropWhile chr_is_blank b = x # xs"
      by (cases "dropWhile chr_is_blank b") (auto simp: list_all_iff)
    then have "x \<in> set b" by (metis list.set_intros(1) set_dropWhileD)
    with assms(1) x False show ?thesis by (auto simp: ends_RSeqs REol_def at_eol_def)
  qed
  finally show ?thesis .
qed

subsection \<open>Patterns that stay within a line\<close>

lemma last_notin: "x \<notin> set l \<Longrightarrow> l \<noteq> [] \<Longrightarrow> last l \<noteq> x"
  by (metis last_in_set)

locale line_pattern =
  fixes m :: matcher and line_of :: "string \<Rightarrow> string option"
  assumes only_bol: "\<not> at_bol c \<Longrightarrow> m c = []"
    and hit: "at_bol (p, l @ r) \<Longrightarrow> newline \<notin> set l \<Longrightarrow> is_eol r \<Longrightarrow> line_of l = Some g \<Longrightarrow>
      \<exists>u v ms. m (p, l @ r) = (g, (rev u @ p, v @ r)) # ms \<and> l = u @ v \<and> u \<noteq> []"
    and miss: "at_bol (p, l @ r) \<Longrightarrow> newline \<notin> set l \<Longrightarrow> is_eol r \<Longrightarrow> line_of l = None \<Longrightarrow>
      m (p, l @ r) = []"
begin

lemma finds_skip:
  "\<not> at_bol (p, l @ r) \<Longrightarrow> newline \<notin> set l \<Longrightarrow> finds m p (l @ r) = finds m (rev l @ p) r"
proof (induction l arbitrary: p)
  case (Cons x l)
  have "\<not> at_bol (x # p, l @ r)" using Cons.prems(2) by (auto simp: at_bol_def)
  with Cons show ?case
    by (subst finds.simps) (simp add: only_bol)
qed simp

lemma finds_rest:
  assumes "newline \<notin> set v" "u \<noteq> []" "newline \<notin> set u"
  shows "finds m (rev u @ p) (v @ r) = finds m (rev (u @ v) @ p) r"
proof -
  have "\<not> at_bol (rev u @ p, v @ r)"
    using assms(2,3) by (auto simp: last_notin at_bol_def hd_append hd_rev)
  from finds_skip [OF this assms(1)] show ?thesis by simp
qed

lemma finds_line:
  assumes b: "at_bol (p, l @ r)" and n: "newline \<notin> set l" and e: "is_eol r" and ne: "l \<noteq> []"
  shows "finds m p (l @ r) =
    (case line_of l of None \<Rightarrow> [] | Some g \<Rightarrow> [g]) @ finds m (rev l @ p) r"
proof (cases "line_of l")
  case None
  obtain x k where l: "l = x # k" using ne by (cases l) auto
  have "finds m p (l @ r) = finds m (x # p) (k @ r)"
    using miss [OF b n e None] l by (subst finds.simps) simp
  also have "\<dots> = finds m (rev [x] @ p) (k @ r)" by simp
  also have "\<dots> = finds m (rev ([x] @ k) @ p) r"
    by (rule finds_rest) (use n l in auto)
  finally show ?thesis using None l by simp
next
  case (Some g)
  obtain u v ms where h: "m (p, l @ r) = (g, (rev u @ p, v @ r)) # ms" "l = u @ v" "u \<noteq> []"
    using hit [OF b n e Some] by blast
  have "finds m p (l @ r) = g # finds m (rev u @ p) (v @ r)"
    by (subst finds.simps, subst h(1)) (use h(2,3) in simp)
  also have "finds m (rev u @ p) (v @ r) = finds m (rev (u @ v) @ p) r"
    by (rule finds_rest) (use n h in auto)
  finally show ?thesis using Some h(2) by simp
qed

end

text \<open>The lines of a text, ended by line feeds only.\<close>

abbreviation lf_lines :: "string \<Rightarrow> string list" where
  "lf_lines s \<equiv> str_split [newline] s"

lemma lf_lines_none: "newline \<notin> set s \<Longrightarrow> lf_lines s = [s]"
proof -
  assume "newline \<notin> set s"
  then have "str_partition [newline] s = None"
    unfolding str_partition_None_iff by (auto simp: sublist_def)
  then show ?thesis by (subst str_split.simps) simp
qed

lemma str_partition_lf: "newline \<notin> set a \<Longrightarrow> str_partition [newline] (a @ newline # b) = Some (a, b)"
  by (induction a) auto

lemma lf_lines_cons: "newline \<notin> set a \<Longrightarrow> lf_lines (a @ newline # b) = a # lf_lines b"
  by (subst str_split.simps) (simp add: str_partition_lf)

text \<open>A text is one line, or a line, a line feed and the rest.\<close>

lemma lf_cases:
  obtains "newline \<notin> set s" | a b where "s = a @ newline # b" "newline \<notin> set a"
  by (metis split_list_first)

lemma lf_induct [case_names last cons]:
  assumes "\<And>s. newline \<notin> set s \<Longrightarrow> P s"
    and "\<And>a b. newline \<notin> set a \<Longrightarrow> P b \<Longrightarrow> P (a @ newline # b)"
  shows "P s"
proof (induction s rule: measure_induct_rule [of length])
  case (less s)
  show ?case
  proof (rule lf_cases [of s])
    fix a b assume s: "s = a @ newline # b" "newline \<notin> set a"
    then have "P b" by (intro less) simp
    with s show ?thesis using assms(2) by simp
  qed (rule assms(1))
qed

lemma newline_notin_lf_lines: "l \<in> set (lf_lines s) \<Longrightarrow> newline \<notin> set l"
  by (induction s rule: lf_induct) (auto simp: lf_lines_none lf_lines_cons)

context line_pattern
begin

theorem finds_lines:
  assumes "line_of [] = None"
  shows "at_bol (p, s) \<Longrightarrow> finds m p s = List.map_filter line_of (lf_lines s)"
proof (induction s arbitrary: p rule: lf_induct)
  have "m (q, []) = []" for q
    using miss [of q "[]" "[]"] only_bol [of "(q, [])"] assms
    by (cases "at_bol (q, [])") (simp_all add: is_eol_def)
  then have nil: "finds m q [] = []" for q by (subst finds.simps) simp
  case (last s)
  show ?case
  proof (cases "s = []")
    case True
    then show ?thesis using assms by (simp add: nil lf_lines_none map_filter_simps)
  next
    case False
    with last finds_line [of p s "[]"] show ?thesis
      by (auto simp: is_eol_def nil lf_lines_none map_filter_simps split: option.split)
  qed
next
  case (cons a b)
  have step: "finds m q (newline # b) = finds m (newline # q) b" if "\<not> at_bol (q, []) \<or> m (q, newline # b) = []" for q
    by (subst finds.simps) (use that only_bol [of "(q, newline # b)"] in \<open>auto simp: at_bol_def\<close>)
  have IH: "finds m (newline # q) b = List.map_filter line_of (lf_lines b)" for q
    by (rule cons.IH) (simp add: at_bol_def)
  show ?case
  proof (cases "a = []")
    case True
    have "m (p, newline # b) = []"
      using miss [of p "[]" "newline # b"] cons.prems True assms by (auto simp: is_eol_def)
    with True step IH show ?thesis using lf_lines_cons [of a b] cons.hyps assms
      by (auto simp: map_filter_simps)
  next
    case False
    have "finds m p (a @ newline # b) =
        (case line_of a of None \<Rightarrow> [] | Some g \<Rightarrow> [g]) @ finds m (rev a @ p) (newline # b)"
      by (rule finds_line) (use cons False in \<open>auto simp: is_eol_def\<close>)
    also have "finds m (rev a @ p) (newline # b) = List.map_filter line_of (lf_lines b)"
    proof (subst step)
      show "\<not> at_bol (rev a @ p, []) \<or> m (rev a @ p, newline # b) = []"
        using False cons.hyps by (auto simp: last_notin at_bol_def hd_append hd_rev)
    qed (rule IH)
    finally show ?thesis using cons.hyps
      by (simp add: lf_lines_cons map_filter_simps split: option.split)
  qed
qed

end

subsection \<open>Line starts, and a lazy group before the end of a line\<close>

lemma concat_map_single: "concat (map (ends (RSeqs [])) cs) = cs"
  by (induction cs) (simp_all add: ends_RSeqs)

lemma capture_not_bol: "\<not> at_bol c \<Longrightarrow> capture (RSeqs (RBol # rs)) g k c = []"
  by (simp add: capture_def ends_RSeqs RBol_def)

lemma bol_start: "at_bol ([], s)"
  by (simp add: at_bol_def)

abbreviation rstrip_blank :: "string \<Rightarrow> string" where
  "rstrip_blank b \<equiv> rev (dropWhile chr_is_blank (rev b))"

lemma rstrip_blank_all: "list_all chr_is_blank b \<Longrightarrow> rstrip_blank b = []"
  by (simp add: list_all_iff)

lemma rstrip_blank_Cons: "\<not> list_all chr_is_blank (x # b) \<Longrightarrow> rstrip_blank (x # b) = x # rstrip_blank b"
  by (auto simp: list_all_iff dropWhile_append dest: dropWhile_eq_Nil_conv [THEN iffD1])

lemma rstrip_blank_prefix: "take (length (rstrip_blank b)) b = rstrip_blank b"
proof -
  have "b = rstrip_blank b @ rev (takeWhile chr_is_blank (rev b))"
    by (metis rev_append rev_rev_ident takeWhile_dropWhile_id)
  then show ?thesis by (metis append_eq_conv_conj)
qed

lemma rev_parts: "rev (dropWhile P b) @ rev (takeWhile P b) = rev b"
  by (metis rev_append takeWhile_dropWhile_id)

lemma star_head:
  "\<exists>ms. ends (RStar (RCls P)) (p, s) = (rev (takeWhile P s) @ p, dropWhile P s) # ms"
proof (induction s arbitrary: p)
  case (Cons x xs)
  show ?case
  proof (cases "P x")
    case True
    obtain ms where "ends (RStar (RCls P)) (x # p, xs) = (rev (takeWhile P xs) @ x # p, dropWhile P xs) # ms"
      using Cons by blast
    with True show ?thesis by (subst ends_RStar_cls) simp
  next
    case False
    then show ?thesis by (subst ends_RStar_cls) simp
  qed
qed (subst ends_RStar_cls, simp)

lemma star_only_longest:
  assumes "\<And>q x xs. P x \<Longrightarrow> F (q, x # xs) = []"
  shows "concat (map F (ends (RStar (RCls P)) (p, s))) = F (rev (takeWhile P s) @ p, dropWhile P s)"
proof (induction s arbitrary: p)
  case Nil
  then show ?case by (subst ends_RStar_cls) simp
next
  case (Cons x xs)
  then show ?case by (subst ends_RStar_cls) (simp add: assms)
qed

lemma lazy_group:
  assumes "newline \<notin> set b" "is_eol r" "length (b @ r) \<le> length (snd a)"
  shows "\<exists>ms. concat (map (\<lambda>c. map (\<lambda>e. (span a c, e)) (ends blanks_eol c)) (lazy_ends (\<lambda>x. x \<noteq> newline) q (b @ r))) =
    (take (length (snd a) - length (b @ r) + length (rstrip_blank b)) (snd a), (rev b @ q, r)) # ms"
  (is "\<exists>ms. concat (map ?F _) = _")
  using assms(1,3)
proof (induction b arbitrary: q)
  case Nil
  have "?F (q, r) = [(span a (q, r), (q, r))]"
    using ends_blanks_eol [of "[]" r q] assms(2) by simp
  then show ?case by (cases r) (simp_all add: span_def)
next
  case (Cons x b)
  show ?case
  proof (cases "list_all chr_is_blank (x # b)")
    case True
    have "?F (q, (x # b) @ r) = [(span a (q, (x # b) @ r), (rev (x # b) @ q, r))]"
      using ends_blanks_eol [OF Cons.prems(1) assms(2), of q] True by simp
    then show ?thesis unfolding rstrip_blank_all [OF True] by (simp add: span_def)
  next
    case False
    have F: "?F (q, (x # b) @ r) = []"
      using ends_blanks_eol [OF Cons.prems(1) assms(2), of q] False by simp
    have x: "x \<noteq> newline" using Cons.prems by auto
    have nb: "newline \<notin> set b" using Cons.prems(1) by simp
    have len: "length (b @ r) \<le> length (snd a)" using Cons.prems(2) by simp
    obtain ms where ms: "concat (map ?F (lazy_ends (\<lambda>x. x \<noteq> newline) (x # q) (b @ r))) =
        (take (length (snd a) - length (b @ r) + length (rstrip_blank b)) (snd a), (rev b @ x # q, r)) # ms"
      using Cons.IH [OF nb len] by blast
    have n: "length (snd a) - length ((x # b) @ r) + length (rstrip_blank (x # b)) =
        length (snd a) - length (b @ r) + length (rstrip_blank b)"
      using Cons.prems(2) unfolding rstrip_blank_Cons [OF False] by simp
    show ?thesis unfolding n using ms x F by simp
  qed
qed

lemma ends_bol: "at_bol c \<Longrightarrow> ends (RSeqs (RBol # rs)) c = ends (RSeqs rs) c"
  by (simp add: ends_RSeqs RBol_def)

end
