(* ===== verification/EconomyPolicy.thy ===== *)
theory EconomyPolicy
  imports CiGate PyFind PyEnv
begin

text \<open>
  \<open>tools/ci/check_ci_economy_policy.py\<close>: the workflow file of the CI must be explicit, cancellable
  and fail closed. The check reads the workflow as text, cut into the blocks of its jobs by regular
  expressions, and compares the jobs with the constants of the gate's evaluator, which it reads with
  Python's own parser: \<open>ast.parse\<close> is the field \<open>py_parse\<close> of the surroundings.
\<close>

subsection \<open>The Python source of the evaluator\<close>

text \<open>What the check sees of a module: assignments with their targets and the value
\<open>ast.literal_eval\<close> gives (\<open>None\<close>: not a literal), and other statements.\<close>

datatype pylit = LStr string | LTuple "pylit list" | LAtom string | LUnhashable string

datatype pytarget = TName string | TOther

datatype pystmt = SAssign "pytarget list" "pylit option" | SOther

fun lit_hashable :: "pylit \<Rightarrow> bool" where
  "lit_hashable (LTuple xs) = list_all lit_hashable xs"
| "lit_hashable (LUnhashable _) = False"
| "lit_hashable _ = True"

text \<open>\<open>py_parse text file_name\<close>: the statements of the module, or the text of the \<open>SyntaxError\<close>.\<close>

record policy_env =
  repo :: env
  py_parse :: "string \<Rightarrow> string \<Rightarrow> string + pystmt list"

subsection \<open>Constants\<close>

abbreviation sq :: "string \<Rightarrow> string" where "sq s \<equiv> squote # s @ [squote]"
abbreviation dq :: "string \<Rightarrow> string" where "dq s \<equiv> dquote # s @ [dquote]"

definition ALLOWED_HOSTED_RUNNERS :: "string list" where
  "ALLOWED_HOSTED_RUNNERS = [''ubuntu-latest'', ''macos-15'']"

definition GATE_EVALUATOR_CONSTANTS :: "string list" where
  "GATE_EVALUATOR_CONSTANTS = [''BASE_JOBS'', ''FULL_JOBS'', ''MAIN_JOBS'', ''APPROVAL_JOB'']"

definition required_tokens :: "string list" where
  "required_tokens =
     [''workflow_dispatch:'',
      ''types: [opened, reopened, synchronize]'',
      ''group: ${{ github.event_name == '' @ sq ''pull_request'' @ '' && format('' @ sq ''ci-pr-{0}'' @ '', github.event.pull_request.number) || format('' @ sq ''ci-run-{0}'' @ '', github.run_id) }}'',
      ''cancel-in-progress: ${{ github.event_name == '' @ sq ''pull_request'' @ '' }}'',
      ''pull-requests: read'',
      ''CI_COMMIT_SHA: ${{ github.event_name == '' @ sq ''pull_request'' @ '' && github.event.pull_request.head.sha || github.sha }}'',
      ''GH_TOKEN: ${{ github.token }}'',
      ''PR_CHANGED_FILES: ${{ github.event.pull_request.changed_files }}'',
      ''gh api --paginate --slurp'',
      ''tools/ci/classify_ci_scope.py'',
      ''--expected-count '' @ dq ''$PR_CHANGED_FILES'',
      ''ruleset_token: ${{ github.token }}'']"

definition forbidden_tokens :: "string list" where
  "forbidden_tokens =
     [''self-hosted'',
      ''pull_request_target:'',
      ''workflow_run:'',
      ''schedule:'',
      ''labeled'']"

definition sdk_platform_tokens :: "string list" where
  "sdk_platform_tokens =
     [''needs: [scope, full-ci-approval]'',
      ''always() &&'',
      ''needs.scope.result == '' @ sq ''success'',
      ''github.event_name != '' @ sq ''pull_request'',
      ''needs.scope.outputs.full_required == '' @ sq ''true'',
      ''needs.full-ci-approval.result == '' @ sq ''success'',
      ''runs-on: macos-15'']"

definition evidence_bundle_tokens :: "string list" where
  "evidence_bundle_tokens =
     [''always() &&'',
      ''needs.sdk-platform.result == '' @ sq ''success'']"

definition approval_tokens :: "string list" where
  "approval_tokens =
     [''name: Approve full CI'',
      ''needs: [scope, python-tooling, capid-csprng-audit, rust-core, ts-c01, ts-full, wasm-smoke]'',
      ''always() &&'',
      ''github.event_name == '' @ sq ''pull_request'',
      ''needs.scope.result == '' @ sq ''success'',
      ''needs.scope.outputs.full_required == '' @ sq ''true'',
      ''needs.python-tooling.result == '' @ sq ''success'',
      ''needs.capid-csprng-audit.result == '' @ sq ''success'',
      ''needs.rust-core.result == '' @ sq ''success'',
      ''needs.ts-c01.result == '' @ sq ''success'',
      ''needs.ts-full.result == '' @ sq ''success'',
      ''needs.wasm-smoke.result == '' @ sq ''success'',
      ''permissions: {}'',
      ''environment:'',
      ''name: full-ci'',
      ''deployment: false'']"

definition approval_forbidden :: "string list" where
  "approval_forbidden =
     [''uses:'',
      ''secrets.'',
      ''vars.'']"

definition main_only_jobs :: "string list" where
  "main_only_jobs =
     [''fuzz-smoke'',
      ''verify-script-smoke'']"

definition credential_jobs :: "string list" where
  "credential_jobs =
     [''scope'',
      ''verify-script-smoke'']"

definition gate_tokens :: "string list" where
  "gate_tokens =
     [''name: CI gate'',
      ''if: always()'',
      ''persist-credentials: false'',
      ''FULL_REQUIRED: ${{ needs.scope.outputs.full_required }}'',
      ''--full-required '' @ dq ''${FULL_REQUIRED}'',
      ''tools/ci/evaluate_ci_gate.py'',
      ''--job '' @ dq ''full-ci-approval=${{ needs.full-ci-approval.result }}'',
      ''--job '' @ dq ''evidence-bundle=${{ needs.evidence-bundle.result }}'']"

definition action_tokens :: "string list" where
  "action_tokens =
     [''ruleset_token:'',
      ''RULESET_DRIFT_ERR_TOKEN_MISSING'',
      ''inputs.run_main_ruleset_drift == '' @ sq ''true'' @ '' && inputs.ruleset_token == '' @ [squote, squote],
      ''GH_TOKEN: ${{ inputs.ruleset_token }}'',
      ''tools/ci/check_full_ci_environment.py'',
      ''--environment full-ci'']"

definition main_only_condition :: string where
  "main_only_condition =
     ''if: needs.scope.result == '' @ sq ''success'' @ '' && github.event_name != '' @ sq ''pull_request''"

subsection \<open>Tokens and blocks\<close>

definition missing_tokens :: "string \<Rightarrow> string \<Rightarrow> string list \<Rightarrow> string list" where
  "missing_tokens label doc tokens =
     map (\<lambda>token. label @ token) (filter (\<lambda>token. \<not> contains doc token) tokens)"

definition present_tokens :: "string \<Rightarrow> string \<Rightarrow> string list \<Rightarrow> string list" where
  "present_tokens label doc tokens =
     map (\<lambda>token. label @ token) (filter (\<lambda>token. contains doc token) tokens)"

text \<open>\<open>^  job:\s*$\<close>, and the line of any job.\<close>

definition job_head :: "string \<Rightarrow> char regex" where
  "job_head job_id = RSeqs [RBol, RLit ''  '', RLit job_id, RLit '':'', RStar (RCls chr_is_space), REol]"

definition any_job_head :: "char regex" where
  "any_job_head = RSeqs [RBol, RLit ''  '', RPlus (RCls chr_is_slug), RLit '':'',
     RStar (RCls chr_is_space), REol]"

definition job_block :: "string \<Rightarrow> string \<Rightarrow> string" where
  "job_block doc job_id =
     (case search_pos (job_head job_id) [] doc of
        None \<Rightarrow> []
      | Some (a, b) \<Rightarrow> span a (lazy_to (\<lambda>c. ends any_job_head c \<noteq> []) (fst b) (snd b)))"

subsection \<open>The workflow\<close>

definition upload_error :: "string list \<Rightarrow> nat \<Rightarrow> string list" where
  "upload_error lines index =
     (if contains (str_join [newline] (take 8 (drop (index + 1) lines))) ''retention-days:'' then []
      else [''ci: upload-artifact at line '' @ nat_str (index + 1) @ '' needs retention-days''])"

definition check_upload_retention :: "string \<Rightarrow> string list" where
  "check_upload_retention doc =
     (let lines = str_splitlines doc;
          uploads = filter (\<lambda>(index, line). contains line ''uses: actions/upload-artifact@'') (enum lines)
      in concat (map (\<lambda>(index, line). upload_error lines index) uploads) @
         (if uploads = [] then [''ci: expected at least one upload-artifact step''] else []))"

definition workflow_errors :: "string \<Rightarrow> string list" where
  "workflow_errors doc =
     missing_tokens ''ci: missing token: '' doc required_tokens @
     present_tokens ''ci: forbidden trigger or runner token present: '' doc forbidden_tokens @
     (if str_count doc ''runs-on: macos-15'' \<noteq> 1
      then [''ci: sdk-platform must be the only macOS job''] else []) @
     missing_tokens ''ci:sdk-platform: missing token: '' (job_block doc ''sdk-platform'') sdk_platform_tokens @
     missing_tokens ''ci:evidence-bundle: missing token: '' (job_block doc ''evidence-bundle'') evidence_bundle_tokens @
     missing_tokens ''ci:full-ci-approval: missing token: '' (job_block doc ''full-ci-approval'') approval_tokens @
     present_tokens ''ci:full-ci-approval: forbidden token: '' (job_block doc ''full-ci-approval'') approval_forbidden @
     concat (map (\<lambda>job_id. if contains (job_block doc job_id) main_only_condition then []
                           else [''ci:'' @ job_id @ '': missing main/manual-only condition'']) main_only_jobs) @
     concat (map (\<lambda>job_id. if contains (job_block doc job_id) ''persist-credentials: false'' then []
                           else [''ci:'' @ job_id @ '': checkout must disable credential persistence'']) credential_jobs) @
     missing_tokens ''ci:ci-gate: missing token: '' (job_block doc ''ci-gate'') gate_tokens @
     (if contains (job_block doc ''ci-gate'') (''--full-required '' @ dq ''${{ needs.scope.outputs.full_required }}'')
      then [''ci:ci-gate: scope output must not be interpolated directly into shell''] else []) @
     check_upload_retention doc"

definition check_ci_workflow :: "env \<Rightarrow> string \<Rightarrow> string list res" where
  "check_ci_workflow w path =
     (if \<not> path_exists w path then Inr [''ci: missing workflow '' @ path]
      else bindE (read_text w path) (\<lambda>doc. Inr (workflow_errors doc)))"

subsection \<open>Parity with the gate's evaluator\<close>

text \<open>The assignments to the four constants: the last one counts.\<close>

type_synonym constants = "(string \<times> pylit) list"

definition constant_step :: "constants + string \<Rightarrow> pystmt \<Rightarrow> constants + string" where
  "constant_step st stmt =
     (case st of
        Inr bad \<Rightarrow> Inr bad
      | Inl vals \<Rightarrow>
          (case stmt of
             SAssign [TName k] v \<Rightarrow>
               if k \<notin> set GATE_EVALUATOR_CONSTANTS then Inl vals
               else (case v of None \<Rightarrow> Inr k | Some x \<Rightarrow> Inl (AList.update k x vals))
           | _ \<Rightarrow> Inl vals))"

definition is_tuple :: "pylit option \<Rightarrow> bool" where
  "is_tuple v = (case v of Some (LTuple _) \<Rightarrow> True | _ \<Rightarrow> False)"

definition tuple_items :: "pylit option \<Rightarrow> pylit list" where
  "tuple_items v = (case v of Some (LTuple xs) \<Rightarrow> xs | _ \<Rightarrow> [])"

fun job_names :: "pylit list \<Rightarrow> string list option" where
  "job_names [] = Some []"
| "job_names (LStr s # xs) = (if s = [] then None else map_option ((#) s) (job_names xs))"
| "job_names (_ # xs) = None"

definition parity_err :: "string \<Rightarrow> string" where
  "parity_err s = ''ci-gate-parity: '' @ s"

text \<open>The set of the declared jobs is the list without its duplicates.\<close>

definition declared_jobs :: "constants \<Rightarrow> (string list \<times> string list) res" where
  "declared_jobs vals =
     (let missing = py_sorted (list_minus GATE_EVALUATOR_CONSTANTS (map fst vals));
          untupled = filter (\<lambda>k. \<not> is_tuple (map_of vals k)) [''BASE_JOBS'', ''FULL_JOBS'', ''MAIN_JOBS'']
      in if missing \<noteq> [] then Inr ([], [parity_err (''missing evaluator constants: '' @ strs_repr missing)])
         else if untupled \<noteq> []
              then Inr ([], [parity_err (''evaluator constant must be a tuple: '' @ hd untupled)])
         else (case map_of vals ''APPROVAL_JOB'' of
                 Some (LStr approval) \<Rightarrow>
                   (let items = tuple_items (map_of vals ''BASE_JOBS'') @ tuple_items (map_of vals ''FULL_JOBS'') @
                                tuple_items (map_of vals ''MAIN_JOBS'')
                    in if \<not> list_all lit_hashable items then Inl TypeError
                       else (case job_names (items @ [LStr approval]) of
                               None \<Rightarrow> Inr ([], [parity_err ''evaluator job names must be non-empty strings''])
                             | Some jobs \<Rightarrow> Inr (remdups jobs, [])))
               | _ \<Rightarrow> Inr ([], [parity_err ''APPROVAL_JOB must be a string''])))"

definition evaluator_job_ids :: "policy_env \<Rightarrow> string \<Rightarrow> (string list \<times> string list) res" where
  "evaluator_job_ids w path =
     (if \<not> path_exists (repo w) path then Inr ([], [parity_err (''missing evaluator '' @ path)])
      else bindE (read_text (repo w) path) (\<lambda>source.
        (case py_parse w source path of
           Inl exc \<Rightarrow> Inr ([], [parity_err (''invalid evaluator syntax: '' @ exc)])
         | Inr body \<Rightarrow>
             (case foldl constant_step (Inl []) body of
                Inr k \<Rightarrow> Inr ([], [parity_err (''evaluator constant is not literal: '' @ k)])
              | Inl vals \<Rightarrow> declared_jobs vals))))"

text \<open>The patterns that read the jobs, the needs and the arguments of the gate.\<close>

definition chr_is_quote :: "char \<Rightarrow> bool" where
  "chr_is_quote c = (c = squote \<or> c = dquote)"

definition jobs_line :: "char regex" where
  "jobs_line = RSeqs [RBol, RLit ''jobs:'', blanks_eol]"

definition job_key :: matcher where
  "job_key = capture (RSeqs [RBol, RLit ''  '', ROpt (RCls chr_is_quote)]) (ends (RPlus (RCls chr_is_slug)))
     (RSeqs [ROpt (RCls chr_is_quote), RLit '':'', blanks_eol])"

definition need_item :: matcher where
  "need_item = capture (RSeqs [RBol, RLit ''      - '']) (ends (RPlus (RCls chr_is_slug))) blanks_eol"

definition job_argument :: matcher where
  "job_argument = capture (RLit (''--job '' @ [dquote])) (ends (RPlus (RCls chr_is_slug))) (RLit ''='')"

definition workflow_jobs :: "string \<Rightarrow> string list option" where
  "workflow_jobs doc =
     (case search_pos jobs_line [] doc of
        None \<Rightarrow> None
      | Some (_, b) \<Rightarrow> Some (finds job_key [] (snd b)))"

definition gate_needs :: "string \<Rightarrow> string list" where
  "gate_needs doc = finds need_item [] (job_block doc ''ci-gate'')"

definition gate_arguments :: "string \<Rightarrow> string list" where
  "gate_arguments doc = finds job_argument [] (job_block doc ''ci-gate'')"

definition parity_error :: "string list \<Rightarrow> string \<times> string list \<Rightarrow> string list" where
  "parity_error expected comparison =
     (case comparison of (label, actual) \<Rightarrow>
        if set actual \<noteq> set expected
        then [parity_err (label @ '' mismatch: missing='' @ strs_repr (py_sorted (list_minus expected actual)) @
                '' extra='' @ strs_repr (py_sorted (list_minus actual expected)))]
        else [])"

definition check_ci_gate_job_parity :: "policy_env \<Rightarrow> string \<Rightarrow> string \<Rightarrow> string list res" where
  "check_ci_gate_job_parity w ci evaluator =
     (if \<not> path_exists (repo w) ci then Inr [parity_err (''missing workflow '' @ ci)]
      else bindE (evaluator_job_ids w evaluator) (\<lambda>(expected, errors).
        if errors \<noteq> [] then Inr errors
        else bindE (read_text (repo w) ci) (\<lambda>doc.
          (case workflow_jobs doc of
             None \<Rightarrow> Inr [parity_err ''workflow has no jobs mapping'']
           | Some jobs \<Rightarrow>
               Inr (concat (map (parity_error expected)
                      [(''workflow upstream jobs'', filter (\<lambda>j. j \<noteq> ''ci-gate'') jobs),
                       (''ci-gate needs'', gate_needs doc),
                       (''ci-gate --job arguments'', gate_arguments doc)]) @
                    (if ''ci-gate'' \<notin> set jobs then [parity_err ''workflow is missing ci-gate''] else []))))))"

subsection \<open>Runners\<close>

definition runs_on :: matcher where
  "runs_on = capture (RSeqs [RBol, RStar (RCls chr_is_blank), RLit ''runs-on:'', RStar (RCls chr_is_blank)])
     (\<lambda>c. lazy_ends (\<lambda>x. x \<noteq> newline) (fst c) (snd c)) blanks_eol"

definition runner_errors :: "string \<Rightarrow> string \<Rightarrow> string list" where
  "runner_errors workflow doc =
     map (\<lambda>runner. ''workflow: public repository runner is not in the hosted allowlist: '' @
            workflow @ '': '' @ runner)
       (filter (\<lambda>runner. runner \<notin> set ALLOWED_HOSTED_RUNNERS)
         (map (str_strip_chars [dquote, squote]) (finds runs_on [] doc)))"

definition check_no_self_hosted :: "env \<Rightarrow> string \<Rightarrow> string list res" where
  "check_no_self_hosted w workflows_dir =
     bindE (mapE (\<lambda>workflow. bindE (read_text w workflow) (\<lambda>doc. Inr (runner_errors workflow doc)))
              (sort_key path_parts (dir_glob w workflows_dir ''*.y*ml'')))
       (\<lambda>errors. Inr (concat errors))"

subsection \<open>Contracts of the other files\<close>

definition context_error :: "env \<Rightarrow> string \<times> string \<Rightarrow> string list res" where
  "context_error w check =
     (case check of (path, token) \<Rightarrow>
        if \<not> path_exists w path then Inr [''context: missing file '' @ path]
        else bindE (read_text w path) (\<lambda>doc.
          Inr (if contains doc token then [] else [''context: '' @ path @ '' missing token: '' @ token])))"

definition check_required_context ::
  "env \<Rightarrow> string \<Rightarrow> string \<Rightarrow> string \<Rightarrow> string \<Rightarrow> string \<Rightarrow> string list res" where
  "check_required_context w action drift_checker apply_script governance settings_doc =
     bindE (mapE (context_error w)
       [(action, ''default: CI gate''), (drift_checker, ''default='' @ dq ''CI gate''),
        (apply_script, ''{'' @ dq ''context'' @ '': '' @ dq ''CI gate'' @ ''}''),
        (governance, ''required check: `CI gate`''),
        (settings_doc, ''require the single final check `CI gate`'')])
       (\<lambda>errors. Inr (concat errors))"

definition check_ruleset_token_contract :: "env \<Rightarrow> string \<Rightarrow> string \<Rightarrow> string list res" where
  "check_ruleset_token_contract w action ci =
     (let missing = filter (\<lambda>path. \<not> path_exists w path) [action, ci]
      in if missing \<noteq> [] then Inr (map (\<lambda>path. ''ruleset-token: missing file '' @ path) missing)
         else bindE (read_text w action) (\<lambda>action_text.
              bindE (read_text w ci) (\<lambda>ci_text.
                Inr (missing_tokens ''ruleset-token: action missing token: '' action_text action_tokens @
                     (if contains ci_text ''ruleset_token: ${{ github.token }}'' then []
                      else [''ruleset-token: CI must use the built-in read token'']) @
                     (if contains action_text ''DEPENDABOT_AUTOMERGE_TOKEN'' \<or>
                         contains ci_text ''DEPENDABOT_AUTOMERGE_TOKEN''
                      then [''ruleset-token: obsolete privileged Dependabot token is forbidden''] else [])))))"

definition owner_error :: "env \<Rightarrow> string \<times> string list \<Rightarrow> string list res" where
  "owner_error w check =
     (case check of (path, tokens) \<Rightarrow>
        if \<not> path_exists w path then Inr [''owner-settings: missing file '' @ path]
        else bindE (read_text w path) (\<lambda>doc.
          Inr (missing_tokens (''owner-settings: '' @ path @ '' missing token: '') doc tokens)))"

definition check_owner_settings_contract :: "env \<Rightarrow> string \<Rightarrow> string \<Rightarrow> string \<Rightarrow> string list res" where
  "check_owner_settings_contract w checker apply_script settings_doc =
     bindE (mapE (owner_error w)
       [(checker, [''all_external_contributors'', ''--check-owner-only-settings'',
                   ''fork-pr-contributor-approval'', ''/secrets'', ''/variables'']),
        (apply_script, [''approval_policy=all_external_contributors'', ''--check-owner-only-settings'']),
        (settings_doc, [''fork PR workflow approval: `all_external_contributors`'',
                        ''every external contributor''])])
       (\<lambda>errors. Inr (concat errors))"

subsection \<open>Entry point\<close>

record economy_args =
  ea_ci :: string
  ea_gate_evaluator :: string
  ea_workflows_dir :: string
  ea_action :: string
  ea_drift_checker :: string
  ea_apply_script :: string
  ea_full_ci_checker :: string
  ea_full_ci_apply_script :: string
  ea_governance :: string
  ea_settings_doc :: string

definition economy_defaults :: economy_args where
  "economy_defaults =
     \<lparr>ea_ci = ''.github/workflows/ci.yml'', ea_gate_evaluator = ''tools/ci/evaluate_ci_gate.py'',
      ea_workflows_dir = ''.github/workflows'', ea_action = ''.github/actions/python-policy-checks/action.yml'',
      ea_drift_checker = ''tools/ci/check_branch_protection_drift.py'',
      ea_apply_script = ''tools/github/apply_branch_protection.sh'',
      ea_full_ci_checker = ''tools/ci/check_full_ci_environment.py'',
      ea_full_ci_apply_script = ''tools/github/apply_full_ci_environment.sh'',
      ea_governance = ''GOVERNANCE.md'', ea_settings_doc = ''docs/human/repository-settings.md''\<rparr>"

definition economy_errors :: "policy_env \<Rightarrow> economy_args \<Rightarrow> string list res" where
  "economy_errors w a =
     bindE (check_ci_workflow (repo w) (path_str (ea_ci a))) (\<lambda>e1.
     bindE (check_ci_gate_job_parity w (path_str (ea_ci a)) (path_str (ea_gate_evaluator a))) (\<lambda>e2.
     bindE (check_no_self_hosted (repo w) (path_str (ea_workflows_dir a))) (\<lambda>e3.
     bindE (check_ruleset_token_contract (repo w) (path_str (ea_action a)) (path_str (ea_ci a))) (\<lambda>e4.
     bindE (check_owner_settings_contract (repo w) (path_str (ea_full_ci_checker a)) (path_str (ea_full_ci_apply_script a)) (path_str (ea_settings_doc a))) (\<lambda>e5.
     bindE (check_required_context (repo w) (path_str (ea_action a)) (path_str (ea_drift_checker a)) (path_str (ea_apply_script a)) (path_str (ea_governance a))
              (path_str (ea_settings_doc a))) (\<lambda>e6.
     Inr (e1 @ e2 @ e3 @ e4 @ e5 @ e6)))))))"

definition economy_main :: "policy_env \<Rightarrow> economy_args \<Rightarrow> (nat \<times> string list) res" where
  "economy_main w a =
     bindE (economy_errors w a) (\<lambda>errors.
       if errors \<noteq> [] then Inr (1, ''CI economy policy check failed:'' # map (\<lambda>e. ''- '' @ e) errors)
       else Inr (0, [''CI economy policy check: OK'']))"

end
