(* ===== verification/EconomyPolicyProps.thy ===== *)
theory EconomyPolicyProps
  imports EconomyPolicy
begin

text \<open>
  The patterns of the economy policy read the workflow line by line: each of them is an
  interpretation of \<open>line_pattern\<close>. From this follow the jobs a passing workflow has, their
  agreement with the gate, and the runners it may use.
\<close>

subsection \<open>Captures\<close>

lemma span_takeWhile: "span (p, s) (q, dropWhile P s) = takeWhile P s"
proof -
  have "length s - length (dropWhile P s) = length (takeWhile P s)"
    by (metis add_diff_cancel_right' length_append takeWhile_dropWhile_id)
  then show ?thesis by (simp add: span_def takeWhile_eq_take [symmetric])
qed

lemma plus_captured:
  assumes "\<And>q x xs. P x \<Longrightarrow> ends k (q, x # xs) = []"
  shows "concat (map (\<lambda>b. map (\<lambda>e. (span (p, s) b, e)) (ends k b)) (ends (RPlus (RCls P)) (p, s))) =
    (if takeWhile P s = [] then []
     else map (\<lambda>e. (takeWhile P s, e)) (ends k (rev (takeWhile P s) @ p, dropWhile P s)))"
proof (cases s)
  case (Cons x xs)
  show ?thesis
  proof (cases "P x")
    case True
    let ?F = "\<lambda>b. map (\<lambda>e. (span (p, s) b, e)) (ends k b)"
    have "concat (map ?F (ends (RPlus (RCls P)) (p, s))) =
        concat (map ?F (ends (RStar (RCls P)) (x # p, xs)))"
      using True Cons by (simp add: RPlus_def)
    also have "\<dots> = ?F (rev (takeWhile P xs) @ x # p, dropWhile P xs)"
      by (rule star_only_longest) (simp add: assms)
    also have "\<dots> = map (\<lambda>e. (takeWhile P s, e)) (ends k (rev (takeWhile P s) @ p, dropWhile P s))"
      using True Cons span_takeWhile [of p s _ P] by simp
    finally show ?thesis using True Cons by simp
  qed (simp add: Cons RPlus_def)
qed (simp add: RPlus_def)

lemma capture_plus:
  assumes "\<And>q x xs. P x \<Longrightarrow> ends k (q, x # xs) = []"
  shows "capture r (ends (RPlus (RCls P))) k c =
    concat (map (\<lambda>(p, s). if takeWhile P s = [] then []
       else map (\<lambda>e. (takeWhile P s, e)) (ends k (rev (takeWhile P s) @ p, dropWhile P s))) (ends r c))"
  unfolding capture_def using plus_captured [of P k, OF assms]
  by (intro arg_cong [of _ _ concat] map_cong) auto

subsection \<open>The lines the patterns read\<close>

definition need_line :: "string \<Rightarrow> string option" where
  "need_line l =
     (if prefix ''      - '' l then
        let t = drop 8 l; n = takeWhile chr_is_slug t
        in if n \<noteq> [] \<and> list_all chr_is_blank (dropWhile chr_is_slug t) then Some n else None
      else None)"

definition unquote :: "string \<Rightarrow> string" where
  "unquote s = (case s of c # cs \<Rightarrow> if chr_is_quote c then cs else s | [] \<Rightarrow> [])"

definition key_line :: "string \<Rightarrow> string option" where
  "key_line l =
     (if prefix ''  '' l then
        let t = unquote (drop 2 l); n = takeWhile chr_is_slug t; e = unquote (dropWhile chr_is_slug t)
        in if n \<noteq> [] \<and> prefix '':'' e \<and> list_all chr_is_blank (tl e) then Some n else None
      else None)"

definition runner_line :: "string \<Rightarrow> string option" where
  "runner_line l =
     (let t = dropWhile chr_is_blank l
      in if prefix ''runs-on:'' t
         then Some (rev (dropWhile chr_is_blank (rev (dropWhile chr_is_blank (drop 8 t))))) else None)"

lemma slug_chars:
  assumes "chr_is_slug c"
  shows "c \<noteq> newline" "\<not> chr_is_blank c" "\<not> chr_is_quote c" "c \<noteq> CHR '':''"
  using assms by (auto simp: chr_is_slug_def chr_is_blank_def chr_is_quote_def chr_is_ascii_alpha_def
      chr_is_ascii_digit_def)

lemma not_slug [simp]: "\<not> chr_is_slug newline"
  using slug_chars(1) by blast

lemma ends_blanks_cons:
  assumes "x \<noteq> newline" "\<not> chr_is_blank x"
  shows "ends blanks_eol (q, x # xs) = []"
proof (cases "newline \<in> set xs")
  case False
  with assms ends_blanks_eol [of "x # xs" "[]" q] show ?thesis by (auto simp: is_eol_def)
next
  case True
  then obtain a b where "xs = a @ newline # b" "newline \<notin> set a"
    by (metis split_list_first)
  with assms ends_blanks_eol [of "x # a" "newline # b" q] show ?thesis by (auto simp: is_eol_def)
qed

lemma need_item_line:
  assumes "at_bol (p, l @ r)" "newline \<notin> set l" "is_eol r"
  shows "need_item (p, l @ r) = (case need_line l of None \<Rightarrow> [] | Some g \<Rightarrow> [(g, (rev l @ p, r))])"
proof (cases "prefix ''      - '' l")
  case False
  with assms show ?thesis
    by (simp add: need_item_def capture_def need_line_def RBol_def ends_RSeqs ends_RLit prefix_eol)
next
  case True
  define h where "h = ''      - ''"
  from True obtain t where l: "l = h @ t" by (auto simp: prefix_def h_def)
  have n: "newline \<notin> set (dropWhile chr_is_slug t)" using assms(2) l by (auto dest: set_dropWhileD)
  have t: "rev (dropWhile chr_is_slug t) @ rev (takeWhile chr_is_slug t) = rev t"
    by (metis rev_append takeWhile_dropWhile_id)
  have pre: "ends (RSeqs [RBol, RLit h]) (p, l @ r) = [(rev h @ p, t @ r)]"
    using assms(1) l by (simp add: RBol_def ends_RSeqs ends_RLit)
  have "need_item (p, l @ r) =
      (if takeWhile chr_is_slug t = [] then []
       else map (\<lambda>e. (takeWhile chr_is_slug t, e))
              (ends blanks_eol (rev (takeWhile chr_is_slug t) @ rev h @ p, dropWhile chr_is_slug t @ r)))"
    unfolding need_item_def h_def [symmetric]
    by (subst capture_plus) (simp_all add: pre ends_blanks_cons slug_chars takeWhile_eol dropWhile_eol assms(3))
  also have "\<dots> = (case need_line l of None \<Rightarrow> [] | Some g \<Rightarrow> [(g, (rev l @ p, r))])"
    using True t by (simp add: need_line_def ends_blanks_eol n assms(3) l Let_def h_def flip: append_assoc)
  finally show ?thesis .
qed

text \<open>The end of a job line: a quote that may be there, the colon and blanks.\<close>

definition key_end :: "char regex" where
  "key_end = RSeqs [ROpt (RCls chr_is_quote), RLit '':'', blanks_eol]"

lemma quote_chars: "chr_is_quote c \<Longrightarrow> c \<noteq> CHR '':'' \<and> c \<noteq> newline \<and> \<not> chr_is_slug c"
  using slug_chars(3) by (auto simp: chr_is_quote_def)

lemma not_quote_eol [simp]: "\<not> chr_is_quote newline" "\<not> chr_is_quote CHR '':''"
  using quote_chars by blast+

lemma ends_colon:
  assumes "newline \<notin> set e" "is_eol r"
  shows "ends (RSeqs [RLit '':'', blanks_eol]) (q, e @ r) =
    (if prefix '':'' e \<and> list_all chr_is_blank (tl e) then [(rev e @ q, r)] else [])"
proof (cases e)
  case Nil
  with assms(2) show ?thesis by (cases r) (auto simp: ends_RSeqs ends_RLit is_eol_def)
next
  case (Cons x xs)
  with assms show ?thesis by (simp add: ends_RSeqs ends_RLit ends_blanks_eol)
qed

lemma ends_key_end_unfold:
  "ends key_end c = concat (map (ends (RSeqs [RLit '':'', blanks_eol])) (ends (ROpt (RCls chr_is_quote)) c))"
  by (simp add: key_end_def ends_RSeqs(2) [of "ROpt _"])

lemma ends_key_end:
  assumes "newline \<notin> set e" "is_eol r"
  shows "ends key_end (q, e @ r) =
    (if prefix '':'' (unquote e) \<and> list_all chr_is_blank (tl (unquote e)) then [(rev e @ q, r)] else [])"
proof (cases e)
  case Nil
  with ends_colon [OF assms, of q] assms(2) show ?thesis
    by (cases r) (auto simp: ends_key_end_unfold ROpt_def unquote_def is_eol_def)
next
  case (Cons x xs)
  show ?thesis
  proof (cases "chr_is_quote x")
    case True
    have n: "newline \<notin> set xs" using assms(1) Cons by simp
    have "ends (RSeqs [RLit '':'', blanks_eol]) (q, x # xs @ r) = []"
      using quote_chars [OF True] by (auto simp: ends_RSeqs ends_RLit)
    with True Cons ends_colon [OF n assms(2), of "x # q"] show ?thesis
      by (simp add: ends_key_end_unfold ROpt_def unquote_def)
  next
    case False
    with Cons ends_colon [OF assms, of q] show ?thesis
      by (simp add: ends_key_end_unfold ROpt_def unquote_def)
  qed
qed

lemma key_end_slug:
  assumes "chr_is_slug x" shows "ends key_end (q, x # xs) = []"
  using slug_chars [OF assms]
  by (auto simp: ends_key_end_unfold ROpt_def ends_RSeqs ends_RLit)

lemma unquote_split:
  obtains z where "t = z @ unquote t" "list_all chr_is_quote z"
proof (cases t)
  case Nil
  then show thesis using that [of "[]"] by (simp add: unquote_def)
next
  case (Cons x xs)
  then show thesis using that [of "if chr_is_quote x then [x] else []"] by (simp add: unquote_def)
qed

lemma ends_opt_quote:
  assumes "\<And>x xs. chr_is_quote x \<Longrightarrow> F (p, x # xs) = []" and "is_eol r" and "t = z @ unquote t"
  shows "concat (map F (ends (ROpt (RCls chr_is_quote)) (p, t @ r))) = F (rev z @ p, unquote t @ r)"
proof (cases t)
  case Nil
  with assms show ?thesis by (cases r) (auto simp: ROpt_def unquote_def is_eol_def)
next
  case (Cons x xs)
  with assms show ?thesis by (auto simp: ROpt_def unquote_def split: if_splits)
qed

lemma job_key_line:
  assumes "at_bol (p, l @ r)" "newline \<notin> set l" "is_eol r"
  shows "job_key (p, l @ r) = (case key_line l of None \<Rightarrow> [] | Some g \<Rightarrow> [(g, (rev l @ p, r))])"
proof (cases "prefix ''  '' l")
  case False
  with assms show ?thesis
    by (simp add: job_key_def capture_def key_line_def RBol_def ends_RSeqs ends_RLit prefix_eol)
next
  case True
  define h where "h = ''  ''"
  from True obtain t where l: "l = h @ t" by (auto simp: prefix_def h_def)
  obtain z where z: "t = z @ unquote t" using unquote_split by blast
  let ?w = "takeWhile chr_is_slug (unquote t)" and ?e = "dropWhile chr_is_slug (unquote t)"
  have "set (unquote t) \<subseteq> set l" using l z by (metis Un_iff set_append subsetI)
  then have n: "newline \<notin> set ?e" using assms(2) by (auto dest: set_dropWhileD)
  have t: "rev ?e @ rev ?w @ rev z = rev t"
    by (metis append.assoc rev_append takeWhile_dropWhile_id z)
  define F where "F = (\<lambda>(p, s). if takeWhile chr_is_slug s = [] then []
     else map (\<lambda>e. (takeWhile chr_is_slug s, e))
            (ends key_end (rev (takeWhile chr_is_slug s) @ p, dropWhile chr_is_slug s)))"
  have "job_key (p, l @ r) = concat (map F (ends (RSeqs [RBol, RLit h, ROpt (RCls chr_is_quote)]) (p, l @ r)))"
    unfolding job_key_def h_def [symmetric] key_end_def [symmetric] F_def
    by (rule capture_plus) (rule key_end_slug)
  also have "ends (RSeqs [RBol, RLit h, ROpt (RCls chr_is_quote)]) (p, l @ r) =
      ends (ROpt (RCls chr_is_quote)) (rev h @ p, t @ r)"
    using assms(1) l by (simp add: RBol_def ends_RSeqs ends_RLit concat_map_single)
  also have "concat (map F \<dots>) = F (rev z @ rev h @ p, unquote t @ r)"
    by (rule ends_opt_quote [OF _ assms(3) z]) (auto simp: F_def dest: quote_chars)
  also have "\<dots> = (case key_line l of None \<Rightarrow> [] | Some g \<Rightarrow> [(g, (rev l @ p, r))])"
    using True t by (simp add: F_def key_line_def takeWhile_eol dropWhile_eol assms(3) ends_key_end n l h_def
        Let_def flip: append_assoc)
  finally show ?thesis .
qed

subsection \<open>Runner lines\<close>

lemma runs_on_line:
  assumes "at_bol (p, l @ r)" "newline \<notin> set l" "is_eol r"
  shows "case runner_line l of None \<Rightarrow> runs_on (p, l @ r) = []
    | Some g \<Rightarrow> \<exists>ms. runs_on (p, l @ r) = (g, (rev l @ p, r)) # ms"
proof -
  define h where "h = ''runs-on:''"
  let ?t = "dropWhile chr_is_blank l"
  let ?q = "rev (takeWhile chr_is_blank l) @ p"
  have h: "\<And>q x xs. chr_is_blank x \<Longrightarrow> ends (RSeqs [RLit h, RStar (RCls chr_is_blank)]) (q, x # xs) = []"
    by (auto simp: h_def ends_RSeqs ends_RLit chr_is_blank_def)
  have pre: "ends (RSeqs [RBol, RStar (RCls chr_is_blank), RLit h, RStar (RCls chr_is_blank)]) (p, l @ r) =
      ends (RSeqs [RLit h, RStar (RCls chr_is_blank)]) (?q, ?t @ r)"
    unfolding ends_bol [OF assms(1)] ends_RSeqs(2) [of "RStar (RCls chr_is_blank)" "[RLit h, RStar (RCls chr_is_blank)]"]
    by (subst ends_greedy [where P = chr_is_blank, OF h])
       (simp_all add: takeWhile_eol dropWhile_eol assms(3))
  show ?thesis
  proof (cases "prefix h ?t")
    case False
    then have "runs_on (p, l @ r) = []"
      unfolding runs_on_def capture_def h_def [symmetric] pre
      by (simp add: ends_RSeqs ends_RLit prefix_eol [OF assms(3)] h_def)
    with False show ?thesis by (simp add: runner_line_def h_def)
  next
    case True
    then obtain b where b: "?t = h @ b" by (auto simp: prefix_def)
    let ?w = "takeWhile chr_is_blank b" and ?b = "dropWhile chr_is_blank b"
    have l: "l = takeWhile chr_is_blank l @ h @ ?w @ ?b"
      using b by (metis takeWhile_dropWhile_id)
    have n: "newline \<notin> set ?b" using assms(2) l by (metis Un_iff set_append)
    obtain ms where ms: "ends (RStar (RCls chr_is_blank)) (rev h @ ?q, b @ r) =
        (rev ?w @ rev h @ ?q, ?b @ r) # ms"
      using star_head [of chr_is_blank "rev h @ ?q" "b @ r"]
      by (auto simp: takeWhile_eol dropWhile_eol assms(3))
    let ?a = "(rev ?w @ rev h @ ?q, ?b @ r)"
    obtain ks where ks: "concat (map (\<lambda>c. map (\<lambda>e. (span ?a c, e)) (ends blanks_eol c))
        (lazy_ends (\<lambda>x. x \<noteq> newline) (rev ?w @ rev h @ ?q) (?b @ r))) =
        (take (length (rstrip_blank ?b)) (?b @ r), (rev ?b @ rev ?w @ rev h @ ?q, r)) # ks"
      using lazy_group [OF n assms(3), of ?a "rev ?w @ rev h @ ?q"] by auto
    have "take (length (rstrip_blank ?b)) (?b @ r) = rstrip_blank ?b"
      using rstrip_blank_prefix [of ?b] length_dropWhile_le [of chr_is_blank "rev ?b"] by simp
    moreover have "rev ?b @ rev ?w @ rev h @ ?q = rev l @ p"
      using arg_cong [OF l, of rev] rev_parts [of chr_is_blank b] by simp
    moreover have "ends (RSeqs [RLit h, RStar (RCls chr_is_blank)]) (?q, ?t @ r) = ?a # ms"
      using b by (simp add: ends_RSeqs ends_RLit ms concat_map_single)
    ultimately have "\<exists>js. runs_on (p, l @ r) = (rstrip_blank ?b, (rev l @ p, r)) # js"
      unfolding runs_on_def capture_def h_def [symmetric] pre using ks by simp
    moreover have "runner_line l = Some (rstrip_blank ?b)"
      using b by (simp add: runner_line_def h_def)
    ultimately show ?thesis by simp
  qed
qed

subsection \<open>The patterns are line patterns\<close>

interpretation needs: line_pattern need_item need_line
proof unfold_locales
  fix c assume "\<not> at_bol c"
  then show "need_item c = []" by (simp add: need_item_def capture_not_bol)
next
  fix p l r g
  assume a: "at_bol (p, l @ r)" "newline \<notin> set l" "is_eol r" "need_line l = Some g"
  then have "l \<noteq> []" by (auto simp: need_line_def)
  with a need_item_line [of p l r]
  show "\<exists>u v ms. need_item (p, l @ r) = (g, (rev u @ p, v @ r)) # ms \<and> l = u @ v \<and> u \<noteq> []"
    by (intro exI [of _ l] exI [of _ "[]"]) simp
next
  fix p l r
  assume "at_bol (p, l @ r)" "newline \<notin> set l" "is_eol r" "need_line l = None"
  then show "need_item (p, l @ r) = []" by (simp add: need_item_line)
qed

interpretation jobkeys: line_pattern job_key key_line
proof unfold_locales
  fix c assume "\<not> at_bol c"
  then show "job_key c = []" by (simp add: job_key_def capture_not_bol)
next
  fix p l r g
  assume a: "at_bol (p, l @ r)" "newline \<notin> set l" "is_eol r" "key_line l = Some g"
  then have "l \<noteq> []" by (auto simp: key_line_def)
  with a job_key_line [of p l r]
  show "\<exists>u v ms. job_key (p, l @ r) = (g, (rev u @ p, v @ r)) # ms \<and> l = u @ v \<and> u \<noteq> []"
    by (intro exI [of _ l] exI [of _ "[]"]) simp
next
  fix p l r
  assume "at_bol (p, l @ r)" "newline \<notin> set l" "is_eol r" "key_line l = None"
  then show "job_key (p, l @ r) = []" by (simp add: job_key_line)
qed

interpretation runners: line_pattern runs_on runner_line
proof unfold_locales
  fix c assume "\<not> at_bol c"
  then show "runs_on c = []" by (simp add: runs_on_def capture_not_bol)
next
  fix p l r g
  assume a: "at_bol (p, l @ r)" "newline \<notin> set l" "is_eol r" "runner_line l = Some g"
  then have "l \<noteq> []" by (auto simp: runner_line_def)
  moreover obtain ms where "runs_on (p, l @ r) = (g, (rev l @ p, r)) # ms"
    using a runs_on_line [of p l r] by auto
  ultimately have "runs_on (p, l @ r) = (g, (rev l @ p, [] @ r)) # ms \<and> l = l @ [] \<and> l \<noteq> []"
    by simp
  then show "\<exists>u v ms. runs_on (p, l @ r) = (g, (rev u @ p, v @ r)) # ms \<and> l = u @ v \<and> u \<noteq> []"
    by blast
next
  fix p l r
  assume "at_bol (p, l @ r)" "newline \<notin> set l" "is_eol r" "runner_line l = None"
  then show "runs_on (p, l @ r) = []" using runs_on_line [of p l r] by simp
qed

text \<open>What the three scans find is what the lines say.\<close>

lemma runs_on_lines: "finds runs_on [] s = List.map_filter runner_line (lf_lines s)"
  by (rule runners.finds_lines [OF _ bol_start]) (simp add: runner_line_def)

lemma job_key_lines: "finds job_key [] s = List.map_filter key_line (lf_lines s)"
  by (rule jobkeys.finds_lines [OF _ bol_start]) (simp add: key_line_def)

lemma need_item_lines: "finds need_item [] s = List.map_filter need_line (lf_lines s)"
  by (rule needs.finds_lines [OF _ bol_start]) (simp add: need_line_def)

subsection \<open>Runners\<close>

lemma runner_errors_Nil:
  "runner_errors p s = [] \<longleftrightarrow>
     str_strip_chars [dquote, squote] ` set (List.map_filter runner_line (lf_lines s)) \<subseteq> set ALLOWED_HOSTED_RUNNERS"
  by (auto simp: runner_errors_def runs_on_lines filter_empty_conv)

text \<open>C5: the runner check passes exactly when every workflow file can be read and every line of it
that names a runner, after blanks, names one of the two hosted ones, with or without quotes.\<close>

theorem hosted_runners_iff:
  "check_no_self_hosted w dir = Inr [] \<longleftrightarrow>
     (\<forall>p\<in>set (dir_glob w dir ''*.y*ml''). \<exists>s. file_text w p = Some s \<and>
        str_strip_chars [dquote, squote] ` set (List.map_filter runner_line (lf_lines s))
          \<subseteq> {''ubuntu-latest'', ''macos-15''})"
proof -
  let ?f = "\<lambda>p. bindE (read_text w p) (\<lambda>s. Inr (runner_errors p s))"
  have "check_no_self_hosted w dir = Inr [] \<longleftrightarrow>
      (\<exists>es. mapE ?f (sort_key path_parts (dir_glob w dir ''*.y*ml'')) = Inr es \<and> concat es = [])"
    by (auto simp: check_no_self_hosted_def res_simps)
  also have "\<dots> \<longleftrightarrow> (\<forall>p\<in>set (dir_glob w dir ''*.y*ml''). ?f p = Inr [])"
    by (simp only: mapE_concat_Nil set_sort)
  finally show ?thesis
    by (simp add: res_simps runner_errors_Nil ALLOWED_HOSTED_RUNNERS_def)
qed

text \<open>Two workflows, one of them with a quoted runner.\<close>

definition ex_runners :: env where
  "ex_runners = \<lparr>file_text = (\<lambda>p. if p = ''w/ci.yml'' then Some (''jobs:'' @ [newline] @ ''    runs-on: ubuntu-latest '' @ [newline])
       else if p = ''w/r.yaml'' then Some (''  runs-on: '' @ dq ''macos-15'' @ [newline] @ ''    steps:'') else None),
     json_loads = (\<lambda>_. None), is_dir = (\<lambda>_. False), dir_glob = (\<lambda>_ _. [''w/r.yaml'', ''w/ci.yml''])\<rparr>"

lemma ex_runner_lines:
  "str_strip_chars [dquote, squote] ` set (List.map_filter runner_line (lf_lines
     (''jobs:'' @ [newline] @ ''    runs-on: ubuntu-latest '' @ [newline]))) \<subseteq> {''ubuntu-latest'', ''macos-15''}"
  "str_strip_chars [dquote, squote] ` set (List.map_filter runner_line (lf_lines
     (''  runs-on: '' @ dq ''macos-15'' @ [newline] @ ''    steps:''))) \<subseteq> {''ubuntu-latest'', ''macos-15''}"
proof -
  have 1: "List.map_filter runner_line (lf_lines (''jobs:'' @ [newline] @ ''    runs-on: ubuntu-latest '' @ [newline])) =
      [''ubuntu-latest'']" by code_simp
  have 2: "List.map_filter runner_line (lf_lines (''  runs-on: '' @ dq ''macos-15'' @ [newline] @ ''    steps:'')) =
      [dq ''macos-15'']" by code_simp
  show "str_strip_chars [dquote, squote] ` set (List.map_filter runner_line (lf_lines
     (''jobs:'' @ [newline] @ ''    runs-on: ubuntu-latest '' @ [newline]))) \<subseteq> {''ubuntu-latest'', ''macos-15''}"
    unfolding 1 by (simp add: str_strip_chars_def)
  show "str_strip_chars [dquote, squote] ` set (List.map_filter runner_line (lf_lines
     (''  runs-on: '' @ dq ''macos-15'' @ [newline] @ ''    steps:''))) \<subseteq> {''ubuntu-latest'', ''macos-15''}"
    unfolding 2 by (simp add: str_strip_chars_def)
qed

theorem hosted_runners_iff_witness: "check_no_self_hosted ex_runners ''w'' = Inr []"
proof (rule hosted_runners_iff [THEN iffD2], intro ballI)
  fix p assume "p \<in> set (dir_glob ex_runners ''w'' ''*.y*ml'')"
  then have "p = ''w/r.yaml'' \<or> p = ''w/ci.yml''" by (simp add: ex_runners_def)
  then show "\<exists>s. file_text ex_runners p = Some s \<and> str_strip_chars [dquote, squote] `
      set (List.map_filter runner_line (lf_lines s)) \<subseteq> {''ubuntu-latest'', ''macos-15''}"
  proof
    assume "p = ''w/r.yaml''"
    then show ?thesis
      by (intro exI [of _ "''  runs-on: '' @ dq ''macos-15'' @ [newline] @ ''    steps:''"] conjI ex_runner_lines(2)) (simp add: ex_runners_def)
  next
    assume "p = ''w/ci.yml''"
    then show ?thesis
      by (intro exI [of _ "''jobs:'' @ [newline] @ ''    runs-on: ubuntu-latest '' @ [newline]"] conjI ex_runner_lines(1)) (simp add: ex_runners_def)
  qed
qed

subsection \<open>Parity with the gate\<close>

lemma parity_error_Nil: "parity_error expected (label, actual) = [] \<longleftrightarrow> set actual = set expected"
  by (simp add: parity_error_def)

text \<open>The value of the evaluator's constants, as the gate's own source has them.\<close>

definition declares_gate :: "constants \<Rightarrow> bool" where
  "declares_gate vals \<longleftrightarrow>
     map_of vals ''BASE_JOBS'' = Some (LTuple (map LStr BASE_JOBS)) \<and>
     map_of vals ''FULL_JOBS'' = Some (LTuple (map LStr FULL_JOBS)) \<and>
     map_of vals ''MAIN_JOBS'' = Some (LTuple (map LStr MAIN_JOBS)) \<and>
     map_of vals ''APPROVAL_JOB'' = Some (LStr APPROVAL_JOB)"

lemma job_names_LStr: "[] \<notin> set ns \<Longrightarrow> job_names (map LStr ns) = Some ns"
  by (induction ns) auto

lemma declared_gate_jobs:
  assumes "declares_gate vals"
  shows "declared_jobs vals = Inr (remdups ALLOWED_JOBS, [])"
proof -
  have "\<forall>k\<in>set GATE_EVALUATOR_CONSTANTS. map_of vals k \<noteq> None"
    using assms by (simp add: declares_gate_def GATE_EVALUATOR_CONSTANTS_def)
  then have "set GATE_EVALUATOR_CONSTANTS \<subseteq> set (map fst vals)"
    unfolding map_of_eq_None_iff by (simp only: set_map) blast
  then have m: "list_minus GATE_EVALUATOR_CONSTANTS (map fst vals) = []"
    by (simp only: list_minus_Nil_iff)
  have n: "job_names (map LStr ALLOWED_JOBS) = Some ALLOWED_JOBS"
    by (rule job_names_LStr) (simp add: ALLOWED_JOBS_def BASE_JOBS_def FULL_JOBS_def MAIN_JOBS_def APPROVAL_JOB_def)
  have "list_all lit_hashable (map LStr ns)" for ns by (simp add: list_all_iff)
  then show ?thesis
    using assms n
    by (simp add: declared_jobs_def declares_gate_def m is_tuple_def tuple_items_def ALLOWED_JOBS_def)
qed

text \<open>What a passing parity check says of the workflow's text.\<close>

lemma parity_pass:
  assumes ok: "check_ci_gate_job_parity w ci ev = Inr []"
    and ev: "evaluator_job_ids w ev = Inr (expected, [])"
    and doc: "file_text (repo w) ci = Some doc"
  shows "\<exists>jobs. workflow_jobs doc = Some jobs \<and> ''ci-gate'' \<in> set jobs \<and> set jobs - {''ci-gate''} = set expected \<and>
    set (gate_needs doc) = set expected \<and> set (gate_arguments doc) = set expected"
proof (cases "workflow_jobs doc")
  case None
  with assms show ?thesis
    by (simp add: check_ci_gate_job_parity_def path_exists_def is_file_def read_text_def)
next
  case (Some jobs)
  with assms show ?thesis
    by (auto simp: check_ci_gate_job_parity_def path_exists_def is_file_def read_text_def parity_error_Nil
        split: if_splits)
qed

lemma job_arg_inj:
  assumes "n \<in> set ALLOWED_JOBS" "n' \<in> set ALLOWED_JOBS" "job_arg (n, r) = job_arg (n', r')"
  shows "n = n' \<and> r = r'"
proof -
  have "str_partition ''='' (job_arg (k, s)) = Some (k, s)" if "k \<in> set ALLOWED_JOBS" for k s
    using allowed_jobs_shape [OF that] by (simp add: job_arg_def str_partition_char)
  from this [OF assms(1), of r] this [OF assms(2), of r'] have "Some (n, r) = Some (n', r')"
    unfolding assms(3) by (rule trans [OF sym])
  then show ?thesis by (simp only: option.inject prod.inject)
qed

lemma map_job_arg_inj:
  assumes "map job_arg ps = map job_arg qs" "fst ` set ps \<subseteq> set ALLOWED_JOBS" "fst ` set qs \<subseteq> set ALLOWED_JOBS"
  shows "ps = qs"
  using assms
proof (induction ps arbitrary: qs)
  case (Cons p ps)
  then obtain q qs' where q: "qs = q # qs'" by (cases qs) auto
  with Cons.prems have "fst p \<in> set ALLOWED_JOBS" "fst q \<in> set ALLOWED_JOBS"
      "job_arg (fst p, snd p) = job_arg (fst q, snd q)" by auto
  from job_arg_inj [OF this] have "p = q" by (simp add: prod_eq_iff)
  with Cons q show ?case by simp
qed simp

text \<open>The gate on one result for each of the jobs: it passes when every result is the expected one.\<close>

lemma gate_on_results:
  assumes d: "distinct xs" and xs: "set xs = set ALLOWED_JOBS"
  shows "fst (gate_main event full_arg (map (\<lambda>n. job_arg (n, res n)) xs)) = 0 \<longleftrightarrow>
    (\<exists>full. parse_bool full_arg ''full_required'' = Inr full \<and> gate_event_ok event full \<and>
       (\<forall>(n, r)\<in>set (gate_table event full). res n = r))"
proof -
  let ?ps = "map (\<lambda>n. (n, res n)) xs"
  have args: "map (\<lambda>n. job_arg (n, res n)) xs = map job_arg ?ps" by simp
  have names: "map fst ?ps = xs" by (rule nth_equalityI) simp_all
  have fst: "fst ` set ?ps \<subseteq> set ALLOWED_JOBS" using xs names by (metis set_map subset_refl)
  have tab: "fst ` set (gate_table event full) = set ALLOWED_JOBS" for full
    using gate_table_keys [of event full] by simp
  have eq: "(\<exists>ps. map job_arg ?ps = map job_arg ps \<and> distinct (map fst ps) \<and> set ps = set (gate_table event full)) \<longleftrightarrow>
      (\<forall>(n, r)\<in>set (gate_table event full). res n = r)" for full
  proof
    assume "\<exists>ps. map job_arg ?ps = map job_arg ps \<and> distinct (map fst ps) \<and> set ps = set (gate_table event full)"
    then obtain ps where ps: "map job_arg ?ps = map job_arg ps" "set ps = set (gate_table event full)" by blast
    have "?ps = ps" by (rule map_job_arg_inj [OF ps(1) fst]) (use ps(2) tab in simp)
    then have "set (gate_table event full) = set ?ps" using ps(2) by simp
    then show "\<forall>(n, r)\<in>set (gate_table event full). res n = r" by simp
  next
    assume r: "\<forall>(n, r)\<in>set (gate_table event full). res n = r"
    have "set ?ps = set (gate_table event full)"
    proof (intro equalityI subsetI)
      fix p assume "p \<in> set ?ps"
      then obtain n where n: "p = (n, res n)" "n \<in> fst ` set (gate_table event full)" using xs tab by auto
      with r show "p \<in> set (gate_table event full)" by force
    next
      fix p assume p: "p \<in> set (gate_table event full)"
      then have "fst p \<in> set xs" using tab xs by force
      with p r show "p \<in> set ?ps" by force
    qed
    then show "\<exists>ps. map job_arg ?ps = map job_arg ps \<and> distinct (map fst ps) \<and> set ps = set (gate_table event full)"
      using d names by (intro exI [of _ ?ps] conjI) simp_all
  qed
  have "fst (gate_main event full_arg (map (\<lambda>n. job_arg (n, res n)) xs)) = 0 \<longleftrightarrow>
      (\<exists>full. parse_bool full_arg ''full_required'' = Inr full \<and> gate_event_ok event full \<and>
         (\<exists>ps. map job_arg ?ps = map job_arg ps \<and> distinct (map fst ps) \<and> set ps = set (gate_table event full)))"
    unfolding gate_main_zero args by blast
  then show ?thesis unfolding eq .
qed

text \<open>C4: if the policy finds no parity error, the evaluator declares the gate's own job tables, and the
command of the gate's job gives no job twice (the policy compares sets and would not notice), then the jobs of the workflow are the gate's twelve jobs and the gate itself, the gate waits for all of them,
and run with one result for each of its arguments it exits with 0 exactly when the event is allowed and
every job has the result the event calls for: no job is left out, none is unknown.\<close>

theorem policy_keeps_gate_complete:
  assumes "check_ci_gate_job_parity w ci ev = Inr []"
    and "file_text (repo w) ev = Some source" "py_parse w source ev = Inr body"
    and "foldl constant_step (Inl []) body = Inl vals" "declares_gate vals"
    and "file_text (repo w) ci = Some doc" "distinct (gate_arguments doc)"
  shows "(\<exists>jobs. workflow_jobs doc = Some jobs \<and> set jobs = insert ''ci-gate'' (set ALLOWED_JOBS) \<and>
      set (gate_needs doc) = set ALLOWED_JOBS) \<and>
    (fst (gate_main event full_arg (map (\<lambda>n. job_arg (n, res n)) (gate_arguments doc))) = 0 \<longleftrightarrow>
      (\<exists>full. parse_bool full_arg ''full_required'' = Inr full \<and> gate_event_ok event full \<and>
         (\<forall>(n, r)\<in>set (gate_table event full). res n = r)))"
proof (rule conjI)
  have "evaluator_job_ids w ev = Inr (remdups ALLOWED_JOBS, [])"
    using assms by (simp add: evaluator_job_ids_def path_exists_def is_file_def read_text_def declared_gate_jobs)
  from parity_pass [OF assms(1) this assms(6)]
  obtain jobs where j: "workflow_jobs doc = Some jobs" "''ci-gate'' \<in> set jobs"
      "set jobs - {''ci-gate''} = set ALLOWED_JOBS" "set (gate_needs doc) = set ALLOWED_JOBS"
      "set (gate_arguments doc) = set ALLOWED_JOBS" by auto
  then show "\<exists>jobs. workflow_jobs doc = Some jobs \<and> set jobs = insert ''ci-gate'' (set ALLOWED_JOBS) \<and>
      set (gate_needs doc) = set ALLOWED_JOBS" by blast
  show "fst (gate_main event full_arg (map (\<lambda>n. job_arg (n, res n)) (gate_arguments doc))) = 0 \<longleftrightarrow>
      (\<exists>full. parse_bool full_arg ''full_required'' = Inr full \<and> gate_event_ok event full \<and>
         (\<forall>(n, r)\<in>set (gate_table event full). res n = r))"
    by (rule gate_on_results [OF assms(7) j(5)])
qed

text \<open>A workflow that passes, with the twelve jobs and the gate, beside an evaluator that declares them.\<close>

definition ex_gate :: string where
  "ex_gate = ''  ci-gate:'' @ newline # concat (map (\<lambda>j. ''      - '' @ j @ [newline]) ALLOWED_JOBS) @
     concat (map (\<lambda>j. ''--job '' @ [dquote] @ j @ ''='') ALLOWED_JOBS) @ [newline]"

definition ex_ci :: string where
  "ex_ci = ''jobs:'' @ newline # ex_gate @ concat (map (\<lambda>j. ''  '' @ j @ '':'' @ [newline]) ALLOWED_JOBS)"

definition ex_body :: "pystmt list" where
  "ex_body = [SOther, SAssign [TName ''BASE_JOBS''] (Some (LTuple (map LStr BASE_JOBS))),
     SAssign [TName ''FULL_JOBS''] (Some (LTuple (map LStr FULL_JOBS))),
     SAssign [TName ''MAIN_JOBS''] (Some (LTuple (map LStr MAIN_JOBS))),
     SAssign [TName ''APPROVAL_JOB''] (Some (LStr APPROVAL_JOB)), SAssign [TName ''ALLOWED_JOBS''] None]"

definition ex_vals :: constants where
  "ex_vals = [(''BASE_JOBS'', LTuple (map LStr BASE_JOBS)), (''FULL_JOBS'', LTuple (map LStr FULL_JOBS)),
     (''MAIN_JOBS'', LTuple (map LStr MAIN_JOBS)), (''APPROVAL_JOB'', LStr APPROVAL_JOB)]"

lemma ex_vals: "foldl constant_step (Inl []) ex_body = Inl ex_vals"
  by (simp add: ex_body_def ex_vals_def constant_step_def GATE_EVALUATOR_CONSTANTS_def)

lemma ex_declares: "declares_gate ex_vals"
  by (simp add: declares_gate_def ex_vals_def)

definition ex_policy :: policy_env where
  "ex_policy = \<lparr>repo = \<lparr>file_text = (\<lambda>p. if p = ''ci.yml'' then Some ex_ci else if p = ''gate.py'' then Some ''gate'' else None),
       json_loads = (\<lambda>_. None), is_dir = (\<lambda>_. False), dir_glob = (\<lambda>_ _. [])\<rparr>,
     py_parse = (\<lambda>_ _. Inr ex_body)\<rparr>"

lemma ex_ci_jobs: "workflow_jobs ex_ci = Some (''ci-gate'' # ALLOWED_JOBS)"
proof -
  have "map_option (snd \<circ> snd) (search_pos jobs_line [] ex_ci) = Some (drop 5 ex_ci)" by code_simp
  then have w: "workflow_jobs ex_ci = Some (finds job_key [] (drop 5 ex_ci))"
    by (auto simp: workflow_jobs_def)
  have "List.map_filter key_line (lf_lines (drop 5 ex_ci)) = ''ci-gate'' # ALLOWED_JOBS" by code_simp
  then show ?thesis by (simp only: w job_key_lines)
qed

lemma ex_ci_block: "job_block ex_ci ''ci-gate'' = ex_gate"
  by code_simp

lemma ex_ci_needs: "gate_needs ex_ci = ALLOWED_JOBS"
proof -
  have "List.map_filter need_line (lf_lines ex_gate) = ALLOWED_JOBS" by code_simp
  then show ?thesis by (simp only: gate_needs_def ex_ci_block need_item_lines)
qed

lemma ex_ci_args: "gate_arguments ex_ci = ALLOWED_JOBS"
  unfolding gate_arguments_def ex_ci_block by code_simp

lemma ex_parity: "check_ci_gate_job_parity ex_policy ''ci.yml'' ''gate.py'' = Inr []"
proof -
  have "evaluator_job_ids ex_policy ''gate.py'' = Inr (remdups ALLOWED_JOBS, [])"
    by (simp add: evaluator_job_ids_def path_exists_def is_file_def read_text_def ex_policy_def ex_vals
        declared_gate_jobs [OF ex_declares])
  moreover have "filter (\<lambda>j. j \<noteq> ''ci-gate'') ALLOWED_JOBS = ALLOWED_JOBS" by code_simp
  ultimately show ?thesis
    by (simp add: check_ci_gate_job_parity_def path_exists_def is_file_def read_text_def ex_policy_def ex_ci_jobs
        ex_ci_needs ex_ci_args parity_error_Nil)
qed

theorem policy_keeps_gate_complete_witness:
  "(\<exists>jobs. workflow_jobs ex_ci = Some jobs \<and> set jobs = insert ''ci-gate'' (set ALLOWED_JOBS) \<and>
      set (gate_needs ex_ci) = set ALLOWED_JOBS) \<and>
    fst (gate_main ''push'' ''true''
      (map (\<lambda>n. job_arg (n, the (map_of (gate_table ''push'' True) n))) (gate_arguments ex_ci))) = 0"
proof -
  have files: "file_text (repo ex_policy) ''gate.py'' = Some ''gate''" "file_text (repo ex_policy) ''ci.yml'' = Some ex_ci"
      "py_parse ex_policy ''gate'' ''gate.py'' = Inr ex_body"
    by (simp_all add: ex_policy_def)
  have d: "distinct (gate_arguments ex_ci)" unfolding ex_ci_args by code_simp
  have full: "parse_bool ''true'' ''full_required'' = Inr True" by code_simp
  have "\<forall>(n, r)\<in>set (gate_table ''push'' True). the (map_of (gate_table ''push'' True) n) = r"
    using map_of_is_SomeI [OF gate_table_distinct [of "''push''" True]] by auto
  then have "\<exists>f. parse_bool ''true'' ''full_required'' = Inr f \<and> gate_event_ok ''push'' f \<and>
      (\<forall>(n, r)\<in>set (gate_table ''push'' f). the (map_of (gate_table ''push'' True) n) = r)"
    by (intro exI [of _ True]) (simp add: full gate_event_ok_def)
  with policy_keeps_gate_complete [OF ex_parity files(1,3) ex_vals ex_declares files(2) d,
      of "''push''" "''true''" "\<lambda>n. the (map_of (gate_table ''push'' True) n)"]
  show ?thesis by blast
qed

end
