(* ===== verification/AuditInvariants.thy ===== *)
theory AuditInvariants
  imports PyFind PyEnv JsonText
begin

text \<open>
  \<open>tools/ci/audit_invariants.py\<close>: which conformance vectors and static checks cover each invariant
  of the specification, read from the Markdown list of the invariants. The audit writes a JSON
  summary and a Markdown table and fails when a named file is missing or an invariant is uncovered.
\<close>

subsection \<open>Patterns\<close>

definition chr_is_id :: "char \<Rightarrow> bool" where
  "chr_is_id c = ((65 \<le> (of_char c :: nat) \<and> (of_char c :: nat) \<le> 90) \<or> chr_is_ascii_digit c \<or> c = CHR ''-'')"

definition INV_RE :: matcher where
  "INV_RE = capture
     (RSeqs [RBos, RStar (RCls chr_is_space), RLit ''-'', RPlus (RCls chr_is_space)])
     (ends (RSeqs [RLit ''INV-'', RPlus (RCls chr_is_id)])) (RLit '':'')"

definition VEC_RE :: matcher where
  "VEC_RE = capture REps
     (ends (RSeqs [RWordB, RAlt (RLit ''POS'') (RLit ''NEG''), RLit ''-'', RPlus (RCls chr_is_id), RWordB])) REps"

definition STATIC_RE :: matcher where
  "STATIC_RE = capture REps (ends (RSeqs [RWordB, RLit ''STATIC-'', RPlus (RCls chr_is_id), RWordB])) REps"

subsection \<open>Reading the invariants\<close>

record invariant_audit =
  ia_id :: string
  ia_title :: string
  ia_vectors :: "string list"
  ia_static_checks :: "string list"
  ia_has_pos :: bool
  ia_has_neg :: bool
  ia_policy_exception :: bool

definition new_audit :: "string \<Rightarrow> string \<Rightarrow> invariant_audit" where
  "new_audit inv_id title =
     \<lparr>ia_id = inv_id, ia_title = title, ia_vectors = [], ia_static_checks = [], ia_has_pos = False,
      ia_has_neg = False, ia_policy_exception = False\<rparr>"

text \<open>\<open>sorted(set(xs))\<close>.\<close>

definition sorted_set :: "string list \<Rightarrow> string list" where
  "sorted_set xs = py_sorted (remdups xs)"

definition finalized :: "invariant_audit \<Rightarrow> invariant_audit" where
  "finalized cur = cur
     \<lparr>ia_vectors := sorted_set (ia_vectors cur), ia_static_checks := sorted_set (ia_static_checks cur),
      ia_has_pos := list_ex (\<lambda>v. starts_with v ''POS-'') (ia_vectors cur),
      ia_has_neg := list_ex (\<lambda>v. starts_with v ''NEG-'') (ia_vectors cur)\<rparr>"

definition finalize :: "invariant_audit option \<Rightarrow> invariant_audit list \<Rightarrow> invariant_audit list" where
  "finalize cur all_items = (case cur of None \<Rightarrow> all_items | Some c \<Rightarrow> all_items @ [finalized c])"

text \<open>The identifier a line opens, if it opens an invariant.\<close>

definition inv_match :: "string \<Rightarrow> string option" where
  "inv_match line = (case INV_RE ([], line) of [] \<Rightarrow> None | (g, _) # _ \<Rightarrow> Some g)"

definition inv_title :: "string \<Rightarrow> string" where
  "inv_title line = (case str_partition '':'' line of Some (_, b) \<Rightarrow> str_strip b | None \<Rightarrow> [])"

definition add_line :: "string \<Rightarrow> invariant_audit \<Rightarrow> invariant_audit" where
  "add_line line cur =
     (let low = str_lower line;
          c1 = (if contains low ''policy invariant'' \<or> contains low ''exception''
                then cur\<lparr>ia_policy_exception := True\<rparr> else cur);
          c2 = (if contains line ''Vectors:''
                then c1\<lparr>ia_vectors := ia_vectors c1 @ finds VEC_RE [] line\<rparr> else c1)
      in if contains line ''Static:''
         then c2\<lparr>ia_static_checks := ia_static_checks c2 @ finds STATIC_RE [] line\<rparr> else c2)"

type_synonym audit_state = "invariant_audit list \<times> invariant_audit option"

definition line_step :: "audit_state \<Rightarrow> string \<Rightarrow> audit_state" where
  "line_step st line =
     (case st of (out, current) \<Rightarrow>
        (case inv_match line of
           Some inv_id \<Rightarrow> (finalize current out, Some (new_audit inv_id (inv_title line)))
         | None \<Rightarrow> (out, map_option (add_line line) current)))"

definition load_invariants :: "env \<Rightarrow> string \<Rightarrow> invariant_audit list res" where
  "load_invariants w path =
     bindE (read_text w path) (\<lambda>doc.
       let (out, current) = foldl line_step ([], None) (str_splitlines doc)
       in Inr (finalize current out))"

subsection \<open>The audit\<close>

text \<open>\<open>root.rglob(name + ".json")\<close> yields a path.\<close>

definition vector_exists :: "env \<Rightarrow> string \<Rightarrow> string \<Rightarrow> bool" where
  "vector_exists w vectors_root vector_id =
     (dir_glob w vectors_root (''**/'' @ vector_id @ ''.json'') \<noteq> [])"

definition static_check_exists :: "env \<Rightarrow> string \<Rightarrow> string \<Rightarrow> bool" where
  "static_check_exists w static_checks_root static_check_id =
     (dir_glob w static_checks_root (''**/'' @ static_check_id @ ''.json'') \<noteq> [])"

record audit_args =
  au_invariants :: string
  au_vectors_root :: string
  au_static_checks_root :: string
  au_out_json :: string
  au_out_md :: string

definition missing_vectors :: "env \<Rightarrow> string \<Rightarrow> invariant_audit list \<Rightarrow> (string \<times> string) list" where
  "missing_vectors w base rows =
     concat (map (\<lambda>r. map (\<lambda>v. (ia_id r, v)) (filter (\<lambda>v. \<not> vector_exists w base v) (ia_vectors r))) rows)"

definition missing_statics :: "env \<Rightarrow> string \<Rightarrow> invariant_audit list \<Rightarrow> (string \<times> string) list" where
  "missing_statics w base rows =
     concat (map (\<lambda>r. map (\<lambda>s. (ia_id r, s)) (filter (\<lambda>s. \<not> static_check_exists w base s) (ia_static_checks r)))
       rows)"

definition is_uncovered :: "invariant_audit \<Rightarrow> bool" where
  "is_uncovered r = (ia_vectors r = [] \<and> ia_static_checks r = [] \<and> \<not> ia_policy_exception r)"

definition is_partial :: "invariant_audit \<Rightarrow> bool" where
  "is_partial r = (\<not> is_uncovered r \<and> ia_vectors r \<noteq> [] \<and> (\<not> ia_has_pos r \<or> \<not> ia_has_neg r) \<and>
     \<not> ia_policy_exception r)"

definition uncovered :: "invariant_audit list \<Rightarrow> string list" where
  "uncovered rows = map ia_id (filter is_uncovered rows)"

definition partial_cover :: "invariant_audit list \<Rightarrow> string list" where
  "partial_cover rows = map ia_id (filter is_partial rows)"

definition audit_status :: "(string \<times> string) list \<Rightarrow> (string \<times> string) list \<Rightarrow> string list \<Rightarrow> string" where
  "audit_status mv ms uc = (if mv \<noteq> [] \<or> ms \<noteq> [] \<or> uc \<noteq> [] then ''FAIL'' else ''PASS'')"

definition strs_json :: "string list \<Rightarrow> json" where
  "strs_json ss = JArr (map JStr ss)"

definition audit_row :: "invariant_audit \<Rightarrow> json" where
  "audit_row r = JObj
     [(''invariant_id'', JStr (ia_id r)), (''title'', JStr (ia_title r)), (''vectors'', strs_json (ia_vectors r)),
      (''static_checks'', strs_json (ia_static_checks r)), (''has_pos'', JBool (ia_has_pos r)),
      (''has_neg'', JBool (ia_has_neg r)), (''policy_exception'', JBool (ia_policy_exception r))]"

definition audit_summary ::
    "string \<Rightarrow> (string \<times> string) list \<Rightarrow> (string \<times> string) list \<Rightarrow> string list \<Rightarrow> invariant_audit list \<Rightarrow> json" where
  "audit_summary status mv ms uc rows = JObj
     [(''status'', JStr status), (''invariants_total'', JInt (int (length rows))),
      (''missing_vector_files'', JArr (map (\<lambda>(i, v). JObj [(''invariant'', JStr i), (''vector_id'', JStr v)]) mv)),
      (''missing_static_check_files'',
       JArr (map (\<lambda>(i, s). JObj [(''invariant'', JStr i), (''static_check_id'', JStr s)]) ms)),
      (''uncovered_invariants'', strs_json uc), (''partial_coverage_invariants'', strs_json (partial_cover rows)),
      (''rows'', JArr (map audit_row rows))]"

text \<open>\<open>json.dumps(v, indent=2, ensure_ascii=True)\<close>: what is not ASCII is escaped.\<close>

definition ascii_char :: "char \<Rightarrow> string" where
  "ascii_char c =
     (let n = of_char c :: nat
      in if n \<ge> 127 then CHR 0x5C # ''u00'' @ [hex_digit (n div 16), hex_digit (n mod 16)] else [c])"

definition dumps_ascii :: "json \<Rightarrow> string" where
  "dumps_ascii v = concat (map ascii_char (dumps_indent 2 0 v))"

definition yes_no :: "bool \<Rightarrow> string" where
  "yes_no b = (if b then ''yes'' else ''no'')"

definition or_dash :: "string list \<Rightarrow> string" where
  "or_dash ss = (if ss = [] then ''-'' else str_join '', '' ss)"

definition table_row :: "invariant_audit \<Rightarrow> string" where
  "table_row r =
     ''| '' @ ia_id r @ '' | '' @ yes_no (ia_has_pos r) @ '' | '' @ yes_no (ia_has_neg r) @ '' | '' @
     yes_no (ia_static_checks r \<noteq> []) @ '' | '' @ yes_no (ia_policy_exception r) @ '' | '' @
     or_dash (ia_vectors r) @ '' | '' @ or_dash (ia_static_checks r) @ '' |''"

definition md_section :: "string \<Rightarrow> string list \<Rightarrow> string list" where
  "md_section title items =
     (if items = [] then [] else [[], ''## '' @ title, []] @ map (\<lambda>i. ''- '' @ i) items)"

definition audit_markdown ::
    "string \<Rightarrow> (string \<times> string) list \<Rightarrow> (string \<times> string) list \<Rightarrow> string list \<Rightarrow> invariant_audit list \<Rightarrow> string list" where
  "audit_markdown status mv ms uc rows =
     [''# Invariants Audit'', [], ''- Status: **'' @ status @ ''**'',
      ''- Total invariants: '' @ nat_str (length rows),
      ''- Missing vector files: '' @ nat_str (length mv),
      ''- Missing static check files: '' @ nat_str (length ms),
      ''- Uncovered invariants: '' @ nat_str (length uc),
      ''- Partial coverage invariants (no POS or no NEG, without explicit exception): '' @
        nat_str (length (partial_cover rows)),
      [], ''## Coverage Table'', [],
      ''| Invariant | POS | NEG | Static | Exception | Vectors | Static checks |'',
      ''|---|---:|---:|---:|---:|---|---|''] @
     map table_row rows @
     md_section ''Missing vector files'' (map (\<lambda>(i, v). i @ '' -> '' @ v) mv) @
     md_section ''Missing static check files'' (map (\<lambda>(i, s). i @ '' -> '' @ s) ms) @
     md_section ''Uncovered invariants'' uc @
     md_section ''Partial coverage invariants'' (partial_cover rows)"

text \<open>The exit code, the line printed and the two files written.\<close>

definition audit_main :: "env \<Rightarrow> audit_args \<Rightarrow> (nat \<times> string \<times> (string \<times> string) list) res" where
  "audit_main w args =
     bindE (load_invariants w (path_str (au_invariants args))) (\<lambda>rows.
       let mv = missing_vectors w (path_str (au_vectors_root args)) rows;
           ms = missing_statics w (path_str (au_static_checks_root args)) rows;
           uc = uncovered rows;
           status = audit_status mv ms uc
       in Inr (if status \<noteq> ''PASS'' then 1 else 0, ''Invariants audit: '' @ status,
               [(path_str (au_out_json args), dumps_ascii (audit_summary status mv ms uc rows) @ [newline]),
                (path_str (au_out_md args),
                 str_join [newline] (audit_markdown status mv ms uc rows) @ [newline])]))"

subsection \<open>The document as sections\<close>

text \<open>A section is the line that opens an invariant with the lines up to the next one.\<close>

function sections :: "string list \<Rightarrow> (string \<times> string list) list" where
  "sections [] = []"
| "sections (l # ls) =
     (if inv_match l = None then sections ls
      else (l, takeWhile (\<lambda>k. inv_match k = None) ls) # sections (dropWhile (\<lambda>k. inv_match k = None) ls))"
  by pat_completeness auto
termination by (relation "measure length") (auto simp: le_imp_less_Suc length_dropWhile_le)

definition named_vectors :: "string list \<Rightarrow> string list" where
  "named_vectors body = concat (map (finds VEC_RE []) (filter (\<lambda>l. contains l ''Vectors:'') body))"

definition named_statics :: "string list \<Rightarrow> string list" where
  "named_statics body = concat (map (finds STATIC_RE []) (filter (\<lambda>l. contains l ''Static:'') body))"

definition excepted :: "string list \<Rightarrow> bool" where
  "excepted body = list_ex (\<lambda>l. contains (str_lower l) ''policy invariant'' \<or> contains (str_lower l) ''exception'') body"

definition section_row :: "string \<times> string list \<Rightarrow> invariant_audit" where
  "section_row s =
     \<lparr>ia_id = the (inv_match (fst s)), ia_title = inv_title (fst s),
      ia_vectors = sorted_set (named_vectors (snd s)), ia_static_checks = sorted_set (named_statics (snd s)),
      ia_has_pos = list_ex (\<lambda>v. starts_with v ''POS-'') (named_vectors (snd s)),
      ia_has_neg = list_ex (\<lambda>v. starts_with v ''NEG-'') (named_vectors (snd s)),
      ia_policy_exception = excepted (snd s)\<rparr>"

lemma sections_skip: "sections ls = sections (dropWhile (\<lambda>k. inv_match k = None) ls)"
  by (induction ls) auto

lemma line_step_simps:
  "inv_match l = None \<Longrightarrow> line_step (out, c) l = (out, map_option (add_line l) c)"
  "inv_match l = Some i \<Longrightarrow> line_step (out, c) l = (finalize c out, Some (new_audit i (inv_title l)))"
  by (simp_all add: line_step_def)

lemma add_lines:
  "foldl line_step (out, Some cur) ls =
     (case dropWhile (\<lambda>k. inv_match k = None) ls of
        [] \<Rightarrow> (out, Some (fold add_line ls cur))
      | l # rest \<Rightarrow>
          foldl line_step
            (out @ [finalized (fold add_line (takeWhile (\<lambda>k. inv_match k = None) ls) cur)],
             Some (new_audit (the (inv_match l)) (inv_title l))) rest)"
proof (induction ls arbitrary: cur)
  case (Cons l ls)
  then show ?case by (cases "inv_match l"; cases "dropWhile (\<lambda>k. inv_match k = None) ls")
       (simp_all add: line_step_simps finalize_def del: dropWhile_eq_Nil_conv)
qed simp

lemma fold_add_line:
  "fold add_line body cur = cur
     \<lparr>ia_vectors := ia_vectors cur @ named_vectors body,
      ia_static_checks := ia_static_checks cur @ named_statics body,
      ia_policy_exception := ia_policy_exception cur \<or> excepted body\<rparr>"
proof (induction body arbitrary: cur)
  case Nil
  then show ?case by (simp add: named_vectors_def named_statics_def excepted_def)
next
  case (Cons l ls)
  show ?case
    by (simp only: fold.simps comp_apply Cons)
       (simp add: add_line_def Let_def named_vectors_def named_statics_def excepted_def)
qed

lemma finalized_section:
  "finalized (fold add_line body (new_audit (the (inv_match l)) (inv_title l))) = section_row (l, body)"
  unfolding fold_add_line by (simp add: finalized_def new_audit_def section_row_def)

definition finish :: "audit_state \<Rightarrow> invariant_audit list" where
  "finish st = finalize (snd st) (fst st)"

lemma finish_section:
  "finish (foldl line_step (out, Some (new_audit (the (inv_match l)) (inv_title l))) ls) =
     out @ section_row (l, takeWhile (\<lambda>k. inv_match k = None) ls) #
       map section_row (sections (dropWhile (\<lambda>k. inv_match k = None) ls))"
proof (induction "length ls" arbitrary: out l ls rule: less_induct)
  case less
  let ?none = "\<lambda>k. inv_match k = None"
  show ?case
  proof (cases "dropWhile ?none ls")
    case Nil
    then have tw: "takeWhile ?none ls = ls" by (metis append_Nil2 takeWhile_dropWhile_id)
    show ?thesis
      by (subst add_lines) (simp add: Nil tw finish_def finalize_def finalized_section)
  next
    case (Cons k rest)
    obtain i where k: "inv_match k = Some i" using hd_dropWhile [of ?none ls] Cons by auto
    have len: "length rest < length ls"
      using length_dropWhile_le [of ?none ls] Cons by simp
    have "finish (foldl line_step (out, Some (new_audit (the (inv_match l)) (inv_title l))) ls) =
        finish (foldl line_step (out @ [section_row (l, takeWhile ?none ls)],
          Some (new_audit (the (inv_match k)) (inv_title k))) rest)"
      by (subst add_lines) (simp add: Cons finalized_section)
    also have "\<dots> = (out @ [section_row (l, takeWhile ?none ls)]) @ section_row (k, takeWhile ?none rest) #
        map section_row (sections (dropWhile ?none rest))"
      by (rule less [OF len])
    finally show ?thesis using Cons k by simp
  qed
qed

lemma finish_none:
  "finish (foldl line_step ([], None) ls) = map section_row (sections ls)"
proof (induction ls)
  case Nil
  then show ?case by (simp add: finish_def finalize_def)
next
  case (Cons l ls)
  show ?case
  proof (cases "inv_match l")
    case None
    with Cons show ?thesis by (simp add: line_step_simps)
  next
    case (Some i)
    have "line_step ([], None) l = ([], Some (new_audit (the (inv_match l)) (inv_title l)))"
      using Some by (simp add: line_step_simps finalize_def)
    with Some finish_section [of "[]" l ls] show ?thesis by simp
  qed
qed

text \<open>Reading the invariants line by line gives one row for each section of the document: its
identifier and title, the sorted vectors and static checks its lines name, and whether one of them
grants an exception.\<close>

theorem load_invariants_sections:
  "load_invariants w path =
     (case file_text w path of None \<Rightarrow> Inl (FileNotFoundError path)
      | Some doc \<Rightarrow> Inr (map section_row (sections (str_splitlines doc))))"
  using finish_none
  by (simp add: load_invariants_def read_text_def finish_def Let_def split_beta split: option.split)

lemma load_rows:
  "file_text w path = Some doc \<Longrightarrow> load_invariants w path = Inr (map section_row (sections (str_splitlines doc)))"
  using finish_none
  by (simp add: load_invariants_def read_text_def finish_def Let_def split_beta)

lemma set_sorted_set [simp]: "set (sorted_set xs) = set xs"
  by (simp add: sorted_set_def)

lemma sorted_set_Nil_iff [simp]: "sorted_set xs = [] \<longleftrightarrow> xs = []"
  by (metis set_empty set_sorted_set)

lemma status_PASS: "audit_status mv ms uc = ''PASS'' \<longleftrightarrow> mv = [] \<and> ms = [] \<and> uc = []"
  by (simp add: audit_status_def)

lemma audit_rows_pass:
  "missing_vectors w vr (map section_row ss) = [] \<and> missing_statics w sr (map section_row ss) = [] \<and>
     uncovered (map section_row ss) = [] \<longleftrightarrow>
   (\<forall>(h, body)\<in>set ss.
      (\<forall>v\<in>set (named_vectors body). vector_exists w vr v) \<and>
      (\<forall>s\<in>set (named_statics body). static_check_exists w sr s) \<and>
      (named_vectors body \<noteq> [] \<or> named_statics body \<noteq> [] \<or> excepted body))"
  by (auto simp: missing_vectors_def missing_statics_def uncovered_def is_uncovered_def section_row_def
      filter_empty_conv)

text \<open>C6: the audit passes exactly when every section of the document names only vectors and static
checks that have a file, and names at least one of them or is granted an exception.\<close>

theorem audit_pass_iff:
  assumes "file_text w (path_str (au_invariants args)) = Some doc"
  shows "(\<exists>line fs. audit_main w args = Inr (0, line, fs)) \<longleftrightarrow>
    (\<forall>(h, body)\<in>set (sections (str_splitlines doc)).
       (\<forall>v\<in>set (named_vectors body). vector_exists w (path_str (au_vectors_root args)) v) \<and>
       (\<forall>s\<in>set (named_statics body). static_check_exists w (path_str (au_static_checks_root args)) s) \<and>
       (named_vectors body \<noteq> [] \<or> named_statics body \<noteq> [] \<or> excepted body))"
  unfolding audit_rows_pass [symmetric]
  by (auto simp: audit_main_def load_rows [OF assms] Let_def status_PASS)

definition ex_invariants :: string where
  "ex_invariants = ''# Invariants'' @ [newline] @ ''- INV-ID-001: unique'' @ [newline] @
     ''  Vectors: POS-ID-1, NEG-ID-2-'' @ [newline] @ ''- INV-CUT-2: cut'' @ [newline] @ ''  Policy invariant.''"

definition ex_audit_env :: env where
  "ex_audit_env = \<lparr>file_text = (\<lambda>p. if p = ''inv.md'' then Some ex_invariants else None), json_loads = (\<lambda>_. None),
     is_dir = (\<lambda>_. False), dir_glob = (\<lambda>_ q. [q])\<rparr>"

definition ex_audit_args :: audit_args where
  "ex_audit_args = \<lparr>au_invariants = ''inv.md'', au_vectors_root = ''v'', au_static_checks_root = ''s'',
     au_out_json = ''a.json'', au_out_md = ''a.md''\<rparr>"

lemma ex_sections:
  "map (\<lambda>(h, b). (inv_match h, named_vectors b, named_statics b, excepted b)) (sections (str_splitlines ex_invariants)) =
     [(Some ''INV-ID-001'', [''POS-ID-1'', ''NEG-ID-2''], [], False), (Some ''INV-CUT-2'', [], [], True)]"
  by code_simp

theorem audit_pass_iff_witness: "\<exists>line fs. audit_main ex_audit_env ex_audit_args = Inr (0, line, fs)"
proof -
  have "path_str ''inv.md'' = ''inv.md''" by code_simp
  then have "file_text ex_audit_env (path_str (au_invariants ex_audit_args)) = Some ex_invariants"
    by (simp add: ex_audit_env_def ex_audit_args_def)
  note iff = audit_pass_iff [OF this]
  have "\<forall>(i, vs, ss, e)\<in>set (map (\<lambda>(h, b). (inv_match h, named_vectors b, named_statics b, excepted b))
      (sections (str_splitlines ex_invariants))). vs \<noteq> [] \<or> ss \<noteq> [] \<or> e"
    unfolding ex_sections by simp
  moreover have "vector_exists ex_audit_env r v" "static_check_exists ex_audit_env r v" for r v
    by (simp_all add: vector_exists_def static_check_exists_def ex_audit_env_def)
  ultimately show ?thesis unfolding iff by auto
qed

end
