(* ===== verification/FullCiEnv.thy ===== *)
theory FullCiEnv
  imports PyJson
begin

text \<open>
  \<open>tools/ci/check_full_ci_environment.py\<close>: the GitHub environment that authorizes the full CI of a
  pull request must ask one reviewer and nothing else, and hold no secrets. The answers of the
  \<open>gh\<close> command and of the JSON parser are parameters.
\<close>

subsection \<open>The environment\<close>

abbreviation jget :: "dict \<Rightarrow> string \<Rightarrow> json" where
  "jget \<equiv> dict_get"

definition rule_type :: "json \<Rightarrow> json option" where
  "rule_type rule = (case rule of JObj d \<Rightarrow> Some (jget d ''type'') | _ \<Rightarrow> None)"

definition reviewer_rules :: "json list \<Rightarrow> json list" where
  "reviewer_rules rules = filter (\<lambda>r. rule_type r = Some (JStr ''required_reviewers'')) rules"

definition unexpected_rules :: "json list \<Rightarrow> string list" where
  "unexpected_rules rules =
     concat (map (\<lambda>r. case rule_type r of
                        Some t \<Rightarrow> if t \<noteq> JStr ''required_reviewers'' then [json_str t] else []
                      | None \<Rightarrow> []) rules)"

text \<open>The pairs of kind and login of the reviewers; entries of another form are left out.\<close>

definition actual_reviewers :: "json \<Rightarrow> (string \<times> string) list" where
  "actual_reviewers v =
     (case v of
        JArr items \<Rightarrow>
          concat (map (\<lambda>item. case item of
                     JObj d \<Rightarrow>
                       (case jget d ''reviewer'' of
                          JObj r \<Rightarrow> [(json_str (jget d ''type''), json_str (jget r ''login''))]
                        | _ \<Rightarrow> [])
                   | _ \<Rightarrow> []) items)
      | _ \<Rightarrow> [])"

text \<open>The text of a sorted list of pairs of strings.\<close>

definition pairs_repr :: "(string \<times> string) list \<Rightarrow> string" where
  "pairs_repr ps =
     ''['' @ str_join '', '' (map (\<lambda>(a, b). ''('' @ str_repr a @ '', '' @ str_repr b @ '')'')
       (sort_key (\<lambda>(a, b). [a, b]) (remdups ps))) @ '']''"

definition reviewer_errors :: "dict \<Rightarrow> json list \<Rightarrow> string \<Rightarrow> string list" where
  "reviewer_errors rule rules expected_reviewer =
     (let unexpected = unexpected_rules rules; actual = actual_reviewers (jget rule ''reviewers'')
      in (if unexpected \<noteq> []
          then [''FULL_CI_ENV_ERR_UNEXPECTED_RULES: '' @ strs_repr (py_sorted unexpected)] else []) @
         (if \<not> is_false (jget rule ''prevent_self_review'')
          then [''FULL_CI_ENV_ERR_SELF_REVIEW: single-maintainer self-review must remain allowed''] else []) @
         (if set actual \<noteq> {(''User'', expected_reviewer)}
          then [''FULL_CI_ENV_ERR_REVIEWERS: expected='' @ pairs_repr [(''User'', expected_reviewer)] @
                '' actual='' @ pairs_repr actual] else []))"

definition validate_environment :: "json \<Rightarrow> string \<Rightarrow> string \<Rightarrow> string list" where
  "validate_environment payload expected_name expected_reviewer =
     (case payload of
        JObj d \<Rightarrow>
          (if jget d ''name'' \<noteq> JStr expected_name
           then [''FULL_CI_ENV_ERR_NAME: expected='' @ expected_name @ '' actual='' @ json_str (jget d ''name'')]
           else []) @
          (if \<not> is_none (jget d ''deployment_branch_policy'')
           then [''FULL_CI_ENV_ERR_BRANCH_RESTRICTION: environment must support fork PRs''] else []) @
          (case jget d ''protection_rules'' of
             JArr rules \<Rightarrow>
               (case reviewer_rules rules of
                  [JObj rule] \<Rightarrow> reviewer_errors rule rules expected_reviewer
                | rs \<Rightarrow> [''FULL_CI_ENV_ERR_REVIEWER_RULE_COUNT: expected=1 actual='' @ nat_str (length rs)])
           | _ \<Rightarrow> [''FULL_CI_ENV_ERR_PROTECTION_RULES''])
      | _ \<Rightarrow> [''FULL_CI_ENV_ERR_INVALID_RESPONSE''])"

subsection \<open>Settings only the owner can read\<close>

definition count_error :: "string \<Rightarrow> json \<Rightarrow> string list" where
  "count_error label payload =
     (case payload of
        JObj d \<Rightarrow>
          (if \<not> is_int (jget d ''total_count'') then [''FULL_CI_ENV_ERR_'' @ label @ ''_RESPONSE'']
           else if \<not> py_eq (jget d ''total_count'') (JInt 0)
           then [''FULL_CI_ENV_ERR_'' @ label @ ''_COUNT: expected=0 actual='' @ json_str (jget d ''total_count'')]
           else [])
      | _ \<Rightarrow> [''FULL_CI_ENV_ERR_'' @ label @ ''_RESPONSE''])"

definition validate_owner_only_settings :: "json \<Rightarrow> json \<Rightarrow> json \<Rightarrow> string list" where
  "validate_owner_only_settings secrets_payload variables_payload fork_approval_payload =
     count_error ''SECRETS'' secrets_payload @ count_error ''VARIABLES'' variables_payload @
     (case fork_approval_payload of
        JObj d \<Rightarrow>
          (if jget d ''approval_policy'' \<noteq> JStr ''all_external_contributors''
           then [''FULL_CI_ENV_ERR_FORK_APPROVAL_POLICY: expected=all_external_contributors actual='' @
                 json_str (jget d ''approval_policy'')] else [])
      | _ \<Rightarrow> [''FULL_CI_ENV_ERR_FORK_APPROVAL_RESPONSE''])"

subsection \<open>Queries\<close>

text \<open>How a call of \<open>gh\<close> ends: in time with exit code, output and error output, or not.\<close>

datatype gh_result = GhDone int string string | GhTimeout | GhOSError string

text \<open>\<open>gh_api endpoint\<close> is the outcome of the call, \<open>gh_loads t\<close> the parsed document or the text of the
parser's error.\<close>

record gh_env =
  gh_api :: "string \<Rightarrow> gh_result"
  gh_loads :: "string \<Rightarrow> string + json"
  gh_token :: "string option"

definition GH_API_TIMEOUT_SECONDS :: nat where
  "GH_API_TIMEOUT_SECONDS = 30"

definition gh_json :: "gh_env \<Rightarrow> string \<Rightarrow> json res" where
  "gh_json g endpoint =
     (case gh_api g endpoint of
        GhTimeout \<Rightarrow> Inl (RuntimeError (''gh api timed out after '' @ nat_str GH_API_TIMEOUT_SECONDS @ ''s for '' @ endpoint))
      | GhOSError exc \<Rightarrow> Inl (RuntimeError (''gh api failed to start for '' @ endpoint @ '': '' @ exc))
      | GhDone rc out_text err_text \<Rightarrow>
          (if rc \<noteq> 0
           then Inl (RuntimeError (if str_strip err_text \<noteq> [] then str_strip err_text
                                   else if str_strip out_text \<noteq> [] then str_strip out_text else ''gh api failed''))
           else (case gh_loads g out_text of
                   Inl exc \<Rightarrow> Inl (RuntimeError (''gh api returned invalid JSON for '' @ endpoint @ '': '' @ exc))
                 | Inr v \<Rightarrow> Inr v)))"

record full_ci_args =
  fc_repo :: string
  fc_environment :: string
  fc_expected_reviewer :: "string option"
  fc_check_owner :: bool

text \<open>\<open>repo.split("/", 1)[0]\<close>.\<close>

definition repo_owner :: "string \<Rightarrow> string" where
  "repo_owner repo = (case str_partition ''/'' repo of Some (a, _) \<Rightarrow> a | None \<Rightarrow> repo)"

definition expected_reviewer_of :: "full_ci_args \<Rightarrow> string" where
  "expected_reviewer_of a =
     (case fc_expected_reviewer a of
        Some r \<Rightarrow> if r \<noteq> [] then r else repo_owner (fc_repo a) | None \<Rightarrow> repo_owner (fc_repo a))"

definition environment_endpoint :: "full_ci_args \<Rightarrow> string" where
  "environment_endpoint a = ''repos/'' @ fc_repo a @ ''/environments/'' @ fc_environment a"

definition owner_errors :: "gh_env \<Rightarrow> full_ci_args \<Rightarrow> string list res" where
  "owner_errors g a =
     bindE (gh_json g (environment_endpoint a @ ''/secrets'')) (\<lambda>secrets.
     bindE (gh_json g (environment_endpoint a @ ''/variables'')) (\<lambda>variables.
     bindE (gh_json g (''repos/'' @ fc_repo a @ ''/actions/permissions/fork-pr-contributor-approval'')) (\<lambda>fork.
     Inr (validate_owner_only_settings secrets variables fork))))"

text \<open>The message of the \<open>RuntimeError\<close> that ends a query.\<close>

definition query_failure :: "string \<Rightarrow> exc \<Rightarrow> (nat \<times> string list) res" where
  "query_failure label e = (case e of RuntimeError m \<Rightarrow> Inr (2, [label @ m]) | _ \<Rightarrow> Inl e)"

definition full_ci_verdict :: "string list \<Rightarrow> nat \<times> string list" where
  "full_ci_verdict errors =
     (if errors \<noteq> [] then (1, ''Full CI environment check failed:'' # map (\<lambda>e. ''- '' @ e) errors)
      else (0, [''Full CI environment check: OK'']))"

definition full_ci_main :: "gh_env \<Rightarrow> full_ci_args \<Rightarrow> (nat \<times> string list) res" where
  "full_ci_main g a =
     (if fc_repo a = [] \<or> \<not> contains (fc_repo a) ''/''
      then Inr (2, [''FULL_CI_ENV_ERR_REPO: --repo owner/name is required''])
      else if gh_token g = None \<or> gh_token g = Some []
      then Inr (2, [''FULL_CI_ENV_ERR_TOKEN: GH_TOKEN is required''])
      else (case gh_json g (environment_endpoint a) of
              Inl e \<Rightarrow> query_failure ''FULL_CI_ENV_ERR_QUERY: '' e
            | Inr payload \<Rightarrow>
                (let errors = validate_environment payload (fc_environment a) (expected_reviewer_of a)
                 in if fc_check_owner a
                    then (case owner_errors g a of
                            Inl e \<Rightarrow> query_failure ''FULL_CI_ENV_ERR_OWNER_QUERY: '' e
                          | Inr others \<Rightarrow> Inr (full_ci_verdict (errors @ others)))
                    else Inr (full_ci_verdict errors))))"

subsection \<open>Specification\<close>

text \<open>What the environment must be.\<close>

definition environment_ok :: "json \<Rightarrow> string \<Rightarrow> string \<Rightarrow> bool" where
  "environment_ok payload name reviewer \<longleftrightarrow>
     (\<exists>d rules rule. payload = JObj d \<and> jget d ''name'' = JStr name \<and>
        jget d ''deployment_branch_policy'' = JNull \<and> jget d ''protection_rules'' = JArr rules \<and>
        filter is_dict rules = [JObj rule] \<and> jget rule ''type'' = JStr ''required_reviewers'' \<and>
        jget rule ''prevent_self_review'' = JBool False \<and>
        set (actual_reviewers (jget rule ''reviewers'')) = {(''User'', reviewer)})"

definition owner_settings_ok :: "json \<Rightarrow> json \<Rightarrow> json \<Rightarrow> bool" where
  "owner_settings_ok secrets variables fork \<longleftrightarrow>
     (\<forall>p\<in>{secrets, variables}. \<exists>d. p = JObj d \<and> jget d ''total_count'' \<in> {JInt 0, JBool False}) \<and>
     (\<exists>d. fork = JObj d \<and> jget d ''approval_policy'' = JStr ''all_external_contributors'')"

lemma rules_single:
  "(\<exists>rule. reviewer_rules rules = [JObj rule] \<and> unexpected_rules rules = [] \<and> P rule) \<longleftrightarrow>
   (\<exists>rule. filter is_dict rules = [JObj rule] \<and> jget rule ''type'' = JStr ''required_reviewers'' \<and> P rule)"
proof -
  have all: "unexpected_rules rules = [] \<longleftrightarrow>
      (\<forall>r\<in>set rules. is_dict r \<longrightarrow> rule_type r = Some (JStr ''required_reviewers''))"
    by (auto simp: unexpected_rules_def rule_type_def is_dict_iff split: option.splits json.splits if_splits)
  have dict: "rule_type r = Some (JStr ''required_reviewers'') \<Longrightarrow> is_dict r" for r
    by (cases r) (auto simp: rule_type_def)
  have eq: "reviewer_rules rules = filter is_dict rules" if "unexpected_rules rules = []"
    unfolding reviewer_rules_def using that dict by (intro filter_cong) (auto simp: all)
  show ?thesis
  proof
    assume "\<exists>rule. reviewer_rules rules = [JObj rule] \<and> unexpected_rules rules = [] \<and> P rule"
    then obtain rule where r: "reviewer_rules rules = [JObj rule]" "unexpected_rules rules = []" "P rule" by blast
    from r(1) have "JObj rule \<in> set (reviewer_rules rules)" by simp
    then have "jget rule ''type'' = JStr ''required_reviewers''" by (simp add: reviewer_rules_def rule_type_def)
    with r eq show "\<exists>rule. filter is_dict rules = [JObj rule] \<and> jget rule ''type'' = JStr ''required_reviewers'' \<and> P rule"
      by auto
  next
    assume "\<exists>rule. filter is_dict rules = [JObj rule] \<and> jget rule ''type'' = JStr ''required_reviewers'' \<and> P rule"
    then obtain rule where r: "filter is_dict rules = [JObj rule]"
        "jget rule ''type'' = JStr ''required_reviewers''" "P rule" by blast
    have "unexpected_rules rules = []"
      unfolding all
    proof (intro ballI impI)
      fix x assume "x \<in> set rules" "is_dict x"
      then have "x \<in> set (filter is_dict rules)" by simp
      with r show "rule_type x = Some (JStr ''required_reviewers'')" by (simp add: rule_type_def)
    qed
    with r eq show "\<exists>rule. reviewer_rules rules = [JObj rule] \<and> unexpected_rules rules = [] \<and> P rule" by auto
  qed
qed

lemma reviewer_errors_Nil:
  "reviewer_errors rule rules reviewer = [] \<longleftrightarrow>
     unexpected_rules rules = [] \<and> jget rule ''prevent_self_review'' = JBool False \<and>
     set (actual_reviewers (jget rule ''reviewers'')) = {(''User'', reviewer)}"
  by (auto simp: reviewer_errors_def Let_def is_false_def)

lemma reviewer_case_Nil:
  "(case rs of [JObj rule] \<Rightarrow> f rule | _ \<Rightarrow> [e rs]) = [] \<longleftrightarrow> (\<exists>rule. rs = [JObj rule] \<and> f rule = [])"
  by (auto split: list.splits json.splits)

lemma validate_environment_Nil:
  "validate_environment payload name reviewer = [] \<longleftrightarrow> environment_ok payload name reviewer"
proof (cases payload)
  case (JObj d)
  show ?thesis
  proof (cases "jget d ''protection_rules''")
    case (JArr rules)
    have "validate_environment payload name reviewer = [] \<longleftrightarrow>
        jget d ''name'' = JStr name \<and> jget d ''deployment_branch_policy'' = JNull \<and>
        (\<exists>rule. reviewer_rules rules = [JObj rule] \<and> unexpected_rules rules = [] \<and>
           jget rule ''prevent_self_review'' = JBool False \<and>
           set (actual_reviewers (jget rule ''reviewers'')) = {(''User'', reviewer)})"
      using JObj JArr
      by (auto simp: validate_environment_def is_none_def reviewer_errors_Nil split: list.splits json.splits)
    then show ?thesis
      unfolding rules_single using JObj JArr by (auto simp: environment_ok_def)
  qed (use JObj in \<open>auto simp: validate_environment_def environment_ok_def\<close>)
qed (auto simp: validate_environment_def environment_ok_def)

lemma count_error_Nil:
  "count_error label p = [] \<longleftrightarrow> (\<exists>d. p = JObj d \<and> jget d ''total_count'' \<in> {JInt 0, JBool False})"
proof (cases p)
  case (JObj d)
  then show ?thesis
    by (cases "jget d ''total_count''") (auto simp: count_error_def py_eq_int simp del: py_eq.simps split: if_splits)
qed (auto simp: count_error_def)

lemma owner_settings_Nil:
  "validate_owner_only_settings secrets variables fork = [] \<longleftrightarrow> owner_settings_ok secrets variables fork"
  unfolding owner_settings_ok_def
  by (cases fork) (auto simp: validate_owner_only_settings_def count_error_Nil)

text \<open>C7: the check exits with 0 exactly when the repository and the token are given, every query it makes
is answered, the environment has its name, no branch restriction, one protection rule and in it the one
expected reviewer who may review his own changes, and, where the owner's settings are checked too, there
are no secrets and no variables and every external contributor needs an approval.\<close>

theorem full_ci_ok_iff:
  "(\<exists>out. full_ci_main g a = Inr (0, out)) \<longleftrightarrow>
     contains (fc_repo a) ''/'' \<and> (\<exists>t. gh_token g = Some t \<and> t \<noteq> []) \<and>
     (\<exists>payload. gh_json g (environment_endpoint a) = Inr payload \<and>
        environment_ok payload (fc_environment a) (expected_reviewer_of a)) \<and>
     (fc_check_owner a \<longrightarrow>
        (\<exists>secrets variables fork. gh_json g (environment_endpoint a @ ''/secrets'') = Inr secrets \<and>
           gh_json g (environment_endpoint a @ ''/variables'') = Inr variables \<and>
           gh_json g (''repos/'' @ fc_repo a @ ''/actions/permissions/fork-pr-contributor-approval'') = Inr fork \<and>
           owner_settings_ok secrets variables fork))"
proof -
  have repo: "contains (fc_repo a) ''/'' \<Longrightarrow> fc_repo a \<noteq> []" by (auto simp: contains_def)
  have verdict: "full_ci_verdict es = (0, out) \<longleftrightarrow> es = [] \<and> out = [''Full CI environment check: OK'']" for es out
    by (auto simp: full_ci_verdict_def)
  have fail: "query_failure l e \<noteq> Inr (0, out)" for l e out
    by (cases e) (simp_all add: query_failure_def)
  have owner: "owner_errors g a = Inr [] \<longleftrightarrow>
      (\<exists>secrets variables fork. gh_json g (environment_endpoint a @ ''/secrets'') = Inr secrets \<and>
         gh_json g (environment_endpoint a @ ''/variables'') = Inr variables \<and>
         gh_json g (''repos/'' @ fc_repo a @ ''/actions/permissions/fork-pr-contributor-approval'') = Inr fork \<and>
         owner_settings_ok secrets variables fork)"
    by (auto simp: owner_errors_def res_simps owner_settings_Nil)
  show ?thesis
    unfolding owner [symmetric] validate_environment_Nil [symmetric]
    using repo
    by (auto simp: full_ci_main_def verdict fail Let_def split: sum.splits if_splits option.splits)
qed

text \<open>A repository with one reviewer and no secrets.\<close>

definition ex_environment :: json where
  "ex_environment = JObj
     [(''name'', JStr ''full-ci''), (''protection_rules'', JArr [JObj
        [(''type'', JStr ''required_reviewers''), (''prevent_self_review'', JBool False),
         (''reviewers'', JArr [JObj [(''type'', JStr ''User''), (''reviewer'', JObj [(''login'', JStr ''o'')])]])]])]"

definition ex_settings :: json where
  "ex_settings = JObj [(''total_count'', JInt 0), (''approval_policy'', JStr ''all_external_contributors'')]"

definition ex_gh :: gh_env where
  "ex_gh = \<lparr>gh_api = (\<lambda>e. GhDone 0 e []),
     gh_loads = (\<lambda>t. Inr (if t = ''repos/o/r/environments/full-ci'' then ex_environment else ex_settings)),
     gh_token = Some ''t''\<rparr>"

definition ex_full_ci :: full_ci_args where
  "ex_full_ci = \<lparr>fc_repo = ''o/r'', fc_environment = ''full-ci'', fc_expected_reviewer = None, fc_check_owner = True\<rparr>"

theorem full_ci_ok_iff_witness: "\<exists>out. full_ci_main ex_gh ex_full_ci = Inr (0, out)"
proof (rule full_ci_ok_iff [THEN iffD2], intro conjI impI)
  have owner: "expected_reviewer_of ex_full_ci = ''o''" by code_simp
  have ep: "environment_endpoint ex_full_ci = ''repos/o/r/environments/full-ci''" by code_simp
  show "contains (fc_repo ex_full_ci) ''/''" by code_simp
  show "\<exists>t. gh_token ex_gh = Some t \<and> t \<noteq> []" by (simp add: ex_gh_def)
  have "environment_ok ex_environment ''full-ci'' ''o''"
    by (simp add: environment_ok_def ex_environment_def dict_get_def actual_reviewers_def)
  then show "\<exists>payload. gh_json ex_gh (environment_endpoint ex_full_ci) = Inr payload \<and>
      environment_ok payload (fc_environment ex_full_ci) (expected_reviewer_of ex_full_ci)"
    unfolding ep owner by (simp add: gh_json_def ex_gh_def ex_full_ci_def)
  have "owner_settings_ok ex_settings ex_settings ex_settings"
    by (simp add: owner_settings_ok_def ex_settings_def dict_get_def)
  then show "\<exists>secrets variables fork. gh_json ex_gh (environment_endpoint ex_full_ci @ ''/secrets'') = Inr secrets \<and>
      gh_json ex_gh (environment_endpoint ex_full_ci @ ''/variables'') = Inr variables \<and>
      gh_json ex_gh (''repos/'' @ fc_repo ex_full_ci @ ''/actions/permissions/fork-pr-contributor-approval'') = Inr fork \<and>
      owner_settings_ok secrets variables fork"
    unfolding ep by (simp add: gh_json_def ex_gh_def ex_full_ci_def)
qed

end
