(* ===== verification/PyMatch.thy ===== *)
theory PyMatch
  imports PyRegex
begin

text \<open>
  The texts an expression can match, whatever stands around them: \<open>eats r t\<close>. It forgets the
  assertions, so it only bounds what a match can be; the rules of the collection \<open>eats_elims\<close> take
  a matched text apart along the expression.
\<close>

definition eats :: "'c regex \<Rightarrow> 'c list \<Rightarrow> bool" where
  "eats r t \<longleftrightarrow> (\<exists>c c'. (c, c') \<in> lang r \<and> snd c = t @ snd c')"

lemma eats_advances:
  assumes "(c, c') \<in> lang r"
  obtains t where "snd c = t @ snd c'" "fst c' = rev t @ fst c" "eats r t"
proof -
  obtain t where t: "snd c = t @ snd c'" "fst c' = rev t @ fst c"
    using lang_advances [OF assms] unfolding advances_def by blast
  moreover from assms t(1) have "eats r t" unfolding eats_def by blast
  ultimately show thesis by (rule that)
qed

lemma eats_RLit: "eats (RLit s) t \<Longrightarrow> t = s"
  by (auto simp: eats_def lang_RLit)

lemma eats_REps: "eats REps t \<Longrightarrow> t = []"
  by (auto simp: eats_def)

lemma eats_RAssert: "eats (RAssert P) t \<Longrightarrow> t = []"
  by (auto simp: eats_def Id_on_iff)

lemma eats_RCls: "eats (RCls P) t \<Longrightarrow> \<exists>x. t = [x] \<and> P x"
  by (auto simp: eats_def)

lemma eats_RAlt: "eats (RAlt r q) t \<Longrightarrow> eats r t \<or> eats q t"
  by (auto simp: eats_def)

lemma eats_RSeq: "eats (RSeq r q) t \<Longrightarrow> \<exists>a b. t = a @ b \<and> eats r a \<and> eats q b"
proof -
  assume "eats (RSeq r q) t"
  then obtain c d e where c: "(c, d) \<in> lang r" "(d, e) \<in> lang q" "snd c = t @ snd e"
    by (auto simp: eats_def)
  obtain a where a: "snd c = a @ snd d" "eats r a" using c(1) by (rule eats_advances)
  obtain b where b: "snd d = b @ snd e" "eats q b" using c(2) by (rule eats_advances)
  from a(1) b(1) c(3) have "t = a @ b" by simp
  with a b show ?thesis by blast
qed

lemma eats_RSeqs:
  "eats (RSeqs []) t \<Longrightarrow> t = []"
  "eats (RSeqs (r # rs)) t \<Longrightarrow> \<exists>a b. t = a @ b \<and> eats r a \<and> eats (RSeqs rs) b"
proof -
  show "eats (RSeqs []) t \<Longrightarrow> t = []" by (simp add: RSeqs_def eats_REps)
  have "RSeqs (r # rs) = RSeq r (RSeqs rs)" by (simp add: RSeqs_def)
  then show "eats (RSeqs (r # rs)) t \<Longrightarrow> \<exists>a b. t = a @ b \<and> eats r a \<and> eats (RSeqs rs) b"
    using eats_RSeq by metis
qed

lemma eats_ROpt: "eats (ROpt r) t \<Longrightarrow> t = [] \<or> eats r t"
  unfolding ROpt_def using eats_RAlt eats_REps by blast

text \<open>A starred expression matches a sequence of its matches.\<close>

lemma eats_RStar: "eats (RStar r) t \<Longrightarrow> \<exists>ts. t = concat ts \<and> (\<forall>x\<in>set ts. eats r x)"
proof -
  have "(c, c') \<in> (lang r)\<^sup>* \<Longrightarrow> \<exists>ts. snd c = concat ts @ snd c' \<and> (\<forall>x\<in>set ts. eats r x)" for c c'
  proof (induction rule: converse_rtrancl_induct)
    case base
    have "snd c' = concat [] @ snd c'" by simp
    then show ?case by (metis empty_iff empty_set)
  next
    case (step c d)
    obtain x where x: "snd c = x @ snd d" "eats r x" using step(1) by (rule eats_advances)
    obtain ts where ts: "snd d = concat ts @ snd c'" "\<forall>y\<in>set ts. eats r y" using step(3) by blast
    have "snd c = concat (x # ts) @ snd c'" "\<forall>y\<in>set (x # ts). eats r y" using x ts by simp_all
    then show ?case by blast
  qed
  moreover assume "eats (RStar r) t"
  ultimately show ?thesis by (fastforce simp: eats_def)
qed

lemma eats_star_cls: "eats (RStar (RCls P)) t \<Longrightarrow> list_all P t"
proof -
  assume "eats (RStar (RCls P)) t"
  then obtain ts where ts: "t = concat ts" "\<forall>x\<in>set ts. eats (RCls P) x" using eats_RStar by blast
  then have "\<forall>x\<in>set ts. list_all P x" using eats_RCls by fastforce
  with ts show ?thesis by (auto simp: list_all_iff)
qed

lemma eats_plus_cls: "eats (RPlus (RCls P)) t \<Longrightarrow> t \<noteq> [] \<and> list_all P t"
  unfolding RPlus_def by (drule eats_RSeq) (auto dest!: eats_RCls eats_star_cls)

lemma search_eats: "re_search r s \<Longrightarrow> \<exists>a t b. s = a @ t @ b \<and> eats r t"
proof -
  assume "re_search r s"
  then obtain u v c where m: "s = u @ v" "((rev u, v), c) \<in> lang r" unfolding re_search_iff by blast
  from m(2) obtain t where "v = t @ snd c" "eats r t" by (rule eats_advances) simp
  with m(1) show ?thesis by blast
qed

lemma fullmatch_eats: "re_fullmatch r s \<Longrightarrow> eats r s"
proof -
  assume "re_fullmatch r s"
  then obtain p where "(([], s), (p, [])) \<in> lang r" unfolding re_fullmatch_iff by blast
  moreover have "snd ([], s) = s @ snd (p, [])" by simp
  ultimately show ?thesis unfolding eats_def by blast
qed

end
