(* ===== verification/PublicSdkApi.thy ===== *)
theory PublicSdkApi
  imports ReportScan PyMatch
begin

text \<open>
  \<open>tools/ci/check_public_sdk_api.py\<close>: the snapshot of the public SDK API must name symbols that the
  sources of the SDKs still declare. A Swift method is looked for by its argument labels: the search
  pattern is built from the symbol.
\<close>

definition api_err :: "string \<Rightarrow> string" where
  "api_err s = ''PUBLIC_SDK_API_ERR_'' @ s"

definition REQUIRED_DEVICE_EDGES :: "string list" where
  "REQUIRED_DEVICE_EDGES = [''ScanInput'', ''DeviceCapabilities'', ''SecureLocalStore'', ''ExportSink'',
     ''DiagnosticSink'', ''TrustProvider'']"

definition api_load_json :: "env \<Rightarrow> string \<Rightarrow> dict res" where
  "api_load_json w p =
     thenE (checks [(is_file w p, api_err ''FILE_MISSING: '' @ p)])
    (bindE (read_json w p) (\<lambda>v.
       case v of JObj d \<Rightarrow> Inr d | _ \<Rightarrow> stop (api_err ''JSON_OBJECT: '' @ p)))"

subsection \<open>Search patterns\<close>

definition spaces :: "char regex" where "spaces = RStar (RCls chr_is_space)"
definition some_spaces :: "char regex" where "some_spaces = RPlus (RCls chr_is_space)"

text \<open>\<open>[A-Za-z_]\w*\<close>.\<close>

definition chr_starts_name :: "char \<Rightarrow> bool" where
  "chr_starts_name c = (chr_is_ascii_alpha c \<or> c = CHR ''_'')"

definition name_re :: "char regex" where
  "name_re = RSeqs [RCls chr_starts_name, RStar (RCls chr_is_word)]"

definition signature_re :: "char regex" where
  "signature_re = RSeqs [name_re, RLit ''('', RStar (RSeqs [name_re, RLit '':'']), RLit '')'']"

text \<open>\<open>symbol.split(".", 1)[1]\<close>.\<close>

definition after_dot :: "string \<Rightarrow> string res" where
  "after_dot symbol = (case str_partition ''.'' symbol of None \<Rightarrow> Inl IndexError | Some (_, b) \<Rightarrow> Inr b)"

text \<open>\<open>s.split("(", 1)[0]\<close>.\<close>

definition before_paren :: "string \<Rightarrow> string" where
  "before_paren s = (case str_partition ''('' s of None \<Rightarrow> s | Some (a, _) \<Rightarrow> a)"

text \<open>The groups of a signature that matches: its method and its arguments.\<close>

definition signature_args :: "string \<Rightarrow> string" where
  "signature_args s = (case str_partition ''('' s of None \<Rightarrow> [] | Some (_, b) \<Rightarrow> butlast b)"

definition arg_labels :: "string \<Rightarrow> string list" where
  "arg_labels arguments = butlast (str_split '':'' arguments)"

definition swift_parameter :: "string \<Rightarrow> char regex" where
  "swift_parameter label = RSeqs
     [RLit label, ROpt (RSeqs [some_spaces, name_re]), spaces, RLit '':'', spaces,
      RPlus (RCls (\<lambda>c. c \<notin> set '',()''))]"

text \<open>The parameters, joined by \<open>\s*,\s*\<close>.\<close>

fun swift_parameters :: "string list \<Rightarrow> char regex" where
  "swift_parameters [] = REps"
| "swift_parameters [l] = swift_parameter l"
| "swift_parameters (l # k # ls) = RSeqs [swift_parameter l, spaces, RLit '','', spaces, swift_parameters (k # ls)]"

definition swift_declaration :: "string \<Rightarrow> string list \<Rightarrow> char regex" where
  "swift_declaration method labels = RSeqs
     [RWordB, RLit ''public'', some_spaces, RLit ''func'', some_spaces, RLit method, spaces, RLit ''('', spaces,
      swift_parameters labels, spaces, RLit '')'']"

definition swift_method_pattern :: "string \<Rightarrow> char regex res" where
  "swift_method_pattern symbol =
     bindE (after_dot symbol) (\<lambda>signature.
     thenE (checks [(re_fullmatch signature_re signature, api_err ''SWIFT_SIGNATURE: '' @ symbol)])
       (Inr (swift_declaration (before_paren signature) (arg_labels (signature_args signature)))))"

definition kotlin_method_pattern :: "string \<Rightarrow> char regex res" where
  "kotlin_method_pattern symbol =
     bindE (after_dot symbol) (\<lambda>s.
       Inr (RSeqs [RWordB, RLit ''fun'', some_spaces, RLit (before_paren s), spaces, RLit ''('']))"

definition wasm_method_pattern :: "string \<Rightarrow> char regex res" where
  "wasm_method_pattern symbol =
     bindE (after_dot symbol) (\<lambda>s. Inr (RSeqs [RWordB, RLit (before_paren s), spaces, RLit ''('']))"

definition word_pattern :: "string \<Rightarrow> char regex" where
  "word_pattern token = RSeqs [RWordB, RLit token, RWordB]"

subsection \<open>Symbols\<close>

definition symbol_pattern :: "string \<Rightarrow> string \<Rightarrow> string \<Rightarrow> char regex res" where
  "symbol_pattern surface kind name =
     (if kind = ''method'' then
        (if starts_with surface ''swift'' then swift_method_pattern name
         else if surface = ''kotlin'' then kotlin_method_pattern name
         else wasm_method_pattern name)
      else Inr (word_pattern (last (str_split ''.'' name))))"

definition check_symbol :: "string \<Rightarrow> string \<Rightarrow> json \<Rightarrow> unit res" where
  "check_symbol surface source v =
     (case v of
        JObj symbol \<Rightarrow>
          (case fld symbol ''name'' of
             JStr name \<Rightarrow>
               thenE (checks [(name \<noteq> [], api_err ''SYMBOL_NAME: '' @ surface)])
              (thenE (check_in (fld symbol ''kind'') [''method'', ''type'', ''function'', ''constant'']
                        (api_err ''SYMBOL_KIND: '' @ surface @ '':'' @ name))
              (bindE (symbol_pattern surface (json_str (fld symbol ''kind'')) name) (\<lambda>pattern.
                 checks [(re_search pattern source, api_err ''SYMBOL_MISSING: '' @ surface @ '':'' @ name)])))
           | _ \<Rightarrow> stop (api_err ''SYMBOL_NAME: '' @ surface))
      | _ \<Rightarrow> stop (api_err ''SYMBOL_TYPE: '' @ surface))"

definition validate_symbols :: "string \<Rightarrow> json \<Rightarrow> string \<Rightarrow> nat res" where
  "validate_symbols surface symbols source =
     (case symbols of
        JArr xs \<Rightarrow> thenE (forE (check_symbol surface source) xs) (Inr (length xs))
      | _ \<Rightarrow> stop (api_err ''SYMBOLS_TYPE: '' @ surface))"

subsection \<open>Contracts\<close>

text \<open>A chain of \<open>.get(k, {})\<close>, and \<open>x in xs\<close> for a list.\<close>

fun get_chain :: "json \<Rightarrow> string list \<Rightarrow> json \<Rightarrow> json res" where
  "get_chain v [] dflt = Inr v"
| "get_chain v [k] dflt = attr_get_or v k dflt"
| "get_chain v (k # ks) dflt = bindE (attr_get_or v k (JObj [])) (\<lambda>x. get_chain x ks dflt)"

definition in_list :: "json \<Rightarrow> json list \<Rightarrow> bool" where
  "in_list x xs = list_ex (\<lambda>y. py_eq y x) xs"

definition as_items :: "json \<Rightarrow> string \<Rightarrow> json list res" where
  "as_items v code = (case v of JArr xs \<Rightarrow> Inr xs | _ \<Rightarrow> stop (api_err code))"

definition as_object :: "json \<Rightarrow> string \<Rightarrow> dict res" where
  "as_object v code = (case v of JObj d \<Rightarrow> Inr d | _ \<Rightarrow> stop (api_err code))"

definition validate_workflow_contract :: "env \<Rightarrow> string \<Rightarrow> dict \<Rightarrow> (nat \<times> nat) res" where
  "validate_workflow_contract w base expected =
     bindE (api_load_json w (path_join base ''sdk/workflows/contract/client_workflow_v1.schema.json'')) (\<lambda>schema.
     bindE (get_chain (JObj schema) [''properties'', ''workflow'', ''enum''] (JArr [])) (\<lambda>we.
     bindE (get_chain (JObj schema) [''properties'', ''expect'', ''properties'', ''status'', ''enum''] (JArr [])) (\<lambda>se.
     bindE (as_items we ''WORKFLOW_ENUM'') (\<lambda>workflow_enum.
     bindE (as_items se ''STATUS_ENUM'') (\<lambda>status_enum.
     bindE (as_items (dict_get_or expected ''workflows'' (JArr [])) ''SNAPSHOT_WORKFLOWS'') (\<lambda>workflows.
     bindE (as_items (dict_get_or expected ''statuses'' (JArr [])) ''SNAPSHOT_STATUSES'') (\<lambda>statuses.
     thenE (checks (map (\<lambda>x. (in_list x workflow_enum, api_err ''WORKFLOW_MISSING: '' @ json_str x)) workflows))
    (thenE (checks (map (\<lambda>x. (in_list x status_enum, api_err ''STATUS_MISSING: '' @ json_str x)) statuses))
      (Inr (length workflows, length statuses))))))))))"

definition check_edge :: "dict \<Rightarrow> json \<Rightarrow> unit res" where
  "check_edge defs v =
     (case v of
        JStr edge \<Rightarrow> checks [(edge \<noteq> [], api_err ''DEVICE_ADAPTER_EDGE_TYPE''),
                             (has_key defs edge, api_err ''DEVICE_ADAPTER_EDGE_MISSING: '' @ edge)]
      | _ \<Rightarrow> stop (api_err ''DEVICE_ADAPTER_EDGE_TYPE''))"

definition validate_device_adapter_contract :: "env \<Rightarrow> string \<Rightarrow> json \<Rightarrow> nat res" where
  "validate_device_adapter_contract w base v =
     bindE (as_object v ''DEVICE_ADAPTER_CONTRACT'') (\<lambda>expected.
     thenE (checks [(fld expected ''schema'' = JStr ''grain.device-adapter.v1'', api_err ''DEVICE_ADAPTER_SCHEMA''),
                    (fld expected ''path'' = JStr ''sdk/device/device_adapter_v1.schema.json'',
                     api_err ''DEVICE_ADAPTER_PATH'')])
    (bindE (as_items (fld expected ''edges'') ''DEVICE_ADAPTER_EDGES'') (\<lambda>edges.
     thenE (checks (map (\<lambda>e. (str_in_arr e edges, api_err ''DEVICE_ADAPTER_EDGE: '' @ e)) REQUIRED_DEVICE_EDGES))
    (bindE (api_load_json w (path_join base ''sdk/device/device_adapter_v1.schema.json'')) (\<lambda>contract.
     bindE (as_object (dict_get_or contract ''properties'' (JObj [])) ''DEVICE_ADAPTER_PROPERTIES'') (\<lambda>properties.
     bindE (as_object (dict_get_or properties ''schema'' (JObj [])) ''DEVICE_ADAPTER_SCHEMA_FIELD'') (\<lambda>field.
     thenE (checks [(fld field ''const'' = JStr ''grain.device-adapter.v1'', api_err ''DEVICE_ADAPTER_SCHEMA'')])
    (bindE (as_object (dict_get_or contract ''$defs'' (JObj [])) ''DEVICE_ADAPTER_DEFS'') (\<lambda>defs.
     thenE (forE (check_edge defs) edges) (Inr (length edges)))))))))))"

subsection \<open>The whole check\<close>

record api_result =
  ar_schema :: string
  ar_symbols :: nat
  ar_workflows :: nat
  ar_statuses :: nat
  ar_edges :: nat

text \<open>The surfaces with the source file of each; the last two only where the snapshot has them.\<close>

definition surface_files :: "dict \<Rightarrow> (string \<times> string) list" where
  "surface_files surfaces =
     [(''swift'', ''sdk/swift/Sources/GrainClient/GrainClient.swift''),
      (''kotlin'', ''sdk/kotlin/src/main/kotlin/dev/grain/GrainClient.kt''),
      (''wasm'', ''sdk/wasm/src/index.d.ts'')] @
     filter (\<lambda>(surface, _). has_key surfaces surface)
       [(''swift_signed_food'', ''sdk/swift/Sources/GrainSignedFood/GrainSignedFoodWallet.swift''),
        (''typescript_signed_food'', ''core/ts/grain-sdk/src/signed-food.ts'')]"

definition check_surface :: "dict \<Rightarrow> nat \<Rightarrow> string \<times> string \<Rightarrow> nat res" where
  "check_surface surfaces n s =
     (case s of (surface, source) \<Rightarrow>
        bindE (as_object (fld surfaces surface) (''SURFACE: '' @ surface)) (\<lambda>data.
        bindE (validate_symbols surface (fld data ''symbols'') source) (\<lambda>k. Inr (n + k))))"

definition check_public_sdk_api :: "env \<Rightarrow> string \<Rightarrow> string option \<Rightarrow> api_result res" where
  "check_public_sdk_api w base snapshot_path =
     bindE (api_load_json w (case snapshot_path of Some p \<Rightarrow> p | None \<Rightarrow> path_join base ''sdk/api/public-sdk-v0.1.json''))
       (\<lambda>snapshot.
     thenE (checks [(fld snapshot ''schema'' = JStr ''grain.public-sdk-api.v0.1'', api_err ''SCHEMA'')])
    (bindE (as_object (fld snapshot ''surfaces'') ''SURFACES'') (\<lambda>surfaces.
     bindE (mapE (\<lambda>(surface, p). bindE (read_text w (path_join base p)) (\<lambda>t. Inr (surface, t))) (surface_files surfaces))
       (\<lambda>sources.
     bindE (foldE (check_surface surfaces) 0 sources) (\<lambda>symbols.
     bindE (as_object (fld surfaces ''workflow_contract'') ''WORKFLOW_CONTRACT'') (\<lambda>workflow_data.
     bindE (validate_workflow_contract w base workflow_data) (\<lambda>(workflows, statuses).
     bindE (validate_device_adapter_contract w base (fld surfaces ''device_adapter_contract'')) (\<lambda>edges.
       Inr \<lparr>ar_schema = json_str (fld snapshot ''schema''), ar_symbols = symbols, ar_workflows = workflows,
            ar_statuses = statuses, ar_edges = edges\<rparr>))))))))"

text \<open>\<open>resolve\<close> is \<open>Path.resolve\<close>.\<close>

definition public_api_main :: "env \<Rightarrow> (string \<Rightarrow> string) \<Rightarrow> string \<Rightarrow> string option \<Rightarrow> string res" where
  "public_api_main w resolve root_arg snapshot =
     bindE (check_public_sdk_api w (resolve (path_str root_arg))
              (case snapshot of Some p \<Rightarrow> if p \<noteq> [] then Some (path_str p) else None | None \<Rightarrow> None)) (\<lambda>r.
       Inr (''Public SDK API v0.1 check: OK ('' @ nat_str (ar_symbols r) @ '' symbols, '' @ nat_str (ar_workflows r) @
            '' workflows, '' @ nat_str (ar_statuses r) @ '' statuses, '' @ nat_str (ar_edges r) @ '' device edges)''))"

subsection \<open>What a found Swift method is\<close>

text \<open>The label of one parameter of a declaration, and the labels of its parameter list.\<close>

definition param_label :: "string \<Rightarrow> string" where
  "param_label p = takeWhile chr_is_word (str_lstrip p)"

definition declared_labels :: "string \<Rightarrow> string list" where
  "declared_labels body = (if list_all chr_is_space body then [] else map param_label (str_split '','' body))"

definition is_label :: "string \<Rightarrow> bool" where
  "is_label l = (l \<noteq> [] \<and> chr_starts_name (hd l) \<and> list_all chr_is_word l)"

lemma comma_class [simp]: "\<not> chr_is_space CHR '',''" "\<not> chr_is_word CHR '',''" "\<not> chr_is_word CHR '':''"
    "\<not> chr_is_word CHR ''(''" "\<not> chr_starts_name CHR ''(''" "\<not> chr_is_space CHR '':''"
  by code_simp+

lemma space_not_word: "chr_is_space c \<Longrightarrow> \<not> chr_is_word c"
  by (auto simp: chr_is_space_def chr_is_word_def chr_is_alnum_def chr_is_alpha_def chr_is_digit_def
      chr_is_ascii_digit_def chr_is_ascii_alpha_def Let_def)

lemma is_label_hd: "is_label l \<Longrightarrow> chr_is_word (hd l) \<and> \<not> chr_is_space (hd l)"
  using space_not_word by (cases l) (auto simp: is_label_def)

lemma eats_name: "eats name_re t \<Longrightarrow> is_label t"
  unfolding name_re_def
  by (auto dest!: eats_RSeqs eats_RCls eats_star_cls simp: is_label_def chr_starts_name_def chr_is_word_def
      chr_is_alnum_def chr_is_alpha_def)

lemma label_no_sep: "is_label l \<Longrightarrow> CHR '','' \<notin> set l \<and> CHR '':'' \<notin> set l \<and> CHR ''('' \<notin> set l"
  by (auto simp: is_label_def list_all_iff)

lemma spaces_no_sep: "list_all chr_is_space s \<Longrightarrow> CHR '','' \<notin> set s"
  by (auto simp: list_all_iff)

lemma param_label_shape:
  assumes "list_all chr_is_space s" "is_label l" "u \<noteq> []" "\<not> chr_is_word (hd u)"
  shows "param_label (s @ l @ u) = l"
proof -
  have "str_lstrip (s @ l @ u) = l @ u"
    using assms(1,2) is_label_hd [OF assms(2)]
    by (cases l) (auto simp: str_lstrip_def list_all_iff dropWhile_append2 is_label_def)
  moreover have "takeWhile chr_is_word (l @ u) = l"
    using assms(2-4) by (cases u) (auto simp: is_label_def list_all_iff takeWhile_append2)
  ultimately show ?thesis by (simp add: param_label_def)
qed

lemma space_led: "list_all chr_is_space s \<Longrightarrow> s \<noteq> [] \<Longrightarrow> \<not> chr_is_word (hd s)"
  using space_not_word by (cases s) simp_all

text \<open>What follows the label in a matched parameter.\<close>

lemma eats_parameter:
  assumes "eats (swift_parameter l) t"
  shows "\<exists>u. t = l @ u \<and> u \<noteq> [] \<and> \<not> chr_is_word (hd u) \<and> CHR '','' \<notin> set u"
proof -
  from eats_RSeqs(2) [OF assms [unfolded swift_parameter_def]]
  obtain l0 r where l0: "t = l0 @ r" "eats (RLit l) l0" "eats (RSeqs [ROpt (RSeqs [some_spaces, name_re]),
      spaces, RLit '':'', spaces, RPlus (RCls (\<lambda>c. c \<notin> set '',()''))]) r" by blast
  from eats_RSeqs(2) [OF l0(3)] eats_RLit [OF l0(2)] l0(1)
  obtain a b where t: "t = l @ a @ b" "eats (ROpt (RSeqs [some_spaces, name_re])) a"
      "eats (RSeqs [spaces, RLit '':'', spaces, RPlus (RCls (\<lambda>c. c \<notin> set '',()''))]) b" by blast
  from t(3) obtain s1 s2 y where b: "b = s1 @ '':'' @ s2 @ y" "list_all chr_is_space s1" "list_all chr_is_space s2"
      "list_all (\<lambda>c. c \<notin> set '',()'') y"
    unfolding spaces_def by (auto dest!: eats_RSeqs eats_RLit eats_star_cls eats_plus_cls)
  have b1: "b \<noteq> []" using b(1) by simp
  have b2: "\<not> chr_is_word (hd b)"
    using b(1) space_led [OF b(2)] by (cases "s1 = []") simp_all
  have b3: "CHR '','' \<notin> set b"
    unfolding b(1) using spaces_no_sep [OF b(2)] spaces_no_sep [OF b(3)] b(4) by (auto simp: list_all_iff)
  note bh = b1 b2 b3
  from eats_ROpt [OF t(2)] show ?thesis
  proof
    assume "a = []"
    with t bh show ?thesis by auto
  next
    assume "eats (RSeqs [some_spaces, name_re]) a"
    then obtain s n where a: "a = s @ n" "s \<noteq> []" "list_all chr_is_space s" "is_label n"
      unfolding some_spaces_def by (auto dest!: eats_RSeqs eats_plus_cls eats_name)
    have "a \<noteq> []" "\<not> chr_is_word (hd a)" using a space_led [OF a(3)] by simp_all
    moreover have "CHR '','' \<notin> set a"
      using a label_no_sep [OF a(4)] spaces_no_sep [OF a(3)] by simp
    ultimately show ?thesis using t bh by (intro exI [of _ "a @ b"]) simp
  qed
qed

lemma split_comma_none: "CHR '','' \<notin> set s \<Longrightarrow> str_split '','' s = [s]"
proof -
  assume "CHR '','' \<notin> set s"
  then have "str_partition '','' s = None" unfolding str_partition_None_iff by (auto simp: sublist_def)
  then show ?thesis by (subst str_split.simps) simp
qed

lemma split_comma_cons: "CHR '','' \<notin> set a \<Longrightarrow> str_split '','' (a @ CHR '','' # b) = a # str_split '','' b"
proof -
  assume "CHR '','' \<notin> set a"
  then have "str_partition '','' (a @ CHR '','' # b) = Some (a, b)" by (induction a) auto
  then show ?thesis by (subst str_split.simps) simp
qed

lemma eats_parameters:
  "ls \<noteq> [] \<Longrightarrow> \<forall>l\<in>set ls. is_label l \<Longrightarrow> eats (swift_parameters ls) t \<Longrightarrow> list_all chr_is_space s \<Longrightarrow>
   list_all chr_is_space e \<Longrightarrow> map param_label (str_split '','' (s @ t @ e)) = ls \<and> \<not> list_all chr_is_space t"
proof (induction ls arbitrary: t s rule: swift_parameters.induct)
  case 1
  then show ?case by simp
next
  case (2 l)
  then obtain u where u: "t = l @ u" "u \<noteq> []" "\<not> chr_is_word (hd u)" "CHR '','' \<notin> set u"
    using eats_parameter [of l t] by auto
  have l: "is_label l" using 2 by simp
  have "CHR '','' \<notin> set (s @ t @ e)"
    using u l 2 label_no_sep spaces_no_sep by auto
  moreover have "param_label (s @ l @ (u @ e)) = l"
    by (rule param_label_shape) (use 2 u l in auto)
  moreover have "\<not> list_all chr_is_space t"
    using u is_label_hd [OF l] l by (cases l) (auto simp: is_label_def)
  ultimately show ?case using u by (simp add: split_comma_none)
next
  case (3 l k ls)
  from "3.prems"(3) obtain p s1 s2 q where t: "t = p @ s1 @ '','' @ s2 @ q" "eats (swift_parameter l) p"
      "list_all chr_is_space s1" "list_all chr_is_space s2" "eats (swift_parameters (k # ls)) q"
    unfolding swift_parameters.simps spaces_def by (auto dest!: eats_RSeqs eats_RLit eats_star_cls)
  obtain u where u: "p = l @ u" "u \<noteq> []" "\<not> chr_is_word (hd u)" "CHR '','' \<notin> set u"
    using eats_parameter [OF t(2)] by blast
  have l: "is_label l" using 3 by simp
  have IH: "map param_label (str_split '','' (s2 @ q @ e)) = k # ls"
    using "3.IH" [OF _ _ t(5) t(4) "3.prems"(5)] "3.prems"(2) by simp
  have "CHR '','' \<notin> set (s @ p @ s1)"
    using u l t(3) "3.prems"(4) label_no_sep spaces_no_sep by auto
  from split_comma_cons [OF this, of "s2 @ q @ e"]
  have "str_split '','' (s @ t @ e) = (s @ p @ s1) # str_split '','' (s2 @ q @ e)"
    using t(1) by simp
  moreover have "param_label (s @ l @ (u @ s1)) = l"
    by (rule param_label_shape) (use "3.prems"(4) u l in auto)
  moreover have "\<not> list_all chr_is_space t"
    using t(1) by simp
  ultimately show ?case using IH u by simp
qed

definition labels_text :: "string list \<Rightarrow> string" where
  "labels_text ls = concat (map (\<lambda>l. l @ '':'') ls)"

lemma split_labels: "\<forall>l\<in>set ls. is_label l \<Longrightarrow> str_split '':'' (labels_text ls) = ls @ [[]]"
proof (induction ls)
  case Nil
  show ?case by (subst str_split.simps) (simp add: labels_text_def)
next
  case (Cons l ls)
  then have "CHR '':'' \<notin> set l" using label_no_sep by simp
  then have "str_partition '':'' (l @ CHR '':'' # labels_text ls) = Some (l, labels_text ls)"
    by (induction l) auto
  with Cons show ?case by (subst str_split.simps) (simp add: labels_text_def)
qed

text \<open>A signature the pattern accepts is a method name and a list of labels, and both are read back.\<close>

lemma eats_labels: "\<forall>x\<in>set ts. eats (RSeqs [name_re, RLit '':'']) x \<Longrightarrow>
  \<exists>ls. concat ts = labels_text ls \<and> (\<forall>l\<in>set ls. is_label l)"
proof (induction ts)
  case Nil
  show ?case by (intro exI [of _ "[]"]) (simp add: labels_text_def)
next
  case (Cons x ts)
  then obtain ls where ls: "concat ts = labels_text ls" "\<forall>l\<in>set ls. is_label l" by auto
  from Cons have "eats (RSeqs [name_re, RLit '':'']) x" by simp
  then obtain l where "x = l @ '':''" "is_label l"
    by (auto dest!: eats_RSeqs eats_RLit eats_name)
  with ls show ?case by (intro exI [of _ "l # ls"]) (simp add: labels_text_def)
qed

lemma signature_parts:
  assumes "re_fullmatch signature_re sig"
  shows "\<exists>m ls. sig = m @ ''('' @ labels_text ls @ '')'' \<and> (\<forall>l\<in>set ls. is_label l) \<and>
    before_paren sig = m \<and> arg_labels (signature_args sig) = ls"
proof -
  from fullmatch_eats [OF assms] obtain m a where sig: "sig = m @ ''('' @ a @ '')''" "is_label m"
      "eats (RStar (RSeqs [name_re, RLit '':''])) a"
    unfolding signature_re_def by (auto dest!: eats_RSeqs(2) [of name_re] eats_name
        eats_RSeqs(2) [of "RLit _"] eats_RSeqs(2) [of "RStar _"] eats_RSeqs(1) eats_RLit)
  from eats_RStar [OF sig(3)] eats_labels obtain ls where ls: "a = labels_text ls" "\<forall>l\<in>set ls. is_label l"
    by metis
  have "str_partition ''('' (m @ CHR ''('' # (a @ '')'')) = Some (m, a @ '')'')"
    using label_no_sep [OF sig(2)] by (induction m) auto
  with sig(1) have "before_paren sig = m" "signature_args sig = a"
    by (simp_all add: before_paren_def signature_args_def butlast_append)
  with sig(1) ls split_labels [OF ls(2)] show ?thesis
    by (intro exI [of _ m] exI [of _ ls]) (simp add: arg_labels_def)
qed

lemma found_declaration:
  assumes "re_search (swift_declaration m ls) source" "\<forall>l\<in>set ls. is_label l"
  shows "\<exists>pre s1 s2 s3 body post. source = pre @ ''public'' @ s1 @ ''func'' @ s2 @ m @ s3 @ ''('' @ body @ '')'' @ post \<and>
    s1 \<noteq> [] \<and> s2 \<noteq> [] \<and> list_all chr_is_space (s1 @ s2 @ s3) \<and> declared_labels body = ls"
proof -
  from search_eats [OF assms(1)] obtain pre t post where t: "source = pre @ t @ post"
      "eats (swift_declaration m ls) t" by blast
  from t(2) obtain s1 s2 s3 s4 ps s5 where d: "t = ''public'' @ s1 @ ''func'' @ s2 @ m @ s3 @ ''('' @ s4 @ ps @ s5 @ '')''"
      "s1 \<noteq> []" "list_all chr_is_space s1" "s2 \<noteq> []" "list_all chr_is_space s2" "list_all chr_is_space s3"
      "list_all chr_is_space s4" "eats (swift_parameters ls) ps" "list_all chr_is_space s5"
    unfolding swift_declaration_def RWordB_def spaces_def some_spaces_def
    apply (elim eats_RSeqs(2) [elim_format] exE conjE)
    apply (drule eats_RAssert eats_RLit eats_plus_cls eats_star_cls eats_RSeqs(1))+
    apply auto
    done
  have "declared_labels (s4 @ ps @ s5) = ls"
  proof (cases "ls = []")
    case True
    then have "ps = []" using d(8) eats_REps by auto
    with True d show ?thesis by (simp add: declared_labels_def)
  next
    case False
    from eats_parameters [OF False assms(2) d(8) d(7) d(9)] show ?thesis
      by (simp add: declared_labels_def)
  qed
  moreover have "source = pre @ ''public'' @ s1 @ ''func'' @ s2 @ m @ s3 @ ''('' @ (s4 @ ps @ s5) @ '')'' @ post"
    using t(1) d(1) by simp
  moreover have "list_all chr_is_space (s1 @ s2 @ s3)" using d by simp
  ultimately show ?thesis using d(2,4) by blast
qed

lemma swift_pattern_found:
  assumes "swift_method_pattern name = Inr pattern" "re_search pattern source"
  shows "\<exists>cls m ls pre s1 s2 s3 body post. name = cls @ ''.'' @ m @ ''('' @ labels_text ls @ '')'' \<and>
    source = pre @ ''public'' @ s1 @ ''func'' @ s2 @ m @ s3 @ ''('' @ body @ '')'' @ post \<and>
    s1 \<noteq> [] \<and> s2 \<noteq> [] \<and> list_all chr_is_space (s1 @ s2 @ s3) \<and> declared_labels body = ls"
proof -
  from assms(1) obtain sig where sig: "after_dot name = Inr sig" "re_fullmatch signature_re sig"
      "pattern = swift_declaration (before_paren sig) (arg_labels (signature_args sig))"
    by (auto simp: swift_method_pattern_def res_simps split: if_splits)
  from sig(1) obtain cls where n: "name = cls @ ''.'' @ sig"
    by (auto simp: after_dot_def dest: str_partition_Some split: option.splits)
  from signature_parts [OF sig(2)] obtain m ls where m: "sig = m @ ''('' @ labels_text ls @ '')''"
      "\<forall>l\<in>set ls. is_label l" "before_paren sig = m" "arg_labels (signature_args sig) = ls" by blast
  have "re_search (swift_declaration m ls) source" using assms(2) sig(3) m(3,4) by simp
  from found_declaration [OF this m(2)] n m(1) show ?thesis by blast
qed

text \<open>The symbols of a surface that an accepted snapshot lists.\<close>

definition lists_symbol :: "dict \<Rightarrow> string \<Rightarrow> string \<Rightarrow> string \<Rightarrow> bool" where
  "lists_symbol snapshot surface kind name \<longleftrightarrow>
     (\<exists>surfaces data syms sym. fld snapshot ''surfaces'' = JObj surfaces \<and> fld surfaces surface = JObj data \<and>
        fld data ''symbols'' = JArr syms \<and> JObj sym \<in> set syms \<and> fld sym ''kind'' = JStr kind \<and>
        fld sym ''name'' = JStr name)"

text \<open>The two Swift surfaces and their sources.\<close>

definition swift_surfaces :: "(string \<times> string) list" where
  "swift_surfaces =
     [(''swift'', ''sdk/swift/Sources/GrainClient/GrainClient.swift''),
      (''swift_signed_food'', ''sdk/swift/Sources/GrainSignedFood/GrainSignedFoodWallet.swift'')]"

lemma checked_swift_symbol:
  assumes ok: "check_public_sdk_api w base snap = Inr r"
    and snapshot: "api_load_json w (case snap of Some p \<Rightarrow> p | None \<Rightarrow> path_join base ''sdk/api/public-sdk-v0.1.json'') =
      Inr snapshot"
    and surface: "(surface, path) \<in> set swift_surfaces"
    and sym: "lists_symbol snapshot surface ''method'' name"
  shows "\<exists>source pattern. file_text w (path_join base path) = Some source \<and>
    swift_method_pattern name = Inr pattern \<and> re_search pattern source"
proof -
  from sym obtain surfaces data syms sym where s: "fld snapshot ''surfaces'' = JObj surfaces"
      "fld surfaces surface = JObj data" "fld data ''symbols'' = JArr syms" "JObj sym \<in> set syms"
      "fld sym ''kind'' = JStr ''method''" "fld sym ''name'' = JStr name"
    by (auto simp: lists_symbol_def)
  let ?read = "\<lambda>(surface, p). bindE (read_text w (path_join base p)) (\<lambda>t. Inr (surface, t))"
  from ok snapshot s(1) obtain sources n where src: "mapE ?read (surface_files surfaces) = Inr sources"
      "foldE (check_surface surfaces) 0 sources = Inr n"
    by (auto simp: check_public_sdk_api_def res_simps as_object_def simp del: mapE.simps foldE.simps)
  have "has_key surfaces surface" using s(2) by (auto simp: has_key_def dict_get_def image_iff dest!: map_of_SomeD split: option.splits intro: bexI [rotated])
  with surface have "(surface, path) \<in> set (surface_files surfaces)"
    by (auto simp: swift_surfaces_def surface_files_def)
  from mapE_value [OF src(1) this] obtain source where source: "file_text w (path_join base path) = Some source"
      "(surface, source) \<in> set sources"
    by (auto simp: bindE_Inr read_text_Inr)
  from foldE_member [OF src(2) source(2)] obtain a b where "check_surface surfaces a (surface, source) = Inr b" by blast
  then have "forE (check_symbol surface source) syms = Inr ()"
    using s(2,3) by (auto simp: check_surface_def as_object_def validate_symbols_def res_simps)
  then have "check_symbol surface source (JObj sym) = Inr ()" using s(4) by (simp add: res_simps)
  moreover have "starts_with surface ''swift''" using surface by (auto simp: swift_surfaces_def starts_with_def)
  ultimately show ?thesis
    using s(5,6) source(1) by (auto simp: check_symbol_def symbol_pattern_def res_simps split: if_splits)
qed


text \<open>A repository whose snapshot lists one Swift method of signed food.\<close>

definition ex_contract :: dict where
  "ex_contract = [(''properties'', JObj [(''schema'', JObj [(''const'', JStr ''grain.device-adapter.v1'')])]),
     (''$defs'', JObj (map (\<lambda>e. (e, JNull)) REQUIRED_DEVICE_EDGES))]"

definition ex_snapshot :: dict where
  "ex_snapshot = [(''schema'', JStr ''grain.public-sdk-api.v0.1''),
     (''surfaces'', JObj
        [(''swift'', JObj [(''symbols'', JArr [])]),
         (''swift_signed_food'', JObj [(''symbols'', JArr [JObj [(''name'', JStr ''C.scan(qr:at:)''), (''kind'', JStr ''method'')]])]),
         (''kotlin'', JObj [(''symbols'', JArr [])]), (''wasm'', JObj [(''symbols'', JArr [])]),
         (''workflow_contract'', JObj []),
         (''device_adapter_contract'', JObj [(''schema'', JStr ''grain.device-adapter.v1''),
            (''path'', JStr ''sdk/device/device_adapter_v1.schema.json''),
            (''edges'', JArr (map JStr REQUIRED_DEVICE_EDGES))])])]"

definition ex_swift :: string where
  "ex_swift = ''  public func scan(qr text: String, at t: Int)''"

definition ex_api :: env where
  "ex_api = \<lparr>file_text = (\<lambda>p. Some (if p = ''r/sdk/swift/Sources/GrainSignedFood/GrainSignedFoodWallet.swift'' then ex_swift else p)),
     json_loads = (\<lambda>t. Some (JObj (if t = ''r/sdk/api/public-sdk-v0.1.json'' then ex_snapshot
        else if t = ''r/sdk/device/device_adapter_v1.schema.json'' then ex_contract else []))),
     is_dir = (\<lambda>_. False), dir_glob = (\<lambda>_ _. [])\<rparr>"

lemma ex_api_snapshot: "api_load_json ex_api ''r/sdk/api/public-sdk-v0.1.json'' = Inr ex_snapshot"
  by (simp add: api_load_json_def is_file_def read_json_def read_text_def loads_def ex_api_def)

lemma ex_api_passes: "is_ok (check_public_sdk_api ex_api ''r'' None)"
  by code_simp


end
