(* ===== verification/ConsumerTemplates.thy ===== *)
theory ConsumerTemplates
  imports SdkHandoff SdkHandoffProps
begin

text \<open>
  \<open>tools/ci/check_external_consumer_templates.py\<close>: unpacks the archives of an SDK release into the
  vendor directory of an empty external consumer and checks that everything a consumer starts from
  is there. The release directory is only read (\<open>renv\<close>); the consumer's side is the file system
  \<open>fs\<close> of the hand-off, and the relation \<open>consumer_frame\<close> says where it may change.
\<close>

definition con_err :: "string \<Rightarrow> string" where
  "con_err s = ''EXTERNAL_CONSUMER_TEMPLATES_ERR_'' @ s"

definition EXPECTED_ARTIFACTS_consumer :: "(string \<times> handoff_policy) list" where
  "EXPECTED_ARTIFACTS_consumer =
     [(''grain-generated-bindings'', \<lparr>h_kind = ''generated-bindings'',
        h_required_entries = [''generated-bindings/swift/'', ''generated-bindings/kotlin/'']\<rparr>),
      (''grain-swift-client'', \<lparr>h_kind = ''swift-client'',
        h_required_entries = [''sdk/swift/Package.swift'', ''sdk/swift/Sources/GrainClient/'']\<rparr>),
      (''grain-kotlin-client'', \<lparr>h_kind = ''kotlin-client'',
        h_required_entries = [''sdk/kotlin/build.gradle.kts'', ''sdk/kotlin/src/main/kotlin/'']\<rparr>),
      (''grain-wasm-client'', \<lparr>h_kind = ''wasm-client'',
        h_required_entries = [''sdk/wasm/package.json'', ''sdk/wasm/src/index.mjs'',
                              ''core/rust/grain-client-wasm/Cargo.toml'']\<rparr>),
      (''grain-rust-client-core'', \<lparr>h_kind = ''rust-client-core'',
        h_required_entries = [''core/rust/Cargo.toml'', ''core/rust/Cargo.lock'',
                              ''core/rust/rust-toolchain.toml'', ''core/rust/grain-core/Cargo.toml'',
                              ''core/rust/grain-client-core/Cargo.toml'',
                              ''core/rust/grain-client-wasm/Cargo.toml'']\<rparr>),
      (''grain-typescript-sdk'', \<lparr>h_kind = ''typescript-sdk'',
        h_required_entries = [''core/ts/grain-ts-core/package.json'', ''core/ts/grain-ts-core/src/'',
                              ''core/ts/grain-sdk/package.json'', ''core/ts/grain-sdk/src/'',
                              ''core/ts/grain-sdk-ai/package.json'', ''core/ts/grain-sdk-ai/src/'',
                              ''fixtures/external-consumers/npm-sdk/package.json'',
                              ''fixtures/external-consumers/npm-sdk/src/import-smoke.ts'',
                              ''fixtures/external-consumers/npm-sdk/src/runtime-smoke.mjs'']\<rparr>),
      (''grain-sdk-workflow-contract'', \<lparr>h_kind = ''workflow-contract'',
        h_required_entries = [''sdk/api/public-sdk-v0.1.json'',
                              ''sdk/custody/secure_storage_adapter_v1.md'',
                              ''sdk/device/device_adapter_v1.schema.json'', ''sdk/device/README.md'',
                              ''sdk/workflows/contract/client_workflow_v1.md'',
                              ''sdk/workflows/contract/safe_diagnostic_event_v1.schema.json'',
                              ''sdk/trust/trust_anchor_bundle_v1.schema.json'',
                              ''sdk/generated/README.md'', ''docs/human/sdk/version-matrix.md'',
                              ''docs/human/sdk/security-review.md'',
                              ''docs/human/sdk/release-train.md'',
                              ''docs/llm/SDK_GENERATED_VERIFICATION.md'']\<rparr>),
      (''grain-starter-templates'', \<lparr>h_kind = ''starter-templates'',
        h_required_entries = [''templates/ios-starter/Package.swift'',
                              ''templates/android-starter/build.gradle.kts'',
                              ''templates/web-wasm-starter/package.json'',
                              ''examples/ios-scanner/Package.swift'',
                              ''examples/android-scanner/build.gradle.kts'',
                              ''examples/wasm-scanner/package.json'',
                              ''examples/ios-reference-app/Package.swift'',
                              ''examples/android-reference-app/build.gradle.kts'',
                              ''scripts/sdk/check_starter_templates.sh'',
                              ''scripts/sdk/run_local_scanner_flow.sh'',
                              ''tools/ci/check_local_scanner_flow_report.py'']\<rparr>)]"

definition CONSUMER_INPUTS :: "string list" where
  "CONSUMER_INPUTS =
     [''vendor/grain-sdk/sdk/swift/Package.swift'', ''vendor/grain-sdk/sdk/kotlin/build.gradle.kts'',
      ''vendor/grain-sdk/sdk/wasm/package.json'', ''vendor/grain-sdk/core/rust/Cargo.toml'',
      ''vendor/grain-sdk/core/rust/Cargo.lock'', ''vendor/grain-sdk/core/rust/rust-toolchain.toml'',
      ''vendor/grain-sdk/core/rust/grain-core/Cargo.toml'',
      ''vendor/grain-sdk/core/rust/grain-client-core/Cargo.toml'',
      ''vendor/grain-sdk/core/rust/grain-client-wasm/Cargo.toml'',
      ''vendor/grain-sdk/core/ts/grain-ts-core/package.json'',
      ''vendor/grain-sdk/core/ts/grain-sdk/package.json'',
      ''vendor/grain-sdk/core/ts/grain-sdk-ai/package.json'',
      ''vendor/grain-sdk/fixtures/external-consumers/npm-sdk/package.json'',
      ''vendor/grain-sdk/sdk/api/public-sdk-v0.1.json'',
      ''vendor/grain-sdk/sdk/custody/secure_storage_adapter_v1.md'',
      ''vendor/grain-sdk/sdk/device/device_adapter_v1.schema.json'',
      ''vendor/grain-sdk/sdk/device/README.md'',
      ''vendor/grain-sdk/sdk/workflows/contract/client_workflow_v1.md'',
      ''vendor/grain-sdk/sdk/workflows/contract/safe_diagnostic_event_v1.schema.json'',
      ''vendor/grain-sdk/sdk/trust/trust_anchor_bundle_v1.schema.json'',
      ''vendor/grain-sdk/templates/ios-starter/Package.swift'',
      ''vendor/grain-sdk/templates/android-starter/build.gradle.kts'',
      ''vendor/grain-sdk/templates/web-wasm-starter/package.json'',
      ''vendor/grain-sdk/examples/ios-scanner/Package.swift'',
      ''vendor/grain-sdk/examples/android-scanner/build.gradle.kts'',
      ''vendor/grain-sdk/examples/wasm-scanner/package.json'',
      ''vendor/grain-sdk/examples/ios-reference-app/Package.swift'',
      ''vendor/grain-sdk/examples/android-reference-app/build.gradle.kts'',
      ''vendor/grain-sdk/scripts/sdk/check_starter_templates.sh'',
      ''vendor/grain-sdk/scripts/sdk/run_local_scanner_flow.sh'',
      ''vendor/grain-sdk/tools/ci/check_local_scanner_flow_report.py'',
      ''vendor/grain-sdk/generated-bindings/swift'', ''vendor/grain-sdk/generated-bindings/kotlin'']"

record consumer_result =
  cr_commit :: string
  cr_consumer_root :: path
  cr_artifacts :: "string list"

subsection \<open>Manifest\<close>

definition consumer_manifest :: "renv \<Rightarrow> string \<Rightarrow> dict res" where
  "consumer_manifest w release_dir =
     (let manifest_path = path_join release_dir ''manifest.json'' in
      thenE (checks [(is_file (files w) manifest_path, con_err ''MANIFEST_MISSING'')])
     (bindE (read_json (files w) manifest_path) (\<lambda>v.
      bindE (case v of JObj d \<Rightarrow> Inr d | _ \<Rightarrow> Inl AttributeError) (\<lambda>manifest.
      thenE (checks
        [(fld manifest ''schema'' = JStr ''grain.sdk.release.manifest.v1'', con_err ''SCHEMA''),
         (is_str (fld manifest ''commit'') \<and> re_match COMMIT_RE (json_str (fld manifest ''commit'')), con_err ''COMMIT'')])
        (Inr manifest)))))"

definition consumer_policy :: "dict \<Rightarrow> unit res" where
  "consumer_policy manifest =
     validate_artifact_policy (fld manifest ''artifact_policy'') ''EXTERNAL_CONSUMER_TEMPLATES_ERR''"

definition consumer_prefix :: "string \<Rightarrow> string \<Rightarrow> string res" where
  "consumer_prefix file_name commit =
     (let suf = artifact_suffix commit in
      if ends_with file_name suf then Inr (take (length file_name - length suf) file_name)
      else stop (con_err ''ARTIFACT_COMMIT: '' @ file_name))"

subsection \<open>Archives\<close>

definition validate_archive_entry :: "string \<Rightarrow> string \<Rightarrow> unit res" where
  "validate_archive_entry archive_name name =
     checks
       [(name \<noteq> [] \<and> \<not> starts_with name ''/'', con_err ''ABSOLUTE_ENTRY: '' @ archive_name @ '':'' @ name),
        (''..'' \<notin> set (path_parts name), con_err ''TRAVERSAL_ENTRY: '' @ archive_name @ '':'' @ name)]"

definition unpack_member :: "string \<Rightarrow> path \<Rightarrow> string list \<Rightarrow> member \<Rightarrow> (fs, string list) io" where
  "unpack_member archive_name target entries m =
     (let name = m_name m; out = target @ path_comps name in
      seqIO (liftE (validate_archive_entry archive_name name))
     (seqIO (liftE (checks [(m_isfile m \<or> m_isdir m, con_err ''UNSUPPORTED_ENTRY: '' @ archive_name @ '':'' @ name)]))
     (if m_isdir m then seqIO (mkdirs [] out) (retIO (entries @ [name]))
      else seqIO (mkdirs [] (butlast out))
        (case m_data m of
           None \<Rightarrow> raiseIO (SystemExit (con_err ''UNREADABLE_ENTRY: '' @ archive_name @ '':'' @ name))
         | Some data \<Rightarrow> seqIO (write_file out data) (retIO (entries @ [name]))))))"

definition extract_archive :: "renv \<Rightarrow> string \<Rightarrow> path \<Rightarrow> string list \<Rightarrow> (fs, unit) io" where
  "extract_archive w archive_path target required_entries =
     bindIO (liftE (tar_members w archive_path)) (\<lambda>ms.
     bindIO (foldIO (unpack_member (path_name archive_path) target) [] ms) (\<lambda>entries.
       liftE (checks (map (\<lambda>req. (has_entry entries req,
           con_err ''REQUIRED_ENTRY_MISSING: '' @ path_name archive_path @ '':'' @ req)) required_entries))))"

subsection \<open>Artifacts\<close>

definition consumer_artifact ::
  "renv \<Rightarrow> string \<Rightarrow> path \<Rightarrow> string \<Rightarrow> string list \<times> string list \<Rightarrow> json \<Rightarrow> (fs, string list \<times> string list) io" where
  "consumer_artifact w release_dir target commit = (\<lambda>(seen, extracted) v.
     bindIO (liftE (report_object v (con_err ''ARTIFACT_TYPE''))) (\<lambda>artifact.
     case fld artifact ''file'' of
       JStr file_name \<Rightarrow>
         seqIO (liftE (checks [(safe_file_name file_name, con_err ''ARTIFACT_FILE'')]))
        (bindIO (liftE (consumer_prefix file_name commit)) (\<lambda>pre.
         case map_of EXPECTED_ARTIFACTS_consumer pre of
           None \<Rightarrow> raiseIO (SystemExit (con_err ''ARTIFACT_UNKNOWN: '' @ file_name))
         | Some expected \<Rightarrow>
             seqIO (liftE (checks
               [(pre \<notin> set seen, con_err ''ARTIFACT_DUP: '' @ file_name),
                (fld artifact ''kind'' = JStr (h_kind expected), con_err ''ARTIFACT_KIND: '' @ file_name),
                (has_key artifact ''commit'' \<longrightarrow> fld artifact ''commit'' = JStr commit, con_err ''ARTIFACT_COMMIT: '' @ file_name),
                (is_file (files w) (path_join release_dir file_name), con_err ''ARTIFACT_MISSING: '' @ file_name)]))
            (seqIO (extract_archive w (path_join release_dir file_name) target (h_required_entries expected))
               (retIO (seen @ [pre], extracted @ [file_name])))))
     | _ \<Rightarrow> raiseIO (SystemExit (con_err ''ARTIFACT_FILE''))))"

definition consumer_artifacts :: "renv \<Rightarrow> dict \<Rightarrow> string \<Rightarrow> path \<Rightarrow> string \<Rightarrow> (fs, string list) io" where
  "consumer_artifacts w manifest release_dir target commit =
     bindIO (liftE (report_list (fld manifest ''artifacts'') (con_err ''ARTIFACTS_TYPE''))) (\<lambda>artifacts.
     seqIO (liftE (checks [(length artifacts = length EXPECTED_ARTIFACTS_consumer, con_err ''ARTIFACT_COUNT'')]))
    (bindIO (foldIO (consumer_artifact w release_dir target commit) ([], []) artifacts) (\<lambda>(seen, extracted).
     seqIO (liftE (checks [(set seen = set (map fst EXPECTED_ARTIFACTS_consumer), con_err ''ARTIFACT_SET'')]))
       (retIO (py_sorted extracted)))))"

definition validate_consumer_inputs :: "path \<Rightarrow> fs \<Rightarrow> unit res" where
  "validate_consumer_inputs consumer_root fs =
     checks (map (\<lambda>rel. (map_of fs (consumer_root @ path_comps rel) \<noteq> None,
       con_err ''CONSUMER_INPUT_MISSING: '' @ rel)) CONSUMER_INPUTS)"

definition vendor_dir :: "path \<Rightarrow> path" where
  "vendor_dir consumer_root = consumer_root @ [''vendor'', ''grain-sdk'']"

text \<open>\<open>any(consumer_root.iterdir())\<close> where the directory exists.\<close>

definition root_busy :: "path \<Rightarrow> fs \<Rightarrow> bool res" where
  "root_busy consumer_root fs =
     (if map_of fs consumer_root = None then Inr False else has_children consumer_root fs)"

definition fill_consumer :: "renv \<Rightarrow> dict \<Rightarrow> string \<Rightarrow> string \<Rightarrow> path \<Rightarrow> (fs, consumer_result) io" where
  "fill_consumer w manifest release_dir commit consumer_root =
     bindIO (\<lambda>fs. (root_busy consumer_root fs, fs)) (\<lambda>busy.
     seqIO (liftE (checks [(\<not> busy, con_err ''CONSUMER_ROOT_EXISTS: /'' @ str_join ''/'' consumer_root)]))
    (seqIO (mkdirs [] (vendor_dir consumer_root))
    (bindIO (consumer_artifacts w manifest release_dir (vendor_dir consumer_root) commit) (\<lambda>artifacts.
     seqIO (\<lambda>fs. (validate_consumer_inputs consumer_root fs, fs))
       (retIO \<lparr>cr_commit = commit, cr_consumer_root = consumer_root, cr_artifacts = artifacts\<rparr>)))))"

definition consumer_precheck :: "renv \<Rightarrow> string \<Rightarrow> string option \<Rightarrow> (dict \<times> string) res" where
  "consumer_precheck w release_dir expected =
     bindE (consumer_manifest w release_dir) (\<lambda>manifest.
     let commit = json_str (fld manifest ''commit'') in
     thenE (checks [((case expected of None \<Rightarrow> True | Some c \<Rightarrow> commit = c), con_err ''COMMIT_MISMATCH'')])
    (thenE (consumer_policy manifest) (Inr (manifest, commit))))"

text \<open>\<open>tmp\<close> is the directory \<open>tempfile.mkdtemp\<close> makes where no consumer root is given.\<close>

definition check_external_consumer_templates ::
  "renv \<Rightarrow> string \<Rightarrow> string option \<Rightarrow> path option \<Rightarrow> path \<Rightarrow> (fs, consumer_result) io" where
  "check_external_consumer_templates w release_dir expected consumer_root tmp =
     bindIO (liftE (consumer_precheck w release_dir expected)) (\<lambda>(manifest, commit).
       case consumer_root of
         Some r \<Rightarrow> fill_consumer w manifest release_dir commit r
       | None \<Rightarrow> seqIO (act (set_node tmp Dir))
                   (fill_consumer w manifest release_dir commit (tmp @ [''consumer''])))"

definition consumer_main :: "renv \<Rightarrow> string \<Rightarrow> string option \<Rightarrow> path option \<Rightarrow> path \<Rightarrow> (fs, string) io" where
  "consumer_main w release_dir expected consumer_root tmp =
     bindIO (check_external_consumer_templates w release_dir expected consumer_root tmp) (\<lambda>r.
       retIO (''External consumer template check: OK ('' @ nat_str (length (cr_artifacts r)) @
         '' source artifacts, commit '' @ cr_commit r @ '')''))"

subsection \<open>Where the check writes\<close>

definition consumer_frame :: "path \<Rightarrow> fs \<Rightarrow> fs \<Rightarrow> bool" where
  "consumer_frame target fs fs' = (outside_kept target fs fs' \<and> dirs_kept fs fs')"

interpretation consumer: frame "consumer_frame target" for target
proof
  show "consumer_frame target w w" for w
    by (simp add: consumer_frame_def outside_kept_def dirs_kept_def)
  show "consumer_frame target u v \<Longrightarrow> consumer_frame target v w \<Longrightarrow> consumer_frame target u w" for u v w
    unfolding consumer_frame_def dirs_kept_def using outside_kept_trans by blast
qed

lemma handoff_consumer_frame: "handoff_frame t u v \<Longrightarrow> consumer_frame t u v"
  by (simp add: handoff_frame_def consumer_frame_def)

lemma consumer_mkdirs: "prefix p target \<or> prefix target p \<Longrightarrow> framed (consumer_frame target) (mkdirs [] p)"
  using framed_mkdirs handoff_consumer_frame unfolding framed_def by blast

lemma consumer_write: "prefix target p \<Longrightarrow> framed (consumer_frame target) (write_file p d)"
  unfolding framed_def
proof
  fix fs assume p: "prefix target p"
  show "consumer_frame target fs (snd (write_file p d fs))"
  proof (cases "map_of fs p = Some Dir")
    case True
    then show ?thesis by (simp add: write_file_def consumer.frame_refl)
  next
    case False
    then have w: "snd (write_file p d fs) = set_node p (File d) fs"
      by (auto simp: write_file_def split: option.splits node.splits)
    show ?thesis
      unfolding w consumer_frame_def outside_kept_def dirs_kept_def using p False by auto
  qed
qed

lemma consumer_unpack: "framed (consumer_frame target) (unpack_member a target es m)"
proof -
  let ?out = "target @ path_comps (m_name m)"
  have up: "prefix target ?out" by simp
  then have "prefix (butlast ?out) target \<or> prefix target (butlast ?out)"
    by (meson prefix_order.trans prefix_same_cases prefixeq_butlast)
  with up show ?thesis
    unfolding unpack_member_def Let_def
    by (auto intro!: consumer.framed_seqIO consumer_mkdirs consumer_write consumer.framed_pure split: option.split)
qed

lemma consumer_extract: "framed (consumer_frame target) (extract_archive w a target req)"
  unfolding extract_archive_def
  by (intro consumer.framed_bindIO consumer.framed_foldIO consumer_unpack consumer.framed_pure)

lemma consumer_artifact_framed: "framed (consumer_frame target) (consumer_artifact w release_dir target commit st v)"
  unfolding consumer_artifact_def
  by (cases st) (auto intro!: consumer.framed_bindIO consumer.framed_seqIO consumer_extract consumer.framed_pure
      split: json.split option.split)

lemma consumer_artifacts_framed: "framed (consumer_frame target) (consumer_artifacts w manifest release_dir target commit)"
  unfolding consumer_artifacts_def
  by (auto intro!: consumer.framed_bindIO consumer.framed_seqIO consumer.framed_foldIO consumer_artifact_framed
      consumer.framed_pure)

lemma fill_framed: "framed (consumer_frame (vendor_dir root_dir)) (fill_consumer w manifest release_dir commit root_dir)"
  unfolding fill_consumer_def
  by (intro consumer.framed_bindIO consumer.framed_seqIO consumer.framed_pure consumer_mkdirs
      consumer_artifacts_framed consumer.framed_read) simp_all

subsection \<open>What is there afterwards\<close>

text \<open>No operation turns a directory into a file or a file into a directory.\<close>

definition kinds_kept :: "fs \<Rightarrow> fs \<Rightarrow> bool" where
  "kinds_kept fs fs' \<longleftrightarrow> dirs_kept fs fs' \<and>
     (\<forall>q d. map_of fs q = Some (File d) \<longrightarrow> (\<exists>d'. map_of fs' q = Some (File d')))"

interpretation kinds: frame kinds_kept
proof
  show "kinds_kept w w" for w by (simp add: kinds_kept_def dirs_kept_def)
  show "kinds_kept u v \<Longrightarrow> kinds_kept v w \<Longrightarrow> kinds_kept u w" for u v w
    unfolding kinds_kept_def dirs_kept_def by blast
qed

lemma kinds_mkdirs: "framed kinds_kept (mkdirs done p)"
  unfolding framed_def
proof
  fix fs
  obtain r fs' where m: "mkdirs done p fs = (r, fs')" by (cases "mkdirs done p fs")
  show "kinds_kept fs (snd (mkdirs done p fs))"
    using mkdirs_adds [OF m] unfolding m kinds_kept_def dirs_kept_def snd_conv by (metis option.distinct(1))
qed

lemma kinds_write: "framed kinds_kept (write_file p d)"
  by (auto simp: framed_def write_file_def kinds_kept_def dirs_kept_def split: option.split node.split)

lemma kinds_unpack: "framed kinds_kept (unpack_member a target es m)"
  unfolding unpack_member_def Let_def
  by (auto intro!: kinds.framed_seqIO kinds_mkdirs kinds_write kinds.framed_pure split: option.split)

lemma kinds_extract: "framed kinds_kept (extract_archive w a target req)"
  unfolding extract_archive_def
  by (intro kinds.framed_bindIO kinds.framed_foldIO kinds_unpack kinds.framed_pure)

lemma kinds_artifact: "framed kinds_kept (consumer_artifact w release_dir target commit st v)"
  unfolding consumer_artifact_def
  by (cases st) (auto intro!: kinds.framed_bindIO kinds.framed_seqIO kinds_extract kinds.framed_pure
      split: json.split option.split)

lemma mkdirs_made:
  "mkdirs done cs fs = (Inr (), fs') \<Longrightarrow> cs \<noteq> [] \<Longrightarrow> map_of fs' (done @ cs) = Some Dir"
proof (induction "done" cs fs rule: mkdirs.induct)
  case (2 "done" c cs fs)
  then obtain fs1 where 1: "mkdirs (done @ [c]) cs fs1 = (Inr (), fs')" "map_of fs1 (done @ [c]) = Some Dir"
    by (auto split: option.splits node.splits if_splits)
  show ?case
  proof (cases "cs = []")
    case True
    with 1 show ?thesis by simp
  next
    case False
    with 2 show ?thesis by (auto split: option.splits node.splits if_splits)
  qed
qed simp

text \<open>A member that is there: a directory, or a file with some content.\<close>

definition unpacked :: "path \<Rightarrow> member \<Rightarrow> fs \<Rightarrow> bool" where
  "unpacked target m fs \<longleftrightarrow>
     ''..'' \<notin> set (path_parts (m_name m)) \<and> \<not> starts_with (m_name m) ''/'' \<and> (m_isfile m \<or> m_isdir m) \<and>
     (if m_isdir m then map_of fs (target @ path_comps (m_name m)) = Some Dir
      else \<exists>d. map_of fs (target @ path_comps (m_name m)) = Some (File d))"

lemma unpacked_kept: "unpacked target m fs \<Longrightarrow> kinds_kept fs fs' \<Longrightarrow> unpacked target m fs'"
  unfolding unpacked_def kinds_kept_def dirs_kept_def by (auto split: if_splits)

lemma unpack_member_Inr:
  assumes "unpack_member a target es m fs = (Inr es', fs')" "target \<noteq> []"
  shows "es' = es @ [m_name m] \<and> unpacked target m fs'"
proof -
  from assms(1) have v: "validate_archive_entry a (m_name m) = Inr ()" "m_isfile m \<or> m_isdir m"
    by (auto simp: unpack_member_def Let_def io_simps checks_Inr simp del: checks.simps)
  show ?thesis
  proof (cases "m_isdir m")
    case True
    with assms obtain "mkdirs [] (target @ path_comps (m_name m)) fs = (Inr (), fs')" "es' = es @ [m_name m]"
      by (auto simp: unpack_member_def Let_def io_simps)
    with mkdirs_made [OF this(1)] True v assms(2) show ?thesis
      by (auto simp: unpacked_def validate_archive_entry_def checks_Inr simp del: checks.simps)
  next
    case False
    with assms obtain d fs1 where "write_file (target @ path_comps (m_name m)) d fs1 = (Inr (), fs')"
        "es' = es @ [m_name m]"
      by (auto simp: unpack_member_def Let_def io_simps split: option.splits)
    with False v show ?thesis
      by (auto simp: unpacked_def validate_archive_entry_def write_file_def checks_Inr simp del: checks.simps split: option.splits node.splits if_splits)
  qed
qed

lemma unpack_all:
  assumes "target \<noteq> []"
  shows "foldIO (unpack_member a target) es ms fs = (Inr es', fs') \<Longrightarrow>
    es' = es @ map m_name ms \<and> (\<forall>m\<in>set ms. unpacked target m fs')"
proof (induction ms arbitrary: es fs)
  case Nil
  then show ?case by (simp add: io_simps)
next
  case (Cons m ms)
  then obtain es1 fs1 where 1: "unpack_member a target es m fs = (Inr es1, fs1)"
      "foldIO (unpack_member a target) es1 ms fs1 = (Inr es', fs')"
    by (auto simp: io_simps)
  have "kinds_kept fs1 fs'"
    using kinds.framed_result [OF kinds.framed_foldIO 1(2)] kinds_unpack by blast
  with Cons.IH [OF 1(2)] unpack_member_Inr [OF 1(1) assms] show ?case
    by (auto intro: unpacked_kept)
qed

text \<open>An artifact that is there: all members of its archive, among them the required entries.\<close>

definition artifact_unpacked :: "renv \<Rightarrow> string \<Rightarrow> path \<Rightarrow> string \<Rightarrow> string \<Rightarrow> fs \<Rightarrow> bool" where
  "artifact_unpacked w release_dir target commit pre fs \<longleftrightarrow>
     (\<exists>pol ms. map_of EXPECTED_ARTIFACTS_consumer pre = Some pol \<and>
        members_of w (path_join release_dir (pre @ artifact_suffix commit)) = Some ms \<and>
        (\<forall>m\<in>set ms. unpacked target m fs) \<and>
        (\<forall>req\<in>set (h_required_entries pol). has_entry (map m_name ms) req))"

lemma artifact_kept:
  "artifact_unpacked w release_dir target commit pre fs \<Longrightarrow> kinds_kept fs fs' \<Longrightarrow>
   artifact_unpacked w release_dir target commit pre fs'"
  unfolding artifact_unpacked_def using unpacked_kept by blast

lemma consumer_prefix_Inr: "consumer_prefix f commit = Inr pre \<Longrightarrow> f = pre @ artifact_suffix commit"
  by (auto simp: consumer_prefix_def Let_def ends_with_def suffix_def split: if_splits)

lemma consumer_artifact_Inr:
  assumes "consumer_artifact w release_dir target commit (seen, extracted) v fs = (Inr st, fs')" "target \<noteq> []"
  shows "\<exists>pre. st = (seen @ [pre], extracted @ [pre @ artifact_suffix commit]) \<and> pre \<notin> set seen \<and>
    artifact_unpacked w release_dir target commit pre fs'"
proof -
  let ?turn = "\<lambda>artifact file_name pre.
     case map_of EXPECTED_ARTIFACTS_consumer pre of
       None \<Rightarrow> raiseIO (SystemExit (con_err ''ARTIFACT_UNKNOWN: '' @ file_name))
     | Some expected \<Rightarrow>
         seqIO (liftE (checks
           [(pre \<notin> set seen, con_err ''ARTIFACT_DUP: '' @ file_name),
            (fld artifact ''kind'' = JStr (h_kind expected), con_err ''ARTIFACT_KIND: '' @ file_name),
            (has_key artifact ''commit'' \<longrightarrow> fld artifact ''commit'' = JStr commit, con_err ''ARTIFACT_COMMIT: '' @ file_name),
            (is_file (files w) (path_join release_dir file_name), con_err ''ARTIFACT_MISSING: '' @ file_name)]))
        (seqIO (extract_archive w (path_join release_dir file_name) target (h_required_entries expected))
           (retIO (seen @ [pre], extracted @ [file_name])))"
  obtain artifact file_name pre where t: "consumer_prefix file_name commit = Inr pre"
      "?turn artifact file_name pre fs = (Inr st, fs')"
  proof -
    from assms(1) obtain artifact where a: "report_object v (con_err ''ARTIFACT_TYPE'') = Inr artifact"
      by (auto simp: consumer_artifact_def io_simps)
    with assms(1) obtain file_name where "fld artifact ''file'' = JStr file_name"
      by (cases "fld artifact ''file''") (auto simp: consumer_artifact_def io_simps raiseIO_def)
    with assms(1) a that show thesis by (auto simp: consumer_artifact_def io_simps simp del: checks.simps)
  qed
  from t(2) obtain pol where p: "pre \<notin> set seen" "map_of EXPECTED_ARTIFACTS_consumer pre = Some pol"
      "st = (seen @ [pre], extracted @ [file_name])"
      "extract_archive w (path_join release_dir file_name) target (h_required_entries pol) fs = (Inr (), fs')"
    by (cases "map_of EXPECTED_ARTIFACTS_consumer pre") (auto simp: io_simps checks_Inr simp del: checks.simps)
  note f = consumer_prefix_Inr [OF t(1)]
  from p(4) obtain ms es where ms: "members_of w (path_join release_dir file_name) = Some ms"
      "foldIO (unpack_member (path_name (path_join release_dir file_name)) target) [] ms fs = (Inr es, fs')"
      "\<forall>req\<in>set (h_required_entries pol). has_entry es req"
    by (auto simp: extract_archive_def io_simps tar_members_Inr checks_Inr list_all_iff simp del: checks.simps)
  from unpack_all [OF assms(2) ms(2)] ms p f show ?thesis
    by (auto simp: artifact_unpacked_def)
qed

lemma consumer_artifacts_fold:
  assumes "target \<noteq> []"
  shows "foldIO (consumer_artifact w release_dir target commit) (seen, extracted) vs fs = (Inr (seen', extracted'), fs') \<Longrightarrow>
    \<forall>pre\<in>set seen. artifact_unpacked w release_dir target commit pre fs \<Longrightarrow>
    extracted = map (\<lambda>pre. pre @ artifact_suffix commit) seen \<Longrightarrow>
    (\<forall>pre\<in>set seen'. artifact_unpacked w release_dir target commit pre fs') \<and>
    extracted' = map (\<lambda>pre. pre @ artifact_suffix commit) seen'"
proof (induction vs arbitrary: seen extracted fs)
  case Nil
  then show ?case by (auto simp: io_simps)
next
  case (Cons v vs)
  then obtain st fs1 where 1: "consumer_artifact w release_dir target commit (seen, extracted) v fs = (Inr st, fs1)"
      "foldIO (consumer_artifact w release_dir target commit) st vs fs1 = (Inr (seen', extracted'), fs')"
    by (auto simp: io_simps)
  from consumer_artifact_Inr [OF 1(1) assms] obtain pre where
      p: "st = (seen @ [pre], extracted @ [pre @ artifact_suffix commit])"
      "artifact_unpacked w release_dir target commit pre fs1" by blast
  have "kinds_kept fs fs1" using kinds.framed_result [OF kinds_artifact 1(1)] .
  with Cons.prems(2) p(2) have "\<forall>q\<in>set (seen @ [pre]). artifact_unpacked w release_dir target commit q fs1"
    by (auto intro: artifact_kept)
  with Cons.IH [of "seen @ [pre]" "extracted @ [pre @ artifact_suffix commit]" fs1] 1(2) p(1) Cons.prems(3)
  show ?case by simp
qed

lemma fill_consumer_Inr:
  assumes "fill_consumer w manifest release_dir commit root_dir fs = (Inr r, fs')"
  shows "cr_commit r = commit \<and> cr_consumer_root r = root_dir \<and> root_busy root_dir fs = Inr False \<and>
    consumer_frame (vendor_dir root_dir) fs fs' \<and>
    (\<forall>rel\<in>set CONSUMER_INPUTS. map_of fs' (root_dir @ path_comps rel) \<noteq> None) \<and>
    set (cr_artifacts r) = (\<lambda>pre. pre @ artifact_suffix commit) ` set (map fst EXPECTED_ARTIFACTS_consumer) \<and>
    (\<forall>pre\<in>set (map fst EXPECTED_ARTIFACTS_consumer).
       artifact_unpacked w release_dir (vendor_dir root_dir) commit pre fs')"
proof -
  from assms obtain fs1 arts where f: "root_busy root_dir fs = Inr False"
      "consumer_artifacts w manifest release_dir (vendor_dir root_dir) commit fs1 = (Inr arts, fs')"
      "validate_consumer_inputs root_dir fs' = Inr ()"
      "r = \<lparr>cr_commit = commit, cr_consumer_root = root_dir, cr_artifacts = arts\<rparr>"
    by (auto simp: fill_consumer_def io_simps checks_Inr simp del: checks.simps)
  from f(2) obtain vs seen extracted where a: "foldIO (consumer_artifact w release_dir (vendor_dir root_dir) commit)
      ([], []) vs fs1 = (Inr (seen, extracted), fs')" "set seen = set (map fst EXPECTED_ARTIFACTS_consumer)"
      "arts = py_sorted extracted"
    by (auto simp: consumer_artifacts_def io_simps checks_Inr simp del: checks.simps)
  have "vendor_dir root_dir \<noteq> []" by (simp add: vendor_dir_def)
  from consumer_artifacts_fold [OF this a(1)]
  have s: "\<forall>pre\<in>set seen. artifact_unpacked w release_dir (vendor_dir root_dir) commit pre fs'"
      "extracted = map (\<lambda>pre. pre @ artifact_suffix commit) seen" by simp_all
  have "consumer_frame (vendor_dir root_dir) fs fs'"
    using consumer.framed_result [OF fill_framed assms] .
  moreover have "\<forall>rel\<in>set CONSUMER_INPUTS. map_of fs' (root_dir @ path_comps rel) \<noteq> None"
    using f(3) by (simp add: validate_consumer_inputs_def checks_Inr list_all_iff del: checks.simps)
  ultimately show ?thesis using f(1,4) s a(2,3) by simp
qed

end
