(* ===== verification/ReleaseSmoke.thy ===== *)
theory ReleaseSmoke
  imports ConsumerTemplates
begin

text \<open>
  \<open>tools/ci/check_external_release_consumer_smoke.py\<close>: unpacks a release into a clean consumer, checks
  the Rust workspace in it and runs the tool chains that are installed. The state is the file system
  of the consumer and the log of what was printed and run; the tools themselves are a parameter: a
  command may change the file system, end with a return code or fail to start.
\<close>

subsection \<open>The machine\<close>

datatype event = Printed string | Ran "string list" int | MadeExecutable path

type_synonym smoke = "fs \<times> event list"
type_synonym proc_env = "(string \<times> string) list"

text \<open>
  \<open>platform.system()\<close> and \<open>platform.machine()\<close>; \<open>shutil.which\<close>; the output of
  \<open>java -XshowSettings:properties -version\<close>; a command with its environment (\<open>None\<close>: inherited);
  \<open>os.environ\<close>, \<open>sys.executable\<close> and the directory of the repository.
\<close>

record smoke_host =
  os_system :: string
  os_machine :: string
  program :: "string \<Rightarrow> string option"
  java_settings :: "string \<Rightarrow> string res"
  command :: "string list \<Rightarrow> proc_env option \<Rightarrow> (fs, int) io"
  os_environ :: proc_env
  sys_executable :: string
  repo_dir :: path

definition path_text :: "path \<Rightarrow> string" where
  "path_text p = ''/'' @ str_join ''/'' p"

definition smoke_err :: "string \<Rightarrow> string" where
  "smoke_err s = ''EXTERNAL_RELEASE_CONSUMER_SMOKE_ERR_'' @ s"

definition on_fs :: "(fs, 'a) io \<Rightarrow> (smoke, 'a) io" where
  "on_fs m = (\<lambda>(fs, log). case m fs of (r, fs') \<Rightarrow> (r, (fs', log)))"

definition log_event :: "event \<Rightarrow> (smoke, unit) io" where
  "log_event e = act (\<lambda>(fs, log). (fs, log @ [e]))"

definition exists_node :: "path \<Rightarrow> (smoke, bool) io" where
  "exists_node p = readIO (\<lambda>(fs, log). map_of fs p \<noteq> None)"

definition file_node :: "path \<Rightarrow> fs \<Rightarrow> bool" where
  "file_node p fs = (case map_of fs p of Some (File _) \<Rightarrow> True | _ \<Rightarrow> False)"

definition run_command :: "smoke_host \<Rightarrow> string \<Rightarrow> string list \<Rightarrow> proc_env option \<Rightarrow> (smoke, unit) io" where
  "run_command h name cmd env =
     seqIO (log_event (Printed (''== '' @ name @ '' =='')))
    (seqIO (log_event (Printed (''+ '' @ str_join '' '' cmd)))
    (bindIO (on_fs (command h cmd env)) (\<lambda>rc.
     seqIO (log_event (Ran cmd rc))
       (if rc = 0 then retIO () else raiseIO (CalledProcessError (str_join '' '' cmd))))))"

definition skip_or_fail :: "bool \<Rightarrow> string \<Rightarrow> string \<Rightarrow> (smoke, bool) io" where
  "skip_or_fail strict code message =
     (if strict then raiseIO (SystemExit (code @ '': '' @ message))
      else seqIO (log_event (Printed (''SKIP '' @ code @ '': '' @ message))) (retIO False))"

subsection \<open>The Rust workspace of the release\<close>

definition CLIENT_RUST_MEMBERS :: "string list" where
  "CLIENT_RUST_MEMBERS = [''grain-core'', ''grain-client-core'', ''grain-client-wasm'']"

definition FORBIDDEN_RUST_MEMBERS :: "string list" where
  "FORBIDDEN_RUST_MEMBERS = [''grain-runner'', ''grain-core-wasm'', ''grain-issuer-kit'', ''uniffi-bindgen'']"

definition RUST_INPUTS :: "string list" where
  "RUST_INPUTS =
     [''core/rust/Cargo.lock'', ''core/rust/rust-toolchain.toml'', ''core/rust/grain-core/Cargo.toml'',
      ''core/rust/grain-client-core/Cargo.toml'', ''core/rust/grain-client-core/src/grain_client_core.udl'',
      ''core/rust/grain-client-wasm/Cargo.toml'']"

definition validate_rust_workspace :: "renv \<Rightarrow> path \<Rightarrow> fs \<Rightarrow> unit res" where
  "validate_rust_workspace w vendor_root fs =
     (case map_of fs (vendor_root @ path_comps ''core/rust/Cargo.toml'') of
        Some (File t) \<Rightarrow>
          (case toml_loads w t of
             None \<Rightarrow> Inl (ValueError t)
           | Some data \<Rightarrow>
               bindE (attr_get_or data ''workspace'' (JObj [])) (\<lambda>ws.
               bindE (attr_get ws ''members'') (\<lambda>v.
               bindE (report_list v (smoke_err ''RUST_WORKSPACE_MEMBERS_TYPE'')) (\<lambda>members.
               checks
                 ([(map json_str members = CLIENT_RUST_MEMBERS, smoke_err ''RUST_WORKSPACE_MEMBERS''),
                   (list_all (\<lambda>m. json_str m \<notin> set FORBIDDEN_RUST_MEMBERS) members, smoke_err ''RUST_INTERNAL_MEMBER'')] @
                  map (\<lambda>rel. (file_node (vendor_root @ path_comps rel) fs, smoke_err ''RUST_INPUT_MISSING: '' @ rel))
                    RUST_INPUTS)))))
      | _ \<Rightarrow> stop (smoke_err ''RUST_WORKSPACE_MISSING''))"

subsection \<open>The native library\<close>

definition library_name :: "smoke_host \<Rightarrow> string res" where
  "library_name h =
     (let system = os_system h in
      if system = ''Darwin'' then Inr ''libgrain_client_core.dylib''
      else if system = ''Linux'' then Inr ''libgrain_client_core.so''
      else if list_ex (starts_with system) [''MINGW'', ''MSYS'', ''CYGWIN''] \<or> system = ''Windows''
      then Inr ''grain_client_core.dll''
      else stop (smoke_err ''UNSUPPORTED_OS: '' @ system))"

definition native_library_path :: "smoke_host \<Rightarrow> path \<Rightarrow> path res" where
  "native_library_path h vendor_root =
     bindE (library_name h) (\<lambda>name. Inr (vendor_root @ [''core'', ''rust'', ''target'', ''debug'', name]))"

text \<open>\<open>line.split("=", 1)[1].strip()\<close> of the first line with both words.\<close>

fun arch_of :: "string list \<Rightarrow> string" where
  "arch_of [] = []"
| "arch_of (line # rest) =
     (if \<not> contains line ''os.arch'' then arch_of rest
      else case str_partition ''='' line of
             None \<Rightarrow> arch_of rest
           | Some (_, v) \<Rightarrow> str_strip v)"

definition java_arch :: "smoke_host \<Rightarrow> string res" where
  "java_arch h =
     (case program h ''java'' of
        None \<Rightarrow> Inr []
      | Some java \<Rightarrow> bindE (java_settings h java) (\<lambda>out. Inr (arch_of (str_splitlines out))))"

definition kotlin_rust_target :: "smoke_host \<Rightarrow> string option res" where
  "kotlin_rust_target h =
     (if os_system h \<noteq> ''Darwin'' then Inr None
      else if os_machine h \<noteq> ''arm64'' then Inr None
      else bindE (java_arch h) (\<lambda>arch.
        Inr (if arch \<in> {''x86_64'', ''amd64''} then Some ''x86_64-apple-darwin'' else None)))"

definition build_rust_client_core ::
  "smoke_host \<Rightarrow> path \<Rightarrow> string option \<Rightarrow> bool \<Rightarrow> (smoke, path) io" where
  "build_rust_client_core h vendor_root target strict =
     (case program h ''cargo'' of
        None \<Rightarrow>
          bindIO (skip_or_fail strict (smoke_err ''CARGO_MISSING'') ''cargo command not found'') (\<lambda>_.
            liftE (native_library_path h vendor_root))
      | Some cargo \<Rightarrow>
          seqIO
            (case target of
               None \<Rightarrow> retIO ()
             | Some t \<Rightarrow>
                 (case program h ''rustup'' of
                    None \<Rightarrow> bindIO (skip_or_fail strict (smoke_err ''RUSTUP_MISSING'')
                        (''rustup is required to install Rust target '' @ t)) (\<lambda>_. retIO ())
                  | Some rustup \<Rightarrow> run_command h ''Rust target for Android JVM from release asset''
                        [rustup, ''target'', ''add'', t] None))
         (seqIO (run_command h ''rust client core from release asset''
            ([cargo, ''build'', ''--manifest-path'', path_text (vendor_root @ [''core'', ''rust'', ''Cargo.toml'']), ''-p'',
              ''grain-client-core''] @ (case target of None \<Rightarrow> [] | Some t \<Rightarrow> [''--target'', t])) None)
         (case target of
            None \<Rightarrow> liftE (native_library_path h vendor_root)
          | Some t \<Rightarrow> liftE (bindE (library_name h) (\<lambda>name.
              Inr (vendor_root @ [''core'', ''rust'', ''target'', t, ''debug'', name]))))))"

subsection \<open>The smoke commands\<close>

definition smoke_env :: "smoke_host \<Rightarrow> proc_env" where
  "smoke_env h = (if map_of (os_environ h) ''COPYFILE_DISABLE'' = None
     then os_environ h @ [(''COPYFILE_DISABLE'', ''1'')] else os_environ h)"

text \<open>The Rust library: the checks so far and the path of the library for the Android starter.\<close>

definition rust_smoke :: "smoke_host \<Rightarrow> path \<Rightarrow> bool \<Rightarrow> string list \<Rightarrow> (smoke, string list \<times> path) io" where
  "rust_smoke h vendor_root strict cs =
     bindIO (liftE (kotlin_rust_target h)) (\<lambda>target.
     case program h ''cargo'' of
       Some _ \<Rightarrow>
         bindIO (build_rust_client_core h vendor_root None strict) (\<lambda>swift_library.
         bindIO (case target of
                   None \<Rightarrow> retIO swift_library
                 | Some t \<Rightarrow> build_rust_client_core h vendor_root (Some t) strict) (\<lambda>kotlin_library.
         retIO (cs @ [''rust-client-core-build''], kotlin_library)))
     | None \<Rightarrow>
         bindIO (skip_or_fail strict (smoke_err ''CARGO_MISSING'') ''cargo command not found'') (\<lambda>_.
         bindIO (liftE (native_library_path h vendor_root)) (\<lambda>kotlin_library. retIO (cs, kotlin_library))))"

definition node_smoke :: "smoke_host \<Rightarrow> path \<Rightarrow> bool \<Rightarrow> string list \<Rightarrow> (smoke, string list) io" where
  "node_smoke h consumer_root strict cs =
     (let vendor_root = vendor_dir consumer_root in
      case program h ''npm'' of
        Some node \<Rightarrow>
          seqIO (run_command h ''web starter from release asset''
            [node, ''--prefix'', path_text (vendor_root @ [''templates'', ''web-wasm-starter'']), ''run'', ''check'']
            (Some (smoke_env h)))
         (seqIO (run_command h ''TypeScript SDK external consumer from release asset''
            [sys_executable h, path_text (repo_dir h @ [''tools'', ''ci'', ''check_npm_release_dry_run.py'']),
             ''--vendor-root'', path_text vendor_root,
             ''--fixture'', path_text (vendor_root @ [''fixtures'', ''external-consumers'', ''npm-sdk'']),
             ''--out-dir'', path_text (consumer_root @ [''.scratch'', ''npm-release-dry-run'']),
             ''--build'', ''--consumer-smoke''] (Some (smoke_env h)))
           (retIO (cs @ [''web-starter-smoke'', ''typescript-sdk-smoke''])))
      | None \<Rightarrow>
          bindIO (skip_or_fail strict (smoke_err ''NPM_MISSING'') ''npm command not found'') (\<lambda>_. retIO cs))"

definition swift_smoke :: "smoke_host \<Rightarrow> path \<Rightarrow> bool \<Rightarrow> string list \<Rightarrow> (smoke, string list) io" where
  "swift_smoke h consumer_root strict cs =
     (case program h ''swift'' of
        Some swift \<Rightarrow>
          seqIO (run_command h ''iOS starter from release asset''
            [swift, ''run'', ''--package-path'', path_text (vendor_dir consumer_root @ [''templates'', ''ios-starter'']),
             ''--scratch-path'', path_text (consumer_root @ [''.scratch'', ''ios-starter-build'']),
             ''GrainIOSStarterSmoke''] (Some (smoke_env h)))
           (retIO (cs @ [''ios-starter-smoke'']))
      | None \<Rightarrow>
          bindIO (skip_or_fail strict (smoke_err ''SWIFT_MISSING'') ''swift command not found'') (\<lambda>_. retIO cs))"

definition gradlew_path :: "path \<Rightarrow> path" where
  "gradlew_path consumer_root = vendor_dir consumer_root @ [''sdk'', ''kotlin'', ''gradlew'']"

definition android_command :: "path \<Rightarrow> path option \<Rightarrow> string list" where
  "android_command consumer_root library =
     [path_text (gradlew_path consumer_root), ''-p'',
      path_text (vendor_dir consumer_root @ [''templates'', ''android-starter'']),
      ''--project-cache-dir'', path_text (consumer_root @ [''.scratch'', ''gradle-cache'']), ''--no-daemon'',
      ''-Dgrain.kotlin.buildDir='' @ path_text (consumer_root @ [''.scratch'', ''android-starter-build''])] @
     (case library of None \<Rightarrow> [] | Some l \<Rightarrow> [''-Dgrain.kotlin.rustDebugLibrary='' @ path_text l]) @ [''check'']"

definition android_smoke :: "smoke_host \<Rightarrow> path \<Rightarrow> bool \<Rightarrow> path \<Rightarrow> string list \<Rightarrow> (smoke, string list) io" where
  "android_smoke h consumer_root strict kotlin_library cs =
     bindIO (readIO (\<lambda>(fs, log). program h ''java'' \<noteq> None \<and> file_node (gradlew_path consumer_root) fs)) (\<lambda>ready.
     if ready then
       seqIO (log_event (MadeExecutable (gradlew_path consumer_root)))
      (bindIO (exists_node kotlin_library) (\<lambda>there.
       bindIO (if there then retIO True
               else skip_or_fail strict (smoke_err ''ANDROID_NATIVE_LIBRARY_MISSING'')
                 (''native library for Android JVM smoke not found at '' @ path_text kotlin_library)) (\<lambda>go_on.
       if \<not> go_on then retIO cs
       else
         bindIO (exists_node kotlin_library) (\<lambda>still.
         seqIO (run_command h ''Android starter from release asset''
             (android_command consumer_root (if still then Some kotlin_library else None)) (Some (smoke_env h)))
           (retIO (cs @ [''android-starter-smoke'']))))))
     else
       bindIO (skip_or_fail strict (smoke_err ''ANDROID_PREREQ_MISSING'')
           ''java command or packaged sdk/kotlin/gradlew not found'') (\<lambda>_. retIO cs))"

definition run_smoke_commands :: "smoke_host \<Rightarrow> path \<Rightarrow> bool \<Rightarrow> (smoke, string list) io" where
  "run_smoke_commands h consumer_root strict =
     bindIO (rust_smoke h (vendor_dir consumer_root) strict [''extract-layout'', ''rust-workspace-policy'']) (\<lambda>(cs, library).
     bindIO (node_smoke h consumer_root strict cs) (\<lambda>cs.
     bindIO (swift_smoke h consumer_root strict cs)
       (android_smoke h consumer_root strict library)))"

subsection \<open>The check\<close>

record smoke_result =
  sr_commit :: string
  sr_consumer_root :: path
  sr_checks :: "string list"

definition check_release_smoke ::
  "renv \<Rightarrow> smoke_host \<Rightarrow> string \<Rightarrow> string option \<Rightarrow> path \<Rightarrow> bool \<Rightarrow> bool \<Rightarrow> path \<Rightarrow> (smoke, smoke_result) io" where
  "check_release_smoke w h release_dir expected consumer_root strict run_commands tmp =
     bindIO (on_fs (check_external_consumer_templates w release_dir expected (Some consumer_root) tmp)) (\<lambda>result.
     seqIO (on_fs (\<lambda>fs. (validate_rust_workspace w (vendor_dir (cr_consumer_root result)) fs, fs)))
    (bindIO (if run_commands then run_smoke_commands h (cr_consumer_root result) strict
             else retIO [''extract-layout'', ''rust-workspace-policy'']) (\<lambda>cs.
     retIO \<lparr>sr_commit = cr_commit result, sr_consumer_root = cr_consumer_root result, sr_checks = cs\<rparr>)))"

text \<open>The command line, with \<open>--consumer-root\<close> or in a temporary directory removed at the end.\<close>

record smoke_args =
  sa_out_dir :: string
  sa_expected_commit :: "string option"
  sa_consumer_root :: "path option"
  sa_strict :: bool
  sa_layout_only :: bool

definition smoke_main :: "renv \<Rightarrow> smoke_host \<Rightarrow> smoke_args \<Rightarrow> path \<Rightarrow> (smoke, int) io" where
  "smoke_main w h args tmp =
     (let check = (\<lambda>root_dir. check_release_smoke w h (sa_out_dir args) (sa_expected_commit args) root_dir
        (sa_strict args) (\<not> sa_layout_only args) tmp)
      in
     bindIO
       (case sa_consumer_root args of
          Some r \<Rightarrow> check r
        | None \<Rightarrow> seqIO (on_fs (act (set_node tmp Dir)))
            (finallyIO (check (tmp @ [''consumer''])) (\<lambda>(fs, log). (remove_tree tmp fs, log))))
       (\<lambda>r. seqIO (log_event (Printed (''External release consumer smoke: OK ('' @
           nat_str (length (sr_checks r)) @ '' checks, commit '' @ sr_commit r @ '')'')))
          (retIO 0)))"

end
