(* ===== verification/ConsumerAccept.thy ===== *)
theory ConsumerAccept
  imports ConsumerTemplates
begin

text \<open>
  The other direction of the template check: a complete release is accepted. The archives of a
  complete release name no path both as a file and as a directory, so unpacking never meets an
  error of the file system, whatever the order of the archives.
\<close>

subsection \<open>Unpacking into a tree without clashes\<close>

text \<open>No file stands where a directory of \<open>D\<close> belongs, and no directory where a file of \<open>F\<close> does.\<close>

definition clear :: "path set \<Rightarrow> path set \<Rightarrow> fs \<Rightarrow> bool" where
  "clear F D fs \<longleftrightarrow> (\<forall>q\<in>D. \<forall>d. map_of fs q \<noteq> Some (File d)) \<and> (\<forall>q\<in>F. map_of fs q \<noteq> Some Dir)"

lemma clear_Dir: "F \<inter> D = {} \<Longrightarrow> clear F D fs \<Longrightarrow> p \<in> D \<Longrightarrow> clear F D (set_node p Dir fs)"
  by (auto simp: clear_def)

lemma clear_File: "F \<inter> D = {} \<Longrightarrow> clear F D fs \<Longrightarrow> p \<in> F \<Longrightarrow> clear F D (set_node p (File d) fs)"
  by (auto simp: clear_def)

lemma mkdirs_clear:
  assumes "F \<inter> D = {}"
  shows "clear F D fs \<Longrightarrow> \<forall>q. prefix q (done @ cs) \<longrightarrow> q \<in> D \<Longrightarrow>
    \<exists>fs'. mkdirs done cs fs = (Inr (), fs') \<and> clear F D fs'"
proof (induction "done" cs fs rule: mkdirs.induct)
  case (2 "done" c cs fs)
  have p: "done @ [c] \<in> D" using 2(4) by simp
  have up: "\<forall>q. prefix q ((done @ [c]) @ cs) \<longrightarrow> q \<in> D" using 2(4) by simp
  show ?case
  proof (cases "map_of fs (done @ [c])")
    case None
    with 2(1) [OF None clear_Dir [OF assms 2(3) p] up] show ?thesis by simp
  next
    case (Some n)
    show ?thesis
    proof (cases n)
      case Dir
      with Some 2(2) [OF Some Dir 2(3) up] show ?thesis by simp
    next
      case (File d)
      with Some 2(3) p show ?thesis by (auto simp: clear_def)
    qed
  qed
qed simp

lemma write_clear:
  assumes "F \<inter> D = {}" "clear F D fs" "p \<in> F"
  shows "\<exists>fs'. write_file p d fs = (Inr (), fs') \<and> clear F D fs'"
proof -
  have "map_of fs p \<noteq> Some Dir" using assms by (auto simp: clear_def)
  then have "write_file p d fs = (Inr (), set_node p (File d) fs)"
    by (auto simp: write_file_def split: option.split node.split)
  with clear_File [OF assms] show ?thesis by simp
qed

text \<open>The members of the archives, as paths below the target, and when they do not clash.\<close>

definition member_path :: "member \<Rightarrow> path" where
  "member_path m = path_comps (m_name m)"

definition file_paths :: "member list \<Rightarrow> path list" where
  "file_paths ms = map member_path (filter (\<lambda>m. \<not> m_isdir m) ms)"

definition dir_paths :: "member list \<Rightarrow> path list" where
  "dir_paths ms = map member_path (filter m_isdir ms)"

definition clash_free :: "member list \<Rightarrow> bool" where
  "clash_free ms =
     list_all (\<lambda>f. f \<noteq> [] \<and> list_all (\<lambda>g. \<not> strict_prefix f g) (file_paths ms) \<and>
       list_all (\<lambda>d. \<not> prefix f d) (dir_paths ms)) (file_paths ms)"

definition all_files :: "path \<Rightarrow> member list \<Rightarrow> path set" where
  "all_files target ms = (\<lambda>f. target @ f) ` set (file_paths ms)"

definition all_dirs :: "path \<Rightarrow> member list \<Rightarrow> path set" where
  "all_dirs target ms = {q. prefix q target} \<union> {q. \<exists>d\<in>set (dir_paths ms). prefix q (target @ d)} \<union>
     {q. \<exists>f\<in>set (file_paths ms). strict_prefix q (target @ f)}"

lemma clash_free_disjoint: "clash_free ms \<Longrightarrow> all_files target ms \<inter> all_dirs target ms = {}"
  by (auto simp: clash_free_def list_all_iff all_files_def all_dirs_def strict_prefix_def)

text \<open>A member the check accepts.\<close>

definition good_member :: "member \<Rightarrow> bool" where
  "good_member m = (m_name m \<noteq> [] \<and> \<not> starts_with (m_name m) ''/'' \<and> ''..'' \<notin> set (path_parts (m_name m)) \<and>
     (if m_isdir m then True else m_isfile m \<and> m_data m \<noteq> None))"

lemma unpack_good:
  assumes cf: "clash_free all_ms" and m: "m \<in> set all_ms" "good_member m"
    and fs: "clear (all_files target all_ms) (all_dirs target all_ms) fs"
  shows "\<exists>fs'. unpack_member a target es m fs = (Inr (es @ [m_name m]), fs') \<and>
    clear (all_files target all_ms) (all_dirs target all_ms) fs'"
proof -
  let ?F = "all_files target all_ms" and ?D = "all_dirs target all_ms"
  note dis = clash_free_disjoint [OF cf, of target]
  have v: "validate_archive_entry a (m_name m) = Inr ()"
    using m(2) by (simp add: validate_archive_entry_def good_member_def)
  show ?thesis
  proof (cases "m_isdir m")
    case True
    then have "member_path m \<in> set (dir_paths all_ms)" using m(1) by (simp add: dir_paths_def)
    then have "\<forall>q. prefix q ([] @ (target @ member_path m)) \<longrightarrow> q \<in> ?D" by (auto simp: all_dirs_def)
    from mkdirs_clear [OF dis fs this] obtain fs' where
        "mkdirs [] (target @ member_path m) fs = (Inr (), fs')" "clear ?F ?D fs'" by auto
    with v True show ?thesis
      by (simp add: unpack_member_def Let_def member_path_def seqIO_def bindIO_def retIO_def)
  next
    case False
    then have f: "member_path m \<in> set (file_paths all_ms)" using m(1) by (simp add: file_paths_def)
    then have ne: "member_path m \<noteq> []" using cf by (auto simp: clash_free_def list_all_iff)
    have "strict_prefix q (target @ member_path m)" if "prefix q (butlast (target @ member_path m))" for q
    proof -
      have "strict_prefix (butlast (target @ member_path m)) (target @ member_path m)"
        using ne by (metis append_butlast_last_id append_is_Nil_conv strict_prefixI' )
      with that show ?thesis by (metis prefix_order.le_less_trans)
    qed
    with f have "\<forall>q. prefix q ([] @ butlast (target @ member_path m)) \<longrightarrow> q \<in> ?D" by (auto simp: all_dirs_def)
    from mkdirs_clear [OF dis fs this] obtain fs1 where 1:
        "mkdirs [] (butlast (target @ member_path m)) fs = (Inr (), fs1)" "clear ?F ?D fs1" by auto
    have "target @ member_path m \<in> ?F" using f by (simp add: all_files_def)
    note w = write_clear [OF dis 1(2) this]
    obtain d where d: "m_data m = Some d" using m(2) False by (auto simp: good_member_def)
    with w [of d] obtain fs' where "write_file (target @ member_path m) d fs1 = (Inr (), fs')" "clear ?F ?D fs'"
      by blast
    with v False 1(1) m(2) d show ?thesis
      by (simp add: unpack_member_def Let_def member_path_def seqIO_def bindIO_def retIO_def good_member_def)
  qed
qed

lemma unpack_all_good:
  assumes cf: "clash_free all_ms"
  shows "set ms \<subseteq> set all_ms \<Longrightarrow> \<forall>m\<in>set ms. good_member m \<Longrightarrow>
    clear (all_files target all_ms) (all_dirs target all_ms) fs \<Longrightarrow>
    \<exists>fs'. foldIO (unpack_member a target) es ms fs = (Inr (es @ map m_name ms), fs') \<and>
      clear (all_files target all_ms) (all_dirs target all_ms) fs'"
proof (induction ms arbitrary: es fs)
  case Nil
  then show ?case by (simp add: retIO_def)
next
  case (Cons m ms)
  then obtain fs1 where 1: "unpack_member a target es m fs = (Inr (es @ [m_name m]), fs1)"
      "clear (all_files target all_ms) (all_dirs target all_ms) fs1"
    using unpack_good [OF cf, of m target fs a es] by auto
  with Cons.IH [of fs1 "es @ [m_name m]"] Cons.prems show ?case by (auto simp: bindIO_def)
qed

subsection \<open>Complete releases\<close>

text \<open>
  The members \<open>mem pre\<close> of the archive of each expected artifact, in any order of the artifacts:
  accepted members, the required entries among them, no clash between any of them, and together
  everything a consumer starts from.
\<close>

definition complete_archives :: "(string \<Rightarrow> member list) \<Rightarrow> bool" where
  "complete_archives mem \<longleftrightarrow>
     clash_free (concat (map (\<lambda>(pre, pol). mem pre) EXPECTED_ARTIFACTS_consumer)) \<and>
     list_all (\<lambda>(pre, pol). list_all good_member (mem pre) \<and>
       list_all (has_entry (map m_name (mem pre))) (h_required_entries pol)) EXPECTED_ARTIFACTS_consumer \<and>
     list_all (\<lambda>rel. list_ex (\<lambda>(pre, pol). list_ex (\<lambda>m. [''vendor'', ''grain-sdk''] @ member_path m = path_comps rel) (mem pre))
       EXPECTED_ARTIFACTS_consumer) CONSUMER_INPUTS"

text \<open>The entry of the manifest for an artifact.\<close>

definition good_entry :: "renv \<Rightarrow> string \<Rightarrow> string \<Rightarrow> (string \<Rightarrow> member list) \<Rightarrow> string \<Rightarrow> json \<Rightarrow> bool" where
  "good_entry w release_dir commit mem pre v \<longleftrightarrow>
     (\<exists>d pol. v = JObj d \<and> fld d ''file'' = JStr (pre @ artifact_suffix commit) \<and>
        map_of EXPECTED_ARTIFACTS_consumer pre = Some pol \<and> fld d ''kind'' = JStr (h_kind pol) \<and>
        (has_key d ''commit'' \<longrightarrow> fld d ''commit'' = JStr commit) \<and>
        safe_file_name (pre @ artifact_suffix commit) \<and>
        is_file (files w) (path_join release_dir (pre @ artifact_suffix commit)) \<and>
        members_of w (path_join release_dir (pre @ artifact_suffix commit)) = Some (mem pre))"

definition complete_release :: "renv \<Rightarrow> string \<Rightarrow> dict \<Rightarrow> string \<Rightarrow> (string \<Rightarrow> member list) \<Rightarrow> bool" where
  "complete_release w release_dir manifest commit mem \<longleftrightarrow>
     complete_archives mem \<and>
     (\<exists>pres vs. fld manifest ''artifacts'' = JArr vs \<and> distinct pres \<and>
        set pres = set (map fst EXPECTED_ARTIFACTS_consumer) \<and>
        list_all2 (good_entry w release_dir commit mem) pres vs)"

lemma expected_distinct: "distinct (map fst EXPECTED_ARTIFACTS_consumer)"
  by code_simp

text \<open>A consumer root with nothing in it, at a place where a directory can be.\<close>

definition free_root :: "path \<Rightarrow> fs \<Rightarrow> bool" where
  "free_root root_dir fs \<longleftrightarrow> (\<forall>q. strict_prefix root_dir q \<longrightarrow> map_of fs q = None) \<and>
     (\<forall>q d. prefix q root_dir \<longrightarrow> map_of fs q \<noteq> Some (File d))"

lemma free_root_not_busy: "free_root root_dir fs \<Longrightarrow> root_busy root_dir fs = Inr False"
proof -
  assume f: "free_root root_dir fs"
  have "\<not> list_ex (\<lambda>(q, _). length q = Suc (length root_dir) \<and> prefix root_dir q) fs"
  proof
    assume "list_ex (\<lambda>(q, _). length q = Suc (length root_dir) \<and> prefix root_dir q) fs"
    then obtain q n where "(q, n) \<in> set fs" "length q = Suc (length root_dir)" "prefix root_dir q"
      by (auto simp: list_ex_iff)
    then have q: "(q, n) \<in> set fs" "strict_prefix root_dir q"
      by (auto simp: strict_prefix_def)
    with f show False by (auto simp: free_root_def dest!: weak_map_of_SomeI)
  qed
  with f show ?thesis
    by (auto simp: root_busy_def has_children_def free_root_def split: option.split node.split)
qed

subsection \<open>A complete release is accepted\<close>

definition all_members :: "(string \<Rightarrow> member list) \<Rightarrow> member list" where
  "all_members mem = concat (map (\<lambda>(pre, pol). mem pre) EXPECTED_ARTIFACTS_consumer)"

lemma complete_archivesD:
  assumes "complete_archives mem"
  shows "clash_free (all_members mem)"
    "map_of EXPECTED_ARTIFACTS_consumer pre = Some pol \<Longrightarrow> set (mem pre) \<subseteq> set (all_members mem) \<and>
       (\<forall>m\<in>set (mem pre). good_member m) \<and> list_all (has_entry (map m_name (mem pre))) (h_required_entries pol)"
  using assms by (auto simp: complete_archives_def all_members_def list_all_iff dest!: map_of_SomeD)

lemma consumer_prefix_suffix: "consumer_prefix (pre @ artifact_suffix commit) commit = Inr pre"
  by (simp add: consumer_prefix_def Let_def ends_with_def suffix_def)

lemma extract_good:
  assumes cf: "clash_free all_ms" and ms: "set ms \<subseteq> set all_ms" "\<forall>m\<in>set ms. good_member m"
    and tar: "tar_members w p = Inr ms" and req: "list_all (has_entry (map m_name ms)) reqs"
    and fs: "clear (all_files target all_ms) (all_dirs target all_ms) fs"
  shows "\<exists>fs'. extract_archive w p target reqs fs = (Inr (), fs') \<and>
    clear (all_files target all_ms) (all_dirs target all_ms) fs'"
proof -
  from unpack_all_good [OF cf ms fs, of "path_name p" "[]"] obtain fs' where
      "foldIO (unpack_member (path_name p) target) [] ms fs = (Inr (map m_name ms), fs')"
      "clear (all_files target all_ms) (all_dirs target all_ms) fs'" by auto
  with req tar show ?thesis
    by (auto simp: extract_archive_def io_simps checks_Inr list_all_iff simp del: checks.simps)
qed

lemma good_entry_taken:
  assumes c: "complete_archives mem" and e: "good_entry w release_dir commit mem pre v" "pre \<notin> set seen"
    and fs: "clear (all_files target (all_members mem)) (all_dirs target (all_members mem)) fs"
  shows "\<exists>fs'. consumer_artifact w release_dir target commit (seen, extracted) v fs =
      (Inr (seen @ [pre], extracted @ [pre @ artifact_suffix commit]), fs') \<and>
    clear (all_files target (all_members mem)) (all_dirs target (all_members mem)) fs'"
proof -
  from e(1) obtain d pol where v: "v = JObj d" "fld d ''file'' = JStr (pre @ artifact_suffix commit)"
      "map_of EXPECTED_ARTIFACTS_consumer pre = Some pol" "fld d ''kind'' = JStr (h_kind pol)"
      "has_key d ''commit'' \<longrightarrow> fld d ''commit'' = JStr commit" "safe_file_name (pre @ artifact_suffix commit)"
      "is_file (files w) (path_join release_dir (pre @ artifact_suffix commit))"
      "tar_members w (path_join release_dir (pre @ artifact_suffix commit)) = Inr (mem pre)"
    by (auto simp: good_entry_def tar_members_def)
  note mem = complete_archivesD(2) [OF c v(3)]
  from extract_good [OF complete_archivesD(1) [OF c], of "mem pre"] mem v(8) fs obtain fs' where
      "extract_archive w (path_join release_dir (pre @ artifact_suffix commit)) target (h_required_entries pol) fs = (Inr (), fs')"
      "clear (all_files target (all_members mem)) (all_dirs target (all_members mem)) fs'" by blast
  with v(1-7) e(2) show ?thesis
    by (auto simp: consumer_artifact_def report_object_def io_simps consumer_prefix_suffix checks_Inr simp del: checks.simps)
qed

lemma good_entries_taken:
  assumes c: "complete_archives mem"
  shows "list_all2 (good_entry w release_dir commit mem) pres vs \<Longrightarrow> distinct (seen @ pres) \<Longrightarrow>
    clear (all_files target (all_members mem)) (all_dirs target (all_members mem)) fs \<Longrightarrow>
    \<exists>fs'. foldIO (consumer_artifact w release_dir target commit) (seen, extracted) vs fs =
      (Inr (seen @ pres, extracted @ map (\<lambda>pre. pre @ artifact_suffix commit) pres), fs')"
proof (induction pres vs arbitrary: seen extracted fs rule: list_all2_induct)
  case Nil
  then show ?case by (simp add: retIO_def)
next
  case (Cons pre pres v vs)
  then have "pre \<notin> set seen" by simp
  from good_entry_taken [OF c Cons.hyps(1) this Cons.prems(2)] obtain fs1 where 1:
      "consumer_artifact w release_dir target commit (seen, extracted) v fs =
         (Inr (seen @ [pre], extracted @ [pre @ artifact_suffix commit]), fs1)"
      "clear (all_files target (all_members mem)) (all_dirs target (all_members mem)) fs1" by blast
  from Cons.prems(1) have "distinct ((seen @ [pre]) @ pres)" by simp
  from Cons.IH [OF this 1(2), of "extracted @ [pre @ artifact_suffix commit]"] 1(1) show ?case
    by (auto simp: io_simps)
qed

lemma free_root_clear:
  assumes "free_root root_dir fs" "clash_free ms"
  shows "clear (all_files (vendor_dir root_dir) ms) (all_dirs (vendor_dir root_dir) ms) fs"
proof -
  have below: "strict_prefix root_dir (vendor_dir root_dir @ f)" for f
    by (simp add: vendor_dir_def strict_prefix_def)
  have up: "map_of fs q \<noteq> Some (File d)" if "prefix q (vendor_dir root_dir @ f)" for q d f
  proof (cases "prefix q root_dir")
    case False
    have "prefix root_dir (vendor_dir root_dir @ f)" using below [of f] by (simp add: strict_prefix_def)
    with that False have "strict_prefix root_dir q" by (auto simp: strict_prefix_def dest: prefix_same_cases)
    with assms(1) show ?thesis by (simp add: free_root_def)
  qed (use assms(1) in \<open>auto simp: free_root_def\<close>)
  show ?thesis
    unfolding clear_def
  proof (intro conjI ballI allI)
    fix q d assume "q \<in> all_dirs (vendor_dir root_dir) ms"
    then obtain f where "prefix q (vendor_dir root_dir @ f)"
      by (auto simp: all_dirs_def strict_prefix_def intro: prefix_prefix)
    then show "map_of fs q \<noteq> Some (File d)" by (rule up)
  next
    fix q assume "q \<in> all_files (vendor_dir root_dir) ms"
    with below assms(1) show "map_of fs q \<noteq> Some Dir" by (auto simp: all_files_def free_root_def)
  qed
qed

lemma fill_complete:
  assumes rel: "complete_release w release_dir manifest commit mem" and root_dir: "free_root root_dir fs"
  shows "\<exists>r fs'. fill_consumer w manifest release_dir commit root_dir fs = (Inr r, fs')"
proof -
  from rel obtain pres vs where c: "complete_archives mem" and vs: "fld manifest ''artifacts'' = JArr vs"
      "distinct pres" "set pres = set (map fst EXPECTED_ARTIFACTS_consumer)"
      "list_all2 (good_entry w release_dir commit mem) pres vs"
    by (auto simp: complete_release_def)
  let ?t = "vendor_dir root_dir"
  let ?F = "all_files ?t (all_members mem)" and ?D = "all_dirs ?t (all_members mem)"
  note cf = complete_archivesD(1) [OF c]
  note dis = clash_free_disjoint [OF cf, of ?t]
  have "\<forall>q. prefix q ([] @ ?t) \<longrightarrow> q \<in> ?D" by (simp add: all_dirs_def)
  from mkdirs_clear [OF dis free_root_clear [OF root_dir cf] this] obtain fs1 where 1:
      "mkdirs [] ?t fs = (Inr (), fs1)" "clear ?F ?D fs1" by blast
  from good_entries_taken [OF c vs(4) _ 1(2), of "[]" "[]"] vs(2) obtain fs2 where 2:
      "foldIO (consumer_artifact w release_dir ?t commit) ([], []) vs fs1 =
         (Inr (pres, map (\<lambda>pre. pre @ artifact_suffix commit) pres), fs2)" by auto
  have "length vs = length pres" using vs(4) by (simp add: list_all2_lengthD)
  also have "\<dots> = card (set (map fst EXPECTED_ARTIFACTS_consumer))" using vs(2,3) by (metis distinct_card)
  also have "\<dots> = length EXPECTED_ARTIFACTS_consumer" using expected_distinct by (metis distinct_card length_map)
  finally have len: "length vs = length EXPECTED_ARTIFACTS_consumer" .
  have arts: "consumer_artifacts w manifest release_dir ?t commit fs1 =
      (Inr (py_sorted (map (\<lambda>pre. pre @ artifact_suffix commit) pres)), fs2)"
    using 2 vs(1,3) len by (auto simp: consumer_artifacts_def report_list_def io_simps checks_Inr simp del: checks.simps)
  have there: "\<forall>pre\<in>set pres. artifact_unpacked w release_dir ?t commit pre fs2"
    using consumer_artifacts_fold [OF _ 2] by (simp add: vendor_dir_def)
  have "validate_consumer_inputs root_dir fs2 = Inr ()"
    unfolding validate_consumer_inputs_def checks_Inr list_all_iff
  proof
    fix c assume "c \<in> set (map (\<lambda>rel. (map_of fs2 (root_dir @ path_comps rel) \<noteq> None,
       con_err ''CONSUMER_INPUT_MISSING: '' @ rel)) CONSUMER_INPUTS)"
    then obtain rel where rel: "rel \<in> set CONSUMER_INPUTS" "c = (map_of fs2 (root_dir @ path_comps rel) \<noteq> None,
       con_err ''CONSUMER_INPUT_MISSING: '' @ rel)" by auto
    with c obtain pre pol m where m: "(pre, pol) \<in> set EXPECTED_ARTIFACTS_consumer" "m \<in> set (mem pre)"
        "[''vendor'', ''grain-sdk''] @ member_path m = path_comps rel"
      by (fastforce simp: complete_archives_def list_all_iff list_ex_iff)
    then have pre: "pre \<in> set pres" using vs(3) by force
    then obtain v where "good_entry w release_dir commit mem pre v"
      using vs(4) by (metis in_set_conv_nth list_all2_conv_all_nth)
    with there pre have "\<forall>m\<in>set (mem pre). unpacked ?t m fs2"
      by (auto simp: artifact_unpacked_def good_entry_def)
    with m(2) have "map_of fs2 (?t @ member_path m) \<noteq> None"
      by (auto simp: unpacked_def member_path_def split: if_splits)
    with m(3) rel(2) show "fst c" by (simp add: vendor_dir_def)
  qed
  with arts 1(1) free_root_not_busy [OF root_dir] show ?thesis
    by (auto simp: fill_consumer_def io_simps checks_Inr simp del: checks.simps)
qed

text \<open>C22: a complete release is accepted. When the manifest passes the checks before the unpacking and
lists the eight artifacts in any order, each with its kind, commit and file, and the archives hold accepted
members with the required entries and everything a consumer starts from, no path being both a file and a
directory, then the template check on a free consumer root ends with a result: no step of the unpacking
fails, whatever the order of artifacts and members.\<close>

theorem complete_release_accepted:
  assumes "consumer_precheck w release_dir expected = Inr (manifest, commit)"
    and "complete_release w release_dir manifest commit mem" and "free_root root_dir fs"
  shows "\<exists>r fs'. check_external_consumer_templates w release_dir expected (Some root_dir) tmp fs = (Inr r, fs')"
  using fill_complete [OF assms(2,3)] assms(1) by (simp add: check_external_consumer_templates_def)

subsection \<open>What an accepted release leaves behind\<close>

text \<open>C21: a template check that succeeds has found an empty consumer root and the expected commit; the
artifacts it reports are the eight of the release; every member of each archive is a file or directory
with a relative name without parent steps and lies in the vendor directory, the required entries among
them; everything a consumer starts from exists; and nothing outside the vendor directory changed, except
that missing directories on the way there were made.\<close>

theorem consumer_templates_unpacked:
  assumes "check_external_consumer_templates w release_dir expected (Some root_dir) tmp fs = (Inr r, fs')"
  shows "(\<exists>manifest. consumer_manifest w release_dir = Inr manifest \<and> json_str (fld manifest ''commit'') = cr_commit r) \<and>
    (expected = None \<or> expected = Some (cr_commit r)) \<and> root_busy root_dir fs = Inr False \<and>
    set (cr_artifacts r) = (\<lambda>pre. pre @ artifact_suffix (cr_commit r)) ` set (map fst EXPECTED_ARTIFACTS_consumer) \<and>
    (\<forall>pre\<in>set (map fst EXPECTED_ARTIFACTS_consumer).
       artifact_unpacked w release_dir (vendor_dir root_dir) (cr_commit r) pre fs') \<and>
    (\<forall>rel\<in>set CONSUMER_INPUTS. map_of fs' (root_dir @ path_comps rel) \<noteq> None) \<and>
    (\<forall>q. prefix (vendor_dir root_dir) q \<or> map_of fs' q = map_of fs q \<or>
       (prefix q (vendor_dir root_dir) \<and> map_of fs q = None \<and> map_of fs' q = Some Dir))"
proof -
  from assms obtain manifest commit where m: "consumer_precheck w release_dir expected = Inr (manifest, commit)"
      "fill_consumer w manifest release_dir commit root_dir fs = (Inr r, fs')"
    by (auto simp: check_external_consumer_templates_def io_simps)
  note fill = fill_consumer_Inr [OF m(2)]
  have "consumer_manifest w release_dir = Inr manifest \<and> json_str (fld manifest ''commit'') = commit \<and>
      (expected = None \<or> expected = Some commit)"
    using m(1) by (auto simp: consumer_precheck_def Let_def res_simps checks_Inr simp del: checks.simps split: option.splits)
  with fill show ?thesis by (auto simp: consumer_frame_def outside_kept_def)
qed

subsection \<open>A concrete release\<close>

text \<open>The release of the release check, its archives filled with the entries a consumer needs: a required
directory as a directory member with one file below it.\<close>

definition con_members :: "string \<Rightarrow> member list" where
  "con_members req =
     (if ends_with req ''/''
      then [\<lparr>m_name = butlast req, m_isfile = False, m_isdir = True, m_data = None\<rparr>,
            \<lparr>m_name = req @ ''a'', m_isfile = True, m_isdir = False, m_data = Some []\<rparr>]
      else [\<lparr>m_name = req, m_isfile = True, m_isdir = False, m_data = Some []\<rparr>])"

text \<open>Two archives hold one file more, which a smoke run of the release needs.\<close>

definition con_entries :: "string \<times> handoff_policy \<Rightarrow> string list" where
  "con_entries e = h_required_entries (snd e) @
     (if fst e = ''grain-rust-client-core'' then [''core/rust/grain-client-core/src/grain_client_core.udl'']
      else if fst e = ''grain-kotlin-client'' then [''sdk/kotlin/gradlew''] else [])"

definition con_mem :: "string \<Rightarrow> member list" where
  "con_mem pre =
     (case map_of EXPECTED_ARTIFACTS_consumer pre of
        None \<Rightarrow> [] | Some pol \<Rightarrow> concat (map con_members (con_entries (pre, pol))))"

definition con_world :: renv where
  "con_world = ex_world\<lparr>members_of := (\<lambda>p.
     map_option con_mem (map_of (map (\<lambda>(pre, _). (''o/'' @ ex_file pre, pre)) EXPECTED_ARTIFACTS_consumer) p)),
     toml_loads := (\<lambda>_. Some (JObj [(''workspace'', JObj [(''members'',
       JArr [JStr ''grain-core'', JStr ''grain-client-core'', JStr ''grain-client-wasm''])])]))\<rparr>"

lemma con_kinds:
  "list_all (\<lambda>(pre, pol). map_option h_kind (map_of EXPECTED_ARTIFACTS_consumer pre) = Some (a_kind pol)) EXPECTED_ARTIFACTS"
  "list_all (\<lambda>(pre, pol). pre \<in> set (map fst EXPECTED_ARTIFACTS)) EXPECTED_ARTIFACTS_consumer"
  by code_simp+

lemma con_mem_entry: "(pre, pol) \<in> set EXPECTED_ARTIFACTS_consumer \<Longrightarrow>
    con_mem pre = concat (map con_members (con_entries (pre, pol)))"
  using map_of_is_SomeI [OF expected_distinct] by (simp add: con_mem_def)

lemma con_all:
  "concat (map (\<lambda>(pre, pol). con_mem pre) EXPECTED_ARTIFACTS_consumer) =
     concat (map con_members (concat (map con_entries EXPECTED_ARTIFACTS_consumer)))"
proof -
  have "concat (map (\<lambda>(pre, pol). con_mem pre) es) =
      concat (map con_members (concat (map con_entries es)))"
    if "set es \<subseteq> set EXPECTED_ARTIFACTS_consumer" for es
    using that by (induction es) (auto simp: con_mem_entry)
  then show ?thesis by blast
qed

lemma con_paths:
  "let ms = concat (map con_members (concat (map con_entries EXPECTED_ARTIFACTS_consumer)));
       fs = file_paths ms; ds = dir_paths ms
   in list_all (\<lambda>f. f \<noteq> [] \<and> list_all (\<lambda>g. \<not> strict_prefix f g) fs \<and> list_all (\<lambda>d. \<not> prefix f d) ds) fs"
  by code_simp

lemma con_inputs:
  "let ps = map member_path (concat (map con_members (concat (map con_entries EXPECTED_ARTIFACTS_consumer))))
   in list_all (\<lambda>rel. let cs = path_comps rel in list_ex (\<lambda>p. [''vendor'', ''grain-sdk''] @ p = cs) ps) CONSUMER_INPUTS"
  by code_simp

lemma con_good: "list_all (\<lambda>(pre, pol). let ms = concat (map con_members (con_entries (pre, pol))) in
    list_all good_member ms \<and> list_all (has_entry (map m_name ms)) (h_required_entries pol)) EXPECTED_ARTIFACTS_consumer"
  by code_simp

lemma con_complete: "complete_archives con_mem"
  unfolding complete_archives_def
proof (intro conjI)
  show "clash_free (concat (map (\<lambda>(pre, pol). con_mem pre) EXPECTED_ARTIFACTS_consumer))"
    using con_paths by (simp add: con_all clash_free_def Let_def)
  show "list_all (\<lambda>(pre, pol). list_all good_member (con_mem pre) \<and>
      list_all (has_entry (map m_name (con_mem pre))) (h_required_entries pol)) EXPECTED_ARTIFACTS_consumer"
    using con_good unfolding list_all_iff Let_def
  proof (intro ballI)
    fix e assume e: "e \<in> set EXPECTED_ARTIFACTS_consumer"
    obtain pre pol where p: "e = (pre, pol)" by (cases e)
    with e have m: "con_mem pre = concat (map con_members (con_entries (pre, pol)))" by (simp add: con_mem_entry)
    from con_good e p show "case e of (pre, pol) \<Rightarrow> (\<forall>m\<in>set (con_mem pre). good_member m) \<and>
        (\<forall>req\<in>set (h_required_entries pol). has_entry (map m_name (con_mem pre)) req)"
      unfolding m p prod.case by (fastforce simp only: list_all_iff Let_def)
  qed
  show "list_all (\<lambda>rel. list_ex (\<lambda>(pre, pol). list_ex (\<lambda>m. [''vendor'', ''grain-sdk''] @ member_path m = path_comps rel)
      (con_mem pre)) EXPECTED_ARTIFACTS_consumer) CONSUMER_INPUTS"
  proof (unfold list_all_iff, rule ballI)
    fix rel assume "rel \<in> set CONSUMER_INPUTS"
    with con_inputs obtain m where m: "m \<in> set (concat (map (\<lambda>(pre, pol). con_mem pre) EXPECTED_ARTIFACTS_consumer))"
        "[''vendor'', ''grain-sdk''] @ member_path m = path_comps rel"
      unfolding con_all Let_def list_all_iff list_ex_iff set_map by blast
    from m(1) obtain e where "e \<in> set EXPECTED_ARTIFACTS_consumer" "m \<in> set (con_mem (fst e))"
      by (auto simp: split_beta)
    with m(2) show "list_ex (\<lambda>(pre, pol). list_ex (\<lambda>m. [''vendor'', ''grain-sdk''] @ member_path m = path_comps rel)
        (con_mem pre)) EXPECTED_ARTIFACTS_consumer"
      by (force simp: list_ex_iff split_beta)
  qed
qed

lemma con_members_of:
  assumes "pre \<in> set (map fst EXPECTED_ARTIFACTS_consumer)"
  shows "members_of con_world (''o/'' @ ex_file pre) = Some (con_mem pre)"
proof -
  have "map_of (map (\<lambda>(pre, _). (''o/'' @ ex_file pre, pre)) es) (''o/'' @ ex_file pre) = Some pre"
    if "pre \<in> set (map fst es)" for es :: "(string \<times> handoff_policy) list"
    using that by (induction es) (auto simp: ex_file_def)
  with assms show ?thesis by (simp add: con_world_def)
qed

lemma con_files: "files con_world = files ex_world"
  by (simp add: con_world_def)

lemma con_entry:
  assumes "(pre, pol) \<in> set EXPECTED_ARTIFACTS"
  shows "good_entry con_world ''o'' ex_commit con_mem pre (ex_artifact (pre, pol))"
proof -
  have p: "pre \<in> set (map fst EXPECTED_ARTIFACTS_consumer)" 
    and "map_option h_kind (map_of EXPECTED_ARTIFACTS_consumer pre) = Some (a_kind pol)"
    using con_kinds(1) assms by (force simp: list_all_iff dest: map_of_SomeD)+
  then obtain hpol where "map_of EXPECTED_ARTIFACTS_consumer pre = Some hpol" "h_kind hpol = a_kind pol" by auto
  moreover have "safe_file_name (ex_file pre)" using assms ex_names_clean by (auto simp: list_all_iff)
  ultimately show ?thesis
    using con_members_of [OF p]
    by (simp add: good_entry_def ex_artifact_def dict_get_def has_key_def con_files path_join_def ex_file_def [symmetric])
       (simp add: ex_world_def is_file_def)
qed

lemma con_release: "complete_release con_world ''o'' ex_manifest ex_commit con_mem"
proof -
  have sub: "set (map fst EXPECTED_ARTIFACTS) = set (map fst EXPECTED_ARTIFACTS_consumer)"
    using con_kinds by (force simp: list_all_iff map_of_eq_None_iff dest: map_of_SomeD)
  have "list_all2 (good_entry con_world ''o'' ex_commit con_mem) (map fst EXPECTED_ARTIFACTS) (map ex_artifact EXPECTED_ARTIFACTS)"
    using con_entry by (auto simp: list_all2_conv_all_nth) (metis fst_conv nth_mem surj_pair)
  moreover have "fld ex_manifest ''artifacts'' = JArr (map ex_artifact EXPECTED_ARTIFACTS)"
    by (simp add: ex_manifest_def dict_get_def)
  ultimately show ?thesis
    using con_complete ex_distinct_names sub unfolding complete_release_def by blast
qed

lemma con_precheck: "consumer_precheck con_world ''o'' (Some ex_commit) = Inr (ex_manifest, ex_commit)"
proof -
  have "read_json (files con_world) ''o/manifest.json'' = Inr (JObj ex_manifest)"
      "is_file (files con_world) ''o/manifest.json''"
    by (simp_all add: con_files ex_world_def read_json_def read_text_def loads_def is_file_def)
  moreover have "fld ex_manifest ''commit'' = JStr ex_commit" "fld ex_manifest ''schema'' = JStr ''grain.sdk.release.manifest.v1''"
    by (simp_all add: ex_manifest_def dict_get_def)
  ultimately show ?thesis
    using ex_hex(1) ex_policy_ok
    by (simp add: consumer_precheck_def consumer_manifest_def consumer_policy_def path_join_def Let_def)
qed

theorem complete_release_accepted_witness:
  "\<exists>r fs'. check_external_consumer_templates con_world ''o'' (Some ex_commit) (Some [''c'']) [''t''] [] = (Inr r, fs')"
  by (rule complete_release_accepted [OF con_precheck con_release]) (simp add: free_root_def)

theorem consumer_templates_unpacked_witness:
  "\<exists>fs' :: fs. map_of fs' [''c'', ''vendor'', ''grain-sdk'', ''sdk'', ''swift'', ''Package.swift''] \<noteq> None \<and>
    map_of fs' [''elsewhere''] = None"
proof -
  have "free_root [''c''] []" by (simp add: free_root_def)
  from fill_complete [OF con_release this] obtain r fs' where
      "fill_consumer con_world ex_manifest ''o'' ex_commit [''c''] [] = (Inr r, fs')" by blast
  with con_precheck have "check_external_consumer_templates con_world ''o'' (Some ex_commit) (Some [''c'']) [''t''] [] = (Inr r, fs')"
    by (simp add: check_external_consumer_templates_def)
  note run = consumer_templates_unpacked [OF this]
  have "''vendor/grain-sdk/sdk/swift/Package.swift'' \<in> set CONSUMER_INPUTS" by (simp add: CONSUMER_INPUTS_def)
  with run have "map_of fs' ([''c''] @ path_comps ''vendor/grain-sdk/sdk/swift/Package.swift'') \<noteq> None" by blast
  moreover have "path_comps ''vendor/grain-sdk/sdk/swift/Package.swift'' =
      [''vendor'', ''grain-sdk'', ''sdk'', ''swift'', ''Package.swift'']" by code_simp
  moreover have "prefix (vendor_dir [''c'']) q \<or> map_of fs' q = map_of ([] :: fs) q \<or>
      (prefix q (vendor_dir [''c'']) \<and> map_of ([] :: fs) q = None \<and> map_of fs' q = Some Dir)" for q
    using run by blast
  from this [of "[''elsewhere'']"] have "map_of fs' [''elsewhere''] = None" by (simp add: vendor_dir_def)
  ultimately show ?thesis by (intro exI [of _ fs']) simp
qed

end
