(* ===== verification/ReleaseSmokeProps.thy ===== *)
theory ReleaseSmokeProps
  imports ReleaseSmoke ConsumerAccept
begin

text \<open>
  No check of the smoke run is left out silently: a strict run that succeeds has run all of them, and
  any other run that succeeds prints a line for each check it skipped.
\<close>

subsection \<open>Relations that every successful run keeps\<close>

definition succeeds_in :: "('w \<Rightarrow> 'w \<Rightarrow> bool) \<Rightarrow> ('w, 'a) io \<Rightarrow> bool" where
  "succeeds_in R m = (\<forall>w x w'. m w = (Inr x, w') \<longrightarrow> R w w')"

context frame
begin

lemma succeeds_pure: "succeeds_in R (retIO x)" "succeeds_in R (raiseIO e)" "succeeds_in R (liftE r)" "succeeds_in R (readIO f)"
  by (auto simp: succeeds_in_def io_simps frame_refl)

lemma succeeds_bindIO: "succeeds_in R m \<Longrightarrow> (\<And>x. succeeds_in R (f x)) \<Longrightarrow> succeeds_in R (bindIO m f)"
  unfolding succeeds_in_def io_simps using frame_trans by blast

lemma succeeds_seqIO: "succeeds_in R m \<Longrightarrow> succeeds_in R k \<Longrightarrow> succeeds_in R (seqIO m k)"
  by (simp add: seqIO_def succeeds_bindIO)

lemma succeeds_result: "succeeds_in R m \<Longrightarrow> m w = (Inr x, w') \<Longrightarrow> R w w'"
  by (simp add: succeeds_in_def)

end

subsection \<open>Steps that succeed\<close>

lemma log_event_Inr [io_simps]: "log_event e s = (Inr u, s') \<longleftrightarrow> s' = (fst s, snd s @ [e])"
  by (cases s) (auto simp: log_event_def act_def)

lemma on_fs_Inr [io_simps]: "on_fs m s = (Inr r, s') \<longleftrightarrow> (\<exists>fs'. m (fst s) = (Inr r, fs') \<and> s' = (fs', snd s))"
  by (cases s) (auto simp: on_fs_def split: prod.split)

lemma run_command_Inr [io_simps]:
  "run_command h name cmd env s = (Inr u, s') \<longleftrightarrow> (\<exists>fs'. command h cmd env (fst s) = (Inr 0, fs') \<and>
     s' = (fs', snd s @ [Printed (''== '' @ name @ '' ==''), Printed (''+ '' @ str_join '' '' cmd), Ran cmd 0]))"
  by (auto simp: run_command_def io_simps)

lemma skip_or_fail_Inr [io_simps]:
  "skip_or_fail strict code message s = (Inr b, s') \<longleftrightarrow>
     \<not> strict \<and> \<not> b \<and> s' = (fst s, snd s @ [Printed (''SKIP '' @ code @ '': '' @ message)])"
  by (auto simp: skip_or_fail_def io_simps)

lemma exists_node_Inr [io_simps]: "exists_node p s = (Inr b, s') \<longleftrightarrow> b = (map_of (fst s) p \<noteq> None) \<and> s' = s"
  by (cases s) (auto simp: exists_node_def io_simps)

subsection \<open>Phases\<close>

text \<open>A command that ended with return code 0; a line that is no notice of a skipped check; a notice.\<close>

fun clean_event :: "event \<Rightarrow> bool" where
  "clean_event (Ran cmd rc) = (rc = 0)"
| "clean_event _ = True"

fun quiet_event :: "event \<Rightarrow> bool" where
  "quiet_event (Printed s) = (\<not> starts_with s ''SKIP '')"
| "quiet_event _ = True"

fun notice :: "string \<Rightarrow> event \<Rightarrow> bool" where
  "notice code (Printed s) = starts_with s (''SKIP '' @ smoke_err code @ '': '')"
| "notice code _ = False"

text \<open>
  What a phase of the run does to the list of checks and the log: it adds its checks, or, where the run
  is not strict, prints a notice with one of its codes.
\<close>

definition phase_done :: "bool \<Rightarrow> string list \<Rightarrow> string list \<Rightarrow> string list \<Rightarrow> string list \<Rightarrow> event list \<Rightarrow> event list \<Rightarrow> bool" where
  "phase_done strict adds codes cs cs' old all \<longleftrightarrow>
     (\<exists>new. all = old @ new \<and> list_all clean_event new \<and> (strict \<longrightarrow> list_all quiet_event new) \<and>
       (cs' = cs @ adds \<or> \<not> strict \<and> cs' = cs \<and> list_ex (\<lambda>c. list_ex (notice c) new) codes))"

text \<open>The log of a step that succeeds, whatever its result.\<close>

definition log_grew :: "bool \<Rightarrow> smoke \<Rightarrow> smoke \<Rightarrow> bool" where
  "log_grew strict s s' \<longleftrightarrow>
     (\<exists>new. snd s' = snd s @ new \<and> list_all clean_event new \<and> (strict \<longrightarrow> list_all quiet_event new))"

interpretation smoke_log: frame "log_grew strict" for strict
proof
  show "log_grew strict w w" for w by (simp add: log_grew_def)
  show "log_grew strict u w" if uv: "log_grew strict u v" and vw: "log_grew strict v w" for u v w
  proof -
    from uv vw obtain xs ys where "snd v = snd u @ xs" "snd w = snd v @ ys"
        "list_all clean_event (xs @ ys)" "strict \<longrightarrow> list_all quiet_event (xs @ ys)"
      by (auto simp: log_grew_def)
    then show ?thesis unfolding log_grew_def by (intro exI [of _ "xs @ ys"]) simp
  qed
qed

lemma run_command_grew: "succeeds_in (log_grew strict) (run_command h name cmd env)"
  by (auto simp: succeeds_in_def log_grew_def starts_with_def io_simps)

lemma skip_grew: "succeeds_in (log_grew strict) (skip_or_fail strict code message)"
  by (auto simp: succeeds_in_def log_grew_def io_simps)

lemma build_grew: "succeeds_in (log_grew strict) (build_rust_client_core h vendor_root target strict)"
  unfolding build_rust_client_core_def
  by (auto intro!: smoke_log.succeeds_bindIO smoke_log.succeeds_seqIO smoke_log.succeeds_pure run_command_grew skip_grew
      split: option.split)

lemma rust_smoke_grew: "succeeds_in (log_grew strict) (rust_smoke h vendor_root strict cs)"
  unfolding rust_smoke_def
  by (auto intro!: smoke_log.succeeds_bindIO smoke_log.succeeds_pure build_grew skip_grew split: option.split)

lemma rust_smoke_done:
  assumes "rust_smoke h vendor_root strict cs s = (Inr (cs', lib), s')"
  shows "phase_done strict [''rust-client-core-build''] [''CARGO_MISSING''] cs cs' (snd s) (snd s')"
proof (cases "program h ''cargo''")
  case None
  with assms show ?thesis
    by (auto simp: rust_smoke_def phase_done_def starts_with_def io_simps)
next
  case (Some cargo)
  with assms have "cs' = cs @ [''rust-client-core-build'']" by (auto simp: rust_smoke_def io_simps)
  with smoke_log.succeeds_result [OF rust_smoke_grew assms] show ?thesis
    by (auto simp: log_grew_def phase_done_def)
qed

lemma node_smoke_done:
  assumes "node_smoke h consumer_root strict cs s = (Inr cs', s')"
  shows "phase_done strict [''web-starter-smoke'', ''typescript-sdk-smoke''] [''NPM_MISSING''] cs cs' (snd s) (snd s')"
  using assms unfolding node_smoke_def phase_done_def Let_def
  by (auto simp: io_simps starts_with_def split: option.splits)

lemma swift_smoke_done:
  assumes "swift_smoke h consumer_root strict cs s = (Inr cs', s')"
  shows "phase_done strict [''ios-starter-smoke''] [''SWIFT_MISSING''] cs cs' (snd s) (snd s')"
  using assms unfolding swift_smoke_def phase_done_def
  by (auto simp: io_simps starts_with_def split: option.splits)

lemma android_smoke_done:
  assumes "android_smoke h consumer_root strict lib cs s = (Inr cs', s')"
  shows "phase_done strict [''android-starter-smoke''] [''ANDROID_PREREQ_MISSING'', ''ANDROID_NATIVE_LIBRARY_MISSING'']
    cs cs' (snd s) (snd s')"
  using assms unfolding android_smoke_def phase_done_def
  by (auto simp: io_simps starts_with_def split: if_splits)

subsection \<open>Whole runs\<close>

text \<open>The phases of a run: the checks each adds and the codes of its notices.\<close>

definition smoke_phases :: "(string list \<times> string list) list" where
  "smoke_phases =
     [([''rust-client-core-build''], [''CARGO_MISSING'']),
      ([''web-starter-smoke'', ''typescript-sdk-smoke''], [''NPM_MISSING'']),
      ([''ios-starter-smoke''], [''SWIFT_MISSING'']),
      ([''android-starter-smoke''], [''ANDROID_PREREQ_MISSING'', ''ANDROID_NATIVE_LIBRARY_MISSING''])]"

definition layout_checks :: "string list" where
  "layout_checks = [''extract-layout'', ''rust-workspace-policy'']"

text \<open>A phase that is done: its checks are in the result, or a notice is in the log.\<close>

definition accounted :: "string list \<Rightarrow> event list \<Rightarrow> string list \<times> string list \<Rightarrow> bool" where
  "accounted cs new ph = (set (fst ph) \<subseteq> set cs \<or> list_ex (\<lambda>c. list_ex (notice c) new) (snd ph))"

lemma phases_done:
  assumes "phase_done strict a1 c1 cs0 cs1 l0 l1" "phase_done strict a2 c2 cs1 cs2 l1 l2"
    "phase_done strict a3 c3 cs2 cs3 l2 l3" "phase_done strict a4 c4 cs3 cs4 l3 l4"
  shows "\<exists>new. l4 = l0 @ new \<and> list_all clean_event new \<and> (strict \<longrightarrow> list_all quiet_event new \<and> cs4 = cs0 @ a1 @ a2 @ a3 @ a4) \<and>
    list_all (accounted cs4 new) [(a1, c1), (a2, c2), (a3, c3), (a4, c4)]"
proof -
  from assms obtain n1 n2 n3 n4 where n: "l1 = l0 @ n1" "l2 = l1 @ n2" "l3 = l2 @ n3" "l4 = l3 @ n4"
      "list_all clean_event (n1 @ n2 @ n3 @ n4)" "strict \<longrightarrow> list_all quiet_event (n1 @ n2 @ n3 @ n4)"
    and c: "cs1 = cs0 @ a1 \<or> \<not> strict \<and> cs1 = cs0 \<and> list_ex (\<lambda>c. list_ex (notice c) n1) c1"
      "cs2 = cs1 @ a2 \<or> \<not> strict \<and> cs2 = cs1 \<and> list_ex (\<lambda>c. list_ex (notice c) n2) c2"
      "cs3 = cs2 @ a3 \<or> \<not> strict \<and> cs3 = cs2 \<and> list_ex (\<lambda>c. list_ex (notice c) n3) c3"
      "cs4 = cs3 @ a4 \<or> \<not> strict \<and> cs4 = cs3 \<and> list_ex (\<lambda>c. list_ex (notice c) n4) c4"
    unfolding phase_done_def by auto
  have sub: "set cs1 \<subseteq> set cs4" "set cs2 \<subseteq> set cs4" "set cs3 \<subseteq> set cs4" using c by auto
  let ?new = "n1 @ n2 @ n3 @ n4"
  have "accounted cs4 ?new (a1, c1)" using c(1) sub by (auto simp: accounted_def list_ex_iff)
  moreover have "accounted cs4 ?new (a2, c2)" using c(2) sub by (auto simp: accounted_def list_ex_iff)
  moreover have "accounted cs4 ?new (a3, c3)" using c(3) sub by (auto simp: accounted_def list_ex_iff)
  moreover have "accounted cs4 ?new (a4, c4)" using c(4) by (auto simp: accounted_def list_ex_iff)
  ultimately show ?thesis using n c by (intro exI [of _ ?new]) auto
qed

lemma smoke_commands_done:
  assumes "run_smoke_commands h consumer_root strict s = (Inr cs, s')"
  shows "\<exists>new. snd s' = snd s @ new \<and> list_all clean_event new \<and>
    (strict \<longrightarrow> list_all quiet_event new \<and> cs = layout_checks @ concat (map fst smoke_phases)) \<and>
    list_all (accounted cs new) smoke_phases"
proof -
  from assms obtain cs1 lib s1 cs2 s2 cs3 s3 where run:
      "rust_smoke h (vendor_dir consumer_root) strict layout_checks s = (Inr (cs1, lib), s1)"
      "node_smoke h consumer_root strict cs1 s1 = (Inr cs2, s2)"
      "swift_smoke h consumer_root strict cs2 s2 = (Inr cs3, s3)"
      "android_smoke h consumer_root strict lib cs3 s3 = (Inr cs, s')"
    by (auto simp: run_smoke_commands_def layout_checks_def io_simps split: prod.splits)
  from phases_done [OF rust_smoke_done [OF run(1)] node_smoke_done [OF run(2)] swift_smoke_done [OF run(3)]
      android_smoke_done [OF run(4)]]
  show ?thesis unfolding smoke_phases_def by simp
qed

text \<open>The Rust workspace below a directory: its manifest lists exactly the client members, and their inputs are files.\<close>

definition client_workspace :: "renv \<Rightarrow> path \<Rightarrow> fs \<Rightarrow> bool" where
  "client_workspace w dir fs \<longleftrightarrow>
     (\<exists>t data ws members. map_of fs (dir @ path_comps ''core/rust/Cargo.toml'') = Some (File t) \<and>
        toml_loads w t = Some (JObj data) \<and> dict_get data ''workspace'' = JObj ws \<and> dict_get ws ''members'' = JArr members \<and>
        map json_str members = [''grain-core'', ''grain-client-core'', ''grain-client-wasm'']) \<and>
     (\<forall>rel\<in>{''core/rust/Cargo.lock'', ''core/rust/rust-toolchain.toml'', ''core/rust/grain-core/Cargo.toml'',
          ''core/rust/grain-client-core/Cargo.toml'', ''core/rust/grain-client-core/src/grain_client_core.udl'',
          ''core/rust/grain-client-wasm/Cargo.toml''}. \<exists>d. map_of fs (dir @ path_comps rel) = Some (File d))"

lemma file_node_iff: "file_node p fs \<longleftrightarrow> (\<exists>d. map_of fs p = Some (File d))"
  by (auto simp: file_node_def split: option.splits node.splits)

lemma validate_rust_workspace_client:
  assumes "validate_rust_workspace w dir fs = Inr ()"
  shows "client_workspace w dir fs"
proof -
  from assms obtain t data ws members where
      at: "map_of fs (dir @ path_comps ''core/rust/Cargo.toml'') = Some (File t)" "toml_loads w t = Some (JObj data)"
      and ws: "dict_get_or data ''workspace'' (JObj []) = JObj ws" "dict_get ws ''members'' = JArr members"
      and members: "map json_str members = CLIENT_RUST_MEMBERS" and inputs: "\<forall>rel\<in>set RUST_INPUTS. file_node (dir @ path_comps rel) fs"
    by (auto simp: validate_rust_workspace_def bindE_Inr attr_get_or_Inr attr_get_Inr report_list_Inr checks_Inr list_all_iff
        simp del: checks.simps split: option.splits node.splits)
  have "dict_get data ''workspace'' = JObj ws"
    using ws by (auto simp: dict_get_or_def dict_get_def split: option.splits)
  moreover have "\<exists>d. map_of fs (dir @ path_comps rel) = Some (File d)" if "rel \<in> set RUST_INPUTS" for rel
    using inputs that by (simp add: file_node_iff)
  ultimately show ?thesis
    using at ws(2) members by (auto simp: client_workspace_def CLIENT_RUST_MEMBERS_def RUST_INPUTS_def)
qed


subsection \<open>A concrete run\<close>

text \<open>A Linux machine with every program, on which a command leaves the Rust library behind.\<close>

definition ex_library :: path where
  "ex_library = [''c'', ''vendor'', ''grain-sdk'', ''core'', ''rust'', ''target'', ''debug'', ''libgrain_client_core.so'']"

definition ex_smoke_host :: smoke_host where
  "ex_smoke_host = \<lparr>os_system = ''Linux'', os_machine = ''x86_64'', program = (\<lambda>p. Some (''/usr/bin/'' @ p)),
     java_settings = (\<lambda>_. Inr []), command = (\<lambda>_ _ fs. (Inr 0, set_node ex_library (File []) fs)),
     os_environ = [], sys_executable = ''/usr/bin/python3'', repo_dir = [''repo'']\<rparr>"

lemma con_file_node:
  assumes fill: "fill_consumer con_world manifest ''o'' ex_commit root_dir fs = (Inr r, fs')"
    and e: "e \<in> set EXPECTED_ARTIFACTS_consumer" "req \<in> set (con_entries e)" "\<not> ends_with req ''/''"
  shows "file_node (vendor_dir root_dir @ path_comps req) fs'"
proof -
  obtain pre pol where p: "e = (pre, pol)" by (cases e)
  with e have pre: "pre \<in> set (map fst EXPECTED_ARTIFACTS_consumer)" by force
  have mem: "con_mem pre = concat (map con_members (con_entries (pre, pol)))" using e(1) p by (simp add: con_mem_entry)
  from fill_consumer_Inr [OF fill] pre have "artifact_unpacked con_world ''o'' (vendor_dir root_dir) ex_commit pre fs'" by blast
  moreover have "members_of con_world (path_join ''o'' (pre @ artifact_suffix ex_commit)) = Some (con_mem pre)"
    using con_members_of [OF pre] by (simp add: path_join_def ex_file_def)
  ultimately have all: "\<forall>m\<in>set (con_mem pre). unpacked (vendor_dir root_dir) m fs'"
    by (auto simp: artifact_unpacked_def)
  have "\<lparr>m_name = req, m_isfile = True, m_isdir = False, m_data = Some []\<rparr> \<in> set (con_members req)"
    using e(3) by (simp add: con_members_def)
  then have "\<lparr>m_name = req, m_isfile = True, m_isdir = False, m_data = Some []\<rparr> \<in> set (con_mem pre)"
    unfolding mem using e(2) p by auto
  with all have "unpacked (vendor_dir root_dir) \<lparr>m_name = req, m_isfile = True, m_isdir = False, m_data = Some []\<rparr> fs'" by blast
  then show ?thesis by (auto simp: unpacked_def file_node_def)
qed

lemma ex_files_listed:
  "list_all (\<lambda>req. list_ex (\<lambda>e. req \<in> set (con_entries e)) EXPECTED_ARTIFACTS_consumer \<and> \<not> ends_with req ''/'')
     (''core/rust/Cargo.toml'' # ''sdk/kotlin/gradlew'' # RUST_INPUTS)"
  by code_simp

lemma ex_workspace_ok:
  assumes "fill_consumer con_world manifest ''o'' ex_commit root_dir fs = (Inr r, fs')"
  shows "validate_rust_workspace con_world (vendor_dir root_dir) fs' = Inr ()"
    "file_node (vendor_dir root_dir @ path_comps ''sdk/kotlin/gradlew'') fs'"
proof -
  have there: "file_node (vendor_dir root_dir @ path_comps req) fs'"
    if "req \<in> set (''core/rust/Cargo.toml'' # ''sdk/kotlin/gradlew'' # RUST_INPUTS)" for req
    using con_file_node [OF assms] ex_files_listed that by (auto simp: list_all_iff list_ex_iff)
  from there show "file_node (vendor_dir root_dir @ path_comps ''sdk/kotlin/gradlew'') fs'" by simp
  from there [of "''core/rust/Cargo.toml''"] obtain t where
      "map_of fs' (vendor_dir root_dir @ path_comps ''core/rust/Cargo.toml'') = Some (File t)"
    by (auto simp: file_node_def split: option.splits node.splits)
  with there show "validate_rust_workspace con_world (vendor_dir root_dir) fs' = Inr ()"
    by (simp add: validate_rust_workspace_def con_world_def dict_get_def dict_get_or_def report_list_def
        CLIENT_RUST_MEMBERS_def FORBIDDEN_RUST_MEMBERS_def list_all_iff checks_Inr del: checks.simps)
qed

lemma ex_run: "run_command ex_smoke_host name cmd env (fs, es) = (Inr (), (set_node ex_library (File []) fs,
    es @ [Printed (''== '' @ name @ '' ==''), Printed (''+ '' @ str_join '' '' cmd), Ran cmd 0]))"
  by (simp add: run_command_def ex_smoke_host_def bindIO_def seqIO_def retIO_def log_event_def act_def on_fs_def)

lemma ex_native: "native_library_path ex_smoke_host (vendor_dir [''c'']) = Inr ex_library"
  by (simp add: native_library_path_def library_name_def ex_smoke_host_def Let_def vendor_dir_def ex_library_def)

lemma ex_programs: "program ex_smoke_host p = Some (''/usr/bin/'' @ p)"
  by (simp add: ex_smoke_host_def)

lemma ex_system: "os_system ex_smoke_host = ''Linux''"
  by (simp add: ex_smoke_host_def)


end
