(* ===== verification/PyGlob.thy ===== *)
theory PyGlob
  imports PyText
begin

text \<open>
  \<open>fnmatch.fnmatchcase\<close>: a pattern is read into tokens, the tokens are matched against the whole
  text. A star stands for any text, slashes and line ends included.
\<close>

datatype glob_tok = GStar | GAny | GChr char | GIn bool "(char \<times> char) list"

text \<open>The characters of a bracket: \<open>a-b\<close> is a range where there is a character on both sides.\<close>

fun glob_ranges :: "string \<Rightarrow> (char \<times> char) list" where
  "glob_ranges (a # m # b # r) = (if m = CHR ''-'' then (a, b) # glob_ranges r else (a, a) # glob_ranges (m # b # r))"
| "glob_ranges (a # r) = (a, a) # glob_ranges r"
| "glob_ranges [] = []"

text \<open>
  The text between an opening bracket and the bracket that closes it, and what follows: an
  exclamation mark and a closing bracket at the start do not close it.
\<close>

definition glob_bracket :: "string \<Rightarrow> (string \<times> string) option" where
  "glob_bracket s =
     (let (h, r) = (case s of c # cs \<Rightarrow> if c = CHR ''!'' then ([c], cs) else ([], s) | [] \<Rightarrow> ([], s));
          (h, r) = (case r of c # cs \<Rightarrow> if c = CHR '']'' then (h @ [c], cs) else (h, r) | [] \<Rightarrow> (h, r))
      in map_option (\<lambda>(a, b). (h @ a, b)) (str_partition '']'' r))"

lemma glob_bracket_length: "glob_bracket s = Some (a, b) \<Longrightarrow> length b < length s"
  by (auto simp: glob_bracket_def Let_def split: list.splits if_splits dest!: str_partition_length)

definition glob_class :: "string \<Rightarrow> glob_tok" where
  "glob_class s = (case s of c # cs \<Rightarrow> if c = CHR ''!'' then GIn False (glob_ranges cs) else GIn True (glob_ranges s)
                   | [] \<Rightarrow> GIn True [])"

function glob_parse :: "string \<Rightarrow> glob_tok list" where
  "glob_parse [] = []"
| "glob_parse (c # cs) =
     (if c = CHR ''*'' then GStar # glob_parse cs
      else if c = CHR ''?'' then GAny # glob_parse cs
      else if c = CHR ''['' then
        (case glob_bracket cs of
           None \<Rightarrow> GChr c # glob_parse cs
         | Some (a, b) \<Rightarrow> glob_class a # glob_parse b)
      else GChr c # glob_parse cs)"
  by pat_completeness auto
termination
  by (relation "measure length") (auto dest!: glob_bracket_length)

fun glob_match :: "glob_tok list \<Rightarrow> string \<Rightarrow> bool" where
  "glob_match [] s = (s = [])"
| "glob_match (GStar # ts) [] = glob_match ts []"
| "glob_match (GStar # ts) (c # cs) = (glob_match ts (c # cs) \<or> glob_match (GStar # ts) cs)"
| "glob_match (GAny # ts) s = (case s of [] \<Rightarrow> False | c # cs \<Rightarrow> glob_match ts cs)"
| "glob_match (GChr x # ts) s = (case s of [] \<Rightarrow> False | c # cs \<Rightarrow> c = x \<and> glob_match ts cs)"
| "glob_match (GIn pos rs # ts) s =
     (case s of [] \<Rightarrow> False
      | c # cs \<Rightarrow> list_ex (\<lambda>(a, b). of_char a \<le> (of_char c :: nat) \<and> (of_char c :: nat) \<le> of_char b) rs = pos \<and> glob_match ts cs)"

definition fnmatchcase :: "string \<Rightarrow> string \<Rightarrow> bool" where
  "fnmatchcase s pat = glob_match (glob_parse pat) s"

text \<open>A text without the characters that have a meaning in a pattern stands for itself.\<close>

definition plain_glob :: "string \<Rightarrow> bool" where
  "plain_glob s = list_all (\<lambda>c. c \<notin> {CHR ''*'', CHR ''?'', CHR ''[''}) s"

lemma glob_parse_plain: "plain_glob l \<Longrightarrow> glob_parse (l @ s) = map GChr l @ glob_parse s"
  by (induction l) (auto simp: plain_glob_def)

lemma glob_match_chars: "glob_match (map GChr l @ ts) s \<longleftrightarrow> (\<exists>r. s = l @ r \<and> glob_match ts r)"
  by (induction l arbitrary: s) (auto split: list.splits)

lemma glob_match_star: "glob_match (GStar # ts) s \<longleftrightarrow> (\<exists>a b. s = a @ b \<and> glob_match ts b)"
proof (induction s)
  case (Cons c cs)
  have "(\<exists>a b. c # cs = a @ b \<and> glob_match ts b) \<longleftrightarrow>
      glob_match ts (c # cs) \<or> (\<exists>a b. cs = a @ b \<and> glob_match ts b)"
  proof
    assume "\<exists>a b. c # cs = a @ b \<and> glob_match ts b"
    then obtain a b where "c # cs = a @ b" "glob_match ts b" by blast
    then show "glob_match ts (c # cs) \<or> (\<exists>a b. cs = a @ b \<and> glob_match ts b)" by (cases a) auto
  next
    assume "glob_match ts (c # cs) \<or> (\<exists>a b. cs = a @ b \<and> glob_match ts b)"
    then show "\<exists>a b. c # cs = a @ b \<and> glob_match ts b"
      by (metis append_Cons append_Nil)
  qed
  with Cons show ?case by simp
qed simp

lemma glob_match_all: "glob_match [GStar] s"
  by (induction s) auto

text \<open>The forms of pattern with fixed texts and stars.\<close>

lemma fnmatch_plain: "plain_glob l \<Longrightarrow> fnmatchcase s l \<longleftrightarrow> s = l"
  using glob_parse_plain [of l "[]"] by (auto simp: fnmatchcase_def glob_match_chars [of _ "[]", simplified])

lemma fnmatch_suffix: "plain_glob l \<Longrightarrow> fnmatchcase s (CHR ''*'' # l) \<longleftrightarrow> suffix l s"
  using glob_parse_plain [of l "[]"]
  by (auto simp: fnmatchcase_def glob_match_star suffix_def glob_match_chars [of _ "[]", simplified])

lemma fnmatch_prefix: "plain_glob l \<Longrightarrow> fnmatchcase s (l @ ''*'') \<longleftrightarrow> prefix l s"
  using glob_parse_plain [of l "''*''"] by (auto simp: fnmatchcase_def glob_match_chars glob_match_all prefix_def)

lemma fnmatch_sublist: "plain_glob l \<Longrightarrow> fnmatchcase s (CHR ''*'' # l @ ''*'') \<longleftrightarrow> sublist l s"
  using glob_parse_plain [of l "''*''"]
  by (auto simp: fnmatchcase_def glob_match_star glob_match_chars glob_match_all sublist_def)

lemma fnmatch_around:
  "plain_glob l \<Longrightarrow> plain_glob u \<Longrightarrow> fnmatchcase s (l @ CHR ''*'' # u) \<longleftrightarrow> (\<exists>m. s = l @ m @ u)"
  using glob_parse_plain [of l "CHR ''*'' # u"] glob_parse_plain [of u "[]"]
  by (auto simp: fnmatchcase_def glob_match_star glob_match_chars glob_match_chars [of _ "[]", simplified])

end
