(* ===== verification/ForbiddenTracked.thy ===== *)
theory ForbiddenTracked
  imports PyGlob PyJson
begin

text \<open>
  \<open>tools/ci/check_forbidden_tracked.py\<close>: generated files and noise must not be tracked. What
  \<open>git ls-files -z\<close> prints is a parameter.
\<close>

definition FORBIDDEN_FILE_PATTERNS :: "string list" where
  "FORBIDDEN_FILE_PATTERNS =
     [''.DS_Store'', ''.coverage'', ''.env'', ''.env.*'', ''*.env'', ''*.env.*'', ''*.pyc'', ''*.log'', ''*.tmp'', ''*.swp'',
      ''*.tar.gz'', ''*.tgz'', ''*.zip'', ''*.wasm'', ''*.pem'', ''*.key'', ''*.p12'', ''*.pfx'', ''*.sqlite'', ''*.sqlite3'',
      ''*.db'', ''*.dump'', ''*.ipa'']"

definition ALLOWED_FILE_PATTERNS :: "string list" where
  "ALLOWED_FILE_PATTERNS = [''.env.example'', ''.env.*.example'', ''*.env.example'']"

definition FORBIDDEN_DIR_NAMES :: "string list" where
  "FORBIDDEN_DIR_NAMES =
     [''.build'', ''.gradle'', ''.kotlin'', ''__pycache__'', ''artifacts'', ''build'', ''dist'', ''node_modules'', ''pkg'', ''target'']"

definition FORBIDDEN_PATH_SUFFIXES :: "string list" where
  "FORBIDDEN_PATH_SUFFIXES =
     [''.app'', ''.dSYM'', ''.xcarchive'', ''.xcodeproj'', ''.xcworkspace'', ''.xcresult'', ''.xcuserstate'']"

definition is_forbidden :: "string \<Rightarrow> bool" where
  "is_forbidden path =
     (let parts = str_split ''/'' path in
      if list_ex (\<lambda>d. d \<in> set parts) FORBIDDEN_DIR_NAMES then True
      else if list_ex (\<lambda>part. list_ex (ends_with part) FORBIDDEN_PATH_SUFFIXES) parts then True
      else let base = last parts in
        if list_ex (fnmatchcase base) ALLOWED_FILE_PATTERNS then False
        else list_ex (fnmatchcase base) FORBIDDEN_FILE_PATTERNS)"

text \<open>\<open>ls_files\<close>: the names as \<open>git ls-files -z\<close> prints them, each ended by a zero character.\<close>

definition tracked_names :: "string \<Rightarrow> string list" where
  "tracked_names ls_files = filter (\<lambda>p. p \<noteq> []) (str_split [CHR 0x00] ls_files)"

definition forbidden_main :: "string \<Rightarrow> nat \<times> string list" where
  "forbidden_main ls_files =
     (let offenders = filter is_forbidden (tracked_names ls_files) in
      if offenders \<noteq> [] then (1, ''Forbidden tracked files detected:'' # map (\<lambda>p. ''- '' @ p) offenders)
      else (0, [''Forbidden tracked files check: OK'']))"

subsection \<open>Specification\<close>

text \<open>The last components that are noise: fixed names, endings, and environment files but for examples.\<close>

definition noise_names :: "string list" where
  "noise_names = [''.DS_Store'', ''.coverage'', ''.env'']"

definition noise_endings :: "string list" where
  "noise_endings =
     [''.env'', ''.pyc'', ''.log'', ''.tmp'', ''.swp'', ''.tar.gz'', ''.tgz'', ''.zip'', ''.wasm'', ''.pem'', ''.key'',
      ''.p12'', ''.pfx'', ''.sqlite'', ''.sqlite3'', ''.db'', ''.dump'', ''.ipa'']"

definition env_example :: "string \<Rightarrow> bool" where
  "env_example base \<longleftrightarrow> (\<exists>m. base = m @ ''.env.example'') \<or> (\<exists>m. base = ''.env.'' @ m @ ''.example'')"

definition noise_file :: "string \<Rightarrow> bool" where
  "noise_file base \<longleftrightarrow> \<not> env_example base \<and>
     (base \<in> set noise_names \<or> (\<exists>e\<in>set noise_endings. suffix e base) \<or> sublist ''.env.'' base)"

lemma allowed_iff: "list_ex (fnmatchcase base) ALLOWED_FILE_PATTERNS \<longleftrightarrow> env_example base"
  using fnmatch_plain [of "''.env.example''" base] fnmatch_around [of "''.env.''" "''.example''" base]
    fnmatch_suffix [of "''.env.example''" base]
  by (auto simp: ALLOWED_FILE_PATTERNS_def env_example_def plain_glob_def suffix_def)

lemma noise_iff:
  "list_ex (fnmatchcase base) FORBIDDEN_FILE_PATTERNS \<longleftrightarrow>
     base \<in> set noise_names \<or> (\<exists>e\<in>set noise_endings. suffix e base) \<or> sublist ''.env.'' base"
proof -
  have split: "FORBIDDEN_FILE_PATTERNS = noise_names @ [''.env.*'', ''*.env'', ''*.env.*''] @ map (\<lambda>e. CHR ''*'' # e) (tl noise_endings)"
    by (simp add: FORBIDDEN_FILE_PATTERNS_def noise_names_def noise_endings_def)
  have plain: "list_all plain_glob (noise_names @ noise_endings @ [''.env.''])"
    by (simp add: plain_glob_def noise_names_def noise_endings_def)
  then have names: "list_ex (fnmatchcase base) noise_names \<longleftrightarrow> base \<in> set noise_names"
    by (auto simp: list_ex_iff list_all_iff fnmatch_plain)
  have "list_ex (fnmatchcase base) (map (\<lambda>e. CHR ''*'' # e) es) \<longleftrightarrow> (\<exists>e\<in>set es. suffix e base)"
    if "set es \<subseteq> set noise_endings" for es
  proof -
    have "fnmatchcase base (CHR ''*'' # e) \<longleftrightarrow> suffix e base" if "e \<in> set es" for e
      using fnmatch_suffix [of e base] plain \<open>set es \<subseteq> set noise_endings\<close> that by (auto simp: list_all_iff)
    then show ?thesis by (simp add: list_ex_iff)
  qed
  from this [of "tl noise_endings"] this [of "[''.env'']"]
  have ends: "fnmatchcase base ''*.env'' \<or> list_ex (fnmatchcase base) (map (\<lambda>e. CHR ''*'' # e) (tl noise_endings)) \<longleftrightarrow>
      (\<exists>e\<in>set noise_endings. suffix e base)"
    by (auto simp: noise_endings_def)
  have "fnmatchcase base ''.env.*'' \<longleftrightarrow> prefix ''.env.'' base" "fnmatchcase base ''*.env.*'' \<longleftrightarrow> sublist ''.env.'' base"
    using fnmatch_prefix [of "''.env.''" base] fnmatch_sublist [of "''.env.''" base] plain by auto
  moreover have "prefix ''.env.'' base \<Longrightarrow> sublist ''.env.'' base" by (rule prefix_imp_sublist)
  ultimately show ?thesis unfolding split list_ex_append using names ends by auto
qed

text \<open>The check passes exactly when no tracked path has a component that is a forbidden directory name or
ends like a build product, or a last component that is noise: a fixed name, a forbidden ending or an
environment file that is no example.\<close>

theorem forbidden_ok_iff:
  "fst (forbidden_main ls_files) = 0 \<longleftrightarrow>
     (\<forall>p\<in>set (tracked_names ls_files).
        (\<forall>part\<in>set (str_split ''/'' p). part \<notin> set FORBIDDEN_DIR_NAMES \<and>
           (\<forall>e\<in>set FORBIDDEN_PATH_SUFFIXES. \<not> suffix e part)) \<and>
        \<not> noise_file (last (str_split ''/'' p)))"
proof -
  have "is_forbidden p \<longleftrightarrow> (\<exists>part\<in>set (str_split ''/'' p). part \<in> set FORBIDDEN_DIR_NAMES \<or>
      (\<exists>e\<in>set FORBIDDEN_PATH_SUFFIXES. suffix e part)) \<or> noise_file (last (str_split ''/'' p))" for p
    unfolding is_forbidden_def Let_def allowed_iff noise_iff noise_file_def
    by (auto simp: list_ex_iff ends_with_def)
  then show ?thesis
    by (simp add: forbidden_main_def Let_def filter_empty_conv)
qed

theorem forbidden_ok_iff_witness:
  "fst (forbidden_main (''src/.env.example'' @ [CHR 0x00] @ ''a.py'' @ [CHR 0x00])) = 0"
proof (subst forbidden_ok_iff)
  have names: "tracked_names (''src/.env.example'' @ [CHR 0x00] @ ''a.py'' @ [CHR 0x00]) = [''src/.env.example'', ''a.py'']"
    by code_simp
  have parts: "str_split ''/'' ''src/.env.example'' = [''src'', ''.env.example'']" "str_split ''/'' ''a.py'' = [''a.py'']"
    by code_simp+
  have "env_example ''.env.example''" by (auto simp: env_example_def)
  moreover have "\<not> sublist ''.env.'' ''a.py''" by (simp add: sublist_code)
  ultimately show "\<forall>p\<in>set (tracked_names (''src/.env.example'' @ [CHR 0x00] @ ''a.py'' @ [CHR 0x00])).
      (\<forall>part\<in>set (str_split ''/'' p). part \<notin> set FORBIDDEN_DIR_NAMES \<and>
           (\<forall>e\<in>set FORBIDDEN_PATH_SUFFIXES. \<not> suffix e part)) \<and>
        \<not> noise_file (last (str_split ''/'' p))"
    unfolding names by (simp add: parts FORBIDDEN_DIR_NAMES_def FORBIDDEN_PATH_SUFFIXES_def noise_file_def
      noise_names_def noise_endings_def suffix_to_prefix)
qed

end
