(* ===== verification/SourceArchive.thy ===== *)
theory SourceArchive
  imports PyGlob PyEnv "HOL-Library.Multiset"
begin

text \<open>
  \<open>tools/ci/build_sdk_source_archive.py\<close>: collects the files and directories below a root into an
  archive that must not depend on the machine it is made on. A directory holds its entries in the
  order the machine lists them; a file has its mode bits and content.
\<close>

subsection \<open>Source trees\<close>

datatype tree = Directory "(string \<times> tree) list" | Regular int string | Symlink string | Special

text \<open>\<open>path.lstat()\<close> below the root, by the components of the path.\<close>

fun lookup :: "tree \<Rightarrow> string list \<Rightarrow> tree res" where
  "lookup t [] = Inr t"
| "lookup (Directory cs) (c # p) = (case map_of cs c of None \<Rightarrow> Inl (FileNotFoundError c) | Some t \<Rightarrow> lookup t p)"
| "lookup _ (c # p) = Inl (OSError 20)"

definition is_link :: "tree res \<Rightarrow> bool" where
  "is_link r = (case r of Inr (Symlink _) \<Rightarrow> True | _ \<Rightarrow> False)"

subsection \<open>Collecting entries\<close>

type_synonym entries = "(string \<times> tree) list"

definition archive_path_ok :: "string \<Rightarrow> bool" where
  "archive_path_ok name = (\<not> path_is_absolute name \<and> ''..'' \<notin> set (path_parts name) \<and> path_str name \<noteq> ''.'')"

definition excluded :: "string list \<Rightarrow> string \<Rightarrow> bool" where
  "excluded excludes name =
     list_ex (\<lambda>pattern. fnmatchcase (if CHR ''/'' \<in> set pattern then name else path_name name) pattern) excludes"

definition through_link :: "tree \<Rightarrow> string \<Rightarrow> bool" where
  "through_link root_dir name =
     (let parts = path_parts name in
      list_ex (\<lambda>i. is_link (lookup root_dir (take i parts))) [1..<Suc (length parts)])"

text \<open>
  \<open>visit\<close> of a name whose node is there; \<open>visit_children\<close> is its loop over \<open>path.iterdir()\<close>.
\<close>

fun visit :: "tree \<Rightarrow> string list \<Rightarrow> string \<Rightarrow> tree \<Rightarrow> entries \<Rightarrow> entries res"
  and visit_children :: "tree \<Rightarrow> string list \<Rightarrow> string \<Rightarrow> (string \<times> tree) list \<Rightarrow> entries \<Rightarrow> entries res"
where
  "visit root_dir excludes name node es =
     (if \<not> archive_path_ok name then Inl (ValueError ''SDK_ARCHIVE_ERR_PATH'')
      else if excluded excludes name then Inr es
      else if through_link root_dir name then Inl (ValueError (''SDK_ARCHIVE_ERR_FILE_TYPE: '' @ name))
      else case node of
        Directory cs \<Rightarrow>
          if name \<in> set (map fst es) then Inr es
          else visit_children root_dir excludes name cs (es @ [(name, Directory cs)])
      | Regular m d \<Rightarrow> Inr (if name \<in> set (map fst es) then es else es @ [(name, Regular m d)])
      | _ \<Rightarrow> Inl (ValueError (''SDK_ARCHIVE_ERR_FILE_TYPE: '' @ name)))"
| "visit_children root_dir excludes name [] es = Inr es"
| "visit_children root_dir excludes name ((c, t) # cs) es =
     bindE (visit root_dir excludes (name @ ''/'' @ c) t es) (visit_children root_dir excludes name cs)"

text \<open>A name given on the command line; where \<open>lstat\<close> fails, the checks before it come first.\<close>

definition visit_path :: "tree \<Rightarrow> string list \<Rightarrow> entries \<Rightarrow> string \<Rightarrow> entries res" where
  "visit_path root_dir excludes es p =
     (let name = path_str p in
      case lookup root_dir (path_parts name) of
        Inr node \<Rightarrow> visit root_dir excludes name node es
      | Inl e \<Rightarrow>
          (if \<not> archive_path_ok name then Inl (ValueError ''SDK_ARCHIVE_ERR_PATH'')
           else if excluded excludes name then Inr es
           else if through_link root_dir name then Inl (ValueError (''SDK_ARCHIVE_ERR_FILE_TYPE: '' @ name))
           else Inl e))"

subsection \<open>The archive\<close>

text \<open>What \<open>tarfile\<close> and \<open>gzip\<close> are given: the entries in order and the time stamp of the stream.\<close>

record tar_entry =
  t_name :: string
  t_is_dir :: bool
  t_mode :: int
  t_size :: nat
  t_data :: string
  t_mtime :: int
  t_uid :: int
  t_gid :: int
  t_uname :: string
  t_gname :: string

record archive =
  gz_filename :: string
  gz_mtime :: int
  gz_compresslevel :: nat
  tar_entries :: "tar_entry list"

definition tar_info :: "int \<Rightarrow> string \<times> tree \<Rightarrow> tar_entry res" where
  "tar_info source_epoch = (\<lambda>(name, node).
     let entry = \<lparr>t_name = name, t_is_dir = False, t_mode = 0, t_size = 0, t_data = [], t_mtime = source_epoch,
                  t_uid = 0, t_gid = 0, t_uname = [], t_gname = []\<rparr>
     in case node of
          Directory _ \<Rightarrow> Inr (entry\<lparr>t_is_dir := True, t_mode := 0x1ED\<rparr>)
        | Regular m d \<Rightarrow> Inr (entry\<lparr>t_mode := (if and m 0x49 \<noteq> 0 then 0x1ED else 0x1A4), t_size := length d, t_data := d\<rparr>)
        | _ \<Rightarrow> Inl (ValueError (''SDK_ARCHIVE_ERR_FILE_TYPE: '' @ name)))"

definition build_archive :: "tree \<Rightarrow> string list \<Rightarrow> string list \<Rightarrow> int \<Rightarrow> archive res" where
  "build_archive root_dir paths excludes source_epoch =
     (if \<not> (0 \<le> source_epoch \<and> source_epoch \<le> 0xFFFFFFFF) then Inl (ValueError ''SDK_ARCHIVE_ERR_SOURCE_EPOCH'')
      else
        bindE (foldE (visit_path root_dir excludes) [] paths) (\<lambda>es.
        bindE (mapE (tar_info source_epoch) (sort_key fst es)) (\<lambda>ts.
          Inr \<lparr>gz_filename = [], gz_mtime = source_epoch, gz_compresslevel = 9, tar_entries = ts\<rparr>)))"

text \<open>The command line: \<open>tree_at\<close> is the tree at a path; the result is what is written and where.\<close>

record archive_args =
  ar_output :: string
  ar_root :: string
  ar_excludes :: "string list"
  ar_paths :: "string list"
  ar_source_epoch :: int

definition archive_main :: "(string \<Rightarrow> tree) \<Rightarrow> archive_args \<Rightarrow> (string \<times> archive) res" where
  "archive_main tree_at args =
     bindE (build_archive (tree_at (ar_root args)) (ar_paths args) (ar_excludes args) (ar_source_epoch args)) (\<lambda>a.
       Inr (ar_output args, a))"

end
