(* ===== verification/SourceArchiveProps.thy ===== *)
theory SourceArchiveProps
  imports SourceArchive
begin

text \<open>
  The archive depends on names, kinds, executable bits and contents only: not on the order in which
  directories list their entries, not on other mode bits and not on the order of the arguments.
\<close>

subsection \<open>Names\<close>

definition good_name :: "string \<Rightarrow> bool" where
  "good_name c = (c \<noteq> [] \<and> CHR ''/'' \<notin> set c \<and> c \<noteq> ''.'' \<and> c \<noteq> ''..'')"

fun wf_tree :: "tree \<Rightarrow> bool" where
  "wf_tree (Directory cs) \<longleftrightarrow> distinct (map fst cs) \<and> (\<forall>(c, t)\<in>set cs. good_name c \<and> wf_tree t)"
| "wf_tree _ \<longleftrightarrow> True"

lemma str_partition_first: "x \<notin> set u \<Longrightarrow> str_partition [x] (u @ x # w) = Some (u, w)"
  by (induction u) auto

lemma str_partition_absent: "x \<notin> set u \<Longrightarrow> str_partition [x] u = None"
  by (induction u) auto

lemma str_split_first: "x \<notin> set u \<Longrightarrow> str_split [x] (u @ x # w) = u # str_split [x] w"
  by (simp add: str_split.simps [of _ "u @ _"] str_partition_first)

lemma str_split_single: "x \<notin> set b \<Longrightarrow> str_split [x] b = [b]"
  by (simp add: str_split.simps str_partition_absent)

lemma str_split_append: "str_split [x] (a @ x # b) = str_split [x] a @ str_split [x] b"
proof (induction a rule: length_induct)
  case (1 a)
  show ?case
  proof (cases "x \<in> set a")
    case False
    then show ?thesis by (simp add: str_split_first str_split_single)
  next
    case True
    then obtain u v where a: "a = u @ x # v" "x \<notin> set u" by (metis split_list_first)
    with 1 [rule_format, of v] show ?thesis by (simp add: str_split_first)
  qed
qed

lemma str_join_last_length: "length c \<le> length (str_join sep (xs @ [c]))"
  by (induction xs) (auto simp: str_join_Cons)

lemma path_comps_child: "good_name c \<Longrightarrow> path_comps (name @ ''/'' @ c) = path_comps name @ [c]"
  by (simp add: path_comps_def str_split_append str_split_single good_name_def)

lemma relative_iff: "\<not> path_is_absolute name \<longleftrightarrow> \<not> starts_with name ''/''"
  by (auto simp: path_is_absolute_def path_root_def starts_with_def prefix_def)

lemma relative_parts: "\<not> path_is_absolute name \<Longrightarrow> path_parts name = path_comps name"
  by (simp add: path_is_absolute_def path_parts_def)

lemma path_ok_nonempty: "archive_path_ok name \<Longrightarrow> path_comps name \<noteq> []"
  by (auto simp: archive_path_ok_def path_str_def relative_parts)

lemma path_ok_parts: "archive_path_ok name \<Longrightarrow> path_parts name = path_comps name"
  by (simp add: archive_path_ok_def relative_parts)

lemma child_path_ok:
  assumes "archive_path_ok name" "good_name c"
  shows "archive_path_ok (name @ ''/'' @ c)" "path_parts (name @ ''/'' @ c) = path_parts name @ [c]"
proof -
  have "name \<noteq> []" using path_ok_nonempty [OF assms(1)] by (auto simp: path_comps_def str_split_single)
  with assms(1) have rel: "\<not> path_is_absolute (name @ ''/'' @ c)"
    by (cases name) (auto simp: archive_path_ok_def relative_iff starts_with_def)
  then show parts: "path_parts (name @ ''/'' @ c) = path_parts name @ [c]"
    using path_comps_child [OF assms(2)] path_ok_parts [OF assms(1)] by (simp add: relative_parts)
  have "path_str (name @ ''/'' @ c) \<noteq> ''.''"
  proof
    assume dot: "path_str (name @ ''/'' @ c) = ''.''"
    have j: "path_str (name @ ''/'' @ c) = str_join ''/'' (path_comps name @ [c])"
      using rel parts path_comps_child [OF assms(2), of name] by (simp add: path_str_def path_is_absolute_def)
    obtain d ds where "path_comps name = d # ds" using path_ok_nonempty [OF assms(1)] by (cases "path_comps name") auto
    then have "length (str_join ''/'' (path_comps name @ [c])) \<ge> length d + 1 + length c"
      using str_join_last_length [of c "''/''" ds] by (simp add: str_join_Cons)
    moreover have "length (str_join ''/'' (path_comps name @ [c])) = length ''.''" using dot j by simp
    ultimately show False using assms(2) by (simp add: good_name_def)
  qed
  with rel assms show "archive_path_ok (name @ ''/'' @ c)"
    unfolding archive_path_ok_def parts by (auto simp: good_name_def)
qed

subsection \<open>The entries of a name\<close>

fun tree_ok :: "tree \<Rightarrow> bool" where
  "tree_ok (Directory cs) = True"
| "tree_ok (Regular m d) = True"
| "tree_ok _ = False"

text \<open>What a name brings in, excluded entries and what is below them left out.\<close>

fun reach :: "string list \<Rightarrow> string \<Rightarrow> tree \<Rightarrow> entries"
  and reach_children :: "string list \<Rightarrow> string \<Rightarrow> (string \<times> tree) list \<Rightarrow> entries"
where
  "reach ex name t =
     (if excluded ex name then []
      else (name, t) # (case t of Directory cs \<Rightarrow> reach_children ex name cs | _ \<Rightarrow> []))"
| "reach_children ex name [] = []"
| "reach_children ex name ((c, t) # cs) = reach ex (name @ ''/'' @ c) t @ reach_children ex name cs"

declare reach.simps [simp del] visit.simps [simp del]

lemma reach_children_set:
  "set (reach_children ex name cs) = (\<Union>(c, t)\<in>set cs. set (reach ex (name @ ''/'' @ c) t))"
  by (induction cs) auto

lemma set_reach:
  "set (reach ex name t) =
     (if excluded ex name then {}
      else insert (name, t) (case t of Directory cs \<Rightarrow> \<Union>(c, t)\<in>set cs. set (reach ex (name @ ''/'' @ c) t) | _ \<Rightarrow> {}))"
  by (auto simp: reach.simps [of ex name t] reach_children_set split: tree.split)

lemma child_size: "(c, t) \<in> set cs \<Longrightarrow> size t < size (Directory cs)"
  by (induction cs) auto

lemma tree_induct [case_names node]:
  assumes "\<And>t. (\<And>cs c u. t = Directory cs \<Longrightarrow> (c, u) \<in> set cs \<Longrightarrow> P u) \<Longrightarrow> P t"
  shows "P t"
proof (induction "size t" arbitrary: t rule: less_induct)
  case less
  show ?case by (rule assms) (use less child_size in blast)
qed

lemma reach_self: "(m, s) \<in> set (reach ex n t) \<Longrightarrow> set (reach ex m s) \<subseteq> set (reach ex n t) \<and> size s \<le> size t"
proof (induction t arbitrary: n rule: tree_induct)
  case (node t)
  from node.prems have "(m, s) = (n, t) \<or> (\<exists>cs c u. t = Directory cs \<and> \<not> excluded ex n \<and> (c, u) \<in> set cs \<and>
      (m, s) \<in> set (reach ex (n @ ''/'' @ c) u))"
    by (subst (asm) set_reach) (auto split: if_splits tree.splits)
  then show ?case
  proof (elim disjE exE conjE)
    fix cs c u assume t: "t = Directory cs" "\<not> excluded ex n" "(c, u) \<in> set cs" and ms: "(m, s) \<in> set (reach ex (n @ ''/'' @ c) u)"
    have "set (reach ex (n @ ''/'' @ c) u) \<subseteq> set (reach ex n t)"
      unfolding t(1) set_reach [of ex n "Directory cs"] using t(2,3) by (auto intro!: bexI [of _ "(c, u)"])
    with node.IH [OF t(1,3) ms] child_size [OF t(3)] t(1) show ?thesis by auto
  qed auto
qed

lemma lookup_append: "lookup t (p @ q) = bindE (lookup t p) (\<lambda>u. lookup u q)"
  by (induction t p rule: lookup.induct) (auto split: option.split)

lemma lookup_child:
  "lookup root_dir p = Inr (Directory cs) \<Longrightarrow> wf_tree (Directory cs) \<Longrightarrow> (c, t) \<in> set cs \<Longrightarrow> lookup root_dir (p @ [c]) = Inr t"
  by (simp add: lookup_append)

lemma lookup_wf: "wf_tree t \<Longrightarrow> lookup t p = Inr u \<Longrightarrow> wf_tree u"
  by (induction t p rule: lookup.induct) (auto split: option.splits dest!: map_of_SomeD)

text \<open>A name of an entry leads to its node.\<close>

lemma reach_lookup:
  assumes "wf_tree root_dir"
  shows "lookup root_dir (path_parts n) = Inr t \<Longrightarrow> archive_path_ok n \<Longrightarrow> (m, s) \<in> set (reach ex n t) \<Longrightarrow>
    lookup root_dir (path_parts m) = Inr s \<and> archive_path_ok m"
proof (induction t arbitrary: n rule: tree_induct)
  case (node t)
  have wf: "wf_tree t" using lookup_wf [OF assms node.prems(1)] .
  from node.prems(3) consider "(m, s) = (n, t)" | cs c u where "t = Directory cs" "(c, u) \<in> set cs"
      "(m, s) \<in> set (reach ex (n @ ''/'' @ c) u)"
    by (subst (asm) set_reach) (auto split: if_splits tree.splits)
  then show ?case
  proof cases
    case 2
    then have c: "good_name c" using wf by auto
    note ok = child_path_ok [OF node.prems(2) c]
    have "lookup root_dir (path_parts (n @ ''/'' @ c)) = Inr u"
      unfolding ok(2) using lookup_child [OF _ _ 2(2)] node.prems(1) wf 2(1) by simp
    from node.IH [OF 2(1,2) this ok(1) 2(3)] show ?thesis .
  qed (use node.prems in auto)
qed

subsection \<open>Visits\<close>

definition entries_ok :: "tree \<Rightarrow> entries \<Rightarrow> bool" where
  "entries_ok root_dir es \<longleftrightarrow> distinct (map fst es) \<and>
     (\<forall>(m, s)\<in>set es. lookup root_dir (path_parts m) = Inr s \<and> archive_path_ok m \<and> tree_ok s)"

text \<open>Names of \<open>rs\<close> that are entries already have brought in all that is below them.\<close>

definition settled :: "string list \<Rightarrow> entries \<Rightarrow> entries \<Rightarrow> bool" where
  "settled ex es rs \<longleftrightarrow> (\<forall>(m, s)\<in>set rs. m \<in> fst ` set es \<longrightarrow> set (reach ex m s) \<subseteq> set es)"

definition all_ok :: "entries \<Rightarrow> bool" where
  "all_ok rs = list_all (\<lambda>(m, s). tree_ok s) rs"

definition visited :: "tree \<Rightarrow> entries \<Rightarrow> entries \<Rightarrow> entries res \<Rightarrow> bool" where
  "visited root_dir rs es r \<longleftrightarrow>
     (case r of Inl e \<Rightarrow> \<not> all_ok rs
      | Inr es' \<Rightarrow> all_ok rs \<and> entries_ok root_dir es' \<and> set es' = set es \<union> set rs)"

lemma no_link_above:
  "lookup root_dir p = Inr t \<Longrightarrow> i < length p \<Longrightarrow> \<not> is_link (lookup root_dir (take i p))"
proof -
  assume l: "lookup root_dir p = Inr t" and i: "i < length p"
  from l have "bindE (lookup root_dir (take i p)) (\<lambda>u. lookup u (drop i p)) = Inr t"
    by (metis append_take_drop_id lookup_append)
  then obtain u where u: "lookup root_dir (take i p) = Inr u" "lookup u (drop i p) = Inr t" by (auto simp: res_simps)
  obtain c q where "drop i p = c # q" using i by (cases "drop i p") auto
  with u show ?thesis by (cases u) (auto simp: is_link_def)
qed

lemma through_link_iff:
  assumes "lookup root_dir (path_parts n) = Inr t" "archive_path_ok n"
  shows "through_link root_dir n \<longleftrightarrow> is_link (Inr t)"
proof -
  have ne: "path_parts n \<noteq> []" using assms(2) path_ok_nonempty path_ok_parts by metis
  have "through_link root_dir n \<longleftrightarrow> (\<exists>i\<in>{1..length (path_parts n)}. is_link (lookup root_dir (take i (path_parts n))))"
    by (auto simp: through_link_def Let_def list_ex_iff less_Suc_eq_le simp del: upt_Suc)
  also have "\<dots> \<longleftrightarrow> is_link (lookup root_dir (path_parts n))"
  proof
    assume "is_link (lookup root_dir (path_parts n))"
    with ne show "\<exists>i\<in>{1..length (path_parts n)}. is_link (lookup root_dir (take i (path_parts n)))"
      by (intro bexI [of _ "length (path_parts n)"]) (auto simp: Suc_le_eq)
  next
    assume "\<exists>i\<in>{1..length (path_parts n)}. is_link (lookup root_dir (take i (path_parts n)))"
    then obtain i where i: "i \<le> length (path_parts n)" "is_link (lookup root_dir (take i (path_parts n)))" by auto
    then have "i = length (path_parts n)" using no_link_above [OF assms(1)] by (metis le_neq_implies_less)
    with i show "is_link (lookup root_dir (path_parts n))" by simp
  qed
  finally show ?thesis using assms(1) by simp
qed

lemma entries_ok_snoc:
  "entries_ok root_dir es \<Longrightarrow> m \<notin> fst ` set es \<Longrightarrow> lookup root_dir (path_parts m) = Inr s \<Longrightarrow> archive_path_ok m \<Longrightarrow>
   tree_ok s \<Longrightarrow> entries_ok root_dir (es @ [(m, s)])"
  by (auto simp: entries_ok_def)

lemma entries_ok_unique:
  "entries_ok root_dir es \<Longrightarrow> lookup root_dir (path_parts m) = Inr s \<Longrightarrow> m \<in> fst ` set es \<Longrightarrow> (m, s) \<in> set es"
  by (force simp: entries_ok_def)

lemma entries_all_ok: "entries_ok root_dir es \<Longrightarrow> set rs \<subseteq> set es \<Longrightarrow> all_ok rs"
  by (auto simp: entries_ok_def all_ok_def list_all_iff)

lemma settled_iff:
  "settled ex es rs \<longleftrightarrow> (\<forall>m s. (m, s) \<in> set rs \<longrightarrow> m \<in> fst ` set es \<longrightarrow> set (reach ex m s) \<subseteq> set es)"
  by (auto simp: settled_def)

lemma settled_snoc:
  assumes "\<And>m s. (m, s) \<in> set rs \<Longrightarrow> m \<noteq> n" "settled ex es rs"
  shows "settled ex (es @ [(n, t)]) rs"
  unfolding settled_iff
proof (intro allI impI)
  fix m s assume ms: "(m, s) \<in> set rs" and "m \<in> fst ` set (es @ [(n, t)])"
  with assms(1) have "m \<in> fst ` set es" by auto
  with assms(2) ms have "set (reach ex m s) \<subseteq> set es" by (simp add: settled_iff)
  then show "set (reach ex m s) \<subseteq> set (es @ [(n, t)])" by auto
qed

lemma settled_after:
  assumes es1: "settled ex es1 (xs @ ys)" and es2: "entries_ok root_dir es2" "set es2 = set es1 \<union> set xs"
    and xs: "\<And>m s. (m, s) \<in> set xs \<Longrightarrow> set (reach ex m s) \<subseteq> set xs"
    and ys: "\<And>m s. (m, s) \<in> set ys \<Longrightarrow> lookup root_dir (path_parts m) = Inr s"
  shows "settled ex es2 ys"
  unfolding settled_iff
proof (intro allI impI)
  fix m s assume ms: "(m, s) \<in> set ys" and "m \<in> fst ` set es2"
  with entries_ok_unique [OF es2(1) ys] have "(m, s) \<in> set es2" by blast
  then consider "(m, s) \<in> set es1" | "(m, s) \<in> set xs" using es2(2) by blast
  then show "set (reach ex m s) \<subseteq> set es2"
  proof cases
    case 1
    then have "m \<in> fst ` set es1" by force
    with es1 ms have "set (reach ex m s) \<subseteq> set es1" by (auto simp: settled_iff)
    with es2(2) show ?thesis by blast
  next
    case 2
    with xs es2(2) show ?thesis by blast
  qed
qed

lemma visit_children_correct:
  assumes below: "\<And>m s. (m, s) \<in> set (reach_children ex n cs) \<Longrightarrow> lookup root_dir (path_parts m) = Inr s"
    and child: "\<And>c u es. (c, u) \<in> set cs \<Longrightarrow> entries_ok root_dir es \<Longrightarrow> settled ex es (reach ex (n @ ''/'' @ c) u) \<Longrightarrow>
      visited root_dir (reach ex (n @ ''/'' @ c) u) es (visit root_dir ex (n @ ''/'' @ c) u es)"
  shows "set ds \<subseteq> set cs \<Longrightarrow> entries_ok root_dir es \<Longrightarrow> settled ex es (reach_children ex n ds) \<Longrightarrow>
    visited root_dir (reach_children ex n ds) es (visit_children root_dir ex n ds es)"
proof (induction ds arbitrary: es)
  case Nil
  then show ?case by (simp add: visited_def all_ok_def)
next
  case (Cons d ds)
  obtain c u where d: "d = (c, u)" by (cases d)
  let ?xs = "reach ex (n @ ''/'' @ c) u"
  have cu: "(c, u) \<in> set cs" using Cons.prems(1) d by simp
  have "settled ex es ?xs" using Cons.prems(3) by (auto simp: settled_iff d)
  from child [OF cu Cons.prems(2) this]
  have v: "visited root_dir ?xs es (visit root_dir ex (n @ ''/'' @ c) u es)" .
  show ?case
  proof (cases "visit root_dir ex (n @ ''/'' @ c) u es")
    case (Inl e)
    with v d show ?thesis by (simp add: visited_def all_ok_def)
  next
    case (Inr es2)
    with v have es2: "all_ok ?xs" "entries_ok root_dir es2" "set es2 = set es \<union> set ?xs" by (simp_all add: visited_def)
    have "settled ex es2 (reach_children ex n ds)"
    proof (rule settled_after [OF _ es2(2,3)])
      show "settled ex es (?xs @ reach_children ex n ds)" using Cons.prems(3) d by simp
      show "set (reach ex m s) \<subseteq> set ?xs" if "(m, s) \<in> set ?xs" for m s using reach_self [OF that] by simp
      show "lookup root_dir (path_parts m) = Inr s" if "(m, s) \<in> set (reach_children ex n ds)" for m s
        using below Cons.prems(1) that by (force simp: reach_children_set)
    qed
    with Cons.IH [OF _ es2(2)] Cons.prems(1)
    have "visited root_dir (reach_children ex n ds) es2 (visit_children root_dir ex n ds es2)" by simp
    with Inr es2 d show ?thesis by (auto simp: visited_def all_ok_def split: sum.splits)
  qed
qed

lemma visit_correct:
  assumes wf: "wf_tree root_dir"
  shows "lookup root_dir (path_parts n) = Inr t \<Longrightarrow> archive_path_ok n \<Longrightarrow> entries_ok root_dir es \<Longrightarrow>
    settled ex es (reach ex n t) \<Longrightarrow> visited root_dir (reach ex n t) es (visit root_dir ex n t es)"
proof (induction t arbitrary: n es rule: tree_induct)
  case (node t)
  note link = through_link_iff [OF node.prems(1,2)]
  have new_ok: "n \<notin> fst ` set es \<Longrightarrow> tree_ok t \<Longrightarrow> entries_ok root_dir (es @ [(n, t)])"
    using entries_ok_snoc [OF node.prems(3) _ node.prems(1,2)] .
  show ?case
  proof (cases "excluded ex n")
    case True
    with node.prems show ?thesis by (simp add: visit.simps [of root_dir] reach.simps [of ex n t] visited_def all_ok_def)
  next
    case False
    then have there: "n \<in> fst ` set es \<Longrightarrow> set (reach ex n t) \<subseteq> set es"
      using node.prems(4) by (auto simp: settled_iff reach.simps [of ex n t])
    show ?thesis
    proof (cases t)
      case (Directory cs)
      have wf_t: "wf_tree (Directory cs)" using lookup_wf [OF wf node.prems(1)] Directory by simp
      have reach_t: "reach ex n t = (n, t) # reach_children ex n cs" using False Directory by (simp add: reach.simps [of ex n "Directory cs"])
      then have below: "lookup root_dir (path_parts m) = Inr s" if "(m, s) \<in> set (reach_children ex n cs)" for m s
        using reach_lookup [OF wf node.prems(1,2), of m s ex] that by simp
      show ?thesis
      proof (cases "n \<in> fst ` set es")
        case True
        with False Directory link node.prems there show ?thesis
          by (simp add: visit.simps [of root_dir] visited_def is_link_def entries_all_ok sup.absorb1)
      next
        case new: False
        have neq: "m \<noteq> n" if "(m, s) \<in> set (reach_children ex n cs)" for m s
        proof
          assume "m = n"
          with below [OF that] node.prems(1) Directory have "s = Directory cs" by simp
          moreover from that obtain c u where cu: "(c, u) \<in> set cs" "(m, s) \<in> set (reach ex (n @ ''/'' @ c) u)"
            by (auto simp: reach_children_set)
          ultimately show False using reach_self [OF cu(2)] child_size [OF cu(1)] by simp
        qed
        have "settled ex es (reach_children ex n cs)" using node.prems(4) reach_t by (simp add: settled_iff)
        with neq have settled: "settled ex (es @ [(n, t)]) (reach_children ex n cs)" by (rule settled_snoc)
        have "visited root_dir (reach ex (n @ ''/'' @ c) u) es1 (visit root_dir ex (n @ ''/'' @ c) u es1)"
          if cu: "(c, u) \<in> set cs" and es1: "entries_ok root_dir es1" "settled ex es1 (reach ex (n @ ''/'' @ c) u)" for c u es1
        proof -
          have "good_name c" using wf_t cu by auto
          note ok = child_path_ok [OF node.prems(2) this]
          have "lookup root_dir (path_parts (n @ ''/'' @ c)) = Inr u"
            unfolding ok(2) using lookup_child [OF _ wf_t cu] node.prems(1) Directory by simp
          from node.IH [OF Directory cu this ok(1) es1] show ?thesis .
        qed
        from visit_children_correct [OF below this, where ds = cs and es = "es @ [(n, t)]"] new_ok [OF new] settled Directory
        have "visited root_dir (reach_children ex n cs) (es @ [(n, t)]) (visit_children root_dir ex n cs (es @ [(n, t)]))" by simp
        with False Directory link node.prems(2) new reach_t show ?thesis
          by (auto simp: visit.simps [of root_dir ex n] visited_def is_link_def all_ok_def split: sum.splits)
      qed
    next
      case (Regular m d)
      then have "reach ex n t = [(n, t)]" using False by (simp add: reach.simps [of ex n "Regular m d"])
      with False link node.prems there new_ok Regular show ?thesis
        by (auto simp: visit.simps [of root_dir ex n] visited_def is_link_def all_ok_def)
    next
      case (Symlink l)
      then have "reach ex n t = [(n, t)]" using False by (simp add: reach.simps [of ex n "Symlink l"])
      with False link node.prems Symlink show ?thesis
        by (simp add: visit.simps [of root_dir ex n] visited_def is_link_def all_ok_def)
    next
      case Special
      then have "reach ex n t = [(n, t)]" using False by (simp add: reach.simps [of ex n Special])
      with False link node.prems Special show ?thesis
        by (simp add: visit.simps [of root_dir ex n] visited_def is_link_def all_ok_def)
    qed
  qed
qed

subsection \<open>All paths\<close>

definition path_entries :: "tree \<Rightarrow> string list \<Rightarrow> string \<Rightarrow> entries" where
  "path_entries root_dir ex p =
     (case lookup root_dir (path_parts (path_str p)) of Inr t \<Rightarrow> reach ex (path_str p) t | Inl e \<Rightarrow> [])"

definition path_fine :: "tree \<Rightarrow> string list \<Rightarrow> string \<Rightarrow> bool" where
  "path_fine root_dir ex p \<longleftrightarrow> archive_path_ok (path_str p) \<and>
     (excluded ex (path_str p) \<or> (\<exists>t. lookup root_dir (path_parts (path_str p)) = Inr t) \<and> all_ok (path_entries root_dir ex p))"

lemma visit_path_correct:
  assumes "wf_tree root_dir" "entries_ok root_dir es" "settled ex es es"
  shows "case visit_path root_dir ex es p of
      Inl e \<Rightarrow> \<not> path_fine root_dir ex p
    | Inr es' \<Rightarrow> path_fine root_dir ex p \<and> entries_ok root_dir es' \<and> settled ex es' es' \<and>
        set es' = set es \<union> set (path_entries root_dir ex p)"
proof (cases "lookup root_dir (path_parts (path_str p))")
  case (Inl e)
  with assms show ?thesis
    by (auto simp: visit_path_def Let_def path_fine_def path_entries_def)
next
  case (Inr t)
  let ?n = "path_str p"
  have entries: "path_entries root_dir ex p = reach ex ?n t" using Inr by (simp add: path_entries_def)
  show ?thesis
  proof (cases "archive_path_ok ?n")
    case False
    with Inr show ?thesis by (simp add: visit_path_def Let_def path_fine_def visit.simps [of root_dir ex ?n])
  next
    case ok: True
    have "settled ex es (reach ex ?n t)"
      unfolding settled_iff
    proof (intro allI impI)
      fix m s assume ms: "(m, s) \<in> set (reach ex ?n t)" "m \<in> fst ` set es"
      with reach_lookup [OF assms(1) Inr ok ms(1)] entries_ok_unique [OF assms(2)] have "(m, s) \<in> set es" by blast
      with ms(2) assms(3) show "set (reach ex m s) \<subseteq> set es" by (auto simp: settled_iff)
    qed
    from visit_correct [OF assms(1) Inr ok assms(2) this]
    have v: "visited root_dir (reach ex ?n t) es (visit root_dir ex ?n t es)" .
    have closed: "settled ex es' es'" if es': "set es' = set es \<union> set (reach ex ?n t)" for es'
      unfolding settled_iff
    proof (intro allI impI)
      fix m s assume "(m, s) \<in> set es'" "m \<in> fst ` set es'"
      then consider "(m, s) \<in> set es" | "(m, s) \<in> set (reach ex ?n t)" using es' by blast
      then show "set (reach ex m s) \<subseteq> set es'"
      proof cases
        case 1
        then have "m \<in> fst ` set es" by force
        with 1 assms(3) es' show ?thesis by (auto simp: settled_iff)
      next
        case 2
        with reach_self [OF 2] es' show ?thesis by blast
      qed
    qed
    have excl: "excluded ex ?n \<Longrightarrow> all_ok (reach ex ?n t)" by (simp add: reach.simps [of ex ?n t] all_ok_def)
    from v closed excl Inr ok show ?thesis
      unfolding visited_def path_fine_def entries by (auto simp: visit_path_def Let_def split: sum.splits)
  qed
qed

lemma collect_correct:
  assumes wf: "wf_tree root_dir"
  shows "entries_ok root_dir es \<Longrightarrow> settled ex es es \<Longrightarrow>
    (case foldE (visit_path root_dir ex) es ps of
       Inl e \<Rightarrow> \<not> list_all (path_fine root_dir ex) ps
     | Inr es' \<Rightarrow> list_all (path_fine root_dir ex) ps \<and> entries_ok root_dir es' \<and>
         set es' = set es \<union> (\<Union>p\<in>set ps. set (path_entries root_dir ex p)))"
proof (induction ps arbitrary: es)
  case (Cons p ps)
  note v = visit_path_correct [OF wf Cons.prems, of p]
  show ?case
  proof (cases "visit_path root_dir ex es p")
    case (Inr es')
    with v have es': "path_fine root_dir ex p" "entries_ok root_dir es'" "settled ex es' es'"
        "set es' = set es \<union> set (path_entries root_dir ex p)" by auto
    from Cons.IH [OF es'(2,3)] Inr es'(1,4) show ?thesis by (auto simp: Un_assoc split: sum.splits)
  qed (use v in simp)
qed simp

subsection \<open>What of a tree the archive depends on\<close>

text \<open>The kind, the executable bits and the content of a node.\<close>

fun shape :: "tree \<Rightarrow> tree" where
  "shape (Directory cs) = Directory []"
| "shape (Regular m d) = Regular (if and m 0x49 \<noteq> 0 then 0x1ED else 0x1A4) d"
| "shape t = t"

text \<open>A tree with its entries sorted and its other mode bits forgotten.\<close>

primrec canon :: "tree \<Rightarrow> tree" where
  "canon (Directory cs) = Directory (sort_key fst (map (map_prod id canon) cs))"
| "canon (Regular m d) = Regular (if and m 0x49 \<noteq> 0 then 0x1ED else 0x1A4) d"
| "canon (Symlink l) = Symlink l"
| "canon Special = Special"

lemma shape_canon: "shape (canon t) = shape t"
  by (cases t) simp_all

lemma tree_ok_shape: "tree_ok (shape t) = tree_ok t"
  by (cases t) simp_all

lemma distinct_sort_key: "distinct (map f (sort_key f xs)) \<longleftrightarrow> distinct (map f xs)"
  by (rule mset_eq_imp_distinct_iff) simp

lemma wf_canon: "wf_tree t \<Longrightarrow> wf_tree (canon t)"
proof (induction t rule: tree_induct)
  case (node t)
  show ?case
  proof (cases t)
    case (Directory cs)
    have "distinct (map fst (map (map_prod id canon) cs))" using node.prems Directory by simp
    then have "distinct (map fst (sort_key fst (map (map_prod id canon) cs)))" by (simp only: distinct_sort_key)
    with node Directory show ?thesis by auto
  qed simp_all
qed

lemma lookup_canon: "wf_tree t \<Longrightarrow> lookup (canon t) p = map_sum id canon (lookup t p)"
proof (induction t p rule: lookup.induct)
  case (2 cs c p)
  let ?xs = "map (map_prod id canon) cs"
  have "distinct (map fst ?xs)" using 2(2) by simp
  then have "map_of (sort_key fst ?xs) = map_of ?xs"
    by (subst map_of_inject_set) (simp_all only: distinct_sort_key set_sort)
  moreover have "map_of ?xs c = map_option canon (map_of cs c)" by (induction cs) auto
  ultimately show ?case using 2 by (auto split: option.split dest!: map_of_SomeD)
qed simp_all

lemma reach_canon: "apsnd shape ` set (reach ex n (canon t)) = apsnd shape ` set (reach ex n t)"
proof (induction t arbitrary: n rule: tree_induct)
  case (node t)
  show ?case
  proof (cases t)
    case (Directory cs)
    have "apsnd shape ` (\<Union>(c, u)\<in>map_prod id canon ` set cs. set (reach ex (n @ ''/'' @ c) u)) =
        (\<Union>(c, u)\<in>set cs. apsnd shape ` set (reach ex (n @ ''/'' @ c) (canon u)))"
      by (auto simp: split_beta image_UN)
    also have "\<dots> = (\<Union>(c, u)\<in>set cs. apsnd shape ` set (reach ex (n @ ''/'' @ c) u))"
    proof (rule SUP_cong [OF refl])
      fix x assume "x \<in> set cs"
      with node [OF Directory, of "fst x" "snd x"]
      show "(case x of (c, u) \<Rightarrow> apsnd shape ` set (reach ex (n @ ''/'' @ c) (canon u))) =
          (case x of (c, u) \<Rightarrow> apsnd shape ` set (reach ex (n @ ''/'' @ c) u))" by (cases x) simp
    qed
    also have "\<dots> = apsnd shape ` (\<Union>(c, u)\<in>set cs. set (reach ex (n @ ''/'' @ c) u))"
      by (auto simp: split_beta image_UN)
    finally show ?thesis
      unfolding Directory canon.simps set_reach [of ex n "Directory cs"] set_reach [of ex n "Directory (sort_key _ _)"] tree.case set_sort set_map
      by simp
  qed (simp_all add: set_reach [of ex n])
qed

subsection \<open>The archive of the entries\<close>

text \<open>An entry of the archive, for a node that is a directory or a file.\<close>

definition tar_of :: "int \<Rightarrow> string \<times> tree \<Rightarrow> tar_entry" where
  "tar_of epoch e = \<lparr>t_name = fst e, t_is_dir = (case snd e of Directory _ \<Rightarrow> True | _ \<Rightarrow> False),
     t_mode = (case snd e of Regular m d \<Rightarrow> if and m 0x49 \<noteq> 0 then 0x1ED else 0x1A4 | _ \<Rightarrow> 0x1ED),
     t_size = (case snd e of Regular m d \<Rightarrow> length d | _ \<Rightarrow> 0), t_data = (case snd e of Regular m d \<Rightarrow> d | _ \<Rightarrow> []),
     t_mtime = epoch, t_uid = 0, t_gid = 0, t_uname = [], t_gname = []\<rparr>"

lemma tar_info_ok: "tree_ok (snd e) \<Longrightarrow> tar_info epoch e = Inr (tar_of epoch e)"
  by (cases e; cases "snd e") (auto simp: tar_info_def tar_of_def Let_def)

lemma tar_of_shape: "tar_of epoch (apsnd shape e) = tar_of epoch e"
  by (cases e; cases "snd e") (auto simp: tar_of_def)

lemma sort_key_distinct_unique:
  fixes xs ys :: "('a::linorder \<times> 'b) list"
  assumes "distinct (map fst xs)" "distinct (map fst ys)" "set xs = set ys"
  shows "sort_key fst xs = sort_key fst ys"
proof (rule sort_key_inj_key_eq)
  show "mset xs = mset (sort_key fst ys)"
    using assms by (simp add: set_eq_iff_mset_eq_distinct [symmetric] distinct_map)
  show "inj_on fst (set xs)" using assms(1) by (simp add: distinct_map)
qed simp

definition archive_of :: "int \<Rightarrow> entries \<Rightarrow> archive" where
  "archive_of epoch es = \<lparr>gz_filename = [], gz_mtime = epoch, gz_compresslevel = 9,
     tar_entries = map (tar_of epoch) (sort_key fst es)\<rparr>"

lemma archive_of_shapes:
  assumes "distinct (map fst es)" "distinct (map fst es')" "apsnd shape ` set es = apsnd shape ` set es'"
  shows "archive_of epoch es = archive_of epoch es'"
proof -
  have shapes: "map (tar_of epoch) (sort_key fst xs) = map (tar_of epoch) (sort_key fst (map (apsnd shape) xs))"
    if "distinct (map fst xs)" for xs
  proof -
    have "sort_key fst (map (apsnd shape) xs) = map (apsnd shape) (sort_key fst xs)"
    proof (rule sort_key_inj_key_eq)
      show "inj_on fst (set (map (apsnd shape) xs))" using that by (simp add: distinct_map comp_inj_on_iff [symmetric] inj_on_def) force
    qed (simp_all add: comp_def)
    then show ?thesis by (simp add: tar_of_shape comp_def)
  qed
  have "sort_key fst (map (apsnd shape) es) = sort_key fst (map (apsnd shape) es')"
    by (rule sort_key_distinct_unique) (use assms in simp_all)
  with shapes assms(1,2) show ?thesis by (simp add: archive_of_def)
qed

lemma collect_entries:
  assumes "wf_tree root_dir" "list_all (path_fine root_dir ex) ps"
  shows "\<exists>es. entries_ok root_dir es \<and> set es = (\<Union>p\<in>set ps. set (path_entries root_dir ex p))"
proof -
  have "entries_ok root_dir []" "settled ex [] []" by (simp_all add: entries_ok_def settled_def)
  note c = collect_correct [OF assms(1) this, of ps]
  show ?thesis
  proof (cases "foldE (visit_path root_dir ex) [] ps")
    case (Inr es)
    with c show ?thesis by (intro exI [of _ es]) simp
  qed (use c assms(2) in simp)
qed

lemma reach_not_excluded: "(n, s) \<in> set (reach ex m t) \<Longrightarrow> \<not> excluded ex n"
proof (induction t arbitrary: m rule: tree_induct)
  case (node t)
  from node.prems consider "n = m" "\<not> excluded ex m" | cs c u where "t = Directory cs" "(c, u) \<in> set cs"
      "(n, s) \<in> set (reach ex (m @ ''/'' @ c) u)"
    by (subst (asm) set_reach) (auto split: if_splits tree.splits)
  then show ?case
    by cases (use node.IH in blast)+
qed

lemma build_archive_correct:
  assumes wf: "wf_tree root_dir"
  shows "build_archive root_dir ps ex epoch = Inr a \<longleftrightarrow>
    0 \<le> epoch \<and> epoch \<le> 0xFFFFFFFF \<and> list_all (path_fine root_dir ex) ps \<and>
    (\<exists>es. entries_ok root_dir es \<and> set es = (\<Union>p\<in>set ps. set (path_entries root_dir ex p)) \<and> a = archive_of epoch es)"
proof -
  have "entries_ok root_dir []" "settled ex [] []" by (simp_all add: entries_ok_def settled_def)
  note c = collect_correct [OF wf this, of ps]
  have tars: "mapE (tar_info epoch) (sort_key fst es) = Inr (map (tar_of epoch) (sort_key fst es))" if "entries_ok root_dir es" for es
    using that by (auto simp: mapE_Inr list_all2_map2 list.rel_refl_strong entries_ok_def intro!: list_all2_same [THEN iffD2] tar_info_ok)
  show ?thesis
  proof (cases "foldE (visit_path root_dir ex) [] ps")
    case (Inl e)
    with c show ?thesis by (simp add: build_archive_def)
  next
    case (Inr es)
    with c have es: "list_all (path_fine root_dir ex) ps" "entries_ok root_dir es"
        "set es = (\<Union>p\<in>set ps. set (path_entries root_dir ex p))" by auto
    have "archive_of epoch es' = archive_of epoch es" if "entries_ok root_dir es'" "set es' = set es" for es'
      using that es(2) by (intro archive_of_shapes) (auto simp: entries_ok_def)
    then have "a = archive_of epoch es \<longleftrightarrow> (\<exists>es'. entries_ok root_dir es' \<and>
        set es' = (\<Union>p\<in>set ps. set (path_entries root_dir ex p)) \<and> a = archive_of epoch es')"
      using es(2,3) by metis
    moreover have "build_archive root_dir ps ex epoch = Inr a \<longleftrightarrow> 0 \<le> epoch \<and> epoch \<le> 0xFFFFFFFF \<and> a = archive_of epoch es"
      using Inr tars [OF es(2)] by (auto simp: build_archive_def archive_of_def)
    ultimately show ?thesis using es(1) by simp
  qed
qed

subsection \<open>Reproducible archives\<close>

lemma all_ok_shapes: "all_ok rs \<longleftrightarrow> (\<forall>(m, s)\<in>apsnd shape ` set rs. tree_ok s)"
  by (auto simp: all_ok_def list_all_iff tree_ok_shape)

lemma reach_excluded:
  assumes "excluded ex = excluded ex'"
  shows "set (reach ex n t) = set (reach ex' n t)"
proof (induction t arbitrary: n rule: tree_induct)
  case (node t)
  show ?case
  proof (cases t)
    case (Directory cs)
    have "(\<Union>(c, u)\<in>set cs. set (reach ex (n @ ''/'' @ c) u)) = (\<Union>(c, u)\<in>set cs. set (reach ex' (n @ ''/'' @ c) u))"
      using node [OF Directory] by (intro SUP_cong refl) (auto simp del: append_Cons)
    then show ?thesis
      unfolding Directory set_reach [of ex n "Directory cs"] set_reach [of ex' n "Directory cs"] assms by simp
  qed (simp_all add: set_reach [of ex n] set_reach [of ex' n] assms)
qed

lemma path_canon:
  assumes "wf_tree root_dir"
  shows "path_fine (canon root_dir) ex p \<longleftrightarrow> path_fine root_dir ex p"
    "apsnd shape ` set (path_entries (canon root_dir) ex p) = apsnd shape ` set (path_entries root_dir ex p)"
proof -
  show entries: "apsnd shape ` set (path_entries (canon root_dir) ex p) = apsnd shape ` set (path_entries root_dir ex p)"
    using lookup_canon [OF assms, of "path_parts (path_str p)"]
    by (cases "lookup root_dir (path_parts (path_str p))") (simp_all add: path_entries_def reach_canon)
  have "(\<exists>t. lookup (canon root_dir) q = Inr t) \<longleftrightarrow> (\<exists>t. lookup root_dir q = Inr t)" for q
    using lookup_canon [OF assms, of q] by (cases "lookup root_dir q") auto
  then show "path_fine (canon root_dir) ex p \<longleftrightarrow> path_fine root_dir ex p"
    by (simp add: path_fine_def all_ok_shapes entries)
qed

lemma path_excluded:
  assumes "excluded ex = excluded ex'"
  shows "path_fine root_dir ex p \<longleftrightarrow> path_fine root_dir ex' p"
    "set (path_entries root_dir ex p) = set (path_entries root_dir ex' p)"
proof -
  show entries: "set (path_entries root_dir ex p) = set (path_entries root_dir ex' p)"
    using reach_excluded [OF assms] by (simp add: path_entries_def split: sum.split)
  show "path_fine root_dir ex p \<longleftrightarrow> path_fine root_dir ex' p"
    by (simp add: path_fine_def all_ok_shapes entries assms)
qed

text \<open>C9: archives are reproducible. Two source trees that agree up to the order in which directories list
their entries and up to mode bits other than the executable ones give the same archive, whatever the order
and repetition of the paths and exclude patterns on the command line.\<close>

theorem archive_reproducible:
  assumes "wf_tree r" "wf_tree r'" "canon r = canon r'" "set ps = set ps'" "set ex = set ex'"
    and "build_archive r ps ex epoch = Inr a"
  shows "build_archive r' ps' ex' epoch = Inr a"
proof -
  have ex: "excluded ex = excluded ex'" using assms(5) by (auto simp: excluded_def list_ex_iff fun_eq_iff)
  have fine: "path_fine r ex p \<longleftrightarrow> path_fine r' ex' p" for p
    using path_canon(1) [OF assms(1)] path_canon(1) [OF assms(2)] path_excluded(1) [OF ex] assms(3) by metis
  have entries: "apsnd shape ` set (path_entries r ex p) = apsnd shape ` set (path_entries r' ex' p)" for p
    using path_canon(2) [OF assms(1)] path_canon(2) [OF assms(2)] path_excluded(2) [OF ex] assms(3) by metis
  from assms(6) [unfolded build_archive_correct [OF assms(1)]] obtain es where es: "0 \<le> epoch" "epoch \<le> 0xFFFFFFFF"
      "list_all (path_fine r ex) ps" "entries_ok r es" "set es = (\<Union>p\<in>set ps. set (path_entries r ex p))"
      "a = archive_of epoch es" by blast
  have fine': "list_all (path_fine r' ex') ps'" using es(3) fine assms(4) by (simp add: list_all_iff)
  from collect_entries [OF assms(2) this] obtain es' where es': "entries_ok r' es'"
      "set es' = (\<Union>p\<in>set ps'. set (path_entries r' ex' p))" by blast
  have "apsnd shape ` set es = apsnd shape ` set es'"
    unfolding es(5) es'(2) image_UN entries assms(4) ..
  then have "archive_of epoch es = archive_of epoch es'"
    using es(4) es'(1) by (intro archive_of_shapes) (auto simp: entries_ok_def)
  with es(6) have "a = archive_of epoch es'" by simp
  with es(1,2) fine' es' show ?thesis unfolding build_archive_correct [OF assms(2)] by blast
qed

lemma tar_of_fields:
  assumes "tree_ok s"
  shows "t_name (tar_of epoch (n, s)) = n" "t_mtime (tar_of epoch (n, s)) = epoch" "t_uid (tar_of epoch (n, s)) = 0"
    "t_gid (tar_of epoch (n, s)) = 0" "t_uname (tar_of epoch (n, s)) = []" "t_gname (tar_of epoch (n, s)) = []"
    "t_mode (tar_of epoch (n, s)) \<in> {0x1ED, 0x1A4}" "t_size (tar_of epoch (n, s)) = length (t_data (tar_of epoch (n, s)))"
    "case s of Directory _ \<Rightarrow> t_is_dir (tar_of epoch (n, s)) \<and> t_data (tar_of epoch (n, s)) = []
     | Regular m d \<Rightarrow> \<not> t_is_dir (tar_of epoch (n, s)) \<and> t_data (tar_of epoch (n, s)) = d \<and>
         (t_mode (tar_of epoch (n, s)) = 0x1ED \<longleftrightarrow> and m 0x49 \<noteq> 0)
     | _ \<Rightarrow> False"
  using assms by (cases s; simp add: tar_of_def)+

text \<open>C10: every archive is well formed. Its entries are sorted by name without repetitions; each name is
relative, without parent steps, not excluded and leads in the source tree to the directory or file the entry
describes; owner and group are zero and unnamed, the time stamps are the given epoch, which fits in 32 bits, the
mode is 755 or 644, and the size is that of the content.\<close>

theorem archive_well_typed:
  assumes "wf_tree r" and "build_archive r ps ex epoch = Inr a"
  shows "gz_mtime a = epoch \<and> 0 \<le> epoch \<and> epoch < 2 ^ 32 \<and> sorted_wrt (<) (map t_name (tar_entries a)) \<and>
    (\<forall>e\<in>set (tar_entries a). archive_path_ok (t_name e) \<and> \<not> excluded ex (t_name e) \<and>
       t_mtime e = epoch \<and> t_uid e = 0 \<and> t_gid e = 0 \<and> t_uname e = [] \<and> t_gname e = [] \<and>
       t_mode e \<in> {0x1ED, 0x1A4} \<and> t_size e = length (t_data e) \<and>
       (\<exists>node. lookup r (path_parts (t_name e)) = Inr node \<and>
          (case node of Directory _ \<Rightarrow> t_is_dir e \<and> t_data e = []
           | Regular m d \<Rightarrow> \<not> t_is_dir e \<and> t_data e = d \<and> (t_mode e = 0x1ED \<longleftrightarrow> and m 0x49 \<noteq> 0)
           | _ \<Rightarrow> False)))"
proof -
  from assms(2) [unfolded build_archive_correct [OF assms(1)]] obtain es where es: "0 \<le> epoch" "epoch \<le> 0xFFFFFFFF"
      "entries_ok r es" "set es = (\<Union>p\<in>set ps. set (path_entries r ex p))" "a = archive_of epoch es" by blast
  have "map t_name (tar_entries a) = map fst (sort_key fst es)"
    by (simp add: es(5) archive_of_def tar_of_def)
  moreover have "distinct (map fst (sort_key fst es))" using es(3) by (simp only: distinct_sort_key entries_ok_def)
  ultimately have "sorted_wrt (<) (map t_name (tar_entries a))" by (simp add: strict_sorted_iff)
  moreover have entry: "archive_path_ok n \<and> \<not> excluded ex n \<and> tree_ok s \<and> lookup r (path_parts n) = Inr s" if "(n, s) \<in> set es" for n s
  proof -
    from that es(4) obtain p where "(n, s) \<in> set (path_entries r ex p)" by auto
    then have "\<not> excluded ex n" using reach_not_excluded by (auto simp: path_entries_def split: sum.splits)
    with that es(3) show ?thesis by (auto simp: entries_ok_def)
  qed
  moreover have epoch: "gz_mtime a = epoch" by (simp add: es(5) archive_of_def)
  moreover have "archive_path_ok (t_name e) \<and> \<not> excluded ex (t_name e) \<and>
       t_mtime e = epoch \<and> t_uid e = 0 \<and> t_gid e = 0 \<and> t_uname e = [] \<and> t_gname e = [] \<and>
       t_mode e \<in> {0x1ED, 0x1A4} \<and> t_size e = length (t_data e) \<and>
       (\<exists>node. lookup r (path_parts (t_name e)) = Inr node \<and>
          (case node of Directory _ \<Rightarrow> t_is_dir e \<and> t_data e = []
           | Regular m d \<Rightarrow> \<not> t_is_dir e \<and> t_data e = d \<and> (t_mode e = 0x1ED \<longleftrightarrow> and m 0x49 \<noteq> 0)
           | _ \<Rightarrow> False))" if "e \<in> set (tar_entries a)" for e
  proof -
    from that obtain n s where ns: "(n, s) \<in> set es" "e = tar_of epoch (n, s)" by (auto simp: es(5) archive_of_def)
    from entry [OF ns(1)] tar_of_fields [of s epoch n] epoch show ?thesis unfolding ns(2) by simp
  qed
  ultimately show ?thesis using es(1,2) epoch by simp
qed

text \<open>A source tree, and the same with another order and other mode bits.\<close>

definition ex_tree :: tree where
  "ex_tree = Directory [(''b'', Regular 0x1FF ''x''), (''a'', Directory [(''c.py'', Regular 0x180 ''y''), (''d.log'', Special)])]"

definition ex_tree2 :: tree where
  "ex_tree2 = Directory [(''a'', Directory [(''d.log'', Special), (''c.py'', Regular 0x1A4 ''y'')]), (''b'', Regular 0x1C0 ''x'')]"

lemma ex_trees: "wf_tree ex_tree" "wf_tree ex_tree2" "canon ex_tree = canon ex_tree2"
  by (simp_all add: ex_tree_def ex_tree2_def good_name_def)

lemma ex_archive:
  obtains a where "build_archive ex_tree [''a'', ''b''] [''*.log''] 7 = Inr a" "map t_name (tar_entries a) = [''a'', ''a/c.py'', ''b'']"
proof -
  have "case build_archive ex_tree [''a'', ''b''] [''*.log''] 7 of
      Inr a \<Rightarrow> map t_name (tar_entries a) = [''a'', ''a/c.py'', ''b''] | Inl e \<Rightarrow> False" by code_simp
  with that show thesis by (cases "build_archive ex_tree [''a'', ''b''] [''*.log''] 7") auto
qed

theorem archive_reproducible_witness:
  "\<exists>a. build_archive ex_tree [''a'', ''b''] [''*.log''] 7 = Inr a \<and>
     build_archive ex_tree2 [''b'', ''a'', ''b''] [''*.log''] 7 = Inr a"
proof -
  obtain a where "build_archive ex_tree [''a'', ''b''] [''*.log''] 7 = Inr a" by (rule ex_archive)
  moreover from archive_reproducible [OF ex_trees _ _ this, of "[''b'', ''a'', ''b'']" "[''*.log'']"]
  have "build_archive ex_tree2 [''b'', ''a'', ''b''] [''*.log''] 7 = Inr a" by (simp add: insert_commute)
  ultimately show ?thesis by blast
qed

theorem archive_well_typed_witness:
  "\<exists>a. build_archive ex_tree [''a'', ''b''] [''*.log''] 7 = Inr a \<and> sorted_wrt (<) (map t_name (tar_entries a))"
proof -
  obtain a where "build_archive ex_tree [''a'', ''b''] [''*.log''] 7 = Inr a" by (rule ex_archive)
  with archive_well_typed [OF ex_trees(1) this] show ?thesis by blast
qed

end
