(* ===== verification/EvidenceHash.thy ===== *)
theory EvidenceHash
  imports PyEnv Checks
begin

text \<open>
  \<open>tools/ci/compute_evidence_sha.py\<close>: one digest over a set of evidence files. Texts are given by
  their UTF-8 bytes, whose order is the order of the code points. The digest function is a parameter,
  as are the files below the base directory (\<open>None\<close>: there is none).
\<close>

definition CHUNK :: nat where "CHUNK = 1024 * 1024"

text \<open>\<open>sha256_file\<close> reads chunk by chunk; an object of \<open>hashlib\<close> is the bytes it was given so far.\<close>

function read_chunks :: "nat \<Rightarrow> string \<Rightarrow> string \<Rightarrow> string" where
  "read_chunks n h bytes =
     (if n = 0 \<or> bytes = [] then h else read_chunks n (h @ take n bytes) (drop n bytes))"
  by pat_completeness auto
termination
  by (relation "measure (\<lambda>(n, h, bytes). length bytes)") auto

declare read_chunks.simps [simp del]

definition sha256_of_chunks :: "(string \<Rightarrow> string) \<Rightarrow> string \<Rightarrow> string" where
  "sha256_of_chunks sha bytes = sha (read_chunks CHUNK [] bytes)"

definition evidence_part :: "string \<Rightarrow> string \<Rightarrow> string" where
  "evidence_part rel bytes = rel @ [newline] @ bytes @ [newline] @ ''--'' @ [newline]"

text \<open>\<open>sorted(dict.fromkeys(files))\<close>.\<close>

definition ordered_files :: "string list \<Rightarrow> string list" where
  "ordered_files fs = py_sorted (rev (remdups (rev fs)))"

definition hash_file ::
  "(string \<Rightarrow> string) \<Rightarrow> (string \<Rightarrow> string option) \<Rightarrow> string \<Rightarrow> (string \<times> string) list \<times> string \<Rightarrow> string \<Rightarrow> ((string \<times> string) list \<times> string) res" where
  "hash_file sha file_at base_dir = (\<lambda>(hashes, blob) rel.
     let p = (if path_is_absolute rel then rel else path_join base_dir rel) in
     case file_at p of
       None \<Rightarrow> stop (''Missing evidence file for hashing: '' @ p)
     | Some bytes \<Rightarrow> Inr (hashes @ [(rel, sha256_of_chunks sha bytes)], blob @ evidence_part rel bytes))"

text \<open>The digest over all files and the digest of each file, in the order of the names.\<close>

definition evidence_hashes ::
  "(string \<Rightarrow> string) \<Rightarrow> (string \<Rightarrow> string option) \<Rightarrow> string \<Rightarrow> string list \<Rightarrow> (string \<times> (string \<times> string) list) res" where
  "evidence_hashes sha file_at base_dir fs =
     bindE (foldE (hash_file sha file_at base_dir) ([], []) (ordered_files fs)) (\<lambda>(hashes, blob). Inr (sha blob, hashes))"

record evidence_args =
  ev_base_dir :: string
  ev_out :: string
  ev_files :: "string list"

text \<open>The command line: the path and the text it writes, and what it prints.\<close>

definition evidence_hash_main ::
  "(string \<Rightarrow> string) \<Rightarrow> (string \<Rightarrow> string option) \<Rightarrow> evidence_args \<Rightarrow> ((string \<times> string) \<times> string) res" where
  "evidence_hash_main sha file_at args =
     bindE (evidence_hashes sha file_at (ev_base_dir args) (ev_files args)) (\<lambda>(h, hashes).
       let lines = (''evidence_sha256 '' @ h) # map (\<lambda>(rel, d). d @ '' '' @ rel) hashes
       in Inr ((ev_out args, str_join [newline] lines @ [newline]), ''Evidence hash: OK''))"

subsection \<open>Reading in chunks\<close>

lemma read_chunks_all: "0 < n \<Longrightarrow> read_chunks n h bytes = h @ bytes"
proof (induction n h bytes rule: read_chunks.induct)
  case (1 n h bytes)
  then show ?case by (cases "bytes = []") (simp_all add: read_chunks.simps [of n h])
qed

lemma sha256_of_chunks_whole: "sha256_of_chunks sha bytes = sha bytes"
  by (simp add: sha256_of_chunks_def read_chunks_all CHUNK_def)

subsection \<open>The hashed bytes\<close>

definition evidence_path :: "string \<Rightarrow> string \<Rightarrow> string" where
  "evidence_path base_dir rel = (if path_is_absolute rel then rel else path_join base_dir rel)"

definition evidence_blob :: "(string \<Rightarrow> string) \<Rightarrow> string list \<Rightarrow> string" where
  "evidence_blob content rels = concat (map (\<lambda>rel. evidence_part rel (content rel)) rels)"

lemma hash_fold:
  "foldE (hash_file sha file_at base_dir) (hashes, blob) rels = Inr (hashes', blob') \<longleftrightarrow>
     (\<forall>rel\<in>set rels. file_at (evidence_path base_dir rel) \<noteq> None) \<and>
     hashes' = hashes @ map (\<lambda>rel. (rel, sha (the (file_at (evidence_path base_dir rel))))) rels \<and>
     blob' = blob @ evidence_blob (\<lambda>rel. the (file_at (evidence_path base_dir rel))) rels"
proof (induction rels arbitrary: hashes blob)
  case Nil
  then show ?case by (auto simp: evidence_blob_def)
next
  case (Cons rel rels)
  then show ?case
    by (cases "file_at (evidence_path base_dir rel)")
       (auto simp: hash_file_def Let_def evidence_path_def [symmetric] sha256_of_chunks_whole evidence_blob_def stop_def)
qed

lemma evidence_hashes_Inr:
  "evidence_hashes sha file_at base_dir fs = Inr (h, hashes) \<longleftrightarrow>
     (\<forall>rel\<in>set fs. file_at (evidence_path base_dir rel) \<noteq> None) \<and>
     h = sha (evidence_blob (\<lambda>rel. the (file_at (evidence_path base_dir rel))) (ordered_files fs)) \<and>
     hashes = map (\<lambda>rel. (rel, sha (the (file_at (evidence_path base_dir rel))))) (ordered_files fs)"
proof -
  have "set (ordered_files fs) = set fs" by (simp add: ordered_files_def py_sorted_def)
  then show ?thesis by (auto simp: evidence_hashes_def res_simps hash_fold)
qed

text \<open>The names are taken once each and in order.\<close>

lemma ordered_files_set: "set fs = set fs' \<Longrightarrow> ordered_files fs = ordered_files fs'"
  unfolding ordered_files_def py_sorted_def
  by (rule sorted_distinct_set_unique) (simp_all add: distinct_rev)

lemma str_partition_sep:
  assumes "\<not> sublist sep (c @ butlast sep)" "sep \<noteq> []"
  shows "str_partition sep (c @ sep @ r) = Some (c, r)"
  using assms
proof (induction c)
  case Nil
  then show ?case by (cases sep) simp_all
next
  case (Cons x c)
  have "\<not> prefix sep (x # c @ sep @ r)"
  proof
    assume "prefix sep (x # c @ sep @ r)"
    then have "take (length sep) (x # c @ sep @ r) = sep" by (auto simp: prefix_def)
    moreover have "take (length sep) (x # c @ sep @ r) = take (length sep) (x # c @ butlast sep)"
      using Cons.prems(2) by (cases sep rule: rev_cases) simp_all
    ultimately have "prefix sep (x # c @ butlast sep)" by (metis take_is_prefix)
    then show False using Cons.prems(1) prefix_imp_sublist by fastforce
  qed
  moreover have "\<not> sublist sep (c @ butlast sep)"
    using Cons.prems(1) by (auto simp: sublist_Cons_right)
  ultimately show ?case using Cons by simp
qed

text \<open>A content with no line that ends a file: \<open>--\<close> on a line of its own after the first.\<close>

definition no_end_line :: "string \<Rightarrow> bool" where
  "no_end_line c = (\<not> sublist ([newline] @ ''--'' @ [newline]) (c @ [newline] @ ''--''))"

lemma evidence_blob_inj:
  assumes "\<forall>rel\<in>set rels. no_end_line (f rel) \<and> no_end_line (g rel)"
    and "evidence_blob f rels = evidence_blob g rels"
  shows "\<forall>rel\<in>set rels. f rel = g rel"
  using assms
proof (induction rels)
  case (Cons rel rels)
  let ?sep = "[newline] @ ''--'' @ [newline]"
  have part: "str_partition ?sep (c @ ?sep @ r) = Some (c, r)" if "no_end_line c" for c r
    by (rule str_partition_sep) (use that in \<open>simp_all add: no_end_line_def\<close>)
  have "f rel @ ?sep @ evidence_blob f rels = g rel @ ?sep @ evidence_blob g rels"
    using Cons.prems(2) by (simp add: evidence_blob_def evidence_part_def)
  with part [of "f rel"] part [of "g rel"] Cons.prems(1)
  have "f rel = g rel \<and> evidence_blob f rels = evidence_blob g rels"
    by (metis list.set_intros(1) option.inject prod.inject)
  with Cons show ?case by simp
qed simp

text \<open>Equal digests mean equal files.\<close>

lemma evidence_files_bound:
  assumes "evidence_hashes sha file_at1 base1 fs1 = Inr (h, hashes1)"
    and "evidence_hashes sha file_at2 base2 fs2 = Inr (h, hashes2)" and "set fs1 = set fs2"
    and "sha (evidence_blob (\<lambda>rel. the (file_at1 (evidence_path base1 rel))) (ordered_files fs1)) =
         sha (evidence_blob (\<lambda>rel. the (file_at2 (evidence_path base2 rel))) (ordered_files fs2)) \<Longrightarrow>
         evidence_blob (\<lambda>rel. the (file_at1 (evidence_path base1 rel))) (ordered_files fs1) =
         evidence_blob (\<lambda>rel. the (file_at2 (evidence_path base2 rel))) (ordered_files fs2)"
    and "\<And>rel. rel \<in> set fs1 \<Longrightarrow> no_end_line (the (file_at1 (evidence_path base1 rel))) \<and>
       no_end_line (the (file_at2 (evidence_path base2 rel)))"
  shows "(\<forall>rel\<in>set fs1. file_at1 (evidence_path base1 rel) = file_at2 (evidence_path base2 rel)) \<and> hashes1 = hashes2"
proof -
  note ord = ordered_files_set [OF assms(3)]
  have set_ord: "set (ordered_files fs2) = set fs1" using assms(3) by (simp add: ordered_files_def py_sorted_def)
  let ?f = "\<lambda>rel. the (file_at1 (evidence_path base1 rel))" and ?g = "\<lambda>rel. the (file_at2 (evidence_path base2 rel))"
  note e1 = assms(1) [unfolded evidence_hashes_Inr ord] and e2 = assms(2) [unfolded evidence_hashes_Inr]
  have "evidence_blob ?f (ordered_files fs2) = evidence_blob ?g (ordered_files fs2)"
    using e1 e2 assms(4) ord by simp
  from evidence_blob_inj [OF _ this] assms(5) set_ord
  have eq: "?f rel = ?g rel" if "rel \<in> set fs1" for rel using that by simp
  have "file_at1 (evidence_path base1 rel) = file_at2 (evidence_path base2 rel)" if rel: "rel \<in> set fs1" for rel
  proof -
    from e1 rel obtain a where "file_at1 (evidence_path base1 rel) = Some a" by auto
    moreover from e2 rel assms(3) obtain b where "file_at2 (evidence_path base2 rel) = Some b" by auto
    ultimately show ?thesis using eq [OF rel] by simp
  qed
  moreover have "hashes1 = hashes2" using e1 e2 eq set_ord by (simp cong: map_cong)
  ultimately show ?thesis by blast
qed

text \<open>C13: the evidence digest does not depend on the order or repetition of the files on the command line, and it
binds their contents: when the digest function has no collision on the two hashed texts and no file has a
line \<open>--\<close> of its own after its first line, two directories with the same digest hold the same files.\<close>

theorem evidence_digest_binds:
  assumes "evidence_hashes sha file_at1 base1 fs1 = Inr (h, hashes1)"
  shows "(\<forall>fs. set fs = set fs1 \<longrightarrow> evidence_hashes sha file_at1 base1 fs = Inr (h, hashes1)) \<and>
    (\<forall>file_at2 base2 fs2 hashes2.
       let files1 = \<lambda>rel. the (file_at1 (evidence_path base1 rel)); files2 = \<lambda>rel. the (file_at2 (evidence_path base2 rel));
           blob1 = evidence_blob files1 (ordered_files fs1); blob2 = evidence_blob files2 (ordered_files fs2) in
       evidence_hashes sha file_at2 base2 fs2 = Inr (h, hashes2) \<and> set fs1 = set fs2 \<and>
       (sha blob1 = sha blob2 \<longrightarrow> blob1 = blob2) \<and>
       (\<forall>rel\<in>set fs1. no_end_line (files1 rel) \<and> no_end_line (files2 rel)) \<longrightarrow>
       (\<forall>rel\<in>set fs1. file_at1 (evidence_path base1 rel) = file_at2 (evidence_path base2 rel)) \<and> hashes1 = hashes2)"
proof (intro conjI allI impI)
  fix fs assume "set fs = set fs1"
  then show "evidence_hashes sha file_at1 base1 fs = Inr (h, hashes1)"
    using assms by (simp add: evidence_hashes_def ordered_files_set [of fs fs1])
qed (use evidence_files_bound [OF assms] in \<open>simp add: Let_def, blast\<close>)

definition ev_fs1 :: "string \<Rightarrow> string option" where
  "ev_fs1 = map_of [(''d/a'', ''x''), (''d/b'', ''y'')]"

definition ev_fs2 :: "string \<Rightarrow> string option" where
  "ev_fs2 = map_of [(''e/a'', ''x''), (''e/b'', ''y'')]"

lemma ev_concrete: "ordered_files [''b'', ''a'', ''b''] = [''a'', ''b'']" "ordered_files [''a'', ''b''] = [''a'', ''b'']"
  "evidence_path d ''a'' = d @ ''/a''" "evidence_path d ''b'' = d @ ''/b''"
  by (code_simp, code_simp) (simp_all add: evidence_path_def path_is_absolute_def path_root_def starts_with_def path_join_def)

theorem evidence_digest_binds_witness:
  "\<exists>h hashes1 hashes2. evidence_hashes id ev_fs1 ''d'' [''b'', ''a'', ''b''] = Inr (h, hashes1) \<and>
     evidence_hashes id ev_fs1 ''d'' [''a'', ''b''] = Inr (h, hashes1) \<and>
     evidence_hashes id ev_fs2 ''e'' [''a'', ''b''] = Inr (h, hashes2) \<and> hashes1 = hashes2"
proof -
  obtain h hashes1 where 1: "evidence_hashes id ev_fs1 ''d'' [''b'', ''a'', ''b''] = Inr (h, hashes1)"
    by (simp add: evidence_hashes_Inr ev_concrete ev_fs1_def)
  have same: "evidence_blob (\<lambda>rel. the (ev_fs1 (evidence_path ''d'' rel))) [''a'', ''b''] =
      evidence_blob (\<lambda>rel. the (ev_fs2 (evidence_path ''e'' rel))) [''a'', ''b'']"
    by (simp add: evidence_blob_def ev_concrete ev_fs1_def ev_fs2_def)
  with 1 obtain hashes2 where 2: "evidence_hashes id ev_fs2 ''e'' [''a'', ''b''] = Inr (h, hashes2)"
    by (simp add: evidence_hashes_Inr ev_concrete ev_fs2_def)
  note binds = evidence_digest_binds [OF 1]
  have clean: "no_end_line ''x''" "no_end_line ''y''" by (simp_all add: no_end_line_def sublist_code)
  have "hashes1 = hashes2"
    using binds [THEN conjunct2, rule_format, of ev_fs2 "''e''" "[''a'', ''b'']" hashes2] 2 same clean
    by (simp add: Let_def ev_concrete ev_fs1_def ev_fs2_def insert_commute)
  moreover have "evidence_hashes id ev_fs1 ''d'' [''a'', ''b''] = Inr (h, hashes1)"
    using binds [THEN conjunct1, rule_format, of "[''a'', ''b'']"] by (simp add: insert_commute)
  ultimately show ?thesis using 1 2 by blast
qed

text \<open>
  Without the condition on the contents the digest is ambiguous: these two directories differ, and have
  the same digest whatever the digest function is.
\<close>

definition ambiguous1 :: "string \<Rightarrow> string option" where
  "ambiguous1 = map_of [(''d/a'', ''x''), (''d/b'', ''y'' @ [newline] @ ''--'' @ [newline] @ ''b'' @ [newline] @ ''z'')]"

definition ambiguous2 :: "string \<Rightarrow> string option" where
  "ambiguous2 = map_of [(''d/a'', ''x'' @ [newline] @ ''--'' @ [newline] @ ''b'' @ [newline] @ ''y''), (''d/b'', ''z'')]"

lemma evidence_digest_ambiguous:
  "\<exists>h hashes1 hashes2. evidence_hashes sha ambiguous1 ''d'' [''a'', ''b''] = Inr (h, hashes1) \<and>
     evidence_hashes sha ambiguous2 ''d'' [''a'', ''b''] = Inr (h, hashes2) \<and> ambiguous1 ''d/a'' \<noteq> ambiguous2 ''d/a''"
  by (simp add: evidence_hashes_Inr ev_concrete ambiguous1_def ambiguous2_def evidence_blob_def evidence_part_def)

end
