(* ===== verification/RunnerSuite.thy ===== *)
theory RunnerSuite
  imports PyHost AuditInvariants
begin

text \<open>
  \<open>tools/ci/run_runner_suite.py\<close>: runs every conformance vector through a runner command and writes a
  summary. Listing, reading and parsing files and running the command are a parameter.
\<close>

subsection \<open>The machine\<close>

record 'w suite_host =
  suite_listing :: "string \<Rightarrow> string list"
  suite_text :: "string \<Rightarrow> string option"
  suite_loads :: "string \<Rightarrow> json option"
  suite_exec :: "string list \<Rightarrow> int option \<Rightarrow> 'w \<Rightarrow> proc \<times> 'w"

text \<open>
  The output of a process that was stopped is bytes where there is any, also with \<open>text=True\<close>, and
  \<open>json.dumps\<close> refuses bytes.
\<close>

datatype captured = Text string | Bytes string

definition captured_part :: "string \<Rightarrow> captured" where
  "captured_part s = (if s = [] then Text [] else Bytes (str_strip s))"

record failure =
  f_vector_id :: string
  f_path :: string
  f_exit_code :: int
  f_timeout :: bool
  f_stdout :: captured
  f_stderr :: captured
  f_parsed :: json

record suite_state =
  s_total :: nat
  s_passed :: nat
  s_failed :: nat
  s_failures :: "failure list"

record suite_args =
  su_vectors_root :: string
  su_runner_cmd :: "string list"
  su_commit_sha :: string
  su_out :: string
  su_timeout_seconds :: int
  su_strict :: bool

subsection \<open>One vector\<close>

definition load_vector_id :: "'w suite_host \<Rightarrow> string \<Rightarrow> string res" where
  "load_vector_id h path =
     (case suite_text h path of
        None \<Rightarrow> Inl (FileNotFoundError path)
      | Some t \<Rightarrow>
          (case suite_loads h t of
             None \<Rightarrow> Inl (JSONDecodeError t)
           | Some v \<Rightarrow> bindE (attr_get_or v ''vector_id'' (JStr (path_stem path))) (\<lambda>i. Inr (json_str i))))"

text \<open>\<open>json.loads(stdout)\<close> where there is output and it parses, \<open>None\<close> otherwise.\<close>

definition parsed_output :: "'w suite_host \<Rightarrow> string \<Rightarrow> json" where
  "parsed_output h out_text =
     (if out_text = [] then JNull else case suite_loads h out_text of None \<Rightarrow> JNull | Some v \<Rightarrow> v)"

definition vector_passes :: "int \<Rightarrow> json \<Rightarrow> bool res" where
  "vector_passes rc parsed =
     (if rc = 0 \<and> truthy parsed then bindE (attr_get parsed ''pass'') (\<lambda>v. Inr (is_true v)) else Inr False)"

definition note_failure :: "failure \<Rightarrow> suite_state \<Rightarrow> suite_state" where
  "note_failure f st = st\<lparr>s_failed := Suc (s_failed st), s_failures := s_failures st @ [f]\<rparr>"

definition run_vector ::
  "'w suite_host \<Rightarrow> string list \<Rightarrow> int option \<Rightarrow> suite_state \<Rightarrow> string \<Rightarrow> ('w, suite_state) io" where
  "run_vector h runner_cmd timeout st vf =
     (let st = st\<lparr>s_total := Suc (s_total st)\<rparr> in
     bindIO (liftE (load_vector_id h vf)) (\<lambda>vector_id.
     bindIO (stepIO (suite_exec h (runner_cmd @ [vf]) timeout)) (\<lambda>p.
     case p of
       OSFail n \<Rightarrow> raiseIO (OSError n)
     | TimedOut out_text err_text \<Rightarrow>
         retIO (note_failure \<lparr>f_vector_id = vector_id, f_path = vf, f_exit_code = 124, f_timeout = True,
           f_stdout = captured_part out_text, f_stderr = captured_part err_text, f_parsed = JNull\<rparr> st)
     | Completed rc out_text err_text \<Rightarrow>
         (let parsed = parsed_output h (str_strip out_text) in
          bindIO (liftE (vector_passes rc parsed)) (\<lambda>passes.
          retIO (if passes then st\<lparr>s_passed := Suc (s_passed st)\<rparr>
                 else note_failure \<lparr>f_vector_id = vector_id, f_path = vf, f_exit_code = rc, f_timeout = False,
                   f_stdout = Text (str_strip out_text), f_stderr = Text (str_strip err_text), f_parsed = parsed\<rparr> st))))))"

subsection \<open>The suite\<close>

definition runner_command :: "string list \<Rightarrow> string list res" where
  "runner_command cmd =
     (let cmd = (case cmd of c # cs \<Rightarrow> if c = ''--'' then cs else cmd | [] \<Rightarrow> []) in
      if cmd = [] then Inl (SystemExit ''--runner-cmd requires at least one command token'') else Inr cmd)"

definition suite_files :: "'w suite_host \<Rightarrow> suite_args \<Rightarrow> string list" where
  "suite_files h args = sort_key path_parts (suite_listing h (path_str (su_vectors_root args)))"

definition suite_timeout :: "suite_args \<Rightarrow> int option" where
  "suite_timeout args = (if su_timeout_seconds args > 0 then Some (su_timeout_seconds args) else None)"

definition captured_json :: "captured \<Rightarrow> json res" where
  "captured_json c = (case c of Text s \<Rightarrow> Inr (JStr s) | Bytes s \<Rightarrow> Inl TypeError)"

definition failure_json :: "failure \<Rightarrow> json res" where
  "failure_json f =
     bindE (captured_json (f_stdout f)) (\<lambda>out_text. bindE (captured_json (f_stderr f)) (\<lambda>err_text.
     Inr (JObj [(''vector_id'', JStr (f_vector_id f)), (''path'', JStr (f_path f)), (''exit_code'', JInt (f_exit_code f)),
       (''timeout'', JBool (f_timeout f)), (''stdout'', out_text), (''stderr'', err_text), (''parsed'', f_parsed f)])))"

definition suite_summary :: "suite_args \<Rightarrow> string list \<Rightarrow> suite_state \<Rightarrow> json list \<Rightarrow> dict" where
  "suite_summary args runner_cmd st failures =
     [(''commit_sha'', JStr (su_commit_sha args)), (''strict'', JBool (su_strict args)),
      (''total'', JInt (int (s_total st))), (''passed'', JInt (int (s_passed st))), (''failed'', JInt (int (s_failed st))),
      (''failures'', JArr failures), (''runner_cmd'', strs_json runner_cmd),
      (''timeout_seconds'', JInt (su_timeout_seconds args))]"

definition suite_start :: suite_state where
  "suite_start = \<lparr>s_total = 0, s_passed = 0, s_failed = 0, s_failures = []\<rparr>"

text \<open>The exit code, the summary that is written to the output path, and the line printed.\<close>

definition suite_main :: "'w suite_host \<Rightarrow> suite_args \<Rightarrow> ('w, nat \<times> (string \<times> dict) \<times> string) io" where
  "suite_main h args =
     bindIO (liftE (runner_command (su_runner_cmd args))) (\<lambda>runner_cmd.
     bindIO (foldIO (run_vector h runner_cmd (suite_timeout args)) suite_start (suite_files h args)) (\<lambda>st.
     bindIO (liftE (mapE failure_json (s_failures st))) (\<lambda>failures.
     let summary = suite_summary args runner_cmd st failures;
         counts = (\<lambda>n. nat_str n @ ''/'' @ nat_str (s_total st) @ '' vectors'')
     in retIO (if s_failed st > 0 then 1 else 0, (su_out args, summary),
          if s_failed st > 0 then ''Suite failed: '' @ counts (s_failed st) else ''Suite passed: '' @ counts (s_passed st)))))"

text \<open>The text in the file.\<close>

definition suite_file_text :: "dict \<Rightarrow> string" where
  "suite_file_text summary = dumps_ascii (JObj summary) @ [newline]"

subsection \<open>What the runner said\<close>

text \<open>The processes of the vectors, run one after the other in the order of the files.\<close>

primrec suite_procs :: "'w suite_host \<Rightarrow> string list \<Rightarrow> int option \<Rightarrow> string list \<Rightarrow> 'w \<Rightarrow> proc list \<times> 'w" where
  "suite_procs h cmd timeout [] w = ([], w)"
| "suite_procs h cmd timeout (vf # vfs) w =
     (case suite_exec h (cmd @ [vf]) timeout w of (p, w1) \<Rightarrow>
      case suite_procs h cmd timeout vfs w1 of (ps, w2) \<Rightarrow> (p # ps, w2))"

text \<open>A runner that ended with 0 and printed an object whose \<open>pass\<close> is true.\<close>

definition proc_passes :: "'w suite_host \<Rightarrow> proc \<Rightarrow> bool" where
  "proc_passes h p \<longleftrightarrow> (\<exists>out_text err_text d. p = Completed 0 out_text err_text \<and> str_strip out_text \<noteq> [] \<and>
     suite_loads h (str_strip out_text) = Some (JObj d) \<and> dict_get d ''pass'' = JBool True)"

lemma vector_passes_Inr:
  assumes "vector_passes rc (parsed_output h (str_strip out_text)) = Inr b"
  shows "b \<longleftrightarrow> proc_passes h (Completed rc out_text err_text)"
proof (cases "\<exists>d. str_strip out_text \<noteq> [] \<and> suite_loads h (str_strip out_text) = Some (JObj d)")
  case True
  then obtain d where d: "str_strip out_text \<noteq> []" "suite_loads h (str_strip out_text) = Some (JObj d)" by blast
  then show ?thesis
    using assms by (auto simp: vector_passes_def proc_passes_def parsed_output_def is_true_def res_simps dict_get_def split: if_splits)
next
  case False
  then have "\<not> proc_passes h (Completed rc out_text err_text)" by (auto simp: proc_passes_def)
  moreover from False have "\<not> is_dict (parsed_output h (str_strip out_text))"
    by (auto simp: parsed_output_def is_dict_iff split: option.splits)
  ultimately show ?thesis
    using assms by (cases "parsed_output h (str_strip out_text)") (auto simp: vector_passes_def res_simps split: if_splits)
qed

lemma run_vector_Inr:
  assumes "run_vector h cmd timeout st vf w = (Inr st', w')"
  obtains p where "suite_exec h (cmd @ [vf]) timeout w = (p, w')"
    and "s_total st' = Suc (s_total st)" and "s_passed st' = s_passed st + (if proc_passes h p then 1 else 0)"
    and "s_failed st' = s_failed st + (if proc_passes h p then 0 else 1)"
    and "map f_path (s_failures st') = map f_path (s_failures st) @ (if proc_passes h p then [] else [vf])"
    and "set (s_failures st) \<subseteq> set (s_failures st')"
    and "\<And>a b. p = TimedOut a b \<Longrightarrow> \<exists>f\<in>set (s_failures st'). f_stdout f = captured_part a \<and> f_stderr f = captured_part b"
proof -
  from assms obtain vid p w1 where p: "load_vector_id h vf = Inr vid" "suite_exec h (cmd @ [vf]) timeout w = (p, w1)"
    unfolding run_vector_def Let_def bindIO_Inr liftE_Inr stepIO_Inr by blast
  let ?st = "st\<lparr>s_total := Suc (s_total st)\<rparr>"
  show thesis
  proof (cases p)
    case (Completed rc out_text err_text)
    with assms p obtain b where b: "vector_passes rc (parsed_output h (str_strip out_text)) = Inr b" "w1 = w'"
        "st' = (if b then ?st\<lparr>s_passed := Suc (s_passed st)\<rparr>
          else note_failure \<lparr>f_vector_id = vid, f_path = vf, f_exit_code = rc, f_timeout = False,
            f_stdout = Text (str_strip out_text), f_stderr = Text (str_strip err_text),
            f_parsed = parsed_output h (str_strip out_text)\<rparr> ?st)"
      by (auto simp: run_vector_def Let_def io_simps)
    note v = vector_passes_Inr [OF b(1), of err_text]
    show thesis by (rule that [of p]) (use b(2,3) v p Completed in \<open>auto simp: note_failure_def\<close>)
  next
    case (TimedOut out_text err_text)
    then have "\<not> proc_passes h p" by (simp add: proc_passes_def)
    with assms p TimedOut show thesis
      by (intro that [of p]) (auto simp: run_vector_def Let_def io_simps note_failure_def)
  next
    case (OSFail n)
    with assms p show thesis by (simp add: run_vector_def Let_def io_simps)
  qed
qed

lemma run_vectors_Inr:
  "foldIO (run_vector h cmd timeout) st vfs w = (Inr st', w') \<Longrightarrow>
    \<exists>ps. suite_procs h cmd timeout vfs w = (ps, w') \<and> length ps = length vfs \<and>
      s_total st' = s_total st + length vfs \<and>
      s_passed st' = s_passed st + length (filter (proc_passes h) ps) \<and>
      s_failed st' = s_failed st + length (filter (\<lambda>p. \<not> proc_passes h p) ps) \<and>
      map f_path (s_failures st') = map f_path (s_failures st) @ map fst (filter (\<lambda>(vf, p). \<not> proc_passes h p) (zip vfs ps)) \<and>
      set (s_failures st) \<subseteq> set (s_failures st') \<and>
      (\<forall>a b. TimedOut a b \<in> set ps \<longrightarrow> (\<exists>f\<in>set (s_failures st'). f_stdout f = captured_part a \<and> f_stderr f = captured_part b))"
proof (induction vfs arbitrary: st w)
  case Nil
  then show ?case by (simp add: io_simps)
next
  case (Cons vf vfs)
  then obtain st1 w1 where 1: "run_vector h cmd timeout st vf w = (Inr st1, w1)"
      "foldIO (run_vector h cmd timeout) st1 vfs w1 = (Inr st', w')" by (auto simp: io_simps)
  from 1(1) obtain p where p: "suite_exec h (cmd @ [vf]) timeout w = (p, w1)"
      "s_total st1 = Suc (s_total st)" "s_passed st1 = s_passed st + (if proc_passes h p then 1 else 0)"
      "s_failed st1 = s_failed st + (if proc_passes h p then 0 else 1)"
      "map f_path (s_failures st1) = map f_path (s_failures st) @ (if proc_passes h p then [] else [vf])"
      "set (s_failures st) \<subseteq> set (s_failures st1)"
      "\<And>a b. p = TimedOut a b \<Longrightarrow> \<exists>f\<in>set (s_failures st1). f_stdout f = captured_part a \<and> f_stderr f = captured_part b"
    by (rule run_vector_Inr) (rule that; assumption)
  from Cons.IH [OF 1(2)] obtain ps where ps: "suite_procs h cmd timeout vfs w1 = (ps, w')" "length ps = length vfs"
      "s_total st' = s_total st1 + length vfs" "s_passed st' = s_passed st1 + length (filter (proc_passes h) ps)"
      "s_failed st' = s_failed st1 + length (filter (\<lambda>p. \<not> proc_passes h p) ps)"
      "map f_path (s_failures st') = map f_path (s_failures st1) @ map fst (filter (\<lambda>(vf, p). \<not> proc_passes h p) (zip vfs ps))"
      "set (s_failures st1) \<subseteq> set (s_failures st')"
      "\<And>a b. TimedOut a b \<in> set ps \<Longrightarrow> \<exists>f\<in>set (s_failures st'). f_stdout f = captured_part a \<and> f_stderr f = captured_part b"
    by blast
  have "\<exists>f\<in>set (s_failures st'). f_stdout f = captured_part a \<and> f_stderr f = captured_part b"
    if "TimedOut a b \<in> set (p # ps)" for a b
  proof (cases "TimedOut a b = p")
    case True
    with p(7) [of a b] ps(7) show ?thesis by blast
  next
    case False
    with that ps(8) show ?thesis by simp
  qed
  with p(1-6) ps(1-7) show ?case by (intro exI [of _ "p # ps"]) auto
qed

lemma failures_json:
  assumes "mapE failure_json fs = Inr vs"
  shows "map (\<lambda>v. attr_get v ''path'') vs = map (\<lambda>f. Inr (JStr (f_path f))) fs"
    "f \<in> set fs \<Longrightarrow> f_stdout f = captured_part a \<Longrightarrow> f_stderr f = captured_part b \<Longrightarrow> a = [] \<and> b = []"
proof -
  have one: "attr_get v ''path'' = Inr (JStr (f_path f)) \<and> (\<exists>s. f_stdout f = Text s) \<and> (\<exists>s. f_stderr f = Text s)"
    if "failure_json f = Inr v" for f v
    using that by (auto simp: failure_json_def captured_json_def res_simps dict_get_def split: captured.splits)
  from assms have all: "list_all2 (\<lambda>f v. failure_json f = Inr v) fs vs" by (simp add: mapE_Inr)
  then show "map (\<lambda>v. attr_get v ''path'') vs = map (\<lambda>f. Inr (JStr (f_path f))) fs"
    by (induction fs vs rule: list_all2_induct) (auto dest: one)
  assume "f \<in> set fs" "f_stdout f = captured_part a" "f_stderr f = captured_part b"
  moreover from all this(1) obtain v where "failure_json f = Inr v"
    by (auto simp: list_all2_conv_all_nth in_set_conv_nth)
  ultimately show "a = [] \<and> b = []" using one [of f v] by (auto simp: captured_part_def split: if_splits)
qed

text \<open>C12: the summary of a suite says what the runner said. When a run ends with a summary, the command was run once
for each vector file in the order of the paths; the counts are those of the processes that ended with 0 and an
object whose pass is true, and of the others; the failures name exactly the files of the others, in order; the exit
code is 0 exactly when there are none; and no process that was stopped had printed anything, since a summary
with such output cannot be written.\<close>

theorem suite_summary_exact:
  assumes "suite_main h args w = (Inr (rc, (path, d), line), w')"
  shows "\<exists>cmd ps vs. runner_command (su_runner_cmd args) = Inr cmd \<and> path = su_out args \<and>
    suite_procs h cmd (suite_timeout args) (suite_files h args) w = (ps, w') \<and>
    dict_get d ''total'' = JInt (int (length (suite_files h args))) \<and>
    dict_get d ''passed'' = JInt (int (length (filter (proc_passes h) ps))) \<and>
    dict_get d ''failed'' = JInt (int (length (filter (\<lambda>p. \<not> proc_passes h p) ps))) \<and>
    dict_get d ''failures'' = JArr vs \<and>
    map (\<lambda>v. attr_get v ''path'') vs =
      map (\<lambda>(vf, p). Inr (JStr vf)) (filter (\<lambda>(vf, p). \<not> proc_passes h p) (zip (suite_files h args) ps)) \<and>
    (rc = 0 \<longleftrightarrow> list_all (proc_passes h) ps) \<and>
    (\<forall>a b. TimedOut a b \<in> set ps \<longrightarrow> a = [] \<and> b = [])"
proof -
  from assms obtain cmd st vs where run: "runner_command (su_runner_cmd args) = Inr cmd"
      "foldIO (run_vector h cmd (suite_timeout args)) suite_start (suite_files h args) w = (Inr st, w')"
      "mapE failure_json (s_failures st) = Inr vs" "d = suite_summary args cmd st vs" "path = su_out args"
      "rc = (if s_failed st > 0 then 1 else 0)"
    by (auto simp: suite_main_def Let_def io_simps)
  from run_vectors_Inr [OF run(2)] obtain ps where ps: "suite_procs h cmd (suite_timeout args) (suite_files h args) w = (ps, w')"
      "length ps = length (suite_files h args)" "s_total st = length (suite_files h args)"
      "s_passed st = length (filter (proc_passes h) ps)" "s_failed st = length (filter (\<lambda>p. \<not> proc_passes h p) ps)"
      "map f_path (s_failures st) = map fst (filter (\<lambda>(vf, p). \<not> proc_passes h p) (zip (suite_files h args) ps))"
      "\<And>a b. TimedOut a b \<in> set ps \<Longrightarrow> \<exists>f\<in>set (s_failures st). f_stdout f = captured_part a \<and> f_stderr f = captured_part b"
    by (auto simp: suite_start_def)
  have "map (\<lambda>v. attr_get v ''path'') vs = map (\<lambda>p. Inr (JStr p)) (map f_path (s_failures st))"
    using failures_json(1) [OF run(3)] by (simp add: comp_def)
  also have "\<dots> = map (\<lambda>(vf, p). Inr (JStr vf)) (filter (\<lambda>(vf, p). \<not> proc_passes h p) (zip (suite_files h args) ps))"
    unfolding ps(6) by (simp add: comp_def split_beta)
  finally have paths: "map (\<lambda>v. attr_get v ''path'') vs =
      map (\<lambda>(vf, p). Inr (JStr vf)) (filter (\<lambda>(vf, p). \<not> proc_passes h p) (zip (suite_files h args) ps))" .
  have "\<forall>a b. TimedOut a b \<in> set ps \<longrightarrow> a = [] \<and> b = []"
    using ps(7) failures_json(2) [OF run(3)] by blast
  moreover have "rc = 0 \<longleftrightarrow> list_all (proc_passes h) ps"
    by (auto simp: run(6) ps(5) filter_empty_conv list_all_iff)
  ultimately show ?thesis
    using run(1,5) ps(1,3,4,5) paths by (simp add: run(4) suite_summary_def dict_get_def)
qed

text \<open>Two vectors: the runner passes the first and is stopped, without output, on the second.\<close>

definition ex_suite_host :: "nat suite_host" where
  "ex_suite_host = \<lparr>suite_listing = (\<lambda>_. [''v/b.json'', ''v/a.json'']), suite_text = (\<lambda>p. Some p),
     suite_loads = (\<lambda>t. Some (JObj [(''pass'', JBool True)])),
     suite_exec = (\<lambda>cmd t n. (if n = 0 then Completed 0 ''y'' [] else TimedOut [] [], Suc n))\<rparr>"

definition ex_suite_args :: suite_args where
  "ex_suite_args = \<lparr>su_vectors_root = ''v'', su_runner_cmd = [''--'', ''run''], su_commit_sha = ''c'', su_out = ''o'',
     su_timeout_seconds = 5, su_strict = True\<rparr>"

lemma ex_suite_run: "\<exists>d line w'. suite_main ex_suite_host ex_suite_args 0 = (Inr (1, (''o'', d), line), w')"
proof -
  have "(case suite_main ex_suite_host ex_suite_args 0 of (Inr (rc, (p, d), line), w') \<Rightarrow> rc = 1 \<and> p = ''o'' | _ \<Rightarrow> False)"
    by code_simp
  then show ?thesis by (cases "suite_main ex_suite_host ex_suite_args 0") (auto split: sum.splits prod.splits)
qed

theorem suite_summary_exact_witness:
  "\<exists>d line w'. suite_main ex_suite_host ex_suite_args 0 = (Inr (1, (''o'', d), line), w') \<and>
     dict_get d ''total'' = JInt 2"
proof -
  obtain d line w' where run: "suite_main ex_suite_host ex_suite_args 0 = (Inr (1, (''o'', d), line), w')"
    using ex_suite_run by blast
  have "suite_files ex_suite_host ex_suite_args = [''v/a.json'', ''v/b.json'']" by code_simp
  with suite_summary_exact [OF run] have "dict_get d ''total'' = JInt 2" by auto
  with run show ?thesis by blast
qed

end
