(* ===== verification/InteropSummary.thy ===== *)
theory InteropSummary
  imports RunnerSuite
begin

text \<open>
  \<open>tools/ci/build_interop_summary.py\<close>: the gates of an interoperability certificate over the summaries
  of the runner suites, the divergence runs, the property tests and the invariant audit.
\<close>

record interop_args =
  in_commit_sha :: string
  in_out_dir :: string
  in_suite_rust :: string
  in_suite_ts :: string
  in_div_c01 :: string
  in_div_full :: string
  in_properties :: string
  in_invariants_audit :: string

definition interop_load :: "env \<Rightarrow> string \<Rightarrow> json res" where
  "interop_load w path = read_json w (path_str path)"

text \<open>\<open>v.get(key, 1) == 0\<close>.\<close>

definition zero_count :: "json \<Rightarrow> string \<Rightarrow> bool res" where
  "zero_count v key = bindE (attr_get_or v key (JInt 1)) (\<lambda>n. Inr (py_eq n (JInt 0)))"

text \<open>\<open>len(v)\<close>.\<close>

fun json_len :: "json \<Rightarrow> nat res" where
  "json_len (JStr s) = Inr (length s)"
| "json_len (JArr xs) = Inr (length xs)"
| "json_len (JObj d) = Inr (length d)"
| "json_len _ = Inl TypeError"

definition counted :: "json \<Rightarrow> string \<Rightarrow> json res" where
  "counted v key = bindE (attr_get_or v key (JArr [])) (\<lambda>xs. bindE (json_len xs) (\<lambda>n. Inr (JInt (int n))))"

record interop_docs =
  ii_rust :: json
  ii_ts :: json
  ii_div_c01 :: json
  ii_div_full :: json
  ii_props :: json
  ii_inv :: json

definition interop_inputs :: "env \<Rightarrow> interop_args \<Rightarrow> interop_docs res" where
  "interop_inputs w args =
     bindE (interop_load w (in_suite_rust args)) (\<lambda>rust. bindE (interop_load w (in_suite_ts args)) (\<lambda>ts.
     bindE (interop_load w (in_div_c01 args)) (\<lambda>c01. bindE (interop_load w (in_div_full args)) (\<lambda>full.
     bindE (interop_load w (in_properties args)) (\<lambda>props. bindE (interop_load w (in_invariants_audit args)) (\<lambda>inv.
     Inr \<lparr>ii_rust = rust, ii_ts = ts, ii_div_c01 = c01, ii_div_full = full, ii_props = props, ii_inv = inv\<rparr>))))))"

definition interop_gates :: "interop_docs \<Rightarrow> (string \<times> bool) list res" where
  "interop_gates i =
     bindE (zero_count (ii_rust i) ''failed'') (\<lambda>rust. bindE (zero_count (ii_ts i) ''failed'') (\<lambda>ts.
     bindE (zero_count (ii_div_c01 i) ''mismatches'') (\<lambda>c01. bindE (zero_count (ii_div_full i) ''mismatches'') (\<lambda>full.
     bindE (zero_count (ii_props i) ''failed'') (\<lambda>props. bindE (attr_get (ii_inv i) ''status'') (\<lambda>status.
     Inr [(''rust_suite_pass'', rust), (''ts_suite_pass'', ts), (''divergence_c01_zero'', c01),
          (''divergence_full_zero'', full), (''property_tests_pass'', props),
          (''invariants_audit_pass'', status = JStr ''PASS'')]))))))"

definition interop_verdict :: "(string \<times> bool) list \<Rightarrow> string" where
  "interop_verdict gates = (if list_all snd gates then ''PASS'' else ''FAIL'')"

text \<open>The values of some keys, as an object.\<close>

definition metric :: "json \<Rightarrow> string list \<Rightarrow> json res" where
  "metric v keys = bindE (mapE (\<lambda>k. bindE (attr_get v k) (\<lambda>x. Inr (k, x))) keys) (\<lambda>d. Inr (JObj d))"

definition inv_metric :: "json \<Rightarrow> json res" where
  "inv_metric v =
     bindE (attr_get v ''status'') (\<lambda>status. bindE (attr_get v ''invariants_total'') (\<lambda>total.
     bindE (counted v ''partial_coverage_invariants'') (\<lambda>part. bindE (counted v ''uncovered_invariants'') (\<lambda>unc.
     Inr (JObj [(''status'', status), (''invariants_total'', total), (''partial_coverage_invariants'', part),
                (''uncovered_invariants'', unc)])))))"

definition interop_evidence :: "string \<Rightarrow> interop_docs \<Rightarrow> (string \<times> bool) list \<Rightarrow> json res" where
  "interop_evidence commit i gates =
     bindE (metric (ii_rust i) [''total'', ''passed'', ''failed'']) (\<lambda>rust.
     bindE (metric (ii_ts i) [''total'', ''passed'', ''failed'']) (\<lambda>ts.
     bindE (metric (ii_div_c01 i) [''total'', ''mismatches'']) (\<lambda>c01.
     bindE (metric (ii_div_full i) [''total'', ''mismatches'']) (\<lambda>full.
     bindE (metric (ii_props i) [''failed'']) (\<lambda>props.
     bindE (inv_metric (ii_inv i)) (\<lambda>inv.
     Inr (JObj [(''commit_sha'', JStr commit), (''strict'', JBool True), (''verdict'', JStr (interop_verdict gates)),
       (''gates'', JObj (map (\<lambda>(k, b). (k, JBool b)) gates)),
       (''metrics'', JObj [(''rust_suite'', rust), (''ts_suite'', ts), (''divergence_c01'', c01),
          (''divergence_full'', full), (''properties'', props), (''invariants'', inv)])])))))))"

text \<open>\<open>str(v.get(key))\<close> of an object.\<close>

definition shown :: "json \<Rightarrow> string \<Rightarrow> string" where
  "shown v key = (case v of JObj d \<Rightarrow> json_str (dict_get d key) | _ \<Rightarrow> [])"

definition interop_lines :: "string \<Rightarrow> interop_docs \<Rightarrow> (string \<times> bool) list \<Rightarrow> string list" where
  "interop_lines commit i gates =
     [''# Interop Report'', [], ''- Commit: `'' @ commit @ ''`'', ''- Verdict: **'' @ interop_verdict gates @ ''**'',
      ''- Strict mode: true'', [], ''## Suite Summary'', [],
      ''- Rust suite: '' @ shown (ii_rust i) ''passed'' @ ''/'' @ shown (ii_rust i) ''total'' @ '' passed'',
      ''- TS suite: '' @ shown (ii_ts i) ''passed'' @ ''/'' @ shown (ii_ts i) ''total'' @ '' passed'',
      ''- Divergence C01 mismatches: '' @ shown (ii_div_c01 i) ''mismatches'',
      ''- Divergence full mismatches: '' @ shown (ii_div_full i) ''mismatches'',
      ''- Property test failures: '' @ shown (ii_props i) ''failed'', [], ''## Gate Status'', []] @
     map (\<lambda>(gate, ok). ''- '' @ gate @ '': '' @ (if ok then ''PASS'' else ''FAIL'')) gates @
     [[], ''## Notes'', [], ''- This certification covers Strict Conformance Mode only.'',
      ''- Diagnostics are compared by error codes; free-text messages are non-normative.'']"

text \<open>The exit code, the files written and the line printed.\<close>

definition interop_main :: "env \<Rightarrow> interop_args \<Rightarrow> (nat \<times> (string \<times> string) list \<times> string) res" where
  "interop_main w args =
     bindE (interop_inputs w args) (\<lambda>i.
     bindE (interop_gates i) (\<lambda>gates.
     bindE (interop_evidence (in_commit_sha args) i gates) (\<lambda>evidence.
     let out_dir = path_str (in_out_dir args); verdict = interop_verdict gates in
     Inr (if verdict \<noteq> ''PASS'' then 1 else 0,
          [(path_join out_dir ''interop-evidence.json'', dumps_ascii evidence @ [newline]),
           (path_join out_dir ''interop-report.md'', str_join [newline] (interop_lines (in_commit_sha args) i gates) @ [newline])],
          ''Interop summary: '' @ verdict))))"

subsection \<open>What a certificate means\<close>

lemma zero_count_Inr: "zero_count v k = Inr b \<longleftrightarrow> (\<exists>d. v = JObj d \<and> b = py_eq (dict_get_or d k (JInt 1)) (JInt 0))"
  by (cases v) (auto simp: zero_count_def res_simps)

lemma interop_pass_gates:
  assumes "interop_main w args = Inr (0, files, line)"
  obtains i where "interop_inputs w args = Inr i" "zero_count (ii_rust i) ''failed'' = Inr True"
    "zero_count (ii_ts i) ''failed'' = Inr True" "zero_count (ii_div_c01 i) ''mismatches'' = Inr True"
    "zero_count (ii_div_full i) ''mismatches'' = Inr True" "zero_count (ii_props i) ''failed'' = Inr True"
    "attr_get (ii_inv i) ''status'' = Inr (JStr ''PASS'')"
proof -
  from assms obtain i gates where i: "interop_inputs w args = Inr i" "interop_gates i = Inr gates" "interop_verdict gates = ''PASS''"
    by (auto simp: interop_main_def Let_def res_simps split: if_splits)
  from i(3) have "list_all snd gates" by (auto simp: interop_verdict_def split: if_splits)
  with i(2) have "zero_count (ii_rust i) ''failed'' = Inr True \<and> zero_count (ii_ts i) ''failed'' = Inr True \<and>
      zero_count (ii_div_c01 i) ''mismatches'' = Inr True \<and> zero_count (ii_div_full i) ''mismatches'' = Inr True \<and>
      zero_count (ii_props i) ''failed'' = Inr True \<and> attr_get (ii_inv i) ''status'' = Inr (JStr ''PASS'')"
    by (auto simp: interop_gates_def res_simps)
  with that i(1) show thesis by blast
qed

lemma interop_inputs_Inr:
  "interop_inputs w args = Inr i \<Longrightarrow> document w (path_str (in_suite_rust args)) = Some (ii_rust i) \<and>
     document w (path_str (in_suite_ts args)) = Some (ii_ts i) \<and> document w (path_str (in_div_c01 args)) = Some (ii_div_c01 i) \<and>
     document w (path_str (in_div_full args)) = Some (ii_div_full i) \<and> document w (path_str (in_properties args)) = Some (ii_props i) \<and>
     document w (path_str (in_invariants_audit args)) = Some (ii_inv i)"
  by (auto simp: interop_inputs_def interop_load_def bindE_Inr read_json_document)

lemma suite_gate: "zero_count (JObj (suite_summary args cmd st vs)) ''failed'' = Inr True \<longleftrightarrow> s_failed st = 0"
  by (auto simp: zero_count_Inr suite_summary_def dict_get_or_def py_eq_int simp del: py_eq.simps)

lemma suite_main_gate:
  assumes "suite_main h args w = (Inr (rc, (path, d), line), w')" "zero_count (JObj d) ''failed'' = Inr True"
  shows "rc = 0"
  using assms by (auto simp: suite_main_def Let_def io_simps suite_gate split: if_splits)

lemma audit_gate:
  "attr_get (audit_summary (audit_status mv ms uc) mv ms uc rows) ''status'' = Inr (JStr ''PASS'') \<longleftrightarrow> mv = [] \<and> ms = [] \<and> uc = []"
  by (auto simp: audit_summary_def audit_status_def dict_get_def)

text \<open>C11: a certificate certifies. When the interop summary passes on the documents that the runner suites and the
invariant audit wrote, then both suite runs and the audit had ended with exit code 0, and the divergence runs
and the property tests report no mismatch and no failure.\<close>

theorem interop_certifies:
  assumes "interop_main w args = Inr (0, files, line)"
    and "suite_main hr ar wr = (Inr (rr, (pr, dr), lr), wr')" and "document w (path_str (in_suite_rust args)) = Some (JObj dr)"
    and "suite_main ht at' wt = (Inr (rt, (pt, dt), lt), wt')" and "document w (path_str (in_suite_ts args)) = Some (JObj dt)"
    and "load_invariants wa (path_str (au_invariants aa)) = Inr rows" and "audit_main wa aa = Inr (ra, la, fa)"
    and "document w (path_str (in_invariants_audit args)) =
      Some (let mv = missing_vectors wa (path_str (au_vectors_root aa)) rows;
                ms = missing_statics wa (path_str (au_static_checks_root aa)) rows; uc = uncovered rows
            in audit_summary (audit_status mv ms uc) mv ms uc rows)"
  shows "rr = 0 \<and> rt = 0 \<and> ra = 0 \<and>
    (\<exists>c01 full props. document w (path_str (in_div_c01 args)) = Some (JObj c01) \<and> py_eq (dict_get c01 ''mismatches'') (JInt 0) \<and>
       document w (path_str (in_div_full args)) = Some (JObj full) \<and> py_eq (dict_get full ''mismatches'') (JInt 0) \<and>
       document w (path_str (in_properties args)) = Some (JObj props) \<and> py_eq (dict_get props ''failed'') (JInt 0))"
proof -
  from interop_pass_gates [OF assms(1)] obtain i where i: "interop_inputs w args = Inr i"
      "zero_count (ii_rust i) ''failed'' = Inr True" "zero_count (ii_ts i) ''failed'' = Inr True"
      "zero_count (ii_div_c01 i) ''mismatches'' = Inr True" "zero_count (ii_div_full i) ''mismatches'' = Inr True"
      "zero_count (ii_props i) ''failed'' = Inr True" "attr_get (ii_inv i) ''status'' = Inr (JStr ''PASS'')" .
  note docs = interop_inputs_Inr [OF i(1)]
  have key: "\<exists>d. v = JObj d \<and> py_eq (dict_get d k) (JInt 0)" if "zero_count v k = Inr True" for v k
    using that by (auto simp: zero_count_Inr dict_get_or_def dict_get_def py_eq_int simp del: py_eq.simps split: option.splits)
  have "rr = 0" using suite_main_gate [OF assms(2)] docs assms(3) i(2) by simp
  moreover have "rt = 0" using suite_main_gate [OF assms(4)] docs assms(5) i(3) by simp
  moreover have "ra = 0"
  proof -
    let ?mv = "missing_vectors wa (path_str (au_vectors_root aa)) rows"
    let ?ms = "missing_statics wa (path_str (au_static_checks_root aa)) rows"
    have "ii_inv i = audit_summary (audit_status ?mv ?ms (uncovered rows)) ?mv ?ms (uncovered rows) rows"
      using docs assms(8) by (simp add: Let_def)
    with i(7) have "?mv = [] \<and> ?ms = [] \<and> uncovered rows = []" by (simp only: audit_gate)
    with assms(6,7) show ?thesis by (auto simp: audit_main_def audit_status_def Let_def)
  qed
  ultimately show ?thesis using key [OF i(4)] key [OF i(5)] key [OF i(6)] docs by auto
qed

text \<open>One passing vector, an invariant without a vector that is excepted, and no mismatches.\<close>

definition ex_pass_host :: "nat suite_host" where
  "ex_pass_host = \<lparr>suite_listing = (\<lambda>_. [''v/a.json'']), suite_text = (\<lambda>p. Some p),
     suite_loads = (\<lambda>t. Some (JObj [(''pass'', JBool True)])), suite_exec = (\<lambda>cmd t n. (Completed 0 ''y'' [], Suc n))\<rparr>"

definition ex_pass_summary :: dict where
  "ex_pass_summary = suite_summary ex_suite_args [''run''] \<lparr>s_total = 1, s_passed = 1, s_failed = 0, s_failures = []\<rparr> []"

lemma ex_pass_run: "suite_main ex_pass_host ex_suite_args 0 = (Inr (0, (''o'', ex_pass_summary), ''Suite passed: 1/1 vectors''), 1)"
proof -
  have "suite_files ex_pass_host ex_suite_args = [''v/a.json'']" by code_simp
  moreover have "runner_command (su_runner_cmd ex_suite_args) = Inr [''run'']" by code_simp
  moreover have "str_strip ''y'' = ''y''" by code_simp
  moreover have "''Suite passed: '' @ nat_str 1 @ ''/'' @ nat_str 1 @ '' vectors'' = ''Suite passed: 1/1 vectors''" by code_simp
  ultimately show ?thesis
    by (simp add: suite_main_def run_vector_def load_vector_id_def ex_pass_host_def parsed_output_def vector_passes_def
        dict_get_def is_true_def suite_start_def Let_def bindIO_def retIO_def stepIO_def liftE_def ex_pass_summary_def)
       (simp add: ex_suite_args_def)
qed

definition ex_audit_doc :: "string" where
  "ex_audit_doc = ''- INV-CUT-2: cut'' @ [newline] @ ''  Policy invariant.''"

definition ex_pass_audit :: env where
  "ex_pass_audit = \<lparr>file_text = (\<lambda>p. Some ex_audit_doc), json_loads = (\<lambda>_. None), is_dir = (\<lambda>_. False), dir_glob = (\<lambda>_ q. [q])\<rparr>"

definition ex_interop_args :: interop_args where
  "ex_interop_args = \<lparr>in_commit_sha = ''c'', in_out_dir = ''o'', in_suite_rust = ''rust'', in_suite_ts = ''ts'',
     in_div_c01 = ''c01'', in_div_full = ''full'', in_properties = ''props'', in_invariants_audit = ''inv''\<rparr>"

definition ex_interop_env :: "json \<Rightarrow> env" where
  "ex_interop_env audit = docs_env
     [(''rust'', JObj ex_pass_summary), (''ts'', JObj ex_pass_summary), (''c01'', JObj [(''mismatches'', JInt 0)]),
      (''full'', JObj [(''mismatches'', JInt 0)]), (''props'', JObj [(''failed'', JInt 0)]), (''inv'', audit)]"

definition ex_pass_doc :: json where
  "ex_pass_doc = (case load_invariants ex_pass_audit ''inv.md'' of
     Inr rows \<Rightarrow> (let mv = missing_vectors ex_pass_audit ''v'' rows; ms = missing_statics ex_pass_audit ''s'' rows; uc = uncovered rows
       in audit_summary (audit_status mv ms uc) mv ms uc rows)
   | Inl e \<Rightarrow> JNull)"

lemma ex_pass_rows: "\<exists>rows. load_invariants ex_pass_audit ''inv.md'' = Inr rows"
proof -
  have "(case load_invariants ex_pass_audit ''inv.md'' of Inr _ \<Rightarrow> True | _ \<Rightarrow> False)" by code_simp
  then show ?thesis by (auto split: sum.splits)
qed

lemma ex_pass_audit_run: "\<exists>line fs. audit_main ex_pass_audit ex_audit_args = Inr (0, line, fs)"
proof -
  have "(case audit_main ex_pass_audit ex_audit_args of Inr (rc, _) \<Rightarrow> rc = 0 | _ \<Rightarrow> False)" by code_simp
  then show ?thesis by (auto split: sum.splits)
qed

lemma ex_interop_run: "\<exists>fs line. interop_main (ex_interop_env ex_pass_doc) ex_interop_args = Inr (0, fs, line)"
proof -
  have "(case interop_main (ex_interop_env ex_pass_doc) ex_interop_args of Inr (rc, _) \<Rightarrow> rc = 0 | _ \<Rightarrow> False)" by code_simp
  then show ?thesis by (auto split: sum.splits)
qed

theorem interop_certifies_witness:
  "\<exists>c01. document (ex_interop_env ex_pass_doc) ''c01'' = Some (JObj c01) \<and> py_eq (dict_get c01 ''mismatches'') (JInt 0)"
proof -
  obtain fs line where run: "interop_main (ex_interop_env ex_pass_doc) ex_interop_args = Inr (0, fs, line)"
    using ex_interop_run by blast
  obtain rows where rows: "load_invariants ex_pass_audit ''inv.md'' = Inr rows" using ex_pass_rows by blast
  obtain l fa where audit: "audit_main ex_pass_audit ex_audit_args = Inr (0, l, fa)" using ex_pass_audit_run by blast
  have paths: "path_str ''inv.md'' = ''inv.md''" "path_str ''v'' = ''v''" "path_str ''s'' = ''s''" "path_str ''rust'' = ''rust''"
    "path_str ''ts'' = ''ts''" "path_str ''inv'' = ''inv''" "path_str ''c01'' = ''c01''" by code_simp+
  have rust: "document (ex_interop_env ex_pass_doc) (path_str (in_suite_rust ex_interop_args)) = Some (JObj ex_pass_summary)"
    by (simp add: ex_interop_args_def paths ex_interop_env_def)
  have ts: "document (ex_interop_env ex_pass_doc) (path_str (in_suite_ts ex_interop_args)) = Some (JObj ex_pass_summary)"
    by (simp add: ex_interop_args_def paths ex_interop_env_def)
  have loaded: "load_invariants ex_pass_audit (path_str (au_invariants ex_audit_args)) = Inr rows"
    using rows by (simp add: ex_audit_args_def paths)
  have doc: "document (ex_interop_env ex_pass_doc) (path_str (in_invariants_audit ex_interop_args)) =
      Some (let mv = missing_vectors ex_pass_audit (path_str (au_vectors_root ex_audit_args)) rows;
                ms = missing_statics ex_pass_audit (path_str (au_static_checks_root ex_audit_args)) rows; uc = uncovered rows
            in audit_summary (audit_status mv ms uc) mv ms uc rows)"
    by (simp add: ex_interop_args_def ex_audit_args_def paths ex_interop_env_def ex_pass_doc_def rows)
  have "in_div_c01 ex_interop_args = ''c01''" by (simp add: ex_interop_args_def)
  with interop_certifies [OF run ex_pass_run rust ex_pass_run ts loaded audit doc] show ?thesis
    by (auto simp: paths)
qed

end
