(* ===== verification/BranchDrift.thy ===== *)
theory BranchDrift
  imports FullCiEnv
begin

text \<open>
  \<open>tools/ci/check_branch_protection_drift.py\<close>: the ruleset of the default branch against what the
  repository expects of it. The answers of \<open>gh api\<close> and of the JSON parser are parameters.
\<close>

subsection \<open>Sets of values\<close>

text \<open>\<open>set(xs)\<close>: equal elements are kept once; a list or a dict cannot be an element.\<close>

definition set_element :: "json \<Rightarrow> bool" where
  "set_element v = (\<not> is_list v \<and> \<not> is_dict v)"

definition json_set :: "json list \<Rightarrow> json list res" where
  "json_set xs =
     (if list_all set_element xs then Inr (foldl (\<lambda>acc x. if list_ex (py_eq x) acc then acc else acc @ [x]) [] xs)
      else Inl TypeError)"

text \<open>\<open>sorted\<close> of values: strings compare with strings and numbers with numbers.\<close>

fun float_less :: "pyfloat \<Rightarrow> pyfloat \<Rightarrow> bool" where
  "float_less (PFin a) (PFin b) = (a < b)"
| "float_less PNegInf (PFin _) = True"
| "float_less PNegInf PInf = True"
| "float_less (PFin _) PInf = True"
| "float_less _ _ = False"

definition json_less :: "json \<Rightarrow> json \<Rightarrow> bool res" where
  "json_less a b =
     (case (a, b) of (JStr s, JStr t) \<Rightarrow> Inr (s < t)
      | _ \<Rightarrow> (case (num_value a, num_value b) of (Some x, Some y) \<Rightarrow> Inr (float_less x y) | _ \<Rightarrow> Inl TypeError))"

primrec json_insort :: "json \<Rightarrow> json list \<Rightarrow> json list res" where
  "json_insort x [] = Inr [x]"
| "json_insort x (y # ys) =
     bindE (json_less y x) (\<lambda>lt. if \<not> lt then Inr (x # y # ys) else bindE (json_insort x ys) (\<lambda>zs. Inr (y # zs)))"

primrec json_sorted :: "json list \<Rightarrow> json list res" where
  "json_sorted [] = Inr []"
| "json_sorted (x # xs) = bindE (json_sorted xs) (json_insort x)"

subsection \<open>Queries and arguments\<close>

text \<open>\<open>drift_api\<close> is the exit code, the output and the error output of \<open>gh api\<close>, or the exception of a
command that cannot be started; \<open>drift_loads\<close> the parsed document.\<close>

record drift_env =
  drift_api :: "string \<Rightarrow> (int \<times> string \<times> string) res"
  drift_loads :: "string \<Rightarrow> json option"
  drift_token :: string

definition drift_gh_json :: "drift_env \<Rightarrow> string \<Rightarrow> json res" where
  "drift_gh_json h endpoint =
     bindE (drift_api h endpoint) (\<lambda>(rc, out_text, err_text).
       if rc \<noteq> 0
       then Inl (RuntimeError (if str_strip err_text \<noteq> [] then str_strip err_text
                               else if str_strip out_text \<noteq> [] then str_strip out_text else ''gh api failed''))
       else (case drift_loads h out_text of None \<Rightarrow> Inl (JSONDecodeError out_text) | Some v \<Rightarrow> Inr v))"

text \<open>The converter of a boolean option; its failure is an error of the argument parser.\<close>

definition bool_option :: "string \<Rightarrow> bool res" where
  "bool_option value =
     (let v = str_lower (str_strip value) in
      if v = ''true'' then Inr True else if v = ''false'' then Inr False
      else Inl (SystemExit (''expected true|false, got: '' @ value)))"

record drift_args =
  da_repo :: string
  da_branch :: string
  da_contexts :: string
  da_require_strict :: bool
  da_approvals :: int
  da_codeowner :: bool
  da_dismiss_stale :: bool
  da_last_push :: bool
  da_resolution :: bool
  da_not_on_create :: bool
  da_ruleset_name :: string
  da_merge_methods :: string

text \<open>The defaults, for a repository.\<close>

definition drift_defaults :: "string \<Rightarrow> drift_args" where
  "drift_defaults repo =
     \<lparr>da_repo = repo, da_branch = ''main'', da_contexts = ''CI gate'', da_require_strict = True, da_approvals = 0,
      da_codeowner = False, da_dismiss_stale = True, da_last_push = False, da_resolution = True,
      da_not_on_create = False, da_ruleset_name = ''main protection'', da_merge_methods = ''merge,squash,rebase''\<rparr>"

text \<open>\<open>{x.strip() for x in text.split(",") if x.strip()}\<close>.\<close>

definition comma_set :: "string \<Rightarrow> string list" where
  "comma_set s = remdups (filter (\<lambda>x. x \<noteq> []) (map str_strip (str_split '','' s)))"

subsection \<open>The ruleset\<close>

definition ruleset_matches :: "string \<Rightarrow> json \<Rightarrow> bool" where
  "ruleset_matches name candidate =
     (case candidate of
        JObj d \<Rightarrow> jget d ''name'' = JStr name \<and> jget d ''target'' = JStr ''branch'' \<and> jget d ''enforcement'' = JStr ''active''
      | _ \<Rightarrow> False)"

text \<open>\<open>v.get(key) or {}\<close> and \<open>v.get(key) or []\<close>.\<close>

definition get_or_dict :: "json \<Rightarrow> string \<Rightarrow> json res" where
  "get_or_dict v key = bindE (attr_get v key) (\<lambda>x. Inr (if truthy x then x else JObj []))"

definition get_or_list :: "json \<Rightarrow> string \<Rightarrow> json res" where
  "get_or_list v key = bindE (attr_get v key) (\<lambda>x. Inr (if truthy x then x else JArr []))"

text \<open>\<open>a not in include and b not in include\<close>, the second test only where the first holds.\<close>

definition branch_excluded :: "string \<Rightarrow> json \<Rightarrow> bool res" where
  "branch_excluded branch include =
     bindE (str_in ''~DEFAULT_BRANCH'' include) (\<lambda>b.
       if b then Inr False else bindE (str_in (''refs/heads/'' @ branch) include) (\<lambda>c. Inr (\<not> c)))"

definition ruleset_include :: "json \<Rightarrow> json res" where
  "ruleset_include ruleset =
     bindE (get_or_dict ruleset ''conditions'') (\<lambda>conditions.
     bindE (get_or_dict conditions ''ref_name'') (\<lambda>ref_name. get_or_list ref_name ''include''))"

definition ruleset_errors :: "string \<Rightarrow> json \<Rightarrow> string list res" where
  "ruleset_errors branch ruleset =
     bindE (ruleset_include ruleset) (\<lambda>include.
     bindE (branch_excluded branch include) (\<lambda>excl.
     bindE (attr_get ruleset ''bypass_actors'') (\<lambda>actors.
     Inr ((if excl then [''ruleset include drift: expected ~DEFAULT_BRANCH or refs/heads/'' @ branch @ '', actual='' @
             json_str include] else []) @
          (if \<not> (py_eq actors (JArr []) \<or> is_none actors) then [''ruleset bypass actors must be empty.''] else [])))))"

definition drift_ruleset :: "drift_env \<Rightarrow> drift_args \<Rightarrow> json list \<Rightarrow> string list res" where
  "drift_ruleset h a rulesets =
     (case filter (ruleset_matches (da_ruleset_name a)) rulesets of
        [JObj d] \<Rightarrow>
          bindE (dict_index d ''id'') (\<lambda>i.
          bindE (drift_gh_json h (''repos/'' @ da_repo a @ ''/rulesets/'' @ json_str i)) (ruleset_errors (da_branch a)))
      | ms \<Rightarrow> Inr [''expected exactly one active branch ruleset named '' @ [squote] @ da_ruleset_name a @ [squote] @
                   '', found '' @ nat_str (length ms)])"

subsection \<open>The active rules\<close>

text \<open>
  \<open>{rule.get("type"): rule for ...}\<close>: a later rule of a type takes the place of an earlier one. Only types
  that are strings are looked up; a type that is a list or an object cannot be a key.
\<close>

definition rule_entry :: "json \<Rightarrow> (string \<times> dict) list res" where
  "rule_entry rule =
     (case rule of
        JObj d \<Rightarrow>
          (let t = jget d ''type'' in
           if \<not> truthy t then Inr []
           else if \<not> set_element t then Inl TypeError
           else Inr (case t of JStr s \<Rightarrow> [(s, d)] | _ \<Rightarrow> []))
      | _ \<Rightarrow> Inr [])"

definition active_by_type :: "json list \<Rightarrow> (string \<times> dict) list res" where
  "active_by_type rules = bindE (mapE rule_entry rules) (\<lambda>es. Inr (rev (concat es)))"

definition REQUIRED_RULES :: "string list" where
  "REQUIRED_RULES = [''deletion'', ''non_fast_forward'', ''pull_request'', ''required_status_checks'']"

definition missing_rules :: "(string \<times> dict) list \<Rightarrow> string list" where
  "missing_rules active =
     map (\<lambda>t. ''missing active rule: '' @ t) (filter (\<lambda>t. map_of active t = None) REQUIRED_RULES)"

definition active_rule :: "(string \<times> dict) list \<Rightarrow> string \<Rightarrow> json" where
  "active_rule active t = JObj (case map_of active t of None \<Rightarrow> [] | Some d \<Rightarrow> d)"

text \<open>\<open>actual is not expected\<close> for a boolean.\<close>

definition flag_error :: "string \<Rightarrow> bool \<Rightarrow> json \<Rightarrow> string list" where
  "flag_error label expected actual =
     (if actual \<noteq> JBool expected
      then [label @ '' drift: expected='' @ json_str (JBool expected) @ '' actual='' @ json_str actual] else [])"

text \<open>A set of strings that must be the expected one.\<close>

definition set_error :: "string \<Rightarrow> string list \<Rightarrow> json list \<Rightarrow> string list res" where
  "set_error label expected items =
     bindE (json_set items) (\<lambda>actual.
       if set actual \<noteq> set (map JStr expected)
       then bindE (json_sorted actual) (\<lambda>shown.
         Inr [label @ '' drift: expected='' @ strs_repr (py_sorted expected) @ '' actual='' @ json_repr (JArr shown)])
       else Inr [])"

definition pull_param_errors :: "drift_args \<Rightarrow> json \<Rightarrow> string list res" where
  "pull_param_errors a params =
     bindE (attr_get params ''required_approving_review_count'') (\<lambda>approvals.
     bindE (attr_get params ''require_code_owner_review'') (\<lambda>codeowner.
     bindE (attr_get params ''dismiss_stale_reviews_on_push'') (\<lambda>dismiss.
     bindE (attr_get params ''require_last_push_approval'') (\<lambda>last_push.
     bindE (attr_get params ''required_review_thread_resolution'') (\<lambda>resolution.
     bindE (get_or_list params ''allowed_merge_methods'') (\<lambda>methods.
     bindE (py_iter methods) (\<lambda>items.
     bindE (set_error ''allowed merge methods'' (comma_set (da_merge_methods a)) items) (\<lambda>method_errors.
     Inr ((if \<not> py_eq approvals (JInt (da_approvals a))
           then [''required approvals drift: expected='' @ int_str (da_approvals a) @ '' actual='' @ json_str approvals] else []) @
          flag_error ''codeowner review'' (da_codeowner a) codeowner @
          flag_error ''dismiss stale reviews'' (da_dismiss_stale a) dismiss @
          flag_error ''last push approval'' (da_last_push a) last_push @
          flag_error ''conversation resolution'' (da_resolution a) resolution @ method_errors)))))))))"

definition pull_request_errors :: "drift_args \<Rightarrow> json \<Rightarrow> string list res" where
  "pull_request_errors a rule = bindE (get_or_dict rule ''parameters'') (pull_param_errors a)"

text \<open>The contexts that the items name; an item that is no object or names none is left out.\<close>

definition context_items :: "json list \<Rightarrow> json list" where
  "context_items items =
     concat (map (\<lambda>item. case item of JObj d \<Rightarrow> if truthy (jget d ''context'') then [jget d ''context''] else [] | _ \<Rightarrow> []) items)"

definition check_param_errors :: "drift_args \<Rightarrow> json \<Rightarrow> string list res" where
  "check_param_errors a checks =
     bindE (get_or_list checks ''required_status_checks'') (\<lambda>required.
     bindE (py_iter required) (\<lambda>items.
     bindE (set_error ''required checks'' (comma_set (da_contexts a)) (context_items items)) (\<lambda>context_errors.
     bindE (attr_get_or checks ''strict_required_status_checks_policy'' (JBool False)) (\<lambda>strict.
     bindE (attr_get checks ''do_not_enforce_on_create'') (\<lambda>on_create.
     Inr (context_errors @
          (if da_require_strict a \<and> \<not> truthy strict
           then [''required_status_checks.strict_required_status_checks_policy must be true.''] else []) @
          flag_error ''do_not_enforce_on_create'' (da_not_on_create a) on_create))))))"

definition status_check_errors :: "drift_args \<Rightarrow> json \<Rightarrow> string list res" where
  "status_check_errors a rule = bindE (get_or_dict rule ''parameters'') (check_param_errors a)"

definition drift_rules :: "drift_args \<Rightarrow> json list \<Rightarrow> string list res" where
  "drift_rules a rules =
     bindE (active_by_type rules) (\<lambda>active.
     bindE (pull_request_errors a (active_rule active ''pull_request'')) (\<lambda>pull_errors.
     bindE (status_check_errors a (active_rule active ''required_status_checks'')) (\<lambda>check_errors.
     Inr (missing_rules active @ pull_errors @ check_errors))))"

subsection \<open>The command\<close>

definition drift_queries :: "drift_env \<Rightarrow> drift_args \<Rightarrow> (json \<times> json) res" where
  "drift_queries h a =
     bindE (drift_gh_json h (''repos/'' @ da_repo a @ ''/rulesets'')) (\<lambda>rulesets.
     bindE (drift_gh_json h (''repos/'' @ da_repo a @ ''/rules/branches/'' @ da_branch a)) (\<lambda>active.
     Inr (rulesets, active)))"

definition drift_verdict :: "string list \<Rightarrow> nat \<times> string list" where
  "drift_verdict errors =
     (if errors \<noteq> [] then (1, ''main ruleset drift check failed:'' # map (\<lambda>e. ''- '' @ e) errors)
      else (0, [''Main ruleset drift check: OK'']))"

definition drift_main :: "drift_env \<Rightarrow> drift_args \<Rightarrow> (nat \<times> string list) res" where
  "drift_main h a =
     (if da_repo a = [] then Inr (2, [''main ruleset drift check failed: --repo is required.''])
      else if drift_token h = []
      then Inr (2, [''main ruleset drift check failed: GH_TOKEN is missing. '' @
                    ''Provide a token with repository-ruleset read access.''])
      else (case drift_queries h a of
              Inl (RuntimeError m) \<Rightarrow>
                Inr (2, [''main ruleset drift check failed: unable to query repository rulesets.'', m])
            | Inl e \<Rightarrow> Inl e
            | Inr (rulesets, active) \<Rightarrow>
                bindE (py_iter rulesets) (\<lambda>candidates.
                bindE (drift_ruleset h a candidates) (\<lambda>ruleset_drift.
                bindE (py_iter active) (\<lambda>rules.
                bindE (drift_rules a rules) (\<lambda>rule_drift.
                Inr (drift_verdict (ruleset_drift @ rule_drift))))))))"

subsection \<open>Specification\<close>

definition of_type :: "string \<Rightarrow> json \<Rightarrow> bool" where
  "of_type t rule = (case rule of JObj d \<Rightarrow> jget d ''type'' = JStr t | _ \<Rightarrow> False)"

text \<open>The last rule of a type is the one that counts.\<close>

inductive last_rule :: "json list \<Rightarrow> string \<Rightarrow> dict \<Rightarrow> bool" for rules t where
  "rules = before @ JObj d # after \<Longrightarrow> of_type t (JObj d) \<Longrightarrow> \<forall>r\<in>set after. \<not> of_type t r \<Longrightarrow> last_rule rules t d"

definition types_hashable :: "json list \<Rightarrow> bool" where
  "types_hashable rules \<longleftrightarrow> (\<forall>d. JObj d \<in> set rules \<longrightarrow> truthy (jget d ''type'') \<longrightarrow> set_element (jget d ''type''))"

definition listed :: "json \<Rightarrow> json list \<Rightarrow> bool" where
  "listed v items \<longleftrightarrow> py_iter (if truthy v then v else JArr []) = Inr items"

definition pull_request_ok :: "drift_args \<Rightarrow> dict \<Rightarrow> bool" where
  "pull_request_ok a p \<longleftrightarrow> py_eq (jget p ''required_approving_review_count'') (JInt (da_approvals a)) \<and>
     jget p ''require_code_owner_review'' = JBool (da_codeowner a) \<and>
     jget p ''dismiss_stale_reviews_on_push'' = JBool (da_dismiss_stale a) \<and>
     jget p ''require_last_push_approval'' = JBool (da_last_push a) \<and>
     jget p ''required_review_thread_resolution'' = JBool (da_resolution a) \<and>
     (\<exists>items. listed (jget p ''allowed_merge_methods'') items \<and> set items = JStr ` set (comma_set (da_merge_methods a)))"

definition status_checks_ok :: "drift_args \<Rightarrow> dict \<Rightarrow> bool" where
  "status_checks_ok a c \<longleftrightarrow>
     (\<exists>items. listed (jget c ''required_status_checks'') items \<and>
        set (context_items items) = JStr ` set (comma_set (da_contexts a))) \<and>
     (da_require_strict a \<longrightarrow> truthy (dict_get_or c ''strict_required_status_checks_policy'' (JBool False))) \<and>
     jget c ''do_not_enforce_on_create'' = JBool (da_not_on_create a)"

definition ruleset_ok :: "string \<Rightarrow> dict \<Rightarrow> bool" where
  "ruleset_ok branch r \<longleftrightarrow>
     (\<exists>conditions ref. jget r ''conditions'' = JObj conditions \<and> jget conditions ''ref_name'' = JObj ref \<and>
        (\<exists>name\<in>{''~DEFAULT_BRANCH'', ''refs/heads/'' @ branch}. str_in name (jget ref ''include'') = Inr True)) \<and>
     jget r ''bypass_actors'' \<in> {JNull, JArr []}"

subsection \<open>Sets of strings\<close>

lemma uniq_step:
  "JStr s \<in> set (foldl (\<lambda>acc x. if list_ex (py_eq x) acc then acc else acc @ [x]) acc xs) \<longleftrightarrow> JStr s \<in> set acc \<or> JStr s \<in> set xs"
proof (induction xs arbitrary: acc)
  case (Cons x xs)
  have "list_ex (py_eq x) acc \<Longrightarrow> x = JStr s \<Longrightarrow> JStr s \<in> set acc" by (auto simp: list_ex_iff)
  with Cons show ?case by auto
qed simp

lemma uniq_sub:
  "set (foldl (\<lambda>acc x. if list_ex (py_eq x) acc then acc else acc @ [x]) acc xs) \<subseteq> set acc \<union> set xs"
proof (induction xs arbitrary: acc)
  case (Cons x xs)
  show ?case using Cons [of acc] Cons [of "acc @ [x]"] by auto
qed simp

lemma uniq_rest:
  "v \<in> set xs \<Longrightarrow> \<exists>w\<in>set (foldl (\<lambda>acc x. if list_ex (py_eq x) acc then acc else acc @ [x]) acc xs). v = w \<or> py_eq v w"
proof (induction xs arbitrary: acc)
  case (Cons x xs)
  have keep: "set acc \<subseteq> set (foldl (\<lambda>acc x. if list_ex (py_eq x) acc then acc else acc @ [x]) acc ys)" for acc ys
    by (induction ys arbitrary: acc) (auto, force)
  show ?case
  proof (cases "v \<in> set xs")
    case True
    with Cons.IH show ?thesis by auto
  next
    case False
    with Cons.prems have "v = x" by simp
    then show ?thesis using keep [of acc xs] keep [of "acc @ [x]" xs] by (auto simp: list_ex_iff)
  qed
qed simp

lemma json_set_strs:
  "(\<exists>vs. json_set xs = Inr vs \<and> set vs = JStr ` S) \<longleftrightarrow> set xs = JStr ` S"
proof
  assume "\<exists>vs. json_set xs = Inr vs \<and> set vs = JStr ` S"
  then obtain vs where vs: "json_set xs = Inr vs" "set vs = JStr ` S" by blast
  then have eq: "vs = foldl (\<lambda>acc x. if list_ex (py_eq x) acc then acc else acc @ [x]) [] xs"
    by (auto simp: json_set_def split: if_splits)
  have "x \<in> JStr ` S" if "x \<in> set xs" for x
    using uniq_rest [OF that, of "[]"] vs(2) unfolding eq [symmetric] by auto
  moreover have "JStr s \<in> set xs" if "s \<in> S" for s
    using uniq_step [of s "[]" xs] vs(2) that unfolding eq [symmetric] by auto
  ultimately show "set xs = JStr ` S" by auto
next
  assume xs: "set xs = JStr ` S"
  then have "list_all set_element xs" by (auto simp: list_all_iff set_element_def)
  moreover have "set (foldl (\<lambda>acc x. if list_ex (py_eq x) acc then acc else acc @ [x]) [] xs) = JStr ` S"
    using uniq_sub [of "[]" xs] uniq_step [of _ "[]" xs] xs by auto
  ultimately show "\<exists>vs. json_set xs = Inr vs \<and> set vs = JStr ` S" by (simp add: json_set_def)
qed

lemma set_error_Nil: "set_error label expected items = Inr [] \<longleftrightarrow> set items = JStr ` set expected"
proof -
  have "set_error label expected items = Inr [] \<longleftrightarrow> (\<exists>vs. json_set items = Inr vs \<and> set vs = set (map JStr expected))"
    by (auto simp: set_error_def bindE_Inr)
  then show ?thesis by (simp only: set_map json_set_strs)
qed

subsection \<open>No error\<close>

lemma flag_error_Nil: "flag_error label b v = [] \<longleftrightarrow> v = JBool b"
  by (simp add: flag_error_def)

lemma jget_Nil [simp]: "jget [] k = JNull"
  by (simp add: dict_get_def)

text \<open>An object or an empty one, an error, or what a value that is no object gives.\<close>

lemma get_or_dict_cases:
  "get_or_dict (JObj d) k =
     Inr (case jget d k of JObj p \<Rightarrow> JObj p | v \<Rightarrow> if truthy v then v else JObj [])"
  by (cases "jget d k") (auto simp: get_or_dict_def)

lemma get_or_list_obj: "get_or_list (JObj d) k = Inr (if truthy (jget d k) then jget d k else JArr [])"
  by (simp add: get_or_list_def)

lemma or_dict_Inr:
  "bindE (get_or_dict (JObj d) k) f = Inr [] \<longleftrightarrow>
     (\<exists>p. jget d k = JObj p \<and> f (JObj p) = Inr []) \<or>
     (\<not> is_dict (jget d k) \<and> f (if truthy (jget d k) then jget d k else JObj []) = Inr [])"
  by (cases "jget d k") (simp_all add: get_or_dict_cases)

lemma pull_param_Nil: "pull_param_errors a v = Inr [] \<longleftrightarrow> (\<exists>p. v = JObj p \<and> pull_request_ok a p)"
proof (cases v)
  case (JObj p)
  have "pull_param_errors a (JObj p) = Inr [] \<longleftrightarrow>
      (\<exists>items. listed (jget p ''allowed_merge_methods'') items \<and>
         set_error ''allowed merge methods'' (comma_set (da_merge_methods a)) items = Inr []) \<and>
      py_eq (jget p ''required_approving_review_count'') (JInt (da_approvals a)) \<and>
      jget p ''require_code_owner_review'' = JBool (da_codeowner a) \<and>
      jget p ''dismiss_stale_reviews_on_push'' = JBool (da_dismiss_stale a) \<and>
      jget p ''require_last_push_approval'' = JBool (da_last_push a) \<and>
      jget p ''required_review_thread_resolution'' = JBool (da_resolution a)"
    unfolding pull_param_errors_def attr_get.simps bindE_simps get_or_list_obj bindE_Inr listed_def
    by (auto simp: flag_error_Nil simp del: py_eq.simps)
  then show ?thesis by (auto simp: JObj pull_request_ok_def set_error_Nil)
qed (simp_all add: pull_param_errors_def)

lemma check_param_Nil: "check_param_errors a v = Inr [] \<longleftrightarrow> (\<exists>c. v = JObj c \<and> status_checks_ok a c)"
proof (cases v)
  case (JObj c)
  have "check_param_errors a (JObj c) = Inr [] \<longleftrightarrow>
      (\<exists>items. listed (jget c ''required_status_checks'') items \<and>
         set_error ''required checks'' (comma_set (da_contexts a)) (context_items items) = Inr []) \<and>
      (da_require_strict a \<longrightarrow> truthy (dict_get_or c ''strict_required_status_checks_policy'' (JBool False))) \<and>
      jget c ''do_not_enforce_on_create'' = JBool (da_not_on_create a)"
    unfolding check_param_errors_def attr_get.simps attr_get_or.simps bindE_simps get_or_list_obj bindE_Inr listed_def
    by (auto simp: flag_error_Nil)
  then show ?thesis by (auto simp: JObj status_checks_ok_def set_error_Nil)
qed (simp_all add: check_param_errors_def get_or_list_def)

lemma pull_request_Nil:
  "pull_request_errors a (JObj d) = Inr [] \<longleftrightarrow> (\<exists>p. jget d ''parameters'' = JObj p \<and> pull_request_ok a p)"
proof -
  have "\<not> pull_request_ok a []" by (simp add: pull_request_ok_def)
  then show ?thesis
    unfolding pull_request_errors_def or_dict_Inr pull_param_Nil by (cases "jget d ''parameters''") auto
qed

lemma status_check_Nil:
  "status_check_errors a (JObj d) = Inr [] \<longleftrightarrow> (\<exists>c. jget d ''parameters'' = JObj c \<and> status_checks_ok a c)"
proof -
  have "\<not> status_checks_ok a []" by (simp add: status_checks_ok_def)
  then show ?thesis
    unfolding status_check_errors_def or_dict_Inr check_param_Nil by (cases "jget d ''parameters''") auto
qed

lemma branch_excluded_False:
  "branch_excluded b v = Inr False \<longleftrightarrow> (\<exists>name\<in>{''~DEFAULT_BRANCH'', ''refs/heads/'' @ b}. str_in name v = Inr True)"
  by (cases v) (auto simp: branch_excluded_def)

lemma str_in_falsy: "str_in (c # cs) v = Inr True \<Longrightarrow> truthy v"
  by (cases v) (auto simp: contains_def str_in_arr_def has_key_def)

lemma include_ok:
  "(\<exists>v. ruleset_include (JObj r) = Inr v \<and> branch_excluded b v = Inr False) \<longleftrightarrow>
   (\<exists>conditions ref. jget r ''conditions'' = JObj conditions \<and> jget conditions ''ref_name'' = JObj ref \<and>
      (\<exists>name\<in>{''~DEFAULT_BRANCH'', ''refs/heads/'' @ b}. str_in name (jget ref ''include'') = Inr True))"
proof -
  define found where "found v \<longleftrightarrow> (\<exists>name\<in>{''~DEFAULT_BRANCH'', ''refs/heads/'' @ b}. str_in name v = Inr True)" for v
  have truthy: "found v \<Longrightarrow> truthy v" for v unfolding found_def by (auto dest: str_in_falsy)
  have list: "(\<exists>v. get_or_list x ''include'' = Inr v \<and> found v) \<longleftrightarrow> (\<exists>ref. x = JObj ref \<and> found (jget ref ''include''))" for x
    using truthy truthy [of "JArr []"] by (cases x) (auto simp: get_or_list_def)
  have name: "(\<exists>v. bindE (get_or_dict x ''ref_name'') (\<lambda>n. get_or_list n ''include'') = Inr v \<and> found v) \<longleftrightarrow>
      (\<exists>c ref. x = JObj c \<and> jget c ''ref_name'' = JObj ref \<and> found (jget ref ''include''))" for x
  proof (cases x)
    case (JObj c)
    show ?thesis
      unfolding JObj get_or_dict_cases bindE_simps list
      using truthy [of JNull] by (cases "jget c ''ref_name''") auto
  qed (simp_all add: get_or_dict_def)
  show ?thesis
    unfolding ruleset_include_def branch_excluded_False found_def [symmetric] get_or_dict_cases [of r] bindE_simps name
    by (cases "jget r ''conditions''") auto
qed

lemma ruleset_errors_Nil: "ruleset_errors b v = Inr [] \<longleftrightarrow> (\<exists>r. v = JObj r \<and> ruleset_ok b r)"
proof (cases v)
  case (JObj r)
  have "ruleset_errors b (JObj r) = Inr [] \<longleftrightarrow>
      (\<exists>v. ruleset_include (JObj r) = Inr v \<and> branch_excluded b v = Inr False) \<and> jget r ''bypass_actors'' \<in> {JNull, JArr []}"
    by (auto simp: ruleset_errors_def bindE_Inr is_none_def)
  then show ?thesis by (simp add: JObj include_ok ruleset_ok_def)
qed (auto simp: ruleset_errors_def ruleset_include_def get_or_dict_def)

lemma last_rule_snoc: "last_rule (rules @ [r]) t d \<longleftrightarrow> (if of_type t r then r = JObj d else last_rule rules t d)"
proof (cases "of_type t r")
  case True
  have "last_rule (rules @ [r]) t d \<longleftrightarrow> r = JObj d"
  proof
    assume "last_rule (rules @ [r]) t d"
    then obtain before after where eq: "rules @ [r] = before @ JObj d # after" and "\<forall>r\<in>set after. \<not> of_type t r"
      by (auto elim: last_rule.cases)
    with True show "r = JObj d" by (cases after rule: rev_cases) auto
  next
    assume "r = JObj d"
    with True show "last_rule (rules @ [r]) t d" by (intro last_rule.intros [where before = rules and after = "[]"]) auto
  qed
  with True show ?thesis by simp
next
  case False
  have "last_rule (rules @ [r]) t d \<longleftrightarrow> last_rule rules t d"
  proof
    assume "last_rule (rules @ [r]) t d"
    then obtain before after where eq: "rules @ [r] = before @ JObj d # after" "of_type t (JObj d)"
        "\<forall>r\<in>set after. \<not> of_type t r" by (auto elim: last_rule.cases)
    with False obtain rest where "after = rest @ [r]" by (cases after rule: rev_cases) auto
    with eq show "last_rule rules t d" by (intro last_rule.intros [where before = before and after = rest]) auto
  next
    assume "last_rule rules t d"
    then obtain before after where "rules = before @ JObj d # after" "of_type t (JObj d)" "\<forall>r\<in>set after. \<not> of_type t r"
      by (auto elim: last_rule.cases)
    with False show "last_rule (rules @ [r]) t d"
      by (intro last_rule.intros [where before = before and after = "after @ [r]"]) auto
  qed
  with False show ?thesis by simp
qed

definition entry_of :: "json \<Rightarrow> (string \<times> dict) list" where
  "entry_of rule = (case rule of JObj d \<Rightarrow> (case jget d ''type'' of JStr (c # s) \<Rightarrow> [(c # s, d)] | _ \<Rightarrow> []) | _ \<Rightarrow> [])"

lemma rule_entry_Inr:
  "rule_entry r = Inr es \<longleftrightarrow> es = entry_of r \<and> types_hashable [r]"
proof (cases r)
  case (JObj d)
  then show ?thesis
    by (cases "jget d ''type''") (auto simp: rule_entry_def entry_of_def types_hashable_def set_element_def Let_def split: list.splits if_splits)
qed (auto simp: rule_entry_def entry_of_def types_hashable_def)

lemma active_by_type_Inr:
  "active_by_type rules = Inr active \<longleftrightarrow> types_hashable rules \<and> active = rev (concat (map entry_of rules))"
proof -
  have "mapE rule_entry rules = Inr es \<longleftrightarrow> types_hashable rules \<and> es = map entry_of rules" for es
    unfolding mapE_Inr rule_entry_Inr
    by (induction rules arbitrary: es) (auto simp: types_hashable_def list_all2_Cons1)
  then show ?thesis by (auto simp: active_by_type_def bindE_Inr)
qed

lemma map_of_active: "t \<noteq> [] \<Longrightarrow> map_of (rev (concat (map entry_of rules))) t = Some d \<longleftrightarrow> last_rule rules t d"
proof (induction rules rule: rev_induct)
  case Nil
  then show ?case by (auto elim: last_rule.cases)
next
  case (snoc r rules)
  have "map_of (rev (entry_of r)) t = (case r of JObj d \<Rightarrow> if of_type t r then Some d else None | _ \<Rightarrow> None)"
    using snoc.prems by (auto simp: entry_of_def of_type_def split: json.splits list.splits)
  with snoc show ?case
    by (auto simp: last_rule_snoc map_add_def of_type_def split: json.splits if_splits option.splits)
qed

lemma drift_rules_Nil:
  "drift_rules a rules = Inr [] \<longleftrightarrow> types_hashable rules \<and>
     (\<exists>d. last_rule rules ''deletion'' d) \<and> (\<exists>d. last_rule rules ''non_fast_forward'' d) \<and>
     (\<exists>d p. last_rule rules ''pull_request'' d \<and> jget d ''parameters'' = JObj p \<and> pull_request_ok a p) \<and>
     (\<exists>d c. last_rule rules ''required_status_checks'' d \<and> jget d ''parameters'' = JObj c \<and> status_checks_ok a c)"
proof -
  let ?active = "rev (concat (map entry_of rules))"
  have missing: "missing_rules ?active = [] \<longleftrightarrow> (\<forall>t\<in>set REQUIRED_RULES. \<exists>d. map_of ?active t = Some d)"
    by (auto simp: missing_rules_def filter_empty_conv)
  have rule: "active_rule ?active t = JObj d" if "map_of ?active t = Some d" for t d
    using that by (simp add: active_rule_def)
  have "drift_rules a rules = Inr [] \<longleftrightarrow> types_hashable rules \<and> missing_rules ?active = [] \<and>
      pull_request_errors a (active_rule ?active ''pull_request'') = Inr [] \<and>
      status_check_errors a (active_rule ?active ''required_status_checks'') = Inr []"
    by (auto simp: drift_rules_def bindE_Inr active_by_type_Inr)
  also have "\<dots> \<longleftrightarrow> types_hashable rules \<and> missing_rules ?active = [] \<and>
      (\<exists>d p. map_of ?active ''pull_request'' = Some d \<and> jget d ''parameters'' = JObj p \<and> pull_request_ok a p) \<and>
      (\<exists>d c. map_of ?active ''required_status_checks'' = Some d \<and> jget d ''parameters'' = JObj c \<and> status_checks_ok a c)"
    unfolding missing REQUIRED_RULES_def using rule by (auto simp: pull_request_Nil status_check_Nil)
  finally show ?thesis unfolding missing REQUIRED_RULES_def by (auto simp: map_of_active)
qed

lemma drift_ruleset_Nil:
  "drift_ruleset h a cs = Inr [] \<longleftrightarrow>
     (\<exists>d i r. filter (ruleset_matches (da_ruleset_name a)) cs = [JObj d] \<and> map_of d ''id'' = Some i \<and>
        drift_gh_json h (''repos/'' @ da_repo a @ ''/rulesets/'' @ json_str i) = Inr (JObj r) \<and> ruleset_ok (da_branch a) r)"
proof -
  have one: "bindE (dict_index d ''id'') (\<lambda>i.
        bindE (drift_gh_json h (''repos/'' @ da_repo a @ ''/rulesets/'' @ json_str i)) (ruleset_errors (da_branch a))) = Inr [] \<longleftrightarrow>
      (\<exists>i r. map_of d ''id'' = Some i \<and>
        drift_gh_json h (''repos/'' @ da_repo a @ ''/rulesets/'' @ json_str i) = Inr (JObj r) \<and> ruleset_ok (da_branch a) r)" for d
    by (auto simp: bindE_Inr dict_index_Inr ruleset_errors_Nil)
  have "drift_ruleset h a cs = Inr [] \<longleftrightarrow>
      (\<exists>d. filter (ruleset_matches (da_ruleset_name a)) cs = [JObj d] \<and> bindE (dict_index d ''id'') (\<lambda>i.
        bindE (drift_gh_json h (''repos/'' @ da_repo a @ ''/rulesets/'' @ json_str i)) (ruleset_errors (da_branch a))) = Inr [])"
    by (simp add: drift_ruleset_def split: list.split json.split)
  then show ?thesis unfolding one by blast
qed

text \<open>A query of the ruleset itself is outside the handler: its failure ends the run with an exception, not with 2.\<close>

lemma late_query_escapes:
  assumes "da_repo a \<noteq> []" "drift_token h \<noteq> []" "drift_queries h a = Inr (JArr cs, active)"
    and "filter (ruleset_matches (da_ruleset_name a)) cs = [JObj d]" "map_of d ''id'' = Some i"
    and "drift_gh_json h (''repos/'' @ da_repo a @ ''/rulesets/'' @ json_str i) = Inl (RuntimeError m)"
  shows "drift_main h a = Inl (RuntimeError m)"
  using assms by (simp add: drift_main_def drift_ruleset_def dict_index_def)

text \<open>C14: the check exits with 0 exactly when the branch is protected as expected. The repository and the token are
given and every query is answered; one active ruleset of the expected name, without bypass actors, covers the
branch; deletion and forced pushes are ruled out; and in the last rule of each kind, which is the one compared, the
pull-request parameters are the expected ones and the required status checks are exactly the expected contexts,
strictly enforced.\<close>

theorem branch_protection_iff:
  "(\<exists>out. drift_main h a = Inr (0, out)) \<longleftrightarrow> da_repo a \<noteq> [] \<and> drift_token h \<noteq> [] \<and>
     (\<exists>rulesets active candidates rules.
        drift_gh_json h (''repos/'' @ da_repo a @ ''/rulesets'') = Inr rulesets \<and> py_iter rulesets = Inr candidates \<and>
        drift_gh_json h (''repos/'' @ da_repo a @ ''/rules/branches/'' @ da_branch a) = Inr active \<and> py_iter active = Inr rules \<and>
        (\<exists>d i r. filter (ruleset_matches (da_ruleset_name a)) candidates = [JObj d] \<and> map_of d ''id'' = Some i \<and>
           drift_gh_json h (''repos/'' @ da_repo a @ ''/rulesets/'' @ json_str i) = Inr (JObj r) \<and> ruleset_ok (da_branch a) r) \<and>
        types_hashable rules \<and> (\<exists>d. last_rule rules ''deletion'' d) \<and> (\<exists>d. last_rule rules ''non_fast_forward'' d) \<and>
        (\<exists>d p. last_rule rules ''pull_request'' d \<and> jget d ''parameters'' = JObj p \<and> pull_request_ok a p) \<and>
        (\<exists>d c. last_rule rules ''required_status_checks'' d \<and> jget d ''parameters'' = JObj c \<and> status_checks_ok a c))"
proof -
  have verdict: "drift_verdict es = (0, out) \<longleftrightarrow> es = [] \<and> out = [''Main ruleset drift check: OK'']" for es out
    by (auto simp: drift_verdict_def)
  have queries: "drift_queries h a = Inr (rs, ac) \<longleftrightarrow> drift_gh_json h (''repos/'' @ da_repo a @ ''/rulesets'') = Inr rs \<and>
      drift_gh_json h (''repos/'' @ da_repo a @ ''/rules/branches/'' @ da_branch a) = Inr ac" for rs ac
    by (auto simp: drift_queries_def bindE_Inr)
  have main: "(\<exists>out. drift_main h a = Inr (0, out)) \<longleftrightarrow> da_repo a \<noteq> [] \<and> drift_token h \<noteq> [] \<and>
      (\<exists>rs ac cs rules. drift_queries h a = Inr (rs, ac) \<and> py_iter rs = Inr cs \<and> drift_ruleset h a cs = Inr [] \<and>
         py_iter ac = Inr rules \<and> drift_rules a rules = Inr [])"
  proof (cases "drift_queries h a")
    case (Inl e)
    then show ?thesis by (cases e) (auto simp: drift_main_def)
  next
    case (Inr q)
    then show ?thesis by (cases q) (auto simp: drift_main_def bindE_Inr verdict)
  qed
  show ?thesis unfolding main queries drift_ruleset_Nil drift_rules_Nil by blast
qed

text \<open>A repository with the default expectations; an earlier ruleset asks for another context too.\<close>

definition ex_rules :: "json list" where
  "ex_rules =
     [JObj [(''type'', JStr ''deletion'')], JObj [(''type'', JStr ''non_fast_forward'')],
      JObj [(''type'', JStr ''pull_request''), (''parameters'', JObj
        [(''required_approving_review_count'', JInt 0), (''require_code_owner_review'', JBool False),
         (''dismiss_stale_reviews_on_push'', JBool True), (''require_last_push_approval'', JBool False),
         (''required_review_thread_resolution'', JBool True),
         (''allowed_merge_methods'', JArr [JStr ''merge'', JStr ''squash'', JStr ''rebase''])])],
      JObj [(''type'', JStr ''required_status_checks''), (''parameters'', JObj
        [(''required_status_checks'', JArr [JObj [(''context'', JStr ''old'')]])])],
      JObj [(''type'', JStr ''required_status_checks''), (''parameters'', JObj
        [(''required_status_checks'', JArr [JObj [(''context'', JStr ''CI gate'')]]),
         (''strict_required_status_checks_policy'', JBool True), (''do_not_enforce_on_create'', JBool False)])]]"

definition ex_drift :: drift_env where
  "ex_drift = \<lparr>drift_api = (\<lambda>e. Inr (0, e, [])),
     drift_loads = map_of
       [(''repos/o/r/rulesets'', JArr [JObj [(''id'', JInt 7), (''name'', JStr ''main protection''),
           (''target'', JStr ''branch''), (''enforcement'', JStr ''active'')]]),
        (''repos/o/r/rulesets/7'', JObj [(''conditions'', JObj [(''ref_name'', JObj
           [(''include'', JArr [JStr ''~DEFAULT_BRANCH''])])]), (''bypass_actors'', JArr [])]),
        (''repos/o/r/rules/branches/main'', JArr ex_rules)],
     drift_token = ''t''\<rparr>"

theorem branch_protection_iff_witness:
  "\<exists>d c. last_rule ex_rules ''required_status_checks'' d \<and> jget d ''parameters'' = JObj c \<and>
     status_checks_ok (drift_defaults ''o/r'') c"
proof -
  have "(case drift_main ex_drift (drift_defaults ''o/r'') of Inr (n, _) \<Rightarrow> n = 0 | _ \<Rightarrow> False)" by code_simp
  then have run: "\<exists>out. drift_main ex_drift (drift_defaults ''o/r'') = Inr (0, out)" by (auto split: sum.splits)
  have "drift_gh_json ex_drift (''repos/'' @ da_repo (drift_defaults ''o/r'') @ ''/rules/branches/'' @ da_branch (drift_defaults ''o/r'')) =
      Inr (JArr ex_rules)"
    by (simp add: drift_gh_json_def ex_drift_def drift_defaults_def)
  with branch_protection_iff [THEN iffD1, OF run] show ?thesis by fastforce
qed

end
