(* ===== verification/JsonCanon.thy ===== *)
theory JsonCanon
  imports JsonText
begin

text \<open>
  The compact text of a value without floats determines the value: \<open>json.dumps\<close> with sorted keys is a
  canonical form. The proof is about any escaping of characters that can be read back, an
  interface that the two escapings of \<open>json.dumps\<close> provide.
\<close>

subsection \<open>Compact text\<close>

definition quoted :: "(char \<Rightarrow> string) \<Rightarrow> string \<Rightarrow> string" where
  "quoted esc s = dquote # concat (map esc s) @ [dquote]"

fun jtext :: "(char \<Rightarrow> string) \<Rightarrow> json \<Rightarrow> string" where
  "jtext esc JNull = ''null''"
| "jtext esc (JBool b) = (if b then ''true'' else ''false'')"
| "jtext esc (JInt i) = int_str i"
| "jtext esc (JFloat f r) = dumps_float f r"
| "jtext esc (JStr s) = quoted esc s"
| "jtext esc (JArr xs) = CHR ''['' # str_join '','' (map (jtext esc) xs) @ '']''"
| "jtext esc (JObj d) = CHR 0x7B # str_join '','' (map (\<lambda>(k, v). quoted esc k @ '':'' @ jtext esc v) d) @ [CHR 0x7D]"

fun float_free :: "json \<Rightarrow> bool" where
  "float_free (JFloat _ _) = False"
| "float_free (JArr xs) = list_all float_free xs"
| "float_free (JObj d) = list_all (\<lambda>(k, v). float_free v) d"
| "float_free _ = True"

text \<open>What may follow a value: nothing, a comma, or the end of the list or object it is in.\<close>

definition delim :: "string \<Rightarrow> bool" where
  "delim x \<longleftrightarrow> x = [] \<or> hd x \<in> {CHR '','', CHR '']'', CHR 0x7D}"

lemma delim_simps [simp]: "delim []" "delim (CHR '','' # x)" "delim (CHR '']'' # x)" "delim (CHR 0x7D # x)"
  by (simp_all add: delim_def)

subsection \<open>Numbers\<close>

definition numch :: "char \<Rightarrow> bool" where
  "numch c \<longleftrightarrow> c = CHR ''-'' \<or> chr_is_ascii_digit c"

lemma nat_str_ascii_digits: "list_all chr_is_ascii_digit (nat_str n)"
proof (induction n rule: nat_str.induct)
  case (1 n)
  have digit: "chr_is_ascii_digit (digit_char k)" if "k < 10" for k
    using that by (simp add: chr_is_ascii_digit_def digit_char_def)
  show ?case
  proof (cases "n < 10")
    case True
    then show ?thesis by (subst nat_str.simps) (simp add: digit)
  next
    case False
    with 1 show ?thesis by (subst nat_str.simps) (simp add: digit)
  qed
qed

lemma int_str_num: "list_all numch (int_str i)" "int_str i \<noteq> []"
  using nat_str_ascii_digits by (auto simp: int_str_def numch_def list_all_iff)

lemma int_str_inject: "int_str i = int_str j \<Longrightarrow> i = j"
proof -
  have minus: "nat_str n \<noteq> CHR ''-'' # s" for n s
    using nat_str_ascii_digits [of n] by (auto simp: chr_is_ascii_digit_def)
  assume "int_str i = int_str j"
  then show "i = j"
    by (auto simp: int_str_def nat_str_inject minus minus [symmetric] split: if_splits)
qed

lemma takeWhile_numch: "delim x \<Longrightarrow> takeWhile numch (int_str i @ x) = int_str i"
proof -
  assume "delim x"
  then have "takeWhile numch x = []"
    by (cases x) (auto simp: delim_def numch_def chr_is_ascii_digit_def)
  moreover have "\<And>c. c \<in> set (int_str i) \<Longrightarrow> numch c" using int_str_num(1) [of i] by (auto simp: list_all_iff)
  ultimately show ?thesis by (subst takeWhile_append2) auto
qed

lemma int_read:
  assumes "delim x" "delim y" "int_str i @ x = int_str j @ y"
  shows "i = j \<and> x = y"
proof -
  from assms have "int_str i = int_str j" by (metis takeWhile_numch)
  with assms(3) show ?thesis by (auto dest: int_str_inject)
qed

subsection \<open>Unique reading\<close>

text \<open>The items of a list up to its closing character.\<close>

lemma join_read:
  assumes items: "\<And>a b u v. a \<in> set xs \<Longrightarrow> b \<in> set ys \<Longrightarrow> delim u \<Longrightarrow> delim v \<Longrightarrow> f a @ u = f b @ v \<Longrightarrow> a = b \<and> u = v"
    and close: "c = CHR '']'' \<or> c = CHR 0x7D"
    and first: "\<And>a r q. a \<in> set xs \<union> set ys \<Longrightarrow> f a @ r \<noteq> c # q"
  shows "str_join '','' (map f xs) @ c # x = str_join '','' (map f ys) @ c # y \<Longrightarrow> xs = ys \<and> x = y"
  using items first
proof (induction xs arbitrary: ys)
  case Nil
  show ?case
  proof (cases ys)
    case (Cons b bs)
    have "str_join '','' (map f ys) @ c # y \<noteq> c # x"
      using Nil.prems(3) [of b] Cons by (cases bs) (auto simp: append_assoc)
    with Nil.prems(1) show ?thesis by simp
  qed (use Nil in simp)
next
  case outer: (Cons a as)
  let ?rest = "\<lambda>zs z. case zs of [] \<Rightarrow> c # z | _ \<Rightarrow> CHR '','' # str_join '','' (map f zs) @ c # z"
  have step: "str_join '','' (map f (b # bs)) @ c # z = f b @ ?rest bs z" for b bs z
    by (cases bs) simp_all
  have d: "delim (?rest bs z)" for bs z using close by (cases bs) auto
  show ?case
  proof (cases ys)
    case Nil
    have "str_join '','' (map f (a # as)) @ c # x \<noteq> c # y"
      unfolding step using outer.prems(3) [of a] by simp
    with outer.prems(1) Nil show ?thesis by simp
  next
    case (Cons b bs)
    have "f a @ ?rest as x = f b @ ?rest bs y" using outer.prems(1) unfolding Cons step .
    with outer.prems(2) [of a b] d Cons have ab: "a = b" "?rest as x = ?rest bs y" by auto
    show ?thesis
    proof (cases "as = [] \<or> bs = []")
      case True
      with ab(2) close have "as = [] \<and> bs = [] \<and> x = y" by (cases as; cases bs) auto
      with ab(1) Cons show ?thesis by simp
    next
      case False
      with ab(2) have eq: "str_join '','' (map f as) @ c # x = str_join '','' (map f bs) @ c # y"
        by (cases as; cases bs) auto
      have "as = bs \<and> x = y"
      proof (rule outer.IH [OF eq])
        show "\<And>a b u v. a \<in> set as \<Longrightarrow> b \<in> set bs \<Longrightarrow> delim u \<Longrightarrow> delim v \<Longrightarrow> f a @ u = f b @ v \<Longrightarrow> a = b \<and> u = v"
          using outer.prems(2) Cons by auto
        show "\<And>a r q. a \<in> set as \<union> set bs \<Longrightarrow> f a @ r \<noteq> c # q" using outer.prems(3) Cons by auto
      qed
      with ab(1) Cons show ?thesis by simp
    qed
  qed
qed

text \<open>An escaping: each character has a text of its own, which does not begin with a quote and tells where it ends.\<close>

locale text_code =
  fixes esc :: "char \<Rightarrow> string"
  assumes esc_ne: "esc c \<noteq> []"
    and esc_open: "esc c \<noteq> dquote # r"
    and esc_read: "esc a @ x = esc b @ y \<Longrightarrow> a = b"

definition kind_of :: "char \<Rightarrow> nat" where
  "kind_of c =
     (if c = CHR ''n'' then 0 else if c = CHR ''t'' then 1 else if c = CHR ''f'' then 2 else if c = dquote then 3
      else if c = CHR ''['' then 4 else if c = CHR 0x7B then 5 else if numch c then 6 else 7)"

fun kind :: "json \<Rightarrow> nat" where
  "kind JNull = 0" | "kind (JBool b) = (if b then 1 else 2)" | "kind (JInt _) = 6" | "kind (JFloat _ _) = 7"
| "kind (JStr _) = 3" | "kind (JArr _) = 4" | "kind (JObj _) = 5"

lemma kind_head: "float_free v \<Longrightarrow> \<exists>c r. jtext esc v = c # r \<and> kind_of c = kind v"
proof (cases v)
  case (JInt i)
  obtain c r where "int_str i = c # r" using int_str_num(2) [of i] by (cases "int_str i") auto
  moreover with int_str_num(1) [of i] have "numch c" by simp
  moreover from this have "kind_of c = 6" by (auto simp: kind_of_def numch_def chr_is_ascii_digit_def)
  ultimately show ?thesis using JInt by simp
qed (auto simp: kind_of_def quoted_def)

lemma kind_eq:
  assumes "float_free a" "float_free b" "jtext esc a @ x = jtext esc b @ y"
  shows "kind a = kind b"
proof -
  from kind_head [OF assms(1)] obtain c r where "jtext esc a = c # r" "kind_of c = kind a" by blast
  moreover from kind_head [OF assms(2)] obtain c' r' where "jtext esc b = c' # r'" "kind_of c' = kind b" by blast
  ultimately show ?thesis using assms(3) by simp
qed

lemma not_closing:
  assumes "float_free a" "c = CHR '']'' \<or> c = CHR 0x7D"
  shows "jtext esc a @ r \<noteq> c # q"
proof
  assume eq: "jtext esc a @ r = c # q"
  from kind_head [OF assms(1)] obtain c' r' where "jtext esc a = c' # r'" "kind_of c' = kind a" by blast
  with eq have "kind_of c = kind a" by simp
  moreover have "kind_of c = 7" using assms(2) by (auto simp: kind_of_def numch_def chr_is_ascii_digit_def)
  ultimately show False using assms(1) by (cases a) (auto split: if_splits)
qed

context text_code
begin

lemma quoted_read: "quoted esc s @ x = quoted esc t @ y \<Longrightarrow> s = t \<and> x = y"
proof -
  have "concat (map esc s) @ dquote # x = concat (map esc t) @ dquote # y \<Longrightarrow> s = t \<and> x = y"
  proof (induction s arbitrary: t)
    case Nil
    show ?case
    proof (cases t)
      case (Cons c cs)
      have "esc c @ r \<noteq> dquote # q" for r q
        using esc_ne [of c] esc_open [of c] by (cases "esc c") auto
      from this [of "concat (map esc cs) @ dquote # y" x] Nil Cons show ?thesis by simp
    qed (use Nil in simp)
  next
    case outer: (Cons a s)
    show ?case
    proof (cases t)
      case Nil
      have "esc a @ r \<noteq> dquote # q" for r q
        using esc_ne [of a] esc_open [of a] by (cases "esc a") auto
      with outer.prems Nil show ?thesis by simp
    next
      case (Cons b t')
      with outer.prems have eq: "esc a @ concat (map esc s) @ dquote # x = esc b @ concat (map esc t') @ dquote # y" by simp
      then have "a = b" by (rule esc_read)
      with eq have "s = t' \<and> x = y" by (intro outer.IH) simp
      with \<open>a = b\<close> Cons show ?thesis by simp
    qed
  qed
  then show "quoted esc s @ x = quoted esc t @ y \<Longrightarrow> s = t \<and> x = y" by (simp add: quoted_def)
qed

lemma text_read:
  "float_free a \<Longrightarrow> float_free b \<Longrightarrow> delim x \<Longrightarrow> delim y \<Longrightarrow> jtext esc a @ x = jtext esc b @ y \<Longrightarrow> a = b \<and> x = y"
proof (induction a arbitrary: b x y rule: json_induct)
  case (JInt i)
  from kind_eq [OF JInt(1,2,5)] obtain j where "b = JInt j" by (cases b) (auto split: if_splits)
  with JInt int_read [of x y i j] show ?case by simp
next
  case (JStr s)
  from kind_eq [OF JStr(1,2,5)] obtain t where "b = JStr t" by (cases b) (auto split: if_splits)
  with JStr quoted_read [of s x t y] show ?case by simp
next
  case (JArr xs)
  from kind_eq [OF JArr(2,3,6)] obtain ys where b: "b = JArr ys" by (cases b) (auto split: if_splits)
  from JArr(6) b have eq: "str_join '','' (map (jtext esc) xs) @ CHR '']'' # x = str_join '','' (map (jtext esc) ys) @ CHR '']'' # y"
    by simp
  have "xs = ys \<and> x = y"
  proof (rule join_read [OF _ _ _ eq])
    show "u = v \<and> r = q" if "u \<in> set xs" "v \<in> set ys" "delim r" "delim q" "jtext esc u @ r = jtext esc v @ q" for u v r q
      using JArr(1) [OF that(1) _ _ that(3,4,5)] JArr(2,3) that(1,2) b by (auto simp: list_all_iff)
    show "jtext esc u @ r \<noteq> CHR '']'' # q" if "u \<in> set xs \<union> set ys" for u r q
      using that JArr(2,3) b by (intro not_closing) (auto simp: list_all_iff)
  qed simp
  with b show ?case by simp
next
  case (JObj d)
  let ?f = "\<lambda>(k, v). quoted esc k @ '':'' @ jtext esc v"
  from kind_eq [OF JObj(2,3,6)] obtain e where b: "b = JObj e" by (cases b) (auto split: if_splits)
  from JObj(6) b have eq: "str_join '','' (map ?f d) @ CHR 0x7D # x = str_join '','' (map ?f e) @ CHR 0x7D # y" by simp
  have "d = e \<and> x = y"
  proof (rule join_read [OF _ _ _ eq])
    fix p q u v assume *: "p \<in> set d" "q \<in> set e" "delim u" "delim v" "?f p @ u = ?f q @ v"
    obtain k w k' w' where p: "p = (k, w)" "q = (k', w')" by (cases p; cases q)
    from * p have "quoted esc k @ CHR '':'' # jtext esc w @ u = quoted esc k' @ CHR '':'' # jtext esc w' @ v" by simp
    from quoted_read [OF this] have kw: "k = k'" "jtext esc w @ u = jtext esc w' @ v" by auto
    have "w = w' \<and> u = v"
      using JObj(1) [of k w, OF _ _ _ *(3,4) kw(2)] JObj(2,3) *(1,2) p b by (auto simp: list_all_iff)
    with kw p show "p = q \<and> u = v" by simp
  next
    show "?f p @ r \<noteq> CHR 0x7D # q" for p r q by (cases p) (simp add: quoted_def)
  qed simp
  with b show ?case by simp
next
  case JNull
  from kind_eq [OF JNull(1,2,5)] have "b = JNull" by (cases b) (auto split: if_splits)
  with JNull show ?case by simp
next
  case (JBool c)
  from kind_eq [OF JBool(1,2,5)] have "b = JBool c" by (cases b) (auto split: if_splits)
  with JBool show ?case by simp
qed simp

lemma text_inject: "float_free a \<Longrightarrow> float_free b \<Longrightarrow> jtext esc a = jtext esc b \<Longrightarrow> a = b"
  using text_read [of a b "[]" "[]"] by simp

end

subsection \<open>The escapings of json.dumps\<close>

definition hex_value :: "char \<Rightarrow> nat" where
  "hex_value c = (if (of_char c :: nat) < 58 then of_char c - 48 else of_char c - 87)"

lemma hex_value_digit: "n < 16 \<Longrightarrow> hex_value (hex_digit n) = n"
  by (auto simp: hex_value_def hex_digit_def)

text \<open>The character that an escaped text begins with.\<close>

definition unescape :: "string \<Rightarrow> char" where
  "unescape s =
     (if hd s \<noteq> CHR 0x5C then hd s
      else let c = s ! 1 in
        if c = CHR ''b'' then char_of (8 :: nat) else if c = CHR ''t'' then char_of (9 :: nat) else if c = CHR ''n'' then char_of (10 :: nat)
        else if c = CHR ''f'' then char_of (12 :: nat) else if c = CHR ''r'' then char_of (13 :: nat)
        else if c = CHR ''u'' then char_of (16 * hex_value (s ! 4) + hex_value (s ! 5)) else c)"

lemma char_of_of: "(of_char c :: nat) = n \<Longrightarrow> c = char_of n"
  by auto

lemma unescape_hex: "(of_char c :: nat) = n \<Longrightarrow>
    unescape (CHR 0x5C # CHR ''u'' # CHR ''0'' # CHR ''0'' # hex_digit (n div 16) # hex_digit (n mod 16) # r) = c"
proof -
  assume n: "(of_char c :: nat) = n"
  have "(of_char c :: nat) \<in> range of_char" by simp
  with n have "n < 256" unfolding range_nat_of_char by simp
  then have "n div 16 < 16" by simp
  moreover from n have "char_of n = c" by (metis char_of_char)
  ultimately show ?thesis by (simp add: unescape_def hex_value_digit)
qed

lemma unescape_escape: "unescape (escape_char c @ r) = c"
proof (cases "(of_char c :: nat) \<in> {8, 9, 10, 12, 13}")
  case True
  then show ?thesis
    by (auto simp: escape_char_def Let_def unescape_def dest!: char_of_of)
next
  case False
  show ?thesis
  proof (cases "c = dquote \<or> c = CHR 0x5C")
    case True
    then show ?thesis by (auto simp: escape_char_def unescape_def)
  next
    case plain: False
    have "(of_char c :: nat) \<noteq> 0x5C"
    proof
      assume "(of_char c :: nat) = 0x5C"
      then have "of_char c = (of_char (CHR 0x5C) :: nat)" by simp
      then have "c = CHR 0x5C" by (simp only: of_char_eq_iff)
      with plain show False by blast
    qed
    with False plain have esc: "escape_char c =
        (if (of_char c :: nat) < 32
         then [CHR 0x5C, CHR ''u'', CHR ''0'', CHR ''0'', hex_digit (of_char c div 16), hex_digit (of_char c mod 16)] else [c])"
      by (simp add: escape_char_def Let_def)
    show ?thesis
    proof (cases "(of_char c :: nat) < 32")
      case True
      then show ?thesis unfolding esc using unescape_hex [of c "of_char c" r] by simp
    next
      case False
      then show ?thesis unfolding esc using plain by (simp add: unescape_def)
    qed
  qed
qed

interpretation plain_code: text_code escape_char
proof
  show "escape_char c \<noteq> []" for c by (simp add: escape_char_def Let_def)
  show "escape_char c \<noteq> dquote # r" for c r by (auto simp: escape_char_def Let_def)
  show "escape_char a @ x = escape_char b @ y \<Longrightarrow> a = b" for a b x y by (metis unescape_escape)
qed

subsection \<open>Sorted keys\<close>

lemma sorted_items_map: "sorted_items (map (\<lambda>(k, v). (k, g v)) d) = map (\<lambda>(k, v). (k, g v)) (sorted_items d)"
proof -
  have ins: "insort_key fst (k, g v) (map (\<lambda>(k, v). (k, g v)) d) = map (\<lambda>(k, v). (k, g v)) (insort_key fst (k, v) d)" for k v d
    by (induction d) auto
  show ?thesis by (induction d) (auto simp: sorted_items_def ins)
qed

lemma dumps_sort_json: "dumps isep ksep True v = dumps isep ksep False (sort_json v)"
proof (induction v rule: json_induct)
  case (JArr xs)
  then show ?case by (simp cong: map_cong)
next
  case (JObj d)
  let ?f = "\<lambda>(k, v). (k, dumps isep ksep False v)"
  have "map (\<lambda>(k, v). (k, dumps isep ksep True v)) d = map ?f (map (\<lambda>(k, v). (k, sort_json v)) d)"
    using JObj by auto
  then show ?case by (simp add: Let_def sorted_items_map [of _ "map _ d"] del: map_map)
qed simp_all

lemma dumps_jtext: "dumps '','' '':'' False v = jtext escape_char v"
proof (induction v rule: json_induct)
  case (JArr xs)
  then show ?case by (simp cong: map_cong)
next
  case (JObj d)
  then have "map (\<lambda>(k, v). dumps_str k @ '':'' @ dumps '','' '':'' False v) d =
      map (\<lambda>(k, v). quoted escape_char k @ '':'' @ jtext escape_char v) d"
    by (auto simp: dumps_str_def quoted_def)
  then have "str_join '','' (map (\<lambda>(k, v). dumps_str k @ '':'' @ dumps '','' '':'' False v) d) =
      str_join '','' (map (\<lambda>(k, v). quoted escape_char k @ '':'' @ jtext escape_char v) d)"
    by (rule arg_cong)
  then show ?case by (simp add: Let_def comp_def case_prod_unfold)
qed (simp_all add: dumps_str_def quoted_def)

lemma float_free_sort_json [simp]: "float_free (sort_json v) = float_free v"
proof (induction v rule: json_induct)
  case (JObj d)
  then show ?case by (auto simp: list_all_iff sorted_items_def)
qed (auto simp: list_all_iff)

text \<open>Two values without floats have the same sorted text exactly when they are equal up to the order of keys.\<close>

lemma stable_eq_iff:
  assumes "float_free a" "float_free b"
  shows "stable a = stable b \<longleftrightarrow> sort_json a = sort_json b"
  using plain_code.text_inject [of "sort_json a" "sort_json b"] assms
  by (auto simp: stable_def dumps_sort_json dumps_jtext)

end
