(* ===== verification/TrustGovernance.thy ===== *)
theory TrustGovernance
  imports Checks Base64 PyHost AuditInvariants JsonCanon
begin

text \<open>
  \<open>tools/ci/check_trust_bundle_governance.py\<close>: the trust bundles an application ships are governed: they
  name who reviewed them and carry a checksum over their anchors. The digest is a parameter.
\<close>

definition CHECKSUM_RE :: "char regex" where "CHECKSUM_RE = hex_re 64"

definition ALLOWED_ANCHOR_STATES :: "string list" where
  "ALLOWED_ANCHOR_STATES = [''active'', ''revoked'', ''retired'']"

definition GOVERNANCE_FIELDS :: "string list" where
  "GOVERNANCE_FIELDS = [''bundle_id'', ''revision'', ''checksum_sha256'', ''signature_ref'', ''reviewed_by'']"

definition gov_err :: "string \<Rightarrow> string \<Rightarrow> string" where
  "gov_err code path = ''TRUST_BUNDLE_GOV_ERR_'' @ code @ '': '' @ path"

definition require_trimmed :: "json \<Rightarrow> string \<Rightarrow> string res" where
  "require_trimmed v msg = (case v of JStr s \<Rightarrow> if str_strip s = s \<and> s \<noteq> [] then Inr s else stop msg | _ \<Rightarrow> stop msg)"

text \<open>\<open>json.dumps(payload, sort_keys=True, separators=(",", ":"))\<close>, which is ASCII.\<close>

definition canonical_text :: "json \<Rightarrow> string" where
  "canonical_text v = concat (map ascii_char (dumps '','' '':'' True v))"

definition anchor_payload :: "dict \<Rightarrow> json" where
  "anchor_payload bundle = JObj [(''bundle_v'', dict_get bundle ''bundle_v''), (''anchors'', dict_get bundle ''anchors'')]"

definition canonical_anchor_checksum :: "(string \<Rightarrow> string) \<Rightarrow> dict \<Rightarrow> string" where
  "canonical_anchor_checksum sha bundle = sha (canonical_text (anchor_payload bundle))"

text \<open>One anchor, with the ids seen so far.\<close>

definition check_trust_anchor :: "string \<Rightarrow> string list \<Rightarrow> json \<Rightarrow> string list res" where
  "check_trust_anchor path seen anchor =
     (case anchor of
        JObj d \<Rightarrow>
          bindE (require_trimmed (dict_get d ''id'') (gov_err ''ANCHOR_ID'' path)) (\<lambda>anchor_id.
          thenE (checks [(anchor_id \<notin> set seen, gov_err ''DUPLICATE_ANCHOR'' path @ '': '' @ anchor_id)])
          (thenE (check_in (dict_get d ''state'') ALLOWED_ANCHOR_STATES (gov_err ''ANCHOR_STATE'' path @ '': '' @ anchor_id))
          (bindE (require_trimmed (dict_get d ''trust_pub_b64'') (gov_err ''TRUST_PUB'' path)) (\<lambda>pub.
           case b64decode pub of
             None \<Rightarrow> stop (gov_err ''TRUST_PUB'' path)
           | Some decoded \<Rightarrow> if decoded = [] then stop (gov_err ''TRUST_PUB'' path) else Inr (seen @ [anchor_id])))))
      | _ \<Rightarrow> stop (gov_err ''ANCHOR'' path))"

definition governance_checksum :: "string \<Rightarrow> dict \<Rightarrow> string res" where
  "governance_checksum path governance =
     thenE (forE (\<lambda>field. bindE (require_trimmed (dict_get governance field) (gov_err ''GOVERNANCE'' path @ '': '' @ field))
                    (\<lambda>_. Inr ())) GOVERNANCE_FIELDS)
     (let checksum = json_str (dict_get governance ''checksum_sha256'') in
      thenE (checks [(re_fullmatch CHECKSUM_RE checksum, gov_err ''GOVERNANCE'' path @ '': checksum_sha256''),
                     (is_true (dict_get governance ''fail_closed''), gov_err ''GOVERNANCE'' path @ '': fail_closed'')])
      (Inr checksum))"

definition validate_bundle :: "(string \<Rightarrow> string) \<Rightarrow> string \<Rightarrow> dict \<Rightarrow> unit res" where
  "validate_bundle sha path bundle =
     thenE (checks [(py_eq (dict_get bundle ''bundle_v'') (JInt 1), gov_err ''VERSION'' path)])
     (case dict_get bundle ''governance'' of
        JObj governance \<Rightarrow>
          bindE (governance_checksum path governance) (\<lambda>checksum.
          case dict_get bundle ''anchors'' of
            JArr (a # as) \<Rightarrow>
              bindE (foldE (check_trust_anchor path) [] (a # as)) (\<lambda>_.
              checks [(checksum = canonical_anchor_checksum sha bundle, gov_err ''CHECKSUM_MISMATCH'' path)])
          | _ \<Rightarrow> stop (gov_err ''ANCHORS'' path))
      | _ \<Rightarrow> stop (gov_err ''GOVERNANCE'' path))"

text \<open>\<open>loads\<close> is the parsed document or the text of the parser's error.\<close>

record trust_env =
  tb_text :: "string \<Rightarrow> string option"
  tb_loads :: "string \<Rightarrow> string + json"
  tb_is_dir :: "string \<Rightarrow> bool"
  tb_glob :: "string \<Rightarrow> string \<Rightarrow> string list"
  tb_sha :: "string \<Rightarrow> string"

definition bundle_json :: "trust_env \<Rightarrow> string \<Rightarrow> dict res" where
  "bundle_json w path =
     (case tb_text w path of
        None \<Rightarrow> Inl (FileNotFoundError path)
      | Some t \<Rightarrow>
          (case tb_loads w t of
             Inl exc \<Rightarrow> stop (gov_err ''JSON'' path @ '': '' @ exc)
           | Inr (JObj d) \<Rightarrow> Inr d
           | Inr _ \<Rightarrow> stop (gov_err ''OBJECT'' path)))"

definition default_bundle_paths :: "trust_env \<Rightarrow> string \<Rightarrow> string list" where
  "default_bundle_paths w root_dir =
     (let candidates = path_join root_dir ''sdk/trust/governed'' in
      if \<not> (tb_is_dir w candidates \<or> tb_text w candidates \<noteq> None) then []
      else sort_key path_parts (tb_glob w candidates ''*.json''))"

text \<open>\<open>root\<close> is resolved already; a target below it is shown relative to it.\<close>

definition bundle_label :: "string \<Rightarrow> string \<Rightarrow> string" where
  "bundle_label root_dir target = (case relative_to target root_dir of Inr p \<Rightarrow> p | Inl _ \<Rightarrow> target)"

definition trust_paths :: "trust_env \<Rightarrow> string \<Rightarrow> string list \<Rightarrow> string list" where
  "trust_paths w root_dir args = (if args \<noteq> [] then map path_str args else default_bundle_paths w root_dir)"

definition bundle_target :: "string \<Rightarrow> string \<Rightarrow> string" where
  "bundle_target root_dir path = (if path_is_absolute path then path else path_join root_dir path)"

definition trust_main :: "trust_env \<Rightarrow> string \<Rightarrow> string list \<Rightarrow> string res" where
  "trust_main w root_dir args =
     (let paths = trust_paths w root_dir args in
      thenE (forE (\<lambda>path.
         let target = bundle_target root_dir path in
         bindE (bundle_json w target) (validate_bundle (tb_sha w) (bundle_label root_dir target))) paths)
      (Inr (''Trust bundle governance guard: OK ('' @ nat_str (length paths) @ '' governed bundles)'')))"

subsection \<open>Governed bundles\<close>

definition trimmed :: "json \<Rightarrow> bool" where
  "trimmed v \<longleftrightarrow> (\<exists>s. v = JStr s \<and> s \<noteq> [] \<and> str_strip s = s)"

definition governed_anchor :: "json \<Rightarrow> bool" where
  "governed_anchor v \<longleftrightarrow>
     (\<exists>d pub bytes. v = JObj d \<and> trimmed (dict_get d ''id'') \<and> dict_get d ''state'' \<in> JStr ` set ALLOWED_ANCHOR_STATES \<and>
        dict_get d ''trust_pub_b64'' = JStr pub \<and> trimmed (JStr pub) \<and> b64decode pub = Some bytes \<and> bytes \<noteq> [])"

definition anchor_ids :: "json list \<Rightarrow> json list" where
  "anchor_ids anchors = map (\<lambda>v. case v of JObj d \<Rightarrow> dict_get d ''id'' | _ \<Rightarrow> JNull) anchors"

definition governed :: "(string \<Rightarrow> string) \<Rightarrow> dict \<Rightarrow> bool" where
  "governed sha bundle \<longleftrightarrow> py_eq (dict_get bundle ''bundle_v'') (JInt 1) \<and>
     (\<exists>g anchors checksum. dict_get bundle ''governance'' = JObj g \<and> dict_get bundle ''anchors'' = JArr anchors \<and>
        anchors \<noteq> [] \<and> list_all governed_anchor anchors \<and> distinct (anchor_ids anchors) \<and>
        (\<forall>f\<in>set GOVERNANCE_FIELDS. trimmed (dict_get g f)) \<and> dict_get g ''fail_closed'' = JBool True \<and>
        dict_get g ''checksum_sha256'' = JStr checksum \<and> length checksum = 64 \<and> list_all chr_is_hex checksum \<and>
        checksum = sha (canonical_text (JObj [(''bundle_v'', dict_get bundle ''bundle_v''), (''anchors'', JArr anchors)])))"

lemma require_trimmed_Inr: "require_trimmed v msg = Inr s \<longleftrightarrow> v = JStr s \<and> trimmed v"
  by (cases v) (auto simp: require_trimmed_def trimmed_def)

lemma check_trust_anchor_Inr:
  "check_trust_anchor path seen v = Inr seen' \<longleftrightarrow>
     governed_anchor v \<and> (\<exists>d i. v = JObj d \<and> dict_get d ''id'' = JStr i \<and> i \<notin> set seen \<and> seen' = seen @ [i])"
proof (cases v)
  case (JObj d)
  show ?thesis
  proof (cases "dict_get d ''trust_pub_b64''")
    case (JStr pub)
    then show ?thesis
      using JObj
      by (cases "b64decode pub")
         (auto simp: check_trust_anchor_def bindE_Inr thenE_Inr checks_Inr check_in_Inr require_trimmed_Inr governed_anchor_def)
  qed (use JObj in \<open>auto simp: check_trust_anchor_def bindE_Inr thenE_Inr require_trimmed_Inr governed_anchor_def trimmed_def\<close>)
qed (auto simp: check_trust_anchor_def governed_anchor_def)

lemma check_trust_anchors_Inr:
  "(\<exists>seen'. foldE (check_trust_anchor path) seen anchors = Inr seen') \<longleftrightarrow>
     list_all governed_anchor anchors \<and> distinct (map JStr seen @ anchor_ids anchors)"
  if "distinct seen"
  using that
proof (induction anchors arbitrary: seen)
  case Nil
  then show ?case by (simp add: anchor_ids_def distinct_map inj_on_def)
next
  case (Cons v vs)
  show ?case
  proof (cases "governed_anchor v")
    case True
    then obtain d i where v: "v = JObj d" "dict_get d ''id'' = JStr i" by (auto simp: governed_anchor_def trimmed_def)
    show ?thesis
    proof (cases "i \<in> set seen")
      case True
      then show ?thesis using v by (auto simp: bindE_Inr check_trust_anchor_Inr anchor_ids_def)
    next
      case False
      have "(\<exists>seen'. foldE (check_trust_anchor path) seen (v # vs) = Inr seen') \<longleftrightarrow>
          (\<exists>seen'. foldE (check_trust_anchor path) (seen @ [i]) vs = Inr seen')"
        using \<open>governed_anchor v\<close> v False by (simp add: bindE_Inr check_trust_anchor_Inr)
      also have "\<dots> \<longleftrightarrow> list_all governed_anchor vs \<and> distinct (map JStr (seen @ [i]) @ anchor_ids vs)"
        using Cons.prems False by (intro Cons.IH) simp
      finally show ?thesis using \<open>governed_anchor v\<close> v by (auto simp: anchor_ids_def)
    qed
  next
    case False
    then show ?thesis by (auto simp: bindE_Inr check_trust_anchor_Inr)
  qed
qed

lemma governance_checksum_Inr:
  "governance_checksum path g = Inr c \<longleftrightarrow>
     (\<forall>f\<in>set GOVERNANCE_FIELDS. trimmed (dict_get g f)) \<and> dict_get g ''fail_closed'' = JBool True \<and>
     dict_get g ''checksum_sha256'' = JStr c \<and> length c = 64 \<and> list_all chr_is_hex c"
proof -
  have field: "bindE (require_trimmed v m) (\<lambda>_. Inr ()) = Inr () \<longleftrightarrow> trimmed v" for v m
    by (auto simp: bindE_Inr require_trimmed_Inr trimmed_def)
  have "trimmed (dict_get g ''checksum_sha256'')" if "\<forall>f\<in>set GOVERNANCE_FIELDS. trimmed (dict_get g f)"
    using that by (simp add: GOVERNANCE_FIELDS_def)
  then show ?thesis
    by (auto simp: governance_checksum_def thenE_Inr forE_Inr field checks_Inr Let_def CHECKSUM_RE_def fullmatch_hex_re
        is_true_def trimmed_def)
qed

lemma validate_bundle_iff: "validate_bundle sha path bundle = Inr () \<longleftrightarrow> governed sha bundle"
proof -
  have anchors: "(\<exists>s. foldE (check_trust_anchor path) [] anchors = Inr s) \<longleftrightarrow>
      list_all governed_anchor anchors \<and> distinct (anchor_ids anchors)" for anchors
    using check_trust_anchors_Inr [of "[]" path anchors] by simp
  show ?thesis
  proof (cases "\<exists>g a as. dict_get bundle ''governance'' = JObj g \<and> dict_get bundle ''anchors'' = JArr (a # as)")
    case True
    then obtain g a as where s: "dict_get bundle ''governance'' = JObj g" "dict_get bundle ''anchors'' = JArr (a # as)" by blast
    have "validate_bundle sha path bundle = Inr () \<longleftrightarrow> py_eq (dict_get bundle ''bundle_v'') (JInt 1) \<and>
        (\<exists>c. governance_checksum path g = Inr c \<and> (\<exists>s. foldE (check_trust_anchor path) [] (a # as) = Inr s) \<and>
           c = canonical_anchor_checksum sha bundle)"
      unfolding validate_bundle_def s json.case list.case
      by (auto simp only: thenE_Inr checks_Inr bindE_Inr list.pred_inject fst_conv)
    then show ?thesis
      unfolding anchors governance_checksum_Inr governed_def s
      by (auto simp: canonical_anchor_checksum_def anchor_payload_def s)
  next
    case False
    have "validate_bundle sha path bundle \<noteq> Inr ()"
      using False by (auto simp: validate_bundle_def thenE_Inr bindE_Inr split: json.splits list.splits)
    moreover have "\<not> governed sha bundle"
      using False by (auto simp: governed_def neq_Nil_conv)
    ultimately show ?thesis by simp
  qed
qed

subsection \<open>The checksum determines the anchors\<close>

definition ascii_text :: "string \<Rightarrow> string" where
  "ascii_text s = concat (map ascii_char s)"

definition is_ascii :: "string \<Rightarrow> bool" where
  "is_ascii s \<longleftrightarrow> list_all (\<lambda>c. (of_char c :: nat) < 127) s"

definition ascii_escape :: "char \<Rightarrow> string" where
  "ascii_escape c = ascii_text (escape_char c)"

lemma ascii_text_simps [simp]:
  "ascii_text [] = []" "ascii_text (s @ t) = ascii_text s @ ascii_text t" "ascii_text (c # s) = ascii_char c @ ascii_text s"
  by (simp_all add: ascii_text_def)

lemma ascii_text_id: "is_ascii s \<Longrightarrow> ascii_text s = s"
  by (induction s) (auto simp: is_ascii_def ascii_char_def)

lemma hex_digit_ascii: "n < 16 \<Longrightarrow> (of_char (hex_digit n) :: nat) < 127"
  by (simp add: hex_digit_def)

lemma escape_char_ascii: "(of_char c :: nat) < 127 \<Longrightarrow> is_ascii (escape_char c)"
  by (simp add: escape_char_def is_ascii_def Let_def hex_digit_ascii)

lemma unescape_ascii: "unescape (ascii_escape c @ r) = c"
proof (cases "(of_char c :: nat) < 127")
  case True
  then show ?thesis by (simp add: ascii_escape_def ascii_text_id escape_char_ascii unescape_escape)
next
  case False
  then have "c \<noteq> dquote" by auto
  with False have "escape_char c = [c]" by (simp add: escape_char_def Let_def)
  with False show ?thesis
    using unescape_hex [of c "of_char c" r] by (simp add: ascii_escape_def ascii_char_def Let_def)
qed

interpretation ascii_code: text_code ascii_escape
proof
  have ne: "escape_char c \<noteq> []" for c by (simp add: escape_char_def Let_def)
  have open_: "hd (ascii_escape c) \<noteq> dquote \<and> ascii_escape c \<noteq> []" for c
  proof (cases "(of_char c :: nat) < 127")
    case True
    then have "ascii_escape c = escape_char c" by (simp add: ascii_escape_def ascii_text_id escape_char_ascii)
    then show ?thesis using ne [of c] by (simp add: escape_char_def Let_def)
  next
    case False
    then have "c \<noteq> dquote" by auto
    with False show ?thesis by (simp add: ascii_escape_def escape_char_def ascii_char_def Let_def)
  qed
  show "ascii_escape c \<noteq> []" for c using open_ by blast
  show "ascii_escape c \<noteq> dquote # r" for c r using open_ [of c] by auto
  show "ascii_escape a @ x = ascii_escape b @ y \<Longrightarrow> a = b" for a b x y by (metis unescape_ascii)
qed

lemma ascii_text_join: "ascii_text (str_join sep xs) = str_join (ascii_text sep) (map ascii_text xs)"
  by (induction sep xs rule: str_join.induct) simp_all

lemma ascii_quoted: "ascii_text (quoted escape_char s) = quoted ascii_escape s"
proof -
  have "ascii_text (concat (map escape_char s)) = concat (map ascii_escape s)"
    by (induction s) (simp_all add: ascii_escape_def)
  moreover have "ascii_char dquote = [dquote]" by code_simp
  ultimately show ?thesis by (simp add: quoted_def)
qed

lemma ascii_int: "ascii_text (int_str i) = int_str i"
proof (rule ascii_text_id)
  have "(of_char c :: nat) < 127" if "numch c" for c
    using that by (auto simp: numch_def chr_is_ascii_digit_def Let_def)
  then show "is_ascii (int_str i)" using int_str_num(1) [of i] by (auto simp: is_ascii_def list_all_iff)
qed

lemma ascii_jtext: "float_free v \<Longrightarrow> ascii_text (jtext escape_char v) = jtext ascii_escape v"
proof (induction v rule: json_induct)
  case (JArr xs)
  then have eq: "map (\<lambda>x. ascii_text (jtext escape_char x)) xs = map (jtext ascii_escape) xs" by (auto simp: list_all_iff)
  show ?case using arg_cong [OF eq, of "str_join '','' "] by (simp add: ascii_text_join comp_def ascii_char_def)
next
  case (JObj d)
  then have eq: "map (\<lambda>(k, v). ascii_text (quoted escape_char k @ '':'' @ jtext escape_char v)) d =
      map (\<lambda>(k, v). quoted ascii_escape k @ '':'' @ jtext ascii_escape v) d"
    by (auto simp: list_all_iff ascii_quoted ascii_char_def)
  show ?case using arg_cong [OF eq, of "str_join '','' "] by (simp add: ascii_text_join comp_def case_prod_unfold ascii_char_def)
qed (simp_all add: ascii_quoted ascii_int ascii_char_def)

lemma canonical_text_eq_iff:
  assumes "float_free a" "float_free b"
  shows "canonical_text a = canonical_text b \<longleftrightarrow> sort_json a = sort_json b"
proof -
  have canon: "canonical_text v = jtext ascii_escape (sort_json v)" if "float_free v" for v
    using ascii_jtext [of "sort_json v"] that by (simp add: canonical_text_def dumps_sort_json dumps_jtext ascii_text_def)
  show ?thesis
    using ascii_code.text_inject [of "sort_json a" "sort_json b"] assms by (auto simp: canon)
qed

lemma trust_main_Inr:
  "trust_main w root_dir args = Inr line \<longleftrightarrow>
     (\<forall>p\<in>set (trust_paths w root_dir args). \<exists>d. bundle_json w (bundle_target root_dir p) = Inr d \<and> governed (tb_sha w) d) \<and>
     line = ''Trust bundle governance guard: OK ('' @ nat_str (length (trust_paths w root_dir args)) @ '' governed bundles)''"
  by (auto simp: trust_main_def Let_def thenE_Inr forE_Inr bindE_Inr validate_bundle_iff)

text \<open>C15: the reviewed checksum binds the anchors. When the guard accepts the bundles of two trees and a bundle of
each carries the same checksum, then, unless the digest collides on the two hashed texts, both bundles have the same
version and the same anchors, up to the order of keys: the sorted ASCII text of a value without floats
determines the value.\<close>

theorem governed_anchors_bound:
  assumes "trust_main w root_dir args = Inr line" "p \<in> set (trust_paths w root_dir args)"
    and "bundle_json w (bundle_target root_dir p) = Inr b" "dict_get b ''governance'' = JObj g"
    and "trust_main w' root_dir' args' = Inr line'" "p' \<in> set (trust_paths w' root_dir' args')"
    and "bundle_json w' (bundle_target root_dir' p') = Inr b'" "dict_get b' ''governance'' = JObj g'"
    and "tb_sha w = sha" "tb_sha w' = sha" "dict_get g ''checksum_sha256'' = dict_get g' ''checksum_sha256''"
    and "sha (canonical_text (anchor_payload b)) = sha (canonical_text (anchor_payload b')) \<Longrightarrow>
         canonical_text (anchor_payload b) = canonical_text (anchor_payload b')"
    and "float_free (anchor_payload b)" "float_free (anchor_payload b')"
  shows "dict_get b ''bundle_v'' = dict_get b' ''bundle_v'' \<and> sort_json (dict_get b ''anchors'') = sort_json (dict_get b' ''anchors'')"
proof -
  have gov: "governed sha b" "governed sha b'" using assms(1-3,5-7,9,10) by (force simp: trust_main_Inr)+
  then have "JStr (sha (canonical_text (anchor_payload b))) = JStr (sha (canonical_text (anchor_payload b')))"
    using assms(4,8,11) by (auto simp: governed_def anchor_payload_def)
  then have "canonical_text (anchor_payload b) = canonical_text (anchor_payload b')" using assms(12) by simp
  with canonical_text_eq_iff [OF assms(13,14)] have "sort_json (anchor_payload b) = sort_json (anchor_payload b')" by simp
  moreover have "sort_json (anchor_payload d) =
      JObj [(''anchors'', sort_json (dict_get d ''anchors'')), (''bundle_v'', sort_json (dict_get d ''bundle_v''))]" for d
    by (simp add: anchor_payload_def sorted_items_def less_list_code)
  moreover have "sort_json v = v" if "py_eq v (JInt 1)" for v using that unfolding py_eq_int by auto
  ultimately show ?thesis using gov by (auto simp: governed_def simp del: py_eq.simps)
qed

text \<open>The same anchors with their keys in another order.\<close>

definition ex_bundle :: "(dict \<Rightarrow> dict) \<Rightarrow> dict" where
  "ex_bundle order =
     [(''bundle_v'', JInt 1),
      (''governance'', JObj [(''bundle_id'', JStr ''b''), (''revision'', JStr ''r''), (''checksum_sha256'', JStr (replicate 64 (CHR ''0''))),
         (''signature_ref'', JStr ''s''), (''reviewed_by'', JStr ''x''), (''fail_closed'', JBool True)]),
      (''anchors'', JArr [JObj (order [(''id'', JStr ''root''), (''state'', JStr ''active''), (''trust_pub_b64'', JStr ''AAAA'')])])]"

definition ex_trust :: "(dict \<Rightarrow> dict) \<Rightarrow> trust_env" where
  "ex_trust order = \<lparr>tb_text = (\<lambda>p. Some p), tb_loads = (\<lambda>_. Inr (JObj (ex_bundle order))), tb_is_dir = (\<lambda>_. False),
     tb_glob = (\<lambda>_ _. []), tb_sha = (\<lambda>_. replicate 64 (CHR ''0''))\<rparr>"

theorem governed_anchors_bound_witness:
  "sort_json (dict_get (ex_bundle id) ''anchors'') = sort_json (dict_get (ex_bundle rev) ''anchors'')"
proof -
  have "(case trust_main (ex_trust id) ''/r'' [''b.json''] of Inr _ \<Rightarrow> True | _ \<Rightarrow> False)" by code_simp
  then obtain l1 where 1: "trust_main (ex_trust id) ''/r'' [''b.json''] = Inr l1" by (auto split: sum.splits)
  have "(case trust_main (ex_trust rev) ''/r'' [''b.json''] of Inr _ \<Rightarrow> True | _ \<Rightarrow> False)" by code_simp
  then obtain l2 where 2: "trust_main (ex_trust rev) ''/r'' [''b.json''] = Inr l2" by (auto split: sum.splits)
  have p: "''b.json'' \<in> set (trust_paths (ex_trust order) ''/r'' [''b.json''])" for order
    by (simp add: trust_paths_def) code_simp
  have b: "bundle_json (ex_trust order) t = Inr (ex_bundle order)" for order t
    by (simp add: bundle_json_def ex_trust_def)
  have g: "\<exists>g. dict_get (ex_bundle order) ''governance'' = JObj g \<and>
      dict_get g ''checksum_sha256'' = JStr (replicate 64 (CHR ''0''))" for order
    by (simp add: ex_bundle_def dict_get_def)
  then obtain g1 g2 where g: "dict_get (ex_bundle id) ''governance'' = JObj g1" "dict_get (ex_bundle rev) ''governance'' = JObj g2"
      "dict_get g1 ''checksum_sha256'' = dict_get g2 ''checksum_sha256''" by metis
  have text_eq: "canonical_text (anchor_payload (ex_bundle id)) = canonical_text (anchor_payload (ex_bundle rev))"
    by code_simp
  have ff: "float_free (anchor_payload (ex_bundle id))" "float_free (anchor_payload (ex_bundle rev))" by code_simp+
  have sha: "tb_sha (ex_trust order) = (\<lambda>_. replicate 64 (CHR ''0''))" for order by (simp add: ex_trust_def)
  from governed_anchors_bound [OF 1 p b g(1) 2 p b g(2) sha sha g(3) text_eq ff] show ?thesis by blast
qed

end
