(* ===== verification/NpmDryRun.thy ===== *)
theory NpmDryRun
  imports ReleaseSmoke PyGlob AuditInvariants
begin

text \<open>
  \<open>tools/ci/check_npm_release_dry_run.py\<close>: the TypeScript packages of a release and the consumer fixture beside
  them; optionally builds and packs them without publishing, and tries the fixture out in a copy. The
  state is that of \<open>ReleaseSmoke\<close>: the file system and the log of the commands.
\<close>

subsection \<open>The machine\<close>

text \<open>\<open>npm_loads\<close> parses JSON; \<open>npm_exec\<close> is a command in a directory, with its exit code and outputs.\<close>

record npm_host =
  npm_found :: bool
  npm_loads :: "string \<Rightarrow> json option"
  npm_exec :: "string list \<Rightarrow> path \<Rightarrow> (fs, int \<times> string \<times> string) io"

definition dir_node :: "path \<Rightarrow> fs \<Rightarrow> bool" where
  "dir_node p fs = (p = [] \<or> map_of fs p = Some Dir)"

text \<open>Following a path from a directory, parent steps included.\<close>

fun locate :: "fs \<Rightarrow> path \<Rightarrow> string list \<Rightarrow> path option" where
  "locate fs base [] = Some base"
| "locate fs base (c # cs) =
     (if c = ''..'' then (if dir_node base fs then locate fs (butlast base) cs else None)
      else locate fs (base @ [c]) cs)"

definition is_file_at :: "fs \<Rightarrow> path \<Rightarrow> string \<Rightarrow> bool" where
  "is_file_at fs base rel = (case locate fs base (path_comps rel) of None \<Rightarrow> False | Some p \<Rightarrow> file_node p fs)"

text \<open>\<open>base.glob(pattern)\<close> by the components of the pattern: \<open>**\<close> is any number of directories.\<close>

fun glob_from :: "fs \<Rightarrow> string list \<Rightarrow> path \<Rightarrow> path list" where
  "glob_from fs [] base = [base]"
| "glob_from fs (p # ps) base =
     (if p = ''..'' then (if dir_node base fs then glob_from fs ps (butlast base) else [])
      else if p = ''**'' then concat (map (glob_from fs ps) (filter (\<lambda>q. prefix base q \<and> dir_node q fs) (base # map fst fs)))
      else concat (map (glob_from fs ps)
             (filter (\<lambda>q. q \<noteq> [] \<and> butlast q = base \<and> fnmatchcase (last q) p) (map fst fs))))"

subsection \<open>Packages and fixture\<close>

definition npm_err :: "string \<Rightarrow> string" where
  "npm_err s = ''NPM_RELEASE_DRY_RUN_ERR_'' @ s"

definition FIXTURE_RELATIVE :: path where
  "FIXTURE_RELATIVE = [''fixtures'', ''external-consumers'', ''npm-sdk'']"

definition PACKAGE_RELATIVE_PATHS :: "(string \<times> path) list" where
  "PACKAGE_RELATIVE_PATHS =
     [(''grain-ts-core'', [''core'', ''ts'', ''grain-ts-core'']), (''grain-sdk-ts'', [''core'', ''ts'', ''grain-sdk'']),
      (''grain-sdk-ai-ts'', [''core'', ''ts'', ''grain-sdk-ai''])]"

definition PUBLIC_IMPORT_TOKENS :: "string list" where
  "PUBLIC_IMPORT_TOKENS = [''grain-sdk-ts'', ''grain-sdk-ts/errors'', ''grain-sdk-ai-ts'']"

definition FORBIDDEN_IMPORT_TOKENS :: "string list" where
  "FORBIDDEN_IMPORT_TOKENS = [''core/ts/'', ''dist/src/'', ''../'', ''../../'']"

definition npm_load_json :: "npm_host \<Rightarrow> fs \<Rightarrow> path \<Rightarrow> dict res" where
  "npm_load_json h fs p =
     (case map_of fs p of
        Some (File t) \<Rightarrow>
          (case npm_loads h t of
             None \<Rightarrow> Inl (JSONDecodeError t)
           | Some (JObj d) \<Rightarrow> Inr d
           | Some _ \<Rightarrow> stop (npm_err ''JSON_OBJECT: '' @ path_text p))
      | _ \<Rightarrow> stop (npm_err ''FILE_MISSING: '' @ path_text p))"

definition package_paths :: "path \<Rightarrow> (string \<times> path) list" where
  "package_paths vendor_root = map (\<lambda>(name, relative). (name, vendor_root @ relative)) PACKAGE_RELATIVE_PATHS"

text \<open>One path of an export, and, where the package was built, what it must name.\<close>

definition export_path :: "fs \<Rightarrow> string \<Rightarrow> path \<Rightarrow> bool \<Rightarrow> string \<Rightarrow> dict \<Rightarrow> string \<Rightarrow> unit res" where
  "export_path fs package_name package_dir require_dist export_name target key =
     (let bad = stop (npm_err ''EXPORT_PATH: '' @ package_name @ '':'' @ export_name @ '':'' @ key) in
      case dict_get target key of
        JStr value \<Rightarrow>
          (if \<not> starts_with value ''./dist/'' then bad
           else if \<not> require_dist then Inr ()
           else
             let there = (if CHR ''*'' \<in> set value then glob_from fs (path_comps (drop 2 value)) package_dir \<noteq> []
                          else is_file_at fs package_dir value)
             in checks [(there, npm_err ''EXPORT_FILE: '' @ package_name @ '':'' @ value)])
      | _ \<Rightarrow> bad)"

definition validate_package_exports :: "npm_host \<Rightarrow> bool \<Rightarrow> fs \<Rightarrow> string \<times> path \<Rightarrow> unit res" where
  "validate_package_exports h require_dist fs = (\<lambda>(package_name, package_dir).
     bindE (npm_load_json h fs (package_dir @ [''package.json''])) (\<lambda>package_json.
     thenE (checks
       [(dict_get package_json ''name'' = JStr package_name, npm_err ''PACKAGE_NAME: '' @ package_name),
        (case dict_get package_json ''files'' of JArr items \<Rightarrow> ''dist'' \<in> set (map json_str items) | _ \<Rightarrow> False,
         npm_err ''PACKAGE_FILES: '' @ package_name)])
     (case dict_get package_json ''exports'' of
        JObj (e # es) \<Rightarrow>
          forE (\<lambda>(export_name, target).
            case target of
              JObj t \<Rightarrow> forE (export_path fs package_name package_dir require_dist export_name t) [''types'', ''default'']
            | _ \<Rightarrow> stop (npm_err ''EXPORT_TARGET: '' @ package_name @ '':'' @ export_name)) (e # es)
      | _ \<Rightarrow> stop (npm_err ''EXPORTS: '' @ package_name))))"

definition fixture_text :: "fs \<Rightarrow> path \<Rightarrow> string \<Rightarrow> string" where
  "fixture_text fs fixture rel = (case map_of fs (fixture @ path_comps rel) of Some (File t) \<Rightarrow> t | _ \<Rightarrow> [])"

text \<open>The public tokens are a set: of several missing ones the model reports the first of the list.\<close>

definition npm_fixture :: "npm_host \<Rightarrow> path \<Rightarrow> (string \<times> path) list \<Rightarrow> fs \<Rightarrow> unit res" where
  "npm_fixture h fixture packages fs =
     bindE (npm_load_json h fs (fixture @ [''package.json''])) (\<lambda>package_json.
     thenE (checks [(is_true (dict_get package_json ''private''), npm_err ''FIXTURE_PRIVATE'')])
     (case dict_get package_json ''dependencies'' of
        JObj deps \<Rightarrow>
          let combined = fixture_text fs fixture ''src/import-smoke.ts'' @ [newline] @ fixture_text fs fixture ''src/runtime-smoke.mjs''
          in checks
            ([(list_all (\<lambda>(name, _). has_key deps name) packages, npm_err ''FIXTURE_DEP_SET'')] @
             map (\<lambda>(name, _). (case dict_get deps name of JStr v \<Rightarrow> starts_with v ''file:../../../core/ts/'' | _ \<Rightarrow> False,
                               npm_err ''FIXTURE_DEP: '' @ name)) packages @
             map (\<lambda>rel. (file_node (fixture @ path_comps rel) fs, npm_err ''FIXTURE_FILE: '' @ rel))
               [''tsconfig.json'', ''src/import-smoke.ts'', ''src/runtime-smoke.mjs''] @
             map (\<lambda>token. (contains combined token, npm_err ''FIXTURE_IMPORT: '' @ token)) PUBLIC_IMPORT_TOKENS @
             map (\<lambda>token. (\<not> contains combined token, npm_err ''FIXTURE_INTERNAL_IMPORT: '' @ token)) FORBIDDEN_IMPORT_TOKENS)
      | _ \<Rightarrow> stop (npm_err ''FIXTURE_DEPS'')))"

subsection \<open>Build and pack\<close>

text \<open>The command in its directory: its output, where it ends with 0.\<close>

definition npm_run :: "npm_host \<Rightarrow> string list \<Rightarrow> path \<Rightarrow> (smoke, string) io" where
  "npm_run h cmd cwd =
     bindIO (on_fs (npm_exec h cmd cwd)) (\<lambda>(rc, out_text, err_text).
     seqIO (log_event (Ran cmd rc))
       (if rc \<noteq> 0
        then raiseIO (SystemExit (npm_err ''COMMAND_FAILED: '' @ str_join '' '' cmd @ [newline] @ ''stdout:'' @ [newline] @
               out_text @ [newline] @ ''stderr:'' @ [newline] @ err_text))
        else retIO out_text))"

definition check_fs :: "(fs \<Rightarrow> 'a res) \<Rightarrow> (smoke, 'a) io" where
  "check_fs f = (\<lambda>(fs, log). (f fs, (fs, log)))"

text \<open>The paths that \<open>npm pack\<close> lists.\<close>

definition pack_paths :: "json list \<Rightarrow> string list" where
  "pack_paths pack_files =
     concat (map (\<lambda>item. case item of JObj d \<Rightarrow> (case dict_get d ''path'' of JStr p \<Rightarrow> [p] | _ \<Rightarrow> []) | _ \<Rightarrow> []) pack_files)"

definition pack_info :: "npm_host \<Rightarrow> string \<Rightarrow> string \<Rightarrow> json res" where
  "pack_info h name raw =
     (case npm_loads h raw of
        None \<Rightarrow> Inl (JSONDecodeError raw)
      | Some (JArr (info # _)) \<Rightarrow>
          bindE (attr_get info ''name'') (\<lambda>n.
          thenE (checks [(n = JStr name, npm_err ''PACK_NAME: '' @ name)])
          (bindE (attr_get_or info ''files'' (JArr [])) (\<lambda>files.
           case files of
             JArr pack_files \<Rightarrow>
               thenE (checks [(list_ex (\<lambda>p. starts_with p ''dist/'') (pack_paths pack_files), npm_err ''PACK_DIST: '' @ name)])
               (bindE (attr_get info ''version'') (\<lambda>version. bindE (attr_get info ''filename'') (\<lambda>filename.
                Inr (JObj [(''name'', JStr name), (''version'', version), (''filename'', filename),
                           (''files'', JInt (int (length pack_files)))]))))
           | _ \<Rightarrow> stop (npm_err ''PACK_FILES: '' @ name))))
      | Some _ \<Rightarrow> stop (npm_err ''PACK_JSON: '' @ name))"

definition pack_package :: "npm_host \<Rightarrow> path \<Rightarrow> json list \<Rightarrow> string \<times> path \<Rightarrow> (smoke, json list) io" where
  "pack_package h out_dir results = (\<lambda>(name, path).
     bindIO (check_fs (\<lambda>fs. Inr (file_node (path @ [''package-lock.json'']) fs))) (\<lambda>locked.
     seqIO (if locked then bindIO (npm_run h [''npm'', ''ci'', ''--prefix'', path_text path] path) (\<lambda>_. retIO ()) else retIO ())
    (bindIO (npm_run h [''npm'', ''--prefix'', path_text path, ''run'', ''build'', ''--silent''] path) (\<lambda>_.
     seqIO (check_fs (\<lambda>fs. validate_package_exports h True fs (name, path)))
    (bindIO (npm_run h [''npm'', ''pack'', ''--dry-run'', ''--json'', ''--pack-destination'', path_text out_dir] path) (\<lambda>raw.
     bindIO (liftE (pack_info h name raw)) (\<lambda>entry. retIO (results @ [entry]))))))))"

definition npm_present :: "npm_host \<Rightarrow> (smoke, unit) io" where
  "npm_present h = (if npm_found h then retIO () else raiseIO (SystemExit (npm_err ''NPM_MISSING'')))"

definition build_and_pack :: "npm_host \<Rightarrow> path \<Rightarrow> (string \<times> path) list \<Rightarrow> (smoke, dict) io" where
  "build_and_pack h out_dir packages =
     seqIO (npm_present h)
    (seqIO (on_fs (mkdirs [] out_dir))
    (bindIO (foldIO (pack_package h out_dir) [] packages) (\<lambda>results.
     retIO [(''schema'', JStr ''grain.npm-release-dry-run.v1''), (''publication'', JStr ''none''), (''packages'', JArr results)])))"

subsection \<open>The fixture outside the repository\<close>

definition IGNORED_NAMES :: "string list" where
  "IGNORED_NAMES = [''node_modules'', ''build'', ''.build'', ''.gradle'', ''.kotlin'', ''target'', ''pkg'']"

definition relative_to_vendor :: "path \<Rightarrow> path \<Rightarrow> path res" where
  "relative_to_vendor p vendor_root =
     (if prefix vendor_root p then Inr (drop (length vendor_root) p)
      else stop (npm_err ''FIXTURE_OUTSIDE_VENDOR_ROOT: '' @ path_text p))"

text \<open>\<open>shutil.copytree\<close> of a directory to a new place: the entries are those of the source when the copy begins.\<close>

definition copied :: "path \<Rightarrow> path \<Rightarrow> fs \<Rightarrow> fs" where
  "copied source target fs =
     map (\<lambda>(q, n). (target @ drop (length source) q, n))
       (filter (\<lambda>(q, n). prefix source q \<and> list_all (\<lambda>c. c \<notin> set IGNORED_NAMES) (drop (length source) q)) fs)"

definition copytree :: "path \<Rightarrow> path \<Rightarrow> (fs, unit) io" where
  "copytree source target = (\<lambda>fs.
     case map_of fs source of
       None \<Rightarrow> (Inl (FileNotFoundError (path_text source)), fs)
     | Some (File _) \<Rightarrow> (Inl (OSError 20), fs)
     | Some Dir \<Rightarrow>
         (if map_of fs target \<noteq> None then (Inl (OSError 17), fs)
          else (Inr (), foldl (\<lambda>fs' (q, n). set_node q n fs') fs (copied source target fs))))"

definition clear_target :: "path \<Rightarrow> (fs, unit) io" where
  "clear_target p = (\<lambda>fs.
     case map_of fs p of
       None \<Rightarrow> (Inr (), fs)
     | Some Dir \<Rightarrow> (Inr (), remove_tree p fs)
     | Some (File _) \<Rightarrow> (Inl (OSError 20), fs))"

definition copy_package :: "path \<Rightarrow> path \<Rightarrow> path \<Rightarrow> (fs, unit) io" where
  "copy_package vendor_root target_root relative =
     seqIO (\<lambda>fs. (checks [(dir_node (vendor_root @ relative) fs, npm_err ''PACKAGE_DIR: '' @ path_text (vendor_root @ relative))], fs))
    (seqIO (mkdirs [] (butlast (target_root @ relative)))
           (copytree (vendor_root @ relative) (target_root @ relative)))"

definition copy_external_consumer_tree :: "path \<Rightarrow> path \<Rightarrow> path \<Rightarrow> (fs, path) io" where
  "copy_external_consumer_tree vendor_root fixture target_root =
     seqIO (clear_target target_root)
    (seqIO (mkdirs [] target_root)
    (seqIO (foldIO (\<lambda>_ (name, relative). copy_package vendor_root target_root relative) () PACKAGE_RELATIVE_PATHS)
    (bindIO (liftE (relative_to_vendor fixture vendor_root)) (\<lambda>relative.
     seqIO (mkdirs [] (butlast (target_root @ relative)))
    (seqIO (copytree fixture (target_root @ relative))
     (retIO (target_root @ relative)))))))"

definition run_consumer_smoke :: "npm_host \<Rightarrow> path \<Rightarrow> path \<Rightarrow> path \<Rightarrow> (smoke, json) io" where
  "run_consumer_smoke h vendor_root fixture out_dir =
     seqIO (npm_present h)
    (bindIO (on_fs (copy_external_consumer_tree vendor_root fixture
        (out_dir @ [''external-npm-consumer-smoke'', ''vendor'', ''grain-sdk'']))) (\<lambda>scratch_fixture.
     let p = path_text scratch_fixture in
     bindIO (npm_run h [''npm'', ''install'', ''--prefix'', p, ''--package-lock=false'', ''--install-links=true'',
        ''--ignore-scripts'', ''--no-audit'', ''--no-fund''] scratch_fixture) (\<lambda>_.
     bindIO (npm_run h [''npm'', ''--prefix'', p, ''run'', ''typecheck'', ''--silent''] scratch_fixture) (\<lambda>_.
     bindIO (npm_run h [''npm'', ''--prefix'', p, ''run'', ''runtime'', ''--silent''] scratch_fixture) (\<lambda>_.
     bindIO (liftE (relative_to_vendor fixture vendor_root)) (\<lambda>rel.
     retIO (JObj [(''fixture'', JStr (if rel = [] then ''.'' else str_join ''/'' rel)), (''layout'', JStr ''external-scratch-copy''),
                  (''typecheck'', JStr ''pass''), (''runtime'', JStr ''pass'')])))))))"

subsection \<open>The command line\<close>

record npm_args =
  na_vendor_root :: path
  na_fixture :: "path option"
  na_out_dir :: "path option"
  na_build :: bool
  na_consumer_smoke :: bool

definition write_result :: "path \<Rightarrow> dict \<Rightarrow> (fs, unit) io" where
  "write_result out_dir result = write_file (out_dir @ [''npm-release-dry-run.json'']) (dumps_ascii (JObj result) @ [newline])"

definition npm_fixture_path :: "npm_args \<Rightarrow> path" where
  "npm_fixture_path args = (case na_fixture args of Some f \<Rightarrow> f | None \<Rightarrow> na_vendor_root args @ FIXTURE_RELATIVE)"

definition npm_build :: "npm_host \<Rightarrow> npm_args \<Rightarrow> path \<Rightarrow> (smoke, string) io" where
  "npm_build h args out_dir =
     bindIO (build_and_pack h out_dir (package_paths (na_vendor_root args))) (\<lambda>result.
     bindIO (if na_consumer_smoke args
             then bindIO (run_consumer_smoke h (na_vendor_root args) (npm_fixture_path args) out_dir)
                    (\<lambda>s. retIO (dict_set result ''consumer_smoke'' s))
             else retIO result) (\<lambda>result.
     seqIO (on_fs (write_result out_dir result))
       (retIO (''npm release dry-run: OK ('' @ nat_str (length (package_paths (na_vendor_root args))) @ '' packages)''))))"

text \<open>\<open>tmp\<close> is the directory \<open>tempfile.mkdtemp\<close> makes.\<close>

definition npm_main :: "npm_host \<Rightarrow> npm_args \<Rightarrow> path \<Rightarrow> (smoke, string) io" where
  "npm_main h args tmp =
     seqIO (check_fs (npm_fixture h (npm_fixture_path args) (package_paths (na_vendor_root args))))
    (seqIO (check_fs (\<lambda>fs. forE (validate_package_exports h False fs) (package_paths (na_vendor_root args))))
    (if na_consumer_smoke args \<and> \<not> na_build args
     then raiseIO (SystemExit (npm_err ''CONSUMER_SMOKE_REQUIRES_BUILD''))
     else if na_build args
     then (case na_out_dir args of
             Some out_dir \<Rightarrow> npm_build h args out_dir
           | None \<Rightarrow> seqIO (on_fs (act (set_node tmp Dir))) (npm_build h args tmp))
     else retIO ''npm release dry-run metadata: OK''))"

subsection \<open>Nothing is published\<close>

text \<open>The commands a run may use: dependencies are installed as they are locked, or into the copy and without
their scripts; a package is built, and packed as a trial only.\<close>

definition npm_command_ok :: "string list \<Rightarrow> bool" where
  "npm_command_ok cmd \<longleftrightarrow>
     (\<exists>p. cmd = [''npm'', ''ci'', ''--prefix'', p]) \<or>
     (\<exists>p script. script \<in> {''build'', ''typecheck'', ''runtime''} \<and> cmd = [''npm'', ''--prefix'', p, ''run'', script, ''--silent'']) \<or>
     (\<exists>d. cmd = [''npm'', ''pack'', ''--dry-run'', ''--json'', ''--pack-destination'', d]) \<or>
     (\<exists>p. cmd = [''npm'', ''install'', ''--prefix'', p, ''--package-lock=false'', ''--install-links=true'', ''--ignore-scripts'',
        ''--no-audit'', ''--no-fund''])"

fun npm_event_ok :: "event \<Rightarrow> bool" where
  "npm_event_ok (Ran cmd rc) = npm_command_ok cmd"
| "npm_event_ok _ = False"

definition npm_logged :: "smoke \<Rightarrow> smoke \<Rightarrow> bool" where
  "npm_logged s s' \<longleftrightarrow> (\<exists>new. snd s' = snd s @ new \<and> list_all npm_event_ok new)"

interpretation npm: frame npm_logged
  by unfold_locales (auto simp: npm_logged_def)

lemma framed_on_fs: "framed npm_logged (on_fs m)"
  by (simp add: framed_def npm_logged_def on_fs_def split: prod.split)

lemma framed_check_fs: "framed npm_logged (check_fs f)"
  by (rule npm.framed_read) (auto simp: check_fs_def)

lemma framed_log: "npm_event_ok e \<Longrightarrow> framed npm_logged (log_event e)"
  by (simp add: framed_def npm_logged_def log_event_def act_def split: prod.split)

lemma framed_npm_run: "npm_command_ok cmd \<Longrightarrow> framed npm_logged (npm_run h cmd cwd)"
  unfolding npm_run_def
  by (intro npm.framed_bindIO framed_on_fs) (auto intro!: npm.framed_seqIO framed_log npm.framed_pure)

lemmas npm_frames = npm.framed_pure npm.framed_bindIO npm.framed_seqIO npm.framed_foldIO framed_on_fs framed_check_fs framed_npm_run

lemma npm_commands:
  "npm_command_ok [''npm'', ''ci'', ''--prefix'', p]"
  "npm_command_ok [''npm'', ''--prefix'', p, ''run'', ''build'', ''--silent'']"
  "npm_command_ok [''npm'', ''--prefix'', p, ''run'', ''typecheck'', ''--silent'']"
  "npm_command_ok [''npm'', ''--prefix'', p, ''run'', ''runtime'', ''--silent'']"
  "npm_command_ok [''npm'', ''pack'', ''--dry-run'', ''--json'', ''--pack-destination'', p]"
  "npm_command_ok [''npm'', ''install'', ''--prefix'', p, ''--package-lock=false'', ''--install-links=true'',
     ''--ignore-scripts'', ''--no-audit'', ''--no-fund'']"
  by (simp_all add: npm_command_ok_def)

lemma framed_present: "framed npm_logged (npm_present h)"
  by (simp add: npm_present_def npm.framed_pure)

lemma framed_pack: "framed npm_logged (pack_package h out_dir results p)"
  unfolding pack_package_def by (cases p) (auto intro!: npm_frames npm_commands)

lemma framed_build_and_pack: "framed npm_logged (build_and_pack h out_dir packages)"
  unfolding build_and_pack_def by (intro npm_frames framed_present framed_pack)

lemma framed_smoke: "framed npm_logged (run_consumer_smoke h vendor_root fixture out_dir)"
  unfolding run_consumer_smoke_def Let_def by (intro npm_frames framed_present npm_commands)

lemma framed_npm_build: "framed npm_logged (npm_build h args out_dir)"
  unfolding npm_build_def by (intro npm_frames framed_build_and_pack) (auto intro!: npm_frames framed_smoke)

lemma framed_npm_main: "framed npm_logged (npm_main h args tmp)"
  unfolding npm_main_def by (intro npm_frames) (auto intro!: npm_frames framed_npm_build split: option.split)

subsection \<open>What a successful run did\<close>

lemma npm_run_Inr [io_simps]:
  "npm_run h cmd cwd s = (Inr t, s') \<longleftrightarrow>
     (\<exists>fs' e. npm_exec h cmd cwd (fst s) = (Inr (0, t, e), fs') \<and> s' = (fs', snd s @ [Ran cmd 0]))"
  by (cases s) (auto simp: npm_run_def bindIO_def seqIO_def on_fs_def log_event_def act_def raiseIO_def retIO_def
      split: prod.splits sum.splits if_splits)

lemma check_fs_Inr [io_simps]: "check_fs f s = (Inr x, s') \<longleftrightarrow> f (fst s) = Inr x \<and> s' = s"
  by (cases s) (auto simp: check_fs_def)

lemma on_fs_done [io_simps]: "on_fs m s = (Inr r, s') \<longleftrightarrow> (\<exists>fs'. m (fst s) = (Inr r, fs') \<and> s' = (fs', snd s))"
  by (cases s) (auto simp: on_fs_def split: prod.split)

definition is_ci :: "event \<Rightarrow> bool" where
  "is_ci e \<longleftrightarrow> (\<exists>p. e = Ran [''npm'', ''ci'', ''--prefix'', p] 0)"

definition package_plan :: "path \<Rightarrow> string \<times> path \<Rightarrow> event list" where
  "package_plan out_dir = (\<lambda>(name, path).
     [Ran [''npm'', ''--prefix'', path_text path, ''run'', ''build'', ''--silent''] 0,
      Ran [''npm'', ''pack'', ''--dry-run'', ''--json'', ''--pack-destination'', path_text out_dir] 0])"

definition smoke_plan :: "string \<Rightarrow> event list" where
  "smoke_plan p =
     [Ran [''npm'', ''install'', ''--prefix'', p, ''--package-lock=false'', ''--install-links=true'', ''--ignore-scripts'',
        ''--no-audit'', ''--no-fund''] 0,
      Ran [''npm'', ''--prefix'', p, ''run'', ''typecheck'', ''--silent''] 0,
      Ran [''npm'', ''--prefix'', p, ''run'', ''runtime'', ''--silent''] 0]"

definition planned :: "event list \<Rightarrow> smoke \<Rightarrow> smoke \<Rightarrow> bool" where
  "planned es s s' \<longleftrightarrow> (\<exists>new. snd s' = snd s @ new \<and> filter (\<lambda>e. \<not> is_ci e) new = es)"

lemma planned_append: "planned es s s1 \<Longrightarrow> planned es' s1 s' \<Longrightarrow> planned (es @ es') s s'"
  unfolding planned_def by force

lemma pack_planned: "pack_package h out_dir rs p s = (Inr rs', s') \<Longrightarrow> planned (package_plan out_dir p) s s'"
  by (cases p) (auto simp: pack_package_def io_simps planned_def package_plan_def is_ci_def split: if_splits)

lemma packs_planned:
  "foldIO (pack_package h out_dir) rs ps s = (Inr rs', s') \<Longrightarrow> planned (concat (map (package_plan out_dir) ps)) s s'"
proof (induction ps arbitrary: rs s)
  case Nil
  then show ?case by (auto simp: io_simps planned_def)
next
  case (Cons p ps)
  from Cons.prems obtain r1 s1 where 1: "pack_package h out_dir rs p s = (Inr r1, s1)"
      and 2: "foldIO (pack_package h out_dir) r1 ps s1 = (Inr rs', s')" by (auto simp: io_simps)
  from planned_append [OF pack_planned [OF 1] Cons.IH [OF 2]] show ?case by simp
qed

definition scratch_root :: "path \<Rightarrow> path" where
  "scratch_root out_dir = out_dir @ [''external-npm-consumer-smoke'', ''vendor'', ''grain-sdk'']"

lemma copy_result:
  "copy_external_consumer_tree vendor_root fixture target_root fs = (Inr p, fs') \<Longrightarrow>
     \<exists>rel. fixture = vendor_root @ rel \<and> p = target_root @ rel"
  by (auto simp: copy_external_consumer_tree_def io_simps relative_to_vendor_def prefix_def split: if_splits)

lemma smoke_planned:
  "run_consumer_smoke h vendor_root fixture out_dir s = (Inr v, s') \<Longrightarrow>
     \<exists>rel. fixture = vendor_root @ rel \<and> planned (smoke_plan (path_text (scratch_root out_dir @ rel))) s s'"
  by (auto simp: run_consumer_smoke_def Let_def io_simps npm_present_def planned_def smoke_plan_def is_ci_def scratch_root_def
      dest!: copy_result split: if_splits)

text \<open>The commands of a successful build, but for the installations of what is locked.\<close>

definition build_plan :: "npm_args \<Rightarrow> path \<Rightarrow> event list" where
  "build_plan args out_dir =
     concat (map (package_plan out_dir) (package_paths (na_vendor_root args))) @
     (if na_consumer_smoke args
      then smoke_plan (path_text (scratch_root out_dir @ drop (length (na_vendor_root args)) (npm_fixture_path args))) else [])"

lemma npm_build_done:
  assumes "npm_build h args out_dir s = (Inr line, s')"
  shows "planned (build_plan args out_dir) s s' \<and>
    (\<exists>d. map_of (fst s') (out_dir @ [''npm-release-dry-run.json'']) = Some (File (dumps_ascii (JObj d) @ [newline])) \<and>
       dict_get d ''publication'' = JStr ''none'')"
proof -
  from assms obtain d s1 d' s2 where 1: "build_and_pack h out_dir (package_paths (na_vendor_root args)) s = (Inr d, s1)"
      and 2: "(if na_consumer_smoke args then bindIO (run_consumer_smoke h (na_vendor_root args) (npm_fixture_path args) out_dir)
                    (\<lambda>s. retIO (dict_set d ''consumer_smoke'' s)) else retIO d) s1 = (Inr d', s2)"
      and 3: "on_fs (write_result out_dir d') s2 = (Inr (), s')"
    by (auto simp: npm_build_def io_simps)
  from 1 have p1: "planned (concat (map (package_plan out_dir) (package_paths (na_vendor_root args)))) s s1"
      and d: "dict_get d ''publication'' = JStr ''none''"
    by (auto simp: build_and_pack_def io_simps npm_present_def dict_get_def planned_def split: if_splits dest!: packs_planned)
  have p2: "planned (if na_consumer_smoke args
      then smoke_plan (path_text (scratch_root out_dir @ drop (length (na_vendor_root args)) (npm_fixture_path args))) else []) s1 s2"
  proof (cases "na_consumer_smoke args")
    case True
    with 2 obtain v where "run_consumer_smoke h (na_vendor_root args) (npm_fixture_path args) out_dir s1 = (Inr v, s2)"
      by (auto simp: io_simps)
    from smoke_planned [OF this] True show ?thesis by auto
  qed (use 2 in \<open>auto simp: io_simps planned_def\<close>)
  have "dict_get d' ''publication'' = JStr ''none''" using 2 d by (auto simp: io_simps split: if_splits)
  moreover have "snd s' = snd s2"
      "map_of (fst s') (out_dir @ [''npm-release-dry-run.json'']) = Some (File (dumps_ascii (JObj d') @ [newline]))"
    using 3 by (auto simp: io_simps write_result_def write_file_def split: option.splits node.splits)
  ultimately show ?thesis using planned_append [OF p1 p2] by (auto simp: build_plan_def planned_def)
qed

text \<open>C16: a dry run publishes nothing. However it ends and whatever the commands do, it only ever runs the harmless
ones: locked or script-free installations, the scripts build, typecheck and runtime, and pack as a trial; without
a build it runs none and changes nothing. A build that succeeds has run exactly the planned commands in their
order, with exit code 0, besides installations of what is locked, and wrote a result that says no publication.\<close>

theorem npm_publishes_nothing:
  assumes "npm_main h args tmp (fs, es) = (r, (fs', es'))"
  shows "\<exists>new. es' = es @ new \<and> list_all npm_event_ok new \<and>
    (if na_build args
     then \<forall>line. r = Inr line \<longrightarrow>
       (let out_dir = (case na_out_dir args of Some d \<Rightarrow> d | None \<Rightarrow> tmp) in
        filter (\<lambda>e. \<not> is_ci e) new = build_plan args out_dir \<and>
        (\<exists>d. map_of fs' (out_dir @ [''npm-release-dry-run.json'']) = Some (File (dumps_ascii (JObj d) @ [newline])) \<and>
           dict_get d ''publication'' = JStr ''none''))
     else new = [] \<and> fs' = fs)"
proof -
  from npm.framed_result [OF framed_npm_main assms] obtain new where new: "es' = es @ new" "list_all npm_event_ok new"
    by (auto simp: npm_logged_def)
  have "new = [] \<and> fs' = fs" if "\<not> na_build args"
    using assms that new(1)
    by (auto simp: npm_main_def seqIO_def bindIO_def check_fs_def raiseIO_def retIO_def split: sum.splits if_splits)
  moreover have "let out_dir = (case na_out_dir args of Some d \<Rightarrow> d | None \<Rightarrow> tmp) in
        filter (\<lambda>e. \<not> is_ci e) new = build_plan args out_dir \<and>
        (\<exists>d. map_of fs' (out_dir @ [''npm-release-dry-run.json'']) = Some (File (dumps_ascii (JObj d) @ [newline])) \<and>
           dict_get d ''publication'' = JStr ''none'')"
    if "na_build args" "r = Inr line" for line
  proof -
    let ?out = "case na_out_dir args of Some d \<Rightarrow> d | None \<Rightarrow> tmp"
    from assms that obtain fs1 where "npm_build h args ?out (fs1, es) = (Inr line, (fs', es'))"
      by (auto simp: npm_main_def io_simps split: option.splits)
    from npm_build_done [OF this] new(1) show ?thesis by (auto simp: planned_def Let_def)
  qed
  ultimately show ?thesis using new by (intro exI [of _ new]) auto
qed

text \<open>A release in \<open>/v\<close>, built and tried out with an empty list of scripts that do nothing.\<close>

definition ex_package :: "string \<Rightarrow> json" where
  "ex_package name = JObj [(''name'', JStr name), (''files'', JArr [JStr ''dist'']),
     (''exports'', JObj [(''.'', JObj [(''types'', JStr ''./dist/*.ts''), (''default'', JStr ''./dist/i.js'')])])]"

definition ex_fixture :: json where
  "ex_fixture = JObj [(''private'', JBool True), (''dependencies'', JObj (map (\<lambda>(name, p).
     (name, JStr (''file:../../../'' @ str_join ''/'' p))) PACKAGE_RELATIVE_PATHS))]"

definition ex_pack :: "string \<Rightarrow> json" where
  "ex_pack name = JArr [JObj [(''name'', JStr name), (''version'', JStr ''1''), (''filename'', JStr ''x.tgz''),
     (''files'', JArr [JObj [(''path'', JStr ''dist/i.js'')]])]]"

definition ex_npm :: npm_host where
  "ex_npm = \<lparr>npm_found = True,
     npm_loads = map_of ((''fixture'', ex_fixture) #
       concat (map (\<lambda>(name, p). [(name, ex_package name), (''pack '' @ last p, ex_pack name)]) PACKAGE_RELATIVE_PATHS)),
     npm_exec = (\<lambda>cmd cwd fs. (Inr (0, ''pack '' @ last cwd, []), fs))\<rparr>"

definition ex_npm_fs :: fs where
  "ex_npm_fs = ([''v''], Dir) # ([''v'', ''fixtures''], Dir) # ([''v'', ''fixtures'', ''external-consumers''], Dir) #
     (let fx = [''v''] @ FIXTURE_RELATIVE in
      [(fx, Dir), (fx @ [''package.json''], File ''fixture''), (fx @ [''tsconfig.json''], File []), (fx @ [''src''], Dir),
       (fx @ [''src'', ''import-smoke.ts''], File ''grain-sdk-ts/errors''), (fx @ [''src'', ''runtime-smoke.mjs''], File ''grain-sdk-ai-ts'')]) @
     [([''v'', ''core''], Dir), ([''v'', ''core'', ''ts''], Dir)] @
     concat (map (\<lambda>(name, p). let d = [''v''] @ p in
       [(d, Dir), (d @ [''package.json''], File name), (d @ [''package-lock.json''], File []), (d @ [''dist''], Dir),
        (d @ [''dist'', ''i.js''], File []), (d @ [''dist'', ''i.ts''], File [])]) PACKAGE_RELATIVE_PATHS)"

definition ex_npm_args :: npm_args where
  "ex_npm_args = \<lparr>na_vendor_root = [''v''], na_fixture = None, na_out_dir = Some [''o''], na_build = True, na_consumer_smoke = True\<rparr>"

theorem npm_publishes_nothing_witness:
  "\<exists>line fs' new. npm_main ex_npm ex_npm_args [''t''] (ex_npm_fs, []) = (Inr line, (fs', new)) \<and>
     filter (\<lambda>e. \<not> is_ci e) new = build_plan ex_npm_args [''o'']"
proof -
  have "(case npm_main ex_npm ex_npm_args [''t''] (ex_npm_fs, []) of (Inr _, _) \<Rightarrow> True | _ \<Rightarrow> False)" by code_simp
  then obtain line fs' new where run: "npm_main ex_npm ex_npm_args [''t''] (ex_npm_fs, []) = (Inr line, (fs', new))"
    by (auto split: prod.splits sum.splits)
  have "na_build ex_npm_args" "na_out_dir ex_npm_args = Some [''o'']" by (simp_all add: ex_npm_args_def)
  with npm_publishes_nothing [OF run] have "filter (\<lambda>e. \<not> is_ci e) new = build_plan ex_npm_args [''o'']"
    by (auto simp: Let_def)
  with run show ?thesis by blast
qed

end
