(* ===== verification/DependabotPolicy.thy ===== *)
theory DependabotPolicy
  imports PyFind Checks FullCiEnv
begin

text \<open>
  \<open>tools/ci/check_dependabot_policy.py\<close>: updates of dependencies come monthly, few at a time, and a person merges
  them. The configuration is read as text with regular expressions.
\<close>

definition EXPECTED_UPDATES :: "((string \<times> string) \<times> string list) list" where
  "EXPECTED_UPDATES =
     [((''github-actions'', ''/''), [''minor'', ''patch'']), ((''cargo'', ''/core/rust''), [''patch'']),
      ((''npm'', ''/runner/typescript''), [''minor'', ''patch''])]"

definition REQUIRED_DOC_TOKENS :: "string list" where
  "REQUIRED_DOC_TOKENS =
     [''monthly version-update cadence'', ''security updates remain immediate'', ''manual merge'',
      ''rebase-strategy: disabled'', ''open-pull-requests-limit at or below 2'', ''no privileged automerge workflow'']"

abbreviation blanks :: "char regex" where "blanks \<equiv> RStar (RCls chr_is_blank)"
abbreviation blanks1 :: "char regex" where "blanks1 \<equiv> RPlus (RCls chr_is_blank)"
abbreviation not_blank :: "char regex" where "not_blank \<equiv> RStar (RCls (\<lambda>c. \<not> chr_is_space c))"

definition MERGE_PRIMITIVES :: "char regex list" where
  "MERGE_PRIMITIVES =
     [RSeqs [RWordB, RLitI ''gh'', blanks1, RLitI ''pr'', blanks1, RLitI ''merge'', RWordB],
      RSeqs [RWordB, RLitI ''gh'', blanks1, RLitI ''api'', RWordB, RStar RAny, RLitI ''/pulls/'', RStar RAny, RLitI ''/merge'', RWordB],
      RSeqs [RWordB, RLitI ''curl'', RWordB, RStar RAny, RLitI ''api.github.com'', RStar RAny, RLitI ''/pulls/'', RStar RAny,
             RLitI ''/merge'', RWordB],
      RSeqs [RWordB, RLitI ''github.request'', RWordB, RStar RAny, RLitI ''/pulls/'', RStar RAny, RLitI ''/merge'', RWordB],
      RSeqs [RWordB, RLitI ''pulls.merge'', blanks, RLit ''('' ],
      RSeqs [RWordB, RAlt (RLitI ''enablePullRequestAutoMerge'') (RLitI ''mergePullRequest''), RWordB],
      RSeqs [RBol, blanks, RLitI ''uses:'', blanks, not_blank,
             RAlt (RSeqs [RLitI ''auto'', ROpt (RLit ''-''), RLitI ''merge'']) (RLitI ''automerge''), not_blank, RLit ''@'']]"

subsection \<open>Reading the configuration\<close>

definition unquoted :: "string \<Rightarrow> string" where
  "unquoted value =
     (let v = str_strip value in
      if 2 \<le> length v \<and> hd v = last v \<and> hd v \<in> {dquote, squote} then butlast (tl v) else v)"

text \<open>The lazy \<open>.+?\<close> of the value: one character of the line at least, then as few as possible.\<close>

definition lazy_line :: "char pos \<Rightarrow> char pos list" where
  "lazy_line c =
     (case snd c of [] \<Rightarrow> [] | x # xs \<Rightarrow> if x = newline then [] else lazy_ends (\<lambda>y. y \<noteq> newline) (x # fst c) xs)"

definition scalar_match :: "string \<Rightarrow> matcher" where
  "scalar_match key =
     capture (RSeqs [RBol, blanks1, ROpt (RSeqs [RLit ''-'', blanks1]), RLit key, RLit '':'', blanks]) lazy_line blanks_eol"

definition scalar :: "string \<Rightarrow> string \<Rightarrow> string option" where
  "scalar block key = (case finds (scalar_match key) [] block of [] \<Rightarrow> None | v # _ \<Rightarrow> Some (unquoted v))"

text \<open>The offsets of the lines that open an update entry.\<close>

fun block_starts :: "bool \<Rightarrow> nat \<Rightarrow> string \<Rightarrow> nat list" where
  "block_starts bol i [] = []"
| "block_starts bol i (c # cs) =
     (if bol \<and> prefix ''  - package-ecosystem:'' (c # cs) then [i] else []) @ block_starts (c = newline) (Suc i) cs"

text \<open>Each block runs from its start to the next one.\<close>

fun slices :: "string \<Rightarrow> nat list \<Rightarrow> string list" where
  "slices s [] = []"
| "slices s [i] = [drop i s]"
| "slices s (i # j # is) = take (j - i) (drop i s) # slices s (j # is)"

definition split_update_blocks :: "string \<Rightarrow> string list" where
  "split_update_blocks s = slices s (block_starts True 0 s)"

definition update_items :: matcher where
  "update_items =
     capture (RSeqs [RBol, RLit ''        update-types:'', RStar (RCls chr_is_space), REol, RLit [newline]])
       (ends (RPlus (RSeqs [RBol, RLit ''          - '', RPlus RAny, ROpt (RLit [newline])]))) REps"

text \<open>\<open>line.split("-", 1)[1]\<close> is out of range where the line has no dash.\<close>

definition update_types :: "string \<Rightarrow> string list res" where
  "update_types block =
     (case finds update_items [] block of
        [] \<Rightarrow> Inr []
      | items # _ \<Rightarrow>
          mapE (\<lambda>line. case str_partition ''-'' line of None \<Rightarrow> Inl IndexError | Some (_, v) \<Rightarrow> Inr (unquoted v)) (str_splitlines items))"

subsection \<open>The checks\<close>

text \<open>\<open>limit is None or not limit.isdigit() or not 1 <= int(limit) <= 2\<close>: a digit that is no decimal makes \<open>int\<close> fail.\<close>

definition limit_bad :: "string option \<Rightarrow> bool res" where
  "limit_bad limit =
     (case limit of
        None \<Rightarrow> Inr True
      | Some v \<Rightarrow>
          if \<not> str_isdigit v then Inr True
          else if \<not> list_all chr_is_ascii_digit v then Inl (ValueError v)
          else Inr (\<not> (1 \<le> digits_nat v \<and> digits_nat v \<le> 2)))"

definition note_if :: "bool \<Rightarrow> string \<Rightarrow> string list" where
  "note_if c msg = (if c then [msg] else [])"

text \<open>The errors of a block and its key, where it has one.\<close>

definition check_block :: "string \<Rightarrow> (string list \<times> (string \<times> string) list) res" where
  "check_block block =
     (case (scalar block ''package-ecosystem'', scalar block ''directory'') of
        (Some ecosystem, Some directory) \<Rightarrow>
          (let key = (ecosystem, directory); label = ''config:'' @ ecosystem @ '':'' @ directory in
           bindE (limit_bad (scalar block ''open-pull-requests-limit'')) (\<lambda>limit.
           bindE (case map_of EXPECTED_UPDATES key of
                    None \<Rightarrow> Inr []
                  | Some ts \<Rightarrow> bindE (update_types block) (\<lambda>us.
                      Inr (note_if (set us \<noteq> set ts) (label @ '': grouped update-types must be '' @ strs_repr (py_sorted ts)))))
             (\<lambda>type_errors.
           Inr (note_if (scalar block ''interval'' \<noteq> Some ''monthly'') (label @ '': interval must be monthly'') @
                note_if (scalar block ''rebase-strategy'' \<noteq> Some ''disabled'') (label @ '': rebase-strategy must be disabled'') @
                note_if limit (label @ '': open-pull-requests-limit must be 1 or 2'') @
                note_if (\<not> contains block ''    groups:'' \<or> \<not> contains block (''          - '' @ [dquote] @ ''*'' @ [dquote]))
                  (label @ '': routine update group with wildcard pattern is required'') @
                type_errors, [key]))))
      | _ \<Rightarrow> Inr ([''config: every update entry needs package-ecosystem and directory''], []))"

definition check_config :: "env \<Rightarrow> string \<Rightarrow> string list res" where
  "check_config w path =
     (if \<not> path_exists w path then Inr [''config: missing file '' @ path]
      else
        bindE (read_text w path) (\<lambda>doc.
        bindE (mapE check_block (split_update_blocks doc)) (\<lambda>rs.
        let keys = concat (map snd rs) in
        Inr (concat (map fst rs) @
             note_if (set keys \<noteq> set (map fst EXPECTED_UPDATES))
               (''config: expected update entries '' @ pairs_repr (map fst EXPECTED_UPDATES) @ '', actual='' @ pairs_repr keys)))))"

definition check_docs :: "env \<Rightarrow> string \<Rightarrow> string list res" where
  "check_docs w path =
     (if \<not> path_exists w path then Inr [''policy-doc: missing file '' @ path]
      else bindE (read_text w path) (\<lambda>doc.
        Inr (map (\<lambda>token. ''policy-doc: missing token: '' @ token) (filter (\<lambda>token. \<not> contains doc token) REQUIRED_DOC_TOKENS))))"

text \<open>The text without its comment lines.\<close>

definition active_text :: "string \<Rightarrow> string" where
  "active_text doc = str_join [newline] (filter (\<lambda>line. \<not> starts_with (str_lstrip line) ''#'') (str_splitlines doc))"

definition workflow_merge_errors :: "env \<Rightarrow> string \<Rightarrow> string list res" where
  "workflow_merge_errors w workflow =
     bindE (read_text w workflow) (\<lambda>doc.
       Inr (note_if (contains doc ''DEPENDABOT_AUTOMERGE_TOKEN'') (''workflow: obsolete automerge token present: '' @ workflow) @
            note_if (contains (str_lower (active_text doc)) ''dependabot'' \<and>
                     list_ex (\<lambda>p. re_search p (active_text doc)) MERGE_PRIMITIVES)
              (''workflow: Dependabot-triggered merge behavior is forbidden: '' @ workflow)))"

definition check_no_automerge :: "env \<Rightarrow> string \<Rightarrow> string list res" where
  "check_no_automerge w workflows_dir =
     (let automerge = path_join workflows_dir ''dependabot-automerge.yml'' in
      bindE (mapE (workflow_merge_errors w) (sort_key path_parts (dir_glob w workflows_dir ''*.y*ml''))) (\<lambda>es.
      Inr (note_if (path_exists w automerge) (''workflow: privileged Dependabot automerge must be absent: '' @ automerge) @ concat es)))"

record dependabot_args =
  dp_config :: string
  dp_policy_doc :: string
  dp_workflows_dir :: string

definition dependabot_defaults :: dependabot_args where
  "dependabot_defaults = \<lparr>dp_config = ''.github/dependabot.yml'', dp_policy_doc = ''docs/human/dependencies-policy.md'',
     dp_workflows_dir = ''.github/workflows''\<rparr>"

definition dependabot_main :: "env \<Rightarrow> dependabot_args \<Rightarrow> (nat \<times> string list) res" where
  "dependabot_main w a =
     bindE (check_config w (path_str (dp_config a))) (\<lambda>config_errors.
     bindE (check_docs w (path_str (dp_policy_doc a))) (\<lambda>doc_errors.
     bindE (check_no_automerge w (path_str (dp_workflows_dir a))) (\<lambda>merge_errors.
     let errors = config_errors @ doc_errors @ merge_errors in
     Inr (if errors \<noteq> [] then (1, ''Dependabot policy check failed:'' # map (\<lambda>e. ''- '' @ e) errors)
          else (0, [''Dependabot policy check: OK''])))))"

end
