(* ===== verification/DependabotProps.thy ===== *)
theory DependabotProps
  imports DependabotPolicy
begin

text \<open>
  What the Dependabot check reads from a configuration, line by line, and what a passing check means for the update
  entries and the workflows.
\<close>

subsection \<open>Values by lines\<close>

text \<open>A line that gives a value to a key: blanks, perhaps a dash and blanks, the key with its colon and the value, which
is the rest without surrounding blanks, or the last blank where there is nothing else.\<close>

definition after_dash :: "string \<Rightarrow> string" where
  "after_dash t = (case t of c # d # r \<Rightarrow> if c = CHR ''-'' \<and> chr_is_blank d then dropWhile chr_is_blank r else t | _ \<Rightarrow> t)"

definition line_value :: "string \<Rightarrow> string option" where
  "line_value b =
     (let v = dropWhile chr_is_blank b in
      if v \<noteq> [] then Some (rstrip_blank v) else if b \<noteq> [] then Some [last b] else None)"

definition colon_rest :: "string \<Rightarrow> string \<Rightarrow> string option" where
  "colon_rest key l =
     (case l of [] \<Rightarrow> None
      | c # cs \<Rightarrow>
          if \<not> chr_is_blank c then None
          else let t = after_dash (dropWhile chr_is_blank cs) in
            if prefix (key @ '':'') t then Some (drop (Suc (length key)) t) else None)"

definition scalar_line :: "string \<Rightarrow> string \<Rightarrow> string option" where
  "scalar_line key l = Option.bind (colon_rest key l) line_value"

text \<open>The value of the first line of a block that gives one to the key.\<close>

definition line_says :: "string \<Rightarrow> string \<Rightarrow> string option" where
  "line_says block key =
     (case List.map_filter (scalar_line key) (lf_lines block) of [] \<Rightarrow> None | v # _ \<Rightarrow> Some (unquoted v))"

lemma ends_plus_then:
  assumes "\<And>q x xs. P x \<Longrightarrow> ends k (q, x # xs) = []"
  shows "ends (RSeq (RPlus (RCls P)) k) (p, s) =
    (case s of [] \<Rightarrow> [] | x # xs \<Rightarrow> if P x then ends k (rev (takeWhile P xs) @ x # p, dropWhile P xs) else [])"
proof (cases s)
  case (Cons x xs)
  have "ends (RSeq (RPlus (RCls P)) k) (p, x # xs) = (if P x then ends (RSeq (RStar (RCls P)) k) (x # p, xs) else [])"
    by (simp add: RPlus_def)
  then show ?thesis using ends_greedy [of P k "x # p" xs, OF assms] Cons by simp
qed (simp add: RPlus_def)

text \<open>The positions of a greedy run of blanks up to the end of the line, longest first.\<close>

lemma blanks_two:
  assumes "list_all P ws" "P y" "\<not> (r \<noteq> [] \<and> P (hd r))"
  shows "\<exists>ms. ends (RStar (RCls P)) (q, ws @ y # r) = (y # rev ws @ q, r) # (rev ws @ q, y # r) # ms"
  using assms
proof (induction ws arbitrary: q)
  case Nil
  have "ends (RStar (RCls P)) (y # q, r) = [(y # q, r)]"
    using Nil by (cases r) (subst ends_RStar_cls, simp)+
  with Nil show ?case by (subst ends_RStar_cls) simp
next
  case (Cons w ws)
  then show ?case by (subst ends_RStar_cls) (auto dest: Cons.IH [of "w # q"])
qed

definition value_matches :: "char pos \<Rightarrow> (string \<times> char pos) list" where
  "value_matches a = concat (map (\<lambda>c. map (\<lambda>e. (PyFind.span a c, e)) (ends blanks_eol c)) (lazy_line a))"

lemma value_captured:
  assumes "newline \<notin> set b" "is_eol r"
  shows "case line_value b of
      None \<Rightarrow> concat (map value_matches (ends blanks (q, b @ r))) = []
    | Some g \<Rightarrow> \<exists>ms. concat (map value_matches (ends blanks (q, b @ r))) = (g, (rev b @ q, r)) # ms"
proof (cases "dropWhile chr_is_blank b")
  case (Cons x xs)
  let ?w = "takeWhile chr_is_blank b"
  have x: "\<not> chr_is_blank x" using Cons by (metis hd_dropWhile list.distinct(1) list.sel(1))
  have b: "b = ?w @ x # xs" using Cons by (metis takeWhile_dropWhile_id)
  have nl: "x \<noteq> newline" "newline \<notin> set xs" using assms(1) b by (metis Un_iff list.set_intros(1) list.set_intros(2) set_append)+
  obtain ms where ms: "ends blanks (q, b @ r) = (rev ?w @ q, x # xs @ r) # ms"
    using star_head [of chr_is_blank q "b @ r"] Cons by (auto simp: takeWhile_eol dropWhile_eol assms(2))
  obtain ks where "concat (map (\<lambda>c. map (\<lambda>e. (PyFind.span (rev ?w @ q, x # xs @ r) c, e)) (ends blanks_eol c))
      (lazy_ends (\<lambda>y. y \<noteq> newline) (x # rev ?w @ q) (xs @ r))) =
      (take (length (x # xs @ r) - length (xs @ r) + length (rstrip_blank xs)) (x # xs @ r), (rev xs @ x # rev ?w @ q, r)) # ks"
    using lazy_group [OF nl(2) assms(2), of "(rev ?w @ q, x # xs @ r)" "x # rev ?w @ q"] by auto
  moreover have "take (length (x # xs @ r) - length (xs @ r) + length (rstrip_blank xs)) (x # xs @ r) = x # rstrip_blank xs"
    using rstrip_blank_prefix [of xs] length_dropWhile_le [of chr_is_blank "rev xs"] by simp
  moreover have "rev xs @ x # rev ?w @ q = rev b @ q" using arg_cong [OF b, of rev] by simp
  ultimately have "value_matches (rev ?w @ q, x # xs @ r) = (x # rstrip_blank xs, (rev b @ q, r)) # ks"
    using nl by (simp add: value_matches_def lazy_line_def)
  moreover have "rstrip_blank (x # xs) = x # rstrip_blank xs" by (rule rstrip_blank_Cons) (simp add: x)
  ultimately show ?thesis using Cons ms by (simp add: line_value_def Let_def)
next
  case Nil
  then have all: "list_all chr_is_blank b" by (simp add: list_all_iff dropWhile_eq_Nil_conv)
  have stop: "\<not> (r \<noteq> [] \<and> chr_is_blank (hd r))" using assms(2) by (auto simp: is_eol_def)
  have empty: "value_matches (p, r) = []" for p
    using assms(2) by (cases r) (auto simp: value_matches_def lazy_line_def is_eol_def)
  show ?thesis
  proof (cases b rule: rev_cases)
    case b: Nil
    have "ends blanks (q, r) = [(q, r)]" using stop by (cases r) (subst ends_RStar_cls, simp)+
    then show ?thesis using b empty by (simp add: line_value_def)
  next
    case (snoc ws y)
    obtain ms where ms: "ends blanks (q, b @ r) = (y # rev ws @ q, r) # (rev ws @ q, y # r) # ms"
      using blanks_two [of chr_is_blank ws y r q] all stop snoc by auto
    have y: "y \<noteq> newline" using assms(1) snoc by auto
    have "lazy_ends (\<lambda>y. y \<noteq> newline) (y # rev ws @ q) r = [(y # rev ws @ q, r)]"
      using assms(2) by (cases r) (auto simp: is_eol_def)
    moreover have "ends blanks_eol (y # rev ws @ q, r) = [(y # rev ws @ q, r)]"
      using ends_blanks_eol [of "[]" r "y # rev ws @ q"] assms(2) by simp
    ultimately have "value_matches (rev ws @ q, y # r) = [([y], (y # rev ws @ q, r))]"
      using y by (simp add: value_matches_def lazy_line_def PyFind.span_def)
    then show ?thesis using Nil snoc ms empty by (simp add: line_value_def Let_def)
  qed
qed

locale scalar_key =
  fixes key :: string
  assumes key_first: "key = c # cs \<Longrightarrow> \<not> chr_is_blank c \<and> c \<noteq> CHR ''-''" and key_ne: "key \<noteq> []"
    and key_line: "newline \<notin> set key"
begin

abbreviation rest_re :: "char regex" where
  "rest_re \<equiv> RSeqs [RLit key, RLit '':'', blanks]"

lemma rest_blank: "chr_is_blank x \<or> x = CHR ''-'' \<Longrightarrow> ends rest_re (q, x # xs) = []"
  using key_first key_ne by (cases key) (auto simp: ends_RSeqs ends_RLit)

lemma dash_ends:
  assumes "is_eol r" "newline \<notin> set t"
  shows "ends (RSeq (ROpt (RSeqs [RLit ''-'', blanks1])) rest_re) (q, t @ r) =
    ends rest_re (rev (take (length t - length (after_dash t)) t) @ q, after_dash t @ r)"
proof -
  have split: "ends (RSeq (ROpt (RSeqs [RLit ''-'', blanks1])) rest_re) c =
      ends (RSeq (RSeqs [RLit ''-'', blanks1]) rest_re) c @ ends rest_re c" for c
    by (simp add: ROpt_def)
  have dash: "ends (RSeq (RSeqs [RLit ''-'', blanks1]) rest_re) (q, s) =
      (case s of [] \<Rightarrow> [] | x # xs \<Rightarrow> if x = CHR ''-'' then ends (RSeq blanks1 rest_re) (x # q, xs) else [])" for s
    by (cases s) (simp_all add: ends_RLit RSeqs_def [of "[_, _]"] map_concat comp_def del: ends.simps(5))
  have plus: "ends (RSeq blanks1 rest_re) (q, s) =
      (case s of [] \<Rightarrow> [] | x # xs \<Rightarrow>
        if chr_is_blank x then ends rest_re (rev (takeWhile chr_is_blank xs) @ x # q, dropWhile chr_is_blank xs) else [])" for q s
    by (rule ends_plus_then) (simp add: rest_blank)
  show ?thesis
  proof (cases t)
    case Nil
    then show ?thesis using assms(1) unfolding split dash
      by (cases r) (auto simp: after_dash_def is_eol_def)
  next
    case (Cons c t')
    show ?thesis
    proof (cases "c = CHR ''-''")
      case False
      then show ?thesis using Cons unfolding split dash by (simp add: after_dash_def split: list.split)
    next
      case True
      then have none: "ends rest_re (q, t @ r) = []" using Cons rest_blank by simp
      show ?thesis
      proof (cases "\<exists>d t''. t' = d # t'' \<and> chr_is_blank d")
        case False
        then have "after_dash t = t" using Cons by (auto simp: after_dash_def split: list.splits)
        moreover have "ends (RSeq blanks1 rest_re) (c # q, t' @ r) = []"
          using False assms(1) unfolding plus by (cases t'; cases r) (auto simp: is_eol_def)
        ultimately show ?thesis using True Cons none unfolding split dash by simp
      next
        case yes: True
        then obtain d t'' where t': "t' = d # t''" "chr_is_blank d" by blast
        have "takeWhile chr_is_blank (t'' @ r) = takeWhile chr_is_blank t''" "dropWhile chr_is_blank (t'' @ r) = dropWhile chr_is_blank t'' @ r"
          using assms(1) by (simp_all add: takeWhile_eol dropWhile_eol)
        moreover have "after_dash t = dropWhile chr_is_blank t''" using t' True Cons by (simp add: after_dash_def)
        moreover have "length t'' - length (dropWhile chr_is_blank t'') = length (takeWhile chr_is_blank t'')"
          by (metis add_diff_cancel_right' length_append takeWhile_dropWhile_id)
        then have "Suc (Suc (length t'')) - length (dropWhile chr_is_blank t'') = Suc (Suc (length (takeWhile chr_is_blank t'')))"
          using length_dropWhile_le [of chr_is_blank t''] by linarith
        then have "take (Suc (Suc (length t'')) - length (dropWhile chr_is_blank t'')) (c # d # t'') = c # d # takeWhile chr_is_blank t''"
          by (simp add: takeWhile_eq_take [symmetric])
        ultimately show ?thesis using True Cons none t' unfolding split dash plus by simp
      qed
    qed
  qed
qed

lemma after_dash_suffix: "\<exists>u. t = u @ after_dash t"
proof -
  have "\<exists>u. t = u @ dropWhile chr_is_blank (drop 2 t)" by (metis append_take_drop_id takeWhile_dropWhile_id append_assoc)
  then show ?thesis by (auto simp: after_dash_def split: list.splits if_splits)
qed

lemma key_ends:
  assumes "is_eol r" "newline \<notin> set t"
  shows "ends rest_re (q, t @ r) =
    (if prefix (key @ '':'') t
     then ends blanks (rev (key @ '':'') @ q, drop (Suc (length key)) t @ r) else [])"
proof -
  have "ends rest_re (q, s) = (if prefix (key @ '':'') s
      then ends blanks (rev (key @ '':'') @ q, drop (Suc (length key)) s) else [])" for s
  proof (cases "prefix key s")
    case True
    then obtain u where u: "s = key @ u" by (auto simp: prefix_def)
    then show ?thesis
      by (cases u) (auto simp: ends_RSeqs ends_RLit concat_map_single)
  qed (auto simp: ends_RSeqs ends_RLit dest: append_prefixD)
  moreover have "prefix (key @ '':'') (t @ r) \<longleftrightarrow> prefix (key @ '':'') t"
    using assms(1) key_line by (intro prefix_eol) auto
  ultimately show ?thesis by (auto simp: prefix_def)
qed

lemma pre_ends:
  assumes "at_bol (p, l @ r)" "newline \<notin> set l" "is_eol r"
  shows "case colon_rest key l of
      None \<Rightarrow> ends (RSeqs [RBol, blanks1, ROpt (RSeqs [RLit ''-'', blanks1]), RLit key, RLit '':'', blanks]) (p, l @ r) = []
    | Some b \<Rightarrow> \<exists>u. l = u @ b \<and> u \<noteq> [] \<and>
        ends (RSeqs [RBol, blanks1, ROpt (RSeqs [RLit ''-'', blanks1]), RLit key, RLit '':'', blanks]) (p, l @ r) =
        ends blanks (rev u @ p, b @ r)"
proof -
  let ?K = "RSeq (ROpt (RSeqs [RLit ''-'', blanks1])) rest_re"
  have fails: "chr_is_blank x \<Longrightarrow> ends ?K (q, x # xs) = []" for q x xs
  proof -
    assume x: "chr_is_blank x"
    then have "x \<noteq> CHR ''-''" by (auto simp: chr_is_blank_def)
    with x show ?thesis by (simp add: ROpt_def rest_blank ends_RLit RSeqs_def [of "[_, _]"] del: ends.simps(5))
  qed
  have start: "ends (RSeqs [RBol, blanks1, ROpt (RSeqs [RLit ''-'', blanks1]), RLit key, RLit '':'', blanks]) (p, l @ r) =
      ends (RSeq blanks1 ?K) (p, l @ r)"
    unfolding ends_bol [OF assms(1)] by (simp add: RSeqs_def)
  have plus: "ends (RSeq blanks1 ?K) (p, l @ r) =
      (case l of [] \<Rightarrow> [] | c # cs \<Rightarrow>
        if chr_is_blank c then ends ?K (rev (takeWhile chr_is_blank cs) @ c # p, dropWhile chr_is_blank cs @ r) else [])"
  proof (subst ends_plus_then [OF fails])
    show "(case l @ r of [] \<Rightarrow> [] | x # xs \<Rightarrow>
        if chr_is_blank x then ends ?K (rev (takeWhile chr_is_blank xs) @ x # p, dropWhile chr_is_blank xs) else []) =
      (case l of [] \<Rightarrow> [] | c # cs \<Rightarrow>
        if chr_is_blank c then ends ?K (rev (takeWhile chr_is_blank cs) @ c # p, dropWhile chr_is_blank cs @ r) else [])"
      using assms(3) by (cases l; cases r) (auto simp: is_eol_def takeWhile_eol dropWhile_eol)
  qed
  show ?thesis
  proof (cases l)
    case Nil
    then show ?thesis unfolding start plus by (simp add: colon_rest_def)
  next
    case (Cons c cs)
    show ?thesis
    proof (cases "chr_is_blank c")
      case False
      then show ?thesis using Cons unfolding start plus by (simp add: colon_rest_def)
    next
      case True
      let ?t = "dropWhile chr_is_blank cs" and ?w = "takeWhile chr_is_blank cs"
      have nl: "newline \<notin> set ?t" using assms(2) Cons by (auto dest: set_dropWhileD)
      obtain v where v: "?t = v @ after_dash ?t" using after_dash_suffix by blast
      then have tk: "take (length ?t - length (after_dash ?t)) ?t = v" by (metis add_diff_cancel_right' append_eq_conv_conj length_append)
      have nl': "newline \<notin> set (after_dash ?t)" using nl v by (metis Un_iff set_append)
      have e: "ends ?K (rev ?w @ c # p, ?t @ r) = ends rest_re (rev v @ rev ?w @ c # p, after_dash ?t @ r)"
        using dash_ends [OF assms(3) nl] tk by simp
      note k = key_ends [OF assms(3) nl', of "rev v @ rev ?w @ c # p"]
      show ?thesis
      proof (cases "prefix (key @ '':'') (after_dash ?t)")
        case False
        then show ?thesis using Cons True e k unfolding start plus by (simp add: colon_rest_def Let_def)
      next
        case pre: True
        then obtain b where b: "after_dash ?t = (key @ '':'') @ b" by (auto simp: prefix_def)
        have "l = (c # ?w @ v @ key @ '':'') @ b"
          using Cons v b by (metis append.assoc append_Cons takeWhile_dropWhile_id)
        moreover have "ends (RSeq blanks1 ?K) (p, l @ r) = ends blanks (rev (c # ?w @ v @ key @ '':'') @ p, b @ r)"
          using Cons True e k pre b unfolding plus by simp
        moreover have "colon_rest key l = Some b" using Cons True b by (simp add: colon_rest_def Let_def)
        ultimately show ?thesis unfolding start by (auto intro!: exI [of _ "c # ?w @ v @ key @ '':''"])
      qed
    qed
  qed
qed

lemma scalar_match_line:
  assumes "at_bol (p, l @ r)" "newline \<notin> set l" "is_eol r"
  shows "case scalar_line key l of None \<Rightarrow> scalar_match key (p, l @ r) = []
    | Some g \<Rightarrow> l \<noteq> [] \<and> (\<exists>ms. scalar_match key (p, l @ r) = (g, (rev l @ p, r)) # ms)"
proof -
  have m: "scalar_match key (p, l @ r) = concat (map value_matches
      (ends (RSeqs [RBol, blanks1, ROpt (RSeqs [RLit ''-'', blanks1]), RLit key, RLit '':'', blanks]) (p, l @ r)))"
    by (simp add: scalar_match_def capture_def value_matches_def [abs_def])
  show ?thesis
  proof (cases "colon_rest key l")
    case None
    with pre_ends [OF assms] m show ?thesis by (simp add: scalar_line_def)
  next
    case (Some b)
    with pre_ends [OF assms] obtain u where u: "l = u @ b" "u \<noteq> []"
        "ends (RSeqs [RBol, blanks1, ROpt (RSeqs [RLit ''-'', blanks1]), RLit key, RLit '':'', blanks]) (p, l @ r) =
         ends blanks (rev u @ p, b @ r)" by auto
    have "newline \<notin> set b" using assms(2) u(1) by simp
    from value_captured [OF this assms(3), of "rev u @ p"] show ?thesis
      using Some u(1,2) unfolding m u(3) by (auto simp: scalar_line_def split: option.splits)
  qed
qed

end

sublocale scalar_key \<subseteq> scan: line_pattern "scalar_match key" "scalar_line key"
proof
  show "scalar_match key c = []" if "\<not> at_bol c" for c
    using that by (simp add: scalar_match_def capture_not_bol)
  show "\<exists>u v ms. scalar_match key (p, l @ r) = (g, (rev u @ p, v @ r)) # ms \<and> l = u @ v \<and> u \<noteq> []"
    if "at_bol (p, l @ r)" "newline \<notin> set l" "is_eol r" "scalar_line key l = Some g" for p l r g
  proof -
    from scalar_match_line [OF that(1-3)] that(4) obtain ms where
        "l \<noteq> []" "scalar_match key (p, l @ r) = (g, (rev l @ p, r)) # ms" by auto
    then show ?thesis by (intro exI [of _ l] exI [of _ "[]"] exI [of _ ms]) simp
  qed
  show "scalar_match key (p, l @ r) = []"
    if "at_bol (p, l @ r)" "newline \<notin> set l" "is_eol r" "scalar_line key l = None" for p l r
    using scalar_match_line [OF that(1-3)] that(4) by simp
qed

context scalar_key
begin

lemma scalar_lines: "scalar block key = line_says block key"
proof -
  have "finds (scalar_match key) [] block = List.map_filter (scalar_line key) (lf_lines block)"
    by (rule scan.finds_lines) (simp_all add: scalar_line_def colon_rest_def bol_start)
  then show ?thesis by (simp add: scalar_def line_says_def)
qed

end

text \<open>The keys that are read.\<close>

interpretation ecosystem: scalar_key "''package-ecosystem''" by unfold_locales (auto simp: chr_is_blank_def)
interpretation directory: scalar_key "''directory''" by unfold_locales (auto simp: chr_is_blank_def)
interpretation interval: scalar_key "''interval''" by unfold_locales (auto simp: chr_is_blank_def)
interpretation rebase: scalar_key "''rebase-strategy''" by unfold_locales (auto simp: chr_is_blank_def)
interpretation limit: scalar_key "''open-pull-requests-limit''" by unfold_locales (auto simp: chr_is_blank_def)

lemmas key_lines = ecosystem.scalar_lines directory.scalar_lines interval.scalar_lines rebase.scalar_lines limit.scalar_lines

subsection \<open>Merging from the command line\<close>

text \<open>A call of \<open>gh pr merge\<close> in a text: in any letter case and spacing, between characters that are no part of a word.\<close>

definition merge_call :: "string \<Rightarrow> bool" where
  "merge_call s \<longleftrightarrow>
     (\<exists>u g b1 p b2 m v. s = u @ g @ b1 @ p @ b2 @ m @ v \<and> \<not> at_word (rev u) \<and> \<not> at_word v \<and>
        str_lower g = ''gh'' \<and> str_lower p = ''pr'' \<and> str_lower m = ''merge'' \<and>
        b1 \<noteq> [] \<and> list_all chr_is_blank b1 \<and> b2 \<noteq> [] \<and> list_all chr_is_blank b2)"

lemma lang_star_cls: "list_all P u \<Longrightarrow> ((p, u @ s), (rev u @ p, s)) \<in> lang (RStar (RCls P))"
proof (induction u arbitrary: p)
  case (Cons x u)
  then have "((x # p, u @ s), (rev u @ x # p, s)) \<in> (lang (RCls P))\<^sup>*" by simp
  moreover have "((p, x # u @ s), (x # p, u @ s)) \<in> lang (RCls P)" using Cons.prems by simp
  ultimately show ?case by (simp add: converse_rtrancl_into_rtrancl)
qed simp

lemma lang_plus_cls: "u \<noteq> [] \<Longrightarrow> list_all P u \<Longrightarrow> ((p, u @ s), (rev u @ p, s)) \<in> lang (RPlus (RCls P))"
proof (cases u)
  case (Cons x us)
  assume "list_all P u"
  with Cons have "((x # p, us @ s), (rev us @ x # p, s)) \<in> lang (RStar (RCls P))" by (intro lang_star_cls) simp
  with Cons \<open>list_all P u\<close> show ?thesis by (auto simp: RPlus_def intro!: relcompI)
qed simp

lemma lower_word: "chr_is_word c \<longleftrightarrow> chr_is_word d" if "chr_lower c = chr_lower d" "d \<in> set ''ghpre''"
proof -
  have letters: "chr_is_ascii_alpha d" using that(2) by (auto simp: chr_is_ascii_alpha_def)
  have "(of_char d :: nat) \<in> {101, 103, 104, 112, 114}" using that(2) by auto
  then have "(of_char (chr_lower d) :: nat) \<in> {101, 103, 104, 112, 114}" by (auto simp: chr_lower_def Let_def)
  then have lower: "(of_char (chr_lower c) :: nat) \<in> {101, 103, 104, 112, 114}" using that(1) by simp
  have "chr_is_ascii_alpha c"
  proof (cases "(65 \<le> (of_char c :: nat) \<and> (of_char c :: nat) \<le> 90) \<or> (192 \<le> (of_char c :: nat) \<and> (of_char c :: nat) \<le> 222 \<and> (of_char c :: nat) \<noteq> 215)")
    case True
    have "(of_char c :: nat) \<le> 222" using True by auto
    then have "(of_char c + 32 :: nat) < 256" by simp
    with True have "(of_char (chr_lower c) :: nat) = of_char c + 32" by (auto simp: chr_lower_def Let_def)
    with lower True show ?thesis by (auto simp: chr_is_ascii_alpha_def)
  next
    case False
    then have "chr_lower c = c" by (auto simp: chr_lower_def Let_def)
    with lower show ?thesis by (auto simp: chr_is_ascii_alpha_def)
  qed
  with letters show ?thesis by (simp add: chr_is_word_def chr_is_alnum_def chr_is_alpha_def)
qed

lemma merge_call_found: "merge_call s \<Longrightarrow> list_ex (\<lambda>p. re_search p s) MERGE_PRIMITIVES"
proof -
  assume "merge_call s"
  then obtain u g b1 p b2 m v where s: "s = u @ g @ b1 @ p @ b2 @ m @ v" "\<not> at_word (rev u)" "\<not> at_word v"
      and low: "str_lower g = ''gh''" "str_lower p = ''pr''" "str_lower m = ''merge''"
      and b: "b1 \<noteq> []" "list_all chr_is_blank b1" "b2 \<noteq> []" "list_all chr_is_blank b2" by (auto simp: merge_call_def)
  obtain x gs where g: "g = x # gs" "chr_lower x = chr_lower CHR ''g''"
    using low(1) by (cases g) (auto simp: str_lower_def chr_lower_def)
  obtain ms y where m: "m = ms @ [y]" "chr_lower y = chr_lower CHR ''e''"
    using low(3) by (cases m rule: rev_cases) (auto simp: str_lower_def chr_lower_def)
  have "chr_is_word CHR ''g''" "chr_is_word CHR ''e''" by code_simp+
  with lower_word [OF g(2)] lower_word [OF m(2)] have word: "chr_is_word x" "chr_is_word y" by simp_all
  let ?r = "RSeqs [RWordB, RLitI ''gh'', blanks1, RLitI ''pr'', blanks1, RLitI ''merge'', RWordB]"
  let ?p6 = "rev m @ rev b2 @ rev p @ rev b1 @ rev g @ rev u"
  have low': "str_lower ''gh'' = ''gh''" "str_lower ''pr'' = ''pr''" "str_lower ''merge'' = ''merge''" by code_simp+
  have w1: "((rev u, g @ b1 @ p @ b2 @ m @ v), (rev u, g @ b1 @ p @ b2 @ m @ v)) \<in> lang RWordB"
    using s(2) g word by (simp add: RWordB_def Id_on_iff at_word_def)
  have w2: "((?p6, v), (?p6, v)) \<in> lang RWordB"
    using s(3) m word by (simp add: RWordB_def Id_on_iff at_word_def)
  have "((rev u, g @ b1 @ p @ b2 @ m @ v), (?p6, v)) \<in> lang ?r"
    unfolding lang_RSeqs
    by (rule relcompI [OF w1], rule relcompI [OF lang_RLitI_any_case], simp add: low low',
        rule relcompI [OF lang_plus_cls [OF b(1,2)]], rule relcompI [OF lang_RLitI_any_case], simp add: low low',
        rule relcompI [OF lang_plus_cls [OF b(3,4)]], rule relcompI [OF lang_RLitI_any_case], simp add: low low',
        rule relcompI [OF w2], simp)
  then have "re_search ?r s" unfolding re_search_iff using s(1) by blast
  then show ?thesis by (simp add: MERGE_PRIMITIVES_def)
qed

subsection \<open>What a passing policy means\<close>

lemma note_if_Nil [simp]: "note_if c m = [] \<longleftrightarrow> \<not> c"
  by (simp add: note_if_def)

lemma limit_ok: "limit_bad v = Inr False \<longleftrightarrow> (\<exists>s. v = Some s \<and> str_isdigit s \<and> list_all chr_is_ascii_digit s \<and> digits_nat s \<in> {1, 2})"
  by (auto simp: limit_bad_def split: option.splits)

definition block_ok :: "string \<Rightarrow> (string \<times> string) \<Rightarrow> bool" where
  "block_ok block key \<longleftrightarrow>
     line_says block ''package-ecosystem'' = Some (fst key) \<and> line_says block ''directory'' = Some (snd key) \<and>
     line_says block ''interval'' = Some ''monthly'' \<and> line_says block ''rebase-strategy'' = Some ''disabled'' \<and>
     (\<exists>limit. line_says block ''open-pull-requests-limit'' = Some limit \<and> digits_nat limit \<in> {1, 2}) \<and>
     (\<forall>types. map_of EXPECTED_UPDATES key = Some types \<longrightarrow>
        (\<exists>us. update_types block = Inr us \<and> set us = set types))"

lemma check_block_Nil: "check_block block = Inr ([], keys) \<Longrightarrow> \<exists>key. keys = [key] \<and> block_ok block key"
  by (auto simp: check_block_def block_ok_def key_lines Let_def bindE_Inr limit_ok split: option.splits)

lemma check_config_Nil:
  assumes "check_config w path = Inr []"
  shows "\<exists>doc keys. file_text w path = Some doc \<and> list_all2 block_ok (split_update_blocks doc) keys \<and>
    set keys = set (map fst EXPECTED_UPDATES)"
proof -
  from assms obtain doc rs where d: "file_text w path = Some doc" "mapE check_block (split_update_blocks doc) = Inr rs"
      "concat (map fst rs) = []" "set (concat (map snd rs)) = set (map fst EXPECTED_UPDATES)"
    by (auto simp: check_config_def bindE_Inr read_text_Inr Let_def split: if_splits)
  have "\<exists>keys. concat (map snd rs) = keys \<and> list_all2 block_ok bs keys"
    if "list_all2 (\<lambda>b r. check_block b = Inr r) bs rs" "concat (map fst rs) = []" for bs rs
    using that
  proof (induction bs rs rule: list_all2_induct)
    case (Cons b bs r rs)
    then have "check_block b = Inr ([], snd r)" by (cases r) auto
    from check_block_Nil [OF this] obtain key where "snd r = [key]" "block_ok b key" by blast
    with Cons show ?case by auto
  qed simp
  from this [OF d(2) [unfolded mapE_Inr] d(3)] have "list_all2 block_ok (split_update_blocks doc) (concat (map snd rs))" by blast
  with d(1,4) show ?thesis by blast
qed

lemma no_automerge_Nil:
  assumes "check_no_automerge w dir = Inr []" "p \<in> set (dir_glob w dir ''*.y*ml'')"
  shows "\<exists>doc. file_text w p = Some doc \<and> (contains (str_lower (active_text doc)) ''dependabot'' \<longrightarrow> \<not> merge_call (active_text doc))"
proof -
  from assms(1) obtain es where es: "list_all2 (\<lambda>x y. workflow_merge_errors w x = Inr y) (sort_key path_parts (dir_glob w dir ''*.y*ml'')) es"
      "concat es = []" by (auto simp: check_no_automerge_def Let_def bindE_Inr mapE_Inr)
  from assms(2) have "p \<in> set (sort_key path_parts (dir_glob w dir ''*.y*ml''))" by simp
  then obtain e where "e \<in> set es" "workflow_merge_errors w p = Inr e"
    using list_all2_nthD [OF es(1)] list_all2_lengthD [OF es(1)] by (metis in_set_conv_nth)
  with es(2) have "workflow_merge_errors w p = Inr []" by auto
  then show ?thesis using merge_call_found by (auto simp: workflow_merge_errors_def bindE_Inr read_text_Inr)
qed

text \<open>C17: what a passing Dependabot policy means. The update entries of the configuration are exactly the expected ones,
each monthly, never rebased and with at most two open pull requests, grouped by the expected kinds of update; the
automerge workflow is absent; and no workflow that mentions Dependabot outside its comments calls \<open>gh pr merge\<close>,
in whatever letter case and spacing.\<close>

theorem dependabot_policy_holds:
  assumes "dependabot_main w a = Inr (0, out)"
  shows "(\<exists>doc keys. file_text w (path_str (dp_config a)) = Some doc \<and>
      list_all2 block_ok (split_update_blocks doc) keys \<and> set keys = set (map fst EXPECTED_UPDATES)) \<and>
    \<not> path_exists w (path_join (path_str (dp_workflows_dir a)) ''dependabot-automerge.yml'') \<and>
    (\<forall>p\<in>set (dir_glob w (path_str (dp_workflows_dir a)) ''*.y*ml''). \<exists>doc. file_text w p = Some doc \<and>
       (contains (str_lower (active_text doc)) ''dependabot'' \<longrightarrow> \<not> merge_call (active_text doc)))"
proof -
  from assms have parts: "check_config w (path_str (dp_config a)) = Inr []"
      "check_no_automerge w (path_str (dp_workflows_dir a)) = Inr []"
    by (auto simp: dependabot_main_def bindE_Inr Let_def split: if_splits)
  from parts(2) have "\<not> path_exists w (path_join (path_str (dp_workflows_dir a)) ''dependabot-automerge.yml'')"
    by (auto simp: check_no_automerge_def Let_def bindE_Inr)
  with check_config_Nil [OF parts(1)] no_automerge_Nil [OF parts(2)] show ?thesis by blast
qed

text \<open>The entries of the repository, and a workflow that mentions Dependabot.\<close>

definition ex_entry :: "(string \<times> string) \<times> string list \<Rightarrow> string" where
  "ex_entry = (\<lambda>((ecosystem, directory), types). str_join [newline]
     ([''  - package-ecosystem: '' @ ecosystem, ''    directory: '' @ directory, ''      interval: monthly'',
       ''    open-pull-requests-limit: 2'', ''    rebase-strategy: disabled'', ''    groups:'',
       ''          - '' @ [dquote] @ ''*'' @ [dquote], ''        update-types:''] @ map (\<lambda>t. ''          - '' @ t) types) @ [newline])"

definition ex_config :: string where
  "ex_config = concat (map ex_entry EXPECTED_UPDATES)"

lemma ex_split: "split_update_blocks ex_config = map ex_entry EXPECTED_UPDATES"
  by code_simp

lemma ex_blocks: "map check_block (map ex_entry EXPECTED_UPDATES) = map (\<lambda>(key, _). Inr ([], [key])) EXPECTED_UPDATES"
  unfolding check_block_def key_lines by code_simp

definition ex_dependabot :: env where
  "ex_dependabot =
     \<lparr>file_text = map_of
        [(''.github/dependabot.yml'', ex_config),
         (''docs/human/dependencies-policy.md'', str_join [newline] REQUIRED_DOC_TOKENS),
         (''.github/workflows/a.yml'', ''# gh pr merge'' @ [newline] @ ''dependabot'')],
      json_loads = (\<lambda>_. None), is_dir = (\<lambda>_. False), dir_glob = (\<lambda>_ _. [''.github/workflows/a.yml''])\<rparr>"

lemma ex_dependabot_run: "\<exists>out. dependabot_main ex_dependabot dependabot_defaults = Inr (0, out)"
proof -
  have paths: "path_str (dp_config dependabot_defaults) = ''.github/dependabot.yml''"
      "path_str (dp_policy_doc dependabot_defaults) = ''docs/human/dependencies-policy.md''"
      "path_str (dp_workflows_dir dependabot_defaults) = ''.github/workflows''" by code_simp+
  have blocks: "mapE check_block (split_update_blocks ex_config) = Inr (map (\<lambda>(key, _). ([], [key])) EXPECTED_UPDATES)"
    using ex_blocks by (simp add: ex_split mapE_Inr list_all2_conv_all_nth EXPECTED_UPDATES_def All_less_Suc)
  have "file_text ex_dependabot ''.github/dependabot.yml'' = Some ex_config" by (simp add: ex_dependabot_def)
  then have "check_config ex_dependabot ''.github/dependabot.yml'' = Inr []"
    by (simp add: check_config_def path_exists_def is_file_def read_text_def blocks) (auto simp: EXPECTED_UPDATES_def note_if_def)
  moreover have "(case check_docs ex_dependabot ''docs/human/dependencies-policy.md'' of Inr es \<Rightarrow> es = [] | _ \<Rightarrow> False)" by code_simp
  then have "check_docs ex_dependabot ''docs/human/dependencies-policy.md'' = Inr []" by (auto split: sum.splits)
  moreover have "(case check_no_automerge ex_dependabot ''.github/workflows'' of Inr es \<Rightarrow> es = [] | _ \<Rightarrow> False)" by code_simp
  then have "check_no_automerge ex_dependabot ''.github/workflows'' = Inr []" by (auto split: sum.splits)
  ultimately show ?thesis by (simp add: dependabot_main_def paths)
qed

theorem dependabot_policy_holds_witness:
  "\<exists>doc. file_text ex_dependabot ''.github/workflows/a.yml'' = Some doc \<and> \<not> merge_call (active_text doc)"
proof -
  obtain printed where run: "dependabot_main ex_dependabot dependabot_defaults = Inr (0, printed)"
    using ex_dependabot_run by blast
  have "''.github/workflows/a.yml'' \<in> set (dir_glob ex_dependabot (path_str (dp_workflows_dir dependabot_defaults)) ''*.y*ml'')"
    by (simp add: ex_dependabot_def)
  with dependabot_policy_holds [OF run] obtain doc where doc: "file_text ex_dependabot ''.github/workflows/a.yml'' = Some doc"
      "contains (str_lower (active_text doc)) ''dependabot'' \<longrightarrow> \<not> merge_call (active_text doc)" by blast
  have "file_text ex_dependabot ''.github/workflows/a.yml'' = Some (''# gh pr merge'' @ [newline] @ ''dependabot'')"
    by (simp add: ex_dependabot_def)
  moreover have "contains (str_lower (active_text (''# gh pr merge'' @ [newline] @ ''dependabot''))) ''dependabot''" by code_simp
  ultimately show ?thesis using doc by auto
qed

end
