(* ===== verification/SdkCompat.thy ===== *)
theory SdkCompat
  imports SdkBuilderAccept PyFind
begin

text \<open>
  \<open>tools/ci/check_sdk_compatibility_matrix.py\<close>: a release manifest against the matrix of the
  supported combinations, and the manifest that the metadata builder writes against it.
\<close>

definition VERSION_KEYS :: "string list" where
  "VERSION_KEYS = [''swift_client'', ''kotlin_client'', ''wasm_client'', ''grain_client_core'', ''grain_client_wasm'']"

definition cmp_err :: "string \<Rightarrow> string" where
  "cmp_err s = ''SDK_COMPAT_MATRIX_ERR_'' @ s"

definition compat_load :: "env \<Rightarrow> string \<Rightarrow> dict res" where
  "compat_load w path =
     thenE (checks [(is_file w path, cmp_err ''FILE_MISSING: '' @ path)])
    (bindE (read_json w path) (\<lambda>v.
     case v of JObj d \<Rightarrow> Inr d | _ \<Rightarrow> stop (cmp_err ''JSON_OBJECT: '' @ path)))"

definition default_matrix_data :: "env \<Rightarrow> string \<Rightarrow> dict res" where
  "default_matrix_data w root_dir =
     bindE (compat_load w (path_join root_dir ''sdk/api/public-sdk-v0.1.json'')) (\<lambda>snapshot.
     case dict_get snapshot ''compatibility_matrix'' of JObj m \<Rightarrow> Inr m | _ \<Rightarrow> stop (cmp_err ''DEFAULT_MATRIX''))"

text \<open>The first match of a pattern with one group.\<close>

fun search_group :: "matcher \<Rightarrow> string \<Rightarrow> string \<Rightarrow> string option" where
  "search_group m p s =
     (case m (p, s) of
        (g, _) # _ \<Rightarrow> Some g
      | [] \<Rightarrow> (case s of [] \<Rightarrow> None | x # xs \<Rightarrow> search_group m (x # p) xs))"

declare search_group.simps [simp del]

definition ARTIFACT_COMMIT_RE :: matcher where
  "ARTIFACT_COMMIT_RE =
     capture (RLit ''-'') (ends (RRep 40 (RCls chr_is_hex))) (RSeqs [RLit ''.tar.gz'', RDollar])"

definition artifact_commit :: "string \<Rightarrow> string option" where
  "artifact_commit file_name = search_group ARTIFACT_COMMIT_RE [] file_name"

definition check_component :: "dict \<Rightarrow> string \<Rightarrow> string \<Rightarrow> unit res" where
  "check_component versions commit key =
     (case dict_get versions key of
        JObj value \<Rightarrow> checks [(dict_get_or value ''commit'' (JStr commit) = JStr commit, cmp_err ''COMPONENT_COMMIT: '' @ key)]
      | _ \<Rightarrow> stop (cmp_err ''VERSION_KEY: '' @ key))"

definition check_artifact_commit :: "string \<Rightarrow> json \<Rightarrow> unit res" where
  "check_artifact_commit commit artifact =
     (case artifact of
        JObj d \<Rightarrow>
          (case dict_get d ''file'' of
             JStr file_name \<Rightarrow>
               checks [(artifact_commit file_name = Some commit, cmp_err ''COMPONENT_COMMIT: '' @ file_name),
                       (has_key d ''commit'' \<longrightarrow> dict_get d ''commit'' = JStr commit, cmp_err ''COMPONENT_COMMIT: '' @ file_name)]
           | _ \<Rightarrow> stop (cmp_err ''ARTIFACT_FILE''))
      | _ \<Rightarrow> stop (cmp_err ''ARTIFACT_TYPE''))"

definition sdk_versions_of :: "dict \<Rightarrow> dict res" where
  "sdk_versions_of manifest =
     (case dict_get manifest ''sdk_versions'' of JObj versions \<Rightarrow> Inr versions | _ \<Rightarrow> stop (cmp_err ''SDK_VERSIONS''))"

definition validate_same_repo_sha :: "dict \<Rightarrow> string \<Rightarrow> unit res" where
  "validate_same_repo_sha manifest commit =
     bindE (sdk_versions_of manifest) (\<lambda>versions.
     thenE (forE (check_component versions commit) VERSION_KEYS)
     (case dict_get_or manifest ''artifacts'' (JArr []) of
        JArr artifacts \<Rightarrow> forE (check_artifact_commit commit) artifacts
      | _ \<Rightarrow> stop (cmp_err ''ARTIFACTS'')))"

definition component_version :: "dict \<Rightarrow> string \<Rightarrow> (string \<times> string) res" where
  "component_version versions key =
     (case dict_get versions key of
        JObj value \<Rightarrow>
          (case dict_get value ''version'' of
             JStr (c # cs) \<Rightarrow> Inr (key, c # cs)
           | _ \<Rightarrow> stop (cmp_err ''VERSION_VALUE: '' @ key))
      | _ \<Rightarrow> stop (cmp_err ''VERSION_KEY: '' @ key))"

definition manifest_combination :: "dict \<Rightarrow> string \<Rightarrow> (string \<times> string) list res" where
  "manifest_combination manifest commit =
     bindE (sdk_versions_of manifest) (\<lambda>versions.
     bindE (mapE (component_version versions) VERSION_KEYS) (\<lambda>vs.
     Inr ([(''grain_commit'', commit), (''workflow_contract'', json_str (dict_get manifest ''workflow_contract''))] @ vs)))"

definition matrix_entry_matches :: "json \<Rightarrow> (string \<times> string) list \<Rightarrow> bool" where
  "matrix_entry_matches entry combo =
     (case entry of
        JObj d \<Rightarrow> list_all (\<lambda>(key, v). key = ''grain_commit'' \<and> dict_get d key = JStr ''repo-sha'' \<or> dict_get d key = JStr v) combo
      | _ \<Rightarrow> False)"

text \<open>\<open>matrix_data or default_matrix_data()\<close>: an empty matrix is replaced by the default one.\<close>

definition chosen_matrix :: "env \<Rightarrow> string \<Rightarrow> dict option \<Rightarrow> dict res" where
  "chosen_matrix w root_dir matrix_data =
     (case matrix_data of Some (e # d) \<Rightarrow> Inr (e # d) | _ \<Rightarrow> default_matrix_data w root_dir)"

definition check_sdk_compatibility_matrix :: "env \<Rightarrow> string \<Rightarrow> string \<Rightarrow> dict option \<Rightarrow> (string \<times> string) res" where
  "check_sdk_compatibility_matrix w root_dir manifest_path matrix_data =
     bindE (compat_load w manifest_path) (\<lambda>manifest.
     thenE (checks [(dict_get manifest ''schema'' = JStr ''grain.sdk.release.manifest.v1'', cmp_err ''MANIFEST_SCHEMA''),
        (is_str (dict_get manifest ''commit'') \<and> re_match COMMIT_RE (json_str (dict_get manifest ''commit'')), cmp_err ''COMMIT'')])
    (let commit = json_str (dict_get manifest ''commit'') in
     bindE (chosen_matrix w root_dir matrix_data) (\<lambda>matrix.
     thenE (checks [(dict_get matrix ''schema'' = JStr ''grain.sdk.compatibility-matrix.v1'', cmp_err ''MATRIX_SCHEMA''),
        (dict_get matrix ''default_rule'' = JStr ''same-repo-sha'', cmp_err ''RULE'')])
    (thenE (validate_same_repo_sha manifest commit)
    (case dict_get matrix ''supported'' of
       JArr supported \<Rightarrow>
         bindE (manifest_combination manifest commit) (\<lambda>combo.
         thenE (checks [(list_ex (\<lambda>entry. matrix_entry_matches entry combo) supported, cmp_err ''UNSUPPORTED_COMBINATION'')])
           (Inr (commit, json_str (dict_get matrix ''default_rule''))))
     | _ \<Rightarrow> stop (cmp_err ''SUPPORTED''))))))"

record compat_args =
  cp_manifest :: string
  cp_matrix :: "string option"

text \<open>The exit code and the line printed.\<close>

definition compat_main :: "env \<Rightarrow> string \<Rightarrow> compat_args \<Rightarrow> (nat \<times> string) res" where
  "compat_main w root_dir args =
     bindE (case cp_matrix args of
              Some (c # cs) \<Rightarrow> bindE (compat_load w (path_str (c # cs))) (\<lambda>d. Inr (Some d))
            | _ \<Rightarrow> Inr None) (\<lambda>matrix.
     bindE (check_sdk_compatibility_matrix w root_dir (path_str (cp_manifest args)) matrix) (\<lambda>(commit, rule).
     Inr (0, ''SDK compatibility matrix check: OK (commit '' @ commit @ '', rule '' @ rule @ '')'')))"

subsection \<open>The commit of a file name\<close>

text \<open>The name ends with the commit and the suffix; \<open>$\<close> lets a line feed follow.\<close>

definition artifact_tail :: "string \<Rightarrow> string \<Rightarrow> bool" where
  "artifact_tail c s = (length c = 40 \<and> list_all chr_is_hex c \<and> (\<exists>eol. eol \<in> {[], [newline]} \<and> s = ''-'' @ c @ ''.tar.gz'' @ eol))"

lemma captured_iff:
  "g \<in> fst ` set (capture r f q c) \<longleftrightarrow>
     (\<exists>a b e. (c, a) \<in> lang r \<and> b \<in> set (f a) \<and> (b, e) \<in> lang q \<and> g = PyFind.span a b)"
  unfolding capture_def ends_lang [symmetric] by (simp add: image_UN image_image image_iff del: ends.simps split_paired_Ex) blast

lemma artifact_match: "g \<in> fst ` set (ARTIFACT_COMMIT_RE (p, s)) \<longleftrightarrow> artifact_tail g s"
proof -
  have "(\<exists>a b e. ((p, s), a) \<in> lang (RLit ''-'') \<and> (a, b) \<in> lang (RRep 40 (RCls chr_is_hex)) \<and>
      (b, e) \<in> lang (RSeqs [RLit ''.tar.gz'', RDollar]) \<and> g = PyFind.span a b) \<longleftrightarrow>
    (\<exists>x eol. s = ''-'' @ x @ ''.tar.gz'' @ eol \<and> length x = 40 \<and> list_all chr_is_hex x \<and> eol \<in> {[], [newline]} \<and>
      g = PyFind.span (CHR ''-'' # p, x @ ''.tar.gz'' @ eol) (rev x @ CHR ''-'' # p, ''.tar.gz'' @ eol))"
    unfolding lang_RLit lang_RRep_cls RDollar_def lang_RSeqs by (simp add: relcomp_unfold Id_on_iff) blast
  also have "\<dots> \<longleftrightarrow> artifact_tail g s"
    by (auto simp: artifact_tail_def PyFind.span_def)
  finally show ?thesis unfolding ARTIFACT_COMMIT_RE_def captured_iff ends_lang .
qed

lemma artifact_tail_unique: "artifact_tail c s \<Longrightarrow> artifact_tail d s \<Longrightarrow> c = d"
  by (auto simp: artifact_tail_def)

lemma artifact_tail_last:
  assumes "artifact_tail c s" "artifact_tail d (q @ s)"
  shows "q = []"
proof -
  have len: "48 = length t" if "length c = 40" "t = ''-'' @ c @ ''.tar.gz''" for c t :: string
    using that by simp
  from assms obtain e f where s: "s = ''-'' @ c @ ''.tar.gz'' @ e" "e \<in> {[], [newline]}" "length c = 40"
    and qs: "q @ s = ''-'' @ d @ ''.tar.gz'' @ f" "f \<in> {[], [newline]}" "length d = 40"
    by (auto simp: artifact_tail_def)
  have "last (''-'' @ d @ ''.tar.gz'' @ f) = last (''-'' @ c @ ''.tar.gz'' @ e)"
    unfolding s(1) [symmetric] qs(1) [symmetric] by (simp add: s(1))
  with s(2) qs(2) have "e = f" by auto
  have "length s = 48 + length e" by (simp add: s(1,3))
  moreover have "length (q @ s) = 48 + length f" unfolding qs(1) using qs(3) by simp
  ultimately show "q = []" using \<open>e = f\<close> by simp
qed

lemma search_artifact: "search_group ARTIFACT_COMMIT_RE p s = Some c \<longleftrightarrow> (\<exists>q v. s = q @ v \<and> artifact_tail c v)"
proof (induction s arbitrary: p)
  case Nil
  have "ARTIFACT_COMMIT_RE (p, []) = []"
    using artifact_match [of _ p "[]"] by (cases "ARTIFACT_COMMIT_RE (p, [])") (auto simp: artifact_tail_def)
  then show ?case by (simp add: search_group.simps [of _ p] artifact_tail_def)
next
  case (Cons x xs)
  show ?case
  proof (cases "ARTIFACT_COMMIT_RE (p, x # xs)")
    case Nil
    then have none: "\<not> artifact_tail c (x # xs)" using artifact_match [of c p "x # xs"] by simp
    have "search_group ARTIFACT_COMMIT_RE p (x # xs) = Some c \<longleftrightarrow> (\<exists>q v. xs = q @ v \<and> artifact_tail c v)"
      by (subst search_group.simps) (simp add: Nil Cons.IH)
    also have "\<dots> \<longleftrightarrow> (\<exists>q v. x # xs = q @ v \<and> artifact_tail c v)"
      using none by (metis append_Cons append_Nil Cons_eq_append_conv)
    finally show ?thesis .
  next
    case (Cons m ms)
    have here: "artifact_tail (fst m) (x # xs)" using artifact_match [of "fst m" p "x # xs"] Cons by simp
    have "search_group ARTIFACT_COMMIT_RE p (x # xs) = Some (fst m)"
      by (subst search_group.simps) (simp add: Cons split: prod.split)
    moreover have "(\<exists>q v. x # xs = q @ v \<and> artifact_tail c v) \<longleftrightarrow> fst m = c"
      using here artifact_tail_last artifact_tail_unique by (metis append_Nil)
    ultimately show ?thesis by simp
  qed
qed

lemma artifact_commit_Some: "artifact_commit f = Some c \<longleftrightarrow> (\<exists>pre s. f = pre @ s \<and> artifact_tail c s)"
  by (simp add: artifact_commit_def search_artifact)

lemma artifact_commit_name:
  "length c = 40 \<Longrightarrow> list_all chr_is_hex c \<Longrightarrow> artifact_commit (pre @ artifact_suffix c) = Some c"
  by (auto simp: artifact_commit_Some artifact_tail_def artifact_suffix_def)

subsection \<open>What the checks mean\<close>

definition combination_listed :: "json \<Rightarrow> string \<Rightarrow> string \<Rightarrow> (string \<Rightarrow> string) \<Rightarrow> bool" where
  "combination_listed entry commit contract version =
     (case entry of
        JObj d \<Rightarrow> dict_get d ''grain_commit'' \<in> {JStr ''repo-sha'', JStr commit} \<and> dict_get d ''workflow_contract'' = JStr contract \<and>
          list_all (\<lambda>key. dict_get d key = JStr (version key)) VERSION_KEYS
      | _ \<Rightarrow> False)"

lemma entry_matches:
  "matrix_entry_matches entry ((''grain_commit'', commit) # (''workflow_contract'', contract) # map (\<lambda>k. (k, version k)) VERSION_KEYS)
     \<longleftrightarrow> combination_listed entry commit contract version"
  by (cases entry) (auto simp: matrix_entry_matches_def combination_listed_def VERSION_KEYS_def)

lemma component_versions:
  assumes "\<And>k. k \<in> set ks \<Longrightarrow> \<exists>d. dict_get vs k = JObj d \<and> dict_get d ''version'' = JStr (version k)"
  shows "mapE (component_version vs) ks = Inr xs \<longleftrightarrow> (\<forall>k\<in>set ks. version k \<noteq> []) \<and> xs = map (\<lambda>k. (k, version k)) ks"
  using assms
proof (induction ks arbitrary: xs)
  case (Cons k ks)
  from Cons.prems obtain d where "dict_get vs k = JObj d" "dict_get d ''version'' = JStr (version k)" by auto
  then have "component_version vs k = Inr x \<longleftrightarrow> version k \<noteq> [] \<and> x = (k, version k)" for x
    by (auto simp: component_version_def split: list.split)
  with Cons show ?case by (auto simp: bindE_Inr)
qed auto

lemma version_keys:
  "load_sdk_versions w root_dir = Inr vs \<Longrightarrow> k \<in> set VERSION_KEYS \<Longrightarrow> map_of vs k = Some (the (map_of vs k))"
  by (auto simp: load_sdk_versions_def bindE_Inr VERSION_KEYS_def)

lemma built_file_commit:
  assumes "build_artifacts w out_dir commit = Inr es" "e \<in> set es" "length commit = 40" "list_all chr_is_hex commit"
  shows "artifact_commit (e_file e) = Some commit"
proof -
  from assms(1) have m: "mapE (artifact_entry w commit) (sort_key path_parts (dir_glob (files w) out_dir ''*.tar.gz'')) = Inr es"
    by (auto simp: build_artifacts_def bindE_Inr thenE_Inr)
  from mapE_source [OF m assms(2)] obtain p where "artifact_entry w commit p = Inr e" by blast
  then obtain k where "classify_artifact (e_file e) commit = Inr k" by (auto simp: artifact_entry_def bindE_Inr)
  with classify_artifact_Inr artifact_commit_name [OF assms(3,4)] show ?thesis by metis
qed

lemma built_same_sha:
  assumes versions: "load_sdk_versions w root_dir = Inr versions" and es: "build_artifacts w out_dir (b_commit args) = Inr es"
    and c: "length (b_commit args) = 40" "list_all chr_is_hex (b_commit args)"
  shows "validate_same_repo_sha (manifest_dict args created es versions msha ssha n) (b_commit args) = Inr ()"
proof -
  let ?M = "manifest_dict args created es versions msha ssha n"
  let ?vs = "sorted_dict (map (\<lambda>(key, c). (key, component_json c)) versions)"
  have comp: "check_component ?vs (b_commit args) k = Inr ()" if k: "k \<in> set VERSION_KEYS" for k
    using built_component [OF versions_expected(1) [OF versions] version_keys [OF versions k]]
    by (auto simp: check_component_def dict_get_def dict_get_or_absent)
  have "check_artifact_commit (b_commit args) (sort_json (artifact_json e)) = Inr ()" if "e \<in> set es" for e
  proof -
    have "\<exists>d. sort_json (artifact_json e) = JObj d \<and> dict_get d ''file'' = JStr (e_file e) \<and> \<not> has_key d ''commit''"
      unfolding artifact_json_def sort_json_obj json.inject
      by (rule exI, rule conjI, rule refl) (simp add: fld_sorted_dict has_key_iff map_of_sorted_dict, simp add: dict_get_def)
    then show ?thesis using built_file_commit [OF es that c] by (auto simp: check_artifact_commit_def)
  qed
  moreover have "dict_get_or ?M ''artifacts'' (JArr []) = JArr (map (sort_json \<circ> artifact_json) es)"
    using manifest_fields(11) [of args created es versions msha ssha n] by (auto simp: dict_get_or_def dict_get_def split: option.splits)
  ultimately show ?thesis
    using comp by (simp add: validate_same_repo_sha_def sdk_versions_of_def manifest_fields(9) thenE_Inr forE_Inr)
qed

text \<open>C25: a release that the metadata builder has finished, with versions that are not empty, is within the
supported combinations of a given matrix (not the empty object, which stands for the default matrix) exactly
when the matrix, of the right schema and rule, has an entry for this commit, or for whatever commit the
repository is at, that names the workflow contract and the versions which the builder read from the
packages of the repository; the rule that everything is built at one commit is met by construction.\<close>

theorem built_release_supported:
  assumes run: "build_main h root_dir args w = (Inr lines, w')" and out: "out_dir = resolve_dir h (b_out_dir args)"
    and created: "source_created_at h (b_commit args) = Inr created"
    and versions: "load_sdk_versions w root_dir = Inr versions"
    and built: "build_artifacts w out_dir (b_commit args) = Inr es"
    and parse: "let v = release_manifest h args created es versions (sha256_of w (path_join root_dir ''docs/human/sdk/version-matrix.md''))
      in json_loads (files w) (json_document v) = Some (sort_json v)"
    and given: "matrix \<noteq> []"
  shows "is_ok (check_sdk_compatibility_matrix (files w') root_dir (path_join out_dir ''manifest.json'') (Some matrix)) \<longleftrightarrow>
    dict_get matrix ''schema'' = JStr ''grain.sdk.compatibility-matrix.v1'' \<and> dict_get matrix ''default_rule'' = JStr ''same-repo-sha'' \<and>
    (\<forall>k\<in>set VERSION_KEYS. c_version (the (map_of versions k)) \<noteq> []) \<and>
    (\<exists>entries. dict_get matrix ''supported'' = JArr entries \<and>
       (\<exists>e\<in>set entries. combination_listed e (b_commit args) ''client_workflow_v1'' (\<lambda>k. c_version (the (map_of versions k)))))"
proof -
  let ?c = "b_commit args"
  define msha where "msha = sha256_of w (path_join root_dir ''docs/human/sdk/version-matrix.md'')"
  obtain ssha n where man: "release_manifest h args created es versions msha = build_manifest args created es versions msha ssha n"
    by (simp add: release_manifest_def Let_def)
  let ?M = "manifest_dict args created es versions msha ssha n"
  from build_main_Inr [OF run] created versions built out
  have w': "w' = released h root_dir args created es versions w" by (metis Inr_inject)
  from created have c: "length ?c = 40" "list_all chr_is_hex ?c" by (auto simp: source_created_at_def split: if_splits)
  note W = released_world [OF out msha_def refl w']
  have load: "compat_load (files w') (path_join out_dir ''manifest.json'') = Inr ?M"
  proof -
    have "json_loads (files w) (json_document (release_manifest h args created es versions msha)) = Some (JObj ?M)"
      using parse by (simp add: msha_def [symmetric] Let_def) (simp add: man manifest_fields(1))
    then show ?thesis using W(5,6) by (simp add: compat_load_def is_file_def read_json_def read_text_def loads_def)
  qed
  have commit: "re_match COMMIT_RE ?c" unfolding COMMIT_RE_def match_hex_re using c by (intro exI [of _ ?c]) simp
  obtain e d where m: "matrix = e # d" using given by (cases matrix) auto
  define version where "version = (\<lambda>k. c_version (the (map_of versions k)))"
  have combo: "manifest_combination ?M ?c = Inr x \<longleftrightarrow> (\<forall>k\<in>set VERSION_KEYS. version k \<noteq> []) \<and>
      x = [(''grain_commit'', ?c), (''workflow_contract'', ''client_workflow_v1'')] @ map (\<lambda>k. (k, version k)) VERSION_KEYS" for x
  proof -
    let ?vs = "sorted_dict (map (\<lambda>(key, c). (key, component_json c)) versions)"
    have "\<exists>d. dict_get ?vs k = JObj d \<and> dict_get d ''version'' = JStr (version k)" if "k \<in> set VERSION_KEYS" for k
      using built_component [OF versions_expected(1) [OF versions] version_keys [OF versions that]]
      by (auto simp: dict_get_def version_def)
    from component_versions [of VERSION_KEYS ?vs version, OF this] show ?thesis
      by (auto simp: manifest_combination_def sdk_versions_of_def manifest_fields(6,9) bindE_Inr)
  qed
  show ?thesis
    using combo by (auto simp: check_sdk_compatibility_matrix_def load manifest_fields(2,3) commit chosen_matrix_def m Let_def
        built_same_sha [OF versions built c] is_ok_iff bindE_Inr thenE_Inr checks_Inr entry_matches version_def list_ex_iff
        simp del: checks.simps split: json.splits)
qed

text \<open>A matrix that lists what the builder of the example reads from its tree, after an entry for another contract.\<close>

definition ex_supported :: "string \<Rightarrow> json" where
  "ex_supported contract = JObj ([(''grain_commit'', JStr ''repo-sha''), (''workflow_contract'', JStr contract)] @
     map (\<lambda>k. (k, JStr (c_version (the (map_of ex_components k))))) VERSION_KEYS)"

definition ex_matrix :: dict where
  "ex_matrix = [(''schema'', JStr ''grain.sdk.compatibility-matrix.v1''), (''default_rule'', JStr ''same-repo-sha''),
     (''supported'', JArr [ex_supported ''client_workflow_v0'', ex_supported ''client_workflow_v1''])]"

theorem built_release_supported_witness:
  "\<exists>lines w'. build_main ex_builder ''r'' ex_build_args ex_tree = (Inr lines, w') \<and>
     is_ok (check_sdk_compatibility_matrix (files w') ''r'' (path_join ''o'' ''manifest.json'') (Some ex_matrix))"
proof -
  from ex_build obtain lines w' where run: "build_main ex_builder ''r'' ex_build_args ex_tree = (Inr lines, w')" by blast
  have sha: "sha256_of ex_tree = (\<lambda>_. ex_sha)" by (simp add: ex_tree_fields ex_world_def)
  have docs: "json_loads (files ex_tree) (json_document v) = Some (sort_json v)" if "v \<in> set ex_docs" for v
    using that ex_docs_differ by (auto simp: ex_tree_def ex_docs_def)
  let ?version = "\<lambda>k. c_version (the (map_of ex_components k))"
  have "\<forall>k\<in>set VERSION_KEYS. ?version k \<noteq> []"
    using version_keys [OF ex_components_ok(1)] ex_components_ok(3) by (metis map_of_SomeD snd_conv)
  moreover have "combination_listed (ex_supported ''client_workflow_v1'') (b_commit ex_build_args) ''client_workflow_v1'' ?version"
    by (simp add: combination_listed_def ex_supported_def VERSION_KEYS_def dict_get_def)
  ultimately have "is_ok (check_sdk_compatibility_matrix (files w') ''r'' (path_join ''o'' ''manifest.json'') (Some ex_matrix))"
    by (intro built_release_supported [OF run _ _ ex_tree_same(1), THEN iffD2, of "''o''" ex_created ex_entries])
       (use ex_created_ok ex_tree_same(2) docs in
         \<open>auto simp: ex_build_args_def ex_builder_def sha ex_docs_def ex_matrix_def dict_get_def\<close>)
  with run show ?thesis by blast
qed

end
