(* ===== verification/DeveloperPlatform.thy ===== *)
theory DeveloperPlatform
  imports Checks
begin

text \<open>
  \<open>tools/ci/check_repo_native_developer_platform.py\<close>: the registry of profiles, the catalogue of
  reference fixtures, the interoperability matrix and the pack of security regressions refer to
  each other, to files of the repository and to conformance vectors; every reference has to resolve.
\<close>

definition REQUIRED_SECURITY_IDS :: "string list" where
  "REQUIRED_SECURITY_IDS = map (\<lambda>i. ''GRAIN-SEC-'' @ (if i < 10 then ''0'' else []) @ nat_str i) [1..<11]"

definition REQUIRED_PROFILE_IDS :: "string list" where
  "REQUIRED_PROFILE_IDS = [''food-v0.1'', ''inventory-v0.1'', ''audit-artifact-v0.1'']"

definition REQUIRED_INTEROP_LANES :: "string list" where
  "REQUIRED_INTEROP_LANES = [''rust-strict-full'', ''typescript-strict-full'', ''wasm-read-verify-subset'']"

definition plat_err :: "string \<Rightarrow> string" where
  "plat_err s = ''REPO_NATIVE_PLATFORM_ERR_'' @ s"

text \<open>The repository: its files, its directory and which of its files can be executed.\<close>

record platform =
  pl_env :: env
  pl_root :: string
  pl_executable :: "string \<Rightarrow> bool"

text \<open>\<open>ROOT / s\<close>: an absolute \<open>s\<close> replaces the directory.\<close>

definition at_root :: "platform \<Rightarrow> string \<Rightarrow> string" where
  "at_root h s = (if path_is_absolute s then path_str s else path_str (path_join (pl_root h) s))"

definition root_file :: "platform \<Rightarrow> json \<Rightarrow> bool" where
  "root_file h v = (case v of JStr s \<Rightarrow> is_file (pl_env h) (at_root h s) | _ \<Rightarrow> False)"

definition platform_json :: "platform \<Rightarrow> string \<Rightarrow> dict res" where
  "platform_json h relative =
     thenE (checks [(is_file (pl_env h) (at_root h relative), plat_err ''FILE_MISSING: '' @ relative)])
    (bindE (read_json (pl_env h) (at_root h relative)) (\<lambda>v.
     case v of JObj d \<Rightarrow> Inr d | _ \<Rightarrow> stop (plat_err ''JSON_OBJECT: '' @ relative)))"

subsection \<open>The index of the vectors\<close>

type_synonym vindex = "(string \<times> string) list"

definition index_vector :: "platform \<Rightarrow> vindex \<Rightarrow> string \<Rightarrow> vindex res" where
  "index_vector h out path =
     bindE (read_json (pl_env h) path) (\<lambda>data.
     bindE (attr_get data ''vector_id'') (\<lambda>v.
     Inr (case v of JStr vector_id \<Rightarrow> AList.update vector_id path out | _ \<Rightarrow> out)))"

definition vector_paths :: "platform \<Rightarrow> string list" where
  "vector_paths h = dir_glob (pl_env h) (at_root h ''conformance/vectors'') ''**/*.json''"

definition vector_index :: "platform \<Rightarrow> vindex res" where
  "vector_index h = foldE (index_vector h) [] (vector_paths h)"

text \<open>A vector that is named by its id and by its file.\<close>

definition check_vector_ref :: "platform \<Rightarrow> vindex \<Rightarrow> json \<Rightarrow> json \<Rightarrow> string \<Rightarrow> string \<Rightarrow> unit res" where
  "check_vector_ref h vectors v path_value id_msg path_msg =
     (case v of
        JStr vector_id \<Rightarrow>
          (case map_of vectors vector_id of
             None \<Rightarrow> stop id_msg
           | Some p \<Rightarrow> checks [(path_str p = at_root h (json_str path_value), path_msg)])
      | _ \<Rightarrow> stop id_msg)"

subsection \<open>The demo and the consumer fixture\<close>

definition validate_demo_script :: "platform \<Rightarrow> unit res" where
  "validate_demo_script h =
     thenE (checks [(is_file (pl_env h) (at_root h ''scripts/demo''), plat_err ''DEMO_SCRIPT_MISSING''),
        (pl_executable h (at_root h ''scripts/demo''), plat_err ''DEMO_SCRIPT_NOT_EXECUTABLE'')])
    (bindE (read_text (pl_env h) (at_root h ''docs/human/quickstart.md'')) (\<lambda>quickstart.
     bindE (read_text (pl_env h) (at_root h ''docs/human/start-here.md'')) (\<lambda>start_here.
     checks [(contains quickstart ''./scripts/demo'', plat_err ''QUICKSTART_DEMO_LINK''),
        (contains start_here ''./scripts/demo'', plat_err ''START_HERE_DEMO_LINK'')])))"

definition validate_external_consumer_fixture :: "platform \<Rightarrow> unit res" where
  "validate_external_consumer_fixture h =
     thenE (checks (map (\<lambda>relative. (is_file (pl_env h) (at_root h (''fixtures/external-consumers/npm-sdk/'' @ relative)),
          plat_err ''EXTERNAL_NPM_FIXTURE: '' @ relative))
        [''package.json'', ''tsconfig.json'', ''src/import-smoke.ts'', ''src/runtime-smoke.mjs'']))
    (bindE (read_text (pl_env h) (at_root h ''docs/human/sdk/source-sdk-handoff.md'')) (\<lambda>doc.
     checks [(contains doc ''check_npm_release_dry_run.py'', plat_err ''NPM_DRY_RUN_DOC'')]))"

subsection \<open>Profiles and fixtures\<close>

definition check_profile :: "platform \<Rightarrow> string list \<Rightarrow> json \<Rightarrow> string list res" where
  "check_profile h seen entry =
     (case entry of
        JObj d \<Rightarrow>
          thenE (checks [(nonempty_str (dict_get d ''profile_id''), plat_err ''PROFILE_ID'')])
         (let profile_id = json_str (dict_get d ''profile_id'') in
          thenE (checks [(profile_id \<notin> set seen, plat_err ''PROFILE_DUP: '' @ profile_id),
             (root_file h (dict_get d ''doc''), plat_err ''PROFILE_DOC: '' @ profile_id),
             (root_file h (dict_get d ''constraints''), plat_err ''PROFILE_CONSTRAINTS: '' @ profile_id)])
         (bindE (read_json (pl_env h) (at_root h (json_str (dict_get d ''constraints'')))) (\<lambda>constraints.
          bindE (attr_get constraints ''profile'') (\<lambda>p.
          thenE (checks [(p = JStr profile_id, plat_err ''PROFILE_CONSTRAINT_ID: '' @ profile_id)])
         (bindE (py_iter (dict_get_or d ''sample_fixtures'' (JArr []))) (\<lambda>samples.
          thenE (forE (\<lambda>sample. checks [(root_file h sample, plat_err ''PROFILE_SAMPLE: '' @ profile_id)]) samples)
            (Inr (seen @ [profile_id]))))))))
      | _ \<Rightarrow> stop (plat_err ''PROFILE_ENTRY''))"

definition validate_profile_registry :: "platform \<Rightarrow> string list res" where
  "validate_profile_registry h =
     bindE (platform_json h ''spec/profiles/profile-registry.v1.json'') (\<lambda>registry.
     thenE (checks [(dict_get registry ''schema'' = JStr ''grain.profile-registry.v1'', plat_err ''PROFILE_SCHEMA'')])
     (case dict_get registry ''profiles'' of
        JArr profiles \<Rightarrow>
          bindE (foldE (check_profile h) [] profiles) (\<lambda>seen.
          thenE (checks [(set REQUIRED_PROFILE_IDS \<subseteq> set seen, plat_err ''REQUIRED_PROFILES'')]) (Inr seen))
      | _ \<Rightarrow> stop (plat_err ''PROFILE_LIST'')))"

definition check_sample :: "platform \<Rightarrow> string list \<Rightarrow> dict \<Rightarrow> string \<Rightarrow> unit res" where
  "check_sample h profile_ids d fixture_id =
     thenE (checks [(in_str_list (dict_get d ''profile_id'') profile_ids, plat_err ''FIXTURE_PROFILE: '' @ fixture_id)])
    (bindE (read_json (pl_env h) (at_root h (json_str (dict_get d ''path'')))) (\<lambda>sample.
     bindE (attr_get sample ''profile_id'') (\<lambda>p.
     checks [(p = dict_get d ''profile_id'', plat_err ''FIXTURE_SAMPLE_PROFILE: '' @ fixture_id)])))"

text \<open>The state is the pair of the fixture ids and the kinds met so far.\<close>

definition check_fixture ::
    "platform \<Rightarrow> string list \<Rightarrow> vindex \<Rightarrow> string list \<times> string list \<Rightarrow> json \<Rightarrow> (string list \<times> string list) res" where
  "check_fixture h profile_ids vectors st fixture =
     (case fixture of
        JObj d \<Rightarrow>
          thenE (checks [(nonempty_str (dict_get d ''fixture_id''), plat_err ''FIXTURE_ID'')])
         (let fixture_id = json_str (dict_get d ''fixture_id''); kind = dict_get d ''kind'' in
          thenE (checks [(fixture_id \<notin> set (fst st), plat_err ''FIXTURE_DUP: '' @ fixture_id)])
         (thenE (check_in kind [''vector'', ''sample''] (plat_err ''FIXTURE_KIND: '' @ fixture_id))
         (thenE (checks [(root_file h (dict_get d ''path''), plat_err ''FIXTURE_PATH: '' @ fixture_id)])
         (thenE (if kind = JStr ''vector''
             then check_vector_ref h vectors (dict_get d ''vector_id'') (dict_get d ''path'')
                    (plat_err ''FIXTURE_VECTOR_ID: '' @ fixture_id) (plat_err ''FIXTURE_VECTOR_PATH: '' @ fixture_id)
             else check_sample h profile_ids d fixture_id)
            (Inr (fst st @ [fixture_id], snd st @ [json_str kind]))))))
      | _ \<Rightarrow> stop (plat_err ''FIXTURE_ENTRY''))"

definition validate_reference_fixtures :: "platform \<Rightarrow> string list \<Rightarrow> vindex \<Rightarrow> unit res" where
  "validate_reference_fixtures h profile_ids vectors =
     bindE (platform_json h ''examples/reference-fixtures/catalog.v1.json'') (\<lambda>catalog.
     thenE (checks [(dict_get catalog ''schema'' = JStr ''grain.reference-fixtures.v1'', plat_err ''FIXTURE_SCHEMA'')])
     (case dict_get catalog ''fixtures'' of
        JArr (f # fs) \<Rightarrow>
          bindE (foldE (check_fixture h profile_ids vectors) ([], []) (f # fs)) (\<lambda>(seen, kinds).
          checks [(set kinds = {''vector'', ''sample''}, plat_err ''FIXTURE_KIND_COVERAGE'')])
      | _ \<Rightarrow> stop (plat_err ''FIXTURE_LIST'')))"

subsection \<open>Interoperability and security\<close>

text \<open>\<open>{str(x.get(key)) for x in xs if isinstance(x, dict)}\<close>.\<close>

definition ids_of :: "string \<Rightarrow> json list \<Rightarrow> string list" where
  "ids_of key xs = concat (map (\<lambda>x. case x of JObj d \<Rightarrow> [json_str (dict_get d key)] | _ \<Rightarrow> []) xs)"

definition check_lane_profile :: "platform \<Rightarrow> vindex \<Rightarrow> string \<Rightarrow> unit res" where
  "check_lane_profile h vectors ref =
     bindE (read_json (pl_env h) (at_root h ref)) (\<lambda>profile.
     bindE (attr_get_or profile ''vector_ids'' (JArr [])) (\<lambda>ids.
     if truthy ids
     then bindE (py_iter ids) (forE (\<lambda>v. check_in v (map fst vectors) (plat_err ''INTEROP_WASM_VECTOR: '' @ json_str v)))
     else Inr ()))"

definition check_lane :: "platform \<Rightarrow> vindex \<Rightarrow> json \<Rightarrow> unit res" where
  "check_lane h vectors lane =
     (case lane of
        JObj d \<Rightarrow>
          (let lane_id = json_str (dict_get d ''lane_id'') in
           thenE (checks [(nonempty_str (dict_get d ''command''), plat_err ''INTEROP_COMMAND: '' @ lane_id)])
           (case dict_get d ''vectors'' of
              JStr ref \<Rightarrow> (if ends_with ref ''.json'' \<and> starts_with ref ''runner/'' then check_lane_profile h vectors ref else Inr ())
            | _ \<Rightarrow> stop (plat_err ''INTEROP_VECTOR_REF: '' @ lane_id)))
      | _ \<Rightarrow> stop (plat_err ''INTEROP_LANE''))"

definition check_gate :: "string list \<Rightarrow> json \<Rightarrow> unit res" where
  "check_gate lane_ids gate =
     (case gate of
        JObj d \<Rightarrow>
          bindE (py_iter (dict_get_or d ''requires'' (JArr [])))
            (forE (\<lambda>v. check_in v lane_ids (plat_err ''INTEROP_GATE_LANE: '' @ json_str v)))
      | _ \<Rightarrow> stop (plat_err ''INTEROP_GATE''))"

definition validate_interop_matrix :: "platform \<Rightarrow> vindex \<Rightarrow> unit res" where
  "validate_interop_matrix h vectors =
     bindE (platform_json h ''conformance/interop-matrix.v1.json'') (\<lambda>matrix.
     thenE (checks [(dict_get matrix ''schema'' = JStr ''grain.interop-matrix.v1'', plat_err ''INTEROP_SCHEMA'')])
     (case dict_get matrix ''lanes'' of
        JArr (l # ls) \<Rightarrow>
          (let lane_ids = ids_of ''lane_id'' (l # ls) in
           thenE (checks [(set REQUIRED_INTEROP_LANES \<subseteq> set lane_ids, plat_err ''INTEROP_REQUIRED_LANES'')])
          (thenE (forE (check_lane h vectors) (l # ls))
          (case dict_get matrix ''gates'' of
             JArr (g # gs) \<Rightarrow> forE (check_gate lane_ids) (g # gs)
           | _ \<Rightarrow> stop (plat_err ''INTEROP_GATES''))))
      | _ \<Rightarrow> stop (plat_err ''INTEROP_LANES'')))"

definition check_evidence_item :: "platform \<Rightarrow> vindex \<Rightarrow> string \<Rightarrow> json \<Rightarrow> unit res" where
  "check_evidence_item h vectors finding_id item =
     (case item of
        JObj d \<Rightarrow>
          thenE (check_in (dict_get d ''kind'') [''vector'', ''path''] (plat_err ''SECURITY_EVIDENCE_KIND: '' @ finding_id))
         (thenE (checks [(root_file h (dict_get d ''path''), plat_err ''SECURITY_EVIDENCE_PATH: '' @ finding_id)])
         (if dict_get d ''kind'' = JStr ''vector''
          then check_vector_ref h vectors (dict_get d ''id'') (dict_get d ''path'')
                 (plat_err ''SECURITY_VECTOR: '' @ finding_id) (plat_err ''SECURITY_VECTOR_PATH: '' @ finding_id)
          else Inr ()))
      | _ \<Rightarrow> stop (plat_err ''SECURITY_EVIDENCE_ITEM: '' @ finding_id))"

definition check_security_finding :: "platform \<Rightarrow> vindex \<Rightarrow> json \<Rightarrow> unit res" where
  "check_security_finding h vectors finding =
     (case finding of
        JObj d \<Rightarrow>
          bindE (dict_index d ''id'') (\<lambda>i.
          (case dict_get d ''evidence'' of
             JArr (e # es) \<Rightarrow> forE (check_evidence_item h vectors (json_str i)) (e # es)
           | _ \<Rightarrow> stop (plat_err ''SECURITY_EVIDENCE: '' @ json_str i)))
      | _ \<Rightarrow> stop (plat_err ''SECURITY_FINDING''))"

definition validate_security_regressions :: "platform \<Rightarrow> vindex \<Rightarrow> unit res" where
  "validate_security_regressions h vectors =
     bindE (platform_json h ''conformance/security-regressions.v1.json'') (\<lambda>pack.
     thenE (checks [(dict_get pack ''schema'' = JStr ''grain.security-regressions.v1'', plat_err ''SECURITY_SCHEMA'')])
     (case dict_get pack ''findings'' of
        JArr findings \<Rightarrow>
          thenE (checks [(set (ids_of ''id'' findings) = set REQUIRED_SECURITY_IDS, plat_err ''SECURITY_ID_COVERAGE'')])
            (forE (check_security_finding h vectors) findings)
      | _ \<Rightarrow> stop (plat_err ''SECURITY_FINDINGS'')))"

definition platform_check_all :: "platform \<Rightarrow> unit res" where
  "platform_check_all h =
     bindE (vector_index h) (\<lambda>vectors.
     thenE (validate_demo_script h)
    (thenE (validate_external_consumer_fixture h)
    (bindE (validate_profile_registry h) (\<lambda>profile_ids.
     thenE (validate_reference_fixtures h profile_ids vectors)
    (thenE (validate_interop_matrix h vectors)
           (validate_security_regressions h vectors))))))"

definition platform_main :: "platform \<Rightarrow> (nat \<times> string) res" where
  "platform_main h = thenE (platform_check_all h) (Inr (0, ''repo-native developer platform: OK''))"

subsection \<open>What a passing check means\<close>

lemmas pass_simps = bindE_Inr thenE_Inr checks_Inr check_in_Inr forE_Inr attr_get_Inr attr_get_or_Inr read_json_document

lemma array_case:
  "(case v of JArr xs \<Rightarrow> f xs | _ \<Rightarrow> stop m) = Inr y \<longleftrightarrow> (\<exists>xs. v = JArr xs \<and> f xs = Inr y)"
  "(case zs of [] \<Rightarrow> stop m | x # xs \<Rightarrow> k x xs) = Inr y \<longleftrightarrow> (\<exists>x xs. zs = x # xs \<and> k x xs = Inr y)"
  by (cases v; simp) (cases zs; simp)

text \<open>A vector of the repository with an id, in a file.\<close>

definition vector_at :: "platform \<Rightarrow> string \<Rightarrow> string \<Rightarrow> bool" where
  "vector_at h vector_id p \<longleftrightarrow> p \<in> set (vector_paths h) \<and>
     (\<exists>d. document (pl_env h) p = Some (JObj d) \<and> dict_get d ''vector_id'' = JStr vector_id)"

definition vector_ref_ok :: "platform \<Rightarrow> json \<Rightarrow> json \<Rightarrow> bool" where
  "vector_ref_ok h v path_value \<longleftrightarrow>
     (\<exists>vector_id p. v = JStr vector_id \<and> vector_at h vector_id p \<and> path_str p = at_root h (json_str path_value))"

lemma vector_index_sound:
  assumes "vector_index h = Inr vectors" and "map_of vectors vector_id = Some p"
  shows "vector_at h vector_id p"
proof -
  define ok where "ok vs \<longleftrightarrow> (\<forall>i q. map_of vs i = Some q \<longrightarrow> vector_at h i q)" for vs
  have step: "ok out'" if "ok out" "q \<in> set (vector_paths h)" "index_vector h out q = Inr out'" for out q out'
  proof -
    from that(3) obtain d where d: "document (pl_env h) q = Some (JObj d)"
        "out' = (case dict_get d ''vector_id'' of JStr vector_id \<Rightarrow> AList.update vector_id q out | _ \<Rightarrow> out)"
      by (auto simp: index_vector_def pass_simps)
    show ?thesis
    proof (cases "is_str (dict_get d ''vector_id'')")
      case True
      then obtain i where i: "dict_get d ''vector_id'' = JStr i" by (auto simp: is_str_iff)
      with d(1) that(2) have "vector_at h i q" by (auto simp: vector_at_def)
      with that(1) show ?thesis by (simp add: d(2) i ok_def update_conv')
    next
      case False
      then have "out' = out" by (cases "dict_get d ''vector_id''") (simp_all add: d(2))
      with that(1) show ?thesis by simp
    qed
  qed
  have "ok vectors"
    using assms(1) unfolding vector_index_def by (rule foldE_invariant) (simp add: ok_def, rule step)
  with assms(2) show ?thesis by (simp add: ok_def)
qed

lemma check_vector_ref_sound:
  "vector_index h = Inr vectors \<Longrightarrow> check_vector_ref h vectors v pv m n = Inr () \<Longrightarrow> vector_ref_ok h v pv"
proof -
  assume index: "vector_index h = Inr vectors" and "check_vector_ref h vectors v pv m n = Inr ()"
  then obtain i p where "v = JStr i" "map_of vectors i = Some p" "path_str p = at_root h (json_str pv)"
    by (cases v) (auto simp: check_vector_ref_def split: option.splits if_splits)
  with vector_index_sound [OF index] show ?thesis by (auto simp: vector_ref_ok_def)
qed

text \<open>An entry of the registry: its document and constraints are files, the constraints name the profile, and
every sample is a file.\<close>

definition profile_ok :: "platform \<Rightarrow> string \<Rightarrow> json \<Rightarrow> bool" where
  "profile_ok h profile_id entry \<longleftrightarrow> (\<exists>d c samples. entry = JObj d \<and> dict_get d ''profile_id'' = JStr profile_id \<and>
     root_file h (dict_get d ''doc'') \<and> document (pl_env h) (at_root h (json_str (dict_get d ''constraints''))) = Some (JObj c) \<and>
     dict_get c ''profile'' = JStr profile_id \<and> py_iter (dict_get_or d ''sample_fixtures'' (JArr [])) = Inr samples \<and>
     list_all (root_file h) samples)"

lemma nonempty_str_iff: "nonempty_str v \<longleftrightarrow> (\<exists>s. v = JStr s \<and> s \<noteq> [])"
  by (cases v) (auto simp: nonempty_str_def)

lemma check_profile_sound:
  "check_profile h seen entry = Inr seen' \<Longrightarrow>
     \<exists>profile_id. seen' = seen @ [profile_id] \<and> profile_id \<notin> set seen \<and> profile_ok h profile_id entry"
  by (cases entry)
     (auto simp: check_profile_def profile_ok_def Let_def pass_simps nonempty_str_iff list_all_iff
       simp del: checks.simps dest!: sym [of "JStr s" for s])

lemma profiles_sound:
  "foldE (check_profile h) seen entries = Inr seen' \<Longrightarrow> distinct seen \<Longrightarrow>
     \<exists>ids. seen' = seen @ ids \<and> distinct seen' \<and> list_all2 (profile_ok h) ids entries"
proof (induction entries arbitrary: seen)
  case (Cons e es)
  then obtain s where s: "check_profile h seen e = Inr s" "foldE (check_profile h) s es = Inr seen'" by (auto simp: bindE_Inr)
  from check_profile_sound [OF s(1)] obtain i where i: "s = seen @ [i]" "i \<notin> set seen" "profile_ok h i e" by blast
  with Cons.prems have "distinct s" by simp
  from Cons.IH [OF s(2) this] obtain ids where "seen' = s @ ids" "distinct seen'" "list_all2 (profile_ok h) ids es" by blast
  with i have "seen' = seen @ (i # ids) \<and> distinct seen' \<and> list_all2 (profile_ok h) (i # ids) (e # es)" by simp
  then show ?case by blast
qed simp

definition reference_fixture_ok :: "platform \<Rightarrow> string list \<Rightarrow> json \<Rightarrow> bool" where
  "reference_fixture_ok h profile_ids fixture \<longleftrightarrow> (\<exists>d. fixture = JObj d \<and> root_file h (dict_get d ''path'') \<and>
     (dict_get d ''kind'' = JStr ''vector'' \<and> vector_ref_ok h (dict_get d ''vector_id'') (dict_get d ''path'') \<or>
      dict_get d ''kind'' = JStr ''sample'' \<and> (\<exists>i\<in>set profile_ids. \<exists>s. dict_get d ''profile_id'' = JStr i \<and>
        document (pl_env h) (at_root h (json_str (dict_get d ''path''))) = Some (JObj s) \<and> dict_get s ''profile_id'' = JStr i)))"

lemma check_fixture_sound:
  assumes "vector_index h = Inr vectors" and "check_fixture h profile_ids vectors st fixture = Inr st'"
  shows "reference_fixture_ok h profile_ids fixture"
proof (cases fixture)
  case (JObj d)
  from assms(2) obtain k where k: "dict_get d ''kind'' = JStr k" "k \<in> {''vector'', ''sample''}" "root_file h (dict_get d ''path'')"
      "(if k = ''vector'' then check_vector_ref h vectors (dict_get d ''vector_id'') (dict_get d ''path'')
          (plat_err ''FIXTURE_VECTOR_ID: '' @ json_str (dict_get d ''fixture_id''))
          (plat_err ''FIXTURE_VECTOR_PATH: '' @ json_str (dict_get d ''fixture_id''))
        else check_sample h profile_ids d (json_str (dict_get d ''fixture_id''))) = Inr ()"
    by (auto simp: JObj check_fixture_def Let_def pass_simps simp del: checks.simps split: if_splits)
  show ?thesis
  proof (cases "k = ''vector''")
    case True
    with k check_vector_ref_sound [OF assms(1)] show ?thesis by (auto simp: reference_fixture_ok_def JObj)
  next
    case False
    with k show ?thesis
      by (auto simp: reference_fixture_ok_def JObj check_sample_def pass_simps in_str_list_iff simp del: checks.simps)
  qed
qed (use assms(2) in \<open>auto simp: check_fixture_def\<close>)

text \<open>A lane has a command, and the vectors that its runner profile lists are vectors of the repository; a gate asks
for lanes of the matrix only.\<close>

definition lane_ok :: "platform \<Rightarrow> json \<Rightarrow> bool" where
  "lane_ok h lane \<longleftrightarrow> (\<exists>d ref. lane = JObj d \<and> nonempty_str (dict_get d ''command'') \<and> dict_get d ''vectors'' = JStr ref \<and>
     (ends_with ref ''.json'' \<and> starts_with ref ''runner/'' \<longrightarrow>
        (\<exists>profile. document (pl_env h) (at_root h ref) = Some (JObj profile) \<and>
           (truthy (dict_get profile ''vector_ids'') \<longrightarrow> (\<exists>ids. py_iter (dict_get profile ''vector_ids'') = Inr ids \<and>
              (\<forall>v\<in>set ids. \<exists>vector_id p. v = JStr vector_id \<and> vector_at h vector_id p))))))"

lemma check_lane_sound:
  assumes "vector_index h = Inr vectors" and "check_lane h vectors lane = Inr ()"
  shows "lane_ok h lane"
proof (cases lane)
  case (JObj d)
  from assms(2) obtain ref where ref: "dict_get d ''vectors'' = JStr ref" "nonempty_str (dict_get d ''command'')"
      "ends_with ref ''.json'' \<Longrightarrow> starts_with ref ''runner/'' \<Longrightarrow> check_lane_profile h vectors ref = Inr ()"
    by (auto simp: JObj check_lane_def Let_def pass_simps simp del: checks.simps split: json.splits if_splits)
  have known: "\<exists>p. vector_at h i p" if "i \<in> set (map fst vectors)" for i
    using that vector_index_sound [OF assms(1), of i] by (metis map_of_eq_None_iff not_None_eq set_map)
  have "\<exists>profile. document (pl_env h) (at_root h ref) = Some (JObj profile) \<and>
      (truthy (dict_get profile ''vector_ids'') \<longrightarrow> (\<exists>ids. py_iter (dict_get profile ''vector_ids'') = Inr ids \<and>
        (\<forall>v\<in>set ids. \<exists>vector_id p. v = JStr vector_id \<and> vector_at h vector_id p)))"
    if "check_lane_profile h vectors ref = Inr ()"
  proof -
    from that obtain profile where profile: "document (pl_env h) (at_root h ref) = Some (JObj profile)"
        "truthy (dict_get_or profile ''vector_ids'' (JArr [])) \<Longrightarrow> \<exists>ids. py_iter (dict_get_or profile ''vector_ids'' (JArr [])) = Inr ids \<and>
           (\<forall>v\<in>set ids. \<exists>s. v = JStr s \<and> s \<in> set (map fst vectors))"
      by (auto simp: check_lane_profile_def pass_simps split: if_splits)
    have "dict_get_or profile ''vector_ids'' (JArr []) = dict_get profile ''vector_ids''" if "truthy (dict_get profile ''vector_ids'')"
      using that by (auto simp: dict_get_or_def dict_get_def split: option.splits)
    with profile known show ?thesis by fastforce
  qed
  with ref show ?thesis by (auto simp: lane_ok_def JObj)
qed (use assms(2) in \<open>auto simp: check_lane_def\<close>)

definition gate_ok :: "string list \<Rightarrow> json \<Rightarrow> bool" where
  "gate_ok lane_ids gate \<longleftrightarrow> (\<exists>d requires. gate = JObj d \<and> py_iter (dict_get_or d ''requires'' (JArr [])) = Inr requires \<and>
     (\<forall>v\<in>set requires. \<exists>i\<in>set lane_ids. v = JStr i))"

lemma check_gate_sound: "check_gate lane_ids gate = Inr () \<Longrightarrow> gate_ok lane_ids gate"
  by (cases gate) (fastforce simp: check_gate_def gate_ok_def pass_simps)+

definition evidence_ok :: "platform \<Rightarrow> json \<Rightarrow> bool" where
  "evidence_ok h item \<longleftrightarrow> (\<exists>d. item = JObj d \<and> root_file h (dict_get d ''path'') \<and>
     (dict_get d ''kind'' = JStr ''path'' \<or>
      dict_get d ''kind'' = JStr ''vector'' \<and> vector_ref_ok h (dict_get d ''id'') (dict_get d ''path'')))"

definition finding_ok :: "platform \<Rightarrow> json \<Rightarrow> bool" where
  "finding_ok h finding \<longleftrightarrow>
     (\<exists>d evidence. finding = JObj d \<and> dict_get d ''evidence'' = JArr evidence \<and> evidence \<noteq> [] \<and> list_all (evidence_ok h) evidence)"

lemma check_evidence_sound:
  "vector_index h = Inr vectors \<Longrightarrow> check_evidence_item h vectors i item = Inr () \<Longrightarrow> evidence_ok h item"
  using check_vector_ref_sound
  by (cases item) (fastforce simp: check_evidence_item_def evidence_ok_def pass_simps simp del: checks.simps split: if_splits)+

lemma check_finding_sound:
  "vector_index h = Inr vectors \<Longrightarrow> check_security_finding h vectors finding = Inr () \<Longrightarrow> finding_ok h finding"
proof -
  assume index: "vector_index h = Inr vectors" and "check_security_finding h vectors finding = Inr ()"
  then obtain d i e es where "finding = JObj d" "dict_get d ''evidence'' = JArr (e # es)"
      "\<forall>x\<in>set (e # es). check_evidence_item h vectors i x = Inr ()"
    by (cases finding) (auto simp: check_security_finding_def pass_simps array_case simp del: forE.simps)
  with check_evidence_sound [OF index] show ?thesis by (auto simp: finding_ok_def list_all_iff)
qed

lemma registry_sound:
  "validate_profile_registry h = Inr ids \<Longrightarrow> \<exists>registry profiles.
     platform_json h ''spec/profiles/profile-registry.v1.json'' = Inr registry \<and> dict_get registry ''profiles'' = JArr profiles \<and>
     list_all2 (profile_ok h) ids profiles \<and> distinct ids \<and> set REQUIRED_PROFILE_IDS \<subseteq> set ids"
proof -
  assume "validate_profile_registry h = Inr ids"
  then obtain registry profiles where r: "platform_json h ''spec/profiles/profile-registry.v1.json'' = Inr registry"
      "dict_get registry ''profiles'' = JArr profiles" "foldE (check_profile h) [] profiles = Inr ids"
      "set REQUIRED_PROFILE_IDS \<subseteq> set ids"
    by (auto simp: validate_profile_registry_def pass_simps array_case simp del: checks.simps foldE.simps)
  from profiles_sound [OF r(3)] r show ?thesis by auto
qed

lemma fixtures_sound:
  assumes "vector_index h = Inr vectors" and "validate_reference_fixtures h ids vectors = Inr ()"
  shows "\<exists>catalog fixtures. platform_json h ''examples/reference-fixtures/catalog.v1.json'' = Inr catalog \<and>
     dict_get catalog ''fixtures'' = JArr fixtures \<and> list_all (reference_fixture_ok h ids) fixtures"
proof -
  from assms(2) obtain catalog f fs st where c: "platform_json h ''examples/reference-fixtures/catalog.v1.json'' = Inr catalog"
      and f: "dict_get catalog ''fixtures'' = JArr (f # fs)" "foldE (check_fixture h ids vectors) ([], []) (f # fs) = Inr st"
    by (auto simp: validate_reference_fixtures_def bindE_Inr thenE_Inr array_case simp del: foldE.simps)
  have "list_all (reference_fixture_ok h ids) (f # fs)"
    unfolding list_all_iff using foldE_member [OF f(2)] check_fixture_sound [OF assms(1)] by blast
  with c f(1) show ?thesis by blast
qed

lemma interop_sound:
  assumes "vector_index h = Inr vectors" and "validate_interop_matrix h vectors = Inr ()"
  shows "\<exists>matrix lanes gates. platform_json h ''conformance/interop-matrix.v1.json'' = Inr matrix \<and>
     dict_get matrix ''lanes'' = JArr lanes \<and> set REQUIRED_INTEROP_LANES \<subseteq> set (ids_of ''lane_id'' lanes) \<and>
     list_all (lane_ok h) lanes \<and> dict_get matrix ''gates'' = JArr gates \<and> list_all (gate_ok (ids_of ''lane_id'' lanes)) gates"
proof -
  from assms(2) obtain matrix l ls g gs where m: "platform_json h ''conformance/interop-matrix.v1.json'' = Inr matrix"
      "dict_get matrix ''lanes'' = JArr (l # ls)" "set REQUIRED_INTEROP_LANES \<subseteq> set (ids_of ''lane_id'' (l # ls))"
      "forE (check_lane h vectors) (l # ls) = Inr ()"
      and g: "dict_get matrix ''gates'' = JArr (g # gs)" "forE (check_gate (ids_of ''lane_id'' (l # ls))) (g # gs) = Inr ()"
    by (auto simp: validate_interop_matrix_def Let_def bindE_Inr thenE_Inr checks_Inr array_case simp del: checks.simps forE.simps)
  from m(4) have "list_all (lane_ok h) (l # ls)"
    unfolding forE_Inr list_all_iff using check_lane_sound [OF assms(1)] by blast
  moreover from g(2) have "list_all (gate_ok (ids_of ''lane_id'' (l # ls))) (g # gs)"
    unfolding forE_Inr list_all_iff using check_gate_sound by blast
  ultimately show ?thesis using m(1-3) g(1) by blast
qed

lemma security_sound:
  assumes "vector_index h = Inr vectors" and "validate_security_regressions h vectors = Inr ()"
  shows "\<exists>pack findings. platform_json h ''conformance/security-regressions.v1.json'' = Inr pack \<and>
     dict_get pack ''findings'' = JArr findings \<and> set (ids_of ''id'' findings) = set REQUIRED_SECURITY_IDS \<and>
     list_all (finding_ok h) findings"
proof -
  from assms(2) obtain pack findings where p: "platform_json h ''conformance/security-regressions.v1.json'' = Inr pack"
      "dict_get pack ''findings'' = JArr findings" "set (ids_of ''id'' findings) = set REQUIRED_SECURITY_IDS"
      "forE (check_security_finding h vectors) findings = Inr ()"
    by (auto simp: validate_security_regressions_def pass_simps array_case simp del: checks.simps)
  from p(4) have "list_all (finding_ok h) findings"
    unfolding forE_Inr list_all_iff using check_finding_sound [OF assms(1)] by blast
  with p show ?thesis by blast
qed

text \<open>C26: what the developer surface names by an identifier or by a file resolves. The check passes only if
the registered profiles are distinct and include the required ones, with constraints that name them; every
reference fixture is a file, either a vector with the given id or a sample of a registered profile; every
lane of the interoperability matrix has a command and a reference to its vectors and, where that reference
is a JSON profile under \<open>runner/\<close> that lists vector ids, the profile is read and each listed id is a vector of
the repository (a reference that is a pattern over files, or a profile without a list of ids, names no
single vector and is not looked up); every gate asks for lanes of the matrix; and the ten security
findings, no more and no fewer, each have evidence, all of it files and vectors of the repository.\<close>

theorem platform_references_resolve:
  assumes "platform_main h = Inr out"
  shows "\<exists>registry profiles ids catalog fixtures matrix lanes gates pack findings.
    platform_json h ''spec/profiles/profile-registry.v1.json'' = Inr registry \<and> dict_get registry ''profiles'' = JArr profiles \<and>
    list_all2 (profile_ok h) ids profiles \<and> distinct ids \<and> set REQUIRED_PROFILE_IDS \<subseteq> set ids \<and>
    platform_json h ''examples/reference-fixtures/catalog.v1.json'' = Inr catalog \<and> dict_get catalog ''fixtures'' = JArr fixtures \<and>
    list_all (reference_fixture_ok h ids) fixtures \<and>
    platform_json h ''conformance/interop-matrix.v1.json'' = Inr matrix \<and> dict_get matrix ''lanes'' = JArr lanes \<and>
    set REQUIRED_INTEROP_LANES \<subseteq> set (ids_of ''lane_id'' lanes) \<and> list_all (lane_ok h) lanes \<and>
    dict_get matrix ''gates'' = JArr gates \<and> list_all (gate_ok (ids_of ''lane_id'' lanes)) gates \<and>
    platform_json h ''conformance/security-regressions.v1.json'' = Inr pack \<and> dict_get pack ''findings'' = JArr findings \<and>
    set (ids_of ''id'' findings) = set REQUIRED_SECURITY_IDS \<and> list_all (finding_ok h) findings"
proof -
  from assms obtain vectors ids where vectors: "vector_index h = Inr vectors" and "validate_profile_registry h = Inr ids"
      "validate_reference_fixtures h ids vectors = Inr ()" "validate_interop_matrix h vectors = Inr ()"
      "validate_security_regressions h vectors = Inr ()"
    by (auto simp: platform_main_def platform_check_all_def pass_simps)
  with registry_sound fixtures_sound [OF vectors] interop_sound [OF vectors] security_sound [OF vectors]
  show ?thesis by metis
qed

text \<open>A repository with one vector, which is a fixture and the evidence of every finding, and three profiles.\<close>

definition ex_fixtures :: "json list" where
  "ex_fixtures =
     [JObj [(''fixture_id'', JStr ''a''), (''kind'', JStr ''vector''), (''path'', JStr ''conformance/vectors/v.json''), (''vector_id'', JStr ''V'')],
      JObj [(''fixture_id'', JStr ''b''), (''kind'', JStr ''sample''), (''path'', JStr ''s.json''), (''profile_id'', JStr ''food-v0.1'')]]"

definition ex_platform_docs :: "(string \<times> json) list" where
  "ex_platform_docs =
     [(''/g/conformance/vectors/v.json'', JObj [(''vector_id'', JStr ''V'')]),
      (''/g/s.json'', JObj [(''profile_id'', JStr ''food-v0.1'')]),
      (''/g/runner/wasm.json'', JObj [(''vector_ids'', JArr [JStr ''V''])]),
      (''/g/spec/profiles/profile-registry.v1.json'', JObj [(''schema'', JStr ''grain.profile-registry.v1''),
         (''profiles'', JArr (map (\<lambda>i. JObj [(''profile_id'', JStr i), (''doc'', JStr ''d.md''), (''constraints'', JStr i)]) REQUIRED_PROFILE_IDS))]),
      (''/g/examples/reference-fixtures/catalog.v1.json'', JObj [(''schema'', JStr ''grain.reference-fixtures.v1''),
         (''fixtures'', JArr ex_fixtures)]),
      (''/g/conformance/interop-matrix.v1.json'', JObj [(''schema'', JStr ''grain.interop-matrix.v1''),
         (''lanes'', JArr (map (\<lambda>i. JObj [(''lane_id'', JStr i), (''command'', JStr ''c''), (''vectors'', JStr ''runner/wasm.json'')])
            REQUIRED_INTEROP_LANES)),
         (''gates'', JArr [JObj [(''requires'', JArr (map JStr REQUIRED_INTEROP_LANES))]])]),
      (''/g/conformance/security-regressions.v1.json'', JObj [(''schema'', JStr ''grain.security-regressions.v1''),
         (''findings'', JArr (map (\<lambda>i. JObj [(''id'', JStr i), (''evidence'', JArr [JObj [(''kind'', JStr ''vector''), (''id'', JStr ''V''),
            (''path'', JStr ''./conformance/vectors/v.json'')]])]) REQUIRED_SECURITY_IDS))])]
     @ map (\<lambda>i. (''/g/'' @ i, JObj [(''profile'', JStr i)])) REQUIRED_PROFILE_IDS"

definition ex_platform :: platform where
  "ex_platform = \<lparr>pl_env = \<lparr>file_text = (\<lambda>p. if p \<in> set (map fst ex_platform_docs) then Some p
         else Some ''./scripts/demo check_npm_release_dry_run.py''),
       json_loads = map_of ex_platform_docs, is_dir = (\<lambda>_. False), dir_glob = (\<lambda>_ _. [''/g/conformance/vectors/v.json''])\<rparr>,
     pl_root = ''/g'', pl_executable = (\<lambda>_. True)\<rparr>"

lemma ex_platform_run:
  "platform_main ex_platform = Inr (0, ''repo-native developer platform: OK'')"
  "\<exists>c. platform_json ex_platform ''examples/reference-fixtures/catalog.v1.json'' = Inr c \<and> dict_get c ''fixtures'' = JArr ex_fixtures"
proof -
  have "(case platform_main ex_platform of Inr _ \<Rightarrow> True | _ \<Rightarrow> False)" by code_simp
  then show "platform_main ex_platform = Inr (0, ''repo-native developer platform: OK'')"
    by (auto simp: platform_main_def thenE_Inr split: sum.splits)
  have "(case platform_json ex_platform ''examples/reference-fixtures/catalog.v1.json'' of Inr c \<Rightarrow> dict_get c ''fixtures'' = JArr ex_fixtures
     | _ \<Rightarrow> False)" by code_simp
  then show "\<exists>c. platform_json ex_platform ''examples/reference-fixtures/catalog.v1.json'' = Inr c \<and> dict_get c ''fixtures'' = JArr ex_fixtures"
    by (auto split: sum.splits)
qed

theorem platform_references_resolve_witness:
  "\<exists>ids. distinct ids \<and> ''food-v0.1'' \<in> set ids \<and> list_all (reference_fixture_ok ex_platform ids) ex_fixtures"
  using platform_references_resolve [OF ex_platform_run(1)] ex_platform_run(2) by (fastforce simp: REQUIRED_PROFILE_IDS_def)

end
