(* ===== verification/TelemetryGuard.thy ===== *)
theory TelemetryGuard
  imports ReportScan PyFind PyHost
begin

text \<open>
  \<open>tools/ci/check_no_secret_telemetry.py\<close>: files about telemetry, diagnostics or logs must not name
  material that is secret. A JSON file is searched in its keys and strings, any other file line by line.
\<close>

definition SCAN_ROOTS :: "string list" where
  "SCAN_ROOTS = [''sdk/workflows'', ''sdk/generated'', ''sdk/swift'', ''sdk/kotlin'', ''sdk/wasm'', ''examples'',
     ''docs/human/sdk'', ''docs/llm'']"

definition SCAN_SUFFIXES :: "string list" where
  "SCAN_SUFFIXES = [''.json'', ''.jsonl'', ''.md'', ''.swift'', ''.kt'', ''.mjs'', ''.js'', ''.ts'']"

definition secret_terms :: "string list" where
  "secret_terms = [''snapshotB64'', ''snapshot_b64'', ''identityBundle'', ''identity_bundle'', ''pairingEnvelope'',
     ''pairing_envelope'', ''syncBundle'', ''sync_bundle'', ''coseB64'', ''cose_b64'', ''trustPubB64'',
     ''trust_pub_b64'', ''trustMaterial'', ''trust_material'', ''privateKey'', ''private_key'']"

definition SECRET_FIELD_RE :: "char regex" where
  "SECRET_FIELD_RE = RAlts (map RLitI secret_terms)"

definition surface_terms :: "string list" where
  "surface_terms = [''telemetry'', ''diagnostic'', ''log'']"

definition SURFACE_RE :: "char regex" where
  "SURFACE_RE = RAlts (map RLitI surface_terms)"

definition SAFE_ENUM_VALUES :: "string list" where
  "SAFE_ENUM_VALUES = [''sync_bundle'']"

definition secret_field_error :: "string \<Rightarrow> string \<Rightarrow> string" where
  "secret_field_error path s = ''NO_SECRET_TELEMETRY_ERR_SECRET_FIELD: '' @ path @ '': '' @ s"

fun walk_json_keys :: "string \<Rightarrow> json \<Rightarrow> unit res" where
  "walk_json_keys path (JObj d) =
     forE (\<lambda>(key, child).
       thenE (checks [(\<not> re_search SECRET_FIELD_RE key, secret_field_error path key)])
         (walk_json_keys path child)) d"
| "walk_json_keys path (JArr xs) = forE (walk_json_keys path) xs"
| "walk_json_keys path (JStr s) =
     (if s \<in> set SAFE_ENUM_VALUES then Inr ()
      else checks [(\<not> re_search SECRET_FIELD_RE s, secret_field_error path s)])"
| "walk_json_keys path _ = Inr ()"

text \<open>The path the surface is looked for in: inside the repository of the script, relative to it.\<close>

definition surface_path :: "string \<Rightarrow> string \<Rightarrow> string" where
  "surface_path repo_root p =
     (if path_is_absolute p \<and> strict_prefix (path_parts repo_root) (path_parts p)
      then (case relative_to p repo_root of Inr rel \<Rightarrow> rel | Inl _ \<Rightarrow> path_str p) else path_str p)"

definition should_scan :: "env \<Rightarrow> string \<Rightarrow> string \<Rightarrow> bool" where
  "should_scan w repo_root p =
     (\<not> ends_with (path_name p) ''.d.ts'' \<and> is_file w p \<and> path_suffix p \<in> set SCAN_SUFFIXES \<and>
      re_search SURFACE_RE (surface_path repo_root p))"

text \<open>\<open>match.group(0)\<close> of the first match.\<close>

definition first_match :: "char regex \<Rightarrow> string \<Rightarrow> string" where
  "first_match r s = (case search_pos r [] s of Some (a, b) \<Rightarrow> PyFind.span a b | None \<Rightarrow> [])"

definition line_violation :: "string \<Rightarrow> nat \<times> string \<Rightarrow> string list" where
  "line_violation rel e =
     (let line = snd e; low = str_lower (snd e) in
      if re_search SECRET_FIELD_RE line \<and> (contains low ''telemetry'' \<or> contains low ''diagnostic'' \<or> contains low ''log'')
      then [secret_field_error (rel @ '':'' @ nat_str (fst e + 1)) (first_match SECRET_FIELD_RE line)] else [])"

text \<open>A text that is no JSON counts as one string.\<close>

definition parsed_or_text :: "env \<Rightarrow> string \<Rightarrow> json" where
  "parsed_or_text w t = (case json_loads w t of Some v \<Rightarrow> v | None \<Rightarrow> JStr t)"

definition telemetry_scan_file :: "env \<Rightarrow> string \<Rightarrow> string \<Rightarrow> string list res" where
  "telemetry_scan_file w root_dir p =
     bindE (relative_to p root_dir) (\<lambda>rel.
     bindE (read_text w p) (\<lambda>t.
     if path_suffix p \<in> {''.json'', ''.jsonl''}
     then (case walk_json_keys rel (parsed_or_text w t) of
             Inl (SystemExit m) \<Rightarrow> Inr [m] | Inl e \<Rightarrow> Inl e | Inr _ \<Rightarrow> Inr [])
     else Inr (concat (map (line_violation rel) (enum (str_splitlines t))))))"

definition root_violations :: "env \<Rightarrow> string \<Rightarrow> string \<Rightarrow> string \<Rightarrow> string list res" where
  "root_violations w repo_root root_dir rel_root =
     (let p = path_join root_dir rel_root in
      if \<not> path_exists w p then Inr []
      else bindE (mapE (telemetry_scan_file w root_dir)
             (filter (should_scan w repo_root) (sort_key path_parts (dir_glob w p ''**/*'')))) (\<lambda>vs. Inr (concat vs)))"

definition telemetry_scan_root :: "env \<Rightarrow> string \<Rightarrow> string \<Rightarrow> unit res" where
  "telemetry_scan_root w repo_root root_dir =
     bindE (mapE (root_violations w repo_root root_dir) SCAN_ROOTS) (\<lambda>vs.
     if concat vs \<noteq> []
     then stop (''No-secret telemetry guard violations:'' @ [newline] @ ''- '' @ str_join ([newline] @ ''- '') (concat vs))
     else Inr ())"

text \<open>\<open>resolve\<close> makes the argument absolute; without one the repository of the script is searched.\<close>

definition telemetry_main :: "env \<Rightarrow> (string \<Rightarrow> string) \<Rightarrow> string \<Rightarrow> string option \<Rightarrow> (nat \<times> string) res" where
  "telemetry_main w resolve_path repo_root arg =
     thenE (telemetry_scan_root w repo_root (resolve_path (case arg of Some r \<Rightarrow> r | None \<Rightarrow> repo_root)))
       (Inr (0, ''No-secret telemetry guard: OK''))"

subsection \<open>What the guard finds\<close>

text \<open>A text names a term in any letter case.\<close>

definition names_any :: "string list \<Rightarrow> string \<Rightarrow> bool" where
  "names_any ts s = list_ex (\<lambda>t. contains (str_lower s) (str_lower t)) ts"

lemma re_search_RLitI_iff: "re_search (RLitI t) s \<longleftrightarrow> contains (str_lower s) (str_lower t)"
proof
  assume "contains (str_lower s) (str_lower t)"
  then obtain a b where "str_lower s = a @ str_lower t @ b" by (auto simp: contains_def sublist_def)
  then obtain q x z where s: "s = q @ x @ z" "str_lower x = str_lower t"
    by (auto simp: str_lower_def map_eq_append_conv append_eq_map_conv)
  have "((rev q, x @ z), (rev x @ rev q, z)) \<in> lang (RLitI t)" by (rule lang_RLitI_any_case [OF s(2)])
  with s(1) show "re_search (RLitI t) s" unfolding re_search_iff by blast
qed (rule re_search_RLitI)

lemma re_search_any: "re_search (RAlts (map RLitI ts)) s \<longleftrightarrow> names_any ts s"
  by (simp add: re_search_RAlts re_search_RLitI_iff names_any_def list_ex_iff)

definition value_clean :: "json \<Rightarrow> bool" where
  "value_clean v \<longleftrightarrow> (\<forall>k x. field_of v k x \<longrightarrow> \<not> names_any secret_terms k) \<and>
     (\<forall>s. sub_value (JStr s) v \<longrightarrow> s \<in> set SAFE_ENUM_VALUES \<or> \<not> names_any secret_terms s)"

lemma walk_json_keys_iff: "walk_json_keys path v = Inr () \<longleftrightarrow> value_clean v"
proof (induction v rule: json_induct)
  case (JArr xs)
  then show ?case by (auto simp: forE_Inr value_clean_def field_of_simps sub_value_list)
next
  case (JObj d)
  have "walk_json_keys path (JObj d) = Inr () \<longleftrightarrow> (\<forall>e\<in>set d. \<not> names_any secret_terms (fst e) \<and> value_clean (snd e))"
    unfolding walk_json_keys.simps forE_Inr
  proof (rule ball_cong [OF refl])
    fix e assume e: "e \<in> set d"
    show "(case e of (key, x) \<Rightarrow> thenE (checks [(\<not> re_search SECRET_FIELD_RE key, secret_field_error path key)])
        (walk_json_keys path x)) = Inr () \<longleftrightarrow> \<not> names_any secret_terms (fst e) \<and> value_clean (snd e)"
      using JObj.IH [of "fst e" "snd e"] e by (simp add: case_prod_beta thenE_Inr checks_Inr SECRET_FIELD_RE_def re_search_any del: checks.simps)
  qed
  also have "\<dots> \<longleftrightarrow> value_clean (JObj d)"
    unfolding value_clean_def field_of_simps sub_value_dict Ball_def split_paired_All fst_conv snd_conv json.distinct simp_thms
    by blast
  finally show ?case .
qed (auto simp: value_clean_def field_of_simps SECRET_FIELD_RE_def re_search_any)

lemma walk_json_keys_Inl: "walk_json_keys path v = Inl e \<Longrightarrow> \<exists>m. e = SystemExit m"
proof (induction v arbitrary: e rule: json_induct)
  case (JArr xs)
  then show ?case using forE_Inl by (metis walk_json_keys.simps(2))
next
  case (JObj d)
  from forE_Inl [OF JObj.prems [unfolded walk_json_keys.simps]] obtain k x where kx: "(k, x) \<in> set d"
      "thenE (checks [(\<not> re_search SECRET_FIELD_RE k, secret_field_error path k)]) (walk_json_keys path x) = Inl e"
    by auto
  then show ?case using JObj.IH [OF kx(1)] by (auto simp: stop_def split: if_splits)
qed (auto simp: stop_def split: if_splits)

definition telemetry_clean :: "env \<Rightarrow> string \<Rightarrow> bool" where
  "telemetry_clean w p \<longleftrightarrow> (\<exists>t. file_text w p = Some t \<and>
     (if path_suffix p \<in> {''.json'', ''.jsonl''} then value_clean (parsed_or_text w t)
      else \<forall>line\<in>set (str_splitlines t). \<not> (names_any secret_terms line \<and> names_any surface_terms line)))"

lemma line_violation_Nil: "line_violation rel e = [] \<longleftrightarrow> \<not> (names_any secret_terms (snd e) \<and> names_any surface_terms (snd e))"
proof -
  have "map str_lower surface_terms = surface_terms" by code_simp
  then have "names_any surface_terms s \<longleftrightarrow>
      contains (str_lower s) ''telemetry'' \<or> contains (str_lower s) ''diagnostic'' \<or> contains (str_lower s) ''log''" for s
    by (simp add: names_any_def surface_terms_def)
  then show ?thesis by (simp add: line_violation_def Let_def SECRET_FIELD_RE_def re_search_any)
qed

lemma scan_file_Nil: "telemetry_scan_file w root_dir p = Inr [] \<longleftrightarrow> is_ok (relative_to p root_dir) \<and> telemetry_clean w p"
proof -
  have walk: "(case walk_json_keys rel v of Inl (SystemExit m) \<Rightarrow> Inr [m] | Inl e \<Rightarrow> Inl e | Inr _ \<Rightarrow> Inr []) = Inr [] \<longleftrightarrow>
      value_clean v" for rel v
    using walk_json_keys_Inl [of rel v] walk_json_keys_iff [of rel v] by (auto split: sum.splits exc.splits)
  have lines: "concat (map (line_violation rel) (enum ls)) = [] \<longleftrightarrow>
      (\<forall>line\<in>set ls. \<not> (names_any secret_terms line \<and> names_any surface_terms line))" for rel ls
    unfolding concat_eq_Nil_conv using line_violation_Nil [of rel] enum_ball [of ls "\<lambda>l. \<not> (names_any secret_terms l \<and> names_any surface_terms l)"]
    by simp
  show ?thesis
  proof (cases "relative_to p root_dir")
    case (Inr rel)
    then show ?thesis
      by (cases "file_text w p") (simp_all add: telemetry_scan_file_def read_text_def telemetry_clean_def walk lines del: concat_eq_Nil_conv)
  qed (simp add: telemetry_scan_file_def)
qed

text \<open>The guard passes exactly when nothing secret is named where telemetry is. Every file below a scanned
directory that exists, whose suffix is a scanned one and whose path speaks of telemetry, diagnostics or logs, is
clean: a JSON document has no key and no string, the one allowed value apart, that contains a secret term in any
letter case, and no line of any other file contains both a secret term and a word for the surface.\<close>

theorem telemetry_guard_iff:
  assumes "\<forall>rel_root\<in>set SCAN_ROOTS. \<forall>p\<in>set (dir_glob w (path_join root_dir rel_root) ''**/*''). is_ok (relative_to p root_dir)"
    and "root_dir = resolve_path (case arg of Some r \<Rightarrow> r | None \<Rightarrow> repo_root)"
  shows "(\<exists>out. telemetry_main w resolve_path repo_root arg = Inr out) \<longleftrightarrow>
    (\<forall>rel_root\<in>set SCAN_ROOTS. path_exists w (path_join root_dir rel_root) \<longrightarrow>
       (\<forall>p\<in>set (dir_glob w (path_join root_dir rel_root) ''**/*''). should_scan w repo_root p \<longrightarrow> telemetry_clean w p))"
proof -
  have root: "root_violations w repo_root root_dir r = Inr [] \<longleftrightarrow> (path_exists w (path_join root_dir r) \<longrightarrow>
      (\<forall>p\<in>set (dir_glob w (path_join root_dir r) ''**/*''). should_scan w repo_root p \<longrightarrow> telemetry_clean w p))"
    if "r \<in> set SCAN_ROOTS" for r
  proof -
    let ?ps = "filter (should_scan w repo_root) (sort_key path_parts (dir_glob w (path_join root_dir r) ''**/*''))"
    have "(\<exists>vs. mapE (telemetry_scan_file w root_dir) ?ps = Inr vs \<and> concat vs = []) \<longleftrightarrow>
        (\<forall>p\<in>set ?ps. telemetry_scan_file w root_dir p = Inr [])" by (rule mapE_concat_Nil)
    also have "\<dots> \<longleftrightarrow> (\<forall>p\<in>set ?ps. telemetry_clean w p)" using assms(1) that by (auto simp: scan_file_Nil)
    finally show ?thesis by (auto simp: root_violations_def Let_def bindE_Inr)
  qed
  have "(\<exists>out. telemetry_main w resolve_path repo_root arg = Inr out) \<longleftrightarrow>
      (\<exists>vs. mapE (root_violations w repo_root root_dir) SCAN_ROOTS = Inr vs \<and> concat vs = [])"
    by (auto simp: telemetry_main_def assms(2) thenE_Inr telemetry_scan_root_def bindE_Inr simp del: concat_eq_Nil_conv)
  also have "\<dots> \<longleftrightarrow> (\<forall>r\<in>set SCAN_ROOTS. root_violations w repo_root root_dir r = Inr [])" by (rule mapE_concat_Nil)
  finally show ?thesis using root by auto
qed

text \<open>A document about logs, with the allowed value, and a page that names a secret term on a line of its own.\<close>

definition ex_telemetry :: env where
  "ex_telemetry = \<lparr>file_text = (\<lambda>p. if p = ''/g/docs/llm/log.json'' then Some p
       else if p = ''/g/docs/llm/log.md'' then Some (''privateKey'' @ [newline] @ ''A log.'') else None),
     json_loads = (\<lambda>_. Some (JObj [(''kind'', JStr ''sync_bundle'')])), is_dir = (\<lambda>p. p = ''/g/docs/llm''),
     dir_glob = (\<lambda>p _. if p = ''/g/docs/llm'' then [''/g/docs/llm/log.md'', ''/g/docs/llm/log.json''] else [])\<rparr>"

theorem telemetry_guard_iff_witness: "\<exists>out. telemetry_main ex_telemetry id ''/g'' None = Inr out"
proof -
  have under: "\<forall>r\<in>set SCAN_ROOTS. \<forall>p\<in>set (dir_glob ex_telemetry (path_join ''/g'' r) ''**/*''). is_ok (relative_to p ''/g'')"
    by code_simp
  have root: "''/g'' = id (case None of Some r \<Rightarrow> r | None \<Rightarrow> ''/g'')" by simp
  have terms: "\<not> names_any secret_terms ''kind''" "\<not> names_any surface_terms ''privateKey''" "\<not> names_any secret_terms ''A log.''"
    "str_splitlines (''privateKey'' @ [newline] @ ''A log.'') = [''privateKey'', ''A log.'']" by code_simp+
  have suffixes: "path_suffix ''/g/docs/llm/log.json'' = ''.json''" "path_suffix ''/g/docs/llm/log.md'' = ''.md''" by code_simp+
  have "value_clean (JObj [(''kind'', JStr ''sync_bundle'')])"
    using terms(1) by (auto simp: value_clean_def field_of_simps sub_value_dict SAFE_ENUM_VALUES_def)
  then have clean: "telemetry_clean ex_telemetry ''/g/docs/llm/log.json''" "telemetry_clean ex_telemetry ''/g/docs/llm/log.md''"
    using terms(2-) suffixes by (simp_all add: telemetry_clean_def ex_telemetry_def parsed_or_text_def)
  show ?thesis
    by (subst telemetry_guard_iff [where root_dir = "''/g''" and resolve_path = id and repo_root = "''/g''" and arg = None, OF under root]) (use clean in \<open>auto simp: ex_telemetry_def split: if_splits\<close>)
qed

end
