(* ===== verification/LlmDocs.thy ===== *)
theory LlmDocs
  imports AuditInvariants Checks
begin

text \<open>
  \<open>tools/check_llm_docs.py\<close>: identifiers in the documents for language models are unique, the vectors
  they name exist, every SDK invariant names its tests and modules, and ranges of identifiers end at the last one.
\<close>

subsection \<open>Identifiers\<close>

definition item_start :: "char regex" where
  "item_start = RSeqs [RBol, RStar (RCls chr_is_space), RLit ''-'', RPlus (RCls chr_is_space)]"

abbreviation digits :: "nat \<Rightarrow> char regex" where
  "digits n \<equiv> RRep n (RCls chr_is_ascii_digit)"

definition INV_ID_RE :: matcher where
  "INV_ID_RE = capture item_start (ends (RSeqs [RLit ''INV-'', RPlus (RCls chr_is_id)])) (RLit '':'')"

definition VEC_ID_RE :: matcher where
  "VEC_ID_RE = capture REps
     (ends (RSeqs [RWordB, RAlt (RLit ''POS'') (RLit ''NEG''), RLit ''-'', RPlus (RCls chr_is_id), RWordB])) REps"

definition SDK_INV_ID_RE :: matcher where
  "SDK_INV_ID_RE = capture item_start
     (ends (RAlt (RSeqs [RLit ''SDK-INV-'', digits 4]) (RSeqs [RLit ''SDK-AI-'', digits 3]))) (RLit '':'')"

definition chr_is_ascii_lower :: "char \<Rightarrow> bool" where
  "chr_is_ascii_lower c = (97 \<le> (of_char c :: nat) \<and> (of_char c :: nat) \<le> 122)"

definition SDK_NEG_ID_RE :: matcher where
  "SDK_NEG_ID_RE = capture item_start
     (ends (RAlt (RSeqs [RLit ''SDK-NEG-'', digits 4, ROpt (RCls chr_is_ascii_lower)])
                 (RSeqs [RLit ''SDK-NEG-AI-'', digits 4]))) (RLit '':'')"

text \<open>The two identifiers of a range are read as one group; neither contains a blank, so the word between separates them.\<close>

definition range_id :: "char regex" where
  "range_id = RSeqs [RLit ''SDK-'', RAlt (RLit ''INV'') (RLit ''AI''), RLit ''-'', digits 3, ROpt (RCls chr_is_ascii_digit)]"

definition SDK_RANGE_RE :: matcher where
  "SDK_RANGE_RE = capture REps (ends (RSeqs [range_id, RLit '' through '', range_id])) REps"

definition sdk_ranges :: "string \<Rightarrow> (string \<times> string) list" where
  "sdk_ranges doc = List.map_filter (str_partition '' through '') (finds SDK_RANGE_RE [] doc)"

text \<open>\<open>s.rsplit("-", 1)\<close>.\<close>

definition id_suffix :: "string \<Rightarrow> string" where
  "id_suffix s = rev (takeWhile (\<lambda>c. c \<noteq> CHR ''-'') (rev s))"

definition id_prefix :: "string \<Rightarrow> string" where
  "id_prefix s = take (length s - length (id_suffix s) - 1) s"

definition id_number :: "string \<Rightarrow> nat" where
  "id_number s = digits_nat (id_suffix s)"

definition require_unique :: "string list \<Rightarrow> string \<Rightarrow> unit res" where
  "require_unique ids label =
     checks [(length ids = length (remdups ids),
       ''Duplicate '' @ label @ '': '' @ strs_repr (py_sorted (filter (\<lambda>i. 1 < count_list ids i) (remdups ids))))]"

subsection \<open>Blocks\<close>

text \<open>\<open>re.finditer\<close>: the group of every match, and where the match starts and ends.\<close>

function find_matches :: "matcher \<Rightarrow> string \<Rightarrow> string \<Rightarrow> (string \<times> char pos \<times> char pos) list" where
  "find_matches m p s =
     (case m (p, s) of
        (g, e) # _ \<Rightarrow>
          (g, (p, s), e) # (if length (snd e) < length s then find_matches m (fst e) (snd e)
               else case s of [] \<Rightarrow> [] | x # xs \<Rightarrow> find_matches m (x # p) xs)
      | [] \<Rightarrow> (case s of [] \<Rightarrow> [] | x # xs \<Rightarrow> find_matches m (x # p) xs))"
  by pat_completeness auto
termination by (relation "measure (\<lambda>(m, p, s). length s)") auto

declare find_matches.simps [simp del]

text \<open>A match with the text up to the next match, or up to the end.\<close>

fun blocks :: "(string \<times> char pos \<times> char pos) list \<Rightarrow> (string \<times> string) list" where
  "blocks [] = []"
| "blocks [(g, _, e)] = [(g, snd e)]"
| "blocks ((g, _, e) # (g', b', e') # ms) = (g, PyFind.span e b') # blocks ((g', b', e') # ms)"

definition missing_fields :: "string \<times> string \<Rightarrow> string list" where
  "missing_fields b =
     (if contains (snd b) ''Tests:'' then [] else [fst b @ '' missing Tests'']) @
     (if contains (snd b) ''Modules:'' then [] else [fst b @ '' missing Modules''])"

definition assert_sdk_blocks_have_fields :: "string \<Rightarrow> unit res" where
  "assert_sdk_blocks_have_fields doc =
     (let missing = concat (map missing_fields (blocks (find_matches SDK_INV_ID_RE [] doc))) in
      checks [(missing = [], ''SDK invariant block check failed: '' @ str_join '', '' missing)])"

subsection \<open>The checks\<close>

definition llm_doc :: "string \<Rightarrow> string \<Rightarrow> string" where
  "llm_doc root_dir name = path_join root_dir (''docs/llm/'' @ name)"

definition llm_vectors :: "string \<Rightarrow> string" where
  "llm_vectors root_dir = path_join root_dir ''conformance/vectors''"

definition missing_edge :: "env \<Rightarrow> string \<Rightarrow> string \<Rightarrow> string list" where
  "missing_edge w root_dir edge =
     filter (\<lambda>v. \<not> vector_exists w (llm_vectors root_dir) v) (py_sorted (remdups (finds VEC_ID_RE [] edge)))"

definition line_vectors :: "string \<Rightarrow> string list" where
  "line_vectors line =
     (if \<not> contains line ''Vectors:'' \<or> contains (str_lower line) ''policy invariant'' then [] else finds VEC_ID_RE [] line)"

definition missing_inv :: "env \<Rightarrow> string \<Rightarrow> string \<Rightarrow> string list" where
  "missing_inv w root_dir invs =
     py_sorted (remdups (filter (\<lambda>v. \<not> vector_exists w (llm_vectors root_dir) v) (concat (map line_vectors (str_splitlines invs)))))"

definition note_max :: "(string \<times> nat) list \<Rightarrow> string \<Rightarrow> (string \<times> nat) list" where
  "note_max m i =
     AList.update (id_prefix i) (case map_of m (id_prefix i) of None \<Rightarrow> id_number i | Some n \<Rightarrow> max n (id_number i)) m"

definition zero_pad :: "nat \<Rightarrow> string \<Rightarrow> string" where
  "zero_pad n s = replicate (n - length s) (CHR ''0'') @ s"

definition check_range :: "(string \<times> nat) list \<Rightarrow> string \<times> string \<Rightarrow> unit res" where
  "check_range max_by_prefix r =
     (let (first, final) = r; pre = id_prefix final in
      case map_of max_by_prefix pre of
        None \<Rightarrow> stop (''SDK range references unknown prefix: '' @ first @ '' through '' @ final)
      | Some expected \<Rightarrow>
          checks [(id_number final = expected,
            ''SDK range mismatch in SDK_CONFORMANCE.md: '' @ final @ '' but max '' @ pre @ ''-'' @
            zero_pad (length (id_suffix final)) (nat_str expected))])"

definition llm_docs_main :: "env \<Rightarrow> string \<Rightarrow> (nat \<times> string) res" where
  "llm_docs_main w root_dir =
     bindE (read_text w (llm_doc root_dir ''INVARIANTS.md'')) (\<lambda>invs.
     bindE (read_text w (llm_doc root_dir ''EDGE_CASES.md'')) (\<lambda>edge.
     bindE (read_text w (llm_doc root_dir ''SDK_INVARIANTS.md'')) (\<lambda>sdk_inv.
     bindE (read_text w (llm_doc root_dir ''SDK_EDGE_CASES.md'')) (\<lambda>sdk_edge.
     bindE (read_text w (llm_doc root_dir ''SDK_CONFORMANCE.md'')) (\<lambda>sdk_conf.
     let sdk_ids = finds SDK_INV_ID_RE [] sdk_inv in
     thenE (require_unique (finds INV_ID_RE [] invs) ''invariant IDs'')
    (thenE (checks [(missing_edge w root_dir edge = [],
          ''Missing vector files for IDs referenced in EDGE_CASES.md: '' @ strs_repr (missing_edge w root_dir edge)),
        (missing_inv w root_dir invs = [],
          ''Missing vector files for IDs referenced in INVARIANTS.md: '' @ strs_repr (missing_inv w root_dir invs))])
    (thenE (require_unique sdk_ids ''SDK invariant IDs'')
    (thenE (require_unique (finds SDK_NEG_ID_RE [] sdk_edge) ''SDK negative-case IDs'')
    (thenE (assert_sdk_blocks_have_fields sdk_inv)
    (thenE (forE (check_range (foldl note_max [] sdk_ids)) (sdk_ranges sdk_conf))
       (Inr (0, ''LLM docs integrity: OK''))))))))))))"

subsection \<open>What a passing check means\<close>

lemma require_unique_Inr: "require_unique ids label = Inr () \<longleftrightarrow> distinct ids"
  by (simp add: require_unique_def) (metis distinct_remdups length_remdups_eq remdups_id_iff_distinct)

lemma map_of_note_max:
  "map_of (note_max m i) pre =
     (if pre = id_prefix i then Some (case map_of m pre of None \<Rightarrow> id_number i | Some n \<Rightarrow> max n (id_number i)) else map_of m pre)"
  by (simp add: note_max_def update_conv')

text \<open>The table holds, for every prefix that occurs, the greatest number with it.\<close>

lemma note_max_all:
  "map_of (foldl note_max [] ids) pre = Some n \<longleftrightarrow>
     (\<exists>i\<in>set ids. id_prefix i = pre \<and> id_number i = n) \<and> (\<forall>i\<in>set ids. id_prefix i = pre \<longrightarrow> id_number i \<le> n)"
proof (induction ids arbitrary: n rule: rev_induct)
  case (snoc x ids)
  let ?m = "foldl note_max [] ids"
  show ?case
  proof (cases "id_prefix x = pre")
    case True
    show ?thesis
    proof (cases "map_of ?m pre")
      case None
      have none: "\<nexists>i. i \<in> set ids \<and> id_prefix i = pre"
      proof
        assume "\<exists>i. i \<in> set ids \<and> id_prefix i = pre"
        then have ne: "{i \<in> set ids. id_prefix i = pre} \<noteq> {}" by auto
        define k where "k = Max (id_number ` {i \<in> set ids. id_prefix i = pre})"
        have "k \<in> id_number ` {i \<in> set ids. id_prefix i = pre}" unfolding k_def using ne by (intro Max_in) auto
        moreover have "\<forall>i\<in>set ids. id_prefix i = pre \<longrightarrow> id_number i \<le> k" unfolding k_def by (auto intro!: Max_ge)
        ultimately show False using snoc.IH [of k] None by auto
      qed
      with True None show ?thesis by (auto simp: map_of_note_max)
    next
      case (Some k)
      from snoc.IH [of k] Some have k: "\<exists>i\<in>set ids. id_prefix i = pre \<and> id_number i = k"
        "\<forall>i\<in>set ids. id_prefix i = pre \<longrightarrow> id_number i \<le> k" by auto
      have "map_of (foldl note_max [] (ids @ [x])) pre = Some (max k (id_number x))"
        using True Some by (simp add: map_of_note_max)
      with k True show ?thesis by (auto simp: max_def) (metis le_antisym)+
    qed
  qed (use snoc.IH in \<open>auto simp: map_of_note_max\<close>)
qed simp

text \<open>The range ends at the last identifier of its kind.\<close>

definition last_of_kind :: "string list \<Rightarrow> string \<Rightarrow> bool" where
  "last_of_kind ids final \<longleftrightarrow>
     (\<exists>i\<in>set ids. id_prefix i = id_prefix final \<and> id_number i = id_number final) \<and>
     (\<forall>i\<in>set ids. id_prefix i = id_prefix final \<longrightarrow> id_number i \<le> id_number final)"

lemma check_range_Inr: "check_range (foldl note_max [] ids) r = Inr () \<longleftrightarrow> last_of_kind ids (snd r)"
proof -
  have "check_range m r = Inr () \<longleftrightarrow> map_of m (id_prefix (snd r)) = Some (id_number (snd r))" for m
    by (cases r) (auto simp: check_range_def Let_def split: option.splits)
  then show ?thesis by (simp add: note_max_all last_of_kind_def)
qed

lemma missing_fields_Nil: "missing_fields b = [] \<longleftrightarrow> contains (snd b) ''Tests:'' \<and> contains (snd b) ''Modules:''"
  by (simp add: missing_fields_def)

text \<open>The documents pass exactly when they are there and agree with the vectors and with each other: identifiers
are unique; every vector that the edge cases name, or that a line of vectors in the invariants names unless it is
marked as policy, has a file; the text of every SDK invariant, up to the next one, gives tests and modules; and
every range in the conformance document ends at the greatest number among the SDK invariants of its kind.\<close>

theorem llm_docs_ok_iff:
  "(\<exists>out. llm_docs_main w root_dir = Inr out) \<longleftrightarrow>
     (\<exists>invs edge sdk_inv sdk_edge sdk_conf.
        file_text w (llm_doc root_dir ''INVARIANTS.md'') = Some invs \<and> file_text w (llm_doc root_dir ''EDGE_CASES.md'') = Some edge \<and>
        file_text w (llm_doc root_dir ''SDK_INVARIANTS.md'') = Some sdk_inv \<and>
        file_text w (llm_doc root_dir ''SDK_EDGE_CASES.md'') = Some sdk_edge \<and>
        file_text w (llm_doc root_dir ''SDK_CONFORMANCE.md'') = Some sdk_conf \<and>
        distinct (finds INV_ID_RE [] invs) \<and> distinct (finds SDK_INV_ID_RE [] sdk_inv) \<and> distinct (finds SDK_NEG_ID_RE [] sdk_edge) \<and>
        (\<forall>v\<in>set (finds VEC_ID_RE [] edge). vector_exists w (llm_vectors root_dir) v) \<and>
        (\<forall>line\<in>set (str_splitlines invs). contains line ''Vectors:'' \<and> \<not> contains (str_lower line) ''policy invariant'' \<longrightarrow>
           (\<forall>v\<in>set (finds VEC_ID_RE [] line). vector_exists w (llm_vectors root_dir) v)) \<and>
        (\<forall>b\<in>set (blocks (find_matches SDK_INV_ID_RE [] sdk_inv)). contains (snd b) ''Tests:'' \<and> contains (snd b) ''Modules:'') \<and>
        (\<forall>r\<in>set (sdk_ranges sdk_conf). last_of_kind (finds SDK_INV_ID_RE [] sdk_inv) (snd r)))"
proof -
  have edge: "missing_edge w root_dir edge = [] \<longleftrightarrow> (\<forall>v\<in>set (finds VEC_ID_RE [] edge). vector_exists w (llm_vectors root_dir) v)" for edge
    by (auto simp: missing_edge_def filter_empty_conv)
  have invs: "missing_inv w root_dir invs = [] \<longleftrightarrow>
      (\<forall>line\<in>set (str_splitlines invs). contains line ''Vectors:'' \<and> \<not> contains (str_lower line) ''policy invariant'' \<longrightarrow>
           (\<forall>v\<in>set (finds VEC_ID_RE [] line). vector_exists w (llm_vectors root_dir) v))" for invs
    by (auto simp: missing_inv_def filter_empty_conv line_vectors_def)
  have blocks: "assert_sdk_blocks_have_fields doc = Inr () \<longleftrightarrow>
      (\<forall>b\<in>set (blocks (find_matches SDK_INV_ID_RE [] doc)). contains (snd b) ''Tests:'' \<and> contains (snd b) ''Modules:'')" for doc
    by (simp add: assert_sdk_blocks_have_fields_def Let_def missing_fields_Nil)
  have nil: "list_all fst ([] :: (bool \<times> string) list) \<longleftrightarrow> True" by simp
  show ?thesis
    unfolding llm_docs_main_def Let_def bindE_Inr thenE_Inr checks_Inr forE_Inr read_text_Inr require_unique_Inr
      check_range_Inr blocks list.pred_inject(2) nil fst_conv edge invs
    by blast
qed

text \<open>One invariant of each kind, and a range that ends at it.\<close>

definition ex_llm_texts :: "(string \<times> string) list" where
  "ex_llm_texts = [(''INVARIANTS.md'', ''- INV-A: POS-1''), (''EDGE_CASES.md'', ''POS-1''),
     (''SDK_INVARIANTS.md'', ''- SDK-AI-002: Tests: Modules:''), (''SDK_EDGE_CASES.md'', ''- SDK-NEG-0001a:''),
     (''SDK_CONFORMANCE.md'', ''SDK-AI-001 through SDK-AI-002'')]"

definition ex_llm :: env where
  "ex_llm = \<lparr>file_text = map_of (map (\<lambda>(n, t). (llm_doc ''/g'' n, t)) ex_llm_texts), json_loads = (\<lambda>_. None),
     is_dir = (\<lambda>_. False), dir_glob = (\<lambda>p q. if q = ''**/POS-1.json'' then [q] else [])\<rparr>"

theorem llm_docs_ok_iff_witness:
  "\<exists>doc. file_text ex_llm (llm_doc ''/g'' ''EDGE_CASES.md'') = Some doc \<and>
     (\<forall>v\<in>set (finds VEC_ID_RE [] doc). vector_exists ex_llm (llm_vectors ''/g'') v)"
proof -
  have "(case llm_docs_main ex_llm ''/g'' of Inr _ \<Rightarrow> True | _ \<Rightarrow> False)" by code_simp
  then have "\<exists>out. llm_docs_main ex_llm ''/g'' = Inr out" by (auto split: sum.splits)
  from llm_docs_ok_iff [THEN iffD1, OF this] show ?thesis by blast
qed

end
