(* ===== verification/GitProvenance.thy ===== *)
theory GitProvenance
  imports AuditInvariants
begin

text \<open>
  \<open>tools/ci/build_git_provenance.py\<close>: a snapshot of what git says of the working tree and of what the
  hosting service says of the branch and its recent runs. What the commands answer is a parameter.
\<close>

text \<open>\<open>subprocess.check_output(cmd, text=True)\<close>, the JSON parser and \<open>os.environ.get("GITHUB_REPOSITORY", "")\<close>.\<close>

record provenance_host =
  pv_output :: "string list \<Rightarrow> string res"
  pv_loads :: "string \<Rightarrow> json option"
  pv_repository :: string

definition pv_run :: "provenance_host \<Rightarrow> string list \<Rightarrow> string res" where
  "pv_run h cmd = bindE (pv_output h cmd) (\<lambda>out. Inr (str_strip out))"

text \<open>A query that fails, answers nothing or answers no JSON counts as no answer.\<close>

definition maybe_json :: "provenance_host \<Rightarrow> string list \<Rightarrow> json option" where
  "maybe_json h cmd =
     (case pv_output h cmd of
        Inl _ \<Rightarrow> None
      | Inr out \<Rightarrow> (let raw = str_strip out in if raw = [] then None else pv_loads h raw))"

definition slug_placeholder :: string where
  "slug_placeholder = ''<owner>/<repo>''"

definition remote_rest :: "string \<Rightarrow> string" where
  "remote_rest remote =
     (if starts_with remote ''git@github.com:'' then drop (length ''git@github.com:'') remote
      else case str_partition ''github.com/'' remote of Some (_, b) \<Rightarrow> b | None \<Rightarrow> [])"

definition remote_slug :: "string \<Rightarrow> string" where
  "remote_slug remote =
     (let raw = remote_rest remote;
          slug = str_strip_chars ''/'' (if ends_with raw ''.git'' then take (length raw - 4) raw else raw)
      in if \<not> contains slug ''/'' then slug_placeholder else slug)"

definition pv_repo_slug :: "provenance_host \<Rightarrow> string" where
  "pv_repo_slug h =
     (let env_repo = str_strip (pv_repository h) in
      if env_repo \<noteq> [] \<and> contains env_repo ''/'' then env_repo
      else case pv_output h [''git'', ''config'', ''--get'', ''remote.origin.url''] of
             Inl _ \<Rightarrow> slug_placeholder
           | Inr out \<Rightarrow> remote_slug (str_strip out))"

record provenance_args =
  pv_repo :: "string option"
  pv_out :: string

definition run_fields :: string where
  "run_fields = ''databaseId,headSha,status,conclusion,createdAt,updatedAt,displayTitle''"

definition runs_query :: "string \<Rightarrow> string list \<Rightarrow> string \<Rightarrow> string list" where
  "runs_query workflow branch names =
     [''gh'', ''run'', ''list'', ''--workflow'', workflow] @ branch @ [''--limit'', ''5'', ''--json'', names]"

definition json_or_null :: "json option \<Rightarrow> json" where
  "json_or_null v = (case v of Some x \<Rightarrow> x | None \<Rightarrow> JNull)"

definition provenance_data :: "provenance_host \<Rightarrow> string \<Rightarrow> json res" where
  "provenance_data h repo =
     bindE (pv_run h [''git'', ''rev-parse'', ''HEAD'']) (\<lambda>head.
     bindE (pv_run h [''git'', ''rev-parse'', ''HEAD^{tree}'']) (\<lambda>head_tree.
     bindE (pv_run h [''git'', ''rev-parse'', ''origin/main'']) (\<lambda>origin_main.
     bindE (pv_run h [''git'', ''rev-parse'', ''origin/main^{tree}'']) (\<lambda>origin_main_tree.
     bindE (pv_run h [''git'', ''rev-parse'', ''--abbrev-ref'', ''HEAD'']) (\<lambda>branch.
     bindE (pv_run h [''git'', ''rev-list'', ''--left-right'', ''--count'', ''origin/main...HEAD'']) (\<lambda>ahead_behind.
     bindE (pv_run h [''git'', ''status'', ''--porcelain=v1'']) (\<lambda>status_porcelain.
     Inr (JObj
       [(''branch'', JStr branch), (''head'', JStr head), (''head_tree'', JStr head_tree), (''origin_main'', JStr origin_main),
        (''origin_main_tree'', JStr origin_main_tree), (''ahead_behind'', JStr ahead_behind),
        (''worktree_clean'', JBool (status_porcelain = [])),
        (''protection'', json_or_null (maybe_json h [''gh'', ''api'', ''repos/'' @ repo @ ''/rules/branches/main''])),
        (''recent_ci_runs'', json_or_null (maybe_json h (runs_query ''ci.yml'' [''--branch'', ''main''] run_fields))),
        (''recent_release_evidence_runs'',
           json_or_null (maybe_json h (runs_query ''release-evidence.yml'' [] (run_fields @ '',event'')))),
        (''recent_interop_certify_runs'',
           json_or_null (maybe_json h (runs_query ''interop-certify.yml'' [] (run_fields @ '',event''))))]))))))))"

text \<open>The exit code, the file written and the line printed.\<close>

definition provenance_main :: "provenance_host \<Rightarrow> provenance_args \<Rightarrow> (nat \<times> (string \<times> string) \<times> string) res" where
  "provenance_main h args =
     bindE (provenance_data h (case pv_repo args of Some r \<Rightarrow> r | None \<Rightarrow> pv_repo_slug h)) (\<lambda>data.
     Inr (0, (path_str (pv_out args), dumps_ascii data @ [newline]), ''git provenance snapshot: OK''))"

subsection \<open>The repository of a remote\<close>

lemma strip_slashes:
  assumes "owner \<noteq> []" "repo \<noteq> []" "CHR ''/'' \<notin> set owner" "CHR ''/'' \<notin> set repo"
  shows "str_strip_chars ''/'' (owner @ ''/'' @ repo) = owner @ ''/'' @ repo"
proof -
  obtain x xs where o: "owner = x # xs" "x \<noteq> CHR ''/''" using assms(1,3) by (cases owner) auto
  obtain y ys where r: "rev repo = y # ys" "y \<noteq> CHR ''/''" using assms(2,4) by (cases "rev repo") (simp, metis list.set_intros(1) set_rev)
  then have "rev (owner @ ''/'' @ repo) = y # ys @ ''/'' @ rev owner" by simp
  then show ?thesis using o r by (simp add: str_strip_chars_def)
qed

text \<open>Whatever the usual form of the remote, the slug is the owner and the name of the repository.\<close>

lemma remote_slug_forms:
  assumes "owner \<noteq> []" "repo \<noteq> []" "CHR ''/'' \<notin> set owner" "CHR ''/'' \<notin> set repo" "\<not> ends_with repo ''.git''"
    and "host \<in> {''git@github.com:'', ''https://github.com/'', ''ssh://git@github.com/''}" and "ext \<in> {[], ''.git''}"
  shows "remote_slug (host @ owner @ ''/'' @ repo @ ext) = owner @ ''/'' @ repo"
proof -
  let ?slug = "owner @ ''/'' @ repo"
  have rest: "remote_rest (host @ owner @ ''/'' @ repo @ ext) = ?slug @ ext"
    using assms(6) by (auto simp: remote_rest_def starts_with_def)
  have "\<not> suffix ''.git'' ?slug"
  proof
    assume "suffix ''.git'' ?slug"
    then have "suffix ''.git'' repo \<or> (\<exists>z. z \<noteq> [] \<and> suffix z (owner @ ''/'') \<and> ''.git'' = z @ repo)"
      using suffix_append [of "''.git''" "owner @ ''/''" repo] by auto
    then show False
    proof
      assume "\<exists>z. z \<noteq> [] \<and> suffix z (owner @ ''/'') \<and> ''.git'' = z @ repo"
      then obtain z where z: "z \<noteq> []" "suffix z (owner @ ''/'')" "''.git'' = z @ repo" by blast
      from z(1,2) have "last z = CHR ''/''" by (auto simp: suffix_def) (metis last_appendR last_snoc)
      moreover from z(1) have "last z \<in> set z" by simp
      ultimately have "CHR ''/'' \<in> set (z @ repo)" by simp
      then show False unfolding z(3) [symmetric] by simp
    qed (use assms(5) in \<open>simp add: ends_with_def\<close>)
  qed
  moreover have "suffix ''.git'' (owner @ CHR ''/'' # repo @ ''.git'')"
    unfolding suffix_def by (rule exI [of _ "owner @ CHR ''/'' # repo"]) simp
  ultimately have cut: "(if ends_with (?slug @ ext) ''.git'' then take (length (?slug @ ext) - 4) (?slug @ ext) else ?slug @ ext) = ?slug"
    using assms(7) by (auto simp: ends_with_def)
  have "contains ?slug ''/''" by (auto simp: contains_def sublist_def)
  then show ?thesis
    unfolding remote_slug_def rest Let_def cut strip_slashes [OF assms(1-4)] by simp
qed

lemma detected_slug_has_slash: "contains (pv_repo_slug h) ''/''"
proof -
  have "contains slug_placeholder ''/''" by code_simp
  then show ?thesis by (auto simp: pv_repo_slug_def remote_slug_def Let_def split: sum.splits)
qed

text \<open>The snapshot calls the tree clean exactly when git lists no change, whatever the service answers.\<close>

lemma provenance_clean:
  assumes "provenance_data h repo = Inr (JObj d)"
  shows "dict_get d ''worktree_clean'' = JBool True \<longleftrightarrow>
    (\<exists>out. pv_output h [''git'', ''status'', ''--porcelain=v1''] = Inr out \<and> str_strip out = [])"
  using assms by (auto simp: provenance_data_def pv_run_def bindE_Inr dict_get_def)

end
