(* ===== verification/SourceGuards.thy ===== *)
theory SourceGuards
  imports Checks PyHost
begin

text \<open>
  The guards over source trees under \<open>tools/ci\<close>: \<open>check_sdk_no_network.py\<close>, \<open>check_sdk_secret_logging.py\<close>,
  \<open>check_sdk_trust_provider_boundary.py\<close>, \<open>check_capid_csprng.py\<close> and \<open>check_runner_shim_boundary.py\<close>. The first
  three differ in their roots, the files they read and what they look for in a text; the locale
  \<open>source_guard\<close> states what they share.
\<close>

subsection \<open>The loop over the files\<close>

text \<open>What is read, which files are excepted, and the violations of a text.\<close>

record source_check =
  sc_roots :: "string list"
  sc_scan :: "env \<Rightarrow> string \<Rightarrow> bool"
  sc_allow :: "string list"
  sc_find :: "string \<Rightarrow> string \<Rightarrow> string list"

definition guard_file :: "source_check \<Rightarrow> env \<Rightarrow> string \<Rightarrow> string \<Rightarrow> string list res" where
  "guard_file c w root_dir p =
     (if \<not> sc_scan c w p then Inr []
      else bindE (relative_to p root_dir) (\<lambda>rel.
        if rel \<in> set (sc_allow c) then Inr [] else bindE (read_text w p) (\<lambda>t. Inr (sc_find c rel t))))"

definition tree_files :: "env \<Rightarrow> string \<Rightarrow> string list" where
  "tree_files w dir = sort_key path_parts (dir_glob w dir ''**/*'')"

definition guard_tree :: "source_check \<Rightarrow> env \<Rightarrow> string \<Rightarrow> string \<Rightarrow> string list res" where
  "guard_tree c w root_dir dir =
     (if \<not> path_exists w dir then Inr []
      else bindE (mapE (guard_file c w root_dir) (tree_files w dir)) (\<lambda>vs. Inr (concat vs)))"

definition guard_violations :: "source_check \<Rightarrow> env \<Rightarrow> string \<Rightarrow> string list res" where
  "guard_violations c w root_dir =
     bindE (mapE (\<lambda>base. guard_tree c w root_dir (path_join root_dir base)) (sc_roots c)) (\<lambda>vs. Inr (concat vs))"

definition guard_main :: "source_check \<Rightarrow> string \<Rightarrow> string \<Rightarrow> env \<Rightarrow> string \<Rightarrow> (nat \<times> string) res" where
  "guard_main c failure success w root_dir =
     bindE (guard_violations c w root_dir) (\<lambda>vs.
     if vs \<noteq> [] then stop (failure @ [newline] @ ''- '' @ str_join ([newline] @ ''- '') vs) else Inr (0, success))"

text \<open>The tokens of a list that a text contains, each with the file.\<close>

definition found_tokens :: "string list \<Rightarrow> string \<Rightarrow> string \<Rightarrow> string list" where
  "found_tokens tokens rel t = map (\<lambda>token. rel @ '': '' @ token) (filter (contains t) tokens)"

text \<open>\<open>path.suffixes\<close>.\<close>

definition path_suffixes :: "string \<Rightarrow> string list" where
  "path_suffixes p =
     (let n = path_name p in
      if ends_with n ''.'' then []
      else map (\<lambda>s. CHR ''.'' # s) (tl (str_split ''.'' (dropWhile (\<lambda>c. c = CHR ''.'') n))))"

definition declaration_file :: "string \<Rightarrow> bool" where
  "declaration_file p = (let ss = path_suffixes p in drop (length ss - 2) ss = [''.d'', ''.ts''])"

subsection \<open>No network\<close>

definition NETWORK_ROOTS :: "string list" where
  "NETWORK_ROOTS = [''core/ts/grain-sdk/src'', ''core/ts/grain-sdk-ai/src'']"

definition FORBIDDEN_NETWORK :: "string list" where
  "FORBIDDEN_NETWORK = [''fetch('', ''axios'', ''undici'', ''node:http'', ''node:https'', ''http://'', ''https://'']"

definition should_scan_network :: "env \<Rightarrow> string \<Rightarrow> bool" where
  "should_scan_network w p = (is_file w p \<and> path_suffix p \<in> {''.ts'', ''.js''})"

definition network_check :: source_check where
  "network_check = \<lparr>sc_roots = NETWORK_ROOTS, sc_scan = should_scan_network, sc_allow = [], sc_find = found_tokens FORBIDDEN_NETWORK\<rparr>"

definition no_network_main :: "env \<Rightarrow> string \<Rightarrow> (nat \<times> string) res" where
  "no_network_main = guard_main network_check ''SDK no-network guard violations:'' ''SDK no-network guard: OK (core + ai sidecar)''"

subsection \<open>No logging of secrets, no hidden trust\<close>

definition SDK_SOURCE_ROOTS :: "string list" where
  "SDK_SOURCE_ROOTS = [''sdk/swift/Sources/GrainClient'', ''sdk/swift/Sources/GrainClientIOSAdapters'',
     ''sdk/swift/Sources/GrainSignedFood'', ''sdk/kotlin/src/main/kotlin/dev/grain'', ''sdk/wasm/src'',
     ''examples/ios-scanner/Sources/GrainIOSScanner'', ''examples/android-scanner/src/main/kotlin'', ''examples/wasm-scanner/src'']"

definition SOURCE_SUFFIXES :: "string list" where
  "SOURCE_SUFFIXES = [''.swift'', ''.kt'', ''.mjs'', ''.js'', ''.ts'']"

definition should_scan_source :: "env \<Rightarrow> string \<Rightarrow> bool" where
  "should_scan_source w p = (\<not> declaration_file p \<and> is_file w p \<and> path_suffix p \<in> set SOURCE_SUFFIXES)"

definition LOG_TOKENS :: "string list" where
  "LOG_TOKENS = [''print('', ''println('', ''debugPrint('', ''NSLog('', ''os_log('', ''console.log('', ''console.debug('',
     ''console.info('', ''console.warn('', ''console.error('', ''Log.'', ''Logger.'', ''Timber.'']"

definition SENSITIVE_TOKENS :: "string list" where
  "SENSITIVE_TOKENS = [''signingBytesB64'', ''signing_bytes_b64'', ''transferJson'', ''transfer_json'', ''signatureB64'',
     ''signature_b64'', ''bundleB64'', ''bundle_b64'', ''coseB64'', ''cose_b64'', ''envelopeB64'', ''envelope_b64'',
     ''identityBundle'', ''identity_bundle'', ''snapshotB64'', ''snapshot_b64'', ''syncBundle'', ''sync_bundle'',
     ''syncSecret'', ''sync_secret_b64'', ''trustPubB64'', ''trust_pub_b64'', ''trustMaterial'', ''trust_material'']"

definition logs_secret :: "string \<Rightarrow> bool" where
  "logs_secret line = (list_ex (contains line) LOG_TOKENS \<and> list_ex (contains line) SENSITIVE_TOKENS)"

definition secret_lines :: "string \<Rightarrow> string \<Rightarrow> string list" where
  "secret_lines rel t =
     map (\<lambda>(i, line). rel @ '':'' @ nat_str (i + 1) @ '': '' @ str_strip line)
       (filter (\<lambda>(i, line). logs_secret line) (enum (str_splitlines t)))"

definition logging_check :: source_check where
  "logging_check = \<lparr>sc_roots = SDK_SOURCE_ROOTS, sc_scan = should_scan_source, sc_allow = [], sc_find = secret_lines\<rparr>"

definition secret_logging_main :: "env \<Rightarrow> string \<Rightarrow> (nat \<times> string) res" where
  "secret_logging_main = guard_main logging_check ''SDK secret logging guard violations:'' ''SDK secret logging guard: OK''"

definition FORBIDDEN_TRUST :: "string list" where
  "FORBIDDEN_TRUST = [''URLSession'', ''OkHttp'', ''HttpURLConnection'', ''HttpsURLConnection'', ''java.net'', ''Retrofit'', ''Ktor'',
     ''HttpClient'', ''Socket'', ''SSLSocket'', ''X509TrustManager'', ''TrustManagerFactory'', ''AndroidCAStore'', ''fetch('',
     ''XMLHttpRequest'', ''WebSocket'', ''node:http'', ''node:https'', ''axios'', ''undici'', ''SecTrust'', ''trustAll'',
     ''defaultTrust'', ''fallbackTrust'', ''autoDiscover'', ''wellKnown'', ''TOFU'', ''allowAnyIssuer'', ''allowAllIssuers'']"

definition TRUST_ALLOWLIST :: "string list" where
  "TRUST_ALLOWLIST = [''examples/wasm-scanner/src/browser.mjs'']"

definition TRUST_ROOTS :: "string list" where
  "TRUST_ROOTS = SDK_SOURCE_ROOTS"

definition should_scan_trust :: "env \<Rightarrow> string \<Rightarrow> bool" where
  "should_scan_trust w p = (\<not> declaration_file p \<and> is_file w p \<and> path_suffix p \<in> set SOURCE_SUFFIXES)"

definition trust_check :: source_check where
  "trust_check = \<lparr>sc_roots = TRUST_ROOTS, sc_scan = should_scan_trust, sc_allow = TRUST_ALLOWLIST,
     sc_find = found_tokens FORBIDDEN_TRUST\<rparr>"

definition trust_provider_main :: "env \<Rightarrow> string \<Rightarrow> (nat \<times> string) res" where
  "trust_provider_main =
     guard_main trust_check ''SDK trust-provider boundary violations:'' ''SDK trust-provider boundary guard: OK''"

subsection \<open>Random capability identifiers\<close>

definition CAPID_SCAN_PATHS :: "string list" where
  "CAPID_SCAN_PATHS = [''core/ts/grain-sdk/src'', ''runner/typescript/src'', ''core/rust/grain-core/src'']"

definition FORBIDDEN_CAPID :: "string list" where
  "FORBIDDEN_CAPID = [''Math.random('', ''cap_id_from_cid'', ''deterministic_cap_id'', ''cap_id = sha256('', ''cap_id=sha256('']"

definition CSPRNG_RULE :: string where
  "CSPRNG_RULE = ''cap_id MUST be generated using a cryptographically secure random number generator (CSPRNG).''"

text \<open>The required texts: the file, what it must contain and why.\<close>

definition CAPID_ANCHORS :: "(string \<times> string \<times> string) list" where
  "CAPID_ANCHORS =
     [(''core/ts/grain-sdk/src/e2e.ts'', ''opts.cap_id ? new Uint8Array(opts.cap_id) : randomBytes32()'', ''cap_id default generation''),
      (''core/ts/grain-sdk/src/utils.ts'', ''randomBytes(32)'', ''CSPRNG call site''),
      (''core/ts/grain-sdk/src/utils.ts'', ''SDK_ERR_CSPRNG_UNAVAILABLE'', ''fail-closed CSPRNG error''),
      (''spec/NES-v0.1.md'', CSPRNG_RULE, ''NES CSPRNG rule''),
      (''spec/profiles/e2e-profile.md'', CSPRNG_RULE, ''E2E profile CSPRNG rule'')]"

definition ensure_contains :: "env \<Rightarrow> string \<Rightarrow> string \<times> string \<times> string \<Rightarrow> unit res" where
  "ensure_contains w root_dir a =
     (let (rel, needle, reason) = a; p = path_join root_dir rel in
      bindE (read_text w p) (\<lambda>t.
      checks [(contains t needle, p @ '': missing required pattern for '' @ reason @ '': '' @ needle)]))"

definition capid_file :: "env \<Rightarrow> string \<Rightarrow> string list res" where
  "capid_file w p =
     (if \<not> is_file w p \<or> path_suffix p \<notin> {''.ts'', ''.rs''} then Inr []
      else bindE (read_text w p) (\<lambda>t. Inr (map (\<lambda>x. p @ '':'' @ x) (filter (contains t) FORBIDDEN_CAPID))))"

definition capid_main :: "env \<Rightarrow> string \<Rightarrow> (nat \<times> string) res" where
  "capid_main w root_dir =
     thenE (forE (ensure_contains w root_dir) CAPID_ANCHORS)
    (bindE (mapE (capid_file w) (concat (map (\<lambda>base. tree_files w (path_join root_dir base)) CAPID_SCAN_PATHS))) (\<lambda>vs.
     thenE (checks [(concat vs = [], ''Forbidden deterministic cap_id patterns detected: '' @ strs_repr (concat vs))])
       (Inr (0, ''cap_id CSPRNG audit: OK''))))"

subsection \<open>The runner is a shim\<close>

definition LOCAL_IMPLEMENTATIONS :: "string list" where
  "LOCAL_IMPLEMENTATIONS = [''cli.ts'']"

text \<open>\<open>rel_path.with_suffix("")\<close>.\<close>

definition without_suffix :: "string \<Rightarrow> string" where
  "without_suffix p = take (length p - length (path_suffix p)) p"

definition expected_export :: "string \<Rightarrow> string" where
  "expected_export rel_path =
     ''export * from '' @ [dquote] @ ''grain-ts-core/'' @ without_suffix rel_path @ [dquote] @ '';'' @ [newline]"

definition shim_file :: "env \<Rightarrow> string \<Rightarrow> string \<Rightarrow> string list res" where
  "shim_file w runner_src p =
     bindE (relative_to p runner_src) (\<lambda>rel_path.
     if rel_path \<in> set LOCAL_IMPLEMENTATIONS then Inr []
     else bindE (read_text w p) (\<lambda>actual.
       Inr (if actual \<noteq> expected_export rel_path
            then [rel_path @ '': expected exact shim `'' @ str_strip (expected_export rel_path) @ ''`''] else [])))"

definition shim_main :: "env \<Rightarrow> string \<Rightarrow> (nat \<times> string) res" where
  "shim_main w root_dir =
     (let runner_src = path_join root_dir ''runner/typescript/src'' in
      bindE (mapE (shim_file w runner_src) (sort_key path_parts (dir_glob w runner_src ''**/*.ts''))) (\<lambda>vs.
      thenE (checks [(concat vs = [], str_join [newline]
          [''Runner shim boundary check failed.'', ''Shared protocol logic belongs in core/ts/grain-ts-core.'',
           ''Update the allowlist in tools/ci/check_runner_shim_boundary.py only when a runner-local file is intentional.'',
           str_join [newline] (concat vs)])])
        (Inr (0, ''runner shim boundary: OK''))))"

subsection \<open>What a passing guard means\<close>

text \<open>Every file that is read and not excepted has an acceptable text.\<close>

definition guarded :: "source_check \<Rightarrow> (string \<Rightarrow> bool) \<Rightarrow> env \<Rightarrow> string \<Rightarrow> bool" where
  "guarded c ok w root_dir \<longleftrightarrow>
     (\<forall>base\<in>set (sc_roots c). path_exists w (path_join root_dir base) \<longrightarrow>
        (\<forall>p\<in>set (tree_files w (path_join root_dir base)). sc_scan c w p \<longrightarrow>
           (\<exists>rel. relative_to p root_dir = Inr rel \<and>
              (rel \<in> set (sc_allow c) \<or> (\<exists>t. file_text w p = Some t \<and> ok t)))))"

locale source_guard =
  fixes c :: source_check and ok :: "string \<Rightarrow> bool"
  assumes finds_nothing: "sc_find c rel t = [] \<longleftrightarrow> ok t"
begin

lemma guard_file_Nil:
  "guard_file c w root_dir p = Inr [] \<longleftrightarrow> (sc_scan c w p \<longrightarrow>
     (\<exists>rel. relative_to p root_dir = Inr rel \<and> (rel \<in> set (sc_allow c) \<or> (\<exists>t. file_text w p = Some t \<and> ok t))))"
  by (auto simp: guard_file_def bindE_Inr read_text_Inr finds_nothing)

lemma guard_tree_Nil:
  "guard_tree c w root_dir dir = Inr [] \<longleftrightarrow> (path_exists w dir \<longrightarrow>
     (\<forall>p\<in>set (tree_files w dir). guard_file c w root_dir p = Inr []))"
  unfolding mapE_concat_Nil [symmetric] by (auto simp: guard_tree_def bindE_Inr simp del: concat_eq_Nil_conv)

lemma accepts: "(\<exists>out. guard_main c failure success w root_dir = Inr out) \<longleftrightarrow> guarded c ok w root_dir"
proof -
  let ?f = "\<lambda>base. guard_tree c w root_dir (path_join root_dir base)"
  have "(\<exists>out. guard_main c failure success w root_dir = Inr out) \<longleftrightarrow>
      (\<exists>vs. mapE ?f (sc_roots c) = Inr vs \<and> concat vs = [])"
    by (auto simp: guard_main_def guard_violations_def bindE_Inr simp del: concat_eq_Nil_conv)
  then show ?thesis unfolding mapE_concat_Nil guard_tree_Nil guard_file_Nil guarded_def .
qed

end

definition free_of :: "string list \<Rightarrow> string \<Rightarrow> bool" where
  "free_of tokens t = (\<not> list_ex (contains t) tokens)"

lemma found_tokens_Nil: "found_tokens tokens rel t = [] \<longleftrightarrow> free_of tokens t"
  by (auto simp: found_tokens_def free_of_def filter_empty_conv list_ex_iff)

definition keeps_secrets :: "string \<Rightarrow> bool" where
  "keeps_secrets t = (\<not> list_ex logs_secret (str_splitlines t))"

lemma secret_lines_Nil: "secret_lines rel t = [] \<longleftrightarrow> keeps_secrets t"
  using enum_ball [of "str_splitlines t" "\<lambda>l. \<not> logs_secret l"]
  by (auto simp: secret_lines_def keeps_secrets_def filter_empty_conv list_ex_iff)

interpretation network: source_guard network_check "free_of FORBIDDEN_NETWORK"
  by unfold_locales (simp add: network_check_def found_tokens_Nil)

interpretation trust: source_guard trust_check "free_of FORBIDDEN_TRUST"
  by unfold_locales (simp add: trust_check_def found_tokens_Nil)

interpretation logging: source_guard logging_check keeps_secrets
  by unfold_locales (simp add: logging_check_def secret_lines_Nil)

text \<open>What the three guards over the SDK sources promise, each exactly. The network guard passes when no source
of the SDK core and of the AI sidecar contains a network token; the trust guard when no platform source, the one
excepted file apart, contains a token of a hidden trust lookup; the logging guard when no line of a platform
source contains both a logging call and the name of secret material.\<close>

theorem sdk_sources_guarded:
  "((\<exists>out. no_network_main w root_dir = Inr out) \<longleftrightarrow> guarded network_check (free_of FORBIDDEN_NETWORK) w root_dir) \<and>
   ((\<exists>out. trust_provider_main w root_dir = Inr out) \<longleftrightarrow> guarded trust_check (free_of FORBIDDEN_TRUST) w root_dir) \<and>
   ((\<exists>out. secret_logging_main w root_dir = Inr out) \<longleftrightarrow> guarded logging_check keeps_secrets w root_dir)"
  unfolding no_network_main_def trust_provider_main_def secret_logging_main_def
  by (intro conjI network.accepts trust.accepts logging.accepts)

lemma ensure_contains_Inr:
  "ensure_contains w root_dir (rel, needle, reason) = Inr () \<longleftrightarrow> (\<exists>t. file_text w (path_join root_dir rel) = Some t \<and> contains t needle)"
  by (auto simp: ensure_contains_def Let_def bindE_Inr read_text_Inr checks_Inr simp del: checks.simps)

text \<open>The audit of capability identifiers passes only if every anchor is there and no source derives an identifier.\<close>

lemma capid_audited:
  assumes "capid_main w root_dir = Inr out"
  shows "\<forall>(rel, needle, reason)\<in>set CAPID_ANCHORS. \<exists>t. file_text w (path_join root_dir rel) = Some t \<and> contains t needle"
    and "base \<in> set CAPID_SCAN_PATHS \<Longrightarrow> p \<in> set (tree_files w (path_join root_dir base)) \<Longrightarrow> file_text w p = Some t \<Longrightarrow>
      path_suffix p \<in> {''.ts'', ''.rs''} \<Longrightarrow> free_of FORBIDDEN_CAPID t"
proof -
  from assms obtain vs where anchors: "forE (ensure_contains w root_dir) CAPID_ANCHORS = Inr ()"
      and vs: "mapE (capid_file w) (concat (map (\<lambda>base. tree_files w (path_join root_dir base)) CAPID_SCAN_PATHS)) = Inr vs" "concat vs = []"
    by (auto simp: capid_main_def bindE_Inr thenE_Inr checks_Inr simp del: checks.simps concat_eq_Nil_conv)
  from anchors show "\<forall>(rel, needle, reason)\<in>set CAPID_ANCHORS. \<exists>t. file_text w (path_join root_dir rel) = Some t \<and> contains t needle"
    unfolding forE_Inr using ensure_contains_Inr by blast
  assume p: "base \<in> set CAPID_SCAN_PATHS" "p \<in> set (tree_files w (path_join root_dir base))" "file_text w p = Some t"
    "path_suffix p \<in> {''.ts'', ''.rs''}"
  from vs have "\<forall>q\<in>set (concat (map (\<lambda>base. tree_files w (path_join root_dir base)) CAPID_SCAN_PATHS)). capid_file w q = Inr []"
    unfolding mapE_concat_Nil [symmetric] by blast
  with p(1,2) have "capid_file w p = Inr []" by auto
  then show "free_of FORBIDDEN_CAPID t"
    using p(3,4) by (auto simp: capid_file_def is_file_def read_text_def free_of_def filter_empty_conv list_ex_iff)
qed

text \<open>A passing shim check: but for the local files, the runner only re-exports modules of the core.\<close>

lemma shim_reexports:
  assumes "shim_main w root_dir = Inr out" and "p \<in> set (dir_glob w (path_join root_dir ''runner/typescript/src'') ''**/*.ts'')"
  shows "\<exists>rel. relative_to p (path_join root_dir ''runner/typescript/src'') = Inr rel \<and>
    (rel \<in> set LOCAL_IMPLEMENTATIONS \<or> file_text w p = Some (expected_export rel))"
proof -
  let ?src = "path_join root_dir ''runner/typescript/src''"
  from assms(1) have "\<exists>vs. mapE (shim_file w ?src) (sort_key path_parts (dir_glob w ?src ''**/*.ts'')) = Inr vs \<and> concat vs = []"
    by (auto simp: shim_main_def Let_def bindE_Inr thenE_Inr checks_Inr simp del: checks.simps concat_eq_Nil_conv)
  then have "shim_file w ?src p = Inr []" unfolding mapE_concat_Nil using assms(2) by simp
  then show ?thesis by (auto simp: shim_file_def bindE_Inr read_text_Inr split: if_splits)
qed

end
