(* ===== verification/WorkflowPins.thy ===== *)
theory WorkflowPins
  imports PyFind PyHost
begin

text \<open>
  \<open>tools/ci/check_workflow_action_pinning.py\<close>: every action a workflow uses is local, a container, or pinned
  to a full commit digest.
\<close>

definition chr_is_uses_ref :: "char \<Rightarrow> bool" where
  "chr_is_uses_ref c = (\<not> chr_is_space c \<and> c \<noteq> CHR ''#'')"

definition PIN_SHA_RE :: "char regex" where
  "PIN_SHA_RE = hex_re 40"

definition USES_RE :: matcher where
  "USES_RE = capture
     (RSeqs [RBos, RStar (RCls chr_is_space), ROpt (RSeqs [RLit ''-'', RStar (RCls chr_is_space)]), RLit ''uses:'',
             RStar (RCls chr_is_space)])
     (ends (RPlus (RCls chr_is_uses_ref))) REps"

definition uses_match :: "string \<Rightarrow> string option" where
  "uses_match line = (case USES_RE ([], line) of [] \<Rightarrow> None | (g, _) # _ \<Rightarrow> Some g)"

definition scan_files :: "env \<Rightarrow> string \<Rightarrow> string list" where
  "scan_files w root_dir =
     (let workflows = path_join root_dir ''.github/workflows''; actions = path_join root_dir ''.github/actions'' in
      sort_key path_parts (dir_glob w workflows ''*.yml'') @ sort_key path_parts (dir_glob w workflows ''*.yaml'') @
      sort_key path_parts (dir_glob w actions ''**/action.yml'') @ sort_key path_parts (dir_glob w actions ''**/action.yaml''))"

text \<open>\<open>ref.rsplit("@", 1)[1]\<close>.\<close>

definition ref_pin :: "string \<Rightarrow> string" where
  "ref_pin ref = rev (takeWhile (\<lambda>c. c \<noteq> CHR ''@'') (rev ref))"

definition line_ref :: "string \<Rightarrow> string" where
  "line_ref g = str_strip_chars [dquote, squote] (str_strip g)"

definition check_uses :: "string \<Rightarrow> string \<Rightarrow> nat \<times> string \<Rightarrow> string list res" where
  "check_uses root_dir path e =
     (case uses_match (snd e) of
        None \<Rightarrow> Inr []
      | Some g \<Rightarrow>
          (let ref = line_ref g;
               report = (\<lambda>what. bindE (relative_to path root_dir) (\<lambda>rel. Inr [rel @ '':'' @ nat_str (fst e + 1) @ what @ ref])) in
           if starts_with ref ''./'' then Inr []
           else if starts_with ref ''docker://'' then Inr []
           else if \<not> contains ref ''@'' then report '' action ref missing @sha: ''
           else if \<not> re_fullmatch PIN_SHA_RE (ref_pin ref) then report '' action not SHA-pinned: ''
           else Inr []))"

definition file_pins :: "env \<Rightarrow> string \<Rightarrow> string \<Rightarrow> string list res" where
  "file_pins w root_dir path =
     bindE (read_text w path) (\<lambda>t.
     bindE (mapE (check_uses root_dir path) (enum (str_splitlines t))) (\<lambda>vs. Inr (concat vs)))"

definition find_pin_violations :: "env \<Rightarrow> string \<Rightarrow> string list res" where
  "find_pin_violations w root_dir =
     bindE (mapE (file_pins w root_dir) (scan_files w root_dir)) (\<lambda>vs. Inr (concat vs))"

text \<open>The exit code and the lines printed.\<close>

definition pinning_main :: "env \<Rightarrow> (string \<Rightarrow> string) \<Rightarrow> string \<Rightarrow> (nat \<times> string list) res" where
  "pinning_main w resolve_path root_arg =
     bindE (find_pin_violations w (resolve_path root_arg)) (\<lambda>vs.
     Inr (if vs \<noteq> [] then (1, ''workflow action pinning check failed:'' # map (\<lambda>v. ''- '' @ v) vs)
          else (0, [''workflow action pinning check: OK''])))"

subsection \<open>The lines the pattern reads\<close>

text \<open>What a line uses, read directly.\<close>

definition skip_dash :: "string \<Rightarrow> string" where
  "skip_dash s = (case s of c # cs \<Rightarrow> if c = CHR ''-'' then dropWhile chr_is_space cs else s | [] \<Rightarrow> [])"

definition uses_of :: "string \<Rightarrow> string option" where
  "uses_of line =
     (let s = skip_dash (dropWhile chr_is_space line) in
      if \<not> prefix ''uses:'' s then None
      else let ref = takeWhile chr_is_uses_ref (dropWhile chr_is_space (drop 5 s)) in if ref = [] then None else Some ref)"

lemma plus_first:
  "takeWhile P s \<noteq> [] \<Longrightarrow> \<exists>ms. ends (RPlus (RCls P)) (p, s) = (rev (takeWhile P s) @ p, dropWhile P s) # ms"
proof (cases s)
  case (Cons x xs)
  assume "takeWhile P s \<noteq> []"
  then have x: "P x" using Cons by (auto split: if_splits)
  obtain ms where "ends (RStar (RCls P)) (x # p, xs) = (rev (takeWhile P xs) @ x # p, dropWhile P xs) # ms"
    using star_head by blast
  with x show ?thesis by (simp add: Cons RPlus_def)
qed simp

lemma plus_none: "takeWhile P s = [] \<Longrightarrow> ends (RPlus (RCls P)) (p, s) = []"
  by (cases s) (auto simp: RPlus_def split: if_splits)

definition group_at :: "char pos \<Rightarrow> (string \<times> char pos) list" where
  "group_at a = concat (map (\<lambda>b. map (\<lambda>e. (PyFind.span a b, e)) (ends REps b)) (ends (RPlus (RCls chr_is_uses_ref)) a))"

lemma group_first:
  "(case group_at (p, s) of [] \<Rightarrow> None | (g, _) # _ \<Rightarrow> Some g) =
     (let r = takeWhile chr_is_uses_ref s in if r = [] then None else Some r)"
proof (cases "takeWhile chr_is_uses_ref s = []")
  case True
  then show ?thesis by (simp add: group_at_def plus_none)
next
  case False
  then obtain ms where ms: "ends (RPlus (RCls chr_is_uses_ref)) (p, s) = (rev (takeWhile chr_is_uses_ref s) @ p, dropWhile chr_is_uses_ref s) # ms"
    using plus_first by blast
  have "length s - length (dropWhile chr_is_uses_ref s) = length (takeWhile chr_is_uses_ref s)"
    by (metis add_diff_cancel_right' length_append takeWhile_dropWhile_id)
  then have "PyFind.span (p, s) (rev (takeWhile chr_is_uses_ref s) @ p, dropWhile chr_is_uses_ref s) = takeWhile chr_is_uses_ref s"
    by (simp add: PyFind.span_def takeWhile_eq_take [symmetric])
  with False ms show ?thesis by (simp add: group_at_def Let_def)
qed

lemma group_space: "chr_is_space x \<Longrightarrow> group_at (q, x # xs) = []"
  by (simp add: group_at_def plus_none chr_is_uses_ref_def)

lemma uses_match_of: "uses_match line = uses_of line"
proof -
  let ?S = "RStar (RCls chr_is_space)"
  define k where "k = RSeqs [RLit ''uses:'', ?S]"
  define A where "A = RSeqs [RLit ''-'', ?S]"
  have us: "\<not> chr_is_space (CHR ''u'')" "\<not> chr_is_space (CHR ''-'')" by code_simp+
  have seqs: "RSeqs [r, q] = RSeq r (RSeqs [q])" "ends (RSeqs [r]) c = ends r c" for r q :: "char regex" and c
    by (simp_all add: RSeqs_def concat_map_single [unfolded RSeqs_def, simplified])
  have k_ends: "ends k (q, s) = (if prefix ''uses:'' s then ends ?S (rev ''uses:'' @ q, drop 5 s) else [])" for q s
    unfolding k_def seqs(1) ends.simps(3) ends_RLit by (simp add: seqs(2) numeral_eq_Suc del: ends.simps)
  have k_space: "ends k (q, x # xs) = []" if "chr_is_space x" for q x xs
    using that us by (auto simp: k_ends)
  have opt: "ends (RSeq (ROpt A) k) c = ends (RSeq A k) c @ ends k c" for c
    by (simp add: ROpt_def)
  have A_ends: "ends (RSeq A k) (q, s) = (case s of c # cs \<Rightarrow>
      if c = CHR ''-'' then ends k (rev (takeWhile chr_is_space cs) @ CHR ''-'' # q, dropWhile chr_is_space cs) else [] | [] \<Rightarrow> [])" for q s
  proof -
    have "ends A (q, s) = (if prefix ''-'' s then ends ?S (CHR ''-'' # q, tl s) else [])"
      unfolding A_def seqs(1) ends.simps(3) ends_RLit by (simp add: seqs(2) drop_Suc del: ends.simps)
    then have "ends (RSeq A k) (q, s) = (if prefix ''-'' s then concat (map (ends k) (ends ?S (CHR ''-'' # q, tl s))) else [])"
      unfolding ends.simps(3) by simp
    also have "concat (map (ends k) (ends ?S (CHR ''-'' # q, tl s))) =
        ends k (rev (takeWhile chr_is_space (tl s)) @ CHR ''-'' # q, dropWhile chr_is_space (tl s))"
      by (rule star_only_longest) (rule k_space)
    finally show ?thesis by (cases s) auto
  qed
  have dash: "\<exists>q'. ends (RSeq (ROpt A) k) (q, s) = ends k (q', skip_dash s)" for q s
  proof (cases s)
    case (Cons c cs)
    show ?thesis
    proof (cases "c = CHR ''-''")
      case True
      have "ends k (q, s) = []" by (simp add: k_ends Cons True)
      then show ?thesis unfolding opt A_ends by (auto simp: Cons True skip_dash_def)
    next
      case False
      then show ?thesis unfolding opt A_ends by (auto simp: Cons skip_dash_def)
    qed
  next
    case Nil
    show ?thesis unfolding opt A_ends by (auto simp: Nil skip_dash_def)
  qed
  have dash_space: "ends (RSeq (ROpt A) k) (q, x # xs) = []" if "chr_is_space x" for q x xs
  proof -
    from that us have "skip_dash (x # xs) = x # xs" by (auto simp: skip_dash_def)
    with dash [of q "x # xs"] k_space [OF that] show ?thesis by auto
  qed
  let ?s = "skip_dash (dropWhile chr_is_space line)"
  have head: "RSeqs [RBos, ?S, ROpt A, RLit ''uses:'', ?S] = RSeq RBos (RSeq ?S (RSeq (ROpt A) k))"
    by (simp add: RSeqs_def k_def)
  have "ends (RSeqs [RBos, ?S, ROpt A, RLit ''uses:'', ?S]) ([], line) =
      ends (RSeq (ROpt A) k) (rev (takeWhile chr_is_space line), dropWhile chr_is_space line)"
    unfolding head ends.simps(3) [of RBos] using ends_greedy [where P = chr_is_space and p = "[]" and s = line, OF dash_space] by (simp add: RBos_def del: ends.simps(3))
  with dash obtain q' where q': "ends (RSeqs [RBos, ?S, ROpt A, RLit ''uses:'', ?S]) ([], line) = ends k (q', ?s)" by metis
  have "USES_RE ([], line) = concat (map group_at (ends k (q', ?s)))"
    unfolding USES_RE_def capture_def A_def [symmetric] q' group_at_def ..
  also have "\<dots> = (if prefix ''uses:'' ?s
      then group_at (rev (takeWhile chr_is_space (drop 5 ?s)) @ rev ''uses:'' @ q', dropWhile chr_is_space (drop 5 ?s)) else [])"
    unfolding k_ends using star_only_longest [of chr_is_space group_at, OF group_space] by simp
  finally show ?thesis unfolding uses_match_def uses_of_def Let_def using group_first by (simp add: Let_def)
qed

text \<open>Where a reference points: into the repository, to a container image, or to a full commit digest.\<close>

definition pinned :: "string \<Rightarrow> bool" where
  "pinned ref \<longleftrightarrow> starts_with ref ''./'' \<or> starts_with ref ''docker://'' \<or>
     (\<exists>action sha. ref = action @ ''@'' @ sha \<and> length sha = 40 \<and> list_all chr_is_hex sha)"

lemma ref_pin_split: "contains ref ''@'' \<Longrightarrow> \<exists>action. ref = action @ ''@'' @ ref_pin ref"
proof -
  assume "contains ref ''@''"
  then have "CHR ''@'' \<in> set ref" by (auto simp: contains_def sublist_def)
  then obtain a b where ref: "ref = a @ CHR ''@'' # b" "CHR ''@'' \<notin> set b" by (meson split_list_last)
  then have "takeWhile (\<lambda>c. c \<noteq> CHR ''@'') (rev b @ CHR ''@'' # rev a) = rev b" by (subst takeWhile_append2) auto
  then have "ref_pin ref = b" by (simp add: ref_pin_def ref(1))
  with ref(1) show ?thesis by auto
qed

lemma check_uses_Nil:
  assumes "check_uses root_dir path e = Inr []" and "uses_of (snd e) = Some g"
  shows "pinned (line_ref g)"
proof -
  let ?ref = "line_ref g"
  from assms have "starts_with ?ref ''./'' \<or> starts_with ?ref ''docker://'' \<or>
      (contains ?ref ''@'' \<and> re_fullmatch PIN_SHA_RE (ref_pin ?ref))"
    by (auto simp: check_uses_def uses_match_of Let_def bindE_Inr split: if_splits)
  then show ?thesis using ref_pin_split [of ?ref] by (auto simp: pinned_def PIN_SHA_RE_def fullmatch_hex_re)
qed

text \<open>C18: when the check exits with 0, the supply chain of the workflows is fixed: in every workflow and action file, a
line whose text, after blanks and at most one dash, is \<open>uses:\<close> and a reference, refers to the repository itself,
to a container image or to an action at a full commit digest.\<close>

theorem actions_pinned:
  assumes "pinning_main w resolve_path root_arg = Inr (0, out)" and "path \<in> set (scan_files w (resolve_path root_arg))"
    and "file_text w path = Some t" and "line \<in> set (str_splitlines t)" and "uses_of line = Some g"
  shows "pinned (line_ref g)"
proof -
  let ?root = "resolve_path root_arg"
  from assms(1) have "\<exists>vs. mapE (file_pins w ?root) (scan_files w ?root) = Inr vs \<and> concat vs = []"
    by (auto simp: pinning_main_def find_pin_violations_def bindE_Inr simp del: concat_eq_Nil_conv split: if_splits)
  then have "file_pins w ?root path = Inr []" unfolding mapE_concat_Nil using assms(2) by blast
  then have "\<exists>vs. mapE (check_uses ?root path) (enum (str_splitlines t)) = Inr vs \<and> concat vs = []"
    using assms(3) by (auto simp: file_pins_def bindE_Inr read_text_Inr simp del: concat_eq_Nil_conv)
  then have "\<forall>e\<in>set (enum (str_splitlines t)). check_uses ?root path e = Inr []" unfolding mapE_concat_Nil .
  moreover obtain e where "e \<in> set (enum (str_splitlines t))" "snd e = line"
    using assms(4) snd_set_enum [of "str_splitlines t"] by (metis imageE)
  ultimately show ?thesis using check_uses_Nil assms(5) by metis
qed

text \<open>A reference in a flow mapping is not looked at.\<close>

lemma flow_mapping_escapes: "uses_match ''    - {uses: actions/checkout@v4}'' = None"
  unfolding uses_match_of by code_simp

definition ex_ref :: string where
  "ex_ref = ''a/b@'' @ replicate 40 (CHR ''0'')"

definition ex_pin_line :: string where
  "ex_pin_line = ''  - uses: '' @ [dquote] @ ex_ref @ [dquote] @ '' # v4''"

definition ex_pins :: env where
  "ex_pins = \<lparr>file_text = (\<lambda>p. Some (''- uses: ./local'' @ [newline] @ ex_pin_line)), json_loads = (\<lambda>_. None),
     is_dir = (\<lambda>_. False), dir_glob = (\<lambda>p q. if q = ''*.yml'' then [path_join p ''ci.yml''] else [])\<rparr>"

theorem actions_pinned_witness: "pinned ex_ref"
proof -
  let ?path = "''/g/.github/workflows/ci.yml''" and ?t = "''- uses: ./local'' @ [newline] @ ex_pin_line"
  obtain g where g: "uses_of ex_pin_line = Some g" "line_ref g = ex_ref"
  proof -
    have "(case uses_of ex_pin_line of Some g \<Rightarrow> line_ref g = ex_ref | None \<Rightarrow> False)" by code_simp
    with that show thesis by (cases "uses_of ex_pin_line") auto
  qed
  have lines: "str_splitlines ?t = [''- uses: ./local'', ex_pin_line]" by code_simp
  have local: "uses_of ''- uses: ./local'' = Some ''./local''" "starts_with (line_ref ''./local'') ''./''" by code_simp+
  have "ref_pin ex_ref = replicate 40 (CHR ''0'')" by code_simp
  then have sha: "re_fullmatch PIN_SHA_RE (ref_pin ex_ref)"
    by (simp add: PIN_SHA_RE_def fullmatch_hex_re chr_is_hex_def chr_is_ascii_digit_def list_all_iff)
  have at: "contains ex_ref ''@''"
    unfolding contains_def sublist_def ex_ref_def by (intro exI [of _ "''a/b''"] exI [of _ "replicate 40 (CHR ''0'')"]) simp
  have scan: "scan_files ex_pins ''/g'' = [?path]" by code_simp
  have "check_uses ''/g'' ?path (0, ''- uses: ./local'') = Inr []"
    using local by (simp add: check_uses_def uses_match_of Let_def)
  moreover have "check_uses ''/g'' ?path (1, ex_pin_line) = Inr []"
    using at sha by (simp add: check_uses_def uses_match_of g Let_def)
  moreover have "read_text ex_pins ?path = Inr ?t" by (simp add: read_text_def ex_pins_def)
  ultimately have "file_pins ex_pins ''/g'' ?path = Inr []"
    unfolding file_pins_def by (simp add: lines [simplified] enum_def)
  then have run: "pinning_main ex_pins id ''/g'' = Inr (0, [''workflow action pinning check: OK''])"
    by (simp add: pinning_main_def find_pin_violations_def scan)
  have "file_text ex_pins ?path = Some ?t" by (simp add: ex_pins_def)
  from actions_pinned [OF run _ this _ g(1)] show ?thesis by (simp add: scan lines [simplified] g(2))
qed

end
