(* ===== verification/RunnerContract.thy ===== *)
theory RunnerContract
  imports LlmDocs "HOL-Library.Multiset"
begin

text \<open>
  \<open>tools/ci/check_runner_contract_compat.py\<close>: the operations of the runner contract, the vectors that use them
  and the documents that describe them; \<open>tools/ci/check_prohibition_coverage.py\<close>: the vectors behind the
  prohibition rules; \<open>tools/ci/generate_vector_manifest.py\<close>: the list of vectors with their digests.
\<close>

subsection \<open>The runner contract\<close>

definition contract_vectors :: "string \<Rightarrow> string" where
  "contract_vectors root_dir = path_join root_dir ''conformance/vectors''"

text \<open>The number of vectors of each operation, and the vectors of an operation outside the contract.\<close>

type_synonym op_state = "(string \<times> nat) list \<times> string list"

definition count_vector :: "env \<Rightarrow> json list \<Rightarrow> op_state \<Rightarrow> string \<Rightarrow> op_state res" where
  "count_vector w ops st path =
     bindE (read_json w path) (\<lambda>vector.
     bindE (attr_get_or vector ''op'' (JStr [])) (\<lambda>op_value.
     bindE (attr_get_or vector ''vector_id'' (JStr (path_stem path))) (\<lambda>id_value.
     let (counts, unknown) = st; op = json_str op_value in
     Inr (AList.update op ((case map_of counts op of Some n \<Rightarrow> n | None \<Rightarrow> 0) + 1) counts,
          if str_in_arr op ops then unknown else unknown @ [json_str id_value @ '':'' @ op]))))"

text \<open>\<open>vectors_by_op.get(op, 0) == 0\<close>: an operation that is no string has no vectors, a list or a dict raises.\<close>

definition op_missing :: "(string \<times> nat) list \<Rightarrow> json \<Rightarrow> bool res" where
  "op_missing counts op =
     (if is_list op \<or> is_dict op then Inl TypeError
      else Inr (case op of JStr s \<Rightarrow> (case map_of counts s of Some n \<Rightarrow> n = 0 | None \<Rightarrow> True) | _ \<Rightarrow> True))"

definition missing_ops :: "(string \<times> nat) list \<Rightarrow> json list \<Rightarrow> json list res" where
  "missing_ops counts ops =
     bindE (mapE (\<lambda>op. bindE (op_missing counts op) (\<lambda>b. Inr (if b then [op] else []))) ops) (\<lambda>xs. Inr (concat xs))"

definition OUTPUT_FIELDS :: "string list" where
  "OUTPUT_FIELDS = [''vector_id'', ''pass'', ''diag'', ''out'']"

definition check_output_schema :: "json \<Rightarrow> unit res" where
  "check_output_schema schema =
     bindE (attr_get_or schema ''required'' (JArr [])) (\<lambda>r.
     bindE (py_iter r) (\<lambda>required.
     thenE (if list_ex (\<lambda>v. is_list v \<or> is_dict v) required then Inl TypeError else Inr ())
    (thenE (checks (map (\<lambda>f. (str_in_arr f required, ''runner_v1 output schema dropped required field: '' @ f)) OUTPUT_FIELDS))
    (bindE (attr_get_or schema ''properties'' (JObj [])) (\<lambda>props.
     forE (\<lambda>f. bindE (str_in f props) (\<lambda>b. checks [(b, ''runner_v1 output schema missing property: '' @ f)])) OUTPUT_FIELDS)))))"

definition runner_contract_main :: "env \<Rightarrow> string \<Rightarrow> (nat \<times> string) res" where
  "runner_contract_main w root_dir =
     bindE (read_text w (path_join root_dir ''conformance/SPEC.md'')) (\<lambda>spec_text.
     bindE (read_json w (path_join root_dir ''conformance/contract/runner_v1.ops.json'')) (\<lambda>ops_doc.
     bindE (read_json w (path_join root_dir ''conformance/contract/runner_v1.output.schema.json'')) (\<lambda>schema.
     bindE (attr_get_or ops_doc ''cli'' (JStr [])) (\<lambda>cli.
     bindE (attr_get_or ops_doc ''operations'' (JArr [])) (\<lambda>operations.
     bindE (py_iter operations) (\<lambda>ops.
     let expected_cli = str_strip (json_str cli) in
     thenE (checks [(expected_cli \<noteq> [], ''runner_v1.ops.json missing `cli`''),
        (ops \<noteq> [], ''runner_v1.ops.json missing `operations`''),
        (contains spec_text expected_cli, ''SPEC.md no longer contains frozen runner CLI: '' @ expected_cli)])
    (bindE (foldE (count_vector w ops) ([], []) (sort_key path_parts (dir_glob w (contract_vectors root_dir) ''**/*.json''))) (\<lambda>(counts, unknown).
     thenE (checks [(unknown = [], ''Vectors use ops outside runner_v1 contract: '' @ strs_repr unknown)])
    (bindE (missing_ops counts ops) (\<lambda>missing.
     thenE (checks [(missing = [], ''runner_v1 ops without vectors: '' @ json_repr (JArr missing))])
    (thenE (checks (map (\<lambda>op. (contains spec_text (''`'' @ json_str op @ ''`''),
        ''SPEC.md no longer documents runner_v1 op: '' @ json_str op)) ops))
    (thenE (check_output_schema schema)
       (Inr (0, ''runner_v1 contract compatibility: OK''))))))))))))))"

subsection \<open>The contract and the vectors cover each other\<close>

lemma count_vectors:
  assumes "foldE (count_vector w ops) st paths = Inr (counts, unknown)"
  shows "\<forall>p\<in>set paths. \<exists>d. document w p = Some (JObj d)"
    and "\<forall>op n. map_of counts op = Some n \<longrightarrow> n = (case map_of (fst st) op of Some k \<Rightarrow> k | None \<Rightarrow> 0) +
       length (filter (\<lambda>p. \<exists>d. document w p = Some (JObj d) \<and> json_str (dict_get_or d ''op'' (JStr [])) = op) paths)"
    and "unknown = [] \<Longrightarrow> \<forall>p\<in>set paths. \<forall>d. document w p = Some (JObj d) \<longrightarrow>
       str_in_arr (json_str (dict_get_or d ''op'' (JStr []))) ops"
proof -
  let ?op = "\<lambda>d. json_str (dict_get_or d ''op'' (JStr []))"
  have "(\<forall>p\<in>set paths. \<exists>d. document w p = Some (JObj d)) \<and>
    (\<forall>op n. map_of counts op = Some n \<longrightarrow> n = (case map_of (fst st) op of Some k \<Rightarrow> k | None \<Rightarrow> 0) +
       length (filter (\<lambda>p. \<exists>d. document w p = Some (JObj d) \<and> ?op d = op) paths)) \<and>
    (unknown = [] \<longrightarrow> snd st = [] \<and> (\<forall>p\<in>set paths. \<forall>d. document w p = Some (JObj d) \<longrightarrow> str_in_arr (?op d) ops))"
    using assms
  proof (induction paths arbitrary: st)
    case (Cons p ps)
    then obtain s where s: "count_vector w ops st p = Inr s" "foldE (count_vector w ops) s ps = Inr (counts, unknown)"
      by (auto simp: bindE_Inr)
    obtain cs us where st: "st = (cs, us)" by (cases st)
    from s(1) obtain d i where d: "document w p = Some (JObj d)"
        "s = (AList.update (?op d) ((case map_of cs (?op d) of Some n \<Rightarrow> n | None \<Rightarrow> 0) + 1) cs,
              if str_in_arr (?op d) ops then us else us @ [i])"
      by (auto simp: count_vector_def Let_def st bindE_Inr attr_get_or_Inr read_json_document)
    have fst: "(case map_of (fst s) op of Some k \<Rightarrow> k | None \<Rightarrow> 0) =
        (case map_of (fst st) op of Some k \<Rightarrow> k | None \<Rightarrow> 0) + (if ?op d = op then 1 else 0)" for op
      by (auto simp: d(2) st update_conv' split: option.split)
    from Cons.IH [OF s(2)] d(1) show ?case
      unfolding fst by (auto simp: d(2) st split: if_splits)
  qed auto
  then show "\<forall>p\<in>set paths. \<exists>d. document w p = Some (JObj d)"
    "\<forall>op n. map_of counts op = Some n \<longrightarrow> n = (case map_of (fst st) op of Some k \<Rightarrow> k | None \<Rightarrow> 0) +
       length (filter (\<lambda>p. \<exists>d. document w p = Some (JObj d) \<and> ?op d = op) paths)"
    "unknown = [] \<Longrightarrow> \<forall>p\<in>set paths. \<forall>d. document w p = Some (JObj d) \<longrightarrow> str_in_arr (?op d) ops" by blast+
qed

text \<open>C20: contract and vectors cover each other. When the check passes, every vector is an object whose operation the
contract declares, and every declared operation is a string that some vector uses and the specification documents.\<close>

theorem runner_contract_covered:
  assumes "runner_contract_main w root_dir = Inr out"
  shows "\<exists>spec_text ops_doc ops.
    file_text w (path_join root_dir ''conformance/SPEC.md'') = Some spec_text \<and>
    document w (path_join root_dir ''conformance/contract/runner_v1.ops.json'') = Some (JObj ops_doc) \<and>
    py_iter (dict_get_or ops_doc ''operations'' (JArr [])) = Inr ops \<and> ops \<noteq> [] \<and>
    (\<forall>p\<in>set (dir_glob w (contract_vectors root_dir) ''**/*.json''). \<exists>d op. document w p = Some (JObj d) \<and>
       op = json_str (dict_get_or d ''op'' (JStr [])) \<and> JStr op \<in> set ops) \<and>
    (\<forall>v\<in>set ops. \<exists>op. v = JStr op \<and> contains spec_text (''`'' @ op @ ''`'') \<and>
       (\<exists>p\<in>set (dir_glob w (contract_vectors root_dir) ''**/*.json''). \<exists>d. document w p = Some (JObj d) \<and>
          json_str (dict_get_or d ''op'' (JStr [])) = op))"
proof -
  let ?ps = "sort_key path_parts (dir_glob w (contract_vectors root_dir) ''**/*.json'')"
  from assms obtain spec_text ops_doc ops counts where r:
      "file_text w (path_join root_dir ''conformance/SPEC.md'') = Some spec_text"
      "document w (path_join root_dir ''conformance/contract/runner_v1.ops.json'') = Some (JObj ops_doc)"
      "py_iter (dict_get_or ops_doc ''operations'' (JArr [])) = Inr ops" "ops \<noteq> []"
      "foldE (count_vector w ops) ([], []) ?ps = Inr (counts, [])" "missing_ops counts ops = Inr []"
      "\<forall>op\<in>set ops. contains spec_text (''`'' @ json_str op @ ''`'')"
    by (auto simp: runner_contract_main_def Let_def bindE_Inr thenE_Inr checks_Inr read_text_Inr read_json_document attr_get_or_Inr
        list_all_iff simp del: checks.simps foldE.simps)
  note counted = count_vectors [OF r(5), simplified]
  have used: "\<exists>op. v = JStr op \<and> (\<exists>p\<in>set ?ps. \<exists>d. document w p = Some (JObj d) \<and> json_str (dict_get_or d ''op'' (JStr [])) = op)"
    if v: "v \<in> set ops" for v
  proof -
    from r(6) have "\<exists>xs. mapE (\<lambda>op. bindE (op_missing counts op) (\<lambda>b. Inr (if b then [op] else []))) ops = Inr xs \<and> concat xs = []"
      by (auto simp: missing_ops_def bindE_Inr simp del: concat_eq_Nil_conv)
    then have "op_missing counts v = Inr False" unfolding mapE_concat_Nil using v by (auto simp: bindE_Inr split: if_splits)
    then obtain op n where op: "v = JStr op" "map_of counts op = Some n" "n \<noteq> 0"
      by (cases v) (auto simp: op_missing_def split: if_splits option.splits)
    with counted(2) have "filter (\<lambda>p. \<exists>d. document w p = Some (JObj d) \<and> json_str (dict_get_or d ''op'' (JStr [])) = op) ?ps \<noteq> []"
      by fastforce
    then show ?thesis using op(1) by (auto simp: filter_empty_conv)
  qed
  show ?thesis
    using r(1-4,7) counted(1,3) used
    by (intro exI [of _ spec_text] exI [of _ ops_doc] exI [of _ ops]) (fastforce simp: str_in_arr_def)
qed

text \<open>One operation, one vector.\<close>

definition ex_runner_contract :: env where
  "ex_runner_contract = \<lparr>file_text = (\<lambda>p. Some (if p = ''/g/conformance/SPEC.md'' then ''run `op1`'' else p)),
     json_loads = map_of
       [(''/g/conformance/contract/runner_v1.ops.json'', JObj [(''cli'', JStr '' run ''), (''operations'', JArr [JStr ''op1''])]),
        (''/g/conformance/contract/runner_v1.output.schema.json'', JObj [(''required'', JArr (map JStr OUTPUT_FIELDS)),
           (''properties'', JObj (map (\<lambda>f. (f, JNull)) OUTPUT_FIELDS))]),
        (''/g/conformance/vectors/a.json'', JObj [(''op'', JStr ''op1'')])],
     is_dir = (\<lambda>_. False), dir_glob = (\<lambda>p q. [path_join p ''a.json''])\<rparr>"

theorem runner_contract_covered_witness:
  "\<exists>ops. ops \<noteq> [] \<and> (\<forall>v\<in>set ops. \<exists>op. v = JStr op)"
proof -
  have "(case runner_contract_main ex_runner_contract ''/g'' of Inr _ \<Rightarrow> True | _ \<Rightarrow> False)" by code_simp
  then obtain out where "runner_contract_main ex_runner_contract ''/g'' = Inr out" by (auto split: sum.splits)
  from runner_contract_covered [OF this] show ?thesis by blast
qed

subsection \<open>Prohibition rules\<close>

definition PZ_RULE_RE :: matcher where
  "PZ_RULE_RE = capture item_start (ends (RSeqs [RLit ''PZ-'', RPlus (RCls chr_is_id)])) (RSeqs [RLit '':'', RStar (RCls chr_is_space)])"

definition PZ_VEC_RE :: matcher where
  "PZ_VEC_RE = capture REps
     (ends (RSeqs [RWordB, RAlt (RLit ''POS'') (RLit ''NEG''), RLit ''-'', RPlus (RCls chr_is_id), RWordB])) REps"

definition rule_of_line :: "string \<Rightarrow> string" where
  "rule_of_line line = (case finds PZ_RULE_RE [] line of g # _ \<Rightarrow> g | [] \<Rightarrow> [])"

text \<open>The rules without a vector and the vectors without a file, line by line.\<close>

definition unmapped_rules :: "string \<Rightarrow> string list" where
  "unmapped_rules line =
     (if contains line ''Vectors:'' \<and> finds PZ_VEC_RE [] line = [] \<and> rule_of_line line \<noteq> [] then [rule_of_line line] else [])"

definition lost_vectors :: "env \<Rightarrow> string \<Rightarrow> string \<Rightarrow> string list" where
  "lost_vectors w vectors_dir line =
     (if contains line ''Vectors:'' then filter (\<lambda>v. \<not> vector_exists w vectors_dir v) (finds PZ_VEC_RE [] line) else [])"

definition prohibition_main :: "env \<Rightarrow> string \<Rightarrow> (nat \<times> string) res" where
  "prohibition_main w root_dir =
     bindE (read_text w (path_join root_dir ''docs/llm/PROHIBITION_ZONE.md'')) (\<lambda>t.
     let unmapped = concat (map unmapped_rules (str_splitlines t));
         lost = concat (map (lost_vectors w (contract_vectors root_dir)) (str_splitlines t)) in
     thenE (checks [(finds PZ_RULE_RE [] t \<noteq> [], ''No prohibition rules found in PROHIBITION_ZONE.md''),
         (unmapped = [], ''Prohibition rules without vector mapping: '' @ strs_repr (py_sorted (remdups unmapped))),
         (lost = [], ''Missing vector IDs in prohibition mapping: '' @ strs_repr (py_sorted (remdups lost)))])
       (Inr (0, ''prohibition-zone coverage: OK'')))"

text \<open>A rule that gives its vectors on its own line has at least one, and each of them has a file.\<close>

lemma prohibitions_covered:
  assumes "prohibition_main w root_dir = Inr out" and "file_text w (path_join root_dir ''docs/llm/PROHIBITION_ZONE.md'') = Some t"
    and "line \<in> set (str_splitlines t)" and "contains line ''Vectors:''"
  shows "rule_of_line line \<noteq> [] \<Longrightarrow> finds PZ_VEC_RE [] line \<noteq> []"
    and "v \<in> set (finds PZ_VEC_RE [] line) \<Longrightarrow> vector_exists w (contract_vectors root_dir) v"
proof -
  from assms(1,2) have "concat (map unmapped_rules (str_splitlines t)) = []"
      "concat (map (lost_vectors w (contract_vectors root_dir)) (str_splitlines t)) = []"
    by (auto simp: prohibition_main_def Let_def bindE_Inr thenE_Inr checks_Inr read_text_Inr simp del: checks.simps concat_eq_Nil_conv)
  with assms(3) have "unmapped_rules line = []" "lost_vectors w (contract_vectors root_dir) line = []" by auto
  with assms(4) show "rule_of_line line \<noteq> [] \<Longrightarrow> finds PZ_VEC_RE [] line \<noteq> []"
      "v \<in> set (finds PZ_VEC_RE [] line) \<Longrightarrow> vector_exists w (contract_vectors root_dir) v"
    by (auto simp: unmapped_rules_def lost_vectors_def filter_empty_conv split: if_splits)
qed

subsection \<open>The manifest of the vectors\<close>

record manifest_args =
  vm_vectors_root :: string
  vm_pattern :: string
  vm_out :: string

text \<open>Any failure to read an id leaves the name of the file.\<close>

definition vector_name :: "env \<Rightarrow> string \<Rightarrow> string" where
  "vector_name w p =
     (case document w p of Some (JObj d) \<Rightarrow> json_str (dict_get_or d ''vector_id'' (JStr (path_stem p))) | _ \<Rightarrow> path_stem p)"

definition manifest_files :: "env \<Rightarrow> manifest_args \<Rightarrow> string list" where
  "manifest_files w args =
     filter (is_file w) (sort_key path_parts (dir_glob w (path_str (vm_vectors_root args)) (''**/'' @ vm_pattern args)))"

definition manifest_item :: "env \<Rightarrow> (string \<Rightarrow> string) \<Rightarrow> string \<Rightarrow> json" where
  "manifest_item w digest p = JObj [(''id'', JStr (vector_name w p)), (''path'', JStr p), (''sha256'', JStr (digest p))]"

text \<open>The exit code, the file written and the line printed.\<close>

definition vector_manifest_main :: "env \<Rightarrow> (string \<Rightarrow> string) \<Rightarrow> manifest_args \<Rightarrow> nat \<times> (string \<times> string) \<times> string" where
  "vector_manifest_main w digest args =
     (let items = map (manifest_item w digest) (manifest_files w args); out = path_str (vm_out args) in
      (0, (out, dumps_ascii (JArr items) @ [newline]), ''Wrote '' @ nat_str (length items) @ '' entries to '' @ out))"

text \<open>The order of the directory does not matter: two listings of the same paths give the same manifest.\<close>

lemma manifest_order_free:
  assumes "mset (dir_glob w1 (path_str (vm_vectors_root args)) (''**/'' @ vm_pattern args)) =
      mset (dir_glob w2 (path_str (vm_vectors_root args)) (''**/'' @ vm_pattern args))"
    and "inj_on path_parts (set (dir_glob w1 (path_str (vm_vectors_root args)) (''**/'' @ vm_pattern args)))"
    and "file_text w1 = file_text w2" "json_loads w1 = json_loads w2"
  shows "vector_manifest_main w1 digest args = vector_manifest_main w2 digest args"
proof -
  let ?g1 = "dir_glob w1 (path_str (vm_vectors_root args)) (''**/'' @ vm_pattern args)"
  let ?g2 = "dir_glob w2 (path_str (vm_vectors_root args)) (''**/'' @ vm_pattern args)"
  have "sort_key path_parts ?g2 = sort_key path_parts ?g1"
    by (rule sort_key_inj_key_eq) (use assms(1) mset_eq_setD [OF assms(1)] assms(2) in simp_all)
  moreover have "is_file w1 = is_file w2" "vector_name w1 = vector_name w2"
    unfolding fun_eq_iff is_file_def vector_name_def document_def assms(3,4) by simp_all
  ultimately show ?thesis by (simp add: vector_manifest_main_def manifest_files_def manifest_item_def [abs_def])
qed

end
