(* ===== verification/RepoPolicies.thy ===== *)
theory RepoPolicies
  imports JsonText PyHost ReportScan
begin

text \<open>
  Small policies over single files and over the tracked files: code owners, attributes, line ends, golden images,
  the flow of the quickstart, the anchors of the frozen specification, and the comparison of two SDK packages.
\<close>

text \<open>A check that prints its errors and exits with 1: the exit code and the lines.\<close>

definition report_lines :: "string \<Rightarrow> string list \<Rightarrow> nat \<times> string list" where
  "report_lines head items = (1, head # map (\<lambda>x. ''- '' @ x) items)"

subsection \<open>Code owners and attributes\<close>

definition REQUIRED_PATTERNS :: "string list" where
  "REQUIRED_PATTERNS = [''/spec/**'', ''/conformance/**'', ''/core/**'', ''/sdk/**'', ''/examples/**'', ''/docs/human/**'',
     ''/docs/superpowers/**'', ''/tools/**'', ''/.github/**'', ''/.githooks/**'', ''/scripts/**'', ''/docker/**'', ''/.dockerignore'',
     ''/.editorconfig'', ''/.gitattributes'', ''/.gitignore'', ''/.nvmrc'', ''/mise.toml'']"

text \<open>The first word of every line that is neither blank nor a comment.\<close>

definition owned_patterns :: "string \<Rightarrow> string list" where
  "owned_patterns t =
     map (\<lambda>ln. hd (str_words (str_strip ln)))
       (filter (\<lambda>ln. str_strip ln \<noteq> [] \<and> \<not> starts_with (str_strip ln) ''#'') (str_splitlines t))"

definition codeowners_main :: "env \<Rightarrow> string \<Rightarrow> (nat \<times> string list) res" where
  "codeowners_main w path =
     (if \<not> path_exists w path then Inr (1, [''Missing CODEOWNERS file.''])
      else bindE (read_text w path) (\<lambda>t.
        let missing = filter (\<lambda>p. p \<notin> set (owned_patterns t)) REQUIRED_PATTERNS in
        Inr (if missing \<noteq> [] then report_lines ''CODEOWNERS missing required path coverage:'' missing
             else (0, [''CODEOWNERS coverage check: OK'']))))"

definition REQUIRED_ATTRIBUTES :: "string list" where
  "REQUIRED_ATTRIBUTES = [''* text=auto eol=lf'', ''*.md text eol=lf'', ''*.txt text eol=lf'', ''*.json text eol=lf'', ''*.yml text eol=lf'',
     ''*.yaml text eol=lf'', ''*.toml text eol=lf'', ''*.cddl text eol=lf'', ''*.py text eol=lf'', ''*.ts text eol=lf'',
     ''*.sh text eol=lf'', ''*.rs text eol=lf'']"

definition FORBIDDEN_ATTRIBUTES :: "string list" where
  "FORBIDDEN_ATTRIBUTES = [''filter='', ''working-tree-encoding'']"

definition gitattributes_main :: "env \<Rightarrow> string \<Rightarrow> (nat \<times> string list) res" where
  "gitattributes_main w path =
     (if \<not> path_exists w path then Inr (1, [''Missing .gitattributes policy file.''])
      else bindE (read_text w path) (\<lambda>t.
        let lines = filter (\<lambda>l. l \<noteq> []) (map str_strip (str_splitlines t));
            missing = filter (\<lambda>l. l \<notin> set lines) REQUIRED_ATTRIBUTES; forbidden = filter (contains t) FORBIDDEN_ATTRIBUTES in
        Inr (if missing \<noteq> [] \<or> forbidden \<noteq> []
             then (1, (if missing \<noteq> [] then snd (report_lines ''Missing required .gitattributes lines:'' missing) else []) @
                      (if forbidden \<noteq> [] then snd (report_lines ''Forbidden .gitattributes tokens found:'' forbidden) else []))
             else (0, [''gitattributes policy check: OK'']))))"

subsection \<open>Line ends of tracked files\<close>

text \<open>What git lists, which paths exist, and the bytes of a file.\<close>

record tracked_host =
  tk_listing :: "string res"
  tk_exists :: "string \<Rightarrow> bool"
  tk_bytes :: "string \<Rightarrow> string"

definition CRLF_BINARY_EXTS :: "string list" where
  "CRLF_BINARY_EXTS = [''.png'', ''.jpg'', ''.jpeg'', ''.gif'', ''.pdf'', ''.zip'', ''.gz'', ''.tgz'', ''.tar'']"

definition nul :: char where "nul = char_of (0 :: nat)"

definition tracked_paths :: "tracked_host \<Rightarrow> string \<Rightarrow> string list res" where
  "tracked_paths h root_dir =
     bindE (tk_listing h) (\<lambda>out. Inr (map (path_join root_dir) (filter (\<lambda>p. p \<noteq> []) (str_split [nul] out))))"

definition crlf_is_binary :: "string \<Rightarrow> string \<Rightarrow> bool" where
  "crlf_is_binary path data = (str_lower (path_suffix path) \<in> set CRLF_BINARY_EXTS \<or> contains (take 8192 data) [nul])"

definition crlf_offender :: "tracked_host \<Rightarrow> string \<Rightarrow> bool" where
  "crlf_offender h p = (tk_exists h p \<and> \<not> crlf_is_binary p (tk_bytes h p) \<and> contains (tk_bytes h p) [CHR 0x0D, CHR 0x0A])"

definition crlf_main :: "tracked_host \<Rightarrow> string \<Rightarrow> (nat \<times> string list) res" where
  "crlf_main h root_dir =
     bindE (tracked_paths h root_dir) (\<lambda>ps.
     bindE (mapE (\<lambda>p. relative_to p root_dir) (filter (crlf_offender h) ps)) (\<lambda>offenders.
     Inr (if offenders \<noteq> [] then report_lines ''CRLF detected in tracked text files:'' offenders else (0, [''CRLF check: OK'']))))"

subsection \<open>Golden images\<close>

definition REQUIRED_IMAGE_TOKENS :: "string list" where
  "REQUIRED_IMAGE_TOKENS = [''push:'', [dquote] @ ''repo-*'' @ [dquote], [dquote] @ ''repo-rc-*'' @ [dquote], ''GITHUB_REF_TYPE'',
     ''GOLDEN_ERR_TAG_REQUIRED'', ''repo-rc-*'', ''PUBLISH_TAG=stable'']"

definition FORBIDDEN_IMAGE_TOKENS :: "string list" where
  "FORBIDDEN_IMAGE_TOKENS = [''workflow_dispatch:'']"

definition IMAGE_DOC_TOKENS :: "string list" where
  "IMAGE_DOC_TOKENS = [''golden-images'', ''repo-*'', ''repo-rc-*'', ''stable'', ''manual dispatch'', ''GOLDEN_ERR_TAG_REQUIRED'']"

definition require_tokens :: "env \<Rightarrow> string \<Rightarrow> string list \<Rightarrow> string \<Rightarrow> string list res" where
  "require_tokens w path tokens label =
     (if \<not> path_exists w path then Inr [label @ '': missing file '' @ path]
      else bindE (read_text w path) (\<lambda>t. Inr (map (\<lambda>x. label @ '': missing token: '' @ x) (filter (\<lambda>x. \<not> contains t x) tokens))))"

definition forbid_tokens :: "env \<Rightarrow> string \<Rightarrow> string list \<Rightarrow> string \<Rightarrow> string list res" where
  "forbid_tokens w path tokens label =
     (if \<not> path_exists w path then Inr [label @ '': missing file '' @ path]
      else bindE (read_text w path) (\<lambda>t. Inr (map (\<lambda>x. label @ '': forbidden token present: '' @ x) (filter (contains t) tokens))))"

definition golden_images_main :: "env \<Rightarrow> string \<Rightarrow> string \<Rightarrow> (nat \<times> string list) res" where
  "golden_images_main w workflow release_doc =
     bindE (require_tokens w (path_str workflow) REQUIRED_IMAGE_TOKENS ''workflow'') (\<lambda>e1.
     bindE (forbid_tokens w (path_str workflow) FORBIDDEN_IMAGE_TOKENS ''workflow'') (\<lambda>e2.
     bindE (require_tokens w (path_str release_doc) IMAGE_DOC_TOKENS ''release-doc'') (\<lambda>e3.
     let errors = e1 @ e2 @ e3 in
     Inr (if errors \<noteq> [] then report_lines ''Golden images policy check failed:'' errors
          else (0, [''Golden images policy check: OK''])))))"

subsection \<open>The flow of the quickstart\<close>

text \<open>\<open>s.find(t)\<close>.\<close>

definition str_find :: "string \<Rightarrow> string \<Rightarrow> nat option" where
  "str_find s t = map_option (\<lambda>(a, _). length a) (str_partition t s)"

definition FLOW_TOKENS :: "string list" where
  "FLOW_TOKENS = [''Run the demo pipeline'', ''./scripts/demo'', ''grain-runner -- demo --strict'', ''Expected deterministic output'']"

definition late_bash :: "string \<Rightarrow> nat \<Rightarrow> bool" where
  "late_bash t first = list_ex (\<lambda>x. case str_find t x of Some n \<Rightarrow> n < first | None \<Rightarrow> False) [''spec/'', ''docs/llm/'']"

definition docs_flow_main :: "env \<Rightarrow> string \<Rightarrow> (nat \<times> string) res" where
  "docs_flow_main w root_dir =
     bindE (read_text w (path_join root_dir ''docs/human/quickstart.md'')) (\<lambda>t.
     case str_find t ''```bash'' of
       None \<Rightarrow> stop ''Quickstart flow check failed: missing runnable bash block.''
     | Some first \<Rightarrow>
         (let missing = filter (\<lambda>x. \<not> contains t x) FLOW_TOKENS in
          thenE (checks [(\<not> late_bash t first,
                ''Quickstart flow check failed: protocol references appear before first runnable command block.''),
             (missing = [], ''Quickstart flow check failed: missing required markers: '' @ strs_repr missing),
             (path_exists w (path_join root_dir ''docs/human/_expected/quickstart-output.json''),
                ''Quickstart flow check failed: missing docs/human/_expected/quickstart-output.json'')])
            (Inr (0, ''Quickstart flow check: OK''))))"

subsection \<open>Anchors of the frozen specification\<close>

abbreviation SPEC_NES :: string where "SPEC_NES \<equiv> ''spec/NES-v0.1.md''"
abbreviation SPEC_CDDL :: string where "SPEC_CDDL \<equiv> ''spec/schemas/grain-v0.1.cddl''"
abbreviation SPEC_FREEZE :: string where "SPEC_FREEZE \<equiv> ''spec/FREEZE-v0.1.md''"
abbreviation SPEC_FREEZE_CONFIRM :: string where "SPEC_FREEZE_CONFIRM \<equiv> ''spec/FREEZE-CONFIRMATION-v0.1.md''"
abbreviation SPEC_SCOPE :: string where "SPEC_SCOPE \<equiv> ''spec/SCOPE-v0.1.md''"
abbreviation SPEC_INTEROP :: string where "SPEC_INTEROP \<equiv> ''spec/INTEROP-v0.1.md''"
abbreviation SPEC_E2E :: string where "SPEC_E2E \<equiv> ''spec/profiles/e2e-profile.md''"
abbreviation SPEC_CBOR :: string where "SPEC_CBOR \<equiv> ''spec/profiles/cbor-profile.md''"
abbreviation SPEC_CONF_SPEC :: string where "SPEC_CONF_SPEC \<equiv> ''conformance/SPEC.md''"
abbreviation SPEC_RUNNER_V1 :: string where "SPEC_RUNNER_V1 \<equiv> ''conformance/contract/runner_v1.md''"

definition SPEC_DOCS :: "string list" where
  "SPEC_DOCS = [SPEC_NES, SPEC_CDDL, SPEC_FREEZE, SPEC_FREEZE_CONFIRM, SPEC_SCOPE, SPEC_INTEROP, SPEC_E2E, SPEC_CBOR, SPEC_CONF_SPEC, SPEC_RUNNER_V1]"

text \<open>A document must contain a text, or a file must be present; otherwise the message is given.\<close>

datatype spec_step = Anchor string string string | Present string string

definition SPEC_STEPS :: "spec_step list" where
  "SPEC_STEPS = [
     Anchor SPEC_NES (''v MUST be 1'') (''NES missing schema major rule (v MUST be 1).''),
     Anchor SPEC_CDDL (''Protocol schema major: 1'') (''CDDL missing schema major comment (Protocol schema major: 1).''),
     Anchor SPEC_NES (''cap_id MUST be generated using a cryptographically secure random number generator'') (''NES missing cap_id randomness MUST rule.''),
     Anchor SPEC_E2E (''cap_id MUST be generated using a cryptographically secure random number generator'') (''E2E profile missing cap_id randomness MUST rule.''),
     Anchor SPEC_FREEZE (''cap_id MUST be random'') (''Freeze statement missing cap_id randomness note.''),
     Anchor SPEC_FREEZE_CONFIRM (''cap_id` CSPRNG-only rule'') (''Freeze confirmation missing cap_id frozen anchor.''),
     Anchor SPEC_NES (''nonce_derived = HKDF-Expand'') (''NES missing nonce derivation anchor.''),
     Anchor SPEC_E2E (''nonce_derived = HKDF-Expand'') (''E2E profile missing nonce derivation anchor.''),
     Anchor SPEC_NES (''NONCE_PROFILE_MISMATCH'') (''NES missing nonce mismatch diagnostic anchor.''),
     Anchor SPEC_E2E (''NONCE_PROFILE_MISMATCH'') (''E2E profile missing nonce mismatch diagnostic anchor.''),
     Anchor SPEC_CONF_SPEC (''NONCE_PROFILE_MISMATCH'') (''Conformance SPEC missing nonce mismatch diagnostic anchor.''),
     Anchor SPEC_NES (''`ManifestRecord.op` MUST be exactly `'' @ [dquote] @ ''put'' @ [dquote] @ ''` or `'' @ [dquote] @ ''del'' @ [dquote] @ ''`'') (''NES missing ManifestRecord op-shape MUST rule.''),
     Anchor SPEC_E2E (''`op` MUST be exactly `'' @ [dquote] @ ''put'' @ [dquote] @ ''` or `'' @ [dquote] @ ''del'' @ [dquote] @ ''`'') (''E2E profile missing manifest op-shape MUST rule.''),
     Anchor SPEC_CDDL ([dquote] @ ''op'' @ [dquote] @ '': '' @ [dquote] @ ''put'' @ [dquote]) (''CDDL missing manifest put shape.''),
     Anchor SPEC_CDDL ([dquote] @ ''op'' @ [dquote] @ '': '' @ [dquote] @ ''del'' @ [dquote]) (''CDDL missing manifest del shape.''),
     Anchor SPEC_FREEZE (''Manifest op-shape is strict'') (''Freeze statement missing manifest op-shape freeze anchor.''),
     Anchor SPEC_FREEZE_CONFIRM (''Manifest semantics:'') (''Freeze confirmation missing manifest frozen section.''),
     Anchor SPEC_NES (''Strict Conformance Mode'') (''NES missing strict mode section.''),
     Anchor SPEC_CBOR (''Strict Conformance Mode'') (''CBOR profile missing strict mode section.''),
     Anchor SPEC_NES (''GRAIN_ERR_LIMIT'') (''NES missing strict-limit diagnostic anchor.''),
     Anchor SPEC_CBOR (''GRAIN_ERR_LIMIT'') (''CBOR profile missing strict-limit diagnostic anchor.''),
     Anchor SPEC_CONF_SPEC (''parse_cborseq_stream_v1'') (''Conformance SPEC missing raw CBOR-seq parse op.''),
     Anchor SPEC_CONF_SPEC (''e2e_derive_v1'') (''Conformance SPEC missing E2E derive op.''),
     Anchor SPEC_CONF_SPEC (''result mode is XOR'') (''Conformance SPEC missing CBOR-seq XOR result semantics anchor.''),
     Anchor SPEC_CONF_SPEC (''GRAIN_ERR_CBORSEQ_TRUNCATED'') (''Conformance SPEC missing CBOR-seq truncated diagnostic.''),
     Anchor SPEC_CONF_SPEC (''GRAIN_ERR_CBORSEQ_GARBAGE_TAIL'') (''Conformance SPEC missing CBOR-seq garbage-tail diagnostic.''),
     Anchor SPEC_CONF_SPEC (''GRAIN_ERR_CBORSEQ_INVALID_INITIAL_BYTE'') (''Conformance SPEC missing CBOR-seq invalid-initial diagnostic.''),
     Present ''adr/conformance/0001-wave-a-byte-level-ops.md'' (''Missing ADR for Wave A conformance contract extensions (adr/conformance/0001-wave-a-byte-level-ops.md).''),
     Anchor SPEC_NES (''Known type validation (MUST)'') (''NES missing known typed-object validation rule.''),
     Anchor SPEC_CDDL (''optional dagcbor_validate.object_type input'') (''CDDL missing typed-object selector comment.''),
     Anchor SPEC_CBOR (''Typed Object Validation v1'') (''CBOR profile missing typed-object validation section.''),
     Anchor SPEC_CONF_SPEC (''optional `object_type`'') (''Conformance SPEC missing optional typed-object selector.''),
     Anchor SPEC_RUNNER_V1 (''Additive `dagcbor_validate` typed context'') (''runner_v1 contract missing additive typed-object context.''),
     Anchor SPEC_CONF_SPEC (''GRAIN_ERR_MANIFEST_OP'') (''Conformance SPEC missing typed Manifest diagnostic.''),
     Present ''adr/protocol/0012-typed-object-validation-v1.md'' (''Missing ADR for Typed Object Validation v1 (adr/protocol/0012-typed-object-validation-v1.md).''),
     Anchor SPEC_INTEROP (''Strict Conformance Mode'') (''INTEROP spec missing strict-mode scope anchor.''),
     Anchor SPEC_INTEROP (''two independent implementations'') (''INTEROP spec missing dual-implementation claim anchor.''),
     Anchor SPEC_INTEROP (''Conformance criterion'') (''INTEROP spec missing conformance criterion anchor.''),
     Anchor SPEC_INTEROP (''Strong interoperability claim'') (''INTEROP spec missing strong claim anchor.''),
     Anchor SPEC_INTEROP (''no claim of truthfulness'') (''INTEROP spec missing non-claim boundary for truth.''),
     Anchor SPEC_INTEROP (''SHA-256'') (''INTEROP spec missing cryptographic assumptions anchor.''),
     Anchor SPEC_INTEROP (''evidence.sha256'') (''INTEROP spec missing evidence hash anchor.''),
     Anchor SPEC_SCOPE (''Domain-neutral core infrastructure'') (''SCOPE missing domain-neutral core anchor.''),
     Anchor SPEC_SCOPE (''food-first'') (''SCOPE missing food-first profile anchor.''),
     Anchor SPEC_SCOPE (''verifiable physical events'') (''SCOPE missing strategic direction anchor.''),
     Anchor SPEC_SCOPE (''No frozen-core change is required'') (''SCOPE missing additive expansion anchor.'')]"

definition spec_step_ok :: "env \<Rightarrow> string \<Rightarrow> spec_step \<Rightarrow> unit res" where
  "spec_step_ok w root_dir s =
     (case s of
        Anchor doc needle msg \<Rightarrow> bindE (read_text w (path_join root_dir doc)) (\<lambda>t. checks [(contains t needle, msg)])
      | Present p msg \<Rightarrow> checks [(path_exists w (path_join root_dir p), msg)])"

text \<open>All documents are read when the script is loaded, before the first anchor is looked for.\<close>

definition spec_drift_main :: "env \<Rightarrow> string \<Rightarrow> (nat \<times> string) res" where
  "spec_drift_main w root_dir =
     thenE (forE (\<lambda>doc. bindE (read_text w (path_join root_dir doc)) (\<lambda>_. Inr ())) SPEC_DOCS)
    (thenE (forE (spec_step_ok w root_dir) SPEC_STEPS)
       (Inr (0, ''Spec drift checks: OK'')))"

subsection \<open>Two packages with the same bytes\<close>

text \<open>The names of the archives of a directory and the bytes of a file, where there is one.\<close>

record package_host =
  pk_archives :: "string \<Rightarrow> string list"
  pk_bytes :: "string \<Rightarrow> string option"
  pk_sha256 :: "string \<Rightarrow> string"

definition pk_digest :: "package_host \<Rightarrow> string \<Rightarrow> string res" where
  "pk_digest h p = (case pk_bytes h p of None \<Rightarrow> Inl (FileNotFoundError p) | Some b \<Rightarrow> Inr (pk_sha256 h b))"

definition package_names :: "package_host \<Rightarrow> string \<Rightarrow> string list" where
  "package_names h first = py_sorted (remdups (pk_archives h first @ [''manifest.json'', ''SHA256SUMS'', ''sbom.spdx.json'']))"

definition compare_file :: "package_host \<Rightarrow> string \<Rightarrow> string \<Rightarrow> string \<Rightarrow> (string \<times> string \<times> bool) res" where
  "compare_file h first second name =
     bindE (pk_digest h (path_join first name)) (\<lambda>left.
     bindE (pk_digest h (path_join second name)) (\<lambda>right. Inr (name, left, left \<noteq> right)))"

definition compare_packages :: "package_host \<Rightarrow> string \<Rightarrow> string \<Rightarrow> dict res" where
  "compare_packages h first second =
     (let names_a = pk_archives h first; names_b = pk_archives h second in
      if names_a = [] \<or> set names_a \<noteq> set names_b then Inl (ValueError ''SDK_REPRO_ERR_ARTIFACT_SET'')
      else bindE (mapE (compare_file h first second) (package_names h first)) (\<lambda>rows.
        let mismatches = map fst (filter (\<lambda>(_, _, differs). differs) rows) in
        if mismatches \<noteq> [] then Inl (ValueError (''SDK_REPRO_ERR_BYTES: '' @ str_join '', '' mismatches))
        else Inr [(''schema'', JStr ''grain.sdk.package.reproducibility.v1''), (''pass'', JBool True),
                  (''artifact_count'', JInt (int (length (remdups names_a)))), (''file_count'', JInt (int (length rows))),
                  (''sha256'', JObj (map (\<lambda>(name, left, _). (name, JStr left)) rows))]))"

record compare_args =
  ca_first :: string
  ca_second :: string
  ca_report :: string

text \<open>The exit code, the report written and the line printed; nothing is written after an error.\<close>

definition compare_main :: "package_host \<Rightarrow> compare_args \<Rightarrow> (nat \<times> (string \<times> string) \<times> string) res" where
  "compare_main h args =
     bindE (compare_packages h (path_str (ca_first args)) (path_str (ca_second args))) (\<lambda>result.
     Inr (0, (path_str (ca_report args), dumps_indent 2 0 (sort_json (JObj result)) @ [newline]),
          ''SDK package reproducibility: PASS ('' @ json_str (dict_get result ''file_count'') @ '' identical files)''))"

subsection \<open>What the checks mean\<close>

lemma codeowners_covered:
  "(\<exists>out. codeowners_main w path = Inr (0, out)) \<longleftrightarrow>
     (\<exists>t. file_text w path = Some t \<and> set REQUIRED_PATTERNS \<subseteq> set (owned_patterns t))"
  by (auto simp: codeowners_main_def report_lines_def Let_def bindE_Inr read_text_Inr path_exists_def is_file_def filter_empty_conv)

lemma crlf_free:
  assumes "crlf_main h root_dir = Inr (0, out)" and "tracked_paths h root_dir = Inr ps" and "p \<in> set ps" and "tk_exists h p"
    and "\<not> crlf_is_binary p (tk_bytes h p)"
  shows "\<not> contains (tk_bytes h p) [CHR 0x0D, CHR 0x0A]"
proof -
  from assms(1,2) have "mapE (\<lambda>p. relative_to p root_dir) (filter (crlf_offender h) ps) = Inr []"
    by (auto simp: crlf_main_def report_lines_def bindE_Inr split: if_splits)
  then have "filter (crlf_offender h) ps = []" by (cases "filter (crlf_offender h) ps") (auto simp: bindE_Inr)
  with assms(3-5) show ?thesis by (auto simp: filter_empty_conv crlf_offender_def)
qed

text \<open>Every anchor is in its document, and the decision records are there.\<close>

lemma spec_anchors_hold:
  assumes "spec_drift_main w root_dir = Inr out"
  shows "Anchor doc needle msg \<in> set SPEC_STEPS \<Longrightarrow> \<exists>t. file_text w (path_join root_dir doc) = Some t \<and> contains t needle"
    and "Present p msg' \<in> set SPEC_STEPS \<Longrightarrow> path_exists w (path_join root_dir p)"
proof -
  from assms have "\<forall>s\<in>set SPEC_STEPS. spec_step_ok w root_dir s = Inr ()"
    by (auto simp: spec_drift_main_def thenE_Inr forE_Inr simp del: forE.simps)
  then show "Anchor doc needle msg \<in> set SPEC_STEPS \<Longrightarrow> \<exists>t. file_text w (path_join root_dir doc) = Some t \<and> contains t needle"
    "Present p msg' \<in> set SPEC_STEPS \<Longrightarrow> path_exists w (path_join root_dir p)"
    by (auto simp: spec_step_ok_def bindE_Inr read_text_Inr checks_Inr simp del: checks.simps split: spec_step.splits)
qed

text \<open>C19: a reproducibility report is a promise about bytes. When the comparison of two package directories succeeds
and the digest has no collision on their files, then both hold the same archives, at least one, and every
archive, the manifest, the checksums and the SBOM are byte for byte the same.\<close>

theorem packages_identical:
  assumes "compare_packages h first second = Inr report"
    and "inj_on (pk_sha256 h) {b. \<exists>p. pk_bytes h p = Some b}"
  shows "pk_archives h first \<noteq> [] \<and> set (pk_archives h first) = set (pk_archives h second) \<and>
    (\<forall>name\<in>set (pk_archives h first) \<union> {''manifest.json'', ''SHA256SUMS'', ''sbom.spdx.json''}.
       \<exists>b. pk_bytes h (path_join first name) = Some b \<and> pk_bytes h (path_join second name) = Some b)"
proof -
  from assms(1) obtain rows where sets: "pk_archives h first \<noteq> []" "set (pk_archives h first) = set (pk_archives h second)"
      and rows: "mapE (compare_file h first second) (package_names h first) = Inr rows" "\<forall>r\<in>set rows. \<not> snd (snd r)"
    by (auto simp: compare_packages_def Let_def bindE_Inr filter_empty_conv case_prod_beta split: if_splits)
  have "\<exists>b. pk_bytes h (path_join first name) = Some b \<and> pk_bytes h (path_join second name) = Some b"
    if "name \<in> set (package_names h first)" for name
  proof -
    from rows(1) that obtain r where r: "r \<in> set rows" "compare_file h first second name = Inr r"
      by (blast dest: mapE_value)
    then obtain a b where ab: "pk_bytes h (path_join first name) = Some a" "pk_bytes h (path_join second name) = Some b"
        "r = (name, pk_sha256 h a, pk_sha256 h a \<noteq> pk_sha256 h b)"
      by (auto simp: compare_file_def pk_digest_def bindE_Inr split: option.splits)
    with rows(2) r(1) have "pk_sha256 h a = pk_sha256 h b" by auto
    with assms(2) ab(1,2) have "a = b" by (auto dest: inj_onD)
    with ab show ?thesis by blast
  qed
  moreover have "set (package_names h first) = set (pk_archives h first) \<union> {''manifest.json'', ''SHA256SUMS'', ''sbom.spdx.json''}"
    by (auto simp: package_names_def)
  ultimately show ?thesis using sets by blast
qed

definition ex_packages :: package_host where
  "ex_packages = \<lparr>pk_archives = (\<lambda>_. [''a.tar.gz'']), pk_bytes = (\<lambda>p. Some (path_name p)), pk_sha256 = id\<rparr>"

theorem packages_identical_witness:
  "\<exists>b. pk_bytes ex_packages (path_join ''x'' ''a.tar.gz'') = Some b \<and> pk_bytes ex_packages (path_join ''y'' ''a.tar.gz'') = Some b"
proof -
  have "(case compare_packages ex_packages ''x'' ''y'' of Inr _ \<Rightarrow> True | _ \<Rightarrow> False)" by code_simp
  then obtain report where run: "compare_packages ex_packages ''x'' ''y'' = Inr report" by (auto split: sum.splits)
  have "inj_on (pk_sha256 ex_packages) {b. \<exists>p. pk_bytes ex_packages p = Some b}" by (simp add: ex_packages_def)
  from packages_identical [OF run this] show ?thesis by (auto simp: ex_packages_def)
qed

end
