(* ===== verification/DocPolicies.thy ===== *)
theory DocPolicies
  imports AuditInvariants Checks PyHost
begin

text \<open>
  Checks over documents and sources under \<open>tools/ci\<close>: \<open>check_maintainer_docs.py\<close>, \<open>check_real_app_docs.py\<close>,
  \<open>check_release_train_docs.py\<close>, \<open>check_docs_links.py\<close>, \<open>check_quickstart_smoke.py\<close> and \<open>check_sdk_ai_boundary.py\<close>. The
  first three are loops over rules; the locale \<open>doc_guard\<close> states what they share.
\<close>

subsection \<open>Documents that must contain texts\<close>

text \<open>The loop over the rules: what each finds missing, and the message with all of it.\<close>

definition rules_main :: "('r \<Rightarrow> string list res) \<Rightarrow> 'r list \<Rightarrow> string \<Rightarrow> string \<Rightarrow> string \<Rightarrow> (nat \<times> string) res" where
  "rules_main look rules failure sep success =
     bindE (mapE look rules) (\<lambda>ms.
     if concat ms \<noteq> [] then stop (failure @ sep @ str_join sep (concat ms)) else Inr (0, success))"

definition missing_all_of :: "string \<Rightarrow> string list \<Rightarrow> string list" where
  "missing_all_of t tokens = filter (\<lambda>token. \<not> contains t token) tokens"

definition missing_any_of :: "string \<Rightarrow> string list list \<Rightarrow> string list" where
  "missing_any_of t groups =
     map (\<lambda>options. str_join '' or '' (map (\<lambda>option. ''`'' @ option @ ''`'') options))
       (filter (\<lambda>options. \<not> list_ex (contains t) options) groups)"

record doc_rule =
  dr_path :: string
  dr_all :: "string list"
  dr_any :: "string list list"

definition MAINTAINER_RULES :: "doc_rule list" where
  "MAINTAINER_RULES = [
     \<lparr>dr_path = ''README.md'',
       dr_all = [''docs/human/maintainer-start-here.md'', ''docs/human/start-here.md'', ''./scripts/bootstrap'',
                 ''./scripts/demo''],
       dr_any = []\<rparr>,
     \<lparr>dr_path = ''CONTRIBUTING.md'',
       dr_all = [''docs/human/maintainer-start-here.md'', ''docs/human/maintainer-writing.md'', ''./scripts/doctor'',
                 ''./scripts/bootstrap'', ''./scripts/demo''],
       dr_any = []\<rparr>,
     \<lparr>dr_path = ''docs/human/start-here.md'',
       dr_all = [''./scripts/doctor'', ''./scripts/verify'', ''./scripts/bootstrap'', ''./scripts/demo''],
       dr_any = [[''Maintainer path'', ''maintainer-start-here.md''], [''maintain the repo'', ''maintainer-start-here.md'']]\<rparr>,
     \<lparr>dr_path = ''docs/human/maintainer-start-here.md'',
       dr_all = [''./scripts/doctor'', ''./scripts/verify'', ''./scripts/bootstrap'', ''./scripts/demo'',
                 ''docs/human/release-process.md'', ''docs/human/repository-settings.md'',
                 ''conformance/security-regressions.v1.json''],
       dr_any = []\<rparr>,
     \<lparr>dr_path = ''docs/human/maintainer-writing.md'',
       dr_all = [],
       dr_any = [[''short sentences'', ''short sentence''], [''active voice''], [''friendly'', ''warm'']]\<rparr>]"

definition maintainer_rule :: "env \<Rightarrow> string \<Rightarrow> doc_rule \<Rightarrow> string list res" where
  "maintainer_rule w root_dir rule =
     bindE (read_text w (path_join root_dir (dr_path rule))) (\<lambda>t.
     Inr (map (\<lambda>token. dr_path rule @ '': missing `'' @ token @ ''`'') (missing_all_of t (dr_all rule)) @
          map (\<lambda>options. dr_path rule @ '': missing one of '' @ options) (missing_any_of t (dr_any rule))))"

definition maintainer_main :: "env \<Rightarrow> string \<Rightarrow> (nat \<times> string) res" where
  "maintainer_main w root_dir =
     rules_main (maintainer_rule w root_dir) MAINTAINER_RULES ''Maintainer docs front-door check failed:'' [newline]
       ''maintainer docs front-door: OK''"

definition REAL_APP_RULES :: "(string \<times> string list) list" where
  "REAL_APP_RULES = [
     (''docs/human/sdk/distribution-roadmap.md'',
       [''# SDK Distribution Roadmap'', ''## Current Channel: Source-Only Handoff'',
        ''## Future Registry Channels'', ''SwiftPM'', ''Maven'', ''npm'', ''## Not Yet Published'',
        ''## Thin UX Layers'', ''phone'', ''glasses'', ''robot'', ''source-only'']),
     (''docs/human/sdk/custody-threat-model.md'',
       [''# SDK Custody Threat Model'', ''## Trust Boundary'', ''Keychain'', ''Keystore'', ''IndexedDB'',
        ''snapshot export'', ''local trust bundle'', ''no secret logging'', ''## Platform Custody Rules'',
        ''## Misuse Cases'', ''## App Handoff Checklist'']),
     (''docs/superpowers/plans/2026-05-05-real-app-sdk-roadmap.md'',
       [''Distribution and custody hardening'', ''docs/human/sdk/distribution-roadmap.md'',
        ''docs/human/sdk/custody-threat-model.md'', ''source-only now''])]"

definition missing_tokens_of :: "string \<Rightarrow> string list \<Rightarrow> string \<Rightarrow> string list" where
  "missing_tokens_of rel tokens t = map (\<lambda>token. rel @ '': missing `'' @ token @ ''`'') (missing_all_of t tokens)"

definition real_app_rule :: "env \<Rightarrow> string \<Rightarrow> string \<times> string list \<Rightarrow> string list res" where
  "real_app_rule w root_dir = (\<lambda>(rel, tokens).
     if \<not> path_exists w (path_join root_dir rel) then Inr [rel @ '': missing file'']
     else bindE (read_text w (path_join root_dir rel)) (\<lambda>t. Inr (missing_tokens_of rel tokens t)))"

definition real_app_main :: "env \<Rightarrow> string \<Rightarrow> (nat \<times> string) res" where
  "real_app_main w root_dir =
     rules_main (real_app_rule w root_dir) REAL_APP_RULES ''Real-app docs check failed:'' [newline] ''real-app docs: OK''"

definition RELEASE_TRAIN_TOKENS :: "(string \<times> string list) list" where
  "RELEASE_TRAIN_TOKENS = [
     (''docs/human/sdk/security-review.md'',
       [''# SDK Security Review'', ''Replay'', ''trust injection'', ''snapshot leakage'', ''pairing misuse'',
        ''unsafe logs'', ''backup'', ''app-shell divergence'', ''no secret telemetry'', ''custody adapter'',
        ''release evidence'']),
     (''docs/human/sdk/release-train.md'',
       [''# SDK Release Train'', ''Protocol/core'', ''SDK source'', ''starter-template'', ''registry-ready'',
        ''app release'', ''Registry, store, and hardware claims require explicit release evidence'',
        ''source-only''])]"

definition release_train_rule :: "env \<Rightarrow> string \<Rightarrow> string \<times> string list \<Rightarrow> string list res" where
  "release_train_rule w root_dir = (\<lambda>(rel, tokens).
     if \<not> is_file w (path_join root_dir rel) then Inr [rel @ '': missing file'']
     else bindE (read_text w (path_join root_dir rel)) (\<lambda>t. Inr (missing_tokens_of rel tokens t)))"

definition release_train_main :: "env \<Rightarrow> (string \<Rightarrow> string) \<Rightarrow> string \<Rightarrow> (nat \<times> string) res" where
  "release_train_main w resolve_path root_arg =
     rules_main (release_train_rule w (resolve_path root_arg)) RELEASE_TRAIN_TOKENS ''RELEASE_TRAIN_DOCS_ERR_MISSING_TOKEN:''
       ([newline] @ ''- '') ''Release train docs guard: OK''"

subsection \<open>Links between documents\<close>

definition fixed_md_files :: "string list" where
  "fixed_md_files = [''README.md'', ''sdk/README.md'', ''sdk/swift/README.md'', ''sdk/kotlin/README.md'', ''sdk/wasm/README.md'']"

definition md_trees :: "string list" where
  "md_trees = [''docs/human'', ''docs/llm'', ''sdk/workflows'', ''sdk/trust'', ''examples'']"

definition md_files :: "env \<Rightarrow> string \<Rightarrow> string list" where
  "md_files w root_dir =
     map (path_join root_dir) fixed_md_files @
     concat (map (\<lambda>d. sort_key path_parts (dir_glob w (path_join root_dir d) ''**/*.md'')) md_trees)"

definition LINK_RE :: matcher where
  "LINK_RE = capture (RSeqs [RLit ''['', RPlus (RCls (\<lambda>c. c \<noteq> CHR '']'')), RLit ''](''])
     (ends (RPlus (RCls (\<lambda>c. c \<noteq> CHR '')'')))) (RLit '')'')"

definition chr_is_scheme :: "char \<Rightarrow> bool" where
  "chr_is_scheme c = (chr_is_ascii_alpha c \<or> chr_is_ascii_digit c \<or> c \<in> {CHR ''+'', CHR ''.'', CHR ''-''})"

definition SCHEME_RE :: "char regex" where
  "SCHEME_RE = RSeqs [RBos, RCls chr_is_ascii_alpha, RStar (RCls chr_is_scheme), RLit '':'']"

definition normalize_target :: "string \<Rightarrow> string" where
  "normalize_target raw =
     (let target = str_strip raw;
          first = (if contains target '' '' \<and> \<not> starts_with target ''<'' then takeWhile (\<lambda>c. c \<noteq> CHR '' '') target else target)
      in if starts_with first ''<'' \<and> ends_with first ''>'' then butlast (tl first) else first)"

text \<open>The part of a target before its anchor, for a target that names a file.\<close>

definition link_path :: "string \<Rightarrow> string option" where
  "link_path target =
     (if target = [] \<or> starts_with target ''#'' then None
      else if re_match SCHEME_RE target then None
      else let path_only = takeWhile (\<lambda>c. c \<noteq> CHR ''#'') target in if path_only = [] then None else Some path_only)"

text \<open>\<open>md.parent / path_only\<close>: an absolute path replaces the directory.\<close>

definition link_target :: "string \<Rightarrow> string \<Rightarrow> string" where
  "link_target md path_only = (if path_is_absolute path_only then path_only else path_join (path_parent md) path_only)"

definition broken_link :: "env \<Rightarrow> (string \<Rightarrow> string) \<Rightarrow> string \<Rightarrow> string \<Rightarrow> bool" where
  "broken_link w resolve_path md target =
     (case link_path target of None \<Rightarrow> False | Some p \<Rightarrow> \<not> path_exists w (resolve_path (link_target md p)))"

definition file_links :: "env \<Rightarrow> (string \<Rightarrow> string) \<Rightarrow> string \<Rightarrow> string \<Rightarrow> string list res" where
  "file_links w resolve_path root_dir md =
     bindE (read_text w md) (\<lambda>t.
     mapE (\<lambda>target. bindE (relative_to md root_dir) (\<lambda>rel. Inr (rel @ '' -> '' @ target)))
       (filter (broken_link w resolve_path md) (map normalize_target (finds LINK_RE [] t))))"

definition links_main :: "env \<Rightarrow> (string \<Rightarrow> string) \<Rightarrow> string \<Rightarrow> (nat \<times> string) res" where
  "links_main w resolve_path root_dir =
     bindE (mapE (file_links w resolve_path root_dir) (md_files w root_dir)) (\<lambda>ms.
     if concat ms \<noteq> [] then stop (''Broken markdown links:'' @ [newline] @ str_join [newline] (concat ms))
     else Inr (0, ''Docs link check: OK ('' @ nat_str (length (md_files w root_dir)) @ '' markdown files)''))"

subsection \<open>The quickstart command\<close>

text \<open>What running a command answers: its exit code and what it prints.\<close>

record smoke_run =
  sr_code :: int
  sr_out :: string
  sr_err :: string

definition smoke_cmd :: "string list \<Rightarrow> string list" where
  "smoke_cmd cmd = (case cmd of x # xs \<Rightarrow> if x = ''--'' then xs else cmd | [] \<Rightarrow> [])"

definition line_object :: "env \<Rightarrow> string \<Rightarrow> json list" where
  "line_object w line =
     (let l = str_strip line in
      if l = [] then [] else case json_loads w l of Some (JObj d) \<Rightarrow> [JObj d] | _ \<Rightarrow> [])"

definition parse_last_json_line :: "env \<Rightarrow> string \<Rightarrow> json res" where
  "parse_last_json_line w out =
     (case rev (concat (map (line_object w) (str_splitlines out))) of
        [] \<Rightarrow> stop ''Quickstart smoke failed: runner output did not contain JSON object.''
      | v # _ \<Rightarrow> Inr v)"

definition quickstart_main :: "env \<Rightarrow> (string list \<Rightarrow> smoke_run res) \<Rightarrow> string \<Rightarrow> string list \<Rightarrow> (nat \<times> string) res" where
  "quickstart_main w run_cmd expected_path runner_cmd =
     (let cmd = smoke_cmd runner_cmd in
      if cmd = [] then stop ''Quickstart smoke failed: --runner-cmd requires command tokens.''
      else bindE (run_cmd cmd) (\<lambda>r.
        if sr_code r \<noteq> 0
        then stop (''Quickstart smoke failed: demo command returned non-zero.'' @ [newline] @ ''stdout:'' @ [newline] @ sr_out r @ [newline] @
                   ''stderr:'' @ [newline] @ sr_err r)
        else bindE (parse_last_json_line w (sr_out r)) (\<lambda>actual.
          bindE (read_json w (path_str expected_path)) (\<lambda>expected.
          if \<not> py_eq actual expected
          then stop (''Quickstart smoke output mismatch.'' @ [newline] @ ''Expected:'' @ [newline] @ dumps_ascii expected @ [newline] @
                     ''Actual:'' @ [newline] @ dumps_ascii actual)
          else Inr (0, ''Quickstart smoke: OK'')))))"

subsection \<open>The boundary between the SDK core and the AI sidecar\<close>

definition chr_is_import_quote :: "char \<Rightarrow> bool" where
  "chr_is_import_quote c = (c = dquote \<or> c = squote)"

definition IMPORT_RE :: matcher where
  "IMPORT_RE = capture (RSeqs [RLit ''from'', RPlus (RCls chr_is_space), RCls chr_is_import_quote])
     (ends (RPlus (RCls (\<lambda>c. \<not> chr_is_import_quote c)))) (RCls chr_is_import_quote)"

definition SDK_EXPORT_BLOCKLIST :: "string list" where
  "SDK_EXPORT_BLOCKLIST = [''AcceptedToken'', ''AICandidateEnvelopeV1'', ''AIExplainChunk'', ''AIInput'', ''AcceptOptions'', ''ApplyOptions'', ''./ai/'']"

definition ALLOWED_SIDECAR_IMPORTS :: "string list" where
  "ALLOWED_SIDECAR_IMPORTS = [''grain-sdk-ts/ai-host'', ''grain-sdk-ts/errors'']"

definition CREATE_HOST_RE :: "char regex" where
  "CREATE_HOST_RE = RSeqs [RWordB, RLit ''createAiHost'', RStar (RCls chr_is_space), RLit ''('']"

abbreviation SDK_SRC :: string where "SDK_SRC \<equiv> ''core/ts/grain-sdk/src''"
abbreviation AI_SRC :: string where "AI_SRC \<equiv> ''core/ts/grain-sdk-ai/src''"

definition imports_sidecar :: "string \<Rightarrow> bool" where
  "imports_sidecar t =
     (contains t ''grain-sdk-ai'' \<or> contains t (''from '' @ [dquote] @ ''./ai/'') \<or> contains t (''from '' @ [dquote] @ ''../ai/''))"

definition core_file :: "env \<Rightarrow> string \<Rightarrow> string \<Rightarrow> string list res" where
  "core_file w root_dir p =
     bindE (read_text w p) (\<lambda>t.
     bindE (relative_to p root_dir) (\<lambda>rel.
     Inr (if imports_sidecar t then [rel @ '': SDK core must not import AI sidecar modules''] else [])))"

text \<open>What one optional source of the SDK core must not contain, given its text.\<close>

definition if_exists :: "env \<Rightarrow> string \<Rightarrow> (string \<Rightarrow> string list) \<Rightarrow> string list res" where
  "if_exists w p look = (if path_exists w p then bindE (read_text w p) (\<lambda>t. Inr (look t)) else Inr [])"

definition index_errors :: "string \<Rightarrow> string list" where
  "index_errors t =
     map (\<lambda>token. SDK_SRC @ ''/index.ts: remove AI export surface token '' @ str_repr token) (filter (contains t) SDK_EXPORT_BLOCKLIST)"

definition class_errors :: "string \<Rightarrow> string list" where
  "class_errors t =
     (if re_search CREATE_HOST_RE t then [SDK_SRC @ ''/sdk.ts: default SDK API must not expose createAiHost()''] else [])"

definition host_errors :: "string \<Rightarrow> string list" where
  "host_errors t =
     (if contains t ''store.objects.put(cid, bytes)'' \<and> \<not> contains t ''actualCid !== cid''
      then [SDK_SRC @ ''/ai-host.ts: putObject must verify cid == deriveCid(bytes) before write''] else []) @
     (if contains t ''async putObject(cid: string, bytes: Uint8Array)'' \<and> \<not> contains t ''SDK_ERR_AI_CID_MISMATCH''
      then [SDK_SRC @ ''/ai-host.ts: putObject must reject cid mismatch with SDK_ERR_AI_CID_MISMATCH''] else [])"

definition import_errors :: "string \<Rightarrow> string \<Rightarrow> string list" where
  "import_errors rel target =
     (if starts_with target ''grain-sdk-ts'' \<and> target \<notin> set ALLOWED_SIDECAR_IMPORTS
      then [rel @ '': AI sidecar import '' @ str_repr target @ '' exceeds allowed SDK bridge surface''] else []) @
     (if contains target SDK_SRC \<or> contains target ''/grain-sdk/src/''
      then [rel @ '': AI sidecar must not reach into SDK source paths ('' @ str_repr target @ '')''] else [])"

definition should_scan_ai :: "env \<Rightarrow> string \<Rightarrow> bool" where
  "should_scan_ai w p = (is_file w p \<and> path_suffix p = ''.ts'')"

definition sidecar_file :: "env \<Rightarrow> string \<Rightarrow> string \<Rightarrow> string list res" where
  "sidecar_file w root_dir p =
     (if \<not> should_scan_ai w p then Inr []
      else bindE (relative_to p root_dir) (\<lambda>rel.
        bindE (read_text w p) (\<lambda>t. Inr (concat (map (import_errors rel) (finds IMPORT_RE [] t))))))"

definition ts_files :: "env \<Rightarrow> string \<Rightarrow> string list" where
  "ts_files w dir = sort_key path_parts (dir_glob w dir ''**/*.ts'')"

definition ai_boundary_main :: "env \<Rightarrow> string \<Rightarrow> (nat \<times> string) res" where
  "ai_boundary_main w root_dir =
     (let src = path_join root_dir SDK_SRC in
      bindE (mapE (core_file w root_dir) (ts_files w src)) (\<lambda>core.
      bindE (if_exists w (path_join src ''index.ts'') index_errors) (\<lambda>index.
      bindE (if_exists w (path_join src ''sdk.ts'') class_errors) (\<lambda>class_es.
      bindE (if_exists w (path_join src ''ai-host.ts'') host_errors) (\<lambda>host.
      bindE (mapE (sidecar_file w root_dir) (ts_files w (path_join root_dir AI_SRC))) (\<lambda>sidecar.
      let violations =
        (if path_exists w (path_join src ''ai'')
         then [''core/ts/grain-sdk/src/ai should not exist; AI must live in core/ts/grain-sdk-ai''] else []) @
        concat core @ index @ class_es @ host @ concat sidecar in
      if violations \<noteq> []
      then stop (''SDK AI boundary guard violations:'' @ [newline] @ ''- '' @ str_join ([newline] @ ''- '') violations)
      else Inr (0, ''SDK AI boundary guard: OK'')))))))"

subsection \<open>What the checks mean\<close>

locale doc_guard =
  fixes look :: "'r \<Rightarrow> string list res" and ok :: "'r \<Rightarrow> bool"
  assumes finds_nothing: "look r = Inr [] \<longleftrightarrow> ok r"
begin

lemma accepts: "(\<exists>out. rules_main look rules failure sep success = Inr out) \<longleftrightarrow> (\<forall>r\<in>set rules. ok r)"
proof -
  have "(\<exists>out. rules_main look rules failure sep success = Inr out) \<longleftrightarrow> (\<exists>ms. mapE look rules = Inr ms \<and> concat ms = [])"
    by (auto simp: rules_main_def bindE_Inr simp del: concat_eq_Nil_conv)
  then show ?thesis unfolding mapE_concat_Nil finds_nothing .
qed

end

text \<open>A document is there and contains every text of a list.\<close>

definition doc_has :: "env \<Rightarrow> string \<Rightarrow> string list \<Rightarrow> bool" where
  "doc_has w p tokens \<longleftrightarrow> (\<exists>t. file_text w p = Some t \<and> list_all (contains t) tokens)"

definition rule_holds :: "env \<Rightarrow> string \<Rightarrow> doc_rule \<Rightarrow> bool" where
  "rule_holds w root_dir rule \<longleftrightarrow>
     (\<exists>t. file_text w (path_join root_dir (dr_path rule)) = Some t \<and> list_all (contains t) (dr_all rule) \<and>
          list_all (list_ex (contains t)) (dr_any rule))"

interpretation maintainer: doc_guard "maintainer_rule w root_dir" "rule_holds w root_dir"
  by unfold_locales
    (auto simp: maintainer_rule_def rule_holds_def bindE_Inr read_text_Inr missing_all_of_def missing_any_of_def filter_empty_conv list_all_iff)

interpretation real_app: doc_guard "real_app_rule w root_dir" "\<lambda>(rel, tokens). doc_has w (path_join root_dir rel) tokens"
  by unfold_locales
    (auto simp: real_app_rule_def doc_has_def path_exists_def is_file_def bindE_Inr read_text_Inr missing_tokens_of_def missing_all_of_def
      filter_empty_conv list_all_iff split: if_splits)

interpretation release_train: doc_guard "release_train_rule w root_dir" "\<lambda>(rel, tokens). doc_has w (path_join root_dir rel) tokens"
  by unfold_locales
    (auto simp: release_train_rule_def doc_has_def is_file_def bindE_Inr read_text_Inr missing_tokens_of_def missing_all_of_def
      filter_empty_conv list_all_iff split: if_splits)

lemma docs_checked:
  "(\<exists>out. maintainer_main w root_dir = Inr out) \<longleftrightarrow> (\<forall>rule\<in>set MAINTAINER_RULES. rule_holds w root_dir rule)"
  "(\<exists>out. real_app_main w root_dir = Inr out) \<longleftrightarrow>
     (\<forall>(rel, tokens)\<in>set REAL_APP_RULES. doc_has w (path_join root_dir rel) tokens)"
  "(\<exists>out. release_train_main w resolve_path root_arg = Inr out) \<longleftrightarrow>
     (\<forall>(rel, tokens)\<in>set RELEASE_TRAIN_TOKENS. doc_has w (path_join (resolve_path root_arg) rel) tokens)"
  unfolding maintainer_main_def real_app_main_def release_train_main_def
  by (rule maintainer.accepts real_app.accepts release_train.accepts)+

text \<open>Every link that names a file leads to one.\<close>

lemma links_resolve:
  assumes "links_main w resolve_path root_dir = Inr out" and "md \<in> set (md_files w root_dir)"
  shows "\<exists>t. file_text w md = Some t \<and>
    (\<forall>raw\<in>set (finds LINK_RE [] t). \<forall>p. link_path (normalize_target raw) = Some p \<longrightarrow> path_exists w (resolve_path (link_target md p)))"
proof -
  from assms(1) have "\<exists>ms. mapE (file_links w resolve_path root_dir) (md_files w root_dir) = Inr ms \<and> concat ms = []"
    by (auto simp: links_main_def bindE_Inr simp del: concat_eq_Nil_conv split: if_splits)
  then have "file_links w resolve_path root_dir md = Inr []" unfolding mapE_concat_Nil using assms(2) by blast
  then obtain t where t: "file_text w md = Some t"
      and "filter (broken_link w resolve_path md) (map normalize_target (finds LINK_RE [] t)) = []"
    by (auto simp: file_links_def bindE_Inr read_text_Inr mapE_Inr)
  then have "\<forall>raw\<in>set (finds LINK_RE [] t). \<not> broken_link w resolve_path md (normalize_target raw)"
    by (auto simp: filter_empty_conv)
  then show ?thesis using t by (auto simp: broken_link_def)
qed

text \<open>The last object the command prints is the expected one.\<close>

lemma quickstart_reproduces:
  assumes "quickstart_main w run_cmd expected_path runner_cmd = Inr out"
  shows "\<exists>r actual expected. run_cmd (smoke_cmd runner_cmd) = Inr r \<and> sr_code r = 0 \<and>
    parse_last_json_line w (sr_out r) = Inr actual \<and> document w (path_str expected_path) = Some expected \<and> py_eq actual expected"
  using assms by (auto simp: quickstart_main_def Let_def bindE_Inr read_json_document split: if_splits)

text \<open>No source of the core names the sidecar, and the sidecar imports from the core only through its bridge.\<close>

lemma boundary_kept:
  assumes "ai_boundary_main w root_dir = Inr out"
  shows "p \<in> set (dir_glob w (path_join root_dir SDK_SRC) ''**/*.ts'') \<Longrightarrow> \<exists>t. file_text w p = Some t \<and> \<not> imports_sidecar t"
    and "q \<in> set (dir_glob w (path_join root_dir AI_SRC) ''**/*.ts'') \<Longrightarrow> should_scan_ai w q \<Longrightarrow>
      \<exists>t. file_text w q = Some t \<and> (\<forall>target\<in>set (finds IMPORT_RE [] t).
        (starts_with target ''grain-sdk-ts'' \<longrightarrow> target \<in> set ALLOWED_SIDECAR_IMPORTS) \<and> \<not> contains target SDK_SRC)"
proof -
  from assms have core: "\<exists>vs. mapE (core_file w root_dir) (ts_files w (path_join root_dir SDK_SRC)) = Inr vs \<and> concat vs = []"
      and sidecar: "\<exists>vs. mapE (sidecar_file w root_dir) (ts_files w (path_join root_dir AI_SRC)) = Inr vs \<and> concat vs = []"
    by (auto simp: ai_boundary_main_def Let_def bindE_Inr simp del: concat_eq_Nil_conv split: if_splits)
  { assume "p \<in> set (dir_glob w (path_join root_dir SDK_SRC) ''**/*.ts'')"
    with core have "core_file w root_dir p = Inr []" unfolding mapE_concat_Nil by (simp add: ts_files_def)
    then show "\<exists>t. file_text w p = Some t \<and> \<not> imports_sidecar t"
      by (auto simp: core_file_def bindE_Inr read_text_Inr split: if_splits) }
  assume "q \<in> set (dir_glob w (path_join root_dir AI_SRC) ''**/*.ts'')" and scan: "should_scan_ai w q"
  with sidecar have "sidecar_file w root_dir q = Inr []" unfolding mapE_concat_Nil by (simp add: ts_files_def)
  with scan obtain t rel where t: "file_text w q = Some t" "\<forall>target\<in>set (finds IMPORT_RE [] t). import_errors rel target = []"
    by (auto simp: sidecar_file_def bindE_Inr read_text_Inr)
  then show "\<exists>t. file_text w q = Some t \<and> (\<forall>target\<in>set (finds IMPORT_RE [] t).
      (starts_with target ''grain-sdk-ts'' \<longrightarrow> target \<in> set ALLOWED_SIDECAR_IMPORTS) \<and> \<not> contains target SDK_SRC)"
    by (intro exI [of _ t]) (auto simp: import_errors_def split: if_splits)
qed

end
