(* ===== verification/RuntimePins.thy ===== *)
theory RuntimePins
  imports AuditInvariants ReportScan EvidenceHash
begin

text \<open>
  The pins of the tool chain and helpers of the workflows under \<open>tools/ci\<close>: \<open>check_toolchain_bootstrap.py\<close>,
  \<open>check_node_runtime_pin.py\<close>, \<open>find_regex_match.py\<close> and \<open>build_inputs_hashes.py\<close>. The TOML parser, the compiler of
  regular expressions and the digest are parameters.
\<close>

type_synonym toml_parser = "string \<Rightarrow> json option"

definition read_toml :: "toml_parser \<Rightarrow> env \<Rightarrow> string \<Rightarrow> json res" where
  "read_toml toml w p =
     bindE (read_text w p) (\<lambda>t. case toml t of None \<Rightarrow> Inl (ValueError p) | Some v \<Rightarrow> Inr v)"

lemma read_toml_Inr [res_simps]:
  "read_toml toml w p = Inr v \<longleftrightarrow> (\<exists>t. file_text w p = Some t \<and> toml t = Some v)"
  by (auto simp: read_toml_def bindE_Inr read_text_Inr split: option.splits)

text \<open>The exit code and the lines printed.\<close>

definition pin_verdict :: "string \<Rightarrow> string \<Rightarrow> string list \<Rightarrow> nat \<times> string list" where
  "pin_verdict failure success errors =
     (if errors \<noteq> [] then (1, failure # map (\<lambda>e. ''- '' @ e) errors) else (0, [success]))"

subsection \<open>The tool chain\<close>

definition chr_is_version :: "char \<Rightarrow> bool" where
  "chr_is_version c = (c \<noteq> dquote \<and> c \<noteq> squote \<and> c \<noteq> newline)"

definition opt_quote :: "char regex" where
  "opt_quote = ROpt (RCls (\<lambda>c. c = dquote \<or> c = squote))"

definition PYTHON_VERSION_RE :: matcher where
  "PYTHON_VERSION_RE = capture (RSeqs [RLit ''python-version:'', RStar (RCls chr_is_space), opt_quote])
     (ends (RPlus (RCls chr_is_version))) opt_quote"

text \<open>In the order of \<open>sorted\<close>.\<close>

definition REQUIRED_TASKS :: "string list" where
  "REQUIRED_TASKS = [''bootstrap'', ''certify'', ''doctor'', ''verify'']"

definition github_yaml_files :: "env \<Rightarrow> string \<Rightarrow> string list" where
  "github_yaml_files w root_dir = sort_key path_parts (dir_glob w (path_join root_dir ''.github'') ''**/*.yml'')"

definition python_versions :: "env \<Rightarrow> string \<Rightarrow> string list res" where
  "python_versions w root_dir =
     bindE (mapE (\<lambda>p. bindE (read_text w p) (\<lambda>t. Inr (finds PYTHON_VERSION_RE [] t))) (github_yaml_files w root_dir)) (\<lambda>vs.
     Inr (py_sorted (remdups (concat vs))))"

definition missing_tasks :: "json \<Rightarrow> string list res" where
  "missing_tasks tasks =
     bindE (mapE (\<lambda>task. bindE (str_in task tasks) (\<lambda>b. Inr (if b then [] else [task]))) REQUIRED_TASKS) (\<lambda>ms. Inr (concat ms))"

definition tool_pin :: "json \<Rightarrow> string \<Rightarrow> string res" where
  "tool_pin tools name = bindE (attr_get_or tools name (JStr [])) (\<lambda>v. Inr (str_strip (json_str v)))"

definition rust_channel_of :: "toml_parser \<Rightarrow> env \<Rightarrow> string \<Rightarrow> json res" where
  "rust_channel_of toml w root_dir =
     bindE (read_toml toml w (path_join root_dir ''core/rust/rust-toolchain.toml'')) (\<lambda>d.
     bindE (attr_get_or d ''toolchain'' (JObj [])) (\<lambda>toolchain. attr_get toolchain ''channel''))"

definition toolchain_errors :: "toml_parser \<Rightarrow> env \<Rightarrow> string \<Rightarrow> string list res" where
  "toolchain_errors toml w root_dir =
     bindE (read_toml toml w (path_join root_dir ''mise.toml'')) (\<lambda>mise_data.
     bindE (attr_get_or mise_data ''tools'' (JObj [])) (\<lambda>tools.
     bindE (attr_get_or mise_data ''tasks'' (JObj [])) (\<lambda>tasks.
     bindE (rust_channel_of toml w root_dir) (\<lambda>rust_channel.
     bindE (tool_pin tools ''rust'') (\<lambda>mise_rust.
     bindE (tool_pin tools ''python'') (\<lambda>mise_python.
     bindE (python_versions w root_dir) (\<lambda>versions.
     bindE (missing_tasks tasks) (\<lambda>tasks_missing.
     Inr ((if \<not> truthy rust_channel \<or> \<not> py_eq (JStr mise_rust) rust_channel
           then [''Rust pin drift: rust-toolchain.toml='' @ json_repr rust_channel @ '' mise.toml='' @ str_repr mise_rust] else []) @
          (if mise_python \<noteq> ''3.11''
           then [''mise.toml [tools].python must be '' @ str_repr ''3.11'' @ '', got: '' @ str_repr mise_python] else []) @
          (if versions \<noteq> [''3.11'']
           then [''GitHub Python setup must stay on 3.11 across workflows/actions, got: '' @ strs_repr versions] else []) @
          (if tasks_missing \<noteq> [] then [''mise.toml missing required tasks: '' @ str_join '', '' tasks_missing] else []) @
          (if \<not> path_exists w (path_join root_dir ''scripts/bootstrap'') then [''scripts/bootstrap is missing''] else []))))))))))"

definition toolchain_main :: "toml_parser \<Rightarrow> env \<Rightarrow> string \<Rightarrow> (nat \<times> string list) res" where
  "toolchain_main toml w root_dir =
     (let verdict = pin_verdict ''toolchain bootstrap check failed:'' ''toolchain bootstrap check: OK'' in
      if \<not> path_exists w (path_join root_dir ''mise.toml'') then Inr (verdict [''mise.toml is missing''])
      else bindE (toolchain_errors toml w root_dir) (\<lambda>errors. Inr (verdict errors)))"

subsection \<open>The Node runtime\<close>

abbreviation digits1 :: "char regex" where "digits1 \<equiv> RPlus (RCls chr_is_ascii_digit)"

definition SEMVER_RE :: "char regex" where
  "SEMVER_RE = RSeqs [RBos, digits1, RLit ''.'', digits1, RLit ''.'', digits1, RDollar]"

definition DOCKER_ARG_RE :: matcher where
  "DOCKER_ARG_RE = capture (RSeqs [RBol, RLit ''ARG NODE_VERSION='']) (ends (RPlus (RCls (\<lambda>c. \<not> chr_is_space c)))) REol"

definition docker_pin :: "string \<Rightarrow> string option" where
  "docker_pin t = (case finds DOCKER_ARG_RE [] t of [] \<Rightarrow> None | v # _ \<Rightarrow> Some v)"

definition docker_errors :: "string \<Rightarrow> string option \<Rightarrow> string list" where
  "docker_errors nvmrc_value docker_value =
     (case docker_value of
        None \<Rightarrow> [''docker/grain-certify.Dockerfile missing ARG NODE_VERSION=<x.y.z>'']
      | Some v \<Rightarrow>
          (if \<not> re_fullmatch SEMVER_RE v
           then [''docker/grain-certify.Dockerfile must pin an exact Node patch version, got: '' @ str_repr v] else []) @
          (if v \<noteq> nvmrc_value
           then [''Node runtime pin drift: .nvmrc='' @ str_repr nvmrc_value @ '' docker/grain-certify.Dockerfile='' @ str_repr v] else []))"

definition mise_node_errors :: "toml_parser \<Rightarrow> env \<Rightarrow> string \<Rightarrow> string \<Rightarrow> string list res" where
  "mise_node_errors toml w root_dir nvmrc_value =
     (if \<not> path_exists w (path_join root_dir ''mise.toml'') then Inr [''mise.toml is missing'']
      else bindE (read_toml toml w (path_join root_dir ''mise.toml'')) (\<lambda>mise_data.
        bindE (attr_get_or mise_data ''tools'' (JObj [])) (\<lambda>tools.
        bindE (tool_pin tools ''node'') (\<lambda>mise_node.
        Inr (if \<not> re_fullmatch SEMVER_RE mise_node
             then [''mise.toml [tools].node must pin an exact Node patch version, got: '' @ str_repr mise_node]
             else if mise_node \<noteq> nvmrc_value
             then [''Node runtime pin drift: .nvmrc='' @ str_repr nvmrc_value @ '' mise.toml='' @ str_repr mise_node] else [])))))"

definition node_pin_main :: "toml_parser \<Rightarrow> env \<Rightarrow> string \<Rightarrow> (nat \<times> string list) res" where
  "node_pin_main toml w root_dir =
     bindE (read_text w (path_join root_dir ''.nvmrc'')) (\<lambda>nvmrc.
     let nvmrc_value = str_strip nvmrc in
     bindE (read_text w (path_join root_dir ''docker/grain-certify.Dockerfile'')) (\<lambda>docker_text.
     bindE (mise_node_errors toml w root_dir nvmrc_value) (\<lambda>mise_errors.
     Inr (pin_verdict ''node runtime pin check failed:'' (''node runtime pin check: OK ('' @ nvmrc_value @ '')'')
       ((if \<not> re_fullmatch SEMVER_RE nvmrc_value
         then [''.nvmrc must pin an exact Node patch version, got: '' @ str_repr nvmrc_value] else []) @
        docker_errors nvmrc_value (docker_pin docker_text) @ mise_errors)))))"

subsection \<open>Searching files for a pattern\<close>

definition SKIP_DIRS :: "string list" where
  "SKIP_DIRS = [''.build'', ''.gradle'', ''.git'', ''build'', ''dist'', ''node_modules'']"

text \<open>What \<open>os.walk\<close> sees of a directory: its directories and its files, by name.\<close>

datatype walk_dir = WalkDir "(string \<times> walk_dir) list" "string list"

fun walk_files :: "string \<Rightarrow> walk_dir \<Rightarrow> string list" where
  "walk_files p (WalkDir ds fs) =
     map (path_join p) fs @ concat (map (\<lambda>(n, d). if n \<in> set SKIP_DIRS then [] else walk_files (path_join p n) d) ds)"

text \<open>A path is a file, a directory or neither; a file whose text cannot be read is passed over; a pattern that
does not compile gives what is printed of the exception.\<close>

record search_host =
  sh_file :: "string \<Rightarrow> bool"
  sh_dir :: "string \<Rightarrow> walk_dir option"
  sh_text :: "string \<Rightarrow> string option"
  sh_compile :: "string \<Rightarrow> bool \<Rightarrow> string + (string \<Rightarrow> bool)"

definition iter_path :: "search_host \<Rightarrow> string \<Rightarrow> string list res" where
  "iter_path h p =
     (if sh_file h p then Inr [path_str p]
      else case sh_dir h p of None \<Rightarrow> Inl (FileNotFoundError p) | Some d \<Rightarrow> Inr (walk_files (path_str p) d))"

definition iter_files :: "search_host \<Rightarrow> string list \<Rightarrow> string list res" where
  "iter_files h paths = bindE (mapE (iter_path h) paths) (\<lambda>fs. Inr (concat fs))"

definition file_matches :: "search_host \<Rightarrow> (string \<Rightarrow> bool) \<Rightarrow> string \<Rightarrow> bool" where
  "file_matches h search p = (case sh_text h p of None \<Rightarrow> False | Some t \<Rightarrow> search t)"

text \<open>The exit code and the line printed, if any.\<close>

definition find_regex_main :: "search_host \<Rightarrow> bool \<Rightarrow> string \<Rightarrow> string list \<Rightarrow> nat \<times> string option" where
  "find_regex_main h ignore_case pattern paths =
     (case sh_compile h pattern ignore_case of
        Inl m \<Rightarrow> (3, Some (''find_regex_match: '' @ m))
      | Inr search \<Rightarrow>
          (case iter_files h paths of
             Inr fs \<Rightarrow> (if list_ex (file_matches h search) fs then 0 else 1, None)
           | Inl (FileNotFoundError p) \<Rightarrow> (2, Some (''find_regex_match: path not found: '' @ p))
           | Inl _ \<Rightarrow> (3, None)))"

subsection \<open>The digests of the inputs\<close>

text \<open>The bytes of a file, the digest and what \<open>node -v\<close> prints.\<close>

record inputs_host =
  ih_bytes :: "string \<Rightarrow> string option"
  ih_sha256 :: "string \<Rightarrow> string"
  ih_node :: "string res"

definition input_digest :: "inputs_host \<Rightarrow> string \<Rightarrow> string res" where
  "input_digest h p =
     (case ih_bytes h p of None \<Rightarrow> Inl (FileNotFoundError p) | Some b \<Rightarrow> Inr (sha256_of_chunks (ih_sha256 h) b))"

definition input_files :: "(string \<times> string) list" where
  "input_files =
     [(''rust_toolchain_toml_sha256'', ''core/rust/rust-toolchain.toml''), (''cargo_lock_sha256'', ''core/rust/Cargo.lock''),
      (''ts_core_node_package_lock_sha256'', ''core/ts/grain-ts-core/package-lock.json''),
      (''node_package_lock_sha256'', ''runner/typescript/package-lock.json''),
      (''sdk_node_package_lock_sha256'', ''core/ts/grain-sdk/package-lock.json'')]"

definition input_hashes :: "inputs_host \<Rightarrow> string \<Rightarrow> dict res" where
  "input_hashes h root_dir =
     bindE (ih_node h) (\<lambda>node.
     bindE (mapE (\<lambda>(key, p). bindE (input_digest h (path_join root_dir p)) (\<lambda>d. Inr (key, JStr d))) input_files) (\<lambda>data.
     Inr (data @ [(''node_version'', JStr (str_strip node))])))"

text \<open>The exit code, the file written and the line printed.\<close>

definition inputs_main :: "inputs_host \<Rightarrow> string \<Rightarrow> string \<Rightarrow> (nat \<times> (string \<times> string) \<times> string) res" where
  "inputs_main h root_dir out_arg =
     bindE (input_hashes h root_dir) (\<lambda>data.
     Inr (0, (path_str out_arg, dumps_ascii (JObj data) @ [newline]), ''Inputs hashes: OK''))"

subsection \<open>What the checks mean\<close>

text \<open>One version of Node: the exact one of \<open>.nvmrc\<close>, in the container and in the tool chain.\<close>

lemma node_pins_agree:
  assumes "node_pin_main toml w root_dir = Inr (0, out)"
  shows "\<exists>nvmrc docker_text mise_data tools v. re_fullmatch SEMVER_RE v \<and>
    file_text w (path_join root_dir ''.nvmrc'') = Some nvmrc \<and> str_strip nvmrc = v \<and>
    file_text w (path_join root_dir ''docker/grain-certify.Dockerfile'') = Some docker_text \<and> docker_pin docker_text = Some v \<and>
    read_toml toml w (path_join root_dir ''mise.toml'') = Inr mise_data \<and>
    attr_get_or mise_data ''tools'' (JObj []) = Inr tools \<and> tool_pin tools ''node'' = Inr v"
proof -
  from assms obtain nvmrc docker_text where texts: "file_text w (path_join root_dir ''.nvmrc'') = Some nvmrc"
      "file_text w (path_join root_dir ''docker/grain-certify.Dockerfile'') = Some docker_text"
      and exact: "re_fullmatch SEMVER_RE (str_strip nvmrc)"
      and docker: "docker_errors (str_strip nvmrc) (docker_pin docker_text) = []"
      and mise: "mise_node_errors toml w root_dir (str_strip nvmrc) = Inr []"
    by (auto simp: node_pin_main_def Let_def bindE_Inr read_text_Inr pin_verdict_def split: if_splits)
  from docker have "docker_pin docker_text = Some (str_strip nvmrc)"
    by (auto simp: docker_errors_def split: option.splits if_splits)
  moreover from mise obtain mise_data tools where "read_toml toml w (path_join root_dir ''mise.toml'') = Inr mise_data"
      "attr_get_or mise_data ''tools'' (JObj []) = Inr tools" "tool_pin tools ''node'' = Inr (str_strip nvmrc)"
    by (auto simp: mise_node_errors_def bindE_Inr split: if_splits)
  ultimately show ?thesis using texts exact by blast
qed

text \<open>The workflows set up exactly one version of Python.\<close>

lemma python_pinned:
  assumes "toolchain_main toml w root_dir = Inr (0, out)" and "p \<in> set (github_yaml_files w root_dir)" and "file_text w p = Some t"
  shows "set (finds PYTHON_VERSION_RE [] t) \<subseteq> {''3.11''}"
proof -
  from assms(1) have "python_versions w root_dir = Inr [''3.11'']"
    by (auto simp: toolchain_main_def toolchain_errors_def Let_def bindE_Inr pin_verdict_def split: if_splits)
  then obtain vs where vs: "mapE (\<lambda>p. bindE (read_text w p) (\<lambda>t. Inr (finds PYTHON_VERSION_RE [] t))) (github_yaml_files w root_dir) = Inr vs"
      "py_sorted (remdups (concat vs)) = [''3.11'']"
    by (auto simp: python_versions_def bindE_Inr)
  from vs(2) have "set (concat vs) = {''3.11''}" by (metis list.set(1) list.simps(15) set_py_sorted set_remdups)
  moreover have "finds PYTHON_VERSION_RE [] t \<in> set vs"
    using mapE_value [OF vs(1) assms(2)] assms(3) by (auto simp: bindE_Inr read_text_Inr)
  ultimately show ?thesis by auto
qed

text \<open>The exit codes 0 and 1 tell whether a file that can be read matches.\<close>

lemma find_regex_exit:
  assumes "sh_compile h pattern ignore_case = Inr search" and "iter_files h paths = Inr fs"
  shows "find_regex_main h ignore_case pattern paths =
    (if \<exists>p\<in>set fs. \<exists>t. sh_text h p = Some t \<and> search t then 0 else 1, None)"
  using assms by (auto simp: find_regex_main_def file_matches_def list_ex_iff split: option.splits)

text \<open>The digests are those of the whole files.\<close>

lemma input_hashes_exact:
  assumes "input_hashes h root_dir = Inr data" and "(key, p) \<in> set input_files"
  shows "\<exists>b. ih_bytes h (path_join root_dir p) = Some b \<and> (key, JStr (ih_sha256 h b)) \<in> set data"
proof -
  let ?f = "\<lambda>(key, p). bindE (input_digest h (path_join root_dir p)) (\<lambda>d. Inr (key, JStr d))"
  from assms(1) obtain vs node where vs: "mapE ?f input_files = Inr vs" "data = vs @ [(''node_version'', JStr (str_strip node))]"
    by (auto simp: input_hashes_def bindE_Inr)
  from vs(1) assms(2) obtain v where "v \<in> set vs" "?f (key, p) = Inr v"
    by (blast dest: mapE_value)
  then show ?thesis using vs(2) by (auto simp: bindE_Inr input_digest_def sha256_of_chunks_whole split: option.splits)
qed

end
