(* ===== verification/Spec2Isabelle.thy ===== *)
theory Spec2Isabelle
  imports CiScope CiGate VectorProps RcExit ClientFixtureProps FoodWallet FoodProfile DeviceAdapter
    FoodPilotReport ScannerFlow RegistryDryRun ClientCert SdkHandoffProps ReleaseEvidence
    HistoryProps SdkBuilderAccept EconomyPolicyProps AuditInvariants FullCiEnv PublicSdkApi ReleaseSmokeProps
    ForbiddenTracked SourceArchiveProps EvidenceHash InteropSummary
    BranchDrift TrustGovernance NpmDryRun DependabotProps SdkCompat DeveloperPlatform
    TelemetryGuard LlmDocs GitProvenance SourceGuards WorkflowPins RunnerContract RepoPolicies
    DocPolicies RuntimePins
begin

text \<open>
  A model of the Python tools of the grain protocol repository, and the theorems that make them
  correct.

  The repository holds a protocol specification, conformance vectors, reference implementations in
  Rust and TypeScript, client SDKs, and the Python scripts under \<open>tools\<close> that decide whether a
  change, a vector, a report or a release candidate is acceptable. The scripts are the gates of the
  project: a wrong verdict lets a broken candidate through, or a leak. They read JSON documents,
  files and command-line arguments, run the reference implementations as subprocesses, and answer
  with messages and an exit code.

  \<^bold>\<open>How Python is modelled.\<close>
  \<^item> \<open>Prelude\<close>: exceptions are values of \<open>exc\<close>, code that may raise returns \<open>'a res\<close> (\<open>Inl\<close> an
    exception, \<open>Inr\<close> a value); \<open>bindE\<close>, \<open>thenE\<close>, \<open>forE\<close>, \<open>foldE\<close> and \<open>mapE\<close> are sequencing, \<open>for\<close> loops and
    comprehensions; the collection \<open>res_simps\<close> turns acceptance into the conjunction of the tests
    on the path.
  \<^item> \<open>PyText\<close>, \<open>PyJson\<close>, \<open>PyRegex\<close>, \<open>Base64\<close>, \<open>JsonText\<close>: string methods over Latin-1 characters, JSON
    values with Python's truth, equality and membership, regular expressions with a backtracking
    matcher proved against their language, base64 decoding and \<open>json.dumps\<close>.
  \<^item> \<open>PyEnv\<close>: what a script reads (files, directories, the JSON parser) is one record \<open>env\<close>; \<open>PyHost\<close>: what
    a script does to the machine (subprocesses, files, clock, random bytes) are the fields of the
    record \<open>host\<close>, so every theorem holds for every behaviour of the machine.

  \<^bold>\<open>Parts of the program.\<close>
  \<^item> \<open>CiScope\<close> (\<open>tools/ci/classify_ci_scope.py\<close>) decides from the changed files of a pull request whether
    the full job graph must run; \<open>CiGate\<close> (\<open>tools/ci/evaluate_ci_gate.py\<close>) judges the results of the jobs
    given that decision. This theory composes the two.
  \<^item> \<open>VectorShape\<close>, \<open>VectorCheck\<close>, \<open>VectorProps\<close> (\<open>tools/validate_vectors.py\<close>): the shape of a conformance vector,
    the run over all vector files with its accumulated state \<open>vstate\<close> and the coverage check, and
    what a clean run means.
  \<^item> \<open>RcRunner\<close>, \<open>FuzzVector\<close>, \<open>RcCampaign\<close>, \<open>RcMain\<close>, \<open>RcVerdict\<close>, \<open>RcProps\<close>, \<open>RcMainProps\<close>, \<open>RcExit\<close>
    (\<open>tools/stabilization/run_rc_stab.py\<close>): invoking a runner with its fall-back and time-out, mutating the
    base64 fields of a seed vector, the attack matrix and the fuzz campaign, the property suites,
    the reproducibility check with its clean-up, the rollback rehearsal, the evidence and the exit
    code.
  \<^item> \<open>Checks\<close>: the vocabulary of the contract checkers; \<open>ClientFixtures\<close>, \<open>ClientFixtureProps\<close>, \<open>FoodWallet\<close>,
    \<open>FoodProfile\<close>, \<open>DeviceAdapter\<close> model the checkers of that name under \<open>tools/ci\<close>.
  \<^item> \<open>ReportScan\<close>: the walkers that the report checkers have copies of, as locales; \<open>FoodPilotReport\<close>,
    \<open>ScannerFlow\<close>, \<open>RegistryDryRun\<close>, \<open>ClientCert\<close> model the checkers of local reports and certificates and
    interpret the locales on their own walkers.
  \<^item> \<open>SdkRelease\<close>, \<open>SdkReleaseProps\<close> (\<open>tools/ci/check_sdk_release_package.py\<close>): the integrity of an SDK
    release directory; \<open>SdkHandoff\<close>, \<open>SdkHandoffProps\<close> (\<open>tools/ci/check_external_sdk_handoff.py\<close>): unpacking
    such a release into an application's vendor directory, over an explicit file system;
    \<open>ReleaseEvidence\<close> (\<open>tools/ci/check_release_evidence_assets.py\<close>): the archive of evidence of a release.
  \<^item> \<open>UniText\<close>, \<open>HistoryHygiene\<close>, \<open>HistoryProps\<close> (\<open>tools/ci/check_history_hygiene.py\<close>): the search for leaks in the
    tracked files and the whole history. It looks for Cyrillic letters, so its texts are lists of code
    points with UTF-8 decoding (\<open>UniText\<close>); the loop over the output of \<open>git cat-file --batch\<close> may not
    return in the model (\<open>partial_function\<close>), and is proved to.
  \<^item> \<open>SdkBuilder\<close>, \<open>SdkBuilderProps\<close>, \<open>SdkBuilderAccept\<close> (\<open>tools/ci/build_sdk_release_metadata.py\<close>): writes the
    manifest, SBOM and checksum file of a release directory. It shares the world \<open>renv\<close> with \<open>SdkRelease\<close>,
    and what it writes is what the checker accepts.
  \<^item> \<open>PyFind\<close>, \<open>EconomyPolicy\<close>, \<open>EconomyPolicyProps\<close> (\<open>tools/ci/check_ci_economy_policy.py\<close>): the policy over the
    workflow file, which ties the jobs of the workflow to the tables of \<open>CiGate\<close>. Its multi-line patterns
    are interpretations of the locale \<open>line_pattern\<close> of \<open>PyFind\<close>: what they find is what the lines say.
  \<^item> \<open>AuditInvariants\<close> (\<open>tools/ci/audit_invariants.py\<close>): which vectors and static checks cover each invariant;
    its reader is a fold over lines and is proved equal to reading the document by sections. \<open>FullCiEnv\<close>
    (\<open>tools/ci/check_full_ci_environment.py\<close>): the settings of the environment that authorizes the full CI.
  \<^item> \<open>PyMatch\<close>, \<open>PublicSdkApi\<close> (\<open>tools/ci/check_public_sdk_api.py\<close>): the snapshot of the public API against the
    sources of the SDKs. It builds a regular expression for each symbol; \<open>PyMatch\<close> takes a match apart.
  \<^item> \<open>ConsumerTemplates\<close>, \<open>ConsumerAccept\<close> (\<open>tools/ci/check_external_consumer_templates.py\<close>): unpacks a release into an
    empty external consumer, over the file system of \<open>SdkHandoff\<close>; what a success leaves behind, and that a
    complete release is unpacked without an error.
  \<^item> \<open>ReleaseSmoke\<close>, \<open>ReleaseSmokeProps\<close> (\<open>tools/ci/check_external_release_consumer_smoke.py\<close>): the template check
    followed by the tool chains on what it unpacked, over the same file system and a log of what was printed
    and run; no check is skipped silently.
  \<^item> \<open>PyGlob\<close>, \<open>ForbiddenTracked\<close> (\<open>tools/ci/check_forbidden_tracked.py\<close>): file name patterns with the rules of
    \<open>fnmatch\<close>, and the names that must not be tracked. \<open>SourceArchive\<close>, \<open>SourceArchiveProps\<close>
    (\<open>tools/ci/build_sdk_source_archive.py\<close>): the walk over a source tree, proved equal to a set of entries that
    does not depend on the order of the walk, so archives are reproducible and well formed.
  \<^item> \<open>EvidenceHash\<close> (\<open>tools/ci/compute_evidence_sha.py\<close>): the digest over the files of evidence, what it binds and
    what it does not. \<open>RunnerSuite\<close> (\<open>tools/ci/run_runner_suite.py\<close>): the runner on every vector, and that the
    summary says what the runner said. \<open>InteropSummary\<close> (\<open>tools/ci/build_interop_summary.py\<close>): the gates over those
    summaries and over the report of \<open>AuditInvariants\<close>; a certificate means that they had all passed.
  \<^item> \<open>BranchDrift\<close> (\<open>tools/ci/check_branch_protection_drift.py\<close>): the ruleset of the default branch against its expected
    settings; the last rule of a type counts. \<open>JsonCanon\<close>, \<open>TrustGovernance\<close>
    (\<open>tools/ci/check_trust_bundle_governance.py\<close>): the checksum over the anchors of a trust bundle. \<open>JsonCanon\<close> proves
    that the sorted compact text of a value without floats determines it, for any escaping that can be read back
    (the locale \<open>text_code\<close>, interpreted on the two escapings of \<open>json.dumps\<close>), so the checksum binds the anchors.
  \<^item> \<open>NpmDryRun\<close> (\<open>tools/ci/check_npm_release_dry_run.py\<close>): packages, fixture, trial pack and the copy of the consumer,
    over the file system and log of \<open>ReleaseSmoke\<close>, which runs this script; nothing is ever published.
  \<^item> \<open>DependabotPolicy\<close>, \<open>DependabotProps\<close> (\<open>tools/ci/check_dependabot_policy.py\<close>): the update entries and the workflows; what
    the patterns read is what the first line for a key says (\<open>scalar_key\<close>, which extends to \<open>line_pattern\<close>).
  \<^item> \<open>SdkCompat\<close> (\<open>tools/ci/check_sdk_compatibility_matrix.py\<close>): the combinations of versions that a matrix supports; for
    what \<open>SdkBuilder\<close> writes, acceptance is exactly an entry of the matrix with the versions of the sources.
  \<^item> \<open>DeveloperPlatform\<close> (\<open>tools/ci/check_repo_native_developer_platform.py\<close>): profiles, fixtures, lanes and security
    findings refer to files and vectors; every reference resolves.
  \<^item> \<open>TelemetryGuard\<close> (\<open>tools/ci/check_no_secret_telemetry.py\<close>): files about telemetry name no secret material.
    \<open>SourceGuards\<close> (\<open>check_sdk_no_network.py\<close>, \<open>check_sdk_secret_logging.py\<close>, \<open>check_sdk_trust_provider_boundary.py\<close>,
    \<open>check_capid_csprng.py\<close>, \<open>check_runner_shim_boundary.py\<close>): the loop over source trees as the locale \<open>source_guard\<close>,
    interpreted on the three guards that share it.
  \<^item> \<open>LlmDocs\<close> (\<open>tools/check_llm_docs.py\<close>), \<open>RunnerContract\<close> (\<open>check_runner_contract_compat.py\<close>,
    \<open>check_prohibition_coverage.py\<close>, \<open>generate_vector_manifest.py\<close>): documents, contract and vectors cover each other.
  \<^item> \<open>WorkflowPins\<close> (\<open>check_workflow_action_pinning.py\<close>): what the pattern reads in a line is proved equal to a direct
    reading, and every action used is pinned. \<open>GitProvenance\<close> (\<open>build_git_provenance.py\<close>): the snapshot of the tree.
  \<^item> \<open>RepoPolicies\<close>: the policies over single files and over two packages, with what a passing check means.
  \<^item> \<open>DocPolicies\<close> (\<open>check_maintainer_docs.py\<close>, \<open>check_real_app_docs.py\<close>, \<open>check_release_train_docs.py\<close>,
    \<open>check_docs_links.py\<close>, \<open>check_quickstart_smoke.py\<close>, \<open>check_sdk_ai_boundary.py\<close>): documents and imports; the loop over
    rules is the locale \<open>doc_guard\<close>. \<open>RuntimePins\<close> (\<open>check_toolchain_bootstrap.py\<close>, \<open>check_node_runtime_pin.py\<close>,
    \<open>find_regex_match.py\<close>, \<open>build_inputs_hashes.py\<close>): the pins of the tool chain, which one version agrees on, and
    helpers of the workflows.
  \<^bold>\<open>Interfaces.\<close> \<open>codec\<close> (Base64) is the round trip a mutated field relies on; \<open>path_store\<close> (FuzzVector) the
  law of reading back what was stored at a path; \<open>field_scan\<close> (Checks), \<open>claim_guard\<close> and \<open>field_guard\<close>
  (ReportScan) what the walkers guarantee; \<open>frame\<close> (SdkHandoffProps) a relation that every step of a run
  keeps; \<open>scan\<close> and \<open>scan_loop\<close> (HistoryProps) code that only adds findings;
  \<open>line_pattern\<close> and \<open>scalar_key\<close> (PyFind, DependabotProps) what a multi-line pattern reads; \<open>text_code\<close> (JsonCanon) an escaping that
  can be read back; \<open>source_guard\<close> and \<open>doc_guard\<close> the loops of guards over trees and rules. Each is interpreted on the code's own definitions, and
  the properties rest on the interpreted facts.

  \<^bold>\<open>What the theorems show.\<close> For the gates: the exact condition of success of each command line. For
  the campaign: the exit code is zero exactly if every gate of the mode holds, findings are exactly
  the cases with a bug verdict, clean-up never changes a verdict, temporary files are removed. For
  the validators: what an accepted vector, fixture, report or archive guarantees, and equivalence of
  the recursive walkers with a statement about all positions of a document. Where a checker does
  less than it means to, a theorem exhibits the input.

  \<^bold>\<open>Termination and bounds.\<close> All definitions but the object stream loop are total: loops over lists are
  structural, the tokenizers and the matcher have measures, no fuel is used. The stream loop is a partial
  function with a theorem that it returns. Integers are Python's unbounded \<open>int\<close>; the safe
  integer bound and the 64-bit bounds are tests of the code and are written out. Bytes are
  \<open>8 word\<close>.

  \<^bold>\<open>Not modelled.\<close> Argument parsing by \<open>argparse\<close> (the entry points take its result), the text of
  parser errors inside messages, characters beyond Latin-1, the iteration order of Python sets
  where it only decides which of several failures is reported first. Of the repository: the Rust,
  TypeScript, Swift and Kotlin code, which the scripts run as external programs, and the data and
  prose they read. Every Python script of the repository but the unit tests is modelled.
\<close>

subsection \<open>From the changed files to the jobs that ran\<close>

text \<open>C1: the classifier and the gate together: where the classification of a pull request is what the gate is
given, and some changed file, by its present or previous name, is outside the safe files and
directories, the gate is clean only if the approval and every job of the full graph succeeded.\<close>

theorem unsafe_change_runs_full_graph:
  assumes "classify ''pull_request'' payload n = Inr full" and "parse_jobs args = Inr jobs"
    and "evaluate ''pull_request'' full jobs = []"
    and "row \<in> set (payload_rows payload)" and "f \<in> set (row_names row)"
    and "f \<notin> set SAFE_FILES" and "\<not> (\<exists>p\<in>set SAFE_PREFIXES. prefix p f)"
  shows "jobs APPROVAL_JOB = Some ''success'' \<and> (\<forall>j\<in>set FULL_JOBS. jobs j = Some ''success'')"
proof -
  have full: full
    using assms(1,4-7) unfolding classify_pull_request requires_full_ci_iff by blast
  from assms(3) have "\<forall>(j, r)\<in>set (gate_table ''pull_request'' full). jobs j = Some r"
    unfolding evaluate_Nil by blast
  with full show ?thesis by (auto simp: gate_table_def Let_def)
qed

theorem unsafe_change_runs_full_graph_witness:
  "map_of (gate_table ''pull_request'' True) APPROVAL_JOB = Some ''success''"
proof -
  let ?table = "gate_table ''pull_request'' True"
  let ?payload = "JArr [JArr [JObj [(''filename'', JStr ''core/x.rs'')]]]"
  let ?row = "JObj [(''filename'', JStr ''core/x.rs'')]"
  have c: "classify ''pull_request'' ?payload None = Inr True" by code_simp
  have "job_args_ok ?table" by code_simp
  then have p: "parse_jobs (map job_arg ?table) = Inr (map_of ?table)"
    unfolding parse_jobs_Inr by blast
  have "distinct (map fst ?table)" by code_simp
  then have e: "evaluate ''pull_request'' True (map_of ?table) = []"
    unfolding evaluate_Nil by (auto simp: gate_event_ok_def)
  have row: "?row \<in> set (payload_rows ?payload)" "''core/x.rs'' \<in> set (row_names ?row)"
    by (simp_all add: payload_rows_def page_rows_def row_names_def dict_get_def)
  have unsafe: "''core/x.rs'' \<notin> set SAFE_FILES" "\<not> (\<exists>p\<in>set SAFE_PREFIXES. prefix p ''core/x.rs'')"
    by (simp_all add: SAFE_FILES_def SAFE_PREFIXES_def)
  from unsafe_change_runs_full_graph [OF c p e row unsafe] show ?thesis by blast
qed

end
